(* ===== verification/Prelude.thy ===== *)
theory Prelude
  imports Main "HOL-Library.Word" "HOL-Library.Monad_Syntax"
begin

unbundle bit_operations_syntax

text \<open>
  The vocabulary every component shares.

  \<^item> Machine integers are words of the width the C code gives them.
  \<^item> A C object that is addressed through a pointer is a list of bytes, \<open>mem\<close>; a pointer
    into it is an offset of type \<open>nat\<close>.  A load or a store outside the object has no
    defined meaning in C, so \<open>rd\<close>, \<open>wr\<close>, \<open>rd_bytes\<close> and \<open>blit\<close> return \<open>None\<close> there.
    Everywhere in the library \<open>None\<close> as the outermost result means
    exactly this: the C function has touched memory outside its object.  Error returns of the
    C functions (\<open>NULL\<close>, \<open>-1\<close>, \<open>-ERANGE\<close>) are ordinary values inside \<open>Some\<close>.
  \<^item> \<open>size_t\<close> is a \<open>nat\<close> whose subtraction wraps at \<open>2 ^ 64\<close> (\<open>size_sub\<close>).  Sums of
    offsets cannot wrap, because every offset is at most a few hundred bytes past a byte that has
    just been loaded from the object.
  \<^item> \<open>wp\<close> is the weakest precondition of a computation that may fault: it returns and
    its result satisfies the postcondition.  The rules collected in \<open>wp_rules\<close> reduce a
    \<open>wp\<close> goal over a program text to conditions on offsets.
\<close>

type_synonym u8 = "8 word"
type_synonym u16 = "16 word"
type_synonym u32 = "32 word"
type_synonym u64 = "64 word"
type_synonym mem = "u8 list"

named_theorems wp_rules \<open>weakest precondition rules for computations that may fault\<close>
named_theorems mem_simps \<open>loads after stores\<close>

section \<open>Bytes and multi-byte values\<close>

definition be16 :: "u8 \<Rightarrow> u8 \<Rightarrow> u16" where
  "be16 a b = push_bit 8 (ucast a) OR ucast b"

definition be32 :: "u8 \<Rightarrow> u8 \<Rightarrow> u8 \<Rightarrow> u8 \<Rightarrow> u32" where
  "be32 a b c d = push_bit 24 (ucast a) OR push_bit 16 (ucast b) OR push_bit 8 (ucast c) OR ucast d"

lemma bit_byteD [dest]: "bit (w :: u8) n \<Longrightarrow> n < 8"
  using bit_imp_le_length [of w n] by simp

lemma ucast_be16 [simp]: "(ucast (be16 a b) :: u8) = b"
  unfolding be16_def by (rule bit_word_eqI) (auto simp: bit_simps)

lemma ucast_drop_be16 [simp]: "(ucast (drop_bit 8 (be16 a b)) :: u8) = a"
  unfolding be16_def by (rule bit_word_eqI) (auto simp: bit_simps)

lemma unat_be16: "unat (be16 a b) = 256 * unat a + unat b"
proof -
  have "be16 a b = push_bit 8 (ucast a) + ucast b"
    unfolding be16_def by (rule disjunctive_add [symmetric]) (auto simp: bit_simps)
  moreover have "unat a < 256" "unat b < 256"
    using unsigned_less [of a] unsigned_less [of b] by simp_all
  ultimately show ?thesis
    by (simp add: push_bit_eq_mult unat_word_ariths unsigned_ucast_eq take_bit_eq_mod)
qed

lemma unat_be16_lt: "unat (be16 a b) < 65536"
  using unsigned_less [of "be16 a b"] by simp

lemma unat_byte_lt: "unat (b :: u8) < 256"
  using unsigned_less [of b] by simp

lemma unat_of_nat_u8: "n < 256 \<Longrightarrow> unat (of_nat n :: u8) = n"
  by (simp add: unsigned_of_nat take_bit_nat_eq_self)

lemma unat_of_nat_u16: "n < 65536 \<Longrightarrow> unat (of_nat n :: u16) = n"
  by (simp add: unsigned_of_nat take_bit_nat_eq_self)

text \<open>A word is decomposed into its bytes and put together again.\<close>

lemma be16_split: "be16 (ucast (drop_bit 8 v)) (ucast v) = v"
  unfolding be16_def by (rule bit_word_eqI) (auto simp: bit_simps)

lemma be32_bytes [simp]:
  "(ucast (be32 a b c d) :: u8) = d"
  "(ucast (drop_bit 8 (be32 a b c d)) :: u8) = c"
  "(ucast (drop_bit 16 (be32 a b c d)) :: u8) = b"
  "(ucast (drop_bit 24 (be32 a b c d)) :: u8) = a"
  unfolding be32_def by (rule bit_word_eqI; auto simp: bit_simps)+

lemma be32_split:
  "be32 (ucast (drop_bit 24 v)) (ucast (drop_bit 16 v)) (ucast (drop_bit 8 v)) (ucast v) = v"
proof (rule bit_word_eqI)
  fix n
  assume "n < LENGTH(32)"
  then show "bit (be32 (ucast (drop_bit 24 v)) (ucast (drop_bit 16 v)) (ucast (drop_bit 8 v)) (ucast v)) n
      = bit v n"
    unfolding be32_def
    by (cases "n < 8"; cases "n < 16"; cases "n < 24") (auto simp: bit_simps)
qed

lemma be16_of_int: "0 \<le> m \<Longrightarrow> m < 65536 \<Longrightarrow> int (unat (be16 (of_int (m div 256)) (of_int m))) = m"
proof -
  assume m: "0 \<le> m" "m < 65536"
  have "unat (of_int m :: u8) = nat (m mod 256)" "unat (of_int (m div 256) :: u8) = nat (m div 256 mod 256)"
    by (simp_all add: unat_eq_nat_uint take_bit_eq_mod uint_word_of_int_eq)
  moreover have "m div 256 mod 256 = m div 256" using m zdiv_mono1 [of m 65535 256]
    by (intro mod_pos_pos_trivial) (simp_all add: pos_imp_zdiv_nonneg_iff)
  ultimately show ?thesis using m by (simp add: unat_be16 pos_imp_zdiv_nonneg_iff)
qed

section \<open>\<open>size_t\<close>\<close>

definition size_sub :: "nat \<Rightarrow> nat \<Rightarrow> nat" where
  "size_sub a b = (if b \<le> a then a - b else a + 2 ^ 64 - b)"

lemma size_sub_le [simp]: "b \<le> a \<Longrightarrow> size_sub a b = a - b"
  by (simp add: size_sub_def)

lemma size_sub_wraps: "a < b \<Longrightarrow> b \<le> 2 ^ 32 \<Longrightarrow> 2 ^ 32 \<le> size_sub a b"
  by (simp add: size_sub_def)

section \<open>Loads and stores\<close>

definition rd :: "mem \<Rightarrow> nat \<Rightarrow> u8 option" where
  "rd m p = (if p < length m then Some (m ! p) else None)"

definition wr :: "mem \<Rightarrow> nat \<Rightarrow> u8 \<Rightarrow> mem option" where
  "wr m p v = (if p < length m then Some (m[p := v]) else None)"

definition rd_bytes :: "mem \<Rightarrow> nat \<Rightarrow> nat \<Rightarrow> u8 list option" where
  "rd_bytes m p n = (if p + n \<le> length m then Some (take n (drop p m)) else None)"

definition blit :: "mem \<Rightarrow> nat \<Rightarrow> u8 list \<Rightarrow> mem option" where
  "blit m p xs =
     (if p + length xs \<le> length m
      then Some (take p m @ xs @ drop (p + length xs) m) else None)"

lemma rd_Some [simp]: "p < length m \<Longrightarrow> rd m p = Some (m ! p)"
  by (simp add: rd_def)

lemma rd_eq_Some_iff: "rd m p = Some v \<longleftrightarrow> p < length m \<and> v = m ! p"
  by (auto simp: rd_def)

lemma rd_None_iff: "rd m p = None \<longleftrightarrow> length m \<le> p"
  by (simp add: rd_def not_less)

lemma wr_Some [simp]: "p < length m \<Longrightarrow> wr m p v = Some (m[p := v])"
  by (simp add: wr_def)

lemma wr_eq_Some_iff: "wr m p v = Some m' \<longleftrightarrow> p < length m \<and> m' = m[p := v]"
  by (auto simp: wr_def)

lemma blit_Some [simp]:
  "p + length xs \<le> length m \<Longrightarrow> blit m p xs = Some (take p m @ xs @ drop (p + length xs) m)"
  by (simp add: blit_def)

lemma blit_eq_Some_iff:
  "blit m p xs = Some m' \<longleftrightarrow>
     p + length xs \<le> length m \<and> m' = take p m @ xs @ drop (p + length xs) m"
  by (auto simp: blit_def)

lemma length_blit: "blit m p xs = Some m' \<Longrightarrow> length m' = length m"
  by (auto simp: blit_eq_Some_iff)

section \<open>Weakest preconditions\<close>

definition wp :: "'a option \<Rightarrow> ('a \<Rightarrow> bool) \<Rightarrow> bool" where
  "wp f Q \<longleftrightarrow> (\<exists>r. f = Some r \<and> Q r)"

lemma wp_Some [wp_rules]: "wp (Some x) Q \<longleftrightarrow> Q x"
  by (simp add: wp_def)

lemma wp_None [simp]: "\<not> wp None Q"
  by (simp add: wp_def)

lemma wp_bind [wp_rules]: "wp (Option.bind f g) Q \<longleftrightarrow> wp f (\<lambda>x. wp (g x) Q)"
  by (auto simp: wp_def split: Option.bind_splits)

lemma wp_rd [wp_rules]: "wp (rd m p) Q \<longleftrightarrow> p < length m \<and> Q (m ! p)"
  by (auto simp: wp_def rd_def)

lemma wp_wr [wp_rules]: "wp (wr m p v) Q \<longleftrightarrow> p < length m \<and> Q (m[p := v])"
  by (auto simp: wp_def wr_def)

lemma wp_if [wp_rules]: "wp (if b then f else g) Q \<longleftrightarrow> (if b then wp f Q else wp g Q)"
  by simp

lemma wp_mono: "wp f P \<Longrightarrow> (\<And>x. P x \<Longrightarrow> Q x) \<Longrightarrow> wp f Q"
  by (auto simp: wp_def)

lemma wp_iff_case: "wp f Q \<longleftrightarrow> (case f of None \<Rightarrow> False | Some r \<Rightarrow> Q r)"
  by (simp add: wp_def split: option.split)

lemma wp_SomeI: "Q x \<Longrightarrow> wp (Some x) Q"
  by (simp add: wp_Some)

lemma wp_ifI: "(b \<Longrightarrow> wp f Q) \<Longrightarrow> (\<not> b \<Longrightarrow> wp g Q) \<Longrightarrow> wp (if b then f else g) Q"
  by simp

lemma wp_conj: "wp f P \<Longrightarrow> wp f Q \<Longrightarrow> wp f (\<lambda>x. P x \<and> Q x)"
  by (auto simp: wp_def)

lemma wp_not_None: "wp f Q \<Longrightarrow> f \<noteq> None"
  by (auto simp: wp_def)

lemma wp_SomeD: "wp f Q \<Longrightarrow> f = Some r \<Longrightarrow> Q r"
  by (simp add: wp_def)

section \<open>Lists\<close>

lemma drop_eq_nth_Cons: "p < length m \<Longrightarrow> drop p m = m ! p # drop (Suc p) m"
  by (simp add: Cons_nth_drop_Suc)

lemma list_update_swap_twice:
  "xs[i := a, j := b, i := xs ! i, j := xs ! j] = xs"
proof (rule nth_equalityI)
  fix k
  assume "k < length (xs[i := a, j := b, i := xs ! i, j := xs ! j])"
  then show "xs[i := a, j := b, i := xs ! i, j := xs ! j] ! k = xs ! k"
    by (cases "k = j"; cases "k = i") simp_all
qed simp

end
