(* ===== verification/Section_Buf.thy ===== *)
theory Section_Buf
  imports Prelude
begin

text \<open>
  \<open>lib/libucsi/section_buf.c\<close> and \<open>section_buf.h\<close>: reassembly of sections out of
  fragments and out of transport packet payloads.

  The record \<open>section_buf\<close> is the C structure together with the \<open>max\<close> bytes that
  follow it in memory (\<open>data\<close>).  A fragment is a byte list; its length is the parameter
  \<open>len\<close> of the C function.  Every function returns the new buffer, the return value and
  the value of \<open>*section_status\<close>.  The fields are unsigned 32-bit counters; \<open>sb_inv\<close> bounds
  them far below \<open>2 ^ 31\<close>, so that the mixed signed and unsigned arithmetic of the code is exact, and
  differences are formed in \<open>int\<close>.
\<close>

definition SECTION_HDR_SIZE :: nat where
  "SECTION_HDR_SIZE = 3"

definition SECTION_PAD :: u8 where
  "SECTION_PAD = 0xff"

definition EINVAL :: int where
  "EINVAL = 22"

definition ERANGE :: int where
  "ERANGE = 34"

record section_buf =
  sb_max :: nat
  sb_count :: nat
  sb_len :: nat
  sb_header :: bool
  sb_wait_pdu :: bool
  sb_data :: mem

text \<open>\<open>memset\<close> clears the structure only, not the data behind it.\<close>

definition section_buf_init :: "section_buf \<Rightarrow> int \<Rightarrow> section_buf \<times> int" where
  "section_buf_init section mx =
     (if mx < int SECTION_HDR_SIZE then (section, - EINVAL)
      else (section\<lparr>sb_max := nat mx, sb_count := 0, sb_len := SECTION_HDR_SIZE,
                    sb_header := False, sb_wait_pdu := True\<rparr>, 0))"

definition section_buf_reset :: "section_buf \<Rightarrow> section_buf" where
  "section_buf_reset section =
     (let tmp = sb_wait_pdu section;
          section = fst (section_buf_init section (int (sb_max section)))
      in section\<lparr>sb_wait_pdu := tmp\<rparr>)"

definition section_buf_remaining :: "section_buf \<Rightarrow> int" where
  "section_buf_remaining section = int (sb_len section) - int (sb_count section)"

definition section_buf_data :: "section_buf \<Rightarrow> mem" where
  "section_buf_data section = sb_data section"

text \<open>The \<open>while\<close> loop that skips padding: the rest of the fragment and the bytes skipped.\<close>

fun skip_pad :: "u8 list \<Rightarrow> u8 list \<times> nat" where
  "skip_pad [] = ([], 0)"
| "skip_pad (b # bs) = (if b = SECTION_PAD then let (r, n) = skip_pad bs in (r, n + 1) else (b # bs, 0))"

text \<open>\<open>memcpy(pos, frag, copy)\<close> with \<open>copy\<close> limited to the fragment, and \<open>count += copy\<close>.\<close>

definition sb_copy :: "section_buf \<Rightarrow> u8 list \<Rightarrow> int \<Rightarrow> (section_buf \<times> nat) option" where
  "sb_copy section frag want =
     (let copy = (if want > int (length frag) then int (length frag) else want) in
      if copy < 0 then None
      else do { d \<leftarrow> blit (sb_data section) (sb_count section) (take (nat copy) frag);
                Some (section\<lparr>sb_data := d, sb_count := sb_count section + nat copy\<rparr>, nat copy) })"

definition sb_accumulate :: "section_buf \<Rightarrow> u8 list \<Rightarrow> nat \<Rightarrow> (section_buf \<times> nat \<times> int) option" where
  "sb_accumulate section frag used =
     do { (section, n) \<leftarrow> sb_copy section frag (int (sb_len section) - int (sb_count section));
          Some (section, used + n,
                if sb_header section \<and> sb_len section = sb_count section then 1 else 0) }"

text \<open>The part that grabs the header to get the section length, and falls through to the copy.\<close>

definition sb_grab :: "section_buf \<Rightarrow> u8 list \<Rightarrow> nat \<Rightarrow> (section_buf \<times> nat \<times> int) option" where
  "sb_grab section frag used =
     (if \<not> sb_header section then do {
        (section, n) \<leftarrow> sb_copy section frag (int SECTION_HDR_SIZE - int (sb_count section));
        let frag = drop n frag;
        let used = used + n;
        if sb_count section \<noteq> SECTION_HDR_SIZE then Some (section, used, 0)
        else do {
          d1 \<leftarrow> rd (sb_data section) 1;
          d2 \<leftarrow> rd (sb_data section) 2;
          let section = section\<lparr>sb_len := SECTION_HDR_SIZE + unat (be16 (d1 AND 0x0f) d2)\<rparr>;
          if sb_len section > sb_max section then Some (section, length frag + used, - ERANGE)
          else sb_accumulate (section\<lparr>sb_header := True\<rparr>) frag used } }
      else sb_accumulate section frag used)"

definition section_buf_add :: "section_buf \<Rightarrow> u8 list \<Rightarrow> (section_buf \<times> nat \<times> int) option" where
  "section_buf_add section frag =
     (if sb_header section \<and> sb_len section = sb_count section then Some (section, 0, 1)
      else let (frag, used) = (if sb_count section = 0 then skip_pad frag else (frag, 0)) in
        if sb_count section = 0 \<and> frag = [] then Some (section, used, 0)
        else sb_grab section frag used)"

text \<open>The end of \<open>section_buf_add_transport_payload\<close>: accumulate the data as normal.\<close>

definition payload_rest :: "section_buf \<Rightarrow> u8 list \<Rightarrow> nat \<Rightarrow> (section_buf \<times> nat \<times> int) option" where
  "payload_rest section payload used =
     do { (section, tmp, st) \<leftarrow> section_buf_add section (drop used payload);
          Some (if st < 0 then section\<lparr>sb_wait_pdu := True\<rparr> else section, used + tmp, st) }"

definition section_buf_add_transport_payload ::
  "section_buf \<Rightarrow> u8 list \<Rightarrow> bool \<Rightarrow> (section_buf \<times> nat \<times> int) option" where
  "section_buf_add_transport_payload section payload pdu_start =
     (if sb_header section \<and> sb_len section = sb_count section then Some (section, 0, 1)
      else if sb_wait_pdu section \<and> \<not> pdu_start then Some (section, length payload, 0)
      else if pdu_start then do {
        let section = section\<lparr>sb_wait_pdu := False\<rparr>;
        b \<leftarrow> rd payload 0;
        let offset = unat b;
        if offset + 1 > length payload
        then Some (section\<lparr>sb_wait_pdu := True\<rparr>, length payload, - EINVAL)
        else if sb_count section \<noteq> 0 then do {
          (section, tmp, st) \<leftarrow> section_buf_add section (take offset (drop 1 payload));
          if tmp \<noteq> offset \<or> section_buf_remaining section \<noteq> 0 \<or> st \<noteq> 1
          then Some (section\<lparr>sb_wait_pdu := True\<rparr>, 1 + tmp, - ERANGE)
          else Some (section, 1 + tmp, st) }
        else payload_rest section payload (1 + offset) }
      else payload_rest section payload 0)"

section \<open>The invariant and the abstract buffer\<close>

text \<open>
  The data area has \<open>max\<close> bytes.  The header flag is set exactly when three bytes have been
  stored and the length they announce fits; then no more than that has been stored.
\<close>

definition hdr_len :: "mem \<Rightarrow> nat" where
  "hdr_len d = 3 + unat (be16 (d ! 1 AND 0x0f) (d ! 2))"

definition sb_inv :: "section_buf \<Rightarrow> bool" where
  "sb_inv s \<longleftrightarrow>
     length (sb_data s) = sb_max s \<and> 3 \<le> sb_max s \<and>
     (sb_header s \<longleftrightarrow> 3 \<le> sb_count s \<and> hdr_len (sb_data s) \<le> sb_max s) \<and>
     (if sb_header s then sb_len s = hdr_len (sb_data s) \<and> sb_count s \<le> sb_len s
      else sb_count s \<le> 3)"

text \<open>The abstract buffer is just the list of section bytes stored so far.\<close>

definition sb_abs :: "section_buf \<Rightarrow> u8 list" where
  "sb_abs s = take (sb_count s) (sb_data s)"

definition abs_complete :: "nat \<Rightarrow> u8 list \<Rightarrow> bool" where
  "abs_complete mx c \<longleftrightarrow> 3 \<le> length c \<and> hdr_len c \<le> mx \<and> length c = hdr_len c"

definition abs_add :: "nat \<Rightarrow> u8 list \<Rightarrow> u8 list \<Rightarrow> u8 list \<times> nat \<times> int" where
  "abs_add mx c frag =
     (if abs_complete mx c then (c, 0, 1)
      else let (f, k) = (if c = [] then skip_pad frag else (frag, 0));
               h = c @ take (3 - length c) f
           in if length h < 3 then (h, length frag, 0)
              else if hdr_len h > mx then (h, length frag, - ERANGE)
              else let r = c @ take (hdr_len h - length c) f
                   in (r, k + (length r - length c), if length r = hdr_len h then 1 else 0))"

lemma skip_pad_length: "skip_pad xs = (r, n) \<Longrightarrow> length xs = length r + n"
  by (induction xs arbitrary: r n) (auto split: if_splits prod.splits)

lemma skip_pad_drop: "skip_pad xs = (r, n) \<Longrightarrow> r = drop n xs"
  by (induction xs arbitrary: r n) (auto split: if_splits prod.splits)

lemma skip_pad_app:
  "xs \<noteq> [] \<Longrightarrow> hd xs \<noteq> SECTION_PAD \<Longrightarrow> skip_pad (replicate k SECTION_PAD @ xs) = (xs, k)"
  by (induction k) (auto simp: neq_Nil_conv)

lemma hdr_len_bounds: "3 \<le> hdr_len d" "hdr_len d \<le> 4098"
proof -
  have "unat (d ! 1 AND 0x0f) \<le> 15"
    using word_and_le1 [of "d ! 1" "0x0f"] by (simp add: word_le_nat_alt)
  with unat_byte_lt [of "d ! 2"] show "hdr_len d \<le> 4098" by (simp add: hdr_len_def unat_be16)
qed (simp add: hdr_len_def)

lemma hdr_len_take: "3 \<le> n \<Longrightarrow> hdr_len (take n d) = hdr_len d"
  by (simp add: hdr_len_def)

lemma hdr_len_append: "3 \<le> length c \<Longrightarrow> hdr_len (c @ xs) = hdr_len c"
  by (simp add: hdr_len_def nth_append)

lemma length_sb_abs: "sb_inv s \<Longrightarrow> length (sb_abs s) = sb_count s"
  by (auto simp: sb_inv_def sb_abs_def split: if_splits)

lemma sb_complete_iff:
  "sb_inv s \<Longrightarrow> sb_header s \<and> sb_len s = sb_count s \<longleftrightarrow> abs_complete (sb_max s) (sb_abs s)"
  by (auto simp: sb_inv_def abs_complete_def sb_abs_def hdr_len_take split: if_splits)

lemma take_min_length: "take (min n (length xs)) xs = take n xs"
  by (simp add: min_def)

lemma sb_copy_eq:
  assumes "0 \<le> want" "n = min (nat want) (length f)" "sb_count s + n \<le> length (sb_data s)"
  shows "\<exists>d. sb_copy s f want = Some (s\<lparr>sb_data := d, sb_count := sb_count s + n\<rparr>, n)
           \<and> length d = length (sb_data s)
           \<and> take (sb_count s + n) d = take (sb_count s) (sb_data s) @ take n f"
proof -
  have c: "nat (if want > int (length f) then int (length f) else want) = n"
    using assms(1,2) by auto
  have n: "length (take n f) = n" using assms(2) by simp
  show ?thesis
    using assms(1,3) n by (auto simp: sb_copy_def Let_def c)
qed

lemma sb_accumulate_eq:
  assumes inv: "sb_inv s" and hdr: "sb_header s"
  shows "\<exists>s'. sb_accumulate s f used = Some (s', used + min (sb_len s - sb_count s) (length f),
               if sb_count s + length f \<ge> sb_len s then 1 else 0)
     \<and> sb_inv s' \<and> sb_abs s' = sb_abs s @ take (sb_len s - sb_count s) f
     \<and> sb_max s' = sb_max s \<and> sb_wait_pdu s' = sb_wait_pdu s \<and> sb_len s' = sb_len s"
proof -
  define n where "n = min (sb_len s - sb_count s) (length f)"
  have b: "sb_count s \<le> sb_len s" "sb_len s \<le> length (sb_data s)" "3 \<le> sb_count s"
    "sb_len s = hdr_len (sb_data s)"
    using inv hdr by (auto simp: sb_inv_def)
  have nw: "n = min (nat (int (sb_len s) - int (sb_count s))) (length f)"
    "sb_count s + n \<le> length (sb_data s)"
    using b(1,2) by (auto simp: n_def nat_diff_distrib)
  obtain d where d: "sb_copy s f (int (sb_len s) - int (sb_count s))
        = Some (s\<lparr>sb_data := d, sb_count := sb_count s + n\<rparr>, n)"
      "length d = length (sb_data s)" "take (sb_count s + n) d = take (sb_count s) (sb_data s) @ take n f"
    using sb_copy_eq [of "int (sb_len s) - int (sb_count s)" n f s] nw b(1) by auto
  have "take (sb_count s) d = take (sb_count s) (sb_data s)"
    using arg_cong [OF d(3), of "take (sb_count s)"] b by simp
  then have "hdr_len d = hdr_len (sb_data s)"
    using hdr_len_take [OF b(3), of d] hdr_len_take [OF b(3), of "sb_data s"] by simp
  then show ?thesis
    using inv hdr b d by (auto simp: sb_accumulate_def sb_inv_def sb_abs_def n_def min_def)
qed

text \<open>Filling the header, before the length is known.\<close>

lemma sb_fill_header:
  assumes inv: "sb_inv s" and hdr: "\<not> sb_header s"
  shows "\<exists>s'. sb_copy s f (int SECTION_HDR_SIZE - int (sb_count s)) = Some (s', min (3 - sb_count s) (length f))
     \<and> sb_abs s' = sb_abs s @ take (3 - sb_count s) f \<and> length (sb_data s') = sb_max s'
     \<and> sb_count s' = sb_count s + min (3 - sb_count s) (length f)
     \<and> sb_max s' = sb_max s \<and> sb_wait_pdu s' = sb_wait_pdu s \<and> \<not> sb_header s'"
proof -
  define n where "n = min (3 - sb_count s) (length f)"
  have b: "sb_count s \<le> 3" "length (sb_data s) = sb_max s" "3 \<le> sb_max s"
    using inv hdr by (auto simp: sb_inv_def split: if_splits)
  have nw: "n = min (nat (int SECTION_HDR_SIZE - int (sb_count s))) (length f)"
    "sb_count s + n \<le> length (sb_data s)"
    using b by (auto simp: n_def SECTION_HDR_SIZE_def)
  have "0 \<le> int SECTION_HDR_SIZE - int (sb_count s)"
    using b by (simp add: SECTION_HDR_SIZE_def)
  from sb_copy_eq [OF this nw] show ?thesis
    using b hdr by (auto simp: sb_abs_def n_def take_min_length)
qed

lemma abs_add_body:
  assumes "\<not> abs_complete mx c" "3 \<le> length c" "hdr_len c \<le> mx" "length c \<le> hdr_len c"
  shows "abs_add mx c f = (c @ take (hdr_len c - length c) f, min (hdr_len c - length c) (length f),
           if length c + length f \<ge> hdr_len c then 1 else 0)"
proof -
  have "c \<noteq> []" "take (3 - length c) f = []" using assms(2) by auto
  with assms show ?thesis by (auto simp: abs_add_def min_def)
qed

lemma abs_add_header:
  assumes "\<not> abs_complete mx c" "length c \<le> 3" "length c = 3 \<longrightarrow> mx < hdr_len c"
    and g: "(if c = [] then skip_pad f else (f, 0)) = (g, k)" and h: "h = c @ take (3 - length c) g"
  shows "abs_add mx c f =
    (if length h < 3 then (h, length f, 0)
     else if mx < hdr_len h then (h, length f, - ERANGE)
     else (h @ take (hdr_len h - 3) (drop (3 - length c) g),
           k + (3 - length c) + min (hdr_len h - 3) (length g - (3 - length c)),
           if hdr_len h \<le> length c + length g then 1 else 0))"
proof (cases "length h < 3 \<or> mx < hdr_len h")
  case True
  with assms show ?thesis by (auto simp: abs_add_def Let_def)
next
  case False
  then have lg: "3 - length c \<le> length g" "length h = 3" using h assms(2) by auto
  have "take (hdr_len h - length c) g = take (3 - length c) g @ take (hdr_len h - 3) (drop (3 - length c) g)"
    using take_add [of "3 - length c" "hdr_len h - 3" g] hdr_len_bounds(1) [of h] assms(2) by simp
  then have r: "c @ take (hdr_len h - length c) g = h @ take (hdr_len h - 3) (drop (3 - length c) g)"
    by (simp add: h)
  have "length (h @ take (hdr_len h - 3) (drop (3 - length c) g)) - length c
      = (3 - length c) + min (hdr_len h - 3) (length g - (3 - length c))"
    using lg assms(2) by simp
  moreover have "length (h @ take (hdr_len h - 3) (drop (3 - length c) g)) = hdr_len h
      \<longleftrightarrow> hdr_len h \<le> length c + length g"
    using lg assms(2) hdr_len_bounds(1) [of h] by (auto simp: min_def)
  ultimately show ?thesis
    using False assms(1) g unfolding abs_add_def h [symmetric] Let_def
    by (simp add: h [symmetric] r del: length_append)
qed

lemma sb_grab_eq:
  assumes inv: "sb_inv s" and hdr: "\<not> sb_header s" and h: "h = sb_abs s @ take (3 - sb_count s) g"
  shows "\<exists>s'. sb_grab s g k = Some (s',
      if length h < 3 \<or> sb_max s < hdr_len h then k + length g
      else k + (3 - sb_count s) + min (hdr_len h - 3) (length g - (3 - sb_count s)),
      if length h < 3 then 0 else if sb_max s < hdr_len h then - ERANGE
      else if hdr_len h \<le> sb_count s + length g then 1 else 0)
    \<and> sb_abs s' = (if length h < 3 \<or> sb_max s < hdr_len h then h
         else h @ take (hdr_len h - 3) (drop (3 - sb_count s) g))
    \<and> sb_inv s' \<and> sb_max s' = sb_max s \<and> sb_wait_pdu s' = sb_wait_pdu s"
proof -
  obtain s1 where s1: "sb_copy s g (int SECTION_HDR_SIZE - int (sb_count s)) = Some (s1, min (3 - sb_count s) (length g))"
      "sb_abs s1 = h" "length (sb_data s1) = sb_max s1" "sb_count s1 = sb_count s + min (3 - sb_count s) (length g)"
      "sb_max s1 = sb_max s" "sb_wait_pdu s1 = sb_wait_pdu s" "\<not> sb_header s1"
    using sb_fill_header [OF inv hdr, of g] unfolding h by blast
  have c: "sb_count s \<le> 3" "3 \<le> sb_max s"
    using inv hdr by (auto simp: sb_inv_def split: if_splits)
  have lh: "length h = sb_count s1"
    unfolding h using length_sb_abs [OF inv] s1(4) by simp
  show ?thesis
  proof (cases "length h < 3")
    case True
    then have "sb_inv s1" using s1 c lh by (auto simp: sb_inv_def)
    with True s1 lh hdr show ?thesis
      by (auto simp: sb_grab_def SECTION_HDR_SIZE_def min_def split: if_splits)
  next
    case False
    then have c3: "sb_count s1 = 3" and mn: "min (3 - sb_count s) (length g) = 3 - sb_count s"
      using lh s1(4) c by auto
    have hl: "hdr_len (sb_data s1) = hdr_len h"
      using hdr_len_take [of 3 "sb_data s1"] s1(2) c3 by (simp add: sb_abs_def)
    have hl': "3 + unat (be16 (sb_data s1 ! Suc 0 AND 15) (sb_data s1 ! 2)) = hdr_len h"
      using hl by (simp add: hdr_len_def [of "sb_data s1"])
    have rds: "rd (sb_data s1) 1 = Some (sb_data s1 ! 1)" "rd (sb_data s1) 2 = Some (sb_data s1 ! 2)"
      using s1(3,5) c by auto
    define s2 where "s2 = s1\<lparr>sb_len := hdr_len h\<rparr>"
    have grab: "sb_grab s g k =
       (if sb_max s < hdr_len h then Some (s2, length (drop (3 - sb_count s) g) + (k + (3 - sb_count s)), - ERANGE)
        else sb_accumulate (s2\<lparr>sb_header := True\<rparr>) (drop (3 - sb_count s) g) (k + (3 - sb_count s)))"
      using hdr s1(1,5) c3 rds mn unfolding sb_grab_def
      by (simp add: SECTION_HDR_SIZE_def s2_def hl' Let_def)
    show ?thesis
    proof (cases "sb_max s < hdr_len h")
      case True
      have "sb_inv s2" "sb_abs s2 = h"
        using s1 c c3 hl True by (auto simp: sb_inv_def s2_def sb_abs_def)
      with True False grab s1 lh c3 mn c show ?thesis by (auto simp: s2_def min_def split: if_splits)
    next
      case fits: False
      let ?s3 = "s2\<lparr>sb_header := True\<rparr>"
      have inv3: "sb_inv ?s3" "sb_header ?s3" "sb_abs ?s3 = h"
        using s1 c c3 hl fits hdr_len_bounds(1) [of h] by (auto simp: sb_inv_def s2_def sb_abs_def)
      from sb_accumulate_eq [OF inv3(1,2), of "drop (3 - sb_count s) g" "k + (3 - sb_count s)"]
      obtain s' where "sb_accumulate ?s3 (drop (3 - sb_count s) g) (k + (3 - sb_count s)) =
          Some (s', k + (3 - sb_count s) + min (hdr_len h - 3) (length g - (3 - sb_count s)),
            if hdr_len h \<le> 3 + (length g - (3 - sb_count s)) then 1 else 0)"
        "sb_inv s'" "sb_abs s' = h @ take (hdr_len h - 3) (drop (3 - sb_count s) g)"
        "sb_max s' = sb_max s" "sb_wait_pdu s' = sb_wait_pdu s"
        using inv3(3) c3 s1(5,6) by (auto simp: s2_def)
      moreover have "3 + (length g - (3 - sb_count s)) = sb_count s + length g"
        using mn c(1) by (simp add: min_def split: if_splits)
      ultimately show ?thesis using False fits grab by auto
    qed
  qed
qed

lemma section_buf_add_refines:
  assumes inv: "sb_inv s"
  shows "\<exists>s' n st. section_buf_add s f = Some (s', n, st)
     \<and> (sb_abs s', n, st) = abs_add (sb_max s) (sb_abs s) f
     \<and> sb_inv s' \<and> sb_max s' = sb_max s \<and> sb_wait_pdu s' = sb_wait_pdu s"
proof (cases "abs_complete (sb_max s) (sb_abs s)")
  case True
  with inv show ?thesis
    using sb_complete_iff [OF inv] by (simp add: section_buf_add_def abs_add_def)
next
  case nc: False
  let ?c = "sb_abs s"
  obtain g k where g: "(if ?c = [] then skip_pad f else (f, 0)) = (g, k)" by fastforce
  have gk: "length f = length g + k"
    using g skip_pad_length [of f g k] by (auto split: if_splits)
  have len: "length ?c = sb_count s" using inv by (rule length_sb_abs)
  then have c0: "sb_count s = 0 \<longleftrightarrow> ?c = []" by auto
  have unf: "section_buf_add s f = (if sb_count s = 0 \<and> g = [] then Some (s, k, 0) else sb_grab s g k)"
    using nc sb_complete_iff [OF inv] g unfolding section_buf_add_def c0
    by (simp only: if_False split_conv Let_def prod.case)
  show ?thesis
  proof (cases "sb_header s")
    case True
    then have h: "3 \<le> sb_count s" "sb_len s = hdr_len ?c" "hdr_len ?c \<le> sb_max s" "sb_count s \<le> sb_len s"
      using inv by (auto simp: sb_inv_def sb_abs_def hdr_len_take)
    from h g have g0: "g = f" "k = 0" using len by (auto split: if_splits)
    have "section_buf_add s f = sb_accumulate s f 0" using h(1) True g0 by (simp add: unf sb_grab_def)
    moreover have "abs_add (sb_max s) ?c f =
        (?c @ take (sb_len s - sb_count s) f, min (sb_len s - sb_count s) (length f),
           if sb_count s + length f \<ge> sb_len s then 1 else 0)"
      using abs_add_body [OF nc, of f] h len by simp
    ultimately show ?thesis using sb_accumulate_eq [OF inv True, of f 0] by auto
  next
    case False
    then have cnt: "length ?c \<le> 3" "length ?c = 3 \<longrightarrow> sb_max s < hdr_len ?c"
      using inv len by (auto simp: sb_inv_def sb_abs_def hdr_len_take split: if_splits)
    note abs = abs_add_header [OF nc cnt g refl]
    show ?thesis
    proof (cases "sb_count s = 0 \<and> g = []")
      case True
      with abs inv gk len show ?thesis by (simp add: unf)
    next
      case ng: False
      from sb_grab_eq [OF inv False refl, of g k] ng abs gk len show ?thesis
        by (auto simp: unf)
    qed
  qed
qed

section \<open>Reassembly does not depend on how the stream is cut\<close>

text \<open>
  A caller's loop over fragments, as in \<open>section_buf_add_transport_payload\<close>'s callers: it
  stops when the status becomes nonzero and returns the number of bytes used.
\<close>

fun sb_feed :: "section_buf \<Rightarrow> u8 list list \<Rightarrow> (section_buf \<times> nat \<times> int) option" where
  "sb_feed s [] = Some (s, 0, 0)"
| "sb_feed s (f # fs) =
     do { (s, n, st) \<leftarrow> section_buf_add s f;
          if st \<noteq> 0 then Some (s, n, st)
          else do { (s, n', st) \<leftarrow> sb_feed s fs; Some (s, n + n', st) } }"

definition valid_section :: "nat \<Rightarrow> u8 list \<Rightarrow> bool" where
  "valid_section mx sec \<longleftrightarrow>
     3 \<le> length sec \<and> hd sec \<noteq> SECTION_PAD \<and> length sec = hdr_len sec \<and> length sec \<le> mx"

lemma valid_sectionD:
  assumes "valid_section mx sec"
  shows "3 \<le> length sec" "hd sec \<noteq> SECTION_PAD" "hdr_len sec = length sec" "length sec \<le> mx"
  using assms by (simp_all add: valid_section_def)

lemma prefix_header:
  assumes "valid_section mx (c @ ts)"
  shows "hdr_len (c @ take (3 - length c) (ts @ r)) = length (c @ ts)"
proof -
  have len: "3 \<le> length (c @ ts)" using assms by (rule valid_sectionD)
  then have "take (3 - length c) (ts @ r) = take (3 - length c) ts" by simp
  then have "c @ take (3 - length c) (ts @ r) = take (max 3 (length c)) (c @ ts)"
    by (cases "length c \<le> 3") (simp_all add: max_def)
  moreover have "hdr_len (take (max 3 (length c)) (c @ ts)) = hdr_len (c @ ts)"
    by (rule hdr_len_take) simp
  ultimately show ?thesis using valid_sectionD(3) [OF assms] by simp
qed

lemma prefix_incomplete:
  assumes "valid_section mx (c @ ts)" "ts \<noteq> []"
  shows "\<not> abs_complete mx c"
proof
  assume c: "abs_complete mx c"
  then have "hdr_len (c @ ts) = length c" by (simp add: abs_complete_def hdr_len_append)
  with valid_sectionD(3) [OF assms(1)] assms(2) show False by simp
qed

lemma abs_add_step:
  assumes sec: "valid_section mx (c @ ts)" and ts: "ts \<noteq> []"
    and g: "(if c = [] then skip_pad f else (f, 0)) = (g, k)" and cut: "g @ post = ts @ rest"
  shows "abs_add mx c f =
    (if length ts \<le> length g then (c @ ts, k + length ts, 1) else (c @ g, length f, 0))"
proof -
  let ?h = "c @ take (3 - length c) g"
  have fk: "length f = length g + k" using g skip_pad_length [of f g k] by (auto split: if_splits)
  have nc: "\<not> abs_complete mx c"
    using sec ts by (rule prefix_incomplete)
  show ?thesis
  proof (cases "length ts \<le> length g")
    case True
    with cut obtain r where r: "g = ts @ r" by (auto simp: append_eq_append_conv2)
    have h3: "\<not> length ?h < 3" using valid_sectionD(1) [OF sec] True by simp
    have hl: "hdr_len ?h = length c + length ts" "hdr_len ?h \<le> mx"
      using prefix_header [OF sec, of r] valid_sectionD(4) [OF sec] unfolding r by simp_all
    then have "take (hdr_len ?h - length c) g = ts" by (simp add: r)
    with nc g h3 hl True show ?thesis
      unfolding abs_add_def by (simp add: Let_def)
  next
    case False
    with cut obtain t where t: "ts = g @ t" "t \<noteq> []"
      by (auto simp: append_eq_append_conv2)
    have hd: "hdr_len ?h = length (c @ ts)" if "3 \<le> length ?h"
    proof -
      have "take (3 - length c) (ts @ []) = take (3 - length c) g"
        using that by (simp add: t(1))
      then show ?thesis using prefix_header [OF sec, of "[]"] by simp
    qed
    show ?thesis
    proof (cases "length ?h < 3")
      case True
      then have "take (3 - length c) g = g" by simp
      with True nc g False show ?thesis by (simp add: abs_add_def)
    next
      case h3: False
      with hd have "hdr_len ?h = length c + length g + length t" "hdr_len ?h \<le> mx"
        using valid_sectionD(4) [OF sec] by (simp_all add: t(1))
      with h3 nc g False t(2) fk show ?thesis by (auto simp: abs_add_def Let_def)
    qed
  qed
qed

lemma skip_pad_all: "skip_pad (replicate n SECTION_PAD) = ([], n)"
  by (induction n) simp_all

lemma feed_body:
  assumes "sb_inv s" "sb_abs s = c" "c \<noteq> []" "valid_section (sb_max s) (c @ ts)" "ts \<noteq> []"
    and "concat fs = ts @ rest"
  shows "\<exists>s'. sb_feed s fs = Some (s', length ts, 1) \<and> sb_inv s' \<and> sb_abs s' = c @ ts \<and> sb_max s' = sb_max s"
  using assms
proof (induction fs arbitrary: s c ts)
  case (Cons f fs)
  have step: "abs_add (sb_max s) c f =
      (if length ts \<le> length f then (c @ ts, length ts, 1) else (c @ f, length f, 0))"
    using abs_add_step [OF Cons.prems(4,5), of f f 0 "concat fs" rest] Cons.prems(3,6) by simp
  obtain s' n st where s': "section_buf_add s f = Some (s', n, st)"
      "(sb_abs s', n, st) = abs_add (sb_max s) c f" "sb_inv s'" "sb_max s' = sb_max s"
    using section_buf_add_refines [OF Cons.prems(1), of f] Cons.prems(2) by auto
  show ?case
  proof (cases "length ts \<le> length f")
    case True
    with step s' show ?thesis by auto
  next
    case False
    with Cons.prems(6) obtain t where t: "ts = f @ t" "t \<noteq> []" "concat fs = t @ rest"
      by (auto simp: append_eq_append_conv2)
    from Cons.IH [OF s'(3), of "c @ f" t] Cons.prems t s' step False show ?thesis by fastforce
  qed
qed simp

lemma feed_start:
  assumes "sb_inv s" "sb_abs s = []" "valid_section (sb_max s) sec"
    and "concat fs = replicate k SECTION_PAD @ sec @ rest"
  shows "\<exists>s'. sb_feed s fs = Some (s', k + length sec, 1) \<and> sb_inv s' \<and> sb_abs s' = sec \<and> sb_max s' = sb_max s"
  using assms
proof (induction fs arbitrary: s k)
  case Nil
  then show ?case using valid_sectionD(1) by fastforce
next
  case (Cons f fs)
  have sec: "valid_section (sb_max s) ([] @ sec)" "sec \<noteq> []" "hd sec \<noteq> SECTION_PAD"
    using valid_sectionD [OF Cons.prems(3)] Cons.prems(3) by auto
  obtain s' n st where s': "section_buf_add s f = Some (s', n, st)"
      "(sb_abs s', n, st) = abs_add (sb_max s) [] f" "sb_inv s'" "sb_max s' = sb_max s"
    using section_buf_add_refines [OF Cons.prems(1), of f] Cons.prems(2) by auto
  show ?case
  proof (cases "length f \<le> k")
    case True
    with Cons.prems(4) have f: "f = replicate (length f) SECTION_PAD"
      and rest: "concat fs = replicate (k - length f) SECTION_PAD @ sec @ rest"
      by (auto simp: append_eq_append_conv_if)
    have "abs_add (sb_max s) [] f = ([], length f, 0)"
      using skip_pad_all [of "length f"] unfolding f [symmetric] by (simp add: abs_add_def abs_complete_def)
    with s' Cons.IH [OF s'(3) _ _ rest] Cons.prems(3) True show ?thesis by fastforce
  next
    case False
    with Cons.prems(4) obtain g where g: "f = replicate k SECTION_PAD @ g" "g \<noteq> []" "g @ concat fs = sec @ rest"
      by (auto simp: append_eq_append_conv2) (metis length_append length_replicate le_add1 append_Nil2 order_refl)+
    have "hd g = hd sec" using arg_cong [OF g(3), of hd] g(2) sec(2) by simp
    then have sk: "skip_pad f = (g, k)" using skip_pad_app [of g k] g sec(3) by simp
    from abs_add_step [OF sec(1,2), of f g k "concat fs" rest] sk g(3)
    have step: "abs_add (sb_max s) [] f =
        (if length sec \<le> length g then (sec, k + length sec, 1) else (g, length f, 0))" by simp
    show ?thesis
    proof (cases "length sec \<le> length g")
      case True
      with step s' show ?thesis by auto
    next
      case False
      with g(3) obtain t where t: "sec = g @ t" "t \<noteq> []" "concat fs = t @ rest"
        by (auto simp: append_eq_append_conv2)
      from feed_body [OF s'(3) _ g(2), of t fs rest] Cons.prems(3) t s' step False g(1) show ?thesis
        by fastforce
    qed
  qed
qed

section \<open>Transport payloads\<close>

lemma abs_add_bounds:
  assumes "abs_add mx c f = (c', n, st)"
  shows "n \<le> length f" "st \<in> {0, 1, - ERANGE}" "st = 1 \<Longrightarrow> abs_complete mx c'"
proof -
  obtain g k where g: "(if c = [] then skip_pad f else (f, 0)) = (g, k)" by fastforce
  have fk: "length f = length g + k" using g skip_pad_length [of f g k] by (auto split: if_splits)
  show "n \<le> length f" "st \<in> {0, 1, - ERANGE}"
    using assms g fk by (auto simp: abs_add_def Let_def split: if_splits)
  show "abs_complete mx c'" if "st = 1"
  proof (cases "abs_complete mx c")
    case True
    with assms show ?thesis by (simp add: abs_add_def)
  next
    case False
    let ?h = "c @ take (3 - length c) g"
    from assms False g that have h: "3 \<le> length ?h" "hdr_len ?h \<le> mx"
      "c' = c @ take (hdr_len ?h - length c) g" "length c' = hdr_len ?h"
      by (auto simp: abs_add_def Let_def ERANGE_def split: if_splits)
    have c3: "3 \<le> length c'" using h(4) hdr_len_bounds(1) [of ?h] by simp
    have "take 3 c' = take 3 ?h"
      using h(3) hdr_len_bounds(1) [of ?h] by (simp add: min_def)
    then have "hdr_len c' = hdr_len ?h"
      using hdr_len_take [of 3 c'] hdr_len_take [of 3 ?h] by simp
    with h c3 show ?thesis by (simp add: abs_complete_def)
  qed
qed

lemma sb_inv_wait [simp]:
  "sb_inv (s\<lparr>sb_wait_pdu := b\<rparr>) = sb_inv s" "sb_abs (s\<lparr>sb_wait_pdu := b\<rparr>) = sb_abs s"
  by (simp_all add: sb_inv_def sb_abs_def)

lemma section_buf_add_safe:
  assumes "sb_inv s"
  shows "\<exists>s' n st. section_buf_add s f = Some (s', n, st) \<and> sb_inv s' \<and> sb_max s' = sb_max s
     \<and> sb_wait_pdu s' = sb_wait_pdu s \<and> n \<le> length f \<and> st \<in> {0, 1, - ERANGE}
     \<and> (st = 1 \<longrightarrow> abs_complete (sb_max s) (sb_abs s'))"
proof -
  obtain s' n st where s': "section_buf_add s f = Some (s', n, st)"
      "(sb_abs s', n, st) = abs_add (sb_max s) (sb_abs s) f" "sb_inv s'" "sb_max s' = sb_max s"
      "sb_wait_pdu s' = sb_wait_pdu s"
    using section_buf_add_refines [OF assms, of f] by auto
  with abs_add_bounds [OF s'(2) [symmetric]] show ?thesis by auto
qed

definition payload_ok :: "section_buf \<Rightarrow> u8 list \<Rightarrow> (section_buf \<times> nat \<times> int) option \<Rightarrow> bool" where
  "payload_ok s payload r \<longleftrightarrow>
     wp r (\<lambda>(s', n, st). sb_inv s' \<and> n \<le> length payload \<and> st \<in> {0, 1, - ERANGE, - EINVAL}
       \<and> (st = 1 \<longrightarrow> abs_complete (sb_max s) (sb_abs s')) \<and> (st < 0 \<longrightarrow> sb_wait_pdu s'))"

lemma payload_rest_ok:
  assumes "sb_inv t" "sb_max t = sb_max s" "used \<le> length payload"
  shows "payload_ok s payload (payload_rest t payload used)"
  using section_buf_add_safe [OF assms(1), of "drop used payload"] assms(2,3)
  by (auto simp: payload_ok_def payload_rest_def wp_rules)

lemma payload_final_ok:
  assumes "sb_inv s" "offset + 1 \<le> length payload"
  shows "payload_ok s payload
    (do { (section, tmp, st) \<leftarrow> section_buf_add (s\<lparr>sb_wait_pdu := False\<rparr>) (take offset (drop 1 payload));
          if tmp \<noteq> offset \<or> section_buf_remaining section \<noteq> 0 \<or> st \<noteq> 1
          then Some (section\<lparr>sb_wait_pdu := True\<rparr>, 1 + tmp, - ERANGE)
          else Some (section, 1 + tmp, st) })"
  using section_buf_add_safe [of "s\<lparr>sb_wait_pdu := False\<rparr>" "take offset (drop 1 payload)"] assms
  by (auto simp: payload_ok_def wp_rules ERANGE_def)

lemma payload_ok_all:
  assumes inv: "sb_inv s" and ne: "pdu_start \<Longrightarrow> payload \<noteq> []"
  shows "payload_ok s payload (section_buf_add_transport_payload s payload pdu_start)"
proof -
  have fin: "payload_ok s payload (Some (s, 0, 1))" if "sb_header s \<and> sb_len s = sb_count s"
    using that inv sb_complete_iff [OF inv] by (simp add: payload_ok_def wp_rules)
  have drp: "payload_ok s payload (Some (s, length payload, 0))"
    using inv by (simp add: payload_ok_def wp_rules)
  have bad: "payload_ok s payload (Some (s\<lparr>sb_wait_pdu := True\<rparr>, length payload, - EINVAL))"
    using inv by (simp add: payload_ok_def wp_rules EINVAL_def)
  show ?thesis
    using fin drp bad ne payload_rest_ok [of "s\<lparr>sb_wait_pdu := False\<rparr>" s] payload_rest_ok [OF inv refl, of 0]
      payload_final_ok [OF inv] inv
    by (auto simp: section_buf_add_transport_payload_def Let_def)
qed

section \<open>Properties\<close>

text \<open>C2: \<open>section_buf_init\<close> establishes the invariant for a data area of \<open>max\<close> bytes, \<open>max\<close> at least 3,
  and refuses a smaller \<open>max\<close> without touching the structure; every fragment added to a buffer in a consistent
  state is processed without a memory fault, exactly as the abstract buffer, the list of section bytes received so far,
  prescribes, and leaves a consistent state.\<close>

theorem section_buf_add_refinement:
  "(section_buf_init s mx = (s, - EINVAL) \<longleftrightarrow> mx < 3)
   \<and> (3 \<le> mx \<longrightarrow> length (sb_data s) = nat mx \<longrightarrow>
        (let s0 = fst (section_buf_init s mx) in sb_inv s0 \<and> sb_abs s0 = [] \<and> sb_max s0 = nat mx))
   \<and> (\<forall>t f. sb_inv t \<longrightarrow>
        (\<exists>t' n st. section_buf_add t f = Some (t', n, st)
           \<and> (sb_abs t', n, st) = abs_add (sb_max t) (sb_abs t) f
           \<and> sb_inv t' \<and> sb_max t' = sb_max t \<and> sb_wait_pdu t' = sb_wait_pdu t))"
  using section_buf_add_refines
  by (auto simp: section_buf_init_def SECTION_HDR_SIZE_def sb_inv_def sb_abs_def EINVAL_def)

theorem section_buf_add_refinement_witness:
  "\<exists>t' n st. section_buf_add
        \<lparr>sb_max = 4, sb_count = 0, sb_len = 3, sb_header = False, sb_wait_pdu = True, sb_data = [0, 0, 0, 0]\<rparr>
        [0xff, 0x42] = Some (t', n, st)
     \<and> (sb_abs t', n, st) = ([0x42], 2, 0)"
proof -
  let ?t = "\<lparr>sb_max = 4, sb_count = 0, sb_len = 3, sb_header = False, sb_wait_pdu = True,
      sb_data = [0, 0, 0, 0]\<rparr>"
  have i: "sb_inv ?t" by (simp add: sb_inv_def)
  have a: "abs_add (sb_max ?t) (sb_abs ?t) [0xff, 0x42] = ([0x42], 2, 0)"
    by (simp add: abs_add_def sb_abs_def abs_complete_def SECTION_PAD_def)
  from section_buf_add_refinement [of ?t 4] i a show ?thesis by metis
qed



text \<open>C8: feeding any transport payload to a section buffer in a consistent state never touches memory
  outside the buffer or the payload, provided a payload flagged as a PDU start is not empty; the state stays
  consistent, no more bytes than the payload holds are reported as used, the status is one of the four
  documented values, status 1 means a complete section is stored, and after an error the buffer waits for the next PDU start.\<close>

theorem section_buf_payload_safe:
  assumes "sb_inv s" and "pdu_start \<Longrightarrow> payload \<noteq> []"
  shows "\<exists>s' n st. section_buf_add_transport_payload s payload pdu_start = Some (s', n, st)
     \<and> sb_inv s' \<and> n \<le> length payload \<and> st \<in> {0, 1, - ERANGE, - EINVAL}
     \<and> (st = 1 \<longrightarrow> abs_complete (sb_max s) (sb_abs s'))
     \<and> (st < 0 \<longrightarrow> sb_wait_pdu s')"
  using payload_ok_all [OF assms] by (auto simp: payload_ok_def wp_def)

theorem section_buf_payload_safe_witness:
  "\<exists>s' n st. section_buf_add_transport_payload
       \<lparr>sb_max = 4, sb_count = 0, sb_len = 3, sb_header = False, sb_wait_pdu = True, sb_data = [0, 0, 0, 0]\<rparr>
       [0x01, 0xff, 0x42] True = Some (s', n, st) \<and> n \<le> 3"
proof -
  have "sb_inv \<lparr>sb_max = 4, sb_count = 0, sb_len = 3, sb_header = False, sb_wait_pdu = True,
      sb_data = [0, 0, 0, 0]\<rparr>"
    by (simp add: sb_inv_def)
  from section_buf_payload_safe [OF this, of True "[0x01, 0xff, 0x42]"] show ?thesis by fastforce
qed

text \<open>\<open>section_buf_reset\<close> empties the buffer but keeps the PDU flag as it was: a buffer that was not waiting
  does not wait for a PDU start after a reset, and takes the next payload as the start of a section, although the
  header file promises that it will wait.\<close>

theorem section_buf_reset_keeps_wait:
  assumes "sb_inv s"
  shows "sb_inv (section_buf_reset s) \<and> sb_abs (section_buf_reset s) = []
     \<and> sb_max (section_buf_reset s) = sb_max s
     \<and> sb_wait_pdu (section_buf_reset s) = sb_wait_pdu s
     \<and> (\<not> sb_wait_pdu s \<longrightarrow>
          section_buf_add_transport_payload (section_buf_reset s) payload False
            = payload_rest (section_buf_reset s) payload 0)"
  using assms by (auto simp: section_buf_reset_def section_buf_init_def SECTION_HDR_SIZE_def sb_inv_def sb_abs_def
      section_buf_add_transport_payload_def)

theorem section_buf_reset_keeps_wait_witness:
  "sb_abs (section_buf_reset \<lparr>sb_max = 4, sb_count = 1, sb_len = 3, sb_header = False, sb_wait_pdu = False,
      sb_data = [0x42, 0, 0, 0]\<rparr>) = []
   \<and> \<not> sb_wait_pdu (section_buf_reset \<lparr>sb_max = 4, sb_count = 1, sb_len = 3, sb_header = False,
      sb_wait_pdu = False, sb_data = [0x42, 0, 0, 0]\<rparr>)"
  using section_buf_reset_keeps_wait [of "\<lparr>sb_max = 4, sb_count = 1, sb_len = 3, sb_header = False,
      sb_wait_pdu = False, sb_data = [0x42, 0, 0, 0]\<rparr>"]
  by (simp add: sb_inv_def)

end
