(* ===== verification/Endianops.thy ===== *)
theory Endianops
  imports Prelude
begin

text \<open>
  \<open>lib/libucsi/endianops.h\<close>: the in-place byte swaps, in both of its preprocessor
  branches.  The byte order of the host is the parameter \<open>e\<close> of every definition that
  depends on it.  On a big-endian host the swaps are empty and loads take the most significant byte
  first; on a little-endian host the swaps load, swap and store.  \<open>load16\<close>, \<open>load32\<close>
  and \<open>store32\<close> are the C accesses through a \<open>uint16_t *\<close> or \<open>uint32_t *\<close>; the macros
  \<open>EBITn\<close> declare bit-fields so that the first declared field holds the
  most significant bits on both hosts, so a bit-field is a \<open>take_bit\<close>/\<open>drop_bit\<close> of the
  loaded value.  The result used by all codecs is \<open>load16_bswap16\<close>: whatever the host, a swap followed by a load
  yields the big-endian value of the two bytes.
\<close>

datatype byte_order = LittleEndian | BigEndian

section \<open>Native loads and stores\<close>

fun load16 :: "byte_order \<Rightarrow> mem \<Rightarrow> nat \<Rightarrow> u16 option" where
  "load16 LittleEndian m p = do { a \<leftarrow> rd m p; b \<leftarrow> rd m (p + 1); Some (be16 b a) }"
| "load16 BigEndian m p = do { a \<leftarrow> rd m p; b \<leftarrow> rd m (p + 1); Some (be16 a b) }"

fun store16 :: "byte_order \<Rightarrow> mem \<Rightarrow> nat \<Rightarrow> u16 \<Rightarrow> mem option" where
  "store16 LittleEndian m p v =
     do { m \<leftarrow> wr m p (ucast v); wr m (p + 1) (ucast (drop_bit 8 v)) }"
| "store16 BigEndian m p v =
     do { m \<leftarrow> wr m p (ucast (drop_bit 8 v)); wr m (p + 1) (ucast v) }"

fun load32 :: "byte_order \<Rightarrow> mem \<Rightarrow> nat \<Rightarrow> u32 option" where
  "load32 LittleEndian m p =
     do { a \<leftarrow> rd m p; b \<leftarrow> rd m (p + 1); c \<leftarrow> rd m (p + 2); d \<leftarrow> rd m (p + 3);
          Some (be32 d c b a) }"
| "load32 BigEndian m p =
     do { a \<leftarrow> rd m p; b \<leftarrow> rd m (p + 1); c \<leftarrow> rd m (p + 2); d \<leftarrow> rd m (p + 3);
          Some (be32 a b c d) }"

fun store32 :: "byte_order \<Rightarrow> mem \<Rightarrow> nat \<Rightarrow> u32 \<Rightarrow> mem option" where
  "store32 LittleEndian m p v =
     do { m \<leftarrow> wr m p (ucast v); m \<leftarrow> wr m (p + 1) (ucast (drop_bit 8 v));
          m \<leftarrow> wr m (p + 2) (ucast (drop_bit 16 v)); wr m (p + 3) (ucast (drop_bit 24 v)) }"
| "store32 BigEndian m p v =
     do { m \<leftarrow> wr m p (ucast (drop_bit 24 v)); m \<leftarrow> wr m (p + 1) (ucast (drop_bit 16 v));
          m \<leftarrow> wr m (p + 2) (ucast (drop_bit 8 v)); wr m (p + 3) (ucast v) }"

text \<open>\<open>bswap_16\<close> and \<open>bswap_32\<close> of the C library's \<open>byteswap.h\<close>.\<close>

definition bswap_16 :: "u16 \<Rightarrow> u16" where
  "bswap_16 v = push_bit 8 v OR drop_bit 8 v"

definition bswap_32 :: "u32 \<Rightarrow> u32" where
  "bswap_32 v = push_bit 24 v OR (push_bit 8 v AND 0x00ff0000)
     OR (drop_bit 8 v AND 0x0000ff00) OR drop_bit 24 v"

section \<open>The in-place swaps\<close>

fun bswap16 :: "byte_order \<Rightarrow> mem \<Rightarrow> nat \<Rightarrow> mem option" where
  "bswap16 BigEndian buf p = Some buf"
| "bswap16 LittleEndian buf p =
     do { v \<leftarrow> load16 LittleEndian buf p; store16 LittleEndian buf p (bswap_16 v) }"

fun bswap32 :: "byte_order \<Rightarrow> mem \<Rightarrow> nat \<Rightarrow> mem option" where
  "bswap32 BigEndian buf p = Some buf"
| "bswap32 LittleEndian buf p =
     do { v \<leftarrow> load32 LittleEndian buf p; store32 LittleEndian buf p (bswap_32 v) }"

fun bswap24 :: "byte_order \<Rightarrow> mem \<Rightarrow> nat \<Rightarrow> mem option" where
  "bswap24 BigEndian buf p = Some buf"
| "bswap24 LittleEndian buf p =
     do { tmp0 \<leftarrow> rd buf p; b2 \<leftarrow> rd buf (p + 2);
          buf \<leftarrow> wr buf p b2; wr buf (p + 2) tmp0 }"

fun bswap40 :: "byte_order \<Rightarrow> mem \<Rightarrow> nat \<Rightarrow> mem option" where
  "bswap40 BigEndian buf p = Some buf"
| "bswap40 LittleEndian buf p =
     do { tmp0 \<leftarrow> rd buf p; tmp1 \<leftarrow> rd buf (p + 1);
          b4 \<leftarrow> rd buf (p + 4); buf \<leftarrow> wr buf p b4;
          b3 \<leftarrow> rd buf (p + 3); buf \<leftarrow> wr buf (p + 1) b3;
          buf \<leftarrow> wr buf (p + 3) tmp1; wr buf (p + 4) tmp0 }"

fun bswap48 :: "byte_order \<Rightarrow> mem \<Rightarrow> nat \<Rightarrow> mem option" where
  "bswap48 BigEndian buf p = Some buf"
| "bswap48 LittleEndian buf p =
     do { tmp0 \<leftarrow> rd buf p; tmp1 \<leftarrow> rd buf (p + 1); tmp2 \<leftarrow> rd buf (p + 2);
          b5 \<leftarrow> rd buf (p + 5); buf \<leftarrow> wr buf p b5;
          b4 \<leftarrow> rd buf (p + 4); buf \<leftarrow> wr buf (p + 1) b4;
          b3 \<leftarrow> rd buf (p + 3); buf \<leftarrow> wr buf (p + 2) b3;
          buf \<leftarrow> wr buf (p + 3) tmp2; buf \<leftarrow> wr buf (p + 4) tmp1; wr buf (p + 5) tmp0 }"

section \<open>What a swap does\<close>

lemma bswap_16_be16 [simp]: "bswap_16 (be16 a b) = be16 b a"
  unfolding bswap_16_def be16_def by (rule bit_word_eqI) (auto simp: bit_simps)

text \<open>The effect of \<open>bswap16\<close> as a pure function, for reasoning.\<close>

definition swap2 :: "byte_order \<Rightarrow> mem \<Rightarrow> nat \<Rightarrow> mem" where
  "swap2 e m p = (case e of BigEndian \<Rightarrow> m | LittleEndian \<Rightarrow> m[p := m ! (p + 1), p + 1 := m ! p])"

lemma length_swap2 [simp]: "length (swap2 e m p) = length m"
  by (simp add: swap2_def split: byte_order.split)

lemma bswap16_swap2 [simp]: "p + 1 < length m \<Longrightarrow> bswap16 e m p = Some (swap2 e m p)"
  by (cases e) (simp_all add: swap2_def)

lemma swap2_nth_other [mem_simps]:
  "q \<noteq> p \<Longrightarrow> q \<noteq> p + 1 \<Longrightarrow> swap2 e m p ! q = m ! q"
  by (simp add: swap2_def split: byte_order.split)

lemma take_swap2 [mem_simps]: "n \<le> p \<Longrightarrow> take n (swap2 e m p) = take n m"
  by (simp add: swap2_def split: byte_order.split)

lemma drop_swap2 [mem_simps]: "p + 2 \<le> n \<Longrightarrow> drop n (swap2 e m p) = drop n m"
  by (simp add: swap2_def split: byte_order.split)

lemma swap2_swap2 [simp]: "p + 1 < length m \<Longrightarrow> swap2 e (swap2 e m p) p = m"
  by (auto simp: swap2_def list_update_swap_twice split: byte_order.split)

lemma wp_bswap16 [wp_rules]: "p + 1 < length m \<Longrightarrow> Q (swap2 e m p) \<Longrightarrow> wp (bswap16 e m p) Q"
  by (simp add: wp_rules)

lemma load16_Some: "p + 1 < length m \<Longrightarrow>
    load16 e m p = Some (case e of LittleEndian \<Rightarrow> be16 (m ! (p + 1)) (m ! p) | BigEndian \<Rightarrow> be16 (m ! p) (m ! (p + 1)))"
  by (cases e) simp_all

lemma load16_swap2: "p + 1 < length m \<Longrightarrow> load16 e (swap2 e m p) p = Some (be16 (m ! p) (m ! (p + 1)))"
  by (cases e) (simp_all add: swap2_def)

lemma load16_swap2_other [mem_simps]:
  "q + 1 < p \<or> p + 1 < q \<Longrightarrow> load16 e (swap2 f m p) q = load16 e m q"
  by (cases e) (auto simp: rd_def swap2_nth_other)

section \<open>Byte reversal\<close>

text \<open>
  The specification of all the swaps at once: the \<open>n\<close> bytes at offset \<open>p\<close> are
  reversed and nothing else changes.
\<close>

definition rev_at :: "mem \<Rightarrow> nat \<Rightarrow> nat \<Rightarrow> mem" where
  "rev_at m p n = take p m @ rev (take n (drop p m)) @ drop (p + n) m"

lemma length_rev_at [simp]: "p + n \<le> length m \<Longrightarrow> length (rev_at m p n) = length m"
  by (simp add: rev_at_def)

lemma rev_at_rev_at: "p + n \<le> length m \<Longrightarrow> rev_at (rev_at m p n) p n = m"
  by (simp add: rev_at_def) (metis append_take_drop_id add.commute drop_drop)

lemma split_bytes:
  assumes "p + n \<le> length m"
  obtains xs zs ys where "m = xs @ zs @ ys" "length xs = p" "length zs = n"
proof
  show "m = take p m @ take n (drop p m) @ drop (p + n) m"
    by (metis append_take_drop_id add.commute drop_drop)
qed (use assms in auto)

lemma rev_at_append: "length xs = p \<Longrightarrow> length zs = n \<Longrightarrow> rev_at (xs @ zs @ ys) p n = xs @ rev zs @ ys"
  by (simp add: rev_at_def)

lemma byte_masks:
  "(0x00ff0000 :: u32) = push_bit 16 (mask 8)" "(0x0000ff00 :: u32) = push_bit 8 (mask 8)"
  by (simp_all add: push_bit_eq_mult mask_eq_exp_minus_1)

lemma bswap_32_be32 [simp]: "bswap_32 (be32 a b c d) = be32 d c b a"
  unfolding bswap_32_def be32_def byte_masks
proof (rule bit_word_eqI, goal_cases)
  case (1 n)
  then show ?case
    by (cases "n < 8"; cases "n < 16"; cases "n < 24") (auto simp: bit_simps)
qed

lemma length_2_iff: "length zs = 2 \<longleftrightarrow> (\<exists>a b. zs = [a, b])"
  by (auto simp: numeral_eq_Suc length_Suc_conv)

lemma length_3_iff: "length zs = 3 \<longleftrightarrow> (\<exists>a b c. zs = [a, b, c])"
  by (auto simp: numeral_eq_Suc length_Suc_conv)

lemma length_4_iff: "length zs = 4 \<longleftrightarrow> (\<exists>a b c d. zs = [a, b, c, d])"
  by (auto simp: numeral_eq_Suc length_Suc_conv)

lemma length_5_iff: "length zs = 5 \<longleftrightarrow> (\<exists>a b c d e. zs = [a, b, c, d, e])"
  by (auto simp: numeral_eq_Suc length_Suc_conv)

lemma length_6_iff: "length zs = 6 \<longleftrightarrow> (\<exists>a b c d e f. zs = [a, b, c, d, e, f])"
  by (auto simp: numeral_eq_Suc length_Suc_conv)

lemmas length_iffs = length_2_iff length_3_iff length_4_iff length_5_iff length_6_iff

lemma swaps_rev_at:
  "p + 2 \<le> length m \<Longrightarrow> bswap16 LittleEndian m p = Some (rev_at m p 2)"
  "p + 3 \<le> length m \<Longrightarrow> bswap24 LittleEndian m p = Some (rev_at m p 3)"
  "p + 4 \<le> length m \<Longrightarrow> bswap32 LittleEndian m p = Some (rev_at m p 4)"
  "p + 5 \<le> length m \<Longrightarrow> bswap40 LittleEndian m p = Some (rev_at m p 5)"
  "p + 6 \<le> length m \<Longrightarrow> bswap48 LittleEndian m p = Some (rev_at m p 6)"
  by (erule split_bytes; auto simp: length_iffs rev_at_append rd_def wr_def nth_append list_update_append)+

section \<open>Properties\<close>

text \<open>on a little-endian host each in-place swap reverses exactly its two to six bytes, stays
  inside the object and undoes itself.\<close>

theorem swaps_reverse:
  assumes "(f, n) \<in> {(bswap16, 2), (bswap24, 3), (bswap32, 4), (bswap40, 5), (bswap48, 6)}"
    and "p + n \<le> length m"
  shows "f LittleEndian m p = Some (rev_at m p n) \<and> f LittleEndian (rev_at m p n) p = Some m
     \<and> f BigEndian m p = Some m"
  using assms swaps_rev_at [of p m] swaps_rev_at [of p "rev_at m p n"] rev_at_rev_at [OF assms(2)]
  by auto

theorem swaps_reverse_witness:
  "bswap40 LittleEndian [0, 1, 2, 3, 4, 5] 1 = Some [0, 5, 4, 3, 2, 1]"
  using swaps_reverse [of bswap40 5 1 "[0, 1, 2, 3, 4, 5]"] by (simp add: rev_at_def)

end
