(* ===== verification/Descriptor.thy ===== *)
theory Descriptor
  imports Endianops
begin

text \<open>
  \<open>lib/libucsi/descriptor.h\<close>: descriptor loops.  A descriptor is a tag byte, a length byte
  and that many bytes of data.  \<open>verify_descriptors\<close> is the check every
  section codec runs over an untrusted descriptor loop; \<open>next_descriptor\<close> is the step of the
  \<open>..._for_each\<close> macros that walk the loop afterwards.

  The abstract view is a list of (tag, data) pairs with its serialisation \<open>descs_bytes\<close>.
  \<open>verify_descriptors_iff\<close> states that the check accepts exactly the serialisations,
  and the locale \<open>contiguous_entries\<close> states what the walks rely on; it is interpreted here for
  descriptors and by the section theories for their own entries.
\<close>

section \<open>The code\<close>

text \<open>
  \<open>verify_descriptors(buf + base, len)\<close>; \<open>verify_loop\<close> is its \<open>while\<close> loop from
  position \<open>pos\<close>.
\<close>

function verify_loop :: "mem \<Rightarrow> nat \<Rightarrow> nat \<Rightarrow> nat \<Rightarrow> int option" where
  "verify_loop m base len pos =
     (if pos < len then
        if pos + 2 > len then Some (-1)
        else do { l \<leftarrow> rd m (base + pos + 1); verify_loop m base len (pos + 2 + unat l) }
      else if pos \<noteq> len then Some (-1) else Some 0)"
  by pat_completeness auto
termination
  by (relation "measure (\<lambda>(m, base, len, pos). len - pos)") auto

declare verify_loop.simps [simp del]

definition verify_descriptors :: "mem \<Rightarrow> nat \<Rightarrow> nat \<Rightarrow> int option" where
  "verify_descriptors m base len = verify_loop m base len 0"

text \<open>
  \<open>next_descriptor(buf, len, pos)\<close>: a pointer is an offset in the object, \<open>None\<close>
  inside the result is \<open>NULL\<close>.
\<close>

definition next_descriptor :: "mem \<Rightarrow> nat \<Rightarrow> nat \<Rightarrow> nat option \<Rightarrow> nat option option" where
  "next_descriptor m buf len pos =
     (case pos of
        None \<Rightarrow> Some None
      | Some p \<Rightarrow>
          do { l \<leftarrow> rd m (p + 1);
               let nxt = p + 2 + unat l;
               Some (if nxt \<ge> buf + len then None else Some nxt) })"

definition unknown_descriptor_data :: "nat \<Rightarrow> nat" where
  "unknown_descriptor_data d = d + 2"

definition unknown_descriptor_data_size :: "mem \<Rightarrow> nat \<Rightarrow> nat option" where
  "unknown_descriptor_data_size m d = do { l \<leftarrow> rd m (d + 1); Some (unat l) }"

section \<open>Walks over contiguous entries\<close>

text \<open>
  The loop of every \<open>..._for_each(..., pos)\<close> macro: it collects the offsets the body sees.
  \<open>None\<close> stands for a fault or for a walk that does not end.
\<close>

partial_function (option) for_each ::
  "(nat \<Rightarrow> nat option option) \<Rightarrow> nat option \<Rightarrow> nat list option" where
  "for_each nxt pos =
     (case pos of
        None \<Rightarrow> Some []
      | Some p \<Rightarrow> do { q \<leftarrow> nxt p; ps \<leftarrow> for_each nxt q; Some (p # ps) })"

declare for_each.simps [code]

text \<open>The offsets \<open>ps\<close> are the entries that tile the range from \<open>p\<close> to \<open>stop\<close>.\<close>

fun tiles :: "(nat \<Rightarrow> nat option) \<Rightarrow> nat \<Rightarrow> nat \<Rightarrow> nat list \<Rightarrow> bool" where
  "tiles size_at stop p [] \<longleftrightarrow> p = stop"
| "tiles size_at stop p (q # qs) \<longleftrightarrow>
     q = p \<and> (case size_at p of None \<Rightarrow> False
               | Some n \<Rightarrow> 0 < n \<and> p + n \<le> stop \<and> tiles size_at stop (p + n) qs)"

lemma tiles_le: "tiles size_at stop p ps \<Longrightarrow> p \<le> stop"
  by (cases ps) (auto split: option.splits)

lemma tiles_unique: "tiles size_at stop p ps \<Longrightarrow> tiles size_at stop p qs \<Longrightarrow> ps = qs"
proof (induction ps arbitrary: p qs)
  case Nil
  then show ?case by (cases qs) (auto split: option.splits)
next
  case (Cons q ps)
  then show ?case by (cases qs) (auto split: option.splits)
qed

lemma tiles_bounds:
  "tiles size_at stop p ps \<Longrightarrow> q \<in> set ps \<Longrightarrow> p \<le> q \<and> (\<exists>n. size_at q = Some n \<and> 0 < n \<and> q + n \<le> stop)"
  by (induction ps arbitrary: p) (fastforce split: option.splits)+

text \<open>The contract between a codec, which establishes \<open>tiles\<close>, and the iterator macros.\<close>

locale contiguous_entries =
  fixes size_at :: "nat \<Rightarrow> nat option"
    and nxt :: "nat \<Rightarrow> nat option option"
    and stop :: nat
  assumes nxt_eq: "nxt p = (case size_at p of None \<Rightarrow> None
      | Some n \<Rightarrow> Some (if p + n \<ge> stop then None else Some (p + n)))"
begin

lemma walk_tiles: "tiles size_at stop p ps \<Longrightarrow> ps \<noteq> [] \<Longrightarrow> for_each nxt (Some p) = Some ps"
proof (induction ps arbitrary: p)
  case (Cons q qs)
  then obtain n where n: "size_at p = Some n" "0 < n" "p + n \<le> stop" "tiles size_at stop (p + n) qs"
    and q: "q = p"
    by (auto split: option.splits)
  show ?case
  proof (cases "qs = []")
    case True
    with n q show ?thesis by (simp add: for_each.simps nxt_eq)
  next
    case False
    then have "p + n < stop" using n(2-4) by (cases qs) (auto split: option.splits)
    with n q Cons.IH [OF n(4) False] show ?thesis
      by (simp add: for_each.simps [of nxt "Some p"] nxt_eq [of p])
  qed
qed simp

lemma walk_from:
  assumes "tiles size_at stop p ps"
  shows "for_each nxt (if p \<ge> stop then None else Some p) = Some ps"
proof (cases "ps = []")
  case True
  with assms show ?thesis by (simp add: for_each.simps)
next
  case False
  then have "p < stop" using assms by (cases ps) (auto split: option.splits)
  with walk_tiles [OF assms False] show ?thesis by simp
qed

end

definition descriptor_size :: "mem \<Rightarrow> nat \<Rightarrow> nat option" where
  "descriptor_size m p = map_option (\<lambda>l. 2 + unat l) (rd m (p + 1))"

interpretation desc: contiguous_entries "descriptor_size m" "\<lambda>p. next_descriptor m buf len (Some p)"
    "buf + len" for m buf len
  by unfold_locales (auto simp: next_descriptor_def descriptor_size_def Let_def split: option.splits)

section \<open>The abstract descriptor loop\<close>

type_synonym desc = "u8 \<times> u8 list"

fun desc_ok :: "desc \<Rightarrow> bool" where
  "desc_ok (t, d) \<longleftrightarrow> length d < 256"

fun desc_bytes :: "desc \<Rightarrow> u8 list" where
  "desc_bytes (t, d) = t # of_nat (length d) # d"

definition descs_bytes :: "desc list \<Rightarrow> u8 list" where
  "descs_bytes ds = concat (map desc_bytes ds)"

lemma descs_bytes_simps [simp]:
  "descs_bytes [] = []" "descs_bytes (d # ds) = desc_bytes d @ descs_bytes ds"
  by (simp_all add: descs_bytes_def)

text \<open>The bytes of \<open>m\<close> at \<open>p\<close> are \<open>xs\<close>.\<close>

definition bytes_at :: "mem \<Rightarrow> nat \<Rightarrow> u8 list \<Rightarrow> bool" where
  "bytes_at m p xs \<longleftrightarrow> p + length xs \<le> length m \<and> take (length xs) (drop p m) = xs"

lemma bytes_at_Cons: "bytes_at m p (x # xs) \<longleftrightarrow> p < length m \<and> m ! p = x \<and> bytes_at m (Suc p) xs"
  by (auto simp: bytes_at_def Cons_nth_drop_Suc [symmetric] take_Suc_Cons)

lemma bytes_at_append:
  "bytes_at m p (xs @ ys) \<longleftrightarrow> bytes_at m p xs \<and> bytes_at m (p + length xs) ys"
  by (induction xs arbitrary: p) (auto simp: bytes_at_Cons, auto simp: bytes_at_def)

lemma bytes_at_take: "p + n \<le> length m \<Longrightarrow> bytes_at m p (take n (drop p m))"
  by (simp add: bytes_at_def)

text \<open>What the body of a descriptor walk reads at the offsets it is given.\<close>

definition desc_at :: "mem \<Rightarrow> nat \<Rightarrow> desc" where
  "desc_at m p = (m ! p, take (unat (m ! (p + 1))) (drop (p + 2) m))"

section \<open>The check accepts exactly the serialised descriptor loops\<close>

lemma verify_loop_safe:
  "base + len \<le> length m \<Longrightarrow> wp (verify_loop m base len pos) (\<lambda>r. r = 0 \<or> r = -1)"
  by (induction m base len pos rule: verify_loop.induct) (subst verify_loop.simps, simp add: wp_rules)

lemma verify_descriptors_safe:
  "base + len \<le> length m \<Longrightarrow> \<exists>r. verify_descriptors m base len = Some r \<and> (r = 0 \<or> r = -1)"
  using verify_loop_safe [of base len m 0] by (simp add: verify_descriptors_def wp_def)

lemma wp_verify_descriptors [wp_rules]:
  "base + len \<le> length m \<Longrightarrow>
   (verify_descriptors m base len = Some 0 \<Longrightarrow> Q 0) \<Longrightarrow>
   (verify_descriptors m base len = Some (-1) \<Longrightarrow> Q (-1)) \<Longrightarrow> wp (verify_descriptors m base len) Q"
  using verify_descriptors_safe [of base len m] by (auto simp: wp_def)

lemma descriptor_size_Some [simp]:
  "p + 1 < length m \<Longrightarrow> descriptor_size m p = Some (2 + unat (m ! (p + 1)))"
  by (simp add: descriptor_size_def)

lemma descriptor_size_eq_Some:
  "descriptor_size m p = Some n \<longleftrightarrow> (\<exists>l. rd m (p + 1) = Some l \<and> n = 2 + unat l)"
  by (auto simp: descriptor_size_def)

lemma verify_loop_tiles:
  "verify_loop m base len pos = Some 0 \<Longrightarrow> base + len \<le> length m \<Longrightarrow>
   \<exists>ps. tiles (descriptor_size m) (base + len) (base + pos) ps"
proof (induction m base len pos rule: verify_loop.induct)
  case (1 m base len pos)
  show ?case
  proof (cases "pos < len")
    case False
    with "1.prems" show ?thesis
      by (intro exI [of _ "[]"]) (simp add: verify_loop.simps [of m base len pos] split: if_splits)
  next
    case True
    then have inb: "\<not> len < pos + 2" "base + pos + 1 < length m"
      using "1.prems" by (auto simp: verify_loop.simps [of m base len pos] split: if_splits)
    then have "verify_loop m base len (pos + 2 + unat (m ! (base + pos + 1))) = Some 0"
      using "1.prems"(1) True by (simp add: verify_loop.simps [of m base len pos])
    from "1.IH" [OF True inb(1) rd_Some [OF inb(2)] this "1.prems"(2)] obtain ps where
      ps: "tiles (descriptor_size m) (base + len) (base + (pos + 2 + unat (m ! (base + pos + 1)))) ps" ..
    from tiles_le [OF this] ps inb show ?thesis
      by (intro exI [of _ "(base + pos) # ps"]) (simp add: add.assoc)
  qed
qed

lemma tiles_verify_loop:
  "tiles (descriptor_size m) (base + len) (base + pos) ps \<Longrightarrow> verify_loop m base len pos = Some 0"
proof (induction ps arbitrary: pos)
  case Nil
  then show ?case by (simp add: verify_loop.simps)
next
  case (Cons q ps)
  then obtain l where l: "rd m (base + pos + 1) = Some l" "pos + 2 + unat l \<le> len"
    "tiles (descriptor_size m) (base + len) (base + (pos + 2 + unat l)) ps"
    by (auto simp: descriptor_size_eq_Some add.assoc split: option.splits)
  from Cons.IH [OF l(3)] l(1,2) show ?case
    by (subst verify_loop.simps) simp
qed

lemma verify_descriptors_tiles:
  "base + len \<le> length m \<Longrightarrow>
   verify_descriptors m base len = Some 0 \<longleftrightarrow> (\<exists>ps. tiles (descriptor_size m) (base + len) base ps)"
  using verify_loop_tiles [of m base len 0] tiles_verify_loop [of m base len 0]
  by (auto simp: verify_descriptors_def)

lemma tiles_bytes:
  "tiles (descriptor_size m) stop p ps \<Longrightarrow> stop \<le> length m \<Longrightarrow>
   descs_bytes (map (desc_at m) ps) = take (stop - p) (drop p m) \<and> list_all desc_ok (map (desc_at m) ps)"
proof (induction ps arbitrary: p)
  case (Cons q ps)
  then obtain l where l: "rd m (p + 1) = Some l" "p + 2 + unat l \<le> stop"
    "tiles (descriptor_size m) stop (p + 2 + unat l) ps" "q = p"
    by (auto simp: descriptor_size_eq_Some add.assoc split: option.splits)
  have inb: "p + 1 < length m" "l = m ! (p + 1)" using l(1) by (auto simp: rd_eq_Some_iff)
  have d: "drop p m = m ! p # m ! (p + 1) # drop (p + 2) m"
    using inb(1) by (simp add: drop_eq_nth_Cons)
  have "take (stop - p) (drop p m)
      = m ! p # l # take (stop - p - 2) (drop (p + 2) m)"
    using l(2) unfolding d by (simp add: take_Cons' inb(2))
  also have "take (stop - p - 2) (drop (p + 2) m)
      = take (unat l) (drop (p + 2) m) @ take (stop - (p + 2 + unat l)) (drop (p + 2 + unat l) m)"
    using take_add [of "unat l" "stop - (p + 2 + unat l)" "drop (p + 2) m"] l(2)
    by (simp add: add.commute add.left_commute)
  finally show ?case
    using Cons.IH [OF l(3) Cons.prems(2)] l(2,4) inb unat_byte_lt [of l] Cons.prems(2)
    by (simp add: desc_at_def min_absorb2)
qed simp

lemma bytes_tiles:
  "list_all desc_ok ds \<Longrightarrow> bytes_at m p (descs_bytes ds) \<Longrightarrow>
   \<exists>ps. tiles (descriptor_size m) (p + length (descs_bytes ds)) p ps \<and> map (desc_at m) ps = ds"
proof (induction ds arbitrary: p)
  case (Cons d ds)
  obtain t xs where d: "d = (t, xs)" by (cases d)
  with Cons.prems have len: "length xs < 256" by simp
  have u: "unat (of_nat (length xs) :: u8) = length xs"
    using len by (rule unat_of_nat_u8)
  from Cons.prems(2) have inb: "Suc p < length m" "m ! p = t" "m ! Suc p = of_nat (length xs)"
    and data: "bytes_at m (p + 2) xs" and rest: "bytes_at m (p + 2 + length xs) (descs_bytes ds)"
    by (simp_all add: d bytes_at_Cons bytes_at_append)
  from Cons.prems(1) have "list_all desc_ok ds" by simp
  from Cons.IH [OF this rest] obtain ps where
    ps: "tiles (descriptor_size m) (p + 2 + length xs + length (descs_bytes ds)) (p + 2 + length xs) ps"
    "map (desc_at m) ps = ds" by blast
  have "tiles (descriptor_size m) (p + length (descs_bytes (d # ds))) p (p # ps)"
    using ps(1) inb u by (simp add: d add.assoc)
  moreover have "desc_at m p = d"
    using inb data u by (simp add: desc_at_def d bytes_at_def)
  ultimately show ?case using ps(2) by (intro exI [of _ "p # ps"]) simp
qed simp

text \<open>The walk that follows an accepted check visits exactly the descriptors that were serialised.\<close>

lemma descriptor_walk:
  assumes "list_all desc_ok ds" "bytes_at m base (descs_bytes ds)"
  shows "\<exists>ps. for_each (\<lambda>p. next_descriptor m base (length (descs_bytes ds)) (Some p))
              (if length (descs_bytes ds) = 0 then None else Some base) = Some ps
            \<and> map (desc_at m) ps = ds"
proof -
  obtain ps where ps: "tiles (descriptor_size m) (base + length (descs_bytes ds)) base ps"
    "map (desc_at m) ps = ds"
    using bytes_tiles [OF assms] by blast
  from desc.walk_from [OF ps(1)] ps(2) show ?thesis by (intro exI [of _ ps]) simp
qed

section \<open>Properties\<close>

text \<open>C10: \<open>verify_descriptors\<close> terminates without leaving a loop that lies in its buffer,
  answers \<open>0\<close> or \<open>-1\<close>, and answers \<open>0\<close> exactly when the bytes of the loop are the
  serialisation of a list of descriptors.\<close>

theorem verify_descriptors_iff:
  assumes "base + len \<le> length m"
  shows "\<exists>r. verify_descriptors m base len = Some r \<and> (r = 0 \<or> r = -1)
     \<and> (r = 0 \<longleftrightarrow> (\<exists>ds. list_all desc_ok ds \<and> descs_bytes ds = take len (drop base m)))"
proof -
  have len: "length (take len (drop base m)) = len" using assms by simp
  have "(\<exists>ds. list_all desc_ok ds \<and> descs_bytes ds = take len (drop base m))
      \<longleftrightarrow> (\<exists>ps. tiles (descriptor_size m) (base + len) base ps)"
  proof
    assume "\<exists>ds. list_all desc_ok ds \<and> descs_bytes ds = take len (drop base m)"
    then obtain ds where ds: "list_all desc_ok ds" "descs_bytes ds = take len (drop base m)" by blast
    then have "bytes_at m base (descs_bytes ds)" "length (descs_bytes ds) = len"
      using assms len by (simp_all add: bytes_at_def)
    with bytes_tiles [OF ds(1)] show "\<exists>ps. tiles (descriptor_size m) (base + len) base ps" by metis
  next
    assume "\<exists>ps. tiles (descriptor_size m) (base + len) base ps"
    then obtain ps where "tiles (descriptor_size m) (base + len) base ps" ..
    from tiles_bytes [OF this assms] show
      "\<exists>ds. list_all desc_ok ds \<and> descs_bytes ds = take len (drop base m)" by auto
  qed
  with verify_descriptors_safe [OF assms] verify_descriptors_tiles [OF assms] show ?thesis by auto
qed

theorem verify_descriptors_iff_witness:
  "verify_descriptors [9, 0x48, 2, 7, 8, 0x52, 0] 1 6 = Some 0"
proof -
  have "\<exists>ds. list_all desc_ok ds \<and> descs_bytes ds = take 6 (drop 1 [9, 0x48, 2, 7, 8, 0x52, 0])"
    by (intro exI [of _ "[(0x48, [7, 8]), (0x52, [])]"]) simp
  with verify_descriptors_iff [of 1 6 "[9, 0x48, 2, 7, 8, 0x52, 0]"] show ?thesis by auto
qed

text \<open>C11: over a loop that holds serialised descriptors, the check accepts and the
  \<open>for_each\<close> walk built from \<open>next_descriptor\<close> ends, never leaves the buffer, and
  visits exactly the serialised descriptors in order: tag, size and data.\<close>

theorem descriptor_loop_roundtrip:
  assumes "list_all desc_ok ds" "bytes_at m base (descs_bytes ds)"
  shows "verify_descriptors m base (length (descs_bytes ds)) = Some 0
     \<and> (\<exists>ps. for_each (\<lambda>p. next_descriptor m base (length (descs_bytes ds)) (Some p))
              (if length (descs_bytes ds) = 0 then None else Some base) = Some ps
            \<and> map (desc_at m) ps = ds)"
  using descriptor_walk [OF assms] bytes_tiles [OF assms] assms(2)
    verify_descriptors_tiles [of base "length (descs_bytes ds)" m]
  by (auto simp: bytes_at_def)

theorem descriptor_loop_roundtrip_witness:
  "\<exists>ps. for_each (\<lambda>p. next_descriptor [9, 0x48, 2, 7, 8, 0x52, 0] 1 6 (Some p)) (Some 1) = Some ps
     \<and> map (desc_at [9, 0x48, 2, 7, 8, 0x52, 0]) ps = [(0x48, [7, 8]), (0x52, [])]"
  using descriptor_loop_roundtrip [of "[(0x48, [7, 8]), (0x52, [])]" "[9, 0x48, 2, 7, 8, 0x52, 0]" 1]
  by (simp add: bytes_at_def numeral_eq_Suc)

end
