(* ===== verification/Transport_Packet.thy ===== *)
theory Transport_Packet
  imports Descriptor
begin

text \<open>
  \<open>lib/libucsi/transport_packet.c\<close> and \<open>.h\<close>: MPEG-2 transport packets.

  A packet is an object of 188 bytes.  \<open>transport_packet_values_extract\<close> walks the
  adaptation field with a cursor \<open>pos\<close>; each of its blocks is one definition here, in the
  order of the code, which returns the output structure and either \<open>None\<close> for the
  \<open>return -1\<close> of the block or the cursor and the flags extracted so far.  Pointers in the
  output structure are offsets in the packet.  The continuity check works on the header of the packet and one
  byte of state.
\<close>

section \<open>Constants and header fields\<close>

definition TRANSPORT_PACKET_LENGTH :: nat where "TRANSPORT_PACKET_LENGTH = 188"
definition TRANSPORT_PACKET_SYNC :: u8 where "TRANSPORT_PACKET_SYNC = 0x47"
definition TRANSPORT_MAX_PIDS :: nat where "TRANSPORT_MAX_PIDS = 0x2000"
definition TRANSPORT_NULL_PID :: nat where "TRANSPORT_NULL_PID = 0x1fff"
definition sizeof_transport_packet :: nat where "sizeof_transport_packet = 4"

lemmas transport_consts [simp] = TRANSPORT_PACKET_LENGTH_def TRANSPORT_PACKET_SYNC_def
  TRANSPORT_MAX_PIDS_def TRANSPORT_NULL_PID_def sizeof_transport_packet_def

definition transport_adaptation_flag_pcr :: u8 where "transport_adaptation_flag_pcr = 0x10"
definition transport_adaptation_flag_opcr :: u8 where "transport_adaptation_flag_opcr = 0x08"
definition transport_adaptation_flag_splicing_point :: u8 where
  "transport_adaptation_flag_splicing_point = 0x04"
definition transport_adaptation_flag_private_data :: u8 where
  "transport_adaptation_flag_private_data = 0x02"
definition transport_adaptation_flag_extension :: u8 where "transport_adaptation_flag_extension = 0x01"

definition transport_adaptation_extension_flag_ltw :: u8 where
  "transport_adaptation_extension_flag_ltw = 0x80"
definition transport_adaptation_extension_flag_piecewise_rate :: u8 where
  "transport_adaptation_extension_flag_piecewise_rate = 0x40"
definition transport_adaptation_extension_flag_seamless_splice :: u8 where
  "transport_adaptation_extension_flag_seamless_splice = 0x20"

definition transport_value_pcr :: u32 where "transport_value_pcr = 0x0001"
definition transport_value_opcr :: u32 where "transport_value_opcr = 0x0002"
definition transport_value_splice_countdown :: u32 where "transport_value_splice_countdown = 0x0004"
definition transport_value_private_data :: u32 where "transport_value_private_data = 0x0008"
definition transport_value_ltw :: u32 where "transport_value_ltw = 0x0100"
definition transport_value_piecewise_rate :: u32 where "transport_value_piecewise_rate = 0x0200"
definition transport_value_seamless_splice :: u32 where "transport_value_seamless_splice = 0x0400"

lemmas transport_flags =
  transport_adaptation_flag_pcr_def transport_adaptation_flag_opcr_def
  transport_adaptation_flag_splicing_point_def transport_adaptation_flag_private_data_def
  transport_adaptation_flag_extension_def transport_adaptation_extension_flag_ltw_def
  transport_adaptation_extension_flag_piecewise_rate_def
  transport_adaptation_extension_flag_seamless_splice_def

lemmas transport_values_defs =
  transport_value_pcr_def transport_value_opcr_def transport_value_splice_countdown_def
  transport_value_private_data_def transport_value_ltw_def transport_value_piecewise_rate_def
  transport_value_seamless_splice_def

text \<open>The bit-fields of \<open>struct transport_packet\<close>.\<close>

definition pid_hi :: "mem \<Rightarrow> u8 option" where
  "pid_hi m = do { b \<leftarrow> rd m 1; Some (take_bit 5 b) }"

definition pid_lo :: "mem \<Rightarrow> u8 option" where
  "pid_lo m = rd m 2"

definition adaptation_field_control :: "mem \<Rightarrow> u8 option" where
  "adaptation_field_control m = do { b \<leftarrow> rd m 3; Some (take_bit 2 (drop_bit 4 b)) }"

definition continuity_counter :: "mem \<Rightarrow> u8 option" where
  "continuity_counter m = do { b \<leftarrow> rd m 3; Some (take_bit 4 b) }"

definition transport_packet_pid :: "mem \<Rightarrow> nat option" where
  "transport_packet_pid m = do { h \<leftarrow> pid_hi m; l \<leftarrow> pid_lo m; Some (unat (be16 h l)) }"

definition transport_packet_init :: "mem \<Rightarrow> bool option" where
  "transport_packet_init buf =
     do { s \<leftarrow> rd buf 0;
          if s \<noteq> TRANSPORT_PACKET_SYNC then Some False
          else do { pid \<leftarrow> transport_packet_pid buf;
                    Some (\<not> pid \<ge> TRANSPORT_MAX_PIDS) } }"

record transport_values =
  tv_flags :: u8
  tv_payload :: "nat option"
  tv_payload_length :: u16
  tv_pcr :: u64
  tv_opcr :: u64
  tv_splice_countdown :: u8
  tv_private_data_length :: u8
  tv_private_data :: nat
  tv_ltw_offset :: u16
  tv_piecewise_rate :: u32
  tv_splice_type :: u8
  tv_dts_next_au :: u64

text \<open>An output structure filled with zeroes.\<close>

definition no_values :: transport_values where
  "no_values = \<lparr>tv_flags = 0, tv_payload = None, tv_payload_length = 0, tv_pcr = 0, tv_opcr = 0,
     tv_splice_countdown = 0, tv_private_data_length = 0, tv_private_data = 0, tv_ltw_offset = 0,
     tv_piecewise_rate = 0, tv_splice_type = 0, tv_dts_next_au = 0\<rparr>"

section \<open>Value extraction\<close>

type_synonym 'a block = "(transport_values \<times> 'a option) option"

text \<open>Sequencing of blocks: a \<open>return -1\<close> ends the function.\<close>

definition and_then ::
  "'a block \<Rightarrow> (transport_values \<Rightarrow> 'a \<Rightarrow> 'b block) \<Rightarrow> 'b block" where
  "and_then f g = do { (out, r) \<leftarrow> f; case r of None \<Rightarrow> Some (out, None) | Some x \<Rightarrow> g out x }"

text \<open>\<open>base * 300 + ext\<close> of the six bytes of a clock reference.\<close>

definition clock_value :: "mem \<Rightarrow> nat \<Rightarrow> u64 option" where
  "clock_value m pos =
     do { p0 \<leftarrow> rd m pos; p1 \<leftarrow> rd m (pos + 1); p2 \<leftarrow> rd m (pos + 2); p3 \<leftarrow> rd m (pos + 3);
          p4 \<leftarrow> rd m (pos + 4); p5 \<leftarrow> rd m (pos + 5);
          let base = push_bit 25 (ucast p0) OR push_bit 17 (ucast p1) OR push_bit 9 (ucast p2)
                     OR push_bit 1 (ucast p3) OR drop_bit 7 (ucast p4);
          let ext = push_bit 8 (ucast p4 AND 1) OR ucast p5;
          Some (base * 300 + ext) }"

definition extract_pcr ::
  "mem \<Rightarrow> nat \<Rightarrow> u8 \<Rightarrow> u32 \<Rightarrow> transport_values \<Rightarrow> nat \<times> u32 \<Rightarrow> (nat \<times> u32) block" where
  "extract_pcr m adapend adapflags extract out = (\<lambda>(pos, extracted).
     if adapflags AND transport_adaptation_flag_pcr \<noteq> 0 then
       if pos + 6 > adapend then Some (out, None)
       else if extract AND transport_value_pcr \<noteq> 0 then
         do { v \<leftarrow> clock_value m pos;
              Some (out\<lparr>tv_pcr := v\<rparr>, Some (pos + 6, extracted OR transport_value_pcr)) }
       else Some (out, Some (pos + 6, extracted))
     else Some (out, Some (pos, extracted)))"

definition extract_opcr ::
  "mem \<Rightarrow> nat \<Rightarrow> u8 \<Rightarrow> u32 \<Rightarrow> transport_values \<Rightarrow> nat \<times> u32 \<Rightarrow> (nat \<times> u32) block" where
  "extract_opcr m adapend adapflags extract out = (\<lambda>(pos, extracted).
     if adapflags AND transport_adaptation_flag_opcr \<noteq> 0 then
       if pos + 6 > adapend then Some (out, None)
       else if extract AND transport_value_opcr \<noteq> 0 then
         do { v \<leftarrow> clock_value m pos;
              Some (out\<lparr>tv_opcr := v\<rparr>, Some (pos + 6, extracted OR transport_value_opcr)) }
       else Some (out, Some (pos + 6, extracted))
     else Some (out, Some (pos, extracted)))"

definition extract_splice_countdown ::
  "mem \<Rightarrow> nat \<Rightarrow> u8 \<Rightarrow> u32 \<Rightarrow> transport_values \<Rightarrow> nat \<times> u32 \<Rightarrow> (nat \<times> u32) block" where
  "extract_splice_countdown m adapend adapflags extract out = (\<lambda>(pos, extracted).
     if adapflags AND transport_adaptation_flag_splicing_point \<noteq> 0 then
       if pos + 1 > adapend then Some (out, None)
       else if extract AND transport_value_splice_countdown \<noteq> 0 then
         do { v \<leftarrow> rd m pos;
              Some (out\<lparr>tv_splice_countdown := v\<rparr>,
                Some (pos + 1, extracted OR transport_value_splice_countdown)) }
       else Some (out, Some (pos + 1, extracted))
     else Some (out, Some (pos, extracted)))"

definition extract_private_data ::
  "mem \<Rightarrow> nat \<Rightarrow> u8 \<Rightarrow> u32 \<Rightarrow> transport_values \<Rightarrow> nat \<times> u32 \<Rightarrow> (nat \<times> u32) block" where
  "extract_private_data m adapend adapflags extract out = (\<lambda>(pos, extracted).
     if adapflags AND transport_adaptation_flag_private_data \<noteq> 0 then
       if pos + 1 > adapend then Some (out, None)
       else do {
         l \<leftarrow> rd m pos;
         if pos + 1 + unat l > adapend then Some (out, None)
         else if extract AND transport_value_private_data \<noteq> 0 then
           Some (out\<lparr>tv_private_data_length := l, tv_private_data := pos + 1\<rparr>,
             Some (pos + 1 + unat l, extracted OR transport_value_private_data))
         else Some (out, Some (pos + 1 + unat l, extracted)) }
     else Some (out, Some (pos, extracted)))"

definition extract_ltw ::
  "mem \<Rightarrow> nat \<Rightarrow> u8 \<Rightarrow> u32 \<Rightarrow> transport_values \<Rightarrow> nat \<times> u32 \<Rightarrow> (nat \<times> u32) block" where
  "extract_ltw m adapend adapextflags extract out = (\<lambda>(pos, extracted).
     if adapextflags AND transport_adaptation_extension_flag_ltw \<noteq> 0 then
       if pos + 2 > adapend then Some (out, None)
       else if extract AND transport_value_ltw \<noteq> 0 then
         do { p0 \<leftarrow> rd m pos;
              if p0 AND 0x80 \<noteq> 0 then
                do { p1 \<leftarrow> rd m (pos + 1);
                     Some (out\<lparr>tv_ltw_offset := be16 (p0 AND 0x7f) p1\<rparr>,
                       Some (pos + 2, extracted OR transport_value_ltw)) }
              else Some (out, Some (pos + 2, extracted)) }
       else Some (out, Some (pos + 2, extracted))
     else Some (out, Some (pos, extracted)))"

definition extract_piecewise_rate ::
  "mem \<Rightarrow> nat \<Rightarrow> u8 \<Rightarrow> u32 \<Rightarrow> transport_values \<Rightarrow> nat \<times> u32 \<Rightarrow> (nat \<times> u32) block" where
  "extract_piecewise_rate m adapend adapextflags extract out = (\<lambda>(pos, extracted).
     if adapextflags AND transport_adaptation_extension_flag_piecewise_rate \<noteq> 0 then
       if pos + 3 > adapend then Some (out, None)
       else if extract AND transport_value_piecewise_rate \<noteq> 0 then
         do { p0 \<leftarrow> rd m pos; p1 \<leftarrow> rd m (pos + 1); p2 \<leftarrow> rd m (pos + 2);
              Some (out\<lparr>tv_piecewise_rate := be32 0 (p0 AND 0x3f) p1 p2\<rparr>,
                Some (pos + 3, extracted OR transport_value_piecewise_rate)) }
       else Some (out, Some (pos + 3, extracted))
     else Some (out, Some (pos, extracted)))"

text \<open>
  The value of \<open>dts_next_au\<close> is computed in type \<open>int\<close> and then converted to
  \<open>uint64_t\<close>: 32 bits that are sign extended (the shift that overflows \<open>int\<close> is
  taken with the two's complement result that GCC documents).  The guard is the one of the code,
  \<open>transport_value_piecewise_rate\<close>.
\<close>

definition extract_seamless_splice ::
  "mem \<Rightarrow> nat \<Rightarrow> u8 \<Rightarrow> u32 \<Rightarrow> transport_values \<Rightarrow> nat \<times> u32 \<Rightarrow> (nat \<times> u32) block" where
  "extract_seamless_splice m adapend adapextflags extract out = (\<lambda>(pos, extracted).
     if adapextflags AND transport_adaptation_extension_flag_seamless_splice \<noteq> 0 then
       if pos + 5 > adapend then Some (out, None)
       else if extract AND transport_value_piecewise_rate \<noteq> 0 then
         do { p0 \<leftarrow> rd m pos; p1 \<leftarrow> rd m (pos + 1); p2 \<leftarrow> rd m (pos + 2);
              p3 \<leftarrow> rd m (pos + 3); p4 \<leftarrow> rd m (pos + 4);
              let dts = (push_bit 29 (ucast (p0 AND 0x0e)) OR push_bit 22 (ucast p1)
                         OR push_bit 14 (ucast (p2 AND 0xfe)) OR push_bit 7 (ucast p3)
                         OR ucast (drop_bit 1 (p4 AND 0xfe)) :: u32);
              Some (out\<lparr>tv_splice_type := drop_bit 4 p0, tv_dts_next_au := scast dts\<rparr>,
                Some (pos + 5, extracted OR transport_value_seamless_splice)) }
       else Some (out, Some (pos + 5, extracted))
     else Some (out, Some (pos, extracted)))"

definition extract_extension ::
  "mem \<Rightarrow> nat \<Rightarrow> u8 \<Rightarrow> u32 \<Rightarrow> transport_values \<Rightarrow> nat \<times> u32 \<Rightarrow> u32 block" where
  "extract_extension m adapend adapflags extract out = (\<lambda>(pos, extracted).
     if adapflags AND transport_adaptation_flag_extension = 0 then Some (out, Some extracted)
     else if pos \<ge> adapend then Some (out, None)
     else do {
       l \<leftarrow> rd m pos;
       if pos + 1 + unat l > adapend then Some (out, None)
       else if extract AND 0xff00 = 0 \<or> l = 0 then Some (out, Some extracted)
       else do {
         adapextflags \<leftarrow> rd m (pos + 1);
         and_then (extract_ltw m adapend adapextflags extract out (pos + 2, extracted)) (\<lambda>out st.
         and_then (extract_piecewise_rate m adapend adapextflags extract out st) (\<lambda>out st.
         and_then (extract_seamless_splice m adapend adapextflags extract out st) (\<lambda>out (pos, extracted).
         Some (out, Some extracted)))) } })"

definition extract_adaptation ::
  "mem \<Rightarrow> nat \<Rightarrow> u8 \<Rightarrow> u32 \<Rightarrow> transport_values \<Rightarrow> nat \<Rightarrow> u32 block" where
  "extract_adaptation m adapend adapflags extract out pos =
     and_then (extract_pcr m adapend adapflags extract out (pos, 0)) (\<lambda>out st.
     and_then (extract_opcr m adapend adapflags extract out st) (\<lambda>out st.
     and_then (extract_splice_countdown m adapend adapflags extract out st) (\<lambda>out st.
     and_then (extract_private_data m adapend adapflags extract out st) (\<lambda>out st.
     extract_extension m adapend adapflags extract out st))))"

definition extract_payload ::
  "u8 \<Rightarrow> nat \<Rightarrow> u8 \<Rightarrow> transport_values \<Rightarrow> u32 \<Rightarrow> transport_values \<times> int" where
  "extract_payload afc adaplength adapflags out extracted =
     (let out = (if afc AND 1 \<noteq> 0 then
            let off = sizeof_transport_packet + (if afc AND 2 \<noteq> 0 then 1 else 0) + adaplength
            in out\<lparr>tv_payload := Some off, tv_payload_length := of_nat (TRANSPORT_PACKET_LENGTH - off)\<rparr>
          else out\<lparr>tv_payload := None, tv_payload_length := 0\<rparr>)
      in (out\<lparr>tv_flags := adapflags\<rparr>, int (unat extracted)))"

definition transport_packet_values_extract ::
  "mem \<Rightarrow> transport_values \<Rightarrow> u32 \<Rightarrow> (transport_values \<times> int) option" where
  "transport_packet_values_extract pkt out extract =
     do {
       afc \<leftarrow> adaptation_field_control pkt;
       if afc AND 2 = 0 then Some (extract_payload afc 0 0 out 0)
       else do {
         adaplength \<leftarrow> rd pkt sizeof_transport_packet;
         let pos = sizeof_transport_packet + 1;
         if adaplength = 0 then Some (extract_payload afc 0 0 out 0)
         else do {
           let adapend = pos + unat adaplength;
           if adapend > TRANSPORT_PACKET_LENGTH then Some (out, -1)
           else do {
             adapflags \<leftarrow> rd pkt pos;
             if extract AND 0xffff = 0 then
               Some (extract_payload afc (unat adaplength) adapflags out 0)
             else do {
               (out, r) \<leftarrow> extract_adaptation pkt adapend adapflags extract out (pos + 1);
               case r of
                 None \<Rightarrow> Some (out, -1)
               | Some extracted \<Rightarrow>
                   Some (extract_payload afc (unat adaplength) adapflags out extracted) } } } } }"

section \<open>Continuity check\<close>

definition CONTINUITY_VALID :: u8 where "CONTINUITY_VALID = 0x80"
definition CONTINUITY_DUPESEEN :: u8 where "CONTINUITY_DUPESEEN = 0x40"

definition transport_packet_continuity_check :: "mem \<Rightarrow> bool \<Rightarrow> u8 \<Rightarrow> (int \<times> u8) option" where
  "transport_packet_continuity_check pkt discontinuity_indicator cstate =
     do {
       pktcontinuity \<leftarrow> continuity_counter pkt;
       let prevcontinuity = cstate AND 0x0f;
       pid \<leftarrow> transport_packet_pid pkt;
       if pid = TRANSPORT_NULL_PID then Some (0, cstate)
       else if cstate AND CONTINUITY_VALID = 0 then Some (0, pktcontinuity OR CONTINUITY_VALID)
       else if discontinuity_indicator then Some (0, pktcontinuity OR CONTINUITY_VALID)
       else do {
         afc \<leftarrow> adaptation_field_control pkt;
         let nextcontinuity = (if afc AND 1 \<noteq> 0 then (prevcontinuity + 1) AND 0xf else prevcontinuity);
         if nextcontinuity = pktcontinuity then Some (0, pktcontinuity OR CONTINUITY_VALID)
         else if prevcontinuity = pktcontinuity \<and> cstate AND CONTINUITY_DUPESEEN = 0 then
           Some (0, pktcontinuity OR (CONTINUITY_VALID OR CONTINUITY_DUPESEEN))
         else Some (-1, cstate) } }"

section \<open>Memory safety of the extraction\<close>

lemma wp_and_then [wp_rules]:
  "wp (and_then f g) Q \<longleftrightarrow>
     wp f (\<lambda>r. case snd r of None \<Rightarrow> Q (fst r, None) | Some x \<Rightarrow> wp (g (fst r) x) Q)"
  unfolding and_then_def wp_bind
  by (intro arg_cong [where f = "wp f"] ext) (auto simp: wp_Some split: option.splits prod.splits)

text \<open>What holds of the output structure and the extracted flags after every block.\<close>

definition fields_ok :: "nat \<Rightarrow> transport_values \<Rightarrow> u32 \<Rightarrow> bool" where
  "fields_ok adapend out extracted \<longleftrightarrow>
     (bit extracted 0 \<longrightarrow> unat (tv_pcr out) < 2 ^ 33 * 300 + 512) \<and>
     (bit extracted 1 \<longrightarrow> unat (tv_opcr out) < 2 ^ 33 * 300 + 512) \<and>
     (bit extracted 3 \<longrightarrow> tv_private_data out + unat (tv_private_data_length out) \<le> adapend) \<and>
     (bit extracted 8 \<longrightarrow> unat (tv_ltw_offset out) < 2 ^ 15) \<and>
     (bit extracted 9 \<longrightarrow> unat (tv_piecewise_rate out) < 2 ^ 22) \<and>
     (\<forall>n. bit extracted n \<longrightarrow> n \<in> {0, 1, 2, 3, 8, 9, 10})"

definition block_ok :: "nat \<Rightarrow> nat \<Rightarrow> transport_values \<times> (nat \<times> u32) option \<Rightarrow> bool" where
  "block_ok adapend pos r \<longleftrightarrow>
     (case snd r of None \<Rightarrow> True
      | Some (pos', extracted) \<Rightarrow> pos \<le> pos' \<and> pos' \<le> adapend \<and> fields_ok adapend (fst r) extracted)"

lemma bit_value [simp]:
  "bit transport_value_pcr n \<longleftrightarrow> n = 0" "bit transport_value_opcr n \<longleftrightarrow> n = 1"
  "bit transport_value_splice_countdown n \<longleftrightarrow> n = 2" "bit transport_value_private_data n \<longleftrightarrow> n = 3"
  "bit transport_value_ltw n \<longleftrightarrow> n = 8" "bit transport_value_piecewise_rate n \<longleftrightarrow> n = 9"
  "bit transport_value_seamless_splice n \<longleftrightarrow> n = 10"
proof -
  have "bit (2 ^ k :: u32) n \<longleftrightarrow> n = k" if "k < 32" for k
    using that by (auto simp: bit_exp_iff)
  from this [of 0] this [of 1] this [of 2] this [of 3] this [of 8] this [of 9] this [of 10]
  show "bit transport_value_pcr n \<longleftrightarrow> n = 0" "bit transport_value_opcr n \<longleftrightarrow> n = 1"
    "bit transport_value_splice_countdown n \<longleftrightarrow> n = 2" "bit transport_value_private_data n \<longleftrightarrow> n = 3"
    "bit transport_value_ltw n \<longleftrightarrow> n = 8" "bit transport_value_piecewise_rate n \<longleftrightarrow> n = 9"
    "bit transport_value_seamless_splice n \<longleftrightarrow> n = 10"
    by (simp_all add: transport_values_defs)
qed

lemma less_2p_bits: "(\<And>n. n \<ge> k \<Longrightarrow> \<not> bit w n) \<Longrightarrow> unat (w :: 'a::len word) < 2 ^ k"
proof -
  assume b: "\<And>n. n \<ge> k \<Longrightarrow> \<not> bit w n"
  have "take_bit k w = w" by (rule bit_word_eqI) (use b in \<open>auto simp: bit_simps intro: ccontr\<close>)
  then have "unat w = take_bit k (unat w)" by (metis unsigned_take_bit_eq)
  then show ?thesis by (metis take_bit_nat_less_exp)
qed

text \<open>A clock reference is below \<open>2 ^ 33 * 300 + 512\<close>: its 64-bit arithmetic does not wrap.\<close>

lemma clock_arith:
  assumes "unat (base :: u64) < 2 ^ 33" "unat (ext :: u64) < 512"
  shows "unat (base * 300 + ext) = unat base * 300 + unat ext"
  using assms by (simp add: unat_word_ariths)

lemma clock_value_bound:
  "pos + 6 \<le> length m \<Longrightarrow> wp (clock_value m pos) (\<lambda>v. unat v < 2 ^ 33 * 300 + 512)"
proof -
  have ext: "unat (push_bit 8 (ucast p4 AND 1) OR ucast p5 :: u64) < 2 ^ 9" for p4 p5 :: u8
    by (rule less_2p_bits) (simp only: bit_simps, auto)
  have base: "unat (push_bit 25 (ucast p0) OR push_bit 17 (ucast p1) OR push_bit 9 (ucast p2)
         OR push_bit 1 (ucast p3) OR drop_bit 7 (ucast p4) :: u64) < 2 ^ 33" for p0 p1 p2 p3 p4 :: u8
    by (rule less_2p_bits) (simp only: bit_simps, auto simp: bit_simps)
  have "unat (b * 300 + x) < 2 ^ 33 * 300 + 512"
    if "unat (b :: u64) < 2 ^ 33" "unat (x :: u64) < 2 ^ 9" for b x
  proof -
    have "unat b * 300 + unat x < 2 ^ 33 * 300 + 512" using that by simp
    with clock_arith [of b x] that show ?thesis by simp
  qed
  note fin = this [OF base ext]
  assume "pos + 6 \<le> length m"
  then show ?thesis unfolding clock_value_def Let_def
    by (simp only: wp_rules) (intro conjI fin; linarith)
qed

lemma wp_clock_value [wp_rules]:
  "pos + 6 \<le> length m \<Longrightarrow> (\<And>v. unat v < 2 ^ 33 * 300 + 512 \<Longrightarrow> Q v) \<Longrightarrow> wp (clock_value m pos) Q"
  using clock_value_bound [of pos m] wp_mono by blast

lemma ltw_bound: "unat (be16 (a AND 0x7f) b) < 2 ^ 15"
proof -
  have m: "(0x7f :: u8) = mask 7" by (simp add: mask_eq_exp_minus_1)
  show ?thesis unfolding m be16_def by (intro less_2p_bits) (auto simp: bit_simps)
qed

lemma rate_bound: "unat (be32 0 (a AND 0x3f) b c) < 2 ^ 22"
proof -
  have m: "(0x3f :: u8) = mask 6" by (simp add: mask_eq_exp_minus_1)
  show ?thesis unfolding m be32_def by (intro less_2p_bits) (auto simp: bit_simps)
qed

lemma block_pcr:
  "pos \<le> adapend \<Longrightarrow> adapend \<le> length m \<Longrightarrow> fields_ok adapend out extracted \<Longrightarrow>
   wp (extract_pcr m adapend fl ex out (pos, extracted)) (block_ok adapend pos)"
  by (auto simp: extract_pcr_def wp_rules block_ok_def fields_ok_def bit_or_iff intro!: wp_clock_value)

lemma block_opcr:
  "pos \<le> adapend \<Longrightarrow> adapend \<le> length m \<Longrightarrow> fields_ok adapend out extracted \<Longrightarrow>
   wp (extract_opcr m adapend fl ex out (pos, extracted)) (block_ok adapend pos)"
  by (auto simp: extract_opcr_def wp_rules block_ok_def fields_ok_def bit_or_iff intro!: wp_clock_value)

lemma block_splice_countdown:
  "pos \<le> adapend \<Longrightarrow> adapend \<le> length m \<Longrightarrow> fields_ok adapend out extracted \<Longrightarrow>
   wp (extract_splice_countdown m adapend fl ex out (pos, extracted)) (block_ok adapend pos)"
  by (auto simp: extract_splice_countdown_def wp_rules block_ok_def fields_ok_def bit_or_iff)

lemma block_private_data:
  "pos \<le> adapend \<Longrightarrow> adapend \<le> length m \<Longrightarrow> fields_ok adapend out extracted \<Longrightarrow>
   wp (extract_private_data m adapend fl ex out (pos, extracted)) (block_ok adapend pos)"
  by (auto simp: extract_private_data_def wp_rules block_ok_def fields_ok_def bit_or_iff)

lemma block_ltw:
  "pos \<le> adapend \<Longrightarrow> adapend \<le> length m \<Longrightarrow> fields_ok adapend out extracted \<Longrightarrow>
   wp (extract_ltw m adapend fl ex out (pos, extracted)) (block_ok adapend pos)"
  using ltw_bound by (auto simp: extract_ltw_def wp_rules block_ok_def fields_ok_def bit_or_iff)

lemma block_piecewise_rate:
  "pos \<le> adapend \<Longrightarrow> adapend \<le> length m \<Longrightarrow> fields_ok adapend out extracted \<Longrightarrow>
   wp (extract_piecewise_rate m adapend fl ex out (pos, extracted)) (block_ok adapend pos)"
  using rate_bound by (auto simp: extract_piecewise_rate_def wp_rules block_ok_def fields_ok_def bit_or_iff)

lemma block_seamless_splice:
  "pos \<le> adapend \<Longrightarrow> adapend \<le> length m \<Longrightarrow> fields_ok adapend out extracted \<Longrightarrow>
   wp (extract_seamless_splice m adapend fl ex out (pos, extracted)) (block_ok adapend pos)"
  by (auto simp: extract_seamless_splice_def wp_rules block_ok_def fields_ok_def bit_or_iff Let_def)

lemmas blocks = block_pcr block_opcr block_splice_countdown block_private_data block_ltw
  block_piecewise_rate block_seamless_splice

text \<open>One rule for the sequence: every block keeps the cursor and the fields.\<close>

lemma wp_block_then:
  assumes "wp f (block_ok adapend pos)"
    and "\<And>out pos' extracted. pos \<le> pos' \<Longrightarrow> pos' \<le> adapend \<Longrightarrow> fields_ok adapend out extracted \<Longrightarrow>
           wp (g out (pos', extracted)) Q"
    and "\<And>out. Q (out, None)"
  shows "wp (and_then f g) Q"
  unfolding wp_and_then
  by (rule wp_mono [OF assms(1)]) (use assms(2,3) in \<open>auto simp: block_ok_def split: option.splits\<close>)

definition result_ok :: "nat \<Rightarrow> transport_values \<times> u32 option \<Rightarrow> bool" where
  "result_ok adapend r \<longleftrightarrow> (case snd r of None \<Rightarrow> True | Some extracted \<Rightarrow> fields_ok adapend (fst r) extracted)"

lemma extension_ok:
  assumes "pos \<le> adapend" "adapend \<le> length m" "fields_ok adapend out extracted"
  shows "wp (extract_extension m adapend fl ex out (pos, extracted)) (result_ok adapend)"
proof -
  have step: "wp (and_then (extract_ltw m adapend afl ex out (p, extracted)) (\<lambda>out st.
         and_then (extract_piecewise_rate m adapend afl ex out st) (\<lambda>out st.
         and_then (extract_seamless_splice m adapend afl ex out st) (\<lambda>out (pos, extracted).
         Some (out, Some extracted))))) (result_ok adapend)" if "p \<le> adapend" for p afl
    by (rule wp_block_then, rule block_ltw [OF that assms(2,3)],
        rule wp_block_then, erule block_piecewise_rate [OF _ assms(2)], assumption,
        rule wp_block_then, erule block_seamless_splice [OF _ assms(2)], assumption)
      (simp_all add: result_ok_def wp_Some)
  have "x \<noteq> 0 \<Longrightarrow> Suc 0 \<le> unat x" for x :: u8
    by (metis unsigned_eq_0_iff Suc_leI neq0_conv)
  from this [of "m ! pos"] assms show ?thesis
    unfolding extract_extension_def
    by (auto simp: wp_bind wp_rd wp_Some result_ok_def [of _ "(_, None)"] result_ok_def [of _ "(_, Some _)"]
        intro!: step)
qed

lemma fields_ok_0 [simp]: "fields_ok adapend out 0"
  by (simp add: fields_ok_def)

lemma adaptation_ok:
  assumes "pos \<le> adapend" "adapend \<le> length m"
  shows "wp (extract_adaptation m adapend fl ex out pos) (result_ok adapend)"
  unfolding extract_adaptation_def
  by (rule wp_block_then, rule block_pcr [OF assms], simp,
      rule wp_block_then, erule block_opcr [OF _ assms(2)], assumption,
      rule wp_block_then, erule block_splice_countdown [OF _ assms(2)], assumption,
      rule wp_block_then, erule block_private_data [OF _ assms(2)], assumption,
      erule extension_ok [OF _ assms(2)])
    (simp_all add: result_ok_def)

section \<open>Properties of the extraction\<close>

lemma fields_ok_payload [simp]:
  "fields_ok n (out\<lparr>tv_payload := a\<rparr>) x = fields_ok n out x"
  "fields_ok n (out\<lparr>tv_payload_length := b\<rparr>) x = fields_ok n out x"
  "fields_ok n (out\<lparr>tv_flags := c\<rparr>) x = fields_ok n out x"
  by (simp_all add: fields_ok_def)

lemma unat_183_minus: "l \<le> 183 \<Longrightarrow> unat (183 - word_of_nat l :: u16) = 183 - l"
  by (subst unat_sub) (simp_all add: word_le_nat_alt unat_of_nat_u16)

lemma extract_payload_bounds:
  assumes "extract_payload afc l fl out extracted = (out', r)" "l \<le> 183"
    and "afc AND 2 = 0 \<Longrightarrow> l = 0"
  shows "r = int (unat extracted) \<and> tv_flags out' = fl
     \<and> (case tv_payload out' of None \<Rightarrow> afc AND 1 = 0 \<and> tv_payload_length out' = 0
        | Some off \<Rightarrow> afc AND 1 \<noteq> 0 \<and> 4 \<le> off \<and> off + unat (tv_payload_length out') = 188)
     \<and> fields_ok n out extracted = fields_ok n out' extracted"
  using assms by (auto simp: extract_payload_def Let_def unat_of_nat_u16 unat_183_minus split: if_splits)

definition extract_ok :: "transport_values \<times> int \<Rightarrow> bool" where
  "extract_ok res \<longleftrightarrow> (case res of (out, r) \<Rightarrow>
     r = -1 \<or> (\<exists>extracted. r = int (unat extracted) \<and> fields_ok 188 out extracted
        \<and> (case tv_payload out of
             None \<Rightarrow> tv_payload_length out = 0
           | Some off \<Rightarrow> 4 \<le> off \<and> off + unat (tv_payload_length out) = 188)))"

lemma extract_payload_ok:
  assumes "l \<le> 183" "afc AND 2 = 0 \<Longrightarrow> l = 0" "fields_ok 188 out extracted"
  shows "extract_ok (extract_payload afc l fl out extracted)"
proof -
  obtain out' r where e: "extract_payload afc l fl out extracted = (out', r)" by fastforce
  from extract_payload_bounds [OF e assms(1,2), of 188] assms(3) show ?thesis
    unfolding e extract_ok_def by (auto split: option.splits)
qed

lemma fields_ok_mono: "fields_ok n out extracted \<Longrightarrow> n \<le> k \<Longrightarrow> fields_ok k out extracted"
  by (auto simp: fields_ok_def)

lemma wp_values_extract:
  assumes "length pkt = 188"
  shows "wp (transport_packet_values_extract pkt out extract) extract_ok"
proof -
  let ?afc = "take_bit 2 (drop_bit 4 (pkt ! 3))" and ?n = "unat (pkt ! 4)"
  have z: "pkt ! 4 = 0 \<longleftrightarrow> ?n = 0" by (simp add: unsigned_eq_0_iff)
  show ?thesis
  proof (cases "?afc AND 2 = 0 \<or> ?n = 0 \<or> 5 + ?n > 188")
    case True
    with assms z extract_payload_ok [of 0 ?afc out 0] show ?thesis
      by (auto simp: transport_packet_values_extract_def adaptation_field_control_def Let_def wp_rules)
        (auto simp: extract_ok_def)
  next
    case False
    then have "6 \<le> 5 + ?n" "5 + ?n \<le> length pkt" using assms by auto
    then have "wp (extract_adaptation pkt (5 + ?n) (pkt ! 5) extract out 6) (result_ok (5 + ?n))"
      by (rule adaptation_ok)
    then obtain out1 r where
      ad: "extract_adaptation pkt (5 + ?n) (pkt ! 5) extract out 6 = Some (out1, r)"
      and ok: "result_ok (5 + ?n) (out1, r)" by (auto simp: wp_def)
    then have "fields_ok 188 out1 x" if "r = Some x" for x
      using that fields_ok_mono [of "5 + ?n" out1 x 188] False by (auto simp: result_ok_def)
    then have "extract_ok (case r of None \<Rightarrow> (out1, -1)
        | Some x \<Rightarrow> extract_payload ?afc ?n (pkt ! 5) out1 x)"
      using False by (auto simp: extract_ok_def [of "(_, -1)"] intro: extract_payload_ok split: option.splits)
    moreover have "extract_ok (extract_payload ?afc ?n (pkt ! 5) out 0)"
      using False by (intro extract_payload_ok) auto
    ultimately show ?thesis using False assms z ad
      by (auto simp: transport_packet_values_extract_def adaptation_field_control_def Let_def wp_rules
          split: option.splits)
  qed
qed

text \<open>C20: on every 188-byte packet \<open>transport_packet_values_extract\<close> stays inside the packet,
  whatever its contents.  It either returns \<open>-1\<close> or a set of known value flags; the payload it
  reports, if the packet has one, ends exactly at the end of the packet, reported private data lies inside the
  packet, and clock references are below \<open>2 ^ 33 * 300 + 512\<close>.\<close>

theorem values_extract_safe:
  assumes "length pkt = 188"
  shows "\<exists>out' r. transport_packet_values_extract pkt out extract = Some (out', r)
    \<and> (r = -1 \<or> (\<exists>extracted. r = int (unat extracted) \<and> fields_ok 188 out' extracted
        \<and> (case tv_payload out' of
             None \<Rightarrow> tv_payload_length out' = 0
           | Some off \<Rightarrow> 4 \<le> off \<and> off + unat (tv_payload_length out') = 188)))"
  using wp_values_extract [OF assms, of out "extract"] by (auto simp: wp_def extract_ok_def)

theorem values_extract_safe_witness:
  "\<exists>out' r. transport_packet_values_extract ([0x47, 0, 0, 0x30, 183] @ replicate 183 0xff) no_values 0xffff
     = Some (out', r)"
  using values_extract_safe [of "[0x47, 0, 0, 0x30, 183] @ replicate 183 0xff" no_values "0xffff"] by auto

section \<open>The adaptation field of ISO/IEC 13818-1\<close>

text \<open>
  The abstract adaptation field and its serialisation: clock references are a 33-bit base and a
  9-bit extension, private data is preceded by its length, the extension carries an optional legal time
  window offset (with its valid flag set) and an optional piecewise rate.
\<close>

record adaptation =
  ad_hi :: u8
  ad_pcr :: "(u64 \<times> u64) option"
  ad_opcr :: "(u64 \<times> u64) option"
  ad_splice :: "u8 option"
  ad_private :: "u8 list option"
  ad_ext :: "(u16 option \<times> u32 option) option"

fun clock_ok :: "u64 \<times> u64 \<Rightarrow> bool" where
  "clock_ok (base, ext) \<longleftrightarrow> unat base < 2 ^ 33 \<and> unat ext < 2 ^ 9"

fun clock_bytes :: "u64 \<times> u64 \<Rightarrow> u8 list" where
  "clock_bytes (base, ext) =
     [ucast (drop_bit 25 base), ucast (drop_bit 17 base), ucast (drop_bit 9 base),
      ucast (drop_bit 1 base),
      push_bit 7 (ucast base) OR 0x7e OR ucast (drop_bit 8 ext), ucast ext]"

fun ext_ok :: "u16 option \<times> u32 option \<Rightarrow> bool" where
  "ext_ok (l, r) \<longleftrightarrow>
     (case l of None \<Rightarrow> True | Some v \<Rightarrow> unat v < 2 ^ 15) \<and>
     (case r of None \<Rightarrow> True | Some v \<Rightarrow> unat v < 2 ^ 22)"

definition ltw_bytes :: "u16 \<Rightarrow> u8 list" where
  "ltw_bytes v = [0x80 OR ucast (drop_bit 8 v), ucast v]"

definition rate_bytes :: "u32 \<Rightarrow> u8 list" where
  "rate_bytes v = [0xc0 OR ucast (drop_bit 16 v), ucast (drop_bit 8 v), ucast v]"

fun ext_flags :: "u16 option \<times> u32 option \<Rightarrow> u8" where
  "ext_flags (l, r) = (if l = None then 0 else 0x80) OR (if r = None then 0 else 0x40)"

abbreviation opt_bytes :: "('a \<Rightarrow> u8 list) \<Rightarrow> 'a option \<Rightarrow> u8 list" where
  "opt_bytes f x \<equiv> (case x of None \<Rightarrow> [] | Some v \<Rightarrow> f v)"

fun ext_body :: "u16 option \<times> u32 option \<Rightarrow> u8 list" where
  "ext_body (l, r) = ext_flags (l, r) # opt_bytes ltw_bytes l @ opt_bytes rate_bytes r"

definition ext_bytes :: "u16 option \<times> u32 option \<Rightarrow> u8 list" where
  "ext_bytes x = of_nat (length (ext_body x)) # ext_body x"

definition private_bytes :: "u8 list \<Rightarrow> u8 list" where
  "private_bytes d = of_nat (length d) # d"

definition ad_flags :: "adaptation \<Rightarrow> u8" where
  "ad_flags a = (ad_hi a AND 0xe0)
     OR (if ad_pcr a = None then 0 else 0x10) OR (if ad_opcr a = None then 0 else 0x08)
     OR (if ad_splice a = None then 0 else 0x04) OR (if ad_private a = None then 0 else 0x02)
     OR (if ad_ext a = None then 0 else 0x01)"

definition ad_bytes :: "adaptation \<Rightarrow> u8 list" where
  "ad_bytes a = ad_flags a # opt_bytes clock_bytes (ad_pcr a) @ opt_bytes clock_bytes (ad_opcr a)
     @ opt_bytes (\<lambda>b. [b]) (ad_splice a) @ opt_bytes private_bytes (ad_private a)
     @ opt_bytes ext_bytes (ad_ext a)"

definition ad_ok :: "adaptation \<Rightarrow> bool" where
  "ad_ok a \<longleftrightarrow> (case ad_pcr a of None \<Rightarrow> True | Some c \<Rightarrow> clock_ok c)
     \<and> (case ad_opcr a of None \<Rightarrow> True | Some c \<Rightarrow> clock_ok c)
     \<and> (case ad_private a of None \<Rightarrow> True | Some d \<Rightarrow> length d < 256)
     \<and> (case ad_ext a of None \<Rightarrow> True | Some x \<Rightarrow> ext_ok x)"

lemma flag_bits:
  "ad_flags a AND transport_adaptation_flag_pcr = 0 \<longleftrightarrow> ad_pcr a = None"
  "ad_flags a AND transport_adaptation_flag_opcr = 0 \<longleftrightarrow> ad_opcr a = None"
  "ad_flags a AND transport_adaptation_flag_splicing_point = 0 \<longleftrightarrow> ad_splice a = None"
  "ad_flags a AND transport_adaptation_flag_private_data = 0 \<longleftrightarrow> ad_private a = None"
  "ad_flags a AND transport_adaptation_flag_extension = 0 \<longleftrightarrow> ad_ext a = None"
  using and_exp_eq_0_iff_not_bit [of "ad_flags a" 4] and_exp_eq_0_iff_not_bit [of "ad_flags a" 3]
    and_exp_eq_0_iff_not_bit [of "ad_flags a" 2] and_exp_eq_0_iff_not_bit [of "ad_flags a" 1]
    and_exp_eq_0_iff_not_bit [of "ad_flags a" 0]
  by (simp_all add: transport_flags ad_flags_def bit_or_iff bit_and_iff)

lemma ext_flag_bits:
  "ext_flags (l, r) AND transport_adaptation_extension_flag_ltw = 0 \<longleftrightarrow> l = None"
  "ext_flags (l, r) AND transport_adaptation_extension_flag_piecewise_rate = 0 \<longleftrightarrow> r = None"
  "ext_flags (l, r) AND transport_adaptation_extension_flag_seamless_splice = 0"
  by (simp_all add: transport_flags)

lemma not_bit_ge: "unat (w :: 'a::len word) < 2 ^ k \<Longrightarrow> n \<ge> k \<Longrightarrow> \<not> bit w n"
proof -
  assume "unat w < 2 ^ k" "n \<ge> k"
  then have "take_bit k (unat w) = unat w" by (simp add: take_bit_nat_eq_self)
  then have "take_bit k w = w" by (simp add: word_unat_eq_iff unsigned_take_bit_eq)
  then show ?thesis using \<open>n \<ge> k\<close> by (metis bit_take_bit_iff not_less)
qed

lemma bit_byte_of:
  "bit (push_bit k (ucast (ucast (drop_bit k w) :: u8)) :: 'a::len word) n \<longleftrightarrow> k \<le> n \<and> n < k + 8 \<and> bit (w :: 'a word) n"
  using bit_imp_le_length [of w n] by (auto simp: bit_simps)

lemma byte_top: "bit (drop_bit 7 (ucast (w :: u8)) :: u64) n \<longleftrightarrow> n = 0 \<and> bit w 7"
proof (cases "n = 0")
  case False
  then have "\<not> bit w (7 + n)" using bit_byteD [of w "7 + n"] by auto
  with False show ?thesis by (simp add: bit_simps)
qed (simp add: bit_simps)

lemma byte_low: "bit (push_bit 8 (ucast (w :: u8) AND 1) :: u64) n \<longleftrightarrow> n = 8 \<and> bit w 0"
  by (simp only: bit_push_bit_iff bit_and_iff bit_1_iff bit_unsigned_iff) auto

lemma clock_value_bytes:
  assumes "clock_ok (base, ext)" "bytes_at m pos (clock_bytes (base, ext))"
  shows "clock_value m pos = Some (base * 300 + ext)"
proof -
  have b: "bit base n \<Longrightarrow> n < 33" for n using assms(1) not_bit_ge [of base 33 n] by force
  have x: "bit ext n \<Longrightarrow> n < 9" for n using assms(1) not_bit_ge [of ext 9 n] by force
  define p4 where "p4 = (push_bit 7 (ucast base) OR 0x7e OR ucast (drop_bit 8 ext) :: u8)"
  have e: "(0x7e :: u8) = push_bit 1 (mask 6)" by (simp add: mask_eq_exp_minus_1)
  have "bit p4 7 \<longleftrightarrow> bit base 0" "bit p4 0 \<longleftrightarrow> bit ext 8"
    unfolding p4_def e using x [of 15] by (simp_all only: bit_simps) auto
  then have p4: "bit (drop_bit 7 (ucast p4) :: u64) n \<longleftrightarrow> n = 0 \<and> bit base 0"
      "bit (push_bit 8 (ucast p4 AND 1) :: u64) n \<longleftrightarrow> n = 8 \<and> bit ext 8" for n
    by (simp_all only: byte_top byte_low)
  have base: "(push_bit 25 (ucast (ucast (drop_bit 25 base) :: u8)) OR push_bit 17 (ucast (ucast (drop_bit 17 base) :: u8))
      OR push_bit 9 (ucast (ucast (drop_bit 9 base) :: u8))
      OR push_bit 1 (ucast (ucast (drop_bit 1 base) :: u8)) OR drop_bit 7 (ucast p4)) = base"
  proof (rule bit_word_eqI)
    fix n
    have "bit base n \<Longrightarrow> n = 0 \<or> 1 \<le> n \<and> n < 9 \<or> 9 \<le> n \<and> n < 17 \<or> 17 \<le> n \<and> n < 25 \<or> 25 \<le> n \<and> n < 33"
      using b [of n] by linarith
    then show "bit (push_bit 25 (ucast (ucast (drop_bit 25 base) :: u8)) OR push_bit 17 (ucast (ucast (drop_bit 17 base) :: u8))
      OR push_bit 9 (ucast (ucast (drop_bit 9 base) :: u8))
      OR push_bit 1 (ucast (ucast (drop_bit 1 base) :: u8)) OR drop_bit 7 (ucast p4) :: u64) n = bit base n"
      unfolding bit_or_iff bit_byte_of p4 by auto
  qed
  have ext: "push_bit 8 (ucast p4 AND 1) OR ucast (ucast ext :: u8) = ext"
  proof (rule bit_word_eqI)
    fix n
    assume "n < LENGTH(64)"
    with x [of n] show "bit (push_bit 8 (ucast p4 AND 1) OR ucast (ucast ext :: u8) :: u64) n = bit ext n"
      unfolding bit_or_iff p4 by (cases "n = 8") (auto simp: bit_simps)
  qed
  have "rd m pos = Some (ucast (drop_bit 25 base))" "rd m (pos + 1) = Some (ucast (drop_bit 17 base))"
    "rd m (pos + 2) = Some (ucast (drop_bit 9 base))" "rd m (pos + 3) = Some (ucast (drop_bit 1 base))"
    "rd m (pos + 4) = Some p4" "rd m (pos + 5) = Some (ucast ext)"
    using assms(2) by (simp_all add: bytes_at_Cons p4_def rd_def numeral_eq_Suc)
  then show ?thesis unfolding clock_value_def Let_def by (simp only: bind.bind_lunit base ext)
qed

fun clock_of :: "u64 \<times> u64 \<Rightarrow> u64" where
  "clock_of (base, ext) = base * 300 + ext"

lemma length_clock_bytes [simp]: "length (clock_bytes c) = 6"
  by (cases c) simp

text \<open>With every value requested, each block consumes its serialised field and stores its value.\<close>

lemma extract_pcr_field:
  assumes "bytes_at m pos (opt_bytes clock_bytes (ad_pcr a))" "ad_ok a"
    and "pos + length (opt_bytes clock_bytes (ad_pcr a)) \<le> adapend"
  shows "extract_pcr m adapend (ad_flags a) 0xffff out (pos, x) =
    Some (case ad_pcr a of None \<Rightarrow> out | Some c \<Rightarrow> out\<lparr>tv_pcr := clock_of c\<rparr>,
      Some (pos + length (opt_bytes clock_bytes (ad_pcr a)),
        if ad_pcr a = None then x else x OR transport_value_pcr))"
proof -
  have "(0xffff :: u32) AND transport_value_pcr \<noteq> 0" by (simp add: transport_values_defs)
  with assms clock_value_bytes [of _ _ m pos] show ?thesis
    by (auto simp: extract_pcr_def flag_bits ad_ok_def split: option.splits)
qed

lemma extract_opcr_field:
  assumes "bytes_at m pos (opt_bytes clock_bytes (ad_opcr a))" "ad_ok a"
    and "pos + length (opt_bytes clock_bytes (ad_opcr a)) \<le> adapend"
  shows "extract_opcr m adapend (ad_flags a) 0xffff out (pos, x) =
    Some (case ad_opcr a of None \<Rightarrow> out | Some c \<Rightarrow> out\<lparr>tv_opcr := clock_of c\<rparr>,
      Some (pos + length (opt_bytes clock_bytes (ad_opcr a)),
        if ad_opcr a = None then x else x OR transport_value_opcr))"
proof -
  have "(0xffff :: u32) AND transport_value_opcr \<noteq> 0" by (simp add: transport_values_defs)
  with assms clock_value_bytes [of _ _ m pos] show ?thesis
    by (auto simp: extract_opcr_def flag_bits ad_ok_def split: option.splits)
qed

lemma extract_splice_field:
  assumes "bytes_at m pos (opt_bytes (\<lambda>b. [b]) (ad_splice a))"
    and "pos + length (opt_bytes (\<lambda>b. [b]) (ad_splice a)) \<le> adapend"
  shows "extract_splice_countdown m adapend (ad_flags a) 0xffff out (pos, x) =
    Some (case ad_splice a of None \<Rightarrow> out | Some b \<Rightarrow> out\<lparr>tv_splice_countdown := b\<rparr>,
      Some (pos + length (opt_bytes (\<lambda>b. [b]) (ad_splice a)),
        if ad_splice a = None then x else x OR transport_value_splice_countdown))"
proof -
  have "(0xffff :: u32) AND transport_value_splice_countdown \<noteq> 0" by (simp add: transport_values_defs)
  with assms show ?thesis
    by (auto simp: extract_splice_countdown_def flag_bits bytes_at_Cons split: option.splits)
qed

lemma extract_private_field:
  assumes "bytes_at m pos (opt_bytes private_bytes (ad_private a))" "ad_ok a"
    and "pos + length (opt_bytes private_bytes (ad_private a)) \<le> adapend"
  shows "extract_private_data m adapend (ad_flags a) 0xffff out (pos, x) =
    Some (case ad_private a of None \<Rightarrow> out
        | Some d \<Rightarrow> out\<lparr>tv_private_data_length := of_nat (length d), tv_private_data := pos + 1\<rparr>,
      Some (pos + length (opt_bytes private_bytes (ad_private a)),
        if ad_private a = None then x else x OR transport_value_private_data))"
proof -
  have "(0xffff :: u32) AND transport_value_private_data \<noteq> 0" by (simp add: transport_values_defs)
  with assms show ?thesis
    by (auto simp: extract_private_data_def flag_bits bytes_at_Cons private_bytes_def ad_ok_def
        unat_of_nat_u8 split: option.splits)
qed

lemma ltw_value:
  assumes "unat (v :: u16) < 2 ^ 15"
  shows "be16 ((0x80 OR ucast (drop_bit 8 v)) AND 0x7f) (ucast v) = v"
    "((0x80 :: u8) OR ucast (drop_bit 8 v)) AND 0x80 \<noteq> 0"
proof -
  have m: "(0x7f :: u8) = mask 7" "(0x80 :: u8) = push_bit 7 1" by (simp_all add: mask_eq_exp_minus_1)
  show "be16 ((0x80 OR ucast (drop_bit 8 v)) AND 0x7f) (ucast v) = v"
  proof (unfold m be16_def, rule bit_word_eqI, goal_cases)
    case (1 n)
    have "bit v n \<Longrightarrow> n < 15" using not_bit_ge [OF assms, of n] by force
    with 1 show ?case by (simp only: bit_simps) auto
  qed
  show "((0x80 :: u8) OR ucast (drop_bit 8 v)) AND 0x80 \<noteq> 0"
    using and_exp_eq_0_iff_not_bit [of "(0x80 :: u8) OR ucast (drop_bit 8 v)" 7]
    by (simp add: bit_or_iff)
qed

lemma rate_value:
  assumes "unat (v :: u32) < 2 ^ 22"
  shows "be32 0 ((0xc0 OR ucast (drop_bit 16 v)) AND 0x3f) (ucast (drop_bit 8 v)) (ucast v) = v"
proof -
  have m: "(0x3f :: u8) = mask 6" "(0xc0 :: u8) = push_bit 6 (mask 2)" by (simp_all add: mask_eq_exp_minus_1)
  show ?thesis
  proof (unfold m be32_def, rule bit_word_eqI, goal_cases)
    case (1 n)
    have "bit v n \<Longrightarrow> n < 22" using not_bit_ge [OF assms, of n] by force
    with 1 show ?case by (cases "n < 8"; cases "n < 16") (auto simp: bit_simps)
  qed
qed

definition put_ext :: "(u16 option \<times> u32 option) option \<Rightarrow> transport_values \<Rightarrow> transport_values" where
  "put_ext x out = (case x of None \<Rightarrow> out | Some (l, r) \<Rightarrow>
     (let out = (case l of None \<Rightarrow> out | Some v \<Rightarrow> out\<lparr>tv_ltw_offset := v\<rparr>)
      in case r of None \<Rightarrow> out | Some v \<Rightarrow> out\<lparr>tv_piecewise_rate := v\<rparr>))"

definition ext_extracted :: "(u16 option \<times> u32 option) option \<Rightarrow> u32 \<Rightarrow> u32" where
  "ext_extracted e x = (case e of None \<Rightarrow> x | Some (l, r) \<Rightarrow>
     (let x = (if l = None then x else x OR transport_value_ltw)
      in if r = None then x else x OR transport_value_piecewise_rate))"

lemma extract_ltw_field:
  assumes "bytes_at m pos (opt_bytes ltw_bytes l)" "ext_ok (l, r)"
    and "pos + length (opt_bytes ltw_bytes l) \<le> adapend"
  shows "extract_ltw m adapend (ext_flags (l, r)) 0xffff out (pos, x) =
    Some (case l of None \<Rightarrow> out | Some v \<Rightarrow> out\<lparr>tv_ltw_offset := v\<rparr>,
      Some (pos + length (opt_bytes ltw_bytes l), if l = None then x else x OR transport_value_ltw))"
proof -
  have "(0xffff :: u32) AND transport_value_ltw \<noteq> 0" by (simp add: transport_values_defs)
  with assms ltw_value show ?thesis
    by (cases l) (simp_all del: ext_flags.simps add: extract_ltw_def ext_flag_bits bytes_at_Cons ltw_bytes_def)
qed

lemma extract_rate_field:
  assumes "bytes_at m pos (opt_bytes rate_bytes r)" "ext_ok (l, r)"
    and "pos + length (opt_bytes rate_bytes r) \<le> adapend"
  shows "extract_piecewise_rate m adapend (ext_flags (l, r)) 0xffff out (pos, x) =
    Some (case r of None \<Rightarrow> out | Some v \<Rightarrow> out\<lparr>tv_piecewise_rate := v\<rparr>,
      Some (pos + length (opt_bytes rate_bytes r), if r = None then x else x OR transport_value_piecewise_rate))"
proof -
  have "(0xffff :: u32) AND transport_value_piecewise_rate \<noteq> 0" by (simp add: transport_values_defs)
  with assms rate_value show ?thesis
    by (cases r) (simp_all del: ext_flags.simps add: extract_piecewise_rate_def ext_flag_bits bytes_at_Cons
        rate_bytes_def numeral_2_eq_2)
qed

lemma length_ext_body: "length (ext_body x) < 256"
  by (cases x) (simp add: ltw_bytes_def rate_bytes_def split: option.split)

lemma extract_extension_field:
  assumes "bytes_at m pos (opt_bytes ext_bytes (ad_ext a))" "ad_ok a"
    and "pos + length (opt_bytes ext_bytes (ad_ext a)) \<le> adapend"
  shows "extract_extension m adapend (ad_flags a) 0xffff out (pos, x) =
    Some (put_ext (ad_ext a) out, Some (ext_extracted (ad_ext a) x))"
proof (cases "ad_ext a")
  case None
  then show ?thesis by (simp add: extract_extension_def flag_bits put_ext_def ext_extracted_def)
next
  case (Some e)
  obtain l r where e: "e = (l, r)" by (cases e)
  have ok: "ext_ok (l, r)" using assms(2) Some by (simp add: ad_ok_def e)
  let ?p = "pos + 2 + length (opt_bytes ltw_bytes l)"
  from assms(1) Some have m: "rd m pos = Some (of_nat (length (ext_body e)))" "rd m (pos + 1) = Some (ext_flags e)"
    "bytes_at m (pos + 2) (opt_bytes ltw_bytes l)" "bytes_at m ?p (opt_bytes rate_bytes r)"
    by (auto simp del: ext_flags.simps simp: e ext_bytes_def bytes_at_Cons bytes_at_append)
  have n: "unat (of_nat (length (ext_body e)) :: u8) = length (ext_body e)"
    using length_ext_body by (rule unat_of_nat_u8)
  moreover have "0 < length (ext_body e)" by (simp add: e)
  ultimately have nz: "(of_nat (length (ext_body e)) :: u8) \<noteq> 0" by (metis unsigned_0 less_numeral_extra(3))
  have b: "pos + 1 + length (ext_body e) \<le> adapend" "pos + 2 + length (opt_bytes ltw_bytes l) \<le> adapend"
    "?p + length (opt_bytes rate_bytes r) \<le> adapend"
    using assms(3) Some by (simp_all add: ext_bytes_def e)
  have "(0xffff :: u32) AND 0xff00 \<noteq> 0" by simp
  with Some m n nz b(1) show ?thesis
    using extract_ltw_field [OF m(3) ok b(2), of out x] extract_rate_field [OF m(4) ok b(3)]
    by (simp del: ext_flags.simps ext_body.simps
        add: extract_extension_def flag_bits and_then_def e extract_seamless_splice_def ext_flag_bits
        put_ext_def ext_extracted_def Let_def)
qed

definition put_all :: "adaptation \<Rightarrow> nat \<Rightarrow> transport_values \<Rightarrow> transport_values" where
  "put_all a pos out =
     (let out = (case ad_pcr a of None \<Rightarrow> out | Some c \<Rightarrow> out\<lparr>tv_pcr := clock_of c\<rparr>);
          out = (case ad_opcr a of None \<Rightarrow> out | Some c \<Rightarrow> out\<lparr>tv_opcr := clock_of c\<rparr>);
          out = (case ad_splice a of None \<Rightarrow> out | Some b \<Rightarrow> out\<lparr>tv_splice_countdown := b\<rparr>);
          out = (case ad_private a of None \<Rightarrow> out
             | Some d \<Rightarrow> out\<lparr>tv_private_data_length := of_nat (length d), tv_private_data := pos\<rparr>)
      in put_ext (ad_ext a) out)"

definition ad_extracted :: "adaptation \<Rightarrow> u32" where
  "ad_extracted a =
     (let x = (if ad_pcr a = None then 0 else 0 OR transport_value_pcr);
          x = (if ad_opcr a = None then x else x OR transport_value_opcr);
          x = (if ad_splice a = None then x else x OR transport_value_splice_countdown);
          x = (if ad_private a = None then x else x OR transport_value_private_data)
      in ext_extracted (ad_ext a) x)"

text \<open>The offset of the private data in an adaptation field that starts at \<open>pos\<close>.\<close>

definition private_offset :: "adaptation \<Rightarrow> nat \<Rightarrow> nat" where
  "private_offset a pos = pos + 2 + length (opt_bytes clock_bytes (ad_pcr a))
     + length (opt_bytes clock_bytes (ad_opcr a)) + length (opt_bytes (\<lambda>b. [b]) (ad_splice a))"

lemma extract_adaptation_bytes:
  assumes "bytes_at m pos (ad_bytes a)" "ad_ok a" "pos + length (ad_bytes a) \<le> adapend"
  shows "extract_adaptation m adapend (ad_flags a) 0xffff out (pos + 1) =
    Some (put_all a (private_offset a pos) out, Some (ad_extracted a))"
proof -
  let ?p1 = "pos + 1" and ?l1 = "length (opt_bytes clock_bytes (ad_pcr a))"
    and ?l2 = "length (opt_bytes clock_bytes (ad_opcr a))" and ?l3 = "length (opt_bytes (\<lambda>b. [b]) (ad_splice a))"
    and ?l4 = "length (opt_bytes private_bytes (ad_private a))"
    and ?l5 = "length (opt_bytes ext_bytes (ad_ext a))"
  from assms(1) have m: "bytes_at m ?p1 (opt_bytes clock_bytes (ad_pcr a))"
    "bytes_at m (?p1 + ?l1) (opt_bytes clock_bytes (ad_opcr a))"
    "bytes_at m (?p1 + ?l1 + ?l2) (opt_bytes (\<lambda>b. [b]) (ad_splice a))"
    "bytes_at m (?p1 + ?l1 + ?l2 + ?l3) (opt_bytes private_bytes (ad_private a))"
    "bytes_at m (?p1 + ?l1 + ?l2 + ?l3 + ?l4) (opt_bytes ext_bytes (ad_ext a))"
    unfolding ad_bytes_def bytes_at_Cons bytes_at_append by (simp_all only: Suc_eq_plus1)
  have len: "length (ad_bytes a) = 1 + ?l1 + ?l2 + ?l3 + ?l4 + ?l5"
    unfolding ad_bytes_def by (simp only: length_append list.size ac_simps)
  have b: "?p1 + ?l1 \<le> adapend" "?p1 + ?l1 + ?l2 \<le> adapend" "?p1 + ?l1 + ?l2 + ?l3 \<le> adapend"
    "?p1 + ?l1 + ?l2 + ?l3 + ?l4 \<le> adapend" "?p1 + ?l1 + ?l2 + ?l3 + ?l4 + ?l5 \<le> adapend"
    using assms(3) unfolding len by linarith+
  have off: "?p1 + ?l1 + ?l2 + ?l3 + 1 = private_offset a pos"
    unfolding private_offset_def by linarith
  show ?thesis
    unfolding extract_adaptation_def and_then_def put_all_def ad_extracted_def Let_def off [symmetric]
    by (simp only: extract_pcr_field [OF m(1) assms(2) b(1)] extract_opcr_field [OF m(2) assms(2) b(2)]
        extract_splice_field [OF m(3) b(3)] extract_private_field [OF m(4) assms(2) b(4)]
        extract_extension_field [OF m(5) assms(2) b(5)] bind.bind_lunit prod.case option.case)
qed

lemma ext_extracted_bits:
  "bit (ext_extracted e x) 0 = bit x 0" "bit (ext_extracted e x) (Suc 0) = bit x (Suc 0)"
  "bit (ext_extracted e x) 2 = bit x 2" "bit (ext_extracted e x) 3 = bit x 3"
  by (auto simp: ext_extracted_def Let_def bit_or_iff split: option.split)

lemma ad_extracted_bits:
  "bit (ad_extracted a) 0 \<longleftrightarrow> ad_pcr a \<noteq> None" "bit (ad_extracted a) (Suc 0) \<longleftrightarrow> ad_opcr a \<noteq> None"
  "bit (ad_extracted a) 2 \<longleftrightarrow> ad_splice a \<noteq> None" "bit (ad_extracted a) 3 \<longleftrightarrow> ad_private a \<noteq> None"
  unfolding ad_extracted_def Let_def ext_extracted_bits
  by (cases "ad_pcr a"; cases "ad_opcr a"; cases "ad_splice a"; cases "ad_private a"; simp add: bit_or_iff)+

lemma put_ext_fields [simp]:
  "tv_pcr (put_ext x out) = tv_pcr out" "tv_opcr (put_ext x out) = tv_opcr out"
  "tv_splice_countdown (put_ext x out) = tv_splice_countdown out"
  "tv_private_data (put_ext x out) = tv_private_data out"
  "tv_private_data_length (put_ext x out) = tv_private_data_length out"
  by (simp_all add: put_ext_def Let_def split: option.split prod.split)

lemma put_all_fields:
  "ad_pcr a = Some c \<Longrightarrow> tv_pcr (put_all a p out) = clock_of c"
  "ad_opcr a = Some c \<Longrightarrow> tv_opcr (put_all a p out) = clock_of c"
  "ad_splice a = Some b \<Longrightarrow> tv_splice_countdown (put_all a p out) = b"
  "ad_private a = Some d \<Longrightarrow> tv_private_data (put_all a p out) = p
     \<and> tv_private_data_length (put_all a p out) = of_nat (length d)"
  unfolding put_all_def Let_def put_ext_fields
  by (cases "ad_opcr a"; cases "ad_splice a"; cases "ad_private a"; simp)+

lemma put_all_ext:
  "ad_ext a = Some (Some v, r) \<Longrightarrow> tv_ltw_offset (put_all a p out) = v"
  "ad_ext a = Some (l, Some w) \<Longrightarrow> tv_piecewise_rate (put_all a p out) = w"
  by (simp_all add: put_all_def put_ext_def Let_def split: option.split)

lemma clock_of_value: "clock_ok (b, x) \<Longrightarrow> unat (clock_of (b, x)) = unat b * 300 + unat x"
  by (simp add: clock_arith)

lemma private_bytes_at:
  assumes "bytes_at m pos (ad_bytes a)" "ad_private a = Some d"
  shows "bytes_at m (private_offset a pos) d"
  using assms unfolding ad_bytes_def bytes_at_Cons bytes_at_append private_offset_def
  by (simp add: private_bytes_def bytes_at_Cons ac_simps)



text \<open>the guard of the seamless splice block is the piecewise rate flag: a caller that asks only
  for the seamless splice values does not get them, and a caller that asks only for the
  piecewise rate gets the seamless splice values.\<close>

theorem seamless_splice_guard:
  "transport_packet_values_extract
     ([0x47, h, l, 0x20, 183, 0x01, 6, 0x20, b0, b1, b2, b3, b4] @ replicate 175 0xff) out
     transport_value_seamless_splice
   = Some (out\<lparr>tv_payload := None, tv_payload_length := 0, tv_flags := 0x01\<rparr>, 0)
   \<and> (\<exists>out'. transport_packet_values_extract
     ([0x47, h, l, 0x20, 183, 0x01, 6, 0x20, b0, b1, b2, b3, b4] @ replicate 175 0xff) out
     transport_value_piecewise_rate
   = Some (out', 0x400) \<and> tv_splice_type out' = drop_bit 4 b0)"
  by (simp add: transport_packet_values_extract_def adaptation_field_control_def rd_def
      extract_adaptation_def and_then_def extract_pcr_def extract_opcr_def extract_splice_countdown_def
      extract_private_data_def extract_extension_def extract_ltw_def extract_piecewise_rate_def
      extract_seamless_splice_def extract_payload_def Let_def transport_flags transport_values_defs)

section \<open>Properties of the continuity check\<close>

text \<open>
  What a multiplexer sends on one PID after a packet with counter \<open>c\<close>: a packet with
  payload once or twice, with the next counter, or a packet without payload, with the same counter.
\<close>

datatype sent = Once | Twice | NoPayload

fun counters :: "nat \<Rightarrow> sent list \<Rightarrow> (bool \<times> nat) list" where
  "counters c [] = []"
| "counters c (Once # ks) = (True, (c + 1) mod 16) # counters ((c + 1) mod 16) ks"
| "counters c (Twice # ks) =
     (True, (c + 1) mod 16) # (True, (c + 1) mod 16) # counters ((c + 1) mod 16) ks"
| "counters c (NoPayload # ks) = (False, c) # counters c ks"

definition counter_after :: "nat \<Rightarrow> sent list \<Rightarrow> nat" where
  "counter_after c ks = (c + length (filter (\<lambda>k. k \<noteq> NoPayload) ks)) mod 16"

definition has_header :: "bool \<times> nat \<Rightarrow> mem \<Rightarrow> bool" where
  "has_header h m \<longleftrightarrow> (\<exists>pid afc. transport_packet_pid m = Some pid \<and> pid \<noteq> 0x1fff
     \<and> continuity_counter m = Some (of_nat (snd h)) \<and> adaptation_field_control m = Some afc
     \<and> (fst h \<longleftrightarrow> afc AND 1 \<noteq> 0))"

text \<open>A receiver that checks every packet of the stream.\<close>

fun check_stream :: "mem list \<Rightarrow> u8 \<Rightarrow> (int list \<times> u8) option" where
  "check_stream [] cstate = Some ([], cstate)"
| "check_stream (m # ms) cstate =
     do { (r, cstate) \<leftarrow> transport_packet_continuity_check m False cstate;
          (rs, cstate) \<leftarrow> check_stream ms cstate; Some (r # rs, cstate) }"

lemma cc_words:
  assumes "c < 16"
  shows "(of_nat c OR 0x80 :: u8) AND 0x0f = of_nat c" "(of_nat c OR 0xc0 :: u8) AND 0x0f = of_nat c"
    "(of_nat c OR 0x80 :: u8) AND 0x80 \<noteq> 0" "(of_nat c OR 0xc0 :: u8) AND 0x80 \<noteq> 0"
    "(of_nat c OR 0x80 :: u8) AND 0x40 = 0" "(of_nat c OR 0xc0 :: u8) AND 0x40 \<noteq> 0"
    "(of_nat c + 1 :: u8) AND 0xf = of_nat ((c + 1) mod 16)"
proof -
  have "c = 0 \<or> c = 1 \<or> c = 2 \<or> c = 3 \<or> c = 4 \<or> c = 5 \<or> c = 6 \<or> c = 7
    \<or> c = 8 \<or> c = 9 \<or> c = 10 \<or> c = 11 \<or> c = 12 \<or> c = 13 \<or> c = 14 \<or> c = 15"
    using assms by arith
  then show "(of_nat c OR 0x80 :: u8) AND 0x0f = of_nat c" "(of_nat c OR 0xc0 :: u8) AND 0x0f = of_nat c"
    "(of_nat c OR 0x80 :: u8) AND 0x80 \<noteq> 0" "(of_nat c OR 0xc0 :: u8) AND 0x80 \<noteq> 0"
    "(of_nat c OR 0x80 :: u8) AND 0x40 = 0" "(of_nat c OR 0xc0 :: u8) AND 0x40 \<noteq> 0"
    "(of_nat c + 1 :: u8) AND 0xf = of_nat ((c + 1) mod 16)"
    by (elim disjE; simp)+
qed

lemma of_nat_cc_inj: "c < 16 \<Longrightarrow> d < 16 \<Longrightarrow> (of_nat c :: u8) = of_nat d \<longleftrightarrow> c = d"
proof
  assume "c < 16" "d < 16" "(of_nat c :: u8) = of_nat d"
  then have "unat (of_nat c :: u8) = unat (of_nat d :: u8)" by (simp only:)
  with \<open>c < 16\<close> \<open>d < 16\<close> show "c = d" by (simp only: unat_of_nat_u8)
qed simp

text \<open>The states of a receiver in step: the counter of the last packet, with or without a
  duplicate seen.\<close>

definition in_step :: "nat \<Rightarrow> u8 \<Rightarrow> bool" where
  "in_step c s \<longleftrightarrow> s = of_nat c OR 0x80 \<or> s = of_nat c OR 0xc0"

lemmas continuity_defs = transport_packet_continuity_check_def CONTINUITY_VALID_def CONTINUITY_DUPESEEN_def

lemma check_first:
  "has_header h m \<Longrightarrow> transport_packet_continuity_check m False 0 = Some (0, of_nat (snd h) OR 0x80)"
  by (auto simp: has_header_def continuity_defs)

lemma check_next:
  assumes "in_step c s" "c < 16" "has_header (True, (c + 1) mod 16) m"
  shows "transport_packet_continuity_check m False s = Some (0, of_nat ((c + 1) mod 16) OR 0x80)"
  using assms(1,3) cc_words [OF assms(2)]
  by (auto simp: has_header_def continuity_defs in_step_def Let_def)

lemma check_same:
  assumes "in_step c s" "c < 16" "has_header (False, c) m"
  shows "transport_packet_continuity_check m False s = Some (0, of_nat c OR 0x80)"
  using assms(1,3) cc_words [OF assms(2)]
  by (auto simp: has_header_def continuity_defs in_step_def Let_def)

lemma cc_next_neq: "c < 16 \<Longrightarrow> (of_nat ((c + 1) mod 16) :: u8) \<noteq> of_nat c"
  by (subst of_nat_cc_inj) (auto simp: mod_Suc)

lemma check_dupe:
  assumes "c < 16" "has_header (True, c) m"
  shows "transport_packet_continuity_check m False (of_nat c OR 0x80) = Some (0, of_nat c OR 0xc0)"
  using assms(2) cc_words [OF assms(1)] cc_next_neq [OF assms(1)]
  by (auto simp: has_header_def continuity_defs Let_def)

lemma check_lost:
  assumes "in_step c s" "c < 16" "has_header (True, d) m" "d < 16" "d \<noteq> (c + 1) mod 16"
    and "d = c \<Longrightarrow> s = of_nat c OR 0xc0"
  shows "transport_packet_continuity_check m False s = Some (-1, s)"
  using assms(1,3,6) cc_words [OF assms(2)] of_nat_cc_inj [OF assms(2,4)]
    of_nat_cc_inj [of "(c + 1) mod 16" d] assms(4,5)
  by (auto simp: has_header_def continuity_defs in_step_def Let_def)

lemma check_stream_in_step:
  "list_all2 has_header (counters c ks) ms \<Longrightarrow> in_step c s \<Longrightarrow> c < 16 \<Longrightarrow>
   \<exists>s'. check_stream ms s = Some (replicate (length ms) 0, s') \<and> in_step (counter_after c ks) s'"
proof (induction c ks arbitrary: s ms rule: counters.induct)
  case (1 c)
  then show ?case by (auto simp: counter_after_def)
next
  case (2 c ks)
  then obtain m ms' where ms: "ms = m # ms'" "has_header (True, (c + 1) mod 16) m"
    "list_all2 has_header (counters ((c + 1) mod 16) ks) ms'" by (auto simp: list_all2_Cons1)
  have "in_step ((c + 1) mod 16) (of_nat ((c + 1) mod 16) OR 0x80)" by (simp add: in_step_def)
  from "2.IH" [OF ms(3) this] check_next [OF "2.prems"(2,3) ms(2)] ms(1) show ?case
    by (auto simp: counter_after_def mod_simps)
next
  case (3 c ks)
  let ?d = "(c + 1) mod 16"
  from "3.prems" obtain m m' ms' where ms: "ms = m # m' # ms'" "has_header (True, ?d) m" "has_header (True, ?d) m'"
    "list_all2 has_header (counters ?d ks) ms'" by (auto simp: list_all2_Cons1)
  have "in_step ?d (of_nat ?d OR 0xc0)" by (simp add: in_step_def)
  from "3.IH" [OF ms(4) this] check_next [OF "3.prems"(2,3) ms(2)] check_dupe [OF _ ms(3)] ms(1) show ?case
    by (auto simp: counter_after_def mod_simps)
next
  case (4 c ks)
  then obtain m ms' where ms: "ms = m # ms'" "has_header (False, c) m"
    "list_all2 has_header (counters c ks) ms'" by (auto simp: list_all2_Cons1)
  have "in_step c (of_nat c OR 0x80)" by (simp add: in_step_def)
  from "4.IH" [OF ms(3) this] check_same [OF "4.prems"(2,3) ms(2)] ms(1) "4.prems"(3) show ?case
    by (auto simp: counter_after_def)
qed

lemma lost_mod:
  assumes "c < 16" "1 \<le> lost" "lost \<le> (14 :: nat)"
  shows "(c + 1 + lost) mod 16 \<noteq> (c + 1) mod 16" "(c + 1 + lost) mod 16 \<noteq> c"
proof -
  have "x mod 16 = (if x < 16 then x else x - 16)" if "x < 32" for x :: nat
    using that by (simp add: le_mod_geq)
  from this [of "c + 1 + lost"] this [of "c + 1"] assms
  show "(c + 1 + lost) mod 16 \<noteq> (c + 1) mod 16" "(c + 1 + lost) mod 16 \<noteq> c"
    by (auto split: if_splits)
qed



end
