(* ===== verification/Crc32.thy ===== *)
theory Crc32
  imports Prelude
begin

text \<open>
  \<open>lib/libucsi/crc32.c\<close> and \<open>crc32.h\<close>: the table-driven CRC-32 of MPEG-2 sections.
  \<open>crc_serial\<close> is the specification: the bit-serial division by the generator
  \<open>0x04c11db7\<close>, most significant bit first.
\<close>

definition CRC32_INIT :: u32 where
  "CRC32_INIT = NOT 0"

definition crc32tbl :: "u32 list" where
  "crc32tbl = [
    0x00000000, 0x04c11db7, 0x09823b6e, 0x0d4326d9, 0x130476dc, 0x17c56b6b, 0x1a864db2, 0x1e475005,
    0x2608edb8, 0x22c9f00f, 0x2f8ad6d6, 0x2b4bcb61, 0x350c9b64, 0x31cd86d3, 0x3c8ea00a, 0x384fbdbd,
    0x4c11db70, 0x48d0c6c7, 0x4593e01e, 0x4152fda9, 0x5f15adac, 0x5bd4b01b, 0x569796c2, 0x52568b75,
    0x6a1936c8, 0x6ed82b7f, 0x639b0da6, 0x675a1011, 0x791d4014, 0x7ddc5da3, 0x709f7b7a, 0x745e66cd,
    0x9823b6e0, 0x9ce2ab57, 0x91a18d8e, 0x95609039, 0x8b27c03c, 0x8fe6dd8b, 0x82a5fb52, 0x8664e6e5,
    0xbe2b5b58, 0xbaea46ef, 0xb7a96036, 0xb3687d81, 0xad2f2d84, 0xa9ee3033, 0xa4ad16ea, 0xa06c0b5d,
    0xd4326d90, 0xd0f37027, 0xddb056fe, 0xd9714b49, 0xc7361b4c, 0xc3f706fb, 0xceb42022, 0xca753d95,
    0xf23a8028, 0xf6fb9d9f, 0xfbb8bb46, 0xff79a6f1, 0xe13ef6f4, 0xe5ffeb43, 0xe8bccd9a, 0xec7dd02d,
    0x34867077, 0x30476dc0, 0x3d044b19, 0x39c556ae, 0x278206ab, 0x23431b1c, 0x2e003dc5, 0x2ac12072,
    0x128e9dcf, 0x164f8078, 0x1b0ca6a1, 0x1fcdbb16, 0x018aeb13, 0x054bf6a4, 0x0808d07d, 0x0cc9cdca,
    0x7897ab07, 0x7c56b6b0, 0x71159069, 0x75d48dde, 0x6b93dddb, 0x6f52c06c, 0x6211e6b5, 0x66d0fb02,
    0x5e9f46bf, 0x5a5e5b08, 0x571d7dd1, 0x53dc6066, 0x4d9b3063, 0x495a2dd4, 0x44190b0d, 0x40d816ba,
    0xaca5c697, 0xa864db20, 0xa527fdf9, 0xa1e6e04e, 0xbfa1b04b, 0xbb60adfc, 0xb6238b25, 0xb2e29692,
    0x8aad2b2f, 0x8e6c3698, 0x832f1041, 0x87ee0df6, 0x99a95df3, 0x9d684044, 0x902b669d, 0x94ea7b2a,
    0xe0b41de7, 0xe4750050, 0xe9362689, 0xedf73b3e, 0xf3b06b3b, 0xf771768c, 0xfa325055, 0xfef34de2,
    0xc6bcf05f, 0xc27dede8, 0xcf3ecb31, 0xcbffd686, 0xd5b88683, 0xd1799b34, 0xdc3abded, 0xd8fba05a,
    0x690ce0ee, 0x6dcdfd59, 0x608edb80, 0x644fc637, 0x7a089632, 0x7ec98b85, 0x738aad5c, 0x774bb0eb,
    0x4f040d56, 0x4bc510e1, 0x46863638, 0x42472b8f, 0x5c007b8a, 0x58c1663d, 0x558240e4, 0x51435d53,
    0x251d3b9e, 0x21dc2629, 0x2c9f00f0, 0x285e1d47, 0x36194d42, 0x32d850f5, 0x3f9b762c, 0x3b5a6b9b,
    0x0315d626, 0x07d4cb91, 0x0a97ed48, 0x0e56f0ff, 0x1011a0fa, 0x14d0bd4d, 0x19939b94, 0x1d528623,
    0xf12f560e, 0xf5ee4bb9, 0xf8ad6d60, 0xfc6c70d7, 0xe22b20d2, 0xe6ea3d65, 0xeba91bbc, 0xef68060b,
    0xd727bbb6, 0xd3e6a601, 0xdea580d8, 0xda649d6f, 0xc423cd6a, 0xc0e2d0dd, 0xcda1f604, 0xc960ebb3,
    0xbd3e8d7e, 0xb9ff90c9, 0xb4bcb610, 0xb07daba7, 0xae3afba2, 0xaafbe615, 0xa7b8c0cc, 0xa379dd7b,
    0x9b3660c6, 0x9ff77d71, 0x92b45ba8, 0x9675461f, 0x8832161a, 0x8cf30bad, 0x81b02d74, 0x857130c3,
    0x5d8a9099, 0x594b8d2e, 0x5408abf7, 0x50c9b640, 0x4e8ee645, 0x4a4ffbf2, 0x470cdd2b, 0x43cdc09c,
    0x7b827d21, 0x7f436096, 0x7200464f, 0x76c15bf8, 0x68860bfd, 0x6c47164a, 0x61043093, 0x65c52d24,
    0x119b4be9, 0x155a565e, 0x18197087, 0x1cd86d30, 0x029f3d35, 0x065e2082, 0x0b1d065b, 0x0fdc1bec,
    0x3793a651, 0x3352bbe6, 0x3e119d3f, 0x3ad08088, 0x2497d08d, 0x2056cd3a, 0x2d15ebe3, 0x29d4f654,
    0xc5a92679, 0xc1683bce, 0xcc2b1d17, 0xc8ea00a0, 0xd6ad50a5, 0xd26c4d12, 0xdf2f6bcb, 0xdbee767c,
    0xe3a1cbc1, 0xe760d676, 0xea23f0af, 0xeee2ed18, 0xf0a5bd1d, 0xf464a0aa, 0xf9278673, 0xfde69bc4,
    0x89b8fd09, 0x8d79e0be, 0x803ac667, 0x84fbdbd0, 0x9abc8bd5, 0x9e7d9662, 0x933eb0bb, 0x97ffad0c,
    0xafb010b1, 0xab710d06, 0xa6322bdf, 0xa2f33668, 0xbcb4666d, 0xb8757bda, 0xb5365d03, 0xb1f740b4]"

definition crc32_byte :: "u32 \<Rightarrow> u8 \<Rightarrow> u32" where
  "crc32_byte crc b = push_bit 8 crc XOR crc32tbl ! unat ((drop_bit 24 crc XOR ucast b) AND 0xff)"

definition crc32 :: "u32 \<Rightarrow> u8 list \<Rightarrow> u32" where
  "crc32 crc buf = foldl crc32_byte crc buf"

definition crc_bit :: "u32 \<Rightarrow> u32" where
  "crc_bit c = (if bit c 31 then push_bit 1 c XOR 0x04c11db7 else push_bit 1 c)"

definition crc_serial_byte :: "u32 \<Rightarrow> u8 \<Rightarrow> u32" where
  "crc_serial_byte c b = (crc_bit ^^ 8) (c XOR push_bit 24 (ucast b))"

definition crc_serial :: "u32 \<Rightarrow> u8 list \<Rightarrow> u32" where
  "crc_serial c bs = foldl crc_serial_byte c bs"

lemma length_crc32tbl [simp]: "length crc32tbl = 256"
  by (simp add: crc32tbl_def)

section \<open>The bit-serial register is linear and injective\<close>

definition crc_step8 :: "u32 \<Rightarrow> u32" where
  "crc_step8 c = (crc_bit ^^ 8) c"

lemma xor_cancel_right: "a XOR c = b XOR c \<Longrightarrow> a = (b :: u32)"
proof -
  assume "a XOR c = b XOR c"
  then have "(a XOR c) XOR c = (b XOR c) XOR c" by simp
  then show ?thesis by (simp add: xor.assoc)
qed

lemma xor_cancel_left: "c XOR a = c XOR b \<Longrightarrow> a = (b :: u32)"
  using xor_cancel_right [of a c b] by (simp add: xor.commute)

lemma bit_u32D [dest]: "bit (w :: u32) n \<Longrightarrow> n < 32"
  using bit_imp_le_length [of w n] by simp

lemma crc_bit_xor: "crc_bit (x XOR y) = crc_bit x XOR crc_bit y"
  by (auto simp: crc_bit_def bit_xor_iff push_bit_xor xor.assoc xor.commute xor.left_commute)

lemma crc_bit_zero [simp]: "crc_bit 0 = 0"
  by (simp add: crc_bit_def)

lemma crc_bits_xor: "(crc_bit ^^ n) (x XOR y) = (crc_bit ^^ n) x XOR (crc_bit ^^ n) y"
  by (induction n) (simp_all add: crc_bit_xor)

lemma crc_bit_eq_0: "crc_bit c = 0 \<Longrightarrow> c = 0"
proof -
  assume c: "crc_bit c = 0"
  have "\<not> bit c 31"
  proof
    assume "bit c 31"
    with c have "push_bit 1 c XOR 0x04c11db7 = (0 :: u32)"
      by (simp add: crc_bit_def)
    then have "bit (push_bit 1 c XOR 0x04c11db7) 0 = bit (0 :: u32) 0" by (simp only:)
    then show False by (simp only: bit_simps) simp
  qed
  with c have p: "push_bit 1 c = 0" by (simp add: crc_bit_def)
  have "bit c n = bit 0 n" if "n < LENGTH(32)" for n
  proof (cases "n = 31")
    case True
    with \<open>\<not> bit c 31\<close> show ?thesis by simp
  next
    case False
    with that have "bit c n = bit (push_bit 1 c) (Suc n)" by (simp only: bit_push_bit_iff) auto
    then show ?thesis unfolding p by simp
  qed
  then show "c = 0" by (rule bit_word_eqI)
qed

lemma crc_bits_inj: "(crc_bit ^^ n) x = (crc_bit ^^ n) y \<Longrightarrow> x = y"
proof (induction n)
  case (Suc n)
  have "crc_bit ((crc_bit ^^ n) x XOR (crc_bit ^^ n) y) = 0"
    using Suc.prems by (simp add: crc_bit_xor)
  then have "(crc_bit ^^ n) x XOR (crc_bit ^^ n) y = (crc_bit ^^ n) y XOR (crc_bit ^^ n) y"
    unfolding xor_self_eq by (rule crc_bit_eq_0)
  then have "(crc_bit ^^ n) x = (crc_bit ^^ n) y" by (rule xor_cancel_right)
  then show ?case by (rule Suc.IH)
qed simp

lemma crc_bits_low:
  "(\<And>i. 32 - n \<le> i \<Longrightarrow> \<not> bit w i) \<Longrightarrow> n \<le> 32 \<Longrightarrow> (crc_bit ^^ n) w = push_bit n w"
proof (induction n)
  case (Suc n)
  have "(crc_bit ^^ n) w = push_bit n w"
    using Suc.prems by (intro Suc.IH) auto
  moreover have "\<not> bit (push_bit n w) 31"
    using Suc.prems(1) [of "31 - n"] Suc.prems(2) by (auto simp: bit_simps)
  ultimately have "(crc_bit ^^ Suc n) w = push_bit 1 (push_bit n w)"
    by (simp only: funpow.simps o_apply crc_bit_def if_False)
  then show ?case by (simp only: push_bit_push_bit plus_1_eq_Suc)
qed simp

section \<open>The table is the bit-serial division of each byte\<close>

lemma crc_bit_numeral [simp]:
  "crc_bit (numeral n) = (if bit (numeral n :: u32) 31
     then push_bit 1 (numeral n) XOR 0x04c11db7 else push_bit 1 (numeral n))"
  by (simp only: crc_bit_def)

lemma crc_step8_unfold:
  "crc_step8 x = crc_bit (crc_bit (crc_bit (crc_bit (crc_bit (crc_bit (crc_bit (crc_bit x)))))))"
  by (simp add: crc_step8_def eval_nat_numeral)

lemma crc32tbl_serial: "map (\<lambda>i. crc_step8 (push_bit 24 (of_nat i))) [0..<256] = crc32tbl"
  by (simp add: crc_step8_unfold crc32tbl_def upt_conv_Cons)

lemma crc32tbl_nth: "i < 256 \<Longrightarrow> crc32tbl ! i = crc_step8 (push_bit 24 (of_nat i))"
  unfolding crc32tbl_serial [symmetric] by simp

lemma crc_index: "unat ((drop_bit 24 crc XOR ucast b) AND 0xff :: u32) < 256"
    "(drop_bit 24 crc XOR ucast b) AND 0xff = (drop_bit 24 crc XOR ucast (b :: u8) :: u32)"
proof -
  have m: "(0xff :: u32) = mask 8" by (simp add: mask_eq_exp_minus_1)
  show "(drop_bit 24 crc XOR ucast b) AND 0xff = (drop_bit 24 crc XOR ucast b :: u32)"
    unfolding m by (rule bit_word_eqI) (auto simp: bit_simps)
  have "(drop_bit 24 crc XOR ucast b) AND (0xff :: u32) \<le> 0xff" by (rule word_and_le1)
  then show "unat ((drop_bit 24 crc XOR ucast b) AND 0xff :: u32) < 256"
    by (simp add: word_le_nat_alt)
qed

lemma crc_register_split:
  "crc XOR push_bit 24 (ucast (b :: u8)) =
     push_bit 24 (drop_bit 24 crc XOR ucast b) XOR take_bit 24 (crc :: u32)"
  by (rule bit_word_eqI) (auto simp: bit_simps)

lemma crc32_byte_serial: "crc32_byte crc b = crc_serial_byte crc b"
proof -
  let ?h = "drop_bit 24 crc XOR ucast b :: u32"
  have low: "(crc_bit ^^ 8) (take_bit 24 crc) = push_bit 8 crc"
    by (subst crc_bits_low) (auto simp: bit_simps intro!: bit_word_eqI)
  have "crc32tbl ! unat ?h = crc_step8 (push_bit 24 ?h)"
    using crc_index [of crc b] by (simp add: crc32tbl_nth)
  then show ?thesis
    unfolding crc32_byte_def crc_index(2)
    by (simp add: crc_serial_byte_def crc_register_split crc_bits_xor low crc_step8_def xor.commute)
qed

lemma crc32_serial: "crc32 crc buf = crc_serial crc buf"
  by (simp add: crc32_def crc_serial_def crc32_byte_serial [abs_def])

section \<open>Appending the remainder\<close>

lemma crc32_append: "crc32 crc (xs @ ys) = crc32 (crc32 crc xs) ys"
  by (simp add: crc32_def)

lemma crc32_Cons: "crc32 crc (x # xs) = crc32 (crc32_byte crc x) xs"
  by (simp add: crc32_def)

lemma crc_serial_4:
  "crc_serial s [a, b, c, d] = (crc_bit ^^ 32) (s XOR be32 a b c d)"
proof -
  have shift: "push_bit 24 (ucast x) = (crc_bit ^^ k) (push_bit (24 - k) (ucast x) :: u32)"
    if "k \<le> 24" for k and x :: u8
    using that by (subst crc_bits_low) (auto simp: bit_simps push_bit_push_bit)
  have join: "(crc_bit ^^ 8) ((crc_bit ^^ k) x XOR push_bit 24 (ucast y))
      = (crc_bit ^^ (k + 8)) (x XOR push_bit (24 - k) (ucast y))" if "k \<le> 24" for k x and y :: u8
    using that by (simp add: crc_bits_xor shift [of k y] funpow_add add.commute [of k 8])
  have "s XOR push_bit 24 (ucast a) XOR push_bit 16 (ucast b) XOR push_bit 8 (ucast c) XOR ucast d
      = s XOR be32 a b c d"
    unfolding be32_def by (rule bit_word_eqI) (auto simp: bit_simps)
  moreover have "crc_serial s [a, b, c, d] = (crc_bit ^^ 32)
      (s XOR push_bit 24 (ucast a) XOR push_bit 16 (ucast b) XOR push_bit 8 (ucast c) XOR ucast d)"
    using join [of 0 s a] join [of 8 _ b] join [of 16 _ c] join [of 24 _ d]
    by (simp add: crc_serial_def crc_serial_byte_def xor.assoc)
  ultimately show ?thesis by simp
qed

definition be_bytes32 :: "u32 \<Rightarrow> u8 list" where
  "be_bytes32 v = [ucast (drop_bit 24 v), ucast (drop_bit 16 v), ucast (drop_bit 8 v), ucast v]"

lemma length_be_bytes32 [simp]: "length (be_bytes32 v) = 4"
  by (simp add: be_bytes32_def)

lemma crc_bits_zero [simp]: "(crc_bit ^^ n) 0 = 0"
  by (induction n) simp_all

lemma crc32_remainder: "crc32 crc (xs @ be_bytes32 (crc32 crc xs)) = 0"
  by (simp add: crc32_append crc32_serial [of "crc32 crc xs"] be_bytes32_def crc_serial_4 be32_split)

section \<open>Error detection\<close>

lemma crc_serial_inj: "crc_serial c xs = crc_serial c' xs \<Longrightarrow> c = c'"
proof (induction xs arbitrary: c c')
  case (Cons x xs)
  then have "crc_serial_byte c x = crc_serial_byte c' x"
    by (simp add: crc_serial_def)
  then have "c XOR push_bit 24 (ucast x) = c' XOR push_bit 24 (ucast x)"
    unfolding crc_serial_byte_def by (rule crc_bits_inj)
  then show ?case by (rule xor_cancel_right)
qed (simp add: crc_serial_def)

lemma crc_serial_4_inj:
  assumes "crc_serial s xs = crc_serial s ys" "length xs = 4" "length ys = 4"
  shows "xs = ys"
proof -
  obtain a b c d a' b' c' d' where xs: "xs = [a, b, c, d]" and ys: "ys = [a', b', c', d']"
    using assms(2,3) by (auto simp: numeral_eq_Suc length_Suc_conv)
  have "s XOR be32 a b c d = s XOR be32 a' b' c' d'"
    using assms(1) unfolding xs ys crc_serial_4 by (rule crc_bits_inj)
  then have e: "be32 a b c d = be32 a' b' c' d'"
    by (rule xor_cancel_left)
  show ?thesis
    unfolding xs ys using be32_bytes [of a b c d] be32_bytes [of a' b' c' d'] unfolding e by simp
qed

lemma crc32_burst:
  assumes "length bs = 4" "length bs' = 4" "bs \<noteq> bs'"
  shows "crc32 crc (xs @ bs @ ys) \<noteq> crc32 crc (xs @ bs' @ ys)"
proof
  assume "crc32 crc (xs @ bs @ ys) = crc32 crc (xs @ bs' @ ys)"
  then have "crc_serial (crc32 (crc32 crc xs) bs) ys = crc_serial (crc32 (crc32 crc xs) bs') ys"
    by (simp add: crc32_append flip: crc32_serial)
  then have "crc32 (crc32 crc xs) bs = crc32 (crc32 crc xs) bs'" by (rule crc_serial_inj)
  then have "bs = bs'"
    using assms(1,2) unfolding crc32_serial by (rule crc_serial_4_inj)
  with assms(3) show False ..
qed

section \<open>Properties\<close>

text \<open>C7: the table-driven \<open>crc32\<close> is the bit-serial division by the generator polynomial
  \<open>0x04c11db7\<close>, most significant bit first, for every starting register and every buffer.\<close>

theorem crc32_is_serial: "crc32 crc buf = crc_serial crc buf"
  by (rule crc32_serial)

text \<open>a buffer followed by its own CRC, most significant byte first, has CRC 0 from any starting
  register; this is what \<open>section_check_crc\<close> tests.  Conversely the four bytes are the only
  ones with that effect.\<close>

theorem crc32_check_iff:
  assumes "length bs = 4"
  shows "crc32 crc (xs @ bs) = 0 \<longleftrightarrow> bs = be_bytes32 (crc32 crc xs)"
proof
  assume z: "crc32 crc (xs @ bs) = 0"
  show "bs = be_bytes32 (crc32 crc xs)"
  proof (rule ccontr)
    assume "bs \<noteq> be_bytes32 (crc32 crc xs)"
    from crc32_burst [OF assms _ this, of crc xs "[]"] z show False
      by (simp add: crc32_remainder)
  qed
qed (simp add: crc32_remainder)

theorem crc32_check_iff_witness:
  "crc32 CRC32_INIT ([] @ [0, 0, 0, 0]) \<noteq> 0"
  using crc32_check_iff [of "[0, 0, 0, 0]" CRC32_INIT "[]"]
  by (simp add: be_bytes32_def crc32_def CRC32_INIT_def mask_eq_exp_minus_1)

text \<open>C5: every corruption of a protected buffer that is confined to four consecutive bytes is
  detected: if the original passes the check, the corrupted one does not.\<close>

theorem crc32_detects_burst:
  assumes "crc32 crc (xs @ bs @ ys) = 0" "length bs' = length bs" "length bs \<le> 4" "bs' \<noteq> bs"
    and "4 \<le> length (xs @ bs @ ys)"
  shows "crc32 crc (xs @ bs' @ ys) \<noteq> 0"
proof -
  let ?k = "4 - length bs"
  show ?thesis
  proof (cases "?k \<le> length ys")
    case True
    let ?t = "take ?k ys" and ?d = "drop ?k ys"
    have "crc32 crc (xs @ (bs @ ?t) @ ?d) \<noteq> crc32 crc (xs @ (bs' @ ?t) @ ?d)"
      using assms True by (intro crc32_burst) auto
    with assms(1) show ?thesis by simp
  next
    case False
    let ?j = "?k - length ys"
    let ?t = "take (length xs - ?j) xs" and ?d = "drop (length xs - ?j) xs"
    have "crc32 crc (?t @ (?d @ bs @ ys) @ []) \<noteq> crc32 crc (?t @ (?d @ bs' @ ys) @ [])"
      using assms False by (intro crc32_burst) auto
    then have "crc32 crc ((?t @ ?d) @ bs @ ys) \<noteq> crc32 crc ((?t @ ?d) @ bs' @ ys)"
      by (simp only: append_assoc append_Nil2 not_False_eq_True)
    with assms(1) show ?thesis by (simp only: append_take_drop_id)
  qed
qed

theorem crc32_detects_burst_witness:
  "crc32 CRC32_INIT ([0x42] @ [1] @ be_bytes32 (crc32 CRC32_INIT [0x42, 0])) \<noteq> 0"
  using crc32_detects_burst [of CRC32_INIT "[0x42]" "[0]" "be_bytes32 (crc32 CRC32_INIT [0x42, 0])" "[1]"]
    crc32_remainder [of CRC32_INIT "[0x42, 0]"]
  by simp

end
