(* ===== verification/Section.thy ===== *)
theory Section
  imports Endianops Crc32
begin

text \<open>
  \<open>lib/libucsi/section.h\<close>: generic section headers, the CRC of a section, extended
  sections, and the \<open>psi_table_state\<close> that tracks which sections of a table have been seen.

  A section is an object of bytes.  \<open>section_codec\<close> turns the two length bytes into host
  order in place, so after it the object is \<open>swap2 e w 1\<close> where \<open>w\<close> are the bytes as
  transmitted; \<open>section_ext_decode\<close> does the same to the table id extension.
  The codecs return the object together with a flag that is \<open>False\<close> for a \<open>NULL\<close> result.
\<close>

section \<open>Headers\<close>

definition CRC_SIZE :: nat where
  "CRC_SIZE = 4"

definition sizeof_section :: nat where
  "sizeof_section = 3"

definition sizeof_section_ext :: nat where
  "sizeof_section_ext = 8"

lemmas section_sizes [simp] = CRC_SIZE_def sizeof_section_def sizeof_section_ext_def

text \<open>The bit-fields of \<open>struct section\<close> share the 16-bit unit at offset 1.\<close>

definition section_syntax_indicator :: "byte_order \<Rightarrow> mem \<Rightarrow> nat option" where
  "section_syntax_indicator e m = do { v \<leftarrow> load16 e m 1; Some (unat (drop_bit 15 v)) }"

definition section_length_field :: "byte_order \<Rightarrow> mem \<Rightarrow> nat option" where
  "section_length_field e m = do { v \<leftarrow> load16 e m 1; Some (unat (take_bit 12 v)) }"

definition section_ext_table_id_ext :: "byte_order \<Rightarrow> mem \<Rightarrow> u16 option" where
  "section_ext_table_id_ext e m = load16 e m 3"

definition section_ext_version_number :: "mem \<Rightarrow> u8 option" where
  "section_ext_version_number m = do { b \<leftarrow> rd m 5; Some (take_bit 5 (drop_bit 1 b)) }"

definition section_ext_section_number :: "mem \<Rightarrow> u8 option" where
  "section_ext_section_number m = rd m 6"

definition section_ext_last_section_number :: "mem \<Rightarrow> u8 option" where
  "section_ext_last_section_number m = rd m 7"

definition section_length :: "byte_order \<Rightarrow> mem \<Rightarrow> nat option" where
  "section_length e m = do { l \<leftarrow> section_length_field e m; Some (l + sizeof_section) }"

definition section_ext_length :: "byte_order \<Rightarrow> mem \<Rightarrow> nat option" where
  "section_ext_length e m =
     do { l \<leftarrow> section_length_field e m; Some (size_sub (l + sizeof_section) CRC_SIZE) }"

section \<open>Decoding and encoding\<close>

definition section_codec :: "byte_order \<Rightarrow> mem \<Rightarrow> nat \<Rightarrow> (mem \<times> bool) option" where
  "section_codec e buf len =
     (if len < 3 then Some (buf, False)
      else do {
        buf \<leftarrow> bswap16 e buf 1;
        l \<leftarrow> section_length_field e buf;
        if len \<noteq> l + 3 then Some (buf, False) else Some (buf, True) })"

definition section_check_crc :: "byte_order \<Rightarrow> mem \<Rightarrow> (mem \<times> int) option" where
  "section_check_crc e buf =
     do {
       len \<leftarrow> section_length e buf;
       buf \<leftarrow> bswap16 e buf 1;
       bytes \<leftarrow> rd_bytes buf 0 len;
       let crc = crc32 CRC32_INIT bytes;
       buf \<leftarrow> bswap16 e buf 1;
       if crc \<noteq> 0 then Some (buf, -1) else Some (buf, 0) }"

definition section_ext_decode :: "byte_order \<Rightarrow> mem \<Rightarrow> bool \<Rightarrow> (mem \<times> bool) option" where
  "section_ext_decode e buf check_crc =
     do {
       s \<leftarrow> section_syntax_indicator e buf;
       if s = 0 then Some (buf, False)
       else do {
         (buf, bad) \<leftarrow> (if check_crc then section_check_crc e buf else Some (buf, 0));
         if bad \<noteq> 0 then Some (buf, False)
         else do {
           buf \<leftarrow> bswap16 e buf sizeof_section;
           Some (buf, True) } } }"

definition section_ext_encode :: "byte_order \<Rightarrow> mem \<Rightarrow> bool \<Rightarrow> (mem \<times> bool) option" where
  "section_ext_encode e buf update_crc =
     do {
       s \<leftarrow> section_syntax_indicator e buf;
       if s = 0 then Some (buf, False)
       else do {
         buf \<leftarrow> bswap16 e buf sizeof_section;
         if update_crc then do {
           l \<leftarrow> section_length_field e buf;
           let len = sizeof_section + l;
           buf \<leftarrow> bswap16 e buf 1;
           bytes \<leftarrow> rd_bytes buf 0 (size_sub len 4);
           let crc = crc32 CRC32_INIT bytes;
           buf \<leftarrow> bswap16 e buf 1;
           buf \<leftarrow> store32 e buf (size_sub len 4) crc;
           buf \<leftarrow> bswap32 e buf (size_sub len 4);
           Some (buf, True) }
         else Some (buf, True) } }"

section \<open>Table state\<close>

record psi_table_state =
  version_number :: u8
  next_section_number :: u16
  complete :: bool
  new_table :: bool

definition psi_table_state_reset :: "psi_table_state \<Rightarrow> psi_table_state" where
  "psi_table_state_reset tstate = tstate\<lparr>version_number := 0xff\<rparr>"

text \<open>
  \<open>section_ext_useful\<close>; the header fields are those of the section, \<open>ver\<close>,
  \<open>num\<close> and \<open>lst\<close>.
\<close>

definition useful_fields :: "u8 \<Rightarrow> u8 \<Rightarrow> u8 \<Rightarrow> psi_table_state \<Rightarrow> int \<times> psi_table_state" where
  "useful_fields ver num lst tstate =
     (let accept = (\<lambda>t.
        let t = t\<lparr>next_section_number := next_section_number t + 1\<rparr>;
            t = (if unat lst < unat (next_section_number t) then t\<lparr>complete := True\<rparr> else t)
        in (1, t))
      in if ver = version_number tstate \<and> complete tstate then (0, tstate)
         else if ver \<noteq> version_number tstate then
           (if num \<noteq> 0 then (0, tstate)
            else accept (tstate\<lparr>next_section_number := 0, complete := False,
                                version_number := ver, new_table := True\<rparr>))
         else if unat num = unat (next_section_number tstate) then
           accept (tstate\<lparr>new_table := False\<rparr>)
         else (0, tstate))"

definition section_ext_useful :: "mem \<Rightarrow> psi_table_state \<Rightarrow> (int \<times> psi_table_state) option" where
  "section_ext_useful m tstate =
     do { ver \<leftarrow> section_ext_version_number m;
          num \<leftarrow> section_ext_section_number m;
          lst \<leftarrow> section_ext_last_section_number m;
          Some (useful_fields ver num lst tstate) }"

section \<open>Header lemmas\<close>

text \<open>The 12-bit length and the syntax indicator of the transmitted bytes.\<close>

definition wire_length :: "mem \<Rightarrow> nat" where
  "wire_length w = unat (take_bit 12 (be16 (w ! 1) (w ! 2)))"

definition wire_syntax :: "mem \<Rightarrow> nat" where
  "wire_syntax w = unat (drop_bit 15 (be16 (w ! 1) (w ! 2)))"

lemma wire_length_eq: "wire_length w = (256 * unat (w ! 1) + unat (w ! 2)) mod 4096"
  unfolding wire_length_def unsigned_take_bit_eq by (simp add: unat_be16 take_bit_eq_mod)

lemma wire_length_lt: "wire_length w < 4096"
  by (simp add: wire_length_eq)

lemma header_fields [simp]:
  assumes "3 \<le> length w"
  shows "section_length_field e (swap2 e w (Suc 0)) = Some (wire_length w)"
    and "section_syntax_indicator e (swap2 e w (Suc 0)) = Some (wire_syntax w)"
    and "section_length e (swap2 e w (Suc 0)) = Some (wire_length w + 3)"
  using assms load16_swap2 [of 1 w e]
  by (simp_all add: section_length_field_def section_syntax_indicator_def section_length_def
      wire_length_def wire_syntax_def numeral_2_eq_2)

lemma section_codec_eq:
  "len \<le> length w \<Longrightarrow>
   section_codec e w len =
     (if len < 3 then Some (w, False) else Some (swap2 e w 1, len = wire_length w + 3))"
  by (simp add: section_codec_def)

lemma section_check_crc_eq:
  assumes "3 \<le> length w" "wire_length w + 3 \<le> length w"
  shows "section_check_crc e (swap2 e w 1) =
    Some (swap2 e w 1, if crc32 CRC32_INIT (take (wire_length w + 3) w) = 0 then 0 else -1)"
  using assms by (simp add: section_check_crc_def rd_bytes_def Let_def)

lemma section_ext_length_eq:
  assumes "3 \<le> length w" "1 \<le> wire_length w"
  shows "section_ext_length e (swap2 e w (Suc 0)) = Some (wire_length w - 1)"
  using assms by (simp add: section_ext_length_def)

section \<open>Encoding produces a section whose CRC is correct\<close>

lemma store32_blit:
  "p + 4 \<le> length m \<Longrightarrow>
   do { m \<leftarrow> store32 e m p v; bswap32 e m p } = blit m p (be_bytes32 v)"
proof (cases e)
  case LittleEndian
  assume "p + 4 \<le> length m"
  then obtain xs zs ys where m: "m = xs @ zs @ ys" "length xs = p" "length zs = 4"
    by (rule split_bytes)
  then obtain a b c d where "zs = [a, b, c, d]" by (auto simp: length_4_iff)
  with m LittleEndian show ?thesis
    by (auto simp: be_bytes32_def rd_def wr_def nth_append list_update_append)
next
  case BigEndian
  assume "p + 4 \<le> length m"
  then obtain xs zs ys where m: "m = xs @ zs @ ys" "length xs = p" "length zs = 4"
    by (rule split_bytes)
  then obtain a b c d where "zs = [a, b, c, d]" by (auto simp: length_4_iff)
  with m BigEndian show ?thesis
    by (auto simp: be_bytes32_def rd_def wr_def nth_append list_update_append)
qed

lemma swap2_commute:
  "p + 1 < q \<or> q + 1 < p \<Longrightarrow> swap2 e (swap2 e m p) q = swap2 e (swap2 e m q) p"
  by (cases e) (auto simp: swap2_def list_update_swap nth_list_update)

text \<open>The section as \<open>section_ext_decode\<close> leaves it: both 16-bit units in host order.\<close>

definition decoded_ext :: "byte_order \<Rightarrow> mem \<Rightarrow> mem" where
  "decoded_ext e w = swap2 e (swap2 e w (Suc 0)) 3"

lemma length_decoded_ext [simp]: "length (decoded_ext e w) = length w"
  by (simp add: decoded_ext_def)

lemma decoded_ext_fields [simp]:
  assumes "3 \<le> length w"
  shows "section_syntax_indicator e (decoded_ext e w) = Some (wire_syntax w)"
    and "section_length_field e (decoded_ext e w) = Some (wire_length w)"
    and "section_ext_length e (decoded_ext e w) = Some (size_sub (wire_length w + 3) 4)"
  using assms header_fields [of w e]
  by (simp_all add: decoded_ext_def section_syntax_indicator_def section_length_field_def
      section_ext_length_def load16_swap2_other)

lemma decoded_ext_table_id_ext [simp]:
  "5 \<le> length w \<Longrightarrow> section_ext_table_id_ext e (decoded_ext e w) = Some (be16 (w ! 3) (w ! 4))"
  using load16_swap2 [of 3 "swap2 e w (Suc 0)" e]
  by (simp add: section_ext_table_id_ext_def decoded_ext_def swap2_nth_other)

lemma decoded_ext_swap_back: "5 \<le> length w \<Longrightarrow> swap2 e (decoded_ext e w) 3 = swap2 e w (Suc 0)"
  by (simp add: decoded_ext_def)

lemma swap2_blit_commute:
  assumes "p + 1 < q" "q + length xs \<le> length w"
  shows "take q (swap2 e w p) @ xs @ drop (q + length xs) (swap2 e w p)
       = swap2 e (take q w @ xs @ drop (q + length xs) w) p"
  using assms by (cases e)
    (auto simp: swap2_def take_update_swap nth_append list_update_append drop_update_swap)

lemma section_ext_encode_eq:
  assumes len: "length w = wire_length w + 3" and six: "6 \<le> wire_length w" and syn: "wire_syntax w \<noteq> 0"
    and w': "w' = take (wire_length w - 1) w @ be_bytes32 (crc32 CRC32_INIT (take (wire_length w - 1) w))"
  shows "section_ext_encode e (decoded_ext e w) True = Some (swap2 e w' (Suc 0), True)"
proof -
  let ?q = "wire_length w - 1"
  have q: "Suc (Suc 0) < ?q" "?q + 4 = length w" using len six by auto
  have blit: "do { m \<leftarrow> store32 e (swap2 e w (Suc 0)) ?q c; bswap32 e m ?q }
      = Some (swap2 e (take ?q w @ be_bytes32 c) (Suc 0))" for c
    using store32_blit [of ?q "swap2 e w (Suc 0)" e c] q
      swap2_blit_commute [of "Suc 0" ?q "be_bytes32 c" w e] by simp
  from len six syn show ?thesis
    using blit unfolding w'
    by (simp add: section_ext_encode_def decoded_ext_swap_back Let_def rd_bytes_def flip: bind_assoc)
qed

lemma section_ext_decode_eq:
  assumes "wire_length w + 3 \<le> length w" "5 \<le> length w"
  shows "section_ext_decode e (swap2 e w (Suc 0)) check_crc =
    (if wire_syntax w = 0 \<or> check_crc \<and> crc32 CRC32_INIT (take (wire_length w + 3) w) \<noteq> 0
     then Some (swap2 e w (Suc 0), False) else Some (decoded_ext e w, True))"
  using assms section_check_crc_eq [of w e] by (simp add: section_ext_decode_def decoded_ext_def)

lemma encoded_header:
  assumes "length w = wire_length w + 3" "6 \<le> wire_length w"
    and w': "w' = take (wire_length w - 1) w @ be_bytes32 c"
  shows "length w' = length w" "wire_length w' = wire_length w" "wire_syntax w' = wire_syntax w"
    and "take 8 w' = take 8 w \<or> wire_length w < 9" and "w' ! 3 = w ! 3" "w' ! 4 = w ! 4"
proof -
  have "2 < wire_length w - 1" using assms(2) by simp
  with assms have h: "w' ! 1 = w ! 1" "w' ! 2 = w ! 2"
    by (simp_all add: nth_append)
  from h show "wire_length w' = wire_length w" "wire_syntax w' = wire_syntax w"
    by (simp_all add: wire_length_def wire_syntax_def)
  show "take 8 w' = take 8 w \<or> wire_length w < 9" "w' ! 3 = w ! 3" "w' ! 4 = w ! 4"
    using assms by (auto simp: nth_append)
  show "length w' = length w" using assms by simp
qed

lemma crc_short_nonzero:
  assumes "length w = wire_length w + 3" "wire_length w < 2"
  shows "crc32 CRC32_INIT w \<noteq> 0"
proof
  assume "crc32 CRC32_INIT w = 0"
  then have z: "crc_serial CRC32_INIT w = 0" by (simp add: crc32_serial)
  consider "length w = 3" | "length w = 4" using assms by linarith
  then show False
  proof cases
    case 1
    then obtain a b c where "w = [a, b, c]" by (auto simp: length_3_iff)
    then have "crc_serial_byte (crc_serial CRC32_INIT w) 0 = crc_serial CRC32_INIT [a, b, c, 0]"
      by (simp add: crc_serial_def)
    then have "(crc_bit ^^ 32) (CRC32_INIT XOR be32 a b c 0) = 0"
      unfolding z crc_serial_4 [symmetric] by (simp add: crc_serial_byte_def)
    then have "CRC32_INIT XOR be32 a b c 0 = 0"
      using crc_bits_inj [of 32 _ 0] by simp
    then have "bit (CRC32_INIT XOR be32 a b c 0) 0 = bit (0 :: u32) 0" by (simp only:)
    then show False by (simp add: CRC32_INIT_def be32_def bit_simps)
  next
    case 2
    then obtain a b c d where w: "w = [a, b, c, d]" by (auto simp: length_4_iff)
    with z have "(crc_bit ^^ 32) (CRC32_INIT XOR be32 a b c d) = 0"
      by (simp add: crc_serial_4)
    then have "CRC32_INIT XOR be32 a b c d = CRC32_INIT XOR CRC32_INIT"
      using crc_bits_inj [of 32 _ 0] by simp
    then have ones: "be32 a b c d = CRC32_INIT" by (rule xor_cancel_left)
    have "b = 0xff" "c = 0xff"
      using be32_bytes [of a b c d] unfolding ones
      by (simp_all add: CRC32_INIT_def mask_eq_exp_minus_1)
    then have "wire_length w = 4095" by (simp add: w wire_length_eq)
    with assms show False by simp
  qed
qed

section \<open>Collecting the sections of a table\<close>

text \<open>A caller's loop over the sections of one table: the answers and the final state.\<close>

fun feed :: "mem list \<Rightarrow> psi_table_state \<Rightarrow> (int list \<times> psi_table_state) option" where
  "feed [] t = Some ([], t)"
| "feed (m # ms) t =
     do { (r, t) \<leftarrow> section_ext_useful m t; (rs, t) \<leftarrow> feed ms t; Some (r # rs, t) }"

definition section_is :: "u8 \<Rightarrow> nat \<Rightarrow> u8 \<Rightarrow> mem \<Rightarrow> bool" where
  "section_is ver num lst m \<longleftrightarrow>
     section_ext_version_number m = Some ver \<and>
     section_ext_section_number m = Some (of_nat num) \<and>
     section_ext_last_section_number m = Some lst"

lemma feed_append: "feed (ms @ ns) t =
    do { (rs, t) \<leftarrow> feed ms t; (qs, t) \<leftarrow> feed ns t; Some (rs @ qs, t) }"
  by (induction ms arbitrary: t) (auto split: Option.bind_splits)

lemma version_number_lt: "section_ext_version_number m = Some v \<Longrightarrow> v \<noteq> 0xff"
proof -
  assume "section_ext_version_number m = Some v"
  then obtain b where v: "v = take_bit 5 (drop_bit 1 b)"
    by (auto simp: section_ext_version_number_def split: Option.bind_splits)
  have "\<not> bit v 7" by (simp add: v bit_simps)
  then show ?thesis by (auto simp: bit_simps)
qed

lemma feed_in_order:
  assumes "version_number t = 0xff" and "ms \<noteq> []" and "length ms \<le> unat lst + 1"
    and "\<And>i. i < length ms \<Longrightarrow> section_is ver i lst (ms ! i)"
  shows "feed ms t = Some (replicate (length ms) 1,
     t\<lparr>version_number := ver, next_section_number := of_nat (length ms),
       complete := (length ms = unat lst + 1), new_table := (length ms = 1)\<rparr>)"
  using assms(2-4)
proof (induction ms rule: rev_nonempty_induct)
  case (single m)
  then have m: "section_is ver 0 lst m" by force
  then have "ver \<noteq> version_number t"
    using assms(1) version_number_lt by (auto simp: section_is_def)
  with m show ?case
    by (auto simp: section_ext_useful_def section_is_def useful_fields_def Let_def)
next
  case (snoc m ms)
  let ?n = "length ms"
  have n: "?n < 256" "?n \<le> unat lst" "0 < ?n"
    using snoc.prems(1) unat_byte_lt [of lst] snoc.hyps by (auto simp: Suc_le_eq)
  have m: "section_is ver ?n lst m" using snoc.prems(2) [of ?n] by simp
  have IH: "feed ms t = Some (replicate ?n 1,
     t\<lparr>version_number := ver, next_section_number := of_nat ?n,
       complete := (?n = unat lst + 1), new_table := (?n = 1)\<rparr>)"
  proof (rule snoc.IH)
    show "section_is ver i lst (ms ! i)" if "i < ?n" for i
      using snoc.prems(2) [of i] that by (simp add: nth_append)
  qed (use snoc.prems(1) in simp)
  have u: "unat (of_nat ?n :: u8) = ?n" "unat (of_nat ?n :: u16) = ?n"
      "unat (1 + of_nat ?n :: u16) = Suc ?n"
    using n(1) by (simp_all add: unat_of_nat_u8 unat_of_nat_u16 unat_word_ariths)
  from m n IH u show ?case
    by (cases t) (auto simp: feed_append section_ext_useful_def section_is_def useful_fields_def Let_def
        replicate_append_same add.commute)
qed

section \<open>Properties\<close>

text \<open>C6: \<open>section_codec\<close> never touches memory outside a buffer of at least \<open>len\<close>
  bytes; it accepts exactly the buffers whose 12-bit big-endian length field says \<open>len - 3\<close>,
  on hosts of either byte order, and \<open>section_length\<close> of an accepted section is \<open>len\<close>.\<close>

theorem section_codec_correct:
  assumes "len \<le> length w"
  shows "\<exists>m. section_codec e w len =
           Some (m, 3 \<le> len \<and> len = 3 + (256 * unat (w ! 1) + unat (w ! 2)) mod 4096)
         \<and> (3 \<le> len \<and> len = 3 + (256 * unat (w ! 1) + unat (w ! 2)) mod 4096
              \<longrightarrow> section_length e m = Some len \<and> drop 3 m = drop 3 w)"
proof (cases "len < 3")
  case True
  with assms show ?thesis by (simp add: section_codec_eq)
next
  case False
  with assms show ?thesis
    by (auto simp: section_codec_eq wire_length_eq drop_swap2)
qed

theorem section_codec_correct_witness:
  "\<exists>m. section_codec LittleEndian [0x42, 0xb0, 0x02, 0xaa, 0xbb] 5 = Some (m, True)
     \<and> section_length LittleEndian m = Some 5"
  using section_codec_correct [of 5 "[0x42, 0xb0, 0x02, 0xaa, 0xbb]" LittleEndian] by auto

text \<open>C3: encoding an extended section with a CRC update and decoding it again with the CRC check
  succeeds and gives back the section as it was, apart from the four CRC bytes at its end; the host
  byte order does not matter.\<close>

theorem section_ext_encode_decode:
  assumes "length w = wire_length w + 3" "6 \<le> wire_length w" "wire_syntax w \<noteq> 0"
  shows "\<exists>m m'. section_ext_encode e (decoded_ext e w) True = Some (m, True)
            \<and> section_ext_decode e m True = Some (m', True)
            \<and> length m' = length w
            \<and> take (length w - 4) m' = take (length w - 4) (decoded_ext e w)"
proof -
  let ?q = "wire_length w - 1"
  define w' where "w' = take ?q w @ be_bytes32 (crc32 CRC32_INIT (take ?q w))"
  note hdr = encoded_header [OF assms(1,2) w'_def]
  have "crc32 CRC32_INIT w' = 0"
    unfolding w'_def by (rule crc32_remainder)
  then have "section_ext_decode e (swap2 e w' (Suc 0)) True = Some (decoded_ext e w', True)"
    using assms hdr by (simp add: section_ext_decode_eq)
  moreover have "take ?q (decoded_ext e w') = take ?q (decoded_ext e w)"
    using assms(1,2) by (cases e) (simp_all add: decoded_ext_def swap2_def w'_def take_update_swap nth_append)
  ultimately show ?thesis
    using section_ext_encode_eq [OF assms w'_def, of e] assms(1,2) hdr(1) by auto
qed

theorem section_ext_encode_decode_witness:
  "\<exists>m m'. section_ext_encode LittleEndian
       (decoded_ext LittleEndian [0x42, 0x80, 0x09, 1, 2, 3, 0, 0, 0, 0, 0, 0]) True = Some (m, True)
     \<and> section_ext_decode LittleEndian m True = Some (m', True)"
proof -
  let ?w = "[0x42, 0x80, 0x09, 1, 2, 3, 0, 0, 0, 0, 0, 0] :: mem"
  have "wire_length ?w = 9" "wire_syntax ?w \<noteq> 0"
    by (simp_all add: wire_length_eq) (simp add: wire_syntax_def be16_def)
  then show ?thesis
    using section_ext_encode_decode [of ?w LittleEndian] by auto
qed

text \<open>when \<open>section_ext_decode\<close> checks the CRC it stays inside every section that
  \<open>section_codec\<close> accepted, even a section too short to have an extended header: no
  section of three or four bytes has a correct CRC.\<close>

theorem section_ext_decode_crc_safe:
  assumes "section_codec e w (length w) = Some (m, True)"
  shows "\<exists>m' ok. section_ext_decode e m True = Some (m', ok) \<and> length m' = length w
    \<and> (ok \<longleftrightarrow> wire_syntax w \<noteq> 0 \<and> crc32 CRC32_INIT w = 0)"
proof -
  from assms have m: "m = swap2 e w (Suc 0)" "3 \<le> length w" "length w = wire_length w + 3"
    by (auto simp: section_codec_eq split: if_splits)
  show ?thesis
  proof (cases "wire_length w < 2")
    case True
    with m crc_short_nonzero [of w] section_check_crc_eq [of w e] show ?thesis
      by (auto simp: section_ext_decode_def)
  next
    case False
    with m show ?thesis by (simp add: section_ext_decode_eq)
  qed
qed

theorem section_ext_decode_crc_safe_witness:
  "\<exists>m' ok. section_ext_decode LittleEndian [0x42, 0x00, 0x80] True = Some (m', ok) \<and> \<not> ok"
proof -
  have c: "section_codec LittleEndian [0x42, 0x80, 0x00] (length [0x42 :: u8, 0x80, 0x00])
      = Some ([0x42, 0x00, 0x80], True)"
    by (simp add: section_codec_eq swap2_def wire_length_eq)
  have "crc32 CRC32_INIT [0x42, 0x80, 0x00] \<noteq> 0"
    by (rule crc_short_nonzero) (simp_all add: wire_length_eq)
  with section_ext_decode_crc_safe [OF c] show ?thesis by auto
qed

text \<open>without the CRC check \<open>section_ext_decode\<close> does not look at the section length
  before it swaps the table id extension: on a little-endian host it accesses memory
  past the end of an accepted section of three or four bytes with the syntax indicator set.\<close>

theorem section_ext_decode_short_faults:
  "section_codec LittleEndian [t, 0x80, 0x00] 3 = Some ([t, 0x00, 0x80], True)
   \<and> section_ext_decode LittleEndian [t, 0x00, 0x80] False = None"
proof
  show "section_codec LittleEndian [t, 0x80, 0x00] 3 = Some ([t, 0x00, 0x80], True)"
    by (simp add: section_codec_eq swap2_def wire_length_eq)
  show "section_ext_decode LittleEndian [t, 0x00, 0x80] False = None"
    by (simp add: section_ext_decode_def section_syntax_indicator_def rd_def be16_def)
qed

text \<open>C9: a table whose sections arrive in order is collected completely: from a reset state each of
  its sections is reported useful exactly once, only the first announces a new table, the table is
  complete exactly after section \<open>last_section_number\<close>, and from then on no section of that
  version is useful.\<close>

theorem section_ext_useful_in_order:
  assumes "ms \<noteq> []" and "length ms \<le> unat lst + 1"
    and "\<forall>i < length ms. section_is ver i lst (ms ! i)"
  shows "\<exists>t'. feed ms (psi_table_state_reset t) = Some (replicate (length ms) 1, t')
     \<and> version_number t' = ver
     \<and> new_table t' = (length ms = 1)
     \<and> complete t' = (length ms = unat lst + 1)
     \<and> (complete t' \<longrightarrow> (\<forall>num lst' m. section_is ver num lst' m \<longrightarrow> section_ext_useful m t' = Some (0, t')))"
proof -
  have "version_number (psi_table_state_reset t) = 0xff" by (simp add: psi_table_state_reset_def)
  from feed_in_order [OF this assms(1,2)] assms(3) show ?thesis
    by (auto simp: section_ext_useful_def section_is_def useful_fields_def)
qed

theorem section_ext_useful_in_order_witness:
  "\<exists>t'. feed [[0, 0, 0, 0, 0, 0x07, 0, 1], [0, 0, 0, 0, 0, 0x07, 1, 1]]
       (psi_table_state_reset \<lparr>version_number = 0, next_section_number = 5, complete = True, new_table = False\<rparr>)
     = Some ([1, 1], t') \<and> complete t'"
proof -
  let ?ms = "[[0, 0, 0, 0, 0, 0x07, 0, 1], [0, 0, 0, 0, 0, 0x07, 1, 1]] :: mem list"
  have "\<forall>i < length ?ms. section_is 3 i 1 (?ms ! i)"
    by (auto simp: less_Suc_eq section_is_def section_ext_version_number_def
        section_ext_section_number_def section_ext_last_section_number_def rd_def)
  then show ?thesis
    using section_ext_useful_in_order [of ?ms 1 3
        "\<lparr>version_number = 0, next_section_number = 5, complete = True, new_table = False\<rparr>"]
    by (auto simp: numeral_2_eq_2)
qed

end
