(* ===== verification/Entry_Table.thy ===== *)
theory Entry_Table
  imports Descriptor Section
begin

text \<open>
  The loop that most section codecs share: a sequence of entries, each a fixed header with 16-bit
  fields and a 12-bit length, followed by that many bytes of descriptors
  (\<open>mpeg_pmt_stream\<close>, \<open>dvb_nit_transport\<close>, \<open>dvb_sdt_service\<close>, \<open>dvb_eit_event\<close>, ...).

  \<open>entry_loop\<close> is the \<open>while\<close> loop with its header size, the offsets it swaps
  and the offset of the length field as parameters; \<open>entry_next\<close> is the step of the
  corresponding \<open>..._for_each\<close> macro.  The locale \<open>entry_table\<close> states when these parameters
  fit together; its lemmas give the exact set of accepted byte strings, the decoded
  image and what the walk reads from it.  Each section theory interprets it for its own entries.
\<close>

section \<open>The code\<close>

primrec swap_all :: "byte_order \<Rightarrow> mem \<Rightarrow> nat list \<Rightarrow> mem option" where
  "swap_all e m [] = Some m"
| "swap_all e m (p # ps) = do { m \<leftarrow> bswap16 e m p; swap_all e m ps }"

text \<open>A 12-bit length that shares a 16-bit unit with four or fewer leading bits.\<close>

definition length12 :: "byte_order \<Rightarrow> mem \<Rightarrow> nat \<Rightarrow> nat option" where
  "length12 e m p = do { v \<leftarrow> load16 e m p; Some (unat (take_bit 12 v)) }"

partial_function (option) entry_loop ::
  "byte_order \<Rightarrow> nat \<Rightarrow> nat list \<Rightarrow> nat \<Rightarrow> mem \<Rightarrow> nat \<Rightarrow> nat \<Rightarrow> (mem \<times> bool) option" where
  "entry_loop e hsz offs lo m pos len =
     (if pos < len then
        if pos + hsz > len then Some (m, False)
        else do {
          m \<leftarrow> swap_all e m (map (\<lambda>off. pos + off) offs);
          dl \<leftarrow> length12 e m (pos + lo);
          if pos + hsz + dl > len then Some (m, False)
          else do {
            r \<leftarrow> verify_descriptors m (pos + hsz) dl;
            if r \<noteq> 0 then Some (m, False)
            else entry_loop e hsz offs lo m (pos + hsz + dl) len } }
      else if pos \<noteq> len then Some (m, False) else Some (m, True))"

declare entry_loop.simps [code]

text \<open>A single header with its descriptors, followed by \<open>k\<close>: the part before the loop.\<close>

definition entry_block ::
  "byte_order \<Rightarrow> nat \<Rightarrow> nat list \<Rightarrow> nat \<Rightarrow> mem \<Rightarrow> nat \<Rightarrow> nat \<Rightarrow>
   (mem \<Rightarrow> nat \<Rightarrow> (mem \<times> bool) option) \<Rightarrow> (mem \<times> bool) option" where
  "entry_block e hsz offs lo m pos len k =
     do {
       m \<leftarrow> swap_all e m (map (\<lambda>off. pos + off) offs);
       dl \<leftarrow> length12 e m (pos + lo);
       if pos + hsz + dl > len then Some (m, False)
       else do {
         r \<leftarrow> verify_descriptors m (pos + hsz) dl;
         if r \<noteq> 0 then Some (m, False) else k m (pos + hsz + dl) } }"

definition entry_next :: "byte_order \<Rightarrow> nat \<Rightarrow> nat \<Rightarrow> mem \<Rightarrow> nat \<Rightarrow> nat \<Rightarrow> nat option option" where
  "entry_next e hsz lo m stop p =
     do { dl \<leftarrow> length12 e m (p + lo);
          let nxt = p + hsz + dl;
          Some (if nxt \<ge> stop then None else Some nxt) }"

text \<open>The descriptors of the entry at \<open>p\<close>: \<open>..._descriptors_first\<close> and
  \<open>..._descriptors_next\<close>, and the list a walk with them visits.\<close>

definition walk :: "nat option option \<Rightarrow> (nat \<Rightarrow> nat option option) \<Rightarrow> nat list option" where
  "walk fst_entry nxt = do { p \<leftarrow> fst_entry; for_each nxt p }"

definition entry_descriptors :: "byte_order \<Rightarrow> nat \<Rightarrow> nat \<Rightarrow> mem \<Rightarrow> nat \<Rightarrow> nat list option" where
  "entry_descriptors e hsz lo m p =
     do { dl \<leftarrow> length12 e m (p + lo);
          for_each (\<lambda>d. next_descriptor m (p + hsz) dl (Some d))
            (if dl = 0 then None else Some (p + hsz)) }"

section \<open>Swapping the fields of a header\<close>

definition swap_hdr :: "byte_order \<Rightarrow> nat list \<Rightarrow> u8 list \<Rightarrow> u8 list" where
  "swap_hdr e offs h = foldl (swap2 e) h offs"

lemma length_swap_hdr [simp]: "length (swap_hdr e offs h) = length h"
  by (induction offs arbitrary: h) (simp_all add: swap_hdr_def)

lemma swap2_append:
  "length xs = p \<Longrightarrow> off + 1 < length h \<Longrightarrow> swap2 e (xs @ h @ ys) (p + off) = xs @ swap2 e h off @ ys"
  by (cases e) (auto simp: swap2_def list_update_append nth_append)

lemma swap_all_append:
  "length xs = p \<Longrightarrow> list_all (\<lambda>off. off + 1 < length h) offs \<Longrightarrow>
   swap_all e (xs @ h @ ys) (map (\<lambda>off. p + off) offs) = Some (xs @ swap_hdr e offs h @ ys)"
proof (induction offs arbitrary: h)
  case (Cons off offs)
  then show ?case by (simp add: swap2_append swap_hdr_def)
qed (simp add: swap_hdr_def)

text \<open>The swapped positions are disjoint two-byte units inside the header.\<close>

definition fields_in :: "nat list \<Rightarrow> nat \<Rightarrow> bool" where
  "fields_in offs n \<longleftrightarrow> list_all (\<lambda>off. off + 1 < n) offs
     \<and> distinct offs \<and> (\<forall>a \<in> set offs. \<forall>b \<in> set offs. a \<noteq> b + 1)"

lemma fields_in_Cons: "fields_in (off # offs) n \<Longrightarrow> fields_in offs n \<and> off + 1 < n
    \<and> (\<forall>a \<in> set offs. a \<noteq> off \<and> a \<noteq> off + 1 \<and> a + 1 \<noteq> off)"
  by (auto simp: fields_in_def)

lemma swap_hdr_other:
  "(\<forall>a \<in> set offs. i \<noteq> a \<and> i \<noteq> a + 1) \<Longrightarrow> swap_hdr e offs h ! i = h ! i"
proof (induction offs arbitrary: h)
  case (Cons off offs)
  then show ?case by (simp add: swap_hdr_def swap2_nth_other)
qed (simp add: swap_hdr_def)

lemma load16_cong:
  "p + 1 < length m \<Longrightarrow> q + 1 < length m' \<Longrightarrow> m ! p = m' ! q \<Longrightarrow> m ! (p + 1) = m' ! (q + 1) \<Longrightarrow>
   load16 e m p = load16 e m' q"
  by (cases e) simp_all

lemma load16_swap_hdr:
  "fields_in offs (length h) \<Longrightarrow> off \<in> set offs \<Longrightarrow>
   load16 e (swap_hdr e offs h) off = Some (be16 (h ! off) (h ! (off + 1)))"
proof (induction offs arbitrary: h)
  case (Cons o1 offs)
  note d = fields_in_Cons [OF Cons.prems(1)]
  have eq: "swap_hdr e (o1 # offs) h = swap_hdr e offs (swap2 e h o1)" by (simp add: swap_hdr_def)
  show ?case
  proof (cases "off = o1")
    case True
    have "load16 e (swap_hdr e offs (swap2 e h o1)) o1 = load16 e (swap2 e h o1) o1"
      using d by (intro load16_cong swap_hdr_other) auto
    with True d load16_swap2 [of o1 h e] show ?thesis by (simp add: eq)
  next
    case False
    with Cons.prems(2) have off: "off \<in> set offs" by simp
    have "load16 e (swap_hdr e offs (swap2 e h o1)) off
        = Some (be16 (swap2 e h o1 ! off) (swap2 e h o1 ! (off + 1)))"
      using d off by (intro Cons.IH) simp_all
    with d off show ?thesis by (auto simp: eq swap2_nth_other)
  qed
qed simp

lemma load16_append:
  "length xs = p \<Longrightarrow> off + 1 < length h \<Longrightarrow> load16 e (xs @ h @ ys) (p + off) = load16 e h off"
  by (rule load16_cong) (auto simp: nth_append)

section \<open>Entries\<close>

type_synonym tentry = "u8 list \<times> desc list"

definition wire12 :: "u8 list \<Rightarrow> nat \<Rightarrow> nat" where
  "wire12 h lo = unat (take_bit 12 (be16 (h ! lo) (h ! (lo + 1))))"

lemma wire12_eq: "wire12 h lo = (256 * unat (h ! lo) + unat (h ! (lo + 1))) mod 4096"
  unfolding wire12_def unsigned_take_bit_eq by (simp add: unat_be16 take_bit_eq_mod)

definition entry_ok :: "nat \<Rightarrow> nat \<Rightarrow> tentry \<Rightarrow> bool" where
  "entry_ok hsz lo x \<longleftrightarrow> length (fst x) = hsz \<and> list_all desc_ok (snd x)
     \<and> wire12 (fst x) lo = length (descs_bytes (snd x))"

definition entry_bytes :: "tentry \<Rightarrow> u8 list" where
  "entry_bytes x = fst x @ descs_bytes (snd x)"

definition decoded_entry :: "byte_order \<Rightarrow> nat list \<Rightarrow> tentry \<Rightarrow> u8 list" where
  "decoded_entry e offs x = swap_hdr e offs (fst x) @ descs_bytes (snd x)"

definition entries_bytes :: "tentry list \<Rightarrow> u8 list" where
  "entries_bytes xs = concat (map entry_bytes xs)"

definition decoded_entries :: "byte_order \<Rightarrow> nat list \<Rightarrow> tentry list \<Rightarrow> u8 list" where
  "decoded_entries e offs xs = concat (map (decoded_entry e offs) xs)"

lemma entries_simps [simp]:
  "entries_bytes [] = []" "entries_bytes (x # xs) = entry_bytes x @ entries_bytes xs"
  "decoded_entries e offs [] = []"
  "decoded_entries e offs (x # xs) = decoded_entry e offs x @ decoded_entries e offs xs"
  by (simp_all add: entries_bytes_def decoded_entries_def)

lemma length_decoded_entry [simp]: "length (decoded_entry e offs x) = length (entry_bytes x)"
  by (simp add: decoded_entry_def entry_bytes_def)

lemma length_decoded_entries [simp]: "length (decoded_entries e offs xs) = length (entries_bytes xs)"
  by (induction xs) simp_all

text \<open>The offsets of the entries of a table that starts at \<open>p\<close>.\<close>

fun offsets :: "nat \<Rightarrow> tentry list \<Rightarrow> nat list" where
  "offsets p [] = []"
| "offsets p (x # xs) = p # offsets (p + length (entry_bytes x)) xs"

lemma verify_bytes:
  assumes "list_all desc_ok ds" "length xs = p"
  shows "verify_descriptors (xs @ descs_bytes ds @ ys) p (length (descs_bytes ds)) = Some 0"
proof -
  have "bytes_at (xs @ descs_bytes ds @ ys) p (descs_bytes ds)" using assms(2) by (simp add: bytes_at_def)
  from bytes_tiles [OF assms(1) this] show ?thesis
    using verify_descriptors_tiles [of p "length (descs_bytes ds)" "xs @ descs_bytes ds @ ys"] assms(2) by auto
qed

lemma verify_bytesD:
  assumes "verify_descriptors (xs @ d @ ys) p (length d) = Some 0" "length xs = p"
  shows "\<exists>ds. list_all desc_ok ds \<and> d = descs_bytes ds"
proof -
  have b: "p + length d \<le> length (xs @ d @ ys)" using assms(2) by simp
  from assms(1) verify_descriptors_tiles [OF b] obtain ps where
    "tiles (descriptor_size (xs @ d @ ys)) (p + length d) p ps" by blast
  from tiles_bytes [OF this b] assms(2) show ?thesis by fastforce
qed

definition entry_size :: "byte_order \<Rightarrow> nat \<Rightarrow> nat \<Rightarrow> mem \<Rightarrow> nat \<Rightarrow> nat option" where
  "entry_size e hsz lo m p = map_option (\<lambda>dl. hsz + dl) (length12 e m (p + lo))"

interpretation entries: contiguous_entries "entry_size e hsz lo m" "entry_next e hsz lo m stop" stop
  for e hsz lo m stop
  by unfold_locales (auto simp: entry_next_def entry_size_def Let_def split: option.splits)

lemma bytes_at_split:
  assumes "bytes_at m p xs"
  shows "m = take p m @ xs @ drop (p + length xs) m"
proof -
  have "drop p m = take (length xs) (drop p m) @ drop (length xs) (drop p m)"
    by (rule append_take_drop_id [symmetric])
  then have "drop p m = xs @ drop (p + length xs) m"
    using assms unfolding bytes_at_def by (simp add: add.commute)
  then show ?thesis by (metis append_take_drop_id)
qed

section \<open>Entry tables\<close>

locale entry_table =
  fixes hsz :: nat and offs :: "nat list" and lo :: nat
  assumes fields: "fields_in offs hsz" and lo_in: "lo \<in> set offs"
begin

lemma hsz_pos: "lo + 1 < hsz" "0 < hsz"
  using fields lo_in by (auto simp: fields_in_def list_all_iff)

lemma length12_decoded:
  assumes "length h = hsz" "length xs = p"
  shows "length12 e (xs @ swap_hdr e offs h @ ys) (p + lo) = Some (wire12 h lo)"
proof -
  have "load16 e (xs @ swap_hdr e offs h @ ys) (p + lo) = load16 e (swap_hdr e offs h) lo"
    using assms hsz_pos by (intro load16_append) simp_all
  with load16_swap_hdr [of offs h lo e] fields lo_in assms(1) show ?thesis
    by (simp add: length12_def wire12_def)
qed

text \<open>One iteration.\<close>

lemma loop_step:
  assumes "length xs = p" "length h = hsz" "len = p + hsz + length rest"
  shows "entry_loop e hsz offs lo (xs @ h @ rest @ ys) p len =
    (let m = xs @ swap_hdr e offs h @ rest @ ys in
     if length rest < wire12 h lo then Some (m, False)
     else do { r \<leftarrow> verify_descriptors m (p + hsz) (wire12 h lo);
               if r \<noteq> 0 then Some (m, False)
               else entry_loop e hsz offs lo m (p + hsz + wire12 h lo) len })"
proof -
  have "list_all (\<lambda>off. off + 1 < length h) offs"
    using fields assms(2) by (simp add: fields_in_def)
  note sw = swap_all_append [OF assms(1) this]
  show ?thesis
    using sw length12_decoded [OF assms(2,1)] hsz_pos assms(3)
    by (subst entry_loop.simps) (auto simp: Let_def)
qed

text \<open>The loop accepts every serialised table and leaves its decoded image.\<close>

lemma loop_accepts:
  "list_all (entry_ok hsz lo) es \<Longrightarrow> length xs = p \<Longrightarrow>
   entry_loop e hsz offs lo (xs @ entries_bytes es @ ys) p (p + length (entries_bytes es))
     = Some (xs @ decoded_entries e offs es @ ys, True)"
proof (induction es arbitrary: xs p)
  case Nil
  then show ?case by (subst entry_loop.simps) simp
next
  case (Cons x es)
  obtain h ds where x: "x = (h, ds)" by (cases x)
  with Cons.prems have ok: "length h = hsz" "list_all desc_ok ds" "wire12 h lo = length (descs_bytes ds)"
    by (simp_all add: entry_ok_def)
  have v: "verify_descriptors (xs @ swap_hdr e offs h @ descs_bytes ds @ entries_bytes es @ ys)
      (p + hsz) (length (descs_bytes ds)) = Some 0"
    using verify_bytes [OF ok(2), of "xs @ swap_hdr e offs h" "p + hsz" "entries_bytes es @ ys"]
      Cons.prems(2) ok(1) by simp
  have IH: "entry_loop e hsz offs lo (xs @ swap_hdr e offs h @ descs_bytes ds @ entries_bytes es @ ys)
      (p + hsz + length (descs_bytes ds)) (p + hsz + length (descs_bytes ds) + length (entries_bytes es))
    = Some (xs @ decoded_entries e offs (x # es) @ ys, True)"
    using Cons.IH [of "xs @ swap_hdr e offs h @ descs_bytes ds" "p + hsz + length (descs_bytes ds)"]
      Cons.prems ok(1) by (simp add: x decoded_entry_def)
  from v IH ok(1,3) show ?case
    using loop_step [OF Cons.prems(2) ok(1), of _ "descs_bytes ds @ entries_bytes es" e ys]
    by (simp add: x entry_bytes_def add.assoc)
qed

text \<open>The loop ends without a fault on any bytes, and accepts nothing but serialised tables.\<close>

definition loop_result :: "mem \<Rightarrow> nat \<Rightarrow> u8 list \<Rightarrow> (mem \<times> bool) option \<Rightarrow> bool" where
  "loop_result m h body r \<longleftrightarrow> (\<exists>m' ok. r = Some (m', ok) \<and> length m' = length m
     \<and> (ok \<longrightarrow> (\<exists>es. list_all (entry_ok h lo) es \<and> body = entries_bytes es)))"

lemma loop_resultI:
  "r = Some (m', ok) \<Longrightarrow> length m' = length m \<Longrightarrow>
   (ok \<Longrightarrow> \<exists>es. list_all (entry_ok h lo) es \<and> body = entries_bytes es) \<Longrightarrow> loop_result m h body r"
  by (auto simp: loop_result_def)

lemma loop_total:
  "length xs = p \<Longrightarrow>
   loop_result (xs @ body @ ys) hsz body (entry_loop e hsz offs lo (xs @ body @ ys) p (p + length body))"
proof (induction body arbitrary: xs p rule: length_induct)
  case (1 body)
  let ?len = "p + length body"
  consider (empty) "body = []" | (short) "body \<noteq> []" "length body < hsz"
    | (entry) h rest where "body = h @ rest" "length h = hsz"
    by (metis append_take_drop_id length_take min_absorb2 not_less)
  then show ?case
  proof cases
    case empty
    then show ?thesis
      by (intro loop_resultI [where m' = "xs @ body @ ys" and ok = True] exI [of _ "[]"])
        (subst entry_loop.simps, simp_all)
  next
    case short
    then show ?thesis
      by (intro loop_resultI [where m' = "xs @ body @ ys" and ok = False])
        (subst entry_loop.simps, simp_all)
  next
    case entry
    let ?m = "xs @ swap_hdr e offs h @ rest @ ys" and ?dl = "wire12 h lo"
    have "?len = p + hsz + length rest" using entry by simp
    note step = loop_step [OF "1.prems" entry(2) this, of e ys]
    have lm: "length ?m = length (xs @ body @ ys)" by (simp add: entry)
    show ?thesis
    proof (cases "length rest < ?dl")
      case True
      with step lm show ?thesis by (intro loop_resultI [where m' = ?m and ok = False]) (simp_all add: entry(1))
    next
      case False
      then obtain d rest' where rest: "rest = d @ rest'" and ld: "length d = ?dl"
        by (metis append_take_drop_id length_take min_absorb2 not_less)
      have lxs: "length (xs @ swap_hdr e offs h) = p + hsz" using "1.prems" entry(2) by simp
      obtain r where r: "verify_descriptors ?m (p + hsz) ?dl = Some r"
        using verify_descriptors_safe [of "p + hsz" ?dl ?m] entry(2) ld "1.prems" by (auto simp: rest)
      show ?thesis
      proof (cases "r = 0")
        case False
        with step lm r \<open>\<not> length rest < ?dl\<close> show ?thesis
          by (intro loop_resultI [where m' = ?m and ok = False]) (simp_all add: entry(1))
      next
        case True
        have "length rest' < length body" "length (xs @ swap_hdr e offs h @ d) = p + hsz + ?dl"
          using entry hsz_pos lxs ld by (simp_all add: rest)
        from "1.IH" [rule_format, OF this] obtain m' ok where
          IH: "entry_loop e hsz offs lo ?m (p + hsz + ?dl) ?len = Some (m', ok)" "length m' = length ?m"
          "ok \<Longrightarrow> \<exists>es. list_all (entry_ok hsz lo) es \<and> rest' = entries_bytes es"
          using entry ld by (auto simp: loop_result_def rest add.assoc)
        have "verify_descriptors ((xs @ swap_hdr e offs h) @ d @ rest' @ ys) (p + hsz) (length d) = Some 0"
          using r True by (simp add: rest ld)
        from verify_bytesD [OF this lxs] obtain ds where ds: "list_all desc_ok ds" "d = descs_bytes ds" by blast
        have "\<exists>es. list_all (entry_ok hsz lo) es \<and> body = entries_bytes es" if ok
        proof -
          from IH(3) [OF that] obtain es where "list_all (entry_ok hsz lo) es" "rest' = entries_bytes es" by blast
          with ds ld entry show ?thesis
            by (intro exI [of _ "(h, ds) # es"]) (simp add: entry_ok_def entry_bytes_def rest)
        qed
        with step r True False IH(1,2) lm show ?thesis
          by (intro loop_resultI [where m' = m' and ok = ok]) (simp_all add: entry(1))
      qed
    qed
  qed
qed

lemma block_cases:
  assumes "length xs = p" "length h = hsz" "len = p + hsz + length rest"
  obtains
    (reject) "entry_block e hsz offs lo (xs @ h @ rest @ ys) p len k = Some (xs @ swap_hdr e offs h @ rest @ ys, False)"
      "\<And>ds rest'. entry_ok hsz lo (h, ds) \<Longrightarrow> rest \<noteq> descs_bytes ds @ rest'"
  | (accept) ds rest' where "entry_ok hsz lo (h, ds)" "rest = descs_bytes ds @ rest'"
      "entry_block e hsz offs lo (xs @ h @ rest @ ys) p len k
         = k (xs @ decoded_entry e offs (h, ds) @ rest' @ ys) (p + length (entry_bytes (h, ds)))"
proof -
  let ?m = "xs @ swap_hdr e offs h @ rest @ ys" and ?dl = "wire12 h lo"
  have "list_all (\<lambda>off. off + 1 < length h) offs"
    using fields assms(2) by (simp add: fields_in_def)
  note sw = swap_all_append [OF assms(1) this]
  have step: "entry_block e hsz offs lo (xs @ h @ rest @ ys) p len k =
    (if length rest < ?dl then Some (?m, False)
     else do { r \<leftarrow> verify_descriptors ?m (p + hsz) ?dl;
               if r \<noteq> 0 then Some (?m, False) else k ?m (p + hsz + ?dl) })"
    using sw length12_decoded [OF assms(2,1)] assms(3) by (simp add: entry_block_def)
  have lxs: "length (xs @ swap_hdr e offs h) = p + hsz" using assms by simp
  show thesis
  proof (cases "length rest < ?dl")
    case True
    with step show thesis by (intro reject) (auto simp: entry_ok_def)
  next
    case False
    then obtain d rest' where rest: "rest = d @ rest'" and ld: "length d = ?dl"
      by (metis append_take_drop_id length_take min_absorb2 not_less)
    have ver: "verify_descriptors ?m (p + hsz) ?dl = verify_descriptors ((xs @ swap_hdr e offs h) @ d @ rest' @ ys) (p + hsz) (length d)"
      by (simp add: rest ld)
    obtain r where r: "verify_descriptors ?m (p + hsz) ?dl = Some r"
      using verify_descriptors_safe [of "p + hsz" ?dl ?m] assms(1,2) ld by (auto simp: rest)
    show thesis
    proof (cases "r = 0")
      case True
      with verify_bytesD [OF _ lxs] r ver obtain ds where ds: "list_all desc_ok ds" "d = descs_bytes ds" by metis
      show thesis
        by (rule accept [of ds rest'])
          (use ds ld assms step r True False in \<open>simp_all add: rest entry_ok_def decoded_entry_def entry_bytes_def add.assoc\<close>)
    next
      case nz: False
      have "False" if "entry_ok hsz lo (h, ds)" "rest = descs_bytes ds @ rest2" for ds rest2
      proof -
        have "list_all desc_ok ds" "?dl = length (descs_bytes ds)" using that(1) by (simp_all add: entry_ok_def)
        with verify_bytes [OF this(1) lxs, of "rest2 @ ys"] r nz that(2) show False by simp
      qed
      with step False r nz show thesis by (intro reject) auto
    qed
  qed
qed

text \<open>What a walk over the decoded image finds.\<close>

lemma decoded_tiles:
  "list_all (entry_ok hsz lo) es \<Longrightarrow> length xs = p \<Longrightarrow> m = xs @ decoded_entries e offs es @ ys \<Longrightarrow>
   tiles (entry_size e hsz lo m) (p + length (entries_bytes es)) p (offsets p es)"
proof (induction es arbitrary: xs p)
  case (Cons x es)
  obtain h ds where x: "x = (h, ds)" by (cases x)
  with Cons.prems have ok: "length h = hsz" "wire12 h lo = length (descs_bytes ds)"
    by (simp_all add: entry_ok_def)
  have "length12 e m (p + lo) = Some (length (descs_bytes ds))"
    using length12_decoded [OF ok(1) Cons.prems(2), of e "descs_bytes ds @ decoded_entries e offs es @ ys"]
      Cons.prems(3) ok(2) by (simp add: x decoded_entry_def)
  moreover have "tiles (entry_size e hsz lo m) (p + length (entry_bytes x) + length (entries_bytes es))
      (p + length (entry_bytes x)) (offsets (p + length (entry_bytes x)) es)"
    using Cons.IH [of "xs @ decoded_entry e offs x" "p + length (entry_bytes x)"] Cons.prems by simp
  ultimately show ?case using hsz_pos ok(1)
    by (simp add: entry_size_def [of e hsz lo m p] x entry_bytes_def add.assoc)
qed simp

lemma walk_decoded:
  assumes "list_all (entry_ok hsz lo) es" "bytes_at m p (decoded_entries e offs es)"
    and stop: "stop = p + length (entries_bytes es)"
  shows "for_each (entry_next e hsz lo m stop) (if p \<ge> stop then None else Some p) = Some (offsets p es)"
proof -
  have m: "m = take p m @ decoded_entries e offs es @ drop stop m" "length (take p m) = p"
    using bytes_at_split [OF assms(2)] assms(2) by (simp_all add: stop bytes_at_def)
  from decoded_tiles [OF assms(1) m(2,1)] show ?thesis
    unfolding stop by (rule entries.walk_from)
qed

lemma offsets_bytes_at:
  "bytes_at m p (decoded_entries e offs es) \<Longrightarrow>
   list_all2 (\<lambda>q x. bytes_at m q (decoded_entry e offs x)) (offsets p es) es"
  by (induction es arbitrary: p) (auto simp: bytes_at_append)

lemma entry_field:
  assumes "bytes_at m q (decoded_entry e offs x)" "entry_ok hsz lo x" "off \<in> set offs"
  shows "load16 e m (q + off) = Some (be16 (fst x ! off) (fst x ! (off + 1)))"
proof -
  have l: "length (fst x) = hsz" using assms(2) by (simp add: entry_ok_def)
  have off: "off + 1 < hsz" using fields assms(3) by (auto simp: fields_in_def list_all_iff)
  have "bytes_at m q (swap_hdr e offs (fst x))"
    using assms(1) by (simp add: decoded_entry_def bytes_at_append)
  then have "load16 e m (q + off) = load16 e (swap_hdr e offs (fst x)) off"
    using off l by (intro load16_cong) (auto simp: bytes_at_def dest: arg_cong [where f = "\<lambda>zs. zs ! off"]
        arg_cong [where f = "\<lambda>zs. zs ! Suc off"])
  with load16_swap_hdr [of offs "fst x" off e] fields assms(3) l show ?thesis by simp
qed

lemma entry_byte:
  assumes "bytes_at m q (decoded_entry e offs x)" "entry_ok hsz lo x"
    and "i < hsz" "\<forall>a \<in> set offs. i \<noteq> a \<and> i \<noteq> a + 1"
  shows "rd m (q + i) = Some (fst x ! i)"
proof -
  have "bytes_at m q (swap_hdr e offs (fst x))"
    using assms(1) by (simp add: decoded_entry_def bytes_at_append)
  then have "q + i < length m" "m ! (q + i) = swap_hdr e offs (fst x) ! i"
    using assms(2,3) by (auto simp: bytes_at_def entry_ok_def dest: arg_cong [where f = "\<lambda>zs. zs ! i"])
  with swap_hdr_other [OF assms(4)] show ?thesis by simp
qed

lemma entry_descs:
  assumes "bytes_at m q (decoded_entry e offs x)" "entry_ok hsz lo x"
  shows "\<exists>ps. entry_descriptors e hsz lo m q = Some ps \<and> map (desc_at m) ps = snd x"
proof -
  have dl: "length12 e m (q + lo) = Some (length (descs_bytes (snd x)))"
    using entry_field [OF assms lo_in] assms(2) by (simp add: length12_def entry_ok_def wire12_def)
  have "bytes_at m (q + hsz) (descs_bytes (snd x))" "list_all desc_ok (snd x)"
    using assms by (simp_all add: decoded_entry_def bytes_at_append entry_ok_def)
  from descriptor_walk [OF this(2,1)] dl show ?thesis by (simp add: entry_descriptors_def)
qed

end

section \<open>Tables of fixed-size entries\<close>

text \<open>The loop of the codecs whose entries have no descriptors, and its walk.\<close>

partial_function (option) fixed_loop ::
  "byte_order \<Rightarrow> nat \<Rightarrow> nat list \<Rightarrow> mem \<Rightarrow> nat \<Rightarrow> nat \<Rightarrow> (mem \<times> bool) option" where
  "fixed_loop e hsz offs m pos len =
     (if pos < len then
        if pos + hsz > len then Some (m, False)
        else do {
          m \<leftarrow> swap_all e m (map (\<lambda>off. pos + off) offs);
          fixed_loop e hsz offs m (pos + hsz) len }
      else if pos \<noteq> len then Some (m, False) else Some (m, True))"

declare fixed_loop.simps [code]

definition fixed_next :: "nat \<Rightarrow> nat \<Rightarrow> nat \<Rightarrow> nat option option" where
  "fixed_next hsz stop p = Some (if p + hsz \<ge> stop then None else Some (p + hsz))"

interpretation fixed: contiguous_entries "\<lambda>p. Some hsz" "fixed_next hsz stop" stop for hsz stop
  by unfold_locales (simp add: fixed_next_def)

lemma fixed_loop_total:
  assumes "list_all (\<lambda>off. off + 1 < hsz) offs" "0 < hsz"
  shows "length xs = p \<Longrightarrow>
    \<exists>m' ok. fixed_loop e hsz offs (xs @ body @ ys) p (p + length body) = Some (m', ok)
      \<and> length m' = length (xs @ body @ ys) \<and> (ok \<longrightarrow> hsz dvd length body)"
proof (induction body arbitrary: xs p rule: length_induct)
  case (1 body)
  let ?len = "p + length body"
  consider (empty) "body = []" | (short) "body \<noteq> []" "length body < hsz"
    | (entry) h rest where "body = h @ rest" "length h = hsz"
    by (metis append_take_drop_id length_take min_absorb2 not_less)
  then show ?case
  proof cases
    case entry
    have "list_all (\<lambda>off. off + 1 < length h) offs" using assms(1) entry(2) by simp
    from swap_all_append [OF "1.prems" this, of e "rest @ ys"]
    have "fixed_loop e hsz offs (xs @ body @ ys) p ?len
        = fixed_loop e hsz offs ((xs @ swap_hdr e offs h) @ rest @ ys) (p + hsz) (p + hsz + length rest)"
      using entry assms(2) by (subst fixed_loop.simps) (auto simp: add.assoc)
    moreover have "length rest < length body" "length (xs @ swap_hdr e offs h) = p + hsz"
      using entry assms(2) "1.prems" by simp_all
    ultimately show ?thesis
      using "1.IH" [rule_format, of rest "xs @ swap_hdr e offs h" "p + hsz"] entry by auto
  qed (subst fixed_loop.simps, auto)+
qed

lemma fixed_loop_accepts:
  assumes "list_all (\<lambda>off. off + 1 < hsz) offs" "0 < hsz"
  shows "list_all (\<lambda>h. length h = hsz) hs \<Longrightarrow> length xs = p \<Longrightarrow>
    fixed_loop e hsz offs (xs @ concat hs @ ys) p (p + length (concat hs))
      = Some (xs @ concat (map (swap_hdr e offs) hs) @ ys, True)"
proof (induction hs arbitrary: xs p)
  case Nil
  then show ?case by (subst fixed_loop.simps) simp
next
  case (Cons h hs)
  then have "list_all (\<lambda>off. off + 1 < length h) offs" "length h = hsz" using assms(1) by simp_all
  with swap_all_append [OF Cons.prems(2) this(1), of e "concat hs @ ys"]
    Cons.IH [of "xs @ swap_hdr e offs h" "p + hsz"] Cons.prems assms(2)
  show ?case by (subst fixed_loop.simps) (simp add: add.assoc)
qed

lemma fixed_tiles:
  "0 < hsz \<Longrightarrow> tiles (\<lambda>p. Some hsz) (p + n * hsz) p (map (\<lambda>i. p + i * hsz) [0..<n])"
proof (induction n arbitrary: p)
  case (Suc n)
  have "map (\<lambda>i. p + i * hsz) [0..<Suc n] = p # map (\<lambda>i. p + hsz + i * hsz) [0..<n]"
    by (simp add: upt_conv_Cons map_Suc_upt [symmetric] add.assoc del: upt_Suc)
  moreover from Suc have "tiles (\<lambda>p. Some hsz) (p + hsz + n * hsz) (p + hsz)
      (map (\<lambda>i. p + hsz + i * hsz) [0..<n])" by blast
  ultimately show ?case using Suc.prems by (simp add: add.assoc del: upt_Suc)
qed simp

section \<open>Extended sections\<close>

text \<open>
  An extended section is an eight-byte header, a body and four CRC bytes, and its length field counts
  all but the first three bytes.  \<open>decoded_ext\<close> swaps the two 16-bit units of the header.
\<close>

definition framed :: "u8 list \<Rightarrow> u8 list \<Rightarrow> u8 list \<Rightarrow> bool" where
  "framed h8 body crc \<longleftrightarrow> length h8 = 8 \<and> length crc = 4 \<and> wire12 h8 1 = 9 + length body"

definition ext_hdr :: "byte_order \<Rightarrow> u8 list \<Rightarrow> u8 list" where
  "ext_hdr e h8 = swap_hdr e [1, 3] h8"

lemma length_ext_hdr [simp]: "length (ext_hdr e h8) = length h8"
  by (simp add: ext_hdr_def)

lemma wire_length_wire12: "3 \<le> length h \<Longrightarrow> wire_length (h @ xs) = wire12 h 1"
  by (simp add: wire_length_def wire12_def nth_append numeral_2_eq_2)

lemma decoded_ext_frame: "length h8 = 8 \<Longrightarrow> decoded_ext e (h8 @ xs) = ext_hdr e h8 @ xs"
  using swap2_append [of "[]" 0 1 h8 e xs] swap2_append [of "[]" 0 3 "swap2 e h8 1" e xs]
  by (simp add: decoded_ext_def swap_hdr_def ext_hdr_def)

lemma ext_length_frame:
  assumes "length h8 = 8"
  shows "section_ext_length e (ext_hdr e h8 @ xs) = Some (size_sub (wire12 h8 1 + 3) 4)"
proof -
  have "3 \<le> length (h8 @ xs)" using assms by simp
  from decoded_ext_fields(3) [OF this, of e] show ?thesis
    using assms by (simp add: decoded_ext_frame wire_length_wire12)
qed

lemma framed_length:
  "framed h8 body crc \<Longrightarrow> section_ext_length e (ext_hdr e h8 @ xs) = Some (8 + length body)"
  using ext_length_frame [of h8 e xs] by (simp add: framed_def)

lemma framed_decoded: "framed h8 body crc \<Longrightarrow> decoded_ext e (h8 @ body @ crc) = ext_hdr e h8 @ body @ crc"
  by (simp add: framed_def decoded_ext_frame)

text \<open>A codec returns, and accepts only what satisfies \<open>P\<close>.\<close>

definition codec_result :: "bool \<Rightarrow> (mem \<times> bool) option \<Rightarrow> bool" where
  "codec_result P r \<longleftrightarrow> (\<exists>m ok. r = Some (m, ok) \<and> (ok \<longrightarrow> P))"

lemma codec_reject: "r = Some (m, False) \<Longrightarrow> codec_result P r"
  by (auto simp: codec_result_def)

lemma codec_accept: "r = Some (m, True) \<Longrightarrow> P \<Longrightarrow> codec_result P r"
  by (auto simp: codec_result_def)

lemma split_at:
  assumes "\<not> length body < n"
  obtains h rest where "body = h @ rest" "length h = n"
  using assms by (metis append_take_drop_id length_take min_absorb2 not_less)

context entry_table
begin

lemma loop_codec:
  assumes "r = entry_loop e hsz offs lo (xs @ body @ ys) p (p + length body)" "length xs = p"
    and "\<And>es. list_all (entry_ok hsz lo) es \<Longrightarrow> body = entries_bytes es \<Longrightarrow> P"
  shows "codec_result P r"
  using loop_total [OF assms(2), of body ys e] assms(3)
  by (auto simp: assms(1) loop_result_def codec_result_def)

end

end
