(* ===== verification/Mpeg_Sections.thy ===== *)
theory Mpeg_Sections
  imports Entry_Table
begin

text \<open>
  \<open>lib/libucsi/mpeg/*_section.c\<close> and \<open>.h\<close>: the codecs of the MPEG-2 tables
  (PAT, PMT, CAT, TSDT, ODSMT, metadata) and the iterators over the decoded sections.

  Each codec receives the section as \<open>section_ext_decode\<close> leaves it and converts its
  multi-byte fields in place.  The theorems state, for every host byte order, which
  byte strings are accepted, that the codecs do not leave the section, and that the iterators visit
  exactly the entries and descriptors that were transmitted.
\<close>

section \<open>Program association table\<close>

definition mpeg_pat_section_codec :: "byte_order \<Rightarrow> mem \<Rightarrow> (mem \<times> bool) option" where
  "mpeg_pat_section_codec e buf =
     do {
       let pos = sizeof_section_ext;
       len \<leftarrow> section_ext_length e buf;
       if len < 8 then Some (buf, False) else fixed_loop e 4 [0, 2] buf pos len }"

definition mpeg_pat_section_transport_stream_id :: "byte_order \<Rightarrow> mem \<Rightarrow> u16 option" where
  "mpeg_pat_section_transport_stream_id e m = section_ext_table_id_ext e m"

definition mpeg_pat_section_programs_first :: "byte_order \<Rightarrow> mem \<Rightarrow> nat option option" where
  "mpeg_pat_section_programs_first e m =
     do { len \<leftarrow> section_ext_length e m; Some (if 8 \<ge> len then None else Some 8) }"

definition mpeg_pat_section_programs_next :: "byte_order \<Rightarrow> mem \<Rightarrow> nat \<Rightarrow> nat option option" where
  "mpeg_pat_section_programs_next e m pos =
     do { stop \<leftarrow> section_ext_length e m; fixed_next 4 stop pos }"

text \<open>The fields of \<open>struct mpeg_pat_program\<close>.\<close>

definition mpeg_pat_program :: "byte_order \<Rightarrow> mem \<Rightarrow> nat \<Rightarrow> (u16 \<times> u16) option" where
  "mpeg_pat_program e m p =
     do { n \<leftarrow> load16 e m p; v \<leftarrow> load16 e m (p + 2); Some (n, take_bit 13 v) }"

section \<open>Program map table\<close>

definition mpeg_pmt_section_codec :: "byte_order \<Rightarrow> mem \<Rightarrow> (mem \<times> bool) option" where
  "mpeg_pmt_section_codec e buf =
     do {
       let pos = sizeof_section_ext;
       len \<leftarrow> section_ext_length e buf;
       if len < 12 then Some (buf, False)
       else entry_block e 4 [0, 2] 2 buf pos len (\<lambda>buf pos. entry_loop e 5 [1, 3] 3 buf pos len) }"

definition pmt_program_info_length :: "byte_order \<Rightarrow> mem \<Rightarrow> nat option" where
  "pmt_program_info_length e m = length12 e m 10"

definition pmt_pcr_pid :: "byte_order \<Rightarrow> mem \<Rightarrow> u16 option" where
  "pmt_pcr_pid e m = do { v \<leftarrow> load16 e m 8; Some (take_bit 13 v) }"

definition mpeg_pmt_section_program_number :: "byte_order \<Rightarrow> mem \<Rightarrow> u16 option" where
  "mpeg_pmt_section_program_number e m = section_ext_table_id_ext e m"

definition mpeg_pmt_section_descriptors_first :: "byte_order \<Rightarrow> mem \<Rightarrow> nat option option" where
  "mpeg_pmt_section_descriptors_first e m =
     do { l \<leftarrow> pmt_program_info_length e m; Some (if l = 0 then None else Some 12) }"

definition mpeg_pmt_section_descriptors_next :: "byte_order \<Rightarrow> mem \<Rightarrow> nat \<Rightarrow> nat option option" where
  "mpeg_pmt_section_descriptors_next e m pos =
     do { l \<leftarrow> pmt_program_info_length e m; next_descriptor m 12 l (Some pos) }"

definition mpeg_pmt_section_streams_first :: "byte_order \<Rightarrow> mem \<Rightarrow> nat option option" where
  "mpeg_pmt_section_streams_first e m =
     do { l \<leftarrow> pmt_program_info_length e m; let pos = 12 + l;
          len \<leftarrow> section_ext_length e m;
          Some (if pos \<ge> len then None else Some pos) }"

definition mpeg_pmt_section_streams_next :: "byte_order \<Rightarrow> mem \<Rightarrow> nat \<Rightarrow> nat option option" where
  "mpeg_pmt_section_streams_next e m pos =
     do { stop \<leftarrow> section_ext_length e m; entry_next e 5 3 m stop pos }"

text \<open>The fields of \<open>struct mpeg_pmt_stream\<close>.\<close>

definition mpeg_pmt_stream :: "byte_order \<Rightarrow> mem \<Rightarrow> nat \<Rightarrow> (u8 \<times> u16) option" where
  "mpeg_pmt_stream e m p =
     do { t \<leftarrow> rd m p; v \<leftarrow> load16 e m (p + 1); Some (t, take_bit 13 v) }"

definition mpeg_pmt_stream_descriptors_first :: "byte_order \<Rightarrow> mem \<Rightarrow> nat \<Rightarrow> nat option option" where
  "mpeg_pmt_stream_descriptors_first e m stream =
     do { l \<leftarrow> length12 e m (stream + 3); Some (if l = 0 then None else Some (stream + 5)) }"

definition mpeg_pmt_stream_descriptors_next :: "byte_order \<Rightarrow> mem \<Rightarrow> nat \<Rightarrow> nat \<Rightarrow> nat option option" where
  "mpeg_pmt_stream_descriptors_next e m stream pos =
     do { l \<leftarrow> length12 e m (stream + 3); next_descriptor m (stream + 5) l (Some pos) }"

section \<open>Conditional access and transport stream description tables\<close>

definition mpeg_cat_section_codec :: "byte_order \<Rightarrow> mem \<Rightarrow> (mem \<times> bool) option" where
  "mpeg_cat_section_codec e buf =
     do {
       let pos = sizeof_section_ext;
       len \<leftarrow> section_ext_length e buf;
       r \<leftarrow> verify_descriptors buf pos (size_sub len 8);
       Some (buf, \<not> r \<noteq> 0) }"

definition mpeg_cat_section_descriptors_first :: "byte_order \<Rightarrow> mem \<Rightarrow> nat option option" where
  "mpeg_cat_section_descriptors_first e m =
     do { len \<leftarrow> section_ext_length e m; Some (if 8 \<ge> len then None else Some 8) }"

definition mpeg_cat_section_descriptors_next :: "byte_order \<Rightarrow> mem \<Rightarrow> nat \<Rightarrow> nat option option" where
  "mpeg_cat_section_descriptors_next e m pos =
     do { len \<leftarrow> section_ext_length e m; next_descriptor m 8 (size_sub len 8) (Some pos) }"

definition mpeg_tsdt_section_codec :: "byte_order \<Rightarrow> mem \<Rightarrow> (mem \<times> bool) option" where
  "mpeg_tsdt_section_codec e buf =
     do {
       let pos = sizeof_section_ext;
       len \<leftarrow> section_ext_length e buf;
       r \<leftarrow> verify_descriptors buf pos (size_sub len 8);
       Some (buf, \<not> r \<noteq> 0) }"

definition mpeg_tsdt_section_descriptors_first :: "byte_order \<Rightarrow> mem \<Rightarrow> nat option option" where
  "mpeg_tsdt_section_descriptors_first e m =
     do { len \<leftarrow> section_ext_length e m; Some (if 8 \<ge> len then None else Some 8) }"

definition mpeg_tsdt_section_descriptors_next :: "byte_order \<Rightarrow> mem \<Rightarrow> nat \<Rightarrow> nat option option" where
  "mpeg_tsdt_section_descriptors_next e m pos =
     do { len \<leftarrow> section_ext_length e m; next_descriptor m 8 (size_sub len 8) (Some pos) }"

section \<open>Object descriptor stream map table\<close>

text \<open>The \<open>for\<close> loop over \<open>stream_count\<close> entries; \<open>n\<close> entries are left.\<close>

primrec odsmt_multi_loop ::
  "byte_order \<Rightarrow> nat \<Rightarrow> mem \<Rightarrow> nat \<Rightarrow> nat \<Rightarrow> (mem \<times> nat option) option" where
  "odsmt_multi_loop e 0 buf pos len = Some (buf, Some pos)"
| "odsmt_multi_loop e (Suc n) buf pos len =
     (if pos + 4 > len then Some (buf, None)
      else do {
        buf \<leftarrow> bswap16 e buf pos;
        l \<leftarrow> rd buf (pos + 3);
        if pos + 4 + unat l > len then Some (buf, None)
        else do {
          r \<leftarrow> verify_descriptors buf (pos + 4) (unat l);
          if r \<noteq> 0 then Some (buf, None)
          else odsmt_multi_loop e n buf (pos + 4 + unat l) len } })"

definition mpeg_odsmt_section_codec :: "byte_order \<Rightarrow> mem \<Rightarrow> (mem \<times> bool) option" where
  "mpeg_odsmt_section_codec e buf =
     do {
       let pos = sizeof_section_ext;
       len \<leftarrow> section_ext_length e buf;
       if len < 9 then Some (buf, False)
       else do {
         let pos = pos + 1;
         stream_count \<leftarrow> rd buf 8;
         (buf, p) \<leftarrow>
           (if stream_count = 0 then
              if pos + 3 > len then Some (buf, None)
              else do {
                buf \<leftarrow> bswap16 e buf pos;
                l \<leftarrow> rd buf (pos + 2);
                if pos + 3 + unat l \<ge> len then Some (buf, None)
                else do {
                  r \<leftarrow> verify_descriptors buf (pos + 3) (unat l);
                  if r \<noteq> 0 then Some (buf, None) else Some (buf, Some (pos + 3 + unat l)) } }
            else odsmt_multi_loop e (unat stream_count) buf pos len);
         case p of None \<Rightarrow> Some (buf, False) | Some pos \<Rightarrow> Some (buf, \<not> pos \<noteq> len) } }"

definition mpeg_odsmt_section_pid :: "byte_order \<Rightarrow> mem \<Rightarrow> u16 option" where
  "mpeg_odsmt_section_pid e m = do { v \<leftarrow> section_ext_table_id_ext e m; Some (v AND 0x1fff) }"

definition mpeg_odsmt_section_streams_first :: "byte_order \<Rightarrow> mem \<Rightarrow> nat option option" where
  "mpeg_odsmt_section_streams_first e m =
     do { len \<leftarrow> section_ext_length e m; Some (if 9 \<ge> len then None else Some 9) }"

definition mpeg_odsmt_section_streams_next :: "byte_order \<Rightarrow> mem \<Rightarrow> nat \<Rightarrow> int \<Rightarrow> nat option option" where
  "mpeg_odsmt_section_streams_next e m pos idx =
     do { stop \<leftarrow> section_ext_length e m;
          stream_count \<leftarrow> rd m 8;
          if idx > int (unat stream_count) then Some None
          else do { l \<leftarrow> rd m (pos + 3);
                    let nxt = pos + 4 + unat l;
                    Some (if nxt \<ge> stop then None else Some nxt) } }"

definition mpeg_odsmt_stream_descriptors_first :: "mem \<Rightarrow> nat \<Rightarrow> nat option option" where
  "mpeg_odsmt_stream_descriptors_first m stream =
     do { stream_count \<leftarrow> rd m 8;
          if stream_count = 0 then
            do { l \<leftarrow> rd m (stream + 2); Some (if l = 0 then None else Some (stream + 3)) }
          else
            do { l \<leftarrow> rd m (stream + 3); Some (if l = 0 then None else Some (stream + 4)) } }"

definition mpeg_odsmt_stream_descriptors_next :: "mem \<Rightarrow> nat \<Rightarrow> nat \<Rightarrow> nat option option" where
  "mpeg_odsmt_stream_descriptors_next m stream pos =
     do { stream_count \<leftarrow> rd m 8;
          if stream_count = 0 then
            do { l \<leftarrow> rd m (stream + 2); next_descriptor m (stream + 3) (unat l) (Some pos) }
          else
            do { l \<leftarrow> rd m (stream + 3); next_descriptor m (stream + 4) (unat l) (Some pos) } }"

section \<open>Metadata sections\<close>

definition mpeg_metadata_section_codec :: "mem \<Rightarrow> (mem \<times> bool) option" where
  "mpeg_metadata_section_codec buf = Some (buf, True)"

definition mpeg_metadata_section_random_access_indicator :: "byte_order \<Rightarrow> mem \<Rightarrow> nat option" where
  "mpeg_metadata_section_random_access_indicator e m =
     do { v \<leftarrow> load16 e m 1; Some (unat (drop_bit 1 (take_bit 2 (drop_bit 12 v)))) }"

definition mpeg_metadata_section_decoder_config_flag :: "byte_order \<Rightarrow> mem \<Rightarrow> nat option" where
  "mpeg_metadata_section_decoder_config_flag e m =
     do { v \<leftarrow> load16 e m 1; Some (unat (take_bit 2 (drop_bit 12 v) AND 1)) }"

definition mpeg_metadata_section_fragment_indicator :: "mem \<Rightarrow> u8 option" where
  "mpeg_metadata_section_fragment_indicator m = do { b \<leftarrow> rd m 5; Some (drop_bit 6 b) }"

definition mpeg_metadata_section_service_id :: "byte_order \<Rightarrow> mem \<Rightarrow> u16 option" where
  "mpeg_metadata_section_service_id e m =
     do { v \<leftarrow> section_ext_table_id_ext e m; Some (drop_bit 8 v) }"

definition mpeg_metadata_section_data :: nat where
  "mpeg_metadata_section_data = 8"

text \<open>The result type is \<open>int\<close>: the low 32 bits of the \<open>size_t\<close> difference.\<close>

definition mpeg_metadata_section_data_length :: "byte_order \<Rightarrow> mem \<Rightarrow> int option" where
  "mpeg_metadata_section_data_length e m =
     do { len \<leftarrow> section_ext_length e m; Some (sint (of_nat (size_sub len 8) :: u32)) }"

section \<open>Interfaces\<close>

interpretation pmt_head: entry_table 4 "[0, 2]" 2
  by unfold_locales (simp_all add: fields_in_def)

interpretation pmt_streams: entry_table 5 "[1, 3]" 3
  by unfold_locales (simp_all add: fields_in_def)

section \<open>The program map table\<close>

text \<open>The part of the codec that follows the head.\<close>

lemma pmt_codec_frame:
  assumes "framed h8 body crc"
  shows "mpeg_pmt_section_codec e (ext_hdr e h8 @ body @ crc) =
    (if length body < 4 then Some (ext_hdr e h8 @ body @ crc, False)
     else entry_block e 4 [0, 2] 2 (ext_hdr e h8 @ body @ crc) 8 (8 + length body)
            (\<lambda>buf pos. entry_loop e 5 [1, 3] 3 buf pos (8 + length body)))"
  using framed_length [OF assms, of e "body @ crc"] by (simp add: mpeg_pmt_section_codec_def Let_def)

lemma pmt_codec_total:
  assumes fr: "framed h8 body crc"
  shows "codec_result (\<exists>f es. entry_ok 4 2 f \<and> list_all (entry_ok 5 3) es \<and> body = entry_bytes f @ entries_bytes es)
    (mpeg_pmt_section_codec e (ext_hdr e h8 @ body @ crc))"
proof (cases "length body < 4")
  case True
  with pmt_codec_frame [OF fr] show ?thesis by (auto intro: codec_reject)
next
  case False
  then obtain h rest where body: "body = h @ rest" and h: "length h = 4" by (rule split_at)
  have l8: "length (ext_hdr e h8) = 8" and len: "8 + length body = 8 + 4 + length rest"
    using fr h by (simp_all add: framed_def body)
  note codec = pmt_codec_frame [OF fr, of e, unfolded body]
  show ?thesis
  proof (rule pmt_head.block_cases [OF l8 h len, where e = e and ys = crc
        and k = "\<lambda>buf pos. entry_loop e 5 [1, 3] 3 buf pos (8 + length body)"], goal_cases)
    case 1
    with codec h show ?thesis by (auto simp: body intro: codec_reject)
  next
    case (2 ds rest')
    let ?f = "(h, ds)"
    have l: "length (ext_hdr e h8 @ decoded_entry e [0, 2] ?f) = 8 + length (entry_bytes ?f)"
      and len': "8 + length body = 8 + length (entry_bytes ?f) + length rest'"
      using l8 2(2) by (simp_all add: body entry_bytes_def)
    have "mpeg_pmt_section_codec e (ext_hdr e h8 @ body @ crc) = entry_loop e 5 [1, 3] 3
       ((ext_hdr e h8 @ decoded_entry e [0, 2] ?f) @ rest' @ crc) (8 + length (entry_bytes ?f))
       (8 + length body)"
      using 2(3) codec h by (simp add: body)
    with len' have "mpeg_pmt_section_codec e (ext_hdr e h8 @ body @ crc) = entry_loop e 5 [1, 3] 3
       ((ext_hdr e h8 @ decoded_entry e [0, 2] ?f) @ rest' @ crc) (8 + length (entry_bytes ?f))
       (8 + length (entry_bytes ?f) + length rest')" by (simp only:)
    then show ?thesis
    proof (rule pmt_streams.loop_codec [OF _ l])
      fix es
      assume "list_all (entry_ok 5 3) es" "rest' = entries_bytes es"
      with 2(1,2) show "\<exists>f es. entry_ok 4 2 f \<and> list_all (entry_ok 5 3) es \<and> body = entry_bytes f @ entries_bytes es"
        by (intro exI [of _ ?f] exI [of _ es]) (simp add: body entry_bytes_def)
    qed
  qed
qed

lemma pmt_codec_accepts:
  assumes fr: "framed h8 body crc"
    and body: "body = entry_bytes f @ entries_bytes es"
    and f: "entry_ok 4 2 f" and es: "list_all (entry_ok 5 3) es"
  shows "mpeg_pmt_section_codec e (ext_hdr e h8 @ body @ crc) =
    Some (ext_hdr e h8 @ decoded_entry e [0, 2] f @ decoded_entries e [1, 3] es @ crc, True)"
proof -
  obtain h ds where fh: "f = (h, ds)" by (cases f)
  have h: "length h = 4" using f by (simp add: entry_ok_def fh)
  let ?rest = "descs_bytes ds @ entries_bytes es"
  have b: "body = h @ ?rest" by (simp add: body fh entry_bytes_def)
  have l8: "length (ext_hdr e h8) = 8" and len: "8 + length body = 8 + 4 + length ?rest"
    using fr h by (simp_all add: framed_def b)
  note codec = pmt_codec_frame [OF fr, of e, unfolded b]
  show ?thesis
  proof (rule pmt_head.block_cases [OF l8 h len, where e = e and ys = crc
        and k = "\<lambda>buf pos. entry_loop e 5 [1, 3] 3 buf pos (8 + length body)"], goal_cases)
    case 1
    with f show ?thesis by (auto simp: fh)
  next
    case (2 ds' rest')
    have "length (descs_bytes ds) = length (descs_bytes ds')" using 2(1) f by (simp add: entry_ok_def fh)
    with 2(2) have same: "descs_bytes ds' = descs_bytes ds" "rest' = entries_bytes es" by simp_all
    have l: "length (ext_hdr e h8 @ decoded_entry e [0, 2] f) = 8 + length (entry_bytes f)" using l8 by simp
    from pmt_streams.loop_accepts [OF es l, of e crc] 2(3) codec h same show ?thesis
      by (simp add: b fh entry_bytes_def decoded_entry_def add.assoc)
  qed
qed

text \<open>The iterators of the head and of the streams, as the loops of the macros.\<close>

definition pmt_descriptors :: "byte_order \<Rightarrow> mem \<Rightarrow> nat list option" where
  "pmt_descriptors e m = walk (mpeg_pmt_section_descriptors_first e m) (mpeg_pmt_section_descriptors_next e m)"

definition pmt_streams :: "byte_order \<Rightarrow> mem \<Rightarrow> nat list option" where
  "pmt_streams e m = walk (mpeg_pmt_section_streams_first e m) (mpeg_pmt_section_streams_next e m)"

text \<open>What the body of the stream loop can read at a stream: type, PID and descriptors.\<close>

definition pmt_stream_read :: "byte_order \<Rightarrow> mem \<Rightarrow> nat \<Rightarrow> (u8 \<times> u16 \<times> desc list) option" where
  "pmt_stream_read e m p =
     do { (t, pid) \<leftarrow> mpeg_pmt_stream e m p;
          ds \<leftarrow> walk (mpeg_pmt_stream_descriptors_first e m p) (mpeg_pmt_stream_descriptors_next e m p);
          Some (t, pid, map (desc_at m) ds) }"

lemma pmt_descriptors_eq: "pmt_descriptors e m = entry_descriptors e 4 2 m 8"
  by (cases "length12 e m 10")
    (simp_all add: pmt_descriptors_def walk_def mpeg_pmt_section_descriptors_first_def
      mpeg_pmt_section_descriptors_next_def [abs_def] pmt_program_info_length_def entry_descriptors_def)

lemma pmt_stream_descriptors_eq:
  "walk (mpeg_pmt_stream_descriptors_first e m p) (mpeg_pmt_stream_descriptors_next e m p)
     = entry_descriptors e 5 3 m p"
  by (cases "length12 e m (p + 3)")
    (simp_all add: walk_def mpeg_pmt_stream_descriptors_first_def
      mpeg_pmt_stream_descriptors_next_def [abs_def] entry_descriptors_def)

lemma pmt_stream_read_entry:
  assumes "bytes_at m q (decoded_entry e [1, 3] x)" "entry_ok 5 3 x"
  shows "pmt_stream_read e m q =
    Some (fst x ! 0, take_bit 13 (be16 (fst x ! 1) (fst x ! 2)), snd x)"
proof -
  have "load16 e m (q + 1) = Some (be16 (fst x ! 1) (fst x ! (1 + 1)))"
    by (rule pmt_streams.entry_field [OF assms]) simp
  moreover have "rd m (q + 0) = Some (fst x ! 0)"
    by (rule pmt_streams.entry_byte [OF assms]) simp_all
  ultimately have "mpeg_pmt_stream e m q = Some (fst x ! 0, take_bit 13 (be16 (fst x ! 1) (fst x ! 2)))"
    by (simp add: mpeg_pmt_stream_def numeral_2_eq_2)
  with pmt_streams.entry_descs [OF assms] show ?thesis
    by (auto simp: pmt_stream_read_def pmt_stream_descriptors_eq)
qed

lemma list_all2_map_eq:
  "list_all2 P qs xs \<Longrightarrow> list_all Q xs \<Longrightarrow> (\<And>q x. P q x \<Longrightarrow> Q x \<Longrightarrow> f q = g x) \<Longrightarrow> map f qs = map g xs"
  by (induction qs xs rule: list_all2_induct) auto

lemma bytes_at_frame [simp]: "length xs = p \<Longrightarrow> bytes_at (xs @ ys @ zs) p ys"
  by (simp add: bytes_at_def)

lemma pmt_walks:
  assumes fr: "framed h8 body crc"
    and body: "body = entry_bytes f @ entries_bytes es"
    and f: "entry_ok 4 2 f" and es: "list_all (entry_ok 5 3) es"
    and m: "m = ext_hdr e h8 @ decoded_entry e [0, 2] f @ decoded_entries e [1, 3] es @ crc"
  shows "pmt_pcr_pid e m = Some (take_bit 13 (be16 (fst f ! 0) (fst f ! 1)))"
    and "\<exists>ps. pmt_descriptors e m = Some ps \<and> map (desc_at m) ps = snd f"
    and "\<exists>qs. pmt_streams e m = Some qs \<and> list_all2 (\<lambda>q x. bytes_at m q (decoded_entry e [1, 3] x)) qs es"
    and "\<exists>qs. pmt_streams e m = Some qs \<and> map (pmt_stream_read e m) qs
       = map (\<lambda>x. Some (fst x ! 0, take_bit 13 (be16 (fst x ! 1) (fst x ! 2)), snd x)) es"
proof -
  have l8: "length h8 = 8" and len: "section_ext_length e m = Some (8 + length body)"
    using fr framed_length [OF fr] by (simp_all add: framed_def m)
  have hd: "bytes_at m 8 (decoded_entry e [0, 2] f)" using l8 by (simp add: m)
  let ?p = "8 + length (entry_bytes f)" and ?stop = "8 + length body"
  have tl: "bytes_at m ?p (decoded_entries e [1, 3] es)"
    using bytes_at_frame [of "ext_hdr e h8 @ decoded_entry e [0, 2] f" ?p "decoded_entries e [1, 3] es" crc] l8
    by (simp add: m)
  have "load16 e m (8 + 0) = Some (be16 (fst f ! 0) (fst f ! (0 + 1)))"
    by (rule pmt_head.entry_field [OF hd f]) simp
  then show "pmt_pcr_pid e m = Some (take_bit 13 (be16 (fst f ! 0) (fst f ! 1)))"
    by (simp add: pmt_pcr_pid_def)
  show "\<exists>ps. pmt_descriptors e m = Some ps \<and> map (desc_at m) ps = snd f"
    unfolding pmt_descriptors_eq by (rule pmt_head.entry_descs [OF hd f])
  have "load16 e m (8 + 2) = Some (be16 (fst f ! 2) (fst f ! (2 + 1)))"
    by (rule pmt_head.entry_field [OF hd f]) simp
  then have pil: "pmt_program_info_length e m = Some (length (descs_bytes (snd f)))"
    using f by (simp add: pmt_program_info_length_def length12_def entry_ok_def wire12_def)
  have p: "12 + length (descs_bytes (snd f)) = ?p" using f by (simp add: entry_ok_def entry_bytes_def)
  have "pmt_streams e m = for_each (entry_next e 5 3 m ?stop) (if ?p \<ge> ?stop then None else Some ?p)"
    unfolding pmt_streams_def walk_def mpeg_pmt_section_streams_first_def
      mpeg_pmt_section_streams_next_def [abs_def] pil len bind.bind_lunit Let_def p ..
  also have "\<dots> = Some (offsets ?p es)"
    by (rule pmt_streams.walk_decoded [OF es tl]) (simp add: body)
  finally have qs: "pmt_streams e m = Some (offsets ?p es)" .
  then show "\<exists>qs. pmt_streams e m = Some qs \<and> list_all2 (\<lambda>q x. bytes_at m q (decoded_entry e [1, 3] x)) qs es"
    using pmt_streams.offsets_bytes_at [OF tl] by blast
  note qs
  moreover have "map (pmt_stream_read e m) (offsets ?p es)
       = map (\<lambda>x. Some (fst x ! 0, take_bit 13 (be16 (fst x ! 1) (fst x ! 2)), snd x)) es"
    by (rule list_all2_map_eq [OF pmt_streams.offsets_bytes_at [OF tl] es]) (rule pmt_stream_read_entry)
  ultimately show "\<exists>qs. pmt_streams e m = Some qs \<and> map (pmt_stream_read e m) qs
       = map (\<lambda>x. Some (fst x ! 0, take_bit 13 (be16 (fst x ! 1) (fst x ! 2)), snd x)) es"
    by blast
qed

text \<open>C18: the PMT codec returns for every section, without leaving it, on hosts of either byte order, and
  accepts exactly the sections whose body is a head with its program descriptors followed by stream
  entries with their descriptors.\<close>

theorem pmt_codec_correct:
  assumes "framed h8 body crc"
  shows "\<exists>m ok. mpeg_pmt_section_codec e (decoded_ext e (h8 @ body @ crc)) = Some (m, ok)
    \<and> (ok \<longleftrightarrow> (\<exists>f es. entry_ok 4 2 f \<and> list_all (entry_ok 5 3) es \<and> body = entry_bytes f @ entries_bytes es))"
  using pmt_codec_total [OF assms, of e] pmt_codec_accepts [OF assms, of _ _ e]
  unfolding framed_decoded [OF assms] codec_result_def by fastforce

theorem pmt_codec_correct_witness:
  "\<exists>m. mpeg_pmt_section_codec LittleEndian (decoded_ext LittleEndian
      ([2, 0xb0, 0x12, 0, 1, 0xc1, 0, 0] @ [0xe1, 0, 0xf0, 0, 0x1b, 0xe1, 0, 0xf0, 0] @ [1, 2, 3, 4])) = Some (m, True)"
proof -
  let ?f = "([0xe1, 0, 0xf0, 0], []) :: tentry" and ?s = "([0x1b, 0xe1, 0, 0xf0, 0], []) :: tentry"
  have fr: "framed [2, 0xb0, 0x12, 0, 1, 0xc1, 0, 0] [0xe1, 0, 0xf0, 0, 0x1b, 0xe1, 0, 0xf0, 0] [1, 2, 3, 4]"
    by (simp add: framed_def wire12_eq)
  have "\<exists>f es. entry_ok 4 2 f \<and> list_all (entry_ok 5 3) es
     \<and> [0xe1, 0, 0xf0, 0, 0x1b, 0xe1, 0, 0xf0, 0] = entry_bytes f @ entries_bytes es"
    by (intro exI [of _ ?f] exI [of _ "[?s]"]) (simp add: entry_ok_def entry_bytes_def wire12_eq)
  with pmt_codec_correct [OF fr, of LittleEndian] show ?thesis
    by (simp only: simp_thms) (metis (full_types))
qed

text \<open>C17: after the PMT codec has accepted a section, the PCR PID, the walk over the program
  descriptors and the walk over the streams, with the type, PID and descriptors of each, give exactly
  the transmitted values in order, and none of these walks leaves the section.\<close>

theorem pmt_roundtrip:
  assumes "framed h8 body crc" "body = entry_bytes f @ entries_bytes es"
    and "entry_ok 4 2 f" "list_all (entry_ok 5 3) es"
  shows "\<exists>m. mpeg_pmt_section_codec e (decoded_ext e (h8 @ body @ crc)) = Some (m, True)
    \<and> pmt_pcr_pid e m = Some (take_bit 13 (be16 (fst f ! 0) (fst f ! 1)))
    \<and> (\<exists>ps. pmt_descriptors e m = Some ps \<and> map (desc_at m) ps = snd f)
    \<and> (\<exists>qs. pmt_streams e m = Some qs \<and> map (pmt_stream_read e m) qs
         = map (\<lambda>x. Some (fst x ! 0, take_bit 13 (be16 (fst x ! 1) (fst x ! 2)), snd x)) es)"
  using pmt_codec_accepts [OF assms, of e] pmt_walks [OF assms refl, of e]
  unfolding framed_decoded [OF assms(1)] by blast

theorem pmt_roundtrip_witness:
  "\<exists>m qs. mpeg_pmt_section_codec LittleEndian (decoded_ext LittleEndian
      ([2, 0xb0, 0x12, 0, 1, 0xc1, 0, 0] @ [0xe1, 0, 0xf0, 0, 0x1b, 0xe1, 0, 0xf0, 0] @ [1, 2, 3, 4])) = Some (m, True)
     \<and> pmt_streams LittleEndian m = Some qs
     \<and> map (pmt_stream_read LittleEndian m) qs = [Some (0x1b, 0x100, [])]"
proof -
  let ?f = "([0xe1, 0, 0xf0, 0], []) :: tentry" and ?s = "([0x1b, 0xe1, 0, 0xf0, 0], []) :: tentry"
  have fr: "framed [2, 0xb0, 0x12, 0, 1, 0xc1, 0, 0] [0xe1, 0, 0xf0, 0, 0x1b, 0xe1, 0, 0xf0, 0] [1, 2, 3, 4]"
    by (simp add: framed_def wire12_eq)
  have "[0xe1, 0, 0xf0, 0, 0x1b, 0xe1, 0, 0xf0, 0] = entry_bytes ?f @ entries_bytes [?s]"
    "entry_ok 4 2 ?f" "list_all (entry_ok 5 3) [?s]"
    by (simp_all add: entry_ok_def entry_bytes_def wire12_eq)
  from pmt_roundtrip [OF fr this, of LittleEndian] show ?thesis by (auto simp: be16_def)
qed

section \<open>The program association table\<close>

definition pat_programs :: "byte_order \<Rightarrow> mem \<Rightarrow> nat list option" where
  "pat_programs e m = walk (mpeg_pat_section_programs_first e m) (mpeg_pat_section_programs_next e m)"

text \<open>A program as transmitted: program number and PID, with the reserved bits in the PID unit.\<close>

definition program_bytes :: "u16 \<times> u16 \<Rightarrow> u8 list" where
  "program_bytes x = [ucast (drop_bit 8 (fst x)), ucast (fst x), ucast (drop_bit 8 (snd x)), ucast (snd x)]"

lemma length_programs: "length (concat (map program_bytes xs)) = length xs * 4"
  by (induction xs) (simp_all add: program_bytes_def)

lemma pat_codec_frame:
  "framed h8 body crc \<Longrightarrow> mpeg_pat_section_codec e (ext_hdr e h8 @ body @ crc)
     = fixed_loop e 4 [0, 2] (ext_hdr e h8 @ body @ crc) 8 (8 + length body)"
  by (simp add: mpeg_pat_section_codec_def framed_length Let_def)

lemma pat_fields: "list_all (\<lambda>off. off + 1 < 4) [0, 2 :: nat]" "(0 :: nat) < 4"
  by simp_all

lemma pat_codec_accepts:
  assumes "framed h8 body crc" "body = concat (map program_bytes xs)"
  shows "mpeg_pat_section_codec e (ext_hdr e h8 @ body @ crc)
     = Some (ext_hdr e h8 @ concat (map (\<lambda>x. swap_hdr e [0, 2] (program_bytes x)) xs) @ crc, True)"
proof -
  have "list_all (\<lambda>h. length h = 4) (map program_bytes xs)" "length (ext_hdr e h8) = 8"
    using assms(1) by (simp_all add: list_all_iff program_bytes_def framed_def)
  from fixed_loop_accepts [OF pat_fields this, of e crc] show ?thesis
    using pat_codec_frame [OF assms(1)] by (simp add: assms(2) comp_def)
qed

lemma program_read:
  assumes "bytes_at m q (swap_hdr e [0, 2] (program_bytes x))"
  shows "mpeg_pat_program e m q = Some (fst x, take_bit 13 (snd x))"
proof -
  have x: "swap_hdr e [0, 2] (program_bytes x) = (case e of
       LittleEndian \<Rightarrow> [ucast (fst x), ucast (drop_bit 8 (fst x)), ucast (snd x), ucast (drop_bit 8 (snd x))]
     | BigEndian \<Rightarrow> program_bytes x)"
    by (simp add: swap_hdr_def swap2_def program_bytes_def split: byte_order.split)
  show ?thesis
  proof (cases e)
    case LittleEndian
    with assms show ?thesis unfolding x
      by (simp add: mpeg_pat_program_def bytes_at_Cons be16_split numeral_2_eq_2)
  next
    case BigEndian
    with assms show ?thesis unfolding x
      by (simp add: mpeg_pat_program_def bytes_at_Cons be16_split program_bytes_def numeral_2_eq_2)
  qed
qed

lemma programs_at:
  "bytes_at m p (concat (map (\<lambda>x. swap_hdr e [0, 2] (program_bytes x)) xs)) \<Longrightarrow>
   map (mpeg_pat_program e m) (map (\<lambda>i. p + i * 4) [0..<length xs])
     = map (\<lambda>x. Some (fst x, take_bit 13 (snd x))) xs"
proof (induction xs arbitrary: p)
  case (Cons x xs)
  have "length (program_bytes x) = 4" by (simp add: program_bytes_def)
  with Cons.prems have "bytes_at m p (swap_hdr e [0, 2] (program_bytes x))"
    "bytes_at m (p + 4) (concat (map (\<lambda>x. swap_hdr e [0, 2] (program_bytes x)) xs))"
    by (simp_all add: bytes_at_append)
  from program_read [OF this(1)] Cons.IH [OF this(2)] show ?case
    by (simp add: upt_conv_Cons map_Suc_upt [symmetric] add.assoc comp_def del: upt_Suc)
qed simp

lemma programs_of_length: "4 dvd length zs \<Longrightarrow> \<exists>xs. zs = concat (map program_bytes xs)"
proof (induction zs rule: length_induct)
  case (1 zs)
  show ?case
  proof (cases "zs = []")
    case True
    then show ?thesis by (intro exI [of _ "[]"]) simp
  next
    case False
    with 1(2) have "4 \<le> length zs" by (simp add: dvd_imp_le)
    then obtain h rest where z: "zs = h @ rest" "length h = 4"
      by (metis append_take_drop_id length_take min_absorb2)
    obtain a b c d where h: "h = [a, b, c, d]" using z(2) by (auto simp: length_4_iff)
    have p: "program_bytes (be16 a b, be16 c d) = [a, b, c, d]" by (simp add: program_bytes_def)
    have "4 dvd length rest" "length rest < length zs" using 1(2) z by simp_all
    with 1(1) obtain xs where "rest = concat (map program_bytes xs)" by blast
    with p show ?thesis
      by (intro exI [of _ "(be16 a b, be16 c d) # xs"]) (simp add: z h)
  qed
qed

text \<open>the PAT codec returns for every section, without leaving it, accepts exactly those whose body is a whole
  number of programs, and the walk over an accepted section gives the transmitted program numbers and
  PIDs in order, on hosts of either byte order.\<close>

theorem pat_roundtrip:
  assumes "framed h8 body crc"
  shows "\<exists>m ok. mpeg_pat_section_codec e (decoded_ext e (h8 @ body @ crc)) = Some (m, ok)
    \<and> (ok \<longleftrightarrow> (\<exists>xs. body = concat (map program_bytes xs)))
    \<and> (\<forall>xs. body = concat (map program_bytes xs) \<longrightarrow>
         (\<exists>qs. pat_programs e m = Some qs
            \<and> map (mpeg_pat_program e m) qs = map (\<lambda>x. Some (fst x, take_bit 13 (snd x))) xs))"
proof (cases "\<exists>xs. body = concat (map program_bytes xs)")
  case True
  then obtain xs where xs: "body = concat (map program_bytes xs)" ..
  let ?m = "ext_hdr e h8 @ concat (map (\<lambda>x. swap_hdr e [0, 2] (program_bytes x)) xs) @ crc"
  have "\<exists>qs. pat_programs e ?m = Some qs
      \<and> map (mpeg_pat_program e ?m) qs = map (\<lambda>x. Some (fst x, take_bit 13 (snd x))) ys"
    if "body = concat (map program_bytes ys)" for ys
  proof -
    have m: "?m = ext_hdr e h8 @ concat (map (\<lambda>x. swap_hdr e [0, 2] (program_bytes x)) ys) @ crc"
      using pat_codec_accepts [OF assms xs, of e] pat_codec_accepts [OF assms that, of e] by simp
    have len: "length body = length ys * 4" unfolding that by (rule length_programs)
    have "pat_programs e ?m = for_each (fixed_next 4 (8 + length ys * 4)) (if 8 \<ge> 8 + length ys * 4 then None else Some 8)"
      by (simp add: pat_programs_def walk_def mpeg_pat_section_programs_first_def
          mpeg_pat_section_programs_next_def [abs_def] framed_length [OF assms] len)
    also have "\<dots> = Some (map (\<lambda>i. 8 + i * 4) [0..<length ys])"
      by (rule fixed.walk_from [OF fixed_tiles]) simp
    finally show ?thesis
      using programs_at [of ?m 8 e ys] assms unfolding m by (auto simp: framed_def)
  qed
  with pat_codec_accepts [OF assms xs, of e] True show ?thesis
    unfolding framed_decoded [OF assms] by blast
next
  case False
  have l8: "length (ext_hdr e h8) = 8" using assms by (simp add: framed_def)
  from fixed_loop_total [OF pat_fields l8, of e body crc] obtain m ok where
    r: "mpeg_pat_section_codec e (ext_hdr e h8 @ body @ crc) = Some (m, ok)" "ok \<longrightarrow> 4 dvd length body"
    unfolding pat_codec_frame [OF assms] by blast
  with programs_of_length [of body] r False show ?thesis unfolding framed_decoded [OF assms] by auto
qed

theorem pat_roundtrip_witness:
  "\<exists>m qs. mpeg_pat_section_codec LittleEndian (decoded_ext LittleEndian
      ([0, 0xb0, 0x0d, 0, 1, 0xc1, 0, 0] @ [0, 5, 0xe1, 0x02] @ [1, 2, 3, 4])) = Some (m, True)
     \<and> pat_programs LittleEndian m = Some qs \<and> map (mpeg_pat_program LittleEndian m) qs = [Some (5, 0x102)]"
proof -
  have fr: "framed [0, 0xb0, 0x0d, 0, 1, 0xc1, 0, 0] [0, 5, 0xe1, 0x02] [1, 2, 3, 4]"
    by (simp add: framed_def wire12_eq)
  have "[0, 5, 0xe1, 0x02] = concat (map program_bytes [(5, 0xe102)])" by (simp add: program_bytes_def)
  with pat_roundtrip [OF fr, of LittleEndian] obtain m ok qs where
    "mpeg_pat_section_codec LittleEndian (decoded_ext LittleEndian
      ([0, 0xb0, 0x0d, 0, 1, 0xc1, 0, 0] @ [0, 5, 0xe1, 0x02] @ [1, 2, 3, 4])) = Some (m, ok)" ok
    "pat_programs LittleEndian m = Some qs"
    "map (mpeg_pat_program LittleEndian m) qs = map (\<lambda>x. Some (fst x, take_bit 13 (snd x))) [(5, 0xe102)]"
    by blast
  then show ?thesis by auto
qed

section \<open>Descriptor-only tables\<close>

text \<open>the CAT and TSDT codecs accept a section with a full header exactly when its body is a
  serialised descriptor loop, and the walk then visits those descriptors.\<close>

theorem cat_tsdt_correct:
  assumes fr: "framed h8 body crc"
  shows "\<exists>ok. mpeg_cat_section_codec e (decoded_ext e (h8 @ body @ crc)) = Some (decoded_ext e (h8 @ body @ crc), ok)
    \<and> mpeg_tsdt_section_codec e (decoded_ext e (h8 @ body @ crc)) = Some (decoded_ext e (h8 @ body @ crc), ok)
    \<and> (ok \<longleftrightarrow> (\<exists>ds. list_all desc_ok ds \<and> body = descs_bytes ds))
    \<and> (\<forall>ds. list_all desc_ok ds \<and> body = descs_bytes ds \<longrightarrow>
        (\<exists>ps. walk (mpeg_cat_section_descriptors_first e (decoded_ext e (h8 @ body @ crc)))
                 (mpeg_cat_section_descriptors_next e (decoded_ext e (h8 @ body @ crc))) = Some ps
            \<and> walk (mpeg_tsdt_section_descriptors_first e (decoded_ext e (h8 @ body @ crc)))
                 (mpeg_tsdt_section_descriptors_next e (decoded_ext e (h8 @ body @ crc))) = Some ps
            \<and> map (desc_at (decoded_ext e (h8 @ body @ crc))) ps = ds))"
proof -
  let ?m = "ext_hdr e h8 @ body @ crc"
  have l8: "length (ext_hdr e h8) = 8" using fr by (simp add: framed_def)
  have len: "section_ext_length e ?m = Some (8 + length body)" by (rule framed_length [OF fr])
  obtain r where r: "verify_descriptors ?m 8 (length body) = Some r"
    using verify_descriptors_safe [of 8 "length body" ?m] l8 by auto
  have ok: "r = 0 \<longleftrightarrow> (\<exists>ds. list_all desc_ok ds \<and> body = descs_bytes ds)"
    using r verify_bytesD [OF _ l8, of body crc] verify_bytes [OF _ l8, of _ crc] by auto
  have "\<exists>ps. walk (mpeg_cat_section_descriptors_first e ?m) (mpeg_cat_section_descriptors_next e ?m) = Some ps
            \<and> walk (mpeg_tsdt_section_descriptors_first e ?m) (mpeg_tsdt_section_descriptors_next e ?m) = Some ps
            \<and> map (desc_at ?m) ps = ds" if "list_all desc_ok ds" "body = descs_bytes ds" for ds
  proof -
    have "bytes_at ?m 8 (descs_bytes ds)" using l8 that(2) by simp
    from descriptor_walk [OF that(1) this] that(2) len show ?thesis
      by (simp add: walk_def mpeg_cat_section_descriptors_first_def mpeg_cat_section_descriptors_next_def [abs_def]
          mpeg_tsdt_section_descriptors_first_def mpeg_tsdt_section_descriptors_next_def [abs_def])
  qed
  with r ok len show ?thesis unfolding framed_decoded [OF fr]
    by (auto simp: mpeg_cat_section_codec_def mpeg_tsdt_section_codec_def Let_def)
qed

theorem cat_tsdt_correct_witness:
  "mpeg_cat_section_codec LittleEndian (decoded_ext LittleEndian
      ([1, 0xb0, 0x0c, 0, 0, 0xc1, 0, 0] @ [9, 1, 7] @ [1, 2, 3, 4]))
   = Some (decoded_ext LittleEndian ([1, 0xb0, 0x0c, 0, 0, 0xc1, 0, 0] @ [9, 1, 7] @ [1, 2, 3, 4]), True)"
proof -
  have fr: "framed [1, 0xb0, 0x0c, 0, 0, 0xc1, 0, 0] [9, 1, 7] [1, 2, 3, 4]"
    by (simp add: framed_def wire12_eq)
  have ds: "\<exists>ds. list_all desc_ok ds \<and> [9, 1, 7] = descs_bytes ds"
    by (intro exI [of _ "[(9, [7])]"]) simp
  obtain ok where "mpeg_cat_section_codec LittleEndian (decoded_ext LittleEndian
      ([1, 0xb0, 0x0c, 0, 0, 0xc1, 0, 0] @ [9, 1, 7] @ [1, 2, 3, 4]))
     = Some (decoded_ext LittleEndian ([1, 0xb0, 0x0c, 0, 0, 0xc1, 0, 0] @ [9, 1, 7] @ [1, 2, 3, 4]), ok)"
    "ok = (\<exists>ds. list_all desc_ok ds \<and> [9, 1, 7] = descs_bytes ds)"
    using cat_tsdt_correct [OF fr, of LittleEndian] by (elim exE conjE) (rule that)
  with ds show ?thesis by (simp only: simp_thms)
qed

text \<open>A descriptor loop whose length has wrapped runs off the end of every object.\<close>

lemma verify_loop_wrapped:
  "length m + 300 \<le> base + len \<Longrightarrow> base + pos \<le> length m + 257 \<Longrightarrow> verify_loop m base len pos = None"
proof (induction m base len pos rule: verify_loop.induct)
  case (1 m base len pos)
  show ?case
  proof (cases "base + pos + 1 < length m")
    case True
    then have "verify_loop m base len (pos + 2 + unat (m ! (base + pos + 1))) = None"
      using "1.prems" unat_byte_lt [of "m ! (base + pos + 1)"] by (intro "1.IH") auto
    with True "1.prems" show ?thesis by (subst verify_loop.simps) simp
  next
    case False
    then have "rd m (base + pos + 1) = None" by (simp add: rd_None_iff)
    with "1.prems" show ?thesis by (subst verify_loop.simps) simp
  qed
qed

text \<open>the CAT and TSDT codecs do not check the length of the section before they subtract
  the header size: on every section whose length field is between 2 and 8, the unsigned
  subtraction wraps and the descriptor check reads past the end of the object.  Such a section can
  carry a correct CRC, so it passes \<open>section_codec\<close> and \<open>section_ext_decode\<close>.\<close>

theorem cat_tsdt_short_faults:
  assumes "length w = wire_length w + 3" "5 \<le> length w" "wire_length w \<le> 8"
  shows "mpeg_cat_section_codec e (decoded_ext e w) = None
       \<and> mpeg_tsdt_section_codec e (decoded_ext e w) = None"
proof -
  have len: "section_ext_length e (decoded_ext e w) = Some (wire_length w - 1)"
    using assms decoded_ext_fields(3) [of w e] by simp
  have "verify_descriptors (decoded_ext e w) 8 (size_sub (wire_length w - 1) 8) = None"
    unfolding verify_descriptors_def
    by (rule verify_loop_wrapped) (use assms in \<open>auto simp: size_sub_def\<close>)
  with len show ?thesis by (simp add: mpeg_cat_section_codec_def mpeg_tsdt_section_codec_def Let_def)
qed

theorem cat_tsdt_short_faults_witness:
  "mpeg_cat_section_codec LittleEndian (decoded_ext LittleEndian ([1, 0x80, 6, 0, 0] @ be_bytes32 (crc32 CRC32_INIT [1, 0x80, 6, 0, 0]))) = None
   \<and> crc32 CRC32_INIT ([1, 0x80, 6, 0, 0] @ be_bytes32 (crc32 CRC32_INIT [1, 0x80, 6, 0, 0])) = 0"
proof -
  let ?w = "[1, 0x80, 6, 0, 0] @ be_bytes32 (crc32 CRC32_INIT [1, 0x80, 6, 0, 0])"
  have "wire_length ?w = 6" by (simp add: wire_length_eq)
  with cat_tsdt_short_faults [of ?w LittleEndian] crc32_remainder [of CRC32_INIT "[1, 0x80, 6, 0, 0]"]
  show ?thesis by simp
qed

section \<open>The object descriptor stream map table\<close>

text \<open>an ODSMT section with \<open>stream_count\<close> 0, the single-stream form, is never accepted: the
  codec requires the descriptors to end before the end of the section and then that they end at it.\<close>

theorem odsmt_single_rejected:
  "rd buf 8 = Some 0 \<Longrightarrow> \<nexists>m. mpeg_odsmt_section_codec e buf = Some (m, True)"
  by (auto simp: mpeg_odsmt_section_codec_def Let_def split: Option.bind_splits if_splits option.splits)

theorem odsmt_single_rejected_witness:
  "\<nexists>m. mpeg_odsmt_section_codec BigEndian [6, 0xb0, 13, 0, 0, 0xc1, 0, 0, 0, 0, 1, 0, 1, 2, 3, 4] = Some (m, True)"
  using odsmt_single_rejected [of "[6, 0xb0, 13, 0, 0, 0xc1, 0, 0, 0, 0, 1, 0, 1, 2, 3, 4]" BigEndian]
  by (simp add: rd_def)

end
