(* ===== verification/Dvb_Sections.thy ===== *)
theory Dvb_Sections
  imports Mpeg_Sections
begin

text \<open>
  \<open>lib/libucsi/dvb/*_section.c\<close> and \<open>.h\<close>: the codecs of the DVB service
  information tables (NIT, BAT, SDT, EIT, SIT, TOT, TDT, RST, DIT, ST, INT, TVA container) and their
  iterators.

  NIT and BAT are a descriptor block, a second length and a table of transports; SDT and EIT are a fixed
  head and a table of services or events.  Sizes are those of the C structures; \<open>dvb_rst_status\<close>
  is not declared packed, so its nine bytes of fields occupy ten.
\<close>

section \<open>Network information and bouquet association tables\<close>

text \<open>The two codecs have the same text but for the names of their structures.\<close>

definition dvb_nit_section_codec :: "byte_order \<Rightarrow> mem \<Rightarrow> (mem \<times> bool) option" where
  "dvb_nit_section_codec e buf =
     do {
       let pos = sizeof_section_ext;
       len \<leftarrow> section_ext_length e buf;
       if len < 10 then Some (buf, False)
       else entry_block e 2 [0] 0 buf pos len (\<lambda>buf pos.
         if pos + 2 > len then Some (buf, False)
         else do {
           buf \<leftarrow> bswap16 e buf pos;
           entry_loop e 6 [0, 2, 4] 4 buf (pos + 2) len }) }"

definition dvb_bat_section_codec :: "byte_order \<Rightarrow> mem \<Rightarrow> (mem \<times> bool) option" where
  "dvb_bat_section_codec e buf =
     do {
       let pos = sizeof_section_ext;
       len \<leftarrow> section_ext_length e buf;
       if len < 10 then Some (buf, False)
       else entry_block e 2 [0] 0 buf pos len (\<lambda>buf pos.
         if pos + 2 > len then Some (buf, False)
         else do {
           buf \<leftarrow> bswap16 e buf pos;
           entry_loop e 6 [0, 2, 4] 4 buf (pos + 2) len }) }"

definition dvb_nit_section_network_id :: "byte_order \<Rightarrow> mem \<Rightarrow> u16 option" where
  "dvb_nit_section_network_id e m = section_ext_table_id_ext e m"

definition dvb_nit_section_descriptors_first :: "byte_order \<Rightarrow> mem \<Rightarrow> nat option option" where
  "dvb_nit_section_descriptors_first e m =
     do { l \<leftarrow> length12 e m 8; Some (if l = 0 then None else Some 10) }"

definition dvb_nit_section_descriptors_next :: "byte_order \<Rightarrow> mem \<Rightarrow> nat \<Rightarrow> nat option option" where
  "dvb_nit_section_descriptors_next e m pos =
     do { l \<leftarrow> length12 e m 8; next_descriptor m 10 l (Some pos) }"

definition dvb_nit_section_part2 :: "byte_order \<Rightarrow> mem \<Rightarrow> nat option" where
  "dvb_nit_section_part2 e m = do { l \<leftarrow> length12 e m 8; Some (10 + l) }"

definition dvb_nit_section_transports_first :: "byte_order \<Rightarrow> mem \<Rightarrow> nat \<Rightarrow> nat option option" where
  "dvb_nit_section_transports_first e m part2 =
     do { l \<leftarrow> length12 e m part2; Some (if l = 0 then None else Some (part2 + 2)) }"

definition dvb_nit_section_transports_next :: "byte_order \<Rightarrow> mem \<Rightarrow> nat \<Rightarrow> nat \<Rightarrow> nat option option" where
  "dvb_nit_section_transports_next e m part2 pos =
     do { l \<leftarrow> length12 e m part2; entry_next e 6 4 m (part2 + 2 + l) pos }"

definition dvb_nit_transport_descriptors_first :: "byte_order \<Rightarrow> mem \<Rightarrow> nat \<Rightarrow> nat option option" where
  "dvb_nit_transport_descriptors_first e m t =
     do { l \<leftarrow> length12 e m (t + 4); Some (if l = 0 then None else Some (t + 6)) }"

definition dvb_nit_transport_descriptors_next :: "byte_order \<Rightarrow> mem \<Rightarrow> nat \<Rightarrow> nat \<Rightarrow> nat option option" where
  "dvb_nit_transport_descriptors_next e m t pos =
     do { l \<leftarrow> length12 e m (t + 4); next_descriptor m (t + 6) l (Some pos) }"

text \<open>The fields of \<open>struct dvb_nit_transport\<close>.\<close>

definition dvb_nit_transport :: "byte_order \<Rightarrow> mem \<Rightarrow> nat \<Rightarrow> (u16 \<times> u16) option" where
  "dvb_nit_transport e m p = do { t \<leftarrow> load16 e m p; n \<leftarrow> load16 e m (p + 2); Some (t, n) }"

definition dvb_bat_section_bouquet_id :: "byte_order \<Rightarrow> mem \<Rightarrow> u16 option" where
  "dvb_bat_section_bouquet_id e m = section_ext_table_id_ext e m"

definition dvb_bat_section_part2 :: "byte_order \<Rightarrow> mem \<Rightarrow> nat option" where
  "dvb_bat_section_part2 e m = do { l \<leftarrow> length12 e m 8; Some (10 + l) }"

definition dvb_bat_section_descriptors_first :: "byte_order \<Rightarrow> mem \<Rightarrow> nat option option" where
  "dvb_bat_section_descriptors_first e m =
     do { l \<leftarrow> length12 e m 8; Some (if l = 0 then None else Some 10) }"

definition dvb_bat_section_descriptors_next :: "byte_order \<Rightarrow> mem \<Rightarrow> nat \<Rightarrow> nat option option" where
  "dvb_bat_section_descriptors_next e m pos =
     do { l \<leftarrow> length12 e m 8; next_descriptor m 10 l (Some pos) }"

definition dvb_bat_section_transports_first :: "byte_order \<Rightarrow> mem \<Rightarrow> nat \<Rightarrow> nat option option" where
  "dvb_bat_section_transports_first e m part2 =
     do { l \<leftarrow> length12 e m part2; Some (if l = 0 then None else Some (part2 + 2)) }"

definition dvb_bat_section_transports_next :: "byte_order \<Rightarrow> mem \<Rightarrow> nat \<Rightarrow> nat \<Rightarrow> nat option option" where
  "dvb_bat_section_transports_next e m part2 pos =
     do { l \<leftarrow> length12 e m part2; entry_next e 6 4 m (part2 + 2 + l) pos }"

definition dvb_bat_transport_descriptors_first :: "byte_order \<Rightarrow> mem \<Rightarrow> nat \<Rightarrow> nat option option" where
  "dvb_bat_transport_descriptors_first e m t =
     do { l \<leftarrow> length12 e m (t + 4); Some (if l = 0 then None else Some (t + 6)) }"

definition dvb_bat_transport_descriptors_next :: "byte_order \<Rightarrow> mem \<Rightarrow> nat \<Rightarrow> nat \<Rightarrow> nat option option" where
  "dvb_bat_transport_descriptors_next e m t pos =
     do { l \<leftarrow> length12 e m (t + 4); next_descriptor m (t + 6) l (Some pos) }"

section \<open>Service description and event information tables\<close>

definition dvb_sdt_section_codec :: "byte_order \<Rightarrow> mem \<Rightarrow> (mem \<times> bool) option" where
  "dvb_sdt_section_codec e buf =
     do {
       let pos = sizeof_section_ext;
       len \<leftarrow> section_ext_length e buf;
       if len < 11 then Some (buf, False)
       else do {
         buf \<leftarrow> bswap16 e buf pos;
         entry_loop e 5 [0, 3] 3 buf (pos + 3) len } }"

definition dvb_sdt_section_transport_stream_id :: "byte_order \<Rightarrow> mem \<Rightarrow> u16 option" where
  "dvb_sdt_section_transport_stream_id e m = section_ext_table_id_ext e m"

definition sdt_original_network_id :: "byte_order \<Rightarrow> mem \<Rightarrow> u16 option" where
  "sdt_original_network_id e m = load16 e m 8"

definition dvb_sdt_section_services_first :: "byte_order \<Rightarrow> mem \<Rightarrow> nat option option" where
  "dvb_sdt_section_services_first e m =
     do { len \<leftarrow> section_ext_length e m; Some (if 11 \<ge> len then None else Some 11) }"

definition dvb_sdt_section_services_next :: "byte_order \<Rightarrow> mem \<Rightarrow> nat \<Rightarrow> nat option option" where
  "dvb_sdt_section_services_next e m pos =
     do { stop \<leftarrow> section_ext_length e m; entry_next e 5 3 m stop pos }"

definition dvb_sdt_service_descriptors_first :: "byte_order \<Rightarrow> mem \<Rightarrow> nat \<Rightarrow> nat option option" where
  "dvb_sdt_service_descriptors_first e m svc =
     do { l \<leftarrow> length12 e m (svc + 3); Some (if l = 0 then None else Some (svc + 5)) }"

definition dvb_sdt_service_descriptors_next :: "byte_order \<Rightarrow> mem \<Rightarrow> nat \<Rightarrow> nat \<Rightarrow> nat option option" where
  "dvb_sdt_service_descriptors_next e m svc pos =
     do { l \<leftarrow> length12 e m (svc + 3); next_descriptor m (svc + 5) l (Some pos) }"

text \<open>The fields of \<open>struct dvb_sdt_service\<close>: id, schedule and present/following flags,
  running status and free CA mode.\<close>

definition dvb_sdt_service :: "byte_order \<Rightarrow> mem \<Rightarrow> nat \<Rightarrow> (u16 \<times> bool \<times> bool \<times> u16 \<times> bool) option" where
  "dvb_sdt_service e m p =
     do { i \<leftarrow> load16 e m p; f \<leftarrow> rd m (p + 2); v \<leftarrow> load16 e m (p + 3);
          Some (i, bit f 1, bit f 0, drop_bit 13 v, bit v 12) }"

definition dvb_eit_section_codec :: "byte_order \<Rightarrow> mem \<Rightarrow> (mem \<times> bool) option" where
  "dvb_eit_section_codec e buf =
     do {
       let pos = sizeof_section_ext;
       len \<leftarrow> section_ext_length e buf;
       if len < 14 then Some (buf, False)
       else do {
         buf \<leftarrow> bswap16 e buf pos;
         buf \<leftarrow> bswap16 e buf (pos + 2);
         entry_loop e 12 [0, 10] 10 buf (pos + 6) len } }"

definition dvb_eit_section_service_id :: "byte_order \<Rightarrow> mem \<Rightarrow> u16 option" where
  "dvb_eit_section_service_id e m = section_ext_table_id_ext e m"

definition dvb_eit_section_events_first :: "byte_order \<Rightarrow> mem \<Rightarrow> nat option option" where
  "dvb_eit_section_events_first e m =
     do { len \<leftarrow> section_ext_length e m; Some (if 14 \<ge> len then None else Some 14) }"

definition dvb_eit_section_events_next :: "byte_order \<Rightarrow> mem \<Rightarrow> nat \<Rightarrow> nat option option" where
  "dvb_eit_section_events_next e m pos =
     do { stop \<leftarrow> section_ext_length e m; entry_next e 12 10 m stop pos }"

definition dvb_eit_event_descriptors_first :: "byte_order \<Rightarrow> mem \<Rightarrow> nat \<Rightarrow> nat option option" where
  "dvb_eit_event_descriptors_first e m t =
     do { l \<leftarrow> length12 e m (t + 10); Some (if l = 0 then None else Some (t + 12)) }"

definition dvb_eit_event_descriptors_next :: "byte_order \<Rightarrow> mem \<Rightarrow> nat \<Rightarrow> nat \<Rightarrow> nat option option" where
  "dvb_eit_event_descriptors_next e m t pos =
     do { l \<leftarrow> length12 e m (t + 10); next_descriptor m (t + 12) l (Some pos) }"

text \<open>The fields of \<open>struct dvb_eit_event\<close>: id, start time and duration bytes, running
  status and free CA mode.\<close>

definition dvb_eit_event :: "byte_order \<Rightarrow> mem \<Rightarrow> nat \<Rightarrow> (u16 \<times> u8 list \<times> u8 list \<times> u16 \<times> bool) option" where
  "dvb_eit_event e m p =
     do { i \<leftarrow> load16 e m p; start \<leftarrow> rd_bytes m (p + 2) 5; dur \<leftarrow> rd_bytes m (p + 7) 3;
          v \<leftarrow> load16 e m (p + 10);
          Some (i, start, dur, drop_bit 13 v, bit v 12) }"

section \<open>Selection information table\<close>

definition dvb_sit_section_codec :: "byte_order \<Rightarrow> mem \<Rightarrow> (mem \<times> bool) option" where
  "dvb_sit_section_codec e buf =
     do {
       let pos = sizeof_section_ext;
       len \<leftarrow> section_ext_length e buf;
       if len < 10 then Some (buf, False)
       else entry_block e 2 [0] 0 buf pos len (\<lambda>buf pos. entry_loop e 4 [0, 2, 4] 2 buf pos len) }"

definition dvb_sit_section_descriptors_first :: "byte_order \<Rightarrow> mem \<Rightarrow> nat option option" where
  "dvb_sit_section_descriptors_first e m =
     do { l \<leftarrow> length12 e m 8; Some (if l = 0 then None else Some 10) }"

definition dvb_sit_section_descriptors_next :: "byte_order \<Rightarrow> mem \<Rightarrow> nat \<Rightarrow> nat option option" where
  "dvb_sit_section_descriptors_next e m pos =
     do { l \<leftarrow> length12 e m 8; next_descriptor m 10 l (Some pos) }"

text \<open>The macro steps with \<open>dvb_sit_section_descriptors_first\<close>.\<close>

definition dvb_sit_section_descriptors_for_each :: "byte_order \<Rightarrow> mem \<Rightarrow> nat list option" where
  "dvb_sit_section_descriptors_for_each e m =
     walk (dvb_sit_section_descriptors_first e m) (\<lambda>pos. dvb_sit_section_descriptors_first e m)"

definition dvb_sit_section_services_first :: "byte_order \<Rightarrow> mem \<Rightarrow> nat option option" where
  "dvb_sit_section_services_first e m =
     do { l \<leftarrow> length12 e m 8; let pos = 10 + l;
          len \<leftarrow> section_ext_length e m; Some (if pos \<ge> len then None else Some pos) }"

definition dvb_sit_section_services_next :: "byte_order \<Rightarrow> mem \<Rightarrow> nat \<Rightarrow> nat option option" where
  "dvb_sit_section_services_next e m pos =
     do { stop \<leftarrow> section_ext_length e m; entry_next e 4 2 m stop pos }"

definition dvb_sit_service_descriptors_first :: "byte_order \<Rightarrow> mem \<Rightarrow> nat \<Rightarrow> nat option option" where
  "dvb_sit_service_descriptors_first e m t =
     do { l \<leftarrow> length12 e m (t + 2); Some (if l = 0 then None else Some (t + 4)) }"

definition dvb_sit_service_descriptors_next :: "byte_order \<Rightarrow> mem \<Rightarrow> nat \<Rightarrow> nat \<Rightarrow> nat option option" where
  "dvb_sit_service_descriptors_next e m t pos =
     do { l \<leftarrow> length12 e m (t + 2); next_descriptor m (t + 4) l (Some pos) }"

section \<open>Sections without an extended header\<close>

definition dvb_tot_section_codec :: "byte_order \<Rightarrow> mem \<Rightarrow> (mem \<times> bool) option" where
  "dvb_tot_section_codec e buf =
     do {
       l \<leftarrow> section_length e buf;
       let len = size_sub l CRC_SIZE;
       if len < 10 then Some (buf, False)
       else entry_block e 7 [5] 5 buf sizeof_section len (\<lambda>buf pos. Some (buf, \<not> pos \<noteq> len)) }"

definition dvb_tot_section_descriptors_first :: "byte_order \<Rightarrow> mem \<Rightarrow> nat option option" where
  "dvb_tot_section_descriptors_first e m =
     do { l \<leftarrow> length12 e m 8; Some (if l = 0 then None else Some 10) }"

definition dvb_tot_section_descriptors_next :: "byte_order \<Rightarrow> mem \<Rightarrow> nat \<Rightarrow> nat option option" where
  "dvb_tot_section_descriptors_next e m pos =
     do { l \<leftarrow> length12 e m 8; next_descriptor m 10 l (Some pos) }"

definition dvb_tdt_section_codec :: "byte_order \<Rightarrow> mem \<Rightarrow> (mem \<times> bool) option" where
  "dvb_tdt_section_codec e buf = do { len \<leftarrow> section_length e buf; Some (buf, \<not> len \<noteq> 8) }"

definition sizeof_dvb_rst_status :: nat where
  "sizeof_dvb_rst_status = 10"

definition dvb_rst_section_codec :: "byte_order \<Rightarrow> mem \<Rightarrow> (mem \<times> bool) option" where
  "dvb_rst_section_codec e buf =
     do { len \<leftarrow> section_length e buf;
          fixed_loop e sizeof_dvb_rst_status [0, 2, 4, 6] buf sizeof_section len }"

definition dvb_rst_section_statuses_first :: "byte_order \<Rightarrow> mem \<Rightarrow> nat option option" where
  "dvb_rst_section_statuses_first e m =
     do { len \<leftarrow> section_length e m; Some (if 3 \<ge> len then None else Some 3) }"

definition dvb_rst_section_statuses_next :: "byte_order \<Rightarrow> mem \<Rightarrow> nat \<Rightarrow> nat option option" where
  "dvb_rst_section_statuses_next e m pos =
     do { stop \<leftarrow> section_length e m; fixed_next sizeof_dvb_rst_status stop pos }"

definition dvb_dit_section_codec :: "byte_order \<Rightarrow> mem \<Rightarrow> (mem \<times> bool) option" where
  "dvb_dit_section_codec e buf = do { l \<leftarrow> section_length_field e buf; Some (buf, \<not> l < 1) }"

definition dvb_st_section_codec :: "mem \<Rightarrow> (mem \<times> bool) option" where
  "dvb_st_section_codec buf = Some (buf, True)"

definition dvb_st_section_data :: nat where
  "dvb_st_section_data = 3"

definition dvb_st_section_data_length :: "byte_order \<Rightarrow> mem \<Rightarrow> nat option" where
  "dvb_st_section_data_length e m = section_length_field e m"

definition dvb_tva_container_section_codec :: "byte_order \<Rightarrow> mem \<Rightarrow> (mem \<times> bool) option" where
  "dvb_tva_container_section_codec e buf =
     do { len \<leftarrow> section_ext_length e buf; Some (buf, \<not> len < 8) }"

definition dvb_tva_container_section_container_id :: "byte_order \<Rightarrow> mem \<Rightarrow> u16 option" where
  "dvb_tva_container_section_container_id e m = section_ext_table_id_ext e m"

definition dvb_tva_container_section_data :: nat where
  "dvb_tva_container_section_data = 8"

definition dvb_tva_container_section_data_length :: "byte_order \<Rightarrow> mem \<Rightarrow> int option" where
  "dvb_tva_container_section_data_length e m =
     do { len \<leftarrow> section_ext_length e m; Some (sint (of_nat (size_sub len 8) :: u32)) }"

section \<open>IP/MAC notification table\<close>

text \<open>The comparisons subtract from \<open>len\<close> in \<open>size_t\<close>, and test before the two bytes of the
  length itself are skipped.\<close>

partial_function (option) int_loop ::
  "byte_order \<Rightarrow> mem \<Rightarrow> nat \<Rightarrow> nat \<Rightarrow> (mem \<times> bool) option" where
  "int_loop e buf pos len =
     (if pos < len then
        do {
          buf \<leftarrow> bswap16 e buf pos;
          tdl \<leftarrow> length12 e buf pos;
          if size_sub len pos < tdl then Some (buf, False)
          else do {
            let pos = pos + 2;
            r \<leftarrow> verify_descriptors buf pos tdl;
            if r \<noteq> 0 then Some (buf, False)
            else do {
              let pos = pos + tdl;
              buf \<leftarrow> bswap16 e buf pos;
              odl \<leftarrow> length12 e buf pos;
              if size_sub len pos < odl then Some (buf, False)
              else do {
                let pos = pos + 2;
                r \<leftarrow> verify_descriptors buf pos odl;
                if r \<noteq> 0 then Some (buf, False)
                else int_loop e buf (pos + odl) len } } } }
      else Some (buf, True))"

declare int_loop.simps [code]

definition dvb_int_section_codec :: "byte_order \<Rightarrow> mem \<Rightarrow> (mem \<times> bool) option" where
  "dvb_int_section_codec e buf =
     do {
       let pos = sizeof_section_ext;
       len \<leftarrow> section_ext_length e buf;
       if len < 14 then Some (buf, False)
       else do {
         buf \<leftarrow> bswap32 e buf 8;
         buf \<leftarrow> bswap16 e buf 12;
         let pos = pos + 6;
         pdl \<leftarrow> length12 e buf 12;
         if size_sub len pos < pdl then Some (buf, False)
         else do {
           r \<leftarrow> verify_descriptors buf pos pdl;
           if r \<noteq> 0 then Some (buf, False) else int_loop e buf (pos + pdl) len } } }"

definition dvb_int_section_action_type :: "byte_order \<Rightarrow> mem \<Rightarrow> u8 option" where
  "dvb_int_section_action_type e m =
     do { v \<leftarrow> section_ext_table_id_ext e m; Some (ucast (drop_bit 8 v)) }"

definition dvb_int_section_platform_id_hash :: "byte_order \<Rightarrow> mem \<Rightarrow> u8 option" where
  "dvb_int_section_platform_id_hash e m =
     do { v \<leftarrow> section_ext_table_id_ext e m; Some (ucast (v AND 0xff)) }"

definition dvb_int_target_operational_loop :: "byte_order \<Rightarrow> mem \<Rightarrow> nat \<Rightarrow> nat option" where
  "dvb_int_target_operational_loop e m target =
     do { l \<leftarrow> length12 e m target; Some (target + 2 + l) }"

definition dvb_int_section_platform_descriptors_first :: "byte_order \<Rightarrow> mem \<Rightarrow> nat option option" where
  "dvb_int_section_platform_descriptors_first e m =
     do { l \<leftarrow> length12 e m 12; Some (if l = 0 then None else Some 14) }"

definition dvb_int_section_platform_descriptors_next :: "byte_order \<Rightarrow> mem \<Rightarrow> nat \<Rightarrow> nat option option" where
  "dvb_int_section_platform_descriptors_next e m pos =
     do { l \<leftarrow> length12 e m 12; next_descriptor m 14 l (Some pos) }"

definition dvb_int_section_target_loop_first :: "byte_order \<Rightarrow> mem \<Rightarrow> nat option option" where
  "dvb_int_section_target_loop_first e m =
     do { l \<leftarrow> length12 e m 12; len \<leftarrow> section_ext_length e m;
          Some (if 14 + l \<ge> len mod 2 ^ 32 then None else Some (14 + l)) }"

definition dvb_int_section_target_loop_next :: "byte_order \<Rightarrow> mem \<Rightarrow> nat \<Rightarrow> nat option option" where
  "dvb_int_section_target_loop_next e m pos =
     do { ol \<leftarrow> dvb_int_target_operational_loop e m pos;
          tdl \<leftarrow> length12 e m pos; odl \<leftarrow> length12 e m ol;
          let nxt = pos + 2 + tdl + 2 + odl;
          stop \<leftarrow> section_ext_length e m;
          Some (if nxt \<ge> stop then None else Some nxt) }"

section \<open>Interfaces\<close>

interpretation nit_head: entry_table 2 "[0]" 0
  by unfold_locales (simp_all add: fields_in_def)

interpretation nit_transports: entry_table 6 "[0, 2, 4]" 4
  by unfold_locales (simp_all add: fields_in_def)

interpretation sdt_services: entry_table 5 "[0, 3]" 3
  by unfold_locales (simp_all add: fields_in_def)

interpretation eit_events: entry_table 12 "[0, 10]" 10
  by unfold_locales (simp_all add: fields_in_def)

interpretation tot_head: entry_table 7 "[5]" 5
  by unfold_locales (simp_all add: fields_in_def)

section \<open>NIT and BAT\<close>

lemma bat_nit: "dvb_bat_section_codec = dvb_nit_section_codec"
  by (simp add: fun_eq_iff dvb_bat_section_codec_def dvb_nit_section_codec_def)

definition nit_tail :: "byte_order \<Rightarrow> nat \<Rightarrow> mem \<Rightarrow> nat \<Rightarrow> (mem \<times> bool) option" where
  "nit_tail e len buf pos =
     (if pos + 2 > len then Some (buf, False)
      else do { buf \<leftarrow> bswap16 e buf pos; entry_loop e 6 [0, 2, 4] 4 buf (pos + 2) len })"

lemma nit_codec_frame:
  assumes "framed h8 body crc"
  shows "dvb_nit_section_codec e (ext_hdr e h8 @ body @ crc) =
    (if length body < 2 then Some (ext_hdr e h8 @ body @ crc, False)
     else entry_block e 2 [0] 0 (ext_hdr e h8 @ body @ crc) 8 (8 + length body) (nit_tail e (8 + length body)))"
  using framed_length [OF assms, of e "body @ crc"]
  by (simp add: dvb_nit_section_codec_def Let_def nit_tail_def [abs_def])

lemma swap_unit: "length xs = p \<Longrightarrow> length h = 2 \<Longrightarrow> bswap16 e (xs @ h @ ys) p = Some (xs @ swap_hdr e [0] h @ ys)"
  using swap_all_append [of xs p h "[0]" e ys] by simp

lemma nit_tail_step:
  assumes "length xs = p" "length p2 = 2" "len = p + 2 + length rest"
  shows "nit_tail e len (xs @ p2 @ rest @ ys) p
    = entry_loop e 6 [0, 2, 4] 4 ((xs @ swap_hdr e [0] p2) @ rest @ ys) (p + 2) (p + 2 + length rest)"
  using swap_unit [OF assms(1,2), of e "rest @ ys"] assms by (simp add: nit_tail_def)

definition nit_body :: "tentry \<Rightarrow> u8 list \<Rightarrow> tentry list \<Rightarrow> u8 list" where
  "nit_body f p2 es = entry_bytes f @ p2 @ entries_bytes es"

definition nit_ok :: "tentry \<Rightarrow> u8 list \<Rightarrow> tentry list \<Rightarrow> bool" where
  "nit_ok f p2 es \<longleftrightarrow> entry_ok 2 0 f \<and> length p2 = 2 \<and> list_all (entry_ok 6 4) es"

lemma nit_tail_total:
  assumes "length xs = p" "len = p + length rest"
    and "\<And>p2 es. length p2 = 2 \<Longrightarrow> list_all (entry_ok 6 4) es \<Longrightarrow> rest = p2 @ entries_bytes es \<Longrightarrow> P"
  shows "codec_result P (nit_tail e len (xs @ rest @ ys) p)"
proof (cases "length rest < 2")
  case True
  then show ?thesis using assms(2) by (intro codec_reject) (simp add: nit_tail_def)
next
  case False
  then obtain p2 r where r: "rest = p2 @ r" "length p2 = 2" by (rule split_at)
  have l: "length (xs @ swap_hdr e [0] p2) = p + 2" using assms(1) r(2) by simp
  have "nit_tail e len (xs @ rest @ ys) p
      = entry_loop e 6 [0, 2, 4] 4 ((xs @ swap_hdr e [0] p2) @ r @ ys) (p + 2) (p + 2 + length r)"
    using nit_tail_step [OF assms(1) r(2), of len r e ys] assms(2) r by simp
  then show ?thesis
    by (rule nit_transports.loop_codec [OF _ l]) (use assms(3) r in blast)
qed

lemma nit_codec_total:
  assumes fr: "framed h8 body crc"
  shows "codec_result (\<exists>f p2 es. nit_ok f p2 es \<and> body = nit_body f p2 es)
    (dvb_nit_section_codec e (ext_hdr e h8 @ body @ crc))"
proof (cases "length body < 2")
  case True
  with nit_codec_frame [OF fr] show ?thesis by (auto intro: codec_reject)
next
  case False
  then obtain h rest where body: "body = h @ rest" and h: "length h = 2" by (rule split_at)
  have l8: "length (ext_hdr e h8) = 8" and len: "8 + length body = 8 + 2 + length rest"
    using fr h by (simp_all add: framed_def body)
  note codec = nit_codec_frame [OF fr, of e, unfolded body]
  show ?thesis
  proof (rule nit_head.block_cases [OF l8 h len, where e = e and ys = crc and k = "nit_tail e (8 + length body)"],
      goal_cases)
    case 1
    with codec h show ?thesis by (auto simp: body intro: codec_reject)
  next
    case (2 ds rest')
    let ?f = "(h, ds)"
    have l: "length (ext_hdr e h8 @ decoded_entry e [0] ?f) = 8 + length (entry_bytes ?f)"
      and len': "8 + length body = 8 + length (entry_bytes ?f) + length rest'"
      using l8 2(2) by (simp_all add: body entry_bytes_def)
    have "dvb_nit_section_codec e (ext_hdr e h8 @ body @ crc) = nit_tail e (8 + length body)
       ((ext_hdr e h8 @ decoded_entry e [0] ?f) @ rest' @ crc) (8 + length (entry_bytes ?f))"
      using 2(3) codec h by (simp add: body)
    moreover have "codec_result (\<exists>f p2 es. nit_ok f p2 es \<and> body = nit_body f p2 es) (nit_tail e (8 + length body)
       ((ext_hdr e h8 @ decoded_entry e [0] ?f) @ rest' @ crc) (8 + length (entry_bytes ?f)))"
    proof (rule nit_tail_total [OF l len'])
      fix p2 es
      assume "length p2 = 2" "list_all (entry_ok 6 4) es" "rest' = p2 @ entries_bytes es"
      with 2(1,2) show "\<exists>f p2 es. nit_ok f p2 es \<and> body = nit_body f p2 es"
        by (intro exI [of _ ?f] exI [of _ p2] exI [of _ es]) (simp add: body nit_ok_def nit_body_def entry_bytes_def)
    qed
    ultimately show ?thesis by simp
  qed
qed

lemma nit_codec_accepts:
  assumes fr: "framed h8 body crc" and body: "body = nit_body f p2 es" and ok: "nit_ok f p2 es"
  shows "dvb_nit_section_codec e (ext_hdr e h8 @ body @ crc) =
    Some (ext_hdr e h8 @ decoded_entry e [0] f @ swap_hdr e [0] p2 @ decoded_entries e [0, 2, 4] es @ crc, True)"
proof -
  obtain h ds where fh: "f = (h, ds)" by (cases f)
  have f: "entry_ok 2 0 f" and p2: "length p2 = 2" and es: "list_all (entry_ok 6 4) es"
    using ok by (simp_all add: nit_ok_def)
  have h: "length h = 2" using f by (simp add: entry_ok_def fh)
  let ?rest = "descs_bytes ds @ p2 @ entries_bytes es"
  have b: "body = h @ ?rest" by (simp add: body nit_body_def fh entry_bytes_def)
  have l8: "length (ext_hdr e h8) = 8" and len: "8 + length body = 8 + 2 + length ?rest"
    using fr h by (simp_all add: framed_def b)
  note codec = nit_codec_frame [OF fr, of e, unfolded b]
  show ?thesis
  proof (rule nit_head.block_cases [OF l8 h len, where e = e and ys = crc and k = "nit_tail e (8 + length body)"],
      goal_cases)
    case 1
    with f show ?thesis by (auto simp: fh)
  next
    case (2 ds' rest')
    have "length (descs_bytes ds) = length (descs_bytes ds')" using 2(1) f by (simp add: entry_ok_def fh)
    with 2(2) have same: "descs_bytes ds' = descs_bytes ds" "rest' = p2 @ entries_bytes es" by simp_all
    have l: "length (ext_hdr e h8 @ decoded_entry e [0] f) = 8 + length (entry_bytes f)" using l8 by simp
    have l': "length ((ext_hdr e h8 @ decoded_entry e [0] f) @ swap_hdr e [0] p2) = 8 + length (entry_bytes f) + 2"
      using l8 p2 by simp
    have "8 + length body = 8 + length (entry_bytes f) + 2 + length (entries_bytes es)"
      using p2 by (simp add: body nit_body_def)
    from nit_tail_step [OF l p2 this, of e crc] nit_transports.loop_accepts [OF es l', of e crc]
      2(3) codec h same show ?thesis
      by (simp add: b fh entry_bytes_def decoded_entry_def)
  qed
qed

text \<open>the NIT and BAT codecs return for every section, without leaving it, on hosts of either byte
  order, and accept exactly the sections whose body is a descriptor block, the second length and a
  table of transports with their descriptors.\<close>

theorem nit_bat_codec_correct:
  assumes "framed h8 body crc"
  shows "\<exists>m ok. dvb_nit_section_codec e (decoded_ext e (h8 @ body @ crc)) = Some (m, ok)
    \<and> dvb_bat_section_codec e (decoded_ext e (h8 @ body @ crc)) = Some (m, ok)
    \<and> (ok \<longleftrightarrow> (\<exists>f p2 es. nit_ok f p2 es \<and> body = nit_body f p2 es))"
  using nit_codec_total [OF assms, of e] nit_codec_accepts [OF assms, of _ _ _ e]
  unfolding framed_decoded [OF assms] codec_result_def bat_nit by fastforce

theorem nit_bat_codec_correct_witness:
  "\<exists>m. dvb_nit_section_codec LittleEndian (decoded_ext LittleEndian
      ([0x40, 0xf0, 0x13, 0, 1, 0xc1, 0, 0] @ [0xf0, 0, 0xf0, 6, 0, 7, 0, 1, 0xf0, 0] @ [1, 2, 3, 4])) = Some (m, True)"
proof -
  let ?f = "([0xf0, 0], []) :: tentry" and ?t = "([0, 7, 0, 1, 0xf0, 0], []) :: tentry"
  have fr: "framed [0x40, 0xf0, 0x13, 0, 1, 0xc1, 0, 0] [0xf0, 0, 0xf0, 6, 0, 7, 0, 1, 0xf0, 0] [1, 2, 3, 4]"
    by (simp add: framed_def wire12_eq)
  have "\<exists>f p2 es. nit_ok f p2 es \<and> [0xf0, 0, 0xf0, 6, 0, 7, 0, 1, 0xf0, 0] = nit_body f p2 es"
    by (intro exI [of _ ?f] exI [of _ "[0xf0, 6]"] exI [of _ "[?t]"])
      (simp add: nit_ok_def nit_body_def entry_ok_def entry_bytes_def wire12_eq)
  with nit_bat_codec_correct [OF fr, of LittleEndian] show ?thesis
    by (simp only: simp_thms) (metis (full_types))
qed

text \<open>The transports of a NIT as the iterator macro visits them, and what its body reads.\<close>

definition nit_transports :: "byte_order \<Rightarrow> mem \<Rightarrow> nat list option" where
  "nit_transports e m =
     do { part2 \<leftarrow> dvb_nit_section_part2 e m;
          walk (dvb_nit_section_transports_first e m part2) (dvb_nit_section_transports_next e m part2) }"

definition nit_transport_read :: "byte_order \<Rightarrow> mem \<Rightarrow> nat \<Rightarrow> (u16 \<times> u16 \<times> desc list) option" where
  "nit_transport_read e m p =
     do { (t, n) \<leftarrow> dvb_nit_transport e m p;
          ds \<leftarrow> walk (dvb_nit_transport_descriptors_first e m p) (dvb_nit_transport_descriptors_next e m p);
          Some (t, n, map (desc_at m) ds) }"

lemma nit_transport_descriptors_eq:
  "walk (dvb_nit_transport_descriptors_first e m p) (dvb_nit_transport_descriptors_next e m p)
     = entry_descriptors e 6 4 m p"
  by (cases "length12 e m (p + 4)")
    (simp_all add: walk_def dvb_nit_transport_descriptors_first_def
      dvb_nit_transport_descriptors_next_def [abs_def] entry_descriptors_def)

lemma nit_transport_read_entry:
  assumes "bytes_at m q (decoded_entry e [0, 2, 4] x)" "entry_ok 6 4 x"
  shows "nit_transport_read e m q =
    Some (be16 (fst x ! 0) (fst x ! 1), be16 (fst x ! 2) (fst x ! 3), snd x)"
proof -
  have "load16 e m (q + 0) = Some (be16 (fst x ! 0) (fst x ! (0 + 1)))"
    "load16 e m (q + 2) = Some (be16 (fst x ! 2) (fst x ! (2 + 1)))"
    by (rule nit_transports.entry_field [OF assms], simp)+
  then have "dvb_nit_transport e m q = Some (be16 (fst x ! 0) (fst x ! 1), be16 (fst x ! 2) (fst x ! 3))"
    by (simp add: dvb_nit_transport_def)
  with nit_transports.entry_descs [OF assms] show ?thesis
    by (auto simp: nit_transport_read_def nit_transport_descriptors_eq)
qed

lemma unit_load: "length xs = p \<Longrightarrow> length h = 2 \<Longrightarrow> length12 e (xs @ swap_hdr e [0] h @ ys) p = Some (wire12 h 0)"
  using nit_head.length12_decoded [of h xs p e ys] by simp

lemma nit_walks:
  assumes fr: "framed h8 body crc" and body: "body = nit_body f p2 es" and ok: "nit_ok f p2 es"
    and loop: "wire12 p2 0 = length (entries_bytes es)"
    and m: "m = ext_hdr e h8 @ decoded_entry e [0] f @ swap_hdr e [0] p2 @ decoded_entries e [0, 2, 4] es @ crc"
  shows "\<exists>qs. nit_transports e m = Some qs \<and> map (nit_transport_read e m) qs
       = map (\<lambda>x. Some (be16 (fst x ! 0) (fst x ! 1), be16 (fst x ! 2) (fst x ! 3), snd x)) es"
proof -
  have f: "entry_ok 2 0 f" and p2: "length p2 = 2" and es: "list_all (entry_ok 6 4) es"
    using ok by (simp_all add: nit_ok_def)
  have l8: "length h8 = 8" using fr by (simp add: framed_def)
  let ?q = "8 + length (entry_bytes f)"
  let ?p = "?q + 2" and ?stop = "?q + 2 + length (entries_bytes es)"
  have "bytes_at m 8 (decoded_entry e [0] f)" using l8 by (simp add: m)
  from nit_head.entry_field [OF this f, of 0] have "length12 e m 8 = Some (length (descs_bytes (snd f)))"
    using f by (simp add: length12_def entry_ok_def wire12_def)
  then have part2: "dvb_nit_section_part2 e m = Some ?q"
    using f by (simp add: dvb_nit_section_part2_def entry_ok_def entry_bytes_def)
  have tll: "length12 e m ?q = Some (length (entries_bytes es))"
    using unit_load [of "ext_hdr e h8 @ decoded_entry e [0] f" ?q p2 e "decoded_entries e [0, 2, 4] es @ crc"]
      l8 p2 loop by (simp add: m)
  have tl: "bytes_at m ?p (decoded_entries e [0, 2, 4] es)"
    using bytes_at_frame [of "ext_hdr e h8 @ decoded_entry e [0] f @ swap_hdr e [0] p2" ?p
        "decoded_entries e [0, 2, 4] es" crc] l8 p2 by (simp add: m)
  have "nit_transports e m = for_each (entry_next e 6 4 m ?stop) (if ?p \<ge> ?stop then None else Some ?p)"
    by (simp add: nit_transports_def part2 tll walk_def dvb_nit_section_transports_first_def
        dvb_nit_section_transports_next_def [abs_def] add.assoc)
  also have "\<dots> = Some (offsets ?p es)"
    by (rule nit_transports.walk_decoded [OF es tl]) simp
  finally have "nit_transports e m = Some (offsets ?p es)" .
  moreover have "map (nit_transport_read e m) (offsets ?p es)
       = map (\<lambda>x. Some (be16 (fst x ! 0) (fst x ! 1), be16 (fst x ! 2) (fst x ! 3), snd x)) es"
    by (rule list_all2_map_eq [OF nit_transports.offsets_bytes_at [OF tl] es]) (rule nit_transport_read_entry)
  ultimately show ?thesis by blast
qed

text \<open>C19: in an accepted NIT whose second length agrees with the end of the section, the walk over the
  transports gives the transmitted transport stream ids, network ids and descriptors in order.\<close>

theorem nit_roundtrip:
  assumes "framed h8 body crc" "body = nit_body f p2 es" "nit_ok f p2 es"
    and "wire12 p2 0 = length (entries_bytes es)"
  shows "\<exists>m qs. dvb_nit_section_codec e (decoded_ext e (h8 @ body @ crc)) = Some (m, True)
       \<and> nit_transports e m = Some qs \<and> map (nit_transport_read e m) qs
       = map (\<lambda>x. Some (be16 (fst x ! 0) (fst x ! 1), be16 (fst x ! 2) (fst x ! 3), snd x)) es"
  using nit_codec_accepts [OF assms(1-3), of e] nit_walks [OF assms refl, of e]
  unfolding framed_decoded [OF assms(1)] by blast

theorem nit_roundtrip_witness:
  "\<exists>m qs. dvb_nit_section_codec LittleEndian (decoded_ext LittleEndian
      ([0x40, 0xf0, 0x13, 0, 1, 0xc1, 0, 0] @ [0xf0, 0, 0xf0, 6, 0, 7, 0, 1, 0xf0, 0] @ [1, 2, 3, 4])) = Some (m, True)
     \<and> nit_transports LittleEndian m = Some qs \<and> map (nit_transport_read LittleEndian m) qs = [Some (7, 1, [])]"
proof -
  let ?f = "([0xf0, 0], []) :: tentry" and ?t = "([0, 7, 0, 1, 0xf0, 0], []) :: tentry"
  have "framed [0x40, 0xf0, 0x13, 0, 1, 0xc1, 0, 0] [0xf0, 0, 0xf0, 6, 0, 7, 0, 1, 0xf0, 0] [1, 2, 3, 4]"
    "[0xf0, 0, 0xf0, 6, 0, 7, 0, 1, 0xf0, 0] = nit_body ?f [0xf0, 6] [?t]" "nit_ok ?f [0xf0, 6] [?t]"
    "wire12 [0xf0, 6] 0 = length (entries_bytes [?t])"
    by (simp_all add: framed_def nit_ok_def nit_body_def entry_ok_def entry_bytes_def wire12_eq)
  from nit_roundtrip [OF this, of LittleEndian] show ?thesis by (auto simp: be16_def)
qed

text \<open>the NIT codec does not compare the length of the transport loop with the end of the
  section: it accepts a section whose loop length is 6 with no transport behind it, and the walk over
  the transports of that section reads past its end.\<close>

theorem nit_transports_overread:
  "dvb_nit_section_codec BigEndian [0x40, 0xf0, 0x0d, 0, 1, 0xc1, 0, 0, 0xf0, 0, 0xf0, 6, 1, 2, 3, 4]
     = Some ([0x40, 0xf0, 0x0d, 0, 1, 0xc1, 0, 0, 0xf0, 0, 0xf0, 6, 1, 2, 3, 4], True)
   \<and> nit_transports BigEndian [0x40, 0xf0, 0x0d, 0, 1, 0xc1, 0, 0, 0xf0, 0, 0xf0, 6, 1, 2, 3, 4] = None"
proof
  let ?h = "[0x40, 0xf0, 0x0d, 0, 1, 0xc1, 0, 0] :: u8 list" and ?f = "([0xf0, 0], []) :: tentry"
  have "framed ?h [0xf0, 0, 0xf0, 6] [1, 2, 3, 4]" "[0xf0, 0, 0xf0, 6] = nit_body ?f [0xf0, 6] []"
    "nit_ok ?f [0xf0, 6] []"
    by (simp_all add: framed_def wire12_eq nit_ok_def nit_body_def entry_ok_def entry_bytes_def)
  from nit_codec_accepts [OF this, of BigEndian]
  show "dvb_nit_section_codec BigEndian [0x40, 0xf0, 0x0d, 0, 1, 0xc1, 0, 0, 0xf0, 0, 0xf0, 6, 1, 2, 3, 4]
     = Some ([0x40, 0xf0, 0x0d, 0, 1, 0xc1, 0, 0, 0xf0, 0, 0xf0, 6, 1, 2, 3, 4], True)"
    by (simp add: ext_hdr_def swap_hdr_def swap2_def decoded_entry_def)
  show "nit_transports BigEndian [0x40, 0xf0, 0x0d, 0, 1, 0xc1, 0, 0, 0xf0, 0, 0xf0, 6, 1, 2, 3, 4] = None"
    by (simp add: nit_transports_def dvb_nit_section_part2_def length12_def rd_def be16_def walk_def
        dvb_nit_section_transports_first_def dvb_nit_section_transports_next_def for_each.simps entry_next_def)
qed

section \<open>SDT and EIT\<close>

lemma take_drop_append [simp]: "take n xs @ drop n xs @ ys = xs @ ys"
  by (metis append_assoc append_take_drop_id)

lemma sdt_codec_frame:
  assumes fr: "framed h8 body crc"
  shows "dvb_sdt_section_codec e (ext_hdr e h8 @ body @ crc) =
    (if length body < 3 then Some (ext_hdr e h8 @ body @ crc, False)
     else entry_loop e 5 [0, 3] 3 ((ext_hdr e h8 @ swap_hdr e [0] (take 3 body)) @ drop 3 body @ crc)
       11 (11 + length (drop 3 body)))"
proof -
  have "length (ext_hdr e h8) = 8" using fr by (simp add: framed_def)
  then have "\<not> length body < 3 \<Longrightarrow> bswap16 e (ext_hdr e h8 @ body @ crc) 8
      = Some (ext_hdr e h8 @ swap_hdr e [0] (take 3 body) @ drop 3 body @ crc)"
    using swap_all_append [of "ext_hdr e h8" 8 "take 3 body" "[0]" e "drop 3 body @ crc"]
    by simp
  then show ?thesis
    by (simp add: dvb_sdt_section_codec_def framed_length [OF fr] Let_def)
qed

lemma eit_codec_frame:
  assumes fr: "framed h8 body crc"
  shows "dvb_eit_section_codec e (ext_hdr e h8 @ body @ crc) =
    (if length body < 6 then Some (ext_hdr e h8 @ body @ crc, False)
     else entry_loop e 12 [0, 10] 10 ((ext_hdr e h8 @ swap_hdr e [0, 2] (take 6 body)) @ drop 6 body @ crc)
       14 (14 + length (drop 6 body)))"
proof -
  have "length (ext_hdr e h8) = 8" using fr by (simp add: framed_def)
  then have "\<not> length body < 6 \<Longrightarrow> swap_all e (ext_hdr e h8 @ body @ crc) [8, 10]
      = Some (ext_hdr e h8 @ swap_hdr e [0, 2] (take 6 body) @ drop 6 body @ crc)"
    using swap_all_append [of "ext_hdr e h8" 8 "take 6 body" "[0, 2]" e "drop 6 body @ crc"]
    by simp
  then show ?thesis
    by (simp add: dvb_eit_section_codec_def framed_length [OF fr] Let_def flip: bind_assoc)
qed

text \<open>The services of an SDT and the events of an EIT, as the iterators visit them.\<close>

definition sdt_services :: "byte_order \<Rightarrow> mem \<Rightarrow> nat list option" where
  "sdt_services e m = walk (dvb_sdt_section_services_first e m) (dvb_sdt_section_services_next e m)"

definition sdt_service_read ::
  "byte_order \<Rightarrow> mem \<Rightarrow> nat \<Rightarrow> ((u16 \<times> bool \<times> bool \<times> u16 \<times> bool) \<times> desc list) option" where
  "sdt_service_read e m p =
     do { s \<leftarrow> dvb_sdt_service e m p;
          ds \<leftarrow> walk (dvb_sdt_service_descriptors_first e m p) (dvb_sdt_service_descriptors_next e m p);
          Some (s, map (desc_at m) ds) }"

definition eit_events :: "byte_order \<Rightarrow> mem \<Rightarrow> nat list option" where
  "eit_events e m = walk (dvb_eit_section_events_first e m) (dvb_eit_section_events_next e m)"

definition eit_event_read ::
  "byte_order \<Rightarrow> mem \<Rightarrow> nat \<Rightarrow> ((u16 \<times> u8 list \<times> u8 list \<times> u16 \<times> bool) \<times> desc list) option" where
  "eit_event_read e m p =
     do { s \<leftarrow> dvb_eit_event e m p;
          ds \<leftarrow> walk (dvb_eit_event_descriptors_first e m p) (dvb_eit_event_descriptors_next e m p);
          Some (s, map (desc_at m) ds) }"

text \<open>What an entry header means on the wire.\<close>

definition sdt_service_of :: "tentry \<Rightarrow> (u16 \<times> bool \<times> bool \<times> u16 \<times> bool) \<times> desc list" where
  "sdt_service_of x = (let h = fst x; v = be16 (h ! 3) (h ! 4) in
     ((be16 (h ! 0) (h ! 1), bit (h ! 2) 1, bit (h ! 2) 0, drop_bit 13 v, bit v 12), snd x))"

definition eit_event_of :: "tentry \<Rightarrow> (u16 \<times> u8 list \<times> u8 list \<times> u16 \<times> bool) \<times> desc list" where
  "eit_event_of x = (let h = fst x; v = be16 (h ! 10) (h ! 11) in
     ((be16 (h ! 0) (h ! 1), take 5 (drop 2 h), take 3 (drop 7 h), drop_bit 13 v, bit v 12), snd x))"

lemma sdt_service_read_entry:
  assumes "bytes_at m q (decoded_entry e [0, 3] x)" "entry_ok 5 3 x"
  shows "sdt_service_read e m q = Some (sdt_service_of x)"
proof -
  have l: "load16 e m (q + 0) = Some (be16 (fst x ! 0) (fst x ! (0 + 1)))"
    "load16 e m (q + 3) = Some (be16 (fst x ! 3) (fst x ! (3 + 1)))"
    by (rule sdt_services.entry_field [OF assms], simp)+
  have "rd m (q + 2) = Some (fst x ! 2)"
    by (rule sdt_services.entry_byte [OF assms]) simp_all
  with l have s: "dvb_sdt_service e m q = Some (fst (sdt_service_of x))"
    by (simp add: dvb_sdt_service_def sdt_service_of_def Let_def)
  have "walk (dvb_sdt_service_descriptors_first e m q) (dvb_sdt_service_descriptors_next e m q)
      = entry_descriptors e 5 3 m q"
    by (cases "length12 e m (q + 3)")
      (simp_all add: walk_def dvb_sdt_service_descriptors_first_def
        dvb_sdt_service_descriptors_next_def [abs_def] entry_descriptors_def)
  with s sdt_services.entry_descs [OF assms] show ?thesis
    by (auto simp: sdt_service_read_def sdt_service_of_def Let_def)
qed

lemma bytes_at_sub:
  assumes "bytes_at m q h" "i + n \<le> length h"
  shows "rd_bytes m (q + i) n = Some (take n (drop i h))"
proof -
  have b: "q + length h \<le> length m" and h: "h = take (length h) (drop q m)"
    using assms(1) by (simp_all add: bytes_at_def)
  have "take n (drop i (take (length h) (drop q m))) = take n (drop (q + i) m)"
    using assms(2) by (simp add: drop_take add.commute min_absorb1)
  with h b assms(2) show ?thesis by (simp add: rd_bytes_def)
qed

lemma eit_event_read_entry:
  assumes "bytes_at m q (decoded_entry e [0, 10] x)" "entry_ok 12 10 x"
  shows "eit_event_read e m q = Some (eit_event_of x)"
proof -
  have l: "load16 e m (q + 0) = Some (be16 (fst x ! 0) (fst x ! (0 + 1)))"
    "load16 e m (q + 10) = Some (be16 (fst x ! 10) (fst x ! (10 + 1)))"
    by (rule eit_events.entry_field [OF assms], simp)+
  let ?h = "swap_hdr e [0, 10] (fst x)"
  have h: "bytes_at m q ?h" "length (fst x) = 12"
    using assms by (simp_all add: decoded_entry_def bytes_at_append entry_ok_def)
  have "take n (drop i ?h) = take n (drop i (fst x))" if "2 \<le> i" "i + n \<le> 10" for i n
    using that h(2) by (intro nth_equalityI) (auto simp: swap_hdr_other)
  with bytes_at_sub [OF h(1), of 2 5] bytes_at_sub [OF h(1), of 7 3] h(2) l
  have s: "dvb_eit_event e m q = Some (fst (eit_event_of x))"
    by (simp add: dvb_eit_event_def eit_event_of_def Let_def)
  have "walk (dvb_eit_event_descriptors_first e m q) (dvb_eit_event_descriptors_next e m q)
      = entry_descriptors e 12 10 m q"
    by (cases "length12 e m (q + 10)")
      (simp_all add: walk_def dvb_eit_event_descriptors_first_def
        dvb_eit_event_descriptors_next_def [abs_def] entry_descriptors_def)
  with s eit_events.entry_descs [OF assms] show ?thesis
    by (auto simp: eit_event_read_def eit_event_of_def Let_def)
qed

lemma sdt_accepts:
  assumes fr: "framed h8 body crc" and body: "body = h @ entries_bytes es" and h: "length h = 3"
    and es: "list_all (entry_ok 5 3) es"
  shows "\<exists>m qs. dvb_sdt_section_codec e (ext_hdr e h8 @ body @ crc) = Some (m, True)
    \<and> sdt_original_network_id e m = Some (be16 (h ! 0) (h ! 1))
    \<and> sdt_services e m = Some qs \<and> map (sdt_service_read e m) qs = map (\<lambda>x. Some (sdt_service_of x)) es"
proof -
  let ?x = "ext_hdr e h8 @ swap_hdr e [0] h"
  let ?m = "?x @ decoded_entries e [0, 3] es @ crc"
  have l: "length ?x = 11" and l8: "length (ext_hdr e h8) = 8" using fr h by (simp_all add: framed_def)
  have c: "dvb_sdt_section_codec e (ext_hdr e h8 @ body @ crc) = Some (?m, True)"
    using sdt_codec_frame [OF fr, of e] sdt_services.loop_accepts [OF es l, of e crc] h by (simp add: body)
  have tl: "bytes_at ?m 11 (decoded_entries e [0, 3] es)" using l by (rule bytes_at_frame)
  have len: "section_ext_length e ?m = Some (11 + length (entries_bytes es))"
    using framed_length [OF fr, of e "swap_hdr e [0] h @ decoded_entries e [0, 3] es @ crc"] h by (simp add: body)
  have "sdt_services e ?m = for_each (entry_next e 5 3 ?m (11 + length (entries_bytes es)))
      (if 11 \<ge> 11 + length (entries_bytes es) then None else Some 11)"
    unfolding sdt_services_def walk_def dvb_sdt_section_services_first_def
      dvb_sdt_section_services_next_def [abs_def] len bind.bind_lunit ..
  also have "\<dots> = Some (offsets 11 es)" by (rule sdt_services.walk_decoded [OF es tl refl])
  finally have w: "sdt_services e ?m = Some (offsets 11 es)" .
  have "map (sdt_service_read e ?m) (offsets 11 es) = map (\<lambda>x. Some (sdt_service_of x)) es"
    by (rule list_all2_map_eq [OF sdt_services.offsets_bytes_at [OF tl] es]) (rule sdt_service_read_entry)
  moreover have "sdt_original_network_id e ?m = Some (be16 (h ! 0) (h ! 1))"
    using load16_append [OF l8, of 0 "swap_hdr e [0] h" e "decoded_entries e [0, 3] es @ crc"]
      load16_swap_hdr [of "[0]" h 0 e] h by (simp add: sdt_original_network_id_def fields_in_def)
  ultimately show ?thesis using c w by blast
qed

lemma eit_accepts:
  assumes fr: "framed h8 body crc" and body: "body = h @ entries_bytes es" and h: "length h = 6"
    and es: "list_all (entry_ok 12 10) es"
  shows "\<exists>m qs. dvb_eit_section_codec e (ext_hdr e h8 @ body @ crc) = Some (m, True)
    \<and> eit_events e m = Some qs \<and> map (eit_event_read e m) qs = map (\<lambda>x. Some (eit_event_of x)) es"
proof -
  let ?x = "ext_hdr e h8 @ swap_hdr e [0, 2] h"
  let ?m = "?x @ decoded_entries e [0, 10] es @ crc"
  have l: "length ?x = 14" using fr h by (simp add: framed_def)
  have c: "dvb_eit_section_codec e (ext_hdr e h8 @ body @ crc) = Some (?m, True)"
    using eit_codec_frame [OF fr, of e] eit_events.loop_accepts [OF es l, of e crc] h by (simp add: body)
  have tl: "bytes_at ?m 14 (decoded_entries e [0, 10] es)" using l by (rule bytes_at_frame)
  have len: "section_ext_length e ?m = Some (14 + length (entries_bytes es))"
    using framed_length [OF fr, of e "swap_hdr e [0, 2] h @ decoded_entries e [0, 10] es @ crc"] h by (simp add: body)
  have "eit_events e ?m = for_each (entry_next e 12 10 ?m (14 + length (entries_bytes es)))
      (if 14 \<ge> 14 + length (entries_bytes es) then None else Some 14)"
    unfolding eit_events_def walk_def dvb_eit_section_events_first_def
      dvb_eit_section_events_next_def [abs_def] len bind.bind_lunit ..
  also have "\<dots> = Some (offsets 14 es)" by (rule eit_events.walk_decoded [OF es tl refl])
  finally have w: "eit_events e ?m = Some (offsets 14 es)" .
  have "map (eit_event_read e ?m) (offsets 14 es) = map (\<lambda>x. Some (eit_event_of x)) es"
    by (rule list_all2_map_eq [OF eit_events.offsets_bytes_at [OF tl] es]) (rule eit_event_read_entry)
  with c w show ?thesis by blast
qed

text \<open>the SDT codec returns for every section, without leaving it, and accepts only bodies that are a three-byte head
  and a table of services; on such a body it accepts, and the walk over the services gives the
  transmitted ids, flags, running status, CA mode and descriptors in order.\<close>

theorem sdt_codec_correct:
  assumes "framed h8 body crc"
  shows "codec_result (\<exists>h es. length h = 3 \<and> list_all (entry_ok 5 3) es \<and> body = h @ entries_bytes es)
      (dvb_sdt_section_codec e (decoded_ext e (h8 @ body @ crc)))
    \<and> (\<forall>h es. length h = 3 \<and> list_all (entry_ok 5 3) es \<and> body = h @ entries_bytes es \<longrightarrow>
        (\<exists>m qs. dvb_sdt_section_codec e (decoded_ext e (h8 @ body @ crc)) = Some (m, True)
          \<and> sdt_original_network_id e m = Some (be16 (h ! 0) (h ! 1))
          \<and> sdt_services e m = Some qs \<and> map (sdt_service_read e m) qs = map (\<lambda>x. Some (sdt_service_of x)) es))"
proof -
  have "codec_result (\<exists>h es. length h = 3 \<and> list_all (entry_ok 5 3) es \<and> body = h @ entries_bytes es)
      (dvb_sdt_section_codec e (ext_hdr e h8 @ body @ crc))"
  proof (cases "length body < 3")
    case True
    with sdt_codec_frame [OF assms] show ?thesis by (auto intro: codec_reject)
  next
    case False
    then have l: "length (ext_hdr e h8 @ swap_hdr e [0] (take 3 body)) = 11" using assms by (simp add: framed_def)
    from False sdt_codec_frame [OF assms, of e] show ?thesis
      by (intro sdt_services.loop_codec [OF _ l, of _ e "drop 3 body" crc])
        (simp, metis append_take_drop_id length_take min_absorb2 not_less)
  qed
  with sdt_accepts [OF assms, of _ _ e] show ?thesis unfolding framed_decoded [OF assms] by blast
qed

theorem sdt_codec_correct_witness:
  "\<exists>m qs. dvb_sdt_section_codec LittleEndian (decoded_ext LittleEndian
      ([0x42, 0xf0, 0x11, 0, 1, 0xc1, 0, 0] @ [0x20, 0x30, 0xff, 0, 9, 0xfd, 0x90, 0] @ [1, 2, 3, 4])) = Some (m, True)
     \<and> sdt_services LittleEndian m = Some qs
     \<and> map (sdt_service_read LittleEndian m) qs = [Some ((9, False, True, 4, True), [])]"
proof -
  let ?s = "([0, 9, 0xfd, 0x90, 0], []) :: tentry"
  have fr: "framed [0x42, 0xf0, 0x11, 0, 1, 0xc1, 0, 0] [0x20, 0x30, 0xff, 0, 9, 0xfd, 0x90, 0] [1, 2, 3, 4]"
    by (simp add: framed_def wire12_eq)
  have a: "length [0x20, 0x30, 0xff :: u8] = 3 \<and> list_all (entry_ok 5 3) [?s]
     \<and> [0x20, 0x30, 0xff, 0, 9, 0xfd, 0x90, 0] = [0x20, 0x30, 0xff] @ entries_bytes [?s]"
    by (simp add: entry_ok_def entry_bytes_def wire12_eq)
  have "sdt_service_of ?s = ((9, False, True, 4, True), [])"
    by (simp add: sdt_service_of_def be16_def Let_def)
  with conjunct2 [OF sdt_codec_correct [OF fr, of LittleEndian], rule_format, OF a] show ?thesis by auto
qed

text \<open>the EIT codec returns for every section, without leaving it, and accepts only bodies that are a six-byte head
  and a table of events; on such a body it accepts, and the walk over the events gives the
  transmitted ids, start times, durations, running status, CA mode and descriptors in order.\<close>

theorem eit_codec_correct:
  assumes "framed h8 body crc"
  shows "codec_result (\<exists>h es. length h = 6 \<and> list_all (entry_ok 12 10) es \<and> body = h @ entries_bytes es)
      (dvb_eit_section_codec e (decoded_ext e (h8 @ body @ crc)))
    \<and> (\<forall>h es. length h = 6 \<and> list_all (entry_ok 12 10) es \<and> body = h @ entries_bytes es \<longrightarrow>
        (\<exists>m qs. dvb_eit_section_codec e (decoded_ext e (h8 @ body @ crc)) = Some (m, True)
          \<and> eit_events e m = Some qs \<and> map (eit_event_read e m) qs = map (\<lambda>x. Some (eit_event_of x)) es))"
proof -
  have "codec_result (\<exists>h es. length h = 6 \<and> list_all (entry_ok 12 10) es \<and> body = h @ entries_bytes es)
      (dvb_eit_section_codec e (ext_hdr e h8 @ body @ crc))"
  proof (cases "length body < 6")
    case True
    with eit_codec_frame [OF assms] show ?thesis by (auto intro: codec_reject)
  next
    case False
    then have l: "length (ext_hdr e h8 @ swap_hdr e [0, 2] (take 6 body)) = 14" using assms by (simp add: framed_def)
    from False eit_codec_frame [OF assms, of e] show ?thesis
      by (intro eit_events.loop_codec [OF _ l, of _ e "drop 6 body" crc])
        (simp, metis append_take_drop_id length_take min_absorb2 not_less)
  qed
  with eit_accepts [OF assms, of _ _ e] show ?thesis unfolding framed_decoded [OF assms] by blast
qed

theorem eit_codec_correct_witness:
  "\<exists>m qs. dvb_eit_section_codec BigEndian (decoded_ext BigEndian
      ([0x4e, 0xf0, 0x1b, 0, 1, 0xc1, 0, 0] @ [0, 1, 0, 2, 0, 0x4e, 0, 7, 0xc0, 0x79, 0x12, 0x45, 0, 1, 0x45, 0, 0x80, 0] @ [1, 2, 3, 4]))
        = Some (m, True)
     \<and> eit_events BigEndian m = Some qs
     \<and> map (eit_event_read BigEndian m) qs = [Some ((7, [0xc0, 0x79, 0x12, 0x45, 0], [1, 0x45, 0], 4, False), [])]"
proof -
  let ?s = "([0, 7, 0xc0, 0x79, 0x12, 0x45, 0, 1, 0x45, 0, 0x80, 0], []) :: tentry"
  have fr: "framed [0x4e, 0xf0, 0x1b, 0, 1, 0xc1, 0, 0]
      [0, 1, 0, 2, 0, 0x4e, 0, 7, 0xc0, 0x79, 0x12, 0x45, 0, 1, 0x45, 0, 0x80, 0] [1, 2, 3, 4]"
    by (simp add: framed_def wire12_eq)
  have a: "length [0, 1, 0, 2, 0, 0x4e :: u8] = 6 \<and> list_all (entry_ok 12 10) [?s]
     \<and> [0, 1, 0, 2, 0, 0x4e, 0, 7, 0xc0, 0x79, 0x12, 0x45, 0, 1, 0x45, 0, 0x80, 0]
        = [0, 1, 0, 2, 0, 0x4e] @ entries_bytes [?s]"
    by (simp add: entry_ok_def entry_bytes_def wire12_eq)
  have "eit_event_of ?s = ((7, [0xc0, 0x79, 0x12, 0x45, 0], [1, 0x45, 0], 4, False), [])"
    by (simp add: eit_event_of_def be16_def Let_def)
  with conjunct2 [OF eit_codec_correct [OF fr, of BigEndian], rule_format, OF a] show ?thesis by auto
qed

section \<open>SIT, RST, TOT and INT\<close>

lemma for_each_stuck: "for_each (\<lambda>_. Some (Some p)) (Some q) = None"
proof -
  have "for_each (\<lambda>_. Some (Some p)) (Some q) \<noteq> Some ps" for q ps
  proof (induction ps arbitrary: q)
    case Nil
    then show ?case by (subst for_each.simps) (simp split: Option.bind_splits)
  next
    case (Cons r ps)
    from Cons [of p] show ?case by (subst for_each.simps) (auto split: Option.bind_splits)
  qed
  then show ?thesis by (cases "for_each (\<lambda>_. Some (Some p)) (Some q)") auto
qed

text \<open>the macro \<open>dvb_sit_section_descriptors_for_each\<close> steps with the first descriptor
  again: on every SIT section with a non-empty transmission information loop it never ends.\<close>

theorem sit_descriptors_never_end:
  assumes "length12 e m 8 = Some l" "l \<noteq> 0"
  shows "dvb_sit_section_descriptors_for_each e m = None"
  using assms for_each_stuck [of 10 10]
  by (simp add: dvb_sit_section_descriptors_for_each_def dvb_sit_section_descriptors_first_def walk_def)

theorem sit_descriptors_never_end_witness:
  "dvb_sit_section_descriptors_for_each BigEndian [0x7f, 0xf0, 0x0d, 0, 0, 0xc1, 0, 0, 0xf0, 2, 9, 0, 1, 2, 3, 4] = None"
  by (rule sit_descriptors_never_end [of _ _ 2]) (simp_all add: length12_def rd_def be16_def)

text \<open>the SIT codec swaps three units per service although the header has two: on a little-endian host
  it exchanges the tag and the length of the first descriptor of a service before it checks
  the descriptors, so a section that a big-endian host accepts is rejected.\<close>

theorem sit_codec_byte_order:
  "dvb_sit_section_codec BigEndian (decoded_ext BigEndian
     [0x7f, 0xf0, 0x11, 0, 0, 0xc1, 0, 0, 0xf0, 0, 0, 9, 0x80, 2, 0x48, 0, 1, 2, 3, 4])
   = Some ([0x7f, 0xf0, 0x11, 0, 0, 0xc1, 0, 0, 0xf0, 0, 0, 9, 0x80, 2, 0x48, 0, 1, 2, 3, 4], True)
   \<and> (\<exists>m. dvb_sit_section_codec LittleEndian (decoded_ext LittleEndian
     [0x7f, 0xf0, 0x11, 0, 0, 0xc1, 0, 0, 0xf0, 0, 0, 9, 0x80, 2, 0x48, 0, 1, 2, 3, 4]) = Some (m, False))"
proof
  let ?w = "[0x7f, 0xf0, 0x11, 0, 0, 0xc1, 0, 0, 0xf0, 0, 0, 9, 0x80, 2, 0x48, 0, 1, 2, 3, 4] :: mem"
  have len: "section_ext_length e (decoded_ext e ?w) = Some 16" for e
    using decoded_ext_fields(3) [of ?w e] by (simp add: wire_length_eq)
  show "dvb_sit_section_codec BigEndian (decoded_ext BigEndian ?w) = Some (?w, True)"
    using len [of BigEndian]
    by (simp add: dvb_sit_section_codec_def Let_def entry_block_def length12_def rd_def be16_def
        verify_descriptors_def verify_loop.simps entry_loop.simps decoded_ext_def swap2_def)
  show "\<exists>m. dvb_sit_section_codec LittleEndian (decoded_ext LittleEndian ?w) = Some (m, False)"
    using len [of LittleEndian]
    by (simp add: dvb_sit_section_codec_def Let_def entry_block_def length12_def rd_def be16_def
        verify_descriptors_def verify_loop.simps entry_loop.simps decoded_ext_def swap2_def bswap_16_def)
qed

text \<open>\<open>struct dvb_rst_status\<close> is not packed, so the RST codec steps ten bytes where the standard's entries
  have nine: a section with one to nine whole entries is rejected.\<close>

theorem rst_nine_byte_entries_rejected:
  assumes "length w = 3 + 9 * n" "1 \<le> n" "n \<le> 9" "wire_length w = 9 * n"
  shows "\<exists>m. dvb_rst_section_codec e (swap2 e w 1) = Some (m, False)"
proof -
  let ?m = "swap2 e w 1"
  define xs where "xs = take 3 ?m"
  define body where "body = drop 3 ?m"
  have m: "?m = xs @ body @ []" "length xs = 3" "length body = 9 * n"
    using assms(1,2) by (simp_all add: xs_def body_def)
  have "\<not> 10 dvd 9 * n" using assms(2,3) by presburger
  then have "\<not> 10 dvd length body" using m(3) by simp
  moreover have "section_length e ?m = Some (3 + length body)"
    using header_fields(3) [of w e] assms m(3) by simp
  ultimately show ?thesis
    using fixed_loop_total [of 10 "[0, 2, 4, 6]" xs 3 e body "[]"] m(1,2)
    by (auto simp: dvb_rst_section_codec_def sizeof_dvb_rst_status_def)
qed

theorem rst_nine_byte_entries_rejected_witness:
  "\<exists>m. dvb_rst_section_codec LittleEndian (swap2 LittleEndian [0x71, 0xf0, 9, 0, 1, 0, 2, 0, 3, 0, 4, 0xfc] 1) = Some (m, False)"
  using rst_nine_byte_entries_rejected [of "[0x71, 0xf0, 9, 0, 1, 0, 2, 0, 3, 0, 4, 0xfc]" 1 LittleEndian]
  by (simp add: wire_length_eq)

text \<open>the TOT codec subtracts the CRC size from the section length before it checks it: on the
  empty section, which \<open>section_codec\<close> accepts, the length wraps and the codec accesses
  memory outside the section.\<close>

theorem tot_empty_section_faults:
  "section_codec e [t, 0x70, 0x00] 3 = Some (swap2 e [t, 0x70, 0x00] 1, True)
   \<and> dvb_tot_section_codec e (swap2 e [t, 0x70, 0x00] 1) = None"
proof
  have w: "wire_length [t, 0x70, 0x00] = 0" by (simp add: wire_length_eq)
  show "section_codec e [t, 0x70, 0x00] 3 = Some (swap2 e [t, 0x70, 0x00] 1, True)"
    using w by (simp add: section_codec_eq)
  have "section_length e (swap2 e [t, 0x70, 0x00] 1) = Some 3"
    using header_fields(3) [of "[t, 0x70, 0x00]" e] w by simp
  then show "dvb_tot_section_codec e (swap2 e [t, 0x70, 0x00] 1) = None"
    by (cases e) (simp_all add: dvb_tot_section_codec_def size_sub_def entry_block_def Let_def
        length12_def rd_def swap2_def)
qed

text \<open>the INT codec tests the descriptor loop lengths before it skips the two bytes of the length
  itself, with an unsigned subtraction that can wrap: a target loop length of 2 in the last two bytes
  passes, the check goes on into the CRC bytes and from there past the end of the section.\<close>

theorem int_overread:
  "section_ext_length BigEndian [0x4c, 0xf0, 0x11, 0, 0, 0xc1, 0, 0, 0, 0, 0, 0, 0xf0, 0, 0xf0, 2, 1, 0, 0, 5] = Some 16
   \<and> dvb_int_section_codec BigEndian [0x4c, 0xf0, 0x11, 0, 0, 0xc1, 0, 0, 0, 0, 0, 0, 0xf0, 0, 0xf0, 2, 1, 0, 0, 5] = None"
proof
  let ?m = "[0x4c, 0xf0, 0x11, 0, 0, 0xc1, 0, 0, 0, 0, 0, 0, 0xf0, 0, 0xf0, 2, 1, 0, 0, 5] :: mem"
  have l12: "length12 BigEndian ?m 12 = Some 0" "length12 BigEndian ?m 14 = Some 2" "length12 BigEndian ?m 18 = Some 5"
    by (simp_all add: length12_def rd_def be16_def)
  have v: "verify_descriptors ?m 14 0 = Some 0" "verify_descriptors ?m 16 2 = Some 0" "verify_descriptors ?m 20 5 = None"
    by (simp_all add: verify_descriptors_def verify_loop.simps rd_def)
  show len: "section_ext_length BigEndian ?m = Some 16"
    by (simp add: section_ext_length_def section_length_field_def be16_def rd_def)
  have "int_loop BigEndian ?m 14 16 = None"
    using l12 v by (subst int_loop.simps) (simp add: Let_def size_sub_def)
  with len l12 v show "dvb_int_section_codec BigEndian ?m = None"
    by (simp add: dvb_int_section_codec_def Let_def)
qed

end
