(* ===== verification/Dvb_Types.thy ===== *)
theory Dvb_Types
  imports Prelude
begin

text \<open>
  \<open>lib/libucsi/dvb/types.c\<close>: packed BCD, BCD durations and the character set of a DVB string.
  The two conversions between DVB dates and Unix time are in the theory \<open>Dvb_Date\<close>.
\<close>

section \<open>The code\<close>

text \<open>The loops run over the shift amounts that \<open>i\<close> takes.\<close>

definition integer_to_bcd :: "u32 \<Rightarrow> u32" where
  "integer_to_bcd intval =
     fst (foldl (\<lambda>(val, intval) i. (val OR push_bit i (intval mod 10), intval div 10))
       (0, intval) [0, 4, 8, 12, 16, 20, 24, 28])"

definition bcd_to_integer :: "u32 \<Rightarrow> u32" where
  "bcd_to_integer bcdval =
     foldl (\<lambda>val i. let val = val + (drop_bit i bcdval AND 0x0f) in if i \<noteq> 0 then val * 10 else val)
       0 [28, 24, 20, 16, 12, 8, 4, 0]"

text \<open>\<open>int\<close> arithmetic that does not overflow on the values a duration can have.\<close>

definition dvbduration_to_seconds :: "u8 \<times> u8 \<times> u8 \<Rightarrow> int" where
  "dvbduration_to_seconds d = (case d of (d0, d1, d2) \<Rightarrow>
     int (unat (bcd_to_integer (ucast d0))) * 60 * 60
     + int (unat (bcd_to_integer (ucast d1))) * 60
     + int (unat (bcd_to_integer (ucast d2))))"

text \<open>For non-negative arguments \<open>div\<close> is the division of C.\<close>

definition seconds_to_dvbduration :: "nat \<Rightarrow> u8 \<times> u8 \<times> u8" where
  "seconds_to_dvbduration seconds =
     (let hours = seconds div (60 * 60);
          seconds = seconds - hours * 60 * 60;
          mins = seconds div 60;
          seconds = seconds - mins * 60
      in (ucast (integer_to_bcd (of_nat hours)), ucast (integer_to_bcd (of_nat mins)),
          ucast (integer_to_bcd (of_nat seconds))))"

definition dvbhhmm_to_seconds :: "u8 \<times> u8 \<Rightarrow> int" where
  "dvbhhmm_to_seconds d = (case d of (d0, d1) \<Rightarrow>
     int (unat (bcd_to_integer (ucast d0))) * 60 * 60 + int (unat (bcd_to_integer (ucast d1))) * 60)"

definition seconds_to_dvbhhmm :: "nat \<Rightarrow> u8 \<times> u8" where
  "seconds_to_dvbhhmm seconds =
     (let hours = seconds div (60 * 60);
          seconds = seconds - hours * 60 * 60;
          mins = seconds div 60
      in (ucast (integer_to_bcd (of_nat hours)), ucast (integer_to_bcd (of_nat mins))))"

text \<open>\<open>dvb_charset\<close> with \<open>char\<close> signed, as on the usual hosts: a byte of 128 or more is
  negative and falls through to the default.\<close>

definition charset_ext :: "u16 \<Rightarrow> string \<times> nat" where
  "charset_ext ext =
     (if ext = 0x01 then (''ISO8859-1'', 3) else if ext = 0x02 then (''ISO8859-2'', 3)
      else if ext = 0x03 then (''ISO8859-3'', 3) else if ext = 0x04 then (''ISO8859-4'', 3)
      else if ext = 0x05 then (''ISO8859-5'', 3) else if ext = 0x06 then (''ISO8859-6'', 3)
      else if ext = 0x07 then (''ISO8859-7'', 3) else if ext = 0x08 then (''ISO8859-8'', 3)
      else if ext = 0x09 then (''ISO8859-9'', 3) else if ext = 0x0a then (''ISO8859-10'', 3)
      else if ext = 0x0b then (''ISO8859-11'', 3) else if ext = 0x0d then (''ISO8859-13'', 3)
      else if ext = 0x0e then (''ISO8859-14'', 3) else if ext = 0x0f then (''ISO8859-15'', 3)
      else (''ISO6937'', 0))"

definition charset_single :: "u8 \<Rightarrow> string \<times> nat" where
  "charset_single c =
     (if c = 0x01 then (''ISO8859-5'', 1) else if c = 0x02 then (''ISO8859-6'', 1)
      else if c = 0x03 then (''ISO8859-7'', 1) else if c = 0x04 then (''ISO8859-8'', 1)
      else if c = 0x05 then (''ISO8859-9'', 1) else if c = 0x06 then (''ISO8859-10'', 1)
      else if c = 0x07 then (''ISO8859-11'', 1) else if c = 0x09 then (''ISO8859-13'', 1)
      else if c = 0x0a then (''ISO8859-14'', 1) else if c = 0x0b then (''ISO8859-15'', 1)
      else if c = 0x11 then (''UTF16'', 1) else if c = 0x12 then (''EUC-KR'', 1)
      else if c = 0x13 then (''GB2312'', 1) else if c = 0x14 then (''GBK'', 1)
      else if c = 0x15 then (''UTF8'', 1) else (''ISO6937'', 0))"

definition dvb_charset :: "mem \<Rightarrow> nat \<Rightarrow> (string \<times> nat) option" where
  "dvb_charset dvb_text dvb_text_length =
     (if dvb_text_length = 0 then Some (''ISO6937'', 0)
      else do {
        c \<leftarrow> rd dvb_text 0;
        if sint c \<ge> 32 then Some (''ISO6937'', 0)
        else if c = 0x10 then
          if dvb_text_length < 3 then Some (''ISO6937'', 0)
          else do {
            b1 \<leftarrow> rd dvb_text 1; b2 \<leftarrow> rd dvb_text 2;
            Some (charset_ext (push_bit 8 (scast b1) OR scast b2)) }
        else Some (charset_single c) })"

section \<open>Nibbles\<close>

lemma bit_u32_imp: "bit (w :: u32) n \<Longrightarrow> n < 32"
  using bit_imp_le_length [of w n] by simp

text \<open>The eight decimal digits of a number, least significant first.\<close>

definition digit :: "nat \<Rightarrow> nat \<Rightarrow> nat" where
  "digit n k = n div 10 ^ k mod 10"

lemma digits_sum:
  "n < 10 ^ 8 \<Longrightarrow> n = digit n 0 + 10 * (digit n 1 + 10 * (digit n 2 + 10 * (digit n 3 + 10 *
    (digit n 4 + 10 * (digit n 5 + 10 * (digit n 6 + 10 * digit n 7))))))"
proof -
  assume n: "n < 10 ^ 8"
  have d: "n div 10 ^ k = digit n k + 10 * (n div 10 ^ Suc k)" for k
  proof -
    have "n div 10 ^ Suc k = n div 10 ^ k div 10" by (simp only: power_Suc2 div_mult2_eq)
    then show ?thesis unfolding digit_def by simp
  qed
  from d [of 0] d [of 1] d [of 2] d [of 3] d [of 4] d [of 5] d [of 6] d [of 7] n show ?thesis
    by simp
qed

lemma nibble_bits: "unat (d :: u32) < 16 \<Longrightarrow> bit d n \<Longrightarrow> n < 4"
proof (rule ccontr)
  assume "unat d < 16" "bit d n" "\<not> n < 4"
  then have "take_bit 4 (unat d) = unat d" by (simp add: take_bit_nat_eq_self)
  then have "take_bit 4 d = d" by (simp add: word_unat_eq_iff unsigned_take_bit_eq)
  with \<open>bit d n\<close> \<open>\<not> n < 4\<close> show False by (metis bit_take_bit_iff)
qed

definition nibbles :: "(nat \<Rightarrow> u32) \<Rightarrow> u32" where
  "nibbles d = push_bit (4 * 0) (d 0) OR push_bit (4 * 1) (d 1) OR push_bit (4 * 2) (d 2)
     OR push_bit (4 * 3) (d 3) OR push_bit (4 * 4) (d 4) OR push_bit (4 * 5) (d 5)
     OR push_bit (4 * 6) (d 6) OR push_bit (4 * 7) (d 7)"

lemma bit_nibbles:
  assumes "\<And>k. unat (d k) < 16" "n < 32"
  shows "bit (nibbles d) n \<longleftrightarrow> bit (d (n div 4)) (n mod 4)"
proof -
  have nb: "bit (push_bit (4 * k) (d k)) n \<longleftrightarrow> n div 4 = k \<and> bit (d k) (n mod 4)" for k
  proof (cases "n div 4 = k")
    case True
    then have "n = 4 * k + n mod 4" by (metis mult_div_mod_eq)
    then have "4 * k \<le> n" "n - 4 * k = n mod 4" by linarith+
    with True assms(2) show ?thesis by (simp add: bit_push_bit_iff)
  next
    case False
    then have "\<not> (4 * k \<le> n \<and> n - 4 * k < 4)" by auto
    with False nibble_bits [OF assms(1) [of k], of "n - 4 * k"] show ?thesis
      by (auto simp: bit_push_bit_iff)
  qed
  have "n div 4 < 8" using assms(2) by (simp add: less_mult_imp_div_less)
  then have "n div 4 = 0 \<or> n div 4 = 1 \<or> n div 4 = 2 \<or> n div 4 = 3 \<or> n div 4 = 4
    \<or> n div 4 = 5 \<or> n div 4 = 6 \<or> n div 4 = 7" by linarith
  then show ?thesis unfolding nibbles_def bit_or_iff nb by (elim disjE) simp_all
qed

lemma nibble_of:
  assumes "\<And>k. unat (d k) < 16" "k < 8"
  shows "drop_bit (4 * k) (nibbles d) AND 0x0f = d k"
proof (rule bit_word_eqI)
  fix n :: nat
  have m: "(0x0f :: u32) = mask 4" by (simp add: mask_eq_exp_minus_1)
  have "n < 4 \<Longrightarrow> (4 * k + n) div 4 = k \<and> (4 * k + n) mod 4 = n" by simp
  with nibble_bits [OF assms(1) [of k], of n] bit_nibbles [OF assms(1), of "4 * k + n"] assms(2)
  show "bit (drop_bit (4 * k) (nibbles d) AND 0x0f) n = bit (d k) n"
    unfolding m by (cases "n < 4") (auto simp: bit_simps)
qed

section \<open>Packed BCD\<close>

lemma unat_div10: "unat (w div 10 :: u32) = unat w div 10" "unat (w mod 10 :: u32) = unat w mod 10"
  by (simp_all add: unat_div unat_mod)

text \<open>\<open>q n k\<close> is the value of \<open>intval\<close> before iteration \<open>k\<close>.\<close>

definition digit_word :: "u32 \<Rightarrow> nat \<Rightarrow> u32" where
  "digit_word n k = ((\<lambda>x. x div 10) ^^ k) n mod 10"

lemma unat_digit_word: "unat (digit_word n k) = digit (unat n) k"
proof -
  have "unat (((\<lambda>x. x div 10) ^^ k) n) = unat n div 10 ^ k"
    by (induction k) (simp_all add: unat_div10 power_Suc2 div_mult2_eq del: power_Suc)
  then show ?thesis by (simp add: digit_word_def digit_def unat_div10)
qed

lemma integer_to_bcd_nibbles: "integer_to_bcd n = nibbles (digit_word n)"
  by (simp add: integer_to_bcd_def nibbles_def digit_word_def eval_nat_numeral or.assoc)

lemma bcd_step:
  assumes "unat (v :: u32) = x" "unat (w :: u32) = y" "(x + y) * 10 < 4294967296"
  shows "unat ((v + w) * 10) = (x + y) * 10"
proof -
  have "unat (v + w) = x + y" using assms by (simp add: unat_word_ariths)
  moreover have "unat ((v + w) * 10) = unat (v + w) * unat (10 :: u32) mod 2 ^ 32"
    by (simp only: unat_word_ariths) simp
  ultimately show ?thesis using assms(3) by simp
qed

lemma bcd_to_integer_unroll:
  "bcd_to_integer b =
     (let d = (\<lambda>k. drop_bit (4 * k) b AND 0x0f) in
      ((((((((0 + d 7) * 10 + d 6) * 10 + d 5) * 10 + d 4) * 10 + d 3) * 10 + d 2) * 10 + d 1) * 10 + d 0))"
  by (simp add: bcd_to_integer_def Let_def)

lemma bcd_to_integer_nibbles:
  assumes "\<And>k. unat (d k) < 16"
  shows "unat (bcd_to_integer (nibbles d)) = unat (d 0) + 10 * (unat (d 1) + 10 * (unat (d 2) + 10 * (unat (d 3)
    + 10 * (unat (d 4) + 10 * (unat (d 5) + 10 * (unat (d 6) + 10 * unat (d 7)))))))"
proof -
  note b = assms [of 0] assms [of 1] assms [of 2] assms [of 3] assms [of 4] assms [of 5] assms [of 6] assms [of 7]
  have n: "drop_bit (4 * k) (nibbles d) AND 0x0f = d k" if "k < 8" for k
    by (rule nibble_of [OF assms that])
  have s7: "unat ((0 + d 7) * 10) = (0 + unat (d 7)) * 10"
    by (rule bcd_step) (use b in auto)
  have s6: "unat (((0 + d 7) * 10 + d 6) * 10) = ((0 + unat (d 7)) * 10 + unat (d 6)) * 10"
    by (rule bcd_step [OF s7 refl]) (use b in auto)
  note s5 = bcd_step [OF s6 refl, of "d 5"]
  note s4 = bcd_step [OF s5 refl, of "d 4"]
  note s3 = bcd_step [OF s4 refl, of "d 3"]
  note s2 = bcd_step [OF s3 refl, of "d 2"]
  note s1 = bcd_step [OF s2 refl, of "d 1"]
  have fin: "unat (v + w) = x + y" if "unat (v :: u32) = x" "unat (w :: u32) = y" "x + y < 4294967296" for v w x y
    using that by (simp add: unat_word_ariths)
  have "unat (bcd_to_integer (nibbles d)) = ((((((((0 + unat (d 7)) * 10 + unat (d 6)) * 10 + unat (d 5)) * 10
     + unat (d 4)) * 10 + unat (d 3)) * 10 + unat (d 2)) * 10 + unat (d 1)) * 10 + unat (d 0))"
    unfolding bcd_to_integer_unroll Let_def
    by (simp only: n rel_simps) (rule fin [OF s1 refl]; use b in auto)
  then show ?thesis by simp
qed

section \<open>Properties\<close>

lemma unat_digit_word_lt: "unat (digit_word n k) < 16"
  by (simp add: unat_digit_word digit_def)

lemma bcd_roundtrip: "unat n < 10 ^ 8 \<Longrightarrow> bcd_to_integer (integer_to_bcd n) = n"
proof -
  assume n: "unat n < 10 ^ 8"
  have "unat (bcd_to_integer (integer_to_bcd n)) = unat n"
    unfolding integer_to_bcd_nibbles bcd_to_integer_nibbles [of "digit_word n", OF unat_digit_word_lt] unat_digit_word
    using digits_sum [OF n] by simp
  then show ?thesis by (simp add: word_unat_eq_iff)
qed

text \<open>A number below 100 fits the byte of a duration field.\<close>

lemma byte_roundtrip:
  assumes "n < 100"
  shows "unat (bcd_to_integer (ucast (ucast (integer_to_bcd (of_nat n)) :: u8))) = n"
proof -
  have u: "unat (of_nat n :: u32) = n" using assms by (simp add: unsigned_of_nat take_bit_nat_eq_self)
  have z: "digit_word (of_nat n) k = 0" if "2 \<le> k" for k
  proof -
    have "(100 :: nat) \<le> 10 ^ k" using power_increasing [OF that, of "10 :: nat"] by simp
    then have "digit n k = 0" using assms by (simp add: digit_def)
    then show ?thesis using u by (simp add: word_unat_eq_iff unat_digit_word)
  qed
  have "bit (integer_to_bcd (of_nat n)) i \<Longrightarrow> i < 8" for i
  proof (rule ccontr)
    assume b: "bit (integer_to_bcd (of_nat n)) i" "\<not> i < 8"
    then have "i < 32" by (blast intro: bit_u32_imp)
    with b show False
      using bit_nibbles [of "digit_word (of_nat n)" i, OF unat_digit_word_lt] z [of "i div 4"]
      by (simp add: integer_to_bcd_nibbles)
  qed
  then have "ucast (ucast (integer_to_bcd (of_nat n)) :: u8) = integer_to_bcd (of_nat n)"
    by (intro bit_word_eqI) (auto simp: bit_simps)
  with bcd_roundtrip [of "of_nat n"] u assms show ?thesis by simp
qed

text \<open>\<open>bcd_to_integer\<close> inverts \<open>integer_to_bcd\<close> on every number of at most eight
  decimal digits, and the packed value has the decimal digits of the number as its nibbles.\<close>

theorem bcd_conversion:
  assumes "unat n < 10 ^ 8" "k < 8"
  shows "bcd_to_integer (integer_to_bcd n) = n
    \<and> unat (drop_bit (4 * k) (integer_to_bcd n) AND 0x0f) = unat n div 10 ^ k mod 10"
  using bcd_roundtrip [OF assms(1)] nibble_of [of "digit_word n" k, OF unat_digit_word_lt assms(2)]
  by (simp add: integer_to_bcd_nibbles unat_digit_word digit_def)

theorem bcd_conversion_witness:
  "bcd_to_integer (integer_to_bcd 12345678) = 12345678
   \<and> unat (drop_bit (4 * 2) (integer_to_bcd 12345678) AND 0x0f) = 6"
  using bcd_conversion [of 12345678 2] by simp

text \<open>durations survive the conversion to BCD and back: every number of seconds below 100 hours through
  the three-byte form, and every whole minute below 100 hours through the two-byte form.\<close>

theorem duration_roundtrip:
  assumes "s < 360000"
  shows "dvbduration_to_seconds (seconds_to_dvbduration s) = int s
    \<and> dvbhhmm_to_seconds (seconds_to_dvbhhmm s) = int (s div 60 * 60)"
proof -
  define h where "h = s div 3600"
  define r where "r = s mod 3600"
  define mi where "mi = r div 60"
  define se where "se = r mod 60"
  have s: "s = h * 3600 + r" and rs: "r = mi * 60 + se" and sr: "s - h * 60 * 60 = r" "r - mi * 60 = se"
    by (simp_all add: h_def r_def mi_def se_def minus_mult_div_eq_mod minus_div_mult_eq_mod)
  have lt: "h < 100" "mi < 60" "se < 60" "r < 3600"
    using assms by (auto simp: h_def mi_def se_def r_def less_mult_imp_div_less)
  have "s = (h * 60 + mi) * 60 + se" using s rs by simp
  then have d: "s div 60 = h * 60 + mi" using lt(3) by simp
  have a: "seconds_to_dvbduration s = (ucast (integer_to_bcd (of_nat h)), ucast (integer_to_bcd (of_nat mi)),
      ucast (integer_to_bcd (of_nat se)))"
    "seconds_to_dvbhhmm s = (ucast (integer_to_bcd (of_nat h)), ucast (integer_to_bcd (of_nat mi)))"
    unfolding seconds_to_dvbduration_def seconds_to_dvbhhmm_def Let_def
    by (simp_all only: numeral_times_numeral semiring_norm h_def [symmetric] sr mi_def [symmetric])
  note b = byte_roundtrip [OF lt(1)] byte_roundtrip [of mi] byte_roundtrip [of se]
  have "dvbduration_to_seconds (seconds_to_dvbduration s) = int h * 60 * 60 + int mi * 60 + int se"
    "dvbhhmm_to_seconds (seconds_to_dvbhhmm s) = int h * 60 * 60 + int mi * 60"
    unfolding a dvbduration_to_seconds_def dvbhhmm_to_seconds_def prod.case using b lt by simp_all
  with s rs d show ?thesis by simp
qed

theorem duration_roundtrip_witness:
  "dvbduration_to_seconds (seconds_to_dvbduration 5025) = 5025"
  using duration_roundtrip [of 5025] by simp

end
