(* ===== verification/Dvb_Date.thy ===== *)
theory Dvb_Date
  imports Dvb_Types
begin

text \<open>
  \<open>lib/libucsi/dvb/types.c\<close>: the conversions between Unix time and the five bytes of a DVB date, a
  modified Julian day and a BCD time.

  The code computes with doubles: products with 365.25 are exact; no product with 30.6001 and no quotient that
  is formed for a sixteen bit day is closer than 1/10000 to a whole number, so truncating the
  exact rational, as \<open>trunc\<close> does, gives the same result.  \<open>gmtime_r\<close> and \<open>mktime\<close> are the functions of the C
  library on the proleptic Gregorian calendar; \<open>mktime\<close> reads its argument as local time, so the local time is a
  parameter.
\<close>

section \<open>The C library\<close>

record tm =
  tm_sec :: int
  tm_min :: int
  tm_hour :: int
  tm_mday :: int
  tm_mon :: int
  tm_year :: int

text \<open>The calendar in eras of 400 years that start on March 1st.\<close>

definition civil :: "int \<Rightarrow> int \<times> int \<times> int" where
  "civil days =
     (let z = days + 719468; era = z div 146097; doe = z mod 146097;
          yoe = (doe - doe div 1460 + doe div 36524 - doe div 146096) div 365;
          doy = doe - (365 * yoe + yoe div 4 - yoe div 100)
      in (yoe + era * 400, (5 * doy + 2) div 153, doy))"

definition gmtime_r :: "int \<Rightarrow> tm" where
  "gmtime_r t =
     (let (y, mp, doy) = civil (t div 86400); s = t mod 86400;
          mon = (if mp < 10 then mp + 2 else mp - 10)
      in \<lparr>tm_sec = s mod 60, tm_min = s div 60 mod 60, tm_hour = s div 3600,
          tm_mday = doy - (153 * mp + 2) div 5 + 1, tm_mon = mon,
          tm_year = y - 1900 + (if mon < 2 then 1 else 0)\<rparr>)"

text \<open>The inverse, for universal time.\<close>

definition days_of :: "int \<Rightarrow> int \<Rightarrow> int \<Rightarrow> int" where
  "days_of year mon mday =
     (let y = (if mon < 2 then year + 1899 else year + 1900); mp = (if mon < 2 then mon + 10 else mon - 2);
          era = y div 400; yoe = y mod 400; doy = (153 * mp + 2) div 5 + mday - 1
      in era * 146097 + yoe * 365 + yoe div 4 - yoe div 100 + doy - 719468)"

definition timegm :: "tm \<Rightarrow> int" where
  "timegm x = days_of (tm_year x) (tm_mon x) (tm_mday x) * 86400 + tm_hour x * 3600 + tm_min x * 60 + tm_sec x"

section \<open>The code\<close>

definition trunc :: "int \<Rightarrow> int \<Rightarrow> int" where
  "trunc p q = (if 0 \<le> p then p div q else - ((- p) div q))"

definition unixtime_to_dvbdate :: "int \<Rightarrow> u8 list" where
  "unixtime_to_dvbdate unixtime =
     (if unixtime = -1 then replicate 5 0xff
      else let x = gmtime_r unixtime; mon = tm_mon x + 1;
               l = (if mon = 1 \<or> mon = 2 then 1 else 0);
               mjd = 14956 + tm_mday x + trunc ((tm_year x - l) * 1461) 4 + trunc ((mon + 1 + l * 12) * 306001) 10000
           in [of_int (mjd div 256), of_int mjd, ucast (integer_to_bcd (of_int (tm_hour x))),
               ucast (integer_to_bcd (of_int (tm_min x))), ucast (integer_to_bcd (of_int (tm_sec x)))])"

definition dvbdate_to_unixtime :: "(tm \<Rightarrow> int) \<Rightarrow> u8 \<Rightarrow> u8 \<Rightarrow> u8 \<Rightarrow> u8 \<Rightarrow> u8 \<Rightarrow> int" where
  "dvbdate_to_unixtime mktime d0 d1 d2 d3 d4 =
     (if d0 = 0xff \<and> d1 = 0xff \<and> d2 = 0xff \<and> d3 = 0xff \<and> d4 = 0xff then -1
      else let mjd = int (unat (be16 d0 d1));
               year = trunc ((mjd * 10 - 150782) * 2) 7305;
               yd = trunc (year * 1461) 4;
               mon = trunc ((mjd * 10 - 149561 - yd * 10) * 1000) 306001;
               mday = mjd - 14956 - yd - trunc (mon * 306001) 10000;
               k = (if mon = 14 \<or> mon = 15 then 1 else 0)
           in mktime \<lparr>tm_sec = int (unat (bcd_to_integer (ucast d4))), tm_min = int (unat (bcd_to_integer (ucast d3))),
                tm_hour = int (unat (bcd_to_integer (ucast d2))), tm_mday = mday, tm_mon = mon - 2 - k * 12,
                tm_year = year + k\<rparr>)"

section \<open>The calendar between 1900 and 2038\<close>

text \<open>From March 1st 1900 on, the year and the day of the year: four years have 1461 days, a leap day is the last.\<close>

definition year_of :: "int \<Rightarrow> int" where
  "year_of k = 4 * (k div 1461) + min (k mod 1461 div 365) 3"

definition doy_of :: "int \<Rightarrow> int" where
  "doy_of k = k mod 1461 - 365 * min (k mod 1461 div 365) 3"

lemma doy_cases: "(0 \<le> doy_of k \<and> doy_of k \<le> 364) \<or> (doy_of k = 365 \<and> year_of k mod 4 = 3)"
proof -
  define r where "r = k mod 1461"
  have r: "0 \<le> r" "r \<le> 1460" using zless_imp_add1_zle [of r 1461] by (simp_all add: r_def)
  show ?thesis
  proof (cases "r div 365 \<le> 3")
    case True
    then have "doy_of k = r - r div 365 * 365" by (simp add: doy_of_def r_def [symmetric])
    then have "doy_of k = r mod 365" by (simp only: minus_div_mult_eq_mod)
    moreover have "0 \<le> r mod 365" "r mod 365 \<le> 364" using zless_imp_add1_zle [of "r mod 365" 365] by simp_all
    ultimately show ?thesis by simp
  next
    case False
    then have "r = 1460" using r zdiv_mono1 [of r 1459 365] by (cases "r \<le> 1459") auto
    then show ?thesis by (simp add: doy_of_def year_of_def r_def [symmetric])
  qed
qed

lemma doy_bound: "0 \<le> doy_of k \<and> doy_of k \<le> 365"
  using doy_cases [of k] by auto

lemma year_doy: "k = year_of k * 365 + year_of k div 4 + doy_of k"
proof -
  have "year_of k div 4 = k div 1461"
    unfolding year_of_def min_def by auto
  then show ?thesis
    using div_mult_mod_eq [of k 1461] by (simp add: year_of_def doy_of_def)
qed

text \<open>The year of an era, as the C library finds it, for a day \<open>k\<close> of a century that ends in a leap year.\<close>

lemma year_search:
  assumes "0 \<le> k" "k \<le> 36524" "0 \<le> c" "c \<le> 72"
  shows "(k - (k + c) div 1460) div 365 = year_of k"
proof -
  define q r where "q = k div 1461" and "r = k mod 1461"
  define b where "b = (q + r + c) div 1460"
  have k: "k = 1461 * q + r" by (simp add: q_def r_def)
  have r: "0 \<le> r" "r \<le> 1460" using zless_imp_add1_zle [of r 1461] by (simp_all add: r_def)
  have q: "0 \<le> q" "q \<le> 24" using assms(1,2) by (simp_all add: q_def)
  have "k + c = q + r + c + 1460 * q" by (simp add: k)
  then have kc: "(k + c) div 1460 = b + q" unfolding b_def by (simp only: div_mult_self2)
  have "k - (b + q) = r - b + 365 * (4 * q)" by (simp add: k)
  then have "(k - (k + c) div 1460) div 365 = (r - b + 365 * (4 * q)) div 365" by (simp only: kc)
  also have "\<dots> = (r - b) div 365 + 4 * q" by (simp only: div_mult_self2)
  also have "(r - b) div 365 = min (r div 365) 3"
  proof (cases "q + r + c < 1460")
    case True
    then have "b = 0" using q r assms(3) by (simp add: b_def div_pos_pos_trivial)
    moreover have "r div 365 \<le> 3" using True q r assms(3) zdiv_mono1 [of r 1459 365] by simp
    ultimately show ?thesis by simp
  next
    case False
    then have r': "1364 \<le> r" using q assms(4) by simp
    have b: "b = 1" unfolding b_def using False q r assms(3,4)
      by (intro int_div_pos_eq [where r = "q + r + c - 1460"]) simp_all
    have "(r - 1) div 365 = 3" using r r' by (intro int_div_pos_eq [where r = "r - 1096"]) simp_all
    moreover have "3 \<le> r div 365" using r' zdiv_mono1 [of 1364 r 365] by simp
    ultimately show ?thesis by (simp add: b)
  qed
  finally show ?thesis by (simp only: year_of_def q_def r_def add.commute)
qed

lemma civil_era:
  assumes "days = doe + 146097 * era - 719468" "0 \<le> doe" "doe < 146097"
    and "(doe - doe div 1460 + doe div 36524 - doe div 146096) div 365 = yoe"
    and "doe = 365 * yoe + yoe div 4 - yoe div 100 + d"
  shows "civil days = (yoe + era * 400, (5 * d + 2) div 153, d)"
proof -
  have z: "days + 719468 = 146097 * era + doe" using assms(1) by simp
  have "doe - (365 * yoe + yoe div 4 - yoe div 100) = d" by (subst assms(5)) (rule add_diff_cancel_left')
  then show ?thesis
    by (simp only: civil_def Let_def int_div_pos_eq [OF z assms(2,3)] int_mod_pos_eq [OF z assms(2,3)] assms(4))
qed

lemma civil_range:
  assumes "0 \<le> k" "k < 50457"
  shows "civil (k - 25508) = (1900 + year_of k, (5 * doy_of k + 2) div 153, doy_of k)"
proof (cases "k \<le> 36524")
  case True
  define y d where "y = year_of k" and "d = doy_of k"
  have kyd: "k = y * 365 + y div 4 + d" unfolding y_def d_def by (rule year_doy)
  have "k div 1461 \<le> 24" "0 \<le> k div 1461" using True assms by auto
  then have y: "0 \<le> y" "y \<le> 99" using min.cobounded2 [of "k mod 1461 div 365" 3] by (simp_all add: y_def year_of_def)
  have "(k + 109572) div 1460 = (k + 72 + 1460 * 75) div 1460" by simp
  then have a: "(k + 109572) div 1460 = (k + 72) div 1460 + 75" by (simp only: div_mult_self2)
  have b: "(k + 109572) div 36524 = 3 + (k + 109572) div 146096"
    using True assms by (cases "k = 36524") auto
  have s: "k + 109572 - (c + 75) + (3 + e) - e = k - c + 365 * 300" for c e by simp
  have "(k + 109572 - (k + 109572) div 1460 + (k + 109572) div 36524 - (k + 109572) div 146096) div 365
      = (k - (k + 72) div 1460 + 365 * 300) div 365"
    by (simp only: a b s)
  also have "\<dots> = y + 300"
    using True assms by (simp only: div_mult_self2 year_search [of k 72] y_def)
  finally have yoe: "(k + 109572 - (k + 109572) div 1460 + (k + 109572) div 36524 - (k + 109572) div 146096) div 365 = y + 300" .
  have c: "(y + 300) div 4 = y div 4 + 75" "(y + 300) div 100 = 3" using y by auto
  have "k + 109572 = 365 * (y + 300) + (y + 300) div 4 - (y + 300) div 100 + d" unfolding c by (subst kyd) simp
  from civil_era [OF _ _ _ yoe this, of "k - 25508" 4] True assms show ?thesis
    by (simp add: y_def d_def)
next
  case False
  define j where "j = k - 36525"
  define y d where "y = year_of j" and "d = doy_of j"
  have kj: "k = j + 1461 * 25" by (simp add: j_def)
  have j: "0 \<le> j" "j < 13932" using False assms by (simp_all add: j_def)
  have jyd: "j = y * 365 + y div 4 + d" unfolding y_def d_def by (rule year_doy)
  have "j div 1461 \<le> 9" "0 \<le> j div 1461" using j by auto
  then have y: "0 \<le> y" "y < 100" using min.cobounded2 [of "j mod 1461 div 365" 3] by (simp_all add: y_def year_of_def)
  have k: "year_of k = y + 100" "doy_of k = d"
    unfolding y_def d_def year_of_def doy_of_def kj div_mult_self2 [OF zero_neq_numeral [symmetric]] mod_mult_self2 by simp_all
  have "j div 36524 = 0" "j div 146096 = 0" using j by auto
  then have yoe: "(j - j div 1460 + j div 36524 - j div 146096) div 365 = y"
    using year_search [of j 0] j by (simp add: y_def)
  have "j = 365 * y + y div 4 - y div 100 + d" using jyd y by simp
  from civil_era [OF _ _ _ yoe this, of "k - 25508" 5] j show ?thesis
    unfolding k by (simp add: kj)
qed

text \<open>The months of the code's formula are those of the calendar.\<close>

lemma month_of_doy:
  fixes d mp :: int
  assumes "0 \<le> d" "d \<le> 365" and mp: "mp = (5 * d + 2) div 153"
  shows "0 \<le> mp \<and> mp \<le> 11 \<and> (mp + 4) * 306001 div 10000 = (153 * mp + 2) div 5 + 122
    \<and> (1229 + 10 * d) * 1000 div 306001 = mp + 4"
proof -
  have m: "0 \<le> mp" "mp \<le> 11" "153 * mp \<le> 5 * d + 2" "5 * d + 2 < 153 * mp + 153" using assms by auto
  from m(1,2) have "mp = 0 \<or> mp = 1 \<or> mp = 2 \<or> mp = 3 \<or> mp = 4 \<or> mp = 5 \<or> mp = 6 \<or> mp = 7 \<or> mp = 8
    \<or> mp = 9 \<or> mp = 10 \<or> mp = 11" by presburger
  then show ?thesis using m assms(1,2) by (elim disjE) auto
qed

section \<open>The conversions\<close>

text \<open>The day number of the formula, and what the code finds from it.\<close>

lemma gmtime_fields:
  assumes "civil (t div 86400) = (y, mp, doy)" "0 \<le> mp" "mp \<le> 11"
    and "x = gmtime_r t" "l = (if tm_mon x + 1 = 1 \<or> tm_mon x + 1 = 2 then 1 else 0)"
  shows "tm_year x - l = y - 1900" "tm_mon x + 1 + 1 + l * 12 = mp + 4" "tm_mday x = doy - (153 * mp + 2) div 5 + 1"
    "0 \<le> tm_mon x" "tm_mon x \<le> 11" "l = (if 10 \<le> mp then 1 else 0)"
proof -
  have m: "tm_mon x = (if mp < 10 then mp + 2 else mp - 10)" "tm_mday x = doy - (153 * mp + 2) div 5 + 1"
    "tm_year x = y - 1900 + (if tm_mon x < 2 then 1 else 0)"
    unfolding assms(4) gmtime_r_def Let_def assms(1) by simp_all
  show "tm_mday x = doy - (153 * mp + 2) div 5 + 1" by (rule m(2))
  have "(tm_mon x = mp + 2 \<and> mp < 10 \<and> l = 0 \<and> tm_year x = y - 1900)
    \<or> (tm_mon x = mp - 10 \<and> 10 \<le> mp \<and> l = 1 \<and> tm_year x = y - 1900 + 1)"
    using m(1,3) assms(2,3,5) by (cases "mp < 10") auto
  then show "tm_year x - l = y - 1900" "tm_mon x + 1 + 1 + l * 12 = mp + 4" "0 \<le> tm_mon x" "tm_mon x \<le> 11"
    "l = (if 10 \<le> mp then 1 else 0)"
    using assms(2,3) by auto
qed

lemma trunc_year: "0 \<le> y \<Longrightarrow> trunc (y * 1461) 4 = y * 365 + y div 4"
proof -
  assume "0 \<le> y"
  moreover have "y * 1461 = y + 4 * (y * 365)" by simp
  then have "y * 1461 div 4 = y div 4 + y * 365" by (simp only: div_mult_self2)
  ultimately show ?thesis by (simp add: trunc_def)
qed

lemma trunc_nonneg: "0 \<le> p \<Longrightarrow> trunc p q = p div q"
  by (simp add: trunc_def)

lemma year_nonneg: "0 \<le> k \<Longrightarrow> 0 \<le> year_of k"
  by (simp add: year_of_def pos_imp_zdiv_nonneg_iff)

lemma gmtime_mjd:
  assumes "0 \<le> k" "k < 50457" "t div 86400 = k - 25508"
    and x: "x = gmtime_r t" "l = (if tm_mon x + 1 = 1 \<or> tm_mon x + 1 = 2 then 1 else 0)"
  shows "14956 + tm_mday x + trunc ((tm_year x - l) * 1461) 4 + trunc ((tm_mon x + 1 + 1 + l * 12) * 306001) 10000
    = k + 15079"
proof -
  define mp where "mp = (5 * doy_of k + 2) div 153"
  from doy_bound [of k] month_of_doy [OF _ _ mp_def]
  have mp: "0 \<le> mp" "mp \<le> 11" "(mp + 4) * 306001 div 10000 = (153 * mp + 2) div 5 + 122" by auto
  have c: "civil (t div 86400) = (1900 + year_of k, mp, doy_of k)"
    unfolding assms(3) mp_def using assms(1,2) by (rule civil_range)
  note f = gmtime_fields [OF c mp(1,2) x]
  have tr: "trunc ((mp + 4) * 306001) 10000 = (153 * mp + 2) div 5 + 122"
    using mp(1) by (subst trunc_nonneg) (simp_all only: mp(3), simp)
  have add: "14956 + (d - m + 1) + (a + b) + (m + 122) = a + b + d + 15079" for a b d m :: int by simp
  have "14956 + tm_mday x + trunc ((tm_year x - l) * 1461) 4 + trunc ((tm_mon x + 1 + 1 + l * 12) * 306001) 10000
      = year_of k * 365 + year_of k div 4 + doy_of k + 15079"
    using year_nonneg [OF assms(1)] by (simp only: f(1-3) add_diff_cancel_left' tr trunc_year add)
  then show ?thesis by (simp only: year_doy [symmetric])
qed

lemma time_sum: "(a :: int) * 3600 + b * 60 + c = (a * 60 + b) * 60 + c"
  by (simp add: algebra_simps)

lemma gmtime_time:
  "0 \<le> tm_hour (gmtime_r t)" "tm_hour (gmtime_r t) < 24" "0 \<le> tm_min (gmtime_r t)" "tm_min (gmtime_r t) < 60"
  "0 \<le> tm_sec (gmtime_r t)" "tm_sec (gmtime_r t) < 60"
  "tm_hour (gmtime_r t) * 3600 + tm_min (gmtime_r t) * 60 + tm_sec (gmtime_r t) = t mod 86400"
proof -
  have s: "0 \<le> t mod 86400" "t mod 86400 < 86400" by simp_all
  have f: "tm_hour (gmtime_r t) = t mod 86400 div 3600" "tm_min (gmtime_r t) = t mod 86400 div 60 mod 60"
    "tm_sec (gmtime_r t) = t mod 86400 mod 60"
    unfolding gmtime_r_def Let_def case_prod_beta by simp_all
  show "0 \<le> tm_hour (gmtime_r t)" unfolding f by (simp add: pos_imp_zdiv_nonneg_iff)
  show "tm_hour (gmtime_r t) < 24"
    unfolding f using zdiv_mono1 [of "t mod 86400" 86399 3600] s by simp
  show "0 \<le> tm_min (gmtime_r t)" "tm_min (gmtime_r t) < 60" "0 \<le> tm_sec (gmtime_r t)" "tm_sec (gmtime_r t) < 60"
    unfolding f by simp_all
  define u where "u = t mod 86400"
  have "u div 3600 = u div 60 div 60" using zdiv_zmult2_eq [of 60 u 60] by simp
  then show "tm_hour (gmtime_r t) * 3600 + tm_min (gmtime_r t) * 60 + tm_sec (gmtime_r t) = t mod 86400"
    unfolding f u_def [symmetric] using time_sum [of "u div 60 div 60" "u div 60 mod 60" "u mod 60"] by simp
qed

lemma bcd_byte: "0 \<le> n \<Longrightarrow> n < 100 \<Longrightarrow> int (unat (bcd_to_integer (ucast (ucast (integer_to_bcd (of_int n)) :: u8)))) = n"
  using byte_roundtrip [of "nat n"] by (simp add: of_nat_nat)

text \<open>C29: \<open>unixtime_to_dvbdate\<close> computes the modified Julian day, days since November 17th 1858, and
  the BCD digits of the time of the day, for every time from March 1st 1900 to the last day a DVB date can name.\<close>

theorem unixtime_to_dvbdate_correct:
  assumes "15079 \<le> t div 86400 + 40587" "t div 86400 + 40587 < 65536" "t \<noteq> -1"
  shows "unixtime_to_dvbdate t =
    [of_int ((t div 86400 + 40587) div 256), of_int (t div 86400 + 40587),
     ucast (integer_to_bcd (of_int (t mod 86400 div 3600))), ucast (integer_to_bcd (of_int (t mod 86400 div 60 mod 60))),
     ucast (integer_to_bcd (of_int (t mod 60)))]"
proof -
  define k where "k = t div 86400 + 25508"
  have k: "0 \<le> k" "k < 50457" "t div 86400 = k - 25508" using assms by (simp_all add: k_def)
  note mjd = gmtime_mjd [OF k refl refl]
  have f: "tm_hour (gmtime_r t) = t mod 86400 div 3600" "tm_min (gmtime_r t) = t mod 86400 div 60 mod 60"
    "tm_sec (gmtime_r t) = t mod 60"
    unfolding gmtime_r_def Let_def case_prod_beta by (simp_all add: mod_mod_cancel)
  have k': "k + 15079 = t div 86400 + 40587" by (simp add: k_def)
  show ?thesis
    unfolding unixtime_to_dvbdate_def Let_def mjd f k' if_not_P [OF assms(3)] by (rule refl)
qed

text \<open>The code finds year, month and day again.\<close>

lemma year_from_mjd:
  assumes "0 \<le> k" and m: "m = k + 15079"
  shows "trunc ((m * 10 - 150782) * 2) 7305 = year_of k"
proof -
  define y d r where "y = year_of k" and "d = doy_of k" and "r = y mod 4"
  have k: "k = y * 365 + y div 4 + d" unfolding y_def d_def by (rule year_doy)
  have r: "0 \<le> r" "r \<le> 3" "d \<le> 364 \<or> r = 3" "0 \<le> d" "d \<le> 365"
    using doy_cases [of k] by (auto simp: r_def y_def d_def)
  have "4 * (y div 4) + r = y" by (simp add: r_def)
  then have e: "(m * 10 - 150782) * 2 = 7305 * y + (20 * d + 16 - 5 * r)" unfolding m k by simp
  have b: "0 \<le> 20 * d + 16 - 5 * r" "20 * d + 16 - 5 * r < 7305" using r by auto
  have "0 \<le> 7305 * y + (20 * d + 16 - 5 * r)" using year_nonneg [OF assms(1)] b by (simp add: y_def)
  then show ?thesis
    unfolding e y_def [symmetric] by (simp only: trunc_nonneg int_div_pos_eq [OF refl b])
qed

lemma date_from_mjd:
  assumes "0 \<le> k" "k < 50457" "t div 86400 = k - 25508" and m: "m = k + 15079"
    and year: "year = trunc ((m * 10 - 150782) * 2) 7305"
    and yd: "yd = trunc (year * 1461) 4"
    and mon: "mon = trunc ((m * 10 - 149561 - yd * 10) * 1000) 306001"
    and kk: "l = (if mon = 14 \<or> mon = 15 then 1 else 0)"
  shows "year + l = tm_year (gmtime_r t)" "mon - 2 - l * 12 = tm_mon (gmtime_r t)"
    "m - 14956 - yd - trunc (mon * 306001) 10000 = tm_mday (gmtime_r t)"
proof -
  define mp where "mp = (5 * doy_of k + 2) div 153"
  from doy_bound [of k] month_of_doy [OF _ _ mp_def]
  have d: "0 \<le> doy_of k" and mp: "0 \<le> mp" "mp \<le> 11" "(mp + 4) * 306001 div 10000 = (153 * mp + 2) div 5 + 122"
      "(1229 + 10 * doy_of k) * 1000 div 306001 = mp + 4" by auto
  have c: "civil (t div 86400) = (1900 + year_of k, mp, doy_of k)"
    unfolding assms(3) mp_def using assms(1,2) by (rule civil_range)
  note f = gmtime_fields [OF c mp(1,2) refl refl]
  have y: "year = year_of k" unfolding year using assms(1) m by (rule year_from_mjd)
  have yd': "yd = year_of k * 365 + year_of k div 4" unfolding yd y using assms(1) by (intro trunc_year year_nonneg)
  then have "m * 10 - 149561 - yd * 10 = 1229 + 10 * doy_of k" using year_doy [of k] m by linarith
  then have "mon = trunc ((1229 + 10 * doy_of k) * 1000) 306001" unfolding mon by (simp only:)
  also have "\<dots> = mp + 4" using d by (subst trunc_nonneg) (simp_all only: mp(4), simp)
  finally have mon': "mon = mp + 4" .
  then have l: "l = (if 10 \<le> mp then 1 else 0)" using kk mp(1,2) by auto
  have tr: "trunc (mon * 306001) 10000 = (153 * mp + 2) div 5 + 122"
    unfolding mon' using mp(1) by (subst trunc_nonneg) (simp_all only: mp(3), simp)
  have "m - yd = doy_of k + 15079" using yd' year_doy [of k] m by linarith
  then show "m - 14956 - yd - trunc (mon * 306001) 10000 = tm_mday (gmtime_r t)"
    unfolding tr f(3) by simp
  show "mon - 2 - l * 12 = tm_mon (gmtime_r t)" "year + l = tm_year (gmtime_r t)"
    using f(1,2) unfolding f(6) l mon' y by auto
qed

text \<open>Universal time and back.\<close>

lemma era_days:
  assumes "0 \<le> k" "k < 50457"
  shows "(1900 + year_of k) div 400 * 146097 + (1900 + year_of k) mod 400 * 365 + (1900 + year_of k) mod 400 div 4
      - (1900 + year_of k) mod 400 div 100 + doy_of k - 719468 = k - 25508"
proof -
  define y where "y = year_of k"
  have "k div 1461 \<le> 34" using assms by auto
  then have y: "0 \<le> y" "y < 140" using min.cobounded2 [of "k mod 1461 div 365" 3] year_nonneg [OF assms(1)]
    by (simp_all add: y_def year_of_def)
  have k: "k = y * 365 + y div 4 + doy_of k" unfolding y_def by (rule year_doy)
  show ?thesis
  proof (cases "y < 100")
    case True
    have e: "1900 + y = 400 * 4 + (y + 300)" and b: "0 \<le> y + 300" "y + 300 < 400" using y True by auto
    have q: "(y + 300) div 4 = y div 4 + 75" "(y + 300) div 100 = 3" using y True by auto
    show ?thesis
      unfolding y_def [symmetric] int_div_pos_eq [OF e b] int_mod_pos_eq [OF e b] q by (subst (2) k) simp
  next
    case False
    have e: "1900 + y = 400 * 5 + (y - 100)" and b: "0 \<le> y - 100" "y - 100 < 400" using y False by auto
    have q: "(y - 100) div 4 = y div 4 - 25" "(y - 100) div 100 = 0" using y False by auto
    show ?thesis
      unfolding y_def [symmetric] int_div_pos_eq [OF e b] int_mod_pos_eq [OF e b] q by (subst (2) k) simp
  qed
qed

lemma timegm_gmtime:
  assumes "0 \<le> k" "k < 50457" "t div 86400 = k - 25508"
  shows "timegm (gmtime_r t) = t"
proof -
  define mp where "mp = (5 * doy_of k + 2) div 153"
  from doy_bound [of k] month_of_doy [OF _ _ mp_def] have mp: "0 \<le> mp" "mp \<le> 11" by auto
  have c: "civil (t div 86400) = (1900 + year_of k, mp, doy_of k)"
    unfolding assms(3) mp_def using assms(1,2) by (rule civil_range)
  note f = gmtime_fields [OF c mp(1,2) refl refl]
  define x where "x = gmtime_r t"
  have a: "(if tm_mon x < 2 then tm_year x + 1899 else tm_year x + 1900) = 1900 + year_of k"
    "(if tm_mon x < 2 then tm_mon x + 10 else tm_mon x - 2) = mp"
    using f(1,2) mp unfolding f(6) x_def by (auto split: if_splits)
  have "days_of (tm_year x) (tm_mon x) (tm_mday x) = k - 25508"
    using era_days [OF assms(1,2)] unfolding days_of_def Let_def a f(3) [folded x_def] by simp
  then show ?thesis
    using gmtime_time(7) [of t] div_mult_mod_eq [of t 86400] unfolding timegm_def x_def [symmetric] assms(3) by simp
qed

text \<open>C28: \<open>dvbdate_to_unixtime\<close> inverts \<open>unixtime_to_dvbdate\<close> up to the time zone.  It hands its fields, which are those
  \<open>gmtime_r\<close> computed, to \<open>mktime\<close>, so on a host whose local time is \<open>off\<close> seconds ahead of universal time
  the result is \<open>off\<close> seconds too small; only on a host in universal time is it the time that was converted,
  although the header promises the conversion of a UTC date.\<close>

theorem dvbdate_roundtrip:
  assumes "15079 \<le> t div 86400 + 40587" "t div 86400 + 40587 < 65536" "t \<noteq> -1"
    and "\<And>x. mktime x = timegm x - off"
    and "unixtime_to_dvbdate t = [d0, d1, d2, d3, d4]"
  shows "dvbdate_to_unixtime mktime d0 d1 d2 d3 d4 = t - off"
proof -
  define k where "k = t div 86400 + 25508"
  have k: "0 \<le> k" "k < 50457" "t div 86400 = k - 25508" using assms(1,2) by (simp_all add: k_def)
  have k': "k + 15079 = t div 86400 + 40587" by (simp add: k_def)
  let ?x = "gmtime_r t"
  have d: "d0 = of_int ((k + 15079) div 256)" "d1 = of_int (k + 15079)" "d2 = ucast (integer_to_bcd (of_int (tm_hour ?x)))"
    "d3 = ucast (integer_to_bcd (of_int (tm_min ?x)))" "d4 = ucast (integer_to_bcd (of_int (tm_sec ?x)))"
    using assms(5) unfolding unixtime_to_dvbdate_def Let_def if_not_P [OF assms(3)] gmtime_mjd [OF k refl refl] by auto
  have m: "int (unat (be16 d0 d1)) = k + 15079" unfolding d using k by (intro be16_of_int) simp_all
  have b: "int (unat (bcd_to_integer (ucast d2))) = tm_hour ?x" "int (unat (bcd_to_integer (ucast d3))) = tm_min ?x"
    "int (unat (bcd_to_integer (ucast d4))) = tm_sec ?x"
    unfolding d using gmtime_time(1-6) [of t] by - (rule bcd_byte; linarith)+
  have nf: "d2 \<noteq> 0xff"
  proof
    assume "d2 = 0xff"
    moreover have "int (unat (bcd_to_integer (ucast (0xff :: u8)))) = 165" by code_simp
    ultimately show False using b(1) gmtime_time(2) [of t] by simp
  qed
  note f = date_from_mjd [OF k refl refl refl refl refl]
  have "dvbdate_to_unixtime mktime d0 d1 d2 d3 d4
      = mktime \<lparr>tm_sec = tm_sec ?x, tm_min = tm_min ?x, tm_hour = tm_hour ?x, tm_mday = tm_mday ?x, tm_mon = tm_mon ?x, tm_year = tm_year ?x\<rparr>"
    unfolding dvbdate_to_unixtime_def Let_def b m f using nf by simp
  then show ?thesis using assms(4) timegm_gmtime [OF k] by (simp add: timegm_def)
qed

theorem dvbdate_roundtrip_witness:
  "dvbdate_to_unixtime (\<lambda>x. timegm x - 3600) 0xC0 0x79 0x12 0x45 0x00 = 750516300 - 3600
   \<and> dvbdate_to_unixtime timegm 0xC0 0x79 0x12 0x45 0x00 = 750516300"
proof -
  have u: "unixtime_to_dvbdate 750516300 = [0xC0, 0x79, 0x12, 0x45, 0x00]" by code_simp
  show ?thesis
    using dvbdate_roundtrip [OF _ _ _ _ u, of "\<lambda>x. timegm x - 3600" 3600]
      dvbdate_roundtrip [OF _ _ _ _ u, of timegm 0] by simp
qed

theorem unixtime_to_dvbdate_correct_witness:
  "unixtime_to_dvbdate 750516300 = [0xC0, 0x79, 0x12, 0x45, 0x00]"
proof -
  have "[of_int ((750516300 div 86400 + 40587) div 256), of_int (750516300 div 86400 + 40587),
     ucast (integer_to_bcd (of_int (750516300 mod 86400 div 3600))), ucast (integer_to_bcd (of_int (750516300 mod 86400 div 60 mod 60))),
     ucast (integer_to_bcd (of_int (750516300 mod 60)))] = [0xC0, 0x79, 0x12, 0x45, 0x00 :: u8]" by code_simp
  then show ?thesis using unixtime_to_dvbdate_correct [of 750516300] by simp
qed

end
