(* ===== verification/En50221_Os.thy ===== *)
theory En50221_Os
  imports Prelude
begin

text \<open>
  What the EN 50221 layers ask of the operating system and the C library, and the two functions of
  \<open>lib/libdvbapi/dvbca.c\<close> and the one of \<open>lib/libdvbmisc/dvbmisc.h\<close> they use.

  The answers are arbitrary: \<open>os\<close> holds, for the n-th call of the run, whether an allocation
  or a write succeeds, what the clock says, what a read returns and what \<open>poll\<close> reports.  A theorem
  about every \<open>os\<close> is a theorem about every behaviour of the environment.  \<open>os_sent\<close> records
  what was written to the devices, \<open>os_junk\<close> is the content of memory that has been allocated
  and not yet written.  \<open>realloc0_frees\<close> is the C library's choice for \<open>realloc(p, 0)\<close>: free the
  block and return \<open>NULL\<close> (as the GNU library does), or return a block of no bytes.
\<close>

record timeval =
  tv_sec :: nat
  tv_usec :: nat

record os =
  os_now :: nat
  os_malloc :: "nat \<Rightarrow> bool"
  os_write :: "nat \<Rightarrow> bool"
  os_clock :: "nat \<Rightarrow> timeval"
  os_read :: "nat \<Rightarrow> u8 list option"
  os_poll :: "nat \<Rightarrow> (nat \<Rightarrow> u16) option"
  os_junk :: "nat \<Rightarrow> u8"
  realloc0_frees :: bool
  os_sent :: "(int \<times> u8 list) list"

definition os_tick :: "os \<Rightarrow> os" where
  "os_tick w = w\<lparr>os_now := Suc (os_now w)\<rparr>"

definition malloc :: "os \<Rightarrow> os \<times> bool" where
  "malloc w = (os_tick w, os_malloc w (os_now w))"

definition gettimeofday :: "os \<Rightarrow> os \<times> timeval" where
  "gettimeofday w = (os_tick w, os_clock w (os_now w))"

definition fresh :: "os \<Rightarrow> nat \<Rightarrow> mem" where
  "fresh w n = map (os_junk w) [0..<n]"

text \<open>A pointer to a heap block: not yet written, \<open>NULL\<close>, a block, or a block that was freed.\<close>

datatype 'a cptr = Uninit | Null | Live 'a | Freed

text \<open>\<open>realloc\<close> to \<open>n\<close> bytes: the new pointer, and what becomes of the old one.\<close>

definition realloc :: "os \<Rightarrow> mem cptr \<Rightarrow> nat \<Rightarrow> (os \<times> mem cptr \<times> mem cptr) option" where
  "realloc w p n =
     (case p of
        Uninit \<Rightarrow> None
      | Freed \<Rightarrow> None
      | Null \<Rightarrow> (let (w', ok) = malloc w in
          Some (w', if ok then Live (fresh w n) else Null, Null))
      | Live m \<Rightarrow>
          if n = 0 \<and> realloc0_frees w then Some (os_tick w, Null, Freed)
          else (let (w', ok) = malloc w in
            Some (w', if ok then Live (take n (m @ drop (length m) (fresh w n))) else Null,
                  if ok then Freed else p)))"

text \<open>\<open>dvbca_link_write\<close>: the length is a \<open>uint16_t\<close>.  The result is true when it is not negative.\<close>

definition dvbca_link_write :: "int \<Rightarrow> u8 \<Rightarrow> nat \<Rightarrow> u8 list \<Rightarrow> os \<Rightarrow> os \<times> bool" where
  "dvbca_link_write fd slot connection_id data w =
     (let data_length = length data mod 65536;
          (w, ok) = malloc w
      in if \<not> ok then (w, False)
         else if os_write w (os_now w)
         then ((os_tick w)\<lparr>os_sent := os_sent w @ [(fd, slot # of_nat connection_id # take data_length data)]\<rparr>, True)
         else (os_tick w, False))"

text \<open>\<open>dvbca_link_read\<close>: slot, connection and data, \<open>None\<close> for the result -1.\<close>

definition dvbca_link_read :: "nat \<Rightarrow> os \<Rightarrow> os \<times> (u8 \<times> u8 \<times> u8 list) option" where
  "dvbca_link_read data_length w =
     (let (w, ok) = malloc w
      in if \<not> ok then (w, None)
         else (os_tick w,
           case map_option (take (data_length + 2)) (os_read w (os_now w)) of
             Some (s # c # data) \<Rightarrow> Some (s, c, data)
           | _ \<Rightarrow> None))"

definition timeval_ms :: "timeval \<Rightarrow> u64" where
  "timeval_ms t = of_nat (tv_sec t * 1000 + tv_usec t div 1000)"

definition time_after :: "timeval \<Rightarrow> nat \<Rightarrow> os \<Rightarrow> os \<times> bool" where
  "time_after oldtime delta_ms w =
     (let oldtime_ms = timeval_ms oldtime + of_nat delta_ms;
          (w, nowtime) = gettimeofday w
      in (w, oldtime_ms < timeval_ms nowtime))"

text \<open>An environment in which every allocation succeeds.\<close>

definition plenty :: "os \<Rightarrow> bool" where
  "plenty w \<longleftrightarrow> (\<forall>n. os_malloc w n)"

lemma plenty_tick [simp]: "plenty (os_tick w) = plenty w" "realloc0_frees (os_tick w) = realloc0_frees w"
  by (simp_all add: plenty_def os_tick_def)

lemma plenty_malloc: "plenty w \<Longrightarrow> os_malloc w n"
  by (simp add: plenty_def)

text \<open>An environment to try the theorems on.\<close>

definition calm_os :: os where
  "calm_os = \<lparr>os_now = 0, os_malloc = \<lambda>_. True, os_write = \<lambda>_. True, os_clock = \<lambda>n. \<lparr>tv_sec = 0, tv_usec = 0\<rparr>, os_read = \<lambda>_. None,
     os_poll = \<lambda>_. None, os_junk = \<lambda>_. 0, realloc0_frees = True, os_sent = []\<rparr>"

lemma plenty_calm [simp]: "plenty calm_os"
  by (simp add: plenty_def calm_os_def)

end
