(* ===== verification/Asn1.thy ===== *)
theory Asn1
  imports Prelude
begin

text \<open>
  \<open>lib/libdvben50221/asn_1.c\<close>: the length fields of EN 50221.

  The locale \<open>length_codec\<close> is what the transport, session and application layers rely on: an
  encoded length decodes to itself whatever follows it, and a decoded length never claims more
  bytes than it was given.  It is interpreted for the two functions of the file.
\<close>

section \<open>The code\<close>

text \<open>
  Both functions return \<open>None\<close> only for an access outside the array.  The result is the
  returned \<open>int\<close>; \<open>asn_1_decode\<close> also returns the value stored through \<open>length\<close>, if
  it stores one, \<open>asn_1_encode\<close> the array.
\<close>

definition asn_1_decode :: "mem \<Rightarrow> nat \<Rightarrow> nat \<Rightarrow> (int \<times> u16 option) option" where
  "asn_1_decode m p asn_1_array_len =
     (if asn_1_array_len < 1 then Some (-1, None)
      else do {
        length_field \<leftarrow> rd m p;
        if length_field < 0x80 then Some (1, Some (ucast (length_field AND 0x7f)))
        else if length_field = 0x81 then
          if asn_1_array_len < 2 then Some (-1, None)
          else do { a \<leftarrow> rd m (p + 1); Some (2, Some (ucast a)) }
        else if length_field = 0x82 then
          if asn_1_array_len < 3 then Some (-1, None)
          else do { a \<leftarrow> rd m (p + 1); b \<leftarrow> rd m (p + 2); Some (3, Some (be16 a b)) }
        else Some (-1, None) })"

definition asn_1_encode :: "u16 \<Rightarrow> mem \<Rightarrow> nat \<Rightarrow> nat \<Rightarrow> (int \<times> mem) option" where
  "asn_1_encode len m p asn_1_array_len =
     (if len < 0x80 then
        if asn_1_array_len < 1 then Some (-1, m)
        else do { m \<leftarrow> wr m p (ucast (len AND 0x7f)); Some (1, m) }
      else if len < 0x100 then
        if asn_1_array_len < 2 then Some (-1, m)
        else do { m \<leftarrow> wr m p 0x81; m \<leftarrow> wr m (p + 1) (ucast len); Some (2, m) }
      else
        if asn_1_array_len < 3 then Some (-1, m)
        else do { m \<leftarrow> wr m p 0x82; m \<leftarrow> wr m (p + 1) (ucast (drop_bit 8 len));
                  m \<leftarrow> wr m (p + 2) (ucast len); Some (3, m) })"

section \<open>The interface\<close>

text \<open>The bytes of an encoded length.\<close>

definition asn_1_bytes :: "u16 \<Rightarrow> u8 list" where
  "asn_1_bytes len =
     (if len < 0x80 then [ucast len]
      else if len < 0x100 then [0x81, ucast len]
      else [0x82, ucast (drop_bit 8 len), ucast len])"

locale length_codec =
  fixes enc :: "u16 \<Rightarrow> u8 list"
    and dec :: "mem \<Rightarrow> nat \<Rightarrow> nat \<Rightarrow> (int \<times> u16 option) option"
  assumes enc_len: "1 \<le> length (enc l)" "length (enc l) \<le> 3"
    and dec_enc: "length xs = p \<Longrightarrow> length (enc l) \<le> n \<Longrightarrow>
      dec (xs @ enc l @ ys) p n = Some (int (length (enc l)), Some l)"
    and dec_safe: "p + n \<le> length m \<Longrightarrow>
      \<exists>r v. dec m p n = Some (r, v) \<and> (r = -1 \<and> v = None \<or> 1 \<le> r \<and> r \<le> 3 \<and> r \<le> int n \<and> v \<noteq> None)"
begin

text \<open>A tag, a length and that many bytes of value: the value is found again.\<close>

lemma frame_roundtrip:
  assumes "length xs = p" "unat l = length v" "m = xs @ enc l @ v @ ys" "length (enc l) \<le> n"
  shows "\<exists>r. dec m p n = Some (int r, Some l) \<and> take (unat l) (drop (p + r) m) = v"
  using dec_enc [OF assms(1,4), of "v @ ys"] assms by (intro exI [of _ "length (enc l)"]) simp

lemma dec_bound:
  "p + n \<le> length m \<Longrightarrow> dec m p n = Some (r, v) \<Longrightarrow> 0 \<le> r \<Longrightarrow> p + nat r \<le> length m \<and> v \<noteq> None"
  using dec_safe [of p n m] by auto

end

section \<open>The interface holds\<close>

lemma unat_lt_u16: "(l :: u16) < 0x80 \<longleftrightarrow> unat l < 128" "l < 0x100 \<longleftrightarrow> unat l < 256"
  by (simp_all add: word_less_nat_alt)

lemma length_asn_1_bytes: "1 \<le> length (asn_1_bytes l)" "length (asn_1_bytes l) \<le> 3"
  by (simp_all add: asn_1_bytes_def)

lemma ucast_u8_small: "unat (l :: u16) < 256 \<Longrightarrow> ucast (ucast l :: u8) = l"
  by (simp add: word_unat_eq_iff unsigned_ucast_eq take_bit_eq_mod unat_mod)

lemma decode_bytes:
  assumes "length xs = p" "length (asn_1_bytes l) \<le> n"
  shows "asn_1_decode (xs @ asn_1_bytes l @ ys) p n = Some (int (length (asn_1_bytes l)), Some l)"
proof -
  consider "unat l < 128" | "128 \<le> unat l" "unat l < 256" | "256 \<le> unat l" by linarith
  then show ?thesis
  proof cases
    case 1
    then have u: "unat (ucast l :: u8) = unat l" by (simp add: unsigned_ucast_eq take_bit_eq_mod)
    have b: "asn_1_bytes l = [ucast l]" using 1 by (simp add: asn_1_bytes_def unat_lt_u16)
    have "(ucast l :: u8) AND 0x7f = ucast l"
    proof -
      have m: "(0x7f :: u8) = mask 7" by (simp add: mask_eq_exp_minus_1)
      have "take_bit 7 (ucast l :: u8) = ucast l"
        using u 1 by (simp add: word_unat_eq_iff unsigned_take_bit_eq take_bit_nat_eq_self)
      then show ?thesis unfolding m by (simp add: take_bit_eq_mask)
    qed
    then show ?thesis
      using 1 assms u by (simp add: b asn_1_decode_def rd_def nth_append word_less_nat_alt ucast_u8_small)
  next
    case 2
    then have b: "asn_1_bytes l = [0x81, ucast l]" by (simp add: asn_1_bytes_def unat_lt_u16)
    show ?thesis
      using 2 assms by (simp add: b asn_1_decode_def rd_def nth_append ucast_u8_small)
  next
    case 3
    then have b: "asn_1_bytes l = [0x82, ucast (drop_bit 8 l), ucast l]" by (simp add: asn_1_bytes_def unat_lt_u16)
    show ?thesis
      using 3 assms by (simp add: b asn_1_decode_def rd_def nth_append be16_split)
  qed
qed

lemma decode_safe:
  "p + n \<le> length m \<Longrightarrow>
   \<exists>r v. asn_1_decode m p n = Some (r, v) \<and> (r = -1 \<and> v = None \<or> 1 \<le> r \<and> r \<le> 3 \<and> r \<le> int n \<and> v \<noteq> None)"
  by (auto simp: asn_1_decode_def)

interpretation asn1: length_codec asn_1_bytes asn_1_decode
  by unfold_locales (use length_asn_1_bytes decode_bytes decode_safe in simp_all)

text \<open>\<open>asn_1_encode\<close> writes these bytes.\<close>

lemma encode_blit:
  assumes "length (asn_1_bytes l) \<le> n" "p + n \<le> length m"
  shows "asn_1_encode l m p n
    = Some (int (length (asn_1_bytes l)), take p m @ asn_1_bytes l @ drop (p + length (asn_1_bytes l)) m)"
proof -
  have m1: "m[p := a] = take p m @ a # drop (Suc p) m" if "p < length m" for a p and m :: mem
    using that by (rule upd_conv_take_nth_drop)
  have small: "unat l < 128 \<Longrightarrow> (ucast (l AND 0x7f) :: u8) = ucast l"
  proof -
    assume l: "unat l < 128"
    have m: "(0x7f :: u16) = mask 7" by (simp add: mask_eq_exp_minus_1)
    have "take_bit 7 l = l"
      using l by (simp add: word_unat_eq_iff unsigned_take_bit_eq take_bit_nat_eq_self)
    then show ?thesis unfolding m by (simp add: take_bit_eq_mask)
  qed
  consider "unat l < 128" | "128 \<le> unat l" "unat l < 256" | "256 \<le> unat l" by linarith
  then show ?thesis
  proof cases
    case 1
    with assms small m1 [of p m] show ?thesis
      by (simp add: asn_1_encode_def asn_1_bytes_def unat_lt_u16)
  next
    case 2
    with assms m1 [of p m] m1 [of "Suc p" "m[p := 0x81]"] show ?thesis
      by (simp add: asn_1_encode_def asn_1_bytes_def unat_lt_u16 take_Suc_conv_app_nth)
  next
    case 3
    with assms m1 [of p m] m1 [of "Suc p" "m[p := 0x82]"]
      m1 [of "Suc (Suc p)" "m[p := 0x82, Suc p := ucast (drop_bit 8 l)]"] show ?thesis
      by (simp add: asn_1_encode_def asn_1_bytes_def unat_lt_u16 take_Suc_conv_app_nth numeral_3_eq_3)
  qed
qed

section \<open>Properties\<close>

text \<open>C23: encoding a length into a buffer with room for it and decoding it again gives the
  same length and the same number of bytes, for all 16-bit lengths; the encoder writes only those bytes.\<close>

theorem asn_1_roundtrip:
  assumes "p + 3 \<le> length m"
  shows "\<exists>r m'. asn_1_encode l m p 3 = Some (r, m') \<and> 1 \<le> r \<and> r \<le> 3
    \<and> asn_1_decode m' p (nat r) = Some (r, Some l)
    \<and> length m' = length m \<and> take p m' = take p m \<and> drop (p + nat r) m' = drop (p + nat r) m"
proof -
  let ?b = "asn_1_bytes l" and ?m = "take p m @ asn_1_bytes l @ drop (p + length (asn_1_bytes l)) m"
  have "asn_1_encode l m p 3 = Some (int (length ?b), ?m)"
    using length_asn_1_bytes [of l] assms by (intro encode_blit) auto
  moreover have "asn_1_decode ?m p (length ?b) = Some (int (length ?b), Some l)"
    using assms by (intro asn1.dec_enc) auto
  ultimately show ?thesis using length_asn_1_bytes [of l] assms
    by (intro exI [of _ "int (length ?b)"] exI [of _ ?m]) auto
qed

theorem asn_1_roundtrip_witness:
  "\<exists>r m'. asn_1_encode 300 [9, 9, 9, 9, 9] 1 3 = Some (r, m') \<and> asn_1_decode m' 1 (nat r) = Some (r, Some 300)"
  using asn_1_roundtrip [of 1 "[9, 9, 9, 9, 9]" 300] by auto

text \<open>\<open>asn_1_decode\<close> never reads outside the bytes it is given, and a successful decode
  consumes at least one and at most all of them.\<close>

theorem asn_1_decode_safe:
  assumes "p + n \<le> length m"
  shows "\<exists>r v. asn_1_decode m p n = Some (r, v)
    \<and> (r = -1 \<and> v = None \<or> 1 \<le> r \<and> r \<le> int n \<and> v \<noteq> None)"
  using asn1.dec_safe [OF assms] by blast

theorem asn_1_decode_safe_witness:
  "\<exists>r v. asn_1_decode [0x82, 1] 0 2 = Some (r, v) \<and> r = -1"
  using asn_1_decode_safe [of 0 2 "[0x82, 1]"] by (auto simp: asn_1_decode_def rd_def)

end
