(* ===== verification/En50221_Transport.thy ===== *)
theory En50221_Transport
  imports En50221_Os Asn1
begin

text \<open>
  \<open>lib/libdvben50221/en50221_transport.c\<close>: the transport layer, which multiplexes transport
  connections over the slots of CA devices.

  \<open>en50221_transport_layer\<close> is the structure of the same name with the environment in the field \<open>os\<close>;
  the record is extensible, and what lies above the transport layer is its extension.  A function pointer
  is a value of type \<open>fptr\<close>; the operations that call through one take the interpretation
  \<open>call\<close> of these pointers as an argument.  An operation returns \<open>None\<close> when it leaves an array or uses a
  block that was freed, otherwise the new state and the C result.  The mutexes serialise the
  operations, so each operation is one step; the linked list of queued messages with its
  tail pointer is the list of messages.
\<close>

section \<open>The state\<close>

definition T_SB :: u8 where "T_SB = 0x80"
definition T_RCV :: u8 where "T_RCV = 0x81"
definition T_CREATE_T_C :: u8 where "T_CREATE_T_C = 0x82"
definition T_C_T_C_REPLY :: u8 where "T_C_T_C_REPLY = 0x83"
definition T_DELETE_T_C :: u8 where "T_DELETE_T_C = 0x84"
definition T_D_T_C_REPLY :: u8 where "T_D_T_C_REPLY = 0x85"
definition T_REQUEST_T_C :: u8 where "T_REQUEST_T_C = 0x86"
definition T_NEW_T_C :: u8 where "T_NEW_T_C = 0x87"
definition T_T_C_ERROR :: u8 where "T_T_C_ERROR = 0x77"
definition T_DATA_LAST :: u8 where "T_DATA_LAST = 0xA0"
definition T_DATA_MORE :: u8 where "T_DATA_MORE = 0xA1"

lemmas tpdu_tags = T_SB_def T_RCV_def T_CREATE_T_C_def T_C_T_C_REPLY_def T_DELETE_T_C_def
  T_D_T_C_REPLY_def T_REQUEST_T_C_def T_NEW_T_C_def T_T_C_ERROR_def T_DATA_LAST_def T_DATA_MORE_def

text \<open>The connection states are single bits, tested in groups with \<open>&\<close>; each is one constructor here.\<close>

datatype t_state = T_STATE_IDLE | T_STATE_ACTIVE | T_STATE_ACTIVE_DELETEQUEUED
  | T_STATE_IN_CREATION | T_STATE_IN_DELETION

datatype t_reason = T_CALLBACK_REASON_CONNECTIONOPEN | T_CALLBACK_REASON_CAMCONNECTIONOPEN
  | T_CALLBACK_REASON_DATA | T_CALLBACK_REASON_CONNECTIONCLOSE | T_CALLBACK_REASON_SLOTCLOSE

definition EN50221ERR_CAREAD :: int where "EN50221ERR_CAREAD = -1"
definition EN50221ERR_CAWRITE :: int where "EN50221ERR_CAWRITE = -2"
definition EN50221ERR_TIMEOUT :: int where "EN50221ERR_TIMEOUT = -3"
definition EN50221ERR_BADSLOTID :: int where "EN50221ERR_BADSLOTID = -4"
definition EN50221ERR_BADCONNECTIONID :: int where "EN50221ERR_BADCONNECTIONID = -5"
definition EN50221ERR_BADSTATE :: int where "EN50221ERR_BADSTATE = -6"
definition EN50221ERR_BADCAMDATA :: int where "EN50221ERR_BADCAMDATA = -7"
definition EN50221ERR_OUTOFMEMORY :: int where "EN50221ERR_OUTOFMEMORY = -8"
definition EN50221ERR_ASNENCODE :: int where "EN50221ERR_ASNENCODE = -9"
definition EN50221ERR_OUTOFCONNECTIONS :: int where "EN50221ERR_OUTOFCONNECTIONS = -10"
definition EN50221ERR_OUTOFSLOTS :: int where "EN50221ERR_OUTOFSLOTS = -11"

record en50221_connection =
  conn_state :: t_state
  tx_time :: timeval
  last_poll_time :: timeval
  chain_buffer :: "mem cptr"
  buffer_length :: u32
  send_queue :: "u8 list list"

record en50221_slot =
  ca_hndl :: int
  cam_slot :: u8
  connections :: "en50221_connection list"
  response_timeout :: nat
  poll_delay :: nat

record pollfd =
  pfd_fd :: int
  pfd_events :: u16
  pfd_revents :: u16

type_synonym fptr = nat

record en50221_transport_layer =
  max_slots :: nat
  max_connections_per_slot :: nat
  slots :: "en50221_slot list"
  slot_pollfds :: "pollfd list"
  slots_changed :: bool
  tl_error :: int
  tl_error_slot :: int
  tl_callback :: "fptr option"
  os :: os

type_synonym 'a tlayer = "'a en50221_transport_layer_scheme"
type_synonym 'a tl_call = "fptr \<Rightarrow> t_reason \<Rightarrow> u8 list \<Rightarrow> nat \<Rightarrow> nat \<Rightarrow> 'a tlayer \<Rightarrow> 'a tlayer option"

section \<open>Access to slots and connections\<close>

definition tl_slot :: "'a tlayer \<Rightarrow> nat \<Rightarrow> en50221_slot option" where
  "tl_slot tr s = (if s < length (slots tr) then Some (slots tr ! s) else None)"

definition tl_conn :: "'a tlayer \<Rightarrow> nat \<Rightarrow> nat \<Rightarrow> en50221_connection option" where
  "tl_conn tr s c =
     do { sl \<leftarrow> tl_slot tr s; if c < length (connections sl) then Some (connections sl ! c) else None }"

definition set_conn :: "'a tlayer \<Rightarrow> nat \<Rightarrow> nat \<Rightarrow> (en50221_connection \<Rightarrow> en50221_connection) \<Rightarrow> 'a tlayer option" where
  "set_conn tr s c f =
     do { sl \<leftarrow> tl_slot tr s; k \<leftarrow> tl_conn tr s c;
          Some (tr\<lparr>slots := (slots tr)[s := sl\<lparr>connections := (connections sl)[c := f k]\<rparr>]\<rparr>) }"

definition clear_tx :: "en50221_connection \<Rightarrow> en50221_connection" where
  "clear_tx k = k\<lparr>tx_time := (tx_time k)\<lparr>tv_sec := 0\<rparr>\<rparr>"

definition drop_chain :: "en50221_connection \<Rightarrow> en50221_connection option" where
  "drop_chain k = (if chain_buffer k = Freed \<or> chain_buffer k = Uninit then None
     else Some (k\<lparr>chain_buffer := Null, buffer_length := 0\<rparr>))"

definition fail :: "'a tlayer \<Rightarrow> int \<Rightarrow> ('a tlayer \<times> int) option" where
  "fail tr err = Some (tr\<lparr>tl_error := err\<rparr>, -1)"

definition fail_slot :: "'a tlayer \<Rightarrow> nat \<Rightarrow> int \<Rightarrow> ('a tlayer \<times> int) option" where
  "fail_slot tr s err = Some (tr\<lparr>tl_error_slot := int s, tl_error := err\<rparr>, -1)"

text \<open>Calls of the environment on the state.\<close>

definition tl_malloc :: "'a tlayer \<Rightarrow> 'a tlayer \<times> bool" where
  "tl_malloc tr = (let (w, ok) = malloc (os tr) in (tr\<lparr>os := w\<rparr>, ok))"

definition tl_now :: "'a tlayer \<Rightarrow> 'a tlayer \<times> timeval" where
  "tl_now tr = (let (w, t) = gettimeofday (os tr) in (tr\<lparr>os := w\<rparr>, t))"

definition tl_write :: "'a tlayer \<Rightarrow> nat \<Rightarrow> nat \<Rightarrow> u8 list \<Rightarrow> ('a tlayer \<times> bool) option" where
  "tl_write tr s c data =
     do { sl \<leftarrow> tl_slot tr s;
          let (w, ok) = dvbca_link_write (ca_hndl sl) (cam_slot sl) c data (os tr);
          Some (tr\<lparr>os := w\<rparr>, ok) }"

definition tl_time_after :: "'a tlayer \<Rightarrow> timeval \<Rightarrow> nat \<Rightarrow> 'a tlayer \<times> bool" where
  "tl_time_after tr t d = (let (w, b) = time_after t d (os tr) in (tr\<lparr>os := w\<rparr>, b))"

definition upcall :: "'a tl_call \<Rightarrow> t_reason \<Rightarrow> u8 list \<Rightarrow> nat \<Rightarrow> nat \<Rightarrow> 'a tlayer \<Rightarrow> 'a tlayer option" where
  "upcall call reason data s c tr =
     (case tl_callback tr of None \<Rightarrow> Some tr | Some f \<Rightarrow> call f reason data s c tr)"

section \<open>Creation and registration\<close>

text \<open>\<open>en50221_tl_destroy\<close> follows the pointers of all slots; reading one that was never written is a fault.\<close>

definition en50221_tl_destroy :: "en50221_connection list cptr list \<Rightarrow> unit option" where
  "en50221_tl_destroy conns = (if Uninit \<in> set conns \<or> Freed \<in> set conns then None else Some ())"

text \<open>The loop that allocates the connection arrays: what it has allocated when it ends.\<close>

fun alloc_slots :: "os \<Rightarrow> en50221_connection list \<Rightarrow> nat \<Rightarrow> os \<times> en50221_connection list cptr list" where
  "alloc_slots w proto 0 = (w, [])"
| "alloc_slots w proto (Suc n) =
     (let (w, ok) = malloc w in
      if ok then (let (w, rest) = alloc_slots w proto n in (w, Live proto # rest))
      else (w, Null # replicate n Uninit))"

definition new_connection :: "os \<Rightarrow> en50221_connection" where
  "new_connection w = \<lparr>conn_state = T_STATE_IDLE, tx_time = \<lparr>tv_sec = 0, tv_usec = unat (os_junk w 0)\<rparr>,
     last_poll_time = \<lparr>tv_sec = 0, tv_usec = 0\<rparr>, chain_buffer = Null, buffer_length = 0, send_queue = []\<rparr>"

definition new_slot :: "os \<Rightarrow> en50221_connection list \<Rightarrow> en50221_slot" where
  "new_slot w cs = \<lparr>ca_hndl = -1, cam_slot = os_junk w 1, connections = cs,
     response_timeout = unat (os_junk w 2), poll_delay = unat (os_junk w 3)\<rparr>"

text \<open>The result is the new layer, or \<open>None\<close> inside for \<open>NULL\<close>.\<close>

definition en50221_tl_create :: "os \<Rightarrow> nat \<Rightarrow> nat \<Rightarrow> (os \<times> en50221_transport_layer option) option" where
  "en50221_tl_create w maxs maxc =
     (let (w, ok) = malloc w in
      if \<not> ok then Some (w, None)
      else let (w, ok) = malloc w in
      if \<not> ok then do { en50221_tl_destroy []; Some (w, None) }
      else let (w, arrays) = alloc_slots w (replicate maxc (new_connection w)) maxs in
      if Null \<in> set arrays then do { en50221_tl_destroy arrays; Some (w, None) }
      else let (w, ok) = malloc w in
      if \<not> ok then do { en50221_tl_destroy arrays; Some (w, None) }
      else Some (w, Some \<lparr>max_slots = maxs, max_connections_per_slot = maxc,
        slots = map (\<lambda>a. new_slot w (case a of Live cs \<Rightarrow> cs | _ \<Rightarrow> [])) arrays,
        slot_pollfds = replicate maxs \<lparr>pfd_fd = 0, pfd_events = 0, pfd_revents = 0\<rparr>,
        slots_changed = True, tl_error = 0, tl_error_slot = 0, tl_callback = None, os = w\<rparr>))"

fun first_index :: "('a \<Rightarrow> bool) \<Rightarrow> 'a list \<Rightarrow> nat \<Rightarrow> nat option" where
  "first_index P [] i = None"
| "first_index P (x # xs) i = (if P x then Some i else first_index P xs (Suc i))"

definition en50221_tl_register_slot :: "'a tlayer \<Rightarrow> int \<Rightarrow> u8 \<Rightarrow> nat \<Rightarrow> nat \<Rightarrow> ('a tlayer \<times> int) option" where
  "en50221_tl_register_slot tr hndl slot rto pdelay =
     (case first_index (\<lambda>sl. ca_hndl sl = -1) (take (max_slots tr) (slots tr)) 0 of
        None \<Rightarrow> fail tr EN50221ERR_OUTOFSLOTS
      | Some i \<Rightarrow> do {
          sl \<leftarrow> tl_slot tr i;
          Some (tr\<lparr>slots := (slots tr)[i := sl\<lparr>ca_hndl := hndl, cam_slot := slot,
                  response_timeout := rto, poll_delay := pdelay\<rparr>], slots_changed := True\<rparr>, int i) })"

definition reset_connection :: "en50221_connection \<Rightarrow> en50221_connection option" where
  "reset_connection k =
     do { k \<leftarrow> drop_chain (clear_tx (k\<lparr>conn_state := T_STATE_IDLE, last_poll_time := \<lparr>tv_sec = 0, tv_usec = 0\<rparr>\<rparr>));
          Some (k\<lparr>send_queue := []\<rparr>) }"

primrec reset_connections :: "en50221_connection list \<Rightarrow> en50221_connection list option" where
  "reset_connections [] = Some []"
| "reset_connections (k # ks) =
     do { k \<leftarrow> reset_connection k; ks \<leftarrow> reset_connections ks; Some (k # ks) }"

definition en50221_tl_destroy_slot :: "'a tl_call \<Rightarrow> 'a tlayer \<Rightarrow> nat \<Rightarrow> 'a tlayer option" where
  "en50221_tl_destroy_slot call tr s =
     (if s \<ge> max_slots tr then Some tr
      else do {
        sl \<leftarrow> tl_slot tr s;
        cs \<leftarrow> reset_connections (connections sl);
        let tr = tr\<lparr>slots := (slots tr)[s := sl\<lparr>ca_hndl := -1, connections := cs\<rparr>]\<rparr>;
        tr \<leftarrow> upcall call T_CALLBACK_REASON_SLOTCLOSE [] s 0 tr;
        Some (tr\<lparr>slots_changed := True\<rparr>) })"

definition en50221_tl_register_callback :: "'a tlayer \<Rightarrow> fptr option \<Rightarrow> 'a tlayer" where
  "en50221_tl_register_callback tr f = tr\<lparr>tl_callback := f\<rparr>"

definition en50221_tl_get_error_slot :: "'a tlayer \<Rightarrow> int" where
  "en50221_tl_get_error_slot tr = tl_error_slot tr"

definition en50221_tl_get_error :: "'a tlayer \<Rightarrow> int" where
  "en50221_tl_get_error tr = tl_error tr"

section \<open>Requests of the host\<close>

definition queue_message :: "'a tlayer \<Rightarrow> nat \<Rightarrow> nat \<Rightarrow> u8 list \<Rightarrow> 'a tlayer option" where
  "queue_message tr s c msg = set_conn tr s c (\<lambda>k. k\<lparr>send_queue := send_queue k @ [msg]\<rparr>)"

text \<open>The body of a \<open>T_DATA_LAST\<close> message: \<open>size\<close> bytes of data gathered from \<open>vector\<close>.  The block has
  ten bytes more than the data, the length field is computed in 16 bits, the message length in 32.\<close>

primrec gather :: "mem \<Rightarrow> nat \<Rightarrow> u8 list list \<Rightarrow> mem option" where
  "gather m pos [] = Some m"
| "gather m pos (v # vs) = do { m \<leftarrow> blit m pos v; gather m (pos + length v) vs }"

definition data_message :: "os \<Rightarrow> nat \<Rightarrow> u8 list list \<Rightarrow> u8 list option option" where
  "data_message w c vector =
     (let data_size = sum_list (map length vector) mod 2 ^ 32 in do {
        m \<leftarrow> wr (fresh w (data_size + 10)) 0 T_DATA_LAST;
        (length_field_len, m) \<leftarrow> asn_1_encode (of_nat (data_size + 1)) m 1 3;
        if length_field_len < 0 then Some None
        else do {
          m \<leftarrow> wr m (1 + nat length_field_len) (of_nat c);
          m \<leftarrow> gather m (1 + nat length_field_len + 1) vector;
          Some (Some (take ((1 + nat length_field_len + 1 + data_size) mod 2 ^ 32) m)) } })"

definition en50221_tl_send_datav :: "'a tlayer \<Rightarrow> nat \<Rightarrow> nat \<Rightarrow> u8 list list \<Rightarrow> ('a tlayer \<times> int) option" where
  "en50221_tl_send_datav tr s c vector =
     (if s \<ge> max_slots tr then fail tr EN50221ERR_BADSLOTID
      else do {
        sl \<leftarrow> tl_slot tr s;
        if ca_hndl sl = -1 then fail tr EN50221ERR_BADSLOTID
        else if c \<ge> max_connections_per_slot tr then fail_slot tr s EN50221ERR_BADCONNECTIONID
        else do {
          k \<leftarrow> tl_conn tr s c;
          if conn_state k \<noteq> T_STATE_ACTIVE then fail tr EN50221ERR_BADCONNECTIONID
          else do {
            let w = os tr;
            let (tr, ok) = tl_malloc tr;
            if \<not> ok then fail_slot tr s EN50221ERR_OUTOFMEMORY
            else do {
              msg \<leftarrow> data_message w c vector;
              case msg of
                None \<Rightarrow> fail_slot tr s EN50221ERR_ASNENCODE
              | Some msg \<Rightarrow> do { tr \<leftarrow> queue_message tr s c msg; Some (tr, 0) } } } } })"

text \<open>\<open>en50221_tl_send_data\<close> repeats the text of \<open>en50221_tl_send_datav\<close> for a single buffer.\<close>

definition en50221_tl_send_data :: "'a tlayer \<Rightarrow> nat \<Rightarrow> nat \<Rightarrow> u8 list \<Rightarrow> ('a tlayer \<times> int) option" where
  "en50221_tl_send_data tr s c data = en50221_tl_send_datav tr s c [data]"

definition en50221_tl_alloc_new_tc :: "'a tlayer \<Rightarrow> nat \<Rightarrow> ('a tlayer \<times> int) option" where
  "en50221_tl_alloc_new_tc tr s =
     do {
       sl \<leftarrow> tl_slot tr s;
       case first_index (\<lambda>k. conn_state k = T_STATE_IDLE) (List.tl (take (max_connections_per_slot tr) (connections sl))) 1 of
         None \<Rightarrow> Some (tr, -1)
       | Some i \<Rightarrow> do {
           tr \<leftarrow> set_conn tr s i (\<lambda>k. k\<lparr>conn_state := T_STATE_IN_CREATION, chain_buffer := Null, buffer_length := 0\<rparr>);
           Some (tr, int i) } }"

definition en50221_tl_new_tc :: "'a tlayer \<Rightarrow> nat \<Rightarrow> ('a tlayer \<times> int) option" where
  "en50221_tl_new_tc tr s =
     (if s \<ge> max_slots tr then fail tr EN50221ERR_BADSLOTID
      else do {
        sl \<leftarrow> tl_slot tr s;
        if ca_hndl sl = -1 then fail tr EN50221ERR_BADSLOTID
        else do {
          (tr, conid) \<leftarrow> en50221_tl_alloc_new_tc tr s;
          if conid = -1 then fail_slot tr s EN50221ERR_OUTOFCONNECTIONS
          else do {
            let (tr, ok) = tl_malloc tr;
            if \<not> ok then fail_slot tr s EN50221ERR_OUTOFMEMORY
            else do {
              tr \<leftarrow> queue_message tr s (nat conid) [T_CREATE_T_C, 1, of_int conid];
              Some (tr, conid) } } } })"

definition en50221_tl_del_tc :: "'a tlayer \<Rightarrow> nat \<Rightarrow> nat \<Rightarrow> ('a tlayer \<times> int) option" where
  "en50221_tl_del_tc tr s c =
     (if s \<ge> max_slots tr then fail tr EN50221ERR_BADSLOTID
      else do {
        sl \<leftarrow> tl_slot tr s;
        if ca_hndl sl = -1 then fail tr EN50221ERR_BADSLOTID
        else if c \<ge> max_connections_per_slot tr then fail_slot tr s EN50221ERR_BADCONNECTIONID
        else do {
          k \<leftarrow> tl_conn tr s c;
          if conn_state k \<notin> {T_STATE_ACTIVE, T_STATE_IN_DELETION} then fail_slot tr s EN50221ERR_BADSTATE
          else do {
            let (tr, ok) = tl_malloc tr;
            if \<not> ok then fail_slot tr s EN50221ERR_OUTOFMEMORY
            else do {
              tr \<leftarrow> queue_message tr s c [T_DELETE_T_C, 1, of_nat c];
              tr \<leftarrow> set_conn tr s c (\<lambda>k. k\<lparr>conn_state := T_STATE_ACTIVE_DELETEQUEUED\<rparr>);
              Some (tr, 0) } } } })"

definition en50221_tl_get_connection_state :: "'a tlayer \<Rightarrow> nat \<Rightarrow> nat \<Rightarrow> ('a tlayer \<times> t_state option) option" where
  "en50221_tl_get_connection_state tr s c =
     (if s \<ge> max_slots tr then Some (tr\<lparr>tl_error := EN50221ERR_BADSLOTID\<rparr>, None)
      else do {
        sl \<leftarrow> tl_slot tr s;
        if ca_hndl sl = -1 then Some (tr\<lparr>tl_error := EN50221ERR_BADSLOTID\<rparr>, None)
        else if c \<ge> max_connections_per_slot tr
        then Some (tr\<lparr>tl_error_slot := int s, tl_error := EN50221ERR_BADCONNECTIONID\<rparr>, None)
        else do { k \<leftarrow> tl_conn tr s c; Some (tr, Some (conn_state k)) } })"

section \<open>Messages of the module\<close>

definition en50221_tl_handle_create_tc_reply ::
  "'a tl_call \<Rightarrow> 'a tlayer \<Rightarrow> nat \<Rightarrow> nat \<Rightarrow> ('a tlayer \<times> int) option" where
  "en50221_tl_handle_create_tc_reply call tr s c =
     do {
       k \<leftarrow> tl_conn tr s c;
       if conn_state k = T_STATE_IN_CREATION then do {
         tr \<leftarrow> set_conn tr s c (\<lambda>k. clear_tx (k\<lparr>conn_state := T_STATE_ACTIVE\<rparr>));
         tr \<leftarrow> upcall call T_CALLBACK_REASON_CONNECTIONOPEN [] s c tr;
         Some (tr, 0) }
       else fail_slot tr s EN50221ERR_BADCAMDATA }"

definition en50221_tl_handle_delete_tc ::
  "'a tl_call \<Rightarrow> 'a tlayer \<Rightarrow> nat \<Rightarrow> nat \<Rightarrow> ('a tlayer \<times> int) option" where
  "en50221_tl_handle_delete_tc call tr s c =
     do {
       k \<leftarrow> tl_conn tr s c;
       if conn_state k \<in> {T_STATE_ACTIVE, T_STATE_IN_DELETION} then do {
         k \<leftarrow> drop_chain (k\<lparr>conn_state := T_STATE_IDLE\<rparr>);
         tr \<leftarrow> set_conn tr s c (\<lambda>_. k);
         (tr, ok) \<leftarrow> tl_write tr s c [T_D_T_C_REPLY, 1, of_nat c];
         if \<not> ok then fail_slot tr s EN50221ERR_CAWRITE
         else do {
           tr \<leftarrow> upcall call T_CALLBACK_REASON_CONNECTIONCLOSE [] s c tr;
           Some (tr, 0) } }
       else fail_slot tr s EN50221ERR_BADCAMDATA }"

definition en50221_tl_handle_delete_tc_reply :: "'a tlayer \<Rightarrow> nat \<Rightarrow> nat \<Rightarrow> ('a tlayer \<times> int) option" where
  "en50221_tl_handle_delete_tc_reply tr s c =
     do {
       k \<leftarrow> tl_conn tr s c;
       if conn_state k = T_STATE_IN_DELETION then do {
         tr \<leftarrow> set_conn tr s c (\<lambda>k. k\<lparr>conn_state := T_STATE_IDLE\<rparr>); Some (tr, 0) }
       else fail_slot tr s EN50221ERR_BADCAMDATA }"

definition en50221_tl_handle_request_tc ::
  "'a tl_call \<Rightarrow> 'a tlayer \<Rightarrow> nat \<Rightarrow> nat \<Rightarrow> ('a tlayer \<times> int) option" where
  "en50221_tl_handle_request_tc call tr s c =
     do {
       (tr, conid) \<leftarrow> en50221_tl_alloc_new_tc tr s;
       if conid = -1 then do {
         (tr, ok) \<leftarrow> tl_write tr s c [T_T_C_ERROR, 2, of_nat c, 1];
         if \<not> ok then fail_slot tr s EN50221ERR_CAWRITE
         else do { tr \<leftarrow> set_conn tr s c clear_tx; Some (tr, 0) } }
       else do {
         let n = nat conid;
         (tr, ok) \<leftarrow> tl_write tr s c [T_NEW_T_C, 2, of_nat c, of_nat n];
         if \<not> ok then do {
           tr \<leftarrow> set_conn tr s n (\<lambda>k. k\<lparr>conn_state := T_STATE_IDLE\<rparr>); fail_slot tr s EN50221ERR_CAWRITE }
         else do {
           tr \<leftarrow> set_conn tr s c clear_tx;
           (tr, ok) \<leftarrow> tl_write tr s n [T_CREATE_T_C, 1, of_nat n];
           if \<not> ok then do {
             tr \<leftarrow> set_conn tr s n (\<lambda>k. k\<lparr>conn_state := T_STATE_IDLE\<rparr>); fail_slot tr s EN50221ERR_CAWRITE }
           else do {
             let (tr, t) = tl_now tr;
             tr \<leftarrow> set_conn tr s n (\<lambda>k. k\<lparr>tx_time := t\<rparr>);
             tr \<leftarrow> upcall call T_CALLBACK_REASON_CAMCONNECTIONOPEN [] s n tr;
             Some (tr, 0) } } } }"

text \<open>Appending to a chain.  The new length is an \<open>int\<close>; a negative one becomes a huge \<open>size_t\<close>, which no
  allocator satisfies.  The result is the new block, if there is one, and its length; the
  connection keeps the old pointer.\<close>

definition extend_chain ::
  "'a tlayer \<Rightarrow> nat \<Rightarrow> nat \<Rightarrow> u8 list \<Rightarrow> ('a tlayer \<times> (mem \<times> u32) option) option" where
  "extend_chain tr s c data =
     do {
       k \<leftarrow> tl_conn tr s c;
       let new_data_length = buffer_length k + of_nat (length data);
       if sint new_data_length < 0 then Some (tr\<lparr>os := os_tick (os tr)\<rparr>, None)
       else do {
         (w, new, old) \<leftarrow> realloc (os tr) (chain_buffer k) (unat new_data_length);
         tr \<leftarrow> set_conn (tr\<lparr>os := w\<rparr>) s c (\<lambda>k. k\<lparr>chain_buffer := old\<rparr>);
         case new of
           Live m \<Rightarrow> do { m \<leftarrow> blit m (unat (buffer_length k)) data; Some (tr, Some (m, new_data_length)) }
         | _ \<Rightarrow> Some (tr, None) } }"

definition en50221_tl_handle_data_more ::
  "'a tlayer \<Rightarrow> nat \<Rightarrow> nat \<Rightarrow> u8 list \<Rightarrow> ('a tlayer \<times> int) option" where
  "en50221_tl_handle_data_more tr s c data =
     do {
       k \<leftarrow> tl_conn tr s c;
       if conn_state k \<noteq> T_STATE_ACTIVE then fail_slot tr s EN50221ERR_BADCAMDATA
       else do {
         tr \<leftarrow> set_conn tr s c clear_tx;
         (tr, r) \<leftarrow> extend_chain tr s c data;
         case r of
           None \<Rightarrow> fail_slot tr s EN50221ERR_OUTOFMEMORY
         | Some (m, n) \<Rightarrow> do {
             tr \<leftarrow> set_conn tr s c (\<lambda>k. k\<lparr>chain_buffer := Live m, buffer_length := n\<rparr>);
             Some (tr, 0) } } }"

definition en50221_tl_handle_data_last ::
  "'a tl_call \<Rightarrow> 'a tlayer \<Rightarrow> nat \<Rightarrow> nat \<Rightarrow> u8 list \<Rightarrow> ('a tlayer \<times> int) option" where
  "en50221_tl_handle_data_last call tr s c data =
     do {
       k \<leftarrow> tl_conn tr s c;
       if conn_state k \<noteq> T_STATE_ACTIVE then fail_slot tr s EN50221ERR_BADCAMDATA
       else do {
         tr \<leftarrow> set_conn tr s c clear_tx;
         if chain_buffer k = Null then do {
           tr \<leftarrow> (if data = [] then Some tr else upcall call T_CALLBACK_REASON_DATA data s c tr);
           Some (tr, 0) }
         else do {
           (tr, r) \<leftarrow> extend_chain tr s c data;
           case r of
             None \<Rightarrow> fail_slot tr s EN50221ERR_OUTOFMEMORY
           | Some (m, n) \<Rightarrow> do {
               tr \<leftarrow> set_conn tr s c (\<lambda>k. k\<lparr>chain_buffer := Null, buffer_length := 0\<rparr>);
               tr \<leftarrow> (if data = [] then Some tr
                      else upcall call T_CALLBACK_REASON_DATA (take (unat n) m) s c tr);
               Some (tr, 0) } } } }"

definition en50221_tl_handle_sb :: "'a tlayer \<Rightarrow> nat \<Rightarrow> nat \<Rightarrow> u8 list \<Rightarrow> ('a tlayer \<times> int) option" where
  "en50221_tl_handle_sb tr s c data =
     do {
       k \<leftarrow> tl_conn tr s c;
       if conn_state k \<noteq> T_STATE_ACTIVE then fail_slot tr s EN50221ERR_BADCAMDATA
       else if length data \<noteq> 1 then fail_slot tr s EN50221ERR_BADCAMDATA
       else do {
         d \<leftarrow> rd data 0;
         if d AND 0x80 \<noteq> 0 then do {
           (tr, ok) \<leftarrow> tl_write tr s c [T_RCV, 1, of_nat c];
           if \<not> ok then fail_slot tr s EN50221ERR_CAWRITE
           else do {
             let (tr, t) = tl_now tr;
             tr \<leftarrow> set_conn tr s c (\<lambda>k. k\<lparr>tx_time := t\<rparr>);
             Some (tr, 0) } }
         else do { tr \<leftarrow> set_conn tr s c clear_tx; Some (tr, 0) } } }"

text \<open>The dispatch on the tag, with the bytes of the body.\<close>

definition handle_tpdu ::
  "'a tl_call \<Rightarrow> 'a tlayer \<Rightarrow> nat \<Rightarrow> u8 \<Rightarrow> nat \<Rightarrow> u8 list \<Rightarrow> ('a tlayer \<times> int) option" where
  "handle_tpdu call tr s tpdu_tag c data =
     (if tpdu_tag = T_C_T_C_REPLY then en50221_tl_handle_create_tc_reply call tr s c
      else if tpdu_tag = T_DELETE_T_C then en50221_tl_handle_delete_tc call tr s c
      else if tpdu_tag = T_D_T_C_REPLY then en50221_tl_handle_delete_tc_reply tr s c
      else if tpdu_tag = T_REQUEST_T_C then en50221_tl_handle_request_tc call tr s c
      else if tpdu_tag = T_DATA_MORE then en50221_tl_handle_data_more tr s c data
      else if tpdu_tag = T_DATA_LAST then en50221_tl_handle_data_last call tr s c data
      else if tpdu_tag = T_SB then en50221_tl_handle_sb tr s c data
      else fail_slot tr s EN50221ERR_BADCAMDATA)"

text \<open>The loop over the TPDUs in \<open>data_length\<close> bytes of \<open>m\<close> from \<open>pos\<close> on.\<close>

partial_function (option) en50221_tl_process_data ::
  "'a tl_call \<Rightarrow> 'a tlayer \<Rightarrow> nat \<Rightarrow> mem \<Rightarrow> nat \<Rightarrow> nat \<Rightarrow> ('a tlayer \<times> int) option" where
  "en50221_tl_process_data call tr s m pos data_length =
     (if data_length = 0 then Some (tr, 0)
      else do {
        tpdu_tag \<leftarrow> rd m pos;
        (length_field_len, v) \<leftarrow> asn_1_decode m (pos + 1) (data_length - 1);
        if length_field_len < 0 then fail_slot tr s EN50221ERR_BADCAMDATA
        else do {
          asn \<leftarrow> v;
          let hdr = 1 + nat length_field_len; let asn_data_length = unat asn;
          if asn_data_length < 1 \<or> asn_data_length > data_length - hdr then fail_slot tr s EN50221ERR_BADCAMDATA
          else do {
            connection_id \<leftarrow> rd m (pos + hdr);
            let c = unat connection_id;
            if c \<ge> max_connections_per_slot tr then fail_slot tr s EN50221ERR_BADCONNECTIONID
            else do {
              body \<leftarrow> rd_bytes m (pos + hdr + 1) (asn_data_length - 1);
              (tr, result) \<leftarrow> handle_tpdu call tr s tpdu_tag c body;
              if result < 0 then Some (tr, -1)
              else en50221_tl_process_data call tr s m (pos + hdr + asn_data_length)
                     (data_length - hdr - asn_data_length) } } } })"

declare en50221_tl_process_data.simps [code]

section \<open>The poll loop\<close>

definition en50221_tl_poll_tc :: "'a tlayer \<Rightarrow> nat \<Rightarrow> nat \<Rightarrow> ('a tlayer \<times> int) option" where
  "en50221_tl_poll_tc tr s c =
     do {
       let (tr, t) = tl_now tr;
       tr \<leftarrow> set_conn tr s c (\<lambda>k. k\<lparr>tx_time := t\<rparr>);
       (tr, ok) \<leftarrow> tl_write tr s c [T_DATA_LAST, 1, of_nat c];
       if \<not> ok then fail_slot tr s EN50221ERR_CAWRITE else Some (tr, 0) }"

text \<open>Sends the first queued message, unless a response is awaited.\<close>

definition poll_send :: "'a tlayer \<Rightarrow> nat \<Rightarrow> nat \<Rightarrow> ('a tlayer \<times> int) option" where
  "poll_send tr s j =
     do {
       k \<leftarrow> tl_conn tr s j;
       if conn_state k \<in> {T_STATE_IN_CREATION, T_STATE_ACTIVE, T_STATE_ACTIVE_DELETEQUEUED}
          \<and> send_queue k \<noteq> [] \<and> tv_sec (tx_time k) = 0
       then do {
         let msg = hd (send_queue k);
         tr \<leftarrow> set_conn tr s j (\<lambda>k. k\<lparr>send_queue := List.tl (send_queue k)\<rparr>);
         (tr, ok) \<leftarrow> tl_write tr s j msg;
         if \<not> ok then fail_slot tr s EN50221ERR_CAWRITE
         else do {
           let (tr, t) = tl_now tr;
           tr \<leftarrow> set_conn tr s j (\<lambda>k. k\<lparr>tx_time := t\<rparr>);
           if msg \<noteq> [] \<and> hd msg = T_DELETE_T_C then do {
             k \<leftarrow> tl_conn tr s j;
             k \<leftarrow> drop_chain (k\<lparr>conn_state := T_STATE_IN_DELETION\<rparr>);
             tr \<leftarrow> set_conn tr s j (\<lambda>_. k);
             Some (tr, 0) }
           else Some (tr, 0) } }
       else Some (tr, 0) }"

text \<open>Asks the module for data when nothing is awaited and the poll delay is over.\<close>

definition poll_ask :: "'a tlayer \<Rightarrow> nat \<Rightarrow> nat \<Rightarrow> ('a tlayer \<times> int) option" where
  "poll_ask tr s j =
     do {
       sl \<leftarrow> tl_slot tr s;
       k \<leftarrow> tl_conn tr s j;
       if conn_state k = T_STATE_ACTIVE \<and> tv_sec (tx_time k) = 0 then do {
         let (tr, late) = tl_time_after tr (last_poll_time k) (poll_delay sl);
         if late then do {
           let (tr, t) = tl_now tr;
           tr \<leftarrow> set_conn tr s j (\<lambda>k. k\<lparr>last_poll_time := t\<rparr>);
           (tr, r) \<leftarrow> en50221_tl_poll_tc tr s j;
           Some (tr, if r \<noteq> 0 then -1 else 0) }
         else Some (tr, 0) }
       else Some (tr, 0) }"

text \<open>A response that does not come: a connection that is being created or deleted becomes idle, an
  active one is an error.\<close>

definition poll_timeout :: "'a tlayer \<Rightarrow> nat \<Rightarrow> nat \<Rightarrow> ('a tlayer \<times> int) option" where
  "poll_timeout tr s j =
     do {
       sl \<leftarrow> tl_slot tr s;
       k \<leftarrow> tl_conn tr s j;
       if tv_sec (tx_time k) \<noteq> 0 then do {
         let (tr, late) = tl_time_after tr (tx_time k) (response_timeout sl);
         if late then
           if conn_state k \<in> {T_STATE_IN_CREATION, T_STATE_IN_DELETION} then do {
             tr \<leftarrow> set_conn tr s j (\<lambda>k. k\<lparr>conn_state := T_STATE_IDLE\<rparr>); Some (tr, 0) }
           else if conn_state k \<in> {T_STATE_ACTIVE, T_STATE_ACTIVE_DELETEQUEUED}
           then fail_slot tr s EN50221ERR_TIMEOUT
           else Some (tr, 0)
         else Some (tr, 0) }
       else Some (tr, 0) }"

definition poll_connection :: "'a tlayer \<Rightarrow> nat \<Rightarrow> nat \<Rightarrow> ('a tlayer \<times> int) option" where
  "poll_connection tr s j =
     do {
       k \<leftarrow> tl_conn tr s j;
       if conn_state k = T_STATE_IDLE then Some (tr, 0)
       else do {
         (tr, r) \<leftarrow> poll_send tr s j;
         if r \<noteq> 0 then Some (tr, r)
         else do {
           (tr, r) \<leftarrow> poll_ask tr s j;
           if r \<noteq> 0 then Some (tr, r) else poll_timeout tr s j } } }"

text \<open>A \<open>for\<close> loop that ends at the first nonzero result.\<close>

primrec until_error :: "('a tlayer \<Rightarrow> nat \<Rightarrow> ('a tlayer \<times> int) option) \<Rightarrow> 'a tlayer \<Rightarrow> nat list \<Rightarrow> ('a tlayer \<times> int) option" where
  "until_error f tr [] = Some (tr, 0)"
| "until_error f tr (i # is) = do { (tr, r) \<leftarrow> f tr i; if r \<noteq> 0 then Some (tr, r) else until_error f tr is }"

definition POLLIN :: u16 where "POLLIN = 1"
definition POLLPRI :: u16 where "POLLPRI = 2"
definition POLLERR :: u16 where "POLLERR = 8"

text \<open>The read of one slot: the message goes to the slot of the CAM it names.\<close>

definition poll_read :: "'a tl_call \<Rightarrow> 'a tlayer \<Rightarrow> nat \<Rightarrow> ('a tlayer \<times> int) option" where
  "poll_read call tr s =
     do {
       sl \<leftarrow> tl_slot tr s;
       let (w, r) = dvbca_link_read 4096 (os tr);
       let tr = tr\<lparr>os := w\<rparr>;
       case r of
         None \<Rightarrow> fail_slot tr s EN50221ERR_CAREAD
       | Some (r_slot_id, connection_id, data) \<Rightarrow>
           if data = [] then Some (tr, 0)
           else do {
             let target = (if cam_slot sl \<noteq> r_slot_id
                then first_index (\<lambda>x. ca_hndl x = ca_hndl sl \<and> cam_slot x = r_slot_id)
                       (take (max_slots tr) (slots tr)) 0
                else Some s);
             case target of
               None \<Rightarrow> fail tr EN50221ERR_BADSLOTID
             | Some t \<Rightarrow> do {
                 (tr, r) \<leftarrow> en50221_tl_process_data call tr t data 0 (length data);
                 Some (tr, if r \<noteq> 0 then -1 else 0) } } }"

definition poll_slot :: "'a tl_call \<Rightarrow> 'a tlayer \<Rightarrow> nat \<Rightarrow> ('a tlayer \<times> int) option" where
  "poll_slot call tr s =
     do {
       sl \<leftarrow> tl_slot tr s;
       if ca_hndl sl = -1 then Some (tr, 0)
       else do {
         revents \<leftarrow> (if s < length (slot_pollfds tr) then Some (pfd_revents (slot_pollfds tr ! s)) else None);
         (tr, r) \<leftarrow>
           (if revents AND (POLLPRI OR POLLIN) \<noteq> 0 then poll_read call tr s
            else if revents AND POLLERR \<noteq> 0 then fail_slot tr s EN50221ERR_CAREAD
            else Some (tr, 0));
         if r \<noteq> 0 then Some (tr, r)
         else until_error (\<lambda>tr j. poll_connection tr s j) tr [0..<max_connections_per_slot tr] } }"

definition refresh_pollfds :: "'a tlayer \<Rightarrow> 'a tlayer" where
  "refresh_pollfds tr =
     (if slots_changed tr then
        tr\<lparr>slot_pollfds := map (\<lambda>sl. if ca_hndl sl \<noteq> -1
             then \<lparr>pfd_fd = ca_hndl sl, pfd_events = POLLIN OR POLLPRI OR POLLERR, pfd_revents = 0\<rparr>
             else \<lparr>pfd_fd = 0, pfd_events = 0, pfd_revents = 0\<rparr>) (slots tr),
           slots_changed := False\<rparr>
      else tr)"

definition en50221_tl_poll :: "'a tl_call \<Rightarrow> 'a tlayer \<Rightarrow> ('a tlayer \<times> int) option" where
  "en50221_tl_poll call tr =
     do {
       let tr = refresh_pollfds tr;
       let w = os tr;
       let tr = tr\<lparr>os := os_tick w\<rparr>;
       case os_poll w (os_now w) of
         None \<Rightarrow> Some (tr\<lparr>tl_error_slot := -1, tl_error := EN50221ERR_CAREAD\<rparr>, -1)
       | Some revents \<Rightarrow>
           (let tr = tr\<lparr>slot_pollfds := map2 (\<lambda>i p. p\<lparr>pfd_revents := revents i\<rparr>) [0..<length (slot_pollfds tr)] (slot_pollfds tr)\<rparr>
            in until_error (poll_slot call) tr [0..<max_slots tr]) }"

end
