(* ===== verification/En50221_Transport_Inv.thy ===== *)
theory En50221_Transport_Inv
  imports En50221_Transport
begin

text \<open>
  The invariant of the transport layer, and that every operation keeps it.

  \<open>tl_inv\<close> ties the arrays to their declared sizes and each chain buffer to its length.  \<open>tl_step t0 tr\<close> says
  that \<open>tr\<close> satisfies it and agrees with \<open>t0\<close> on everything the transport layer does not own:
  the sizes, the callback and the extension of the record.  The rules in \<open>tl_rules\<close> carry this
  judgement through the program texts.  The locale \<open>tl_client\<close> is the contract between the
  transport layer and what is registered above it; under this contract polling
  keeps the client's invariant as well.  The session layer interprets it.
\<close>

named_theorems tl_rules \<open>weakest precondition rules that keep the transport layer invariant\<close>

section \<open>Slots and connections as total functions\<close>

definition valid_conn :: "'a tlayer \<Rightarrow> nat \<Rightarrow> nat \<Rightarrow> bool" where
  "valid_conn tr s c \<longleftrightarrow> s < length (slots tr) \<and> c < length (connections (slots tr ! s))"

definition conn :: "'a tlayer \<Rightarrow> nat \<Rightarrow> nat \<Rightarrow> en50221_connection" where
  "conn tr s c = connections (slots tr ! s) ! c"

definition put_conn :: "'a tlayer \<Rightarrow> nat \<Rightarrow> nat \<Rightarrow> en50221_connection \<Rightarrow> 'a tlayer" where
  "put_conn tr s c k =
     tr\<lparr>slots := (slots tr)[s := (slots tr ! s)\<lparr>connections := (connections (slots tr ! s))[c := k]\<rparr>]\<rparr>"

lemma tl_slot_valid: "s < length (slots tr) \<Longrightarrow> tl_slot tr s = Some (slots tr ! s)"
  by (simp add: tl_slot_def)

lemma tl_conn_valid: "valid_conn tr s c \<Longrightarrow> tl_conn tr s c = Some (conn tr s c)"
  by (simp add: valid_conn_def tl_conn_def tl_slot_def conn_def)

lemma set_conn_valid: "valid_conn tr s c \<Longrightarrow> set_conn tr s c f = Some (put_conn tr s c (f (conn tr s c)))"
  by (simp add: valid_conn_def set_conn_def tl_conn_def tl_slot_def conn_def put_conn_def)

lemma valid_put_conn [simp]: "valid_conn (put_conn tr s c k) s' c' = valid_conn tr s' c'"
  by (cases "s' = s") (auto simp: valid_conn_def put_conn_def)

lemma conn_put_conn [simp]: "valid_conn tr s c \<Longrightarrow> conn (put_conn tr s c k) s c = k"
  by (simp add: valid_conn_def put_conn_def conn_def)

lemma conn_put_other: "valid_conn tr s c \<Longrightarrow> (s', c') \<noteq> (s, c) \<Longrightarrow> conn (put_conn tr s c k) s' c' = conn tr s' c'"
  by (cases "s' = s") (auto simp: valid_conn_def put_conn_def conn_def)

lemma put_put_conn [simp]: "valid_conn tr s c \<Longrightarrow> put_conn (put_conn tr s c k) s c k' = put_conn tr s c k'"
  by (simp add: valid_conn_def put_conn_def)

lemma put_conn_fields [simp]:
  "max_slots (put_conn tr s c k) = max_slots tr"
  "max_connections_per_slot (put_conn tr s c k) = max_connections_per_slot tr"
  "length (slots (put_conn tr s c k)) = length (slots tr)"
  "slot_pollfds (put_conn tr s c k) = slot_pollfds tr"
  "tl_callback (put_conn tr s c k) = tl_callback tr"
  "tl_error (put_conn tr s c k) = tl_error tr"
  "os (put_conn tr s c k) = os tr"
  "en50221_transport_layer.more (put_conn tr s c k) = en50221_transport_layer.more tr"
  by (simp_all add: put_conn_def)

lemma put_conn_slot [simp]:
  assumes "valid_conn tr s c"
  shows "ca_hndl (slots (put_conn tr s c k) ! s') = ca_hndl (slots tr ! s')"
    and "cam_slot (slots (put_conn tr s c k) ! s') = cam_slot (slots tr ! s')"
    and "poll_delay (slots (put_conn tr s c k) ! s') = poll_delay (slots tr ! s')"
    and "response_timeout (slots (put_conn tr s c k) ! s') = response_timeout (slots tr ! s')"
  using assms by (cases "s' = s"; simp add: put_conn_def valid_conn_def)+

section \<open>The invariant\<close>

definition chain_ok :: "mem cptr \<Rightarrow> u32 \<Rightarrow> bool" where
  "chain_ok p n \<longleftrightarrow>
     (case p of Null \<Rightarrow> n = 0 | Live m \<Rightarrow> length m = unat n \<and> unat n < 2 ^ 31 | _ \<Rightarrow> False)"

definition conn_ok :: "en50221_connection \<Rightarrow> bool" where
  "conn_ok k \<longleftrightarrow> chain_ok (chain_buffer k) (buffer_length k)"

definition slot_ok :: "nat \<Rightarrow> en50221_slot \<Rightarrow> bool" where
  "slot_ok maxc sl \<longleftrightarrow> length (connections sl) = maxc \<and> list_all conn_ok (connections sl)"

definition tl_inv :: "'a tlayer \<Rightarrow> bool" where
  "tl_inv tr \<longleftrightarrow> length (slots tr) = max_slots tr \<and> length (slot_pollfds tr) = max_slots tr
     \<and> max_slots tr < 256 \<and> max_connections_per_slot tr < 256
     \<and> list_all (slot_ok (max_connections_per_slot tr)) (slots tr) \<and> \<not> realloc0_frees (os tr)"

definition tl_frame :: "'a tlayer \<Rightarrow> 'a tlayer \<Rightarrow> bool" where
  "tl_frame tr tr' \<longleftrightarrow> max_slots tr' = max_slots tr
     \<and> max_connections_per_slot tr' = max_connections_per_slot tr
     \<and> tl_callback tr' = tl_callback tr
     \<and> en50221_transport_layer.more tr' = en50221_transport_layer.more tr"

definition tl_step :: "'a tlayer \<Rightarrow> 'a tlayer \<Rightarrow> bool" where
  "tl_step t0 tr \<longleftrightarrow> tl_inv tr \<and> tl_frame t0 tr"

lemma tl_frame_refl [simp]: "tl_frame tr tr"
  by (simp add: tl_frame_def)

lemma tl_frame_trans: "tl_frame a b \<Longrightarrow> tl_frame b c \<Longrightarrow> tl_frame a c"
  by (simp add: tl_frame_def)

lemma tl_step_refl: "tl_inv tr \<Longrightarrow> tl_step tr tr"
  by (simp add: tl_step_def)

lemma tl_step_trans: "tl_step a b \<Longrightarrow> tl_step b c \<Longrightarrow> tl_step a c"
  by (auto simp: tl_step_def intro: tl_frame_trans)

lemma tl_inv_valid: "tl_inv tr \<Longrightarrow> s < max_slots tr \<Longrightarrow> c < max_connections_per_slot tr \<Longrightarrow> valid_conn tr s c"
  by (auto simp: tl_inv_def valid_conn_def list_all_length slot_ok_def)

lemma tl_inv_conn_ok: "tl_inv tr \<Longrightarrow> valid_conn tr s c \<Longrightarrow> conn_ok (conn tr s c)"
  by (auto simp: tl_inv_def valid_conn_def conn_def list_all_length slot_ok_def)

lemma tl_inv_put: "tl_inv tr \<Longrightarrow> valid_conn tr s c \<Longrightarrow> conn_ok k \<Longrightarrow> tl_inv (put_conn tr s c k)"
  by (auto simp: tl_inv_def valid_conn_def put_conn_def list_all_length slot_ok_def nth_list_update)

lemma tl_frame_put [simp]: "tl_frame tr (put_conn tr s c k)"
  by (simp add: tl_frame_def)

text \<open>Updates of fields the invariant does not read.\<close>

lemma tl_inv_simps [simp]:
  "tl_inv (tr\<lparr>tl_error := e\<rparr>) = tl_inv tr"
  "tl_inv (tr\<lparr>tl_error_slot := i\<rparr>) = tl_inv tr"
  "tl_inv (tr\<lparr>slots_changed := b\<rparr>) = tl_inv tr"
  "tl_frame t0 (tr\<lparr>tl_error := e\<rparr>) = tl_frame t0 tr"
  "tl_frame t0 (tr\<lparr>tl_error_slot := i\<rparr>) = tl_frame t0 tr"
  "tl_frame t0 (tr\<lparr>slots_changed := b\<rparr>) = tl_frame t0 tr"
  "tl_frame t0 (tr\<lparr>os := w\<rparr>) = tl_frame t0 tr"
  by (simp_all add: tl_inv_def tl_frame_def)

lemma tl_inv_os: "tl_inv tr \<Longrightarrow> realloc0_frees w = realloc0_frees (os tr) \<Longrightarrow> tl_inv (tr\<lparr>os := w\<rparr>)"
  by (simp add: tl_inv_def)

lemma conn_ok_simps [simp]:
  "conn_ok (k\<lparr>conn_state := x\<rparr>) = conn_ok k"
  "conn_ok (k\<lparr>tx_time := t\<rparr>) = conn_ok k"
  "conn_ok (k\<lparr>last_poll_time := t\<rparr>) = conn_ok k"
  "conn_ok (k\<lparr>send_queue := q\<rparr>) = conn_ok k"
  "conn_ok (clear_tx k) = conn_ok k"
  "conn_ok (k\<lparr>conn_state := x, chain_buffer := Null, buffer_length := 0\<rparr>)"
  "conn_ok (k\<lparr>chain_buffer := Null, buffer_length := 0\<rparr>)"
  by (simp_all add: conn_ok_def clear_tx_def chain_ok_def)

lemma drop_chain_ok: "conn_ok k \<Longrightarrow> drop_chain k = Some (k\<lparr>chain_buffer := Null, buffer_length := 0\<rparr>)"
  by (cases "chain_buffer k") (auto simp: drop_chain_def conn_ok_def chain_ok_def)

section \<open>Rules for the basic steps\<close>

lemma wp_bindI [tl_rules]: "wp f (\<lambda>x. wp (g x) Q) \<Longrightarrow> wp (Option.bind f g) Q"
  by (simp add: wp_bind)

declare wp_SomeI [tl_rules] wp_ifI [tl_rules]

lemma wp_slot [tl_rules]:
  "tl_step t0 tr \<Longrightarrow> s < max_slots t0 \<Longrightarrow> (slot_ok (max_connections_per_slot t0) (slots tr ! s) \<Longrightarrow> Q (slots tr ! s))
   \<Longrightarrow> wp (tl_slot tr s) Q"
  by (auto simp: tl_slot_def tl_step_def tl_frame_def tl_inv_def wp_Some list_all_length)

lemma wp_conn [tl_rules]:
  assumes "tl_step t0 tr" "s < max_slots t0" "c < max_connections_per_slot t0"
    and "conn_ok (conn tr s c) \<Longrightarrow> Q (conn tr s c)"
  shows "wp (tl_conn tr s c) Q"
proof -
  have "valid_conn tr s c" using assms by (auto simp: tl_step_def tl_frame_def intro: tl_inv_valid)
  then show ?thesis using assms tl_inv_conn_ok [of tr s c] by (simp add: tl_conn_valid wp_Some tl_step_def)
qed

lemma wp_set_conn [tl_rules]:
  assumes "tl_step t0 tr" "s < max_slots t0" "c < max_connections_per_slot t0"
    and "conn_ok (conn tr s c) \<Longrightarrow> conn_ok (f (conn tr s c))"
    and "\<And>tr'. tl_step t0 tr' \<Longrightarrow> Q tr'"
  shows "wp (set_conn tr s c f) Q"
proof -
  have v: "valid_conn tr s c" using assms by (auto simp: tl_step_def tl_frame_def intro: tl_inv_valid)
  have "tl_step t0 (put_conn tr s c (f (conn tr s c)))"
    using v assms(1,4) tl_inv_conn_ok [of tr s c]
    by (auto simp: tl_step_def tl_inv_put intro: tl_frame_trans)
  then show ?thesis using assms(5) v by (simp add: set_conn_valid wp_Some)
qed

lemma step_error:
  "tl_step t0 tr \<Longrightarrow> tl_step t0 (tr\<lparr>tl_error := e\<rparr>)"
  "tl_step t0 tr \<Longrightarrow> tl_step t0 (tr\<lparr>tl_error_slot := i, tl_error := e\<rparr>)"
  by (simp_all add: tl_step_def)

lemma wp_fail [tl_rules]: "tl_step t0 tr \<Longrightarrow> (\<And>tr'. tl_step t0 tr' \<Longrightarrow> Q (tr', -1)) \<Longrightarrow> wp (fail tr e) Q"
  by (simp add: fail_def wp_Some step_error)

lemma wp_fail_slot [tl_rules]: "tl_step t0 tr \<Longrightarrow> (\<And>tr'. tl_step t0 tr' \<Longrightarrow> Q (tr', -1)) \<Longrightarrow> wp (fail_slot tr s e) Q"
  by (simp add: fail_slot_def wp_Some step_error)

lemma step_os: "tl_step t0 tr \<Longrightarrow> realloc0_frees w = realloc0_frees (os tr) \<Longrightarrow> tl_step t0 (tr\<lparr>os := w\<rparr>)"
  by (simp add: tl_step_def tl_inv_os)

lemma os_frees [simp]:
  "realloc0_frees (os_tick w) = realloc0_frees w"
  "realloc0_frees (fst (malloc w)) = realloc0_frees w"
  "realloc0_frees (fst (gettimeofday w)) = realloc0_frees w"
  "realloc0_frees (fst (dvbca_link_write fd sl c data w)) = realloc0_frees w"
  "realloc0_frees (fst (dvbca_link_read n w)) = realloc0_frees w"
  "realloc0_frees (fst (time_after t d w)) = realloc0_frees w"
  by (simp_all add: os_tick_def malloc_def gettimeofday_def dvbca_link_write_def dvbca_link_read_def
      time_after_def Let_def)

lemma wp_write [tl_rules]:
  assumes "tl_step t0 tr" "s < max_slots t0" "\<And>tr' ok. tl_step t0 tr' \<Longrightarrow> Q (tr', ok)"
  shows "wp (tl_write tr s c data) Q"
  unfolding tl_write_def using assms
  by (auto intro!: wp_bindI wp_slot wp_SomeI assms(3) step_os simp: case_prod_beta)

lemma step_tl_malloc: "tl_step t0 tr \<Longrightarrow> tl_step t0 (fst (tl_malloc tr))"
  by (simp add: tl_malloc_def step_os case_prod_beta)

lemma step_tl_now: "tl_step t0 tr \<Longrightarrow> tl_step t0 (fst (tl_now tr))"
  by (simp add: tl_now_def step_os case_prod_beta)

lemma step_tl_time_after: "tl_step t0 tr \<Longrightarrow> tl_step t0 (fst (tl_time_after tr t d))"
  by (simp add: tl_time_after_def step_os case_prod_beta)

lemma wp_let_malloc [tl_rules]:
  "tl_step t0 tr \<Longrightarrow> (\<And>tr' ok. tl_step t0 tr' \<Longrightarrow> wp (g tr' ok) Q)
   \<Longrightarrow> wp (let (tr, ok) = tl_malloc tr in g tr ok) Q"
  "tl_step t0 tr \<Longrightarrow> (\<And>tr' ok. tl_step t0 tr' \<Longrightarrow> wp (g tr' ok) Q)
   \<Longrightarrow> wp (case tl_malloc tr of (tr, ok) \<Rightarrow> g tr ok) Q"
  by (simp_all add: case_prod_beta step_tl_malloc)

lemma wp_let_now [tl_rules]:
  "tl_step t0 tr \<Longrightarrow> (\<And>tr' t. tl_step t0 tr' \<Longrightarrow> wp (g tr' t) Q)
   \<Longrightarrow> wp (let (tr, t) = tl_now tr in g tr t) Q"
  "tl_step t0 tr \<Longrightarrow> (\<And>tr' t. tl_step t0 tr' \<Longrightarrow> wp (g tr' t) Q)
   \<Longrightarrow> wp (case tl_now tr of (tr, t) \<Rightarrow> g tr t) Q"
  by (simp_all add: case_prod_beta step_tl_now)

lemma wp_let_time_after [tl_rules]:
  "tl_step t0 tr \<Longrightarrow> (\<And>tr' b. tl_step t0 tr' \<Longrightarrow> wp (g tr' b) Q)
   \<Longrightarrow> wp (let (tr, b) = tl_time_after tr t d in g tr b) Q"
  "tl_step t0 tr \<Longrightarrow> (\<And>tr' b. tl_step t0 tr' \<Longrightarrow> wp (g tr' b) Q)
   \<Longrightarrow> wp (case tl_time_after tr t d of (tr, b) \<Rightarrow> g tr b) Q"
  by (simp_all add: case_prod_beta step_tl_time_after)

lemma wp_pair [tl_rules]: "wp (g a b) Q \<Longrightarrow> wp (case (a, b) of (x, y) \<Rightarrow> g x y) Q"
  by simp

section \<open>The requests of the host\<close>

definition kept :: "'a tlayer \<Rightarrow> 'a tlayer \<times> int \<Rightarrow> bool" where
  "kept t0 r \<longleftrightarrow> tl_step t0 (fst r)"

lemma kept_pair [simp]: "kept t0 (tr, r) = tl_step t0 tr"
  by (simp add: kept_def)

lemma gather_total:
  "pos + sum_list (map length vs) \<le> length m \<Longrightarrow>
   gather m pos vs = Some (take pos m @ concat vs @ drop (pos + sum_list (map length vs)) m)"
proof (induction vs arbitrary: m pos)
  case (Cons v vs)
  then show ?case
    by (simp add: blit_def Cons.IH ac_simps)
qed simp

lemma length_fresh [simp]: "length (fresh w n) = n"
  by (simp add: fresh_def)

text \<open>A data message is the tag, the length, the connection and the data.\<close>

lemma data_message_bytes:
  assumes n: "sum_list (map length vs) < 2 ^ 32 - 10"
    and b: "b = asn_1_bytes (of_nat (sum_list (map length vs) + 1))"
  shows "data_message w c vs = Some (Some (T_DATA_LAST # b @ of_nat c # concat vs))"
proof -
  let ?n = "sum_list (map length vs)" and ?l = "length b"
  obtain rest where m: "wr (fresh w (?n + 10)) 0 T_DATA_LAST = Some (T_DATA_LAST # rest)" "length rest = ?n + 9"
    by (cases "fresh w (?n + 10)") (auto dest: arg_cong [of _ _ length])
  have l: "1 \<le> ?l" "?l \<le> 3" using length_asn_1_bytes unfolding b by auto
  have enc: "asn_1_encode (of_nat (?n + 1)) (T_DATA_LAST # rest) 1 3
      = Some (int ?l, (T_DATA_LAST # b) @ drop ?l rest)"
    using encode_blit [of "of_nat (?n + 1)" 3 1 "T_DATA_LAST # rest"] l m(2) by (simp add: b)
  have conn: "wr ((T_DATA_LAST # b) @ drop ?l rest) (1 + ?l) (of_nat c)
      = Some ((T_DATA_LAST # b @ [of_nat c]) @ drop (?l + 1) rest)"
  proof -
    have "drop ?l rest = rest ! ?l # drop (?l + 1) rest" using m(2) l by (simp add: drop_eq_nth_Cons)
    then show ?thesis using m(2) l by (simp add: wr_def list_update_append)
  qed
  have "gather ((T_DATA_LAST # b @ [of_nat c]) @ drop (?l + 1) rest) (2 + ?l) vs
      = Some ((T_DATA_LAST # b @ of_nat c # concat vs) @ drop (?n + ?l + 1) rest)"
    using gather_total [of "2 + ?l" vs "(T_DATA_LAST # b @ [of_nat c]) @ drop (?l + 1) rest"] m(2) l
    by (simp add: ac_simps)
  then show ?thesis using n l m(1) enc conn
    by (simp add: data_message_def length_concat)
qed

lemma wp_queue [tl_rules]:
  assumes "tl_step t0 tr" "s < max_slots t0" "c < max_connections_per_slot t0" "\<And>tr'. tl_step t0 tr' \<Longrightarrow> Q tr'"
  shows "wp (queue_message tr s c msg) Q"
  unfolding queue_message_def using assms by (auto intro: wp_set_conn)

lemma step_frame: "tl_step t0 tr \<Longrightarrow> max_slots tr = max_slots t0"
  "tl_step t0 tr \<Longrightarrow> max_connections_per_slot tr = max_connections_per_slot t0"
  by (simp_all add: tl_step_def tl_frame_def)

lemma first_index_Some: "first_index P xs i = Some j \<Longrightarrow> i \<le> j \<and> j < i + length xs \<and> P (xs ! (j - i))
    \<and> (\<forall>k < j - i. \<not> P (xs ! k))"
proof (induction xs arbitrary: i)
  case (Cons x xs)
  show ?case
  proof (cases "P x")
    case False
    with Cons.prems have "first_index P xs (Suc i) = Some j" by simp
    from Cons.IH [OF this] False show ?thesis
      by (auto simp: nth_Cons' less_Suc_eq_0_disj Suc_diff_le split: nat.splits)
  qed (use Cons.prems in auto)
qed simp

lemma first_index_None: "first_index P xs i = None \<longleftrightarrow> list_all (\<lambda>x. \<not> P x) xs"
  by (induction xs arbitrary: i) auto

lemma wp_alloc [tl_rules]:
  assumes "tl_step t0 tr" "s < max_slots t0"
    and "\<And>tr'. tl_step t0 tr' \<Longrightarrow> Q (tr', -1)"
    and "\<And>tr' i. tl_step t0 tr' \<Longrightarrow> 0 < i \<Longrightarrow> i < max_connections_per_slot t0 \<Longrightarrow> Q (tr', int i)"
  shows "wp (en50221_tl_alloc_new_tc tr s) Q"
  unfolding en50221_tl_alloc_new_tc_def
proof (intro wp_bindI wp_slot [OF assms(1,2)])
  let ?xs = "List.tl (take (max_connections_per_slot tr) (connections (slots tr ! s)))"
  assume sl: "slot_ok (max_connections_per_slot t0) (slots tr ! s)"
  show "wp (case first_index (\<lambda>k. conn_state k = T_STATE_IDLE) ?xs 1 of None \<Rightarrow> Some (tr, - 1)
    | Some i \<Rightarrow> do { tr \<leftarrow> set_conn tr s i (\<lambda>k. k\<lparr>conn_state := T_STATE_IN_CREATION, chain_buffer := Null, buffer_length := 0\<rparr>);
                     Some (tr, int i) }) Q"
  proof (cases "first_index (\<lambda>k. conn_state k = T_STATE_IDLE) ?xs 1")
    case None
    then show ?thesis using assms by (simp add: wp_Some)
  next
    case (Some i)
    from first_index_Some [OF this] sl assms(1) have "0 < i" "i < max_connections_per_slot t0"
      by (auto simp: slot_ok_def step_frame)
    with Some assms show ?thesis by (auto intro!: tl_rules)
  qed
qed

lemma new_tc_kept: "tl_inv tr \<Longrightarrow> wp (en50221_tl_new_tc tr s) (kept tr)"
  unfolding en50221_tl_new_tc_def by (drule tl_step_refl) (auto intro!: tl_rules)

lemma del_tc_kept: "tl_inv tr \<Longrightarrow> wp (en50221_tl_del_tc tr s c) (kept tr)"
  unfolding en50221_tl_del_tc_def by (drule tl_step_refl) (auto intro!: tl_rules)


lemma send_datav_kept:
  "tl_inv tr \<Longrightarrow> sum_list (map length vs) < 2 ^ 32 - 10 \<Longrightarrow> wp (en50221_tl_send_datav tr s c vs) (kept tr)"
  unfolding en50221_tl_send_datav_def
  by (drule tl_step_refl) (auto intro!: tl_rules simp: data_message_bytes not_le)

lemma send_data_kept:
  "tl_inv tr \<Longrightarrow> length data < 2 ^ 32 - 10 \<Longrightarrow> wp (en50221_tl_send_data tr s c data) (kept tr)"
  unfolding en50221_tl_send_data_def by (rule send_datav_kept) simp_all

section \<open>The messages of the module\<close>

lemma delete_tc_reply_kept:
  "tl_step t0 tr \<Longrightarrow> s < max_slots t0 \<Longrightarrow> c < max_connections_per_slot t0 \<Longrightarrow>
   wp (en50221_tl_handle_delete_tc_reply tr s c) (kept t0)"
  unfolding en50221_tl_handle_delete_tc_reply_def by (auto intro!: tl_rules)

lemma sb_kept:
  "tl_step t0 tr \<Longrightarrow> s < max_slots t0 \<Longrightarrow> c < max_connections_per_slot t0 \<Longrightarrow>
   wp (en50221_tl_handle_sb tr s c data) (kept t0)"
  unfolding en50221_tl_handle_sb_def by (auto intro!: tl_rules)

text \<open>The chain buffer: the old bytes, then the new ones.\<close>

lemma unat_add_lt: "unat (a :: u32) + n < 2 ^ 32 \<Longrightarrow> unat (a + of_nat n) = unat a + n"
  by (simp add: unat_word_ariths unsigned_of_nat take_bit_nat_eq_self)

lemma sint_neg_iff: "sint (a :: u32) < 0 \<longleftrightarrow> 2 ^ 31 \<le> unat a"
proof -
  have "sint a < 0 \<longleftrightarrow> bit a 31"
    using bit_last_iff [of a] by simp
  also have "\<dots> \<longleftrightarrow> unat a div 2 ^ 31 \<noteq> 0"
  proof -
    have "unat a < 2 ^ 32" using unsigned_less [of a] by simp
    then have "unat a div 2 ^ 31 < 2" by (simp add: less_mult_imp_div_less)
    moreover have "bit a 31 = bit (unat a) 31" by (simp add: bit_unsigned_iff)
    then have "bit a 31 = odd (unat a div 2 ^ 31)" by (simp only: bit_iff_odd)
    ultimately show ?thesis by (auto elim: oddE)
  qed
  finally show ?thesis by (simp add: div_greater_zero_iff)
qed

definition chain :: "en50221_connection \<Rightarrow> u8 list" where
  "chain k = (case chain_buffer k of Live m \<Rightarrow> m | _ \<Rightarrow> [])"

text \<open>A result of \<open>realloc\<close> for a block of the chain: no block, or a block that starts with the old bytes.\<close>

lemma realloc_chain:
  assumes "chain_ok p n" "unat n \<le> k" "\<not> realloc0_frees w"
  obtains (none) w' where "realloc w p k = Some (w', Null, p)" "\<not> realloc0_frees w'"
  | (some) w' old rest where "realloc w p k = Some (w', Live ((case p of Live m \<Rightarrow> m | _ \<Rightarrow> []) @ rest), old)"
      "length rest = k - unat n" "\<not> realloc0_frees w'"
proof (cases p)
  case Null
  with assms that show ?thesis
    by (cases "os_malloc w (os_now w)") (auto simp: chain_ok_def realloc_def malloc_def)
next
  case (Live m)
  have "realloc0_frees (os_tick w) = realloc0_frees w" by simp
  with Live assms that show ?thesis
    by (cases "os_malloc w (os_now w)") (auto simp: chain_ok_def realloc_def malloc_def)
qed (use assms in \<open>auto simp: chain_ok_def\<close>)

lemma length_chain: "conn_ok k \<Longrightarrow> length (chain k) = unat (buffer_length k) \<and> unat (buffer_length k) < 2 ^ 31"
  by (auto simp: conn_ok_def chain_ok_def chain_def split: cptr.splits)

lemma step_tick: "tl_step t0 tr \<Longrightarrow> tl_step t0 (tr\<lparr>os := os_tick w\<rparr>) \<longleftrightarrow> realloc0_frees w = realloc0_frees (os tr)"
  by (auto simp: tl_step_def tl_inv_def)

lemma wp_extend:
  assumes st: "tl_step t0 tr" and v: "valid_conn tr s c" and len: "length data < 2 ^ 31"
    and none: "\<And>w. tl_step t0 (tr\<lparr>os := w\<rparr>) \<Longrightarrow> Q (put_conn (tr\<lparr>os := w\<rparr>) s c (conn tr s c), None)"
      "\<And>w. tl_step t0 (tr\<lparr>os := w\<rparr>) \<Longrightarrow> Q (tr\<lparr>os := w\<rparr>, None)"
    and some: "\<And>w old m n. \<lbrakk>tl_step t0 (tr\<lparr>os := w\<rparr>); m = chain (conn tr s c) @ data; unat n = length m; unat n < 2 ^ 31\<rbrakk>
      \<Longrightarrow> Q (put_conn (tr\<lparr>os := w\<rparr>) s c ((conn tr s c)\<lparr>chain_buffer := old\<rparr>), Some (m, n))"
  shows "wp (extend_chain tr s c data) Q"
proof -
  let ?k = "conn tr s c"
  let ?n = "buffer_length ?k + of_nat (length data)"
  have ok: "conn_ok ?k" "\<not> realloc0_frees (os tr)"
    using st v by (auto simp: tl_step_def tl_inv_def intro: tl_inv_conn_ok)
  note l = length_chain [OF ok(1)]
  have n: "unat ?n = unat (buffer_length ?k) + length data" using l len by (intro unat_add_lt) simp
  have v': "valid_conn (tr\<lparr>os := w\<rparr>) s c" "conn (tr\<lparr>os := w\<rparr>) s c = ?k" for w
    using v by (simp_all add: valid_conn_def conn_def)
  show ?thesis
  proof (cases "sint ?n < 0")
    case True
    then show ?thesis using v st none(2) by (simp add: extend_chain_def tl_conn_valid wp_Some Let_def step_os)
  next
    case False
    from ok(1) have "chain_ok (chain_buffer ?k) (buffer_length ?k)" by (simp add: conn_ok_def)
    then consider w where "realloc (os tr) (chain_buffer ?k) (unat ?n) = Some (w, Null, chain_buffer ?k)" "\<not> realloc0_frees w"
      | w old rest where "realloc (os tr) (chain_buffer ?k) (unat ?n) = Some (w, Live (chain ?k @ rest), old)"
        "length rest = length data" "\<not> realloc0_frees w"
      by (rule realloc_chain [where k = "unat ?n" and w = "os tr"]) (use n ok(2) in \<open>auto simp: chain_def\<close>)
    then show ?thesis
    proof cases
      case 1
      then have "tl_step t0 (tr\<lparr>os := w\<rparr>)" using st ok(2) by (simp add: step_os)
      with 1 False v v' none(1) show ?thesis
        by (simp add: extend_chain_def tl_conn_valid set_conn_valid wp_Some Let_def)
    next
      case 2
      then have "tl_step t0 (tr\<lparr>os := w\<rparr>)" using st ok(2) by (simp add: step_os)
      from some [OF this refl, of ?n old] 2 False v v' n l show ?thesis
        by (simp add: extend_chain_def tl_conn_valid set_conn_valid wp_Some Let_def blit_def sint_neg_iff)
    qed
  qed
qed


lemma put_os_same: "valid_conn tr s c \<Longrightarrow> put_conn (tr\<lparr>os := w\<rparr>) s c (conn tr s c) = tr\<lparr>os := w\<rparr>"
  by (simp add: put_conn_def valid_conn_def conn_def)

lemma step_put:
  "tl_step t0 tr \<Longrightarrow> valid_conn tr s c \<Longrightarrow> conn_ok k \<Longrightarrow> tl_step t0 (put_conn tr s c k)"
  by (auto simp: tl_step_def tl_inv_put intro: tl_frame_trans)

lemma step_valid:
  "tl_step t0 tr \<Longrightarrow> s < max_slots t0 \<Longrightarrow> c < max_connections_per_slot t0 \<Longrightarrow> valid_conn tr s c"
  by (auto simp: tl_step_def tl_frame_def intro: tl_inv_valid)

text \<open>The extension of a chain followed by an update that makes the buffer consistent again.\<close>

lemma wp_extend_set:
  assumes st0: "tl_step t0 tr" and sc: "s < max_slots t0" "c < max_connections_per_slot t0"
    and len: "length data < 2 ^ 31"
    and none: "\<And>tr'. tl_step t0 tr' \<Longrightarrow> wp (f tr') Q"
    and upd: "\<And>m n k. unat (n :: u32) = length (m :: mem) \<Longrightarrow> unat n < 2 ^ 31 \<Longrightarrow> conn_ok (upd m n k)"
    and some: "\<And>tr' m n. tl_step t0 tr' \<Longrightarrow> m = chain (conn tr s c) @ data \<Longrightarrow> unat n = length m \<Longrightarrow>
      unat n < 2 ^ 31 \<Longrightarrow> wp (g tr' m n) Q"
  shows "wp (extend_chain tr s c data)
    (\<lambda>x. wp (case x of (tr, None) \<Rightarrow> f tr
             | (tr, Some (m, n)) \<Rightarrow> do { tr \<leftarrow> set_conn tr s c (upd m n); g tr m n }) Q)"
proof -
  have v: "valid_conn tr s c" using st0 sc by (rule step_valid)
  have v': "valid_conn (tr\<lparr>os := w\<rparr>) s c" for w using v by (simp add: valid_conn_def)
  have "wp (set_conn (put_conn (tr\<lparr>os := w\<rparr>) s c k) s c (upd m n) \<bind> (\<lambda>tr. g tr m n)) Q"
    if "tl_step t0 (tr\<lparr>os := w\<rparr>)" "m = chain (conn tr s c) @ data" "unat n = length m" "unat n < 2 ^ 31" for w k m n
  proof -
    have "tl_step t0 (put_conn (tr\<lparr>os := w\<rparr>) s c (upd m n k))"
      using that v' upd by (intro step_put) auto
    then show ?thesis using that v' some by (simp add: set_conn_valid wp_Some wp_bind)
  qed
  with v none show ?thesis
    by (intro wp_extend [OF st0 v len]) (simp_all add: put_os_same)
qed

lemma data_more_kept:
  assumes "tl_step t0 tr" "s < max_slots t0" "c < max_connections_per_slot t0" "length data < 2 ^ 31"
  shows "wp (en50221_tl_handle_data_more tr s c data) (kept t0)"
proof -
  have "conn_ok (k\<lparr>chain_buffer := Live m, buffer_length := n\<rparr>)" if "unat n = length m" "unat n < 2 ^ 31" for k m n
    using that by (simp add: conn_ok_def chain_ok_def)
  then show ?thesis
    unfolding en50221_tl_handle_data_more_def using assms
    by (auto intro!: tl_rules wp_extend_set)
qed

section \<open>The contract with the layer above\<close>

text \<open>
  \<open>I\<close> is the invariant of transport layer and client together.  The client promises that its callback
  returns and keeps it; \<open>I\<close> may depend on the part of the state that belongs to the transport layer only through
  \<open>tl_inv\<close>.
\<close>

definition client_step :: "('a tlayer \<Rightarrow> bool) \<Rightarrow> 'a tlayer \<Rightarrow> 'a tlayer \<Rightarrow> bool" where
  "client_step I t0 tr \<longleftrightarrow> I tr \<and> max_slots tr = max_slots t0
     \<and> max_connections_per_slot tr = max_connections_per_slot t0"

locale tl_client =
  fixes call :: "'a tl_call" and I :: "'a tlayer \<Rightarrow> bool"
  assumes I_inv: "I tr \<Longrightarrow> tl_inv tr"
    and I_stable: "I tr \<Longrightarrow> tl_step tr tr' \<Longrightarrow> I tr'"
    and call_ok: "I tr \<Longrightarrow> s < max_slots tr \<Longrightarrow> length data < 2 ^ 31 \<Longrightarrow>
      wp (call f reason data s c tr) (client_step I tr)"
begin

definition keeps :: "'a tlayer \<Rightarrow> 'a tlayer \<times> int \<Rightarrow> bool" where
  "keeps t0 r \<longleftrightarrow> client_step I t0 (fst r)"

lemma keeps_pair [simp]: "keeps t0 (tr, r) = client_step I t0 tr"
  by (simp add: keeps_def)

lemma client_refl: "I tr \<Longrightarrow> client_step I tr tr"
  by (simp add: client_step_def)

lemma client_trans: "client_step I a b \<Longrightarrow> client_step I b c \<Longrightarrow> client_step I a c"
  by (simp add: client_step_def)

lemma step_client: "I t0 \<Longrightarrow> tl_step t0 tr \<Longrightarrow> client_step I t0 tr"
  by (auto simp: client_step_def step_frame intro: I_stable)

lemma kept_keeps: "I tr \<Longrightarrow> wp f (kept tr) \<Longrightarrow> wp f (keeps tr)"
  by (auto simp: wp_def kept_def keeps_def intro: step_client)

lemma wp_upcall [tl_rules]:
  assumes "I t0" "tl_step t0 tr" "s < max_slots t0" "length data < 2 ^ 31"
    and "\<And>tr'. client_step I t0 tr' \<Longrightarrow> Q tr'"
  shows "wp (upcall call reason data s c tr) Q"
proof (cases "tl_callback tr")
  case None
  then show ?thesis using assms by (auto simp: upcall_def wp_Some intro: step_client)
next
  case (Some f)
  have "client_step I t0 tr" using assms by (intro step_client)
  moreover have "wp (call f reason data s c tr) (client_step I tr)"
    using assms \<open>client_step I t0 tr\<close> by (intro call_ok) (auto simp: client_step_def)
  ultimately have "wp (call f reason data s c tr) (client_step I t0)"
    by (auto intro: wp_mono client_trans)
  then show ?thesis using Some assms(5) by (auto simp: upcall_def intro: wp_mono)
qed

lemma create_tc_reply_keeps:
  "I tr \<Longrightarrow> s < max_slots tr \<Longrightarrow> c < max_connections_per_slot tr \<Longrightarrow>
   wp (en50221_tl_handle_create_tc_reply call tr s c) (keeps tr)"
  unfolding en50221_tl_handle_create_tc_reply_def
  by (frule tl_step_refl [OF I_inv]) (auto intro!: tl_rules simp: step_client)

lemma delete_tc_keeps:
  "I tr \<Longrightarrow> s < max_slots tr \<Longrightarrow> c < max_connections_per_slot tr \<Longrightarrow>
   wp (en50221_tl_handle_delete_tc call tr s c) (keeps tr)"
  unfolding en50221_tl_handle_delete_tc_def
  by (frule tl_step_refl [OF I_inv]) (auto intro!: tl_rules simp: step_client drop_chain_ok)

lemma request_tc_keeps:
  "I tr \<Longrightarrow> s < max_slots tr \<Longrightarrow> c < max_connections_per_slot tr \<Longrightarrow>
   wp (en50221_tl_handle_request_tc call tr s c) (keeps tr)"
  unfolding en50221_tl_handle_request_tc_def
  by (frule tl_step_refl [OF I_inv]) (auto intro!: tl_rules simp: step_client)

lemma data_last_keeps:
  "I tr \<Longrightarrow> s < max_slots tr \<Longrightarrow> c < max_connections_per_slot tr \<Longrightarrow> length data < 2 ^ 31 \<Longrightarrow>
   wp (en50221_tl_handle_data_last call tr s c data) (keeps tr)"
  unfolding en50221_tl_handle_data_last_def
  by (frule tl_step_refl [OF I_inv]) (auto intro!: tl_rules wp_extend_set simp: step_client)

lemma tpdu_keeps:
  assumes "I tr" "s < max_slots tr" "c < max_connections_per_slot tr" "length data < 2 ^ 31"
  shows "wp (handle_tpdu call tr s tag c data) (keeps tr)"
proof -
  have st: "tl_step tr tr" using assms I_inv tl_step_refl by blast
  have "wp (fail_slot tr s e) (kept tr)" for e using st by (auto intro!: tl_rules)
  then show ?thesis
    using assms st unfolding handle_tpdu_def
    by (auto intro: create_tc_reply_keeps delete_tc_keeps request_tc_keeps data_last_keeps
        kept_keeps [OF _ delete_tc_reply_kept] kept_keeps [OF _ data_more_kept] kept_keeps [OF _ sb_kept] kept_keeps)
qed

text \<open>Each round of the loop consumes at least two bytes.\<close>

lemma process_data_keeps:
  "I tr \<Longrightarrow> s < max_slots tr \<Longrightarrow> pos + len \<le> length m \<Longrightarrow> length m < 2 ^ 31 \<Longrightarrow>
   wp (en50221_tl_process_data call tr s m pos len) (keeps tr)"
proof (induction len arbitrary: tr pos rule: less_induct)
  case (less len)
  have st: "tl_step tr tr" using less.prems I_inv tl_step_refl by blast
  have bad: "wp (fail_slot tr s e) (keeps tr)" for e
    using less.prems st by (intro kept_keeps) (auto intro!: tl_rules)
  show ?case
  proof (cases "len = 0")
    case True
    with less.prems show ?thesis
      by (subst en50221_tl_process_data.simps) (simp add: wp_Some client_refl)
  next
    case False
    have "pos + 1 + (len - 1) \<le> length m" using less.prems False by simp
    from asn1.dec_safe [OF this] obtain r v where d: "asn_1_decode m (pos + 1) (len - 1) = Some (r, v)"
      and r: "r = -1 \<and> v = None \<or> 1 \<le> r \<and> r \<le> 3 \<and> r \<le> int (len - 1) \<and> v \<noteq> None" by blast
    show ?thesis
    proof (cases "r < 0")
      case True
      with False less.prems d bad show ?thesis
        by (subst en50221_tl_process_data.simps) (simp add: wp_Some)
    next
      case pos_r: False
      with r obtain asn where v: "v = Some asn" and r': "1 \<le> r" "r \<le> int (len - 1)" by auto
      let ?hdr = "Suc (nat r)" and ?n = "unat asn"
      have rec: "wp (en50221_tl_process_data call tr' s m (pos + ?hdr + ?n) (len - ?hdr - ?n)) (keeps tr)"
        if "client_step I tr tr'" "1 \<le> ?n" "?n \<le> len - ?hdr" for tr'
      proof -
        have "wp (en50221_tl_process_data call tr' s m (pos + ?hdr + ?n) (len - ?hdr - ?n)) (keeps tr')"
          using that less.prems r' False by (intro less.IH) (auto simp: client_step_def)
        then show ?thesis by (rule wp_mono) (use that(1) in \<open>auto simp: keeps_def intro: client_trans\<close>)
      qed
      have tpdu: "wp (handle_tpdu call tr s tag c body)
          (\<lambda>x. wp (case x of (tr', result) \<Rightarrow> if result < 0 then Some (tr', -1)
             else en50221_tl_process_data call tr' s m (pos + ?hdr + ?n) (len - ?hdr - ?n)) (keeps tr))"
        if "c < max_connections_per_slot tr" "length body < 2 ^ 31" "1 \<le> ?n" "?n \<le> len - ?hdr" for tag c body
      proof (rule wp_mono [OF tpdu_keeps [OF less.prems(1,2) that(1,2)]])
        fix x
        assume "keeps tr x"
        then show "wp (case x of (tr', result) \<Rightarrow> if result < 0 then Some (tr', -1)
             else en50221_tl_process_data call tr' s m (pos + ?hdr + ?n) (len - ?hdr - ?n)) (keeps tr)"
          using rec [of "fst x"] that(3,4) by (cases x) (simp add: wp_Some)
      qed
      show ?thesis
        using False less.prems d v pos_r r' bad tpdu
        by (subst en50221_tl_process_data.simps)
          (auto simp: Let_def rd_bytes_def not_less not_le wp_bind wp_Some)
    qed
  qed
qed

end

section \<open>Polling\<close>

lemma poll_tc_kept:
  "tl_step t0 tr \<Longrightarrow> s < max_slots t0 \<Longrightarrow> c < max_connections_per_slot t0 \<Longrightarrow>
   wp (en50221_tl_poll_tc tr s c) (kept t0)"
  unfolding en50221_tl_poll_tc_def by (auto intro!: tl_rules)

lemma poll_send_kept:
  "tl_step t0 tr \<Longrightarrow> s < max_slots t0 \<Longrightarrow> c < max_connections_per_slot t0 \<Longrightarrow> wp (poll_send tr s c) (kept t0)"
  unfolding poll_send_def Let_def
  by (rule tl_rules | assumption | simp add: drop_chain_ok wp_Some)+

lemma poll_ask_kept:
  "tl_step t0 tr \<Longrightarrow> s < max_slots t0 \<Longrightarrow> c < max_connections_per_slot t0 \<Longrightarrow> wp (poll_ask tr s c) (kept t0)"
  unfolding poll_ask_def by (auto intro!: tl_rules wp_mono [OF poll_tc_kept] simp: kept_def wp_Some)

lemma poll_timeout_kept:
  "tl_step t0 tr \<Longrightarrow> s < max_slots t0 \<Longrightarrow> c < max_connections_per_slot t0 \<Longrightarrow> wp (poll_timeout tr s c) (kept t0)"
  unfolding poll_timeout_def by (auto intro!: tl_rules)

lemma poll_connection_kept:
  assumes "tl_step t0 tr" "s < max_slots t0" "c < max_connections_per_slot t0"
  shows "wp (poll_connection tr s c) (kept t0)"
  unfolding poll_connection_def using assms
  by (auto intro!: tl_rules wp_mono [OF poll_send_kept] wp_mono [OF poll_ask_kept] poll_timeout_kept simp: kept_def wp_Some)

lemma until_error_kept:
  "(\<And>tr i. tl_step t0 tr \<Longrightarrow> i \<in> set is \<Longrightarrow> wp (f tr i) (kept t0)) \<Longrightarrow> tl_step t0 tr \<Longrightarrow> wp (until_error f tr is) (kept t0)"
proof (induction "is" arbitrary: tr)
  case (Cons i "is")
  from Cons.prems have "wp (f tr i) (kept t0)" by simp
  moreover have "wp (until_error f tr' is) (kept t0)" if "tl_step t0 tr'" for tr'
    using Cons.prems that by (intro Cons.IH) auto
  ultimately show ?case
    unfolding until_error.simps wp_bind by - (erule wp_mono, auto simp: wp_Some)
qed (simp add: wp_Some)

lemma step_slot:
  "tl_inv tr \<Longrightarrow> s < max_slots tr \<Longrightarrow> slot_ok (max_connections_per_slot tr) sl \<Longrightarrow>
   tl_step tr (tr\<lparr>slots := (slots tr)[s := sl]\<rparr>)"
  by (auto simp: tl_step_def tl_inv_def tl_frame_def list_all_length nth_list_update)

context tl_client
begin

lemma until_error_keeps:
  "(\<And>tr i. client_step I t0 tr \<Longrightarrow> i \<in> set is \<Longrightarrow> wp (f tr i) (keeps t0)) \<Longrightarrow> client_step I t0 tr \<Longrightarrow>
   wp (until_error f tr is) (keeps t0)"
proof (induction "is" arbitrary: tr)
  case (Cons i "is")
  from Cons.prems have "wp (f tr i) (keeps t0)" by simp
  moreover have "wp (until_error f tr' is) (keeps t0)" if "client_step I t0 tr'" for tr'
    using Cons.prems that by (intro Cons.IH) auto
  ultimately show ?case
    unfolding until_error.simps wp_bind by - (erule wp_mono, auto simp: wp_Some)
qed (simp add: wp_Some)

lemma poll_read_keeps:
  assumes "I tr" "s < max_slots tr"
  shows "wp (poll_read call tr s) (keeps tr)"
proof -
  let ?w = "fst (dvbca_link_read 4096 (os tr))" and ?r = "snd (dvbca_link_read 4096 (os tr))"
  let ?tr = "tr\<lparr>os := ?w\<rparr>" and ?sl = "slots tr ! s"
  have inv: "tl_inv tr" using assms I_inv by blast
  have st: "tl_step tr ?tr" using inv by (intro step_os tl_step_refl) simp_all
  have sl: "tl_slot tr s = Some ?sl" using inv assms(2) by (simp add: tl_slot_def tl_inv_def)
  have bad: "wp (fail_slot ?tr s e) (keeps tr)" "wp (fail ?tr e) (keeps tr)" for e
    using assms st by - (rule kept_keeps, simp, rule tl_rules, assumption, simp)+
  have process: "wp (do { (tr, r) \<leftarrow> en50221_tl_process_data call ?tr t data 0 (length data);
                          Some (tr, if r \<noteq> 0 then - 1 else 0) }) (keeps tr)"
    if "?r = Some (a, b, data)" "t < max_slots tr" for a b data t
  proof -
    have "length data \<le> 4096"
      using that(1) by (auto simp: dvbca_link_read_def Let_def case_prod_beta split: if_splits option.splits list.splits
          dest!: arg_cong [of _ _ length])
    then have "wp (en50221_tl_process_data call ?tr t data 0 (length data)) (keeps ?tr)"
      using assms st that(2) by (intro process_data_keeps) (auto intro: I_stable)
    then show ?thesis
      unfolding wp_bind by (rule wp_mono) (auto simp: wp_Some keeps_def client_step_def)
  qed
  have target: "t < max_slots tr" if "first_index P (take (max_slots tr) (slots tr)) 0 = Some t" for P t
    using first_index_Some [OF that] by simp
  show ?thesis
    unfolding poll_read_def sl
    using assms st bad process target
    by (auto simp: Let_def case_prod_beta wp_Some step_client split: option.splits)
qed

lemma poll_slot_keeps:
  assumes "I tr" "s < max_slots tr"
  shows "wp (poll_slot call tr s) (keeps tr)"
proof -
  let ?sl = "slots tr ! s"
  let ?revents = "pfd_revents (slot_pollfds tr ! s)"
  define r where "r = (if ?revents AND (POLLPRI OR POLLIN) \<noteq> 0 then poll_read call tr s
            else if ?revents AND POLLERR \<noteq> 0 then fail_slot tr s EN50221ERR_CAREAD
            else Some (tr, 0))"
  have inv: "tl_inv tr" using assms I_inv by blast
  have sl: "tl_slot tr s = Some ?sl" and fd: "s < length (slot_pollfds tr)"
    using inv assms(2) by (simp_all add: tl_slot_def tl_inv_def)
  have "wp r (keeps tr)"
    unfolding r_def using assms poll_read_keeps tl_step_refl [OF inv]
    by (auto intro!: kept_keeps [OF _ wp_fail_slot] simp: wp_Some client_refl)
  moreover have "wp (until_error (\<lambda>tr. poll_connection tr s) tr' [0..<max_connections_per_slot tr']) (keeps tr)"
    if "client_step I tr tr'" for tr'
  proof -
    have "I tr'" using that by (simp add: client_step_def)
    then have "wp (until_error (\<lambda>tr. poll_connection tr s) tr' [0..<max_connections_per_slot tr']) (keeps tr')"
      using that assms(2)
      by (intro kept_keeps until_error_kept) (auto intro: poll_connection_kept tl_step_refl I_inv simp: client_step_def)
    then show ?thesis by (rule wp_mono) (use that in \<open>auto simp: keeps_def intro: client_trans\<close>)
  qed
  ultimately have "wp r (\<lambda>x. wp (case x of (tr, r) \<Rightarrow> if r \<noteq> 0 then Some (tr, r)
       else until_error (\<lambda>tr. poll_connection tr s) tr [0..<max_connections_per_slot tr]) (keeps tr))"
    by - (erule wp_mono, auto simp: wp_Some)
  with assms sl fd show ?thesis
    by (simp only: poll_slot_def sl bind.simps fd if_True r_def [symmetric] wp_bind wp_if) (simp add: wp_Some client_refl)
qed

lemma refresh_step: "tl_inv tr \<Longrightarrow> tl_step tr (refresh_pollfds tr)"
  by (simp add: refresh_pollfds_def tl_step_def tl_inv_def tl_frame_def)

lemma step_pollfds:
  "tl_step t0 tr \<Longrightarrow> length fds = length (slot_pollfds tr) \<Longrightarrow> tl_step t0 (tr\<lparr>slot_pollfds := fds\<rparr>)"
  by (auto simp: tl_step_def tl_inv_def tl_frame_def)

lemma poll_keeps:
  assumes "I tr"
  shows "wp (en50221_tl_poll call tr) (keeps tr)"
proof -
  let ?t1 = "(refresh_pollfds tr)\<lparr>os := os_tick (os (refresh_pollfds tr))\<rparr>"
  have "tl_step tr (refresh_pollfds tr)" using assms I_inv refresh_step by blast
  then have t1: "tl_step tr ?t1" by (rule step_os) simp
  let ?t2 = "\<lambda>rev. ?t1\<lparr>slot_pollfds := map2 (\<lambda>i p. p\<lparr>pfd_revents := rev i\<rparr>) [0..<length (slot_pollfds ?t1)] (slot_pollfds ?t1)\<rparr>"
  have t2: "client_step I tr (?t2 rev)" for rev
    using t1 assms by (intro step_client step_pollfds) simp_all
  have "wp (until_error (poll_slot call) (?t2 rev) [0..<max_slots (?t2 rev)]) (keeps tr)" for rev
  proof (rule until_error_keeps [OF _ t2])
    fix tr' i
    assume tr': "client_step I tr tr'" and i: "i \<in> set [0..<max_slots (?t2 rev)]"
    have "wp (poll_slot call tr' i) (keeps tr')"
      using tr' i t2 [of rev] by (intro poll_slot_keeps) (auto simp: client_step_def)
    then show "wp (poll_slot call tr' i) (keeps tr)"
      by (rule wp_mono) (use tr' in \<open>auto simp: keeps_def intro: client_trans\<close>)
  qed
  moreover have "client_step I tr (?t1\<lparr>tl_error_slot := -1, tl_error := EN50221ERR_CAREAD\<rparr>)"
    using t1 assms by (intro step_client) (simp_all add: tl_step_def)
  ultimately show ?thesis
    unfolding en50221_tl_poll_def Let_def by (simp add: wp_Some split: option.split)
qed

lemma reset_ok: "list_all conn_ok ks \<Longrightarrow> \<exists>ks'. reset_connections ks = Some ks' \<and> length ks' = length ks \<and> list_all conn_ok ks'"
  by (induction ks) (auto simp: reset_connection_def drop_chain_ok)

lemma destroy_slot_keeps:
  assumes "I tr"
  shows "wp (en50221_tl_destroy_slot call tr s) (client_step I tr)"
proof (cases "s < max_slots tr")
  case True
  have inv: "tl_inv tr" using assms I_inv by blast
  have sl: "tl_slot tr s = Some (slots tr ! s)" and ok: "slot_ok (max_connections_per_slot tr) (slots tr ! s)"
    using inv True by (auto simp: tl_slot_def tl_inv_def list_all_length)
  obtain cs where cs: "reset_connections (connections (slots tr ! s)) = Some cs"
    "length cs = max_connections_per_slot tr" "list_all conn_ok cs"
    using ok reset_ok [of "connections (slots tr ! s)"] by (auto simp: slot_ok_def)
  let ?tr = "tr\<lparr>slots := (slots tr)[s := (slots tr ! s)\<lparr>ca_hndl := -1, connections := cs\<rparr>]\<rparr>"
  have "tl_step tr ?tr"
    using inv cs True by (intro step_slot) (simp_all add: slot_ok_def)
  then have "wp (upcall call T_CALLBACK_REASON_SLOTCLOSE [] s 0 ?tr) (client_step I tr)"
    using assms True by (intro wp_upcall) auto
  then have "wp (upcall call T_CALLBACK_REASON_SLOTCLOSE [] s 0 ?tr) (\<lambda>tr'. client_step I tr (tr'\<lparr>slots_changed := True\<rparr>))"
  proof (rule wp_mono)
    fix tr'
    assume c: "client_step I tr tr'"
    then have "I tr'" by (simp add: client_step_def)
    then have "I (tr'\<lparr>slots_changed := True\<rparr>)"
      by (rule I_stable) (use I_inv [OF \<open>I tr'\<close>] in \<open>simp add: tl_step_def\<close>)
    with c show "client_step I tr (tr'\<lparr>slots_changed := True\<rparr>)" by (simp add: client_step_def)
  qed
  with True sl cs(1) show ?thesis by (simp add: en50221_tl_destroy_slot_def wp_bind wp_Some)
qed (use assms in \<open>simp add: en50221_tl_destroy_slot_def wp_Some client_refl\<close>)

end

end
