(* ===== verification/En50221_Session.thy ===== *)
theory En50221_Session
  imports En50221_Transport_Inv
begin

text \<open>
  \<open>lib/libdvben50221/en50221_session.c\<close>: sessions between resources of the host and the module, carried by
  the transport connections.

  \<open>en50221_session_layer\<close> extends the record of the transport layer it was created on, as the structure
  holds a pointer to it; the extension of this record in turn belongs to the applications.  The three kinds of
  callbacks into the applications (resource lookup, session events, data of a session) are function pointers;
  \<open>upper\<close> interprets them; a pointer stands for the function together with the
  argument registered with it.  Slots, connections and session numbers are \<open>uint8_t\<close>, \<open>uint8_t\<close> and
  \<open>uint16_t\<close> values given as naturals.  The messages the code prints are left out.
\<close>

section \<open>The state\<close>

definition S_STATUS_OPEN :: int where "S_STATUS_OPEN = 0x00"
definition S_STATUS_CLOSE_NO_RES :: int where "S_STATUS_CLOSE_NO_RES = 0xF0"
definition S_STATUS_CLOSE_RES_UNAVAILABLE :: int where "S_STATUS_CLOSE_RES_UNAVAILABLE = 0xF1"
definition S_STATUS_CLOSE_RES_LOW_VERSION :: int where "S_STATUS_CLOSE_RES_LOW_VERSION = 0xF2"
definition S_STATUS_CLOSE_RES_BUSY :: int where "S_STATUS_CLOSE_RES_BUSY = 0xF3"

lemmas s_status = S_STATUS_OPEN_def S_STATUS_CLOSE_NO_RES_def S_STATUS_CLOSE_RES_UNAVAILABLE_def
  S_STATUS_CLOSE_RES_LOW_VERSION_def S_STATUS_CLOSE_RES_BUSY_def

definition ST_OPEN_SESSION_REQ :: u8 where "ST_OPEN_SESSION_REQ = 0x91"
definition ST_OPEN_SESSION_RES :: u8 where "ST_OPEN_SESSION_RES = 0x92"
definition ST_CREATE_SESSION :: u8 where "ST_CREATE_SESSION = 0x93"
definition ST_CREATE_SESSION_RES :: u8 where "ST_CREATE_SESSION_RES = 0x94"
definition ST_CLOSE_SESSION_REQ :: u8 where "ST_CLOSE_SESSION_REQ = 0x95"
definition ST_CLOSE_SESSION_RES :: u8 where "ST_CLOSE_SESSION_RES = 0x96"
definition ST_SESSION_NUMBER :: u8 where "ST_SESSION_NUMBER = 0x90"

lemmas spdu_tags = ST_OPEN_SESSION_REQ_def ST_OPEN_SESSION_RES_def ST_CREATE_SESSION_def ST_CREATE_SESSION_RES_def
  ST_CLOSE_SESSION_REQ_def ST_CLOSE_SESSION_RES_def ST_SESSION_NUMBER_def

datatype s_state = S_STATE_IDLE | S_STATE_ACTIVE | S_STATE_IN_CREATION | S_STATE_IN_DELETION

datatype s_reason = S_SCALLBACK_REASON_CAMCONNECTING | S_SCALLBACK_REASON_CAMCONNECTED
  | S_SCALLBACK_REASON_CAMCONNECTFAIL | S_SCALLBACK_REASON_CONNECTED | S_SCALLBACK_REASON_CONNECTFAIL
  | S_SCALLBACK_REASON_CLOSE | S_SCALLBACK_REASON_TC_CONNECT | S_SCALLBACK_REASON_TC_CAMCONNECT

definition EN50221ERR_IOVLIMIT :: int where "EN50221ERR_IOVLIMIT = -12"
definition EN50221ERR_BADSESSIONNUMBER :: int where "EN50221ERR_BADSESSIONNUMBER = -13"
definition EN50221ERR_OUTOFSESSIONS :: int where "EN50221ERR_OUTOFSESSIONS = -14"

record en50221_session =
  sess_state :: s_state
  resource_id :: u32
  slot_id :: nat
  connection_id :: nat
  sess_callback :: "fptr option"

record en50221_session_layer = en50221_transport_layer +
  max_sessions :: nat
  lookup :: "fptr option"
  session :: "fptr option"
  sl_error :: int
  sessions :: "en50221_session list"

type_synonym 'a slayer = "'a en50221_session_layer_scheme"

text \<open>The applications: a lookup returns its result with the callback and the resource number it stored, if it
  stored them.\<close>

record 'a upper =
  up_lookup :: "fptr \<Rightarrow> nat \<Rightarrow> u32 \<Rightarrow> 'a slayer \<Rightarrow> ('a slayer \<times> int \<times> fptr option \<times> u32 option) option"
  up_session :: "fptr \<Rightarrow> s_reason \<Rightarrow> nat \<Rightarrow> nat \<Rightarrow> u32 \<Rightarrow> 'a slayer \<Rightarrow> ('a slayer \<times> int) option"
  up_resource :: "fptr \<Rightarrow> nat \<Rightarrow> nat \<Rightarrow> u32 \<Rightarrow> u8 list \<Rightarrow> 'a slayer \<Rightarrow> ('a slayer \<times> int) option"

section \<open>Access to sessions\<close>

definition sl_session :: "'a slayer \<Rightarrow> nat \<Rightarrow> en50221_session option" where
  "sl_session sl n = (if n < length (sessions sl) then Some (sessions sl ! n) else None)"

definition set_session :: "'a slayer \<Rightarrow> nat \<Rightarrow> (en50221_session \<Rightarrow> en50221_session) \<Rightarrow> 'a slayer option" where
  "set_session sl n f = do { x \<leftarrow> sl_session sl n; Some (sl\<lparr>sessions := (sessions sl)[n := f x]\<rparr>) }"

text \<open>A call of the session callback \<open>cb\<close>, if there is one; the session number is passed as a \<open>uint16_t\<close>.\<close>

definition notify :: "'a upper \<Rightarrow> fptr option \<Rightarrow> s_reason \<Rightarrow> nat \<Rightarrow> nat \<Rightarrow> u32 \<Rightarrow> 'a slayer \<Rightarrow> 'a slayer option" where
  "notify up cb reason s n rid sl =
     (case cb of None \<Rightarrow> Some sl
      | Some f \<Rightarrow> do { (sl, _) \<leftarrow> up_session up f reason s (n mod 65536) rid sl; Some sl })"

definition session_event :: "'a upper \<Rightarrow> s_reason \<Rightarrow> nat \<Rightarrow> nat \<Rightarrow> u32 \<Rightarrow> 'a slayer \<Rightarrow> 'a slayer option" where
  "session_event up reason s n rid sl = notify up (session sl) reason s n rid sl"

text \<open>The bytes of a session number, an \<open>int\<close> that may be -1.\<close>

definition number_bytes :: "int \<Rightarrow> u8 list" where
  "number_bytes n = [of_int (n div 256), of_int n]"

definition resource_bytes :: "u32 \<Rightarrow> u8 list" where
  "resource_bytes r = [ucast (drop_bit 24 r), ucast (drop_bit 16 r), ucast (drop_bit 8 r), ucast r]"

section \<open>Requests of the host\<close>

text \<open>\<open>en50221_sl_create\<close> on a transport layer; the fields of a session other than its state and its callback hold what was in
  memory.\<close>

definition junk32 :: "os \<Rightarrow> nat \<Rightarrow> u32" where
  "junk32 w i = be32 (os_junk w i) (os_junk w (i + 1)) (os_junk w (i + 2)) (os_junk w (i + 3))"

definition new_session :: "os \<Rightarrow> nat \<Rightarrow> en50221_session" where
  "new_session w i = \<lparr>sess_state = S_STATE_IDLE, resource_id = junk32 w (6 * i), slot_id = unat (os_junk w (6 * i + 4)),
     connection_id = unat (os_junk w (6 * i + 5)), sess_callback = None\<rparr>"

definition sl_transport_callback :: fptr where "sl_transport_callback = 1"

definition en50221_sl_create :: "en50221_transport_layer \<Rightarrow> nat \<Rightarrow> 'a \<Rightarrow> en50221_transport_layer + 'a slayer" where
  "en50221_sl_create tr maxn app =
     (let (tr, ok) = tl_malloc tr in
      if \<not> ok then Inl tr
      else let (tr, ok) = tl_malloc tr in
      if \<not> ok then Inl tr
      else Inr (en50221_transport_layer.extend
        (en50221_tl_register_callback tr (Some sl_transport_callback))
        \<lparr>max_sessions = maxn, lookup = None, session = None, sl_error = 0,
         sessions = map (new_session (os tr)) [0..<maxn], \<dots> = app\<rparr>))"

definition en50221_sl_get_error :: "'a slayer \<Rightarrow> int" where
  "en50221_sl_get_error sl = sl_error sl"

definition en50221_sl_register_lookup_callback :: "'a slayer \<Rightarrow> fptr option \<Rightarrow> 'a slayer" where
  "en50221_sl_register_lookup_callback sl f = sl\<lparr>lookup := f\<rparr>"

definition en50221_sl_register_session_callback :: "'a slayer \<Rightarrow> fptr option \<Rightarrow> 'a slayer" where
  "en50221_sl_register_session_callback sl f = sl\<lparr>session := f\<rparr>"

definition en50221_sl_alloc_new_session ::
  "'a slayer \<Rightarrow> u32 \<Rightarrow> nat \<Rightarrow> nat \<Rightarrow> fptr option \<Rightarrow> ('a slayer \<times> int) option" where
  "en50221_sl_alloc_new_session sl rid s c cb =
     (case first_index (\<lambda>x. sess_state x = S_STATE_IDLE) (List.tl (take (max_sessions sl) (sessions sl))) 1 of
        None \<Rightarrow> Some (sl\<lparr>sl_error := EN50221ERR_OUTOFSESSIONS\<rparr>, -1)
      | Some n \<Rightarrow> do {
          sl \<leftarrow> set_session sl n (\<lambda>x. x\<lparr>sess_state := S_STATE_IN_CREATION, resource_id := rid, slot_id := s,
                  connection_id := c, sess_callback := cb\<rparr>);
          Some (sl, int n) })"

text \<open>A failed transmission takes back the state \<open>st\<close> of the session.\<close>

definition undo_session :: "'a slayer \<Rightarrow> nat \<Rightarrow> s_state \<Rightarrow> ('a slayer \<times> int) option" where
  "undo_session sl n st =
     do { sl \<leftarrow> set_session sl n (\<lambda>x. if sess_state x = st then x\<lparr>sess_state := S_STATE_IDLE\<rparr> else x);
          Some (sl\<lparr>sl_error := en50221_tl_get_error sl\<rparr>, -1) }"

text \<open>The slot is an \<open>int\<close> here and a \<open>uint8_t\<close> in everything that is called.\<close>

definition en50221_sl_create_session ::
  "'a slayer \<Rightarrow> int \<Rightarrow> nat \<Rightarrow> u32 \<Rightarrow> fptr option \<Rightarrow> ('a slayer \<times> int) option" where
  "en50221_sl_create_session sl slot c rid cb =
     do {
       let s = nat (slot mod 256);
       (sl, session_number) \<leftarrow> en50221_sl_alloc_new_session sl rid s c cb;
       if session_number = -1 then Some (sl, -1)
       else do {
         (sl, r) \<leftarrow> en50221_tl_send_data sl s c ([ST_CREATE_SESSION, 6] @ resource_bytes rid @ number_bytes session_number);
         if r \<noteq> 0 then undo_session sl (nat session_number) S_STATE_IN_CREATION
         else Some (sl, session_number) } }"

definition en50221_sl_destroy_session :: "'a slayer \<Rightarrow> nat \<Rightarrow> ('a slayer \<times> int) option" where
  "en50221_sl_destroy_session sl n =
     (if n \<ge> max_sessions sl then Some (sl\<lparr>sl_error := EN50221ERR_BADSESSIONNUMBER\<rparr>, -1)
      else do {
        x \<leftarrow> sl_session sl n;
        if sess_state x \<notin> {S_STATE_ACTIVE, S_STATE_IN_DELETION}
        then Some (sl\<lparr>sl_error := EN50221ERR_BADSESSIONNUMBER\<rparr>, -1)
        else do {
          sl \<leftarrow> set_session sl n (\<lambda>x. x\<lparr>sess_state := S_STATE_IN_DELETION\<rparr>);
          (sl, r) \<leftarrow> en50221_tl_send_data sl (slot_id x) (connection_id x) ([ST_CLOSE_SESSION_REQ, 2] @ number_bytes (int n));
          if r \<noteq> 0 then undo_session sl n S_STATE_IN_DELETION else Some (sl, 0) } })"

definition en50221_sl_send_datav :: "'a slayer \<Rightarrow> nat \<Rightarrow> u8 list list \<Rightarrow> ('a slayer \<times> int) option" where
  "en50221_sl_send_datav sl n vector =
     (if n \<ge> max_sessions sl then Some (sl\<lparr>sl_error := EN50221ERR_BADSESSIONNUMBER\<rparr>, -1)
      else do {
        x \<leftarrow> sl_session sl n;
        if sess_state x \<noteq> S_STATE_ACTIVE then Some (sl\<lparr>sl_error := EN50221ERR_BADSESSIONNUMBER\<rparr>, -1)
        else if length vector > 9 then Some (sl\<lparr>sl_error := EN50221ERR_IOVLIMIT\<rparr>, -1)
        else do {
          (sl, r) \<leftarrow> en50221_tl_send_datav sl (slot_id x) (connection_id x) (([ST_SESSION_NUMBER, 2] @ number_bytes (int n)) # vector);
          if r \<noteq> 0 then Some (sl\<lparr>sl_error := en50221_tl_get_error sl\<rparr>, -1) else Some (sl, 0) } })"

text \<open>\<open>en50221_sl_send_data\<close> is the same for a vector of one buffer; its length is a \<open>uint16_t\<close>.\<close>

definition en50221_sl_send_data :: "'a slayer \<Rightarrow> nat \<Rightarrow> u8 list \<Rightarrow> ('a slayer \<times> int) option" where
  "en50221_sl_send_data sl n data = en50221_sl_send_datav sl n [take (length data mod 65536) data]"

text \<open>A slot of -1 stands for all slots.\<close>

primrec broadcast_loop :: "int \<Rightarrow> u32 \<Rightarrow> u8 list \<Rightarrow> 'a slayer \<Rightarrow> nat list \<Rightarrow> 'a slayer option" where
  "broadcast_loop s rid data sl [] = Some sl"
| "broadcast_loop s rid data sl (i # is) =
     do {
       x \<leftarrow> sl_session sl i;
       sl \<leftarrow> (if sess_state x = S_STATE_ACTIVE \<and> (s = -1 \<or> s = int (slot_id x)) \<and> resource_id x = rid
              then do { (sl, r) \<leftarrow> en50221_sl_send_data sl (i mod 65536) data; Some sl } else Some sl);
       broadcast_loop s rid data sl is }"

definition en50221_sl_broadcast_data :: "'a slayer \<Rightarrow> int \<Rightarrow> u32 \<Rightarrow> u8 list \<Rightarrow> ('a slayer \<times> int) option" where
  "en50221_sl_broadcast_data sl s rid data =
     do { sl \<leftarrow> broadcast_loop s rid data sl [0..<max_sessions sl]; Some (sl, 0) }"

section \<open>Messages of the module\<close>

text \<open>The lookup of a resource: status, callback and the number of the connected resource, which is
  not initialised.\<close>

definition lookup_status :: "int \<Rightarrow> int" where
  "lookup_status r =
     (if r = 0 then S_STATUS_OPEN else if r = -1 then S_STATUS_CLOSE_NO_RES
      else if r = -2 then S_STATUS_CLOSE_RES_LOW_VERSION else if r = -3 then S_STATUS_CLOSE_RES_UNAVAILABLE else r)"

definition lookup_resource :: "'a upper \<Rightarrow> 'a slayer \<Rightarrow> nat \<Rightarrow> u32 \<Rightarrow> ('a slayer \<times> int \<times> fptr option \<times> u32) option" where
  "lookup_resource up sl s requested =
     (let junk = junk32 (os sl) 0 in
      case lookup sl of
        None \<Rightarrow> Some (sl, S_STATUS_CLOSE_NO_RES, None, junk)
      | Some lcb \<Rightarrow> do {
          (sl, r, cb, rid) \<leftarrow> up_lookup up lcb s requested sl;
          Some (sl, lookup_status r, cb, case rid of None \<Rightarrow> junk | Some rid \<Rightarrow> rid) })"

text \<open>A session for a resource that was found, if the application agrees.\<close>

definition admit_session :: "'a upper \<Rightarrow> 'a slayer \<Rightarrow> nat \<Rightarrow> nat \<Rightarrow> fptr option \<Rightarrow> u32 \<Rightarrow> ('a slayer \<times> int \<times> int) option" where
  "admit_session up sl s c cb rid =
     do {
       (sl, session_number) \<leftarrow> en50221_sl_alloc_new_session sl rid s c cb;
       if session_number = -1 then Some (sl, S_STATUS_CLOSE_NO_RES, -1)
       else case session sl of
         None \<Rightarrow> Some (sl, S_STATUS_CLOSE_RES_UNAVAILABLE, session_number)
       | Some f \<Rightarrow> do {
           (sl, r) \<leftarrow> up_session up f S_SCALLBACK_REASON_CAMCONNECTING s (nat session_number mod 65536) rid sl;
           Some (sl, if r \<noteq> 0 then S_STATUS_CLOSE_RES_BUSY else S_STATUS_OPEN, session_number) } }"

text \<open>The end of the handler, for a session that was allocated.  The branch for
  \<open>S_SCALLBACK_REASON_CAMCONNECTFAIL\<close> is inside a test for the active state, which the status excludes.\<close>

definition settle_session :: "'a upper \<Rightarrow> 'a slayer \<Rightarrow> nat \<Rightarrow> nat \<Rightarrow> int \<Rightarrow> u32 \<Rightarrow> 'a slayer option" where
  "settle_session up sl s n status rid =
     do {
       sl \<leftarrow> set_session sl n (\<lambda>x. x\<lparr>sess_state := if status \<noteq> S_STATUS_OPEN then S_STATE_IDLE else S_STATE_ACTIVE\<rparr>);
       x \<leftarrow> sl_session sl n;
       if sess_state x = S_STATE_ACTIVE then
         if status = S_STATUS_OPEN then session_event up S_SCALLBACK_REASON_CAMCONNECTED s n rid sl
         else do {
           sl \<leftarrow> set_session sl n (\<lambda>x. x\<lparr>sess_state := S_STATE_IDLE\<rparr>);
           session_event up S_SCALLBACK_REASON_CAMCONNECTFAIL s n rid sl }
       else Some sl }"

definition en50221_sl_handle_open_session_request ::
  "'a upper \<Rightarrow> 'a slayer \<Rightarrow> u8 list \<Rightarrow> nat \<Rightarrow> nat \<Rightarrow> 'a slayer option" where
  "en50221_sl_handle_open_session_request up sl data s c =
     (if length data < 5 then Some sl
      else do {
        d0 \<leftarrow> rd data 0;
        if d0 \<noteq> 4 then Some sl
        else do {
          d1 \<leftarrow> rd data 1; d2 \<leftarrow> rd data 2; d3 \<leftarrow> rd data 3; d4 \<leftarrow> rd data 4;
          (sl, status, cb, rid) \<leftarrow> lookup_resource up sl s (be32 d1 d2 d3 d4);
          (sl, status, session_number) \<leftarrow>
            (if status = S_STATUS_OPEN then admit_session up sl s c cb rid else Some (sl, status, -1));
          (sl, r) \<leftarrow> en50221_tl_send_data sl s c
            ([ST_OPEN_SESSION_RES, 7, of_int status] @ resource_bytes rid @ number_bytes session_number);
          let status = (if r \<noteq> 0 then S_STATUS_CLOSE_NO_RES else status);
          if session_number \<noteq> -1 then settle_session up sl s (nat session_number) status rid else Some sl } })"

definition en50221_sl_handle_close_session_request ::
  "'a upper \<Rightarrow> 'a slayer \<Rightarrow> u8 list \<Rightarrow> nat \<Rightarrow> nat \<Rightarrow> 'a slayer option" where
  "en50221_sl_handle_close_session_request up sl data s c =
     (if length data < 3 then Some sl
      else do {
        d0 \<leftarrow> rd data 0;
        if d0 \<noteq> 2 then Some sl
        else do {
          d1 \<leftarrow> rd data 1; d2 \<leftarrow> rd data 2;
          let n = unat (be16 d1 d2);
          (sl, code, rid) \<leftarrow>
            (if n \<ge> max_sessions sl then Some (sl, 0xF0, 0)
             else do {
               x \<leftarrow> sl_session sl n;
               let code = (if s \<noteq> slot_id x \<or> c \<noteq> connection_id x \<or> sess_state x \<notin> {S_STATE_ACTIVE, S_STATE_IN_DELETION}
                           then 0xF0 else 0);
               sl \<leftarrow> (if code = 0 then set_session sl n (\<lambda>x. x\<lparr>sess_state := S_STATE_IDLE\<rparr>) else Some sl);
               Some (sl, code, resource_id x) });
          (sl, r) \<leftarrow> en50221_tl_send_data sl s c ([ST_CLOSE_SESSION_RES, 3, code] @ number_bytes (int n));
          if code = 0 then session_event up S_SCALLBACK_REASON_CLOSE s n rid sl else Some sl } })"

definition en50221_sl_handle_create_session_response ::
  "'a upper \<Rightarrow> 'a slayer \<Rightarrow> u8 list \<Rightarrow> nat \<Rightarrow> nat \<Rightarrow> 'a slayer option" where
  "en50221_sl_handle_create_session_response up sl data s c =
     (if length data < 8 then Some sl
      else do {
        d0 \<leftarrow> rd data 0;
        if d0 \<noteq> 7 then Some sl
        else do {
          d5 \<leftarrow> rd data 5; d6 \<leftarrow> rd data 6;
          let n = unat (be16 d5 d6);
          if n \<ge> max_sessions sl then Some sl
          else do {
            x \<leftarrow> sl_session sl n;
            if s \<noteq> slot_id x \<or> c \<noteq> connection_id x \<or> sess_state x \<noteq> S_STATE_IN_CREATION then Some sl
            else do {
              d1 \<leftarrow> rd data 1;
              if d1 \<noteq> of_int S_STATUS_OPEN then do {
                sl \<leftarrow> set_session sl n (\<lambda>x. x\<lparr>sess_state := S_STATE_IDLE\<rparr>);
                session_event up S_SCALLBACK_REASON_CONNECTFAIL s n (resource_id x) sl }
              else do {
                sl \<leftarrow> set_session sl n (\<lambda>x. x\<lparr>sess_state := S_STATE_ACTIVE\<rparr>);
                session_event up S_SCALLBACK_REASON_CONNECTED s n (resource_id x) sl } } } } })"

definition en50221_sl_handle_close_session_response ::
  "'a slayer \<Rightarrow> u8 list \<Rightarrow> nat \<Rightarrow> nat \<Rightarrow> 'a slayer option" where
  "en50221_sl_handle_close_session_response sl data s c =
     (if length data < 5 then Some sl
      else do {
        d0 \<leftarrow> rd data 0;
        if d0 \<noteq> 4 then Some sl
        else do {
          d2 \<leftarrow> rd data 2; d3 \<leftarrow> rd data 3;
          let n = unat (be16 d2 d3);
          if n \<ge> max_sessions sl then Some sl
          else do {
            x \<leftarrow> sl_session sl n;
            if s \<noteq> slot_id x \<or> c \<noteq> connection_id x \<or> sess_state x \<noteq> S_STATE_IN_DELETION then Some sl
            else set_session sl n (\<lambda>x. x\<lparr>sess_state := S_STATE_IDLE\<rparr>) } } })"

text \<open>The loop over the APDUs of a package: \<open>len\<close> bytes of \<open>data\<close> from \<open>pos\<close> on.\<close>

partial_function (option) apdu_loop ::
  "'a upper \<Rightarrow> 'a slayer \<Rightarrow> fptr option \<Rightarrow> nat \<Rightarrow> nat \<Rightarrow> u32 \<Rightarrow> mem \<Rightarrow> nat \<Rightarrow> nat \<Rightarrow> 'a slayer option" where
  "apdu_loop up sl cb s n rid data pos len =
     (if len = 0 then Some sl
      else if len < 3 then Some sl
      else do {
        (length_field_len, v) \<leftarrow> asn_1_decode data (pos + 3) (len - 3);
        if length_field_len < 0 then Some sl
        else do {
          asn_data_length \<leftarrow> v;
          let apdu_length = 3 + nat length_field_len + unat asn_data_length;
          if apdu_length > len then Some sl
          else do {
            apdu \<leftarrow> rd_bytes data pos apdu_length;
            sl \<leftarrow> (case cb of None \<Rightarrow> Some sl
                   | Some f \<Rightarrow> do { (sl, _) \<leftarrow> up_resource up f s n rid apdu sl; Some sl });
            apdu_loop up sl cb s n rid data (pos + apdu_length) (len - apdu_length) } } })"

declare apdu_loop.simps [code]

definition en50221_sl_handle_session_package ::
  "'a upper \<Rightarrow> 'a slayer \<Rightarrow> u8 list \<Rightarrow> nat \<Rightarrow> nat \<Rightarrow> 'a slayer option" where
  "en50221_sl_handle_session_package up sl data s c =
     (if length data < 3 then Some sl
      else do {
        d0 \<leftarrow> rd data 0;
        if d0 \<noteq> 2 then Some sl
        else do {
          d1 \<leftarrow> rd data 1; d2 \<leftarrow> rd data 2;
          let n = unat (be16 d1 d2);
          if n \<ge> max_sessions sl then Some sl
          else do {
            x \<leftarrow> sl_session sl n;
            if s \<noteq> slot_id x \<or> c \<noteq> connection_id x \<or> sess_state x \<noteq> S_STATE_ACTIVE then Some sl
            else apdu_loop up sl (sess_callback x) s n (resource_id x) data 3 (length data - 3) } } })"

text \<open>The loops over the sessions when a connection or a slot is closed; \<open>sel\<close> is the test, \<open>cb\<close> the session
  callback, which is read once.  The event names the slot of the session.\<close>

primrec close_sessions ::
  "'a upper \<Rightarrow> fptr option \<Rightarrow> (en50221_session \<Rightarrow> bool) \<Rightarrow> 'a slayer \<Rightarrow> nat list \<Rightarrow> 'a slayer option" where
  "close_sessions up cb sel sl [] = Some sl"
| "close_sessions up cb sel sl (i # is) =
     do {
       x \<leftarrow> sl_session sl i;
       sl \<leftarrow> (if sess_state x \<noteq> S_STATE_IDLE \<and> sel x then do {
                sl \<leftarrow> set_session sl i (\<lambda>x. x\<lparr>sess_state := S_STATE_IDLE\<rparr>);
                notify up cb S_SCALLBACK_REASON_CLOSE (slot_id x) i (resource_id x) sl }
              else Some sl);
       close_sessions up cb sel sl is }"

definition sl_data :: "'a upper \<Rightarrow> 'a slayer \<Rightarrow> u8 list \<Rightarrow> nat \<Rightarrow> nat \<Rightarrow> 'a slayer option" where
  "sl_data up sl data s c =
     (case data of
        [] \<Rightarrow> Some sl
      | spdu_tag # rest \<Rightarrow>
          if spdu_tag = ST_OPEN_SESSION_REQ then en50221_sl_handle_open_session_request up sl rest s c
          else if spdu_tag = ST_CLOSE_SESSION_REQ then en50221_sl_handle_close_session_request up sl rest s c
          else if spdu_tag = ST_SESSION_NUMBER then en50221_sl_handle_session_package up sl rest s c
          else if spdu_tag = ST_CREATE_SESSION_RES then en50221_sl_handle_create_session_response up sl rest s c
          else if spdu_tag = ST_CLOSE_SESSION_RES then en50221_sl_handle_close_session_response sl rest s c
          else Some sl)"

definition en50221_sl_transport_callback ::
  "'a upper \<Rightarrow> fptr \<Rightarrow> t_reason \<Rightarrow> u8 list \<Rightarrow> nat \<Rightarrow> nat \<Rightarrow> 'a slayer \<Rightarrow> 'a slayer option" where
  "en50221_sl_transport_callback up f reason data s c sl =
     (case reason of
        T_CALLBACK_REASON_DATA \<Rightarrow> sl_data up sl data s c
      | T_CALLBACK_REASON_CONNECTIONOPEN \<Rightarrow> session_event up S_SCALLBACK_REASON_TC_CONNECT s c 0 sl
      | T_CALLBACK_REASON_CAMCONNECTIONOPEN \<Rightarrow> session_event up S_SCALLBACK_REASON_TC_CAMCONNECT s c 0 sl
      | T_CALLBACK_REASON_CONNECTIONCLOSE \<Rightarrow> close_sessions up (session sl) (\<lambda>x. connection_id x = c) sl [0..<max_sessions sl]
      | T_CALLBACK_REASON_SLOTCLOSE \<Rightarrow> close_sessions up (session sl) (\<lambda>x. slot_id x = s) sl [0..<max_sessions sl])"

end
