(* ===== verification/En50221_Session_Inv.thy ===== *)
theory En50221_Session_Inv
  imports En50221_Session
begin

text \<open>
  The invariant of the session layer and that every operation keeps it.

  \<open>sl_inv\<close> adds to the invariant of the transport layer that the array of sessions has its
  declared size and that session 0, which the code never allocates, is idle.  The locale \<open>sl_client\<close> is the contract
  with the applications; it gives the contract \<open>tl_client\<close> that the transport layer asks of
  the session layer, so polling keeps the invariants of all three layers.
\<close>

named_theorems sl_rules \<open>weakest precondition rules that keep the session layer invariant\<close>
named_theorems app_rules \<open>weakest precondition rules that keep the invariant of the applications\<close>

section \<open>The invariant\<close>

definition sl_inv :: "'a slayer \<Rightarrow> bool" where
  "sl_inv sl \<longleftrightarrow> tl_inv sl \<and> length (sessions sl) = max_sessions sl
     \<and> (0 < max_sessions sl \<longrightarrow> sess_state (sessions sl ! 0) = S_STATE_IDLE)"

definition sl_step :: "'a slayer \<Rightarrow> 'a slayer \<Rightarrow> bool" where
  "sl_step s0 sl \<longleftrightarrow> sl_inv sl \<and> max_slots sl = max_slots s0
     \<and> max_connections_per_slot sl = max_connections_per_slot s0 \<and> tl_callback sl = tl_callback s0
     \<and> max_sessions sl = max_sessions s0 \<and> lookup sl = lookup s0 \<and> session sl = session s0
     \<and> en50221_session_layer.more sl = en50221_session_layer.more s0"

text \<open>The part of the state above the transport layer is the extension of its record.\<close>

lemma more_fields:
  fixes sl sl' :: "'a slayer"
  assumes "en50221_transport_layer.more sl' = en50221_transport_layer.more sl"
  shows "max_sessions sl' = max_sessions sl" "lookup sl' = lookup sl" "session sl' = session sl"
    "sl_error sl' = sl_error sl" "sessions sl' = sessions sl"
    "en50221_session_layer.more sl' = en50221_session_layer.more sl"
  using assms by (cases sl; cases sl'; simp)+

lemma step_tl:
  assumes "sl_inv sl" "tl_step sl sl'"
  shows "sl_step sl sl'"
  using assms more_fields [of sl' sl] by (simp add: sl_step_def sl_inv_def tl_step_def tl_frame_def)

lemma sl_step_refl: "sl_inv sl \<Longrightarrow> sl_step sl sl"
  by (simp add: sl_step_def)

lemma sl_step_trans: "sl_step a b \<Longrightarrow> sl_step b c \<Longrightarrow> sl_step a c"
  by (simp add: sl_step_def)

lemma sl_step_inv: "sl_step s0 sl \<Longrightarrow> sl_inv sl"
  by (simp add: sl_step_def)

lemma sl_step_tl_inv: "sl_step s0 sl \<Longrightarrow> tl_inv sl"
  by (simp add: sl_step_def sl_inv_def)

lemma tl_inv_more [simp]:
  "tl_inv (sl\<lparr>sl_error := e\<rparr>) = tl_inv sl"
  "tl_inv (sl\<lparr>sessions := xs\<rparr>) = tl_inv sl"
  by (simp_all add: tl_inv_def)

lemma step_sl_error: "sl_step s0 sl \<Longrightarrow> sl_step s0 (sl\<lparr>sl_error := e\<rparr>)"
  by (simp add: sl_step_def sl_inv_def)

lemma step_set_session:
  assumes "sl_step s0 sl" "n = 0 \<Longrightarrow> sess_state x = S_STATE_IDLE"
  shows "sl_step s0 (sl\<lparr>sessions := (sessions sl)[n := x]\<rparr>)"
  using assms by (cases "n = 0") (auto simp: sl_step_def sl_inv_def)

definition sl_kept :: "'a slayer \<Rightarrow> 'a slayer \<times> int \<Rightarrow> bool" where
  "sl_kept s0 r \<longleftrightarrow> sl_step s0 (fst r)"

lemma sl_kept_pair [simp]: "sl_kept s0 (sl, r) = sl_step s0 sl"
  by (simp add: sl_kept_def)

section \<open>Rules for the basic steps\<close>

lemmas sl_control = wp_bindI wp_SomeI wp_ifI wp_pair
declare sl_control [sl_rules]

lemma wp_session [sl_rules]:
  "sl_step s0 sl \<Longrightarrow> n < max_sessions s0 \<Longrightarrow> Q (sessions sl ! n) \<Longrightarrow> wp (sl_session sl n) Q"
  by (simp add: sl_session_def sl_step_def sl_inv_def wp_Some)

lemma wp_set_session:
  assumes "sl_step s0 sl" "n < max_sessions s0"
    and "n = 0 \<Longrightarrow> sess_state (sessions sl ! n) = S_STATE_IDLE \<Longrightarrow> sess_state (f (sessions sl ! n)) = S_STATE_IDLE"
    and "\<And>sl'. sl_step s0 sl' \<Longrightarrow> Q sl'"
  shows "wp (set_session sl n f) Q"
proof -
  have "n < length (sessions sl)" "n = 0 \<Longrightarrow> sess_state (f (sessions sl ! n)) = S_STATE_IDLE"
    using assms(1-3) by (auto simp: sl_step_def sl_inv_def)
  then show ?thesis
    using assms(1,4) by (simp add: set_session_def sl_session_def wp_Some step_set_session)
qed

lemma wp_tl_op:
  assumes "sl_step s0 sl" "wp f (kept sl)" "\<And>sl' r. sl_step s0 sl' \<Longrightarrow> Q (sl', r)"
  shows "wp f Q"
  using assms(2)
proof (rule wp_mono)
  fix x
  assume "kept sl x"
  then have "sl_step s0 (fst x)"
    using assms(1) step_tl sl_step_inv sl_step_trans by (fastforce simp: kept_def)
  then show "Q x" using assms(3) by (cases x) simp
qed

lemma wp_tl_send [sl_rules]:
  "sl_step s0 sl \<Longrightarrow> length data < 2 ^ 32 - 10 \<Longrightarrow> (\<And>sl' r. sl_step s0 sl' \<Longrightarrow> Q (sl', r)) \<Longrightarrow>
   wp (en50221_tl_send_data sl s c data) Q"
  by (rule wp_tl_op) (auto intro: send_data_kept sl_step_tl_inv)

lemma wp_tl_sendv [sl_rules]:
  "sl_step s0 sl \<Longrightarrow> sum_list (map length vs) < 2 ^ 32 - 10 \<Longrightarrow> (\<And>sl' r. sl_step s0 sl' \<Longrightarrow> Q (sl', r)) \<Longrightarrow>
   wp (en50221_tl_send_datav sl s c vs) Q"
  by (rule wp_tl_op) (auto intro: send_datav_kept sl_step_tl_inv)

lemma length_bytes [simp]: "length (number_bytes n) = 2" "length (resource_bytes r) = 4"
  by (simp_all add: number_bytes_def resource_bytes_def)

section \<open>The requests of the host\<close>

lemma wp_alloc_session [sl_rules]:
  assumes "sl_step s0 sl"
    and "\<And>sl'. sl_step s0 sl' \<Longrightarrow> Q (sl', -1)"
    and "\<And>sl' n. sl_step s0 sl' \<Longrightarrow> 0 < n \<Longrightarrow> n < max_sessions s0 \<Longrightarrow> Q (sl', int n)"
  shows "wp (en50221_sl_alloc_new_session sl rid s c cb) Q"
proof (cases "first_index (\<lambda>x. sess_state x = S_STATE_IDLE) (List.tl (take (max_sessions sl) (sessions sl))) 1")
  case None
  then show ?thesis using assms by (simp add: en50221_sl_alloc_new_session_def wp_Some step_sl_error)
next
  case (Some n)
  from first_index_Some [OF this] assms(1) have "0 < n" "n < max_sessions s0"
    by (auto simp: sl_step_def sl_inv_def)
  with Some assms show ?thesis
    by (auto simp: en50221_sl_alloc_new_session_def intro!: sl_rules wp_set_session)
qed

lemma wp_undo [sl_rules]:
  "sl_step s0 sl \<Longrightarrow> n < max_sessions s0 \<Longrightarrow> (\<And>sl'. sl_step s0 sl' \<Longrightarrow> Q (sl', -1)) \<Longrightarrow> wp (undo_session sl n st) Q"
  unfolding undo_session_def by (auto intro!: sl_rules wp_set_session step_sl_error)

lemma create_session_kept: "sl_inv sl \<Longrightarrow> wp (en50221_sl_create_session sl s c rid cb) (sl_kept sl)"
  unfolding en50221_sl_create_session_def Let_def
  by (drule sl_step_refl) (auto intro!: sl_rules)

lemma destroy_session_kept: "sl_inv sl \<Longrightarrow> wp (en50221_sl_destroy_session sl n) (sl_kept sl)"
  unfolding en50221_sl_destroy_session_def
  by (frule sl_step_refl) (auto intro!: sl_rules wp_set_session step_sl_error simp: sl_inv_def)

lemma send_datav_sl_kept:
  "sl_inv sl \<Longrightarrow> sum_list (map length vs) < 2 ^ 32 - 14 \<Longrightarrow> wp (en50221_sl_send_datav sl n vs) (sl_kept sl)"
  unfolding en50221_sl_send_datav_def
  by (frule sl_step_refl) (auto intro!: sl_rules step_sl_error)

lemma send_data_sl_kept: "sl_inv sl \<Longrightarrow> wp (en50221_sl_send_data sl n data) (sl_kept sl)"
proof -
  have "length data mod 65536 < 65536" by simp
  moreover assume "sl_inv sl"
  ultimately show ?thesis unfolding en50221_sl_send_data_def by (intro send_datav_sl_kept) auto
qed

lemma wp_sl_op:
  assumes "sl_step s0 sl" "wp f (sl_kept sl)" "\<And>sl' r. sl_step s0 sl' \<Longrightarrow> Q (sl', r)"
  shows "wp f Q"
  using assms(2)
proof (rule wp_mono)
  fix x
  assume "sl_kept sl x"
  with assms(1) have "sl_step s0 (fst x)" unfolding sl_kept_def by (rule sl_step_trans)
  then show "Q x" using assms(3) by (cases x) simp
qed

lemma wp_sl_send [sl_rules]:
  "sl_step s0 sl \<Longrightarrow> (\<And>sl' r. sl_step s0 sl' \<Longrightarrow> Q (sl', r)) \<Longrightarrow> wp (en50221_sl_send_data sl n data) Q"
  by (rule wp_sl_op) (auto intro: send_data_sl_kept sl_step_inv)

lemma broadcast_loop_kept:
  "sl_step s0 sl \<Longrightarrow> (\<forall>i \<in> set is. i < max_sessions s0) \<Longrightarrow> wp (broadcast_loop s rid data sl is) (sl_step s0)"
proof (induction "is" arbitrary: sl)
  case (Cons i "is")
  then show ?case by (auto intro!: sl_rules)
qed (simp add: wp_Some)

lemma broadcast_kept: "sl_inv sl \<Longrightarrow> wp (en50221_sl_broadcast_data sl s rid data) (sl_kept sl)"
  unfolding en50221_sl_broadcast_data_def
  by (auto intro!: wp_bindI wp_mono [OF broadcast_loop_kept] sl_step_refl simp: wp_Some)

section \<open>The contract with the applications\<close>

text \<open>
  \<open>J\<close> is the invariant of the whole stack.  The applications promise that each callback returns and keeps it; it
  may depend on the state of the layers below only through \<open>sl_inv\<close>, their sizes and their callbacks.
\<close>

definition app_step :: "('a slayer \<Rightarrow> bool) \<Rightarrow> 'a slayer \<Rightarrow> 'a slayer \<Rightarrow> bool" where
  "app_step J s0 sl \<longleftrightarrow> J sl \<and> max_slots sl = max_slots s0
     \<and> max_connections_per_slot sl = max_connections_per_slot s0 \<and> max_sessions sl = max_sessions s0"

locale sl_client =
  fixes up :: "'a upper" and J :: "'a slayer \<Rightarrow> bool"
  assumes J_inv: "J sl \<Longrightarrow> sl_inv sl"
    and J_stable: "J sl \<Longrightarrow> sl_step sl sl' \<Longrightarrow> J sl'"
    and lookup_ok: "J sl \<Longrightarrow> wp (up_lookup up f s rid sl) (\<lambda>r. app_step J sl (fst r))"
    and session_ok: "J sl \<Longrightarrow> wp (up_session up f reason s n rid sl) (\<lambda>r. app_step J sl (fst r))"
    and resource_ok: "J sl \<Longrightarrow> length data < 2 ^ 31 \<Longrightarrow>
      wp (up_resource up f s n rid data sl) (\<lambda>r. app_step J sl (fst r))"
begin

lemma app_refl: "J sl \<Longrightarrow> app_step J sl sl"
  by (simp add: app_step_def)

lemma app_trans: "app_step J a b \<Longrightarrow> app_step J b c \<Longrightarrow> app_step J a c"
  by (simp add: app_step_def)

lemma step_app: "J s0 \<Longrightarrow> sl_step s0 sl \<Longrightarrow> app_step J s0 sl"
  by (auto simp: app_step_def sl_step_def intro: J_stable [unfolded sl_step_def])

lemma app_sl_step: "app_step J s0 sl \<Longrightarrow> sl_step sl sl"
  by (auto simp: app_step_def intro: J_inv sl_step_refl)

lemma app_sl_trans: "app_step J s0 sl \<Longrightarrow> sl_step sl sl' \<Longrightarrow> app_step J s0 sl'"
  by (rule app_trans) (auto simp: app_step_def intro: J_stable simp: sl_step_def)

lemma app_sizes: "app_step J s0 sl \<Longrightarrow> max_sessions sl = max_sessions s0"
  "app_step J s0 sl \<Longrightarrow> max_slots sl = max_slots s0"
  by (simp_all add: app_step_def)

declare sl_control [app_rules]

lemma app_session [app_rules]:
  "app_step J s0 sl \<Longrightarrow> n < max_sessions s0 \<Longrightarrow> Q (sessions sl ! n) \<Longrightarrow> wp (sl_session sl n) Q"
  by (rule wp_session [OF app_sl_step]) (simp_all add: app_sizes)

lemma app_set_session:
  assumes "app_step J s0 sl" "n < max_sessions s0"
    and "n = 0 \<Longrightarrow> sess_state (sessions sl ! n) = S_STATE_IDLE \<Longrightarrow> sess_state (f (sessions sl ! n)) = S_STATE_IDLE"
    and "\<And>sl'. app_step J s0 sl' \<Longrightarrow> Q sl'"
  shows "wp (set_session sl n f) Q"
  using assms by (intro wp_set_session [OF app_sl_step]) (auto simp: app_sizes intro: app_sl_trans)

lemma app_send [app_rules]:
  assumes "app_step J s0 sl" "length data < 2 ^ 32 - 10" "\<And>sl' r. app_step J s0 sl' \<Longrightarrow> Q (sl', r)"
  shows "wp (en50221_tl_send_data sl s c data) Q"
  using assms by (intro wp_tl_send [OF app_sl_step]) (auto intro: app_sl_trans)

lemma app_alloc [app_rules]:
  assumes "app_step J s0 sl"
    and "\<And>sl'. app_step J s0 sl' \<Longrightarrow> Q (sl', -1)"
    and "\<And>sl' n. app_step J s0 sl' \<Longrightarrow> 0 < n \<Longrightarrow> n < max_sessions s0 \<Longrightarrow> Q (sl', int n)"
  shows "wp (en50221_sl_alloc_new_session sl rid s c cb) Q"
  using assms by (intro wp_alloc_session [OF app_sl_step]) (auto simp: app_sizes intro: app_sl_trans)

lemma app_callback:
  fixes f :: "('a slayer \<times> 'b) option"
  assumes "app_step J s0 sl" "wp f (\<lambda>r. app_step J sl (fst r))" "\<And>sl' r. app_step J s0 sl' \<Longrightarrow> Q (sl', r)"
  shows "wp f Q"
  using assms(2)
proof (rule wp_mono)
  fix x :: "'a slayer \<times> 'b"
  assume "app_step J sl (fst x)"
  with assms(1) have "app_step J s0 (fst x)" by (rule app_trans)
  then show "Q x" using assms(3) by (cases x) simp
qed

lemma app_lookup [app_rules]:
  assumes "app_step J s0 sl" "\<And>sl' r. app_step J s0 sl' \<Longrightarrow> Q (sl', r)"
  shows "wp (up_lookup up f s rid sl) Q"
  using assms by (intro app_callback [OF assms(1) lookup_ok]) (auto simp: app_step_def)

lemma app_session_call [app_rules]:
  assumes "app_step J s0 sl" "\<And>sl' r. app_step J s0 sl' \<Longrightarrow> Q (sl', r)"
  shows "wp (up_session up f reason s n rid sl) Q"
  using assms by (intro app_callback [OF assms(1) session_ok]) (auto simp: app_step_def)

lemma app_resource [app_rules]:
  assumes "app_step J s0 sl" "length data < 2 ^ 31" "\<And>sl' r. app_step J s0 sl' \<Longrightarrow> Q (sl', r)"
  shows "wp (up_resource up f s n rid data sl) Q"
  using assms by (intro app_callback [OF assms(1) resource_ok]) (auto simp: app_step_def)

lemma app_notify [app_rules]:
  "app_step J s0 sl \<Longrightarrow> (\<And>sl'. app_step J s0 sl' \<Longrightarrow> Q sl') \<Longrightarrow> wp (notify up cb reason s n rid sl) Q"
  unfolding notify_def by (cases cb) (auto intro!: app_rules)

lemma app_event [app_rules]:
  "app_step J s0 sl \<Longrightarrow> (\<And>sl'. app_step J s0 sl' \<Longrightarrow> Q sl') \<Longrightarrow> wp (session_event up reason s n rid sl) Q"
  unfolding session_event_def by (rule app_notify)

section \<open>The messages of the module\<close>

lemma app_lookup_resource [app_rules]:
  "app_step J s0 sl \<Longrightarrow> (\<And>sl' r. app_step J s0 sl' \<Longrightarrow> Q (sl', r)) \<Longrightarrow> wp (lookup_resource up sl s rid) Q"
  unfolding lookup_resource_def Let_def by (cases "lookup sl") (auto intro!: app_rules)

lemma app_admit [app_rules]:
  assumes "app_step J s0 sl"
    and "\<And>sl' status. app_step J s0 sl' \<Longrightarrow> Q (sl', status, -1)"
    and "\<And>sl' status n. app_step J s0 sl' \<Longrightarrow> 0 < n \<Longrightarrow> n < max_sessions s0 \<Longrightarrow> Q (sl', status, int n)"
  shows "wp (admit_session up sl s c cb rid) Q"
  unfolding admit_session_def using assms by (auto intro!: app_rules split: option.split)

lemma app_settle [app_rules]:
  "app_step J s0 sl \<Longrightarrow> 0 < n \<Longrightarrow> n < max_sessions s0 \<Longrightarrow> (\<And>sl'. app_step J s0 sl' \<Longrightarrow> Q sl') \<Longrightarrow>
   wp (settle_session up sl s n status rid) Q"
  unfolding settle_session_def by (auto intro!: app_rules app_set_session)

lemma open_request_keeps:
  "J sl \<Longrightarrow> wp (en50221_sl_handle_open_session_request up sl data s c) (app_step J sl)"
  unfolding en50221_sl_handle_open_session_request_def Let_def
  by (drule app_refl) (auto intro!: app_rules simp: wp_rd)

lemma close_request_keeps:
  "J sl \<Longrightarrow> wp (en50221_sl_handle_close_session_request up sl data s c) (app_step J sl)"
  unfolding en50221_sl_handle_close_session_request_def Let_def
  by (drule app_refl) (auto intro!: app_rules app_set_session simp: wp_rd not_le)

lemma create_response_keeps:
  "J sl \<Longrightarrow> wp (en50221_sl_handle_create_session_response up sl data s c) (app_step J sl)"
  unfolding en50221_sl_handle_create_session_response_def Let_def
  by (drule app_refl) (auto intro!: app_rules app_set_session simp: wp_rd not_le)

lemma close_response_keeps:
  "J sl \<Longrightarrow> wp (en50221_sl_handle_close_session_response sl data s c) (app_step J sl)"
  unfolding en50221_sl_handle_close_session_response_def Let_def
  by (drule app_refl) (auto intro!: app_rules app_set_session simp: wp_rd not_le)

text \<open>Each APDU is at least four bytes long.\<close>

lemma apdu_loop_keeps:
  "app_step J s0 sl \<Longrightarrow> pos + len \<le> length m \<Longrightarrow> length m < 2 ^ 31 \<Longrightarrow>
   wp (apdu_loop up sl cb s n rid m pos len) (app_step J s0)"
proof (induction len arbitrary: sl pos rule: less_induct)
  case (less len)
  show ?case
  proof (cases "len < 3")
    case True
    with less.prems show ?thesis by (subst apdu_loop.simps) (simp add: wp_Some)
  next
    case False
    have "pos + 3 + (len - 3) \<le> length m" using less.prems False by simp
    from asn1.dec_safe [OF this] obtain r v where d: "asn_1_decode m (pos + 3) (len - 3) = Some (r, v)"
      and r: "r = -1 \<and> v = None \<or> 1 \<le> r \<and> r \<le> 3 \<and> r \<le> int (len - 3) \<and> v \<noteq> None" by blast
    show ?thesis
    proof (cases "r < 0")
      case True
      with False less.prems d show ?thesis by (subst apdu_loop.simps) (simp add: wp_Some)
    next
      case pos_r: False
      with r obtain asn where v: "v = Some asn" by auto
      let ?k = "3 + nat r + unat asn"
      have rec: "wp (apdu_loop up sl' cb s n rid m (pos + ?k) (len - ?k)) (app_step J s0)"
        if "?k \<le> len" "app_step J s0 sl'" for sl'
        using that less.prems by (intro less.IH) auto
      have rest: "wp (case cb of None \<Rightarrow> Some sl | Some f \<Rightarrow> do { (sl, _) \<leftarrow> up_resource up f s n rid apdu sl; Some sl })
          (\<lambda>sl. wp (apdu_loop up sl cb s n rid m (pos + ?k) (len - ?k)) (app_step J s0))"
        if "?k \<le> len" "length apdu < 2 ^ 31" for apdu
        using that less.prems rec
        by (cases cb) (auto intro!: app_rules)
      have "rd_bytes m pos ?k = Some (take ?k (drop pos m))" if "?k \<le> len"
        using that less.prems by (simp add: rd_bytes_def)
      with False less.prems d v pos_r rest show ?thesis
        by (subst apdu_loop.simps) (auto simp: Let_def not_less wp_bind wp_Some)
    qed
  qed
qed

lemma package_keeps:
  "J sl \<Longrightarrow> length data < 2 ^ 31 \<Longrightarrow> wp (en50221_sl_handle_session_package up sl data s c) (app_step J sl)"
  unfolding en50221_sl_handle_session_package_def Let_def
  by (drule app_refl) (auto intro!: app_rules apdu_loop_keeps simp: wp_rd not_le)

lemma close_sessions_keeps:
  "app_step J s0 sl \<Longrightarrow> (\<forall>i \<in> set is. i < max_sessions s0) \<Longrightarrow> wp (close_sessions up cb sel sl is) (app_step J s0)"
proof (induction "is" arbitrary: sl)
  case (Cons i "is")
  then show ?case by (auto intro!: app_rules app_set_session)
qed (simp add: wp_Some)

lemma sl_data_keeps: "J sl \<Longrightarrow> length data < 2 ^ 31 \<Longrightarrow> wp (sl_data up sl data s c) (app_step J sl)"
  unfolding sl_data_def
  by (auto split: list.split simp: wp_Some app_refl
      intro: open_request_keeps close_request_keeps package_keeps create_response_keeps close_response_keeps)

lemma transport_callback_keeps:
  "J sl \<Longrightarrow> length data < 2 ^ 31 \<Longrightarrow> wp (en50221_sl_transport_callback up f reason data s c sl) (app_step J sl)"
  unfolding en50221_sl_transport_callback_def
  by (frule app_refl) (cases reason; auto intro!: close_sessions_keeps app_event sl_data_keeps)

end

text \<open>The session layer is a client of the transport layer.\<close>

sublocale sl_client \<subseteq> tl: tl_client "en50221_sl_transport_callback up" J
proof
  fix sl sl' :: "'a slayer" and data :: "u8 list" and s c f reason
  show "J sl \<Longrightarrow> tl_inv sl" using J_inv sl_inv_def by blast
  show "J sl \<Longrightarrow> tl_step sl sl' \<Longrightarrow> J sl'" using J_inv step_tl J_stable by blast
  show "J sl \<Longrightarrow> s < max_slots sl \<Longrightarrow> length data < 2 ^ 31 \<Longrightarrow>
      wp (en50221_sl_transport_callback up f reason data s c sl) (client_step J sl)"
    by (rule wp_mono [OF transport_callback_keeps]) (auto simp: app_step_def client_step_def)
qed

end
