(* ===== verification/En50221_Transport_Props.thy ===== *)
theory En50221_Transport_Props
  imports En50221_Transport_Inv
begin

text \<open>
  What the transport layer does with connections and data: framing and delivery, chained messages,
  allocation of connections, and the places where the code leaves a connection unusable or a pointer dangling.
\<close>

section \<open>Creation\<close>

lemma alloc_slots_Live:
  "Null \<notin> set (snd (alloc_slots w proto n)) \<Longrightarrow> snd (alloc_slots w proto n) = replicate n (Live proto)"
proof (induction n arbitrary: w)
  case (Suc n)
  then show ?case by (auto simp: Let_def case_prod_beta split: if_splits)
qed simp

lemma alloc_slots_os: "realloc0_frees (fst (alloc_slots w proto n)) = realloc0_frees w"
proof (induction n arbitrary: w)
  case (Suc n)
  then show ?case by (auto simp: Let_def case_prod_beta)
qed simp

lemma create_inv:
  assumes "en50221_tl_create w maxs maxc = Some (w', Some tr)" "maxs < 256" "maxc < 256" "\<not> realloc0_frees w"
  shows "tl_inv tr \<and> max_slots tr = maxs \<and> max_connections_per_slot tr = maxc \<and> tl_callback tr = None"
proof -
  let ?w2 = "fst (malloc (fst (malloc w)))"
  let ?a = "alloc_slots ?w2 (replicate maxc (new_connection ?w2)) maxs"
  have n: "Null \<notin> set (snd ?a)"
    using assms(1) by (auto simp: en50221_tl_create_def Let_def case_prod_beta bind_eq_Some_conv split: if_splits)
  have tr: "slots tr = map (\<lambda>a. new_slot (fst (malloc (fst ?a))) (case a of Live cs \<Rightarrow> cs | _ \<Rightarrow> [])) (snd ?a)"
    "slot_pollfds tr = replicate maxs \<lparr>pfd_fd = 0, pfd_events = 0, pfd_revents = 0\<rparr>"
    "max_slots tr = maxs" "max_connections_per_slot tr = maxc" "tl_callback tr = None" "os tr = fst (malloc (fst ?a))"
    using assms(1) n by (auto simp: en50221_tl_create_def Let_def case_prod_beta bind_eq_Some_conv split: if_splits)
  have "conn_ok (new_connection ?w2)" by (simp add: new_connection_def conn_ok_def chain_ok_def)
  then have "slot_ok maxc (new_slot x (replicate maxc (new_connection ?w2)))" for x
    by (simp add: slot_ok_def new_slot_def list_all_length)
  moreover have "\<not> realloc0_frees (os tr)" using assms(4) tr(6) by (simp add: alloc_slots_os)
  ultimately show ?thesis
    using assms tr alloc_slots_Live [OF n] by (simp add: tl_inv_def list_all_length)
qed

section \<open>Framing\<close>

definition tpdu :: "u8 \<Rightarrow> nat \<Rightarrow> u8 list \<Rightarrow> u8 list" where
  "tpdu tag c body = tag # asn_1_bytes (of_nat (length body + 1)) @ of_nat c # body"

text \<open>One round of \<open>en50221_tl_process_data\<close> on a well-formed TPDU.\<close>

lemma process_tpdu:
  assumes len: "length body < 65535" and c: "c < max_connections_per_slot tr" "c < 256"
    and pos: "length xs = pos" and n: "n = length (tpdu tag c body) + length ys"
  shows "en50221_tl_process_data call tr s (xs @ tpdu tag c body @ ys) pos n =
    do { (tr', r) \<leftarrow> handle_tpdu call tr s tag c body;
         if r < 0 then Some (tr', -1)
         else en50221_tl_process_data call tr' s (xs @ tpdu tag c body @ ys)
                (pos + length (tpdu tag c body)) (length ys) }"
proof -
  let ?l = "of_nat (length body + 1) :: u16" and ?m = "xs @ tpdu tag c body @ ys"
  let ?b = "asn_1_bytes ?l"
  have l: "unat ?l = length body + 1" using len by (intro unat_of_nat_u16) simp
  have b: "1 \<le> length ?b" "length ?b \<le> 3" by (rule length_asn_1_bytes)+
  have n': "n = 2 + length ?b + length body + length ys" using n by (simp add: tpdu_def)
  have dec: "asn_1_decode ?m (pos + 1) (n - 1) = Some (int (length ?b), Some ?l)"
    using asn1.dec_enc [of "xs @ [tag]" "pos + 1" ?l "n - 1" "of_nat c # body @ ys"] pos n'
    by (simp add: tpdu_def)
  have tag: "rd ?m pos = Some tag" using pos by (simp add: rd_def tpdu_def nth_append)
  have cid: "rd ?m (pos + Suc (length ?b)) = Some (of_nat c)"
    using pos by (simp add: rd_def tpdu_def nth_append)
  have body: "rd_bytes ?m (Suc (pos + Suc (length ?b))) (length body) = Some body"
    using pos by (simp add: rd_bytes_def tpdu_def)
  have uc: "unat (of_nat c :: u8) = c" using c(2) by (rule unat_of_nat_u8)
  show ?thesis
    using b n' tag dec cid body l c uc len
    by (subst en50221_tl_process_data.simps) (simp add: Let_def tpdu_def add.assoc cong: if_cong)
qed

text \<open>A buffer that holds one TPDU.\<close>

lemma process_single:
  assumes "length body < 65535" "c < max_connections_per_slot tr" "c < 256"
  shows "en50221_tl_process_data call tr s (tpdu tag c body) 0 (length (tpdu tag c body)) =
    do { (tr', r) \<leftarrow> handle_tpdu call tr s tag c body; Some (tr', if r < 0 then -1 else 0) }"
proof -
  have "en50221_tl_process_data call tr' s m p 0 = Some (tr', 0)" for tr' m p
    by (subst en50221_tl_process_data.simps) simp
  then show ?thesis
    using process_tpdu [OF assms, of "[]" 0 _ tag "[]" call s]
    by (auto simp: bind_eq_Some_conv intro!: Option.bind_cong)
qed

lemma process_empty:
  assumes "c < max_connections_per_slot tr" "c < 256"
  shows "en50221_tl_process_data call tr s [tag, 1, of_nat c] 0 3 =
    do { (tr', r) \<leftarrow> handle_tpdu call tr s tag c []; Some (tr', if r < 0 then -1 else 0) }"
proof -
  have "tpdu tag c [] = [tag, 1, of_nat c]" "length (tpdu tag c []) = 3" by (simp_all add: tpdu_def asn_1_bytes_def)
  then show ?thesis using process_single [of "[]" c tr call s tag] assms by (simp only: list.size)
qed

text \<open>Data on an active connection without a chain goes straight to the callback.\<close>

lemma data_last_single:
  assumes "valid_conn tr s c" "conn_state (conn tr s c) = T_STATE_ACTIVE" "chain_buffer (conn tr s c) = Null" "data \<noteq> []"
  shows "handle_tpdu call tr s T_DATA_LAST c data =
    do { tr' \<leftarrow> upcall call T_CALLBACK_REASON_DATA data s c (put_conn tr s c (clear_tx (conn tr s c))); Some (tr', 0) }"
  using assms
  by (simp add: handle_tpdu_def tpdu_tags en50221_tl_handle_data_last_def tl_conn_valid set_conn_valid)

lemma send_data_queues:
  assumes "tl_inv tr" "s < max_slots tr" "c < max_connections_per_slot tr" "ca_hndl (slots tr ! s) \<noteq> -1"
    and "conn_state (conn tr s c) = T_STATE_ACTIVE" "os_malloc (os tr) (os_now (os tr))" "length data < 65535"
  shows "en50221_tl_send_data tr s c data =
    Some (put_conn (tr\<lparr>os := os_tick (os tr)\<rparr>) s c
           ((conn tr s c)\<lparr>send_queue := send_queue (conn tr s c) @ [tpdu T_DATA_LAST c data]\<rparr>), 0)"
proof -
  have v: "valid_conn tr s c" using assms(1-3) by (rule tl_inv_valid)
  have sl: "tl_slot tr s = Some (slots tr ! s)" using assms(1,2) by (simp add: tl_slot_def tl_inv_def)
  have v': "valid_conn (tr\<lparr>os := w\<rparr>) s c" "conn (tr\<lparr>os := w\<rparr>) s c = conn tr s c" for w
    using v by (simp_all add: valid_conn_def conn_def)
  have msg: "data_message w c [data] = Some (Some (tpdu T_DATA_LAST c data))" for w
    using data_message_bytes [of "[data]" _ w c] assms(7) by (simp add: tpdu_def)
  show ?thesis using assms(2-6) sl v v'
    by (simp add: en50221_tl_send_data_def en50221_tl_send_datav_def tl_malloc_def malloc_def Let_def
        tl_conn_valid msg queue_message_def set_conn_valid)
qed

section \<open>Chained messages\<close>

lemma extend_exact:
  assumes v: "valid_conn tr s c" and ok: "conn_ok (conn tr s c)" and w: "\<not> realloc0_frees (os tr)" "os_malloc (os tr) (os_now (os tr))"
    and len: "length (chain (conn tr s c)) + length data < 2 ^ 31"
  shows "\<exists>old. extend_chain tr s c data =
    Some (put_conn (tr\<lparr>os := os_tick (os tr)\<rparr>) s c ((conn tr s c)\<lparr>chain_buffer := old\<rparr>),
          Some (chain (conn tr s c) @ data, buffer_length (conn tr s c) + of_nat (length data)))"
proof -
  let ?k = "conn tr s c" and ?n = "buffer_length (conn tr s c) + of_nat (length data)"
  have l: "length (chain ?k) = unat (buffer_length ?k)" using length_chain [OF ok] by simp
  have n: "unat ?n = length (chain ?k) + length data" using l len by (subst unat_add_lt) simp_all
  have v': "valid_conn (tr\<lparr>os := w\<rparr>) s c" "conn (tr\<lparr>os := w\<rparr>) s c = ?k" for w
    using v by (simp_all add: valid_conn_def conn_def)
  have "\<exists>old rest. realloc (os tr) (chain_buffer ?k) (unat ?n) = Some (os_tick (os tr), Live (chain ?k @ rest), old)
      \<and> length rest = length data"
    using ok w n l by (cases "chain_buffer ?k")
      (auto simp: realloc_def malloc_def chain_def conn_ok_def chain_ok_def)
  then obtain old rest where "realloc (os tr) (chain_buffer ?k) (unat ?n) = Some (os_tick (os tr), Live (chain ?k @ rest), old)"
    "length rest = length data" by blast
  moreover have "\<not> sint ?n < 0" using n len by (simp add: sint_neg_iff)
  ultimately show ?thesis
    using v v' l by (auto simp: extend_chain_def tl_conn_valid set_conn_valid Let_def blit_def)
qed

lemma chain_clear_tx [simp]: "chain (clear_tx k) = chain k" "buffer_length (clear_tx k) = buffer_length k"
  "conn_state (clear_tx k) = conn_state k" "chain_buffer (clear_tx k) = chain_buffer k"
  "send_queue (clear_tx k) = send_queue k" "clear_tx (clear_tx k) = clear_tx k"
  by (simp_all add: clear_tx_def chain_def)

lemma os_put [simp]: "(put_conn tr s c k)\<lparr>os := w\<rparr> = put_conn (tr\<lparr>os := w\<rparr>) s c k"
  by (simp add: put_conn_def)

text \<open>The connection after a part of a chain has arrived.\<close>

definition chained :: "en50221_connection \<Rightarrow> u8 list \<Rightarrow> en50221_connection" where
  "chained k data = (clear_tx k)\<lparr>chain_buffer := Live (chain k @ data),
     buffer_length := buffer_length k + of_nat (length data)\<rparr>"

lemma valid_os [simp]: "valid_conn (tr\<lparr>os := w\<rparr>) s c = valid_conn tr s c" "conn (tr\<lparr>os := w\<rparr>) s c = conn tr s c"
  by (simp_all add: valid_conn_def conn_def)

lemma data_more_exact:
  assumes v: "valid_conn tr s c" and ok: "conn_ok (conn tr s c)" and w: "\<not> realloc0_frees (os tr)" "os_malloc (os tr) (os_now (os tr))"
    and len: "length (chain (conn tr s c)) + length data < 2 ^ 31" and st: "conn_state (conn tr s c) = T_STATE_ACTIVE"
  shows "handle_tpdu call tr s T_DATA_MORE c data =
    Some (put_conn (tr\<lparr>os := os_tick (os tr)\<rparr>) s c (chained (conn tr s c) data), 0)"
proof -
  let ?tr = "put_conn tr s c (clear_tx (conn tr s c))"
  obtain old where "extend_chain ?tr s c data =
      Some (put_conn (tr\<lparr>os := os_tick (os tr)\<rparr>) s c ((clear_tx (conn tr s c))\<lparr>chain_buffer := old\<rparr>),
        Some (chain (conn tr s c) @ data, buffer_length (conn tr s c) + of_nat (length data)))"
    using extend_exact [of ?tr s c data] assms by auto
  then show ?thesis using v st
    by (simp add: handle_tpdu_def tpdu_tags en50221_tl_handle_data_more_def tl_conn_valid set_conn_valid chained_def)
qed

lemma data_last_chain:
  assumes v: "valid_conn tr s c" and ok: "conn_ok (conn tr s c)" and w: "\<not> realloc0_frees (os tr)" "os_malloc (os tr) (os_now (os tr))"
    and len: "length (chain (conn tr s c)) + length data < 2 ^ 31" and st: "conn_state (conn tr s c) = T_STATE_ACTIVE"
    and chain: "chain_buffer (conn tr s c) \<noteq> Null" and data: "data \<noteq> []"
  shows "handle_tpdu call tr s T_DATA_LAST c data =
    do { tr' \<leftarrow> upcall call T_CALLBACK_REASON_DATA (chain (conn tr s c) @ data) s c
           (put_conn (tr\<lparr>os := os_tick (os tr)\<rparr>) s c ((clear_tx (conn tr s c))\<lparr>chain_buffer := Null, buffer_length := 0\<rparr>));
         Some (tr', 0) }"
proof -
  let ?tr = "put_conn tr s c (clear_tx (conn tr s c))"
  obtain old where "extend_chain ?tr s c data =
      Some (put_conn (tr\<lparr>os := os_tick (os tr)\<rparr>) s c ((clear_tx (conn tr s c))\<lparr>chain_buffer := old\<rparr>),
        Some (chain (conn tr s c) @ data, buffer_length (conn tr s c) + of_nat (length data)))"
    using extend_exact [of ?tr s c data] assms by auto
  moreover have "unat (buffer_length (conn tr s c) + of_nat (length data)) = length (chain (conn tr s c) @ data)"
    using length_chain [OF ok] len by (subst unat_add_lt) simp_all
  ultimately show ?thesis using v st chain data
    by (simp add: handle_tpdu_def tpdu_tags en50221_tl_handle_data_last_def tl_conn_valid set_conn_valid)
qed

lemma chained_ok: "conn_ok k \<Longrightarrow> length (chain k) + length data < 2 ^ 31 \<Longrightarrow> conn_ok (chained k data)"
  using length_chain [of k] by (simp add: conn_ok_def chained_def chain_ok_def unat_add_lt)

lemma chained_simps [simp]:
  "conn_state (chained k data) = conn_state k"
  "chain_buffer (chained k data) \<noteq> Null"
  "chain (chained k data) = chain k @ data"
  "(clear_tx (chained k data))\<lparr>chain_buffer := Null, buffer_length := 0\<rparr> = (clear_tx k)\<lparr>chain_buffer := Null, buffer_length := 0\<rparr>"
  by (simp_all add: chained_def clear_tx_def chain_def)

lemma os_tick_simps [simp]: "os_sent (os_tick w) = os_sent w" "os_malloc (os_tick w) = os_malloc w"
  by (simp_all add: os_tick_def)

text \<open>The parts of a chain followed by its end are delivered as one message.\<close>

lemma process_chain:
  assumes "valid_conn tr s c" "conn_ok (conn tr s c)" "\<not> realloc0_frees (os tr)" "\<And>n. os_malloc (os tr) n"
    and "conn_state (conn tr s c) = T_STATE_ACTIVE" "chain_buffer (conn tr s c) \<noteq> Null \<or> parts \<noteq> []" "data \<noteq> []"
    and "list_all (\<lambda>p. length p < 65535) (data # parts)" "c < max_connections_per_slot tr" "c < 256"
    and "length (chain (conn tr s c)) + length (concat parts) + length data < 2 ^ 31"
    and "length xs = pos" "n = length (concat (map (tpdu T_DATA_MORE c) parts)) + length (tpdu T_DATA_LAST c data)"
  shows "\<exists>w. os_sent w = os_sent (os tr) \<and>
    en50221_tl_process_data call tr s (xs @ concat (map (tpdu T_DATA_MORE c) parts) @ tpdu T_DATA_LAST c data) pos n =
    do { tr' \<leftarrow> upcall call T_CALLBACK_REASON_DATA (chain (conn tr s c) @ concat parts @ data) s c
           (put_conn (tr\<lparr>os := w\<rparr>) s c ((clear_tx (conn tr s c))\<lparr>chain_buffer := Null, buffer_length := 0\<rparr>));
         Some (tr', 0) }"
  using assms
proof (induction parts arbitrary: tr xs pos n)
  case Nil
  have 0: "en50221_tl_process_data call tr' s m p 0 = Some (tr', 0)" for tr' m p
    by (subst en50221_tl_process_data.simps) simp
  let ?w = "os_tick (os tr)"
  have "handle_tpdu call tr s T_DATA_LAST c data = do { tr' \<leftarrow> upcall call T_CALLBACK_REASON_DATA (chain (conn tr s c) @ data) s c
           (put_conn (tr\<lparr>os := ?w\<rparr>) s c ((clear_tx (conn tr s c))\<lparr>chain_buffer := Null, buffer_length := 0\<rparr>));
         Some (tr', 0) }"
    using Nil.prems by (intro data_last_chain) simp_all
  then show ?case
    using Nil.prems process_tpdu [of data c tr xs pos n T_DATA_LAST "[]" call s]
    by (intro exI [of _ ?w]) (simp add: 0)
next
  case (Cons p parts)
  let ?k = "conn tr s c"
  let ?tr = "put_conn (tr\<lparr>os := os_tick (os tr)\<rparr>) s c (chained ?k p)"
  let ?rest = "concat (map (tpdu T_DATA_MORE c) parts) @ tpdu T_DATA_LAST c data"
  have more: "handle_tpdu call tr s T_DATA_MORE c p = Some (?tr, 0)"
    using Cons.prems by (intro data_more_exact) simp_all
  have k: "conn ?tr s c = chained ?k p" using Cons.prems(1) by simp
  have ok: "conn_ok (chained ?k p)" using Cons.prems(2,11) by (intro chained_ok) simp_all
  have "\<exists>w. os_sent w = os_sent (os ?tr) \<and>
    en50221_tl_process_data call ?tr s ((xs @ tpdu T_DATA_MORE c p) @ ?rest) (pos + length (tpdu T_DATA_MORE c p)) (length ?rest) =
    do { tr' \<leftarrow> upcall call T_CALLBACK_REASON_DATA (chain (conn ?tr s c) @ concat parts @ data) s c
           (put_conn (?tr\<lparr>os := w\<rparr>) s c ((clear_tx (conn ?tr s c))\<lparr>chain_buffer := Null, buffer_length := 0\<rparr>));
         Some (tr', 0) }"
  proof (rule Cons.IH)
    show "conn_ok (conn ?tr s c)" "conn_state (conn ?tr s c) = T_STATE_ACTIVE"
      "chain_buffer (conn ?tr s c) \<noteq> Null \<or> parts \<noteq> []"
      using ok Cons.prems(5) by (simp_all only: k chained_simps simp_thms)
    show "length (chain (conn ?tr s c)) + length (concat parts) + length data < 2 ^ 31"
      using Cons.prems(11) by (simp only: k chained_simps) simp
  qed (use Cons.prems in simp_all)
  then obtain w where w: "os_sent w = os_sent (os tr)" and
    eq: "en50221_tl_process_data call ?tr s ((xs @ tpdu T_DATA_MORE c p) @ ?rest) (pos + length (tpdu T_DATA_MORE c p)) (length ?rest) =
    do { tr' \<leftarrow> upcall call T_CALLBACK_REASON_DATA (chain ?k @ concat (p # parts) @ data) s c
           (put_conn (tr\<lparr>os := w\<rparr>) s c ((clear_tx ?k)\<lparr>chain_buffer := Null, buffer_length := 0\<rparr>));
         Some (tr', 0) }"
    using Cons.prems(1) by (auto simp: k)
  have "en50221_tl_process_data call tr s (xs @ tpdu T_DATA_MORE c p @ ?rest) pos n =
      en50221_tl_process_data call ?tr s (xs @ tpdu T_DATA_MORE c p @ ?rest) (pos + length (tpdu T_DATA_MORE c p)) (length ?rest)"
    using process_tpdu [of p c tr xs pos n T_DATA_MORE ?rest call s] Cons.prems(8-10,12,13) more by simp
  with w eq show ?case by (intro exI [of _ w]) simp
qed

section \<open>Allocation\<close>

lemma first_index_eq:
  "j < length xs \<Longrightarrow> P (xs ! j) \<Longrightarrow> (\<And>i. i < j \<Longrightarrow> \<not> P (xs ! i)) \<Longrightarrow> first_index P xs a = Some (a + j)"
proof (induction xs arbitrary: j a)
  case (Cons x xs)
  show ?case
  proof (cases j)
    case (Suc k)
    have "\<not> P x" using Cons.prems(3) [of 0] Suc by simp
    moreover have "first_index P xs (Suc a) = Some (Suc a + k)"
      using Cons.prems(1,2) Cons.prems(3) [of "Suc i" for i] Suc by (intro Cons.IH) (auto simp: less_Suc_eq_le)
    ultimately show ?thesis using Suc by simp
  qed (use Cons.prems in simp)
qed simp

definition first_idle :: "'a tlayer \<Rightarrow> nat \<Rightarrow> nat \<Rightarrow> bool" where
  "first_idle tr s c \<longleftrightarrow> 0 < c \<and> c < max_connections_per_slot tr \<and> conn_state (conn tr s c) = T_STATE_IDLE
     \<and> (\<forall>i \<in> {1..<c}. conn_state (conn tr s i) \<noteq> T_STATE_IDLE)"

lemma alloc_first_idle:
  assumes "tl_inv tr" "s < max_slots tr" "first_idle tr s c"
  shows "en50221_tl_alloc_new_tc tr s = Some (put_conn tr s c
    ((conn tr s c)\<lparr>conn_state := T_STATE_IN_CREATION, chain_buffer := Null, buffer_length := 0\<rparr>), int c)"
proof -
  let ?cs = "connections (slots tr ! s)"
  have sl: "tl_slot tr s = Some (slots tr ! s)" and l: "length ?cs = max_connections_per_slot tr"
    using assms(1,2) by (auto simp: tl_slot_def tl_inv_def list_all_length slot_ok_def)
  have v: "valid_conn tr s c" using assms by (intro tl_inv_valid) (auto simp: first_idle_def)
  have nth: "List.tl ?cs ! i = conn tr s (Suc i)" if "Suc i < max_connections_per_slot tr" for i
    using that l by (simp add: nth_tl conn_def)
  have "first_index (\<lambda>k. conn_state k = T_STATE_IDLE) (List.tl ?cs) 1 = Some (1 + (c - 1))"
    using assms(3) l by (intro first_index_eq) (auto simp: nth first_idle_def)
  then have "first_index (\<lambda>k. conn_state k = T_STATE_IDLE) (List.tl (take (max_connections_per_slot tr) ?cs)) 1 = Some c"
    using assms(3) l by (simp add: first_idle_def)
  with v sl show ?thesis by (simp add: en50221_tl_alloc_new_tc_def set_conn_valid)
qed

definition opened_by_host :: "en50221_connection \<Rightarrow> nat \<Rightarrow> en50221_connection" where
  "opened_by_host k c = k\<lparr>conn_state := T_STATE_IN_CREATION, chain_buffer := Null, buffer_length := 0,
     send_queue := send_queue k @ [[T_CREATE_T_C, 1, of_nat c]]\<rparr>"

lemma opened_by_host_simps [simp]:
  "conn_state (opened_by_host k c) = T_STATE_IN_CREATION" "tx_time (opened_by_host k c) = tx_time k"
  "send_queue (opened_by_host k c) = send_queue k @ [[T_CREATE_T_C, 1, of_nat c]]" "conn_ok (opened_by_host k c)"
  by (simp_all add: opened_by_host_def conn_ok_def chain_ok_def)

lemma new_tc_exact:
  assumes "tl_inv tr" "s < max_slots tr" "first_idle tr s c" "ca_hndl (slots tr ! s) \<noteq> -1"
    and "os_malloc (os tr) (os_now (os tr))"
  shows "en50221_tl_new_tc tr s = Some (put_conn (tr\<lparr>os := os_tick (os tr)\<rparr>) s c (opened_by_host (conn tr s c) c), int c)"
proof -
  have v: "valid_conn tr s c" using assms by (intro tl_inv_valid) (auto simp: first_idle_def)
  have sl: "tl_slot tr s = Some (slots tr ! s)" using assms(1,2) by (simp add: tl_slot_def tl_inv_def)
  show ?thesis using assms(2,4,5) v sl alloc_first_idle [OF assms(1-3)]
    by (simp add: en50221_tl_new_tc_def tl_malloc_def malloc_def Let_def queue_message_def set_conn_valid opened_by_host_def)
qed

section \<open>Connections that cannot be reused\<close>

text \<open>While a response is awaited nothing is sent, whatever the queue holds; the time stamp stays.\<close>

lemma poll_blocked:
  assumes v: "valid_conn tr s c" and st: "conn_state (conn tr s c) = T_STATE_IN_CREATION" and tx: "tv_sec (tx_time (conn tr s c)) \<noteq> 0"
  shows "\<exists>tr' x. poll_connection tr s c = Some (tr', 0) \<and> os_sent (os tr') = os_sent (os tr)
    \<and> x \<in> {T_STATE_IN_CREATION, T_STATE_IDLE} \<and> conn tr' s c = (conn tr s c)\<lparr>conn_state := x\<rparr>"
proof -
  let ?k = "conn tr s c"
  let ?r = "tl_time_after tr (tx_time ?k) (response_timeout (slots tr ! s))"
  have same: "valid_conn (fst ?r) s c" "conn (fst ?r) s c = ?k" "os_sent (os (fst ?r)) = os_sent (os tr)"
    using v by (simp_all add: tl_time_after_def time_after_def gettimeofday_def Let_def case_prod_beta)
  have sl: "tl_slot tr s = Some (slots tr ! s)" using v by (simp add: valid_conn_def tl_slot_def)
  have p: "poll_connection tr s c = poll_timeout tr s c"
    using v st tx sl by (simp add: poll_connection_def poll_send_def poll_ask_def tl_conn_valid)
  show ?thesis
  proof (cases "snd ?r")
    case True
    have "poll_timeout tr s c = Some (put_conn (fst ?r) s c (?k\<lparr>conn_state := T_STATE_IDLE\<rparr>), 0)"
      using v st tx sl same True by (simp add: poll_timeout_def tl_conn_valid set_conn_valid Let_def case_prod_beta)
    with p same show ?thesis
      by (intro exI [of _ "put_conn (fst ?r) s c (?k\<lparr>conn_state := T_STATE_IDLE\<rparr>)"] exI [of _ T_STATE_IDLE]) simp
  next
    case False
    have "poll_timeout tr s c = Some (fst ?r, 0)"
      using v st tx sl False by (simp add: poll_timeout_def tl_conn_valid Let_def case_prod_beta)
    moreover have "?k = ?k\<lparr>conn_state := T_STATE_IN_CREATION\<rparr>" using st by simp
    ultimately show ?thesis using p same by (intro exI [of _ "fst ?r"] exI [of _ T_STATE_IN_CREATION]) simp
  qed
qed

section \<open>A concrete layer\<close>

text \<open>One slot with two connections, the second of them as given; every call of the environment succeeds.\<close>

definition demo_os :: "bool \<Rightarrow> os" where
  "demo_os frees = \<lparr>os_now = 0, os_malloc = \<lambda>_. True, os_write = \<lambda>_. True, os_clock = \<lambda>n. \<lparr>tv_sec = 7, tv_usec = 0\<rparr>,
     os_read = \<lambda>_. None, os_poll = \<lambda>_. None, os_junk = \<lambda>_. 0, realloc0_frees = frees, os_sent = []\<rparr>"

definition demo_conn :: "t_state \<Rightarrow> nat \<Rightarrow> en50221_connection" where
  "demo_conn st sec = \<lparr>conn_state = st, tx_time = \<lparr>tv_sec = sec, tv_usec = 0\<rparr>, last_poll_time = \<lparr>tv_sec = 0, tv_usec = 0\<rparr>,
     chain_buffer = Null, buffer_length = 0, send_queue = []\<rparr>"

definition demo_tl :: "t_state \<Rightarrow> nat \<Rightarrow> en50221_transport_layer" where
  "demo_tl st sec = \<lparr>max_slots = 1, max_connections_per_slot = 2,
     slots = [\<lparr>ca_hndl = 3, cam_slot = 0, connections = [demo_conn T_STATE_IDLE 0, demo_conn st sec],
               response_timeout = 1000, poll_delay = 100\<rparr>],
     slot_pollfds = [\<lparr>pfd_fd = 0, pfd_events = 0, pfd_revents = 0\<rparr>], slots_changed = False,
     tl_error = 0, tl_error_slot = 0, tl_callback = None, os = demo_os False\<rparr>"

lemma demo_tl_inv: "tl_inv (demo_tl st sec)"
  by (simp add: tl_inv_def demo_tl_def slot_ok_def conn_ok_def chain_ok_def demo_conn_def demo_os_def)

lemma demo_tl_simps [simp]:
  "max_slots (demo_tl st sec) = 1" "max_connections_per_slot (demo_tl st sec) = 2"
  "conn (demo_tl st sec) 0 (Suc 0) = demo_conn st sec" "ca_hndl (slots (demo_tl st sec) ! 0) = 3"
  "os (demo_tl st sec) = demo_os False" "conn_state (demo_conn st sec) = st"
  "chain_buffer (demo_conn st sec) = Null" "send_queue (demo_conn st sec) = []"
  "tx_time (demo_conn st sec) = \<lparr>tv_sec = sec, tv_usec = 0\<rparr>" "os_malloc (demo_os b) n" "os_write (demo_os b) n"
  "tl_callback (demo_tl st sec) = None"
  by (simp_all add: demo_tl_def conn_def demo_conn_def demo_os_def)

section \<open>Properties\<close>

text \<open>C24: what one host sends, another receives.  On an active connection
  \<open>en50221_tl_send_data\<close> queues one message, and a transport layer that reads this message on an active
  connection with the same number hands exactly the data to its callback.\<close>

theorem tl_send_delivers:
  assumes "tl_inv tr" "s < max_slots tr" "c < max_connections_per_slot tr" "ca_hndl (slots tr ! s) \<noteq> -1"
    and "conn_state (conn tr s c) = T_STATE_ACTIVE" "os_malloc (os tr) (os_now (os tr))"
    and "data \<noteq> []" "length data < 65535"
    and peer: "tl_inv peer" "p < max_slots peer" "c < max_connections_per_slot peer"
      "conn_state (conn peer p c) = T_STATE_ACTIVE" "chain_buffer (conn peer p c) = Null"
  shows "\<exists>tr' msg. en50221_tl_send_data tr s c data = Some (tr', 0)
    \<and> send_queue (conn tr' s c) = send_queue (conn tr s c) @ [msg]
    \<and> en50221_tl_process_data call peer p msg 0 (length msg) =
        do { peer' \<leftarrow> upcall call T_CALLBACK_REASON_DATA data p c (put_conn peer p c (clear_tx (conn peer p c)));
             Some (peer', 0) }"
proof -
  have c: "c < 256" using assms(1,3) by (simp add: tl_inv_def)
  have v: "valid_conn tr s c" "valid_conn peer p c" using assms(1-3) peer(1-3) by (blast intro: tl_inv_valid)+
  have "en50221_tl_process_data call peer p (tpdu T_DATA_LAST c data) 0 (length (tpdu T_DATA_LAST c data)) =
        do { peer' \<leftarrow> upcall call T_CALLBACK_REASON_DATA data p c (put_conn peer p c (clear_tx (conn peer p c)));
             Some (peer', 0) }"
    using process_single [OF assms(8) peer(3) c] data_last_single [OF v(2) peer(4,5) assms(7)] by simp
  with send_data_queues [OF assms(1-6,8)] v(1) show ?thesis by auto
qed

theorem tl_send_delivers_witness:
  "\<exists>tr' msg. en50221_tl_send_data (demo_tl T_STATE_ACTIVE 0) 0 1 [0x91, 4] = Some (tr', 0)
    \<and> send_queue (conn tr' 0 1) = [msg]
    \<and> en50221_tl_process_data (\<lambda>f r data s c tr. None) (demo_tl T_STATE_ACTIVE 0) 0 msg 0 (length msg) =
        Some (put_conn (demo_tl T_STATE_ACTIVE 0) 0 1 (clear_tx (demo_conn T_STATE_ACTIVE 0)), 0)"
  using tl_send_delivers [of "demo_tl T_STATE_ACTIVE 0" 0 1 "[0x91, 4]" "demo_tl T_STATE_ACTIVE 0" 0 "\<lambda>f r data s c tr. None"]
  by (simp add: demo_tl_inv upcall_def)

text \<open>chained messages are put together: any number of \<open>T_DATA_MORE\<close> parts followed by a nonempty
  \<open>T_DATA_LAST\<close> part, read in one buffer on an active connection, reach the callback as one message that is their
  concatenation; nothing is sent and the chain is empty again.\<close>

theorem tl_chain_delivers:
  assumes "tl_inv tr" "s < max_slots tr" "c < max_connections_per_slot tr" "\<forall>n. os_malloc (os tr) n"
    and "conn_state (conn tr s c) = T_STATE_ACTIVE" "chain_buffer (conn tr s c) = Null" "data \<noteq> []"
    and "list_all (\<lambda>p. length p < 65535) (data # parts)" "length (concat parts) + length data < 2 ^ 31"
    and "buf = concat (map (tpdu T_DATA_MORE c) parts) @ tpdu T_DATA_LAST c data"
  shows "\<exists>w. os_sent w = os_sent (os tr) \<and>
    en50221_tl_process_data call tr s buf 0 (length buf) =
    do { tr' \<leftarrow> upcall call T_CALLBACK_REASON_DATA (concat parts @ data) s c
           (put_conn (tr\<lparr>os := w\<rparr>) s c ((clear_tx (conn tr s c))\<lparr>chain_buffer := Null, buffer_length := 0\<rparr>));
         Some (tr', 0) }"
proof -
  have c: "c < 256" and frees: "\<not> realloc0_frees (os tr)" using assms(1,3) by (simp_all add: tl_inv_def)
  have v: "valid_conn tr s c" and ok: "conn_ok (conn tr s c)"
    using assms(1-3) by (blast intro: tl_inv_valid tl_inv_conn_ok)+
  have nil: "chain (conn tr s c) = []" "buffer_length (conn tr s c) = 0"
    using ok assms(6) by (simp_all add: chain_def conn_ok_def chain_ok_def)
  show ?thesis
  proof (cases "parts = []")
    case True
    have "(clear_tx (conn tr s c))\<lparr>chain_buffer := Null, buffer_length := 0\<rparr> = clear_tx (conn tr s c)"
      using nil assms(6) by (simp add: clear_tx_def)
    then show ?thesis
      using True process_single [of data c tr call s T_DATA_LAST] data_last_single [OF v assms(5-7)] assms(3,8,10) c
      by (intro exI [of _ "os tr"]) (simp del: en50221_connection.fold_congs)
  next
    case False
    then show ?thesis
      using process_chain [of tr s c parts data "[]" 0 "length buf" call] v ok frees c nil assms by simp
  qed
qed

theorem tl_chain_delivers_witness:
  "\<exists>w. en50221_tl_process_data (\<lambda>f r data s c tr. None) (demo_tl T_STATE_ACTIVE 0) 0 [0xA1, 3, 1, 5, 6, 0xA0, 2, 1, 7] 0 9 =
     Some (put_conn ((demo_tl T_STATE_ACTIVE 0)\<lparr>os := w\<rparr>) 0 1 (demo_conn T_STATE_ACTIVE 0), 0)"
proof -
  let ?buf = "[0xA1, 3, 1, 5, 6, 0xA0, 2, 1, 7] :: u8 list"
  have k: "(clear_tx (demo_conn T_STATE_ACTIVE 0))\<lparr>chain_buffer := Null, buffer_length := 0\<rparr> = demo_conn T_STATE_ACTIVE 0"
    by (simp add: demo_conn_def clear_tx_def)
  have buf: "?buf = concat (map (tpdu T_DATA_MORE 1) [[5, 6]]) @ tpdu T_DATA_LAST 1 [7]" "length ?buf = 9"
    by (simp_all add: tpdu_def tpdu_tags asn_1_bytes_def)
  show ?thesis
    using tl_chain_delivers [of "demo_tl T_STATE_ACTIVE 0" 0 1 "[7]" "[[5, 6]]" ?buf "\<lambda>f r data s c tr. None", OF demo_tl_inv _ _ _ _ _ _ _ _ buf(1), unfolded buf(2)]
    by (simp add: upcall_def k) blast
qed

text \<open>C25: opening a connection: \<open>en50221_tl_new_tc\<close> takes the first idle connection from number 1
  on; the poll loop sends the create request on the device, and the reply of the module makes the connection active
  and tells the layer above.\<close>

theorem tc_open_handshake:
  assumes "tl_inv tr" "s < max_slots tr" "first_idle tr s c" "ca_hndl (slots tr ! s) \<noteq> -1"
    and "\<forall>n. os_malloc (os tr) n \<and> os_write (os tr) n"
    and "send_queue (conn tr s c) = []" "tv_sec (tx_time (conn tr s c)) = 0"
  shows "\<exists>t1 t2. en50221_tl_new_tc tr s = Some (t1, int c) \<and> poll_send t1 s c = Some (t2, 0)
    \<and> os_sent (os t2) = os_sent (os tr) @ [(ca_hndl (slots tr ! s), [cam_slot (slots tr ! s), of_nat c, T_CREATE_T_C, 1, of_nat c])]
    \<and> conn_state (conn t2 s c) = T_STATE_IN_CREATION \<and> send_queue (conn t2 s c) = []
    \<and> en50221_tl_process_data call t2 s [T_C_T_C_REPLY, 1, of_nat c] 0 3 =
        do { t3 \<leftarrow> upcall call T_CALLBACK_REASON_CONNECTIONOPEN [] s c
               (put_conn t2 s c (clear_tx ((conn t2 s c)\<lparr>conn_state := T_STATE_ACTIVE\<rparr>)));
             Some (t3, 0) }"
proof -
  let ?k = "opened_by_host (conn tr s c) c"
  let ?t1 = "put_conn (tr\<lparr>os := os_tick (os tr)\<rparr>) s c ?k"
  have c: "c < max_connections_per_slot tr" "c < 256" using assms(1,3) by (auto simp: first_idle_def tl_inv_def)
  have v: "valid_conn tr s c" using assms(1,2) c(1) by (rule tl_inv_valid)
  have new: "en50221_tl_new_tc tr s = Some (?t1, int c)" using assms by (intro new_tc_exact) auto
  have sl: "tl_slot (put_conn (tr\<lparr>os := w\<rparr>) s c k) s = Some ((slots tr ! s)\<lparr>connections := (connections (slots tr ! s))[c := k]\<rparr>)" for w k
    using v by (simp add: tl_slot_def valid_conn_def put_conn_def)
  obtain t2 where send: "poll_send ?t1 s c = Some (t2, 0)"
    and t2: "os_sent (os t2) = os_sent (os tr) @ [(ca_hndl (slots tr ! s), [cam_slot (slots tr ! s), of_nat c, T_CREATE_T_C, 1, of_nat c])]"
      "conn_state (conn t2 s c) = T_STATE_IN_CREATION" "send_queue (conn t2 s c) = []"
      "valid_conn t2 s c" "max_connections_per_slot t2 = max_connections_per_slot tr"
    using v sl assms(5-7)
    by (auto simp: poll_send_def tl_conn_valid set_conn_valid tl_write_def dvbca_link_write_def malloc_def Let_def
        tl_now_def gettimeofday_def os_tick_def tpdu_tags)
  have "en50221_tl_process_data call t2 s [T_C_T_C_REPLY, 1, of_nat c] 0 3 =
        do { t3 \<leftarrow> upcall call T_CALLBACK_REASON_CONNECTIONOPEN [] s c
               (put_conn t2 s c (clear_tx ((conn t2 s c)\<lparr>conn_state := T_STATE_ACTIVE\<rparr>)));
             Some (t3, 0) }"
    using process_empty [of c t2 call s T_C_T_C_REPLY] c t2
    by (simp add: handle_tpdu_def en50221_tl_handle_create_tc_reply_def tl_conn_valid set_conn_valid)
  with new send t2 show ?thesis by blast
qed

lemma demo_first_idle: "first_idle (demo_tl T_STATE_IDLE sec) 0 1"
  by (simp add: first_idle_def)

theorem tc_open_handshake_witness:
  "\<exists>t1 t2. en50221_tl_new_tc (demo_tl T_STATE_IDLE 0) 0 = Some (t1, 1) \<and> poll_send t1 0 1 = Some (t2, 0)
    \<and> conn_state (conn t2 0 1) = T_STATE_IN_CREATION"
proof -
  have "\<forall>n. os_malloc (os (demo_tl T_STATE_IDLE 0)) n \<and> os_write (os (demo_tl T_STATE_IDLE 0)) n" by simp
  from tc_open_handshake [OF demo_tl_inv _ demo_first_idle _ this, of "\<lambda>f r data s c tr. None"] show ?thesis
    by auto
qed

text \<open>a connection that was deleted by the usual handshake cannot be opened again.  The reply to
  \<open>T_DELETE_T_C\<close> leaves the time stamp of the request in place; when the connection number is given out again the poll loop
  still waits for a response to the old request: the create request stays in the queue, nothing is
  written to the device, and the connection ends in creation or idle.\<close>

theorem tc_reuse_blocked:
  assumes "tl_inv tr" "s < max_slots tr" "ca_hndl (slots tr ! s) \<noteq> -1" "os_malloc (os tr) (os_now (os tr))"
    and "0 < c" "c < max_connections_per_slot tr" "\<forall>i \<in> {1..<c}. conn_state (conn tr s i) \<noteq> T_STATE_IDLE"
    and "conn_state (conn tr s c) = T_STATE_IN_DELETION" "tv_sec (tx_time (conn tr s c)) \<noteq> 0"
  shows "\<exists>t1 t2 t3 x. en50221_tl_process_data call tr s [T_D_T_C_REPLY, 1, of_nat c] 0 3 = Some (t1, 0)
    \<and> en50221_tl_new_tc t1 s = Some (t2, int c) \<and> poll_connection t2 s c = Some (t3, 0)
    \<and> os_sent (os t3) = os_sent (os tr) \<and> x \<in> {T_STATE_IN_CREATION, T_STATE_IDLE}
    \<and> conn t3 s c = (opened_by_host (conn tr s c) c)\<lparr>conn_state := x\<rparr>"
proof -
  let ?k = "(conn tr s c)\<lparr>conn_state := T_STATE_IDLE\<rparr>"
  let ?t1 = "put_conn tr s c ?k"
  let ?t2 = "put_conn (?t1\<lparr>os := os_tick (os tr)\<rparr>) s c (opened_by_host (conn tr s c) c)"
  have open_k: "opened_by_host ?k c = opened_by_host (conn tr s c) c" by (simp add: opened_by_host_def)
  have c: "c < 256" using assms(1,6) by (simp add: tl_inv_def)
  have v: "valid_conn tr s c" using assms(1,2,6) by (rule tl_inv_valid)
  have ok: "conn_ok (conn tr s c)" using assms(1) v by (rule tl_inv_conn_ok)
  have "handle_tpdu call tr s T_D_T_C_REPLY c [] = en50221_tl_handle_delete_tc_reply tr s c"
    by (simp add: handle_tpdu_def tpdu_tags)
  also have "\<dots> = Some (?t1, 0)"
    using assms(8) v by (simp add: en50221_tl_handle_delete_tc_reply_def tl_conn_valid set_conn_valid)
  finally have reply: "en50221_tl_process_data call tr s [T_D_T_C_REPLY, 1, of_nat c] 0 3 = Some (?t1, 0)"
    using process_empty [of c tr call s T_D_T_C_REPLY] c assms(6) by simp
  have inv: "tl_inv ?t1" using assms(1) v ok by (intro tl_inv_put) simp_all
  have "first_idle ?t1 s c"
    unfolding first_idle_def using assms(5-7) v by (simp add: conn_put_other)
  then have new: "en50221_tl_new_tc ?t1 s = Some (?t2, int c)"
    using new_tc_exact [OF inv, of s c] assms(2-4) v open_k by simp
  have k2: "conn ?t2 s c = opened_by_host (conn tr s c) c" using v by simp
  have pre: "valid_conn ?t2 s c" "conn_state (conn ?t2 s c) = T_STATE_IN_CREATION" "tv_sec (tx_time (conn ?t2 s c)) \<noteq> 0"
    using v assms(9) unfolding k2 by simp_all
  have sent: "os_sent (os ?t2) = os_sent (os tr)" by simp
  from poll_blocked [OF pre, unfolded k2 sent] obtain t3 x where
    "poll_connection ?t2 s c = Some (t3, 0)" "os_sent (os t3) = os_sent (os tr)"
    "x \<in> {T_STATE_IN_CREATION, T_STATE_IDLE}" "conn t3 s c = (opened_by_host (conn tr s c) c)\<lparr>conn_state := x\<rparr>"
    by blast
  with reply new show ?thesis by blast
qed

theorem tc_reuse_blocked_witness:
  "\<exists>t1 t2 t3 x. en50221_tl_process_data (\<lambda>f r data s c tr. None) (demo_tl T_STATE_IN_DELETION 5) 0 [0x85, 1, 1] 0 3 = Some (t1, 0)
    \<and> en50221_tl_new_tc t1 0 = Some (t2, 1) \<and> poll_connection t2 0 1 = Some (t3, 0)
    \<and> os_sent (os t3) = [] \<and> conn t3 0 1 = (opened_by_host (demo_conn T_STATE_IN_DELETION 5) 1)\<lparr>conn_state := x\<rparr>"
proof -
  let ?tr = "demo_tl T_STATE_IN_DELETION 5"
  have sent: "os_sent (os ?tr) = []" by (simp add: demo_os_def)
  have "\<forall>i \<in> {1..<1}. conn_state (conn ?tr 0 i) \<noteq> T_STATE_IDLE" by simp
  then have "\<exists>t1 t2 t3 x. en50221_tl_process_data (\<lambda>f r data s c tr. None) ?tr 0 [T_D_T_C_REPLY, 1, of_nat 1] 0 3 = Some (t1, 0)
    \<and> en50221_tl_new_tc t1 0 = Some (t2, int 1) \<and> poll_connection t2 0 1 = Some (t3, 0)
    \<and> os_sent (os t3) = os_sent (os ?tr) \<and> x \<in> {T_STATE_IN_CREATION, T_STATE_IDLE}
    \<and> conn t3 0 1 = (opened_by_host (conn ?tr 0 1) 1)\<lparr>conn_state := x\<rparr>"
    by (intro tc_reuse_blocked demo_tl_inv) simp_all
  then show ?thesis unfolding sent by (simp only: T_D_T_C_REPLY_def semiring_1_class.of_nat_1 demo_tl_simps One_nat_def semiring_1_class.of_nat_0 semiring_1_class.of_nat_simps add_0_right) blast
qed

text \<open>with a C library whose \<open>realloc(p, 0)\<close> frees the block, a second empty
  \<open>T_DATA_MORE\<close> leaves \<open>chain_buffer\<close> pointing to a freed block, and the next data of the module on this connection uses it.\<close>

theorem empty_chain_dangles:
  assumes "valid_conn tr s c" "conn_state (conn tr s c) = T_STATE_ACTIVE" "realloc0_frees (os tr)"
    and "chain_buffer (conn tr s c) = Live []" "buffer_length (conn tr s c) = 0" "length data < 2 ^ 31"
  shows "\<exists>tr'. en50221_tl_handle_data_more tr s c [] = Some (tr', -1) \<and> chain_buffer (conn tr' s c) = Freed
    \<and> en50221_tl_handle_data_more tr' s c data = None \<and> en50221_tl_handle_data_last call tr' s c data = None"
proof -
  let ?k = "(clear_tx (conn tr s c))\<lparr>chain_buffer := Freed\<rparr>"
  let ?tr = "(put_conn (tr\<lparr>os := os_tick (os tr)\<rparr>) s c ?k)\<lparr>tl_error_slot := int s, tl_error := EN50221ERR_OUTOFMEMORY\<rparr>"
  have more: "en50221_tl_handle_data_more tr s c [] = Some (?tr, -1)"
    using assms by (simp add: en50221_tl_handle_data_more_def extend_chain_def tl_conn_valid set_conn_valid
        realloc_def Let_def fail_slot_def)
  have v: "valid_conn ?tr s c" and k: "conn ?tr s c = ?k" using assms(1) by (simp_all add: valid_conn_def conn_def put_conn_def)
  have "\<not> sint (of_nat (length data) :: u32) < 0"
    using assms(6) by (simp only: sint_neg_iff) (simp add: unsigned_of_nat take_bit_nat_eq_self)
  then have fault: "extend_chain (put_conn ?tr s c (clear_tx ?k)) s c data = None"
    using v assms(5) by (simp add: extend_chain_def tl_conn_valid clear_tx_def realloc_def Let_def)
  then have "en50221_tl_handle_data_more ?tr s c data = None" "en50221_tl_handle_data_last call ?tr s c data = None"
    using v k assms(2)
    by (simp_all add: en50221_tl_handle_data_more_def en50221_tl_handle_data_last_def tl_conn_valid set_conn_valid)
  with more k show ?thesis by (intro exI [of _ ?tr]) simp
qed

definition demo_chain :: en50221_transport_layer where
  "demo_chain = put_conn ((demo_tl T_STATE_ACTIVE 0)\<lparr>os := demo_os True\<rparr>) 0 1 ((demo_conn T_STATE_ACTIVE 0)\<lparr>chain_buffer := Live []\<rparr>)"

theorem empty_chain_dangles_witness:
  "\<exists>tr'. en50221_tl_handle_data_more demo_chain 0 1 [] = Some (tr', -1) \<and> en50221_tl_handle_data_more tr' 0 1 [9] = None"
proof -
  have "valid_conn demo_chain 0 1"
    by (simp add: demo_chain_def) (simp add: valid_conn_def demo_tl_def)
  moreover have "conn demo_chain 0 1 = (demo_conn T_STATE_ACTIVE 0)\<lparr>chain_buffer := Live []\<rparr>"
    unfolding demo_chain_def by (rule conn_put_conn) (simp add: valid_conn_def demo_tl_def)
  moreover have "realloc0_frees (os demo_chain)" by (simp add: demo_chain_def demo_os_def)
  ultimately show ?thesis
    using empty_chain_dangles [of demo_chain 0 1 "[9]" "\<lambda>f r data s c tr. None"]
    by (auto simp: demo_conn_def)
qed

lemma alloc_slots_Uninit:
  "Uninit \<in> set (snd (alloc_slots w proto n)) \<longleftrightarrow> (\<exists>i. i + 1 < n \<and> \<not> os_malloc w (os_now w + i))"
proof (induction n arbitrary: w)
  case (Suc n)
  have w: "os_malloc (os_tick w) = os_malloc w" "os_now (os_tick w) = Suc (os_now w)" by (simp_all add: os_tick_def)
  have "(\<exists>i. i + 1 < Suc n \<and> \<not> os_malloc w (os_now w + i)) \<longleftrightarrow>
      0 < n \<and> \<not> os_malloc w (os_now w) \<or> (\<exists>i. i + 1 < n \<and> \<not> os_malloc w (Suc (os_now w) + i))"
  proof
    assume "\<exists>i. i + 1 < Suc n \<and> \<not> os_malloc w (os_now w + i)"
    then obtain i where "i + 1 < Suc n" "\<not> os_malloc w (os_now w + i)" by blast
    then show "0 < n \<and> \<not> os_malloc w (os_now w) \<or> (\<exists>i. i + 1 < n \<and> \<not> os_malloc w (Suc (os_now w) + i))"
      by (cases i) auto
  next
    assume "0 < n \<and> \<not> os_malloc w (os_now w) \<or> (\<exists>i. i + 1 < n \<and> \<not> os_malloc w (Suc (os_now w) + i))"
    then show "\<exists>i. i + 1 < Suc n \<and> \<not> os_malloc w (os_now w + i)"
    proof
      assume "0 < n \<and> \<not> os_malloc w (os_now w)"
      then show ?thesis by (intro exI [of _ 0]) simp
    next
      assume "\<exists>i. i + 1 < n \<and> \<not> os_malloc w (Suc (os_now w) + i)"
      then obtain i where "i + 1 < n" "\<not> os_malloc w (Suc (os_now w) + i)" by blast
      then show ?thesis by (intro exI [of _ "Suc i"]) simp
    qed
  qed
  then show ?case using Suc.IH [of "os_tick w"] w
    by (auto simp: malloc_def Let_def case_prod_beta)
qed simp

lemma alloc_slots_Freed: "Freed \<notin> set (snd (alloc_slots w proto n))"
  by (induction n arbitrary: w) (auto simp: Let_def case_prod_beta)

text \<open>C31: \<open>en50221_tl_create\<close> either fails or returns a layer in a consistent state; but when the
  allocation of the connections of a slot fails before the last slot, the clean-up follows pointers that were
  never written.\<close>

theorem tl_create_outcome:
  assumes "maxs < 256" "maxc < 256" "\<not> realloc0_frees w"
  shows "(\<forall>w' tr. en50221_tl_create w maxs maxc = Some (w', Some tr) \<longrightarrow> tl_inv tr)
    \<and> (en50221_tl_create w maxs maxc = None \<longleftrightarrow> os_malloc w (os_now w) \<and> os_malloc w (os_now w + 1)
        \<and> (\<exists>i. i + 1 < maxs \<and> \<not> os_malloc w (os_now w + 2 + i)))"
proof
  show "\<forall>w' tr. en50221_tl_create w maxs maxc = Some (w', Some tr) \<longrightarrow> tl_inv tr"
    using create_inv assms by blast
  let ?w = "os_tick (os_tick w)"
  let ?a = "alloc_slots ?w (replicate maxc (new_connection ?w)) maxs"
  have w: "os_malloc (os_tick w) (os_now (os_tick w)) = os_malloc w (os_now w + 1)" by (simp add: os_tick_def)
  have u: "Uninit \<in> set (snd ?a) \<longleftrightarrow> (\<exists>i. i + 1 < maxs \<and> \<not> os_malloc w (os_now w + 2 + i))"
    unfolding alloc_slots_Uninit by (simp add: os_tick_def)
  have n: "Uninit \<notin> set (snd ?a)" if "Null \<notin> set (snd ?a)"
    using alloc_slots_Live [OF that] by (auto dest: arg_cong [of _ _ set] split: if_splits)
  have "en50221_tl_create w maxs maxc = None \<longleftrightarrow>
      os_malloc w (os_now w) \<and> os_malloc (os_tick w) (os_now (os_tick w)) \<and> Uninit \<in> set (snd ?a)"
    using n alloc_slots_Freed [of ?w _ maxs]
    by (auto simp: en50221_tl_create_def malloc_def Let_def case_prod_beta en50221_tl_destroy_def split: if_splits)
  with u w show "en50221_tl_create w maxs maxc = None \<longleftrightarrow> os_malloc w (os_now w) \<and> os_malloc w (os_now w + 1)
        \<and> (\<exists>i. i + 1 < maxs \<and> \<not> os_malloc w (os_now w + 2 + i))" by simp
qed

theorem tl_create_outcome_witness:
  "en50221_tl_create ((demo_os False)\<lparr>os_malloc := \<lambda>n. n < 2\<rparr>) 2 1 = None"
proof -
  have "(\<exists>i. i + 1 < (2 :: nat) \<and> \<not> os_now (demo_os False) + 2 + i < 2)" by (intro exI [of _ 0]) simp
  then show ?thesis
    using tl_create_outcome [of 2 1 "(demo_os False)\<lparr>os_malloc := \<lambda>n. n < 2\<rparr>"] by (simp add: demo_os_def)
qed

end
