(* ===== verification/En50221_Session_Props.thy ===== *)
theory En50221_Session_Props
  imports En50221_Session_Inv En50221_Transport_Props
begin

text \<open>
  What the session layer does with the messages of the module: packages reach the resource of their session in
  order, the first idle session is allocated, and the places where requests of the host never
  complete.
\<close>

section \<open>A session layer to try the theorems on\<close>

definition demo_session :: "s_state \<Rightarrow> en50221_session" where
  "demo_session st = \<lparr>sess_state = st, resource_id = 0x20041, slot_id = 0, connection_id = 1, sess_callback = None\<rparr>"

definition demo_sl :: "s_state \<Rightarrow> en50221_session_layer" where
  "demo_sl st = en50221_transport_layer.extend (demo_tl T_STATE_ACTIVE 0)
     \<lparr>max_sessions = 2, lookup = None, session = None, sl_error = 0, sessions = [demo_session S_STATE_IDLE, demo_session st]\<rparr>"

lemma demo_sl_simps [simp]:
  "max_sessions (demo_sl st) = 2" "sessions (demo_sl st) = [demo_session S_STATE_IDLE, demo_session st]" "session (demo_sl st) = None"
  "sess_state (demo_session st) = st" "slot_id (demo_session st) = 0" "connection_id (demo_session st) = 1"
  "sess_callback (demo_session st) = None" "resource_id (demo_session st) = 0x20041"
  by (simp_all add: demo_sl_def demo_session_def en50221_transport_layer.defs en50221_session_layer.defs)

lemma demo_sl_inv: "sl_inv (demo_sl st)"
proof -
  have "tl_inv (demo_sl st)" using demo_tl_inv [of T_STATE_ACTIVE 0]
    by (simp add: demo_sl_def en50221_transport_layer.defs tl_inv_def)
  then show ?thesis by (simp add: sl_inv_def)
qed

section \<open>Packages\<close>

lemma number_bytes_be16: "n < 65536 \<Longrightarrow> \<exists>a b. number_bytes (int n) = [a, b] \<and> unat (be16 a b) = n"
  using be16_of_int [of "int n"] unfolding number_bytes_def by (metis of_nat_0_le_iff of_nat_eq_iff of_nat_less_iff of_nat_numeral)

text \<open>An APDU is a tag of three bytes, a length and that many bytes.\<close>

definition is_apdu :: "u8 list \<Rightarrow> bool" where
  "is_apdu a \<longleftrightarrow> (\<exists>tag body. length tag = 3 \<and> length body < 65536 \<and> a = tag @ asn_1_bytes (of_nat (length body)) @ body)"

text \<open>The resource callback for one APDU after another.\<close>

primrec deliver_all ::
  "'a upper \<Rightarrow> fptr option \<Rightarrow> nat \<Rightarrow> nat \<Rightarrow> u32 \<Rightarrow> u8 list list \<Rightarrow> 'a slayer \<Rightarrow> 'a slayer option" where
  "deliver_all up cb s n rid [] sl = Some sl"
| "deliver_all up cb s n rid (a # as) sl =
     do { sl \<leftarrow> (case cb of None \<Rightarrow> Some sl | Some f \<Rightarrow> do { (sl, _) \<leftarrow> up_resource up f s n rid a sl; Some sl });
          deliver_all up cb s n rid as sl }"

lemma apdu_step:
  assumes "is_apdu a"
  shows "apdu_loop up sl cb s n rid (xs @ a @ ys) (length xs) (length (a @ ys)) =
    do { sl \<leftarrow> (case cb of None \<Rightarrow> Some sl | Some f \<Rightarrow> do { (sl, _) \<leftarrow> up_resource up f s n rid a sl; Some sl });
         apdu_loop up sl cb s n rid (xs @ a @ ys) (length xs + length a) (length ys) }"
proof -
  from assms obtain tag body where a: "length tag = 3" "length body < 65536" "a = tag @ asn_1_bytes (of_nat (length body)) @ body"
    unfolding is_apdu_def by blast
  let ?l = "asn_1_bytes (of_nat (length body))"
  have d: "asn_1_decode (xs @ a @ ys) (length xs + 3) (length (a @ ys) - 3) = Some (int (length ?l), Some (of_nat (length body)))"
    using asn1.dec_enc [of "xs @ tag" "length xs + 3" "of_nat (length body)" "length (a @ ys) - 3" "body @ ys"] a by simp
  have "rd_bytes (xs @ a @ ys) (length xs) (length a) = Some a" by (simp add: rd_bytes_def)
  moreover have "3 + nat (int (length ?l)) + unat (of_nat (length body) :: u16) = length a"
    using a by (simp add: unat_of_nat_u16)
  moreover have "3 \<le> length a" "a \<noteq> []" using a by auto
  ultimately show ?thesis using d
    by (subst apdu_loop.simps) (simp add: Let_def)
qed

lemma apdu_loop_all:
  "list_all is_apdu as \<Longrightarrow> apdu_loop up sl cb s n rid (xs @ concat as) (length xs) (length (concat as)) = deliver_all up cb s n rid as sl"
proof (induction as arbitrary: xs sl)
  case Nil
  then show ?case by (subst apdu_loop.simps) simp
next
  case (Cons a as)
  have "apdu_loop up sl' cb s n rid (xs @ a @ concat as) (length xs + length a) (length (concat as)) = deliver_all up cb s n rid as sl'" for sl'
    using Cons.IH [of sl' "xs @ a"] Cons.prems by simp
  with Cons.prems apdu_step [of a up sl cb s n rid xs "concat as"] show ?case by simp
qed

text \<open>C26: 
  What \<open>en50221_sl_send_datav\<close> hands to the transport layer for a vector of APDUs, arriving at a peer on which the session is
  active on that slot and connection, makes the peer call the resource of the session for
  each APDU, in order.
\<close>

theorem sl_package_delivers:
  assumes "n < max_sessions sl" "n < 65536" "length vector \<le> 9" "sl_inv sl" "sess_state (sessions sl ! n) = S_STATE_ACTIVE"
    and "sl_inv peer" "n < max_sessions peer" "list_all is_apdu vector"
    and "sess_state (sessions peer ! n) = S_STATE_ACTIVE" "slot_id (sessions peer ! n) = s" "connection_id (sessions peer ! n) = c"
  shows "\<exists>package. en50221_sl_send_datav sl n vector =
      do { (sl, r) \<leftarrow> en50221_tl_send_datav sl (slot_id (sessions sl ! n)) (connection_id (sessions sl ! n)) (package # vector);
           Some (if r \<noteq> 0 then (sl\<lparr>sl_error := en50221_tl_get_error sl\<rparr>, -1) else (sl, 0)) }
    \<and> en50221_sl_transport_callback up f T_CALLBACK_REASON_DATA (package @ concat vector) s c peer
      = deliver_all up (sess_callback (sessions peer ! n)) s n (resource_id (sessions peer ! n)) vector peer"
proof (intro exI conjI)
  let ?p = "[ST_SESSION_NUMBER, 2] @ number_bytes (int n)"
  show "en50221_sl_send_datav sl n vector =
      do { (sl, r) \<leftarrow> en50221_tl_send_datav sl (slot_id (sessions sl ! n)) (connection_id (sessions sl ! n)) (?p # vector);
           Some (if r \<noteq> 0 then (sl\<lparr>sl_error := en50221_tl_get_error sl\<rparr>, -1) else (sl, 0)) }"
    using assms(1-5) by (auto simp: en50221_sl_send_datav_def sl_session_def sl_inv_def intro!: Option.bind_cong)
  obtain a b where ab: "number_bytes (int n) = [a, b]" "unat (be16 a b) = n" using number_bytes_be16 [OF assms(2)] by blast
  have loop: "apdu_loop up peer cb s n rid ([2, a, b] @ concat vector) (length [2, a, b]) (length (concat vector))
      = deliver_all up cb s n rid vector peer" for cb rid
    by (rule apdu_loop_all [OF assms(8)])
  show "en50221_sl_transport_callback up f T_CALLBACK_REASON_DATA (?p @ concat vector) s c peer
      = deliver_all up (sess_callback (sessions peer ! n)) s n (resource_id (sessions peer ! n)) vector peer"
    using assms(6-11) loop ab
    by (simp add: en50221_sl_transport_callback_def sl_data_def spdu_tags en50221_sl_handle_session_package_def sl_session_def
        sl_inv_def Let_def numeral_3_eq_3)
qed

theorem sl_package_delivers_witness:
  "\<exists>package. en50221_sl_send_datav (demo_sl S_STATE_ACTIVE) 1 [[0x9F, 0x80, 0x10, 0]] =
      do { (sl, r) \<leftarrow> en50221_tl_send_datav (demo_sl S_STATE_ACTIVE) 0 1 [package, [0x9F, 0x80, 0x10, 0]];
           Some (if r \<noteq> 0 then (sl\<lparr>sl_error := en50221_tl_get_error sl\<rparr>, -1) else (sl, 0)) }
    \<and> en50221_sl_transport_callback (\<lparr>up_lookup = \<lambda>_ _ _ _. None, up_session = \<lambda>_ _ _ _ _ _. None, up_resource = \<lambda>_ _ _ _ _ _. None\<rparr> :: unit upper)
        0 T_CALLBACK_REASON_DATA (package @ [0x9F, 0x80, 0x10, 0]) 0 1 (demo_sl S_STATE_ACTIVE) = Some (demo_sl S_STATE_ACTIVE)"
proof -
  have "is_apdu [0x9F, 0x80, 0x10, 0]"
    unfolding is_apdu_def by (intro exI [of _ "[0x9F, 0x80, 0x10]"] exI [of _ "[]"]) (simp add: asn_1_bytes_def)
  then show ?thesis
    using sl_package_delivers [of 1 "demo_sl S_STATE_ACTIVE" "[[0x9F, 0x80, 0x10, 0]]" "demo_sl S_STATE_ACTIVE" 0 1
        "\<lparr>up_lookup = \<lambda>_ _ _ _. None, up_session = \<lambda>_ _ _ _ _ _. None, up_resource = \<lambda>_ _ _ _ _ _. None\<rparr> :: unit upper" 0]
    by (simp add: demo_sl_inv)
qed

section \<open>Allocation\<close>

text \<open>The first idle session from number 1 on is taken, and nothing else changes; without one the error is reported.\<close>

theorem alloc_session_first_idle:
  assumes "sl_inv sl"
  shows "case en50221_sl_alloc_new_session sl rid s c cb of
      None \<Rightarrow> False
    | Some (sl', r) \<Rightarrow>
        if \<exists>n. 0 < n \<and> n < max_sessions sl \<and> sess_state (sessions sl ! n) = S_STATE_IDLE
        then \<exists>n. r = int n \<and> 0 < n \<and> n < max_sessions sl \<and> sess_state (sessions sl ! n) = S_STATE_IDLE
          \<and> (\<forall>k. 0 < k \<and> k < n \<longrightarrow> sess_state (sessions sl ! k) \<noteq> S_STATE_IDLE)
          \<and> sl' = sl\<lparr>sessions := (sessions sl)[n := \<lparr>sess_state = S_STATE_IN_CREATION, resource_id = rid, slot_id = s,
                connection_id = c, sess_callback = cb\<rparr>]\<rparr>
        else r = -1 \<and> sl' = sl\<lparr>sl_error := EN50221ERR_OUTOFSESSIONS\<rparr>"
proof -
  let ?P = "\<lambda>x. sess_state x = S_STATE_IDLE" and ?xs = "List.tl (take (max_sessions sl) (sessions sl))"
  have len: "length (sessions sl) = max_sessions sl" using assms by (simp add: sl_inv_def)
  have nth: "?xs ! k = sessions sl ! Suc k" if "Suc k < max_sessions sl" for k
    using that len by (simp add: nth_tl)
  show ?thesis
  proof (cases "first_index ?P ?xs 1")
    case None
    then have "list_all (\<lambda>x. \<not> ?P x) ?xs" by (simp only: first_index_None)
    have "\<not> ?P (sessions sl ! n)" if "0 < n" "n < max_sessions sl" for n
    proof -
      have "\<not> ?P (?xs ! (n - 1))" using \<open>list_all (\<lambda>x. \<not> ?P x) ?xs\<close> that len by (simp add: list_all_length)
      then show ?thesis using nth [of "n - 1"] that by simp
    qed
    with None show ?thesis by (auto simp: en50221_sl_alloc_new_session_def)
  next
    case (Some n)
    from first_index_Some [OF this] len have n: "0 < n" "n < max_sessions sl" "?P (?xs ! (n - 1))" "\<forall>k < n - 1. \<not> ?P (?xs ! k)"
      by auto
    have idle: "?P (sessions sl ! n)" using n nth [of "n - 1"] by simp
    have first: "\<not> ?P (sessions sl ! k)" if "0 < k" "k < n" for k
    proof -
      have "\<not> ?P (?xs ! (k - 1))" using n(4) that by simp
      then show ?thesis using nth [of "k - 1"] that n(2) by simp
    qed
    have "en50221_sl_alloc_new_session sl rid s c cb = Some (sl\<lparr>sessions := (sessions sl)[n := \<lparr>sess_state = S_STATE_IN_CREATION,
        resource_id = rid, slot_id = s, connection_id = c, sess_callback = cb\<rparr>]\<rparr>, int n)"
      using Some n len by (cases "sessions sl ! n") (simp add: en50221_sl_alloc_new_session_def set_session_def sl_session_def)
    note run = this
    have ex: "\<exists>n. 0 < n \<and> n < max_sessions sl \<and> ?P (sessions sl ! n)" using n(1,2) idle by blast
    show ?thesis unfolding run option.case prod.case if_P [OF ex]
      by (intro exI [of _ n] conjI refl n(1,2) idle) (use first in blast)
  qed
qed

theorem alloc_session_first_idle_witness:
  "case en50221_sl_alloc_new_session (demo_sl S_STATE_ACTIVE) 0x10041 0 1 None of
      None \<Rightarrow> False
    | Some (sl', r) \<Rightarrow> r = -1 \<and> sl' = (demo_sl S_STATE_ACTIVE)\<lparr>sl_error := EN50221ERR_OUTOFSESSIONS\<rparr>"
proof -
  have "\<not> (\<exists>n. 0 < n \<and> n < max_sessions (demo_sl S_STATE_ACTIVE) \<and> sess_state (sessions (demo_sl S_STATE_ACTIVE) ! n) = S_STATE_IDLE)"
    by (auto simp: less_Suc_eq numeral_2_eq_2)
  with alloc_session_first_idle [where rid = "0x10041" and s = 0 and c = 1 and cb = None, OF demo_sl_inv [of S_STATE_ACTIVE]] show ?thesis by (simp only: if_False)
qed

section \<open>Answers the host does not understand\<close>

text \<open>
  The answer to a close request has three bytes of data: a status and the session number.  This is also what this library
  sends as \<open>ST_CLOSE_SESSION_RES\<close>.  The handler asks for four bytes, so the answer is dropped: a session
  that the host closes stays in deletion until its connection or slot is closed.
\<close>

theorem close_response_ignored:
  assumes "sl_inv sl" "n < max_sessions sl" "sess_state (sessions sl ! n) = S_STATE_ACTIVE"
    and "en50221_sl_destroy_session sl n = Some (sl', 0)"
  shows "sess_state (sessions sl' ! n) = S_STATE_IN_DELETION
    \<and> en50221_sl_transport_callback up f T_CALLBACK_REASON_DATA ([ST_CLOSE_SESSION_RES, 3, code] @ number_bytes (int n)) s c sl' = Some sl'"
proof -
  let ?x = "sessions sl ! n" and ?m = "[ST_CLOSE_SESSION_REQ, 2] @ number_bytes (int n)"
  let ?d = "sl\<lparr>sessions := (sessions sl)[n := ?x\<lparr>sess_state := S_STATE_IN_DELETION\<rparr>]\<rparr>"
  have len: "n < length (sessions sl)" using assms(1,2) by (simp add: sl_inv_def)
  have run: "en50221_sl_destroy_session sl n = do { (sl, r) \<leftarrow> en50221_tl_send_data ?d (slot_id ?x) (connection_id ?x) ?m;
      if r \<noteq> 0 then undo_session sl n S_STATE_IN_DELETION else Some (sl, 0) }"
    using assms(2,3) len by (simp add: en50221_sl_destroy_session_def sl_session_def set_session_def)
  have "tl_inv ?d" using assms(1) by (simp add: sl_inv_def)
  then have "wp (en50221_tl_send_data ?d (slot_id ?x) (connection_id ?x) ?m) (kept ?d)"
    by (rule send_data_kept) simp
  then obtain sl1 r where s: "en50221_tl_send_data ?d (slot_id ?x) (connection_id ?x) ?m = Some (sl1, r)" "tl_step ?d sl1"
    by (auto simp: wp_def kept_def)
  have "sessions sl1 = sessions ?d" using s(2) more_fields [of sl1 ?d] by (simp add: tl_step_def tl_frame_def)
  then have "sess_state (sessions sl1 ! n) = S_STATE_IN_DELETION" using len by simp
  moreover have "sl1 = sl'"
    using assms(4) s(1) unfolding run by (auto simp: undo_session_def bind_eq_Some_conv split: if_splits)
  moreover have "length ([3, code] @ number_bytes (int n)) < 5" by simp
  ultimately show ?thesis
    by (simp add: en50221_sl_transport_callback_def sl_data_def spdu_tags en50221_sl_handle_close_session_response_def)
qed

theorem close_response_ignored_witness:
  "\<exists>sl'. en50221_sl_destroy_session (demo_sl S_STATE_ACTIVE) 1 = Some (sl', 0) \<and> sess_state (sessions sl' ! 1) = S_STATE_IN_DELETION
    \<and> en50221_sl_transport_callback (\<lparr>up_lookup = \<lambda>_ _ _ _. None, up_session = \<lambda>_ _ _ _ _ _. None, up_resource = \<lambda>_ _ _ _ _ _. None\<rparr> :: unit upper)
        0 T_CALLBACK_REASON_DATA [ST_CLOSE_SESSION_RES, 3, 0, 0, 1] 0 1 sl' = Some sl'"
proof -
  let ?d = "(demo_sl S_STATE_ACTIVE)\<lparr>sessions := [demo_session S_STATE_IDLE, (demo_session S_STATE_ACTIVE)\<lparr>sess_state := S_STATE_IN_DELETION\<rparr>]\<rparr>"
  have "tl_inv ?d" using demo_sl_inv [of S_STATE_ACTIVE] by (simp add: sl_inv_def)
  moreover have "conn ?d 0 1 = demo_conn T_STATE_ACTIVE 0" by (simp add: demo_sl_def demo_tl_def conn_def en50221_transport_layer.defs)
  ultimately obtain d' where "en50221_tl_send_data ?d 0 1 [149, 2, 0, 1] = Some (d', 0)"
    using send_data_queues [of ?d 0 1 "[149, 2, 0, 1]"] by (auto simp: demo_sl_def demo_tl_def en50221_transport_layer.defs)
  then have "\<exists>sl'. en50221_sl_destroy_session (demo_sl S_STATE_ACTIVE) 1 = Some (sl', 0)"
    by (simp add: en50221_sl_destroy_session_def sl_session_def set_session_def number_bytes_def spdu_tags)
  then obtain sl' where d: "en50221_sl_destroy_session (demo_sl S_STATE_ACTIVE) 1 = Some (sl', 0)" by blast
  from close_response_ignored [OF demo_sl_inv _ _ d] d show ?thesis by (auto simp: number_bytes_def)
qed

text \<open>
  The answer to the creation of a session carries status, resource and session number.  The handler takes the number
  one byte too early, from the last byte of the resource and the high byte of the number, so the session that the host
  asked for is not found.
\<close>

theorem create_response_misread:
  assumes "n < 256" "max_sessions sl \<le> 256 * unat (ucast rid :: u8)"
  shows "en50221_sl_transport_callback up f T_CALLBACK_REASON_DATA
      ([ST_CREATE_SESSION_RES, 7, 0] @ resource_bytes rid @ number_bytes (int n)) s c sl = Some sl"
proof -
  have "number_bytes (int n) = [0, of_nat n]" using assms(1) by (simp add: number_bytes_def)
  moreover have "256 * unat (ucast rid :: u8) \<le> unat (be16 (ucast rid) 0)" by (simp add: unat_be16)
  ultimately show ?thesis using assms(2)
    by (simp add: en50221_sl_transport_callback_def sl_data_def spdu_tags en50221_sl_handle_create_session_response_def
        resource_bytes_def Let_def)
qed

theorem create_response_misread_witness:
  "en50221_sl_transport_callback (\<lparr>up_lookup = \<lambda>_ _ _ _. None, up_session = \<lambda>_ _ _ _ _ _. None, up_resource = \<lambda>_ _ _ _ _ _. None\<rparr> :: unit upper)
     0 T_CALLBACK_REASON_DATA [ST_CREATE_SESSION_RES, 7, 0, 0, 2, 0, 0x41, 0, 1] 0 1 (demo_sl S_STATE_IN_CREATION) = Some (demo_sl S_STATE_IN_CREATION)"
proof -
  have "resource_bytes 0x20041 = [0, 2, 0, 0x41]" "number_bytes (int 1) = [0, 1]" by (code_simp, simp add: number_bytes_def)
  moreover have "unat (ucast (0x20041 :: u32) :: u8) = 65" by code_simp
  ultimately show ?thesis using create_response_misread [of 1 "demo_sl S_STATE_IN_CREATION" "0x20041"] by simp
qed

section \<open>Closing\<close>

definition idle_if :: "(en50221_session \<Rightarrow> bool) \<Rightarrow> en50221_session \<Rightarrow> en50221_session" where
  "idle_if P x = (if P x then x\<lparr>sess_state := S_STATE_IDLE\<rparr> else x)"

lemma close_sessions_quiet:
  "i + k = length (sessions sl) \<Longrightarrow> close_sessions up None sel sl [i..<length (sessions sl)]
   = Some (sl\<lparr>sessions := take i (sessions sl) @ map (idle_if sel) (drop i (sessions sl))\<rparr>)"
proof (induction k arbitrary: i sl)
  case 0
  then show ?case by simp
next
  case (Suc k)
  let ?x = "sessions sl ! i"
  let ?sl = "if sess_state ?x \<noteq> S_STATE_IDLE \<and> sel ?x
             then sl\<lparr>sessions := (sessions sl)[i := ?x\<lparr>sess_state := S_STATE_IDLE\<rparr>]\<rparr> else sl"
  have i: "i < length (sessions sl)" using Suc.prems by simp
  have idle: "sess_state ?x = S_STATE_IDLE \<Longrightarrow> ?x\<lparr>sess_state := S_STATE_IDLE\<rparr> = ?x" by (cases ?x) simp
  have s: "sessions ?sl = (sessions sl)[i := idle_if sel ?x]" "length (sessions ?sl) = length (sessions sl)"
    using i by (simp_all add: idle_if_def) (metis idle list_update_id)
  have "close_sessions up None sel ?sl [Suc i..<length (sessions sl)]
      = Some (?sl\<lparr>sessions := take (Suc i) (sessions ?sl) @ map (idle_if sel) (drop (Suc i) (sessions ?sl))\<rparr>)"
    using Suc.IH [of "Suc i" ?sl] Suc.prems s(2) by simp
  also have "take (Suc i) (sessions ?sl) @ map (idle_if sel) (drop (Suc i) (sessions ?sl))
      = take i (sessions sl) @ map (idle_if sel) (drop i (sessions sl))"
    unfolding s(1) using i Cons_nth_drop_Suc [OF i, symmetric] by (simp add: take_Suc_conv_app_nth)
  also have "?sl\<lparr>sessions := ys\<rparr> = sl\<lparr>sessions := ys\<rparr>" for ys by simp
  finally show ?case
    using i by (auto simp: upt_conv_Cons sl_session_def set_session_def notify_def split: if_splits)
qed

text \<open>
  When a connection is closed, every session with that connection number becomes idle, on whichever slot it is: the
  slot is not compared.
\<close>

theorem connection_close_all_slots:
  assumes "length (sessions sl) = max_sessions sl" "session sl = None"
  shows "en50221_sl_transport_callback up f T_CALLBACK_REASON_CONNECTIONCLOSE data s c sl
    = Some (sl\<lparr>sessions := map (idle_if (\<lambda>x. connection_id x = c)) (sessions sl)\<rparr>)"
  using close_sessions_quiet [of 0 "length (sessions sl)" sl up "\<lambda>x. connection_id x = c"] assms
  by (simp add: en50221_sl_transport_callback_def)

theorem connection_close_all_slots_witness:
  "en50221_sl_transport_callback (\<lparr>up_lookup = \<lambda>_ _ _ _. None, up_session = \<lambda>_ _ _ _ _ _. None, up_resource = \<lambda>_ _ _ _ _ _. None\<rparr> :: unit upper)
     0 T_CALLBACK_REASON_CONNECTIONCLOSE [] 5 1 (demo_sl S_STATE_ACTIVE) = Some ((demo_sl S_STATE_ACTIVE)\<lparr>sessions := [demo_session S_STATE_IDLE, demo_session S_STATE_IDLE]\<rparr>)"
proof -
  have "map (idle_if (\<lambda>x. connection_id x = 1)) (sessions (demo_sl S_STATE_ACTIVE)) = [demo_session S_STATE_IDLE, demo_session S_STATE_IDLE]"
    by (simp add: idle_if_def demo_session_def)
  with connection_close_all_slots [of "demo_sl S_STATE_ACTIVE"] show ?thesis by simp
qed

end
