(* ===== verification/En50221_App.thy ===== *)
theory En50221_App
  imports En50221_Transport Endianops Dvb_Date
begin

text \<open>
  The application resources of \<open>lib/libdvben50221\<close>: \<open>en50221_app_utils\<close>, \<open>en50221_app_rm.c\<close>
  (resource manager), \<open>en50221_app_ai.c\<close> (application information), \<open>en50221_app_datetime.c\<close> and
  the messages of \<open>en50221_app_ca.c\<close> (conditional access).

  A resource sends through a pair of functions it was created with (\<open>en50221_app_send_functions\<close>) and hands what
  it receives to callbacks registered by its user; both act on a state of type \<open>'s\<close>, which is the whole stack.
  A callback is a function pointer; the first argument of a handler interprets it.
\<close>

section \<open>Resource identifiers\<close>

record en50221_app_public_resource_id =
  resource_class :: u16
  resource_type :: u16
  resource_version :: u8

definition MKRID :: "u32 \<Rightarrow> u32 \<Rightarrow> u32 \<Rightarrow> u32" where
  "MKRID c t v = push_bit 16 (c AND 0xffff) OR push_bit 6 (t AND 0x3ff) OR (v AND 0x3f)"

definition en50221_app_decode_public_resource_id :: "u32 \<Rightarrow> en50221_app_public_resource_id option" where
  "en50221_app_decode_public_resource_id rid =
     (if rid AND 0xc0000000 = 0xc0000000 then None
      else Some \<lparr>resource_class = ucast (drop_bit 16 rid AND 0xffff), resource_type = ucast (drop_bit 6 rid AND 0x3ff),
                 resource_version = ucast (rid AND 0x3f)\<rparr>)"

definition en50221_app_encode_public_resource_id :: "en50221_app_public_resource_id \<Rightarrow> u32" where
  "en50221_app_encode_public_resource_id idf =
     MKRID (ucast (resource_class idf)) (ucast (resource_type idf)) (ucast (resource_version idf))"

definition EN50221_APP_RM_RESOURCEID :: u32 where "EN50221_APP_RM_RESOURCEID = MKRID 1 1 1"
definition EN50221_APP_AI_RESOURCEID :: u32 where "EN50221_APP_AI_RESOURCEID = MKRID 2 1 1"
definition EN50221_APP_CA_RESOURCEID :: u32 where "EN50221_APP_CA_RESOURCEID = MKRID 3 1 1"
definition EN50221_APP_DATETIME_RESOURCEID :: u32 where "EN50221_APP_DATETIME_RESOURCEID = MKRID 36 1 1"
definition EN50221_APP_MMI_RESOURCEID :: u32 where "EN50221_APP_MMI_RESOURCEID = MKRID 64 1 1"

section \<open>Tags and sending\<close>

definition TAG_PROFILE_ENQUIRY :: u32 where "TAG_PROFILE_ENQUIRY = 0x9f8010"
definition TAG_PROFILE :: u32 where "TAG_PROFILE = 0x9f8011"
definition TAG_PROFILE_CHANGE :: u32 where "TAG_PROFILE_CHANGE = 0x9f8012"
definition TAG_APP_INFO_ENQUIRY :: u32 where "TAG_APP_INFO_ENQUIRY = 0x9f8020"
definition TAG_APP_INFO :: u32 where "TAG_APP_INFO = 0x9f8021"
definition TAG_ENTER_MENU :: u32 where "TAG_ENTER_MENU = 0x9f8022"
definition TAG_CA_INFO_ENQUIRY :: u32 where "TAG_CA_INFO_ENQUIRY = 0x9f8030"
definition TAG_CA_INFO :: u32 where "TAG_CA_INFO = 0x9f8031"
definition TAG_CA_PMT :: u32 where "TAG_CA_PMT = 0x9f8032"
definition TAG_CA_PMT_REPLY :: u32 where "TAG_CA_PMT_REPLY = 0x9f8033"
definition TAG_DATE_TIME_ENQUIRY :: u32 where "TAG_DATE_TIME_ENQUIRY = 0x9f8440"
definition TAG_DATE_TIME :: u32 where "TAG_DATE_TIME = 0x9f8441"

lemmas app_tags = TAG_PROFILE_ENQUIRY_def TAG_PROFILE_def TAG_PROFILE_CHANGE_def TAG_APP_INFO_ENQUIRY_def
  TAG_APP_INFO_def TAG_ENTER_MENU_def TAG_CA_INFO_ENQUIRY_def TAG_CA_INFO_def TAG_CA_PMT_def TAG_CA_PMT_REPLY_def
  TAG_DATE_TIME_ENQUIRY_def TAG_DATE_TIME_def

record 's en50221_app_send_functions =
  send_data :: "nat \<Rightarrow> u8 list \<Rightarrow> 's \<Rightarrow> ('s \<times> int) option"
  send_datav :: "nat \<Rightarrow> u8 list list \<Rightarrow> 's \<Rightarrow> ('s \<times> int) option"

text \<open>The three bytes of a tag, as sent and as received.\<close>

definition tag_bytes :: "u32 \<Rightarrow> u8 list" where
  "tag_bytes tag = [ucast (drop_bit 16 tag AND 0xFF), ucast (drop_bit 8 tag AND 0xFF), ucast (tag AND 0xFF)]"

definition read_tag :: "mem \<Rightarrow> u32 option" where
  "read_tag data = do { a \<leftarrow> rd data 0; b \<leftarrow> rd data 1; c \<leftarrow> rd data 2;
     Some (push_bit 16 (ucast a) OR push_bit 8 (ucast b) OR ucast c) }"

text \<open>The tag and the length field in a buffer of ten bytes; the rest of the buffer is never sent.\<close>

definition tag_header :: "u32 \<Rightarrow> u16 \<Rightarrow> u8 list option option" where
  "tag_header tag len =
     do { (length_field_len, buf) \<leftarrow> asn_1_encode len (tag_bytes tag @ replicate 7 0) 3 3;
          Some (if length_field_len < 0 then None else Some (take (3 + nat length_field_len) buf)) }"

definition callback :: "(fptr \<Rightarrow> 's \<Rightarrow> ('s \<times> int) option) \<Rightarrow> fptr option \<Rightarrow> 's \<Rightarrow> ('s \<times> int) option" where
  "callback call cb st = (case cb of None \<Rightarrow> Some (st, 0) | Some f \<Rightarrow> call f st)"

text \<open>The length field at the start of the data: its length and the length it gives, or an error.\<close>

definition read_length :: "mem \<Rightarrow> (nat \<times> nat) option option" where
  "read_length data =
     do { (length_field_len, v) \<leftarrow> asn_1_decode data 0 (length data);
          if length_field_len < 0 then Some None
          else do { asn_data_length \<leftarrow> v; Some (Some (nat length_field_len, unat asn_data_length)) } }"

section \<open>Arrays of big-endian numbers\<close>

primrec swap16_all :: "byte_order \<Rightarrow> mem \<Rightarrow> nat \<Rightarrow> nat \<Rightarrow> mem option" where
  "swap16_all e m p 0 = Some m"
| "swap16_all e m p (Suc n) = do { m \<leftarrow> bswap16 e m p; swap16_all e m (p + 2) n }"

primrec swap32_all :: "byte_order \<Rightarrow> mem \<Rightarrow> nat \<Rightarrow> nat \<Rightarrow> mem option" where
  "swap32_all e m p 0 = Some m"
| "swap32_all e m p (Suc n) = do { m \<leftarrow> bswap32 e m p; swap32_all e m (p + 4) n }"

primrec load16_all :: "byte_order \<Rightarrow> mem \<Rightarrow> nat \<Rightarrow> nat \<Rightarrow> u16 list option" where
  "load16_all e m p 0 = Some []"
| "load16_all e m p (Suc n) = do { x \<leftarrow> load16 e m p; xs \<leftarrow> load16_all e m (p + 2) n; Some (x # xs) }"

primrec load32_all :: "byte_order \<Rightarrow> mem \<Rightarrow> nat \<Rightarrow> nat \<Rightarrow> u32 list option" where
  "load32_all e m p 0 = Some []"
| "load32_all e m p (Suc n) = do { x \<leftarrow> load32 e m p; xs \<leftarrow> load32_all e m (p + 4) n; Some (x # xs) }"

primrec store32_all :: "byte_order \<Rightarrow> mem \<Rightarrow> nat \<Rightarrow> u32 list \<Rightarrow> mem option" where
  "store32_all e m p [] = Some m"
| "store32_all e m p (x # xs) = do { m \<leftarrow> store32 e m p x; store32_all e m (p + 4) xs }"

section \<open>The resource manager\<close>

record en50221_app_rm =
  enqcallback :: "fptr option"
  replycallback :: "fptr option"
  changedcallback :: "fptr option"

record 's rm_user =
  rm_enq_call :: "fptr \<Rightarrow> nat \<Rightarrow> nat \<Rightarrow> 's \<Rightarrow> ('s \<times> int) option"
  rm_reply_call :: "fptr \<Rightarrow> nat \<Rightarrow> nat \<Rightarrow> u32 list \<Rightarrow> 's \<Rightarrow> ('s \<times> int) option"
  rm_changed_call :: "fptr \<Rightarrow> nat \<Rightarrow> nat \<Rightarrow> 's \<Rightarrow> ('s \<times> int) option"

definition en50221_app_rm_create :: "bool \<Rightarrow> en50221_app_rm option" where
  "en50221_app_rm_create ok =
     (if ok then Some \<lparr>enqcallback = None, replycallback = None, changedcallback = None\<rparr> else None)"

definition en50221_app_rm_register_enq_callback :: "en50221_app_rm \<Rightarrow> fptr option \<Rightarrow> en50221_app_rm" where
  "en50221_app_rm_register_enq_callback rm cb = rm\<lparr>enqcallback := cb\<rparr>"

definition en50221_app_rm_register_reply_callback :: "en50221_app_rm \<Rightarrow> fptr option \<Rightarrow> en50221_app_rm" where
  "en50221_app_rm_register_reply_callback rm cb = rm\<lparr>replycallback := cb\<rparr>"

definition en50221_app_rm_register_changed_callback :: "en50221_app_rm \<Rightarrow> fptr option \<Rightarrow> en50221_app_rm" where
  "en50221_app_rm_register_changed_callback rm cb = rm\<lparr>changedcallback := cb\<rparr>"

definition en50221_app_rm_enq :: "'s en50221_app_send_functions \<Rightarrow> nat \<Rightarrow> 's \<Rightarrow> ('s \<times> int) option" where
  "en50221_app_rm_enq funcs n = send_data funcs n (tag_bytes TAG_PROFILE_ENQUIRY @ [0])"

definition en50221_app_rm_reply ::
  "byte_order \<Rightarrow> 's en50221_app_send_functions \<Rightarrow> nat \<Rightarrow> u32 list \<Rightarrow> 's \<Rightarrow> ('s \<times> int) option" where
  "en50221_app_rm_reply e funcs n resource_ids st =
     do {
       hdr \<leftarrow> tag_header TAG_PROFILE (of_nat (length resource_ids * 4));
       case hdr of
         None \<Rightarrow> Some (st, -1)
       | Some buf \<Rightarrow> do {
           data \<leftarrow> store32_all e (replicate (4 * length resource_ids) 0) 0 resource_ids;
           data \<leftarrow> swap32_all e data 0 (length resource_ids);
           send_datav funcs n [buf, data] st } }"

definition en50221_app_rm_changed :: "'s en50221_app_send_functions \<Rightarrow> nat \<Rightarrow> 's \<Rightarrow> ('s \<times> int) option" where
  "en50221_app_rm_changed funcs n = send_data funcs n (tag_bytes TAG_PROFILE_CHANGE @ [0])"

definition en50221_app_rm_parse_profile_enq ::
  "'s rm_user \<Rightarrow> en50221_app_rm \<Rightarrow> nat \<Rightarrow> nat \<Rightarrow> 's \<Rightarrow> ('s \<times> int) option" where
  "en50221_app_rm_parse_profile_enq user rm s n = callback (\<lambda>f. rm_enq_call user f s n) (enqcallback rm)"

definition en50221_app_rm_parse_profile_reply ::
  "byte_order \<Rightarrow> 's rm_user \<Rightarrow> en50221_app_rm \<Rightarrow> nat \<Rightarrow> nat \<Rightarrow> mem \<Rightarrow> 's \<Rightarrow> ('s \<times> int) option" where
  "en50221_app_rm_parse_profile_reply e user rm s n data st =
     do {
       len \<leftarrow> read_length data;
       case len of
         None \<Rightarrow> Some (st, -1)
       | Some (l, asn_data_length) \<Rightarrow>
           if asn_data_length > length data - l then Some (st, -1)
           else do {
             let resources_count = asn_data_length div 4;
             data \<leftarrow> swap32_all e data l resources_count;
             resource_ids \<leftarrow> load32_all e data l resources_count;
             callback (\<lambda>f. rm_reply_call user f s n resource_ids) (replycallback rm) st } }"

definition en50221_app_rm_parse_profile_change ::
  "'s rm_user \<Rightarrow> en50221_app_rm \<Rightarrow> nat \<Rightarrow> nat \<Rightarrow> 's \<Rightarrow> ('s \<times> int) option" where
  "en50221_app_rm_parse_profile_change user rm s n = callback (\<lambda>f. rm_changed_call user f s n) (changedcallback rm)"

definition en50221_app_rm_message ::
  "byte_order \<Rightarrow> 's rm_user \<Rightarrow> en50221_app_rm \<Rightarrow> nat \<Rightarrow> nat \<Rightarrow> mem \<Rightarrow> 's \<Rightarrow> ('s \<times> int) option" where
  "en50221_app_rm_message e user rm s n data st =
     (if length data < 3 then Some (st, -1)
      else do {
        tag \<leftarrow> read_tag data;
        if tag = TAG_PROFILE_ENQUIRY then en50221_app_rm_parse_profile_enq user rm s n st
        else if tag = TAG_PROFILE then en50221_app_rm_parse_profile_reply e user rm s n (drop 3 data) st
        else if tag = TAG_PROFILE_CHANGE then en50221_app_rm_parse_profile_change user rm s n st
        else Some (st, -1) })"

section \<open>Application information\<close>

record app_info =
  application_type :: u8
  application_manufacturer :: u16
  manufacturer_code :: u16
  menu_string :: "u8 list"

definition en50221_app_ai_enquiry :: "'s en50221_app_send_functions \<Rightarrow> nat \<Rightarrow> 's \<Rightarrow> ('s \<times> int) option" where
  "en50221_app_ai_enquiry funcs n = send_data funcs n (tag_bytes TAG_APP_INFO_ENQUIRY @ [0])"

definition en50221_app_ai_entermenu :: "'s en50221_app_send_functions \<Rightarrow> nat \<Rightarrow> 's \<Rightarrow> ('s \<times> int) option" where
  "en50221_app_ai_entermenu funcs n = send_data funcs n (tag_bytes TAG_ENTER_MENU @ [0])"

text \<open>The menu string is passed as pointer and length; the bytes are those the length covers.\<close>

definition en50221_app_ai_parse_app_info ::
  "(fptr \<Rightarrow> nat \<Rightarrow> nat \<Rightarrow> app_info \<Rightarrow> 's \<Rightarrow> ('s \<times> int) option) \<Rightarrow> fptr option \<Rightarrow> nat \<Rightarrow> nat \<Rightarrow> mem \<Rightarrow> 's \<Rightarrow> ('s \<times> int) option" where
  "en50221_app_ai_parse_app_info user cb s n data st =
     do {
       len \<leftarrow> read_length data;
       case len of
         None \<Rightarrow> Some (st, -1)
       | Some (l, asn_data_length) \<Rightarrow>
           if asn_data_length < 6 then Some (st, -1)
           else if asn_data_length > length data - l then Some (st, -1)
           else do {
             b0 \<leftarrow> rd data l; b1 \<leftarrow> rd data (l + 1); b2 \<leftarrow> rd data (l + 2);
             b3 \<leftarrow> rd data (l + 3); b4 \<leftarrow> rd data (l + 4); b5 \<leftarrow> rd data (l + 5);
             let menu_string_length =
               (if unat b5 > asn_data_length - 6 then (asn_data_length - 6) mod 256 else unat b5);
             str \<leftarrow> rd_bytes data (l + 6) menu_string_length;
             callback (\<lambda>f. user f s n \<lparr>application_type = b0, application_manufacturer = be16 b1 b2,
               manufacturer_code = be16 b3 b4, menu_string = str\<rparr>) cb st } }"

definition en50221_app_ai_message ::
  "(fptr \<Rightarrow> nat \<Rightarrow> nat \<Rightarrow> app_info \<Rightarrow> 's \<Rightarrow> ('s \<times> int) option) \<Rightarrow> fptr option \<Rightarrow> nat \<Rightarrow> nat \<Rightarrow> mem \<Rightarrow> 's \<Rightarrow> ('s \<times> int) option" where
  "en50221_app_ai_message user cb s n data st =
     (if length data < 3 then Some (st, -1)
      else do {
        tag \<leftarrow> read_tag data;
        if tag = TAG_APP_INFO then en50221_app_ai_parse_app_info user cb s n (drop 3 data) st
        else Some (st, -1) })"

section \<open>Date and time\<close>

text \<open>An offset of -1 stands for no offset.\<close>

definition en50221_app_datetime_send ::
  "'s en50221_app_send_functions \<Rightarrow> nat \<Rightarrow> int \<Rightarrow> int \<Rightarrow> 's \<Rightarrow> ('s \<times> int) option" where
  "en50221_app_datetime_send funcs n utc_time time_offset =
     (if time_offset \<noteq> -1
      then send_data funcs n (tag_bytes TAG_DATE_TIME @ [7] @ unixtime_to_dvbdate utc_time
             @ [of_int (time_offset div 256), of_int time_offset])
      else send_data funcs n (tag_bytes TAG_DATE_TIME @ [5] @ unixtime_to_dvbdate utc_time))"

definition en50221_app_datetime_parse_enquiry ::
  "(fptr \<Rightarrow> nat \<Rightarrow> nat \<Rightarrow> u8 \<Rightarrow> 's \<Rightarrow> ('s \<times> int) option) \<Rightarrow> fptr option \<Rightarrow> nat \<Rightarrow> nat \<Rightarrow> mem \<Rightarrow> 's \<Rightarrow> ('s \<times> int) option" where
  "en50221_app_datetime_parse_enquiry user cb s n data st =
     (if length data \<noteq> 2 then Some (st, -1)
      else do {
        d0 \<leftarrow> rd data 0;
        if d0 \<noteq> 1 then Some (st, -1)
        else do { response_interval \<leftarrow> rd data 1; callback (\<lambda>f. user f s n response_interval) cb st } })"

definition en50221_app_datetime_message ::
  "(fptr \<Rightarrow> nat \<Rightarrow> nat \<Rightarrow> u8 \<Rightarrow> 's \<Rightarrow> ('s \<times> int) option) \<Rightarrow> fptr option \<Rightarrow> nat \<Rightarrow> nat \<Rightarrow> mem \<Rightarrow> 's \<Rightarrow> ('s \<times> int) option" where
  "en50221_app_datetime_message user cb s n data st =
     (if length data < 3 then Some (st, -1)
      else do {
        tag \<leftarrow> read_tag data;
        if tag = TAG_DATE_TIME_ENQUIRY then en50221_app_datetime_parse_enquiry user cb s n (drop 3 data) st
        else Some (st, -1) })"

section \<open>Conditional access\<close>

record en50221_app_ca =
  ca_info_callback :: "fptr option"
  ca_pmt_reply_callback :: "fptr option"

record 's ca_user =
  ca_info_call :: "fptr \<Rightarrow> nat \<Rightarrow> nat \<Rightarrow> u16 list \<Rightarrow> 's \<Rightarrow> ('s \<times> int) option"
  ca_pmt_reply_call :: "fptr \<Rightarrow> nat \<Rightarrow> nat \<Rightarrow> u8 list \<Rightarrow> 's \<Rightarrow> ('s \<times> int) option"

definition en50221_app_ca_create :: "bool \<Rightarrow> en50221_app_ca option" where
  "en50221_app_ca_create ok = (if ok then Some \<lparr>ca_info_callback = None, ca_pmt_reply_callback = None\<rparr> else None)"

definition en50221_app_ca_register_info_callback :: "en50221_app_ca \<Rightarrow> fptr option \<Rightarrow> en50221_app_ca" where
  "en50221_app_ca_register_info_callback ca cb = ca\<lparr>ca_info_callback := cb\<rparr>"

definition en50221_app_ca_register_pmt_reply_callback :: "en50221_app_ca \<Rightarrow> fptr option \<Rightarrow> en50221_app_ca" where
  "en50221_app_ca_register_pmt_reply_callback ca cb = ca\<lparr>ca_pmt_reply_callback := cb\<rparr>"

definition en50221_app_ca_info_enq :: "'s en50221_app_send_functions \<Rightarrow> nat \<Rightarrow> 's \<Rightarrow> ('s \<times> int) option" where
  "en50221_app_ca_info_enq funcs n = send_data funcs n (tag_bytes TAG_CA_INFO_ENQUIRY @ [0])"

definition en50221_app_ca_pmt :: "'s en50221_app_send_functions \<Rightarrow> nat \<Rightarrow> u8 list \<Rightarrow> 's \<Rightarrow> ('s \<times> int) option" where
  "en50221_app_ca_pmt funcs n ca_pmt st =
     do {
       hdr \<leftarrow> tag_header TAG_CA_PMT (of_nat (length ca_pmt));
       case hdr of None \<Rightarrow> Some (st, -1) | Some buf \<Rightarrow> send_datav funcs n [buf, ca_pmt] st }"

definition en50221_app_ca_parse_info ::
  "byte_order \<Rightarrow> 's ca_user \<Rightarrow> en50221_app_ca \<Rightarrow> nat \<Rightarrow> nat \<Rightarrow> mem \<Rightarrow> 's \<Rightarrow> ('s \<times> int) option" where
  "en50221_app_ca_parse_info e user ca s n data st =
     do {
       len \<leftarrow> read_length data;
       case len of
         None \<Rightarrow> Some (st, -1)
       | Some (l, asn_data_length) \<Rightarrow>
           if asn_data_length > length data - l then Some (st, -1)
           else do {
             let ca_id_count = asn_data_length div 2;
             data \<leftarrow> swap16_all e data l ca_id_count;
             ids \<leftarrow> load16_all e data l ca_id_count;
             callback (\<lambda>f. ca_info_call user f s n ids) (ca_info_callback ca) st } }"

text \<open>The loop over the reply table, from \<open>pos\<close> to \<open>len\<close>; \<open>l\<close> is the start of the data.\<close>

function reply_loop :: "byte_order \<Rightarrow> mem \<Rightarrow> nat \<Rightarrow> nat \<Rightarrow> nat \<Rightarrow> mem option" where
  "reply_loop e m l pos len =
     (if pos < len then do { m \<leftarrow> bswap16 e m (l + pos); reply_loop e m l (pos + 3) len } else Some m)"
  by pat_completeness auto
termination by (relation "measure (\<lambda>(e, m, l, pos, len). len - pos)") auto

declare reply_loop.simps [simp del]

definition en50221_app_ca_parse_reply ::
  "byte_order \<Rightarrow> 's ca_user \<Rightarrow> en50221_app_ca \<Rightarrow> nat \<Rightarrow> nat \<Rightarrow> mem \<Rightarrow> 's \<Rightarrow> ('s \<times> int) option" where
  "en50221_app_ca_parse_reply e user ca s n data st =
     do {
       len \<leftarrow> read_length data;
       case len of
         None \<Rightarrow> Some (st, -1)
       | Some (l, asn_data_length) \<Rightarrow>
           if asn_data_length < 4 then Some (st, -1)
           else if asn_data_length > length data - l then Some (st, -1)
           else do {
             data \<leftarrow> bswap16 e data l;
             data \<leftarrow> reply_loop e data l 4 asn_data_length;
             reply \<leftarrow> rd_bytes data l asn_data_length;
             callback (\<lambda>f. ca_pmt_reply_call user f s n reply) (ca_pmt_reply_callback ca) st } }"

definition en50221_app_ca_message ::
  "byte_order \<Rightarrow> 's ca_user \<Rightarrow> en50221_app_ca \<Rightarrow> nat \<Rightarrow> nat \<Rightarrow> mem \<Rightarrow> 's \<Rightarrow> ('s \<times> int) option" where
  "en50221_app_ca_message e user ca s n data st =
     (if length data < 3 then Some (st, -1)
      else do {
        tag \<leftarrow> read_tag data;
        if tag = TAG_CA_INFO then en50221_app_ca_parse_info e user ca s n (drop 3 data) st
        else if tag = TAG_CA_PMT_REPLY then en50221_app_ca_parse_reply e user ca s n (drop 3 data) st
        else Some (st, -1) })"

end
