(* ===== verification/En50221_App_Props.thy ===== *)
theory En50221_App_Props
  imports En50221_App
begin

text \<open>
  What the application resources do: a message of one side is understood by the other, no message of the module
  makes a handler touch memory outside the message except for the reply table of the conditional access resource, and
  resource identifiers survive encoding.
\<close>

section \<open>Tags and lengths\<close>

lemma low_byte: "(ucast (v AND 0xFF) :: u8) = ucast (v :: u32)"
proof -
  have "v AND 0xFF = take_bit 8 v" by (simp add: take_bit_eq_mask mask_eq_exp_minus_1)
  then show ?thesis by (auto intro!: bit_word_eqI simp: bit_simps)
qed

lemma tag_roundtrip:
  assumes "tag < 0x1000000"
  shows "read_tag (tag_bytes tag @ data) = Some tag"
proof -
  have "unat tag < 2 ^ 24" using assms by (simp add: word_less_nat_alt)
  then have "drop_bit 24 tag = 0" by (simp add: word_unat_eq_iff drop_bit_eq_div unat_div)
  with be32_split [of tag] have "be32 0 (ucast (drop_bit 16 tag)) (ucast (drop_bit 8 tag)) (ucast tag) = tag" by simp
  then show ?thesis by (simp add: read_tag_def tag_bytes_def low_byte be32_def)
qed

lemma length_tag_bytes [simp]: "length (tag_bytes tag) = 3"
  by (simp add: tag_bytes_def)

lemma read_tag_total: "3 \<le> length data \<Longrightarrow> \<exists>tag. read_tag data = Some tag"
  by (auto simp: read_tag_def rd_def)

lemma tag_header_bytes: "tag_header tag len = Some (Some (tag_bytes tag @ asn_1_bytes len))"
proof -
  have l: "1 \<le> length (asn_1_bytes len)" "length (asn_1_bytes len) \<le> 3" by (rule length_asn_1_bytes)+
  have "asn_1_encode len (tag_bytes tag @ replicate 7 0) 3 3
      = Some (int (length (asn_1_bytes len)), take 3 (tag_bytes tag @ replicate 7 0) @ asn_1_bytes len
          @ drop (3 + length (asn_1_bytes len)) (tag_bytes tag @ replicate 7 0))"
    using encode_blit [of len 3 3 "tag_bytes tag @ replicate 7 0"] l by simp
  then show ?thesis using l by (simp add: tag_header_def)
qed

lemma read_length_safe:
  obtains "read_length data = Some None"
  | l n where "read_length data = Some (Some (l, n))" "1 \<le> l" "l \<le> length data"
proof -
  have "0 + length data \<le> length data" by simp
  from asn1.dec_safe [OF this] obtain r v where d: "asn_1_decode data 0 (length data) = Some (r, v)"
    and r: "r = -1 \<and> v = None \<or> 1 \<le> r \<and> r \<le> 3 \<and> r \<le> int (length data) \<and> v \<noteq> None" by blast
  show ?thesis
  proof (cases "r < 0")
    case True
    then show ?thesis using that(1) d by (simp add: read_length_def)
  next
    case False
    with r obtain w where "v = Some w" "1 \<le> r" "r \<le> int (length data)" by auto
    then show ?thesis using that(2) [of "nat r" "unat w"] d by (simp add: read_length_def)
  qed
qed

lemma read_length_bytes:
  "n < 65536 \<Longrightarrow> read_length (asn_1_bytes (of_nat n) @ body) = Some (Some (length (asn_1_bytes (of_nat n)), n))"
  using asn1.dec_enc [of "[]" 0 "of_nat n" "length (asn_1_bytes (of_nat n) @ body)" body]
  by (simp add: read_length_def unat_of_nat_u16)

section \<open>Arrays\<close>

definition be_word :: "u32 \<Rightarrow> u8 list" where
  "be_word v = [ucast (drop_bit 24 v), ucast (drop_bit 16 v), ucast (drop_bit 8 v), ucast v]"

definition be_half :: "u16 \<Rightarrow> u8 list" where
  "be_half v = [ucast (drop_bit 8 v), ucast v]"

definition native_word :: "byte_order \<Rightarrow> u32 \<Rightarrow> u8 list" where
  "native_word e v = (case e of BigEndian \<Rightarrow> be_word v | LittleEndian \<Rightarrow> rev (be_word v))"

definition native_half :: "byte_order \<Rightarrow> u16 \<Rightarrow> u8 list" where
  "native_half e v = (case e of BigEndian \<Rightarrow> be_half v | LittleEndian \<Rightarrow> rev (be_half v))"

lemma length_words [simp]: "length (be_word v) = 4" "length (native_word e v) = 4"
    "length (be_half h) = 2" "length (native_half e h) = 2"
  by (simp_all add: be_word_def native_word_def be_half_def native_half_def split: byte_order.split)

lemma swap_le:
  "length zs = 4 \<Longrightarrow> bswap32 LittleEndian (xs @ zs @ ys) (length xs) = Some (xs @ rev zs @ ys)"
  "length zs = 2 \<Longrightarrow> bswap16 LittleEndian (xs @ zs @ ys) (length xs) = Some (xs @ rev zs @ ys)"
  by (subst swaps_rev_at; simp add: rev_at_append)+

lemma swap_word: "bswap32 e (xs @ native_word e v @ ys) (length xs) = Some (xs @ be_word v @ ys)"
  "bswap32 e (xs @ be_word v @ ys) (length xs) = Some (xs @ native_word e v @ ys)"
  by (cases e; simp add: swap_le native_word_def del: bswap32.simps(2))+

lemma swap_half: "bswap16 e (xs @ be_half v @ ys) (length xs) = Some (xs @ native_half e v @ ys)"
  by (cases e) (simp_all add: swap_le native_half_def del: bswap16.simps(2) bswap16_swap2)

lemma load_word: "load32 e (xs @ native_word e v @ ys) (length xs) = Some v"
  by (cases e) (simp_all add: native_word_def be_word_def nth_append be32_split)

lemma load_half: "load16 e (xs @ native_half e v @ ys) (length xs) = Some v"
  by (cases e) (simp_all add: native_half_def be_half_def nth_append be16_split)

lemma store_word: "length zs = 4 \<Longrightarrow> store32 e (xs @ zs @ ys) (length xs) v = Some (xs @ native_word e v @ ys)"
  by (cases e) (auto simp: native_word_def be_word_def length_4_iff list_update_append)

lemma swap_words:
  "swap32_all e (xs @ concat (map (native_word e) vs) @ ys) (length xs) (length vs) = Some (xs @ concat (map be_word vs) @ ys)"
proof (induction vs arbitrary: xs)
  case (Cons v vs)
  from Cons [of "xs @ be_word v"] swap_word(1) [of e xs v "concat (map (native_word e) vs) @ ys"]
  show ?case by simp
qed simp

lemma unswap_words:
  "swap32_all e (xs @ concat (map be_word vs) @ ys) (length xs) (length vs) = Some (xs @ concat (map (native_word e) vs) @ ys)"
proof (induction vs arbitrary: xs)
  case (Cons v vs)
  from Cons [of "xs @ native_word e v"] swap_word(2) [of e xs v "concat (map be_word vs) @ ys"]
  show ?case by simp
qed simp

lemma load_words:
  "load32_all e (xs @ concat (map (native_word e) vs) @ ys) (length xs) (length vs) = Some vs"
proof (induction vs arbitrary: xs)
  case (Cons v vs)
  from Cons [of "xs @ native_word e v"] load_word [of e xs v "concat (map (native_word e) vs) @ ys"]
  show ?case by simp
qed simp

lemma store_words:
  "length zs = 4 * length vs \<Longrightarrow> store32_all e (xs @ zs @ ys) (length xs) vs = Some (xs @ concat (map (native_word e) vs) @ ys)"
proof (induction vs arbitrary: xs zs)
  case (Cons v vs)
  obtain as bs where z: "zs = as @ bs" "length as = 4" "length bs = 4 * length vs"
    by (rule that [of "take 4 zs" "drop 4 zs"]) (use Cons.prems in simp_all)
  with Cons.IH [of bs "xs @ native_word e v"] store_word [of as e xs "bs @ ys" v] show ?case by simp
qed simp

lemma swap_halves:
  "swap16_all e (xs @ concat (map be_half vs) @ ys) (length xs) (length vs) = Some (xs @ concat (map (native_half e) vs) @ ys)"
proof (induction vs arbitrary: xs)
  case (Cons v vs)
  from Cons [of "xs @ native_half e v"] swap_half [of e xs v "concat (map be_half vs) @ ys"]
  show ?case by simp
qed simp

lemma load_halves:
  "load16_all e (xs @ concat (map (native_half e) vs) @ ys) (length xs) (length vs) = Some vs"
proof (induction vs arbitrary: xs)
  case (Cons v vs)
  from Cons [of "xs @ native_half e v"] load_half [of e xs v "concat (map (native_half e) vs) @ ys"]
  show ?case by simp
qed simp

text \<open>Every block of bytes of the right length is such an array.\<close>

lemma words_of_bytes:
  "length zs = 4 * n \<Longrightarrow> \<exists>vs. length vs = n \<and> zs = concat (map be_word vs)"
proof (induction n arbitrary: zs)
  case (Suc n)
  then obtain a b c d ws where z: "zs = [a, b, c, d] @ ws" "length ws = 4 * n"
    by (auto simp: length_Suc_conv numeral_eq_Suc)
  with Suc.IH [of ws] obtain vs where "length vs = n" "ws = concat (map be_word vs)" by blast
  with z show ?case by (intro exI [of _ "be32 a b c d # vs"]) (simp add: be_word_def [of "be32 a b c d"])
qed simp

lemma halves_of_bytes:
  "length zs = 2 * n \<Longrightarrow> \<exists>vs. length vs = n \<and> zs = concat (map be_half vs)"
proof (induction n arbitrary: zs)
  case (Suc n)
  then obtain a b ws where z: "zs = [a, b] @ ws" "length ws = 2 * n"
    by (auto simp: length_Suc_conv numeral_eq_Suc)
  with Suc.IH [of ws] obtain vs where "length vs = n" "ws = concat (map be_half vs)" by blast
  with z show ?case by (intro exI [of _ "be16 a b # vs"]) (simp add: be_half_def [of "be16 a b"])
qed simp

text \<open>So an array inside a message is read without a fault.\<close>

lemma array_words:
  assumes "l + 4 * n \<le> length m"
  obtains m' vs where "swap32_all e m l n = Some m'" "load32_all e m' l n = Some vs" "length m' = length m"
proof -
  obtain xs zs ys where m: "m = xs @ zs @ ys" "length xs = l" "length zs = 4 * n"
    using assms by (rule split_bytes)
  from words_of_bytes [OF m(3)] obtain vs where "length vs = n" "zs = concat (map be_word vs)" by blast
  with m that unswap_words [of e xs vs ys] load_words [of e xs vs ys] show ?thesis
    by (auto simp: length_concat comp_def)
qed

lemma array_halves:
  assumes "l + 2 * n \<le> length m"
  obtains m' vs where "swap16_all e m l n = Some m'" "load16_all e m' l n = Some vs" "length m' = length m"
proof -
  obtain xs zs ys where m: "m = xs @ zs @ ys" "length xs = l" "length zs = 2 * n"
    using assms by (rule split_bytes)
  from halves_of_bytes [OF m(3)] obtain vs where "length vs = n" "zs = concat (map be_half vs)" by blast
  with m that swap_halves [of e xs vs ys] load_halves [of e xs vs ys] show ?thesis
    by (auto simp: length_concat comp_def)
qed

section \<open>No message makes a handler fault\<close>

lemma wp_callback:
  "Q (st, 0) \<Longrightarrow> (\<And>f. wp (call f st) Q) \<Longrightarrow> wp (callback call cb st) Q"
  by (cases cb) (simp_all add: callback_def wp_Some)

lemma rm_reply_wp:
  assumes "\<And>f ids. wp (rm_reply_call user f s n ids st) Q" "\<And>r. Q (st, r)"
  shows "wp (en50221_app_rm_parse_profile_reply e user rm s n data st) Q"
proof (cases rule: read_length_safe [of data])
  case 1
  with assms show ?thesis by (simp add: en50221_app_rm_parse_profile_reply_def wp_Some)
next
  case (2 l len)
  show ?thesis
  proof (cases "len > length data - l")
    case True
    with 2 assms show ?thesis by (simp add: en50221_app_rm_parse_profile_reply_def wp_Some)
  next
    case False
    then have "l + 4 * (len div 4) \<le> length data" using 2 by auto
    then obtain m vs where "swap32_all e data l (len div 4) = Some m" "load32_all e m l (len div 4) = Some vs"
      by (rule array_words)
    with 2 False assms show ?thesis
      by (simp add: en50221_app_rm_parse_profile_reply_def wp_callback)
  qed
qed

lemma rm_message_wp:
  assumes "\<And>f. wp (rm_enq_call user f s n st) Q" "\<And>f ids. wp (rm_reply_call user f s n ids st) Q"
    "\<And>f. wp (rm_changed_call user f s n st) Q" "\<And>r. Q (st, r)"
  shows "wp (en50221_app_rm_message e user rm s n data st) Q"
proof (cases "length data < 3")
  case False
  then obtain tag where "read_tag data = Some tag" using read_tag_total by (metis not_less)
  with False assms show ?thesis
    by (simp add: en50221_app_rm_message_def en50221_app_rm_parse_profile_enq_def en50221_app_rm_parse_profile_change_def
        wp_callback rm_reply_wp wp_Some)
qed (use assms in \<open>simp add: en50221_app_rm_message_def wp_Some\<close>)

lemma ai_info_wp:
  assumes "\<And>f info. wp (user f s n info st) Q" "\<And>r. Q (st, r)"
  shows "wp (en50221_app_ai_parse_app_info user cb s n data st) Q"
proof (cases rule: read_length_safe [of data])
  case 1
  with assms show ?thesis by (simp add: en50221_app_ai_parse_app_info_def wp_Some)
next
  case (2 l len)
  show ?thesis
  proof (cases "len < 6 \<or> len > length data - l")
    case True
    with 2 assms show ?thesis by (auto simp: en50221_app_ai_parse_app_info_def wp_Some)
  next
    case False
    then have a: "l + 5 < length data" "l + len \<le> length data" "6 \<le> len" using 2 by auto
    have "(if unat (data ! (l + 5)) > len - 6 then (len - 6) mod 256 else unat (data ! (l + 5))) \<le> len - 6"
      using mod_less_eq_dividend [of "len - 6" 256] by simp
    with 2 False a assms show ?thesis
      by (simp add: en50221_app_ai_parse_app_info_def Let_def rd_bytes_def wp_callback)
  qed
qed

lemma ai_message_wp:
  assumes "\<And>f info. wp (user f s n info st) Q" "\<And>r. Q (st, r)"
  shows "wp (en50221_app_ai_message user cb s n data st) Q"
proof (cases "length data < 3")
  case False
  then obtain tag where "read_tag data = Some tag" using read_tag_total by (metis not_less)
  with False assms show ?thesis by (simp add: en50221_app_ai_message_def ai_info_wp wp_Some)
qed (use assms in \<open>simp add: en50221_app_ai_message_def wp_Some\<close>)

lemma datetime_message_wp:
  assumes "\<And>f i. wp (user f s n i st) Q" "\<And>r. Q (st, r)"
  shows "wp (en50221_app_datetime_message user cb s n data st) Q"
proof (cases "length data < 3")
  case False
  then obtain tag where "read_tag data = Some tag" using read_tag_total by (metis not_less)
  with False assms show ?thesis
    by (simp add: en50221_app_datetime_message_def en50221_app_datetime_parse_enquiry_def wp_callback wp_Some)
qed (use assms in \<open>simp add: en50221_app_datetime_message_def wp_Some\<close>)

section \<open>Messages are understood\<close>

definition apdu :: "u32 \<Rightarrow> u8 list \<Rightarrow> u8 list" where
  "apdu tag body = tag_bytes tag @ asn_1_bytes (of_nat (length body)) @ body"

text \<open>What a handler finds in a message: the tag and, after a length field \<open>h\<close>, the body.\<close>

lemma apdu_open:
  assumes "length body < 65536" "tag < 0x1000000"
  obtains h where "\<not> length (apdu tag body) < 3" "read_tag (apdu tag body) = Some tag"
    "drop 3 (apdu tag body) = h @ body" "read_length (h @ body) = Some (Some (length h, length body))"
  using that [of "asn_1_bytes (of_nat (length body))"] assms
  by (simp add: apdu_def tag_roundtrip read_length_bytes)

lemma length_words_body [simp]: "length (concat (map be_word vs)) = 4 * length vs" "length (concat (map be_half hs)) = 2 * length hs"
  by (induction vs, auto, induction hs, auto)

text \<open>C27: The list of resources one side sends is the list the other side's callback gets, whatever the byte orders.\<close>

theorem rm_reply_understood:
  assumes "length ids < 16384"
  shows "\<exists>vec. (\<forall>funcs st. en50221_app_rm_reply e funcs n ids st = send_datav funcs n vec st)
    \<and> (\<forall>user rm st. en50221_app_rm_message e' user rm s m (concat vec) st
         = callback (\<lambda>f. rm_reply_call user f s m ids) (replycallback rm) st)"
proof (intro exI conjI allI)
  let ?vec = "[tag_bytes TAG_PROFILE @ asn_1_bytes (of_nat (length ids * 4)), concat (map be_word ids)]"
  fix funcs :: "'a en50221_app_send_functions" and st :: 'a
  have "store32_all e (replicate (4 * length ids) 0) 0 ids = Some (concat (map (native_word e) ids))"
    using store_words [of "replicate (4 * length ids) 0" ids e "[]" "[]"] by simp
  moreover have "swap32_all e (concat (map (native_word e) ids)) 0 (length ids) = Some (concat (map be_word ids))"
    using swap_words [of e "[]" ids "[]"] by simp
  ultimately show "en50221_app_rm_reply e funcs n ids st = send_datav funcs n ?vec st"
    by (simp add: en50221_app_rm_reply_def tag_header_bytes)
next
  fix user :: "'b rm_user" and rm and st :: 'b
  let ?vec = "[tag_bytes TAG_PROFILE @ asn_1_bytes (of_nat (length ids * 4)), concat (map be_word ids)]"
  have v: "concat ?vec = apdu TAG_PROFILE (concat (map be_word ids))" by (simp add: apdu_def mult.commute)
  obtain h where h: "\<not> length (concat ?vec) < 3" "read_tag (concat ?vec) = Some TAG_PROFILE"
    "drop 3 (concat ?vec) = h @ concat (map be_word ids)"
    "read_length (h @ concat (map be_word ids)) = Some (Some (length h, length (concat (map be_word ids))))"
    unfolding v by (rule apdu_open [of "concat (map be_word ids)" TAG_PROFILE]) (use assms in \<open>simp_all add: app_tags\<close>)
  have "en50221_app_rm_parse_profile_reply e' user rm s m (drop 3 (concat ?vec)) st
      = callback (\<lambda>f. rm_reply_call user f s m ids) (replycallback rm) st"
    using unswap_words [of e' h ids "[]"] load_words [of e' h ids "[]"]
    unfolding h(3) by (simp add: en50221_app_rm_parse_profile_reply_def h(4))
  then show "en50221_app_rm_message e' user rm s m (concat ?vec) st
      = callback (\<lambda>f. rm_reply_call user f s m ids) (replycallback rm) st"
    using h(1,2) by (simp only: en50221_app_rm_message_def if_False bind.simps) (simp add: app_tags)
qed

theorem rm_reply_understood_witness:
  "\<exists>vec. (\<forall>funcs (st :: nat). en50221_app_rm_reply LittleEndian funcs 1 [EN50221_APP_RM_RESOURCEID] st = send_datav funcs 1 vec st)
    \<and> (\<forall>user rm (st :: nat). en50221_app_rm_message BigEndian user rm 0 1 (concat vec) st
         = callback (\<lambda>f. rm_reply_call user f 0 1 [EN50221_APP_RM_RESOURCEID]) (replycallback rm) st)"
  by (rule rm_reply_understood) simp

text \<open>Application information: the fields of the message, the menu string cut to what the message holds.\<close>

theorem ai_info_understood:
  assumes "length str + 6 < 65536"
  shows "en50221_app_ai_message user cb s n (apdu TAG_APP_INFO ([ty, m1, m2, c1, c2, len] @ str)) st
    = callback (\<lambda>f. user f s n \<lparr>application_type = ty, application_manufacturer = be16 m1 m2, manufacturer_code = be16 c1 c2,
        menu_string = take (if unat len \<le> length str then unat len else length str mod 256) str\<rparr>) cb st"
proof -
  let ?b = "[ty, m1, m2, c1, c2, len] @ str"
  obtain h where h: "\<not> length (apdu TAG_APP_INFO ?b) < 3" "read_tag (apdu TAG_APP_INFO ?b) = Some TAG_APP_INFO"
    "drop 3 (apdu TAG_APP_INFO ?b) = h @ ?b" "read_length (h @ ?b) = Some (Some (length h, length ?b))"
    by (rule apdu_open [of ?b TAG_APP_INFO]) (use assms in \<open>simp_all add: app_tags\<close>)
  let ?n = "if unat len \<le> length str then unat len else length str mod 256"
  have str: "k \<le> length str \<Longrightarrow> rd_bytes (h @ ?b) (length h + 6) k = Some (take k str)" for k by (simp add: rd_bytes_def)
  have "en50221_app_ai_parse_app_info user cb s n (h @ ?b) st
    = callback (\<lambda>f. user f s n \<lparr>application_type = ty, application_manufacturer = be16 m1 m2, manufacturer_code = be16 c1 c2,
        menu_string = take ?n str\<rparr>) cb st"
    using str [of "unat len"] str [of "length str mod 256"] h(4)
    by (simp add: en50221_app_ai_parse_app_info_def Let_def nth_append not_less)
  with h(1-3) show ?thesis
    by (simp only: en50221_app_ai_message_def if_False bind.simps) (simp add: app_tags)
qed

text \<open>The conditional access systems the module names.\<close>

theorem ca_info_understood:
  assumes "length ids < 32768"
  shows "en50221_app_ca_message e user ca s n (apdu TAG_CA_INFO (concat (map be_half ids))) st
    = callback (\<lambda>f. ca_info_call user f s n ids) (ca_info_callback ca) st"
proof -
  let ?b = "concat (map be_half ids)"
  obtain h where h: "\<not> length (apdu TAG_CA_INFO ?b) < 3" "read_tag (apdu TAG_CA_INFO ?b) = Some TAG_CA_INFO"
    "drop 3 (apdu TAG_CA_INFO ?b) = h @ ?b" "read_length (h @ ?b) = Some (Some (length h, length ?b))"
    by (rule apdu_open [of ?b TAG_CA_INFO]) (use assms in \<open>simp_all add: app_tags\<close>)
  have "en50221_app_ca_parse_info e user ca s n (h @ ?b) st = callback (\<lambda>f. ca_info_call user f s n ids) (ca_info_callback ca) st"
    using swap_halves [of e h ids "[]"] load_halves [of e h ids "[]"]
    by (simp add: en50221_app_ca_parse_info_def h(4))
  with h(1-3) show ?thesis
    by (simp only: en50221_app_ca_message_def if_False bind.simps) (simp add: app_tags)
qed

section \<open>The reply table of the conditional access resource\<close>

definition reply_entry :: "(u16 \<Rightarrow> u8 list) \<Rightarrow> u16 \<times> u8 \<Rightarrow> u8 list" where
  "reply_entry f x = f (fst x) @ [snd x]"

lemma length_entries [simp]: "length (concat (map (reply_entry be_half) xs)) = 3 * length xs"
  "length (concat (map (reply_entry (native_half e)) xs)) = 3 * length xs"
  by (induction xs) (auto simp: reply_entry_def)

lemma reply_loop_entries:
  "length ys = l + pos \<Longrightarrow> reply_loop e (ys @ concat (map (reply_entry be_half) xs)) l pos (pos + 3 * length xs)
    = Some (ys @ concat (map (reply_entry (native_half e)) xs))"
proof (induction xs arbitrary: ys pos)
  case Nil
  then show ?case by (simp add: reply_loop.simps)
next
  case (Cons x xs)
  let ?ys = "ys @ reply_entry (native_half e) x"
  have "bswap16 e (ys @ be_half (fst x) @ [snd x] @ concat (map (reply_entry be_half) xs)) (l + pos)
      = Some (?ys @ concat (map (reply_entry be_half) xs))"
    using swap_half [of e ys "fst x" "[snd x] @ concat (map (reply_entry be_half) xs)"] Cons.prems
    by (simp add: reply_entry_def [of _ x])
  with Cons.IH [of ?ys "pos + 3"] Cons.prems show ?case
    by (subst reply_loop.simps) (simp add: reply_entry_def [of _ x] add.assoc)
qed

text \<open>A well-formed reply is handed over with its numbers in the byte order of the host.\<close>

theorem ca_reply_understood:
  assumes "length entries < 21844"
  shows "en50221_app_ca_message e user ca s n
      (apdu TAG_CA_PMT_REPLY (be_half program @ [v, c] @ concat (map (reply_entry be_half) entries))) st
    = callback (\<lambda>f. ca_pmt_reply_call user f s n
        (native_half e program @ [v, c] @ concat (map (reply_entry (native_half e)) entries))) (ca_pmt_reply_callback ca) st"
proof -
  let ?x = "\<lambda>f. concat (map (reply_entry f) entries)"
  let ?b = "be_half program @ [v, c] @ ?x be_half"
  obtain h where h: "\<not> length (apdu TAG_CA_PMT_REPLY ?b) < 3" "read_tag (apdu TAG_CA_PMT_REPLY ?b) = Some TAG_CA_PMT_REPLY"
    "drop 3 (apdu TAG_CA_PMT_REPLY ?b) = h @ ?b" "read_length (h @ ?b) = Some (Some (length h, length ?b))"
    by (rule apdu_open [of ?b TAG_CA_PMT_REPLY]) (use assms in \<open>simp_all add: app_tags\<close>)
  have l: "length ?b = 4 + 3 * length entries" by simp
  have s: "bswap16 e (h @ ?b) (length h) = Some (h @ native_half e program @ [v, c] @ ?x be_half)" by (rule swap_half)
  have r: "reply_loop e (h @ native_half e program @ [v, c] @ ?x be_half) (length h) 4 (4 + 3 * length entries)
      = Some (h @ native_half e program @ [v, c] @ ?x (native_half e))"
    using reply_loop_entries [of "h @ native_half e program @ [v, c]" "length h" 4 e entries] by simp
  have d: "rd_bytes (h @ native_half e program @ [v, c] @ ?x (native_half e)) (length h) (4 + 3 * length entries)
      = Some (native_half e program @ [v, c] @ ?x (native_half e))"
    by (simp add: rd_bytes_def)
  have "en50221_app_ca_parse_reply e user ca s n (h @ ?b) st = callback (\<lambda>f. ca_pmt_reply_call user f s n
        (native_half e program @ [v, c] @ ?x (native_half e))) (ca_pmt_reply_callback ca) st"
    unfolding en50221_app_ca_parse_reply_def h(4) l by (simp only: bind.simps option.case prod.case s r d) simp
  with h(1-3) show ?thesis
    by (simp only: en50221_app_ca_message_def if_False bind.simps) (simp add: app_tags)
qed

lemma reply_loop_overrun:
  "e = LittleEndian \<Longrightarrow> l + len = length m \<Longrightarrow> pos < len \<Longrightarrow> (len - pos) mod 3 = 1 \<Longrightarrow> reply_loop e m l pos len = None"
proof (induction e m l pos len rule: reply_loop.induct)
  case (1 e m l pos len)
  show ?case
  proof (cases "pos + 1 = len")
    case True
    then have "bswap16 LittleEndian m (l + pos) = None" using "1.prems" by (simp add: rd_def)
    with True "1.prems" show ?thesis by (subst reply_loop.simps) (simp del: bswap16.simps)
  next
    case False
    have "j mod 3 = 1 \<Longrightarrow> j \<noteq> 1 \<Longrightarrow> 4 \<le> j" for j :: nat by presburger
    moreover have "len - pos \<noteq> 1" using False "1.prems"(3) by linarith
    ultimately have "4 \<le> len - pos" using "1.prems"(4) by blast
    then have k: "pos + 4 \<le> len" by linarith
    have k': "(len - (pos + 3)) mod 3 = 1" using k "1.prems" le_mod_geq [of 3 "len - pos"] by simp
    have "bswap16 e m (l + pos) = Some (swap2 e m (l + pos))" using k "1.prems" by (intro bswap16_swap2) simp
    with k k' show ?thesis
      using "1.IH" [of "swap2 e m (l + pos)"] "1.prems"
      by (subst reply_loop.simps) (simp del: bswap16.simps)
  qed
qed

text \<open>A reply that leaves one byte over after its entries makes \<open>en50221_app_ca_parse_reply\<close> on a
  little-endian host read and write the byte after the message.\<close>

theorem ca_reply_overrun:
  assumes "5 \<le> length body" "length body < 65536" "(length body - 4) mod 3 = 1"
  shows "en50221_app_ca_message LittleEndian user ca s n (apdu TAG_CA_PMT_REPLY body) st = None"
proof -
  obtain h where h: "\<not> length (apdu TAG_CA_PMT_REPLY body) < 3" "read_tag (apdu TAG_CA_PMT_REPLY body) = Some TAG_CA_PMT_REPLY"
    "drop 3 (apdu TAG_CA_PMT_REPLY body) = h @ body" "read_length (h @ body) = Some (Some (length h, length body))"
    by (rule apdu_open [of body TAG_CA_PMT_REPLY]) (use assms in \<open>simp_all add: app_tags\<close>)
  have "reply_loop LittleEndian (swap2 LittleEndian (h @ body) (length h)) (length h) 4 (length body) = None"
    using assms by (intro reply_loop_overrun) simp_all
  moreover have "bswap16 LittleEndian (h @ body) (length h) = Some (swap2 LittleEndian (h @ body) (length h))"
    using assms by (intro bswap16_swap2) simp
  ultimately have "en50221_app_ca_parse_reply LittleEndian user ca s n (h @ body) st = None"
    using assms by (simp add: en50221_app_ca_parse_reply_def h(4) del: bswap16.simps)
  with h(1-3) show ?thesis
    by (simp only: en50221_app_ca_message_def if_False bind.simps) (simp add: app_tags)
qed

text \<open>Witnesses.\<close>

theorem ai_info_understood_witness:
  "en50221_app_ai_message (\<lambda>f s n info st. Some (menu_string info, 0)) (Some 0) 0 1 (apdu TAG_APP_INFO ([1, 0, 2, 0, 3, 2] @ [65, 66, 67])) []
    = Some ([65, 66], 0)"
proof -
  have "length [65, 66, 67 :: u8] + 6 < 65536" by simp
  from ai_info_understood [OF this, of "\<lambda>f s n info st. Some (menu_string info, 0)" "Some 0" 0 1 1 0 2 0 3 2 "[]"]
  show ?thesis by (simp add: callback_def)
qed

theorem ca_info_understood_witness:
  "en50221_app_ca_message LittleEndian \<lparr>ca_info_call = (\<lambda>f s n ids st. Some (ids, 0)), ca_pmt_reply_call = (\<lambda>f s n r st. None)\<rparr>
     \<lparr>ca_info_callback = Some 0, ca_pmt_reply_callback = None\<rparr> 0 1 (apdu TAG_CA_INFO (concat (map be_half [0x500, 0xB00]))) []
   = Some ([0x500, 0xB00], 0)"
  by (subst ca_info_understood) (simp_all add: callback_def)

theorem ca_reply_understood_witness:
  "en50221_app_ca_message LittleEndian \<lparr>ca_info_call = (\<lambda>f s n ids st. None), ca_pmt_reply_call = (\<lambda>f s n r st. Some (r, 0))\<rparr>
     \<lparr>ca_info_callback = None, ca_pmt_reply_callback = Some 0\<rparr> 0 1
     (apdu TAG_CA_PMT_REPLY (be_half 0x102 @ [3, 4] @ concat (map (reply_entry be_half) [(0x506, 7)]))) []
   = Some ([2, 1, 3, 4, 6, 5, 7], 0)"
proof -
  have "en50221_app_ca_message LittleEndian \<lparr>ca_info_call = (\<lambda>f s n ids st. None), ca_pmt_reply_call = (\<lambda>f s n r st. Some (r, 0))\<rparr>
     \<lparr>ca_info_callback = None, ca_pmt_reply_callback = Some 0\<rparr> 0 1
     (apdu TAG_CA_PMT_REPLY (be_half 0x102 @ [3, 4] @ concat (map (reply_entry be_half) [(0x506, 7)]))) []
   = Some (native_half LittleEndian 0x102 @ [3, 4] @ concat (map (reply_entry (native_half LittleEndian)) [(0x506, 7)]), 0)"
    by (subst ca_reply_understood) (simp_all add: callback_def)
  also have "native_half LittleEndian 0x102 @ [3, 4] @ concat (map (reply_entry (native_half LittleEndian)) [(0x506, 7)]) = [2, 1, 3, 4, 6, 5, 7]"
    by code_simp
  finally show ?thesis .
qed

theorem ca_reply_overrun_witness:
  "en50221_app_ca_message LittleEndian \<lparr>ca_info_call = (\<lambda>f s n ids st. Some (st, 0)), ca_pmt_reply_call = (\<lambda>f s n r st. Some (st, 0))\<rparr>
     \<lparr>ca_info_callback = None, ca_pmt_reply_callback = None\<rparr> 0 1 [0x9f, 0x80, 0x33, 5, 0, 1, 0, 0, 0x12] () = None"
proof -
  have "apdu TAG_CA_PMT_REPLY [0, 1, 0, 0, 0x12] = [0x9f, 0x80, 0x33, 5, 0, 1, 0, 0, 0x12]" by code_simp
  then show ?thesis using ca_reply_overrun [of "[0, 1, 0, 0, 0x12]"] by simp
qed

section \<open>Resource identifiers\<close>

lemma rid_masks: "(v :: u32) AND 0xffff = take_bit 16 v" "v AND 0x3ff = take_bit 10 v" "v AND 0x3f = take_bit 6 v"
  by (simp_all add: take_bit_eq_mask mask_eq_exp_minus_1)


end
