(* ===== verification/En50221_Stdcam.thy ===== *)
theory En50221_Stdcam
  imports En50221_Session_Inv En50221_App_Props
begin

text \<open>
  \<open>lib/libdvben50221/en50221_stdcam_llci.c\<close>: the standard CAM on top of transport and session layer.

  Its record extends that of the session layer, and its functions are the callbacks of the session layer and of the
  resources.  The results of the CAM state ioctl are arguments of the polling function.  The resources for conditional
  access and the man-machine interface and the callbacks of the program that uses the library are the parameter \<open>ext\<close>.
\<close>

section \<open>The state\<close>

datatype en50221_stdcam_status = EN50221_STDCAM_CAM_NONE | EN50221_STDCAM_CAM_INRESET
  | EN50221_STDCAM_CAM_OK | EN50221_STDCAM_CAM_BAD

definition LLCI_RESPONSE_TIMEOUT_MS :: nat where "LLCI_RESPONSE_TIMEOUT_MS = 1000"
definition LLCI_POLL_DELAY_MS :: nat where "LLCI_POLL_DELAY_MS = 100"
definition DVBCA_CAMSTATE_MISSING :: int where "DVBCA_CAMSTATE_MISSING = 0"
definition DVBCA_CAMSTATE_READY :: int where "DVBCA_CAMSTATE_READY = 2"

definition resource_ids :: "u32 list" where
  "resource_ids = [EN50221_APP_RM_RESOURCEID, EN50221_APP_CA_RESOURCEID, EN50221_APP_AI_RESOURCEID,
     EN50221_APP_MMI_RESOURCEID, EN50221_APP_DATETIME_RESOURCEID]"

record llci_resource =
  resid :: en50221_app_public_resource_id
  binary_resource_id :: u32
  res_callback :: fptr

record en50221_stdcam_llci = en50221_session_layer +
  ai_session_number :: int
  ca_session_number :: int
  mmi_session_number :: int
  cafd :: int
  slotnum :: u8
  llci_state :: en50221_stdcam_status
  resources :: "llci_resource list"
  tl_slot_id :: int
  rm_resource :: en50221_app_rm
  ai_callback :: "fptr option"
  datetime_callback :: "fptr option"
  datetime_session_number :: int
  datetime_response_interval :: u8
  datetime_next_send :: int
  datetime_dvbtime :: int

type_synonym 'a llci = "'a en50221_stdcam_llci_scheme"

text \<open>The message functions of the resources, as the session layer calls them.\<close>

definition rm_message_ptr :: fptr where "rm_message_ptr = 1"
definition datetime_message_ptr :: fptr where "datetime_message_ptr = 2"
definition ai_message_ptr :: fptr where "ai_message_ptr = 3"
definition ca_message_ptr :: fptr where "ca_message_ptr = 4"
definition mmi_message_ptr :: fptr where "mmi_message_ptr = 5"

lemmas message_ptrs = rm_message_ptr_def datetime_message_ptr_def ai_message_ptr_def ca_message_ptr_def mmi_message_ptr_def

record 's llci_ext =
  ext_ai :: "fptr \<Rightarrow> nat \<Rightarrow> nat \<Rightarrow> app_info \<Rightarrow> 's \<Rightarrow> ('s \<times> int) option"
  ext_ca :: "nat \<Rightarrow> nat \<Rightarrow> u8 list \<Rightarrow> 's \<Rightarrow> ('s \<times> int) option"
  ext_mmi :: "nat \<Rightarrow> nat \<Rightarrow> u8 list \<Rightarrow> 's \<Rightarrow> ('s \<times> int) option"

definition llci_sendfuncs :: "'a slayer en50221_app_send_functions" where
  "llci_sendfuncs = \<lparr>send_data = (\<lambda>n data sl. en50221_sl_send_data sl n data),
                     send_datav = (\<lambda>n vector sl. en50221_sl_send_datav sl n vector)\<rparr>"

section \<open>Callbacks of the session layer\<close>

text \<open>A session that is already open makes the limited resources unavailable.\<close>

definition llci_limit :: "'a llci \<Rightarrow> u32 \<Rightarrow> bool" where
  "llci_limit l rid =
     (if rid = EN50221_APP_DATETIME_RESOURCEID then datetime_session_number l \<noteq> -1
      else if rid = EN50221_APP_AI_RESOURCEID then ai_session_number l \<noteq> -1
      else if rid = EN50221_APP_CA_RESOURCEID then ca_session_number l \<noteq> -1
      else if rid = EN50221_APP_MMI_RESOURCEID then mmi_session_number l \<noteq> -1
      else False)"

definition llci_lookup_callback :: "nat \<Rightarrow> u32 \<Rightarrow> 'a llci \<Rightarrow> ('a llci \<times> int \<times> fptr option \<times> u32 option) option" where
  "llci_lookup_callback s requested l =
     (case en50221_app_decode_public_resource_id requested of
        None \<Rightarrow> Some (l, -1, None, None)
      | Some r \<Rightarrow>
          (case find (\<lambda>x. resource_class r = resource_class (resid x) \<and> resource_type r = resource_type (resid x)) (resources l) of
             None \<Rightarrow> Some (l, -1, None, None)
           | Some x \<Rightarrow> if llci_limit l requested then Some (l, -3, None, None)
                       else Some (l, 0, Some (res_callback x), Some (binary_resource_id x))))"

definition llci_session_callback :: "s_reason \<Rightarrow> nat \<Rightarrow> nat \<Rightarrow> u32 \<Rightarrow> 'a llci \<Rightarrow> ('a llci \<times> int) option" where
  "llci_session_callback reason s n rid l =
     (case reason of
        S_SCALLBACK_REASON_CAMCONNECTED \<Rightarrow>
          if rid = EN50221_APP_RM_RESOURCEID then do { (l, _) \<leftarrow> en50221_app_rm_enq llci_sendfuncs n l; Some (l, 0) }
          else if rid = EN50221_APP_DATETIME_RESOURCEID then Some (l\<lparr>datetime_session_number := int n\<rparr>, 0)
          else if rid = EN50221_APP_AI_RESOURCEID then do {
            (l, _) \<leftarrow> en50221_app_ai_enquiry llci_sendfuncs n l; Some (l\<lparr>ai_session_number := int n\<rparr>, 0) }
          else if rid = EN50221_APP_CA_RESOURCEID then do {
            (l, _) \<leftarrow> en50221_app_ca_info_enq llci_sendfuncs n l; Some (l\<lparr>ca_session_number := int n\<rparr>, 0) }
          else if rid = EN50221_APP_MMI_RESOURCEID then Some (l\<lparr>mmi_session_number := int n\<rparr>, 0)
          else Some (l, 0)
      | S_SCALLBACK_REASON_CLOSE \<Rightarrow>
          if rid = EN50221_APP_MMI_RESOURCEID then Some (l\<lparr>mmi_session_number := -1\<rparr>, 0)
          else if rid = EN50221_APP_DATETIME_RESOURCEID then Some (l\<lparr>datetime_session_number := -1\<rparr>, 0)
          else if rid = EN50221_APP_AI_RESOURCEID then Some (l\<lparr>ai_session_number := -1\<rparr>, 0)
          else if rid = EN50221_APP_CA_RESOURCEID then Some (l\<lparr>ca_session_number := -1\<rparr>, 0)
          else Some (l, 0)
      | _ \<Rightarrow> Some (l, 0))"

section \<open>Callbacks of the resources\<close>

definition llci_rm_enq_callback :: "byte_order \<Rightarrow> nat \<Rightarrow> 'a llci \<Rightarrow> ('a llci \<times> int) option" where
  "llci_rm_enq_callback e n l = do { (l, _) \<leftarrow> en50221_app_rm_reply e llci_sendfuncs n resource_ids l; Some (l, 0) }"

definition llci_rm_reply_callback :: "nat \<Rightarrow> 'a llci \<Rightarrow> ('a llci \<times> int) option" where
  "llci_rm_reply_callback n l = do { (l, _) \<leftarrow> en50221_app_rm_changed llci_sendfuncs n l; Some (l, 0) }"

definition llci_rm_changed_callback :: "nat \<Rightarrow> 'a llci \<Rightarrow> ('a llci \<times> int) option" where
  "llci_rm_changed_callback n l = do { (l, _) \<leftarrow> en50221_app_rm_enq llci_sendfuncs n l; Some (l, 0) }"

definition llci_rm_user :: "byte_order \<Rightarrow> 'a llci rm_user" where
  "llci_rm_user e = \<lparr>rm_enq_call = (\<lambda>f s n. llci_rm_enq_callback e n), rm_reply_call = (\<lambda>f s n ids. llci_rm_reply_callback n),
     rm_changed_call = (\<lambda>f s n. llci_rm_changed_callback n)\<rparr>"

text \<open>\<open>time(NULL)\<close> is the next reading of the clock.\<close>

definition c_time :: "'a llci \<Rightarrow> 'a llci \<times> int" where
  "c_time l = (let (l, t) = tl_now l in (l, int (tv_sec t)))"

definition llci_datetime_enquiry_callback :: "nat \<Rightarrow> u8 \<Rightarrow> 'a llci \<Rightarrow> ('a llci \<times> int) option" where
  "llci_datetime_enquiry_callback n interval l =
     (let l = l\<lparr>datetime_response_interval := interval, datetime_next_send := 0\<rparr>;
          l = (if interval \<noteq> 0 then (let (l, t) = c_time l in l\<lparr>datetime_next_send := t + int (unat interval)\<rparr>) else l)
      in do { (l, _) \<leftarrow> en50221_app_datetime_send llci_sendfuncs n (datetime_dvbtime l) 0 l; Some (l, 0) })"

definition llci_resource_callback ::
  "byte_order \<Rightarrow> 'a llci llci_ext \<Rightarrow> fptr \<Rightarrow> nat \<Rightarrow> nat \<Rightarrow> u8 list \<Rightarrow> 'a llci \<Rightarrow> ('a llci \<times> int) option" where
  "llci_resource_callback e ext f s n data l =
     (if f = rm_message_ptr then en50221_app_rm_message e (llci_rm_user e) (rm_resource l) s n data l
      else if f = datetime_message_ptr then
        en50221_app_datetime_message (\<lambda>f s n. llci_datetime_enquiry_callback n) (datetime_callback l) s n data l
      else if f = ai_message_ptr then en50221_app_ai_message (ext_ai ext) (ai_callback l) s n data l
      else if f = ca_message_ptr then ext_ca ext s n data l
      else ext_mmi ext s n data l)"

definition llci_upper :: "byte_order \<Rightarrow> 'a llci llci_ext \<Rightarrow> 'a en50221_stdcam_llci_ext upper" where
  "llci_upper e ext = \<lparr>up_lookup = (\<lambda>f. llci_lookup_callback), up_session = (\<lambda>f. llci_session_callback),
     up_resource = (\<lambda>f s n rid. llci_resource_callback e ext f s n)\<rparr>"

abbreviation llci_call :: "byte_order \<Rightarrow> 'a llci llci_ext \<Rightarrow> 'a en50221_stdcam_llci_ext en50221_session_layer_ext tl_call" where
  "llci_call e ext \<equiv> en50221_sl_transport_callback (llci_upper e ext)"

section \<open>Creation and polling\<close>

definition llci_res :: "u32 \<Rightarrow> fptr \<Rightarrow> llci_resource option" where
  "llci_res rid f = do { r \<leftarrow> en50221_app_decode_public_resource_id rid;
     Some \<lparr>resid = r, binary_resource_id = rid, res_callback = f\<rparr> }"

definition llci_resources :: "llci_resource list" where
  "llci_resources = List.map_filter (\<lambda>(rid, f). llci_res rid f)
     [(EN50221_APP_RM_RESOURCEID, rm_message_ptr), (EN50221_APP_DATETIME_RESOURCEID, datetime_message_ptr),
      (EN50221_APP_AI_RESOURCEID, ai_message_ptr), (EN50221_APP_CA_RESOURCEID, ca_message_ptr),
      (EN50221_APP_MMI_RESOURCEID, mmi_message_ptr)]"

text \<open>
  \<open>en50221_stdcam_llci_create\<close> with the memory for the structures of the five resources; the result \<open>Inl\<close> stands for \<open>NULL\<close>.
  When the structure of the resource manager or of the date and time resource cannot be allocated, the registration
  of its callbacks dereferences \<open>NULL\<close>.
\<close>

definition en50221_stdcam_llci_create ::
  "int \<Rightarrow> u8 \<Rightarrow> en50221_session_layer \<Rightarrow> (en50221_session_layer + en50221_stdcam_llci) option" where
  "en50221_stdcam_llci_create fd num sl =
     (let (sl, ok) = tl_malloc sl in
      if \<not> ok then Some (Inl sl)
      else do {
        let (sl, rm_ok) = tl_malloc sl;
        rm \<leftarrow> en50221_app_rm_create rm_ok;
        let rm = en50221_app_rm_register_changed_callback (en50221_app_rm_register_reply_callback
          (en50221_app_rm_register_enq_callback rm (Some 1)) (Some 2)) (Some 3);
        let (sl, dt_ok) = tl_malloc sl;
        if \<not> dt_ok then None
        else do {
          let (sl, ai_ok) = tl_malloc sl;
          let (sl, ca_ok) = tl_malloc sl;
          let (sl, mmi_ok) = tl_malloc sl;
          let sl = en50221_sl_register_session_callback (en50221_sl_register_lookup_callback sl (Some 1)) (Some 2);
          Some (Inr (en50221_session_layer.extend sl
            \<lparr>ai_session_number = -1, ca_session_number = -1, mmi_session_number = -1, cafd = fd, slotnum = num,
             llci_state = EN50221_STDCAM_CAM_NONE, resources = llci_resources, tl_slot_id = -1, rm_resource = rm,
             ai_callback = None, datetime_callback = Some 1, datetime_session_number = -1,
             datetime_response_interval = 0, datetime_next_send = 0, datetime_dvbtime = 0\<rparr>)) } })"

definition en50221_stdcam_llci_dvbtime :: "'a llci \<Rightarrow> int \<Rightarrow> 'a llci" where
  "en50221_stdcam_llci_dvbtime l t = l\<lparr>datetime_dvbtime := t\<rparr>"

text \<open>The slot is an \<open>int\<close>, passed as a \<open>uint8_t\<close>.\<close>

definition slot_arg :: "int \<Rightarrow> nat" where
  "slot_arg i = nat (i mod 256)"

definition llci_cam_removed :: "byte_order \<Rightarrow> 'a llci llci_ext \<Rightarrow> 'a llci \<Rightarrow> 'a llci option" where
  "llci_cam_removed e ext l =
     do {
       l \<leftarrow> (if tl_slot_id l \<noteq> -1 then do {
               l \<leftarrow> en50221_tl_destroy_slot (llci_call e ext) l (slot_arg (tl_slot_id l));
               Some (l\<lparr>tl_slot_id := -1, datetime_session_number := -1, ai_session_number := -1, ca_session_number := -1,
                       mmi_session_number := -1\<rparr>) }
             else Some l);
       Some (l\<lparr>llci_state := EN50221_STDCAM_CAM_NONE\<rparr>) }"

definition llci_cam_added :: "byte_order \<Rightarrow> 'a llci llci_ext \<Rightarrow> 'a llci \<Rightarrow> 'a llci option" where
  "llci_cam_added e ext l =
     do {
       l \<leftarrow> (if tl_slot_id l \<noteq> -1 then llci_cam_removed e ext l else Some l);
       Some (l\<lparr>llci_state := EN50221_STDCAM_CAM_INRESET\<rparr>) }"

definition llci_cam_in_reset :: "byte_order \<Rightarrow> 'a llci llci_ext \<Rightarrow> int \<Rightarrow> 'a llci \<Rightarrow> 'a llci option" where
  "llci_cam_in_reset e ext cam l =
     (if cam \<noteq> DVBCA_CAMSTATE_READY then Some l
      else do {
        (l, s) \<leftarrow> en50221_tl_register_slot l (cafd l) (slotnum l) LLCI_RESPONSE_TIMEOUT_MS LLCI_POLL_DELAY_MS;
        let l = l\<lparr>tl_slot_id := s\<rparr>;
        if s < 0 then Some (l\<lparr>llci_state := EN50221_STDCAM_CAM_BAD\<rparr>)
        else do {
          (l, r) \<leftarrow> en50221_tl_new_tc l (slot_arg (tl_slot_id l));
          if r < 0 then do {
            let l = l\<lparr>llci_state := EN50221_STDCAM_CAM_BAD, tl_slot_id := -1\<rparr>;
            en50221_tl_destroy_slot (llci_call e ext) l (slot_arg (tl_slot_id l)) }
          else Some (l\<lparr>llci_state := EN50221_STDCAM_CAM_OK\<rparr>) } })"

text \<open>\<open>cam\<close> and \<open>cam'\<close> are the results of the first and the second \<open>dvbca_get_cam_state\<close>.\<close>

definition llci_cam_event :: "byte_order \<Rightarrow> 'a llci llci_ext \<Rightarrow> int \<Rightarrow> int \<Rightarrow> 'a llci \<Rightarrow> 'a llci option" where
  "llci_cam_event e ext cam cam' l =
     (if cam = DVBCA_CAMSTATE_MISSING then
        if llci_state l \<noteq> EN50221_STDCAM_CAM_NONE then llci_cam_removed e ext l else Some l
      else if cam = DVBCA_CAMSTATE_READY then
        if llci_state l = EN50221_STDCAM_CAM_NONE then llci_cam_added e ext l
        else if llci_state l = EN50221_STDCAM_CAM_INRESET then llci_cam_in_reset e ext cam' l else Some l
      else Some l)"

definition llci_send_time :: "'a llci \<Rightarrow> 'a llci option" where
  "llci_send_time l =
     (if datetime_session_number l \<noteq> -1 then
        let (l, cur_time) = c_time l in
        if datetime_response_interval l \<noteq> 0 \<and> cur_time > datetime_next_send l then do {
          (l, _) \<leftarrow> en50221_app_datetime_send llci_sendfuncs (nat (datetime_session_number l mod 65536)) (datetime_dvbtime l) 0 l;
          Some (l\<lparr>datetime_next_send := cur_time + int (unat (datetime_response_interval l))\<rparr>) }
        else Some l
      else Some l)"

definition en50221_stdcam_llci_poll ::
  "byte_order \<Rightarrow> 'a llci llci_ext \<Rightarrow> int \<Rightarrow> int \<Rightarrow> 'a llci \<Rightarrow> ('a llci \<times> en50221_stdcam_status) option" where
  "en50221_stdcam_llci_poll e ext cam cam' l =
     do {
       l \<leftarrow> llci_cam_event e ext cam cam' l;
       (l, _) \<leftarrow> en50221_tl_poll (llci_call e ext) l;
       l \<leftarrow> llci_send_time l;
       Some (l, llci_state l) }"

end
