(* ===== verification/En50221_Stdcam_Props.thy ===== *)
theory En50221_Stdcam_Props
  imports En50221_Stdcam En50221_Transport_Props
begin

text \<open>
  The standard CAM keeps the invariants of all layers.  The locale \<open>llci_apps\<close> is its contract with the
  conditional access and man-machine interface resources and the program above; it gives the contract of the
  session layer, which gives that of the transport layer.
\<close>

named_theorems llci_rules \<open>weakest precondition rules that keep the invariant of the standard CAM\<close>

section \<open>The invariant\<close>

definition llci_inv :: "'a llci \<Rightarrow> bool" where
  "llci_inv l \<longleftrightarrow> sl_inv l \<and> resources l = llci_resources"

abbreviation llci_step :: "'a llci \<Rightarrow> 'a llci \<Rightarrow> bool" where
  "llci_step \<equiv> app_step llci_inv"

lemma llci_more_fields:
  fixes l l' :: "'a llci"
  assumes "en50221_session_layer.more l' = en50221_session_layer.more l"
  shows "resources l' = resources l"
  using assms by (cases l; cases l'; simp)

lemma llci_inv_stable: "llci_inv l \<Longrightarrow> sl_step l l' \<Longrightarrow> llci_inv l'"
  using llci_more_fields [of l' l] by (simp add: llci_inv_def sl_step_def)

lemma llci_step_sl: "llci_step l0 l \<Longrightarrow> sl_step l l' \<Longrightarrow> llci_step l0 l'"
  using llci_inv_stable [of l l'] by (simp add: app_step_def sl_step_def)

lemma llci_step_refl: "llci_inv l \<Longrightarrow> llci_step l l"
  by (simp add: app_step_def)

lemma llci_step_inv: "llci_step l0 l \<Longrightarrow> sl_inv l"
  by (simp add: app_step_def llci_inv_def)

text \<open>The fields the layers below do not know.\<close>

lemma llci_update [simp]:
  "llci_step l0 (l\<lparr>ai_session_number := i\<rparr>) = llci_step l0 l"
  "llci_step l0 (l\<lparr>ca_session_number := i\<rparr>) = llci_step l0 l"
  "llci_step l0 (l\<lparr>mmi_session_number := i\<rparr>) = llci_step l0 l"
  "llci_step l0 (l\<lparr>datetime_session_number := i\<rparr>) = llci_step l0 l"
  "llci_step l0 (l\<lparr>datetime_response_interval := b\<rparr>) = llci_step l0 l"
  "llci_step l0 (l\<lparr>datetime_next_send := i\<rparr>) = llci_step l0 l"
  "llci_step l0 (l\<lparr>datetime_dvbtime := i\<rparr>) = llci_step l0 l"
  "llci_step l0 (l\<lparr>tl_slot_id := i\<rparr>) = llci_step l0 l"
  "llci_step l0 (l\<lparr>llci_state := x\<rparr>) = llci_step l0 l"
  by (simp_all add: app_step_def llci_inv_def sl_inv_def tl_inv_def)

section \<open>Rules\<close>

declare sl_control [llci_rules]

lemma llci_send [llci_rules]:
  assumes "llci_step l0 l" "\<And>l' r. llci_step l0 l' \<Longrightarrow> Q (l', r)"
  shows "wp (send_data llci_sendfuncs n data l) Q"
  unfolding llci_sendfuncs_def en50221_app_send_functions.simps
  by (rule wp_sl_op [OF sl_step_refl send_data_sl_kept])
    (use assms llci_step_inv llci_step_sl in blast)+

lemma llci_sendv [llci_rules]:
  assumes "llci_step l0 l" "sum_list (map length vs) < 2 ^ 32 - 14" "\<And>l' r. llci_step l0 l' \<Longrightarrow> Q (l', r)"
  shows "wp (send_datav llci_sendfuncs n vs l) Q"
  unfolding llci_sendfuncs_def en50221_app_send_functions.simps
  by (rule wp_sl_op [OF sl_step_refl send_datav_sl_kept])
    (use assms llci_step_inv llci_step_sl in blast)+

lemma llci_now: "llci_step l0 l \<Longrightarrow> llci_step l0 (fst (c_time l))"
proof -
  assume l: "llci_step l0 l"
  then have "tl_step l l" "sl_inv l" using llci_step_inv [OF l] by (simp_all add: sl_inv_def tl_step_refl)
  then have "sl_step l (fst (tl_now l))" using step_tl step_tl_now by blast
  with l show ?thesis using llci_step_sl by (auto simp: c_time_def case_prod_beta Let_def)
qed

lemma llci_datetime_send [llci_rules]:
  "llci_step l0 l \<Longrightarrow> (\<And>l' r. llci_step l0 l' \<Longrightarrow> Q (l', r)) \<Longrightarrow>
   wp (en50221_app_datetime_send llci_sendfuncs n t off l) Q"
  unfolding en50221_app_datetime_send_def by (auto intro!: llci_rules)

lemma llci_enqs [llci_rules]:
  assumes "llci_step l0 l" "\<And>l' r. llci_step l0 l' \<Longrightarrow> Q (l', r)"
  shows "wp (en50221_app_rm_enq llci_sendfuncs n l) Q" "wp (en50221_app_rm_changed llci_sendfuncs n l) Q"
    "wp (en50221_app_ai_enquiry llci_sendfuncs n l) Q" "wp (en50221_app_ca_info_enq llci_sendfuncs n l) Q"
  unfolding en50221_app_rm_enq_def en50221_app_rm_changed_def en50221_app_ai_enquiry_def en50221_app_ca_info_enq_def
  using assms by (auto intro!: llci_rules)

lemma llci_rm_reply [llci_rules]:
  assumes "llci_step l0 l" "length ids < 16384" "\<And>l' r. llci_step l0 l' \<Longrightarrow> Q (l', r)"
  shows "wp (en50221_app_rm_reply e llci_sendfuncs n ids l) Q"
proof -
  have "store32_all e (replicate (4 * length ids) 0) 0 ids = Some (concat (map (native_word e) ids))"
    using store_words [of "replicate (4 * length ids) 0" ids e "[]" "[]"] by simp
  moreover have "swap32_all e (concat (map (native_word e) ids)) 0 (length ids) = Some (concat (map be_word ids))"
    using swap_words [of e "[]" ids "[]"] by simp
  ultimately show ?thesis
    using assms length_asn_1_bytes(2) [of "of_nat (length ids * 4)"]
    by (auto simp: en50221_app_rm_reply_def tag_header_bytes intro!: llci_rules)
qed

section \<open>The callbacks\<close>

lemma llci_lookup_keeps: "llci_inv l \<Longrightarrow> wp (llci_lookup_callback s rid l) (\<lambda>r. llci_step l (fst r))"
  unfolding llci_lookup_callback_def by (auto simp: wp_Some llci_step_refl split: option.split)

lemma llci_session_keeps: "llci_inv l \<Longrightarrow> wp (llci_session_callback reason s n rid l) (\<lambda>r. llci_step l (fst r))"
  unfolding llci_session_callback_def by (drule llci_step_refl) (cases reason; auto intro!: llci_rules)

lemma llci_rm_keeps:
  assumes "llci_inv l"
  shows "wp (rm_enq_call (llci_rm_user e) f s n l) (\<lambda>r. llci_step l (fst r))"
    "wp (rm_reply_call (llci_rm_user e) f s n ids l) (\<lambda>r. llci_step l (fst r))"
    "wp (rm_changed_call (llci_rm_user e) f s n l) (\<lambda>r. llci_step l (fst r))"
  using llci_step_refl [OF assms]
  by (auto simp: llci_rm_user_def llci_rm_enq_callback_def llci_rm_reply_callback_def llci_rm_changed_callback_def
      resource_ids_def intro!: llci_rules)

lemma llci_datetime_keeps: "llci_inv l \<Longrightarrow> wp (llci_datetime_enquiry_callback n i l) (\<lambda>r. llci_step l (fst r))"
  unfolding llci_datetime_enquiry_callback_def Let_def
  using llci_now [of l "l\<lparr>datetime_response_interval := i, datetime_next_send := 0\<rparr>"] llci_step_refl [of l]
  by (auto simp: case_prod_beta intro!: llci_rules)

section \<open>The contract with the resources above\<close>

locale llci_apps =
  fixes e :: byte_order and ext :: "'a llci llci_ext"
  assumes ai_ok: "llci_inv l \<Longrightarrow> wp (ext_ai ext f s n info l) (\<lambda>r. llci_step l (fst r))"
    and ca_ok: "llci_inv l \<Longrightarrow> length data < 2 ^ 31 \<Longrightarrow> wp (ext_ca ext s n data l) (\<lambda>r. llci_step l (fst r))"
    and mmi_ok: "llci_inv l \<Longrightarrow> length data < 2 ^ 31 \<Longrightarrow> wp (ext_mmi ext s n data l) (\<lambda>r. llci_step l (fst r))"
begin

lemma resource_keeps:
  assumes "llci_inv l" "length data < 2 ^ 31"
  shows "wp (llci_resource_callback e ext f s n data l) (\<lambda>r. llci_step l (fst r))"
  unfolding llci_resource_callback_def using assms llci_step_refl [OF assms(1)]
  by (auto intro!: rm_message_wp datetime_message_wp ai_message_wp llci_rm_keeps llci_datetime_keeps ai_ok ca_ok mmi_ok)

end

sublocale llci_apps \<subseteq> sl: sl_client "llci_upper e ext" llci_inv
proof
  fix l l' :: "'a llci" and data :: "u8 list" and s n f rid reason
  show "llci_inv l \<Longrightarrow> sl_inv l" by (simp add: llci_inv_def)
  show "llci_inv l \<Longrightarrow> sl_step l l' \<Longrightarrow> llci_inv l'" by (rule llci_inv_stable)
  show "llci_inv l \<Longrightarrow> wp (up_lookup (llci_upper e ext) f s rid l) (\<lambda>r. llci_step l (fst r))"
    by (simp add: llci_upper_def llci_lookup_keeps)
  show "llci_inv l \<Longrightarrow> wp (up_session (llci_upper e ext) f reason s n rid l) (\<lambda>r. llci_step l (fst r))"
    by (simp add: llci_upper_def llci_session_keeps)
  show "llci_inv l \<Longrightarrow> length data < 2 ^ 31 \<Longrightarrow> wp (up_resource (llci_upper e ext) f s n rid data l) (\<lambda>r. llci_step l (fst r))"
    by (simp add: llci_upper_def resource_keeps)
qed

lemma register_slot_kept: "tl_inv tr \<Longrightarrow> wp (en50221_tl_register_slot tr h c rto pd) (kept tr)"
proof (cases "first_index (\<lambda>sl. ca_hndl sl = -1) (take (max_slots tr) (slots tr)) 0")
  case None
  moreover assume "tl_inv tr"
  ultimately show ?thesis
    by (auto simp: en50221_tl_register_slot_def intro!: wp_fail tl_step_refl)
next
  case (Some i)
  assume inv: "tl_inv tr"
  from first_index_Some [OF Some] have i: "i < max_slots tr" by simp
  then have "slot_ok (max_connections_per_slot tr) (slots tr ! i)" "i < length (slots tr)"
    using inv by (simp_all add: tl_inv_def list_all_length)
  then have "tl_step tr (tr\<lparr>slots := (slots tr)[i := (slots tr ! i)\<lparr>ca_hndl := h, cam_slot := c, response_timeout := rto,
      poll_delay := pd\<rparr>]\<rparr>)"
    using inv i by (intro step_slot) (simp_all add: slot_ok_def)
  then show ?thesis
    using Some i inv by (simp add: en50221_tl_register_slot_def tl_slot_def tl_inv_def wp_Some tl_step_def)
qed

lemma llci_tl_op:
  assumes "llci_step l0 l" "wp f (kept l)" "\<And>l' r. llci_step l0 l' \<Longrightarrow> Q (l', r)"
  shows "wp f Q"
  by (rule wp_tl_op [OF sl_step_refl assms(2)]) (use assms(1,3) llci_step_inv llci_step_sl in blast)+

lemma llci_tl_inv: "llci_step l0 l \<Longrightarrow> tl_inv l"
  by (simp add: app_step_def llci_inv_def sl_inv_def)

lemma llci_register [llci_rules]:
  "llci_step l0 l \<Longrightarrow> (\<And>l' r. llci_step l0 l' \<Longrightarrow> Q (l', r)) \<Longrightarrow> wp (en50221_tl_register_slot l h c rto pd) Q"
  by (rule llci_tl_op) (auto intro: register_slot_kept llci_tl_inv)

lemma llci_new_tc [llci_rules]:
  "llci_step l0 l \<Longrightarrow> (\<And>l' r. llci_step l0 l' \<Longrightarrow> Q (l', r)) \<Longrightarrow> wp (en50221_tl_new_tc l s) Q"
  by (rule llci_tl_op) (auto intro: new_tc_kept llci_tl_inv)

section \<open>Polling\<close>

text \<open>The rules once more, for the invariant alone.\<close>

named_theorems top_rules \<open>weakest precondition rules for the functions of the standard CAM\<close>

declare sl_control [top_rules]

lemma llci_step_imp: "llci_step l0 l \<Longrightarrow> llci_inv l"
  by (simp add: app_step_def)

lemma top_register [top_rules]:
  "llci_inv l \<Longrightarrow> (\<And>l' r. llci_inv l' \<Longrightarrow> Q (l', r)) \<Longrightarrow> wp (en50221_tl_register_slot l h c rto pd) Q"
  by (rule llci_register [OF llci_step_refl]) (auto dest: llci_step_imp)

lemma top_new_tc [top_rules]:
  "llci_inv l \<Longrightarrow> (\<And>l' r. llci_inv l' \<Longrightarrow> Q (l', r)) \<Longrightarrow> wp (en50221_tl_new_tc l s) Q"
  by (rule llci_new_tc [OF llci_step_refl]) (auto dest: llci_step_imp)

lemma llci_inv_update [simp]:
  "llci_inv (l\<lparr>ai_session_number := i\<rparr>) = llci_inv l"
  "llci_inv (l\<lparr>ca_session_number := i\<rparr>) = llci_inv l"
  "llci_inv (l\<lparr>mmi_session_number := i\<rparr>) = llci_inv l"
  "llci_inv (l\<lparr>datetime_session_number := i\<rparr>) = llci_inv l"
  "llci_inv (l\<lparr>tl_slot_id := i\<rparr>) = llci_inv l"
  "llci_inv (l\<lparr>llci_state := x\<rparr>) = llci_inv l"
  by (simp_all add: llci_inv_def sl_inv_def tl_inv_def)

lemma llci_send_time_keeps: "llci_inv l \<Longrightarrow> wp (llci_send_time l) llci_inv"
proof -
  assume "llci_inv l"
  then have "llci_step l (fst (c_time l))" by (intro llci_now llci_step_refl)
  then have "wp (llci_send_time l) (llci_step l)"
    unfolding llci_send_time_def using llci_step_refl [OF \<open>llci_inv l\<close>]
    by (auto simp: case_prod_beta Let_def intro!: llci_rules)
  then show ?thesis by (rule wp_mono) (rule llci_step_imp)
qed

context llci_apps
begin

lemma top_destroy [top_rules]:
  "llci_inv l \<Longrightarrow> (\<And>l'. llci_inv l' \<Longrightarrow> Q l') \<Longrightarrow> wp (en50221_tl_destroy_slot (llci_call e ext) l s) Q"
  by (rule wp_mono [OF sl.tl.destroy_slot_keeps]) (auto simp: client_step_def)

lemma top_poll [top_rules]:
  "llci_inv l \<Longrightarrow> (\<And>l' r. llci_inv l' \<Longrightarrow> Q (l', r)) \<Longrightarrow> wp (en50221_tl_poll (llci_call e ext) l) Q"
  by (rule wp_mono [OF sl.tl.poll_keeps]) (auto simp: sl.tl.keeps_def client_step_def)

lemma cam_removed_keeps [top_rules]:
  "llci_inv l \<Longrightarrow> (\<And>l'. llci_inv l' \<Longrightarrow> Q l') \<Longrightarrow> wp (llci_cam_removed e ext l) Q"
  unfolding llci_cam_removed_def by (auto intro!: top_rules)

lemma cam_added_keeps [top_rules]:
  "llci_inv l \<Longrightarrow> (\<And>l'. llci_inv l' \<Longrightarrow> Q l') \<Longrightarrow> wp (llci_cam_added e ext l) Q"
  unfolding llci_cam_added_def by (auto intro!: top_rules)

lemma cam_in_reset_keeps [top_rules]:
  "llci_inv l \<Longrightarrow> (\<And>l'. llci_inv l' \<Longrightarrow> Q l') \<Longrightarrow> wp (llci_cam_in_reset e ext cam l) Q"
  unfolding llci_cam_in_reset_def Let_def by (auto intro!: top_rules)

lemma cam_event_keeps [top_rules]:
  "llci_inv l \<Longrightarrow> (\<And>l'. llci_inv l' \<Longrightarrow> Q l') \<Longrightarrow> wp (llci_cam_event e ext cam cam' l) Q"
  unfolding llci_cam_event_def by (auto intro!: top_rules)

lemma llci_poll_keeps:
  "llci_inv l \<Longrightarrow> wp (en50221_stdcam_llci_poll e ext cam cam' l) (\<lambda>r. llci_inv (fst r))"
  unfolding en50221_stdcam_llci_poll_def
  by (auto intro!: top_rules intro: wp_mono [OF llci_send_time_keeps])

end

section \<open>Creation\<close>

lemma tl_malloc_inv: "tl_inv tr \<Longrightarrow> tl_inv (fst (tl_malloc tr))"
  using step_tl_malloc [of tr tr] by (simp add: tl_step_def)

lemma tl_inv_extend: "tl_inv tr \<Longrightarrow> tl_inv (en50221_transport_layer.extend tr x)"
  by (simp add: tl_inv_def en50221_transport_layer.defs)

lemma sl_create_inv:
  assumes "tl_inv tr" "en50221_sl_create tr n app = Inr sl"
  shows "sl_inv sl"
proof -
  let ?t = "fst (tl_malloc (fst (tl_malloc tr)))"
  have "tl_inv ?t" using assms(1) by (intro tl_malloc_inv)
  then have inv: "tl_inv (en50221_tl_register_callback ?t f)" for f by (simp add: en50221_tl_register_callback_def tl_inv_def)
  have sl: "sl = en50221_transport_layer.extend (en50221_tl_register_callback ?t (Some sl_transport_callback))
      \<lparr>max_sessions = n, lookup = None, session = None, sl_error = 0, sessions = map (new_session (os ?t)) [0..<n], \<dots> = app\<rparr>"
    using assms(2) by (auto simp: en50221_sl_create_def Let_def case_prod_beta split: if_splits)
  have "length (sessions sl) = max_sessions sl" "0 < max_sessions sl \<Longrightarrow> sess_state (sessions sl ! 0) = S_STATE_IDLE"
    unfolding sl en50221_transport_layer.defs by (simp_all add: new_session_def)
  moreover have "tl_inv sl" unfolding sl by (rule tl_inv_extend [OF inv])
  ultimately show ?thesis by (simp add: sl_inv_def)
qed

lemma sl_malloc_inv: "sl_inv sl \<Longrightarrow> sl_inv (fst (tl_malloc sl))"
  by (metis sl_inv_def sl_step_inv step_tl step_tl_malloc tl_step_refl)

lemma llci_create_inv:
  assumes "sl_inv sl" "en50221_stdcam_llci_create fd num sl = Some (Inr l)"
  shows "llci_inv l"
proof -
  let ?m = "\<lambda>sl. fst (tl_malloc sl)"
  have inv: "sl_inv (?m (?m (?m (?m (?m (?m sl))))))" using assms(1) by (intro sl_malloc_inv)
  have l: "l = en50221_session_layer.extend ((?m (?m (?m (?m (?m (?m sl))))))\<lparr>lookup := Some 1, session := Some 2\<rparr>) (en50221_session_layer.more l)"
    "resources l = llci_resources"
    using assms(2)
    by (auto simp: en50221_stdcam_llci_create_def Let_def case_prod_beta bind_eq_Some_conv en50221_session_layer.defs
        en50221_sl_register_session_callback_def en50221_sl_register_lookup_callback_def split: if_splits)
  have "sl_inv (en50221_session_layer.extend ((?m (?m (?m (?m (?m (?m sl))))))\<lparr>lookup := Some 1, session := Some 2\<rparr>) x)" for x
    using inv by (simp add: sl_inv_def tl_inv_def en50221_session_layer.defs)
  with l show ?thesis unfolding llci_inv_def by metis
qed

section \<open>The stack\<close>

text \<open>Successive polls, each with the two CAM states it reads.\<close>

primrec poll_sequence :: "byte_order \<Rightarrow> 'a llci llci_ext \<Rightarrow> (int \<times> int) list \<Rightarrow> 'a llci \<Rightarrow> 'a llci option" where
  "poll_sequence e ext [] l = Some l"
| "poll_sequence e ext (c # cs) l = do { (l, _) \<leftarrow> en50221_stdcam_llci_poll e ext (fst c) (snd c) l; poll_sequence e ext cs l }"

context llci_apps
begin

lemma poll_sequence_keeps: "llci_inv l \<Longrightarrow> wp (poll_sequence e ext cs l) llci_inv"
proof (induction cs arbitrary: l)
  case (Cons c cs)
  have "wp (en50221_stdcam_llci_poll e ext (fst c) (snd c) l) (\<lambda>r. llci_inv (fst r))"
    using Cons.prems by (rule llci_poll_keeps)
  then have "wp (en50221_stdcam_llci_poll e ext (fst c) (snd c) l) (\<lambda>r. wp (case r of (l, _) \<Rightarrow> poll_sequence e ext cs l) llci_inv)"
    by (rule wp_mono) (auto intro: Cons.IH)
  then show ?case by (simp add: wp_bind)
qed (simp add: wp_Some)

end

text \<open>A stack on which the big-endian conditional access resource runs, with a program that looks at
  nothing: the whole of \<open>en50221_app_ca_message\<close> meets the contract there.\<close>

definition quiet_ca :: "'s ca_user" where
  "quiet_ca = \<lparr>ca_info_call = (\<lambda>f s n ids st. Some (st, 0)), ca_pmt_reply_call = (\<lambda>f s n reply st. Some (st, 0))\<rparr>"

definition quiet_ext :: "'s llci_ext" where
  "quiet_ext = \<lparr>ext_ai = (\<lambda>f s n info st. Some (st, 0)),
     ext_ca = en50221_app_ca_message BigEndian quiet_ca \<lparr>ca_info_callback = Some 1, ca_pmt_reply_callback = Some 1\<rparr>,
     ext_mmi = (\<lambda>s n data st. Some (st, -1))\<rparr>"

lemma reply_loop_big: "reply_loop BigEndian m l pos len = Some m"
proof (induction "len - pos" arbitrary: pos rule: less_induct)
  case less
  then show ?case by (subst reply_loop.simps) simp
qed

lemma ca_big_total:
  assumes "\<And>r. Q (st, r)"
  shows "wp (en50221_app_ca_message BigEndian quiet_ca ca s n data st) Q"
proof (cases "length data < 3")
  case False
  then obtain tag where tag: "read_tag data = Some tag" using read_tag_total by (metis not_less)
  have cb: "wp (callback (\<lambda>f. ca_info_call quiet_ca f s n ids) cb st) Q"
    "wp (callback (\<lambda>f. ca_pmt_reply_call quiet_ca f s n r) cb st) Q" for ids r cb
    using assms by (auto simp: quiet_ca_def wp_Some intro!: wp_callback)
  have "wp (en50221_app_ca_parse_info BigEndian quiet_ca ca s n m st) Q
      \<and> wp (en50221_app_ca_parse_reply BigEndian quiet_ca ca s n m st) Q" for m
  proof (cases rule: read_length_safe [of m])
    case 1
    then show ?thesis using assms by (simp add: en50221_app_ca_parse_info_def en50221_app_ca_parse_reply_def wp_Some)
  next
    case (2 l len)
    have "wp (en50221_app_ca_parse_info BigEndian quiet_ca ca s n m st) Q"
    proof (cases "len > length m - l")
      case False
      then have "l + 2 * (len div 2) \<le> length m" using 2 by auto
      then obtain m' vs where "swap16_all BigEndian m l (len div 2) = Some m'" "load16_all BigEndian m' l (len div 2) = Some vs"
        by (rule array_halves)
      with 2 False cb show ?thesis by (simp add: en50221_app_ca_parse_info_def)
    qed (use 2 assms in \<open>simp add: en50221_app_ca_parse_info_def wp_Some\<close>)
    moreover have "wp (en50221_app_ca_parse_reply BigEndian quiet_ca ca s n m st) Q"
      using 2 assms cb by (auto simp: en50221_app_ca_parse_reply_def reply_loop_big wp_Some rd_bytes_def)
    ultimately show ?thesis ..
  qed
  with False tag assms show ?thesis by (simp add: en50221_app_ca_message_def wp_Some)
qed (use assms in \<open>simp add: en50221_app_ca_message_def wp_Some\<close>)

interpretation quiet: llci_apps e quiet_ext for e
  by unfold_locales (auto simp: quiet_ext_def wp_Some llci_step_refl intro!: ca_big_total)


lemma demo_stack:
  fixes tr :: en50221_transport_layer
  assumes "os_malloc (os tr) = (\<lambda>_. True)" "tl_inv tr"
  obtains sl l where "en50221_sl_create tr n () = Inr sl" "en50221_stdcam_llci_create 3 0 sl = Some (Inr l)"
    "llci_inv l" "slots l = slots tr" "max_slots l = max_slots tr" "max_connections_per_slot l = max_connections_per_slot tr"
    "cafd l = 3" "slotnum l = 0"
proof -
  obtain sl where sl: "en50221_sl_create tr n () = Inr sl" and m: "os_malloc (os sl) = (\<lambda>_. True)"
    and s: "slots sl = slots tr" "max_slots sl = max_slots tr" "max_connections_per_slot sl = max_connections_per_slot tr"
    using assms(1) by (auto simp: en50221_sl_create_def tl_malloc_def malloc_def os_tick_def en50221_transport_layer.defs
        en50221_tl_register_callback_def Let_def)
  from m obtain l where l: "en50221_stdcam_llci_create 3 0 sl = Some (Inr l)"
    "slots l = slots sl" "max_slots l = max_slots sl" "max_connections_per_slot l = max_connections_per_slot sl"
    "cafd l = 3" "slotnum l = 0"
    by (auto simp: en50221_stdcam_llci_create_def tl_malloc_def malloc_def os_tick_def en50221_app_rm_create_def
        en50221_session_layer.defs en50221_sl_register_session_callback_def en50221_sl_register_lookup_callback_def Let_def)
  have "llci_inv l" using sl_create_inv [OF assms(2) sl] l(1) by (rule llci_create_inv)
  with sl l s that show ?thesis by simp
qed

lemma demo_create:
  obtains w' tr sl l where "en50221_tl_create (demo_os False) 1 2 = Some (w', Some tr)"
    "en50221_sl_create tr 2 () = Inr sl" "en50221_stdcam_llci_create 3 0 sl = Some (Inr l)" "llci_inv l"
proof -
  obtain w' tr where tr: "en50221_tl_create (demo_os False) 1 2 = Some (w', Some tr)" and m: "os_malloc (os tr) = (\<lambda>_. True)"
    by (auto simp: en50221_tl_create_def malloc_def os_tick_def demo_os_def numeral_eq_Suc Let_def)
  have "tl_inv tr" using create_inv [OF tr] by (simp add: demo_os_def)
  with m obtain sl l where "en50221_sl_create tr 2 () = Inr sl" "en50221_stdcam_llci_create 3 0 sl = Some (Inr l)" "llci_inv l"
    by (rule demo_stack)
  with tr show ?thesis by (rule that)
qed


section \<open>Finding resources\<close>

lemma MKRID_decode:
  assumes "\<not> bit c 15"
  shows "en50221_app_decode_public_resource_id (MKRID c t v) = Some \<lparr>resource_class = ucast c,
    resource_type = ucast (take_bit 10 t), resource_version = ucast (take_bit 6 v)\<rparr>"
proof -
  have m: "(0xc0000000 :: u32) = push_bit 30 (mask 2)" by code_simp
  have "\<not> bit (MKRID c t v) 31" using assms by (simp add: MKRID_def rid_masks bit_simps)
  moreover have "bit (push_bit 30 (mask 2) :: u32) 31" by (simp add: bit_push_bit_iff bit_mask_iff)
  ultimately have "MKRID c t v AND 0xc0000000 \<noteq> 0xc0000000" unfolding m by (metis bit_and_iff)
  moreover have "(ucast (drop_bit 16 (MKRID c t v) AND 0xffff) :: u16) = ucast c"
    "(ucast (drop_bit 6 (MKRID c t v) AND 0x3ff) :: u16) = ucast (take_bit 10 t)"
    "(ucast (MKRID c t v AND 0x3f) :: u8) = ucast (take_bit 6 v)"
    unfolding MKRID_def rid_masks by (rule bit_word_eqI; auto simp: bit_simps)+
  ultimately show ?thesis by (simp add: en50221_app_decode_public_resource_id_def)
qed

lemmas rid_defs = EN50221_APP_RM_RESOURCEID_def EN50221_APP_AI_RESOURCEID_def EN50221_APP_CA_RESOURCEID_def
  EN50221_APP_DATETIME_RESOURCEID_def EN50221_APP_MMI_RESOURCEID_def

text \<open>The table and the classes in it.\<close>

lemma llci_resources_eq:
  "llci_resources = map (\<lambda>(c, f). \<lparr>resid = \<lparr>resource_class = ucast c, resource_type = 1, resource_version = 1\<rparr>,
      binary_resource_id = MKRID c 1 1, res_callback = f\<rparr>)
    [(1, rm_message_ptr), (36, datetime_message_ptr), (2, ai_message_ptr), (3, ca_message_ptr), (64, mmi_message_ptr)]"
proof -
  have "\<not> bit (1 :: u32) 15" "\<not> bit (36 :: u32) 15" "\<not> bit (2 :: u32) 15" "\<not> bit (3 :: u32) 15" "\<not> bit (64 :: u32) 15"
    by (simp_all add: bit_iff_odd)
  then show ?thesis
    by (simp add: llci_resources_def llci_res_def rid_defs MKRID_decode List.map_filter_def)
qed

lemma MKRID_inj:
  assumes "MKRID c t v = MKRID c' t v'" "\<not> bit c 15" "\<not> bit c' 15"
  shows "(ucast c :: u16) = ucast c'" "(ucast (take_bit 6 v) :: u8) = ucast (take_bit 6 v')"
  using arg_cong [OF assms(1), of en50221_app_decode_public_resource_id]
  unfolding MKRID_decode [OF assms(2)] MKRID_decode [OF assms(3)] by simp_all

lemma AI_versions:
  assumes "v < 64"
  shows "MKRID 2 1 v \<noteq> EN50221_APP_DATETIME_RESOURCEID" "MKRID 2 1 v \<noteq> EN50221_APP_CA_RESOURCEID"
    "MKRID 2 1 v \<noteq> EN50221_APP_MMI_RESOURCEID" "MKRID 2 1 v = EN50221_APP_AI_RESOURCEID \<Longrightarrow> v = 1"
proof -
  have b: "\<not> bit (36 :: u32) 15" "\<not> bit (2 :: u32) 15" "\<not> bit (3 :: u32) 15" "\<not> bit (64 :: u32) 15"
    by (simp_all add: bit_iff_odd)
  show "MKRID 2 1 v \<noteq> EN50221_APP_DATETIME_RESOURCEID" "MKRID 2 1 v \<noteq> EN50221_APP_CA_RESOURCEID"
    "MKRID 2 1 v \<noteq> EN50221_APP_MMI_RESOURCEID"
    unfolding rid_defs using b by (auto dest!: MKRID_inj(1))
  assume "MKRID 2 1 v = EN50221_APP_AI_RESOURCEID"
  then have "(ucast (take_bit 6 v) :: u8) = 1" unfolding rid_defs using b by (auto dest!: MKRID_inj(2))
  moreover have "unat v < 64" using assms by (simp add: word_less_nat_alt)
  ultimately show "v = 1"
    by (simp add: word_unat_eq_iff unsigned_ucast_eq unsigned_take_bit_eq take_bit_nat_eq_self)
qed

text \<open>
  A request is matched by class and type; the limit of one session per resource is tested against the number that was requested.
  So while a session to the application information resource is open, a request for its number is refused as
  unavailable, but one for any other version of it is accepted, also for a higher version than the resource has, for
  which the session layer's interface asks for -2.
\<close>

theorem llci_version_ignored:
  assumes "resources l = llci_resources" "ai_session_number l \<noteq> -1" "v < 64" "v \<noteq> 1"
  shows "llci_lookup_callback s EN50221_APP_AI_RESOURCEID l = Some (l, -3, None, None)
    \<and> llci_lookup_callback s (MKRID 2 1 v) l = Some (l, 0, Some ai_message_ptr, Some EN50221_APP_AI_RESOURCEID)"
proof -
  have b: "\<not> bit (2 :: u32) 15" by (simp add: bit_iff_odd)
  have one: "EN50221_APP_AI_RESOURCEID = MKRID 2 1 1" by (simp add: rid_defs)
  have lim: "llci_limit l EN50221_APP_AI_RESOURCEID"
    using assms(2) AI_versions(1) [of 1] by (simp add: llci_limit_def one)
  have nolim: "\<not> llci_limit l (MKRID 2 1 v)"
    using AI_versions [OF assms(3)] assms(4) by (auto simp: llci_limit_def)
  have "llci_lookup_callback s (MKRID 2 1 w) l = (if llci_limit l (MKRID 2 1 w) then Some (l, -3, None, None)
      else Some (l, 0, Some ai_message_ptr, Some EN50221_APP_AI_RESOURCEID))" for w
    using b by (simp add: llci_lookup_callback_def MKRID_decode assms(1) llci_resources_eq one)
  with lim nolim show ?thesis by (simp add: one)
qed

theorem llci_version_ignored_witness:
  "\<exists>l :: en50221_stdcam_llci. llci_lookup_callback 0 EN50221_APP_AI_RESOURCEID l = Some (l, -3, None, None)
    \<and> llci_lookup_callback 0 (MKRID 2 1 2) l = Some (l, 0, Some ai_message_ptr, Some EN50221_APP_AI_RESOURCEID)"
proof -
  obtain w tr sl and l :: en50221_stdcam_llci where "llci_inv l" by (rule demo_create)
  then have "resources l = llci_resources" by (simp add: llci_inv_def)
  then show ?thesis
    using llci_version_ignored [of "l\<lparr>ai_session_number := 1\<rparr>" 2 0] by auto
qed

section \<open>A slot that is never given back\<close>

lemma set_conn_hndl: "set_conn tr s c f = Some tr' \<Longrightarrow> ca_hndl (slots tr' ! i) = ca_hndl (slots tr ! i)"
  by (cases "i = s") (auto simp: set_conn_def tl_conn_def tl_slot_def bind_eq_Some_conv split: if_splits)

lemma new_tc_hndl:
  assumes "en50221_tl_new_tc tr s = Some (tr', r)"
  shows "ca_hndl (slots tr' ! i) = ca_hndl (slots tr ! i)"
proof -
  have alloc: "ca_hndl (slots x ! i) = ca_hndl (slots tr ! i)" if "en50221_tl_alloc_new_tc tr s = Some (x, c)" for x c
    using that by (auto simp: en50221_tl_alloc_new_tc_def bind_eq_Some_conv set_conn_hndl split: option.splits)
  have "ca_hndl (slots (fst (tl_malloc x)) ! i) = ca_hndl (slots x ! i)" for x :: "'a tlayer"
    by (simp add: tl_malloc_def case_prod_beta)
  with assms alloc show ?thesis
    by (auto simp: en50221_tl_new_tc_def bind_eq_Some_conv fail_def fail_slot_def queue_message_def case_prod_beta Let_def
        set_conn_hndl split: if_splits)
qed

text \<open>
  When the connection cannot be created, \<open>llci_cam_in_reset\<close> sets \<open>tl_slot_id\<close> to -1 before it hands \<open>tl_slot_id\<close> to
  \<open>en50221_tl_destroy_slot\<close>.  The slot -1, as an unsigned byte, is 255, which no layer has, so the slot that was
  registered stays registered and nothing knows its number any more.
\<close>

theorem cam_reset_leaks_slot:
  assumes "llci_inv l"
    and "en50221_tl_register_slot l (cafd l) (slotnum l) LLCI_RESPONSE_TIMEOUT_MS LLCI_POLL_DELAY_MS = Some (l1, int i)"
    and "en50221_tl_new_tc (l1\<lparr>tl_slot_id := int i\<rparr>) i = Some (l2, r)" "r < 0"
  shows "\<exists>l'. llci_cam_in_reset e ext DVBCA_CAMSTATE_READY l = Some l' \<and> llci_state l' = EN50221_STDCAM_CAM_BAD
    \<and> tl_slot_id l' = -1 \<and> ca_hndl (slots l' ! i) = cafd l"
proof -
  have inv1: "llci_inv l1"
    using wp_SomeD [OF llci_register [OF llci_step_refl [OF assms(1)], of "\<lambda>r. llci_inv (fst r)"] assms(2)] llci_step_imp by auto
  then have "tl_inv (l1\<lparr>tl_slot_id := int i\<rparr>)" by (simp add: llci_inv_def sl_inv_def tl_inv_def)
  from wp_SomeD [OF new_tc_kept [OF this] assms(3)] have "tl_inv l2" by (simp add: tl_step_def)
  then have max: "max_slots l2 \<le> 255" by (simp add: tl_inv_def)
  have reg: "i < length (slots l) \<and> slots l1 = (slots l)[i := (slots l ! i)\<lparr>ca_hndl := cafd l, cam_slot := slotnum l,
      response_timeout := LLCI_RESPONSE_TIMEOUT_MS, poll_delay := LLCI_POLL_DELAY_MS\<rparr>]"
    using assms(2) by (auto simp: en50221_tl_register_slot_def fail_def bind_eq_Some_conv tl_slot_def split: option.splits if_splits)
  have i: "i < 256" using reg assms(1) by (auto simp: llci_inv_def sl_inv_def tl_inv_def)
  have h: "ca_hndl (slots l2 ! i) = cafd l" using new_tc_hndl [OF assms(3), of i] reg by simp
  have "llci_cam_in_reset e ext DVBCA_CAMSTATE_READY l = Some (l2\<lparr>llci_state := EN50221_STDCAM_CAM_BAD, tl_slot_id := -1\<rparr>)"
    using assms(2,3,4) i max
    by (simp add: llci_cam_in_reset_def slot_arg_def Let_def en50221_tl_destroy_slot_def)
  with h show ?thesis by simp
qed

theorem cam_reset_leaks_slot_witness:
  "\<exists>l l' :: en50221_stdcam_llci. llci_inv l \<and> ca_hndl (slots l ! 0) = -1
    \<and> llci_cam_in_reset LittleEndian quiet_ext DVBCA_CAMSTATE_READY l = Some l' \<and> llci_state l' = EN50221_STDCAM_CAM_BAD
    \<and> tl_slot_id l' = -1 \<and> ca_hndl (slots l' ! 0) = 3"
proof -
  let ?slot = "\<lparr>ca_hndl = -1, cam_slot = 0, connections = [demo_conn T_STATE_IDLE 0], response_timeout = 0, poll_delay = 0\<rparr>"
  let ?tr = "(demo_tl T_STATE_IDLE 0)\<lparr>max_connections_per_slot := 1, slots := [?slot]\<rparr>"
  have "tl_inv ?tr"
    by (simp add: tl_inv_def demo_tl_def slot_ok_def conn_ok_def chain_ok_def demo_conn_def demo_os_def)
  moreover have "os_malloc (os ?tr) = (\<lambda>_. True)" by (simp add: demo_os_def)
  ultimately obtain sl l where "en50221_sl_create ?tr 2 () = Inr sl" "en50221_stdcam_llci_create 3 0 sl = Some (Inr l)"
    and l: "llci_inv l" "slots l = [?slot]" "max_slots l = 1" "max_connections_per_slot l = 1" "cafd l = 3" "slotnum l = 0"
    by (elim demo_stack [where n = 2]) auto
  obtain l1 where l1: "en50221_tl_register_slot l (cafd l) (slotnum l) LLCI_RESPONSE_TIMEOUT_MS LLCI_POLL_DELAY_MS = Some (l1, int 0)"
    "slots l1 = [?slot\<lparr>ca_hndl := 3, response_timeout := 1000, poll_delay := 100\<rparr>]" "max_slots l1 = 1" "max_connections_per_slot l1 = 1"
    using l by (simp add: en50221_tl_register_slot_def tl_slot_def LLCI_RESPONSE_TIMEOUT_MS_def LLCI_POLL_DELAY_MS_def)
  obtain l2 where l2: "en50221_tl_new_tc (l1\<lparr>tl_slot_id := int 0\<rparr>) 0 = Some (l2, -1)"
    using l1 by (simp add: en50221_tl_new_tc_def tl_slot_def en50221_tl_alloc_new_tc_def fail_slot_def)
  from cam_reset_leaks_slot [OF l(1) l1(1) l2] obtain l' where
    "llci_cam_in_reset LittleEndian quiet_ext DVBCA_CAMSTATE_READY l = Some l'" "llci_state l' = EN50221_STDCAM_CAM_BAD"
    "tl_slot_id l' = -1" "ca_hndl (slots l' ! 0) = 3" using l(5) by auto
  with l(1,2) show ?thesis by (intro exI [of _ l] exI [of _ l']) simp
qed

end
