(* ===== verification/En50221_Services.thy ===== *)
theory En50221_Services
  imports En50221_App_Props
begin

text \<open>
  The smaller resources of \<open>lib/libdvben50221\<close>: authentication (\<open>en50221_app_auth.c\<close>), host control
  (\<open>en50221_app_dvb.c\<close>), programme guide (\<open>en50221_app_epg.c\<close>), smart card (\<open>en50221_app_smartcard.c\<close>) and teletext
  (\<open>en50221_app_teletext.c\<close>).

  As for the resources of \<open>En50221_App\<close>, a resource is the record of its callbacks, a callback is a function
  pointer that the parameter \<open>user\<close> interprets, and the send functions are parameters.  The mutexes are left
  out, and so are the functions that only free the structures.

  \<open>on_tag\<close> is the beginning every \<open>..._message\<close> function shares, \<open>with_body\<close> the treatment of the length field.
  The theorems say that every message is handled without touching memory outside it, that well-formed messages
  reach the callback with the right values, and what is wrong with the replies of the smart card
  resource.
\<close>

section \<open>Tags\<close>

definition TAG_TUNE :: u32 where "TAG_TUNE = 0x9f8400"
definition TAG_REPLACE :: u32 where "TAG_REPLACE = 0x9f8401"
definition TAG_CLEAR_REPLACE :: u32 where "TAG_CLEAR_REPLACE = 0x9f8402"
definition TAG_ASK_RELEASE :: u32 where "TAG_ASK_RELEASE = 0x9f8403"
definition TAG_AUTH_REQ :: u32 where "TAG_AUTH_REQ = 0x9f8200"
definition TAG_AUTH_RESP :: u32 where "TAG_AUTH_RESP = 0x9f8201"
definition TAG_TELETEXT_EBU :: u32 where "TAG_TELETEXT_EBU = 0x9f9000"
definition TAG_SMARTCARD_COMMAND :: u32 where "TAG_SMARTCARD_COMMAND = 0x9f8e00"
definition TAG_SMARTCARD_REPLY :: u32 where "TAG_SMARTCARD_REPLY = 0x9f8e01"
definition TAG_SMARTCARD_SEND :: u32 where "TAG_SMARTCARD_SEND = 0x9f8e02"
definition TAG_SMARTCARD_RCV :: u32 where "TAG_SMARTCARD_RCV = 0x9f8e03"
definition TAG_EPG_ENQUIRY :: u32 where "TAG_EPG_ENQUIRY = 0x9f8f00"
definition TAG_EPG_REPLY :: u32 where "TAG_EPG_REPLY = 0x9f8f01"

lemmas service_tags = TAG_TUNE_def TAG_REPLACE_def TAG_CLEAR_REPLACE_def TAG_ASK_RELEASE_def TAG_AUTH_REQ_def
  TAG_AUTH_RESP_def TAG_TELETEXT_EBU_def TAG_SMARTCARD_COMMAND_def TAG_SMARTCARD_REPLY_def TAG_SMARTCARD_SEND_def
  TAG_SMARTCARD_RCV_def TAG_EPG_ENQUIRY_def TAG_EPG_REPLY_def

definition on_tag :: "mem \<Rightarrow> 's \<Rightarrow> (u32 \<Rightarrow> mem \<Rightarrow> ('s \<times> int) option) \<Rightarrow> ('s \<times> int) option" where
  "on_tag data st f =
     (if length data < 3 then Some (st, -1) else do { tag \<leftarrow> read_tag data; f tag (drop 3 data) })"

text \<open>The position of the body and its length, when the length field can be decoded, gives at least \<open>least\<close> bytes
  and not more than there are.\<close>

definition with_body :: "nat \<Rightarrow> mem \<Rightarrow> 's \<Rightarrow> (nat \<Rightarrow> nat \<Rightarrow> ('s \<times> int) option) \<Rightarrow> ('s \<times> int) option" where
  "with_body least data st f =
     do {
       len \<leftarrow> read_length data;
       case len of
         None \<Rightarrow> Some (st, -1)
       | Some (l, asn_data_length) \<Rightarrow>
           if asn_data_length < least then Some (st, -1)
           else if asn_data_length > length data - l then Some (st, -1)
           else f l asn_data_length }"

definition rd16 :: "mem \<Rightarrow> nat \<Rightarrow> u16 option" where
  "rd16 m p = do { a \<leftarrow> rd m p; b \<leftarrow> rd m (p + 1); Some (be16 a b) }"

section \<open>Authentication\<close>

record en50221_app_auth =
  auth_callback :: "fptr option"

type_synonym 's auth_user = "fptr \<Rightarrow> nat \<Rightarrow> nat \<Rightarrow> u16 \<Rightarrow> u8 list \<Rightarrow> 's \<Rightarrow> ('s \<times> int) option"

definition en50221_app_auth_create :: "bool \<Rightarrow> en50221_app_auth option" where
  "en50221_app_auth_create ok = (if ok then Some \<lparr>auth_callback = None\<rparr> else None)"

definition en50221_app_auth_register_request_callback :: "en50221_app_auth \<Rightarrow> fptr option \<Rightarrow> en50221_app_auth" where
  "en50221_app_auth_register_request_callback auth cb = auth\<lparr>auth_callback := cb\<rparr>"

definition en50221_app_auth_send ::
  "'s en50221_app_send_functions \<Rightarrow> nat \<Rightarrow> u16 \<Rightarrow> u8 list \<Rightarrow> 's \<Rightarrow> ('s \<times> int) option" where
  "en50221_app_auth_send funcs n auth_protocol_id auth_data st =
     do {
       hdr \<leftarrow> tag_header TAG_AUTH_RESP (of_nat (length auth_data + 2));
       case hdr of
         None \<Rightarrow> Some (st, -1)
       | Some buf \<Rightarrow>
           send_datav funcs n [buf @ [ucast (drop_bit 8 auth_protocol_id), ucast auth_protocol_id], auth_data] st }"

definition en50221_app_auth_parse_request ::
  "'s auth_user \<Rightarrow> en50221_app_auth \<Rightarrow> nat \<Rightarrow> nat \<Rightarrow> mem \<Rightarrow> 's \<Rightarrow> ('s \<times> int) option" where
  "en50221_app_auth_parse_request user auth s n data st =
     with_body 2 data st (\<lambda>l asn_data_length. do {
       auth_protocol_id \<leftarrow> rd16 data l;
       auth_data \<leftarrow> rd_bytes data (l + 2) (asn_data_length - 2);
       callback (\<lambda>f. user f s n auth_protocol_id auth_data) (auth_callback auth) st })"

definition en50221_app_auth_message ::
  "'s auth_user \<Rightarrow> en50221_app_auth \<Rightarrow> nat \<Rightarrow> nat \<Rightarrow> mem \<Rightarrow> 's \<Rightarrow> ('s \<times> int) option" where
  "en50221_app_auth_message user auth s n data st =
     on_tag data st (\<lambda>tag data.
       if tag = TAG_AUTH_REQ then en50221_app_auth_parse_request user auth s n data st else Some (st, -1))"

section \<open>Host control\<close>

record en50221_app_dvb =
  tune_callback :: "fptr option"
  replace_callback :: "fptr option"
  clear_replace_callback :: "fptr option"

record 's dvb_user =
  tune_call :: "fptr \<Rightarrow> nat \<Rightarrow> nat \<Rightarrow> u16 \<Rightarrow> u16 \<Rightarrow> u16 \<Rightarrow> u16 \<Rightarrow> 's \<Rightarrow> ('s \<times> int) option"
  replace_call :: "fptr \<Rightarrow> nat \<Rightarrow> nat \<Rightarrow> u8 \<Rightarrow> u16 \<Rightarrow> u16 \<Rightarrow> 's \<Rightarrow> ('s \<times> int) option"
  clear_replace_call :: "fptr \<Rightarrow> nat \<Rightarrow> nat \<Rightarrow> u8 \<Rightarrow> 's \<Rightarrow> ('s \<times> int) option"

definition en50221_app_dvb_create :: "bool \<Rightarrow> en50221_app_dvb option" where
  "en50221_app_dvb_create ok =
     (if ok then Some \<lparr>tune_callback = None, replace_callback = None, clear_replace_callback = None\<rparr> else None)"

definition en50221_app_dvb_register_tune_callback :: "en50221_app_dvb \<Rightarrow> fptr option \<Rightarrow> en50221_app_dvb" where
  "en50221_app_dvb_register_tune_callback dvb cb = dvb\<lparr>tune_callback := cb\<rparr>"

definition en50221_app_dvb_register_replace_callback :: "en50221_app_dvb \<Rightarrow> fptr option \<Rightarrow> en50221_app_dvb" where
  "en50221_app_dvb_register_replace_callback dvb cb = dvb\<lparr>replace_callback := cb\<rparr>"

definition en50221_app_dvb_register_clear_replace_callback :: "en50221_app_dvb \<Rightarrow> fptr option \<Rightarrow> en50221_app_dvb" where
  "en50221_app_dvb_register_clear_replace_callback dvb cb = dvb\<lparr>clear_replace_callback := cb\<rparr>"

definition en50221_app_dvb_ask_release :: "'s en50221_app_send_functions \<Rightarrow> nat \<Rightarrow> 's \<Rightarrow> ('s \<times> int) option" where
  "en50221_app_dvb_ask_release funcs n = send_data funcs n (tag_bytes TAG_ASK_RELEASE @ [0])"

definition en50221_app_dvb_parse_tune ::
  "'s dvb_user \<Rightarrow> en50221_app_dvb \<Rightarrow> nat \<Rightarrow> nat \<Rightarrow> mem \<Rightarrow> 's \<Rightarrow> ('s \<times> int) option" where
  "en50221_app_dvb_parse_tune user dvb s n data st =
     (if length data < 9 then Some (st, -1)
      else do {
        d0 \<leftarrow> rd data 0;
        if d0 \<noteq> 8 then Some (st, -1)
        else do {
          network_id \<leftarrow> rd16 data 1; original_network_id \<leftarrow> rd16 data 3;
          transport_stream_id \<leftarrow> rd16 data 5; service_id \<leftarrow> rd16 data 7;
          callback (\<lambda>f. tune_call user f s n network_id original_network_id transport_stream_id service_id)
            (tune_callback dvb) st } })"

definition en50221_app_dvb_parse_replace ::
  "'s dvb_user \<Rightarrow> en50221_app_dvb \<Rightarrow> nat \<Rightarrow> nat \<Rightarrow> mem \<Rightarrow> 's \<Rightarrow> ('s \<times> int) option" where
  "en50221_app_dvb_parse_replace user dvb s n data st =
     (if length data < 6 then Some (st, -1)
      else do {
        d0 \<leftarrow> rd data 0;
        if d0 \<noteq> 5 then Some (st, -1)
        else do {
          replacement_ref \<leftarrow> rd data 1;
          r1 \<leftarrow> rd data 2; r2 \<leftarrow> rd data 3; r3 \<leftarrow> rd data 4; r4 \<leftarrow> rd data 5;
          callback (\<lambda>f. replace_call user f s n replacement_ref (be16 (r1 AND 0x1f) r2) (be16 (r3 AND 0x1f) r4))
            (replace_callback dvb) st } })"

definition en50221_app_dvb_parse_clear_replace ::
  "'s dvb_user \<Rightarrow> en50221_app_dvb \<Rightarrow> nat \<Rightarrow> nat \<Rightarrow> mem \<Rightarrow> 's \<Rightarrow> ('s \<times> int) option" where
  "en50221_app_dvb_parse_clear_replace user dvb s n data st =
     (if length data < 2 then Some (st, -1)
      else do {
        d0 \<leftarrow> rd data 0;
        if d0 \<noteq> 1 then Some (st, -1)
        else do {
          replacement_ref \<leftarrow> rd data 1;
          callback (\<lambda>f. clear_replace_call user f s n replacement_ref) (clear_replace_callback dvb) st } })"

definition en50221_app_dvb_message ::
  "'s dvb_user \<Rightarrow> en50221_app_dvb \<Rightarrow> nat \<Rightarrow> nat \<Rightarrow> mem \<Rightarrow> 's \<Rightarrow> ('s \<times> int) option" where
  "en50221_app_dvb_message user dvb s n data st =
     on_tag data st (\<lambda>tag data.
       if tag = TAG_TUNE then en50221_app_dvb_parse_tune user dvb s n data st
       else if tag = TAG_REPLACE then en50221_app_dvb_parse_replace user dvb s n data st
       else if tag = TAG_CLEAR_REPLACE then en50221_app_dvb_parse_clear_replace user dvb s n data st
       else Some (st, -1))"

section \<open>Programme guide\<close>

record en50221_app_epg =
  epg_callback :: "fptr option"

type_synonym 's epg_user = "fptr \<Rightarrow> nat \<Rightarrow> nat \<Rightarrow> u8 \<Rightarrow> 's \<Rightarrow> ('s \<times> int) option"

definition en50221_app_epg_create :: "bool \<Rightarrow> en50221_app_epg option" where
  "en50221_app_epg_create ok = (if ok then Some \<lparr>epg_callback = None\<rparr> else None)"

definition en50221_app_epg_register_enquiry_callback :: "en50221_app_epg \<Rightarrow> fptr option \<Rightarrow> en50221_app_epg" where
  "en50221_app_epg_register_enquiry_callback epg cb = epg\<lparr>epg_callback := cb\<rparr>"

definition en50221_app_epg_enquire ::
  "'s en50221_app_send_functions \<Rightarrow> nat \<Rightarrow> u8 \<Rightarrow> u16 \<Rightarrow> u16 \<Rightarrow> u16 \<Rightarrow> u16 \<Rightarrow> u16 \<Rightarrow> 's \<Rightarrow> ('s \<times> int) option" where
  "en50221_app_epg_enquire funcs n command_id network_id original_network_id transport_stream_id service_id event_id =
     send_data funcs n (tag_bytes TAG_EPG_ENQUIRY @ [11, command_id,
       ucast (drop_bit 8 network_id), ucast network_id, ucast (drop_bit 8 original_network_id), ucast original_network_id,
       ucast (drop_bit 8 transport_stream_id), ucast transport_stream_id, ucast (drop_bit 8 service_id), ucast service_id,
       ucast (drop_bit 8 event_id), ucast event_id])"

definition en50221_app_epg_parse_reply ::
  "'s epg_user \<Rightarrow> en50221_app_epg \<Rightarrow> nat \<Rightarrow> nat \<Rightarrow> mem \<Rightarrow> 's \<Rightarrow> ('s \<times> int) option" where
  "en50221_app_epg_parse_reply user epg s n data st =
     (if length data \<noteq> 2 then Some (st, -1)
      else do {
        d0 \<leftarrow> rd data 0;
        if d0 \<noteq> 1 then Some (st, -1)
        else do { event_status \<leftarrow> rd data 1; callback (\<lambda>f. user f s n event_status) (epg_callback epg) st } })"

definition en50221_app_epg_message ::
  "'s epg_user \<Rightarrow> en50221_app_epg \<Rightarrow> nat \<Rightarrow> nat \<Rightarrow> mem \<Rightarrow> 's \<Rightarrow> ('s \<times> int) option" where
  "en50221_app_epg_message user epg s n data st =
     on_tag data st (\<lambda>tag data.
       if tag = TAG_EPG_REPLY then en50221_app_epg_parse_reply user epg s n data st else Some (st, -1))"

section \<open>Smart card\<close>

definition SMARTCARD_REPLY_ID_ANSW_TO_RESET :: u8 where "SMARTCARD_REPLY_ID_ANSW_TO_RESET = 0x04"

record en50221_app_smartcard =
  command_callback :: "fptr option"
  send_callback :: "fptr option"

record smartcard_command =
  CLA :: u8
  INS :: u8
  P1 :: u8
  P2 :: u8
  data_in :: "u8 list"
  length_out :: u16

record 's smartcard_user =
  command_call :: "fptr \<Rightarrow> nat \<Rightarrow> nat \<Rightarrow> u8 \<Rightarrow> 's \<Rightarrow> ('s \<times> int) option"
  send_call :: "fptr \<Rightarrow> nat \<Rightarrow> nat \<Rightarrow> smartcard_command \<Rightarrow> 's \<Rightarrow> ('s \<times> int) option"

definition en50221_app_smartcard_create :: "bool \<Rightarrow> en50221_app_smartcard option" where
  "en50221_app_smartcard_create ok = (if ok then Some \<lparr>command_callback = None, send_callback = None\<rparr> else None)"

definition en50221_app_smartcard_register_command_callback ::
  "en50221_app_smartcard \<Rightarrow> fptr option \<Rightarrow> en50221_app_smartcard" where
  "en50221_app_smartcard_register_command_callback smartcard cb = smartcard\<lparr>command_callback := cb\<rparr>"

definition en50221_app_smartcard_register_send_callback ::
  "en50221_app_smartcard \<Rightarrow> fptr option \<Rightarrow> en50221_app_smartcard" where
  "en50221_app_smartcard_register_send_callback smartcard cb = smartcard\<lparr>send_callback := cb\<rparr>"

text \<open>
  A reply: \<open>data\<close> is the caller's buffer, which the result returns as the function leaves it, and \<open>junk\<close> the
  content of the local array \<open>hdr\<close> before it is written.  The length field is encoded into
  the caller's buffer, and the short form sends the caller's buffer in place of \<open>hdr\<close>.
\<close>

definition en50221_app_smartcard_command_reply ::
  "(nat \<Rightarrow> u8) \<Rightarrow> 's en50221_app_send_functions \<Rightarrow> nat \<Rightarrow> u8 \<Rightarrow> u8 \<Rightarrow> mem \<Rightarrow> 's \<Rightarrow> ('s \<times> mem \<times> int) option" where
  "en50221_app_smartcard_command_reply junk funcs n reply_id status data st =
     (let hdr = tag_bytes TAG_SMARTCARD_REPLY @ map junk [0..<7] in
      if reply_id = SMARTCARD_REPLY_ID_ANSW_TO_RESET then do {
        let data_length = length data;
        (length_field_len, data) \<leftarrow> asn_1_encode (of_nat (data_length + 2)) data 3 3;
        if length_field_len < 0 then Some (st, data, -1)
        else do {
          hdr \<leftarrow> wr hdr (3 + nat length_field_len) reply_id;
          hdr \<leftarrow> wr hdr (3 + nat length_field_len + 1) status;
          (st, r) \<leftarrow> send_datav funcs n [take (3 + nat length_field_len + 2) hdr, data] st;
          Some (st, data, r) } }
      else do {
        hdr \<leftarrow> wr hdr 3 2;
        hdr \<leftarrow> wr hdr 4 reply_id;
        hdr \<leftarrow> wr hdr 5 status;
        iov \<leftarrow> rd_bytes data 0 6;
        (st, r) \<leftarrow> send_datav funcs n [iov] st;
        Some (st, data, r) })"

definition en50221_app_smartcard_receive ::
  "'s en50221_app_send_functions \<Rightarrow> nat \<Rightarrow> u8 list \<Rightarrow> u8 \<Rightarrow> u8 \<Rightarrow> 's \<Rightarrow> ('s \<times> int) option" where
  "en50221_app_smartcard_receive funcs n data SW1 SW2 st =
     do {
       hdr \<leftarrow> tag_header TAG_SMARTCARD_RCV (of_nat (length data + 2));
       case hdr of None \<Rightarrow> Some (st, -1) | Some buf \<Rightarrow> send_datav funcs n [buf, data, [SW1, SW2]] st }"

definition en50221_app_smartcard_parse_command ::
  "'s smartcard_user \<Rightarrow> en50221_app_smartcard \<Rightarrow> nat \<Rightarrow> nat \<Rightarrow> mem \<Rightarrow> 's \<Rightarrow> ('s \<times> int) option" where
  "en50221_app_smartcard_parse_command user smartcard s n data st =
     (if length data \<noteq> 2 then Some (st, -1)
      else do {
        d0 \<leftarrow> rd data 0;
        if d0 \<noteq> 1 then Some (st, -1)
        else do {
          command_id \<leftarrow> rd data 1;
          callback (\<lambda>f. command_call user f s n command_id) (command_callback smartcard) st } })"

definition en50221_app_smartcard_parse_send ::
  "'s smartcard_user \<Rightarrow> en50221_app_smartcard \<Rightarrow> nat \<Rightarrow> nat \<Rightarrow> mem \<Rightarrow> 's \<Rightarrow> ('s \<times> int) option" where
  "en50221_app_smartcard_parse_send user smartcard s n data st =
     with_body 8 data st (\<lambda>l asn_data_length. do {
       cla \<leftarrow> rd data l; ins \<leftarrow> rd data (l + 1); p1 \<leftarrow> rd data (l + 2); p2 \<leftarrow> rd data (l + 3);
       length_in \<leftarrow> rd16 data (l + 4);
       if unat length_in + 8 \<noteq> asn_data_length then Some (st, -1)
       else do {
         out \<leftarrow> rd16 data (l + 6 + unat length_in);
         bytes \<leftarrow> rd_bytes data (l + 6) (unat length_in);
         callback (\<lambda>f. send_call user f s n \<lparr>CLA = cla, INS = ins, P1 = p1, P2 = p2, data_in = bytes, length_out = out\<rparr>)
           (send_callback smartcard) st } })"

definition en50221_app_smartcard_message ::
  "'s smartcard_user \<Rightarrow> en50221_app_smartcard \<Rightarrow> nat \<Rightarrow> nat \<Rightarrow> mem \<Rightarrow> 's \<Rightarrow> ('s \<times> int) option" where
  "en50221_app_smartcard_message user smartcard s n data st =
     on_tag data st (\<lambda>tag data.
       if tag = TAG_SMARTCARD_COMMAND then en50221_app_smartcard_parse_command user smartcard s n data st
       else if tag = TAG_SMARTCARD_SEND then en50221_app_smartcard_parse_send user smartcard s n data st
       else Some (st, -1))"

section \<open>Teletext\<close>

record en50221_app_teletext =
  teletext_callback :: "fptr option"

type_synonym 's teletext_user = "fptr \<Rightarrow> nat \<Rightarrow> nat \<Rightarrow> u8 list \<Rightarrow> 's \<Rightarrow> ('s \<times> int) option"

definition en50221_app_teletext_create :: "bool \<Rightarrow> en50221_app_teletext option" where
  "en50221_app_teletext_create ok = (if ok then Some \<lparr>teletext_callback = None\<rparr> else None)"

definition en50221_app_teletext_register_callback :: "en50221_app_teletext \<Rightarrow> fptr option \<Rightarrow> en50221_app_teletext" where
  "en50221_app_teletext_register_callback teletext cb = teletext\<lparr>teletext_callback := cb\<rparr>"

definition en50221_app_teletext_parse_ebu ::
  "'s teletext_user \<Rightarrow> en50221_app_teletext \<Rightarrow> nat \<Rightarrow> nat \<Rightarrow> mem \<Rightarrow> 's \<Rightarrow> ('s \<times> int) option" where
  "en50221_app_teletext_parse_ebu user teletext s n data st =
     with_body 0 data st (\<lambda>l asn_data_length. do {
       teletext_data \<leftarrow> rd_bytes data l asn_data_length;
       callback (\<lambda>f. user f s n teletext_data) (teletext_callback teletext) st })"

definition en50221_app_teletext_message ::
  "'s teletext_user \<Rightarrow> en50221_app_teletext \<Rightarrow> nat \<Rightarrow> nat \<Rightarrow> mem \<Rightarrow> 's \<Rightarrow> ('s \<times> int) option" where
  "en50221_app_teletext_message user teletext s n data st =
     on_tag data st (\<lambda>tag data.
       if tag = TAG_TELETEXT_EBU then en50221_app_teletext_parse_ebu user teletext s n data st else Some (st, -1))"

section \<open>Every message is handled inside its bytes\<close>

lemma wp_on_tag:
  assumes "Q (st, -1)" "\<And>tag. 3 \<le> length data \<Longrightarrow> wp (f tag (drop 3 data)) Q"
  shows "wp (on_tag data st f) Q"
proof (cases "length data < 3")
  case False
  then obtain tag where "read_tag data = Some tag" using read_tag_total by (metis not_less)
  with False assms show ?thesis by (simp add: on_tag_def)
qed (use assms in \<open>simp add: on_tag_def wp_Some\<close>)

lemma wp_with_body:
  assumes "Q (st, -1)" "\<And>l n. least \<le> n \<Longrightarrow> l + n \<le> length data \<Longrightarrow> wp (f l n) Q"
  shows "wp (with_body least data st f) Q"
  by (cases rule: read_length_safe [of data]) (use assms in \<open>auto simp: with_body_def wp_Some\<close>)

lemma rd16_Some [simp]: "p + 1 < length m \<Longrightarrow> rd16 m p = Some (be16 (m ! p) (m ! (p + 1)))"
  by (simp add: rd16_def)

lemma auth_message_wp:
  assumes "\<And>f p d. wp (user f s n p d st) Q" "\<And>r. Q (st, r)"
  shows "wp (en50221_app_auth_message user auth s n data st) Q"
  unfolding en50221_app_auth_message_def en50221_app_auth_parse_request_def
  by (intro wp_on_tag) (auto simp: assms rd_bytes_def wp_Some intro!: wp_with_body wp_callback)

lemma dvb_message_wp:
  assumes "\<And>f a b c d. wp (tune_call user f s n a b c d st) Q" "\<And>f a b c. wp (replace_call user f s n a b c st) Q"
    "\<And>f a. wp (clear_replace_call user f s n a st) Q" "\<And>r. Q (st, r)"
  shows "wp (en50221_app_dvb_message user dvb s n data st) Q"
  unfolding en50221_app_dvb_message_def en50221_app_dvb_parse_tune_def en50221_app_dvb_parse_replace_def
    en50221_app_dvb_parse_clear_replace_def
  by (intro wp_on_tag) (auto simp: assms wp_Some intro!: wp_callback)

lemma epg_message_wp:
  assumes "\<And>f a. wp (user f s n a st) Q" "\<And>r. Q (st, r)"
  shows "wp (en50221_app_epg_message user epg s n data st) Q"
  unfolding en50221_app_epg_message_def en50221_app_epg_parse_reply_def
  by (intro wp_on_tag) (auto simp: assms wp_Some intro!: wp_callback)

lemma smartcard_message_wp:
  assumes "\<And>f a. wp (command_call user f s n a st) Q" "\<And>f a. wp (send_call user f s n a st) Q" "\<And>r. Q (st, r)"
  shows "wp (en50221_app_smartcard_message user smartcard s n data st) Q"
  unfolding en50221_app_smartcard_message_def en50221_app_smartcard_parse_command_def en50221_app_smartcard_parse_send_def
  by (intro wp_on_tag) (auto simp: assms rd_bytes_def wp_Some intro!: wp_with_body wp_callback)

lemma teletext_message_wp:
  assumes "\<And>f d. wp (user f s n d st) Q" "\<And>r. Q (st, r)"
  shows "wp (en50221_app_teletext_message user teletext s n data st) Q"
  unfolding en50221_app_teletext_message_def en50221_app_teletext_parse_ebu_def
  by (intro wp_on_tag) (auto simp: assms rd_bytes_def wp_Some intro!: wp_with_body wp_callback)

text \<open>C35: 
  Whatever bytes a module sends, the handlers of the five resources touch nothing outside the message: they return,
  provided the callbacks of the application do.
\<close>

theorem services_never_fault:
  assumes "\<And>f p d. auth_user f s n p d st \<noteq> None"
    and "\<And>f a b c d. tune_call dvb_user f s n a b c d st \<noteq> None" "\<And>f a b c. replace_call dvb_user f s n a b c st \<noteq> None"
      "\<And>f a. clear_replace_call dvb_user f s n a st \<noteq> None"
    and "\<And>f a. epg_user f s n a st \<noteq> None"
    and "\<And>f a. command_call card_user f s n a st \<noteq> None" "\<And>f a. send_call card_user f s n a st \<noteq> None"
    and "\<And>f d. text_user f s n d st \<noteq> None"
  shows "en50221_app_auth_message auth_user auth s n data st \<noteq> None
    \<and> en50221_app_dvb_message dvb_user dvb s n data st \<noteq> None
    \<and> en50221_app_epg_message epg_user epg s n data st \<noteq> None
    \<and> en50221_app_smartcard_message card_user sc s n data st \<noteq> None
    \<and> en50221_app_teletext_message text_user text s n data st \<noteq> None"
proof -
  have ok: "f \<noteq> None \<Longrightarrow> wp f (\<lambda>_. True)" for f :: "('a \<times> int) option" by (auto simp: wp_def)
  have "wp (en50221_app_auth_message auth_user auth s n data st) (\<lambda>_. True)"
    by (intro auth_message_wp ok assms TrueI)
  moreover have "wp (en50221_app_dvb_message dvb_user dvb s n data st) (\<lambda>_. True)"
    by (intro dvb_message_wp ok assms TrueI)
  moreover have "wp (en50221_app_epg_message epg_user epg s n data st) (\<lambda>_. True)"
    by (intro epg_message_wp ok assms TrueI)
  moreover have "wp (en50221_app_smartcard_message card_user sc s n data st) (\<lambda>_. True)"
    by (intro smartcard_message_wp ok assms TrueI)
  moreover have "wp (en50221_app_teletext_message text_user text s n data st) (\<lambda>_. True)"
    by (intro teletext_message_wp ok assms TrueI)
  ultimately show ?thesis by (auto dest!: wp_not_None)
qed

theorem services_never_fault_witness:
  "en50221_app_auth_message (\<lambda>f s n p d st. Some (st, 0)) \<lparr>auth_callback = Some 1\<rparr> 0 1 [0x9f, 0x82, 0, 0x82] () \<noteq> None
    \<and> en50221_app_dvb_message \<lparr>tune_call = \<lambda>f s n a b c d st. Some (st, 0), replace_call = \<lambda>f s n a b c st. Some (st, 0),
        clear_replace_call = \<lambda>f s n a st. Some (st, 0)\<rparr>
        \<lparr>tune_callback = Some 1, replace_callback = None, clear_replace_callback = None\<rparr> 0 1 [0x9f, 0x82, 0, 0x82] () \<noteq> None
    \<and> en50221_app_epg_message (\<lambda>f s n a st. Some (st, 0)) \<lparr>epg_callback = None\<rparr> 0 1 [0x9f, 0x82, 0, 0x82] () \<noteq> None
    \<and> en50221_app_smartcard_message \<lparr>command_call = \<lambda>f s n a st. Some (st, 0), send_call = \<lambda>f s n a st. Some (st, 0)\<rparr>
        \<lparr>command_callback = None, send_callback = None\<rparr> 0 1 [0x9f, 0x82, 0, 0x82] () \<noteq> None
    \<and> en50221_app_teletext_message (\<lambda>f s n d st. Some (st, 0)) \<lparr>teletext_callback = None\<rparr> 0 1 [0x9f, 0x82, 0, 0x82] () \<noteq> None"
  by (rule services_never_fault) simp_all

section \<open>Well-formed messages are understood\<close>

lemma on_tag_apdu:
  "tag < 0x1000000 \<Longrightarrow> on_tag (apdu tag body) st f = f tag (asn_1_bytes (of_nat (length body)) @ body)"
  by (simp add: on_tag_def apdu_def tag_roundtrip)

lemma with_body_bytes:
  "length body < 65536 \<Longrightarrow> least \<le> length body \<Longrightarrow>
   with_body least (asn_1_bytes (of_nat (length body)) @ body) st f = f (length (asn_1_bytes (of_nat (length body)))) (length body)"
  by (simp add: with_body_def read_length_bytes)

lemma rd16_half: "rd16 (xs @ be_half v @ ys) (length xs) = Some v"
  by (simp add: rd16_def be_half_def nth_append be16_split)

text \<open>
  A command for the card: class, instruction, parameters, the bytes for the card and the number of bytes expected in
  return reach the callback as they were sent.
\<close>

theorem smartcard_send_understood:
  assumes "length bytes + 8 < 65536"
  shows "en50221_app_smartcard_message user sc s n
      (apdu TAG_SMARTCARD_SEND ([cla, ins, p1, p2] @ be_half (of_nat (length bytes)) @ bytes @ be_half out)) st
    = callback (\<lambda>f. send_call user f s n \<lparr>CLA = cla, INS = ins, P1 = p1, P2 = p2, data_in = bytes, length_out = out\<rparr>)
        (send_callback sc) st"
proof -
  let ?body = "[cla, ins, p1, p2] @ be_half (of_nat (length bytes)) @ bytes @ be_half out"
  let ?h = "asn_1_bytes (of_nat (length ?body))"
  have l: "length ?body = length bytes + 8" by simp
  have i: "rd16 (?h @ ?body) (length ?h + 4) = Some (of_nat (length bytes))"
    using rd16_half [of "?h @ [cla, ins, p1, p2]"] by (simp del: rd16_Some add: numeral_eq_Suc)
  have o: "rd16 (?h @ ?body) (length ?h + 6 + length bytes) = Some out"
    using rd16_half [of "?h @ [cla, ins, p1, p2] @ be_half (of_nat (length bytes)) @ bytes" out "[]"]
    by (simp del: rd16_Some add: numeral_eq_Suc add.commute add.left_commute)
  have b: "rd_bytes (?h @ ?body) (length ?h + 6) (length bytes) = Some bytes"
    by (simp add: rd_bytes_def be_half_def)
  have u: "unat (of_nat (length bytes) :: u16) = length bytes" using assms by (simp add: unat_of_nat_u16)
  have "with_body 8 (?h @ ?body) st f = f (length ?h) (length bytes + 8)" for f :: "nat \<Rightarrow> nat \<Rightarrow> ('a \<times> int) option"
    using assms with_body_bytes [of ?body 8 st f] unfolding l by simp
  then have "en50221_app_smartcard_parse_send user sc s n (?h @ ?body) st
    = callback (\<lambda>f. send_call user f s n \<lparr>CLA = cla, INS = ins, P1 = p1, P2 = p2, data_in = bytes, length_out = out\<rparr>)
        (send_callback sc) st"
    unfolding en50221_app_smartcard_parse_send_def using i o b u by (simp add: nth_append)
  then show ?thesis
    unfolding en50221_app_smartcard_message_def by (subst on_tag_apdu) (simp_all add: service_tags)
qed

theorem smartcard_send_understood_witness:
  "en50221_app_smartcard_message \<lparr>command_call = \<lambda>f s n a st. None, send_call = \<lambda>f s n c st. Some (data_in c, 0)\<rparr>
     \<lparr>command_callback = None, send_callback = Some 1\<rparr> 0 1
     (apdu TAG_SMARTCARD_SEND ([0, 0xa4, 0, 0] @ be_half (of_nat (length [1, 2 :: u8])) @ [1, 2] @ be_half 5)) [] = Some ([1, 2], 0)"
  by (subst smartcard_send_understood) (simp_all add: callback_def)

lemma service_requests:
  assumes "length bytes + 2 < 65536"
  shows "en50221_app_auth_message auth_user auth s n (apdu TAG_AUTH_REQ (be_half protocol @ bytes)) st
      = callback (\<lambda>f. auth_user f s n protocol bytes) (auth_callback auth) st"
    and "en50221_app_dvb_message dvb_user dvb s n (apdu TAG_TUNE (be_half nid @ be_half onid @ be_half tsid @ be_half sid)) st
      = callback (\<lambda>f. tune_call dvb_user f s n nid onid tsid sid) (tune_callback dvb) st"
    and "en50221_app_teletext_message text_user text s n (apdu TAG_TELETEXT_EBU bytes) st
      = callback (\<lambda>f. text_user f s n bytes) (teletext_callback text) st"
proof -
  let ?b = "be_half protocol @ bytes"
  let ?h = "asn_1_bytes (of_nat (length ?b))"
  have l: "length ?b = length bytes + 2" by simp
  have "rd16 (?h @ ?b) (length ?h) = Some protocol"
    by (rule rd16_half)
  moreover have "rd_bytes (?h @ ?b) (length ?h + 2) (length bytes) = Some bytes" by (simp add: rd_bytes_def be_half_def)
  moreover have "with_body 2 (?h @ ?b) st f = f (length ?h) (length bytes + 2)" for f :: "nat \<Rightarrow> nat \<Rightarrow> ('a \<times> int) option"
    using assms with_body_bytes [of ?b 2 st f] unfolding l by simp
  ultimately have "en50221_app_auth_parse_request auth_user auth s n (?h @ ?b) st
      = callback (\<lambda>f. auth_user f s n protocol bytes) (auth_callback auth) st"
    unfolding en50221_app_auth_parse_request_def by simp
  then show "en50221_app_auth_message auth_user auth s n (apdu TAG_AUTH_REQ ?b) st
      = callback (\<lambda>f. auth_user f s n protocol bytes) (auth_callback auth) st"
    unfolding en50221_app_auth_message_def by (subst on_tag_apdu) (simp_all add: service_tags)
next
  have "asn_1_bytes 8 = [8]" by code_simp
  then show "en50221_app_dvb_message dvb_user dvb s n (apdu TAG_TUNE (be_half nid @ be_half onid @ be_half tsid @ be_half sid)) st
      = callback (\<lambda>f. tune_call dvb_user f s n nid onid tsid sid) (tune_callback dvb) st"
    unfolding en50221_app_dvb_message_def
    by (subst on_tag_apdu) (simp_all add: service_tags en50221_app_dvb_parse_tune_def be_half_def be16_split)
next
  have "with_body 0 (asn_1_bytes (of_nat (length bytes)) @ bytes) st f = f (length (asn_1_bytes (of_nat (length bytes)))) (length bytes)"
    for f :: "nat \<Rightarrow> nat \<Rightarrow> ('a \<times> int) option"
    using assms by (intro with_body_bytes) simp_all
  then show "en50221_app_teletext_message text_user text s n (apdu TAG_TELETEXT_EBU bytes) st
      = callback (\<lambda>f. text_user f s n bytes) (teletext_callback text) st"
    unfolding en50221_app_teletext_message_def en50221_app_teletext_parse_ebu_def
    by (subst on_tag_apdu) (simp_all add: service_tags rd_bytes_def)
qed

text \<open>
  An authentication request, a request to tune and a teletext page: the numbers and bytes of the message reach the
  callback.
\<close>

theorem service_requests_understood:
  assumes "length bytes + 2 < 65536"
  shows "en50221_app_auth_message auth_user auth s n (apdu TAG_AUTH_REQ (be_half protocol @ bytes)) st
        = callback (\<lambda>f. auth_user f s n protocol bytes) (auth_callback auth) st
    \<and> en50221_app_dvb_message dvb_user dvb s n (apdu TAG_TUNE (be_half nid @ be_half onid @ be_half tsid @ be_half sid)) st
        = callback (\<lambda>f. tune_call dvb_user f s n nid onid tsid sid) (tune_callback dvb) st
    \<and> en50221_app_teletext_message text_user text s n (apdu TAG_TELETEXT_EBU bytes) st
        = callback (\<lambda>f. text_user f s n bytes) (teletext_callback text) st"
  by (intro conjI service_requests [OF assms])

theorem service_requests_understood_witness:
  "en50221_app_auth_message (\<lambda>f s n p d st. Some (d, 0)) \<lparr>auth_callback = Some 1\<rparr> 0 1 (apdu TAG_AUTH_REQ (be_half 3 @ [7, 8])) []
      = Some ([7, 8], 0)
    \<and> en50221_app_teletext_message (\<lambda>f s n d st. Some (d, 0)) \<lparr>teletext_callback = Some 1\<rparr> 0 1 (apdu TAG_TELETEXT_EBU [7, 8]) []
      = Some ([7, 8], 0)"
  using service_requests_understood [of "[7, 8]" "\<lambda>f s n p d st. Some (d, 0)" "\<lparr>auth_callback = Some 1\<rparr>" 0 1 3 "[]"
      "\<lparr>tune_call = \<lambda>f s n a b c d st. None, replace_call = \<lambda>f s n a b c st. None, clear_replace_call = \<lambda>f s n a st. None\<rparr>"
      "\<lparr>tune_callback = None, replace_callback = None, clear_replace_callback = None\<rparr>" 0 0 0 0
      "\<lambda>f s n d st. Some (d, 0)" "\<lparr>teletext_callback = Some 1\<rparr>"]
  by (simp add: callback_def)

section \<open>Replies of the smart card\<close>

lemma smartcard_replies:
  shows "reply_id \<noteq> SMARTCARD_REPLY_ID_ANSW_TO_RESET \<Longrightarrow>
      en50221_app_smartcard_command_reply junk funcs n reply_id status data st
      = (if length data < 6 then None
         else do { (st, r) \<leftarrow> send_datav funcs n [take 6 data] st; Some (st, data, r) })"
    and "5 < length data \<Longrightarrow> length data < 126 \<Longrightarrow>
      en50221_app_smartcard_command_reply junk funcs n SMARTCARD_REPLY_ID_ANSW_TO_RESET status data st
      = do { (st, r) \<leftarrow> send_datav funcs n [tag_bytes TAG_SMARTCARD_REPLY @ [junk 0, SMARTCARD_REPLY_ID_ANSW_TO_RESET, status],
                 data[3 := of_nat (length data + 2)]] st;
             Some (st, data[3 := of_nat (length data + 2)], r) }"
proof -
  assume "reply_id \<noteq> SMARTCARD_REPLY_ID_ANSW_TO_RESET"
  then show "en50221_app_smartcard_command_reply junk funcs n reply_id status data st
      = (if length data < 6 then None
         else do { (st, r) \<leftarrow> send_datav funcs n [take 6 data] st; Some (st, data, r) })"
    by (simp add: en50221_app_smartcard_command_reply_def rd_bytes_def not_less)
next
  assume l: "5 < length data" "length data < 126"
  have n: "unat (of_nat (length data + 2) :: u16) = length data + 2" using l by (intro unat_of_nat_u16) simp
  then have small: "(of_nat (length data + 2) :: u16) < 0x80" using l unfolding word_less_nat_alt by simp
  have "(of_nat (length data + 2) :: u16) AND 0x7f = of_nat (length data + 2)"
  proof -
    have m: "(0x7f :: u16) = mask 7" by (simp add: mask_eq_exp_minus_1)
    have "unat (of_nat (length data + 2) :: u16) < 2 ^ 7" using small unfolding word_less_nat_alt by simp
    then show ?thesis unfolding m take_bit_eq_mask [symmetric]
      by (simp add: word_unat_eq_iff unsigned_take_bit_eq take_bit_nat_eq_self del: of_nat_add)
  qed
  moreover have "(ucast (of_nat (length data + 2) :: u16) :: u8) = of_nat (length data + 2)"
    by (metis n of_nat_unat)
  ultimately have enc: "asn_1_encode (of_nat (length data + 2)) data 3 3 = Some (1, data[3 := of_nat (length data + 2)])"
    using l small by (simp add: asn_1_encode_def)
  show "en50221_app_smartcard_command_reply junk funcs n SMARTCARD_REPLY_ID_ANSW_TO_RESET status data st
      = do { (st, r) \<leftarrow> send_datav funcs n [tag_bytes TAG_SMARTCARD_REPLY @ [junk 0, SMARTCARD_REPLY_ID_ANSW_TO_RESET, status],
                 data[3 := of_nat (length data + 2)]] st;
             Some (st, data[3 := of_nat (length data + 2)], r) }"
    unfolding en50221_app_smartcard_command_reply_def Let_def enc
    by (simp add: upt_rec numeral_eq_Suc tag_bytes_def)
qed

text \<open>
  A reply that is no answer to reset consists of the first six bytes of the caller's buffer, whatever the reply and the
  status are, and leaves the buffer when it is shorter.  An answer to reset overwrites the caller's data from byte 3 on
  with the length field, which is then missing in the header.
\<close>

theorem smartcard_reply_lost:
  "(reply_id \<noteq> SMARTCARD_REPLY_ID_ANSW_TO_RESET \<longrightarrow>
      en50221_app_smartcard_command_reply junk funcs n reply_id status data st
      = (if length data < 6 then None
         else do { (st, r) \<leftarrow> send_datav funcs n [take 6 data] st; Some (st, data, r) }))
   \<and> (5 < length data \<and> length data < 126 \<longrightarrow>
      en50221_app_smartcard_command_reply junk funcs n SMARTCARD_REPLY_ID_ANSW_TO_RESET status data st
      = do { (st, r) \<leftarrow> send_datav funcs n [tag_bytes TAG_SMARTCARD_REPLY @ [junk 0, SMARTCARD_REPLY_ID_ANSW_TO_RESET, status],
                 data[3 := of_nat (length data + 2)]] st;
             Some (st, data[3 := of_nat (length data + 2)], r) })"
  by (intro conjI impI smartcard_replies; blast intro: smartcard_replies)

theorem smartcard_reply_lost_witness:
  "en50221_app_smartcard_command_reply (\<lambda>_. 0) \<lparr>send_data = \<lambda>n d st. Some (st, 0), send_datav = \<lambda>n v st. Some (st @ v, 0)\<rparr>
     1 1 1 [1, 2, 3, 4, 5, 6] [] = Some ([[1, 2, 3, 4, 5, 6]], [1, 2, 3, 4, 5, 6], 0)"
proof -
  have "(1 :: u8) \<noteq> SMARTCARD_REPLY_ID_ANSW_TO_RESET" by (simp add: SMARTCARD_REPLY_ID_ANSW_TO_RESET_def)
  then show ?thesis using smartcard_reply_lost [of 1 "\<lambda>_. 0"
      "\<lparr>send_data = \<lambda>n d st. Some (st, 0), send_datav = \<lambda>n v st. Some (st @ v, 0)\<rparr>" 1 1 "[1, 2, 3, 4, 5, 6]" "[]"] by simp
qed

end
