(* ===== verification/En50221_Block.thy ===== *)
theory En50221_Block
  imports En50221_Os
begin

text \<open>
  A block that grows by \<open>realloc\<close> as fragments of a message arrive, as the man-machine interface
  (\<open>en50221_app_mmi.c\<close>) and the low-speed communication resource (\<open>en50221_app_lowspeed.c\<close>) keep it for every session.

  \<open>block_append\<close> is the piece of code both repeat: \<open>realloc\<close>, a test of the new pointer and a \<open>memcpy\<close> of the fragment.
  Its result is the new memory, or nothing when \<open>realloc\<close> returned \<open>NULL\<close>; the block itself then still holds the old
  pointer, which \<open>realloc\<close> may have freed.

  The locale \<open>reassembly\<close> is the contract of a handler that collects fragments: one operation for a fragment that is
  followed by more, one for the last.  What follows from it, that any way to cut a message up gives the same
  result, is proved once; both resources interpret it.
\<close>

record block =
  block_chain :: "mem cptr"
  block_length :: u32

definition no_block :: block where
  "no_block = \<lparr>block_chain = Null, block_length = 0\<rparr>"

definition block_append :: "os \<Rightarrow> block \<Rightarrow> u8 list \<Rightarrow> (os \<times> block \<times> mem option) option" where
  "block_append w b data =
     do {
       (w, new, old) \<leftarrow> realloc w (block_chain b) (unat (block_length b + of_nat (length data)));
       let b = b\<lparr>block_chain := old\<rparr>;
       case new of
         Live m \<Rightarrow> do { m \<leftarrow> blit m (unat (block_length b)) data; Some (w, b, Some m) }
       | _ \<Rightarrow> Some (w, b, None) }"

text \<open>The block after a fragment was taken in.\<close>

definition grown :: "block \<Rightarrow> mem \<Rightarrow> u8 list \<Rightarrow> block" where
  "grown b m data = \<lparr>block_chain = Live m, block_length = block_length b + of_nat (length data)\<rparr>"

section \<open>Contents of a block\<close>

text \<open>\<open>holds b xs\<close>: the block \<open>b\<close> holds exactly the bytes \<open>xs\<close>; the empty block may be \<open>NULL\<close>.\<close>

definition holds :: "block \<Rightarrow> u8 list \<Rightarrow> bool" where
  "holds b xs \<longleftrightarrow> unat (block_length b) = length xs \<and> (block_chain b = Live xs \<or> block_chain b = Null \<and> xs = [])"

lemma holds_no_block: "holds no_block []"
  by (simp add: holds_def no_block_def)

lemma holds_grown: "unat (block_length b) + length data < 2 ^ 32 \<Longrightarrow> length m = unat (block_length b) + length data \<Longrightarrow> holds (grown b m data) m"
proof -
  assume a: "unat (block_length b) + length data < 2 ^ 32" "length m = unat (block_length b) + length data"
  have "unat (of_nat (length data) :: u32) = length data" using a by (simp add: unsigned_of_nat take_bit_nat_eq_self)
  then have "unat (block_length b + of_nat (length data)) = unat (block_length b) + length data"
    using a by (subst unat_add_lem [THEN iffD1]) simp_all
  with a show ?thesis by (simp add: holds_def grown_def)
qed

lemma length_block:
  "unat (block_length b) = length xs \<Longrightarrow> length xs + length data < 2 ^ 32 \<Longrightarrow>
   unat (block_length b + of_nat (length data)) = length xs + length data"
proof -
  assume a: "unat (block_length b) = length xs" "length xs + length data < 2 ^ 32"
  have "unat (of_nat (length data) :: u32) = length data" using a by (simp add: unsigned_of_nat take_bit_nat_eq_self)
  then show ?thesis using a by (subst unat_add_lem [THEN iffD1]) simp_all
qed

lemma block_append_holds:
  assumes "holds b xs" "length xs + length data < 2 ^ 32" "os_malloc w (os_now w)" "data \<noteq> [] \<or> \<not> realloc0_frees w"
  shows "\<exists>b'. block_append w b data = Some (os_tick w, b', Some (xs @ data))"
proof -
  have len: "unat (block_length b + of_nat (length data)) = length xs + length data"
    and bl: "unat (block_length b) = length xs"
    using assms(1,2) by (auto simp: holds_def length_block)
  consider "block_chain b = Live xs" | "block_chain b = Null" "xs = []" using assms(1) by (auto simp: holds_def)
  then show ?thesis
  proof cases
    case 1
    then show ?thesis using assms(3,4) len bl
      by (auto simp: block_append_def realloc_def malloc_def fresh_def)
  next
    case 2
    then show ?thesis using assms(3) len bl by (simp add: block_append_def realloc_def malloc_def fresh_def)
  qed
qed

section \<open>Fragments\<close>

text \<open>One fragment after another, as long as each is accepted.\<close>

primrec feed :: "(u8 list \<Rightarrow> 's \<Rightarrow> 's option) \<Rightarrow> u8 list list \<Rightarrow> 's \<Rightarrow> 's option" where
  "feed grow [] s = Some s"
| "feed grow (d # ds) s = do { s \<leftarrow> grow d s; feed grow ds s }"

locale reassembly =
  fixes pending :: "'s \<Rightarrow> u8 list \<Rightarrow> bool"
    and fits :: "u8 list \<Rightarrow> bool"
    and cap :: nat
    and grow :: "u8 list \<Rightarrow> 's \<Rightarrow> 's option"
    and final :: "u8 list \<Rightarrow> 's \<Rightarrow> 'r"
    and deliver :: "u8 list \<Rightarrow> 's \<Rightarrow> 'r"
    and same :: "'s \<Rightarrow> 's \<Rightarrow> bool"
  assumes grow_step: "pending s xs \<Longrightarrow> fits d \<Longrightarrow> length xs + length d < cap \<Longrightarrow>
      \<exists>s'. grow d s = Some s' \<and> pending s' (xs @ d) \<and> same s s'"
    and final_step: "pending s xs \<Longrightarrow> fits d \<Longrightarrow> length xs + length d < cap \<Longrightarrow>
      \<exists>s'. final d s = deliver (xs @ d) s' \<and> pending s' [] \<and> same s s'"
    and same_refl: "same s s"
    and same_trans: "same s t \<Longrightarrow> same t u \<Longrightarrow> same s u"
begin

lemma feed_pending:
  "pending s xs \<Longrightarrow> list_all fits ds \<Longrightarrow> length xs + length (concat ds) < cap \<Longrightarrow>
   \<exists>s'. feed grow ds s = Some s' \<and> pending s' (xs @ concat ds) \<and> same s s'"
proof (induction ds arbitrary: s xs)
  case Nil
  then show ?case using same_refl by simp
next
  case (Cons d ds)
  from Cons.prems obtain s1 where s1: "grow d s = Some s1" "pending s1 (xs @ d)" "same s s1"
    using grow_step [of s xs d] by auto
  with Cons.IH [of s1 "xs @ d"] Cons.prems obtain s2 where
    "feed grow ds s1 = Some s2" "pending s2 ((xs @ d) @ concat ds)" "same s1 s2"
    by auto
  with s1 show ?case by (auto intro: same_trans)
qed

lemma reassembled:
  assumes "pending s xs" "list_all fits ds" "fits d" "length xs + length (concat ds) + length d < cap"
  shows "\<exists>s1 s2. feed grow ds s = Some s1 \<and> final d s1 = deliver (xs @ concat ds @ d) s2 \<and> pending s2 [] \<and> same s s2"
proof -
  obtain s1 where s1: "feed grow ds s = Some s1" "pending s1 (xs @ concat ds)" "same s s1"
    using feed_pending [of s xs ds] assms by auto
  moreover obtain s2 where "final d s1 = deliver ((xs @ concat ds) @ d) s2" "pending s2 []" "same s1 s2"
    using final_step [OF s1(2) assms(3)] assms(4) by auto
  ultimately show ?thesis by (auto intro: same_trans)
qed

end

end
