(* ===== verification/En50221_Mmi.thy ===== *)
theory En50221_Mmi
  imports En50221_Services En50221_Block
begin

text \<open>
  \<open>lib/libdvben50221/en50221_app_mmi.c\<close>: the man-machine interface, through which the module shows menus, lists,
  questions and subtitles.

  \<open>en50221_app_mmi\<close> is the structure with the environment in \<open>mmi_os\<close> and the mutex in \<open>mmi_locked\<close>; it is
  extensible, and the application's data are its extension, so a callback may change the structure as well.
  The linked list of sessions is a list, newest first.  A block chain with its length is a
  \<open>block\<close>.  A function returns \<open>None\<close> when it leaves an object, frees memory twice or waits for a mutex that is
  never released.  A text is handed to the application as a pointer and a length; here it is the bytes
  they cover, and a text that runs past its object is a fault at the moment the callback gets it.
\<close>

section \<open>Constants\<close>

definition TAG_CLOSE_MMI :: u32 where "TAG_CLOSE_MMI = 0x9f8800"
definition TAG_DISPLAY_CONTROL :: u32 where "TAG_DISPLAY_CONTROL = 0x9f8801"
definition TAG_DISPLAY_REPLY :: u32 where "TAG_DISPLAY_REPLY = 0x9f8802"
definition TAG_TEXT_LAST :: u32 where "TAG_TEXT_LAST = 0x9f8803"
definition TAG_TEXT_MORE :: u32 where "TAG_TEXT_MORE = 0x9f8804"
definition TAG_KEYPAD_CONTROL :: u32 where "TAG_KEYPAD_CONTROL = 0x9f8805"
definition TAG_KEYPRESS :: u32 where "TAG_KEYPRESS = 0x9f8806"
definition TAG_ENQUIRY :: u32 where "TAG_ENQUIRY = 0x9f8807"
definition TAG_ANSWER :: u32 where "TAG_ANSWER = 0x9f8808"
definition TAG_MENU_LAST :: u32 where "TAG_MENU_LAST = 0x9f8809"
definition TAG_MENU_MORE :: u32 where "TAG_MENU_MORE = 0x9f880a"
definition TAG_MENU_ANSWER :: u32 where "TAG_MENU_ANSWER = 0x9f880b"
definition TAG_LIST_LAST :: u32 where "TAG_LIST_LAST = 0x9f880c"
definition TAG_LIST_MORE :: u32 where "TAG_LIST_MORE = 0x9f880d"
definition TAG_SUBTITLE_SEGMENT_LAST :: u32 where "TAG_SUBTITLE_SEGMENT_LAST = 0x9f880e"
definition TAG_SUBTITLE_SEGMENT_MORE :: u32 where "TAG_SUBTITLE_SEGMENT_MORE = 0x9f880f"
definition TAG_DISPLAY_MESSAGE :: u32 where "TAG_DISPLAY_MESSAGE = 0x9f8810"
definition TAG_SCENE_END_MARK :: u32 where "TAG_SCENE_END_MARK = 0x9f8811"
definition TAG_SCENE_DONE :: u32 where "TAG_SCENE_DONE = 0x9f8812"
definition TAG_SCENE_CONTROL :: u32 where "TAG_SCENE_CONTROL = 0x9f8813"
definition TAG_SUBTITLE_DOWNLOAD_LAST :: u32 where "TAG_SUBTITLE_DOWNLOAD_LAST = 0x9f8814"
definition TAG_SUBTITLE_DOWNLOAD_MORE :: u32 where "TAG_SUBTITLE_DOWNLOAD_MORE = 0x9f8815"
definition TAG_FLUSH_DOWNLOAD :: u32 where "TAG_FLUSH_DOWNLOAD = 0x9f8816"
definition TAG_DOWNLOAD_REPLY :: u32 where "TAG_DOWNLOAD_REPLY = 0x9f8817"

lemmas mmi_tags = TAG_CLOSE_MMI_def TAG_DISPLAY_CONTROL_def TAG_DISPLAY_REPLY_def TAG_TEXT_LAST_def TAG_TEXT_MORE_def
  TAG_KEYPAD_CONTROL_def TAG_KEYPRESS_def TAG_ENQUIRY_def TAG_ANSWER_def TAG_MENU_LAST_def TAG_MENU_MORE_def
  TAG_MENU_ANSWER_def TAG_LIST_LAST_def TAG_LIST_MORE_def TAG_SUBTITLE_SEGMENT_LAST_def TAG_SUBTITLE_SEGMENT_MORE_def
  TAG_DISPLAY_MESSAGE_def TAG_SCENE_END_MARK_def TAG_SCENE_DONE_def TAG_SCENE_CONTROL_def TAG_SUBTITLE_DOWNLOAD_LAST_def
  TAG_SUBTITLE_DOWNLOAD_MORE_def TAG_FLUSH_DOWNLOAD_def TAG_DOWNLOAD_REPLY_def

definition MMI_CLOSE_MMI_CMD_ID_DELAY :: u8 where "MMI_CLOSE_MMI_CMD_ID_DELAY = 0x01"
definition MMI_DISPLAY_CONTROL_CMD_ID_SET_MMI_MODE :: u8 where "MMI_DISPLAY_CONTROL_CMD_ID_SET_MMI_MODE = 0x01"
definition MMI_DISPLAY_REPLY_ID_MMI_MODE_ACK :: u8 where "MMI_DISPLAY_REPLY_ID_MMI_MODE_ACK = 0x01"
definition MMI_DISPLAY_REPLY_ID_LIST_DISPLAY_CHAR_TABLES :: u8 where "MMI_DISPLAY_REPLY_ID_LIST_DISPLAY_CHAR_TABLES = 0x02"
definition MMI_DISPLAY_REPLY_ID_LIST_INPUT_CHAR_TABLES :: u8 where "MMI_DISPLAY_REPLY_ID_LIST_INPUT_CHAR_TABLES = 0x03"
definition MMI_DISPLAY_REPLY_ID_LIST_OVERLAY_GFX_CHARACTERISTICS :: u8 where
  "MMI_DISPLAY_REPLY_ID_LIST_OVERLAY_GFX_CHARACTERISTICS = 0x04"
definition MMI_DISPLAY_REPLY_ID_LIST_FULLSCREEN_GFX_CHARACTERISTICS :: u8 where
  "MMI_DISPLAY_REPLY_ID_LIST_FULLSCREEN_GFX_CHARACTERISTICS = 0x05"
definition MMI_ANSW_ID_ANSWER :: u8 where "MMI_ANSW_ID_ANSWER = 0x01"

lemmas mmi_ids = MMI_DISPLAY_REPLY_ID_MMI_MODE_ACK_def MMI_DISPLAY_REPLY_ID_LIST_DISPLAY_CHAR_TABLES_def
  MMI_DISPLAY_REPLY_ID_LIST_INPUT_CHAR_TABLES_def MMI_DISPLAY_REPLY_ID_LIST_OVERLAY_GFX_CHARACTERISTICS_def
  MMI_DISPLAY_REPLY_ID_LIST_FULLSCREEN_GFX_CHARACTERISTICS_def

section \<open>The state\<close>

record en50221_app_mmi_session =
  mmi_session_number :: nat
  menu_block :: block
  list_block :: block
  subtitlesegment_block :: block
  subtitledownload_block :: block

record en50221_app_mmi =
  mmi_os :: os
  mmi_locked :: bool
  mmi_sessions :: "en50221_app_mmi_session list"
  closecallback :: "fptr option"
  displaycontrolcallback :: "fptr option"
  keypadcontrolcallback :: "fptr option"
  subtitlesegmentcallback :: "fptr option"
  sceneendmarkcallback :: "fptr option"
  scenecontrolcallback :: "fptr option"
  subtitledownloadcallback :: "fptr option"
  flushdownloadcallback :: "fptr option"
  mmi_enqcallback :: "fptr option"
  menucallback :: "fptr option"
  listcallback :: "fptr option"

type_synonym 'a mmi = "'a en50221_app_mmi_scheme"

record mmi_menu =
  menu_title :: "u8 list"
  menu_sub_title :: "u8 list"
  menu_bottom :: "u8 list"
  menu_items :: "u8 list list"
  menu_items_raw :: "u8 list"

record 'm mmi_user =
  close_call :: "fptr \<Rightarrow> nat \<Rightarrow> nat \<Rightarrow> u8 \<Rightarrow> u8 \<Rightarrow> 'm \<Rightarrow> ('m \<times> int) option"
  display_control_call :: "fptr \<Rightarrow> nat \<Rightarrow> nat \<Rightarrow> u8 \<Rightarrow> u8 \<Rightarrow> 'm \<Rightarrow> ('m \<times> int) option"
  keypad_control_call :: "fptr \<Rightarrow> nat \<Rightarrow> nat \<Rightarrow> u8 \<Rightarrow> u8 list \<Rightarrow> 'm \<Rightarrow> ('m \<times> int) option"
  subtitle_segment_call :: "fptr \<Rightarrow> nat \<Rightarrow> nat \<Rightarrow> u8 list \<Rightarrow> 'm \<Rightarrow> ('m \<times> int) option"
  scene_end_mark_call :: "fptr \<Rightarrow> nat \<Rightarrow> nat \<Rightarrow> u8 \<Rightarrow> u8 \<Rightarrow> u8 \<Rightarrow> u8 \<Rightarrow> 'm \<Rightarrow> ('m \<times> int) option"
  scene_control_call :: "fptr \<Rightarrow> nat \<Rightarrow> nat \<Rightarrow> u8 \<Rightarrow> u8 \<Rightarrow> u8 \<Rightarrow> 'm \<Rightarrow> ('m \<times> int) option"
  subtitle_download_call :: "fptr \<Rightarrow> nat \<Rightarrow> nat \<Rightarrow> u8 list \<Rightarrow> 'm \<Rightarrow> ('m \<times> int) option"
  flush_download_call :: "fptr \<Rightarrow> nat \<Rightarrow> nat \<Rightarrow> 'm \<Rightarrow> ('m \<times> int) option"
  mmi_enq_call :: "fptr \<Rightarrow> nat \<Rightarrow> nat \<Rightarrow> u8 \<Rightarrow> u8 \<Rightarrow> u8 list \<Rightarrow> 'm \<Rightarrow> ('m \<times> int) option"
  menu_call :: "fptr \<Rightarrow> nat \<Rightarrow> nat \<Rightarrow> mmi_menu \<Rightarrow> 'm \<Rightarrow> ('m \<times> int) option"
  list_call :: "fptr \<Rightarrow> nat \<Rightarrow> nat \<Rightarrow> mmi_menu \<Rightarrow> 'm \<Rightarrow> ('m \<times> int) option"

definition mmi_lock :: "'a mmi \<Rightarrow> 'a mmi option" where
  "mmi_lock mmi = (if mmi_locked mmi then None else Some (mmi\<lparr>mmi_locked := True\<rparr>))"

definition mmi_unlock :: "'a mmi \<Rightarrow> 'a mmi" where
  "mmi_unlock mmi = mmi\<lparr>mmi_locked := False\<rparr>"

text \<open>Read a callback under the lock and make the call without it.\<close>

definition mmi_tell ::
  "('a mmi \<Rightarrow> fptr option) \<Rightarrow> (fptr \<Rightarrow> 'a mmi \<Rightarrow> ('a mmi \<times> int) option) \<Rightarrow> 'a mmi \<Rightarrow> ('a mmi \<times> int) option" where
  "mmi_tell sel call mmi = do { mmi \<leftarrow> mmi_lock mmi; callback call (sel mmi) (mmi_unlock mmi) }"

section \<open>Creation and registration\<close>

definition en50221_app_mmi_create :: "os \<Rightarrow> os \<times> en50221_app_mmi option" where
  "en50221_app_mmi_create w =
     (let (w, ok) = malloc w in
      (w, if ok then Some \<lparr>mmi_os = w, mmi_locked = False, mmi_sessions = [], closecallback = None, displaycontrolcallback = None,
            keypadcontrolcallback = None, subtitlesegmentcallback = None, sceneendmarkcallback = None,
            scenecontrolcallback = None, subtitledownloadcallback = None, flushdownloadcallback = None,
            mmi_enqcallback = None, menucallback = None, listcallback = None\<rparr>
          else None))"

text \<open>The functions that set one callback, under the lock.\<close>

definition mmi_register :: "('a mmi \<Rightarrow> 'a mmi) \<Rightarrow> 'a mmi \<Rightarrow> 'a mmi option" where
  "mmi_register upd mmi = do { mmi \<leftarrow> mmi_lock mmi; Some (mmi_unlock (upd mmi)) }"

definition en50221_app_mmi_register_close_callback :: "'a mmi \<Rightarrow> fptr option \<Rightarrow> 'a mmi option" where
  "en50221_app_mmi_register_close_callback mmi cb = mmi_register (\<lambda>mmi. mmi\<lparr>closecallback := cb\<rparr>) mmi"
definition en50221_app_mmi_register_display_control_callback :: "'a mmi \<Rightarrow> fptr option \<Rightarrow> 'a mmi option" where
  "en50221_app_mmi_register_display_control_callback mmi cb = mmi_register (\<lambda>mmi. mmi\<lparr>displaycontrolcallback := cb\<rparr>) mmi"
definition en50221_app_mmi_register_keypad_control_callback :: "'a mmi \<Rightarrow> fptr option \<Rightarrow> 'a mmi option" where
  "en50221_app_mmi_register_keypad_control_callback mmi cb = mmi_register (\<lambda>mmi. mmi\<lparr>keypadcontrolcallback := cb\<rparr>) mmi"
definition en50221_app_mmi_register_subtitle_segment_callback :: "'a mmi \<Rightarrow> fptr option \<Rightarrow> 'a mmi option" where
  "en50221_app_mmi_register_subtitle_segment_callback mmi cb = mmi_register (\<lambda>mmi. mmi\<lparr>subtitlesegmentcallback := cb\<rparr>) mmi"
definition en50221_app_mmi_register_scene_end_mark_callback :: "'a mmi \<Rightarrow> fptr option \<Rightarrow> 'a mmi option" where
  "en50221_app_mmi_register_scene_end_mark_callback mmi cb = mmi_register (\<lambda>mmi. mmi\<lparr>sceneendmarkcallback := cb\<rparr>) mmi"
definition en50221_app_mmi_register_scene_control_callback :: "'a mmi \<Rightarrow> fptr option \<Rightarrow> 'a mmi option" where
  "en50221_app_mmi_register_scene_control_callback mmi cb = mmi_register (\<lambda>mmi. mmi\<lparr>scenecontrolcallback := cb\<rparr>) mmi"
definition en50221_app_mmi_register_subtitle_download_callback :: "'a mmi \<Rightarrow> fptr option \<Rightarrow> 'a mmi option" where
  "en50221_app_mmi_register_subtitle_download_callback mmi cb = mmi_register (\<lambda>mmi. mmi\<lparr>subtitledownloadcallback := cb\<rparr>) mmi"
definition en50221_app_mmi_register_flush_download_callback :: "'a mmi \<Rightarrow> fptr option \<Rightarrow> 'a mmi option" where
  "en50221_app_mmi_register_flush_download_callback mmi cb = mmi_register (\<lambda>mmi. mmi\<lparr>flushdownloadcallback := cb\<rparr>) mmi"
definition en50221_app_mmi_register_enq_callback :: "'a mmi \<Rightarrow> fptr option \<Rightarrow> 'a mmi option" where
  "en50221_app_mmi_register_enq_callback mmi cb = mmi_register (\<lambda>mmi. mmi\<lparr>mmi_enqcallback := cb\<rparr>) mmi"
definition en50221_app_mmi_register_menu_callback :: "'a mmi \<Rightarrow> fptr option \<Rightarrow> 'a mmi option" where
  "en50221_app_mmi_register_menu_callback mmi cb = mmi_register (\<lambda>mmi. mmi\<lparr>menucallback := cb\<rparr>) mmi"
definition en50221_app_mmi_register_list_callback :: "'a mmi \<Rightarrow> fptr option \<Rightarrow> 'a mmi option" where
  "en50221_app_mmi_register_list_callback mmi cb = mmi_register (\<lambda>mmi. mmi\<lparr>listcallback := cb\<rparr>) mmi"

text \<open>
  \<open>free\<close> of a pointer that may be \<open>NULL\<close>: nothing comes back when the block was already freed.
  \<open>en50221_app_mmi_clear_session\<close> removes the first session with the number; it returns from inside the loop
  without releasing the mutex.
\<close>

definition c_free :: "mem cptr \<Rightarrow> unit option" where
  "c_free p = (case p of Uninit \<Rightarrow> None | Freed \<Rightarrow> None | _ \<Rightarrow> Some ())"

definition en50221_app_mmi_clear_session :: "'a mmi \<Rightarrow> nat \<Rightarrow> 'a mmi option" where
  "en50221_app_mmi_clear_session mmi n =
     do {
       mmi \<leftarrow> mmi_lock mmi;
       case first_index (\<lambda>x. mmi_session_number x = n) (mmi_sessions mmi) 0 of
         None \<Rightarrow> Some (mmi_unlock mmi)
       | Some i \<Rightarrow> do {
           let cur_s = mmi_sessions mmi ! i;
           c_free (block_chain (menu_block cur_s));
           c_free (block_chain (list_block cur_s));
           c_free (block_chain (subtitlesegment_block cur_s));
           c_free (block_chain (subtitledownload_block cur_s));
           Some (mmi\<lparr>mmi_sessions := take i (mmi_sessions mmi) @ drop (Suc i) (mmi_sessions mmi)\<rparr>) } }"

section \<open>Messages to the module\<close>

definition en50221_app_mmi_close :: "'s en50221_app_send_functions \<Rightarrow> nat \<Rightarrow> u8 \<Rightarrow> u8 \<Rightarrow> 's \<Rightarrow> ('s \<times> int) option" where
  "en50221_app_mmi_close funcs n cmd_id delay =
     (if cmd_id = MMI_CLOSE_MMI_CMD_ID_DELAY then send_data funcs n (tag_bytes TAG_CLOSE_MMI @ [2, cmd_id, delay])
      else send_data funcs n (tag_bytes TAG_CLOSE_MMI @ [1, cmd_id]))"

record en50221_app_mmi_pixel_depth =
  display_depth :: u8
  pixels_per_byte :: u8
  region_overhead :: u8

text \<open>The union of details; which member is read depends on the reply.\<close>

record en50221_app_mmi_display_reply_details =
  gfx_width :: u16
  gfx_height :: u16
  aspect_ratio :: u8
  gfx_relation_to_video :: u8
  multiple_depths :: u8
  display_bytes :: u16
  composition_buffer_bytes :: u8
  object_cache_bytes :: u8
  pixel_depths :: "en50221_app_mmi_pixel_depth list"
  char_table :: "u8 list"
  mmi_mode :: u8

definition pixel_depth_bytes :: "en50221_app_mmi_pixel_depth \<Rightarrow> u8 list" where
  "pixel_depth_bytes d = [push_bit 5 (display_depth d AND 0x07) OR push_bit 2 (pixels_per_byte d AND 0x07), region_overhead d]"

definition gfx_bytes :: "en50221_app_mmi_display_reply_details \<Rightarrow> u8 list" where
  "gfx_bytes d =
     [ucast (drop_bit 8 (gfx_width d)), ucast (gfx_width d), ucast (drop_bit 8 (gfx_height d)), ucast (gfx_height d),
      push_bit 4 (aspect_ratio d AND 0x0f) OR push_bit 1 (gfx_relation_to_video d AND 0x07) OR (multiple_depths d AND 1),
      ucast (drop_bit 4 (display_bytes d)),
      push_bit 4 (ucast (display_bytes d AND 0x0f)) OR drop_bit 4 (composition_buffer_bytes d AND 0xf0),
      push_bit 4 (composition_buffer_bytes d AND 0x0f) OR drop_bit 4 (object_cache_bytes d AND 0xf0),
      push_bit 4 (object_cache_bytes d AND 0x0f) OR (of_nat (length (pixel_depths d)) AND 0x0f)]"

text \<open>
  The pixel depths are written to a local array through a pointer that moves with each of them; the vector
  for the send function is then made with the moved pointer, so the bytes sent are those after the array.
\<close>

definition en50221_app_mmi_display_reply ::
  "'s en50221_app_send_functions \<Rightarrow> nat \<Rightarrow> u8 \<Rightarrow> en50221_app_mmi_display_reply_details \<Rightarrow> 's \<Rightarrow> ('s \<times> int) option" where
  "en50221_app_mmi_display_reply funcs n reply_id details st =
     (if reply_id = MMI_DISPLAY_REPLY_ID_MMI_MODE_ACK then
        send_datav funcs n [tag_bytes TAG_DISPLAY_REPLY @ [2, reply_id, mmi_mode details]] st
      else if reply_id = MMI_DISPLAY_REPLY_ID_LIST_DISPLAY_CHAR_TABLES \<or> reply_id = MMI_DISPLAY_REPLY_ID_LIST_INPUT_CHAR_TABLES then do {
        hdr \<leftarrow> tag_header TAG_DISPLAY_REPLY (of_nat (length (char_table details) + 1));
        case hdr of
          None \<Rightarrow> Some (st, -1)
        | Some data \<Rightarrow> send_datav funcs n [data @ [reply_id], char_table details] st }
      else if reply_id = MMI_DISPLAY_REPLY_ID_LIST_OVERLAY_GFX_CHARACTERISTICS
          \<or> reply_id = MMI_DISPLAY_REPLY_ID_LIST_FULLSCREEN_GFX_CHARACTERISTICS then do {
        let num_pixel_depths = length (pixel_depths details);
        hdr \<leftarrow> tag_header TAG_DISPLAY_REPLY (of_nat (1 + 9 + num_pixel_depths * 2));
        case hdr of
          None \<Rightarrow> Some (st, -1)
        | Some data \<Rightarrow> do {
            let pixdepths = concat (map pixel_depth_bytes (pixel_depths details));
            iov \<leftarrow> rd_bytes pixdepths (num_pixel_depths * 2) (num_pixel_depths * 2);
            send_datav funcs n [data @ [reply_id] @ gfx_bytes details, iov] st } }
      else send_datav funcs n [tag_bytes TAG_DISPLAY_REPLY @ [1, reply_id]] st)"

definition en50221_app_mmi_keypress :: "'s en50221_app_send_functions \<Rightarrow> nat \<Rightarrow> u8 \<Rightarrow> 's \<Rightarrow> ('s \<times> int) option" where
  "en50221_app_mmi_keypress funcs n keycode = send_data funcs n (tag_bytes TAG_KEYPRESS @ [1, keycode])"

definition en50221_app_mmi_display_message :: "'s en50221_app_send_functions \<Rightarrow> nat \<Rightarrow> u8 \<Rightarrow> 's \<Rightarrow> ('s \<times> int) option" where
  "en50221_app_mmi_display_message funcs n display_message_id =
     send_data funcs n (tag_bytes TAG_DISPLAY_MESSAGE @ [1, display_message_id])"

definition en50221_app_mmi_scene_done ::
  "'s en50221_app_send_functions \<Rightarrow> nat \<Rightarrow> u8 \<Rightarrow> u8 \<Rightarrow> u8 \<Rightarrow> 's \<Rightarrow> ('s \<times> int) option" where
  "en50221_app_mmi_scene_done funcs n decoder_continue scene_reveal scene_tag =
     send_data funcs n (tag_bytes TAG_SCENE_DONE @ [1,
       (if decoder_continue \<noteq> 0 then 0x80 else 0) OR (if scene_reveal \<noteq> 0 then 0x40 else 0) OR (scene_tag AND 0x0f)])"

definition en50221_app_mmi_download_reply ::
  "'s en50221_app_send_functions \<Rightarrow> nat \<Rightarrow> u16 \<Rightarrow> u8 \<Rightarrow> 's \<Rightarrow> ('s \<times> int) option" where
  "en50221_app_mmi_download_reply funcs n object_id download_reply_id =
     send_data funcs n (tag_bytes TAG_DOWNLOAD_REPLY @ [3, ucast (drop_bit 8 object_id), ucast object_id, download_reply_id])"

definition en50221_app_mmi_answ ::
  "'s en50221_app_send_functions \<Rightarrow> nat \<Rightarrow> u8 \<Rightarrow> u8 list \<Rightarrow> 's \<Rightarrow> ('s \<times> int) option" where
  "en50221_app_mmi_answ funcs n answ_id text st =
     (if answ_id = MMI_ANSW_ID_ANSWER then do {
        hdr \<leftarrow> tag_header TAG_ANSWER (of_nat (length text + 1));
        case hdr of None \<Rightarrow> Some (st, -1) | Some buf \<Rightarrow> send_datav funcs n [buf @ [answ_id], text] st }
      else send_datav funcs n [tag_bytes TAG_ANSWER @ [1, answ_id]] st)"

definition en50221_app_mmi_menu_answ :: "'s en50221_app_send_functions \<Rightarrow> nat \<Rightarrow> u8 \<Rightarrow> 's \<Rightarrow> ('s \<times> int) option" where
  "en50221_app_mmi_menu_answ funcs n choice_ref = send_data funcs n (tag_bytes TAG_MENU_ANSWER @ [1, choice_ref])"

section \<open>Fragments\<close>

text \<open>The block a tag names, and its replacement.\<close>

definition tag_block :: "u32 \<Rightarrow> en50221_app_mmi_session \<Rightarrow> block option" where
  "tag_block tag_id cur_s =
     (if tag_id = TAG_MENU_LAST \<or> tag_id = TAG_MENU_MORE then Some (menu_block cur_s)
      else if tag_id = TAG_LIST_LAST \<or> tag_id = TAG_LIST_MORE then Some (list_block cur_s)
      else if tag_id = TAG_SUBTITLE_SEGMENT_LAST \<or> tag_id = TAG_SUBTITLE_SEGMENT_MORE then Some (subtitlesegment_block cur_s)
      else if tag_id = TAG_SUBTITLE_DOWNLOAD_LAST \<or> tag_id = TAG_SUBTITLE_DOWNLOAD_MORE then Some (subtitledownload_block cur_s)
      else None)"

definition put_block :: "u32 \<Rightarrow> block \<Rightarrow> en50221_app_mmi_session \<Rightarrow> en50221_app_mmi_session" where
  "put_block tag_id b cur_s =
     (if tag_id = TAG_MENU_LAST \<or> tag_id = TAG_MENU_MORE then cur_s\<lparr>menu_block := b\<rparr>
      else if tag_id = TAG_LIST_LAST \<or> tag_id = TAG_LIST_MORE then cur_s\<lparr>list_block := b\<rparr>
      else if tag_id = TAG_SUBTITLE_SEGMENT_LAST \<or> tag_id = TAG_SUBTITLE_SEGMENT_MORE then cur_s\<lparr>subtitlesegment_block := b\<rparr>
      else if tag_id = TAG_SUBTITLE_DOWNLOAD_LAST \<or> tag_id = TAG_SUBTITLE_DOWNLOAD_MORE then cur_s\<lparr>subtitledownload_block := b\<rparr>
      else cur_s)"

definition new_mmi_session :: "nat \<Rightarrow> en50221_app_mmi_session" where
  "new_mmi_session n = \<lparr>mmi_session_number = n, menu_block = no_block, list_block = no_block,
     subtitlesegment_block = no_block, subtitledownload_block = no_block\<rparr>"

text \<open>The position of the session, which is created in front of the list when it is missing.\<close>

definition ensure_session :: "'a mmi \<Rightarrow> nat \<Rightarrow> 'a mmi \<times> nat option" where
  "ensure_session mmi n =
     (case first_index (\<lambda>x. mmi_session_number x = n) (mmi_sessions mmi) 0 of
        Some i \<Rightarrow> (mmi, Some i)
      | None \<Rightarrow> (let (w, ok) = malloc (mmi_os mmi) in
          if ok then (mmi\<lparr>mmi_os := w, mmi_sessions := new_mmi_session n # mmi_sessions mmi\<rparr>, Some 0)
          else (mmi\<lparr>mmi_os := w\<rparr>, None)))"

text \<open>
  \<open>en50221_app_mmi_defragment\<close>: the status with the data for status 1 and 2, as an object, a position in it and a
  length.  The input is the range of \<open>len\<close> bytes from \<open>pos\<close> in the message \<open>m\<close>.
\<close>

definition en50221_app_mmi_defragment ::
  "'a mmi \<Rightarrow> nat \<Rightarrow> u32 \<Rightarrow> bool \<Rightarrow> mem \<Rightarrow> nat \<Rightarrow> nat \<Rightarrow> ('a mmi \<times> int \<times> (mem \<times> nat \<times> nat)) option" where
  "en50221_app_mmi_defragment mmi n tag_id more_last m pos len =
     (if \<not> more_last then
        (case ensure_session mmi n of
           (mmi, None) \<Rightarrow> Some (mmi, -1, ([], 0, 0))
         | (mmi, Some i) \<Rightarrow>
             (case tag_block tag_id (mmi_sessions mmi ! i) of
                None \<Rightarrow> Some (mmi, -1, ([], 0, 0))
              | Some b \<Rightarrow> do {
                  indata \<leftarrow> rd_bytes m pos len;
                  (w, b', new) \<leftarrow> block_append (mmi_os mmi) b indata;
                  let put = (\<lambda>b. mmi\<lparr>mmi_os := w,
                    mmi_sessions := (mmi_sessions mmi)[i := put_block tag_id b (mmi_sessions mmi ! i)]\<rparr>);
                  Some (case new of
                    None \<Rightarrow> (put b', -1, ([], 0, 0))
                  | Some new_data \<Rightarrow> (put (grown b new_data indata), 0, ([], 0, 0))) }))
      else
        (case first_index (\<lambda>x. mmi_session_number x = n) (mmi_sessions mmi) 0 of
           None \<Rightarrow> Some (mmi, 1, (m, pos, len))
         | Some i \<Rightarrow>
             (case tag_block tag_id (mmi_sessions mmi ! i) of
                None \<Rightarrow> Some (mmi, -1, ([], 0, 0))
              | Some b \<Rightarrow> do {
                  indata \<leftarrow> rd_bytes m pos len;
                  (w, b', new) \<leftarrow> block_append (mmi_os mmi) b indata;
                  let put = (\<lambda>b. mmi\<lparr>mmi_os := w,
                    mmi_sessions := (mmi_sessions mmi)[i := put_block tag_id b (mmi_sessions mmi ! i)]\<rparr>);
                  Some (case new of
                    None \<Rightarrow> (put b', -1, ([], 0, 0))
                  | Some new_data \<Rightarrow> (put no_block, 2,
                      (new_data, 0, unat (block_length b + of_nat (length indata))))) })))"

text \<open>
  \<open>en50221_app_mmi_defragment_text\<close> on the \<open>data_length\<close> bytes from \<open>pos\<close> in the object \<open>m\<close>, with the text
  collected so far and the number of bytes consumed.  The result is the text, as an object, a position and a length,
  with the number of bytes consumed, or nothing for the status -1.  The length field of a text is not
  compared with \<open>data_length\<close>, which therefore may wrap.
\<close>

function defragment_text ::
  "os \<Rightarrow> mem \<Rightarrow> nat \<Rightarrow> u32 \<Rightarrow> block \<Rightarrow> u32 \<Rightarrow> (os \<times> ((mem \<times> nat \<times> nat) \<times> u32) option) option" where
  "defragment_text w m pos data_length text consumed =
     (if data_length < 3 then do { c_free (block_chain text); Some (w, None) }
      else do {
        tag \<leftarrow> read_tag (drop pos m);
        (length_field_len, v) \<leftarrow> asn_1_decode m (pos + 3) (unat (data_length - 3));
        if length_field_len < 0 then do { c_free (block_chain text); Some (w, None) }
        else do {
          asn_data_length \<leftarrow> v;
          let l = nat length_field_len;
          let start = pos + 3 + l;
          let rest = data_length - 3 - of_nat l;
          let used = consumed + 3 + of_nat l + ucast asn_data_length;
          if tag = TAG_TEXT_LAST \<and> block_chain text = Null then
            Some (w, Some ((m, start, unat asn_data_length), used))
          else if tag = TAG_TEXT_LAST \<or> tag = TAG_TEXT_MORE then do {
            data \<leftarrow> rd_bytes m start (unat asn_data_length);
            (w, text', new) \<leftarrow> block_append w text data;
            case new of
              None \<Rightarrow> do { c_free (block_chain text'); Some (w, None) }
            | Some new_text \<Rightarrow>
                if tag = TAG_TEXT_LAST then
                  Some (w, Some ((new_text, 0, unat (block_length text + ucast asn_data_length)), used))
                else defragment_text w m (start + unat asn_data_length) (rest - ucast asn_data_length)
                       (grown text new_text data) used }
          else do { c_free (block_chain text); Some (w, None) } } })"
  by pat_completeness auto
termination
proof (relation "measure (\<lambda>(w, m, pos, data_length, text, consumed). length m - pos)", goal_cases)
  case (2 w m pos)
  then have "pos < length m" by (auto simp: read_tag_def bind_eq_Some_conv rd_eq_Some_iff)
  with 2 show ?case by simp
qed simp

declare defragment_text.simps [simp del]

definition en50221_app_mmi_defragment_text ::
  "os \<Rightarrow> mem \<Rightarrow> nat \<Rightarrow> u32 \<Rightarrow> (os \<times> ((mem \<times> nat \<times> nat) \<times> u32) option) option" where
  "en50221_app_mmi_defragment_text w m pos data_length = defragment_text w m pos data_length no_block 0"

text \<open>The loop that extracts \<open>k\<close> texts: the texts and what is left of the data.\<close>

primrec menu_texts ::
  "nat \<Rightarrow> os \<Rightarrow> mem \<Rightarrow> nat \<Rightarrow> u32 \<Rightarrow> (os \<times> ((mem \<times> nat \<times> nat) list \<times> nat \<times> u32) option) option" where
  "menu_texts 0 w m pos data_length = Some (w, Some ([], pos, data_length))"
| "menu_texts (Suc k) w m pos data_length =
     do {
       (w, r) \<leftarrow> en50221_app_mmi_defragment_text w m pos data_length;
       case r of
         None \<Rightarrow> Some (w, None)
       | Some (text, consumed) \<Rightarrow> do {
           (w, r) \<leftarrow> menu_texts k w m (pos + unat consumed) (data_length - consumed);
           Some (w, map_option (\<lambda>(texts, rest). (text # texts, rest)) r) } }"

section \<open>Messages of the module\<close>

definition en50221_app_mmi_parse_close ::
  "'a mmi mmi_user \<Rightarrow> nat \<Rightarrow> nat \<Rightarrow> mem \<Rightarrow> 'a mmi \<Rightarrow> ('a mmi \<times> int) option" where
  "en50221_app_mmi_parse_close user s n data mmi =
     (if length data < 2 then Some (mmi, -1)
      else do {
        d0 \<leftarrow> rd data 0;
        if unat d0 > length data - 1 then Some (mmi, -1)
        else do {
          cmd_id \<leftarrow> rd data 1;
          if cmd_id = MMI_CLOSE_MMI_CMD_ID_DELAY \<and> d0 \<noteq> 2 then Some (mmi, -1)
          else do {
            delay \<leftarrow> (if cmd_id = MMI_CLOSE_MMI_CMD_ID_DELAY then rd data 2 else Some 0);
            mmi_tell closecallback (\<lambda>f. close_call user f s n cmd_id delay) mmi } } })"

definition en50221_app_mmi_parse_display_control ::
  "'a mmi mmi_user \<Rightarrow> nat \<Rightarrow> nat \<Rightarrow> mem \<Rightarrow> 'a mmi \<Rightarrow> ('a mmi \<times> int) option" where
  "en50221_app_mmi_parse_display_control user s n data mmi =
     (if length data < 2 then Some (mmi, -1)
      else do {
        d0 \<leftarrow> rd data 0;
        if unat d0 > length data - 1 then Some (mmi, -1)
        else do {
          cmd_id \<leftarrow> rd data 1;
          if cmd_id = MMI_DISPLAY_CONTROL_CMD_ID_SET_MMI_MODE \<and> d0 \<noteq> 2 then Some (mmi, -1)
          else do {
            mode \<leftarrow> (if cmd_id = MMI_DISPLAY_CONTROL_CMD_ID_SET_MMI_MODE then rd data 2 else Some 0);
            mmi_tell displaycontrolcallback (\<lambda>f. display_control_call user f s n cmd_id mode) mmi } } })"

definition en50221_app_mmi_parse_keypad_control ::
  "'a mmi mmi_user \<Rightarrow> nat \<Rightarrow> nat \<Rightarrow> mem \<Rightarrow> 'a mmi \<Rightarrow> ('a mmi \<times> int) option" where
  "en50221_app_mmi_parse_keypad_control user s n data mmi =
     with_body 1 data mmi (\<lambda>l asn_data_length. do {
       cmd_id \<leftarrow> rd data l;
       keycodes \<leftarrow> rd_bytes data (l + 1) (asn_data_length - 1);
       mmi_tell keypadcontrolcallback (\<lambda>f. keypad_control_call user f s n cmd_id keycodes) mmi })"

definition en50221_app_mmi_parse_enq ::
  "'a mmi mmi_user \<Rightarrow> nat \<Rightarrow> nat \<Rightarrow> mem \<Rightarrow> 'a mmi \<Rightarrow> ('a mmi \<times> int) option" where
  "en50221_app_mmi_parse_enq user s n data mmi =
     with_body 2 data mmi (\<lambda>l asn_data_length. do {
       d0 \<leftarrow> rd data l;
       answer_length \<leftarrow> rd data (l + 1);
       text \<leftarrow> rd_bytes data (l + 2) (asn_data_length - 2);
       mmi_tell mmi_enqcallback (\<lambda>f. mmi_enq_call user f s n (if d0 AND 1 \<noteq> 0 then 1 else 0) answer_length text) mmi })"

text \<open>The bytes of the texts and the raw items, when a callback looks at them; the first three texts are
  always handed over.\<close>

definition menu_of :: "(mem \<times> nat \<times> nat) list \<Rightarrow> bool \<Rightarrow> mem \<times> nat \<times> nat \<Rightarrow> mmi_menu option" where
  "menu_of texts with_raw raw =
     do {
       bytes \<leftarrow> those (map (\<lambda>(m, pos, len). rd_bytes m pos len) texts);
       items_raw \<leftarrow> (if with_raw then (case raw of (m, pos, len) \<Rightarrow> rd_bytes m pos len) else Some []);
       case bytes of
         title # sub_title # bottom # items \<Rightarrow> Some \<lparr>menu_title = title, menu_sub_title = sub_title, menu_bottom = bottom,
           menu_items = items, menu_items_raw = items_raw\<rparr>
       | _ \<Rightarrow> None }"

text \<open>\<open>en50221_app_mmi_parse_list_menu\<close> once the data are complete: \<open>len\<close> bytes from \<open>pos\<close> in \<open>obj\<close>, with the
  lock taken.\<close>

definition show_menu ::
  "'a mmi mmi_user \<Rightarrow> nat \<Rightarrow> nat \<Rightarrow> u32 \<Rightarrow> mem \<Rightarrow> nat \<Rightarrow> nat \<Rightarrow> 'a mmi \<Rightarrow> ('a mmi \<times> int) option" where
  "show_menu user s n tag_id obj pos len mmi =
     (if len < 1 then Some (mmi_unlock mmi, -1)
      else do {
        choice_nb \<leftarrow> rd obj pos;
        let text_count = (if choice_nb = 0xff then 3 else unat (choice_nb + 3));
        (w, r) \<leftarrow> menu_texts text_count (mmi_os mmi) obj (pos + 1) (of_nat (len - 1));
        let mmi = mmi_unlock (mmi\<lparr>mmi_os := w\<rparr>);
        case r of
          None \<Rightarrow> Some (mmi, -1)
        | Some (texts, pos, rest) \<Rightarrow>
            let call = (\<lambda>call f mmi. do { menu \<leftarrow> menu_of texts (choice_nb = 0xff) (obj, pos, unat rest); call f s n menu mmi })
            in if tag_id = TAG_MENU_LAST then callback (call (menu_call user)) (menucallback mmi) mmi
               else if tag_id = TAG_LIST_LAST then callback (call (list_call user)) (listcallback mmi) mmi
               else Some (mmi, 0) })"

definition en50221_app_mmi_parse_list_menu ::
  "'a mmi mmi_user \<Rightarrow> nat \<Rightarrow> nat \<Rightarrow> u32 \<Rightarrow> bool \<Rightarrow> mem \<Rightarrow> 'a mmi \<Rightarrow> ('a mmi \<times> int) option" where
  "en50221_app_mmi_parse_list_menu user s n tag_id more_last data mmi =
     with_body 0 data mmi (\<lambda>l asn_data_length. do {
       mmi \<leftarrow> mmi_lock mmi;
       (mmi, dfstatus, (obj, pos, len)) \<leftarrow> en50221_app_mmi_defragment mmi n tag_id more_last data l asn_data_length;
       if dfstatus \<le> 0 then Some (mmi_unlock mmi, dfstatus)
       else show_menu user s n tag_id obj pos len mmi })"

definition en50221_app_mmi_parse_subtitle ::
  "'a mmi mmi_user \<Rightarrow> nat \<Rightarrow> nat \<Rightarrow> u32 \<Rightarrow> bool \<Rightarrow> mem \<Rightarrow> 'a mmi \<Rightarrow> ('a mmi \<times> int) option" where
  "en50221_app_mmi_parse_subtitle user s n tag_id more_last data mmi =
     with_body 0 data mmi (\<lambda>l asn_data_length. do {
       mmi \<leftarrow> mmi_lock mmi;
       (mmi, dfstatus, (obj, pos, len)) \<leftarrow> en50221_app_mmi_defragment mmi n tag_id more_last data l asn_data_length;
       if dfstatus \<le> 0 then Some (mmi_unlock mmi, dfstatus)
       else do {
         bytes \<leftarrow> rd_bytes obj pos len;
         if tag_id = TAG_SUBTITLE_SEGMENT_LAST then
           callback (\<lambda>f. subtitle_segment_call user f s n bytes) (subtitlesegmentcallback mmi) (mmi_unlock mmi)
         else if tag_id = TAG_SUBTITLE_DOWNLOAD_LAST then
           callback (\<lambda>f. subtitle_download_call user f s n bytes) (subtitledownloadcallback mmi) (mmi_unlock mmi)
         else Some (mmi, 0) } })"

definition flag :: "u8 \<Rightarrow> u8 \<Rightarrow> u8" where
  "flag flags b = (if flags AND b \<noteq> 0 then 1 else 0)"

definition en50221_app_mmi_parse_scene_end_mark ::
  "'a mmi mmi_user \<Rightarrow> nat \<Rightarrow> nat \<Rightarrow> mem \<Rightarrow> 'a mmi \<Rightarrow> ('a mmi \<times> int) option" where
  "en50221_app_mmi_parse_scene_end_mark user s n data mmi =
     (if length data \<noteq> 2 then Some (mmi, -1)
      else do {
        d0 \<leftarrow> rd data 0;
        if d0 \<noteq> 1 then Some (mmi, -1)
        else do {
          flags \<leftarrow> rd data 1;
          mmi_tell sceneendmarkcallback (\<lambda>f. scene_end_mark_call user f s n (flag flags 0x80) (flag flags 0x40)
            (flag flags 0x20) (flags AND 0x0f)) mmi } })"

definition en50221_app_mmi_parse_scene_control ::
  "'a mmi mmi_user \<Rightarrow> nat \<Rightarrow> nat \<Rightarrow> mem \<Rightarrow> 'a mmi \<Rightarrow> ('a mmi \<times> int) option" where
  "en50221_app_mmi_parse_scene_control user s n data mmi =
     (if length data \<noteq> 2 then Some (mmi, -1)
      else do {
        d0 \<leftarrow> rd data 0;
        if d0 \<noteq> 1 then Some (mmi, -1)
        else do {
          flags \<leftarrow> rd data 1;
          mmi_tell scenecontrolcallback (\<lambda>f. scene_control_call user f s n (flag flags 0x80) (flag flags 0x40) (flags AND 0x0f)) mmi } })"

definition en50221_app_mmi_parse_flush_download ::
  "'a mmi mmi_user \<Rightarrow> nat \<Rightarrow> nat \<Rightarrow> mem \<Rightarrow> 'a mmi \<Rightarrow> ('a mmi \<times> int) option" where
  "en50221_app_mmi_parse_flush_download user s n data mmi =
     (if length data \<noteq> 1 then Some (mmi, -1)
      else do {
        d0 \<leftarrow> rd data 0;
        if d0 \<noteq> 0 then Some (mmi, -1)
        else mmi_tell flushdownloadcallback (\<lambda>f. flush_download_call user f s n) mmi })"

definition en50221_app_mmi_message ::
  "'a mmi mmi_user \<Rightarrow> nat \<Rightarrow> nat \<Rightarrow> mem \<Rightarrow> 'a mmi \<Rightarrow> ('a mmi \<times> int) option" where
  "en50221_app_mmi_message user s n data mmi =
     on_tag data mmi (\<lambda>tag data.
       if tag = TAG_CLOSE_MMI then en50221_app_mmi_parse_close user s n data mmi
       else if tag = TAG_DISPLAY_CONTROL then en50221_app_mmi_parse_display_control user s n data mmi
       else if tag = TAG_KEYPAD_CONTROL then en50221_app_mmi_parse_keypad_control user s n data mmi
       else if tag = TAG_ENQUIRY then en50221_app_mmi_parse_enq user s n data mmi
       else if tag = TAG_MENU_LAST \<or> tag = TAG_LIST_LAST then en50221_app_mmi_parse_list_menu user s n tag True data mmi
       else if tag = TAG_MENU_MORE \<or> tag = TAG_LIST_MORE then en50221_app_mmi_parse_list_menu user s n tag False data mmi
       else if tag = TAG_SUBTITLE_SEGMENT_LAST \<or> tag = TAG_SUBTITLE_DOWNLOAD_LAST then
         en50221_app_mmi_parse_subtitle user s n tag True data mmi
       else if tag = TAG_SUBTITLE_SEGMENT_MORE \<or> tag = TAG_SUBTITLE_DOWNLOAD_MORE then
         en50221_app_mmi_parse_subtitle user s n tag False data mmi
       else if tag = TAG_SCENE_END_MARK then en50221_app_mmi_parse_scene_end_mark user s n data mmi
       else if tag = TAG_SCENE_CONTROL then en50221_app_mmi_parse_scene_control user s n data mmi
       else if tag = TAG_FLUSH_DOWNLOAD then en50221_app_mmi_parse_flush_download user s n data mmi
       else Some (mmi, -1))"

end
