(* ===== verification/En50221_Mmi_Props.thy ===== *)
theory En50221_Mmi_Props
  imports En50221_Mmi En50221_Transport_Inv
begin

text \<open>
  What the man-machine interface does: texts and menus reach the application as they were sent, however they are
  cut up, and the places where a module, or the application itself, brings it to a fault or to a
  standstill.
\<close>

section \<open>Texts\<close>

text \<open>A text in fragments.\<close>

definition text_bytes :: "u8 list list \<times> u8 list \<Rightarrow> u8 list" where
  "text_bytes t = concat (map (apdu TAG_TEXT_MORE) (fst t)) @ apdu TAG_TEXT_LAST (snd t)"

definition text_of :: "u8 list list \<times> u8 list \<Rightarrow> u8 list" where
  "text_of t = concat (fst t) @ snd t"

lemma length_apdu: "length (apdu tag d) = 3 + length (asn_1_bytes (of_nat (length d))) + length d"
  by (simp add: apdu_def)

lemma text_step:
  assumes "m = pre @ apdu tag d @ post" "pos = length pre" "tag < 0x1000000" "length d < 65536"
    and "length (apdu tag d) \<le> unat (dl :: u32)"
  shows "\<not> dl < 3" "read_tag (drop pos m) = Some tag"
    "asn_1_decode m (pos + 3) (unat (dl - 3)) = Some (int (length (asn_1_bytes (of_nat (length d)))), Some (of_nat (length d)))"
    "rd_bytes m (pos + 3 + length (asn_1_bytes (of_nat (length d)))) (length d) = Some d"
proof -
  let ?h = "asn_1_bytes (of_nat (length d))"
  have l: "3 \<le> unat dl" "3 + length ?h \<le> unat dl" using assms(5) by (simp_all add: length_apdu)
  then have "(3 :: u32) \<le> dl" by (simp add: word_le_nat_alt)
  then show "\<not> dl < 3" by simp
  have "unat (dl - 3) = unat dl - 3" using \<open>3 \<le> dl\<close> by (simp add: unat_sub)
  then show "asn_1_decode m (pos + 3) (unat (dl - 3)) = Some (int (length ?h), Some (of_nat (length d)))"
    using asn1.dec_enc [of "pre @ tag_bytes tag" "pos + 3" "of_nat (length d)" "unat dl - 3" "d @ post"] assms(1,2) l
    by (simp add: apdu_def)
  show "read_tag (drop pos m) = Some tag" using assms(1-3) by (simp add: apdu_def tag_roundtrip)
  show "rd_bytes m (pos + 3 + length ?h) (length d) = Some d" using assms(1,2) by (simp add: apdu_def rd_bytes_def)
qed

lemma length_grows: "unat (dl :: u32) = n + k \<Longrightarrow> n + k < 2 ^ 32 \<Longrightarrow> dl - of_nat n = of_nat k"
  by (metis add_diff_cancel_left' of_nat_add of_nat_unat ucast_id)

text \<open>One round of the loop: with the last fragment the text is complete, another fragment is added to the block.\<close>

lemma text_round:
  assumes "m = pre @ apdu tag d @ post" "pos = length pre" "length d < 65536" "length (apdu tag d) \<le> unat dl"
    and "tag = TAG_TEXT_LAST \<or> tag = TAG_TEXT_MORE"
  shows "defragment_text w m pos dl b c =
    (if tag = TAG_TEXT_LAST \<and> block_chain b = Null
     then Some (w, Some ((m, pos + 3 + length (asn_1_bytes (of_nat (length d))), length d), c + of_nat (length (apdu tag d))))
     else do {
       (w, b', new) \<leftarrow> block_append w b d;
       case new of
         None \<Rightarrow> do { c_free (block_chain b'); Some (w, None) }
       | Some new_text \<Rightarrow>
           if tag = TAG_TEXT_LAST then
             Some (w, Some ((new_text, 0, unat (block_length b + of_nat (length d))), c + of_nat (length (apdu tag d))))
           else defragment_text w m (pos + length (apdu tag d)) (dl - of_nat (length (apdu tag d))) (grown b new_text d)
                  (c + of_nat (length (apdu tag d))) })"
proof -
  have t: "tag < 0x1000000" using assms(5) by (auto simp: mmi_tags)
  note s = text_step [OF assms(1,2) t assms(3,4)]
  have u: "unat (of_nat (length d) :: u16) = length d" using assms(3) by (rule unat_of_nat_u16)
  then have uu: "(ucast (of_nat (length d) :: u16) :: u32) = of_nat (length d)" by (metis of_nat_unat)
  have used: "c + 3 + of_nat (length (asn_1_bytes (of_nat (length d)))) + of_nat (length d) = c + of_nat (length (apdu tag d))"
    by (simp add: length_apdu)
  have rest: "dl - 3 - of_nat (length (asn_1_bytes (of_nat (length d)))) - of_nat (length d) = dl - of_nat (length (apdu tag d))"
    by (simp add: length_apdu diff_diff_eq)
  have pos: "pos + 3 + length (asn_1_bytes (of_nat (length d))) + length d = pos + length (apdu tag d)"
    by (simp add: length_apdu)
  show ?thesis
    by (subst defragment_text.simps)
       (simp only: s if_False bind.simps prod.case of_nat_less_0_iff Let_def nat_int u uu used rest pos assms(5) if_True)
qed

lemma text_last:
  assumes "holds b xs" "plenty w" "pos = length pre" "m = pre @ apdu TAG_TEXT_LAST d @ post"
    and "length (apdu TAG_TEXT_LAST d) \<le> unat dl" "length xs + length d < 2 ^ 32" "length d < 65536"
    and "d \<noteq> [] \<or> \<not> realloc0_frees w"
  shows "\<exists>w' obj off len. defragment_text w m pos dl b c = Some (w', Some ((obj, off, len), c + of_nat (length (apdu TAG_TEXT_LAST d))))
    \<and> rd_bytes obj off len = Some (xs @ d) \<and> plenty w' \<and> realloc0_frees w' = realloc0_frees w"
proof (cases "block_chain b = Null")
  case True
  then have "xs = []" using assms(1) by (auto simp: holds_def)
  moreover have "rd_bytes m (pos + 3 + length (asn_1_bytes (of_nat (length d)))) (length d) = Some d"
    using assms(3,4) by (simp add: apdu_def rd_bytes_def)
  ultimately show ?thesis using True assms(2) text_round [OF assms(4,3,7,5), of w b c] by simp
next
  case False
  obtain b' where b': "block_append w b d = Some (os_tick w, b', Some (xs @ d))"
    using block_append_holds [OF assms(1,6) plenty_malloc [OF assms(2)] assms(8)] by blast
  have "unat (block_length b + of_nat (length d)) = length (xs @ d)"
    using length_block [OF _ assms(6)] assms(1) by (auto simp: holds_def)
  then have "rd_bytes (xs @ d) 0 (unat (block_length b + of_nat (length d))) = Some (xs @ d)" by (simp add: rd_bytes_def)
  with False b' assms(2) text_round [OF assms(4,3,7,5), of w b c] show ?thesis by simp
qed

lemma text_more:
  assumes "holds b xs" "plenty w" "pos = length pre" "m = pre @ apdu TAG_TEXT_MORE d @ post"
    and "length (apdu TAG_TEXT_MORE d) \<le> unat dl" "length xs + length d < 2 ^ 32" "length d < 65536"
    and "d \<noteq> [] \<or> \<not> realloc0_frees w"
  shows "\<exists>b'. holds b' (xs @ d) \<and> defragment_text w m pos dl b c =
    defragment_text (os_tick w) m (length (pre @ apdu TAG_TEXT_MORE d)) (dl - of_nat (length (apdu TAG_TEXT_MORE d))) b'
      (c + of_nat (length (apdu TAG_TEXT_MORE d)))"
proof -
  obtain b' where b': "block_append w b d = Some (os_tick w, b', Some (xs @ d))"
    using block_append_holds [OF assms(1,6) plenty_malloc [OF assms(2)] assms(8)] by blast
  have "holds (grown b (xs @ d) d) (xs @ d)"
    using assms(1,6) by (intro holds_grown) (auto simp: holds_def)
  moreover have "TAG_TEXT_MORE \<noteq> TAG_TEXT_LAST" by (simp add: mmi_tags)
  ultimately show ?thesis using b' text_round [OF assms(4,3,7,5), of w b c] assms(3) by auto
qed

lemma defragment_text_sound:
  assumes "holds b xs" "plenty w" "m = pre @ text_bytes (ds, d) @ post"
    and "length (text_bytes (ds, d)) \<le> unat dl" "length xs + length (text_bytes (ds, d)) < 2 ^ 32"
    and "list_all (\<lambda>d. length d < 65536 \<and> (d \<noteq> [] \<or> \<not> realloc0_frees w)) (d # ds)"
  shows "\<exists>w' obj off len. defragment_text w m (length pre) dl b c
      = Some (w', Some ((obj, off, len), c + of_nat (length (text_bytes (ds, d)))))
    \<and> rd_bytes obj off len = Some (xs @ text_of (ds, d)) \<and> plenty w' \<and> realloc0_frees w' = realloc0_frees w"
  using assms
proof (induction ds arbitrary: w b xs pre dl c)
  case Nil
  then have len: "length xs + length d < 2 ^ 32" by (simp add: text_bytes_def length_apdu)
  have one: "text_bytes ([], d) = apdu TAG_TEXT_LAST d" "text_of ([], d) = d" by (simp_all add: text_bytes_def text_of_def)
  have d: "length d < 65536" "d \<noteq> [] \<or> \<not> realloc0_frees w" using Nil.prems(6) by simp_all
  show ?case unfolding one
    by (rule text_last [OF Nil.prems(1,2) refl Nil.prems(3) [unfolded one] Nil.prems(4) [unfolded one] len d])
next
  case (Cons e ds)
  let ?t = "text_bytes (ds, d)" and ?e = "apdu TAG_TEXT_MORE e"
  have tb: "text_bytes (e # ds, d) = ?e @ ?t" by (simp add: text_bytes_def)
  have m: "m = pre @ ?e @ ?t @ post" using Cons.prems(3) tb by simp
  have len: "length xs + length e < 2 ^ 32" using Cons.prems(5) by (simp add: tb length_apdu)
  have e: "length ?e \<le> unat dl" "length e < 65536" "e \<noteq> [] \<or> \<not> realloc0_frees w"
    using Cons.prems(4,6) tb by simp_all
  obtain b' where b': "holds b' (xs @ e)" "defragment_text w m (length pre) dl b c =
      defragment_text (os_tick w) m (length (pre @ ?e)) (dl - of_nat (length ?e)) b' (c + of_nat (length ?e))"
    using text_more [OF Cons.prems(1,2) refl m e(1) len e(2,3), of c] by blast
  define k where "k = unat dl - length ?e"
  have k: "unat dl = length ?e + k" "length ?t \<le> k" using Cons.prems(4) e(1) unfolding k_def tb length_append by linarith+
  have "unat dl < 2 ^ 32" using unsigned_less [of dl] by simp
  then have dl': "dl - of_nat (length ?e) = of_nat k" "unat (of_nat k :: u32) = k"
    using length_grows [OF k(1)] k(1) by (simp_all add: unsigned_of_nat take_bit_nat_eq_self)
  have "\<exists>w' obj off len. defragment_text (os_tick w) m (length (pre @ ?e)) (of_nat k) b' (c + of_nat (length ?e))
      = Some (w', Some ((obj, off, len), (c + of_nat (length ?e)) + of_nat (length ?t)))
    \<and> rd_bytes obj off len = Some ((xs @ e) @ text_of (ds, d)) \<and> plenty w' \<and> realloc0_frees w' = realloc0_frees (os_tick w)"
  proof (rule Cons.IH)
    show "m = (pre @ ?e) @ ?t @ post" using m by simp
    show "length (xs @ e) + length ?t < 2 ^ 32" using Cons.prems(5) by (simp add: tb length_apdu)
    show "length ?t \<le> unat (of_nat k :: u32)" unfolding dl'(2) by (rule k(2))
    show "list_all (\<lambda>d. length d < 65536 \<and> (d \<noteq> [] \<or> \<not> realloc0_frees (os_tick w))) (d # ds)" using Cons.prems(6) by simp
  qed (use Cons.prems(2) b'(1) in simp_all)
  moreover have "c + of_nat (length ?e) + of_nat (length ?t) = c + of_nat (length (text_bytes (e # ds, d)))"
    "(xs @ e) @ text_of (ds, d) = xs @ text_of (e # ds, d)" by (simp_all add: tb text_of_def)
  ultimately show ?case unfolding b'(2) dl'(1) by (simp only: plenty_tick)
qed

section \<open>Menus\<close>

definition text_ok :: "os \<Rightarrow> u8 list list \<times> u8 list \<Rightarrow> bool" where
  "text_ok w t \<longleftrightarrow> list_all (\<lambda>d. length d < 65536 \<and> (d \<noteq> [] \<or> \<not> realloc0_frees w)) (snd t # fst t)"

lemma text_ok_cong: "realloc0_frees w' = realloc0_frees w \<Longrightarrow> text_ok w' = text_ok w"
  by (simp add: text_ok_def fun_eq_iff)

lemma menu_texts_sound:
  assumes "plenty w" "m = pre @ concat (map text_bytes ts) @ post" "length (concat (map text_bytes ts)) + k = unat dl"
    and "list_all (text_ok w) ts"
  shows "\<exists>w' texts. menu_texts (length ts) w m (length pre) dl
      = Some (w', Some (texts, length pre + length (concat (map text_bytes ts)), of_nat k))
    \<and> map (\<lambda>(m, pos, len). rd_bytes m pos len) texts = map (Some \<circ> text_of) ts
    \<and> plenty w' \<and> realloc0_frees w' = realloc0_frees w"
  using assms
proof (induction ts arbitrary: w pre dl)
  case Nil
  then have "k = unat dl" by simp
  then have "of_nat k = dl" by simp
  with Nil show ?case by simp
next
  case (Cons t ts)
  let ?t = "text_bytes t" and ?r = "concat (map text_bytes ts)"
  have dlt: "unat dl < 2 ^ 32" using unsigned_less [of dl] by simp
  obtain w1 obj off len where w1: "defragment_text w m (length pre) dl no_block 0
      = Some (w1, Some ((obj, off, len), of_nat (length ?t)))"
    "rd_bytes obj off len = Some (text_of t)" "plenty w1" "realloc0_frees w1 = realloc0_frees w"
    using defragment_text_sound [OF holds_no_block Cons.prems(1), of m pre "fst t" "snd t" "?r @ post" dl 0] Cons.prems dlt
    by (auto simp: text_ok_def)
  have k: "unat dl = length ?t + (length ?r + k)" using Cons.prems(3) by simp
  then have dl': "dl - of_nat (length ?t) = of_nat (length ?r + k)" "unat (of_nat (length ?r + k) :: u32) = length ?r + k"
    "unat (of_nat (length ?t) :: u32) = length ?t"
    using length_grows [OF k] dlt by (simp_all add: unsigned_of_nat take_bit_nat_eq_self del: of_nat_add)
  have "\<exists>w' texts. menu_texts (length ts) w1 m (length (pre @ ?t)) (of_nat (length ?r + k))
      = Some (w', Some (texts, length (pre @ ?t) + length ?r, of_nat k))
    \<and> map (\<lambda>(m, pos, len). rd_bytes m pos len) texts = map (Some \<circ> text_of) ts
    \<and> plenty w' \<and> realloc0_frees w' = realloc0_frees w1"
    by (rule Cons.IH) (use Cons.prems w1(3,4) dl'(2) in \<open>simp_all add: text_ok_cong [OF w1(4)] del: of_nat_add\<close>)
  then show ?case
    using w1 dl'(1,3) by (auto simp: en50221_app_mmi_defragment_text_def add.assoc simp del: of_nat_add)
qed

text \<open>The menu that is sent as a number of choices and one text after another.\<close>

definition menu_bytes :: "(u8 list list \<times> u8 list) list \<Rightarrow> u8 list" where
  "menu_bytes ts = of_nat (length ts - 3) # concat (map text_bytes ts)"

definition the_menu :: "(u8 list list \<times> u8 list) list \<Rightarrow> mmi_menu" where
  "the_menu ts = \<lparr>menu_title = text_of (ts ! 0), menu_sub_title = text_of (ts ! 1), menu_bottom = text_of (ts ! 2),
     menu_items = map text_of (drop 3 ts), menu_items_raw = []\<rparr>"

lemma those_texts: "those (map (Some \<circ> f) xs) = Some (map f xs)"
  by (induction xs) simp_all

lemma menu_of_texts:
  assumes "map (\<lambda>(m, pos, len). rd_bytes m pos len) texts = map (Some \<circ> text_of) ts" "3 \<le> length ts"
  shows "menu_of texts False raw = Some (the_menu ts)"
proof -
  obtain a b c ts' where "ts = a # b # c # ts'"
    using assms(2) by (cases ts; cases "List.tl ts"; cases "List.tl (List.tl ts)") auto
  then show ?thesis by (simp add: menu_of_def assms(1) those_texts the_menu_def)
qed

definition menu_ok :: "os \<Rightarrow> (u8 list list \<times> u8 list) list \<Rightarrow> bool" where
  "menu_ok w ts \<longleftrightarrow> 3 \<le> length ts \<and> length ts < 256 \<and> list_all (text_ok w) ts \<and> length (menu_bytes ts) < 2 ^ 32"

lemma choice_count:
  assumes "3 \<le> k" "k < 256"
  shows "(of_nat (k - 3) :: u8) \<noteq> 0xff" "unat (of_nat (k - 3) + 3 :: u8) = k"
proof -
  have u: "unat (of_nat (k - 3) :: u8) = k - 3" using assms by (intro unat_of_nat_u8) simp
  then show "(of_nat (k - 3) :: u8) \<noteq> 0xff" using assms by auto
  have "of_nat (k - 3) + 3 = (of_nat k :: u8)" using assms(1) by (simp add: of_nat_diff)
  then show "unat (of_nat (k - 3) + 3 :: u8) = k" using assms(2) by (simp add: unat_of_nat_u8)
qed

lemma show_menu_sound:
  assumes "plenty (mmi_os mmi)" "menu_ok (mmi_os mmi) ts" "obj = pre @ menu_bytes ts @ post"
  shows "\<exists>w. show_menu user s n TAG_MENU_LAST obj (length pre) (length (menu_bytes ts)) mmi
    = callback (\<lambda>f. menu_call user f s n (the_menu ts)) (menucallback mmi) (mmi\<lparr>mmi_os := w, mmi_locked := False\<rparr>)"
proof -
  let ?c = "of_nat (length ts - 3) :: u8" and ?b = "concat (map text_bytes ts)"
  have ts: "3 \<le> length ts" "length ts < 256" "list_all (text_ok (mmi_os mmi)) ts" "length ?b + 1 < 2 ^ 32"
    using assms(2) by (simp_all add: menu_ok_def menu_bytes_def)
  have c: "rd obj (length pre) = Some ?c" using assms(3) by (simp add: menu_bytes_def)
  have u: "length ?b + 0 = unat (of_nat (length ?b) :: u32)" using ts(4) by (simp add: unsigned_of_nat take_bit_nat_eq_self)
  obtain w texts where w: "menu_texts (length ts) (mmi_os mmi) obj (length (pre @ [?c])) (of_nat (length ?b))
      = Some (w, Some (texts, length (pre @ [?c]) + length ?b, of_nat 0))"
    "map (\<lambda>(m, pos, len). rd_bytes m pos len) texts = map (Some \<circ> text_of) ts"
    using menu_texts_sound [OF assms(1) _ u ts(3), of obj "pre @ [?c]" post] assms(3) by (auto simp: menu_bytes_def)
  have "length (menu_bytes ts) = Suc (length ?b)" by (simp add: menu_bytes_def)
  with w(1) c choice_count [OF ts(1,2)] menu_of_texts [OF w(2) ts(1)]
  have "show_menu user s n TAG_MENU_LAST obj (length pre) (length (menu_bytes ts)) mmi
    = callback (\<lambda>f. menu_call user f s n (the_menu ts)) (menucallback mmi) (mmi\<lparr>mmi_os := w, mmi_locked := False\<rparr>)"
    by (simp add: show_menu_def Let_def mmi_unlock_def)
  then show ?thesis ..
qed

section \<open>Fragments of messages\<close>

datatype chain_kind = Menus | Lists | Segments | Downloads

fun last_tag :: "chain_kind \<Rightarrow> u32" where
  "last_tag Menus = TAG_MENU_LAST" | "last_tag Lists = TAG_LIST_LAST"
| "last_tag Segments = TAG_SUBTITLE_SEGMENT_LAST" | "last_tag Downloads = TAG_SUBTITLE_DOWNLOAD_LAST"

fun more_tag :: "chain_kind \<Rightarrow> u32" where
  "more_tag Menus = TAG_MENU_MORE" | "more_tag Lists = TAG_LIST_MORE"
| "more_tag Segments = TAG_SUBTITLE_SEGMENT_MORE" | "more_tag Downloads = TAG_SUBTITLE_DOWNLOAD_MORE"

fun kind_block :: "chain_kind \<Rightarrow> en50221_app_mmi_session \<Rightarrow> block" where
  "kind_block Menus x = menu_block x" | "kind_block Lists x = list_block x"
| "kind_block Segments x = subtitlesegment_block x" | "kind_block Downloads x = subtitledownload_block x"

lemma kind_tags [simp]:
  "tag_block (last_tag k) x = Some (kind_block k x)" "tag_block (more_tag k) x = Some (kind_block k x)"
  "kind_block k (put_block (last_tag k) b x) = b" "kind_block k (put_block (more_tag k) b x) = b"
  "mmi_session_number (put_block tag b x) = mmi_session_number x"
  "last_tag k < 0x1000000" "more_tag k < 0x1000000"
  by (cases k; simp add: tag_block_def put_block_def mmi_tags)+

text \<open>Session \<open>n\<close> exists and has collected the bytes \<open>xs\<close>.\<close>

definition collected :: "chain_kind \<Rightarrow> nat \<Rightarrow> 'a mmi \<Rightarrow> u8 list \<Rightarrow> bool" where
  "collected k n mmi xs \<longleftrightarrow> \<not> mmi_locked mmi \<and> plenty (mmi_os mmi) \<and>
     (\<exists>i. first_index (\<lambda>x. mmi_session_number x = n) (mmi_sessions mmi) 0 = Some i \<and> i < length (mmi_sessions mmi)
        \<and> holds (kind_block k (mmi_sessions mmi ! i)) xs)"

definition mmi_same :: "'a mmi \<Rightarrow> 'a mmi \<Rightarrow> bool" where
  "mmi_same mmi mmi' \<longleftrightarrow> (\<exists>w ss. realloc0_frees w = realloc0_frees (mmi_os mmi) \<and> mmi' = mmi\<lparr>mmi_os := w, mmi_sessions := ss\<rparr>)"

definition fragment :: "u8 list \<Rightarrow> bool" where
  "fragment d \<longleftrightarrow> d \<noteq> [] \<and> length d < 65536"

definition kind_more :: "'a mmi mmi_user \<Rightarrow> nat \<Rightarrow> nat \<Rightarrow> chain_kind \<Rightarrow> u8 list \<Rightarrow> 'a mmi \<Rightarrow> 'a mmi option" where
  "kind_more user s n k d mmi =
     (case en50221_app_mmi_message user s n (apdu (more_tag k) d) mmi of Some (mmi, r) \<Rightarrow> if r = 0 then Some mmi else None | None \<Rightarrow> None)"

definition kind_deliver :: "'a mmi mmi_user \<Rightarrow> nat \<Rightarrow> nat \<Rightarrow> chain_kind \<Rightarrow> u8 list \<Rightarrow> 'a mmi \<Rightarrow> ('a mmi \<times> int) option" where
  "kind_deliver user s n k xs mmi =
     (case k of
        Segments \<Rightarrow> callback (\<lambda>f. subtitle_segment_call user f s n xs) (subtitlesegmentcallback mmi) mmi
      | Downloads \<Rightarrow> callback (\<lambda>f. subtitle_download_call user f s n xs) (subtitledownloadcallback mmi) mmi
      | _ \<Rightarrow> show_menu user s n (last_tag k) xs 0 (length xs) (mmi\<lparr>mmi_locked := True\<rparr>))"

text \<open>The handler of the message for each kind.\<close>

definition kind_parse :: "'a mmi mmi_user \<Rightarrow> nat \<Rightarrow> nat \<Rightarrow> chain_kind \<Rightarrow> u32 \<Rightarrow> bool \<Rightarrow> mem \<Rightarrow> 'a mmi \<Rightarrow> ('a mmi \<times> int) option" where
  "kind_parse user s n k tag final data mmi =
     (if k = Menus \<or> k = Lists then en50221_app_mmi_parse_list_menu user s n tag final data mmi
      else en50221_app_mmi_parse_subtitle user s n tag final data mmi)"

lemma message_kind:
  "en50221_app_mmi_message user s n (apdu (more_tag k) d) mmi
     = kind_parse user s n k (more_tag k) False (asn_1_bytes (of_nat (length d)) @ d) mmi"
  "en50221_app_mmi_message user s n (apdu (last_tag k) d) mmi
     = kind_parse user s n k (last_tag k) True (asn_1_bytes (of_nat (length d)) @ d) mmi"
  unfolding en50221_app_mmi_message_def kind_parse_def
  by (subst on_tag_apdu, simp, cases k; simp add: mmi_tags)+

text \<open>The step of the block chain: session \<open>i\<close> gets the block \<open>b\<close>.\<close>

abbreviation put_session :: "'a mmi \<Rightarrow> os \<Rightarrow> nat \<Rightarrow> u32 \<Rightarrow> block \<Rightarrow> 'a mmi" where
  "put_session mmi w i tag b \<equiv> mmi\<lparr>mmi_os := w, mmi_sessions := (mmi_sessions mmi)[i := put_block tag b (mmi_sessions mmi ! i)]\<rparr>"

lemma first_index_put:
  "first_index (\<lambda>x. mmi_session_number x = n) (xs[i := put_block tag b (xs ! i)]) j
     = first_index (\<lambda>x. mmi_session_number x = n) xs j"
proof (cases "i < length xs")
  case True
  have "map mmi_session_number (xs[i := put_block tag b (xs ! i)]) = map mmi_session_number xs"
    using True by (simp add: map_update) (metis list_update_id nth_map)
  moreover have "first_index (\<lambda>x. mmi_session_number x = n) ys j = first_index (\<lambda>k. k = n) (map mmi_session_number ys) j" for ys j
    by (induction ys arbitrary: j) simp_all
  ultimately show ?thesis by metis
qed (simp add: list_update_beyond not_less)

lemma collected_put:
  assumes "first_index (\<lambda>x. mmi_session_number x = n) (mmi_sessions mmi) 0 = Some i" "i < length (mmi_sessions mmi)"
    and "\<not> mmi_locked mmi" "plenty w" "holds b ys" "tag = last_tag k \<or> tag = more_tag k"
  shows "collected k n (put_session mmi w i tag b) ys"
  using assms by (auto simp: collected_def first_index_put)

lemma mmi_same_put: "realloc0_frees w = realloc0_frees (mmi_os mmi) \<Longrightarrow> mmi_same mmi (put_session mmi w i tag b)"
  by (auto simp: mmi_same_def)

lemma relock: "\<not> mmi_locked mmi \<Longrightarrow> mmi_lock mmi = Some (mmi\<lparr>mmi_locked := True\<rparr>)"
  by (simp add: mmi_lock_def)

lemma stay_unlocked: "\<not> mmi_locked mmi \<Longrightarrow> mmi\<lparr>mmi_locked := False\<rparr> = mmi"
  by (cases mmi) simp

lemma kind_more_step:
  assumes "collected k n mmi xs" "fragment d" "length xs + length d < 2 ^ 32"
  shows "\<exists>mmi'. kind_more user s n k d mmi = Some mmi' \<and> collected k n mmi' (xs @ d) \<and> mmi_same mmi mmi'"
proof -
  let ?h = "asn_1_bytes (of_nat (length d))"
  from assms(1) obtain i where i: "first_index (\<lambda>x. mmi_session_number x = n) (mmi_sessions mmi) 0 = Some i"
      "i < length (mmi_sessions mmi)" "holds (kind_block k (mmi_sessions mmi ! i)) xs"
    and m: "\<not> mmi_locked mmi" "plenty (mmi_os mmi)" by (auto simp: collected_def)
  let ?b = "kind_block k (mmi_sessions mmi ! i)"
  obtain b' where b': "block_append (mmi_os mmi) ?b d = Some (os_tick (mmi_os mmi), b', Some (xs @ d))"
    using block_append_holds [OF i(3) assms(3) plenty_malloc [OF m(2)]] assms(2) by (auto simp: fragment_def)
  let ?m = "put_session mmi (os_tick (mmi_os mmi)) i (more_tag k) (grown ?b (xs @ d) d)"
  have d: "rd_bytes (?h @ d) (length ?h) (length d) = Some d" by (simp add: rd_bytes_def)
  have "en50221_app_mmi_defragment (mmi\<lparr>mmi_locked := True\<rparr>) n (more_tag k) False (?h @ d) (length ?h) (length d)
      = Some (?m\<lparr>mmi_locked := True\<rparr>, 0, ([], 0, 0))"
    using i(1) b' d by (simp add: en50221_app_mmi_defragment_def ensure_session_def Let_def)
  then have "kind_parse user s n k (more_tag k) False (?h @ d) mmi = Some (?m, 0)"
    using assms(2) m(1)
    by (simp add: kind_parse_def en50221_app_mmi_parse_list_menu_def en50221_app_mmi_parse_subtitle_def fragment_def
        with_body_bytes relock mmi_unlock_def stay_unlocked)
  then have "kind_more user s n k d mmi = Some ?m" by (simp add: kind_more_def message_kind)
  moreover have "holds (grown ?b (xs @ d) d) (xs @ d)"
    using i(3) assms(3) by (intro holds_grown) (auto simp: holds_def)
  then have "collected k n ?m (xs @ d)" using m by (intro collected_put i) simp_all
  ultimately show ?thesis by (auto intro!: mmi_same_put)
qed

lemma kind_last_step:
  assumes "collected k n mmi xs" "fragment d" "length xs + length d < 2 ^ 32"
  shows "\<exists>mmi'. en50221_app_mmi_message user s n (apdu (last_tag k) d) mmi = kind_deliver user s n k (xs @ d) mmi'
    \<and> collected k n mmi' [] \<and> mmi_same mmi mmi'"
proof -
  let ?h = "asn_1_bytes (of_nat (length d))"
  from assms(1) obtain i where i: "first_index (\<lambda>x. mmi_session_number x = n) (mmi_sessions mmi) 0 = Some i"
      "i < length (mmi_sessions mmi)" "holds (kind_block k (mmi_sessions mmi ! i)) xs"
    and m: "\<not> mmi_locked mmi" "plenty (mmi_os mmi)" by (auto simp: collected_def)
  let ?b = "kind_block k (mmi_sessions mmi ! i)"
  obtain b' where b': "block_append (mmi_os mmi) ?b d = Some (os_tick (mmi_os mmi), b', Some (xs @ d))"
    using block_append_holds [OF i(3) assms(3) plenty_malloc [OF m(2)]] assms(2) by (auto simp: fragment_def)
  let ?m = "put_session mmi (os_tick (mmi_os mmi)) i (last_tag k) no_block"
  have d: "rd_bytes (?h @ d) (length ?h) (length d) = Some d" by (simp add: rd_bytes_def)
  have l: "unat (block_length ?b + of_nat (length d)) = length (xs @ d)"
    using length_block [OF _ assms(3)] i(3) by (auto simp: holds_def)
  have "en50221_app_mmi_defragment (mmi\<lparr>mmi_locked := True\<rparr>) n (last_tag k) True (?h @ d) (length ?h) (length d)
      = Some (?m\<lparr>mmi_locked := True\<rparr>, 2, (xs @ d, 0, length (xs @ d)))"
    using i(1) b' d l by (simp add: en50221_app_mmi_defragment_def Let_def)
  moreover have "rd_bytes (xs @ d) 0 (length (xs @ d)) = Some (xs @ d)" by (simp add: rd_bytes_def)
  ultimately have "kind_parse user s n k (last_tag k) True (?h @ d) mmi = kind_deliver user s n k (xs @ d) ?m"
    using assms(2) m(1)
    by (cases k; simp add: kind_parse_def en50221_app_mmi_parse_list_menu_def en50221_app_mmi_parse_subtitle_def fragment_def
        with_body_bytes relock mmi_unlock_def stay_unlocked kind_deliver_def mmi_tags)
  moreover have "collected k n ?m []" using m holds_no_block by (intro collected_put i) simp_all
  ultimately show ?thesis by (intro exI [of _ ?m] conjI mmi_same_put) (simp_all add: message_kind)
qed

interpretation chains: reassembly "collected k n" fragment "2 ^ 32" "kind_more user s n k"
    "\<lambda>d. en50221_app_mmi_message user s n (apdu (last_tag k) d)" "kind_deliver user s n k" mmi_same
  for k n s and user :: "'a mmi mmi_user"
proof
  show "mmi_same x x" for x :: "'a mmi" by (rule exI [of _ "mmi_os x", THEN mmi_same_def [THEN iffD2]]) (intro exI [of _ "mmi_sessions x"], simp)
  show "mmi_same x y \<Longrightarrow> mmi_same y z \<Longrightarrow> mmi_same x z" for x y z :: "'a mmi"
    unfolding mmi_same_def by (elim exE conjE, hypsubst) (simp, blast)
qed (auto intro: kind_more_step kind_last_step)

abbreviation unknown_session :: "nat \<Rightarrow> 'a mmi \<Rightarrow> bool" where
  "unknown_session n mmi \<equiv> first_index (\<lambda>x. mmi_session_number x = n) (mmi_sessions mmi) 0 = None"

text \<open>The first fragment creates the session.\<close>

lemma kind_more_first:
  assumes "\<not> mmi_locked mmi" "plenty (mmi_os mmi)" "unknown_session n mmi" "fragment d"
  shows "\<exists>mmi'. kind_more user s n k d mmi = Some mmi' \<and> collected k n mmi' d \<and> mmi_same mmi mmi'"
proof -
  let ?w = "os_tick (mmi_os mmi)"
  let ?m = "mmi\<lparr>mmi_os := ?w, mmi_sessions := new_mmi_session n # mmi_sessions mmi\<rparr>"
  have e: "ensure_session (mmi\<lparr>mmi_locked := True\<rparr>) n = (?m\<lparr>mmi_locked := True\<rparr>, Some 0)"
    using assms(2,3) by (simp add: ensure_session_def malloc_def plenty_malloc)
  have "collected k n ?m []"
    using assms(1,2) by (cases k) (simp_all add: collected_def new_mmi_session_def holds_no_block)
  then obtain mmi' where m: "kind_more user s n k d ?m = Some mmi'" "collected k n mmi' ([] @ d)" "mmi_same ?m mmi'"
    using kind_more_step [of k n ?m "[]" d user s] assms(4) by (auto simp: fragment_def)
  have "ensure_session (?m\<lparr>mmi_locked := True\<rparr>) n = (?m\<lparr>mmi_locked := True\<rparr>, Some 0)"
    by (simp add: ensure_session_def new_mmi_session_def)
  with e have d: "en50221_app_mmi_defragment (mmi\<lparr>mmi_locked := True\<rparr>) n (more_tag k) False data l len
      = en50221_app_mmi_defragment (?m\<lparr>mmi_locked := True\<rparr>) n (more_tag k) False data l len" for data l len
    by (simp add: en50221_app_mmi_defragment_def)
  have "kind_more user s n k d mmi = kind_more user s n k d ?m"
    using assms(1,4) d by (simp add: kind_more_def message_kind kind_parse_def en50221_app_mmi_parse_list_menu_def
        en50221_app_mmi_parse_subtitle_def fragment_def with_body_bytes relock)
  moreover have "mmi_same mmi ?m"
    unfolding mmi_same_def by (intro exI [of _ ?w] exI [of _ "new_mmi_session n # mmi_sessions mmi"] conjI) simp_all
  then have "mmi_same mmi mmi'" using m(3) by (rule chains.same_trans)
  ultimately show ?thesis using m(1,2) by (intro exI [of _ mmi'] conjI) simp_all
qed

lemma message_whole:
  assumes "\<not> mmi_locked mmi" "unknown_session n mmi" "length d < 65536" "h = asn_1_bytes (of_nat (length d))"
  shows "en50221_app_mmi_message user s n (apdu TAG_MENU_LAST d) mmi
    = show_menu user s n TAG_MENU_LAST (h @ d) (length h) (length d) (mmi\<lparr>mmi_locked := True\<rparr>)"
proof -
  let ?m = "mmi\<lparr>mmi_locked := True\<rparr>"
  have "en50221_app_mmi_defragment ?m n TAG_MENU_LAST True (h @ d) (length h) (length d) = Some (?m, 1, (h @ d, length h, length d))"
    using assms(2) by (simp add: en50221_app_mmi_defragment_def)
  then show ?thesis
    using message_kind(2) [of user s n Menus d mmi] assms(1,3,4)
    by (simp add: kind_parse_def en50221_app_mmi_parse_list_menu_def with_body_bytes relock)
qed

lemma menu_uncut:
  assumes "\<not> mmi_locked mmi" "plenty (mmi_os mmi)" "unknown_session n mmi" "menu_ok (mmi_os mmi) ts" "length (menu_bytes ts) < 65536"
  shows "\<exists>w. en50221_app_mmi_message user s n (apdu TAG_MENU_LAST (menu_bytes ts)) mmi
    = callback (\<lambda>f. menu_call user f s n (the_menu ts)) (menucallback mmi) (mmi\<lparr>mmi_os := w, mmi_locked := False\<rparr>)"
proof -
  let ?h = "asn_1_bytes (of_nat (length (menu_bytes ts)))" and ?m = "mmi\<lparr>mmi_locked := True\<rparr>"
  from show_menu_sound [of ?m ts "?h @ menu_bytes ts" ?h "[]" user s n] assms(2,4) message_whole [OF assms(1,3,5) refl, of user s]
  show ?thesis by simp
qed

text \<open>C34: 
  A menu reaches the application as it was sent: title, subtitle, bottom line and choices, each text put together from
  its fragments, however the message itself was cut into fragments (\<open>TAG_MENU_MORE\<close>, \<open>TAG_MENU_LAST\<close>), provided the
  memory suffices and no fragment is empty.
\<close>

theorem mmi_menu_delivered:
  assumes "\<not> mmi_locked mmi" "plenty (mmi_os mmi)" "unknown_session n mmi" "menu_ok (mmi_os mmi) ts"
    and "menu_bytes ts = concat ds @ d" "list_all fragment (d # ds)"
  shows "\<exists>mmi1 mmi2. feed (kind_more user s n Menus) ds mmi = Some mmi1
    \<and> en50221_app_mmi_message user s n (apdu TAG_MENU_LAST d) mmi1
      = callback (\<lambda>f. menu_call user f s n (the_menu ts)) (menucallback mmi) mmi2
    \<and> \<not> mmi_locked mmi2 \<and> mmi_same mmi mmi1"
proof (cases ds)
  case Nil
  with assms(5,6) have "length (menu_bytes ts) < 65536" by (simp add: fragment_def)
  then obtain w where "en50221_app_mmi_message user s n (apdu TAG_MENU_LAST (menu_bytes ts)) mmi
      = callback (\<lambda>f. menu_call user f s n (the_menu ts)) (menucallback mmi) (mmi\<lparr>mmi_os := w, mmi_locked := False\<rparr>)"
    using menu_uncut [OF assms(1-4)] by blast
  then show ?thesis using Nil assms(5) chains.same_refl
    by (intro exI [of _ mmi] exI [of _ "mmi\<lparr>mmi_os := w, mmi_locked := False\<rparr>"] conjI) simp_all
next
  case (Cons d0 ds')
  have f: "fragment d0" "list_all fragment ds'" "fragment d" using assms(6) Cons by simp_all
  have len: "length d0 + length (concat ds') + length d < 2 ^ 32" using assms(4,5) Cons by (simp add: menu_ok_def)
  obtain m0 where m0: "kind_more user s n Menus d0 mmi = Some m0" "collected Menus n m0 d0" "mmi_same mmi m0"
    using kind_more_first [OF assms(1-3) f(1)] by blast
  from chains.reassembled [OF m0(2) f(2,3) len, of user s] obtain m1 m2 where
    m: "feed (kind_more user s n Menus) ds' m0 = Some m1"
      "en50221_app_mmi_message user s n (apdu (last_tag Menus) d) m1 = kind_deliver user s n Menus (d0 @ concat ds' @ d) m2"
      "collected Menus n m2 []" "mmi_same m0 m2" by blast
  have "length d0 + length (concat ds') < 2 ^ 32" using len by simp
  from chains.feed_pending [OF m0(2) f(2) this, of user s] m(1) have m1: "mmi_same m0 m1" by (metis option.inject)
  have s2: "mmi_same mmi m2" "mmi_same mmi m1" by (rule chains.same_trans [OF m0(3) m(4)], rule chains.same_trans [OF m0(3) m1])
  from s2(1) have cb: "menucallback m2 = menucallback mmi" and fr: "realloc0_frees (mmi_os m2) = realloc0_frees (mmi_os mmi)"
    unfolding mmi_same_def by (elim exE conjE, simp)+
  have ok: "menu_ok (mmi_os m2) ts" using assms(4) unfolding menu_ok_def text_ok_cong [OF fr] .
  have b: "d0 @ concat ds' @ d = [] @ menu_bytes ts @ []" using assms(5) Cons by simp
  obtain w where "show_menu user s n TAG_MENU_LAST (menu_bytes ts) 0 (length (menu_bytes ts)) (m2\<lparr>mmi_locked := True\<rparr>)
      = callback (\<lambda>f. menu_call user f s n (the_menu ts)) (menucallback mmi) (m2\<lparr>mmi_os := w, mmi_locked := False\<rparr>)"
    using show_menu_sound [of "m2\<lparr>mmi_locked := True\<rparr>" ts "menu_bytes ts" "[]" "[]" user s n] ok m(3) cb
    by (simp add: collected_def) blast
  with m(2) b have "en50221_app_mmi_message user s n (apdu TAG_MENU_LAST d) m1
      = callback (\<lambda>f. menu_call user f s n (the_menu ts)) (menucallback mmi) (m2\<lparr>mmi_os := w, mmi_locked := False\<rparr>)"
    by (simp add: kind_deliver_def)
  then show ?thesis using Cons m0(1) m(1) s2(2)
    by (intro exI [of _ m1] exI [of _ "m2\<lparr>mmi_os := w, mmi_locked := False\<rparr>"] conjI) simp_all
qed

section \<open>An interface to try the theorems on\<close>

definition demo_mmi :: "en50221_app_mmi_session list \<Rightarrow> en50221_app_mmi" where
  "demo_mmi ss = \<lparr>mmi_os = calm_os, mmi_locked = False, mmi_sessions = ss, closecallback = None, displaycontrolcallback = None,
     keypadcontrolcallback = None, subtitlesegmentcallback = None, sceneendmarkcallback = None,
     scenecontrolcallback = None, subtitledownloadcallback = None, flushdownloadcallback = None,
     mmi_enqcallback = None, menucallback = Some 1, listcallback = None\<rparr>"

definition demo_mmi_user :: "'m mmi_user" where
  "demo_mmi_user = \<lparr>close_call = \<lambda>f s n a b m. Some (m, 0), display_control_call = \<lambda>f s n a b m. Some (m, 0),
     keypad_control_call = \<lambda>f s n a b m. Some (m, 0), subtitle_segment_call = \<lambda>f s n a m. Some (m, 0),
     scene_end_mark_call = \<lambda>f s n a b c d m. Some (m, 0), scene_control_call = \<lambda>f s n a b c m. Some (m, 0),
     subtitle_download_call = \<lambda>f s n a m. Some (m, 0), flush_download_call = \<lambda>f s n m. Some (m, 0),
     mmi_enq_call = \<lambda>f s n a b c m. Some (m, 0), menu_call = \<lambda>f s n menu m. Some (m, int (length (menu_title menu))),
     list_call = \<lambda>f s n menu m. Some (m, 0)\<rparr>"

lemma demo_mmi_simps [simp]:
  "\<not> mmi_locked (demo_mmi ss)" "mmi_sessions (demo_mmi ss) = ss" "menucallback (demo_mmi ss) = Some 1" "plenty (mmi_os (demo_mmi ss))"
  "realloc0_frees (mmi_os (demo_mmi ss))"
  by (simp_all add: demo_mmi_def calm_os_def plenty_def)

theorem mmi_menu_delivered_witness:
  "\<exists>mmi1 mmi2. feed (kind_more demo_mmi_user 0 1 Menus) [[0, 0x9f, 0x88], [0x03, 2, 65, 66, 0x9f, 0x88, 0x03, 1, 67]] (demo_mmi []) = Some mmi1
    \<and> en50221_app_mmi_message demo_mmi_user 0 1 (apdu TAG_MENU_LAST [0x9f, 0x88, 0x03, 1, 68]) mmi1 = Some (mmi2, 2)"
proof -
  let ?ts = "[([], [65, 66]), ([], [67]), ([], [68])]"
  have b: "menu_bytes ?ts = concat [[0, 0x9f, 0x88], [0x03, 2, 65, 66, 0x9f, 0x88, 0x03, 1, 67]] @ [0x9f, 0x88, 0x03, 1, 68]"
    by code_simp
  then have "menu_ok (mmi_os (demo_mmi [])) ?ts" by (simp add: menu_ok_def text_ok_def)
  from mmi_menu_delivered [OF _ _ _ this b, of 1 demo_mmi_user 0] obtain mmi1 mmi2 where
    "feed (kind_more demo_mmi_user 0 1 Menus) [[0, 0x9f, 0x88], [0x03, 2, 65, 66, 0x9f, 0x88, 0x03, 1, 67]] (demo_mmi []) = Some mmi1"
    "en50221_app_mmi_message demo_mmi_user 0 1 (apdu TAG_MENU_LAST [0x9f, 0x88, 0x03, 1, 68]) mmi1
      = callback (\<lambda>f. menu_call demo_mmi_user f 0 1 (the_menu ?ts)) (menucallback (demo_mmi [])) mmi2"
    by (auto simp: fragment_def)
  moreover have "callback (\<lambda>f. menu_call demo_mmi_user f 0 1 (the_menu ?ts)) (menucallback (demo_mmi [])) mmi2 = Some (mmi2, 2)"
    by (simp add: callback_def demo_mmi_user_def the_menu_def text_of_def)
  ultimately show ?thesis by auto
qed

section \<open>Messages and calls the interface does not survive\<close>

text \<open>
  The length of a text is not compared with the data that are left.  A menu that ends with a text whose length field
  promises more than there is makes the remaining length wrap, and the next text is read outside
  the message.
\<close>

theorem mmi_text_overread:
  assumes "\<not> mmi_locked mmi" "unknown_session n mmi" "0 < k" "k < 0x80"
  shows "en50221_app_mmi_message user s n (apdu TAG_MENU_LAST ([0] @ tag_bytes TAG_TEXT_LAST @ [k])) mmi = None"
proof -
  let ?obj = "[5, 0, 0x9f, 0x88, 0x03, k]" and ?m = "mmi\<lparr>mmi_locked := True\<rparr>"
  have k: "k AND 0x7f = k" "1 \<le> unat k" "unat k < 128"
  proof -
    show u: "unat k < 128" "1 \<le> unat k" using assms(3,4) by (simp_all add: word_less_nat_alt word_gt_0)
    have m: "(0x7f :: u8) = mask 7" by (simp add: mask_eq_exp_minus_1)
    show "k AND 0x7f = k" unfolding m take_bit_eq_mask [symmetric]
      using u by (simp add: word_unat_eq_iff unsigned_take_bit_eq take_bit_nat_eq_self)
  qed
  have b: "tag_bytes TAG_TEXT_LAST = [0x9f, 0x88, 0x03]" by code_simp
  have msg: "en50221_app_mmi_message user s n (apdu TAG_MENU_LAST ([0] @ tag_bytes TAG_TEXT_LAST @ [k])) mmi
      = show_menu user s n TAG_MENU_LAST ?obj 1 5 ?m"
  proof -
    have l: "length ([0] @ tag_bytes TAG_TEXT_LAST @ [k]) = 5" by simp
    have "asn_1_bytes (of_nat 5) = [5]" by code_simp
    with message_whole [OF assms(1,2), of "[0] @ tag_bytes TAG_TEXT_LAST @ [k]" "[5]" user s, unfolded l] show ?thesis
      by (simp add: b)
  qed
  have lt: "TAG_TEXT_LAST < 0x1000000" by (simp add: mmi_tags)
  have tag: "read_tag (drop 2 ?obj) = Some TAG_TEXT_LAST"
    using tag_roundtrip [OF lt, of "[k]"] b by simp
  have dec: "asn_1_decode ?obj (2 + 3) (unat (4 - 3 :: u32)) = Some (1, Some (ucast k))"
    using k assms(4) by (simp add: asn_1_decode_def)
  have small: "take_bit 16 (unat k) = unat k" "take_bit 16 (ucast k :: u32) = ucast k"
    using k(3) by (simp_all add: take_bit_nat_eq_self word_unat_eq_iff unsigned_take_bit_eq unsigned_ucast_eq)
  have t1: "defragment_text w ?obj 2 4 no_block 0 = Some (w, Some ((?obj, 6, unat k), 4 + ucast k))" for w
    by (subst defragment_text.simps) (simp add: tag [simplified] dec [simplified] no_block_def Let_def unsigned_ucast_eq small)
  have u: "unat (4 + ucast k :: u32) = 4 + unat k"
    using k by (simp add: unat_word_ariths unsigned_ucast_eq take_bit_eq_mod)
  have "unat (- (ucast k :: u32)) = 2 ^ 32 - unat k"
    using k by (subst unat_sub_if' [of 0, simplified]) (simp add: unsigned_ucast_eq take_bit_eq_mod)
  then have "\<not> - (ucast k :: u32) < 3" using k by (simp add: word_less_nat_alt)
  moreover have "read_tag (drop (6 + unat k) ?obj) = None" using k(2) by (simp add: read_tag_def rd_def)
  ultimately have t2: "defragment_text w ?obj (6 + unat k) (- ucast k) no_block 0 = None" for w
    by (subst defragment_text.simps) simp
  have "menu_texts 3 w ?obj 2 4 = None" for w
    using t1 t2 u by (simp add: numeral_3_eq_3 en50221_app_mmi_defragment_text_def)
  then show ?thesis unfolding msg by (simp add: show_menu_def flip: numeral_2_eq_2)
qed

theorem mmi_text_overread_witness:
  "en50221_app_mmi_message demo_mmi_user 0 1 (apdu TAG_MENU_LAST ([0] @ tag_bytes TAG_TEXT_LAST @ [9])) (demo_mmi []) = None"
  by (rule mmi_text_overread) (simp_all add: fragment_def)

text \<open>
  Clearing a session that exists leaves the mutex held.  Every later operation that takes the mutex waits for
  it, whichever session it is about.
\<close>

theorem mmi_clear_deadlock:
  assumes "\<not> mmi_locked mmi" "\<exists>x\<in>set (mmi_sessions mmi). mmi_session_number x = n"
    "en50221_app_mmi_clear_session mmi n = Some mmi'"
  shows "en50221_app_mmi_clear_session mmi' m = None
    \<and> en50221_app_mmi_register_menu_callback mmi' cb = None
    \<and> (length d < 65536 \<longrightarrow> en50221_app_mmi_message user s m (apdu TAG_MENU_LAST d) mmi' = None)"
proof -
  have "first_index (\<lambda>x. mmi_session_number x = n) (mmi_sessions mmi) 0 \<noteq> None"
    using assms(2) by (simp add: first_index_None list_all_iff)
  with assms(1,3) have l: "mmi_locked mmi'"
    by (auto simp: en50221_app_mmi_clear_session_def mmi_lock_def bind_eq_Some_conv Let_def)
  have "en50221_app_mmi_message user s m (apdu TAG_MENU_LAST d) mmi' = None" if "length d < 65536"
    using l that message_kind(2) [of user s m Menus d mmi']
    by (simp add: kind_parse_def en50221_app_mmi_parse_list_menu_def with_body_bytes mmi_lock_def)
  with l show ?thesis
    by (simp add: en50221_app_mmi_clear_session_def en50221_app_mmi_register_menu_callback_def mmi_register_def mmi_lock_def)
qed

theorem mmi_clear_deadlock_witness:
  "let x = \<lparr>mmi_session_number = 7, menu_block = no_block, list_block = no_block, subtitlesegment_block = no_block,
      subtitledownload_block = no_block\<rparr>;
     mmi' = (demo_mmi [])\<lparr>mmi_locked := True\<rparr>
   in en50221_app_mmi_clear_session (demo_mmi [x]) 7 = Some mmi' \<and> en50221_app_mmi_register_menu_callback mmi' (Some 2) = None"
proof -
  let ?x = "\<lparr>mmi_session_number = 7, menu_block = no_block, list_block = no_block, subtitlesegment_block = no_block,
      subtitledownload_block = no_block\<rparr>"
  have c: "en50221_app_mmi_clear_session (demo_mmi [?x]) 7 = Some ((demo_mmi [])\<lparr>mmi_locked := True\<rparr>)"
    by (simp add: en50221_app_mmi_clear_session_def demo_mmi_def mmi_lock_def c_free_def no_block_def)
  from mmi_clear_deadlock [OF _ _ c, of 0 "Some 2" "[]" demo_mmi_user 0] c show ?thesis by simp
qed

text \<open>
  A graphics reply with pixel depths hands the send function the bytes that follow the array it has
  written them to.
\<close>

theorem mmi_pixel_depths_overread:
  assumes "reply_id = MMI_DISPLAY_REPLY_ID_LIST_OVERLAY_GFX_CHARACTERISTICS
      \<or> reply_id = MMI_DISPLAY_REPLY_ID_LIST_FULLSCREEN_GFX_CHARACTERISTICS"
    "pixel_depths details \<noteq> []"
  shows "en50221_app_mmi_display_reply funcs n reply_id details st = None"
proof -
  have "length (concat (map pixel_depth_bytes ds)) = length ds * 2" for ds
    by (induction ds) (simp_all add: pixel_depth_bytes_def)
  then have "rd_bytes (concat (map pixel_depth_bytes ds)) (length ds * 2) (length ds * 2) = None" if "ds \<noteq> []" for ds
    using that by (simp add: rd_bytes_def)
  with assms(2) have "rd_bytes (concat (map pixel_depth_bytes (pixel_depths details))) (length (pixel_depths details) * 2)
      (length (pixel_depths details) * 2) = None" by simp
  with assms(1) show ?thesis
    by (auto simp: en50221_app_mmi_display_reply_def tag_header_bytes mmi_ids)
qed

theorem mmi_pixel_depths_overread_witness:
  "en50221_app_mmi_display_reply
    \<lparr>send_data = \<lambda>n d st. Some (st, 0), send_datav = \<lambda>n v st. Some (st @ v, 0)\<rparr> 1
    MMI_DISPLAY_REPLY_ID_LIST_OVERLAY_GFX_CHARACTERISTICS
    \<lparr>gfx_width = 720, gfx_height = 576, aspect_ratio = 0, gfx_relation_to_video = 0, multiple_depths = 0, display_bytes = 1,
     composition_buffer_bytes = 1, object_cache_bytes = 1,
     pixel_depths = [\<lparr>display_depth = 2, pixels_per_byte = 4, region_overhead = 1\<rparr>], char_table = [], mmi_mode = 0\<rparr> [] = None"
  by (rule mmi_pixel_depths_overread) simp_all

end
