(* ===== verification/En50221_Ca_Pmt.thy ===== *)
theory En50221_Ca_Pmt
  imports Mpeg_Sections En50221_Os
begin

text \<open>
  The CA PMT a host sends to a module: \<open>en50221_ca_format_pmt\<close> of \<open>lib/libdvben50221/en50221_app_ca.c\<close> with its helpers.
  It takes a PMT section after \<open>mpeg_pmt_section_codec\<close> and writes the conditional access descriptors of the program
  and of its streams to a buffer of the caller.

  The linked lists of \<open>struct ca_pmt_descriptor\<close> and \<open>struct ca_pmt_stream\<close> are lists; a descriptor is a position in the
  section.  A run is \<open>None\<close> when it touches memory outside the section or the buffer.
\<close>

definition dtag_mpeg_ca :: u8 where "dtag_mpeg_ca = 0x09"

record ca_pmt_descriptor =
  ca_descriptor :: nat
  ca_length :: u16

record ca_pmt_stream =
  stream_type :: u8
  pid :: u16
  ca_descriptors :: "ca_pmt_descriptor list"
  descriptors_length :: u32
  descriptors_count :: u32

text \<open>
  The body of a \<open>for_each\<close> macro that may leave the loop: with \<open>body\<close> at each position until it
  answers \<open>False\<close>.
\<close>

partial_function (option) for_each_do ::
  "(nat \<Rightarrow> nat option option) \<Rightarrow> (nat \<Rightarrow> 's \<Rightarrow> ('s \<times> bool) option) \<Rightarrow> nat option \<Rightarrow> 's \<Rightarrow> ('s \<times> bool) option" where
  "for_each_do nxt body pos st =
     (case pos of
        None \<Rightarrow> Some (st, True)
      | Some p \<Rightarrow> do {
          (st, go) \<leftarrow> body p st;
          if go then do { q \<leftarrow> nxt p; for_each_do nxt body q st } else Some (st, False) })"

section \<open>Descriptors and streams of the PMT\<close>

text \<open>The body of both descriptor loops: a structure for each conditional access descriptor.\<close>

definition add_ca_descriptor ::
  "mem \<Rightarrow> nat \<Rightarrow> os \<times> ca_pmt_descriptor list \<Rightarrow> ((os \<times> ca_pmt_descriptor list) \<times> bool) option" where
  "add_ca_descriptor m p = (\<lambda>(w, ds). do {
     tag \<leftarrow> rd m p;
     if tag = dtag_mpeg_ca then
       (let (w, ok) = malloc w in
        if ok then do {
          len \<leftarrow> rd m (p + 1);
          Some ((w, ds @ [\<lparr>ca_descriptor = p, ca_length = ucast len + 2\<rparr>]), True) }
        else Some ((w, ds), False))
     else Some ((w, ds), True) })"

definition en50221_ca_extract_pmt_descriptors ::
  "byte_order \<Rightarrow> mem \<Rightarrow> os \<Rightarrow> (os \<times> ca_pmt_descriptor list option) option" where
  "en50221_ca_extract_pmt_descriptors e pmt w =
     do {
       pos \<leftarrow> mpeg_pmt_section_descriptors_first e pmt;
       ((w, descriptors), ok) \<leftarrow> for_each_do (mpeg_pmt_section_descriptors_next e pmt) (add_ca_descriptor pmt) pos (w, []);
       Some (w, if ok then Some descriptors else None) }"

text \<open>
  The body of the stream loop.  \<open>descriptors_length\<close> stays unwritten until \<open>en50221_ca_calculate_length\<close> sets it; it
  is not read before.
\<close>

definition add_stream ::
  "byte_order \<Rightarrow> mem \<Rightarrow> nat \<Rightarrow> os \<times> ca_pmt_stream list \<Rightarrow> ((os \<times> ca_pmt_stream list) \<times> bool) option" where
  "add_stream e pmt p = (\<lambda>(w, ss). let (w, ok) = malloc w in
     if \<not> ok then Some ((w, ss), False)
     else do {
       (t, id) \<leftarrow> mpeg_pmt_stream e pmt p;
       pos \<leftarrow> mpeg_pmt_stream_descriptors_first e pmt p;
       ((w, ds), ok) \<leftarrow> for_each_do (mpeg_pmt_stream_descriptors_next e pmt p) (add_ca_descriptor pmt) pos (w, []);
       Some ((w, ss @ [\<lparr>stream_type = t, pid = id, ca_descriptors = ds, descriptors_length = 0,
                        descriptors_count = of_nat (length ds)\<rparr>]), ok) })"

definition en50221_ca_extract_streams :: "byte_order \<Rightarrow> mem \<Rightarrow> os \<Rightarrow> (os \<times> ca_pmt_stream list option) option" where
  "en50221_ca_extract_streams e pmt w =
     do {
       pos \<leftarrow> mpeg_pmt_section_streams_first e pmt;
       ((w, streams), ok) \<leftarrow> for_each_do (mpeg_pmt_section_streams_next e pmt) (add_stream e pmt) pos (w, []);
       Some (w, if ok then Some streams else None) }"

section \<open>Moving the descriptors of the streams to the program\<close>

definition descriptor_bytes :: "mem \<Rightarrow> ca_pmt_descriptor \<Rightarrow> u8 list option" where
  "descriptor_bytes m d = rd_bytes m (ca_descriptor d) (unat (ca_length d))"

text \<open>The comparison of the descriptors of a stream with those of the first; it relies on equal numbers.\<close>

fun same_descriptors :: "mem \<Rightarrow> ca_pmt_descriptor list \<Rightarrow> ca_pmt_descriptor list \<Rightarrow> bool option" where
  "same_descriptors m [] fs = Some True"
| "same_descriptors m (d # ds) [] = None"
| "same_descriptors m (d # ds) (f # fs) =
     (if ca_length d \<noteq> ca_length f then Some False
      else do {
        x \<leftarrow> descriptor_bytes m d;
        y \<leftarrow> rd_bytes m (ca_descriptor f) (unat (ca_length d));
        if x \<noteq> y then Some False else same_descriptors m ds fs })"

fun same_streams :: "mem \<Rightarrow> ca_pmt_stream \<Rightarrow> ca_pmt_stream list \<Rightarrow> bool option" where
  "same_streams m first_stream [] = Some True"
| "same_streams m first_stream (cur_stream # ss) =
     (if descriptors_count cur_stream \<noteq> descriptors_count first_stream then Some False
      else do {
        same \<leftarrow> same_descriptors m (ca_descriptors cur_stream) (ca_descriptors first_stream);
        if same then same_streams m first_stream ss else Some False })"

definition en50221_ca_try_move_pmt_descriptors ::
  "mem \<Rightarrow> ca_pmt_descriptor list \<Rightarrow> ca_pmt_stream list \<Rightarrow> (ca_pmt_descriptor list \<times> ca_pmt_stream list) option" where
  "en50221_ca_try_move_pmt_descriptors m prog_descriptors streams =
     (case streams of
        [] \<Rightarrow> Some (prog_descriptors, streams)
      | first_stream # ss \<Rightarrow> do {
          same \<leftarrow> same_streams m first_stream ss;
          Some (if same then (ca_descriptors first_stream,
                  map (\<lambda>s. s\<lparr>ca_descriptors := [], descriptors_count := 0\<rparr>) streams)
                else (prog_descriptors, streams)) })"

section \<open>Lengths and output\<close>

definition descriptors_total :: "ca_pmt_descriptor list \<Rightarrow> u32" where
  "descriptors_total ds =
     (let n = foldl (\<lambda>n d. n + ucast (ca_length d)) 0 ds in if n \<noteq> 0 then n + 1 else n)"

definition en50221_ca_calculate_length ::
  "ca_pmt_descriptor list \<Rightarrow> ca_pmt_stream list \<Rightarrow> u32 \<times> u32 \<times> ca_pmt_stream list" where
  "en50221_ca_calculate_length prog_descriptors streams =
     (let pmt_descriptors_length = descriptors_total prog_descriptors;
          ss = map (\<lambda>s. s\<lparr>descriptors_length := descriptors_total (ca_descriptors s)\<rparr>) streams
      in (foldl (\<lambda>n s. n + (5 + descriptors_length s)) (6 + pmt_descriptors_length) ss, pmt_descriptors_length, ss))"

text \<open>The bytes from \<open>pos\<close> on; the position after them.\<close>

definition put_bytes :: "mem \<times> nat \<Rightarrow> u8 list \<Rightarrow> (mem \<times> nat) option" where
  "put_bytes = (\<lambda>(data, data_pos) xs. do { data \<leftarrow> blit data data_pos xs; Some (data, data_pos + length xs) })"

fun put_descriptors :: "mem \<Rightarrow> ca_pmt_descriptor list \<Rightarrow> mem \<times> nat \<Rightarrow> (mem \<times> nat) option" where
  "put_descriptors m [] out = Some out"
| "put_descriptors m (d # ds) out =
     do { x \<leftarrow> descriptor_bytes m d; out \<leftarrow> put_bytes out x; put_descriptors m ds out }"

definition put_info :: "mem \<Rightarrow> u8 \<Rightarrow> u32 \<Rightarrow> ca_pmt_descriptor list \<Rightarrow> mem \<times> nat \<Rightarrow> (mem \<times> nat) option" where
  "put_info m ca_pmt_cmd_id len ds out =
     do {
       out \<leftarrow> put_bytes out [ucast (drop_bit 8 len) AND 0x0f, ucast len];
       if len \<noteq> 0 then do { out \<leftarrow> put_bytes out [ca_pmt_cmd_id]; put_descriptors m ds out } else Some out }"

fun put_streams :: "mem \<Rightarrow> u8 \<Rightarrow> ca_pmt_stream list \<Rightarrow> mem \<times> nat \<Rightarrow> (mem \<times> nat) option" where
  "put_streams m ca_pmt_cmd_id [] out = Some out"
| "put_streams m ca_pmt_cmd_id (s # ss) out =
     do {
       out \<leftarrow> put_bytes out [stream_type s, ucast (drop_bit 8 (pid s)) AND 0x1f, ucast (pid s)];
       out \<leftarrow> put_info m ca_pmt_cmd_id (descriptors_length s) (ca_descriptors s) out;
       put_streams m ca_pmt_cmd_id ss out }"

text \<open>The environment, the buffer and the result: the number of bytes, or -1.\<close>

definition en50221_ca_format_pmt ::
  "byte_order \<Rightarrow> mem \<Rightarrow> mem \<Rightarrow> u32 \<Rightarrow> bool \<Rightarrow> u8 \<Rightarrow> u8 \<Rightarrow> os \<Rightarrow> (os \<times> mem \<times> int) option" where
  "en50221_ca_format_pmt e pmt data data_length move_ca_descriptors ca_pmt_list_management ca_pmt_cmd_id w =
     do {
       (w, r) \<leftarrow> en50221_ca_extract_pmt_descriptors e pmt w;
       case r of
         None \<Rightarrow> Some (w, data, -1)
       | Some prog_descriptors \<Rightarrow> do {
           (w, r) \<leftarrow> en50221_ca_extract_streams e pmt w;
           case r of
             None \<Rightarrow> Some (w, data, -1)
           | Some streams \<Rightarrow> do {
               (prog_descriptors, streams) \<leftarrow>
                 (if prog_descriptors = [] \<and> move_ca_descriptors
                  then en50221_ca_try_move_pmt_descriptors pmt prog_descriptors streams
                  else Some (prog_descriptors, streams));
               let (total_required_length, pmt_descriptors_length, streams) =
                 en50221_ca_calculate_length prog_descriptors streams;
               if total_required_length > data_length then Some (w, data, -1)
               else do {
                 program_number \<leftarrow> mpeg_pmt_section_program_number e pmt;
                 version \<leftarrow> section_ext_version_number pmt;
                 current_next \<leftarrow> rd pmt 5;
                 out \<leftarrow> put_bytes (data, 0) [ca_pmt_list_management, ucast (drop_bit 8 program_number), ucast program_number,
                   push_bit 1 version OR (current_next AND 1)];
                 out \<leftarrow> put_info pmt ca_pmt_cmd_id pmt_descriptors_length prog_descriptors out;
                 (data, data_pos) \<leftarrow> put_streams pmt ca_pmt_cmd_id streams out;
                 Some (w, data, int data_pos) } } } }"

section \<open>The loops\<close>

primrec run_each :: "(nat \<Rightarrow> 's \<Rightarrow> ('s \<times> bool) option) \<Rightarrow> nat list \<Rightarrow> 's \<Rightarrow> ('s \<times> bool) option" where
  "run_each body [] st = Some (st, True)"
| "run_each body (p # ps) st =
     do { (st, go) \<leftarrow> body p st; if go then run_each body ps st else Some (st, False) }"

lemma for_each_do_run: "for_each nxt pos = Some ps \<Longrightarrow> for_each_do nxt body pos st = run_each body ps st"
proof (induction ps arbitrary: pos st)
  case Nil
  then have "pos = None" by (subst (asm) for_each.simps) (auto split: option.splits bind_splits)
  then show ?case by (simp add: for_each_do.simps)
next
  case (Cons p ps)
  then obtain q where q: "pos = Some p" "nxt p = Some q" "for_each nxt q = Some ps"
    by (subst (asm) for_each.simps) (auto simp: bind_eq_Some_conv split: option.splits)
  show ?case
    unfolding q(1) by (subst for_each_do.simps) (simp add: q(2) Cons.IH [OF q(3)] split: prod.splits cong: if_cong)
qed

lemma walk_do:
  "walk first nxt = Some ps \<Longrightarrow> do { pos \<leftarrow> first; r \<leftarrow> for_each_do nxt body pos st; k r } = do { r \<leftarrow> run_each body ps st; k r }"
  by (auto simp: walk_def bind_eq_Some_conv for_each_do_run)

text \<open>Where the descriptors of a loop are.\<close>

lemma desc_at_bytes:
  assumes "descriptor_size m q = Some n" "q + n \<le> length m"
  shows "bytes_at m q (desc_bytes (desc_at m q))"
proof -
  have n: "n = 2 + unat (m ! Suc q)" and l: "Suc q < length m" using assms by (auto simp: descriptor_size_eq_Some rd_eq_Some_iff)
  have len: "length (snd (desc_at m q)) = unat (m ! Suc q)" using assms(2) n by (simp add: desc_at_def)
  have "bytes_at m (Suc (Suc q)) (take (unat (m ! Suc q)) (drop (Suc (Suc q)) m))"
    using assms(2) n by (intro bytes_at_take) simp
  then show ?thesis using l n assms(2) len by (simp add: desc_at_def bytes_at_Cons)
qed

lemma entry_walk_at:
  assumes "entry_descriptors e hsz lo m q = Some ps" "map (desc_at m) ps = ds"
    "length12 e m (q + lo) = Some (length (descs_bytes ds))" "bytes_at m (q + hsz) (descs_bytes ds)" "list_all desc_ok ds"
  shows "list_all2 (\<lambda>p d. bytes_at m p (desc_bytes d)) ps ds"
proof -
  obtain ps' where t: "tiles (descriptor_size m) (q + hsz + length (descs_bytes ds)) (q + hsz) ps'" "map (desc_at m) ps' = ds"
    using bytes_tiles [OF assms(5,4)] by blast
  have "ps' = ps" using desc.walk_from [OF t(1)] assms(1,3) by (simp add: entry_descriptors_def)
  moreover have "bytes_at m p (desc_bytes (desc_at m p))" if "p \<in> set ps'" for p
    using tiles_bounds [OF t(1) that] assms(4) by (auto simp: bytes_at_def [of m "q + hsz"] intro: desc_at_bytes)
  ultimately show ?thesis unfolding t(2) [symmetric] by (simp add: list.rel_map list.rel_refl_strong)
qed

section \<open>What is extracted\<close>

definition ca_only :: "desc list \<Rightarrow> desc list" where
  "ca_only ds = filter (\<lambda>d. fst d = dtag_mpeg_ca) ds"

definition is_ca :: "mem \<Rightarrow> ca_pmt_descriptor \<Rightarrow> desc \<Rightarrow> bool" where
  "is_ca m c d \<longleftrightarrow> bytes_at m (ca_descriptor c) (desc_bytes d) \<and> unat (ca_length c) = length (desc_bytes d) \<and> desc_ok d"

lemma run_add_ca:
  assumes "list_all2 (\<lambda>p d. bytes_at m p (desc_bytes d)) ps ds" "list_all desc_ok ds"
  shows "\<exists>w' cs ok. run_each (add_ca_descriptor m) ps (w, acc) = Some ((w', acc @ cs), ok)
    \<and> (ok \<longrightarrow> list_all2 (is_ca m) cs (ca_only ds)) \<and> (plenty w \<longrightarrow> ok \<and> plenty w')"
  using assms
proof (induction ps ds arbitrary: w acc rule: list_all2_induct)
  case Nil
  then show ?case by (auto simp: ca_only_def)
next
  case (Cons p ps d ds)
  obtain t xs where d: "d = (t, xs)" by (cases d)
  have r: "rd m p = Some t" "rd m (Suc p) = Some (of_nat (length xs))" and x: "length xs < 256"
    using Cons.hyps(1) Cons.prems by (auto simp: d bytes_at_Cons rd_eq_Some_iff)
  let ?c = "\<lparr>ca_descriptor = p, ca_length = ucast (of_nat (length xs) :: u8) + 2\<rparr>"
  have c: "is_ca m ?c d"
    using Cons.hyps(1) x by (simp add: is_ca_def d unat_word_ariths unsigned_ucast_eq unat_of_nat take_bit_nat_eq_self)
  have all: "list_all desc_ok ds" using Cons.prems by simp
  note IH = Cons.IH [OF all]
  have step: "add_ca_descriptor m p (w, acc) = Some (if t = dtag_mpeg_ca then
      if os_malloc w (os_now w) then ((os_tick w, acc @ [?c]), True) else ((os_tick w, acc), False) else ((w, acc), True))"
    by (simp add: add_ca_descriptor_def r malloc_def)
  show ?case
  proof (cases "t = dtag_mpeg_ca \<and> os_malloc w (os_now w)")
    case True
    from IH [of "os_tick w" "acc @ [?c]"] obtain w' cs ok where
      "run_each (add_ca_descriptor m) ps (os_tick w, acc @ [?c]) = Some ((w', acc @ ?c # cs), ok)"
      "ok \<longrightarrow> list_all2 (is_ca m) cs (ca_only ds)" "plenty w \<longrightarrow> ok \<and> plenty w'" by auto
    with c True show ?thesis
      by (intro exI [of _ w'] exI [of _ "?c # cs"] exI [of _ ok]) (simp add: step d ca_only_def)
  next
    case False
    show ?thesis
    proof (cases "t = dtag_mpeg_ca")
      case True
      with False show ?thesis
        by (intro exI [of _ "os_tick w"] exI [of _ "[]"] exI [of _ False]) (simp add: step plenty_def, blast)
    next
      case other: False
      with IH [of w acc] show ?thesis by (simp add: step d ca_only_def)
    qed
  qed
qed

lemma entry_descs_at:
  assumes "bytes_at m q (decoded_entry e offs x)" "entry_ok hsz lo x" "length12 e m (q + lo) = Some (length (descs_bytes (snd x)))"
    "entry_descriptors e hsz lo m q = Some ps" "map (desc_at m) ps = snd x"
  shows "\<exists>w' cs ok. run_each (add_ca_descriptor m) ps (w, []) = Some ((w', cs), ok)
    \<and> (ok \<longrightarrow> list_all2 (is_ca m) cs (ca_only (snd x))) \<and> (plenty w \<longrightarrow> ok \<and> plenty w')"
proof -
  have d: "bytes_at m (q + hsz) (descs_bytes (snd x))" "list_all desc_ok (snd x)"
    using assms(1,2) by (simp_all add: decoded_entry_def bytes_at_append entry_ok_def)
  show ?thesis
    using run_add_ca [OF entry_walk_at [OF assms(4,5,3) d] d(2), of w "[]"] by simp
qed

type_synonym ca_stream = "u8 \<times> u16 \<times> desc list"

definition ca_stream_of :: "tentry \<Rightarrow> ca_stream" where
  "ca_stream_of x = (fst x ! 0, take_bit 13 (be16 (fst x ! 1) (fst x ! 2)), ca_only (snd x))"

definition stream_is :: "mem \<Rightarrow> ca_pmt_stream \<Rightarrow> ca_stream \<Rightarrow> bool" where
  "stream_is m s = (\<lambda>(t, i, ds). stream_type s = t \<and> pid s = i \<and> list_all2 (is_ca m) (ca_descriptors s) ds
     \<and> descriptors_count s = of_nat (length ds))"

lemma add_stream_entry:
  assumes "bytes_at m q (decoded_entry e [1, 3] x)" "entry_ok 5 3 x"
  shows "\<exists>w' s ok. add_stream e m q (w, acc) = Some ((w', acc @ s), ok)
    \<and> (ok \<longrightarrow> (\<exists>c. s = [c] \<and> stream_is m c (ca_stream_of x))) \<and> (plenty w \<longrightarrow> ok \<and> plenty w')"
proof (cases "os_malloc w (os_now w)")
  case False
  then show ?thesis
    by (intro exI [of _ "os_tick w"] exI [of _ "[]"] exI [of _ False]) (auto simp: add_stream_def malloc_def plenty_def)
next
  case True
  from pmt_stream_read_entry [OF assms] obtain ps where ps:
    "mpeg_pmt_stream e m q = Some (fst x ! 0, take_bit 13 (be16 (fst x ! 1) (fst x ! 2)))"
    "walk (mpeg_pmt_stream_descriptors_first e m q) (mpeg_pmt_stream_descriptors_next e m q) = Some ps"
    "map (desc_at m) ps = snd x"
    by (auto simp: pmt_stream_read_def bind_eq_Some_conv)
  have len: "length12 e m (q + 3) = Some (length (descs_bytes (snd x)))"
    using pmt_streams.entry_field [OF assms, of 3] assms(2) by (simp add: length12_def entry_ok_def wire12_def)
  from entry_descs_at [OF assms len ps(2) [unfolded pmt_stream_descriptors_eq] ps(3), of "os_tick w"] obtain w' cs ok where
    r: "run_each (add_ca_descriptor m) ps (os_tick w, []) = Some ((w', cs), ok)"
      "ok \<longrightarrow> list_all2 (is_ca m) cs (ca_only (snd x))" "plenty w \<longrightarrow> ok \<and> plenty w'" by auto
  let ?s = "\<lparr>stream_type = fst x ! 0, pid = take_bit 13 (be16 (fst x ! 1) (fst x ! 2)), ca_descriptors = cs, descriptors_length = 0,
    descriptors_count = of_nat (length cs)\<rparr>"
  have "add_stream e m q (w, acc) = Some ((w', acc @ [?s]), ok)"
    using True r(1) by (simp add: add_stream_def malloc_def ps(1) walk_do [OF ps(2)])
  moreover have "stream_is m ?s (ca_stream_of x)" if ok
    using that r(2) by (auto simp: stream_is_def ca_stream_of_def dest: list_all2_lengthD)
  ultimately show ?thesis using r(3) by (intro exI [of _ w'] exI [of _ "[?s]"] exI [of _ ok]) simp
qed

lemma run_add_streams:
  assumes "list_all2 (\<lambda>q x. bytes_at m q (decoded_entry e [1, 3] x)) qs es" "list_all (entry_ok 5 3) es"
  shows "\<exists>w' ss ok. run_each (add_stream e m) qs (w, acc) = Some ((w', acc @ ss), ok)
    \<and> (ok \<longrightarrow> list_all2 (stream_is m) ss (map ca_stream_of es)) \<and> (plenty w \<longrightarrow> ok \<and> plenty w')"
  using assms
proof (induction qs es arbitrary: w acc rule: list_all2_induct)
  case Nil
  then show ?case by auto
next
  case (Cons q qs x es)
  from add_stream_entry [OF Cons.hyps(1), of w acc] Cons.prems obtain w1 s ok1 where
    s: "add_stream e m q (w, acc) = Some ((w1, acc @ s), ok1)"
      "ok1 \<longrightarrow> (\<exists>c. s = [c] \<and> stream_is m c (ca_stream_of x))" "plenty w \<longrightarrow> ok1 \<and> plenty w1" by auto
  show ?case
  proof (cases ok1)
    case False
    with s show ?thesis by (intro exI [of _ w1] exI [of _ s] exI [of _ False]) simp
  next
    case True
    then obtain c where c: "s = [c]" "stream_is m c (ca_stream_of x)" using s(2) by blast
    from Cons.IH [of w1 "acc @ [c]"] Cons.prems obtain w2 ss ok where
      "run_each (add_stream e m) qs (w1, acc @ [c]) = Some ((w2, acc @ c # ss), ok)"
      "ok \<longrightarrow> list_all2 (stream_is m) ss (map ca_stream_of es)" "plenty w1 \<longrightarrow> ok \<and> plenty w2" by auto
    with s c True show ?thesis by (intro exI [of _ w2] exI [of _ "c # ss"] exI [of _ ok]) simp
  qed
qed

section \<open>Comparison, lengths and output\<close>

lemma desc_bytes_inj: "desc_ok d \<Longrightarrow> desc_ok d' \<Longrightarrow> desc_bytes d = desc_bytes d' \<longleftrightarrow> d = d'"
  by (cases d; cases d') auto

lemma ca_bytes: "is_ca m c d \<Longrightarrow> descriptor_bytes m c = Some (desc_bytes d)"
  by (simp add: is_ca_def descriptor_bytes_def rd_bytes_def bytes_at_def)

lemma ca_length_eq: "is_ca m c d \<Longrightarrow> is_ca m c' d' \<Longrightarrow> ca_length c = ca_length c' \<longleftrightarrow> length (desc_bytes d) = length (desc_bytes d')"
  by (auto simp: is_ca_def word_unat_eq_iff)

lemma same_descriptors_eq:
  assumes "list_all2 (is_ca m) cs ds" "list_all2 (is_ca m) fs es" "length ds = length es"
  shows "same_descriptors m cs fs = Some (ds = es)"
  using assms
proof (induction cs ds arbitrary: fs es rule: list_all2_induct)
  case (Cons c cs d ds)
  then obtain f fs' x es' where s: "fs = f # fs'" "es = x # es'" "is_ca m f x" "list_all2 (is_ca m) fs' es'"
    by (cases es) (auto simp: list_all2_Cons2)
  have ok: "desc_ok d" "desc_ok x" using Cons.hyps(1) s(3) by (simp_all add: is_ca_def)
  show ?case
  proof (cases "length (desc_bytes d) = length (desc_bytes x)")
    case False
    then show ?thesis using ca_length_eq [OF Cons.hyps(1) s(3)] s(1,2) by auto
  next
    case True
    then have "ca_length c = ca_length f" using ca_length_eq [OF Cons.hyps(1) s(3)] by simp
    moreover have "rd_bytes m (ca_descriptor f) (unat (ca_length f)) = Some (desc_bytes x)"
      using ca_bytes [OF s(3)] by (simp add: descriptor_bytes_def)
    ultimately show ?thesis
      using Cons.IH [OF s(4)] Cons.prems(2) ca_bytes [OF Cons.hyps(1)] desc_bytes_inj [OF ok]
      by (simp add: s(1,2))
  qed
qed simp

lemma same_streams_eq:
  assumes "stream_is m f x" "list_all2 (stream_is m) ss es" "\<forall>y\<in>set (x # es). length (snd (snd y)) < 2 ^ 32"
  shows "same_streams m f ss = Some (\<forall>y\<in>set es. snd (snd y) = snd (snd x))"
  using assms(2,3)
proof (induction ss es rule: list_all2_induct)
  case (Cons s ss y es)
  have c: "descriptors_count s = of_nat (length (snd (snd y)))" "list_all2 (is_ca m) (ca_descriptors s) (snd (snd y))"
      "descriptors_count f = of_nat (length (snd (snd x)))" "list_all2 (is_ca m) (ca_descriptors f) (snd (snd x))"
    using Cons.hyps(1) assms(1) by (auto simp: stream_is_def)
  have "descriptors_count s = descriptors_count f \<longleftrightarrow> length (snd (snd y)) = length (snd (snd x))"
    using Cons.prems by (simp add: c word_unat_eq_iff unat_of_nat take_bit_nat_eq_self)
  then show ?case using same_descriptors_eq [OF c(2,4)] Cons by auto
qed simp

text \<open>
  The abstract CA PMT: the descriptors of the program and the streams.  Equal descriptors of all streams move
  to a program that has none of its own.
\<close>

definition merged :: "bool \<Rightarrow> desc list \<Rightarrow> ca_stream list \<Rightarrow> desc list \<times> ca_stream list" where
  "merged move ds ss =
     (if ds = [] \<and> move \<and> ss \<noteq> [] \<and> (\<forall>s\<in>set ss. snd (snd s) = snd (snd (hd ss)))
      then (snd (snd (hd ss)), map (\<lambda>(t, i, _). (t, i, [])) ss) else (ds, ss))"

definition info_length :: "desc list \<Rightarrow> nat" where
  "info_length ds = (if ds = [] then 0 else Suc (length (descs_bytes ds)))"

definition info_bytes :: "u8 \<Rightarrow> desc list \<Rightarrow> u8 list" where
  "info_bytes cmd ds = [of_nat (info_length ds div 256), of_nat (info_length ds)] @ (if ds = [] then [] else cmd # descs_bytes ds)"

definition ca_stream_bytes :: "u8 \<Rightarrow> ca_stream \<Rightarrow> u8 list" where
  "ca_stream_bytes cmd = (\<lambda>(t, i, ds). [t, ucast (drop_bit 8 i), ucast i] @ info_bytes cmd ds)"

definition ca_pmt_bytes :: "u8 list \<Rightarrow> u8 \<Rightarrow> desc list \<times> ca_stream list \<Rightarrow> u8 list" where
  "ca_pmt_bytes head cmd = (\<lambda>(ds, ss). head @ info_bytes cmd ds @ concat (map (ca_stream_bytes cmd) ss))"

lemma move_descriptors:
  assumes "list_all2 (is_ca m) cs ds" "list_all2 (stream_is m) ss es" "\<forall>y\<in>set es. length (snd (snd y)) < 2 ^ 32"
  shows "\<exists>cs' ss'. (if cs = [] \<and> move then en50221_ca_try_move_pmt_descriptors m cs ss else Some (cs, ss)) = Some (cs', ss')
    \<and> list_all2 (is_ca m) cs' (fst (merged move ds es)) \<and> list_all2 (stream_is m) ss' (snd (merged move ds es))"
proof (cases "cs = [] \<and> move \<and> ss \<noteq> []")
  case False
  then have "(if cs = [] \<and> move then en50221_ca_try_move_pmt_descriptors m cs ss else Some (cs, ss)) = Some (cs, ss)"
    by (cases "cs = [] \<and> move") (simp_all add: en50221_ca_try_move_pmt_descriptors_def)
  moreover have "\<not> (ds = [] \<and> move \<and> es \<noteq> [])" using False assms(1,2) by auto
  then have "merged move ds es = (ds, es)" unfolding merged_def by (intro if_not_P) blast
  ultimately show ?thesis using assms(1,2) by simp
next
  case True
  then obtain f ss1 x es1 where s: "ss = f # ss1" "es = x # es1" "stream_is m f x" "list_all2 (stream_is m) ss1 es1"
    using assms(2) by (cases ss; cases es) simp_all
  have same: "same_streams m f ss1 = Some (\<forall>y\<in>set es1. snd (snd y) = snd (snd x))"
    by (rule same_streams_eq [OF s(3,4)]) (use assms(3) in \<open>simp add: s(2)\<close>)
  have ds: "ds = []" using True assms(1) by simp
  have cleared: "list_all2 (stream_is m) (map (\<lambda>s. s\<lparr>ca_descriptors := [], descriptors_count := 0\<rparr>) ss) (map (\<lambda>(t, i, _). (t, i, [])) es)"
    unfolding list.rel_map by (rule list.rel_mono_strong [OF assms(2)]) (auto simp: stream_is_def)
  have first: "list_all2 (is_ca m) (ca_descriptors f) (snd (snd x))" using s(3) by (auto simp: stream_is_def)
  show ?thesis
  proof (cases "\<forall>y\<in>set es1. snd (snd y) = snd (snd x)")
    case all: True
    then have "merged move ds es = (snd (snd x), map (\<lambda>(t, i, _). (t, i, [])) es)" using True by (simp add: merged_def ds s(2))
    with True same all cleared first show ?thesis by (simp add: en50221_ca_try_move_pmt_descriptors_def s(1))
  next
    case other: False
    then have "merged move ds es = (ds, es)" unfolding merged_def s(2) by (intro if_not_P) simp
    with True same other assms(1,2) show ?thesis by (simp add: en50221_ca_try_move_pmt_descriptors_def s(1))
  qed
qed

text \<open>A part of the output that writes exactly \<open>xs\<close> where there is room.\<close>

definition emits :: "(mem \<times> nat \<Rightarrow> (mem \<times> nat) option) \<Rightarrow> u8 list \<Rightarrow> bool" where
  "emits f xs \<longleftrightarrow> (\<forall>d r. length xs \<le> length r \<longrightarrow> f (d @ r, length d) = Some (d @ xs @ drop (length xs) r, length (d @ xs)))"

lemma emits_put: "emits (\<lambda>out. put_bytes out xs) xs"
  by (simp add: emits_def put_bytes_def blit_def)

lemma emits_nil: "emits Some []"
  by (simp add: emits_def)

lemma emits_seq: "emits f xs \<Longrightarrow> emits g ys \<Longrightarrow> emits (\<lambda>out. do { out \<leftarrow> f out; g out }) (xs @ ys)"
  unfolding emits_def
proof (intro allI impI)
  fix d r :: mem
  assume f: "\<forall>d r. length xs \<le> length r \<longrightarrow> f (d @ r, length d) = Some (d @ xs @ drop (length xs) r, length (d @ xs))"
    and g: "\<forall>d r. length ys \<le> length r \<longrightarrow> g (d @ r, length d) = Some (d @ ys @ drop (length ys) r, length (d @ ys))"
    and l: "length (xs @ ys) \<le> length r"
  have "f (d @ r, length d) = Some ((d @ xs) @ drop (length xs) r, length (d @ xs))" using f l by simp
  moreover have "g ((d @ xs) @ drop (length xs) r, length (d @ xs))
      = Some ((d @ xs) @ ys @ drop (length ys) (drop (length xs) r), length ((d @ xs) @ ys))"
    by (rule g [THEN spec, THEN spec, THEN mp]) (use l in simp)
  ultimately show "do { out \<leftarrow> f (d @ r, length d); g out }
      = Some (d @ (xs @ ys) @ drop (length (xs @ ys)) r, length (d @ xs @ ys))"
    by (simp add: add.commute)
qed

lemma emits_descriptors: "list_all2 (is_ca m) cs ds \<Longrightarrow> emits (put_descriptors m cs) (descs_bytes ds)"
proof (induction cs ds rule: list_all2_induct)
  case Nil
  then show ?case using emits_nil by (simp add: emits_def)
next
  case (Cons c cs d ds)
  then show ?case using emits_seq [OF emits_put [of "desc_bytes d"] Cons.IH] by (simp add: ca_bytes emits_def)
qed

lemma total_length:
  assumes "list_all2 (is_ca m) cs ds" "Suc (length (descs_bytes ds)) < 2 ^ 32"
  shows "descriptors_total cs = of_nat (info_length ds)"
proof -
  have "foldl (\<lambda>n d. n + ucast (ca_length d)) (a :: u32) cs = a + of_nat (length (descs_bytes ds))" for a
    using assms(1)
  proof (induction cs ds arbitrary: a rule: list_all2_induct)
    case (Cons c cs d ds)
    have "(ucast (ca_length c) :: u32) = of_nat (unat (ca_length c))" by simp
    also have "\<dots> = of_nat (length (desc_bytes d))" using Cons.hyps(1) by (simp add: is_ca_def)
    finally show ?case using Cons.IH by (simp add: add.assoc)
  qed simp
  moreover have "(of_nat (length (descs_bytes ds)) :: u32) \<noteq> 0 \<longleftrightarrow> ds \<noteq> []"
    using assms(2) by (cases ds; cases "hd ds") (auto simp: word_unat_eq_iff unat_of_nat take_bit_nat_eq_self simp del: of_nat_Suc of_nat_add)
  ultimately show ?thesis by (simp add: descriptors_total_def info_length_def)
qed

lemma twelve_bits:
  assumes "n < 4096"
  shows "ucast (drop_bit 8 (of_nat n :: u32)) AND 0x0f = (of_nat (n div 256) :: u8)" "ucast (of_nat n :: u32) = (of_nat n :: u8)"
proof -
  have m: "(0x0f :: u8) = mask 4" by (simp add: mask_eq_exp_minus_1)
  have u: "unat (of_nat n :: u32) = n" using assms by (simp add: unat_of_nat take_bit_nat_eq_self)
  have d: "drop_bit 8 n < 16" "n div 256 = drop_bit 8 n" using assms by (simp_all add: drop_bit_eq_div)
  show "ucast (drop_bit 8 (of_nat n :: u32)) AND 0x0f = (of_nat (n div 256) :: u8)"
    unfolding m take_bit_eq_mask [symmetric]
    unfolding d(2) using d(1) assms by (simp add: word_unat_eq_iff unsigned_take_bit_eq unsigned_ucast_eq unsigned_drop_bit_eq u unat_of_nat take_bit_nat_eq_self)
  show "ucast (of_nat n :: u32) = (of_nat n :: u8)"
    using assms by (simp add: word_unat_eq_iff unsigned_ucast_eq unat_of_nat take_bit_eq_mod)
qed

lemma emits_info:
  assumes "list_all2 (is_ca m) cs ds" "info_length ds < 4096"
  shows "emits (put_info m cmd (of_nat (info_length ds)) cs) (info_bytes cmd ds)"
proof -
  let ?n = "info_length ds" let ?w = "of_nat (info_length ds) :: u32"
  have b: "[ucast (drop_bit 8 ?w) AND 0x0f, ucast ?w] = [of_nat (?n div 256), of_nat ?n :: u8]"
    using twelve_bits [OF assms(2)] by simp
  have z: "?w \<noteq> 0 \<longleftrightarrow> ds \<noteq> []" using assms(2)
    by (auto simp: word_unat_eq_iff unat_of_nat take_bit_nat_eq_self info_length_def split: if_splits simp del: of_nat_Suc)
  note d = emits_descriptors [OF assms(1)]
  show ?thesis
  proof (cases "ds = []")
    case True
    then show ?thesis using z b emits_seq [OF emits_put [of "[of_nat (?n div 256), of_nat ?n]"] emits_nil]
      by (simp add: emits_def put_info_def info_bytes_def)
  next
    case False
    then show ?thesis using z b emits_seq [OF emits_put [of "[of_nat (?n div 256), of_nat ?n]"] emits_seq [OF emits_put [of "[cmd]"] d]]
      by (simp add: emits_def put_info_def info_bytes_def)
  qed
qed

definition ca_small :: "desc list \<times> ca_stream list \<Rightarrow> bool" where
  "ca_small p \<longleftrightarrow> info_length (fst p) < 4096 \<and> length (snd p) < 4096
     \<and> (\<forall>s\<in>set (snd p). info_length (snd (snd s)) < 4096 \<and> unat (fst (snd s)) < 8192)"

lemma merged_small: "ca_small (ds, ss) \<Longrightarrow> ca_small (merged move ds ss)"
  by (cases ss) (auto simp: ca_small_def merged_def info_length_def)

lemma thirteen_bits:
  assumes "unat (i :: u16) < 8192"
  shows "ucast (drop_bit 8 i) AND 0x1f = (ucast (drop_bit 8 i) :: u8)"
proof -
  have m: "(0x1f :: u8) = mask 5" by (simp add: mask_eq_exp_minus_1)
  have "drop_bit 8 (unat i) < 32" using assms by (simp add: drop_bit_eq_div)
  moreover have "take_bit 16 (unat i) = unat i" using assms by (simp add: take_bit_nat_eq_self)
  ultimately show ?thesis unfolding m take_bit_eq_mask [symmetric]
    by (simp add: word_unat_eq_iff unsigned_take_bit_eq unsigned_ucast_eq unsigned_drop_bit_eq take_bit_nat_eq_self)
qed

abbreviation set_length :: "ca_pmt_stream \<Rightarrow> ca_pmt_stream" where
  "set_length s \<equiv> s\<lparr>descriptors_length := descriptors_total (ca_descriptors s)\<rparr>"

lemma set_length_is:
  assumes "stream_is m s (t, i, ds)" "info_length ds < 4096"
  shows "descriptors_length (set_length s) = of_nat (info_length ds)"
  using assms total_length [of m "ca_descriptors s" ds] by (cases "ds = []") (auto simp: stream_is_def info_length_def)

lemma emits_streams:
  assumes "list_all2 (stream_is m) ss es" "\<forall>s\<in>set es. info_length (snd (snd s)) < 4096 \<and> unat (fst (snd s)) < 8192"
  shows "emits (put_streams m cmd (map set_length ss)) (concat (map (ca_stream_bytes cmd) es))"
  using assms
proof (induction ss es rule: list_all2_induct)
  case Nil
  then show ?case using emits_nil by (simp add: emits_def)
next
  case (Cons s ss x es)
  obtain t i ds where x: "x = (t, i, ds)" by (cases x)
  have s: "stream_type s = t" "pid s = i" "list_all2 (is_ca m) (ca_descriptors s) ds" and d: "info_length ds < 4096" "unat i < 8192"
    using Cons.hyps(1) Cons.prems by (auto simp: x stream_is_def)
  have "emits (\<lambda>out. do { out \<leftarrow> put_bytes out [t, ucast (drop_bit 8 i), ucast i];
      out \<leftarrow> put_info m cmd (of_nat (info_length ds)) (ca_descriptors s) out; put_streams m cmd (map set_length ss) out })
      ([t, ucast (drop_bit 8 i), ucast i] @ info_bytes cmd ds @ concat (map (ca_stream_bytes cmd) es))"
    by (intro emits_seq emits_put emits_info s d Cons.IH) (use Cons.prems in simp)
  moreover have "put_streams m cmd (map set_length (s # ss)) = (\<lambda>out. do { out \<leftarrow> put_bytes out [t, ucast (drop_bit 8 i), ucast i];
      out \<leftarrow> put_info m cmd (of_nat (info_length ds)) (ca_descriptors s) out; put_streams m cmd (map set_length ss) out })"
    using set_length_is [OF Cons.hyps(1) [unfolded x] d(1)] thirteen_bits [OF d(2)] s by (simp add: fun_eq_iff)
  ultimately show ?case by (simp add: x ca_stream_bytes_def)
qed

lemma length_info_bytes: "length (info_bytes cmd ds) = 2 + info_length ds"
  by (simp add: info_bytes_def info_length_def)

lemma length_ca_pmt:
  "length head = 4 \<Longrightarrow> length (ca_pmt_bytes head cmd p) = 6 + info_length (fst p) + (\<Sum>s\<leftarrow>snd p. 5 + info_length (snd (snd s)))"
  by (cases p) (simp add: ca_pmt_bytes_def length_info_bytes length_concat ca_stream_bytes_def comp_def split_beta eval_nat_numeral)

lemma ca_pmt_fits:
  assumes "ca_small p" "length head = 4"
  shows "length (ca_pmt_bytes head cmd p) < 2 ^ 32"
proof -
  have "(\<Sum>s\<leftarrow>xs. 5 + info_length (snd (snd s))) \<le> length xs * 4101"
    if "\<forall>s\<in>set xs. info_length (snd (snd s)) < 4096" for xs :: "ca_stream list"
    using that by (induction xs) auto
  moreover have "\<forall>s\<in>set (snd p). info_length (snd (snd s)) < 4096" using assms(1) by (simp add: ca_small_def)
  ultimately have "(\<Sum>s\<leftarrow>snd p. 5 + info_length (snd (snd s))) \<le> length (snd p) * 4101" by blast
  also have "\<dots> \<le> 4096 * 4101" using assms(1) by (intro mult_le_mono1) (simp add: ca_small_def)
  finally show ?thesis using assms by (simp add: length_ca_pmt ca_small_def)
qed

lemma calculate_length:
  assumes "list_all2 (is_ca m) cs ds" "list_all2 (stream_is m) ss es" "ca_small (ds, es)" "length head = 4"
  shows "en50221_ca_calculate_length cs ss = (of_nat (length (ca_pmt_bytes head cmd (ds, es))), of_nat (info_length ds), map set_length ss)"
proof -
  have "foldl (\<lambda>n s. n + (5 + descriptors_length s)) a (map set_length ss) = a + of_nat (\<Sum>s\<leftarrow>es. 5 + info_length (snd (snd s)))" for a
    using assms(2) assms(3) [unfolded ca_small_def, THEN conjunct2, THEN conjunct2, simplified]
  proof (induction ss es arbitrary: a rule: list_all2_induct)
    case (Cons s ss x es)
    obtain t i ds where x: "x = (t, i, ds)" by (cases x)
    have "descriptors_length (set_length s) = of_nat (info_length ds)"
      by (rule set_length_is) (use Cons.hyps(1) Cons.prems in \<open>auto simp: x\<close>)
    with Cons.IH Cons.prems show ?case by (simp add: x algebra_simps)
  qed simp
  moreover have "descriptors_total cs = of_nat (info_length ds)"
    using assms(3) by (cases "ds = []") (auto simp: ca_small_def info_length_def intro!: total_length [OF assms(1), unfolded info_length_def, THEN trans]
      dest: list_all2_Nil2 [THEN iffD1])
  ultimately show ?thesis by (simp add: en50221_ca_calculate_length_def length_ca_pmt [OF assms(4)] Let_def)
qed

section \<open>The formatted PMT\<close>

lemma emits_out:
  assumes "emits f xs" "length xs \<le> length data"
  shows "f (data, 0) = Some (xs @ drop (length xs) data, length xs)"
  using assms(1) [unfolded emits_def, rule_format, OF assms(2), of "[]"] by simp

lemma ca_only_bytes: "length (descs_bytes (ca_only ds)) \<le> length (descs_bytes ds)"
  by (induction ds) (auto simp: ca_only_def)

lemma info_length_le: "info_length (ca_only ds) \<le> Suc (length (descs_bytes ds))"
  using ca_only_bytes [of ds] by (simp add: info_length_def)

lemma entries_small:
  assumes "length (entries_bytes es) \<le> n" "list_all (entry_ok 5 3) es"
  shows "length es \<le> n \<and> (\<forall>x\<in>set es. length (descs_bytes (snd x)) \<le> n)"
  using assms
proof (induction es arbitrary: n)
  case (Cons x es)
  have "length (entry_bytes x) = 5 + length (descs_bytes (snd x))" using Cons.prems(2) by (simp add: entry_bytes_def entry_ok_def)
  with Cons.IH [of "n - length (entry_bytes x)"] Cons.prems show ?case by fastforce
qed simp

lemma section_small:
  assumes "framed h8 body crc" "body = entry_bytes f @ entries_bytes es" "entry_ok 4 2 f" "list_all (entry_ok 5 3) es"
  shows "ca_small (ca_only (snd f), map ca_stream_of es)"
proof -
  have "wire12 h8 1 < 4096" by (simp add: wire12_eq)
  then have n: "length body < 4087" using assms(1) by (simp add: framed_def)
  have "length (descs_bytes (snd f)) < 4083" using assms(3) n by (simp add: assms(2) entry_bytes_def entry_ok_def)
  moreover have "length es < 4087" "\<forall>x\<in>set es. length (descs_bytes (snd x)) < 4087"
    using entries_small [of es "length body", OF _ assms(4)] n by (auto simp: assms(2))
  moreover have "unat (take_bit 13 v :: u16) < 8192" for v
    using take_bit_nat_less_exp [of 13 "unat v"] by (simp add: unsigned_take_bit_eq)
  moreover have "info_length (ca_only (snd x)) < 4096" if "x \<in> set es" for x
    using that info_length_le [of "snd x"] \<open>\<forall>x\<in>set es. length (descs_bytes (snd x)) < 4087\<close> by force
  moreover have "info_length (ca_only (snd f)) < 4096"
    using info_length_le [of "snd f"] \<open>length (descs_bytes (snd f)) < 4083\<close> by simp
  ultimately show ?thesis by (simp add: ca_small_def ca_stream_of_def)
qed

text \<open>The first four bytes: list management, program number, version and current/next indicator.\<close>

definition ca_pmt_head :: "u8 \<Rightarrow> u8 list \<Rightarrow> u8 list" where
  "ca_pmt_head mgmt h8 = [mgmt, h8 ! 3, h8 ! 4, (h8 ! 5) AND 0x3f]"

lemma version_byte: "push_bit 1 (take_bit 5 (drop_bit 1 b)) OR (b AND 1) = b AND (0x3f :: u8)"
proof -
  have m: "b AND 0x3f = take_bit 6 b" "b AND 1 = take_bit 1 b"
    by (simp_all add: take_bit_eq_mask mask_eq_exp_minus_1)
  show ?thesis unfolding m
  proof (rule bit_word_eqI)
    fix n assume "n < LENGTH(8)"
    then show "bit (push_bit 1 (take_bit 5 (drop_bit 1 b)) OR take_bit 1 b) n = bit (take_bit 6 b) n"
      unfolding bit_or_iff bit_push_bit_iff bit_take_bit_iff bit_drop_bit_eq by (cases n) auto
  qed
qed

lemma section_head:
  assumes "length h8 = 8" "m = ext_hdr e h8 @ xs"
  shows "\<exists>pn v b. mpeg_pmt_section_program_number e m = Some pn \<and> section_ext_version_number m = Some v \<and> rd m 5 = Some b
    \<and> [mgmt, ucast (drop_bit 8 pn), ucast pn, push_bit 1 v OR (b AND 1)] = ca_pmt_head mgmt h8"
proof -
  let ?b = "h8 ! 5"
  have m: "m = decoded_ext e (h8 @ xs)" using assms by (simp add: decoded_ext_frame)
  have "mpeg_pmt_section_program_number e m = Some (be16 (h8 ! 3) (h8 ! 4))"
    using decoded_ext_table_id_ext [of "h8 @ xs" e] assms(1) by (simp add: mpeg_pmt_section_program_number_def m nth_append)
  moreover have b: "rd m 5 = Some ?b"
    using assms(1) by (simp add: m decoded_ext_def rd_def swap2_nth_other nth_append)
  ultimately show ?thesis
    by (simp add: ca_pmt_head_def section_ext_version_number_def ucast_be16 ucast_drop_be16 version_byte [simplified])
qed

lemma extract_head:
  assumes "framed h8 body crc" "body = entry_bytes f @ entries_bytes es" "entry_ok 4 2 f" "list_all (entry_ok 5 3) es"
    and m_def: "m = ext_hdr e h8 @ decoded_entry e [0, 2] f @ decoded_entries e [1, 3] es @ crc"
  shows "\<exists>w' r. en50221_ca_extract_pmt_descriptors e m w = Some (w', r)
    \<and> (\<forall>cs. r = Some cs \<longrightarrow> list_all2 (is_ca m) cs (ca_only (snd f))) \<and> (plenty w \<longrightarrow> r \<noteq> None \<and> plenty w')"
proof -
  from pmt_walks(2) [OF assms(1-4), of m e] obtain ps where ps: "pmt_descriptors e m = Some ps" "map (desc_at m) ps = snd f"
    by (auto simp: m_def)
  have b: "bytes_at m 8 (decoded_entry e [0, 2] f)" using assms(1) by (simp add: m_def framed_def)
  have len: "length12 e m (8 + 2) = Some (length (descs_bytes (snd f)))"
    using pmt_head.entry_field [OF b assms(3), of 2] assms(3) by (simp add: length12_def entry_ok_def wire12_def)
  from entry_descs_at [OF b assms(3) len ps(1) [unfolded pmt_descriptors_eq] ps(2), of w] obtain w' cs ok where
    "run_each (add_ca_descriptor m) ps (w, []) = Some ((w', cs), ok)" "ok \<longrightarrow> list_all2 (is_ca m) cs (ca_only (snd f))"
    "plenty w \<longrightarrow> ok \<and> plenty w'" by blast
  then show ?thesis
    by (intro exI [of _ w'] exI [of _ "if ok then Some cs else None"])
      (simp add: en50221_ca_extract_pmt_descriptors_def walk_do [OF ps(1) [unfolded pmt_descriptors_def]])
qed

lemma extract_streams:
  assumes "framed h8 body crc" "body = entry_bytes f @ entries_bytes es" "entry_ok 4 2 f" "list_all (entry_ok 5 3) es"
    and m_def: "m = ext_hdr e h8 @ decoded_entry e [0, 2] f @ decoded_entries e [1, 3] es @ crc"
  shows "\<exists>w' r. en50221_ca_extract_streams e m w = Some (w', r)
    \<and> (\<forall>ss. r = Some ss \<longrightarrow> list_all2 (stream_is m) ss (map ca_stream_of es)) \<and> (plenty w \<longrightarrow> r \<noteq> None)"
proof -
  from pmt_walks(3) [OF assms(1-4), of m e] obtain qs where qs: "pmt_streams e m = Some qs"
      "list_all2 (\<lambda>q x. bytes_at m q (decoded_entry e [1, 3] x)) qs es"
    by (auto simp: m_def)
  from run_add_streams [OF qs(2) assms(4), of w "[]"] obtain w' ss ok where
    "run_each (add_stream e m) qs (w, []) = Some ((w', ss), ok)" "ok \<longrightarrow> list_all2 (stream_is m) ss (map ca_stream_of es)"
    "plenty w \<longrightarrow> ok \<and> plenty w'" by auto
  then show ?thesis
    by (intro exI [of _ w'] exI [of _ "if ok then Some ss else None"])
      (simp add: en50221_ca_extract_streams_def walk_do [OF qs(1) [unfolded pmt_streams_def]])
qed

lemma format_extracted:
  assumes "en50221_ca_extract_pmt_descriptors e m w = Some (w1, Some cs)" "en50221_ca_extract_streams e m w1 = Some (w2, Some ss)"
    "list_all2 (is_ca m) cs ds" "list_all2 (stream_is m) ss es" "\<forall>y\<in>set es. length (snd (snd y)) < 2 ^ 32"
    "ca_small (merged move ds es)"
    "mpeg_pmt_section_program_number e m = Some pn" "section_ext_version_number m = Some v" "rd m 5 = Some b"
    "[mgmt, ucast (drop_bit 8 pn), ucast pn, push_bit 1 v OR (b AND 1)] = ca_pmt_head mgmt h8"
    "unat data_length \<le> length data" "bytes = ca_pmt_bytes (ca_pmt_head mgmt h8) cmd (merged move ds es)"
  shows "en50221_ca_format_pmt e m data data_length move mgmt cmd w
    = Some (w2, if length bytes \<le> unat data_length then (bytes @ drop (length bytes) data, int (length bytes)) else (data, -1))"
proof -
  let ?head = "ca_pmt_head mgmt h8"
  obtain ds' es' where p: "merged move ds es = (ds', es')" by (cases "merged move ds es")
  obtain cs' ss' where mv: "(if cs = [] \<and> move then en50221_ca_try_move_pmt_descriptors m cs ss else Some (cs, ss)) = Some (cs', ss')"
    and cs: "list_all2 (is_ca m) cs' ds'" and ss: "list_all2 (stream_is m) ss' es'"
    using move_descriptors [OF assms(3-5), of move] by (auto simp: p)
  have small: "ca_small (ds', es')" using assms(6) by (simp add: p)
  have h4: "length ?head = 4" by (simp add: ca_pmt_head_def)
  have calc: "en50221_ca_calculate_length cs' ss' = (of_nat (length bytes), of_nat (info_length ds'), map set_length ss')"
    using calculate_length [OF cs ss small h4, of cmd] by (simp add: assms(12) p)
  have "length bytes < 2 ^ 32" using ca_pmt_fits [OF small h4] by (simp add: assms(12) p)
  then have room: "of_nat (length bytes) > data_length \<longleftrightarrow> length bytes > unat data_length"
    by (simp add: word_less_nat_alt unat_of_nat take_bit_nat_eq_self)
  have out: "emits (\<lambda>out. do { out \<leftarrow> put_bytes out ?head; out \<leftarrow> put_info m cmd (of_nat (info_length ds')) cs' out;
      put_streams m cmd (map set_length ss') out }) bytes"
    unfolding assms(12) p ca_pmt_bytes_def split
    by (intro emits_seq emits_put emits_info emits_streams cs ss) (use small in \<open>auto simp: ca_small_def\<close>)
  show ?thesis
  proof (cases "length bytes \<le> unat data_length")
    case False
    then show ?thesis using room
      by (simp add: en50221_ca_format_pmt_def assms(1,2) mv calc)
  next
    case True
    from emits_out [OF out] True assms(11) have
      "do { out \<leftarrow> put_bytes (data, 0) ?head; out \<leftarrow> put_info m cmd (of_nat (info_length ds')) cs' out;
        put_streams m cmd (map set_length ss') out } = Some (bytes @ drop (length bytes) data, length bytes)" by simp
    then obtain o1 o2 where "put_bytes (data, 0) ?head = Some o1" "put_info m cmd (of_nat (info_length ds')) cs' o1 = Some o2"
      "put_streams m cmd (map set_length ss') o2 = Some (bytes @ drop (length bytes) data, length bytes)"
      by (auto simp: bind_eq_Some_conv)
    with True room show ?thesis
      by (simp add: en50221_ca_format_pmt_def assms(1,2,7-9) assms(10) [simplified] mv calc)
  qed
qed

lemma ca_count: "info_length ds < 4096 \<Longrightarrow> length ds < 4096"
proof -
  have "length ds \<le> length (descs_bytes ds)" by (induction ds) (auto split: prod.splits)
  then show "info_length ds < 4096 \<Longrightarrow> length ds < 4096" by (simp add: info_length_def split: if_splits)
qed

lemma ca_counts: "ca_small (ds, es) \<Longrightarrow> \<forall>y\<in>set es. length (snd (snd y)) < 2 ^ 32"
proof
  fix y assume "ca_small (ds, es)" "y \<in> set es"
  then have "info_length (snd (snd y)) < 4096" by (simp add: ca_small_def)
  from ca_count [OF this] show "length (snd (snd y)) < 2 ^ 32" by simp
qed

text \<open>C32: 
  The CA PMT of a program: for every PMT the codec accepts, \<open>en50221_ca_format_pmt\<close> stays inside the section and the
  buffer and either writes the list management byte, the identification of the program and the conditional
  access descriptors of the program and of each stream, with the descriptors moved to the program exactly when
  this was asked for, the program has none and all streams have the same, and leaves the rest of the buffer alone; or it
  reports -1 and leaves the buffer alone, because an allocation failed or the buffer is too short.
\<close>

theorem format_pmt_correct:
  assumes "framed h8 body crc" "body = entry_bytes f @ entries_bytes es"
    and "entry_ok 4 2 f" "list_all (entry_ok 5 3) es" "unat data_length \<le> length data"
    and "bytes = ca_pmt_bytes (ca_pmt_head mgmt h8) cmd (merged move (ca_only (snd f)) (map ca_stream_of es))"
  shows "\<exists>pmt w'. mpeg_pmt_section_codec e (decoded_ext e (h8 @ body @ crc)) = Some (pmt, True)
    \<and> (en50221_ca_format_pmt e pmt data data_length move mgmt cmd w = Some (w', data, -1)
         \<and> (plenty w \<longrightarrow> length bytes > unat data_length)
       \<or> en50221_ca_format_pmt e pmt data data_length move mgmt cmd w
           = Some (w', bytes @ drop (length bytes) data, int (length bytes))
         \<and> length bytes \<le> unat data_length)"
proof -
  let ?m = "ext_hdr e h8 @ decoded_entry e [0, 2] f @ decoded_entries e [1, 3] es @ crc" and ?ds = "ca_only (snd f)"
  let ?run = "en50221_ca_format_pmt e ?m data data_length move mgmt cmd w" and ?head = "ca_pmt_head mgmt h8"
  have codec: "mpeg_pmt_section_codec e (decoded_ext e (h8 @ body @ crc)) = Some (?m, True)"
    using pmt_codec_accepts [OF assms(1-4), of e] by (simp add: framed_decoded [OF assms(1)])
  have l8: "length h8 = 8" using assms(1) by (simp add: framed_def)
  obtain pn v b where h: "mpeg_pmt_section_program_number e ?m = Some pn" "section_ext_version_number ?m = Some v" "rd ?m 5 = Some b"
      "[mgmt, ucast (drop_bit 8 pn), ucast pn, push_bit 1 v OR (b AND 1)] = ?head"
    using section_head [OF l8 refl, of e _ mgmt] by blast
  have small: "ca_small (merged move ?ds (map ca_stream_of es))"
    by (rule merged_small [OF section_small [OF assms(1-4)]])
  from extract_head [OF assms(1-4) refl, of e w] obtain w1 r1 where r1:
    "en50221_ca_extract_pmt_descriptors e ?m w = Some (w1, r1)" "\<forall>cs. r1 = Some cs \<longrightarrow> list_all2 (is_ca ?m) cs ?ds"
    "plenty w \<longrightarrow> r1 \<noteq> None \<and> plenty w1" by blast
  show ?thesis
  proof (cases r1)
    case None
    with r1 codec show ?thesis by (intro exI [of _ ?m] exI [of _ w1]) (simp add: en50221_ca_format_pmt_def)
  next
    case (Some cs)
    from extract_streams [OF assms(1-4) refl, of e w1] obtain w2 r2 where r2:
      "en50221_ca_extract_streams e ?m w1 = Some (w2, r2)" "\<forall>ss. r2 = Some ss \<longrightarrow> list_all2 (stream_is ?m) ss (map ca_stream_of es)"
      "plenty w1 \<longrightarrow> r2 \<noteq> None" by blast
    show ?thesis
    proof (cases r2)
      case None
      with Some r1 r2 codec show ?thesis by (intro exI [of _ ?m] exI [of _ w2]) (simp add: en50221_ca_format_pmt_def)
    next
      case s: (Some ss)
      have "?run = Some (w2, if length bytes \<le> unat data_length then (bytes @ drop (length bytes) data, int (length bytes)) else (data, -1))"
        by (rule format_extracted [OF r1(1) [unfolded Some] r2(1) [unfolded s] r1(2) [rule_format, OF Some] r2(2) [rule_format, OF s]
              _ small h assms(5,6)])
          (rule ca_counts [OF section_small [OF assms(1-4)]])
      then show ?thesis using codec by (intro exI [of _ ?m] exI [of _ w2]) simp
    qed
  qed
qed

theorem format_pmt_correct_witness:
  "\<exists>pmt w'. mpeg_pmt_section_codec LittleEndian (decoded_ext LittleEndian ([2, 0xb0, 35, 0, 1, 0xc1, 0, 0]
        @ [0xe1, 0, 0xf0, 0, 0x1b, 0xe1, 0, 0xf0, 6, 9, 4, 1, 2, 3, 4, 4, 0xe1, 1, 0xf0, 6, 9, 4, 1, 2, 3, 4] @ [1, 2, 3, 4]))
      = Some (pmt, True)
    \<and> en50221_ca_format_pmt LittleEndian pmt (replicate 32 0) 32 True 3 1 calm_os
      = Some (w', [3, 0, 1, 1, 0, 7, 1, 9, 4, 1, 2, 3, 4, 0x1b, 1, 0, 0, 0, 4, 1, 1, 0, 0] @ replicate 9 0, 23)"
proof -
  let ?f = "([0xe1, 0, 0xf0, 0], []) :: tentry" and ?ca = "(9, [1, 2, 3, 4]) :: desc"
  let ?es = "[([0x1b, 0xe1, 0, 0xf0, 6], [?ca]), ([4, 0xe1, 1, 0xf0, 6], [?ca])] :: tentry list"
  let ?body = "[0xe1, 0, 0xf0, 0, 0x1b, 0xe1, 0, 0xf0, 6, 9, 4, 1, 2, 3, 4, 4, 0xe1, 1, 0xf0, 6, 9, 4, 1, 2, 3, 4] :: u8 list"
  have fr: "framed [2, 0xb0, 35, 0, 1, 0xc1, 0, 0] ?body [1, 2, 3, 4]" by (simp add: framed_def wire12_eq)
  have e: "?body = entry_bytes ?f @ entries_bytes ?es" "entry_ok 4 2 ?f" "list_all (entry_ok 5 3) ?es"
    by (simp_all add: entry_ok_def entry_bytes_def wire12_eq)
  have b: "[3, 0, 1, 1, 0, 7, 1, 9, 4, 1, 2, 3, 4, 0x1b, 1, 0, 0, 0, 4, 1, 1, 0, 0]
      = ca_pmt_bytes (ca_pmt_head 3 [2, 0xb0, 35, 0, 1, 0xc1, 0, 0]) 1 (merged True (ca_only (snd ?f)) (map ca_stream_of ?es))"
    by code_simp
  have "unat (32 :: u32) \<le> length (replicate 32 (0 :: u8))" by simp
  from format_pmt_correct [OF fr e this b, of LittleEndian calm_os] show ?thesis by auto
qed

end
