(* ===== verification/En50221_Lowspeed.thy ===== *)
theory En50221_Lowspeed
  imports En50221_Services En50221_Block En50221_Transport_Inv
begin

text \<open>
  The low-speed communication resource: \<open>lib/libdvben50221/en50221_app_lowspeed.c\<close> and its header, with the telephone
  descriptor of \<open>lib/libucsi/dvb/telephone_descriptor.h\<close> that a module may send to have a connection made.

  A module sends commands, and data in fragments that are collected per session as in the man-machine interface;
  the theory interprets the locale \<open>reassembly\<close>.  The mutex is a flag of the state: taking it twice is \<open>None\<close>, since
  the call never returns.
\<close>

definition TAG_COMMS_COMMAND :: u32 where "TAG_COMMS_COMMAND = 0x9f8c00"
definition TAG_CONNECTION_DESCRIPTOR :: u32 where "TAG_CONNECTION_DESCRIPTOR = 0x9f8c01"
definition TAG_COMMS_REPLY :: u32 where "TAG_COMMS_REPLY = 0x9f8c02"
definition TAG_COMMS_SEND_LAST :: u32 where "TAG_COMMS_SEND_LAST = 0x9f8c03"
definition TAG_COMMS_SEND_MORE :: u32 where "TAG_COMMS_SEND_MORE = 0x9f8c04"
definition TAG_COMMS_RECV_LAST :: u32 where "TAG_COMMS_RECV_LAST = 0x9f8c05"

definition COMMS_COMMAND_ID_CONNECT_ON_CHANNEL :: u8 where "COMMS_COMMAND_ID_CONNECT_ON_CHANNEL = 0x01"
definition COMMS_COMMAND_ID_DISCONNECT_ON_CHANNEL :: u8 where "COMMS_COMMAND_ID_DISCONNECT_ON_CHANNEL = 0x02"
definition COMMS_COMMAND_ID_SET_PARAMS :: u8 where "COMMS_COMMAND_ID_SET_PARAMS = 0x03"
definition COMMS_COMMAND_ID_ENQUIRE_STATUS :: u8 where "COMMS_COMMAND_ID_ENQUIRE_STATUS = 0x04"
definition COMMS_COMMAND_ID_GET_NEXT_BUFFER :: u8 where "COMMS_COMMAND_ID_GET_NEXT_BUFFER = 0x05"
definition CONNECTION_DESCRIPTOR_TYPE_TELEPHONE :: u8 where "CONNECTION_DESCRIPTOR_TYPE_TELEPHONE = 0x01"
definition CONNECTION_DESCRIPTOR_TYPE_CABLE :: u8 where "CONNECTION_DESCRIPTOR_TYPE_CABLE = 0x02"
definition dtag_dvb_telephone :: u8 where "dtag_dvb_telephone = 0x57"

lemmas comms_ids = TAG_COMMS_COMMAND_def TAG_CONNECTION_DESCRIPTOR_def TAG_COMMS_SEND_LAST_def TAG_COMMS_SEND_MORE_def
  COMMS_COMMAND_ID_CONNECT_ON_CHANNEL_def COMMS_COMMAND_ID_DISCONNECT_ON_CHANNEL_def COMMS_COMMAND_ID_SET_PARAMS_def
  COMMS_COMMAND_ID_ENQUIRE_STATUS_def COMMS_COMMAND_ID_GET_NEXT_BUFFER_def CONNECTION_DESCRIPTOR_TYPE_TELEPHONE_def
  CONNECTION_DESCRIPTOR_TYPE_CABLE_def

section \<open>The telephone descriptor\<close>

text \<open>The lengths of the five fields of the descriptor at \<open>p\<close>, from its fourth and fifth byte.\<close>

definition telephone_lengths :: "mem \<Rightarrow> nat \<Rightarrow> (u8 \<times> u8 \<times> u8 \<times> u8 \<times> u8) option" where
  "telephone_lengths m p =
     do {
       a \<leftarrow> rd m (p + 3);
       b \<leftarrow> rd m (p + 4);
       Some (take_bit 2 (drop_bit 5 a), take_bit 3 (drop_bit 2 a), take_bit 2 a, take_bit 3 (drop_bit 4 b), take_bit 4 b) }"

definition dvb_telephone_descriptor_codec :: "mem \<Rightarrow> nat \<Rightarrow> bool option" where
  "dvb_telephone_descriptor_codec m p =
     do {
       len \<leftarrow> rd m (p + 1);
       if 3 > unat len then Some False
       else do {
         (cp, ia, oc, na, cn) \<leftarrow> telephone_lengths m p;
         Some (3 + unat cp + unat ia + unat oc + unat na + unat cn = unat len) } }"

definition dvb_telephone_descriptor_country_prefix :: "nat \<Rightarrow> nat" where
  "dvb_telephone_descriptor_country_prefix p = p + 5"

definition dvb_telephone_descriptor_international_area_code :: "mem \<Rightarrow> nat \<Rightarrow> nat option" where
  "dvb_telephone_descriptor_international_area_code m p =
     do { (cp, ia, oc, na, cn) \<leftarrow> telephone_lengths m p; Some (dvb_telephone_descriptor_country_prefix p + unat cp) }"

definition dvb_telephone_descriptor_operator_code :: "mem \<Rightarrow> nat \<Rightarrow> nat option" where
  "dvb_telephone_descriptor_operator_code m p =
     do { (cp, ia, oc, na, cn) \<leftarrow> telephone_lengths m p;
          q \<leftarrow> dvb_telephone_descriptor_international_area_code m p; Some (q + unat ia) }"

definition dvb_telephone_descriptor_national_area_code :: "mem \<Rightarrow> nat \<Rightarrow> nat option" where
  "dvb_telephone_descriptor_national_area_code m p =
     do { (cp, ia, oc, na, cn) \<leftarrow> telephone_lengths m p;
          q \<leftarrow> dvb_telephone_descriptor_operator_code m p; Some (q + unat oc) }"

definition dvb_telephone_descriptor_core_number :: "mem \<Rightarrow> nat \<Rightarrow> nat option" where
  "dvb_telephone_descriptor_core_number m p =
     do { (cp, ia, oc, na, cn) \<leftarrow> telephone_lengths m p;
          q \<leftarrow> dvb_telephone_descriptor_national_area_code m p; Some (q + unat na) }"

section \<open>State\<close>

record en50221_app_lowspeed_session =
  ls_session_number :: nat
  ls_block :: block

record en50221_app_lowspeed =
  ls_os :: os
  ls_locked :: bool
  command_callback :: "fptr option"
  send_callback :: "fptr option"
  ls_sessions :: "en50221_app_lowspeed_session list"

type_synonym 'a lowspeed = "'a en50221_app_lowspeed_scheme"

text \<open>The union of \<open>struct en50221_app_lowspeed_command\<close>; commands without parameters leave it unwritten.\<close>

datatype connection_descriptor = Telephone "u8 list" | Cable u8

datatype en50221_app_lowspeed_command =
    Connect_On_Channel connection_descriptor u8 u8
  | Set_Params u8 u8
  | Get_Next_Buffer u8
  | No_Parameters

record 'm lowspeed_user =
  command_call :: "fptr \<Rightarrow> nat \<Rightarrow> nat \<Rightarrow> u8 \<Rightarrow> en50221_app_lowspeed_command \<Rightarrow> 'm \<Rightarrow> ('m \<times> int) option"
  comms_send_call :: "fptr \<Rightarrow> nat \<Rightarrow> nat \<Rightarrow> u8 \<Rightarrow> u8 list \<Rightarrow> 'm \<Rightarrow> ('m \<times> int) option"

definition ls_lock :: "'a lowspeed \<Rightarrow> 'a lowspeed option" where
  "ls_lock ls = (if ls_locked ls then None else Some (ls\<lparr>ls_locked := True\<rparr>))"

definition ls_unlock :: "'a lowspeed \<Rightarrow> 'a lowspeed" where
  "ls_unlock ls = ls\<lparr>ls_locked := False\<rparr>"

definition en50221_app_lowspeed_create :: "os \<Rightarrow> os \<times> en50221_app_lowspeed option" where
  "en50221_app_lowspeed_create w =
     (let (w, ok) = malloc w in
      (w, if ok then Some \<lparr>ls_os = w, ls_locked = False, command_callback = None, send_callback = None, ls_sessions = []\<rparr>
          else None))"

text \<open>As in the man-machine interface, clearing a session that exists returns with the mutex held.\<close>

definition en50221_app_lowspeed_clear_session :: "'a lowspeed \<Rightarrow> nat \<Rightarrow> 'a lowspeed option" where
  "en50221_app_lowspeed_clear_session ls n =
     do {
       ls \<leftarrow> ls_lock ls;
       case first_index (\<lambda>x. ls_session_number x = n) (ls_sessions ls) 0 of
         None \<Rightarrow> Some (ls_unlock ls)
       | Some i \<Rightarrow>
           (case block_chain (ls_block (ls_sessions ls ! i)) of
              Uninit \<Rightarrow> None
            | Freed \<Rightarrow> None
            | _ \<Rightarrow> Some (ls\<lparr>ls_sessions := take i (ls_sessions ls) @ drop (Suc i) (ls_sessions ls)\<rparr>)) }"

definition en50221_app_lowspeed_register_command_callback :: "'a lowspeed \<Rightarrow> fptr option \<Rightarrow> 'a lowspeed option" where
  "en50221_app_lowspeed_register_command_callback ls cb =
     do { ls \<leftarrow> ls_lock ls; Some (ls_unlock (ls\<lparr>command_callback := cb\<rparr>)) }"

definition en50221_app_lowspeed_register_send_callback :: "'a lowspeed \<Rightarrow> fptr option \<Rightarrow> 'a lowspeed option" where
  "en50221_app_lowspeed_register_send_callback ls cb =
     do { ls \<leftarrow> ls_lock ls; Some (ls_unlock (ls\<lparr>send_callback := cb\<rparr>)) }"

section \<open>Messages to the module\<close>

definition en50221_app_lowspeed_send_comms_reply ::
  "'s en50221_app_send_functions \<Rightarrow> nat \<Rightarrow> u8 \<Rightarrow> u8 \<Rightarrow> 's \<Rightarrow> ('s \<times> int) option" where
  "en50221_app_lowspeed_send_comms_reply funcs n comms_reply_id return_value =
     send_data funcs n (tag_bytes TAG_COMMS_REPLY @ [2, comms_reply_id, return_value])"

definition en50221_app_lowspeed_send_comms_data ::
  "'s en50221_app_send_functions \<Rightarrow> nat \<Rightarrow> u8 \<Rightarrow> u8 list \<Rightarrow> 's \<Rightarrow> ('s \<times> int) option" where
  "en50221_app_lowspeed_send_comms_data funcs n phase_id tx_data st =
     (if length tx_data > 254 then Some (st, -1)
      else do {
        hdr \<leftarrow> tag_header TAG_COMMS_RECV_LAST (of_nat (length tx_data + 1));
        case hdr of
          None \<Rightarrow> Some (st, -1)
        | Some buf \<Rightarrow> send_datav funcs n [buf @ [phase_id], tx_data] st })"

section \<open>Commands of the module\<close>

text \<open>The end of a connect command: retry count and timeout must be all that is left.\<close>

definition connect_end :: "mem \<Rightarrow> connection_descriptor \<Rightarrow> nat \<Rightarrow> nat \<Rightarrow> en50221_app_lowspeed_command option option" where
  "connect_end m c p data_length =
     (if data_length \<noteq> 2 then Some None
      else do { retry_count \<leftarrow> rd m p; timeout \<leftarrow> rd m (p + 1); Some (Some (Connect_On_Channel c retry_count timeout)) })"

text \<open>The connection descriptor of \<open>asn\<close> bytes after the type, at \<open>p\<close>.\<close>

definition connection :: "mem \<Rightarrow> u8 \<Rightarrow> nat \<Rightarrow> nat \<Rightarrow> nat \<Rightarrow> en50221_app_lowspeed_command option option" where
  "connection m descriptor_type asn p data_length =
     (if descriptor_type = CONNECTION_DESCRIPTOR_TYPE_TELEPHONE then
        if asn < 2 then Some None
        else do {
          d_len \<leftarrow> rd m (p + 1);
          if asn \<noteq> 2 + unat d_len then Some None
          else do {
            d_tag \<leftarrow> rd m p;
            if d_tag \<noteq> dtag_dvb_telephone then Some None
            else do {
              ok \<leftarrow> dvb_telephone_descriptor_codec m p;
              if \<not> ok then Some None
              else do {
                d \<leftarrow> rd_bytes m p (2 + unat d_len);
                connect_end m (Telephone d) (p + 2 + unat d_len) (data_length - (2 + unat d_len)) } } } }
      else if descriptor_type = CONNECTION_DESCRIPTOR_TYPE_CABLE then
        if asn \<noteq> 1 then Some None
        else do { c \<leftarrow> rd m p; connect_end m (Cable c) (p + 1) (data_length - 1) }
      else Some None)"

definition en50221_app_lowspeed_parse_connect_on_channel ::
  "mem \<Rightarrow> nat \<Rightarrow> nat \<Rightarrow> en50221_app_lowspeed_command option option" where
  "en50221_app_lowspeed_parse_connect_on_channel m p data_length =
     (if data_length < 3 then Some None
      else do {
        tag \<leftarrow> read_tag (drop p m);
        if tag \<noteq> TAG_CONNECTION_DESCRIPTOR then Some None
        else do {
          (length_field_len, v) \<leftarrow> asn_1_decode m (p + 3) (data_length - 3);
          if length_field_len < 0 then Some None
          else do {
            asn_data_length \<leftarrow> v;
            let l = nat length_field_len;
            let data_length = data_length - 3 - l;
            if unat asn_data_length > data_length then Some None
            else if asn_data_length < 1 then Some None
            else do {
              descriptor_type \<leftarrow> rd m (p + 3 + l);
              connection m descriptor_type (unat asn_data_length - 1) (p + 3 + l + 1) (data_length - 1) } } } })"

text \<open>The parameters of the command with the identifier \<open>command_id\<close> in the \<open>len\<close> bytes from \<open>p\<close>.\<close>

definition command_parameters :: "mem \<Rightarrow> u8 \<Rightarrow> nat \<Rightarrow> nat \<Rightarrow> en50221_app_lowspeed_command option option" where
  "command_parameters m command_id p len =
     (if command_id = COMMS_COMMAND_ID_CONNECT_ON_CHANNEL then en50221_app_lowspeed_parse_connect_on_channel m p len
      else if command_id = COMMS_COMMAND_ID_SET_PARAMS then
        if len \<noteq> 2 then Some None
        else do { buffer_size \<leftarrow> rd m p; timeout \<leftarrow> rd m (p + 1); Some (Some (Set_Params buffer_size timeout)) }
      else if command_id = COMMS_COMMAND_ID_GET_NEXT_BUFFER then
        if len \<noteq> 1 then Some None
        else do { phase_id \<leftarrow> rd m p; Some (Some (Get_Next_Buffer phase_id)) }
      else if command_id = COMMS_COMMAND_ID_DISCONNECT_ON_CHANNEL \<or> command_id = COMMS_COMMAND_ID_ENQUIRE_STATUS
      then Some (Some No_Parameters)
      else Some None)"

definition en50221_app_lowspeed_parse_command ::
  "'a lowspeed lowspeed_user \<Rightarrow> nat \<Rightarrow> nat \<Rightarrow> mem \<Rightarrow> 'a lowspeed \<Rightarrow> ('a lowspeed \<times> int) option" where
  "en50221_app_lowspeed_parse_command user s n data ls =
     with_body 1 data ls (\<lambda>l asn_data_length. do {
       command_id \<leftarrow> rd data l;
       r \<leftarrow> command_parameters data command_id (l + 1) (asn_data_length - 1);
       case r of
         None \<Rightarrow> Some (ls, -1)
       | Some command \<Rightarrow> do {
           ls \<leftarrow> ls_lock ls;
           callback (\<lambda>f. command_call user f s n command_id command) (command_callback ls) (ls_unlock ls) } })"

section \<open>Data of the module\<close>

definition ls_put :: "'a lowspeed \<Rightarrow> os \<Rightarrow> nat \<Rightarrow> block \<Rightarrow> 'a lowspeed" where
  "ls_put ls w i b = ls\<lparr>ls_os := w, ls_sessions := (ls_sessions ls)[i := (ls_sessions ls ! i)\<lparr>ls_block := b\<rparr>]\<rparr>"

text \<open>The position of the session, which is created in front of the list when it is missing.\<close>

definition ls_ensure :: "'a lowspeed \<Rightarrow> nat \<Rightarrow> 'a lowspeed \<times> nat option" where
  "ls_ensure ls n =
     (case first_index (\<lambda>x. ls_session_number x = n) (ls_sessions ls) 0 of
        Some i \<Rightarrow> (ls, Some i)
      | None \<Rightarrow> (let (w, ok) = malloc (ls_os ls) in
          if ok then (ls\<lparr>ls_os := w, ls_sessions := \<lparr>ls_session_number = n, ls_block = no_block\<rparr> # ls_sessions ls\<rparr>, Some 0)
          else (ls\<lparr>ls_os := w\<rparr>, None)))"

text \<open>The data complete: the phase and the rest of the \<open>len\<close> bytes from \<open>p\<close> go to the application.\<close>

definition comms_data ::
  "'a lowspeed lowspeed_user \<Rightarrow> nat \<Rightarrow> nat \<Rightarrow> mem \<Rightarrow> nat \<Rightarrow> nat \<Rightarrow> 'a lowspeed \<Rightarrow> ('a lowspeed \<times> int) option" where
  "comms_data user s n m p len ls =
     (if len < 1 then Some (ls_unlock ls, -1)
      else do {
        phase_id \<leftarrow> rd m p;
        data \<leftarrow> rd_bytes m (p + 1) (len - 1);
        callback (\<lambda>f. comms_send_call user f s n phase_id data) (send_callback ls) (ls_unlock ls) })"

text \<open>The length of the data put together is kept in \<open>asn_data_length\<close>, a \<open>uint16_t\<close>.\<close>

definition en50221_app_lowspeed_parse_send ::
  "'a lowspeed lowspeed_user \<Rightarrow> nat \<Rightarrow> nat \<Rightarrow> bool \<Rightarrow> mem \<Rightarrow> 'a lowspeed \<Rightarrow> ('a lowspeed \<times> int) option" where
  "en50221_app_lowspeed_parse_send user s n more_last data ls =
     with_body 0 data ls (\<lambda>l asn_data_length. do {
       ls \<leftarrow> ls_lock ls;
       if \<not> more_last then
         (case ls_ensure ls n of
            (ls, None) \<Rightarrow> Some (ls_unlock ls, -1)
          | (ls, Some i) \<Rightarrow> do {
              indata \<leftarrow> rd_bytes data l asn_data_length;
              let b = ls_block (ls_sessions ls ! i);
              (w, b', new) \<leftarrow> block_append (ls_os ls) b indata;
              Some (case new of
                None \<Rightarrow> (ls_unlock (ls_put ls w i b'), -1)
              | Some new_data \<Rightarrow> (ls_unlock (ls_put ls w i (grown b new_data indata)), 0)) })
       else
         (case first_index (\<lambda>x. ls_session_number x = n) (ls_sessions ls) 0 of
            None \<Rightarrow> comms_data user s n data l asn_data_length ls
          | Some i \<Rightarrow> do {
              indata \<leftarrow> rd_bytes data l asn_data_length;
              let b = ls_block (ls_sessions ls ! i);
              (w, b', new) \<leftarrow> block_append (ls_os ls) b indata;
              case new of
                None \<Rightarrow> Some (ls_unlock (ls_put ls w i b'), -1)
              | Some new_data \<Rightarrow>
                  comms_data user s n new_data 0 (unat (ucast (block_length b + of_nat asn_data_length) :: u16)) (ls_put ls w i no_block) }) })"

definition en50221_app_lowspeed_message ::
  "'a lowspeed lowspeed_user \<Rightarrow> nat \<Rightarrow> nat \<Rightarrow> mem \<Rightarrow> 'a lowspeed \<Rightarrow> ('a lowspeed \<times> int) option" where
  "en50221_app_lowspeed_message user s n data ls =
     on_tag data ls (\<lambda>tag data.
       if tag = TAG_COMMS_COMMAND then en50221_app_lowspeed_parse_command user s n data ls
       else if tag = TAG_COMMS_SEND_LAST then en50221_app_lowspeed_parse_send user s n True data ls
       else if tag = TAG_COMMS_SEND_MORE then en50221_app_lowspeed_parse_send user s n False data ls
       else Some (ls, -1))"

end
