(* ===== verification/En50221_Lowspeed_Props.thy ===== *)
theory En50221_Lowspeed_Props
  imports En50221_Lowspeed
begin

text \<open>
  What the low-speed communication resource does: commands never lead it out of the message and reach the application
  as they were sent; data in fragments is put together, up to the 65535 bytes its length variable can count; clearing
  a session stops it.
\<close>

section \<open>Fragments\<close>

definition ls_fragment :: "u8 list \<Rightarrow> bool" where
  "ls_fragment d \<longleftrightarrow> d \<noteq> [] \<and> length d < 65536"

abbreviation ls_find :: "nat \<Rightarrow> 'a lowspeed \<Rightarrow> nat option" where
  "ls_find n ls \<equiv> first_index (\<lambda>x. ls_session_number x = n) (ls_sessions ls) 0"

text \<open>Session \<open>n\<close> exists and has collected the bytes \<open>xs\<close>.\<close>

definition ls_collected :: "nat \<Rightarrow> 'a lowspeed \<Rightarrow> u8 list \<Rightarrow> bool" where
  "ls_collected n ls xs \<longleftrightarrow> \<not> ls_locked ls \<and> plenty (ls_os ls) \<and>
     (\<exists>i. ls_find n ls = Some i \<and> i < length (ls_sessions ls) \<and> holds (ls_block (ls_sessions ls ! i)) xs)"

definition ls_same :: "'a lowspeed \<Rightarrow> 'a lowspeed \<Rightarrow> bool" where
  "ls_same ls ls' \<longleftrightarrow> send_callback ls' = send_callback ls"

definition ls_more :: "'a lowspeed lowspeed_user \<Rightarrow> nat \<Rightarrow> nat \<Rightarrow> u8 list \<Rightarrow> 'a lowspeed \<Rightarrow> 'a lowspeed option" where
  "ls_more user s n d ls =
     (case en50221_app_lowspeed_message user s n (apdu TAG_COMMS_SEND_MORE d) ls of
        Some (ls, r) \<Rightarrow> if r = 0 then Some ls else None | None \<Rightarrow> None)"

text \<open>What the application gets of the data \<open>xs\<close>: as much as the 16-bit length says.\<close>

definition ls_deliver :: "'a lowspeed lowspeed_user \<Rightarrow> nat \<Rightarrow> nat \<Rightarrow> u8 list \<Rightarrow> 'a lowspeed \<Rightarrow> ('a lowspeed \<times> int) option" where
  "ls_deliver user s n xs ls =
     (if length xs mod 65536 = 0 then Some (ls, -1)
      else callback (\<lambda>f. comms_send_call user f s n (hd xs) (take (length xs mod 65536 - 1) (tl xs))) (send_callback ls) ls)"

lemma first_index_number:
  "map g ys = map g xs \<Longrightarrow> first_index (\<lambda>x. g x = n) ys j = first_index (\<lambda>x. g x = n) xs j"
proof -
  have "first_index (\<lambda>x. g x = n) zs j = first_index (\<lambda>k. k = n) (map g zs) j" for zs j
    by (induction zs arbitrary: j) simp_all
  then show "map g ys = map g xs \<Longrightarrow> ?thesis" by simp
qed

lemma ls_put_simps [simp]:
  "ls_locked (ls_put ls w i b) = ls_locked ls" "ls_os (ls_put ls w i b) = w" "send_callback (ls_put ls w i b) = send_callback ls"
  "length (ls_sessions (ls_put ls w i b)) = length (ls_sessions ls)"
  "(ls_put (ls\<lparr>ls_locked := l\<rparr>) w i b) = (ls_put ls w i b)\<lparr>ls_locked := l\<rparr>"
  "i < length (ls_sessions ls) \<Longrightarrow> ls_block (ls_sessions (ls_put ls w i b) ! i) = b"
  by (simp_all add: ls_put_def)

lemma ls_find_put [simp]: "ls_find n (ls_put ls w i b) = ls_find n ls"
proof (rule first_index_number)
  show "map ls_session_number (ls_sessions (ls_put ls w i b)) = map ls_session_number (ls_sessions ls)"
    by (cases "i < length (ls_sessions ls)") (auto simp: ls_put_def map_update list_update_beyond intro!: nth_equalityI simp: nth_list_update)
qed

lemma ls_stay [simp]: "\<not> ls_locked ls \<Longrightarrow> ls\<lparr>ls_locked := False\<rparr> = ls"
  by (cases ls) simp

lemma ls_relock: "\<not> ls_locked ls \<Longrightarrow> ls_lock ls = Some (ls\<lparr>ls_locked := True\<rparr>)"
  by (simp add: ls_lock_def)

lemma ls_unlock_again [simp]: "\<not> ls_locked ls \<Longrightarrow> ls_unlock (ls\<lparr>ls_locked := True\<rparr>) = ls"
  by (cases ls) (simp add: ls_unlock_def)

lemma ls_message_send:
  "en50221_app_lowspeed_message user s n (apdu TAG_COMMS_SEND_MORE d) ls
     = en50221_app_lowspeed_parse_send user s n False (asn_1_bytes (of_nat (length d)) @ d) ls"
  "en50221_app_lowspeed_message user s n (apdu TAG_COMMS_SEND_LAST d) ls
     = en50221_app_lowspeed_parse_send user s n True (asn_1_bytes (of_nat (length d)) @ d) ls"
  unfolding en50221_app_lowspeed_message_def by (subst on_tag_apdu; simp add: comms_ids)+

lemma comms_data_deliver:
  assumes "\<not> ls_locked ls" "m = pre @ xs" "k = length xs mod 65536"
  shows "comms_data user s n m (length pre) k (ls\<lparr>ls_locked := True\<rparr>) = ls_deliver user s n xs ls"
proof (cases "k = 0")
  case True
  then show ?thesis using assms by (simp add: comms_data_def ls_deliver_def)
next
  case False
  then have x: "xs \<noteq> []" "k \<le> length xs" using assms(3) by auto
  then have "rd m (length pre) = Some (hd xs)" by (simp add: assms(2) rd_def nth_append hd_conv_nth)
  moreover have "rd_bytes m (length pre + 1) (k - 1) = Some (take (k - 1) (tl xs))"
    using x False by (cases xs) (auto simp: assms(2) rd_bytes_def)
  ultimately show ?thesis using False assms(1,3) by (simp add: comms_data_def ls_deliver_def)
qed

lemma ls_more_step:
  assumes "ls_collected n ls xs" "ls_fragment d" "length xs + length d < 2 ^ 32"
  shows "\<exists>ls'. ls_more user s n d ls = Some ls' \<and> ls_collected n ls' (xs @ d) \<and> ls_same ls ls'"
proof -
  let ?h = "asn_1_bytes (of_nat (length d))"
  from assms(1) obtain i where i: "ls_find n ls = Some i" "i < length (ls_sessions ls)" "holds (ls_block (ls_sessions ls ! i)) xs"
    and m: "\<not> ls_locked ls" "plenty (ls_os ls)" by (auto simp: ls_collected_def)
  let ?b = "ls_block (ls_sessions ls ! i)"
  obtain b' where b': "block_append (ls_os ls) ?b d = Some (os_tick (ls_os ls), b', Some (xs @ d))"
    using block_append_holds [OF i(3) assms(3) plenty_malloc [OF m(2)]] assms(2) by (auto simp: ls_fragment_def)
  let ?l = "ls_put ls (os_tick (ls_os ls)) i (grown ?b (xs @ d) d)"
  have d: "rd_bytes (?h @ d) (length ?h) (length d) = Some d" by (simp add: rd_bytes_def)
  have "en50221_app_lowspeed_parse_send user s n False (?h @ d) ls = Some (?l, 0)"
    using i(1) b' d m(1) assms(2)
    by (simp add: en50221_app_lowspeed_parse_send_def with_body_bytes ls_fragment_def ls_relock ls_ensure_def Let_def)
  then have "ls_more user s n d ls = Some ?l" by (simp add: ls_more_def ls_message_send)
  moreover have "holds (grown ?b (xs @ d) d) (xs @ d)"
    using i(3) assms(3) by (intro holds_grown) (auto simp: holds_def)
  then have "ls_collected n ?l (xs @ d)" using m i by (simp add: ls_collected_def)
  ultimately show ?thesis by (simp add: ls_same_def)
qed

lemma ls_last_step:
  assumes "ls_collected n ls xs" "ls_fragment d" "length xs + length d < 2 ^ 32"
  shows "\<exists>ls'. en50221_app_lowspeed_message user s n (apdu TAG_COMMS_SEND_LAST d) ls = ls_deliver user s n (xs @ d) ls'
    \<and> ls_collected n ls' [] \<and> ls_same ls ls'"
proof -
  let ?h = "asn_1_bytes (of_nat (length d))"
  from assms(1) obtain i where i: "ls_find n ls = Some i" "i < length (ls_sessions ls)" "holds (ls_block (ls_sessions ls ! i)) xs"
    and m: "\<not> ls_locked ls" "plenty (ls_os ls)" by (auto simp: ls_collected_def)
  let ?b = "ls_block (ls_sessions ls ! i)"
  obtain b' where b': "block_append (ls_os ls) ?b d = Some (os_tick (ls_os ls), b', Some (xs @ d))"
    using block_append_holds [OF i(3) assms(3) plenty_malloc [OF m(2)]] assms(2) by (auto simp: ls_fragment_def)
  let ?l = "ls_put ls (os_tick (ls_os ls)) i no_block"
  have d: "rd_bytes (?h @ d) (length ?h) (length d) = Some d" by (simp add: rd_bytes_def)
  have "unat (block_length ?b + of_nat (length d)) = length (xs @ d)"
    using length_block [OF _ assms(3)] i(3) by (auto simp: holds_def)
  then have k: "unat (ucast (block_length ?b + of_nat (length d)) :: u16) = length (xs @ d) mod 65536"
    by (simp add: unsigned_ucast_eq take_bit_eq_mod)
  have "en50221_app_lowspeed_parse_send user s n True (?h @ d) ls = comms_data user s n (xs @ d) (length ([] :: u8 list)) (length (xs @ d) mod 65536) (?l\<lparr>ls_locked := True\<rparr>)"
    using i(1) b' d m(1) assms(2) k
    by (simp add: en50221_app_lowspeed_parse_send_def with_body_bytes ls_fragment_def ls_relock Let_def)
  also have "\<dots> = ls_deliver user s n (xs @ d) ?l"
    by (rule comms_data_deliver) (use m in simp_all)
  finally have "en50221_app_lowspeed_message user s n (apdu TAG_COMMS_SEND_LAST d) ls = ls_deliver user s n (xs @ d) ?l"
    by (simp add: ls_message_send)
  moreover have "ls_collected n ?l []" using m i holds_no_block by (simp add: ls_collected_def)
  ultimately show ?thesis by (intro exI [of _ ?l]) (simp add: ls_same_def)
qed

interpretation comms: reassembly "ls_collected n" ls_fragment "2 ^ 32" "ls_more user s n"
    "\<lambda>d. en50221_app_lowspeed_message user s n (apdu TAG_COMMS_SEND_LAST d)" "ls_deliver user s n" ls_same
  for n s and user :: "'a lowspeed lowspeed_user"
proof
  show "ls_same x x" for x :: "'a lowspeed" by (simp add: ls_same_def)
  show "ls_same x y \<Longrightarrow> ls_same y z \<Longrightarrow> ls_same x z" for x y z :: "'a lowspeed" by (simp add: ls_same_def)
qed (auto intro: ls_more_step ls_last_step)

lemma ls_more_first:
  assumes "\<not> ls_locked ls" "plenty (ls_os ls)" "ls_find n ls = None" "ls_fragment d"
  shows "\<exists>ls'. ls_more user s n d ls = Some ls' \<and> ls_collected n ls' d \<and> ls_same ls ls'"
proof -
  let ?l = "ls\<lparr>ls_os := os_tick (ls_os ls), ls_sessions := \<lparr>ls_session_number = n, ls_block = no_block\<rparr> # ls_sessions ls\<rparr>"
  have "ls_collected n ?l []" using assms(1,2) by (simp add: ls_collected_def holds_no_block)
  then obtain ls' where l: "ls_more user s n d ?l = Some ls'" "ls_collected n ls' ([] @ d)" "ls_same ?l ls'"
    using ls_more_step [of n ?l "[]" d user s] assms(4) by (auto simp: ls_fragment_def)
  have "ls_ensure (ls\<lparr>ls_locked := True\<rparr>) n = ls_ensure (?l\<lparr>ls_locked := True\<rparr>) n"
    using assms(2,3) by (simp add: ls_ensure_def malloc_def plenty_malloc)
  then have "ls_more user s n d ls = ls_more user s n d ?l"
    using assms(1,4) by (simp add: ls_more_def ls_message_send en50221_app_lowspeed_parse_send_def with_body_bytes ls_fragment_def ls_relock)
  with l show ?thesis by (intro exI [of _ ls']) (simp add: ls_same_def)
qed

text \<open>Any way to cut the data up gives the same delivery.\<close>

lemma ls_data:
  assumes "\<not> ls_locked ls" "plenty (ls_os ls)" "ls_find n ls = None" "list_all ls_fragment ds" "ls_fragment d"
    "length (concat ds @ d) < 2 ^ 32"
  shows "\<exists>ls1 ls2. feed (ls_more user s n) ds ls = Some ls1 \<and> send_callback ls2 = send_callback ls
    \<and> en50221_app_lowspeed_message user s n (apdu TAG_COMMS_SEND_LAST d) ls1 = ls_deliver user s n (concat ds @ d) ls2"
proof (cases ds)
  case Nil
  let ?h = "asn_1_bytes (of_nat (length d))"
  have k: "length d = length d mod 65536" using assms(5) by (simp add: ls_fragment_def)
  have "en50221_app_lowspeed_message user s n (apdu TAG_COMMS_SEND_LAST d) ls
      = comms_data user s n (?h @ d) (length ?h) (length d) (ls\<lparr>ls_locked := True\<rparr>)"
    using assms(1,3,5) by (simp add: ls_message_send en50221_app_lowspeed_parse_send_def with_body_bytes ls_fragment_def ls_relock)
  also have "\<dots> = ls_deliver user s n d ls" by (rule comms_data_deliver [OF assms(1) refl k])
  finally show ?thesis using Nil by (intro exI [of _ ls]) simp
next
  case (Cons d0 ds')
  from ls_more_first [OF assms(1-3), of d0 user s] assms(4) Cons obtain l0 where
    l0: "ls_more user s n d0 ls = Some l0" "ls_collected n l0 d0" "ls_same ls l0" by auto
  from comms.reassembled [OF l0(2), of ds' d user s] assms(4-6) Cons obtain l1 l2 where
    "feed (ls_more user s n) ds' l0 = Some l1" "ls_same l0 l2"
    "en50221_app_lowspeed_message user s n (apdu TAG_COMMS_SEND_LAST d) l1 = ls_deliver user s n (d0 @ concat ds' @ d) l2"
    by auto
  with l0 Cons show ?thesis by (intro exI [of _ l1] exI [of _ l2]) (simp add: ls_same_def)
qed

section \<open>Commands\<close>

lemma telephone_codec_safe:
  assumes "rd m (p + 1) = Some d_len" "p + 2 + unat d_len \<le> length m"
  shows "\<exists>ok. dvb_telephone_descriptor_codec m p = Some ok"
  using assms by (auto simp: dvb_telephone_descriptor_codec_def telephone_lengths_def)

lemma connection_safe:
  assumes "asn \<le> data_length" "p + data_length \<le> length m"
  shows "\<exists>r. connection m ty asn p data_length = Some r"
proof -
  have e: "\<exists>r. connect_end m c q l = Some r" if "q + l \<le> length m" for c q l
    using that by (simp add: connect_end_def)
  have tel: "\<exists>r. do { ok \<leftarrow> dvb_telephone_descriptor_codec m p;
      if \<not> ok then Some None else do { d \<leftarrow> rd_bytes m p (2 + unat (m ! Suc p));
        connect_end m (Telephone d) (p + 2 + unat (m ! Suc p)) (data_length - (2 + unat (m ! Suc p))) } } = Some r"
    if "asn = 2 + unat (m ! Suc p)"
  proof -
    have l: "p + 2 + unat (m ! Suc p) \<le> length m" "Suc p < length m" using that assms by auto
    then obtain ok where "dvb_telephone_descriptor_codec m p = Some ok" using telephone_codec_safe [of m p "m ! Suc p"] by auto
    moreover have "\<exists>r. connect_end m c (p + 2 + unat (m ! Suc p)) (data_length - (2 + unat (m ! Suc p))) = Some r" for c
      using that assms by (intro e) simp
    ultimately show ?thesis using l by (cases ok) (simp_all add: rd_bytes_def)
  qed
  show ?thesis
    using assms tel e [of "p + 1" "data_length - 1"] by (auto simp: connection_def simp del: add_2_eq_Suc add_2_eq_Suc')
qed

lemma connect_safe:
  assumes "p + data_length \<le> length m"
  shows "\<exists>r. en50221_app_lowspeed_parse_connect_on_channel m p data_length = Some r"
proof (cases "data_length < 3")
  case True
  then show ?thesis by (simp add: en50221_app_lowspeed_parse_connect_on_channel_def)
next
  case False
  have "3 \<le> length (drop p m)" using assms False by simp
  then obtain tag where tag: "read_tag (drop p m) = Some tag" using read_tag_total by blast
  obtain r v where d: "asn_1_decode m (p + 3) (data_length - 3) = Some (r, v)"
    "r = -1 \<and> v = None \<or> 1 \<le> r \<and> r \<le> 3 \<and> r \<le> int (data_length - 3) \<and> v \<noteq> None"
    using decode_safe [of "p + 3" "data_length - 3" m] assms False by auto
  show ?thesis
  proof (cases "r < 0")
    case True
    with d tag False show ?thesis by (simp add: en50221_app_lowspeed_parse_connect_on_channel_def)
  next
    case r: False
    then obtain l a where l: "r = int l" "1 \<le> l" "l \<le> data_length - 3" "v = Some a" using d(2) by (cases r) auto
    have "\<exists>r. connection m ty (unat a - 1) (p + 3 + l + 1) (data_length - 3 - l - 1) = Some r"
      if "unat a \<le> data_length - 3 - l" "1 \<le> unat a" for ty
      using that assms l False by (intro connection_safe) auto
    moreover have "p + 3 + l < length m" if "unat a \<le> data_length - 3 - l" "1 \<le> unat a" using that assms l False by auto
    ultimately show ?thesis using d(1) l tag False
      by (auto simp: en50221_app_lowspeed_parse_connect_on_channel_def word_less_nat_alt Let_def)
  qed
qed

lemma parameters_safe: "p + len \<le> length m \<Longrightarrow> \<exists>r. command_parameters m command_id p len = Some r"
  using connect_safe [of p len m] by (auto simp: command_parameters_def)

section \<open>Properties\<close>

text \<open>C33: 
  Data for the line reaches the application with its phase as it was sent, whatever the cuts between the fragments,
  as long as it is shorter than 65536 bytes, no fragment is empty and the memory suffices.
\<close>

theorem lowspeed_data_delivered:
  assumes "\<not> ls_locked ls" "plenty (ls_os ls)" "ls_find n ls = None" "list_all ls_fragment ds" "ls_fragment d"
    "concat ds @ d = phase_id # xs" "length xs < 65535"
  shows "\<exists>ls1 ls2. feed (ls_more user s n) ds ls = Some ls1
    \<and> en50221_app_lowspeed_message user s n (apdu TAG_COMMS_SEND_LAST d) ls1
      = callback (\<lambda>f. comms_send_call user f s n phase_id xs) (send_callback ls) ls2"
proof -
  obtain ls1 ls2 where "feed (ls_more user s n) ds ls = Some ls1" "send_callback ls2 = send_callback ls"
    "en50221_app_lowspeed_message user s n (apdu TAG_COMMS_SEND_LAST d) ls1 = ls_deliver user s n (phase_id # xs) ls2"
    using ls_data [OF assms(1-5), of user s] assms(6,7) by auto
  moreover have "length (phase_id # xs) mod 65536 = Suc (length xs)" using assms(7) by simp
  ultimately show ?thesis by (intro exI [of _ ls1] exI [of _ ls2]) (simp add: ls_deliver_def)
qed

text \<open>
  The length of the data put together is counted in 16 bits: of longer data only the first \<open>n mod 65536\<close> bytes are
  handed over, and data of a multiple of 65536 bytes is refused as too short.
\<close>

theorem lowspeed_data_truncated:
  assumes "\<not> ls_locked ls" "plenty (ls_os ls)" "ls_find n ls = None" "list_all ls_fragment ds" "ls_fragment d"
    "concat ds @ d = phase_id # xs" "65536 \<le> length (phase_id # xs)" "length (phase_id # xs) < 2 ^ 32"
  shows "\<exists>ls1 ls2. feed (ls_more user s n) ds ls = Some ls1
    \<and> en50221_app_lowspeed_message user s n (apdu TAG_COMMS_SEND_LAST d) ls1
      = (if length (phase_id # xs) mod 65536 = 0 then Some (ls2, -1)
         else callback (\<lambda>f. comms_send_call user f s n phase_id (take (length (phase_id # xs) mod 65536 - 1) xs)) (send_callback ls) ls2)
    \<and> length (take (length (phase_id # xs) mod 65536 - 1) xs) < length xs"
proof -
  obtain ls1 ls2 where "feed (ls_more user s n) ds ls = Some ls1" "send_callback ls2 = send_callback ls"
    "en50221_app_lowspeed_message user s n (apdu TAG_COMMS_SEND_LAST d) ls1 = ls_deliver user s n (phase_id # xs) ls2"
    using ls_data [OF assms(1-5), of user s] assms(6,8) by auto
  moreover have "length (phase_id # xs) mod 65536 - 1 < length xs"
    using assms(7) mod_less_divisor [of 65536 "length (phase_id # xs)"] by (simp only: list.size)
  ultimately show ?thesis by (intro exI [of _ ls1] exI [of _ ls2]) (simp add: ls_deliver_def)
qed

text \<open>
  Whatever a module sends as a command, the handler reads only inside the message; it needs only that the mutex is
  free.
\<close>

theorem lowspeed_command_safe:
  assumes "\<not> ls_locked ls" "\<And>f id c. command_call user f s n id c ls \<noteq> None"
  shows "en50221_app_lowspeed_message user s n (tag_bytes TAG_COMMS_COMMAND @ data) ls \<noteq> None"
proof -
  have "wp (en50221_app_lowspeed_parse_command user s n data ls) (\<lambda>_. True)"
    unfolding en50221_app_lowspeed_parse_command_def
  proof (rule wp_with_body)
    fix l k assume l: "1 \<le> k" "l + k \<le> length data"
    then have "l + 1 + (k - 1) \<le> length data" by simp
    from parameters_safe [OF this] obtain r where
      r: "command_parameters data (data ! l) (l + 1) (k - 1) = Some r" by blast
    have "wp (callback (\<lambda>f. command_call user f s n id c) (command_callback (ls\<lparr>ls_locked := True\<rparr>)) (ls_unlock (ls\<lparr>ls_locked := True\<rparr>))) (\<lambda>_. True)" for id c
      using assms by (intro wp_callback) (auto simp: wp_def)
    with l r assms(1) show "wp (do { command_id \<leftarrow> rd data l; r \<leftarrow> command_parameters data command_id (l + 1) (k - 1);
        case r of None \<Rightarrow> Some (ls, -1) | Some command \<Rightarrow> do { ls \<leftarrow> ls_lock ls;
          callback (\<lambda>f. command_call user f s n command_id command) (command_callback ls) (ls_unlock ls) } }) (\<lambda>_. True)"
      by (cases r) (simp_all add: ls_relock wp_Some)
  qed simp
  moreover have "read_tag (tag_bytes TAG_COMMS_COMMAND @ data) = Some TAG_COMMS_COMMAND"
    by (rule tag_roundtrip) (simp add: comms_ids)
  ultimately show ?thesis by (auto simp: en50221_app_lowspeed_message_def on_tag_def wp_def)
qed

text \<open>An abstract telephone descriptor: the byte with the connection type and the five numbers.\<close>

type_synonym telephone = "u8 \<times> u8 list \<times> u8 list \<times> u8 list \<times> u8 list \<times> u8 list"

definition telephone_ok :: "telephone \<Rightarrow> bool" where
  "telephone_ok = (\<lambda>(x, cp, ia, oc, na, cn). length cp < 4 \<and> length ia < 8 \<and> length oc < 4 \<and> length na < 8 \<and> length cn < 16)"

definition telephone_bytes :: "telephone \<Rightarrow> u8 list" where
  "telephone_bytes = (\<lambda>(x, cp, ia, oc, na, cn).
     [dtag_dvb_telephone, of_nat (3 + length (cp @ ia @ oc @ na @ cn)), x,
      of_nat (length cp * 32 + length ia * 4 + length oc), of_nat (length na * 16 + length cn)] @ cp @ ia @ oc @ na @ cn)"

lemma unat_field: "n < 256 \<Longrightarrow> unat (take_bit k (drop_bit j (of_nat n :: u8))) = (n div 2 ^ j) mod 2 ^ k"
  by (simp only: unsigned_take_bit_eq unsigned_drop_bit_eq unat_of_nat_u8) (simp add: take_bit_eq_mod drop_bit_eq_div)

lemma packed_fields:
  fixes a b c :: nat
  assumes "a < 4" "b < 8" "c < 4"
  shows "(a * 32 + b * 4 + c) div 32 mod 4 = a" "(a * 32 + b * 4 + c) div 4 mod 8 = b" "(a * 32 + b * 4 + c) mod 4 = c"
proof -
  have "(a * 32 + b * 4 + c) div 32 = a" using assms by (intro div_nat_eqI) simp_all
  then show "(a * 32 + b * 4 + c) div 32 mod 4 = a" using assms by simp
  have "(a * 32 + b * 4 + c) div 4 = a * 8 + b" using assms by (intro div_nat_eqI) simp_all
  then show "(a * 32 + b * 4 + c) div 4 mod 8 = b" using assms by simp
  have "(c + 4 * (a * 8 + b)) mod 4 = c" unfolding mod_mult_self2 using assms by simp
  moreover have "a * 32 + b * 4 + c = c + 4 * (a * 8 + b)" by simp
  ultimately show "(a * 32 + b * 4 + c) mod 4 = c" by metis
qed

lemma telephone_lengths_bytes:
  assumes "telephone_ok (x, cp, ia, oc, na, cn)" "m = pre @ telephone_bytes (x, cp, ia, oc, na, cn) @ post" "p = length pre"
  shows "\<exists>a b c d e. telephone_lengths m p = Some (a, b, c, d, e)
    \<and> unat a = length cp \<and> unat b = length ia \<and> unat c = length oc \<and> unat d = length na \<and> unat e = length cn"
proof -
  let ?a = "length cp * 32 + length ia * 4 + length oc" and ?b = "length na * 16 + length cn"
  have l: "length cp < 4" "length ia < 8" "length oc < 4" "length na < 8" "length cn < 16" using assms(1) by (auto simp: telephone_ok_def)
  define A B :: u8 where "A = of_nat ?a" and "B = of_nat ?b"
  then have "m = pre @ [dtag_dvb_telephone, of_nat (3 + length (cp @ ia @ oc @ na @ cn)), x, A, B] @ cp @ ia @ oc @ na @ cn @ post"
    by (simp only: assms(2) telephone_bytes_def split append.assoc)
  then have "rd m (p + 3) = Some A" "rd m (p + 4) = Some B"
    by (simp_all only: assms(3)) (simp_all add: rd_def nth_append numeral_3_eq_3)
  then have tl: "telephone_lengths m p
      = Some (take_bit 2 (drop_bit 5 A), take_bit 3 (drop_bit 2 A), take_bit 2 (drop_bit 0 A), take_bit 3 (drop_bit 4 B), take_bit 4 (drop_bit 0 B))"
    by (simp add: telephone_lengths_def)
  have ab: "?a < 256" "?b < 256" using l by linarith+
  have "?a div 2 ^ 5 mod 2 ^ 2 = length cp" "?a div 2 ^ 2 mod 2 ^ 3 = length ia" "?a div 2 ^ 0 mod 2 ^ 2 = length oc"
      "?b div 2 ^ 4 mod 2 ^ 3 = length na" "?b div 2 ^ 0 mod 2 ^ 4 = length cn"
    using packed_fields [OF l(1-3)] l(4,5) by simp_all
  note fields = this unat_field [OF ab(1), folded A_def] unat_field [OF ab(2), folded B_def]
  show ?thesis unfolding tl by (intro exI conjI, rule refl) (simp_all only: fields)
qed

lemma telephone_head: "\<exists>hd. length hd = 5 \<and> telephone_bytes (x, cp, ia, oc, na, cn) = hd @ cp @ ia @ oc @ na @ cn"
  unfolding telephone_bytes_def split by (rule exI, rule conjI [rotated], rule refl) simp

lemma telephone_accepted:
  assumes "telephone_ok t" "m = pre @ telephone_bytes t @ post" "p = length pre"
  shows "dvb_telephone_descriptor_codec m p = Some True"
proof -
  obtain x cp ia oc na cn where t: "t = (x, cp, ia, oc, na, cn)" by (cases t)
  obtain a b c d e where l: "telephone_lengths m p = Some (a, b, c, d, e)"
    "unat a = length cp" "unat b = length ia" "unat c = length oc" "unat d = length na" "unat e = length cn"
    using telephone_lengths_bytes [OF assms(1) [unfolded t] assms(2) [unfolded t] assms(3)] by blast
  let ?n = "3 + length (cp @ ia @ oc @ na @ cn)"
  have "rd m (p + 1) = Some (of_nat ?n)"
    by (simp add: assms(2,3) t telephone_bytes_def rd_def nth_append del: of_nat_add of_nat_Suc)
  moreover have "?n < 256" using assms(1) by (simp add: t telephone_ok_def)
  then have "unat (of_nat ?n :: u8) = ?n" by (rule unat_of_nat_u8)
  ultimately show ?thesis using l
    by (simp add: dvb_telephone_descriptor_codec_def add.assoc del: of_nat_add of_nat_Suc)
qed

text \<open>
  The telephone descriptor: the codec accepts every serialised one, and its five accessors point to the country prefix,
  the international area code, the operator code, the national area code and the core number.
\<close>

theorem telephone_roundtrip:
  assumes "telephone_ok (x, cp, ia, oc, na, cn)" "m = pre @ telephone_bytes (x, cp, ia, oc, na, cn) @ post" "p = length pre"
  shows "dvb_telephone_descriptor_codec m p = Some True
    \<and> rd_bytes m (dvb_telephone_descriptor_country_prefix p) (length cp) = Some cp
    \<and> (\<exists>q. dvb_telephone_descriptor_international_area_code m p = Some q \<and> rd_bytes m q (length ia) = Some ia)
    \<and> (\<exists>q. dvb_telephone_descriptor_operator_code m p = Some q \<and> rd_bytes m q (length oc) = Some oc)
    \<and> (\<exists>q. dvb_telephone_descriptor_national_area_code m p = Some q \<and> rd_bytes m q (length na) = Some na)
    \<and> (\<exists>q. dvb_telephone_descriptor_core_number m p = Some q \<and> rd_bytes m q (length cn) = Some cn)"
proof -
  obtain a b c d e where l: "telephone_lengths m p = Some (a, b, c, d, e)"
    "unat a = length cp" "unat b = length ia" "unat c = length oc" "unat d = length na" "unat e = length cn"
    using telephone_lengths_bytes [OF assms] by blast
  obtain hd where h: "length hd = 5" "m = (pre @ hd) @ cp @ ia @ oc @ na @ cn @ post"
    using telephone_head [of x cp ia oc na cn] assms(2) by auto
  have at: "rd_bytes (xs @ ys @ zs) (length xs) (length ys) = Some ys" for xs ys zs :: mem
    by (simp add: rd_bytes_def)
  show ?thesis
    using telephone_accepted [OF assms] l h assms(3)
      at [of "pre @ hd" cp "ia @ oc @ na @ cn @ post"] at [of "pre @ hd @ cp" ia "oc @ na @ cn @ post"]
      at [of "pre @ hd @ cp @ ia" oc "na @ cn @ post"] at [of "pre @ hd @ cp @ ia @ oc" na "cn @ post"]
      at [of "pre @ hd @ cp @ ia @ oc @ na" cn post]
    by (simp add: dvb_telephone_descriptor_country_prefix_def dvb_telephone_descriptor_international_area_code_def
        dvb_telephone_descriptor_operator_code_def dvb_telephone_descriptor_national_area_code_def
        dvb_telephone_descriptor_core_number_def add.assoc)
qed

theorem telephone_roundtrip_witness:
  "rd_bytes ([1, 2] @ telephone_bytes (0x24, [4], [], [], [9], [1, 2, 3])) (dvb_telephone_descriptor_country_prefix 2) 1 = Some [4]
    \<and> dvb_telephone_descriptor_codec ([1, 2] @ telephone_bytes (0x24, [4], [], [], [9], [1, 2, 3])) 2 = Some True"
  using telephone_roundtrip [of "0x24" "[4]" "[]" "[]" "[9]" "[1, 2, 3]" "[1, 2] @ telephone_bytes (0x24, [4], [], [], [9], [1, 2, 3])" "[1, 2]" "[]" 2]
  by (simp add: telephone_ok_def)

text \<open>A connect command: the connection descriptor with its type, then retry count and timeout.\<close>

fun connection_bytes :: "connection_descriptor \<Rightarrow> u8 list" where
  "connection_bytes (Telephone d) = CONNECTION_DESCRIPTOR_TYPE_TELEPHONE # d"
| "connection_bytes (Cable c) = [CONNECTION_DESCRIPTOR_TYPE_CABLE, c]"

fun connection_ok :: "connection_descriptor \<Rightarrow> bool" where
  "connection_ok (Telephone d) \<longleftrightarrow> (\<exists>t. telephone_ok t \<and> d = telephone_bytes t)"
| "connection_ok (Cable c) \<longleftrightarrow> True"

definition connect_bytes :: "connection_descriptor \<Rightarrow> u8 \<Rightarrow> u8 \<Rightarrow> u8 list" where
  "connect_bytes c retry_count timeout =
     COMMS_COMMAND_ID_CONNECT_ON_CHANNEL # apdu TAG_CONNECTION_DESCRIPTOR (connection_bytes c) @ [retry_count, timeout]"

lemma telephone_length: "telephone_ok t \<Longrightarrow> length (telephone_bytes t) < 64"
  by (auto simp: telephone_ok_def telephone_bytes_def)

lemma connection_parsed:
  assumes "connection_ok c" "m = pre @ connection_bytes c @ [r, t]" "p = length pre"
  shows "connection m (hd (connection_bytes c)) (length (connection_bytes c) - 1) (p + 1) (length (connection_bytes c) - 1 + 2)
    = Some (Some (Connect_On_Channel c r t))"
proof (cases c)
  case (Cable k)
  then show ?thesis by (simp add: assms(2,3) connection_def connect_end_def comms_ids rd_def nth_append)
next
  case (Telephone d)
  obtain x where x: "telephone_ok x" "d = telephone_bytes x" using assms(1) Telephone by auto
  have m: "m = (pre @ [CONNECTION_DESCRIPTOR_TYPE_TELEPHONE]) @ telephone_bytes x @ [r, t]" using assms(2) by (simp add: Telephone x(2))
  obtain n d' where d: "d = dtag_dvb_telephone # n # d'" "unat n = length d'"
  proof -
    obtain b cp ia oc na cn where t: "x = (b, cp, ia, oc, na, cn)" by (cases x)
    show ?thesis using that x(1) unat_of_nat_u8 [of "3 + length (cp @ ia @ oc @ na @ cn)"]
      by (auto simp: x(2) t telephone_bytes_def telephone_ok_def simp del: of_nat_add of_nat_Suc)
  qed
  have "rd m (p + 1) = Some dtag_dvb_telephone" "rd m (p + 1 + 1) = Some n"
    by (simp_all add: m assms(3) x(2) [symmetric] d(1) rd_def nth_append)
  moreover have "dvb_telephone_descriptor_codec m (p + 1) = Some True"
    by (rule telephone_accepted [OF x(1) m]) (simp add: assms(3))
  moreover have "rd_bytes m (p + 1) (2 + unat n) = Some d"
    by (simp add: m assms(3) x(2) [symmetric] d rd_bytes_def)
  moreover have "rd m (p + 1 + 2 + unat n) = Some r" "rd m (p + 1 + 2 + unat n + 1) = Some t"
    by (simp_all add: m assms(3) x(2) [symmetric] d rd_def nth_append)
  ultimately show ?thesis
    by (simp add: Telephone connection_def connect_end_def d)
qed

text \<open>
  A command to connect reaches the application with the telephone descriptor or the cable channel, the retry count
  and the timeout that were sent.
\<close>

theorem lowspeed_connect_understood:
  assumes "\<not> ls_locked ls" "connection_ok c"
  shows "en50221_app_lowspeed_message user s n (apdu TAG_COMMS_COMMAND (connect_bytes c r t)) ls
    = callback (\<lambda>f. command_call user f s n COMMS_COMMAND_ID_CONNECT_ON_CHANNEL (Connect_On_Channel c r t)) (command_callback ls) ls"
proof -
  let ?cb = "connection_bytes c" and ?cmd = "connect_bytes c r t"
  have len: "0 < length ?cb" "length ?cb < 65" using assms(2) telephone_length by (cases c; fastforce)+
  let ?h = "asn_1_bytes (of_nat (length ?cb))" and ?H = "asn_1_bytes (of_nat (length ?cmd))"
  obtain k where h: "?h = [k]" using len by (simp add: asn_1_bytes_def word_less_nat_alt unat_of_nat_u16)
  have cmd: "?cmd = COMMS_COMMAND_ID_CONNECT_ON_CHANNEL # tag_bytes TAG_CONNECTION_DESCRIPTOR @ ?h @ ?cb @ [r, t]"
    by (simp add: connect_bytes_def apdu_def)
  have l: "length ?cmd = 7 + length ?cb" by (simp add: cmd h)
  let ?m = "?H @ ?cmd"
  have m: "?m = (?H @ [COMMS_COMMAND_ID_CONNECT_ON_CHANNEL] @ tag_bytes TAG_CONNECTION_DESCRIPTOR @ ?h) @ ?cb @ [r, t]" by (simp add: cmd)
  have id: "rd ?m (length ?H) = Some COMMS_COMMAND_ID_CONNECT_ON_CHANNEL" by (simp add: cmd rd_def nth_append)
  have tag: "read_tag (drop (length ?H + 1) ?m) = Some TAG_CONNECTION_DESCRIPTOR"
    using tag_roundtrip [of TAG_CONNECTION_DESCRIPTOR "?h @ ?cb @ [r, t]"] by (simp add: cmd comms_ids)
  have dec: "asn_1_decode ?m (length ?H + 1 + 3) (length ?cmd - 1 - 3) = Some (1, Some (of_nat (length ?cb)))"
    using decode_bytes [of "?H @ [COMMS_COMMAND_ID_CONNECT_ON_CHANNEL] @ tag_bytes TAG_CONNECTION_DESCRIPTOR" "length ?H + 1 + 3" "of_nat (length ?cb)" "length ?cmd - 1 - 3" "?cb @ [r, t]"]
    by (simp add: cmd h)
  have ty: "rd ?m (length ?H + 1 + 3 + 1) = Some (hd ?cb)"
    using len(1) by (simp add: m rd_def nth_append h hd_conv_nth)
  have u: "unat (of_nat (length ?cb) :: u16) = length ?cb" using len by (simp add: unat_of_nat_u16)
  have "en50221_app_lowspeed_parse_connect_on_channel ?m (length ?H + 1) (length ?cmd - 1) = Some (Some (Connect_On_Channel c r t))"
    using connection_parsed [OF assms(2) m refl] tag dec ty u len l
    by (simp add: en50221_app_lowspeed_parse_connect_on_channel_def Let_def word_less_nat_alt h)
  then have "command_parameters ?m COMMS_COMMAND_ID_CONNECT_ON_CHANNEL (length ?H + 1) (length ?cmd - 1) = Some (Some (Connect_On_Channel c r t))"
    by (simp add: command_parameters_def)
  moreover have "length ?cmd < 65536" "1 \<le> length ?cmd" using l len by simp_all
  moreover have "en50221_app_lowspeed_message user s n (apdu TAG_COMMS_COMMAND ?cmd) ls = en50221_app_lowspeed_parse_command user s n ?m ls"
    unfolding en50221_app_lowspeed_message_def by (subst on_tag_apdu) (simp_all add: comms_ids)
  ultimately show ?thesis
    using assms(1) id by (simp add: en50221_app_lowspeed_parse_command_def with_body_bytes ls_relock)
qed

section \<open>An application to try the theorems on\<close>

definition demo_ls :: "en50221_app_lowspeed_session list \<Rightarrow> en50221_app_lowspeed" where
  "demo_ls ss = \<lparr>ls_os = calm_os, ls_locked = False, command_callback = Some 1, send_callback = Some 2, ls_sessions = ss\<rparr>"

definition demo_ls_user :: "'m lowspeed_user" where
  "demo_ls_user = \<lparr>command_call = \<lambda>f s n id c m. Some (m, if c = Connect_On_Channel (Cable 7) 3 20 then 5 else 0),
     comms_send_call = \<lambda>f s n phase_id data m. Some (m, int (length data))\<rparr>"

lemma demo_ls_simps [simp]:
  "\<not> ls_locked (demo_ls ss)" "plenty (ls_os (demo_ls ss))" "ls_sessions (demo_ls ss) = ss"
  "send_callback (demo_ls ss) = Some 2" "command_callback (demo_ls ss) = Some 1"
  by (simp_all add: demo_ls_def)

theorem lowspeed_data_delivered_witness:
  "\<exists>ls1 ls2. feed (ls_more demo_ls_user 0 1) [[9], [1, 2]] (demo_ls []) = Some ls1
    \<and> en50221_app_lowspeed_message demo_ls_user 0 1 (apdu TAG_COMMS_SEND_LAST [3]) ls1 = Some (ls2, 3)"
  using lowspeed_data_delivered [of "demo_ls []" 1 "[[9], [1, 2]]" "[3]" 9 "[1, 2, 3]" demo_ls_user 0]
  by (auto simp: ls_fragment_def callback_def demo_ls_user_def)

theorem lowspeed_data_truncated_witness:
  "\<exists>ls1 ls2. feed (ls_more demo_ls_user 0 1) [replicate 40000 0] (demo_ls []) = Some ls1
    \<and> en50221_app_lowspeed_message demo_ls_user 0 1 (apdu TAG_COMMS_SEND_LAST (replicate 40000 0)) ls1 = Some (ls2, 14463)"
proof -
  have "concat [replicate 40000 0] @ replicate 40000 0 = (0 :: u8) # replicate 79999 0"
    by (simp flip: replicate_Suc replicate_add)
  from lowspeed_data_truncated [OF _ _ _ _ _ this, of "demo_ls []" 1 demo_ls_user 0] show ?thesis
    by (auto simp: ls_fragment_def callback_def demo_ls_user_def)
qed

theorem lowspeed_command_safe_witness:
  "en50221_app_lowspeed_message demo_ls_user 0 1 (tag_bytes TAG_COMMS_COMMAND @ [0x82, 0, 9, 1, 0x9f, 0x8c]) (demo_ls []) \<noteq> None"
  by (rule lowspeed_command_safe) (simp_all add: demo_ls_user_def)

theorem lowspeed_connect_understood_witness:
  "en50221_app_lowspeed_message demo_ls_user 0 1 (apdu TAG_COMMS_COMMAND (connect_bytes (Cable 7) 3 20)) (demo_ls []) = Some (demo_ls [], 5)"
  by (subst lowspeed_connect_understood) (simp_all add: callback_def demo_ls_user_def)

end
