(* ===== verification/Structs.thy ===== *)
theory Structs
  imports Entry_Table Endianops "HOL-Library.Signed_Division"
begin

text \<open>
  Reading the fields of C structures and the loops of the descriptor codecs, for the inline functions of the descriptor
  headers of \<open>lib/libucsi\<close>.  A structure is a number of fields; a field is a number of bytes in host order or some bits
  of them.  Values are natural numbers; a difference of type \<open>int\<close> is an integer.
\<close>

section \<open>Fields\<close>

definition be_val :: "u8 list \<Rightarrow> nat" where
  "be_val bs = foldl (\<lambda>a b. 256 * a + unat b) 0 bs"

definition rd8 :: "mem \<Rightarrow> nat \<Rightarrow> nat option" where
  "rd8 m p = do { b \<leftarrow> rd m p; Some (unat b) }"

definition ldn :: "byte_order \<Rightarrow> nat \<Rightarrow> mem \<Rightarrow> nat \<Rightarrow> nat option" where
  "ldn e n m p = do { bs \<leftarrow> rd_bytes m p n; Some (be_val (if e = BigEndian then bs else rev bs)) }"

text \<open>\<open>w\<close> bits above the lowest \<open>lo\<close> of the \<open>n\<close> bytes at \<open>p\<close>: the macros \<open>EBITn\<close> put the first declared field into the
  most significant bits on both hosts.\<close>

definition fld :: "byte_order \<Rightarrow> nat \<Rightarrow> nat \<Rightarrow> nat \<Rightarrow> mem \<Rightarrow> nat \<Rightarrow> nat option" where
  "fld e n lo w m p = do { v \<leftarrow> ldn e n m p; Some (v div 2 ^ lo mod 2 ^ w) }"

fun bswap64 :: "byte_order \<Rightarrow> mem \<Rightarrow> nat \<Rightarrow> mem option" where
  "bswap64 BigEndian buf p = Some buf"
| "bswap64 LittleEndian buf p = do { v \<leftarrow> rd_bytes buf p 8; blit buf p (rev v) }"

text \<open>The fields of a structure: a value with its offset, its number of bytes, its lowest bit and its number of bits, or
  an array of bytes.\<close>

datatype member = Value nat nat nat nat | Bytes nat nat

type_synonym layout = "(string \<times> member) list"

text \<open>Unsigned differences.\<close>

definition u32_of :: "int \<Rightarrow> nat" where
  "u32_of i = nat (i mod 2 ^ 32)"

definition u64_of :: "int \<Rightarrow> nat" where
  "u64_of i = nat (i mod 2 ^ 64)"

definition sub32 :: "nat \<Rightarrow> nat \<Rightarrow> nat" where
  "sub32 a b = u32_of (int a - int b)"

lemma sub32_le: "b \<le> a \<Longrightarrow> a < 2 ^ 32 \<Longrightarrow> sub32 a b = a - b"
  by (auto simp: sub32_def u32_of_def nat_mod_distrib of_nat_diff nat_diff_distrib)

section \<open>Loops\<close>

text \<open>A \<open>while\<close> loop with the state \<open>s\<close>; the body may return \<open>NULL\<close> from the function, which ends the loop with
  \<open>False\<close>.\<close>

partial_function (option) while_do :: "('s \<Rightarrow> bool option) \<Rightarrow> ('s \<Rightarrow> ('s \<times> bool) option) \<Rightarrow> 's \<Rightarrow> ('s \<times> bool) option" where
  "while_do c b s =
     do {
       go \<leftarrow> c s;
       if go then do { (s, ok) \<leftarrow> b s; if ok then while_do c b s else Some (s, False) }
       else Some (s, True) }"

declare while_do.simps [code]

section \<open>Frames\<close>

text \<open>\<open>m'\<close> is \<open>m\<close> but for the bytes from \<open>lo\<close> to \<open>hi\<close>.\<close>

definition same :: "nat \<Rightarrow> nat \<Rightarrow> mem \<Rightarrow> mem \<Rightarrow> bool" where
  "same lo hi m m' \<longleftrightarrow> length m' = length m \<and> (\<forall>i < length m. i < lo \<or> hi \<le> i \<longrightarrow> m' ! i = m ! i)"

lemma same_refl [simp]: "same lo hi m m"
  by (simp add: same_def)

lemma same_length: "same lo hi m m' \<Longrightarrow> length m' = length m"
  by (simp add: same_def)

lemma same_trans: "same lo hi m m' \<Longrightarrow> same lo hi m' m'' \<Longrightarrow> same lo hi m m''"
  by (simp add: same_def)

lemma same_mono: "same a b m m' \<Longrightarrow> lo \<le> a \<Longrightarrow> b \<le> hi \<Longrightarrow> same lo hi m m'"
  by (auto simp: same_def)

lemma same_rd8: "same lo hi m m' \<Longrightarrow> p < lo \<or> hi \<le> p \<Longrightarrow> rd8 m' p = rd8 m p"
  by (auto simp: same_def rd8_def rd_def)

lemma rev_at_nth: "p + n \<le> length m \<Longrightarrow> i < length m
    \<Longrightarrow> rev_at m p n ! i = (if p \<le> i \<and> i < p + n then m ! (2 * p + n - 1 - i) else m ! i)"
  by (auto simp: rev_at_def nth_append rev_nth min_def intro!: arg_cong [where f = "(!) m"])

lemma same_rev_at: "p + n \<le> length m \<Longrightarrow> same p (p + n) m (rev_at m p n)"
  by (auto simp: same_def rev_at_nth)

text \<open>The effect of the swaps as a pure function.\<close>

definition swapped :: "byte_order \<Rightarrow> nat \<Rightarrow> mem \<Rightarrow> nat \<Rightarrow> mem" where
  "swapped e n m p = (if e = BigEndian \<or> length m < p + n then m else rev_at m p n)"

lemma bswap64_rev_at: "p + 8 \<le> length m \<Longrightarrow> bswap64 LittleEndian m p = Some (rev_at m p 8)"
  by (simp add: rd_bytes_def rev_at_def)

lemma bswap_swapped:
  "p + 2 \<le> length m \<Longrightarrow> bswap16 e m p = Some (swapped e 2 m p)"
  "p + 3 \<le> length m \<Longrightarrow> bswap24 e m p = Some (swapped e 3 m p)"
  "p + 4 \<le> length m \<Longrightarrow> bswap32 e m p = Some (swapped e 4 m p)"
  "p + 5 \<le> length m \<Longrightarrow> bswap40 e m p = Some (swapped e 5 m p)"
  "p + 6 \<le> length m \<Longrightarrow> bswap48 e m p = Some (swapped e 6 m p)"
  "p + 8 \<le> length m \<Longrightarrow> bswap64 e m p = Some (swapped e 8 m p)"
  by (cases e; simp only: swapped_def swaps_rev_at bswap64_rev_at byte_order.distinct simp_thms if_True if_False not_less [symmetric]
      bswap16.simps(1) bswap24.simps(1) bswap32.simps(1) bswap40.simps(1) bswap48.simps(1) bswap64.simps(1))+

lemma length_swapped [simp]: "length (swapped e n m p) = length m"
  by (simp add: swapped_def)

lemma same_swapped: "same lo hi m0 m \<Longrightarrow> lo \<le> p \<Longrightarrow> p + n \<le> hi \<Longrightarrow> same lo hi m0 (swapped e n m p)"
  by (auto simp: same_def swapped_def rev_at_nth)

lemma swapped_nth: "i < p \<or> p + n \<le> i \<Longrightarrow> i < length m \<Longrightarrow> swapped e n m p ! i = m ! i"
  by (auto simp: swapped_def rev_at_nth)

declare bswap16_swap2 [simp del]

section \<open>Weakest preconditions\<close>

named_theorems safe_simps \<open>rules that show that a codec stays inside its descriptor\<close>

lemma wp_swaps [safe_simps]:
  "p + 2 \<le> length m \<Longrightarrow> wp (bswap16 e m p) Q \<longleftrightarrow> Q (swapped e 2 m p)"
  "p + 3 \<le> length m \<Longrightarrow> wp (bswap24 e m p) Q \<longleftrightarrow> Q (swapped e 3 m p)"
  "p + 4 \<le> length m \<Longrightarrow> wp (bswap32 e m p) Q \<longleftrightarrow> Q (swapped e 4 m p)"
  "p + 5 \<le> length m \<Longrightarrow> wp (bswap40 e m p) Q \<longleftrightarrow> Q (swapped e 5 m p)"
  "p + 6 \<le> length m \<Longrightarrow> wp (bswap48 e m p) Q \<longleftrightarrow> Q (swapped e 6 m p)"
  "p + 8 \<le> length m \<Longrightarrow> wp (bswap64 e m p) Q \<longleftrightarrow> Q (swapped e 8 m p)"
  by (simp_all only: bswap_swapped wp_Some)

text \<open>What a read returns when it stays in bounds.\<close>

definition byte_at :: "mem \<Rightarrow> nat \<Rightarrow> nat" where
  "byte_at m p = unat (m ! p)"

definition val_at :: "byte_order \<Rightarrow> nat \<Rightarrow> mem \<Rightarrow> nat \<Rightarrow> nat" where
  "val_at e n m p = be_val (if e = BigEndian then take n (drop p m) else rev (take n (drop p m)))"

lemma byte_at_less: "byte_at m p < 256"
  by (simp add: byte_at_def unat_byte_lt)

lemma wp_reads [safe_simps]:
  "p < length m \<Longrightarrow> wp (rd8 m p) Q \<longleftrightarrow> Q (byte_at m p)"
  "p + n \<le> length m \<Longrightarrow> wp (ldn e n m p) Q \<longleftrightarrow> Q (val_at e n m p)"
  "p + n \<le> length m \<Longrightarrow> wp (fld e n lo w m p) Q \<longleftrightarrow> Q (val_at e n m p div 2 ^ lo mod 2 ^ w)"
  by (simp_all add: rd8_def ldn_def fld_def rd_bytes_def byte_at_def val_at_def wp_bind wp_Some cong: if_cong)

lemmas wp_steps [safe_simps] = wp_bind wp_Some wp_if Let_def case_prod_conv same_refl same_swapped length_swapped

text \<open>A loop that makes progress.\<close>

lemma wp_while_do:
  fixes f :: "'s \<Rightarrow> nat"
  assumes "I s" "\<And>s. I s \<Longrightarrow> wp (c s) (\<lambda>go. if go then wp (b s) (\<lambda>(s', ok). if ok then I s' \<and> f s' < f s else Q (s', False)) else Q (s, True))"
  shows "wp (while_do c b s) Q"
  using assms(1)
proof (induction "f s" arbitrary: s rule: less_induct)
  case less
  have step: "wp (c s) (\<lambda>go. if go then wp (b s) (\<lambda>(s', ok). if ok then I s' \<and> f s' < f s else Q (s', False)) else Q (s, True))"
    by (rule assms(2) [OF less.prems])
  have "wp (c s) (\<lambda>go. wp (if go then do { (s, ok) \<leftarrow> b s; if ok then while_do c b s else Some (s, False) } else Some (s, True)) Q)"
    using step
  proof (rule wp_mono)
    fix go
    assume g: "if go then wp (b s) (\<lambda>(s', ok). if ok then I s' \<and> f s' < f s else Q (s', False)) else Q (s, True)"
    show "wp (if go then do { (s, ok) \<leftarrow> b s; if ok then while_do c b s else Some (s, False) } else Some (s, True)) Q"
      using g less.hyps by (auto simp: wp_Some wp_bind split: if_splits elim!: wp_mono)
  qed
  then show ?case by (subst while_do.simps) (simp add: wp_bind)
qed

text \<open>The loops of the codecs: a position runs up to a length, with entries of one size or with checks in the body.\<close>

section \<open>Frame rules\<close>

text \<open>The same steps as introduction rules, for codecs with several branches that join again: the memory is only known
  to be \<open>same\<close> as the one before, and \<open>wp_join\<close> keeps a bound of the position.\<close>

named_theorems wp_frame \<open>rules for codecs whose memory is known up to a frame\<close>

lemma wp_same_reads [wp_frame]:
  "same lo hi m0 m \<Longrightarrow> p < length m0 \<Longrightarrow> wp (k (byte_at m p)) Q \<Longrightarrow> wp (Option.bind (rd8 m p) k) Q"
  "same lo hi m0 m \<Longrightarrow> p + n \<le> length m0 \<Longrightarrow> wp (k (val_at e n m p)) Q \<Longrightarrow> wp (Option.bind (ldn e n m p) k) Q"
  "same lo hi m0 m \<Longrightarrow> p + n \<le> length m0 \<Longrightarrow> wp (k (val_at e n m p div 2 ^ l mod 2 ^ w)) Q \<Longrightarrow> wp (Option.bind (fld e n l w m p) k) Q"
  by (simp_all add: same_def wp_bind wp_reads)

lemma wp_same_swaps [wp_frame]:
  assumes "same lo hi m0 m" "lo \<le> p" "hi \<le> length m0" "\<And>m. same lo hi m0 m \<Longrightarrow> wp (k m) Q"
  shows "p + 2 \<le> hi \<Longrightarrow> wp (Option.bind (bswap16 e m p) k) Q"
    "p + 3 \<le> hi \<Longrightarrow> wp (Option.bind (bswap24 e m p) k) Q"
    "p + 4 \<le> hi \<Longrightarrow> wp (Option.bind (bswap32 e m p) k) Q"
    "p + 5 \<le> hi \<Longrightarrow> wp (Option.bind (bswap40 e m p) k) Q"
    "p + 6 \<le> hi \<Longrightarrow> wp (Option.bind (bswap48 e m p) k) Q"
    "p + 8 \<le> hi \<Longrightarrow> wp (Option.bind (bswap64 e m p) k) Q"
  using assms(1-3) by (auto simp: wp_bind wp_swaps same_length intro!: assms(4) same_swapped)

declare wp_ifI [wp_frame] wp_SomeI [wp_frame]

lemma wp_bind_SomeI [wp_frame]: "wp (k x) Q \<Longrightarrow> wp (Option.bind (Some x) k) Q"
  by simp

lemma wp_prodI [wp_frame]:
  "wp (k a b) Q \<Longrightarrow> wp (case_prod k (a, b)) Q"
  "wp (k' a b c) Q \<Longrightarrow> wp (case_prod k' (a, b) c) Q"
  by simp_all

lemma wp_join:
  assumes "wp x (\<lambda>((m, pos), ok). same lo hi m0 m \<and> (ok \<longrightarrow> P pos))"
    and "\<And>m pos ok. same lo hi m0 m \<Longrightarrow> ok \<longrightarrow> P pos \<Longrightarrow> wp (k ((m, pos), ok)) Q"
  shows "wp (Option.bind x k) Q"
  using assms(1) unfolding wp_bind by (rule wp_mono) (auto intro: assms(2))

lemma wp_entries [wp_frame]:
  fixes len :: nat
  assumes "same lo hi m0 m1" "\<And>m pos. \<lbrakk> same lo hi m0 m; p0 \<le> pos; pos < len \<rbrakk>
      \<Longrightarrow> wp (b (m, pos)) (\<lambda>((m', pos'), ok). same lo hi m0 m' \<and> (ok \<longrightarrow> pos < pos'))"
    and "\<And>m pos ok. same lo hi m0 m \<Longrightarrow> wp (k ((m, pos), ok)) Q"
  shows "wp (Option.bind (while_do (\<lambda>(m, pos). Some (pos < len)) b (m1, p0)) k) Q"
  unfolding wp_bind
proof (rule wp_while_do [where I = "\<lambda>(m, pos). same lo hi m0 m \<and> p0 \<le> pos" and f = "\<lambda>(m, pos). len - pos"])
  show "case (m1, p0) of (m, pos) \<Rightarrow> same lo hi m0 m \<and> p0 \<le> pos" using assms(1) by simp
next
  fix s
  assume "case s of (m, pos) \<Rightarrow> same lo hi m0 m \<and> p0 \<le> pos"
  then obtain m pos where s: "s = (m, pos)" "same lo hi m0 m" "p0 \<le> pos" by (cases s) auto
  then show "wp (case s of (m, pos) \<Rightarrow> Some (pos < len)) (\<lambda>go. if go then wp (b s) (\<lambda>(s', ok).
      if ok then (case s' of (m, pos) \<Rightarrow> same lo hi m0 m \<and> p0 \<le> pos) \<and> (case s' of (m, pos) \<Rightarrow> len - pos) < (case s of (m, pos) \<Rightarrow> len - pos)
      else wp (k (s', False)) Q) else wp (k (s, True)) Q)"
    using assms(2) [of m pos] assms(3) by (auto simp: wp_Some elim!: wp_mono)
qed

lemma wp_cells [wp_frame]:
  fixes len :: nat and b :: "mem \<times> nat \<times> 'b \<Rightarrow> ((mem \<times> nat \<times> 'b) \<times> bool) option"
  assumes "same lo hi m0 m1" "\<And>m pos pos2. \<lbrakk> same lo hi m0 m; p0 \<le> pos; pos < len \<rbrakk>
      \<Longrightarrow> wp (b (m, pos, pos2)) (\<lambda>((m', pos', pos2'), ok). same lo hi m0 m' \<and> (ok \<longrightarrow> pos < pos'))"
    and "\<And>m pos pos2 ok. same lo hi m0 m \<Longrightarrow> wp (k ((m, pos, pos2), ok)) Q"
  shows "wp (Option.bind (while_do (\<lambda>(m, pos, pos2). Some (pos < len)) b (m1, p0, p2)) k) Q"
  unfolding wp_bind
proof (rule wp_while_do [where I = "\<lambda>(m, pos, pos2). same lo hi m0 m \<and> p0 \<le> pos" and f = "\<lambda>(m, pos, pos2). len - pos"])
  show "case (m1, p0, p2) of (m, pos, pos2) \<Rightarrow> same lo hi m0 m \<and> p0 \<le> pos" using assms(1) by simp
next
  fix s :: "mem \<times> nat \<times> 'b"
  assume "case s of (m, pos, pos2) \<Rightarrow> same lo hi m0 m \<and> p0 \<le> pos"
  then obtain m pos pos2 where s: "s = (m, pos, pos2)" "same lo hi m0 m" "p0 \<le> pos" by (cases s) auto
  then show "wp (case s of (m, pos, pos2) \<Rightarrow> Some (pos < len)) (\<lambda>go. if go then wp (b s) (\<lambda>(s', ok).
      if ok then (case s' of (m, pos, pos2) \<Rightarrow> same lo hi m0 m \<and> p0 \<le> pos)
        \<and> (case s' of (m, pos, pos2) \<Rightarrow> len - pos) < (case s of (m, pos, pos2) \<Rightarrow> len - pos)
      else wp (k (s', False)) Q) else wp (k (s, True)) Q)"
    using assms(2) [of m pos pos2] assms(3) by (auto simp: wp_Some elim!: wp_mono)
qed

text \<open>A loop over a number of entries.\<close>

lemma wp_counted_entries:
  fixes b :: "mem \<times> 'p \<times> nat \<Rightarrow> ((mem \<times> 'p \<times> nat) \<times> bool) option"
  assumes "same lo hi m0 m1" "\<And>m pos idx. same lo hi m0 m \<Longrightarrow> c (m, pos, idx) = Some (idx < n)"
    and "\<And>m pos idx. same lo hi m0 m \<Longrightarrow> wp (b (m, pos, idx)) (\<lambda>((m', pos', idx'), ok). same lo hi m0 m' \<and> (ok \<longrightarrow> idx' = Suc idx))"
    and "\<And>m pos idx ok. same lo hi m0 m \<Longrightarrow> wp (k ((m, pos, idx), ok)) Q"
  shows "wp (Option.bind (while_do c b (m1, p0, i0)) k) Q"
  unfolding wp_bind
proof (rule wp_while_do [where I = "\<lambda>(m, pos, idx). same lo hi m0 m" and f = "\<lambda>(m, pos, idx). n - idx"])
  show "case (m1, p0, i0) of (m, pos, idx) \<Rightarrow> same lo hi m0 m" using assms(1) by simp
next
  fix s :: "mem \<times> 'p \<times> nat"
  assume "case s of (m, pos, idx) \<Rightarrow> same lo hi m0 m"
  then obtain m pos idx where s: "s = (m, pos, idx)" "same lo hi m0 m" by (cases s) auto
  then show "wp (c s) (\<lambda>go. if go then wp (b s) (\<lambda>(s', ok). if ok then (case s' of (m, pos, idx) \<Rightarrow> same lo hi m0 m)
        \<and> (case s' of (m, pos, idx) \<Rightarrow> n - idx) < (case s of (m, pos, idx) \<Rightarrow> n - idx)
      else wp (k (s', False)) Q) else wp (k (s, True)) Q)"
    using assms(2) assms(3) [of m pos idx] assms(4) by (auto simp: wp_Some elim!: wp_mono)
qed

text \<open>A loop inside an entry over \<open>L\<close> bytes of entries of size \<open>k\<close>; \<open>L\<close> is read again in each round.\<close>

lemma wp_inner:
  fixes L :: nat
  assumes c: "\<And>m pos. same lo hi m1 m \<Longrightarrow> c (m, pos) = Some (pos < L)"
    and b: "\<And>m pos. same lo hi m1 m \<Longrightarrow> pos + k \<le> L \<Longrightarrow> wp (b (m, pos)) (\<lambda>((m', pos'), ok). ok \<and> same lo hi m1 m' \<and> pos' = pos + k)"
    and k: "0 < k" "L mod k = 0"
    and cont: "\<And>m pos. same lo hi m1 m \<Longrightarrow> wp (K ((m, pos), True)) Q"
  shows "wp (Option.bind (while_do c b (m1, 0)) K) Q"
  unfolding wp_bind
proof (rule wp_while_do [where I = "\<lambda>(m, pos). same lo hi m1 m \<and> k dvd pos" and f = "\<lambda>(m, pos). L - pos"])
  show "case (m1, 0) of (m, pos) \<Rightarrow> same lo hi m1 m \<and> k dvd pos" by simp
next
  fix s
  assume "case s of (m, pos) \<Rightarrow> same lo hi m1 m \<and> k dvd pos"
  then obtain m pos where s: "s = (m, pos)" "same lo hi m1 m" "k dvd pos" by (cases s) auto
  have "pos + k \<le> L" if "pos < L"
  proof -
    have "k dvd L - pos" using s(3) k(2) by (auto simp: dvd_diff_nat mod_eq_0_iff_dvd)
    then show ?thesis using that dvd_imp_le [of k "L - pos"] by auto
  qed
  then show "wp (c s) (\<lambda>go. if go then wp (b s) (\<lambda>(s', ok). if ok then (case s' of (m, pos) \<Rightarrow> same lo hi m1 m \<and> k dvd pos)
        \<and> (case s' of (m, pos) \<Rightarrow> L - pos) < (case s of (m, pos) \<Rightarrow> L - pos) else wp (K (s', False)) Q) else wp (K (s, True)) Q)"
    using s k(1) c b [of m pos] cont by (auto simp: wp_Some elim!: wp_mono)
qed

text \<open>Where the branches are few, what follows them is moved into each.\<close>

named_theorems wp_push \<open>rules that move what follows a branch into it\<close>

lemma wp_bind_ifI [wp_push]:
  "(c \<Longrightarrow> wp (Option.bind a k) Q) \<Longrightarrow> (\<not> c \<Longrightarrow> wp (Option.bind b k) Q) \<Longrightarrow> wp (Option.bind (if c then a else b) k) Q"
  by simp

lemma wp_bind_bindI [wp_push]: "wp (Option.bind a (\<lambda>x. Option.bind (f x) k)) Q \<Longrightarrow> wp (Option.bind (Option.bind a f) k) Q"
  by (simp add: wp_bind)

lemma wp_bind_prodI [wp_push]:
  "wp (Option.bind (f a b) k) Q \<Longrightarrow> wp (Option.bind (case_prod f (a, b)) k) Q"
  "wp (Option.bind (g a b c) k) Q \<Longrightarrow> wp (Option.bind (case_prod g (a, b) c) k) Q"
  by simp_all

section \<open>Codecs of descriptors\<close>

text \<open>The value of a member as the host reads it and as it was transmitted.\<close>

fun host_member :: "byte_order \<Rightarrow> mem \<Rightarrow> nat \<Rightarrow> member \<Rightarrow> nat option" where
  "host_member e m d (Value off n lo w) = fld e n lo w m (d + off)"
| "host_member e m d (Bytes off n) = ldn BigEndian n m (d + off)"

fun wire_member :: "mem \<Rightarrow> nat \<Rightarrow> member \<Rightarrow> nat" where
  "wire_member m d (Value off n lo w) = val_at BigEndian n m (d + off) div 2 ^ lo mod 2 ^ w"
| "wire_member m d (Bytes off n) = val_at BigEndian n m (d + off)"

fun member_end :: "member \<Rightarrow> nat" where
  "member_end (Value off n lo w) = off + n"
| "member_end (Bytes off n) = off + n"

definition decodes :: "byte_order \<Rightarrow> layout \<Rightarrow> mem \<Rightarrow> nat \<Rightarrow> mem \<Rightarrow> bool" where
  "decodes e lay m d m' \<longleftrightarrow> list_all (\<lambda>(s, x). host_member e m' d x = Some (wire_member m d x)) lay"

definition layout_within :: "nat \<Rightarrow> layout \<Rightarrow> bool" where
  "layout_within k lay \<longleftrightarrow> list_all (\<lambda>(s, x). member_end x \<le> k) lay"

lemma ldn_Some: "p + n \<le> length m \<Longrightarrow> ldn e n m p = Some (val_at e n m p)"
  by (simp add: ldn_def rd_bytes_def val_at_def)

lemma rd8_Some: "p < length m \<Longrightarrow> rd8 m p = Some (byte_at m p)"
  by (simp add: rd8_def byte_at_def)

lemma fld_Some: "p + n \<le> length m \<Longrightarrow> fld e n lo w m p = Some (val_at e n m p div 2 ^ lo mod 2 ^ w)"
  by (simp add: fld_def ldn_Some)

lemma val_at_cong:
  assumes "length m' = length m" "\<And>i. p \<le> i \<Longrightarrow> i < p + n \<Longrightarrow> i < length m \<Longrightarrow> m' ! i = m ! i"
  shows "val_at e n m' p = val_at e n m p"
proof -
  have "take n (drop p m') = take n (drop p m)"
    by (rule nth_equalityI) (use assms in auto)
  then show ?thesis by (simp add: val_at_def)
qed

lemma val_at_other: "p + n \<le> q \<or> q + k \<le> p \<Longrightarrow> val_at e n (swapped f k m q) p = val_at e n m p"
  by (rule val_at_cong) (auto intro: swapped_nth)

lemma val_at_same: "same lo hi m m' \<Longrightarrow> p + n \<le> lo \<or> hi \<le> p \<Longrightarrow> val_at e n m' p = val_at e n m p"
  by (rule val_at_cong) (auto simp: same_def)

lemma val_at_swapped: "q = p \<Longrightarrow> p + n \<le> length m \<Longrightarrow> val_at e n (swapped e n m q) p = val_at BigEndian n m p"
  by (cases e) (simp_all add: val_at_def swapped_def rev_at_def)

lemma val_at_byte: "p < length m \<Longrightarrow> val_at e (Suc 0) m p = byte_at m p"
  by (simp add: val_at_def byte_at_def be_val_def take_Suc_conv_app_nth [of 0, simplified])

lemma byte_at_other: "p < q \<or> q + k \<le> p \<Longrightarrow> p < length m \<Longrightarrow> byte_at (swapped f k m q) p = byte_at m p"
  by (simp add: byte_at_def swapped_nth)

lemmas decode_simps = decodes_def host_member.simps wire_member.simps list.pred_inject ldn_Some fld_Some val_at_swapped val_at_other val_at_byte byte_at_other One_nat_def

lemma decodes_cong:
  assumes "decodes e lay m d m'" "layout_within k lay" "same lo hi m' m''" "d + k \<le> lo \<or> hi \<le> d" "d + k \<le> length m'"
  shows "decodes e lay m d m''"
proof -
  have "host_member e m'' d x = host_member e m' d x" if "member_end x \<le> k" for x
  proof (cases x)
    case (Value off n lo' w)
    then show ?thesis using that assms(3-5) val_at_same [OF assms(3), of "d + off" n] by (auto simp: fld_Some same_length)
  next
    case (Bytes off n)
    then show ?thesis using that assms(3-5) val_at_same [OF assms(3), of "d + off" n] by (auto simp: ldn_Some same_length)
  qed
  then show ?thesis using assms(1,2) unfolding decodes_def layout_within_def list_all_iff by fastforce
qed

lemma decodes_wire:
  assumes "decodes e lay m d m'" "layout_within k lay" "length m = length m0" "\<And>i. d \<le> i \<Longrightarrow> i < d + k \<Longrightarrow> i < length m0 \<Longrightarrow> m ! i = m0 ! i"
  shows "decodes e lay m0 d m'"
proof -
  have "wire_member m d x = wire_member m0 d x" if "member_end x \<le> k" for x
  proof (cases x)
    case (Value off n lo' w)
    have "val_at BigEndian n m (d + off) = val_at BigEndian n m0 (d + off)" by (rule val_at_cong) (use Value that assms in auto)
    then show ?thesis using Value by simp
  next
    case (Bytes off n)
    have "val_at BigEndian n m (d + off) = val_at BigEndian n m0 (d + off)" by (rule val_at_cong) (use Bytes that assms in auto)
    then show ?thesis using Bytes by simp
  qed
  then show ?thesis using assms(1,2) unfolding decodes_def layout_within_def list_all_iff by fastforce
qed

text \<open>The descriptor at \<open>d\<close> lies in \<open>m\<close>.  A codec is correct when it keeps to the bytes after the header and, when it
  accepts, every member of the structure reads as the value that was transmitted.\<close>

definition desc_in :: "mem \<Rightarrow> nat \<Rightarrow> nat \<Rightarrow> bool" where
  "desc_in m d len \<longleftrightarrow> rd8 m (d + 1) = Some len \<and> d + 2 + len \<le> length m"

definition codec_correct :: "(byte_order \<Rightarrow> mem \<Rightarrow> nat \<Rightarrow> (mem \<times> bool) option) \<Rightarrow> layout \<Rightarrow> bool" where
  "codec_correct f lay \<longleftrightarrow> (\<forall>e m d len. desc_in m d len \<longrightarrow>
     wp (f e m d) (\<lambda>(m', ok). same (d + 2) (d + 2 + len) m m' \<and> (ok \<longrightarrow> decodes e lay m d m')))"

lemma codec_correctI:
  "(\<And>e m d len. rd8 m (d + 1) = Some len \<Longrightarrow> d + 2 + len \<le> length m \<Longrightarrow> len < 256
      \<Longrightarrow> wp (f e m d) (\<lambda>(m', ok). same (d + 2) (d + 2 + len) m m' \<and> (ok \<longrightarrow> decodes e lay m d m'))) \<Longrightarrow> codec_correct f lay"
  unfolding codec_correct_def desc_in_def using unat_byte_lt by (auto simp: rd8_def split: Option.bind_splits)

lemma codec_rest:
  assumes "wp x (\<lambda>(m', ok). same (d + k) (d + 2 + len) m1 m')" "same (d + 2) (d + k) m m1" "decodes e lay m d m1"
    "layout_within k lay" "d + k \<le> length m" "2 \<le> k" "k \<le> 2 + len"
  shows "wp x (\<lambda>(m', ok). same (d + 2) (d + 2 + len) m m' \<and> (ok \<longrightarrow> decodes e lay m d m'))"
  using assms(1)
proof (rule wp_mono, clarify)
  fix m' ok
  assume s: "same (d + k) (d + 2 + len) m1 m'"
  have "same (d + 2) (d + 2 + len) m m'"
    using same_trans [OF same_mono [OF assms(2)] same_mono [OF s]] assms(6,7) by simp
  moreover have "decodes e lay m d m'"
    by (rule decodes_cong [OF assms(3,4) s]) (use assms(5) same_length [OF assms(2)] in auto)
  ultimately show "same (d + 2) (d + 2 + len) m m' \<and> (ok \<longrightarrow> decodes e lay m d m')" by simp
qed

lemma wp_swap16I: "p + 2 \<le> length m \<Longrightarrow> wp (k (swapped e 2 m p)) Q \<Longrightarrow> wp (Option.bind (bswap16 e m p) k) Q"
  by (simp add: wp_bind wp_swaps)


text \<open>The check of the least length.\<close>

lemma wp_checkI: "\<not> c \<Longrightarrow> wp b Q \<Longrightarrow> wp (if c then a else b) Q"
  by simp

lemma codec_tailI:
  assumes "\<And>e m d len. rd8 m (d + 1) = Some len \<Longrightarrow> d + 2 + len \<le> length m \<Longrightarrow> len < k - 2 \<Longrightarrow> f e m d = Some (m, False)"
    and "\<And>e m d. d + k \<le> length m \<Longrightarrow> same (d + 2) (d + k) m (head e m d) \<and> decodes e lay m d (head e m d)"
    and "layout_within k lay" "2 \<le> k"
    and "\<And>e m d len. rd8 m (d + 1) = Some len \<Longrightarrow> d + 2 + len \<le> length m \<Longrightarrow> k \<le> 2 + len \<Longrightarrow> len < 256
      \<Longrightarrow> same (d + k) (d + 2 + len) (head e m d) (head e m d) \<Longrightarrow> length (head e m d) = length m
      \<Longrightarrow> wp (f e m d) (\<lambda>(m', ok). same (d + k) (d + 2 + len) (head e m d) m')"
  shows "codec_correct f lay"
proof (rule codec_correctI)
  fix e m d len
  assume din: "rd8 m (d + 1) = Some len" "d + 2 + len \<le> length m" and b: "len < 256"
  show "wp (f e m d) (\<lambda>(m', ok). same (d + 2) (d + 2 + len) m m' \<and> (ok \<longrightarrow> decodes e lay m d m'))"
  proof (cases "k \<le> 2 + len")
    case True
    have "same (d + 2) (d + k) m (head e m d) \<and> decodes e lay m d (head e m d)" by (rule assms(2)) (use True din in simp)
    then show ?thesis
      by (intro codec_rest [where k = k and ?m1.0 = "head e m d"] assms(3,4,5)) (use True din b in \<open>auto simp: same_length\<close>)
  next
    case False
    then have "f e m d = Some (m, False)" using assms(1) [OF din, of e] by simp
    then show ?thesis by (simp add: wp_Some)
  qed
qed

text \<open>The codecs that only check the length: they accept exactly the lengths \<open>acc\<close>.\<close>

definition exact_codec :: "(byte_order \<Rightarrow> mem \<Rightarrow> nat \<Rightarrow> (mem \<times> bool) option) \<Rightarrow> layout \<Rightarrow> (nat \<Rightarrow> bool) \<Rightarrow> bool" where
  "exact_codec f lay acc \<longleftrightarrow> (\<forall>e m d len. desc_in m d len \<longrightarrow>
     wp (f e m d) (\<lambda>(m', ok). same (d + 2) (d + 2 + len) m m' \<and> (ok \<longleftrightarrow> acc len) \<and> (ok \<longrightarrow> decodes e lay m d m')))"

lemma exact_codecI:
  "(\<And>e m d len. rd8 m (d + 1) = Some len \<Longrightarrow> d + 2 + len \<le> length m
      \<Longrightarrow> wp (f e m d) (\<lambda>(m', ok). same (d + 2) (d + 2 + len) m m' \<and> (ok \<longleftrightarrow> acc len) \<and> (ok \<longrightarrow> decodes e lay m d m')))
    \<Longrightarrow> exact_codec f lay acc"
  by (auto simp: exact_codec_def desc_in_def)

text \<open>A table of entries of one size after the header.\<close>

definition table_correct ::
  "(byte_order \<Rightarrow> mem \<Rightarrow> nat \<Rightarrow> (mem \<times> bool) option) \<Rightarrow> layout \<Rightarrow> nat \<Rightarrow> nat \<Rightarrow> layout \<Rightarrow> bool" where
  "table_correct f lay off k elay \<longleftrightarrow> (\<forall>e m d len. desc_in m d len \<longrightarrow>
     wp (f e m d) (\<lambda>(m', ok). same (d + 2) (d + 2 + len) m m' \<and> (ok \<longleftrightarrow> off \<le> 2 + len \<and> k dvd 2 + len - off) \<and>
       (ok \<longrightarrow> decodes e lay m d m' \<and>
         (\<exists>n. 2 + len = off + n * k \<and> (\<forall>i < n. decodes e elay m (d + off + i * k) m')))))"

lemma entry_count: "p0 \<le> len \<Longrightarrow> k dvd len - p0 \<Longrightarrow> \<exists>n. len = p0 + n * (k::nat)"
  by (metis dvd_def le_add_diff_inverse mult.commute)

text \<open>The first \<open>j\<close> entries of the table at \<open>q\<close> have been decoded.\<close>

definition decoded_table :: "byte_order \<Rightarrow> layout \<Rightarrow> nat \<Rightarrow> nat \<Rightarrow> nat \<Rightarrow> mem \<Rightarrow> mem \<Rightarrow> bool" where
  "decoded_table e lay k q j m0 m \<longleftrightarrow> same q (q + j * k) m0 m \<and> (\<forall>i < j. decodes e lay m0 (q + i * k) m)"

lemma decoded_table_0 [simp]: "decoded_table e lay k q 0 m m"
  by (simp add: decoded_table_def)

lemma decoded_table_Suc:
  assumes "decoded_table e lay k q j m0 m" "same (q + j * k) (q + j * k + k) m m'" "decodes e lay m (q + j * k) m'"
    and "layout_within k lay" "q + j * k + k \<le> length m0"
  shows "decoded_table e lay k q (Suc j) m0 m'"
proof -
  have fr: "same q (q + j * k) m0 m" and old: "\<And>i. i < j \<Longrightarrow> decodes e lay m0 (q + i * k) m"
    using assms(1) by (auto simp: decoded_table_def)
  have now: "decodes e lay m0 (q + j * k) m'"
    using decodes_wire [OF assms(3,4), of m0] fr by (simp add: same_def)
  have "decodes e lay m0 (q + i * k) m'" if "i < Suc j" for i
  proof (cases "i = j")
    case False
    then have "i * k + k \<le> j * k" using that mult_le_mono1 [of "Suc i" j k] by simp
    then show ?thesis using decodes_cong [OF old assms(4,2)] False that assms(5) same_length [OF fr] by simp
  qed (use now in simp)
  moreover have "same q (q + Suc j * k) m0 m'"
    using same_trans [OF same_mono [OF fr] same_mono [OF assms(2)]] by (simp add: add.assoc)
  ultimately show ?thesis by (simp add: decoded_table_def)
qed

lemma wp_table:
  fixes len :: nat
  assumes body: "\<And>m pos. \<lbrakk> length m = length m0; p0 \<le> pos; pos + k \<le> len \<rbrakk>
      \<Longrightarrow> wp (b (m, pos)) (\<lambda>((m', pos'), ok). ok \<and> pos' = pos + k \<and> same (base + pos) (base + pos + k) m m' \<and> decodes e lay m (base + pos) m')"
    and len: "len = p0 + n * k" and k: "0 < k" "layout_within k lay" "base + len \<le> length m0"
  shows "wp (while_do (\<lambda>(m, pos). Some (pos < len)) b (m0, p0))
    (\<lambda>((m', pos), ok). ok \<and> same (base + p0) (base + len) m0 m' \<and> (\<forall>i < n. decodes e lay m0 (base + p0 + i * k) m'))"
    (is "wp _ ?Q")
proof (rule wp_while_do [where f = "\<lambda>(m, pos). len - pos" and
      I = "\<lambda>(m, pos). \<exists>j \<le> n. pos = p0 + j * k \<and> decoded_table e lay k (base + p0) j m0 m"])
  show "case (m0, p0) of (m, pos) \<Rightarrow> \<exists>j \<le> n. pos = p0 + j * k \<and> decoded_table e lay k (base + p0) j m0 m" by (auto intro: exI [of _ 0])
next
  fix s :: "mem \<times> nat"
  let ?I = "\<lambda>(m, pos). \<exists>j \<le> n. pos = p0 + j * k \<and> decoded_table e lay k (base + p0) j m0 m"
  assume "?I s"
  then obtain m j where s: "s = (m, p0 + j * k)" "j \<le> n" and dt: "decoded_table e lay k (base + p0) j m0 m" by (cases s) auto
  have lm: "length m = length m0" using dt by (auto simp: decoded_table_def dest: same_length)
  show "wp (case s of (m, pos) \<Rightarrow> Some (pos < len)) (\<lambda>go. if go then wp (b s) (\<lambda>(s', ok). if ok then ?I s'
      \<and> (case s' of (m, pos) \<Rightarrow> len - pos) < (case s of (m, pos) \<Rightarrow> len - pos) else ?Q (s', False)) else ?Q (s, True))"
  proof (cases "j = n")
    case True
    then show ?thesis using s dt len by (simp add: wp_Some decoded_table_def add.assoc)
  next
    case False
    then have j: "Suc j \<le> n" using s by simp
    then have le: "p0 + j * k + k \<le> len" using len mult_le_mono1 [OF j, of k] by simp
    have "decoded_table e lay k (base + p0) (Suc j) m0 m'" if "same (base + (p0 + j * k)) (base + (p0 + j * k) + k) m m'"
      "decodes e lay m (base + (p0 + j * k)) m'" for m'
      using decoded_table_Suc [OF dt _ _ k(2), of m'] that le k(3) by (simp add: add.assoc)
    moreover have "wp (b s) (\<lambda>((m', pos'), ok). ok \<and> pos' = p0 + j * k + k \<and> same (base + (p0 + j * k)) (base + (p0 + j * k) + k) m m'
        \<and> decodes e lay m (base + (p0 + j * k)) m')"
      unfolding s using body [of m "p0 + j * k"] lm le by simp
    ultimately have "wp (b s) (\<lambda>(s', ok). ok \<and> ?I s' \<and> (case s' of (m, pos) \<Rightarrow> len - pos) < (case s of (m, pos) \<Rightarrow> len - pos))"
      using s j le k(1) by (auto simp: algebra_simps elim!: wp_mono intro!: exI [of _ "Suc j"])
    then show ?thesis using s le k(1) by (auto simp: wp_Some elim!: wp_mono)
  qed
qed

text \<open>The codecs that are such a loop behind a check of the length.\<close>

lemma sub32_1: "sub32 len 1 = (if len = 0 then 2 ^ 32 - 1 else (len - 1) mod 2 ^ 32)"
  by (auto simp: sub32_def u32_of_def nat_mod_distrib of_nat_diff nat_diff_distrib)

lemma table_guards:
  "len < 256 \<Longrightarrow> 4 dvd sub32 len (Suc 0) \<longleftrightarrow> 0 < len \<and> 4 dvd len - Suc 0"
  "len < 256 \<Longrightarrow> even (sub32 len (Suc 0)) \<longleftrightarrow> 0 < len \<and> even (len - Suc 0)"
  "len < 256 \<Longrightarrow> 0 < len \<Longrightarrow> 3 dvd sub32 len (Suc 0) \<longleftrightarrow> 3 dvd len - Suc 0"
  by (auto simp: sub32_1 [unfolded One_nat_def] split: if_splits)

lemma table_codecI:
  assumes shape: "\<And>e m d. f e m d = do { len \<leftarrow> rd8 m (d + 1); if bad len then Some (m, False)
      else do { ((m, pos), ok) \<leftarrow> while_do (\<lambda>(m, pos). Some (pos < len)) (b e d len) (m, p0); if \<not> ok then Some (m, False) else Some (m, True) } }"
    and guard: "\<And>len. len < 256 \<Longrightarrow> \<not> bad len \<longleftrightarrow> p0 \<le> len \<and> k dvd len - p0"
    and body: "\<And>e d len m pos. \<lbrakk> p0 \<le> pos; pos + k \<le> len; d + 2 + len \<le> length m \<rbrakk>
      \<Longrightarrow> wp (b e d len (m, pos)) (\<lambda>((m', pos'), ok). ok \<and> pos' = pos + k \<and> same (d + 2 + pos) (d + 2 + pos + k) m m'
            \<and> decodes e elay m (d + 2 + pos) m')"
    and hdr: "\<And>e m d. d + (2 + p0) \<le> length m \<Longrightarrow> decodes e lay m d m" "layout_within (2 + p0) lay"
    and k: "0 < k" "layout_within k elay"
    and off: "off = 2 + p0"
  shows "table_correct f lay off k elay"
  unfolding table_correct_def off
proof (intro allI impI)
  fix e m d len
  assume din: "desc_in m d len"
  then have rd: "rd8 m (d + 1) = Some len" and le: "d + 2 + len \<le> length m" and b: "len < 256"
    using unat_byte_lt by (auto simp: desc_in_def rd8_def split: Option.bind_splits)
  let ?Q = "\<lambda>(m', ok). same (d + 2) (d + 2 + len) m m' \<and> (ok \<longleftrightarrow> 2 + p0 \<le> 2 + len \<and> k dvd 2 + len - (2 + p0)) \<and>
       (ok \<longrightarrow> decodes e lay m d m' \<and> (\<exists>n. 2 + len = 2 + p0 + n * k \<and> (\<forall>i < n. decodes e elay m (d + (2 + p0) + i * k) m')))"
  show "wp (f e m d) ?Q"
  proof (cases "bad len")
    case True
    then show ?thesis using rd guard [OF b] by (simp add: shape wp_Some)
  next
    case False
    obtain n where p0: "p0 \<le> len" and n: "len = p0 + n * k" using guard [OF b] False entry_count by blast
    have "wp (while_do (\<lambda>(m, pos). Some (pos < len)) (b e d len) (m, p0)) (\<lambda>((m', pos), ok). ok \<and>
        same (d + 2 + p0) (d + 2 + len) m m' \<and> (\<forall>i < n. decodes e elay m (d + 2 + p0 + i * k) m'))"
      by (rule wp_table [OF body n k]) (use le in auto)
    moreover have "decodes e lay m d m'" if "same (d + 2 + p0) (d + 2 + len) m m'" for m'
      by (rule decodes_cong [OF hdr that]) (use p0 le in auto)
    ultimately have "wp (while_do (\<lambda>(m, pos). Some (pos < len)) (b e d len) (m, p0)) (\<lambda>((m', pos), ok). ok \<and> ?Q (m', True))"
      using n p0 by (auto simp: add.assoc elim!: wp_mono intro!: exI [of _ n] elim: same_mono)
    then show ?thesis using rd False by (auto simp: shape wp_Some wp_bind elim!: wp_mono)
  qed
qed

text \<open>The codecs without a loop, for entries of single bytes.\<close>

lemma table_bytesI:
  assumes shape: "\<And>e m d. f e m d = do { len \<leftarrow> rd8 m (d + 1); if bad len then Some (m, False) else Some (m, True) }"
    and guard: "\<And>len. len < 256 \<Longrightarrow> \<not> bad len \<longleftrightarrow> p0 \<le> len \<and> k dvd len - p0"
    and hdr: "\<And>e m d. d + (2 + p0) \<le> length m \<Longrightarrow> decodes e lay m d m"
    and ent: "\<And>e m p. p + k \<le> length m \<Longrightarrow> decodes e elay m p m"
    and off: "off = 2 + p0"
  shows "table_correct f lay off k elay"
  unfolding table_correct_def off
proof (intro allI impI)
  fix e m d len
  assume din: "desc_in m d len"
  then have rd: "rd8 m (d + 1) = Some len" and le: "d + 2 + len \<le> length m" and b: "len < 256"
    using unat_byte_lt by (auto simp: desc_in_def rd8_def split: Option.bind_splits)
  have "decodes e lay m d m \<and> (\<exists>n. 2 + len = 2 + p0 + n * k \<and> (\<forall>i < n. decodes e elay m (d + (2 + p0) + i * k) m))"
    if ok: "\<not> bad len"
  proof -
    obtain n where p0: "p0 \<le> len" and n: "len = p0 + n * k" using guard [OF b] ok entry_count by blast
    have "decodes e elay m (d + (2 + p0) + i * k) m" if "i < n" for i
      by (rule ent) (use n le that mult_le_mono1 [of "Suc i" n k] in simp)
    then show ?thesis using n le hdr [of d m e] by auto
  qed
  then show "wp (f e m d) (\<lambda>(m', ok). same (d + 2) (d + 2 + len) m m' \<and> (ok \<longleftrightarrow> 2 + p0 \<le> 2 + len \<and> k dvd 2 + len - (2 + p0)) \<and>
       (ok \<longrightarrow> decodes e lay m d m' \<and> (\<exists>n. 2 + len = 2 + p0 + n * k \<and> (\<forall>i < n. decodes e elay m (d + (2 + p0) + i * k) m'))))"
    using rd guard [OF b] by (auto simp: shape wp_Some)
qed

text \<open>The tables with a count of their entries, given by the member \<open>cnt\<close> of the header.\<close>

definition counted_correct ::
  "(byte_order \<Rightarrow> mem \<Rightarrow> nat \<Rightarrow> (mem \<times> bool) option) \<Rightarrow> layout \<Rightarrow> member \<Rightarrow> nat \<Rightarrow> nat \<Rightarrow> layout \<Rightarrow> bool" where
  "counted_correct f lay cnt off k elay \<longleftrightarrow> (\<forall>e m d len. desc_in m d len \<longrightarrow>
     wp (f e m d) (\<lambda>(m', ok). same (d + 2) (d + 2 + len) m m' \<and>
       (ok \<longleftrightarrow> off + wire_member m d cnt * k \<le> 2 + len) \<and>
       (ok \<longrightarrow> decodes e lay m d m' \<and> (\<forall>i < wire_member m d cnt. decodes e elay m (d + off + i * k) m'))))"

lemma wp_counted:
  fixes len :: nat
  assumes c: "\<And>m pos idx. same (base + p0) (base + len) m0 m \<Longrightarrow> c (m, pos, idx) = Some (idx < n)"
    and body: "\<And>m pos idx. \<lbrakk> same (base + p0) (base + len) m0 m; p0 \<le> pos \<rbrakk>
      \<Longrightarrow> wp (b (m, pos, idx)) (\<lambda>((m', pos', idx'), ok). if ok then pos + k \<le> len \<and> pos' = pos + k \<and> idx' = Suc idx
            \<and> same (base + pos) (base + pos + k) m m' \<and> decodes e lay m (base + pos) m' else m' = m \<and> len < pos + k)"
    and k: "layout_within k lay" "base + len \<le> length m0" "p0 \<le> len"
  shows "wp (while_do c b (m0, p0, 0)) (\<lambda>((m', pos, idx), ok). same (base + p0) (base + len) m0 m' \<and>
     (ok \<longleftrightarrow> p0 + n * k \<le> len) \<and> (ok \<longrightarrow> (\<forall>i < n. decodes e lay m0 (base + p0 + i * k) m')))"
    (is "wp _ ?Q")
proof (rule wp_while_do [where f = "\<lambda>(m, pos, idx). n - idx" and
      I = "\<lambda>(m, pos, j). j \<le> n \<and> pos = p0 + j * k \<and> pos \<le> len \<and> decoded_table e lay k (base + p0) j m0 m"])
  show "case (m0, p0, 0) of (m, pos, j) \<Rightarrow> j \<le> n \<and> pos = p0 + j * k \<and> pos \<le> len \<and> decoded_table e lay k (base + p0) j m0 m"
    using k(3) by simp
next
  fix s :: "mem \<times> nat \<times> nat"
  let ?I = "\<lambda>(m, pos, j). j \<le> n \<and> pos = p0 + j * k \<and> pos \<le> len \<and> decoded_table e lay k (base + p0) j m0 m"
  assume "?I s"
  then obtain m j where s: "s = (m, p0 + j * k, j)" "j \<le> n" "p0 + j * k \<le> len"
    and dt: "decoded_table e lay k (base + p0) j m0 m" by (cases s) auto
  have fr: "same (base + p0) (base + len) m0 m"
    by (rule same_mono [of "base + p0" "base + p0 + j * k"]) (use dt s(3) in \<open>auto simp: decoded_table_def\<close>)
  have "decoded_table e lay k (base + p0) (Suc j) m0 m'" if "same (base + (p0 + j * k)) (base + (p0 + j * k) + k) m m'"
      "decodes e lay m (base + (p0 + j * k)) m'" "p0 + j * k + k \<le> len" for m'
    using decoded_table_Suc [OF dt _ _ k(1), of m'] that k(2) by (simp add: add.assoc)
  moreover have "\<not> p0 + n * k \<le> len" if "j < n" "len < p0 + j * k + k"
    using mult_le_mono1 [of "Suc j" n k] that by auto
  ultimately show "wp (c s) (\<lambda>go. if go then wp (b s) (\<lambda>(s', ok). if ok then ?I s'
      \<and> (case s' of (m, pos, idx) \<Rightarrow> n - idx) < (case s of (m, pos, idx) \<Rightarrow> n - idx) else ?Q (s', False)) else ?Q (s, True))"
    using s fr dt c body [of m "p0 + j * k" j] by (auto simp: wp_Some decoded_table_def algebra_simps elim!: wp_mono)
qed

lemma counted_correctI:
  assumes shape: "\<And>e m d. f e m d = do { len \<leftarrow> rd8 m (d + 1); if len < p0 then Some (m, False)
      else pre e m d (\<lambda>m. do { ((m, pos, idx), ok) \<leftarrow> while_do (c e d) (b e d) (m, p0, 0); if \<not> ok then Some (m, False) else Some (m, True) }) }"
    and pre: "\<And>e m d k. d + (2 + p0) \<le> length m \<Longrightarrow> pre e m d k = k (head e m d)"
    and head: "\<And>e m d. d + (2 + p0) \<le> length m \<Longrightarrow> same (d + 2) (d + (2 + p0)) m (head e m d) \<and> decodes e lay m d (head e m d)"
    and lay: "layout_within (2 + p0) lay"
    and c: "\<And>e m d len m' pos idx. \<lbrakk> d + 2 + len \<le> length m; p0 \<le> len; same (d + 2 + p0) (d + 2 + len) (head e m d) m' \<rbrakk>
      \<Longrightarrow> c e d (m', pos, idx) = Some (idx < wire_member m d cnt)"
    and body: "\<And>e m d len m' pos idx. \<lbrakk> rd8 m (d + 1) = Some len; d + 2 + len \<le> length m; p0 \<le> len; rd8 m' (d + 1) = Some len;
        length m' = length m; p0 \<le> pos \<rbrakk>
      \<Longrightarrow> wp (b e d (m', pos, idx)) (\<lambda>((m2, pos', idx'), ok). if ok then pos + k \<le> len \<and> pos' = pos + k \<and> idx' = Suc idx
            \<and> same (d + 2 + pos) (d + 2 + pos + k) m' m2 \<and> decodes e elay m' (d + 2 + pos) m2 else m2 = m' \<and> len < pos + k)"
    and k: "layout_within k elay" and off: "off = 2 + p0"
  shows "counted_correct f lay cnt off k elay"
  unfolding counted_correct_def off
proof (intro allI impI)
  fix e m d len
  assume "desc_in m d len"
  then have din: "rd8 m (d + 1) = Some len" "d + 2 + len \<le> length m" by (simp_all add: desc_in_def)
  let ?n = "wire_member m d cnt" and ?h = "head e m d"
  let ?Q = "\<lambda>(m', ok). same (d + 2) (d + 2 + len) m m' \<and> (ok \<longleftrightarrow> 2 + p0 + ?n * k \<le> 2 + len) \<and>
       (ok \<longrightarrow> decodes e lay m d m' \<and> (\<forall>i < ?n. decodes e elay m (d + (2 + p0) + i * k) m'))"
  show "wp (f e m d) ?Q"
  proof (cases "p0 \<le> len")
    case True
    then have h: "same (d + 2) (d + (2 + p0)) m ?h" "decodes e lay m d ?h" using head [of d m e] din by auto
    have h': "same (d + 2) (d + 2 + len) m m' \<and> decodes e lay m d m'" if "same (d + 2 + p0) (d + 2 + len) ?h m'" for m'
    proof
      show "same (d + 2) (d + 2 + len) m m'" using same_trans [OF same_mono [OF h(1)] same_mono [OF that]] True by simp
      show "decodes e lay m d m'"
        by (rule decodes_cong [OF h(2) lay that]) (use True din(2) same_length [OF h(1)] in auto)
    qed
    have wire: "decodes e elay m (d + 2 + p0 + i * k) m'" if "decodes e elay ?h (d + 2 + p0 + i * k) m'" for i m'
      by (rule decodes_wire [OF that k same_length [OF h(1)]]) (use h(1) in \<open>auto simp: same_def\<close>)
    have "wp (while_do (c e d) (b e d) (?h, p0, 0)) (\<lambda>((m', pos, idx), ok). same (d + 2 + p0) (d + 2 + len) ?h m' \<and>
        (ok \<longleftrightarrow> p0 + ?n * k \<le> len) \<and> (ok \<longrightarrow> (\<forall>i < ?n. decodes e elay ?h (d + 2 + p0 + i * k) m')))"
    proof (rule wp_counted [OF c [OF din(2) True]], goal_cases)
      case (2 m' pos idx)
      have "rd8 m' (d + 1) = rd8 ?h (d + 1)" by (rule same_rd8 [OF 2(1)]) simp
      also have "\<dots> = rd8 m (d + 1)" by (rule same_rd8 [OF h(1)]) simp
      finally show ?case using body [OF din True, of m' pos e idx] din 2 h(1) by (simp add: same_length)
    qed (use True din k same_length [OF h(1)] in auto)
    then have "wp (while_do (c e d) (b e d) (?h, p0, 0)) (\<lambda>((m', pos, idx), ok). ?Q (m', ok))"
      by (rule wp_mono) (use h' wire in \<open>auto simp: add.assoc\<close>)
    then show ?thesis using din True pre [of d m e] by (auto simp: shape wp_Some wp_bind elim!: wp_mono)
  next
    case False
    then show ?thesis using din by (simp add: shape wp_Some)
  qed
qed

end
