(* ===== verification/Mpeg_Descriptors.thy ===== *)
theory Mpeg_Descriptors
  imports Structs
begin

text \<open>
  The descriptors of \<open>lib/libucsi/mpeg\<close>: the layout of each structure, its codec, its accessors and iterators, and what
  each codec does.
\<close>

section \<open>\<open>mpeg/audio_stream_descriptor.h\<close>\<close>

definition mpeg_audio_stream_descriptor_layout :: layout where
  "mpeg_audio_stream_descriptor_layout =
    [(''free_format_flag'', Value 2 1 7 1), (''id'', Value 2 1 6 1), (''layer'', Value 2 1 4 2),
     (''variable_rate_audio_indicator'', Value 2 1 3 1), (''reserved'', Value 2 1 0 3)]"

definition mpeg_audio_stream_descriptor_codec :: "byte_order \<Rightarrow> mem \<Rightarrow> nat \<Rightarrow> (mem \<times> bool) option" where
  "mpeg_audio_stream_descriptor_codec e m d =
     do {
       len \<leftarrow> rd8 m (d + 1);
       if len \<noteq> 1 then Some (m, False)
       else Some (m, True) }"

section \<open>\<open>mpeg/ca_descriptor.h\<close>\<close>

definition mpeg_ca_descriptor_layout :: layout where
  "mpeg_ca_descriptor_layout =
    [(''ca_system_id'', Value 2 2 0 16), (''reserved'', Value 4 2 13 3), (''ca_pid'', Value 4 2 0 13)]"

definition mpeg_ca_descriptor_codec :: "byte_order \<Rightarrow> mem \<Rightarrow> nat \<Rightarrow> (mem \<times> bool) option" where
  "mpeg_ca_descriptor_codec e m d =
     do {
       len \<leftarrow> rd8 m (d + 1);
       if len < 4 then Some (m, False)
       else do {
         m \<leftarrow> bswap16 e m (d + 2);
         m \<leftarrow> bswap16 e m (d + 4);
         Some (m, True) } }"

definition mpeg_ca_descriptor_data :: "nat \<Rightarrow> nat" where
  "mpeg_ca_descriptor_data d = d + 6"

definition mpeg_ca_descriptor_data_length :: "mem \<Rightarrow> nat \<Rightarrow> int option" where
  "mpeg_ca_descriptor_data_length m d =
     do {
       len \<leftarrow> rd8 m (d + 1);
       Some (int len - 4) }"

section \<open>\<open>mpeg/content_labelling_descriptor.h\<close>\<close>

definition mpeg_content_labelling_descriptor_layout :: layout where
  "mpeg_content_labelling_descriptor_layout =
    [(''metadata_application_format'', Value 2 2 0 16)]"

definition mpeg_content_labelling_descriptor_application_format_identifier_layout :: layout where
  "mpeg_content_labelling_descriptor_application_format_identifier_layout =
    [(''id'', Value 0 4 0 32)]"

definition mpeg_content_labelling_descriptor_flags_layout :: layout where
  "mpeg_content_labelling_descriptor_flags_layout =
    [(''content_reference_id_record_flag'', Value 0 1 7 1), (''content_time_base_indicator'', Value 0 1 3 4),
     (''reserved'', Value 0 1 0 3)]"

definition mpeg_content_labelling_descriptor_reference_id_layout :: layout where
  "mpeg_content_labelling_descriptor_reference_id_layout =
    [(''content_reference_id_record_length'', Value 0 1 0 8)]"

definition mpeg_content_labelling_descriptor_time_base_layout :: layout where
  "mpeg_content_labelling_descriptor_time_base_layout =
    [(''reserved_1'', Value 0 5 33 7), (''content_time_base_value'', Value 0 5 0 33), (''reserved_2'', Value 5 5 33 7),
     (''metadata_time_base_value'', Value 5 5 0 33)]"

definition mpeg_content_labelling_descriptor_content_id_layout :: layout where
  "mpeg_content_labelling_descriptor_content_id_layout =
    [(''reserved'', Value 0 1 7 1), (''contentId'', Value 0 1 0 7)]"

definition mpeg_content_labelling_descriptor_time_base_association_layout :: layout where
  "mpeg_content_labelling_descriptor_time_base_association_layout =
    [(''time_base_association_data_length'', Value 0 1 0 8)]"

definition mpeg_content_labelling_descriptor_codec :: "byte_order \<Rightarrow> mem \<Rightarrow> nat \<Rightarrow> (mem \<times> bool) option" where
  "mpeg_content_labelling_descriptor_codec e m d =
     do {
       len' \<leftarrow> rd8 m (d + 1);
       let len = len' + 2;
       if len < 4 then Some (m, False)
       else do {
         m \<leftarrow> bswap16 e m (d + 2);
         v \<leftarrow> ldn e 2 m (d + 2);
         ((m, pos), ok) \<leftarrow> (if v = 65535 then
           if len < 8 then Some ((m, 4), False)
           else do {
             m \<leftarrow> bswap32 e m (d + 4);
             Some ((m, 8), True) }
         else Some ((m, 4), True));
         if \<not> ok then Some (m, False)
         else if len < pos + 1 then Some (m, False)
         else do {
           let flags = d + pos;
           let pos = pos + 1;
           content_reference_id_record_flag \<leftarrow> fld e 1 7 1 m flags;
           ((m, pos), ok) \<leftarrow> (if content_reference_id_record_flag = 1 then
             if len < pos + 1 then Some ((m, pos), False)
             else do {
               byte \<leftarrow> rd8 m (d + pos);
               if len < pos + byte + 1 then Some ((m, pos), False)
               else do {
                 let pos = pos + byte + 1;
                 Some ((m, pos), True) } }
           else Some ((m, pos), True));
           if \<not> ok then Some (m, False)
           else do {
             content_time_base_indicator \<leftarrow> fld e 1 3 4 m flags;
             ((m, pos), ok) \<leftarrow> (if content_time_base_indicator = 1 \<or> content_time_base_indicator = 2 then
               if len < pos + 10 then Some ((m, pos), False)
               else do {
                 m \<leftarrow> bswap40 e m (d + pos);
                 m \<leftarrow> bswap40 e m (d + pos + 5);
                 let pos = pos + 10;
                 Some ((m, pos), True) }
             else Some ((m, pos), True));
             if \<not> ok then Some (m, False)
             else do {
               content_time_base_indicator' \<leftarrow> fld e 1 3 4 m flags;
               ((m, pos), ok) \<leftarrow> (if content_time_base_indicator' = 2 then
                 if len < pos + 1 then Some ((m, pos), False)
                 else do {
                   let pos = pos + 1;
                   Some ((m, pos), True) }
               else Some ((m, pos), True));
               if \<not> ok then Some (m, False)
               else do {
                 ((m, pos), ok) \<leftarrow> (if content_time_base_indicator' > 2 then
                   if len < pos + 1 then Some ((m, pos), False)
                   else do {
                     byte \<leftarrow> rd8 m (d + pos);
                     if len < pos + byte + 1 then Some ((m, pos), False)
                     else do {
                       let pos = pos + byte + 1;
                       Some ((m, pos), True) } }
                 else Some ((m, pos), True));
                 if \<not> ok then Some (m, False)
                 else if len < pos then Some (m, False)
                 else Some (m, True) } } } } } }"

definition mpeg_content_labelling_descriptor_id :: "byte_order \<Rightarrow> mem \<Rightarrow> nat \<Rightarrow> nat option option" where
  "mpeg_content_labelling_descriptor_id e m d =
     do {
       metadata_application_format \<leftarrow> ldn e 2 m (d + 2);
       if metadata_application_format \<noteq> 65535 then Some None
       else Some (Some (d + 4)) }"

definition mpeg_content_labelling_descriptor_flags :: "byte_order \<Rightarrow> mem \<Rightarrow> nat \<Rightarrow> nat option" where
  "mpeg_content_labelling_descriptor_flags e m d =
     do {
       metadata_application_format \<leftarrow> ldn e 2 m (d + 2);
       let buf = (if metadata_application_format \<noteq> 65535 then d + 8
       else d + 4);
       Some buf }"

definition mpeg_content_labelling_descriptor_reference_id :: "byte_order \<Rightarrow> mem \<Rightarrow> nat \<Rightarrow> nat option option" where
  "mpeg_content_labelling_descriptor_reference_id e m flags =
     do {
       content_reference_id_record_flag \<leftarrow> fld e 1 7 1 m flags;
       if content_reference_id_record_flag \<noteq> 1 then Some None
       else Some (Some (flags + 1)) }"

definition mpeg_content_reference_id_data :: "nat \<Rightarrow> nat" where
  "mpeg_content_reference_id_data d = d + 1"

definition mpeg_content_labelling_descriptor_time_base :: "byte_order \<Rightarrow> mem \<Rightarrow> nat \<Rightarrow> nat option option" where
  "mpeg_content_labelling_descriptor_time_base e m flags =
     do {
       content_time_base_indicator \<leftarrow> fld e 1 3 4 m flags;
       if content_time_base_indicator \<noteq> 1 \<and> content_time_base_indicator \<noteq> 2 then Some None
       else do {
         content_reference_id_record_flag \<leftarrow> fld e 1 7 1 m flags;
         buf \<leftarrow> (if content_reference_id_record_flag = 1 then
           do {
             byte \<leftarrow> rd8 m (flags + 2);
             let buf = flags + byte + 2;
             Some buf }
         else Some (flags + 1));
         Some (Some buf) } }"

definition mpeg_content_labelling_descriptor_content_id :: "byte_order \<Rightarrow> mem \<Rightarrow> nat \<Rightarrow> nat option option" where
  "mpeg_content_labelling_descriptor_content_id e m flags =
     do {
       content_time_base_indicator \<leftarrow> fld e 1 3 4 m flags;
       if content_time_base_indicator \<noteq> 2 then Some None
       else do {
         content_reference_id_record_flag \<leftarrow> fld e 1 7 1 m flags;
         buf \<leftarrow> (if content_reference_id_record_flag = 1 then
           do {
             byte \<leftarrow> rd8 m (flags + 2);
             let buf = flags + byte + 2;
             Some buf }
         else Some (flags + 1));
         let buf = (if content_time_base_indicator = 1 \<or> content_time_base_indicator = 2 then buf + 10
         else buf);
         Some (Some buf) } }"

definition mpeg_content_labelling_descriptor_time_base_assoc :: "byte_order \<Rightarrow> mem \<Rightarrow> nat \<Rightarrow> nat option option" where
  "mpeg_content_labelling_descriptor_time_base_assoc e m flags =
     do {
       content_time_base_indicator \<leftarrow> fld e 1 3 4 m flags;
       if content_time_base_indicator < 3 then Some None
       else do {
         content_reference_id_record_flag \<leftarrow> fld e 1 7 1 m flags;
         buf \<leftarrow> (if content_reference_id_record_flag = 1 then
           do {
             byte \<leftarrow> rd8 m (flags + 2);
             let buf = flags + byte + 2;
             Some buf }
         else Some (flags + 1));
         let buf = (if content_time_base_indicator = 1 \<or> content_time_base_indicator = 2 then buf + 10
         else buf);
         let buf = (if content_time_base_indicator = 2 then buf + 1
         else buf);
         Some (Some buf) } }"

definition mpeg_time_base_association_data :: "nat \<Rightarrow> nat" where
  "mpeg_time_base_association_data d = d + 1"

definition mpeg_content_labelling_descriptor_data :: "byte_order \<Rightarrow> mem \<Rightarrow> nat \<Rightarrow> nat \<Rightarrow> (nat \<times> int) option" where
  "mpeg_content_labelling_descriptor_data e m d flags =
     do {
       len \<leftarrow> rd8 m (d + 1);
       let stop = d + len + 2;
       content_reference_id_record_flag \<leftarrow> fld e 1 7 1 m flags;
       buf \<leftarrow> (if content_reference_id_record_flag = 1 then
         do {
           byte \<leftarrow> rd8 m (flags + 2);
           let buf = flags + byte + 2;
           Some buf }
       else Some (flags + 1));
       content_time_base_indicator \<leftarrow> fld e 1 3 4 m flags;
       let buf = (if content_time_base_indicator = 1 \<or> content_time_base_indicator = 2 then buf + 10
       else buf);
       let buf = (if content_time_base_indicator = 2 then buf + 1
       else buf);
       buf \<leftarrow> (if content_time_base_indicator < 3 then
         do {
           byte \<leftarrow> rd8 m (buf + 1);
           let buf = buf + byte + 1;
           Some buf }
       else Some buf);
       Some (buf, int stop - int buf) }"

section \<open>\<open>mpeg/copyright_descriptor.h\<close>\<close>

definition mpeg_copyright_descriptor_layout :: layout where
  "mpeg_copyright_descriptor_layout =
    [(''copyright_identifier'', Value 2 4 0 32)]"

definition mpeg_copyright_descriptor_codec :: "byte_order \<Rightarrow> mem \<Rightarrow> nat \<Rightarrow> (mem \<times> bool) option" where
  "mpeg_copyright_descriptor_codec e m d =
     do {
       len \<leftarrow> rd8 m (d + 1);
       if len < 4 then Some (m, False)
       else do {
         m \<leftarrow> bswap32 e m (d + 2);
         Some (m, True) } }"

definition mpeg_copyright_descriptor_data :: "nat \<Rightarrow> nat" where
  "mpeg_copyright_descriptor_data d = d + 6"

definition mpeg_copyright_descriptor_data_length :: "mem \<Rightarrow> nat \<Rightarrow> int option" where
  "mpeg_copyright_descriptor_data_length m d =
     do {
       len \<leftarrow> rd8 m (d + 1);
       Some (int len - 4) }"

section \<open>\<open>mpeg/data_stream_alignment_descriptor.h\<close>\<close>

definition mpeg_data_stream_alignment_descriptor_layout :: layout where
  "mpeg_data_stream_alignment_descriptor_layout =
    [(''alignment_type'', Value 2 1 0 8)]"

definition mpeg_data_stream_alignment_descriptor_codec :: "byte_order \<Rightarrow> mem \<Rightarrow> nat \<Rightarrow> (mem \<times> bool) option" where
  "mpeg_data_stream_alignment_descriptor_codec e m d =
     do {
       len \<leftarrow> rd8 m (d + 1);
       if len \<noteq> 1 then Some (m, False)
       else Some (m, True) }"

section \<open>\<open>mpeg/external_es_id_descriptor.h\<close>\<close>

definition mpeg_external_es_id_descriptor_layout :: layout where
  "mpeg_external_es_id_descriptor_layout =
    [(''external_es_id'', Value 2 2 0 16)]"

definition mpeg_external_es_id_descriptor_codec :: "byte_order \<Rightarrow> mem \<Rightarrow> nat \<Rightarrow> (mem \<times> bool) option" where
  "mpeg_external_es_id_descriptor_codec e m d =
     do {
       len \<leftarrow> rd8 m (d + 1);
       if len \<noteq> 2 then Some (m, False)
       else do {
         m \<leftarrow> bswap16 e m (d + 2);
         Some (m, True) } }"

section \<open>\<open>mpeg/fmc_descriptor.h\<close>\<close>

definition mpeg_flex_mux_layout :: layout where
  "mpeg_flex_mux_layout =
    [(''es_id'', Value 0 2 0 16), (''flex_mux_channel'', Value 2 1 0 8)]"

definition mpeg_fmc_descriptor_codec :: "byte_order \<Rightarrow> mem \<Rightarrow> nat \<Rightarrow> (mem \<times> bool) option" where
  "mpeg_fmc_descriptor_codec e m d =
     do {
       len \<leftarrow> rd8 m (d + 1);
       if len mod 3 \<noteq> 0 then Some (m, False)
       else do {
         ((m, pos), ok) \<leftarrow> while_do
           (\<lambda>(m, pos). Some (pos < len))
           (\<lambda>(m, pos).
             do {
               m \<leftarrow> bswap16 e m (d + pos + 2);
               let pos = pos + 3;
               Some ((m, pos), True) })
           (m, 0);
         if \<not> ok then Some (m, False)
         else Some (m, True) } }"

definition mpeg_fmc_descriptor_muxes_first :: "mem \<Rightarrow> nat \<Rightarrow> nat option option" where
  "mpeg_fmc_descriptor_muxes_first m d =
     do {
       len \<leftarrow> rd8 m (d + 1);
       if len < 3 then Some None
       else Some (Some (d + 2)) }"

definition mpeg_fmc_descriptor_muxes_next :: "mem \<Rightarrow> nat \<Rightarrow> nat \<Rightarrow> nat option option" where
  "mpeg_fmc_descriptor_muxes_next m d pos =
     do {
       len \<leftarrow> rd8 m (d + 1);
       let stop = d + len + 2;
       if pos + 3 \<ge> stop then Some None
       else Some (Some (pos + 3)) }"

section \<open>\<open>mpeg/fmxbuffer_size_descriptor.h\<close>\<close>

definition mpeg_fmxbuffer_size_descriptor_codec :: "byte_order \<Rightarrow> mem \<Rightarrow> nat \<Rightarrow> (mem \<times> bool) option" where
  "mpeg_fmxbuffer_size_descriptor_codec e m d = Some (m, True)"

definition mpeg_fmxbuffer_size_descriptor_descriptors :: "nat \<Rightarrow> nat" where
  "mpeg_fmxbuffer_size_descriptor_descriptors d = d + 2"

definition mpeg_fmxbuffer_size_descriptor_descriptors_length :: "mem \<Rightarrow> nat \<Rightarrow> nat option" where
  "mpeg_fmxbuffer_size_descriptor_descriptors_length m d =
     do {
       len \<leftarrow> rd8 m (d + 1);
       Some len }"

section \<open>\<open>mpeg/hierarchy_descriptor.h\<close>\<close>

definition mpeg_hierarchy_descriptor_layout :: layout where
  "mpeg_hierarchy_descriptor_layout =
    [(''reserved_1'', Value 2 1 4 4), (''hierarchy_type'', Value 2 1 0 4), (''reserved_2'', Value 3 1 6 2),
     (''hierarchy_layer_index'', Value 3 1 0 6), (''reserved_3'', Value 4 1 6 2),
     (''hierarchy_embedded_layer_index'', Value 4 1 0 6), (''reserved_4'', Value 5 1 6 2),
     (''hierarchy_channel'', Value 5 1 0 6)]"

definition mpeg_hierarchy_descriptor_codec :: "byte_order \<Rightarrow> mem \<Rightarrow> nat \<Rightarrow> (mem \<times> bool) option" where
  "mpeg_hierarchy_descriptor_codec e m d =
     do {
       len \<leftarrow> rd8 m (d + 1);
       if len \<noteq> 4 then Some (m, False)
       else Some (m, True) }"

section \<open>\<open>mpeg/ibp_descriptor.h\<close>\<close>

definition mpeg_ibp_descriptor_layout :: layout where
  "mpeg_ibp_descriptor_layout =
    [(''closed_gop_flag'', Value 2 2 15 1), (''identical_gop_flag'', Value 2 2 14 1), (''max_gop_length'', Value 2 2 0 14)]"

definition mpeg_ibp_descriptor_codec :: "byte_order \<Rightarrow> mem \<Rightarrow> nat \<Rightarrow> (mem \<times> bool) option" where
  "mpeg_ibp_descriptor_codec e m d =
     do {
       len \<leftarrow> rd8 m (d + 1);
       if len \<noteq> 2 then Some (m, False)
       else do {
         m \<leftarrow> bswap16 e m (d + 2);
         Some (m, True) } }"

section \<open>\<open>mpeg/iod_descriptor.h\<close>\<close>

definition mpeg_iod_descriptor_layout :: layout where
  "mpeg_iod_descriptor_layout =
    [(''scope_of_iod_label'', Value 2 1 0 8), (''iod_label'', Value 3 1 0 8)]"

definition mpeg_iod_descriptor_codec :: "byte_order \<Rightarrow> mem \<Rightarrow> nat \<Rightarrow> (mem \<times> bool) option" where
  "mpeg_iod_descriptor_codec e m d =
     do {
       len \<leftarrow> rd8 m (d + 1);
       if len < 2 then Some (m, False)
       else Some (m, True) }"

definition mpeg_iod_descriptor_iod :: "nat \<Rightarrow> nat" where
  "mpeg_iod_descriptor_iod d = d + 4"

definition mpeg_iod_descriptor_iod_length :: "mem \<Rightarrow> nat \<Rightarrow> int option" where
  "mpeg_iod_descriptor_iod_length m d =
     do {
       len \<leftarrow> rd8 m (d + 1);
       Some (int len - 2) }"

section \<open>\<open>mpeg/iso_639_language_descriptor.h\<close>\<close>

definition mpeg_iso_639_language_code_layout :: layout where
  "mpeg_iso_639_language_code_layout =
    [(''language_code'', Bytes 0 3), (''audio_type'', Value 3 1 0 8)]"

definition mpeg_iso_639_language_descriptor_codec :: "byte_order \<Rightarrow> mem \<Rightarrow> nat \<Rightarrow> (mem \<times> bool) option" where
  "mpeg_iso_639_language_descriptor_codec e m d =
     do {
       len \<leftarrow> rd8 m (d + 1);
       if len mod 4 \<noteq> 0 then Some (m, False)
       else Some (m, True) }"

definition mpeg_iso_639_language_descriptor_languages_first :: "mem \<Rightarrow> nat \<Rightarrow> nat option option" where
  "mpeg_iso_639_language_descriptor_languages_first m d =
     do {
       len \<leftarrow> rd8 m (d + 1);
       if len < 4 then Some None
       else Some (Some (d + 2)) }"

definition mpeg_iso_639_language_descriptor_languages_next :: "mem \<Rightarrow> nat \<Rightarrow> nat \<Rightarrow> nat option option" where
  "mpeg_iso_639_language_descriptor_languages_next m d pos =
     do {
       len \<leftarrow> rd8 m (d + 1);
       let stop = d + len + 2;
       if pos + 4 \<ge> stop then Some None
       else Some (Some (pos + 4)) }"

section \<open>\<open>mpeg/maximum_bitrate_descriptor.h\<close>\<close>

definition mpeg_maximum_bitrate_descriptor_layout :: layout where
  "mpeg_maximum_bitrate_descriptor_layout =
    [(''reserved'', Value 2 3 22 2), (''maximum_bitrate'', Value 2 3 0 22)]"

definition mpeg_maximum_bitrate_descriptor_codec :: "byte_order \<Rightarrow> mem \<Rightarrow> nat \<Rightarrow> (mem \<times> bool) option" where
  "mpeg_maximum_bitrate_descriptor_codec e m d =
     do {
       len \<leftarrow> rd8 m (d + 1);
       if len \<noteq> 3 then Some (m, False)
       else do {
         m \<leftarrow> bswap24 e m (d + 2);
         Some (m, True) } }"

section \<open>\<open>mpeg/metadata_descriptor.h\<close>\<close>

definition mpeg_metadata_descriptor_layout :: layout where
  "mpeg_metadata_descriptor_layout =
    [(''metadata_application_format'', Value 2 2 0 16)]"

definition mpeg_metadata_descriptor_application_format_identifier_layout :: layout where
  "mpeg_metadata_descriptor_application_format_identifier_layout =
    [(''id'', Value 0 4 0 32)]"

definition mpeg_metadata_descriptor_format_identifier_layout :: layout where
  "mpeg_metadata_descriptor_format_identifier_layout =
    [(''id'', Value 0 4 0 32)]"

definition mpeg_metadata_descriptor_flags_layout :: layout where
  "mpeg_metadata_descriptor_flags_layout =
    [(''metadata_service_id'', Value 0 1 0 8), (''decoder_config_flags'', Value 1 1 5 3), (''dsm_cc_flag'', Value 1 1 4 1),
     (''reserved'', Value 1 1 0 4)]"

definition mpeg_metadata_descriptor_service_identifier_layout :: layout where
  "mpeg_metadata_descriptor_service_identifier_layout =
    [(''service_identification_length'', Value 0 1 0 8)]"

definition mpeg_metadata_descriptor_decoder_config_layout :: layout where
  "mpeg_metadata_descriptor_decoder_config_layout =
    [(''decoder_config_length'', Value 0 1 0 8)]"

definition mpeg_metadata_descriptor_decoder_config_id_record_layout :: layout where
  "mpeg_metadata_descriptor_decoder_config_id_record_layout =
    [(''decoder_config_id_record_length'', Value 0 1 0 8)]"

definition mpeg_metadata_descriptor_decoder_config_service_id_layout :: layout where
  "mpeg_metadata_descriptor_decoder_config_service_id_layout =
    [(''decoder_config_metadata_service_id'', Value 0 1 0 8)]"

definition mpeg_metadata_descriptor_decoder_config_reserved_layout :: layout where
  "mpeg_metadata_descriptor_decoder_config_reserved_layout =
    [(''reserved_data_length'', Value 0 1 0 8)]"

definition mpeg_metadata_descriptor_codec :: "byte_order \<Rightarrow> mem \<Rightarrow> nat \<Rightarrow> (mem \<times> bool) option" where
  "mpeg_metadata_descriptor_codec e m d =
     do {
       len' \<leftarrow> rd8 m (d + 1);
       let len = len' + 2;
       if len < 4 then Some (m, False)
       else do {
         m \<leftarrow> bswap16 e m (d + 2);
         v \<leftarrow> ldn e 2 m (d + 2);
         ((m, pos), ok) \<leftarrow> (if v = 65535 then
           if len < 8 then Some ((m, 4), False)
           else do {
             m \<leftarrow> bswap32 e m (d + 4);
             Some ((m, 8), True) }
         else Some ((m, 4), True));
         if \<not> ok then Some (m, False)
         else if len < pos + 1 then Some (m, False)
         else do {
           ident \<leftarrow> rd8 m (d + pos);
           let pos = pos + 1;
           ((m, pos), ok) \<leftarrow> (if ident = 255 then
             if len < pos + 4 then Some ((m, pos), False)
             else do {
               m \<leftarrow> bswap32 e m (d + pos);
               let pos = pos + 4;
               Some ((m, pos), True) }
           else Some ((m, pos), True));
           if \<not> ok then Some (m, False)
           else if len < pos + 2 then Some (m, False)
           else do {
             let flags = d + pos;
             let pos = pos + 2;
             dsm_cc_flag \<leftarrow> fld e 1 4 1 m (flags + 1);
             ((m, pos), ok) \<leftarrow> (if dsm_cc_flag = 1 then
               if len < pos + 1 then Some ((m, pos), False)
               else do {
                 byte \<leftarrow> rd8 m (d + pos);
                 if len < pos + byte + 1 then Some ((m, pos), False)
                 else do {
                   let pos = pos + byte + 1;
                   Some ((m, pos), True) } }
             else Some ((m, pos), True));
             if \<not> ok then Some (m, False)
             else do {
               decoder_config_flags \<leftarrow> fld e 1 5 3 m (flags + 1);
               ((m, pos), ok) \<leftarrow> (if decoder_config_flags = 1 then
                 if len < pos + 1 then Some ((m, pos), False)
                 else do {
                   byte \<leftarrow> rd8 m (d + pos);
                   if len < pos + byte + 1 then Some ((m, pos), False)
                   else do {
                     let pos = pos + byte + 1;
                     Some ((m, pos), True) } }
               else Some ((m, pos), True));
               if \<not> ok then Some (m, False)
               else do {
                 ((m, pos), ok) \<leftarrow> (if decoder_config_flags = 3 then
                   if len < pos + 1 then Some ((m, pos), False)
                   else do {
                     byte \<leftarrow> rd8 m (d + pos);
                     if len < pos + byte + 1 then Some ((m, pos), False)
                     else do {
                       let pos = pos + byte + 1;
                       Some ((m, pos), True) } }
                 else Some ((m, pos), True));
                 if \<not> ok then Some (m, False)
                 else do {
                   ((m, pos), ok) \<leftarrow> (if decoder_config_flags = 4 then
                     if len < pos + 1 then Some ((m, pos), False)
                     else do {
                       let pos = pos + 1;
                       Some ((m, pos), True) }
                   else Some ((m, pos), True));
                   if \<not> ok then Some (m, False)
                   else do {
                     ((m, pos), ok) \<leftarrow> (if decoder_config_flags = 5 \<or> decoder_config_flags = 6 then
                       if len < pos + 1 then Some ((m, pos), False)
                       else do {
                         byte \<leftarrow> rd8 m (d + pos);
                         if len < pos + byte + 1 then Some ((m, pos), False)
                         else do {
                           let pos = pos + byte + 1;
                           Some ((m, pos), True) } }
                     else Some ((m, pos), True));
                     if \<not> ok then Some (m, False)
                     else if len < pos then Some (m, False)
                     else Some (m, True) } } } } } } } }"

definition mpeg_metadata_descriptor_appid :: "byte_order \<Rightarrow> mem \<Rightarrow> nat \<Rightarrow> nat option option" where
  "mpeg_metadata_descriptor_appid e m d =
     do {
       metadata_application_format \<leftarrow> ldn e 2 m (d + 2);
       if metadata_application_format \<noteq> 65535 then Some None
       else Some (Some (d + 4)) }"

definition mpeg_metadata_descriptor_metadata_format :: "byte_order \<Rightarrow> mem \<Rightarrow> nat \<Rightarrow> nat option" where
  "mpeg_metadata_descriptor_metadata_format e m d =
     do {
       metadata_application_format \<leftarrow> ldn e 2 m (d + 2);
       let buf = (if metadata_application_format = 65535 then d + 8
       else d + 4);
       do {
         byte \<leftarrow> rd8 m buf;
         Some byte } }"

definition mpeg_metadata_descriptor_formid :: "byte_order \<Rightarrow> mem \<Rightarrow> nat \<Rightarrow> nat option option" where
  "mpeg_metadata_descriptor_formid e m d =
     do {
       metadata_application_format \<leftarrow> ldn e 2 m (d + 2);
       let buf = (if metadata_application_format = 65535 then d + 8
       else d + 4);
       byte \<leftarrow> rd8 m buf;
       if byte \<noteq> 255 then Some None
       else Some (Some (buf + 1)) }"

definition mpeg_metadata_descriptor_flags :: "byte_order \<Rightarrow> mem \<Rightarrow> nat \<Rightarrow> nat option" where
  "mpeg_metadata_descriptor_flags e m d =
     do {
       metadata_application_format \<leftarrow> ldn e 2 m (d + 2);
       let buf = (if metadata_application_format = 65535 then d + 8
       else d + 4);
       byte \<leftarrow> rd8 m buf;
       let buf = (if byte = 255 then buf + 4
       else buf);
       Some buf }"

definition mpeg_metadata_descriptor_sevice_identifier :: "byte_order \<Rightarrow> mem \<Rightarrow> nat \<Rightarrow> nat option option" where
  "mpeg_metadata_descriptor_sevice_identifier e m flags =
     do {
       dsm_cc_flag \<leftarrow> fld e 1 4 1 m (flags + 1);
       if dsm_cc_flag \<noteq> 1 then Some None
       else Some (Some (flags + 2)) }"

definition mpeg_metadata_descriptor_service_identifier_data :: "nat \<Rightarrow> nat" where
  "mpeg_metadata_descriptor_service_identifier_data d = d + 1"

definition mpeg_metadata_descriptor_decoder_config :: "byte_order \<Rightarrow> mem \<Rightarrow> nat \<Rightarrow> nat option option" where
  "mpeg_metadata_descriptor_decoder_config e m flags =
     do {
       decoder_config_flags \<leftarrow> fld e 1 5 3 m (flags + 1);
       if decoder_config_flags \<noteq> 1 then Some None
       else do {
         dsm_cc_flag \<leftarrow> fld e 1 4 1 m (flags + 1);
         buf \<leftarrow> (if dsm_cc_flag = 1 then
           do {
             byte \<leftarrow> rd8 m (flags + 3);
             let buf = flags + byte + 3;
             Some buf }
         else Some (flags + 2));
         Some (Some buf) } }"

definition mpeg_metadata_descriptor_decoder_config_data :: "nat \<Rightarrow> nat" where
  "mpeg_metadata_descriptor_decoder_config_data d = d + 1"

definition mpeg_metadata_descriptor_decoder_config_id_record :: "byte_order \<Rightarrow> mem \<Rightarrow> nat \<Rightarrow> nat option option" where
  "mpeg_metadata_descriptor_decoder_config_id_record e m flags =
     do {
       decoder_config_flags \<leftarrow> fld e 1 5 3 m (flags + 1);
       if decoder_config_flags \<noteq> 3 then Some None
       else do {
         dsm_cc_flag \<leftarrow> fld e 1 4 1 m (flags + 1);
         buf \<leftarrow> (if dsm_cc_flag = 1 then
           do {
             byte \<leftarrow> rd8 m (flags + 3);
             let buf = flags + byte + 3;
             Some buf }
         else Some (flags + 2));
         Some (Some buf) } }"

definition mpeg_metadata_descriptor_decoder_config_id_record_data :: "nat \<Rightarrow> nat" where
  "mpeg_metadata_descriptor_decoder_config_id_record_data d = d + 1"

definition mpeg_metadata_descriptor_decoder_config_service_id :: "byte_order \<Rightarrow> mem \<Rightarrow> nat \<Rightarrow> nat option option" where
  "mpeg_metadata_descriptor_decoder_config_service_id e m flags =
     do {
       decoder_config_flags \<leftarrow> fld e 1 5 3 m (flags + 1);
       if decoder_config_flags \<noteq> 4 then Some None
       else do {
         dsm_cc_flag \<leftarrow> fld e 1 4 1 m (flags + 1);
         buf \<leftarrow> (if dsm_cc_flag = 1 then
           do {
             byte \<leftarrow> rd8 m (flags + 3);
             let buf = flags + byte + 3;
             Some buf }
         else Some (flags + 2));
         Some (Some buf) } }"

definition mpeg_metadata_descriptor_decoder_config_reserved :: "byte_order \<Rightarrow> mem \<Rightarrow> nat \<Rightarrow> nat option option" where
  "mpeg_metadata_descriptor_decoder_config_reserved e m flags =
     do {
       decoder_config_flags \<leftarrow> fld e 1 5 3 m (flags + 1);
       if decoder_config_flags \<noteq> 5 \<and> decoder_config_flags \<noteq> 6 then Some None
       else do {
         dsm_cc_flag \<leftarrow> fld e 1 4 1 m (flags + 1);
         buf \<leftarrow> (if dsm_cc_flag = 1 then
           do {
             byte \<leftarrow> rd8 m (flags + 3);
             let buf = flags + byte + 3;
             Some buf }
         else Some (flags + 2));
         Some (Some buf) } }"

definition mpeg_metadata_descriptor_decoder_config_reserved_data :: "nat \<Rightarrow> nat" where
  "mpeg_metadata_descriptor_decoder_config_reserved_data d = d + 1"

definition mpeg_metadata_descriptor_private_data :: "byte_order \<Rightarrow> mem \<Rightarrow> nat \<Rightarrow> nat \<Rightarrow> (nat \<times> int) option" where
  "mpeg_metadata_descriptor_private_data e m d flags =
     do {
       len \<leftarrow> rd8 m (d + 1);
       let stop = d + len + 2;
       dsm_cc_flag \<leftarrow> fld e 1 4 1 m (flags + 1);
       buf \<leftarrow> (if dsm_cc_flag = 1 then
         do {
           byte \<leftarrow> rd8 m (flags + 3);
           let buf = flags + byte + 3;
           Some buf }
       else Some (flags + 2));
       decoder_config_flags \<leftarrow> fld e 1 5 3 m (flags + 1);
       buf \<leftarrow> (if decoder_config_flags = 1 then
         do {
           byte \<leftarrow> rd8 m (buf + 1);
           let buf = buf + byte + 1;
           Some buf }
       else Some buf);
       buf \<leftarrow> (if decoder_config_flags = 3 then
         do {
           byte \<leftarrow> rd8 m (buf + 1);
           let buf = buf + byte + 1;
           Some buf }
       else Some buf);
       let buf = (if decoder_config_flags = 4 then buf + 1
       else buf);
       buf \<leftarrow> (if decoder_config_flags = 5 \<or> decoder_config_flags = 6 then
         do {
           byte \<leftarrow> rd8 m (buf + 1);
           let buf = buf + byte + 1;
           Some buf }
       else Some buf);
       Some (buf, int stop - int buf) }"

section \<open>\<open>mpeg/metadata_pointer_descriptor.h\<close>\<close>

definition mpeg_metadata_pointer_descriptor_layout :: layout where
  "mpeg_metadata_pointer_descriptor_layout =
    [(''metadata_application_format'', Value 2 2 0 16)]"

definition mpeg_metadata_pointer_descriptor_application_format_identifier_layout :: layout where
  "mpeg_metadata_pointer_descriptor_application_format_identifier_layout =
    [(''id'', Value 0 4 0 32)]"

definition mpeg_metadata_pointer_descriptor_format_identifier_layout :: layout where
  "mpeg_metadata_pointer_descriptor_format_identifier_layout =
    [(''id'', Value 0 4 0 32)]"

definition mpeg_metadata_pointer_descriptor_flags_layout :: layout where
  "mpeg_metadata_pointer_descriptor_flags_layout =
    [(''metadata_service_id'', Value 0 1 0 8), (''metadata_locator_record_flag'', Value 1 1 7 1),
     (''mpeg_carriage_flags'', Value 1 1 5 2), (''reserved'', Value 1 1 0 5)]"

definition mpeg_metadata_pointer_descriptor_locator_layout :: layout where
  "mpeg_metadata_pointer_descriptor_locator_layout =
    [(''metadata_locator_record_length'', Value 0 1 0 8)]"

definition mpeg_metadata_pointer_descriptor_program_number_layout :: layout where
  "mpeg_metadata_pointer_descriptor_program_number_layout =
    [(''number'', Value 0 2 0 16)]"

definition mpeg_metadata_pointer_descriptor_carriage_layout :: layout where
  "mpeg_metadata_pointer_descriptor_carriage_layout =
    [(''transport_stream_location'', Value 0 2 0 16), (''transport_stream_id'', Value 2 2 0 16)]"

definition mpeg_metadata_pointer_descriptor_codec :: "byte_order \<Rightarrow> mem \<Rightarrow> nat \<Rightarrow> (mem \<times> bool) option" where
  "mpeg_metadata_pointer_descriptor_codec e m d =
     do {
       len' \<leftarrow> rd8 m (d + 1);
       let len = len' + 2;
       if len < 4 then Some (m, False)
       else do {
         m \<leftarrow> bswap16 e m (d + 2);
         v \<leftarrow> ldn e 2 m (d + 2);
         ((m, pos), ok) \<leftarrow> (if v = 65535 then
           if len < 8 then Some ((m, 4), False)
           else do {
             m \<leftarrow> bswap32 e m (d + 4);
             Some ((m, 8), True) }
         else Some ((m, 4), True));
         if \<not> ok then Some (m, False)
         else if len < pos + 1 then Some (m, False)
         else do {
           ident \<leftarrow> rd8 m (d + pos);
           let pos = pos + 1;
           ((m, pos), ok) \<leftarrow> (if ident = 255 then
             if len < pos + 4 then Some ((m, pos), False)
             else do {
               m \<leftarrow> bswap32 e m (d + pos);
               let pos = pos + 4;
               Some ((m, pos), True) }
           else Some ((m, pos), True));
           if \<not> ok then Some (m, False)
           else if len < pos + 2 then Some (m, False)
           else do {
             let flags = d + pos;
             let pos = pos + 2;
             metadata_locator_record_flag \<leftarrow> fld e 1 7 1 m (flags + 1);
             ((m, pos), ok) \<leftarrow> (if metadata_locator_record_flag = 1 then
               if len < pos + 1 then Some ((m, pos), False)
               else do {
                 byte \<leftarrow> rd8 m (d + pos);
                 if len < pos + byte + 1 then Some ((m, pos), False)
                 else do {
                   let pos = pos + byte + 1;
                   Some ((m, pos), True) } }
             else Some ((m, pos), True));
             if \<not> ok then Some (m, False)
             else do {
               mpeg_carriage_flags \<leftarrow> fld e 1 5 2 m (flags + 1);
               ((m, pos), ok) \<leftarrow> (if mpeg_carriage_flags < 3 then
                 if len < pos + 2 then Some ((m, pos), False)
                 else do {
                   m \<leftarrow> bswap16 e m (d + pos);
                   let pos = pos + 2;
                   Some ((m, pos), True) }
               else Some ((m, pos), True));
               if \<not> ok then Some (m, False)
               else do {
                 mpeg_carriage_flags' \<leftarrow> fld e 1 5 2 m (flags + 1);
                 ((m, pos), ok) \<leftarrow> (if mpeg_carriage_flags' = 1 then
                   if len < pos + 4 then Some ((m, pos), False)
                   else do {
                     m \<leftarrow> bswap16 e m (d + pos);
                     m \<leftarrow> bswap16 e m (d + pos + 2);
                     let pos = pos + 4;
                     Some ((m, pos), True) }
                 else Some ((m, pos), True));
                 if \<not> ok then Some (m, False)
                 else if len < pos then Some (m, False)
                 else Some (m, True) } } } } } }"

definition mpeg_metadata_pointer_descriptor_appid :: "byte_order \<Rightarrow> mem \<Rightarrow> nat \<Rightarrow> nat option option" where
  "mpeg_metadata_pointer_descriptor_appid e m d =
     do {
       metadata_application_format \<leftarrow> ldn e 2 m (d + 2);
       if metadata_application_format \<noteq> 65535 then Some None
       else Some (Some (d + 4)) }"

definition mpeg_metadata_pointer_descriptor_metadata_format :: "byte_order \<Rightarrow> mem \<Rightarrow> nat \<Rightarrow> nat option" where
  "mpeg_metadata_pointer_descriptor_metadata_format e m d =
     do {
       metadata_application_format \<leftarrow> ldn e 2 m (d + 2);
       let buf = (if metadata_application_format = 65535 then d + 8
       else d + 4);
       do {
         byte \<leftarrow> rd8 m buf;
         Some byte } }"

definition mpeg_metadata_pointer_descriptor_formid :: "byte_order \<Rightarrow> mem \<Rightarrow> nat \<Rightarrow> nat option option" where
  "mpeg_metadata_pointer_descriptor_formid e m d =
     do {
       metadata_application_format \<leftarrow> ldn e 2 m (d + 2);
       let buf = (if metadata_application_format = 65535 then d + 8
       else d + 4);
       byte \<leftarrow> rd8 m buf;
       if byte \<noteq> 255 then Some None
       else Some (Some (buf + 1)) }"

definition mpeg_metadata_pointer_descriptor_flags :: "byte_order \<Rightarrow> mem \<Rightarrow> nat \<Rightarrow> nat option" where
  "mpeg_metadata_pointer_descriptor_flags e m d =
     do {
       metadata_application_format \<leftarrow> ldn e 2 m (d + 2);
       let buf = (if metadata_application_format = 65535 then d + 8
       else d + 4);
       byte \<leftarrow> rd8 m buf;
       let buf = (if byte = 255 then buf + 4
       else buf);
       Some buf }"

definition mpeg_metadata_pointer_descriptor_locator :: "byte_order \<Rightarrow> mem \<Rightarrow> nat \<Rightarrow> nat option option" where
  "mpeg_metadata_pointer_descriptor_locator e m flags =
     do {
       metadata_locator_record_flag \<leftarrow> fld e 1 7 1 m (flags + 1);
       if metadata_locator_record_flag \<noteq> 1 then Some None
       else Some (Some (flags + 2)) }"

definition mpeg_metadata_pointer_descriptor_locator_data :: "nat \<Rightarrow> nat" where
  "mpeg_metadata_pointer_descriptor_locator_data d = d + 1"

definition mpeg_metadata_pointer_descriptor_program_number :: "byte_order \<Rightarrow> mem \<Rightarrow> nat \<Rightarrow> nat option option" where
  "mpeg_metadata_pointer_descriptor_program_number e m flags =
     do {
       mpeg_carriage_flags \<leftarrow> fld e 1 5 2 m (flags + 1);
       if mpeg_carriage_flags < 3 then Some None
       else do {
         metadata_locator_record_flag \<leftarrow> fld e 1 7 1 m (flags + 1);
         buf \<leftarrow> (if metadata_locator_record_flag = 1 then
           do {
             byte \<leftarrow> rd8 m (flags + 3);
             let buf = flags + byte + 3;
             Some buf }
         else Some (flags + 2));
         Some (Some buf) } }"

definition mpeg_metadata_pointer_descriptor_carriage :: "byte_order \<Rightarrow> mem \<Rightarrow> nat \<Rightarrow> nat option option" where
  "mpeg_metadata_pointer_descriptor_carriage e m flags =
     do {
       mpeg_carriage_flags \<leftarrow> fld e 1 5 2 m (flags + 1);
       if mpeg_carriage_flags \<noteq> 1 then Some None
       else do {
         metadata_locator_record_flag \<leftarrow> fld e 1 7 1 m (flags + 1);
         buf \<leftarrow> (if metadata_locator_record_flag = 1 then
           do {
             byte \<leftarrow> rd8 m (flags + 3);
             let buf = flags + byte + 3;
             Some buf }
         else Some (flags + 2));
         let buf = (if mpeg_carriage_flags < 3 then buf + 2
         else buf);
         Some (Some buf) } }"

definition mpeg_metadata_pointer_descriptor_private_data :: "byte_order \<Rightarrow> mem \<Rightarrow> nat \<Rightarrow> nat \<Rightarrow> (nat \<times> int) option" where
  "mpeg_metadata_pointer_descriptor_private_data e m d flags =
     do {
       len \<leftarrow> rd8 m (d + 1);
       let stop = d + len + 2;
       metadata_locator_record_flag \<leftarrow> fld e 1 7 1 m (flags + 1);
       buf \<leftarrow> (if metadata_locator_record_flag = 1 then
         do {
           byte \<leftarrow> rd8 m (flags + 3);
           let buf = flags + byte + 3;
           Some buf }
       else Some (flags + 2));
       mpeg_carriage_flags \<leftarrow> fld e 1 5 2 m (flags + 1);
       let buf = (if mpeg_carriage_flags < 3 then buf + 2
       else buf);
       let buf = (if mpeg_carriage_flags \<noteq> 1 then buf + 4
       else buf);
       Some (buf, int stop - int buf) }"

section \<open>\<open>mpeg/metadata_std_descriptor.h\<close>\<close>

definition mpeg_metadata_std_descriptor_layout :: layout where
  "mpeg_metadata_std_descriptor_layout =
    [(''reserved_1'', Value 2 3 22 2), (''metadata_input_leak_rate'', Value 2 3 0 22), (''reserved_2'', Value 5 3 22 2),
     (''metadata_buffer_size'', Value 5 3 0 22), (''reserved_3'', Value 8 3 22 2),
     (''metadata_output_leak_rate'', Value 8 3 0 22)]"

definition mpeg_metadata_std_descriptor_codec :: "byte_order \<Rightarrow> mem \<Rightarrow> nat \<Rightarrow> (mem \<times> bool) option" where
  "mpeg_metadata_std_descriptor_codec e m d =
     do {
       len \<leftarrow> rd8 m (d + 1);
       if len \<noteq> 9 then Some (m, False)
       else do {
         m \<leftarrow> bswap24 e m (d + 2);
         m \<leftarrow> bswap24 e m (d + 5);
         m \<leftarrow> bswap24 e m (d + 8);
         Some (m, True) } }"

section \<open>\<open>mpeg/mpeg4_audio_descriptor.h\<close>\<close>

definition mpeg4_audio_descriptor_layout :: layout where
  "mpeg4_audio_descriptor_layout =
    [(''mpeg4_audio_profile_and_level'', Value 2 1 0 8)]"

definition mpeg4_audio_descriptor_codec :: "byte_order \<Rightarrow> mem \<Rightarrow> nat \<Rightarrow> (mem \<times> bool) option" where
  "mpeg4_audio_descriptor_codec e m d =
     do {
       len \<leftarrow> rd8 m (d + 1);
       if len \<noteq> 1 then Some (m, False)
       else Some (m, True) }"

section \<open>\<open>mpeg/mpeg4_video_descriptor.h\<close>\<close>

definition mpeg4_video_descriptor_layout :: layout where
  "mpeg4_video_descriptor_layout =
    [(''mpeg4_visual_profile_and_level'', Value 2 1 0 8)]"

definition mpeg4_video_descriptor_codec :: "byte_order \<Rightarrow> mem \<Rightarrow> nat \<Rightarrow> (mem \<times> bool) option" where
  "mpeg4_video_descriptor_codec e m d =
     do {
       len \<leftarrow> rd8 m (d + 1);
       if len \<noteq> 1 then Some (m, False)
       else Some (m, True) }"

section \<open>\<open>mpeg/multiplex_buffer_descriptor.h\<close>\<close>

definition mpeg_multiplex_buffer_descriptor_layout :: layout where
  "mpeg_multiplex_buffer_descriptor_layout =
    [(''mb_buffer_size'', Value 2 6 24 24), (''tb_leak_rate'', Value 2 6 0 24)]"

definition mpeg_multiplex_buffer_descriptor_codec :: "byte_order \<Rightarrow> mem \<Rightarrow> nat \<Rightarrow> (mem \<times> bool) option" where
  "mpeg_multiplex_buffer_descriptor_codec e m d =
     do {
       len \<leftarrow> rd8 m (d + 1);
       if len \<noteq> 6 then Some (m, False)
       else do {
         m \<leftarrow> bswap48 e m (d + 2);
         Some (m, True) } }"

section \<open>\<open>mpeg/multiplex_buffer_utilization_descriptor.h\<close>\<close>

definition mpeg_multiplex_buffer_utilization_descriptor_layout :: layout where
  "mpeg_multiplex_buffer_utilization_descriptor_layout =
    [(''bound_valid_flag'', Value 2 2 15 1), (''ltw_offset_lower_bound'', Value 2 2 0 15), (''reserved'', Value 4 2 15 1),
     (''ltw_offset_upper_bound'', Value 4 2 0 15)]"

definition mpeg_multiplex_buffer_utilization_descriptor_codec :: "byte_order \<Rightarrow> mem \<Rightarrow> nat \<Rightarrow> (mem \<times> bool) option" where
  "mpeg_multiplex_buffer_utilization_descriptor_codec e m d =
     do {
       len \<leftarrow> rd8 m (d + 1);
       if len \<noteq> 4 then Some (m, False)
       else do {
         m \<leftarrow> bswap16 e m (d + 2);
         m \<leftarrow> bswap16 e m (d + 4);
         Some (m, True) } }"

section \<open>\<open>mpeg/muxcode_descriptor.h\<close>\<close>

definition mpeg_muxcode_descriptor_codec :: "byte_order \<Rightarrow> mem \<Rightarrow> nat \<Rightarrow> (mem \<times> bool) option" where
  "mpeg_muxcode_descriptor_codec e m d = Some (m, True)"

definition mpeg_muxcode_descriptor_entries :: "nat \<Rightarrow> nat" where
  "mpeg_muxcode_descriptor_entries d = d + 2"

definition mpeg_muxcode_descriptor_entries_length :: "mem \<Rightarrow> nat \<Rightarrow> nat option" where
  "mpeg_muxcode_descriptor_entries_length m d =
     do {
       len \<leftarrow> rd8 m (d + 1);
       Some len }"

section \<open>\<open>mpeg/private_data_indicator_descriptor.h\<close>\<close>

definition mpeg_private_data_indicator_descriptor_layout :: layout where
  "mpeg_private_data_indicator_descriptor_layout =
    [(''private_data_indicator'', Value 2 4 0 32)]"

definition mpeg_private_data_indicator_descriptor_codec :: "byte_order \<Rightarrow> mem \<Rightarrow> nat \<Rightarrow> (mem \<times> bool) option" where
  "mpeg_private_data_indicator_descriptor_codec e m d =
     do {
       len \<leftarrow> rd8 m (d + 1);
       if len \<noteq> 4 then Some (m, False)
       else do {
         m \<leftarrow> bswap32 e m (d + 2);
         Some (m, True) } }"

section \<open>\<open>mpeg/registration_descriptor.h\<close>\<close>

definition mpeg_registration_descriptor_layout :: layout where
  "mpeg_registration_descriptor_layout =
    [(''format_identifier'', Value 2 4 0 32)]"

definition mpeg_registration_descriptor_codec :: "byte_order \<Rightarrow> mem \<Rightarrow> nat \<Rightarrow> (mem \<times> bool) option" where
  "mpeg_registration_descriptor_codec e m d =
     do {
       len \<leftarrow> rd8 m (d + 1);
       if len < 4 then Some (m, False)
       else do {
         m \<leftarrow> bswap32 e m (d + 2);
         Some (m, True) } }"

definition mpeg_registration_descriptor_additional_id_info :: "nat \<Rightarrow> nat" where
  "mpeg_registration_descriptor_additional_id_info d = d + 6"

definition mpeg_registration_descriptor_additional_id_info_length :: "mem \<Rightarrow> nat \<Rightarrow> int option" where
  "mpeg_registration_descriptor_additional_id_info_length m d =
     do {
       len \<leftarrow> rd8 m (d + 1);
       Some (int len - 4) }"

section \<open>\<open>mpeg/sl_descriptor.h\<close>\<close>

definition mpeg_sl_descriptor_layout :: layout where
  "mpeg_sl_descriptor_layout =
    [(''es_id'', Value 2 2 0 16)]"

definition mpeg_sl_descriptor_codec :: "byte_order \<Rightarrow> mem \<Rightarrow> nat \<Rightarrow> (mem \<times> bool) option" where
  "mpeg_sl_descriptor_codec e m d =
     do {
       len \<leftarrow> rd8 m (d + 1);
       if len \<noteq> 2 then Some (m, False)
       else do {
         m \<leftarrow> bswap16 e m (d + 2);
         Some (m, True) } }"

section \<open>\<open>mpeg/smoothing_buffer_descriptor.h\<close>\<close>

definition mpeg_smoothing_buffer_descriptor_layout :: layout where
  "mpeg_smoothing_buffer_descriptor_layout =
    [(''reserved_1'', Value 2 6 46 2), (''sb_leak_rate'', Value 2 6 24 22), (''reserved_2'', Value 2 6 22 2),
     (''sb_size'', Value 2 6 0 22)]"

definition mpeg_smoothing_buffer_descriptor_codec :: "byte_order \<Rightarrow> mem \<Rightarrow> nat \<Rightarrow> (mem \<times> bool) option" where
  "mpeg_smoothing_buffer_descriptor_codec e m d =
     do {
       len \<leftarrow> rd8 m (d + 1);
       if len \<noteq> 6 then Some (m, False)
       else do {
         m \<leftarrow> bswap48 e m (d + 2);
         Some (m, True) } }"

section \<open>\<open>mpeg/std_descriptor.h\<close>\<close>

definition mpeg_std_descriptor_layout :: layout where
  "mpeg_std_descriptor_layout =
    [(''reserved'', Value 2 1 1 7), (''leak_valid_flag'', Value 2 1 0 1)]"

definition mpeg_std_descriptor_codec :: "byte_order \<Rightarrow> mem \<Rightarrow> nat \<Rightarrow> (mem \<times> bool) option" where
  "mpeg_std_descriptor_codec e m d =
     do {
       len \<leftarrow> rd8 m (d + 1);
       if len \<noteq> 1 then Some (m, False)
       else Some (m, True) }"

section \<open>\<open>mpeg/system_clock_descriptor.h\<close>\<close>

definition mpeg_system_clock_descriptor_layout :: layout where
  "mpeg_system_clock_descriptor_layout =
    [(''external_clock_reference_indicator'', Value 2 1 7 1), (''reserved_1'', Value 2 1 6 1),
     (''clock_accuracy_integer'', Value 2 1 0 6), (''clock_accuracy_exponent'', Value 3 1 5 3),
     (''reserved_2'', Value 3 1 0 5)]"

definition mpeg_system_clock_descriptor_codec :: "byte_order \<Rightarrow> mem \<Rightarrow> nat \<Rightarrow> (mem \<times> bool) option" where
  "mpeg_system_clock_descriptor_codec e m d =
     do {
       len \<leftarrow> rd8 m (d + 1);
       if len \<noteq> 2 then Some (m, False)
       else Some (m, True) }"

section \<open>\<open>mpeg/target_background_grid_descriptor.h\<close>\<close>

definition mpeg_target_background_grid_descriptor_layout :: layout where
  "mpeg_target_background_grid_descriptor_layout =
    [(''horizontal_size'', Value 2 4 18 14), (''vertical_size'', Value 2 4 4 14),
     (''aspect_ratio_information'', Value 2 4 0 4)]"

definition mpeg_target_background_grid_descriptor_codec :: "byte_order \<Rightarrow> mem \<Rightarrow> nat \<Rightarrow> (mem \<times> bool) option" where
  "mpeg_target_background_grid_descriptor_codec e m d =
     do {
       len \<leftarrow> rd8 m (d + 1);
       if len \<noteq> 4 then Some (m, False)
       else do {
         m \<leftarrow> bswap32 e m (d + 2);
         Some (m, True) } }"

section \<open>\<open>mpeg/video_stream_descriptor.h\<close>\<close>

definition mpeg_video_stream_descriptor_layout :: layout where
  "mpeg_video_stream_descriptor_layout =
    [(''multiple_frame_rate_flag'', Value 2 1 7 1), (''frame_rate_code'', Value 2 1 3 4),
     (''mpeg_1_only_flag'', Value 2 1 2 1), (''constrained_parameter_flag'', Value 2 1 1 1),
     (''still_picture_flag'', Value 2 1 0 1)]"

definition mpeg_video_stream_extra_layout :: layout where
  "mpeg_video_stream_extra_layout =
    [(''profile_and_level_indication'', Value 0 1 0 8), (''chroma_format'', Value 1 1 6 2),
     (''frame_rate_extension'', Value 1 1 5 1), (''reserved'', Value 1 1 0 5)]"

definition mpeg_video_stream_descriptor_codec :: "byte_order \<Rightarrow> mem \<Rightarrow> nat \<Rightarrow> (mem \<times> bool) option" where
  "mpeg_video_stream_descriptor_codec e m d =
     do {
       len \<leftarrow> rd8 m (d + 1);
       if len < 1 then Some (m, False)
       else do {
         mpeg_1_only_flag \<leftarrow> fld e 1 2 1 m (d + 2);
         (m, ok) \<leftarrow> (if \<not> (mpeg_1_only_flag \<noteq> 0) then
           if len \<noteq> 3 then Some (m, False)
           else Some (m, True)
         else Some (m, True));
         if \<not> ok then Some (m, False)
         else Some (m, True) } }"

definition mpeg_video_stream_descriptor_extra :: "byte_order \<Rightarrow> mem \<Rightarrow> nat \<Rightarrow> nat option option" where
  "mpeg_video_stream_descriptor_extra e m d =
     do {
       mpeg_1_only_flag \<leftarrow> fld e 1 2 1 m (d + 2);
       if mpeg_1_only_flag \<noteq> 0 then Some None
       else Some (Some (d + 3)) }"

section \<open>\<open>mpeg/video_window_descriptor.h\<close>\<close>

definition mpeg_video_window_descriptor_layout :: layout where
  "mpeg_video_window_descriptor_layout =
    [(''horizontal_offset'', Value 2 4 18 14), (''vertical_offset'', Value 2 4 4 14), (''window_priority'', Value 2 4 0 4)]"

definition mpeg_video_window_descriptor_codec :: "byte_order \<Rightarrow> mem \<Rightarrow> nat \<Rightarrow> (mem \<times> bool) option" where
  "mpeg_video_window_descriptor_codec e m d =
     do {
       len \<leftarrow> rd8 m (d + 1);
       if len \<noteq> 4 then Some (m, False)
       else do {
         m \<leftarrow> bswap32 e m (d + 2);
         Some (m, True) } }"

section \<open>What the codecs do\<close>

lemma mpeg_audio_stream_descriptor_codec_ok: "exact_codec mpeg_audio_stream_descriptor_codec mpeg_audio_stream_descriptor_layout (\<lambda>len. len = 1)"
  by (rule exact_codecI) (simp add: mpeg_audio_stream_descriptor_codec_def mpeg_audio_stream_descriptor_layout_def safe_simps decode_simps)

lemma mpeg_ca_descriptor_codec_ok: "exact_codec mpeg_ca_descriptor_codec mpeg_ca_descriptor_layout (\<lambda>len. 4 \<le> len)"
  by (rule exact_codecI) (simp add: mpeg_ca_descriptor_codec_def mpeg_ca_descriptor_layout_def safe_simps decode_simps)

lemma mpeg_content_labelling_descriptor_codec_ok: "codec_correct mpeg_content_labelling_descriptor_codec mpeg_content_labelling_descriptor_layout"
proof (rule codec_tailI [where k = 4 and head = "\<lambda>e m d. swapped e 2 m (d + 2)"], goal_cases)
  case (5 e m d len)
  note join = wp_join [where lo = "d + 4" and hi = "d + 2 + len" and ?m0.0 = "swapped e 2 m (d + 2)" and P = "\<lambda>pos. 4 \<le> pos \<and> pos \<le> len + 2"]
  from 5 show ?case
    unfolding mpeg_content_labelling_descriptor_codec_def Let_def 5(1) Option.bind.simps
    by - (rule wp_checkI, simp, rule wp_swap16I, simp, (rule wp_frame | rule join | assumption | (simp add: sub32_le; fail))+)
qed (simp_all add: mpeg_content_labelling_descriptor_codec_def mpeg_content_labelling_descriptor_layout_def layout_within_def safe_simps decode_simps)

lemma mpeg_copyright_descriptor_codec_ok: "exact_codec mpeg_copyright_descriptor_codec mpeg_copyright_descriptor_layout (\<lambda>len. 4 \<le> len)"
  by (rule exact_codecI) (simp add: mpeg_copyright_descriptor_codec_def mpeg_copyright_descriptor_layout_def safe_simps decode_simps)

lemma mpeg_data_stream_alignment_descriptor_codec_ok: "exact_codec mpeg_data_stream_alignment_descriptor_codec mpeg_data_stream_alignment_descriptor_layout (\<lambda>len. len = 1)"
  by (rule exact_codecI) (simp add: mpeg_data_stream_alignment_descriptor_codec_def mpeg_data_stream_alignment_descriptor_layout_def safe_simps decode_simps)

lemma mpeg_external_es_id_descriptor_codec_ok: "exact_codec mpeg_external_es_id_descriptor_codec mpeg_external_es_id_descriptor_layout (\<lambda>len. len = 2)"
  by (rule exact_codecI) (simp add: mpeg_external_es_id_descriptor_codec_def mpeg_external_es_id_descriptor_layout_def safe_simps decode_simps)

lemma mpeg_fmc_descriptor_codec_ok: "table_correct mpeg_fmc_descriptor_codec [] 2 3 mpeg_flex_mux_layout"
  by (rule table_codecI [where ?p0.0 = 0], rule mpeg_fmc_descriptor_codec_def) (auto simp: layout_within_def mpeg_flex_mux_layout_def table_guards safe_simps decode_simps)

lemma mpeg_fmxbuffer_size_descriptor_codec_ok: "exact_codec mpeg_fmxbuffer_size_descriptor_codec [] (\<lambda>len. True)"
  by (rule exact_codecI) (simp add: mpeg_fmxbuffer_size_descriptor_codec_def safe_simps decode_simps)

lemma mpeg_hierarchy_descriptor_codec_ok: "exact_codec mpeg_hierarchy_descriptor_codec mpeg_hierarchy_descriptor_layout (\<lambda>len. len = 4)"
  by (rule exact_codecI) (simp add: mpeg_hierarchy_descriptor_codec_def mpeg_hierarchy_descriptor_layout_def safe_simps decode_simps)

lemma mpeg_ibp_descriptor_codec_ok: "exact_codec mpeg_ibp_descriptor_codec mpeg_ibp_descriptor_layout (\<lambda>len. len = 2)"
  by (rule exact_codecI) (simp add: mpeg_ibp_descriptor_codec_def mpeg_ibp_descriptor_layout_def safe_simps decode_simps)

lemma mpeg_iod_descriptor_codec_ok: "exact_codec mpeg_iod_descriptor_codec mpeg_iod_descriptor_layout (\<lambda>len. 2 \<le> len)"
  by (rule exact_codecI) (simp add: mpeg_iod_descriptor_codec_def mpeg_iod_descriptor_layout_def safe_simps decode_simps)

lemma mpeg_iso_639_language_descriptor_codec_ok: "table_correct mpeg_iso_639_language_descriptor_codec [] 2 4 mpeg_iso_639_language_code_layout"
  by (rule table_bytesI [where ?p0.0 = 0], rule mpeg_iso_639_language_descriptor_codec_def) (auto simp: layout_within_def mpeg_iso_639_language_code_layout_def table_guards safe_simps decode_simps)

lemma mpeg_maximum_bitrate_descriptor_codec_ok: "exact_codec mpeg_maximum_bitrate_descriptor_codec mpeg_maximum_bitrate_descriptor_layout (\<lambda>len. len = 3)"
  by (rule exact_codecI) (simp add: mpeg_maximum_bitrate_descriptor_codec_def mpeg_maximum_bitrate_descriptor_layout_def safe_simps decode_simps)

lemma mpeg_metadata_descriptor_codec_ok: "codec_correct mpeg_metadata_descriptor_codec mpeg_metadata_descriptor_layout"
proof (rule codec_tailI [where k = 4 and head = "\<lambda>e m d. swapped e 2 m (d + 2)"], goal_cases)
  case (5 e m d len)
  note join = wp_join [where lo = "d + 4" and hi = "d + 2 + len" and ?m0.0 = "swapped e 2 m (d + 2)" and P = "\<lambda>pos. 4 \<le> pos \<and> pos \<le> len + 2"]
  from 5 show ?case
    unfolding mpeg_metadata_descriptor_codec_def Let_def 5(1) Option.bind.simps
    by - (rule wp_checkI, simp, rule wp_swap16I, simp, (rule wp_frame | rule join | assumption | (simp add: sub32_le; fail))+)
qed (simp_all add: mpeg_metadata_descriptor_codec_def mpeg_metadata_descriptor_layout_def layout_within_def safe_simps decode_simps)

lemma mpeg_metadata_pointer_descriptor_codec_ok: "codec_correct mpeg_metadata_pointer_descriptor_codec mpeg_metadata_pointer_descriptor_layout"
proof (rule codec_tailI [where k = 4 and head = "\<lambda>e m d. swapped e 2 m (d + 2)"], goal_cases)
  case (5 e m d len)
  note join = wp_join [where lo = "d + 4" and hi = "d + 2 + len" and ?m0.0 = "swapped e 2 m (d + 2)" and P = "\<lambda>pos. 4 \<le> pos \<and> pos \<le> len + 2"]
  from 5 show ?case
    unfolding mpeg_metadata_pointer_descriptor_codec_def Let_def 5(1) Option.bind.simps
    by - (rule wp_checkI, simp, rule wp_swap16I, simp, (rule wp_frame | rule join | assumption | (simp add: sub32_le; fail))+)
qed (simp_all add: mpeg_metadata_pointer_descriptor_codec_def mpeg_metadata_pointer_descriptor_layout_def layout_within_def safe_simps decode_simps)

lemma mpeg_metadata_std_descriptor_codec_ok: "exact_codec mpeg_metadata_std_descriptor_codec mpeg_metadata_std_descriptor_layout (\<lambda>len. len = 9)"
  by (rule exact_codecI) (simp add: mpeg_metadata_std_descriptor_codec_def mpeg_metadata_std_descriptor_layout_def safe_simps decode_simps)

lemma mpeg4_audio_descriptor_codec_ok: "exact_codec mpeg4_audio_descriptor_codec mpeg4_audio_descriptor_layout (\<lambda>len. len = 1)"
  by (rule exact_codecI) (simp add: mpeg4_audio_descriptor_codec_def mpeg4_audio_descriptor_layout_def safe_simps decode_simps)

lemma mpeg4_video_descriptor_codec_ok: "exact_codec mpeg4_video_descriptor_codec mpeg4_video_descriptor_layout (\<lambda>len. len = 1)"
  by (rule exact_codecI) (simp add: mpeg4_video_descriptor_codec_def mpeg4_video_descriptor_layout_def safe_simps decode_simps)

lemma mpeg_multiplex_buffer_descriptor_codec_ok: "exact_codec mpeg_multiplex_buffer_descriptor_codec mpeg_multiplex_buffer_descriptor_layout (\<lambda>len. len = 6)"
  by (rule exact_codecI) (simp add: mpeg_multiplex_buffer_descriptor_codec_def mpeg_multiplex_buffer_descriptor_layout_def safe_simps decode_simps)

lemma mpeg_multiplex_buffer_utilization_descriptor_codec_ok: "exact_codec mpeg_multiplex_buffer_utilization_descriptor_codec mpeg_multiplex_buffer_utilization_descriptor_layout (\<lambda>len. len = 4)"
  by (rule exact_codecI) (simp add: mpeg_multiplex_buffer_utilization_descriptor_codec_def mpeg_multiplex_buffer_utilization_descriptor_layout_def safe_simps decode_simps)

lemma mpeg_muxcode_descriptor_codec_ok: "exact_codec mpeg_muxcode_descriptor_codec [] (\<lambda>len. True)"
  by (rule exact_codecI) (simp add: mpeg_muxcode_descriptor_codec_def safe_simps decode_simps)

lemma mpeg_private_data_indicator_descriptor_codec_ok: "exact_codec mpeg_private_data_indicator_descriptor_codec mpeg_private_data_indicator_descriptor_layout (\<lambda>len. len = 4)"
  by (rule exact_codecI) (simp add: mpeg_private_data_indicator_descriptor_codec_def mpeg_private_data_indicator_descriptor_layout_def safe_simps decode_simps)

lemma mpeg_registration_descriptor_codec_ok: "exact_codec mpeg_registration_descriptor_codec mpeg_registration_descriptor_layout (\<lambda>len. 4 \<le> len)"
  by (rule exact_codecI) (simp add: mpeg_registration_descriptor_codec_def mpeg_registration_descriptor_layout_def safe_simps decode_simps)

lemma mpeg_sl_descriptor_codec_ok: "exact_codec mpeg_sl_descriptor_codec mpeg_sl_descriptor_layout (\<lambda>len. len = 2)"
  by (rule exact_codecI) (simp add: mpeg_sl_descriptor_codec_def mpeg_sl_descriptor_layout_def safe_simps decode_simps)

lemma mpeg_smoothing_buffer_descriptor_codec_ok: "exact_codec mpeg_smoothing_buffer_descriptor_codec mpeg_smoothing_buffer_descriptor_layout (\<lambda>len. len = 6)"
  by (rule exact_codecI) (simp add: mpeg_smoothing_buffer_descriptor_codec_def mpeg_smoothing_buffer_descriptor_layout_def safe_simps decode_simps)

lemma mpeg_std_descriptor_codec_ok: "exact_codec mpeg_std_descriptor_codec mpeg_std_descriptor_layout (\<lambda>len. len = 1)"
  by (rule exact_codecI) (simp add: mpeg_std_descriptor_codec_def mpeg_std_descriptor_layout_def safe_simps decode_simps)

lemma mpeg_system_clock_descriptor_codec_ok: "exact_codec mpeg_system_clock_descriptor_codec mpeg_system_clock_descriptor_layout (\<lambda>len. len = 2)"
  by (rule exact_codecI) (simp add: mpeg_system_clock_descriptor_codec_def mpeg_system_clock_descriptor_layout_def safe_simps decode_simps)

lemma mpeg_target_background_grid_descriptor_codec_ok: "exact_codec mpeg_target_background_grid_descriptor_codec mpeg_target_background_grid_descriptor_layout (\<lambda>len. len = 4)"
  by (rule exact_codecI) (simp add: mpeg_target_background_grid_descriptor_codec_def mpeg_target_background_grid_descriptor_layout_def safe_simps decode_simps)

lemma mpeg_video_stream_descriptor_codec_ok: "codec_correct mpeg_video_stream_descriptor_codec mpeg_video_stream_descriptor_layout"
  by (rule codec_correctI) (simp add: mpeg_video_stream_descriptor_codec_def mpeg_video_stream_descriptor_layout_def safe_simps decode_simps)

lemma mpeg_video_window_descriptor_codec_ok: "exact_codec mpeg_video_window_descriptor_codec mpeg_video_window_descriptor_layout (\<lambda>len. len = 4)"
  by (rule exact_codecI) (simp add: mpeg_video_window_descriptor_codec_def mpeg_video_window_descriptor_layout_def safe_simps decode_simps)

end
