(* ===== verification/Dvb_Descriptors.thy ===== *)
theory Dvb_Descriptors
  imports Structs
begin

text \<open>
  The descriptors of \<open>lib/libucsi/dvb\<close> from \<open>ac3\<close> to \<open>ip_mac\<close>: the layout of each structure, its codec, its accessors and
  iterators, and what each codec does.
\<close>

section \<open>\<open>dvb/ac3_descriptor.h\<close>\<close>

definition dvb_ac3_descriptor_layout :: layout where
  "dvb_ac3_descriptor_layout =
    [(''ac3_type_flag'', Value 2 1 7 1), (''bsid_flag'', Value 2 1 6 1), (''mainid_flag'', Value 2 1 5 1),
     (''asvc_flag'', Value 2 1 4 1), (''reserved'', Value 2 1 0 4)]"

definition dvb_ac3_descriptor_codec :: "byte_order \<Rightarrow> mem \<Rightarrow> nat \<Rightarrow> (mem \<times> bool) option" where
  "dvb_ac3_descriptor_codec e m d =
     do {
       len \<leftarrow> rd8 m (d + 1);
       if len < 1 then Some (m, False)
       else Some (m, True) }"

definition dvb_ac3_descriptor_additional_info :: "nat \<Rightarrow> nat" where
  "dvb_ac3_descriptor_additional_info d = d + 3"

definition dvb_ac3_descriptor_additional_info_length :: "mem \<Rightarrow> nat \<Rightarrow> int option" where
  "dvb_ac3_descriptor_additional_info_length m d =
     do {
       len \<leftarrow> rd8 m (d + 1);
       Some (int len - 1) }"

section \<open>\<open>dvb/adaptation_field_data_descriptor.h\<close>\<close>

definition dvb_adaptation_field_data_descriptor_layout :: layout where
  "dvb_adaptation_field_data_descriptor_layout =
    [(''reserved'', Value 2 1 1 7), (''announcement_switching_data'', Value 2 1 0 1)]"

definition dvb_adaptation_field_data_descriptor_codec :: "byte_order \<Rightarrow> mem \<Rightarrow> nat \<Rightarrow> (mem \<times> bool) option" where
  "dvb_adaptation_field_data_descriptor_codec e m d =
     do {
       len \<leftarrow> rd8 m (d + 1);
       if len \<noteq> 1 then Some (m, False)
       else Some (m, True) }"

section \<open>\<open>dvb/ait_application_descriptor.h\<close>\<close>

definition dvb_ait_application_descriptor_layout :: layout where
  "dvb_ait_application_descriptor_layout =
    [(''application_profiles_length'', Value 2 1 0 8)]"

definition dvb_ait_application_profile_layout :: layout where
  "dvb_ait_application_profile_layout =
    [(''application_profile'', Value 0 2 0 16), (''version_major'', Value 2 1 0 8), (''version_minor'', Value 3 1 0 8),
     (''version_micro'', Value 4 1 0 8)]"

definition dvb_ait_application_descriptor_part2_layout :: layout where
  "dvb_ait_application_descriptor_part2_layout =
    [(''service_bound_flag'', Value 0 1 7 1), (''visibility'', Value 0 1 5 2), (''reserved'', Value 0 1 0 5),
     (''application_priority'', Value 1 1 0 8)]"

definition dvb_ait_application_descriptor_codec :: "byte_order \<Rightarrow> mem \<Rightarrow> nat \<Rightarrow> (mem \<times> bool) option" where
  "dvb_ait_application_descriptor_codec e m d =
     do {
       len' \<leftarrow> rd8 m (d + 1);
       let len = len' + 2;
       if len < 3 then Some (m, False)
       else do {
         application_profiles_length \<leftarrow> rd8 m (d + 2);
         if len < application_profiles_length + 3 then Some (m, False)
         else if application_profiles_length mod 5 \<noteq> 0 then Some (m, False)
         else do {
           ((m, pos2), ok) \<leftarrow> while_do
             (\<lambda>(m, pos2). do {
               application_profiles_length' \<leftarrow> rd8 m (d + 2);
               Some (pos2 < application_profiles_length') })
             (\<lambda>(m, pos2).
               do {
                 m \<leftarrow> bswap16 e m (d + pos2 + 3);
                 let pos2 = pos2 + 3;
                 Some ((m, pos2), True) })
             (m, 0);
           if \<not> ok then Some (m, False)
           else do {
             let pos = pos2 + 3;
             if len < pos + 2 then Some (m, False)
             else Some (m, True) } } } }"

definition dvb_ait_application_descriptor_part2 :: "mem \<Rightarrow> nat \<Rightarrow> nat option" where
  "dvb_ait_application_descriptor_part2 m d =
     do {
       application_profiles_length \<leftarrow> rd8 m (d + 2);
       Some (d + application_profiles_length + 3) }"

definition dvb_ait_application_descriptor_part2_transport_protocol_label :: "nat \<Rightarrow> nat" where
  "dvb_ait_application_descriptor_part2_transport_protocol_label d = d + 2"

definition dvb_ait_application_descriptor_part2_transport_protocol_label_length :: "mem \<Rightarrow> nat \<Rightarrow> nat \<Rightarrow> int option" where
  "dvb_ait_application_descriptor_part2_transport_protocol_label_length m d part2 =
     do {
       len \<leftarrow> rd8 m (d + 1);
       let stop = d + len + 2;
       Some (int stop - int (part2 + 2)) }"

definition dvb_ait_application_descriptor_profiles_first :: "mem \<Rightarrow> nat \<Rightarrow> nat option option" where
  "dvb_ait_application_descriptor_profiles_first m d =
     do {
       application_profiles_length \<leftarrow> rd8 m (d + 2);
       if application_profiles_length = 0 then Some None
       else Some (Some (d + 3)) }"

definition dvb_ait_application_descriptor_profiles_next :: "mem \<Rightarrow> nat \<Rightarrow> nat \<Rightarrow> nat option option" where
  "dvb_ait_application_descriptor_profiles_next m d pos =
     do {
       application_profiles_length \<leftarrow> rd8 m (d + 2);
       let stop = d + application_profiles_length + 3;
       if pos + 5 \<ge> stop then Some None
       else Some (Some (pos + 5)) }"

section \<open>\<open>dvb/ait_application_icons_descriptor.h\<close>\<close>

definition dvb_ait_application_icons_descriptor_layout :: layout where
  "dvb_ait_application_icons_descriptor_layout =
    [(''icon_locator_length'', Value 2 1 0 8)]"

definition dvb_ait_application_icons_descriptor_part2_layout :: layout where
  "dvb_ait_application_icons_descriptor_part2_layout =
    [(''icon_flags'', Value 0 2 0 16)]"

definition dvb_ait_application_icons_descriptor_codec :: "byte_order \<Rightarrow> mem \<Rightarrow> nat \<Rightarrow> (mem \<times> bool) option" where
  "dvb_ait_application_icons_descriptor_codec e m d =
     do {
       len' \<leftarrow> rd8 m (d + 1);
       let len = len' + 2;
       if len < 3 then Some (m, False)
       else do {
         icon_locator_length \<leftarrow> rd8 m (d + 2);
         if len < icon_locator_length + 3 then Some (m, False)
         else do {
           let pos = icon_locator_length + 3;
           if sub32 len pos < 2 then Some (m, False)
           else do {
             m \<leftarrow> bswap16 e m (d + pos);
             Some (m, True) } } } }"

definition dvb_ait_application_icons_descriptor_icon_locator :: "nat \<Rightarrow> nat" where
  "dvb_ait_application_icons_descriptor_icon_locator ent = ent + 3"

definition dvb_ait_application_icons_descriptor_part2 :: "mem \<Rightarrow> nat \<Rightarrow> nat option" where
  "dvb_ait_application_icons_descriptor_part2 m ent =
     do {
       icon_locator_length \<leftarrow> rd8 m (ent + 2);
       Some (ent + icon_locator_length + 3) }"

definition dvb_ait_application_icons_descriptor_part2_reserved :: "nat \<Rightarrow> nat" where
  "dvb_ait_application_icons_descriptor_part2_reserved ent = ent + 2"

definition dvb_ait_application_icons_descriptor_part2_reserved_length :: "mem \<Rightarrow> nat \<Rightarrow> nat \<Rightarrow> int option" where
  "dvb_ait_application_icons_descriptor_part2_reserved_length m d part2 =
     do {
       len \<leftarrow> rd8 m (d + 1);
       let stop = d + len + 2;
       Some (int stop - int (part2 + 2)) }"

section \<open>\<open>dvb/ait_application_name_descriptor.h\<close>\<close>

definition dvb_ait_application_name_layout :: layout where
  "dvb_ait_application_name_layout =
    [(''language_code'', Bytes 0 3), (''application_name_length'', Value 3 1 0 8)]"

definition dvb_ait_application_name_descriptor_codec :: "byte_order \<Rightarrow> mem \<Rightarrow> nat \<Rightarrow> (mem \<times> bool) option" where
  "dvb_ait_application_name_descriptor_codec e m d =
     do {
       len \<leftarrow> rd8 m (d + 1);
       ((m, pos), ok) \<leftarrow> while_do
         (\<lambda>(m, pos). Some (pos < len))
         (\<lambda>(m, pos).
           do {
             let ent = d + pos + 2;
             let pos = pos + 4;
             if pos > len then Some ((m, pos), False)
             else do {
               application_name_length \<leftarrow> rd8 m (ent + 3);
               let pos = pos + application_name_length;
               if pos > len then Some ((m, pos), False)
               else Some ((m, pos), True) } })
         (m, 0);
       if \<not> ok then Some (m, False)
       else Some (m, True) }"

definition dvb_ait_application_name_name :: "nat \<Rightarrow> nat" where
  "dvb_ait_application_name_name ent = ent + 4"

definition dvb_ait_application_name_descriptor_names_first :: "mem \<Rightarrow> nat \<Rightarrow> nat option option" where
  "dvb_ait_application_name_descriptor_names_first m d =
     do {
       len \<leftarrow> rd8 m (d + 1);
       if len = 0 then Some None
       else Some (Some (d + 2)) }"

definition dvb_ait_application_name_descriptor_names_next :: "mem \<Rightarrow> nat \<Rightarrow> nat \<Rightarrow> nat option option" where
  "dvb_ait_application_name_descriptor_names_next m d pos =
     do {
       len \<leftarrow> rd8 m (d + 1);
       let stop = d + len + 2;
       application_name_length \<leftarrow> rd8 m (pos + 3);
       let nxt = pos + application_name_length + 4;
       if nxt \<ge> stop then Some None
       else Some (Some nxt) }"

section \<open>\<open>dvb/ait_external_application_authorisation_descriptor.h\<close>\<close>

definition dvb_ait_external_application_authorisation_layout :: layout where
  "dvb_ait_external_application_authorisation_layout =
    [(''organization_id'', Value 0 4 0 32), (''application_id'', Value 4 2 0 16), (''application_priority'', Value 6 1 0 8)]"

definition dvb_ait_external_application_authorisation_descriptor_codec :: "byte_order \<Rightarrow> mem \<Rightarrow> nat \<Rightarrow> (mem \<times> bool) option" where
  "dvb_ait_external_application_authorisation_descriptor_codec e m d =
     do {
       len \<leftarrow> rd8 m (d + 1);
       if len mod 7 \<noteq> 0 then Some (m, False)
       else do {
         ((m, pos), ok) \<leftarrow> while_do
           (\<lambda>(m, pos). Some (pos < len))
           (\<lambda>(m, pos).
             do {
               m \<leftarrow> bswap32 e m (d + pos + 2);
               m \<leftarrow> bswap32 e m (d + pos + 6);
               let pos = pos + 7;
               Some ((m, pos), True) })
           (m, 0);
         if \<not> ok then Some (m, False)
         else Some (m, True) } }"

definition dvb_ait_external_application_authorisation_descriptor_auths_first :: "mem \<Rightarrow> nat \<Rightarrow> nat option option" where
  "dvb_ait_external_application_authorisation_descriptor_auths_first m d =
     do {
       len \<leftarrow> rd8 m (d + 1);
       if len = 0 then Some None
       else Some (Some (d + 2)) }"

definition dvb_ait_external_application_authorisation_descriptor_auths_next :: "mem \<Rightarrow> nat \<Rightarrow> nat \<Rightarrow> nat option option" where
  "dvb_ait_external_application_authorisation_descriptor_auths_next m d pos =
     do {
       len \<leftarrow> rd8 m (d + 1);
       let stop = d + len + 2;
       if pos + 7 \<ge> stop then Some None
       else Some (Some (pos + 7)) }"

section \<open>\<open>dvb/ancillary_data_descriptor.h\<close>\<close>

definition dvb_ancillary_data_descriptor_layout :: layout where
  "dvb_ancillary_data_descriptor_layout =
    [(''reserved'', Value 2 1 7 1), (''rds_via_udcp'', Value 2 1 6 1), (''mpeg4_ancillary_data'', Value 2 1 5 1),
     (''scale_factor_error_check'', Value 2 1 4 1), (''dab_ancillary_data'', Value 2 1 3 1),
     (''announcement_switching_data'', Value 2 1 2 1), (''extended_ancillary_data'', Value 2 1 1 1),
     (''dvd_video_ancillary_data'', Value 2 1 0 1)]"

definition dvb_ancillary_data_descriptor_codec :: "byte_order \<Rightarrow> mem \<Rightarrow> nat \<Rightarrow> (mem \<times> bool) option" where
  "dvb_ancillary_data_descriptor_codec e m d =
     do {
       len \<leftarrow> rd8 m (d + 1);
       if len \<noteq> 1 then Some (m, False)
       else Some (m, True) }"

section \<open>\<open>dvb/announcement_support_descriptor.h\<close>\<close>

definition dvb_announcement_support_descriptor_layout :: layout where
  "dvb_announcement_support_descriptor_layout =
    [(''announcement_support_indicator'', Value 2 2 0 16)]"

definition dvb_announcement_support_entry_layout :: layout where
  "dvb_announcement_support_entry_layout =
    [(''announcement_type'', Value 0 1 4 4), (''reserved'', Value 0 1 3 1), (''reference_type'', Value 0 1 0 3)]"

definition dvb_announcement_support_reference_layout :: layout where
  "dvb_announcement_support_reference_layout =
    [(''original_network_id'', Value 0 2 0 16), (''transport_stream_id'', Value 2 2 0 16), (''service_id'', Value 4 2 0 16),
     (''component_tag'', Value 6 1 0 8)]"

definition dvb_announcement_support_descriptor_codec :: "byte_order \<Rightarrow> mem \<Rightarrow> nat \<Rightarrow> (mem \<times> bool) option" where
  "dvb_announcement_support_descriptor_codec e m d =
     do {
       len \<leftarrow> rd8 m (d + 1);
       if len < 2 then Some (m, False)
       else do {
         m \<leftarrow> bswap16 e m (d + 2);
         ((m, pos), ok) \<leftarrow> while_do
           (\<lambda>(m, pos). Some (pos < len))
           (\<lambda>(m, pos).
             do {
               let ent = d + pos + 2;
               let pos = pos + 1;
               if pos > len then Some ((m, pos), False)
               else do {
                 reference_type \<leftarrow> fld e 1 0 3 m ent;
                 ((m, pos), ok) \<leftarrow> (if (reference_type = 1 \<or> reference_type = 2) \<or> reference_type = 3 then
                   if pos + 7 > len then Some ((m, pos), False)
                   else do {
                     m \<leftarrow> bswap16 e m (d + pos + 2);
                     m \<leftarrow> bswap16 e m (d + pos + 4);
                     m \<leftarrow> bswap16 e m (d + pos + 6);
                     let pos = pos + 7;
                     Some ((m, pos), True) }
                 else Some ((m, pos), True));
                 if \<not> ok then Some ((m, pos), False)
                 else Some ((m, pos), True) } })
           (m, 2);
         if \<not> ok then Some (m, False)
         else Some (m, True) } }"

definition dvb_announcement_support_entry_reference :: "byte_order \<Rightarrow> mem \<Rightarrow> nat \<Rightarrow> nat option option" where
  "dvb_announcement_support_entry_reference e m entry =
     do {
       reference_type \<leftarrow> fld e 1 0 3 m entry;
       if (reference_type \<noteq> 1 \<and> reference_type \<noteq> 2) \<and> reference_type \<noteq> 3 then Some None
       else Some (Some (entry + 1)) }"

definition dvb_announcement_support_descriptor_entries_first :: "mem \<Rightarrow> nat \<Rightarrow> nat option option" where
  "dvb_announcement_support_descriptor_entries_first m d =
     do {
       len \<leftarrow> rd8 m (d + 1);
       if len = 2 then Some None
       else Some (Some (d + 4)) }"

definition dvb_announcement_support_descriptor_entries_next :: "byte_order \<Rightarrow> mem \<Rightarrow> nat \<Rightarrow> nat \<Rightarrow> nat option option" where
  "dvb_announcement_support_descriptor_entries_next e m d pos =
     do {
       len \<leftarrow> rd8 m (d + 1);
       let stop = d + len + 2;
       r \<leftarrow> dvb_announcement_support_entry_reference e m pos;
       let nxt = (if r \<noteq> None then pos + 8
       else pos + 1);
       if nxt \<ge> stop then Some None
       else Some (Some nxt) }"

section \<open>\<open>dvb/application_signalling_descriptor.h\<close>\<close>

definition dvb_application_signalling_entry_layout :: layout where
  "dvb_application_signalling_entry_layout =
    [(''application_type'', Value 0 2 0 16), (''reserved'', Value 2 1 5 3), (''AIT_version_number'', Value 2 1 0 5)]"

definition dvb_application_signalling_descriptor_codec :: "byte_order \<Rightarrow> mem \<Rightarrow> nat \<Rightarrow> (mem \<times> bool) option" where
  "dvb_application_signalling_descriptor_codec e m d =
     do {
       len \<leftarrow> rd8 m (d + 1);
       if len mod 3 \<noteq> 0 then Some (m, False)
       else do {
         ((m, pos), ok) \<leftarrow> while_do
           (\<lambda>(m, pos). Some (pos < len))
           (\<lambda>(m, pos).
             do {
               m \<leftarrow> bswap16 e m (d + pos + 2);
               let pos = pos + 3;
               Some ((m, pos), True) })
           (m, 0);
         if \<not> ok then Some (m, False)
         else Some (m, True) } }"

definition dvb_application_signalling_descriptor_entries_first :: "mem \<Rightarrow> nat \<Rightarrow> nat option option" where
  "dvb_application_signalling_descriptor_entries_first m d =
     do {
       len \<leftarrow> rd8 m (d + 1);
       if len = 0 then Some None
       else Some (Some (d + 2)) }"

definition dvb_application_signalling_descriptor_entries_next :: "mem \<Rightarrow> nat \<Rightarrow> nat \<Rightarrow> nat option option" where
  "dvb_application_signalling_descriptor_entries_next m d pos =
     do {
       len \<leftarrow> rd8 m (d + 1);
       let stop = d + len + 2;
       if pos + 3 \<ge> stop then Some None
       else Some (Some (pos + 3)) }"

section \<open>\<open>dvb/bouquet_name_descriptor.h\<close>\<close>

definition dvb_bouquet_name_descriptor_codec :: "byte_order \<Rightarrow> mem \<Rightarrow> nat \<Rightarrow> (mem \<times> bool) option" where
  "dvb_bouquet_name_descriptor_codec e m d = Some (m, True)"

definition dvb_bouquet_name_descriptor_name :: "nat \<Rightarrow> nat" where
  "dvb_bouquet_name_descriptor_name d = d + 2"

definition dvb_bouquet_name_descriptor_name_length :: "mem \<Rightarrow> nat \<Rightarrow> nat option" where
  "dvb_bouquet_name_descriptor_name_length m d =
     do {
       len \<leftarrow> rd8 m (d + 1);
       Some len }"

section \<open>\<open>dvb/ca_identifier_descriptor.h\<close>\<close>

definition dvb_ca_identifier_descriptor_codec :: "byte_order \<Rightarrow> mem \<Rightarrow> nat \<Rightarrow> (mem \<times> bool) option" where
  "dvb_ca_identifier_descriptor_codec e m d =
     do {
       len \<leftarrow> rd8 m (d + 1);
       if len mod 2 \<noteq> 0 then Some (m, False)
       else do {
         ((m, pos), ok) \<leftarrow> while_do
           (\<lambda>(m, pos). Some (pos < len))
           (\<lambda>(m, pos).
             do {
               m \<leftarrow> bswap16 e m (d + pos + 2);
               let pos = pos + 2;
               Some ((m, pos), True) })
           (m, 0);
         if \<not> ok then Some (m, False)
         else Some (m, True) } }"

definition dvb_ca_identifier_descriptor_ca_system_ids :: "nat \<Rightarrow> nat" where
  "dvb_ca_identifier_descriptor_ca_system_ids d = d + 2"

definition dvb_ca_identifier_descriptor_ca_system_ids_count :: "mem \<Rightarrow> nat \<Rightarrow> nat option" where
  "dvb_ca_identifier_descriptor_ca_system_ids_count m d =
     do {
       len \<leftarrow> rd8 m (d + 1);
       Some (len div 2) }"

section \<open>\<open>dvb/cable_delivery_descriptor.h\<close>\<close>

definition dvb_cable_delivery_descriptor_layout :: layout where
  "dvb_cable_delivery_descriptor_layout =
    [(''frequency'', Value 2 4 0 32), (''reserved'', Value 6 2 4 12), (''fec_outer'', Value 6 2 0 4),
     (''modulation'', Value 8 1 0 8), (''symbol_rate'', Value 9 4 4 28), (''fec_inner'', Value 9 4 0 4)]"

definition dvb_cable_delivery_descriptor_codec :: "byte_order \<Rightarrow> mem \<Rightarrow> nat \<Rightarrow> (mem \<times> bool) option" where
  "dvb_cable_delivery_descriptor_codec e m d =
     do {
       len \<leftarrow> rd8 m (d + 1);
       if len \<noteq> 11 then Some (m, False)
       else do {
         m \<leftarrow> bswap32 e m (d + 2);
         m \<leftarrow> bswap16 e m (d + 6);
         m \<leftarrow> bswap32 e m (d + 9);
         Some (m, True) } }"

section \<open>\<open>dvb/cell_frequency_link_descriptor.h\<close>\<close>

definition dvb_cell_frequency_link_cell_layout :: layout where
  "dvb_cell_frequency_link_cell_layout =
    [(''cell_id'', Value 0 2 0 16), (''frequency'', Value 2 4 0 32), (''subcell_loop_info_length'', Value 6 1 0 8)]"

definition dvb_cell_frequency_link_cell_subcell_layout :: layout where
  "dvb_cell_frequency_link_cell_subcell_layout =
    [(''cell_id_extension'', Value 0 1 0 8), (''transposer_frequency'', Value 1 4 0 32)]"

definition dvb_cell_frequency_link_descriptor_codec :: "byte_order \<Rightarrow> mem \<Rightarrow> nat \<Rightarrow> (mem \<times> bool) option" where
  "dvb_cell_frequency_link_descriptor_codec e m d =
     do {
       len \<leftarrow> rd8 m (d + 1);
       ((m, pos, pos2), ok) \<leftarrow> while_do
         (\<lambda>(m, pos, pos2). Some (pos < len))
         (\<lambda>(m, pos, pos2).
           do {
             let ent = d + pos + 2;
             if pos + 7 > len then Some ((m, pos, pos2), False)
             else do {
               m \<leftarrow> bswap16 e m (d + pos + 2);
               m \<leftarrow> bswap32 e m (d + pos + 4);
               let pos = pos + 7;
               subcell_loop_info_length \<leftarrow> rd8 m (ent + 6);
               if pos + subcell_loop_info_length > len then Some ((m, pos, pos2), False)
               else if subcell_loop_info_length mod 5 \<noteq> 0 then Some ((m, pos, pos2), False)
               else do {
                 ((m, pos2), ok) \<leftarrow> while_do
                   (\<lambda>(m, pos2). do {
                     subcell_loop_info_length' \<leftarrow> rd8 m (ent + 6);
                     Some (pos2 < subcell_loop_info_length') })
                   (\<lambda>(m, pos2).
                     do {
                       m \<leftarrow> bswap32 e m (d + pos + pos2 + 3);
                       let pos2 = pos2 + 5;
                       Some ((m, pos2), True) })
                   (m, 0);
                 if \<not> ok then Some ((m, pos, pos2), False)
                 else do {
                   subcell_loop_info_length' \<leftarrow> rd8 m (ent + 6);
                   let pos = pos + subcell_loop_info_length';
                   Some ((m, pos, pos2), True) } } } })
         (m, 0, 0);
       if \<not> ok then Some (m, False)
       else Some (m, True) }"

definition dvb_cell_frequency_link_descriptor_cells_first :: "mem \<Rightarrow> nat \<Rightarrow> nat option option" where
  "dvb_cell_frequency_link_descriptor_cells_first m d =
     do {
       len \<leftarrow> rd8 m (d + 1);
       if len = 0 then Some None
       else Some (Some (d + 2)) }"

definition dvb_cell_frequency_link_descriptor_cells_next :: "mem \<Rightarrow> nat \<Rightarrow> nat \<Rightarrow> nat option option" where
  "dvb_cell_frequency_link_descriptor_cells_next m d pos =
     do {
       len \<leftarrow> rd8 m (d + 1);
       let stop = d + len + 2;
       subcell_loop_info_length \<leftarrow> rd8 m (pos + 6);
       let nxt = pos + subcell_loop_info_length + 7;
       if nxt \<ge> stop then Some None
       else Some (Some nxt) }"

definition dvb_cell_frequency_link_cell_subcells_first :: "mem \<Rightarrow> nat \<Rightarrow> nat option option" where
  "dvb_cell_frequency_link_cell_subcells_first m d =
     do {
       subcell_loop_info_length \<leftarrow> rd8 m (d + 6);
       if subcell_loop_info_length = 0 then Some None
       else Some (Some (d + 7)) }"

definition dvb_cell_frequency_link_cell_subcells_next :: "mem \<Rightarrow> nat \<Rightarrow> nat \<Rightarrow> nat option option" where
  "dvb_cell_frequency_link_cell_subcells_next m cell pos =
     do {
       subcell_loop_info_length \<leftarrow> rd8 m (cell + 6);
       let stop = cell + subcell_loop_info_length;
       if pos + 5 \<ge> stop then Some None
       else Some (Some (pos + 5)) }"

section \<open>\<open>dvb/cell_list_descriptor.h\<close>\<close>

definition dvb_cell_list_entry_layout :: layout where
  "dvb_cell_list_entry_layout =
    [(''cell_id'', Value 0 2 0 16), (''cell_latitude'', Value 2 2 0 16), (''cell_longitude'', Value 4 2 0 16),
     (''cell_extend_of_latitude'', Value 6 4 20 12), (''cell_extend_of_longitude'', Value 6 4 8 12),
     (''subcell_info_loop_length'', Value 6 4 0 8)]"

definition dvb_subcell_list_entry_layout :: layout where
  "dvb_subcell_list_entry_layout =
    [(''cell_id_extension'', Value 0 1 0 8), (''subcell_latitude'', Value 1 2 0 16),
     (''subcell_longitude'', Value 3 2 0 16), (''subcell_extend_of_latitude'', Value 5 3 12 12),
     (''subcell_extend_of_longitude'', Value 5 3 0 12)]"

definition dvb_cell_list_descriptor_codec :: "byte_order \<Rightarrow> mem \<Rightarrow> nat \<Rightarrow> (mem \<times> bool) option" where
  "dvb_cell_list_descriptor_codec e m d =
     do {
       len \<leftarrow> rd8 m (d + 1);
       ((m, pos, pos2), ok) \<leftarrow> while_do
         (\<lambda>(m, pos, pos2). Some (pos < len))
         (\<lambda>(m, pos, pos2).
           do {
             let ent = d + pos + 2;
             if pos + 10 > len then Some ((m, pos, pos2), False)
             else do {
               m \<leftarrow> bswap16 e m (d + pos + 2);
               m \<leftarrow> bswap16 e m (d + pos + 4);
               m \<leftarrow> bswap16 e m (d + pos + 6);
               m \<leftarrow> bswap32 e m (d + pos + 8);
               let pos = pos + 10;
               subcell_info_loop_length \<leftarrow> fld e 4 0 8 m (ent + 6);
               if pos + subcell_info_loop_length > len then Some ((m, pos, pos2), False)
               else if subcell_info_loop_length mod 8 \<noteq> 0 then Some ((m, pos, pos2), False)
               else do {
                 ((m, pos2), ok) \<leftarrow> while_do
                   (\<lambda>(m, pos2). do {
                     subcell_info_loop_length' \<leftarrow> fld e 4 0 8 m (ent + 6);
                     Some (pos2 < subcell_info_loop_length') })
                   (\<lambda>(m, pos2).
                     do {
                       m \<leftarrow> bswap16 e m (d + pos + pos2 + 3);
                       m \<leftarrow> bswap16 e m (d + pos + pos2 + 5);
                       m \<leftarrow> bswap24 e m (d + pos + pos2 + 7);
                       let pos2 = pos2 + 8;
                       Some ((m, pos2), True) })
                   (m, 0);
                 if \<not> ok then Some ((m, pos, pos2), False)
                 else do {
                   subcell_info_loop_length' \<leftarrow> fld e 4 0 8 m (ent + 6);
                   let pos = pos + subcell_info_loop_length';
                   Some ((m, pos, pos2), True) } } } })
         (m, 0, 0);
       if \<not> ok then Some (m, False)
       else Some (m, True) }"

definition dvb_cell_list_descriptor_cells_first :: "mem \<Rightarrow> nat \<Rightarrow> nat option option" where
  "dvb_cell_list_descriptor_cells_first m d =
     do {
       len \<leftarrow> rd8 m (d + 1);
       if len = 0 then Some None
       else Some (Some (d + 2)) }"

definition dvb_cell_list_descriptor_cells_next :: "byte_order \<Rightarrow> mem \<Rightarrow> nat \<Rightarrow> nat \<Rightarrow> nat option option" where
  "dvb_cell_list_descriptor_cells_next e m d pos =
     do {
       len \<leftarrow> rd8 m (d + 1);
       let stop = d + len + 2;
       subcell_info_loop_length \<leftarrow> fld e 4 0 8 m (pos + 6);
       let nxt = pos + subcell_info_loop_length + 10;
       if nxt \<ge> stop then Some None
       else Some (Some nxt) }"

definition dvb_cell_list_entry_subcells_first :: "byte_order \<Rightarrow> mem \<Rightarrow> nat \<Rightarrow> nat option option" where
  "dvb_cell_list_entry_subcells_first e m d =
     do {
       subcell_info_loop_length \<leftarrow> fld e 4 0 8 m (d + 6);
       if subcell_info_loop_length = 0 then Some None
       else Some (Some (d + 10)) }"

definition dvb_cell_list_entry_subcells_next :: "byte_order \<Rightarrow> mem \<Rightarrow> nat \<Rightarrow> nat \<Rightarrow> nat option option" where
  "dvb_cell_list_entry_subcells_next e m d pos =
     do {
       subcell_info_loop_length \<leftarrow> fld e 4 0 8 m (d + 6);
       let stop = d + subcell_info_loop_length + 10;
       if pos + 8 \<ge> stop then Some None
       else Some (Some (pos + 8)) }"

section \<open>\<open>dvb/component_descriptor.h\<close>\<close>

definition dvb_component_descriptor_layout :: layout where
  "dvb_component_descriptor_layout =
    [(''reserved'', Value 2 1 4 4), (''stream_content'', Value 2 1 0 4), (''component_type'', Value 3 1 0 8),
     (''component_tag'', Value 4 1 0 8), (''language_code'', Bytes 5 3)]"

definition dvb_component_descriptor_codec :: "byte_order \<Rightarrow> mem \<Rightarrow> nat \<Rightarrow> (mem \<times> bool) option" where
  "dvb_component_descriptor_codec e m d =
     do {
       len \<leftarrow> rd8 m (d + 1);
       if len < 6 then Some (m, False)
       else Some (m, True) }"

definition dvb_component_descriptor_text :: "nat \<Rightarrow> nat" where
  "dvb_component_descriptor_text d = d + 8"

definition dvb_component_descriptor_text_length :: "mem \<Rightarrow> nat \<Rightarrow> int option" where
  "dvb_component_descriptor_text_length m d =
     do {
       len \<leftarrow> rd8 m (d + 1);
       Some (int len - 6) }"

section \<open>\<open>dvb/content_descriptor.h\<close>\<close>

definition dvb_content_nibble_layout :: layout where
  "dvb_content_nibble_layout =
    [(''content_nibble_level_1'', Value 0 1 4 4), (''content_nibble_level_2'', Value 0 1 0 4),
     (''user_nibble_1'', Value 1 1 4 4), (''user_nibble_2'', Value 1 1 0 4)]"

definition dvb_content_descriptor_codec :: "byte_order \<Rightarrow> mem \<Rightarrow> nat \<Rightarrow> (mem \<times> bool) option" where
  "dvb_content_descriptor_codec e m d =
     do {
       len \<leftarrow> rd8 m (d + 1);
       if len mod 2 \<noteq> 0 then Some (m, False)
       else Some (m, True) }"

definition dvb_content_descriptor_nibbles_first :: "mem \<Rightarrow> nat \<Rightarrow> nat option option" where
  "dvb_content_descriptor_nibbles_first m d =
     do {
       len \<leftarrow> rd8 m (d + 1);
       if len = 0 then Some None
       else Some (Some (d + 2)) }"

definition dvb_content_descriptor_nibbles_next :: "mem \<Rightarrow> nat \<Rightarrow> nat \<Rightarrow> nat option option" where
  "dvb_content_descriptor_nibbles_next m d pos =
     do {
       len \<leftarrow> rd8 m (d + 1);
       let stop = d + len + 2;
       if pos + 2 \<ge> stop then Some None
       else Some (Some (pos + 2)) }"

section \<open>\<open>dvb/content_identifier_descriptor.h\<close>\<close>

definition dvb_content_identifier_entry_layout :: layout where
  "dvb_content_identifier_entry_layout =
    [(''crid_type'', Value 0 1 2 6), (''crid_location'', Value 0 1 0 2)]"

definition dvb_content_identifier_entry_data_0_layout :: layout where
  "dvb_content_identifier_entry_data_0_layout =
    [(''crid_length'', Value 0 1 0 8)]"

definition dvb_content_identifier_entry_data_1_layout :: layout where
  "dvb_content_identifier_entry_data_1_layout =
    [(''crid_ref'', Value 0 2 0 16)]"

definition dvb_content_identifier_descriptor_codec :: "byte_order \<Rightarrow> mem \<Rightarrow> nat \<Rightarrow> (mem \<times> bool) option" where
  "dvb_content_identifier_descriptor_codec e m d =
     do {
       len' \<leftarrow> rd8 m (d + 1);
       let len = len' + 2;
       ((m, pos), ok) \<leftarrow> while_do
         (\<lambda>(m, pos). Some (pos < len))
         (\<lambda>(m, pos).
           do {
             let ent = d + pos;
             if len < pos + 1 then Some ((m, pos), False)
             else do {
               let pos = pos + 1;
               crid_location \<leftarrow> fld e 1 0 2 m ent;
               ((m, pos), ok) \<leftarrow> (if crid_location = 0 then
                 if len < pos + 1 then Some ((m, pos), False)
                 else do {
                   byte \<leftarrow> rd8 m (d + pos);
                   if len < pos + byte + 1 then Some ((m, pos), False)
                   else do {
                     let pos = pos + byte + 1;
                     Some ((m, pos), True) } }
               else do {
                 (m, ok) \<leftarrow> (if crid_location = 1 then
                   if len < pos + 2 then Some (m, False)
                   else do {
                     m \<leftarrow> bswap16 e m (d + pos);
                     Some (m, True) }
                 else Some (m, True));
                 if \<not> ok then Some ((m, pos), False)
                 else Some ((m, pos), True) });
               if \<not> ok then Some ((m, pos), False)
               else Some ((m, pos), True) } })
         (m, 2);
       if \<not> ok then Some (m, False)
       else if pos \<noteq> len then Some (m, False)
       else Some (m, True) }"

definition dvb_content_identifier_entry_data_0 :: "byte_order \<Rightarrow> mem \<Rightarrow> nat \<Rightarrow> nat option option" where
  "dvb_content_identifier_entry_data_0 e m d =
     do {
       crid_location \<leftarrow> fld e 1 0 2 m d;
       if crid_location \<noteq> 0 then Some None
       else Some (Some (d + 1)) }"

definition dvb_content_identifier_entry_data_0_data :: "nat \<Rightarrow> nat" where
  "dvb_content_identifier_entry_data_0_data d = d + 1"

definition dvb_content_identifier_entry_data_1 :: "byte_order \<Rightarrow> mem \<Rightarrow> nat \<Rightarrow> nat option option" where
  "dvb_content_identifier_entry_data_1 e m d =
     do {
       crid_location \<leftarrow> fld e 1 0 2 m d;
       if crid_location \<noteq> 1 then Some None
       else Some (Some (d + 1)) }"

definition dvb_content_identifier_descriptor_entries_first :: "mem \<Rightarrow> nat \<Rightarrow> nat option option" where
  "dvb_content_identifier_descriptor_entries_first m d =
     do {
       len \<leftarrow> rd8 m (d + 1);
       if len = 0 then Some None
       else Some (Some (d + 2)) }"

definition dvb_content_identifier_descriptor_entries_next :: "byte_order \<Rightarrow> mem \<Rightarrow> nat \<Rightarrow> nat \<Rightarrow> nat option option" where
  "dvb_content_identifier_descriptor_entries_next e m d pos =
     do {
       len \<leftarrow> rd8 m (d + 1);
       let stop = d + len + 2;
       if pos + 1 \<ge> stop then Some None
       else do {
         crid_location \<leftarrow> fld e 1 0 2 m pos;
         (_, ok) \<leftarrow> (if crid_location = 0 then
           if pos + 3 \<ge> stop then Some ((), False)
           else do {
             byte \<leftarrow> rd8 m (pos + 2);
             if pos + byte + 3 \<ge> stop then Some ((), False)
             else Some ((), True) }
         else do {
           (_, ok) \<leftarrow> (if crid_location = 1 then
             if pos + 4 \<ge> stop then Some ((), False)
             else Some ((), True)
           else Some ((), True));
           if \<not> ok then Some ((), False)
           else Some ((), True) });
         if \<not> ok then Some None
         else Some (Some (pos + 1)) } }"

section \<open>\<open>dvb/country_availability_descriptor.h\<close>\<close>

definition dvb_country_availability_descriptor_layout :: layout where
  "dvb_country_availability_descriptor_layout =
    [(''country_availability_flag'', Value 2 1 7 1), (''reserved'', Value 2 1 0 7)]"

definition dvb_country_availability_entry_layout :: layout where
  "dvb_country_availability_entry_layout =
    [(''country_code'', Bytes 0 3)]"

definition dvb_country_availability_descriptor_codec :: "byte_order \<Rightarrow> mem \<Rightarrow> nat \<Rightarrow> (mem \<times> bool) option" where
  "dvb_country_availability_descriptor_codec e m d =
     do {
       len \<leftarrow> rd8 m (d + 1);
       if len < 1 then Some (m, False)
       else if (sub32 len 1) mod 3 \<noteq> 0 then Some (m, False)
       else Some (m, True) }"

definition dvb_country_availability_descriptor_countries_first :: "mem \<Rightarrow> nat \<Rightarrow> nat option option" where
  "dvb_country_availability_descriptor_countries_first m d =
     do {
       len \<leftarrow> rd8 m (d + 1);
       if len = 1 then Some None
       else Some (Some (d + 3)) }"

definition dvb_country_availability_descriptor_countries_next :: "mem \<Rightarrow> nat \<Rightarrow> nat \<Rightarrow> nat option option" where
  "dvb_country_availability_descriptor_countries_next m d pos =
     do {
       len \<leftarrow> rd8 m (d + 1);
       let stop = d + len + 2;
       if pos + 3 \<ge> stop then Some None
       else Some (Some (pos + 3)) }"

section \<open>\<open>dvb/data_broadcast_descriptor.h\<close>\<close>

definition dvb_data_broadcast_descriptor_layout :: layout where
  "dvb_data_broadcast_descriptor_layout =
    [(''data_broadcast_id'', Value 2 2 0 16), (''component_tag'', Value 4 1 0 8), (''selector_length'', Value 5 1 0 8)]"

definition dvb_data_broadcast_descriptor_part2_layout :: layout where
  "dvb_data_broadcast_descriptor_part2_layout =
    [(''language_code'', Bytes 0 3), (''text_length'', Value 3 1 0 8)]"

definition dvb_data_broadcast_descriptor_codec :: "byte_order \<Rightarrow> mem \<Rightarrow> nat \<Rightarrow> (mem \<times> bool) option" where
  "dvb_data_broadcast_descriptor_codec e m d =
     do {
       len \<leftarrow> rd8 m (d + 1);
       if 4 > len then Some (m, False)
       else do {
         m \<leftarrow> bswap16 e m (d + 4);
         selector_length \<leftarrow> rd8 m (d + 5);
         let pos = selector_length + 4;
         if pos > len then Some (m, False)
         else do {
           let p2 = d + pos + 4;
           let pos = pos + 4;
           if pos > len then Some (m, False)
           else do {
             text_length \<leftarrow> rd8 m (p2 + 3);
             let pos = pos + text_length;
             if pos \<noteq> len then Some (m, False)
             else Some (m, True) } } } }"

definition dvb_data_broadcast_descriptor_selector :: "nat \<Rightarrow> nat" where
  "dvb_data_broadcast_descriptor_selector d = d + 6"

definition dvb_data_broadcast_descriptor_part2 :: "mem \<Rightarrow> nat \<Rightarrow> nat option" where
  "dvb_data_broadcast_descriptor_part2 m d =
     do {
       selector_length \<leftarrow> rd8 m (d + 5);
       Some (d + selector_length + 6) }"

definition dvb_data_broadcast_descriptor_part2_text :: "nat \<Rightarrow> nat" where
  "dvb_data_broadcast_descriptor_part2_text d = d + 4"

section \<open>\<open>dvb/data_broadcast_id_descriptor.h\<close>\<close>

definition dvb_data_broadcast_id_descriptor_layout :: layout where
  "dvb_data_broadcast_id_descriptor_layout =
    [(''data_broadcast_id'', Value 2 2 0 16)]"

definition dvb_id_selector_byte_000b_layout :: layout where
  "dvb_id_selector_byte_000b_layout =
    [(''platform_id_data_length'', Value 0 1 0 8)]"

definition dvb_ip_mac_notification_info_layout :: layout where
  "dvb_ip_mac_notification_info_layout =
    [(''platform_id'', Value 0 4 8 24), (''action_type'', Value 0 4 0 8), (''reserved'', Value 4 1 6 2),
     (''INT_versioning_flag'', Value 4 1 5 1), (''INT_version'', Value 4 1 0 5)]"

definition dvb_data_broadcast_id_descriptor_codec :: "byte_order \<Rightarrow> mem \<Rightarrow> nat \<Rightarrow> (mem \<times> bool) option" where
  "dvb_data_broadcast_id_descriptor_codec e m d =
     do {
       len \<leftarrow> rd8 m (d + 1);
       if len < 2 then Some (m, False)
       else do {
         m \<leftarrow> bswap16 e m (d + 2);
         Some (m, True) } }"

definition dvb_data_broadcast_id_descriptor_id_selector_byte :: "nat \<Rightarrow> nat" where
  "dvb_data_broadcast_id_descriptor_id_selector_byte d = d + 4"

definition dvb_data_broadcast_id_descriptor_id_selector_byte_length :: "mem \<Rightarrow> nat \<Rightarrow> int option" where
  "dvb_data_broadcast_id_descriptor_id_selector_byte_length m d =
     do {
       len \<leftarrow> rd8 m (d + 1);
       Some (int len - 2) }"

definition dvb_id_selector_byte_000b :: "byte_order \<Rightarrow> mem \<Rightarrow> nat \<Rightarrow> nat option option" where
  "dvb_id_selector_byte_000b e m d =
     do {
       data_broadcast_id \<leftarrow> ldn e 2 m (d + 2);
       if data_broadcast_id \<noteq> 11 then Some None
       else Some (Some ((dvb_data_broadcast_id_descriptor_id_selector_byte d))) }"

definition dvb_id_selector_byte_000b_private_data_length :: "mem \<Rightarrow> nat \<Rightarrow> nat \<Rightarrow> nat option" where
  "dvb_id_selector_byte_000b_private_data_length m d i =
     do {
       len \<leftarrow> rd8 m (d + 1);
       platform_id_data_length \<leftarrow> rd8 m i;
       Some ((size_sub (size_sub (size_sub len 2) platform_id_data_length) 1) mod 256) }"

definition dvb_id_selector_byte_000b_private_data :: "mem \<Rightarrow> nat \<Rightarrow> nat \<Rightarrow> nat option option" where
  "dvb_id_selector_byte_000b_private_data m d i =
     do {
       r \<leftarrow> dvb_id_selector_byte_000b_private_data_length m d i;
       if r \<le> 0 then Some None
       else do {
         platform_id_data_length \<leftarrow> rd8 m i;
         Some (Some (i + platform_id_data_length + 1)) } }"

definition dvb_ip_mac_notification_info_first :: "byte_order \<Rightarrow> mem \<Rightarrow> nat \<Rightarrow> (mem \<times> nat option) option" where
  "dvb_ip_mac_notification_info_first e m d =
     do {
       platform_id_data_length \<leftarrow> rd8 m d;
       if platform_id_data_length = 0 then Some (m, None)
       else do {
         m \<leftarrow> bswap32 e m (d + 1);
         Some (m, Some (d + 1)) } }"

definition dvb_ip_mac_notification_info_next :: "byte_order \<Rightarrow> mem \<Rightarrow> nat \<Rightarrow> nat \<Rightarrow> (mem \<times> nat option) option" where
  "dvb_ip_mac_notification_info_next e m d pos =
     do {
       platform_id_data_length \<leftarrow> rd8 m d;
       let stop = d + platform_id_data_length;
       if pos + 6 \<ge> stop then Some (m, None)
       else do {
         m \<leftarrow> bswap32 e m (pos + 6);
         Some (m, Some (pos + 6)) } }"

section \<open>\<open>dvb/default_authority_descriptor.h\<close>\<close>

definition dvb_default_authority_descriptor_codec :: "byte_order \<Rightarrow> mem \<Rightarrow> nat \<Rightarrow> (mem \<times> bool) option" where
  "dvb_default_authority_descriptor_codec e m d = Some (m, True)"

definition dvb_default_authority_descriptor_name :: "nat \<Rightarrow> nat" where
  "dvb_default_authority_descriptor_name d = d + 2"

definition dvb_default_authority_descriptor_name_length :: "mem \<Rightarrow> nat \<Rightarrow> nat option" where
  "dvb_default_authority_descriptor_name_length m d =
     do {
       len \<leftarrow> rd8 m (d + 1);
       Some len }"

section \<open>\<open>dvb/dsng_descriptor.h\<close>\<close>

definition dvb_dsng_descriptor_codec :: "byte_order \<Rightarrow> mem \<Rightarrow> nat \<Rightarrow> (mem \<times> bool) option" where
  "dvb_dsng_descriptor_codec e m d = Some (m, True)"

definition dvb_dsng_descriptor_data :: "nat \<Rightarrow> nat" where
  "dvb_dsng_descriptor_data d = d + 2"

definition dvb_dsng_descriptor_data_length :: "mem \<Rightarrow> nat \<Rightarrow> nat option" where
  "dvb_dsng_descriptor_data_length m d =
     do {
       len \<leftarrow> rd8 m (d + 1);
       Some len }"

section \<open>\<open>dvb/extended_event_descriptor.h\<close>\<close>

definition dvb_extended_event_descriptor_layout :: layout where
  "dvb_extended_event_descriptor_layout =
    [(''descriptor_number'', Value 2 1 4 4), (''last_descriptor_number'', Value 2 1 0 4), (''language_code'', Bytes 3 3),
     (''length_of_items'', Value 6 1 0 8)]"

definition dvb_extended_event_item_layout :: layout where
  "dvb_extended_event_item_layout =
    [(''item_description_length'', Value 0 1 0 8)]"

definition dvb_extended_event_item_part2_layout :: layout where
  "dvb_extended_event_item_part2_layout =
    [(''item_length'', Value 0 1 0 8)]"

definition dvb_extended_event_descriptor_part2_layout :: layout where
  "dvb_extended_event_descriptor_part2_layout =
    [(''text_length'', Value 0 1 0 8)]"

definition dvb_extended_event_descriptor_codec :: "byte_order \<Rightarrow> mem \<Rightarrow> nat \<Rightarrow> (mem \<times> bool) option" where
  "dvb_extended_event_descriptor_codec e m d =
     do {
       len \<leftarrow> rd8 m (d + 1);
       if 5 > len then Some (m, False)
       else do {
         length_of_items \<leftarrow> rd8 m (d + 6);
         let pos = length_of_items + 5;
         if pos > len then Some (m, False)
         else do {
           let p2 = d + pos + 2;
           let pos = pos + 1;
           if pos > len then Some (m, False)
           else do {
             text_length \<leftarrow> rd8 m p2;
             let pos = pos + text_length;
             if pos \<noteq> len then Some (m, False)
             else Some (m, True) } } } }"

definition dvb_extended_event_item_description :: "nat \<Rightarrow> nat" where
  "dvb_extended_event_item_description d = d + 1"

definition dvb_extended_event_item_part2 :: "mem \<Rightarrow> nat \<Rightarrow> nat option" where
  "dvb_extended_event_item_part2 m d =
     do {
       item_description_length \<leftarrow> rd8 m d;
       Some (d + item_description_length + 1) }"

definition dvb_extended_event_item_part2_item :: "nat \<Rightarrow> nat" where
  "dvb_extended_event_item_part2_item d = d + 1"

definition dvb_extended_event_descriptor_part2 :: "mem \<Rightarrow> nat \<Rightarrow> nat option" where
  "dvb_extended_event_descriptor_part2 m d =
     do {
       length_of_items \<leftarrow> rd8 m (d + 6);
       Some (d + length_of_items + 7) }"

definition dvb_extended_event_descriptor_part2_text :: "nat \<Rightarrow> nat" where
  "dvb_extended_event_descriptor_part2_text d = d + 1"

definition dvb_extended_event_descriptor_items_first :: "mem \<Rightarrow> nat \<Rightarrow> nat option option" where
  "dvb_extended_event_descriptor_items_first m d =
     do {
       length_of_items \<leftarrow> rd8 m (d + 6);
       if length_of_items = 0 then Some None
       else Some (Some (d + 7)) }"

definition dvb_extended_event_descriptor_items_next :: "mem \<Rightarrow> nat \<Rightarrow> nat \<Rightarrow> nat option option" where
  "dvb_extended_event_descriptor_items_next m d pos =
     do {
       r \<leftarrow> dvb_extended_event_item_part2 m pos;
       length_of_items \<leftarrow> rd8 m (d + 6);
       let stop = d + length_of_items + 7;
       item_length \<leftarrow> rd8 m r;
       let nxt = r + item_length + 1;
       if nxt \<ge> stop then Some None
       else Some (Some nxt) }"

section \<open>\<open>dvb/frequency_list_descriptor.h\<close>\<close>

definition dvb_frequency_list_descriptor_layout :: layout where
  "dvb_frequency_list_descriptor_layout =
    [(''reserved'', Value 2 1 2 6), (''coding_type'', Value 2 1 0 2)]"

definition dvb_frequency_list_descriptor_codec :: "byte_order \<Rightarrow> mem \<Rightarrow> nat \<Rightarrow> (mem \<times> bool) option" where
  "dvb_frequency_list_descriptor_codec e m d =
     do {
       len \<leftarrow> rd8 m (d + 1);
       if (sub32 len 1) mod 4 \<noteq> 0 then Some (m, False)
       else do {
         ((m, pos), ok) \<leftarrow> while_do
           (\<lambda>(m, pos). Some (pos < len))
           (\<lambda>(m, pos).
             do {
               m \<leftarrow> bswap32 e m (d + pos + 2);
               let pos = pos + 4;
               Some ((m, pos), True) })
           (m, 1);
         if \<not> ok then Some (m, False)
         else Some (m, True) } }"

definition dvb_frequency_list_descriptor_centre_frequencies :: "nat \<Rightarrow> nat" where
  "dvb_frequency_list_descriptor_centre_frequencies d = d + 3"

definition dvb_frequency_list_descriptor_centre_frequencies_count :: "mem \<Rightarrow> nat \<Rightarrow> int option" where
  "dvb_frequency_list_descriptor_centre_frequencies_count m d =
     do {
       len \<leftarrow> rd8 m (d + 1);
       Some ((int len - 1) div 4) }"

section \<open>\<open>dvb/ip_mac_platform_name_descriptor.h\<close>\<close>

definition dvb_ip_platform_name_descriptor_layout :: layout where
  "dvb_ip_platform_name_descriptor_layout =
    [(''language_code'', Bytes 2 3)]"

definition dvb_ip_platform_name_descriptor_codec :: "byte_order \<Rightarrow> mem \<Rightarrow> nat \<Rightarrow> (mem \<times> bool) option" where
  "dvb_ip_platform_name_descriptor_codec e m d =
     do {
       len \<leftarrow> rd8 m (d + 1);
       if len < 3 then Some (m, False)
       else Some (m, True) }"

definition dvb_ip_platform_name_descriptor_text :: "nat \<Rightarrow> nat" where
  "dvb_ip_platform_name_descriptor_text d = d + 5"

definition dvb_ip_platform_name_descriptor_text_length :: "mem \<Rightarrow> nat \<Rightarrow> int option" where
  "dvb_ip_platform_name_descriptor_text_length m d =
     do {
       len \<leftarrow> rd8 m (d + 1);
       Some (int len - 3) }"

section \<open>\<open>dvb/ip_mac_platform_provider_name_descriptor.h\<close>\<close>

definition dvb_ip_platform_provider_name_descriptor_layout :: layout where
  "dvb_ip_platform_provider_name_descriptor_layout =
    [(''language_code'', Bytes 2 3)]"

definition dvb_ip_platform_provider_name_descriptor_codec :: "byte_order \<Rightarrow> mem \<Rightarrow> nat \<Rightarrow> (mem \<times> bool) option" where
  "dvb_ip_platform_provider_name_descriptor_codec e m d =
     do {
       len \<leftarrow> rd8 m (d + 1);
       if len < 3 then Some (m, False)
       else Some (m, True) }"

definition dvb_ip_platform_provider_name_descriptor_text :: "nat \<Rightarrow> nat" where
  "dvb_ip_platform_provider_name_descriptor_text d = d + 5"

definition dvb_ip_platform_provider_name_descriptor_text_length :: "mem \<Rightarrow> nat \<Rightarrow> int option" where
  "dvb_ip_platform_provider_name_descriptor_text_length m d =
     do {
       len \<leftarrow> rd8 m (d + 1);
       Some (int len - 3) }"

section \<open>\<open>dvb/ip_mac_stream_location_descriptor.h\<close>\<close>

definition dvb_ip_mac_stream_location_descriptor_layout :: layout where
  "dvb_ip_mac_stream_location_descriptor_layout =
    [(''network_id'', Value 2 2 0 16), (''original_network_id'', Value 4 2 0 16), (''transport_stream_id'', Value 6 2 0 16),
     (''service_id'', Value 8 2 0 16), (''component_tag'', Value 10 1 0 8)]"

definition dvb_ip_mac_stream_location_descriptor_codec :: "byte_order \<Rightarrow> mem \<Rightarrow> nat \<Rightarrow> (mem \<times> bool) option" where
  "dvb_ip_mac_stream_location_descriptor_codec e m d =
     do {
       len \<leftarrow> rd8 m (d + 1);
       if len \<noteq> 9 then Some (m, False)
       else do {
         m \<leftarrow> bswap16 e m (d + 2);
         m \<leftarrow> bswap16 e m (d + 4);
         m \<leftarrow> bswap16 e m (d + 6);
         m \<leftarrow> bswap16 e m (d + 8);
         Some (m, True) } }"

section \<open>What the codecs do\<close>

lemma dvb_ac3_descriptor_codec_ok: "exact_codec dvb_ac3_descriptor_codec dvb_ac3_descriptor_layout (\<lambda>len. 1 \<le> len)"
  by (rule exact_codecI) (simp add: dvb_ac3_descriptor_codec_def dvb_ac3_descriptor_layout_def safe_simps decode_simps)

lemma dvb_adaptation_field_data_descriptor_codec_ok: "exact_codec dvb_adaptation_field_data_descriptor_codec dvb_adaptation_field_data_descriptor_layout (\<lambda>len. len = 1)"
  by (rule exact_codecI) (simp add: dvb_adaptation_field_data_descriptor_codec_def dvb_adaptation_field_data_descriptor_layout_def safe_simps decode_simps)

lemma dvb_ait_application_icons_descriptor_codec_ok: "codec_correct dvb_ait_application_icons_descriptor_codec dvb_ait_application_icons_descriptor_layout"
proof (rule codec_tailI [where k = 3 and head = "\<lambda>e m d. m"], goal_cases)
  case (5 e m d len)
  from 5 show ?case
    unfolding dvb_ait_application_icons_descriptor_codec_def Let_def 5(1) Option.bind.simps
    by - (rule wp_checkI, simp, (rule wp_frame wp_push | assumption | (simp add: sub32_le; fail))+)
qed (simp_all add: dvb_ait_application_icons_descriptor_codec_def dvb_ait_application_icons_descriptor_layout_def layout_within_def safe_simps decode_simps)

lemma dvb_ait_application_name_descriptor_codec_ok: "codec_correct dvb_ait_application_name_descriptor_codec []"
proof (rule codec_tailI [where k = 2 and head = "\<lambda>e m d. m"], goal_cases)
  case (5 e m d len)
  from 5 show ?case
    unfolding dvb_ait_application_name_descriptor_codec_def Let_def 5(1) Option.bind.simps
    by - ((rule wp_frame wp_push | assumption | (simp add: sub32_le; fail))+)
qed (simp_all add: dvb_ait_application_name_descriptor_codec_def layout_within_def safe_simps decode_simps)

lemma dvb_ancillary_data_descriptor_codec_ok: "exact_codec dvb_ancillary_data_descriptor_codec dvb_ancillary_data_descriptor_layout (\<lambda>len. len = 1)"
  by (rule exact_codecI) (simp add: dvb_ancillary_data_descriptor_codec_def dvb_ancillary_data_descriptor_layout_def safe_simps decode_simps)

lemma dvb_announcement_support_descriptor_codec_ok: "codec_correct dvb_announcement_support_descriptor_codec dvb_announcement_support_descriptor_layout"
proof (rule codec_tailI [where k = 4 and head = "\<lambda>e m d. swapped e 2 m (d + 2)"], goal_cases)
  case (5 e m d len)
  from 5 show ?case
    unfolding dvb_announcement_support_descriptor_codec_def Let_def 5(1) Option.bind.simps
    by - (rule wp_checkI, simp, rule wp_swap16I, simp, (rule wp_frame wp_push | assumption | (simp add: sub32_le; fail))+)
qed (simp_all add: dvb_announcement_support_descriptor_codec_def dvb_announcement_support_descriptor_layout_def layout_within_def safe_simps decode_simps)

lemma dvb_application_signalling_descriptor_codec_ok: "table_correct dvb_application_signalling_descriptor_codec [] 2 3 dvb_application_signalling_entry_layout"
  by (rule table_codecI [where ?p0.0 = 0], rule dvb_application_signalling_descriptor_codec_def) (auto simp: layout_within_def dvb_application_signalling_entry_layout_def table_guards safe_simps decode_simps)

lemma dvb_bouquet_name_descriptor_codec_ok: "exact_codec dvb_bouquet_name_descriptor_codec [] (\<lambda>len. True)"
  by (rule exact_codecI) (simp add: dvb_bouquet_name_descriptor_codec_def safe_simps decode_simps)

lemma dvb_ca_identifier_descriptor_codec_ok: "table_correct dvb_ca_identifier_descriptor_codec [] 2 2 [(''value'', Value 0 2 0 16)]"
  by (rule table_codecI [where ?p0.0 = 0], rule dvb_ca_identifier_descriptor_codec_def) (auto simp: layout_within_def table_guards safe_simps decode_simps)

lemma dvb_cable_delivery_descriptor_codec_ok: "exact_codec dvb_cable_delivery_descriptor_codec dvb_cable_delivery_descriptor_layout (\<lambda>len. len = 11)"
  by (rule exact_codecI) (simp add: dvb_cable_delivery_descriptor_codec_def dvb_cable_delivery_descriptor_layout_def safe_simps decode_simps)

lemma dvb_cell_frequency_link_descriptor_codec_ok: "codec_correct dvb_cell_frequency_link_descriptor_codec []"
proof (rule codec_tailI [where k = 2 and head = "\<lambda>e m d. m"], goal_cases)
  case (5 e m d len)
  let ?I = "same (d + 2) (d + 2 + len) m"
  have inner: "wp (Option.bind (while_do (\<lambda>(m, pos2). rd8 m (d + pos + 2 + 6) \<bind> (\<lambda>l. Some (pos2 < l)))
        (\<lambda>(m, pos2). bswap32 e m (d + (pos + 7) + pos2 + 3) \<bind> (\<lambda>m. Some ((m, pos2 + 5), True))) (m1, 0)) K) Q"
    if "?I m1" "pos + 7 + byte_at m1 (d + pos + 2 + 6) \<le> len" "byte_at m1 (d + pos + 2 + 6) mod 5 = 0"
      and cont: "\<And>m pos2. ?I m \<Longrightarrow> wp (K ((m, pos2), True)) Q" for m1 pos K Q
  proof (rule wp_inner [where lo = "d + pos + 9" and hi = "d + 2 + len" and L = "byte_at m1 (d + pos + 2 + 6)" and k = 5], goal_cases)
    case (1 m2 pos2)
    then show ?case using that(2) 5(2) same_length [OF that(1)] by (simp add: rd8_def rd_def byte_at_def same_def)
  next
    case (2 m2 pos2)
    then show ?case using that(2) 5(2) same_length [OF that(1)] by (simp add: safe_simps same_length same_swapped)
  next
    case (5 m2 pos2)
    then show ?case using cont same_trans [OF that(1) same_mono [OF 5]] by simp
  qed (use that in auto)
  from 5 show ?case
    unfolding dvb_cell_frequency_link_descriptor_codec_def Let_def 5(1) Option.bind.simps
    by - (rule wp_frame inner | assumption | (simp; fail))+
qed (simp_all add: dvb_cell_frequency_link_descriptor_codec_def layout_within_def safe_simps decode_simps)

lemma dvb_cell_list_descriptor_codec_ok: "codec_correct dvb_cell_list_descriptor_codec []"
proof (rule codec_tailI [where k = 2 and head = "\<lambda>e m d. m"], goal_cases)
  case (5 e m d len)
  let ?I = "same (d + 2) (d + 2 + len) m" and ?L = "\<lambda>m pos. val_at e 4 m (d + pos + 2 + 6) div 2 ^ 0 mod 2 ^ 8"
  have inner: "wp (Option.bind (while_do (\<lambda>(m, pos2). fld e 4 0 8 m (d + pos + 2 + 6) \<bind> (\<lambda>l. Some (pos2 < l)))
        (\<lambda>(m, pos2). bswap16 e m (d + (pos + 10) + pos2 + 3) \<bind> (\<lambda>m. bswap16 e m (d + (pos + 10) + pos2 + 5) \<bind>
          (\<lambda>m. bswap24 e m (d + (pos + 10) + pos2 + 7) \<bind> (\<lambda>m. Some ((m, pos2 + 8), True))))) (m1, 0)) K) Q"
    if "?I m1" "pos + 10 + ?L m1 pos \<le> len" "?L m1 pos mod 8 = 0"
      and cont: "\<And>m pos2. ?I m \<Longrightarrow> wp (K ((m, pos2), True)) Q" for m1 pos K Q
  proof (rule wp_inner [where lo = "d + pos + 12" and hi = "d + 2 + len" and L = "?L m1 pos" and k = 8], goal_cases)
    case (1 m2 pos2)
    then show ?case using that(2) 5(2) same_length [OF that(1)] val_at_same [OF 1, of "d + pos + 2 + 6" 4 e]
      by (simp add: fld_Some same_length)
  next
    case (2 m2 pos2)
    then show ?case using that(2) 5(2) same_length [OF that(1)] by (simp add: safe_simps same_length same_swapped)
  next
    case (5 m2 pos2)
    then show ?case using cont same_trans [OF that(1) same_mono [OF 5]] by simp
  qed (use that in auto)
  from 5 show ?case
    unfolding dvb_cell_list_descriptor_codec_def Let_def 5(1) Option.bind.simps
    by - (rule wp_frame inner | assumption | (simp; fail))+
qed (simp_all add: dvb_cell_list_descriptor_codec_def layout_within_def safe_simps decode_simps)

lemma dvb_component_descriptor_codec_ok: "exact_codec dvb_component_descriptor_codec dvb_component_descriptor_layout (\<lambda>len. 6 \<le> len)"
  by (rule exact_codecI) (simp add: dvb_component_descriptor_codec_def dvb_component_descriptor_layout_def safe_simps decode_simps)

lemma dvb_content_descriptor_codec_ok: "table_correct dvb_content_descriptor_codec [] 2 2 dvb_content_nibble_layout"
  by (rule table_bytesI [where ?p0.0 = 0], rule dvb_content_descriptor_codec_def) (auto simp: layout_within_def dvb_content_nibble_layout_def table_guards safe_simps decode_simps)

lemma dvb_content_identifier_descriptor_codec_ok: "codec_correct dvb_content_identifier_descriptor_codec []"
proof (rule codec_tailI [where k = 2 and head = "\<lambda>e m d. m"], goal_cases)
  case (5 e m d len)
  from 5 show ?case
    unfolding dvb_content_identifier_descriptor_codec_def Let_def 5(1) Option.bind.simps
    by - ((rule wp_frame wp_push | assumption | (simp add: sub32_le; fail))+)
qed (simp_all add: dvb_content_identifier_descriptor_codec_def layout_within_def safe_simps decode_simps)

lemma dvb_country_availability_descriptor_codec_ok:
  "table_correct dvb_country_availability_descriptor_codec dvb_country_availability_descriptor_layout 3 3
    dvb_country_availability_entry_layout"
proof (rule table_bytesI [where ?p0.0 = 1 and bad = "\<lambda>len. len < 1 \<or> sub32 len 1 mod 3 \<noteq> 0"], goal_cases)
  case (1 e m d)
  show ?case by (cases "rd8 m (d + 1)") (simp_all add: dvb_country_availability_descriptor_codec_def)
qed (auto simp: layout_within_def dvb_country_availability_descriptor_layout_def dvb_country_availability_entry_layout_def
    table_guards safe_simps decode_simps)

lemma dvb_data_broadcast_id_descriptor_codec_ok: "exact_codec dvb_data_broadcast_id_descriptor_codec dvb_data_broadcast_id_descriptor_layout (\<lambda>len. 2 \<le> len)"
  by (rule exact_codecI) (simp add: dvb_data_broadcast_id_descriptor_codec_def dvb_data_broadcast_id_descriptor_layout_def safe_simps decode_simps)

lemma dvb_default_authority_descriptor_codec_ok: "exact_codec dvb_default_authority_descriptor_codec [] (\<lambda>len. True)"
  by (rule exact_codecI) (simp add: dvb_default_authority_descriptor_codec_def safe_simps decode_simps)

lemma dvb_dsng_descriptor_codec_ok: "exact_codec dvb_dsng_descriptor_codec [] (\<lambda>len. True)"
  by (rule exact_codecI) (simp add: dvb_dsng_descriptor_codec_def safe_simps decode_simps)

lemma dvb_extended_event_descriptor_codec_ok: "codec_correct dvb_extended_event_descriptor_codec dvb_extended_event_descriptor_layout"
  by (rule codec_correctI) (simp add: dvb_extended_event_descriptor_codec_def dvb_extended_event_descriptor_layout_def safe_simps decode_simps)

lemma dvb_frequency_list_descriptor_codec_ok: "table_correct dvb_frequency_list_descriptor_codec dvb_frequency_list_descriptor_layout 3 4 [(''value'', Value 0 4 0 32)]"
  by (rule table_codecI [where ?p0.0 = 1], rule dvb_frequency_list_descriptor_codec_def) (auto simp: layout_within_def dvb_frequency_list_descriptor_layout_def table_guards safe_simps decode_simps)

lemma dvb_ip_platform_name_descriptor_codec_ok: "exact_codec dvb_ip_platform_name_descriptor_codec dvb_ip_platform_name_descriptor_layout (\<lambda>len. 3 \<le> len)"
  by (rule exact_codecI) (simp add: dvb_ip_platform_name_descriptor_codec_def dvb_ip_platform_name_descriptor_layout_def safe_simps decode_simps)

lemma dvb_ip_platform_provider_name_descriptor_codec_ok: "exact_codec dvb_ip_platform_provider_name_descriptor_codec dvb_ip_platform_provider_name_descriptor_layout (\<lambda>len. 3 \<le> len)"
  by (rule exact_codecI) (simp add: dvb_ip_platform_provider_name_descriptor_codec_def dvb_ip_platform_provider_name_descriptor_layout_def safe_simps decode_simps)

lemma dvb_ip_mac_stream_location_descriptor_codec_ok: "exact_codec dvb_ip_mac_stream_location_descriptor_codec dvb_ip_mac_stream_location_descriptor_layout (\<lambda>len. len = 9)"
  by (rule exact_codecI) (simp add: dvb_ip_mac_stream_location_descriptor_codec_def dvb_ip_mac_stream_location_descriptor_layout_def safe_simps decode_simps)

end
