(* ===== verification/Dvb_Descriptors_2.thy ===== *)
theory Dvb_Descriptors_2
  imports Dvb_Descriptors
begin

text \<open>
  The descriptors of \<open>lib/libucsi/dvb\<close> from \<open>linkage\<close> to \<open>vbi\<close>: the layout of each structure, its codec, its accessors and
  iterators, and what each codec does.
\<close>

section \<open>\<open>dvb/linkage_descriptor.h\<close>\<close>

definition dvb_linkage_descriptor_layout :: layout where
  "dvb_linkage_descriptor_layout =
    [(''transport_stream_id'', Value 2 2 0 16), (''original_network_id'', Value 4 2 0 16), (''service_id'', Value 6 2 0 16),
     (''linkage_type'', Value 8 1 0 8)]"

definition dvb_linkage_data_08_layout :: layout where
  "dvb_linkage_data_08_layout =
    [(''hand_over_type'', Value 0 1 4 4), (''reserved'', Value 0 1 1 3), (''origin_type'', Value 0 1 0 1)]"

definition dvb_linkage_data_0b_layout :: layout where
  "dvb_linkage_data_0b_layout =
    [(''platform_id_data_length'', Value 0 1 0 8)]"

definition dvb_platform_id_layout :: layout where
  "dvb_platform_id_layout =
    [(''platform_id'', Value 0 4 8 24), (''platform_name_loop_length'', Value 0 4 0 8)]"

definition dvb_platform_name_layout :: layout where
  "dvb_platform_name_layout =
    [(''language_code'', Bytes 0 3), (''platform_name_length'', Value 3 1 0 8)]"

definition dvb_linkage_data_0c_layout :: layout where
  "dvb_linkage_data_0c_layout =
    [(''table_type'', Value 0 1 0 8)]"

definition dvb_linkage_descriptor_codec :: "byte_order \<Rightarrow> mem \<Rightarrow> nat \<Rightarrow> (mem \<times> bool) option" where
  "dvb_linkage_descriptor_codec e m d =
     do {
       len \<leftarrow> rd8 m (d + 1);
       if len < 7 then Some (m, False)
       else do {
         m \<leftarrow> bswap16 e m (d + 2);
         m \<leftarrow> bswap16 e m (d + 4);
         m \<leftarrow> bswap16 e m (d + 6);
         linkage_type \<leftarrow> rd8 m (d + 8);
         ((m, pos), ok) \<leftarrow> (if linkage_type = 8 then
           if sub32 len 7 < 1 then Some ((m, 7), False)
           else do {
             hand_over_type \<leftarrow> fld e 1 4 4 m (d + 9);
             ((m, pos), ok) \<leftarrow> (if (hand_over_type = 1 \<or> hand_over_type = 2) \<or> hand_over_type = 3 then
               if sub32 len 8 < 2 then Some ((m, 8), False)
               else do {
                 m \<leftarrow> bswap16 e m (d + 10);
                 Some ((m, 10), True) }
             else Some ((m, 8), True));
             if \<not> ok then Some ((m, pos), False)
             else do {
               origin_type \<leftarrow> fld e 1 0 1 m (d + 9);
               ((m, pos), ok) \<leftarrow> (if origin_type = 0 then
                 if sub32 len pos < 2 then Some ((m, pos), False)
                 else do {
                   m \<leftarrow> bswap16 e m (d + pos + 2);
                   let pos = pos + 2;
                   Some ((m, pos), True) }
               else Some ((m, pos), True));
               if \<not> ok then Some ((m, pos), False)
               else Some ((m, pos), True) } }
         else do {
           ((m, pos), ok) \<leftarrow> (if linkage_type = 11 then
             if sub32 len 7 < 1 then Some ((m, 7), False)
             else do {
               platform_id_data_length \<leftarrow> rd8 m (d + 9);
               if sub32 len 8 < platform_id_data_length then Some ((m, 8), False)
               else do {
                 ((m, pos2), ok) \<leftarrow> while_do
                   (\<lambda>(m, pos2). do {
                     platform_id_data_length' \<leftarrow> rd8 m (d + 9);
                     Some (pos2 < platform_id_data_length') })
                   (\<lambda>(m, pos2).
                     do {
                       m \<leftarrow> bswap32 e m (d + pos2 + 10);
                       let p_id = d + pos2 + 10;
                       platform_name_loop_length \<leftarrow> fld e 4 0 8 m p_id;
                       if sub32 (sub32 len 8) pos2 < platform_name_loop_length then Some ((m, pos2), False)
                       else do {
                         let pos2 = pos2 + platform_name_loop_length + 4;
                         Some ((m, pos2), True) } })
                   (m, 0);
                 if \<not> ok then Some ((m, 8), False)
                 else do {
                   let pos = pos2 + 8;
                   Some ((m, pos), True) } } }
           else do {
             ((m, pos), ok) \<leftarrow> (if linkage_type = 12 then
               if sub32 len 7 < 1 then Some ((m, 7), False)
               else do {
                 table_type \<leftarrow> rd8 m (d + 9);
                 (m, ok) \<leftarrow> (if table_type = 2 then
                   if sub32 len 8 < 2 then Some (m, False)
                   else do {
                     m \<leftarrow> bswap16 e m (d + 10);
                     Some (m, True) }
                 else Some (m, True));
                 if \<not> ok then Some ((m, 8), False)
                 else Some ((m, 8), True) }
             else Some ((m, 7), True));
             if \<not> ok then Some ((m, pos), False)
             else Some ((m, pos), True) });
           if \<not> ok then Some ((m, pos), False)
           else Some ((m, pos), True) });
         if \<not> ok then Some (m, False)
         else Some (m, True) } }"

definition dvb_linkage_descriptor_data :: "nat \<Rightarrow> nat" where
  "dvb_linkage_descriptor_data d = d + 9"

definition dvb_linkage_descriptor_data_length :: "mem \<Rightarrow> nat \<Rightarrow> int option" where
  "dvb_linkage_descriptor_data_length m d =
     do {
       len \<leftarrow> rd8 m (d + 1);
       Some (int len - 7) }"

definition dvb_linkage_data_08 :: "mem \<Rightarrow> nat \<Rightarrow> nat option option" where
  "dvb_linkage_data_08 m d =
     do {
       linkage_type \<leftarrow> rd8 m (d + 8);
       if linkage_type \<noteq> 8 then Some None
       else Some (Some ((dvb_linkage_descriptor_data d))) }"

definition dvb_linkage_data_08_network_id :: "byte_order \<Rightarrow> mem \<Rightarrow> nat \<Rightarrow> nat \<Rightarrow> int option" where
  "dvb_linkage_data_08_network_id e m d d08 =
     do {
       linkage_type \<leftarrow> rd8 m (d + 8);
       if linkage_type \<noteq> 8 then Some (- 1)
       else do {
         hand_over_type \<leftarrow> fld e 1 4 4 m d08;
         if (hand_over_type = 1 \<or> hand_over_type = 2) \<or> hand_over_type = 3 then
           do {
             v \<leftarrow> ldn e 2 m (d08 + 1);
             Some (int v) }
         else Some (- 1) } }"

definition dvb_linkage_data_08_initial_service_id :: "byte_order \<Rightarrow> mem \<Rightarrow> nat \<Rightarrow> nat \<Rightarrow> int option" where
  "dvb_linkage_data_08_initial_service_id e m d d08 =
     do {
       linkage_type \<leftarrow> rd8 m (d + 8);
       if linkage_type \<noteq> 8 then Some (- 1)
       else do {
         origin_type \<leftarrow> fld e 1 0 1 m d08;
         if origin_type \<noteq> 0 then Some (- 1)
         else do {
           hand_over_type \<leftarrow> fld e 1 4 4 m d08;
           let pos = (if (hand_over_type = 1 \<or> hand_over_type = 2) \<or> hand_over_type = 3 then d08 + 3
           else d08 + 1);
           do {
             v \<leftarrow> ldn e 2 m pos;
             Some (int v) } } } }"

definition dvb_linkage_data_08_data :: "byte_order \<Rightarrow> mem \<Rightarrow> nat \<Rightarrow> nat \<Rightarrow> (nat option \<times> int) option" where
  "dvb_linkage_data_08_data e m d d08 =
     do {
       linkage_type \<leftarrow> rd8 m (d + 8);
       if linkage_type \<noteq> 8 then Some (None, 0)
       else do {
         hand_over_type \<leftarrow> fld e 1 4 4 m d08;
         let (pos, used) = (if (hand_over_type = 1 \<or> hand_over_type = 2) \<or> hand_over_type = 3 then (d08 + 3, 2)
         else (d08 + 1, 0));
         origin_type \<leftarrow> fld e 1 0 1 m d08;
         let (pos, used) = (if origin_type = 0 then (pos + 2, used + 2)
         else (pos, used));
         r \<leftarrow> dvb_linkage_descriptor_data_length m d;
         Some (Some pos, r - (used + 1)) } }"

definition dvb_linkage_data_0b :: "mem \<Rightarrow> nat \<Rightarrow> nat option option" where
  "dvb_linkage_data_0b m d =
     do {
       linkage_type \<leftarrow> rd8 m (d + 8);
       if linkage_type \<noteq> 11 then Some None
       else Some (Some ((dvb_linkage_descriptor_data d))) }"

definition dvb_platform_name_text :: "nat \<Rightarrow> nat" where
  "dvb_platform_name_text p = p + 4"

definition dvb_linkage_data_0c :: "mem \<Rightarrow> nat \<Rightarrow> nat option option" where
  "dvb_linkage_data_0c m d =
     do {
       linkage_type \<leftarrow> rd8 m (d + 8);
       if linkage_type \<noteq> 12 then Some None
       else Some (Some ((dvb_linkage_descriptor_data d))) }"

definition dvb_linkage_data_0c_bouquet_id :: "byte_order \<Rightarrow> mem \<Rightarrow> nat \<Rightarrow> int option" where
  "dvb_linkage_data_0c_bouquet_id e m l_0c =
     do {
       table_type \<leftarrow> rd8 m l_0c;
       if table_type \<noteq> 2 then Some (- 1)
       else do {
         v \<leftarrow> ldn e 2 m (l_0c + 1);
         Some (int v) } }"

definition dvb_platform_id_first :: "mem \<Rightarrow> nat \<Rightarrow> nat option option" where
  "dvb_platform_id_first m d =
     do {
       platform_id_data_length \<leftarrow> rd8 m d;
       if platform_id_data_length = 0 then Some None
       else Some (Some (d + 1)) }"

definition dvb_platform_id_next :: "byte_order \<Rightarrow> mem \<Rightarrow> nat \<Rightarrow> nat \<Rightarrow> nat option option" where
  "dvb_platform_id_next e m d pos =
     do {
       platform_id_data_length \<leftarrow> rd8 m d;
       let stop = d + platform_id_data_length;
       platform_name_loop_length \<leftarrow> fld e 4 0 8 m pos;
       let nxt = pos + platform_name_loop_length + 4;
       if nxt \<ge> stop then Some None
       else Some (Some nxt) }"

definition dvb_platform_name_first :: "byte_order \<Rightarrow> mem \<Rightarrow> nat \<Rightarrow> nat option option" where
  "dvb_platform_name_first e m p =
     do {
       platform_name_loop_length \<leftarrow> fld e 4 0 8 m p;
       if platform_name_loop_length = 0 then Some None
       else Some (Some (p + 4)) }"

definition dvb_platform_name_next :: "byte_order \<Rightarrow> mem \<Rightarrow> nat \<Rightarrow> nat \<Rightarrow> nat option option" where
  "dvb_platform_name_next e m p pos =
     do {
       platform_name_loop_length \<leftarrow> fld e 4 0 8 m p;
       let stop = p + platform_name_loop_length;
       platform_name_length \<leftarrow> rd8 m (pos + 3);
       let nxt = pos + platform_name_length + 4;
       if nxt \<ge> stop then Some None
       else Some (Some nxt) }"

section \<open>\<open>dvb/local_time_offset_descriptor.h\<close>\<close>

definition dvb_local_time_offset_layout :: layout where
  "dvb_local_time_offset_layout =
    [(''country_code'', Bytes 0 3), (''country_region_id'', Value 3 1 2 6), (''reserved'', Value 3 1 1 1),
     (''local_time_offset_polarity'', Value 3 1 0 1), (''local_time_offset'', Bytes 4 2), (''time_of_change'', Bytes 6 5),
     (''next_time_offset'', Bytes 11 2)]"

definition dvb_local_time_offset_descriptor_codec :: "byte_order \<Rightarrow> mem \<Rightarrow> nat \<Rightarrow> (mem \<times> bool) option" where
  "dvb_local_time_offset_descriptor_codec e m d =
     do {
       len \<leftarrow> rd8 m (d + 1);
       if len mod 13 \<noteq> 0 then Some (m, False)
       else do {
         ((m, pos), ok) \<leftarrow> while_do
           (\<lambda>(m, pos). Some (pos < len))
           (\<lambda>(m, pos).
             do {
               let pos = pos + 13;
               Some ((m, pos), True) })
           (m, 0);
         if \<not> ok then Some (m, False)
         else Some (m, True) } }"

definition dvb_local_time_offset_descriptor_offsets_first :: "mem \<Rightarrow> nat \<Rightarrow> nat option option" where
  "dvb_local_time_offset_descriptor_offsets_first m d =
     do {
       len \<leftarrow> rd8 m (d + 1);
       if len = 0 then Some None
       else Some (Some (d + 2)) }"

definition dvb_local_time_offset_descriptor_offsets_next :: "mem \<Rightarrow> nat \<Rightarrow> nat \<Rightarrow> nat option option" where
  "dvb_local_time_offset_descriptor_offsets_next m d pos =
     do {
       len \<leftarrow> rd8 m (d + 1);
       let stop = d + len + 2;
       if pos + 13 \<ge> stop then Some None
       else Some (Some (pos + 13)) }"

section \<open>\<open>dvb/mhp_data_broadcast_id_descriptor.h\<close>\<close>

definition dvb_mhp_data_broadcast_id_descriptor_codec :: "byte_order \<Rightarrow> mem \<Rightarrow> nat \<Rightarrow> (mem \<times> bool) option" where
  "dvb_mhp_data_broadcast_id_descriptor_codec e m d =
     do {
       data_broadcast_id \<leftarrow> ldn e 2 m (d + 2);
       if data_broadcast_id < 240 \<or> data_broadcast_id > 254 then Some (m, False)
       else do {
         let buf = (dvb_data_broadcast_id_descriptor_id_selector_byte d);
         r \<leftarrow> dvb_data_broadcast_id_descriptor_id_selector_byte_length m d;
         if r smod 2 \<noteq> 0 then Some (m, False)
         else do {
           ((m, pos), ok) \<leftarrow> while_do
             (\<lambda>(m, pos). Some (int pos < r))
             (\<lambda>(m, pos).
               do {
                 m \<leftarrow> bswap16 e m (buf + pos);
                 let pos = pos + 2;
                 Some ((m, pos), True) })
             (m, 0);
           if \<not> ok then Some (m, False)
           else Some (m, True) } } }"

definition dvb_mhp_data_broadcast_id_descriptor_id_application_type :: "nat \<Rightarrow> nat" where
  "dvb_mhp_data_broadcast_id_descriptor_id_application_type d = (dvb_data_broadcast_id_descriptor_id_selector_byte d)"

definition dvb_mhp_data_broadcast_id_descriptor_id_application_type_count :: "mem \<Rightarrow> nat \<Rightarrow> int option" where
  "dvb_mhp_data_broadcast_id_descriptor_id_application_type_count m d =
     do {
       r \<leftarrow> dvb_data_broadcast_id_descriptor_id_selector_byte_length m d;
       Some (r div 2) }"

section \<open>\<open>dvb/mosaic_descriptor.h\<close>\<close>

definition dvb_mosaic_descriptor_layout :: layout where
  "dvb_mosaic_descriptor_layout =
    [(''mosaic_entry_point'', Value 2 1 7 1), (''number_of_horiz_elementary_cells'', Value 2 1 4 3),
     (''reserved'', Value 2 1 3 1), (''number_of_vert_elementary_cells'', Value 2 1 0 3)]"

definition dvb_mosaic_info_layout :: layout where
  "dvb_mosaic_info_layout =
    [(''logical_cell_id'', Value 0 2 10 6), (''reserved'', Value 0 2 3 7),
     (''logical_cell_presentation_info'', Value 0 2 0 3), (''elementary_cell_field_length'', Value 2 1 0 8)]"

definition dvb_mosaic_elementary_cell_field_layout :: layout where
  "dvb_mosaic_elementary_cell_field_layout =
    [(''reserved'', Value 0 1 6 2), (''elementary_cell_id'', Value 0 1 0 6)]"

definition dvb_mosaic_info_part2_layout :: layout where
  "dvb_mosaic_info_part2_layout =
    [(''cell_linkage_info'', Value 0 1 0 8)]"

definition dvb_mosaic_linkage_01_layout :: layout where
  "dvb_mosaic_linkage_01_layout =
    [(''bouquet_id'', Value 0 2 0 16)]"

definition dvb_mosaic_linkage_02_layout :: layout where
  "dvb_mosaic_linkage_02_layout =
    [(''original_network_id'', Value 0 2 0 16), (''transport_stream_id'', Value 2 2 0 16), (''service_id'', Value 4 2 0 16)]"

definition dvb_mosaic_linkage_03_layout :: layout where
  "dvb_mosaic_linkage_03_layout =
    [(''original_network_id'', Value 0 2 0 16), (''transport_stream_id'', Value 2 2 0 16), (''service_id'', Value 4 2 0 16)]"

definition dvb_mosaic_linkage_04_layout :: layout where
  "dvb_mosaic_linkage_04_layout =
    [(''original_network_id'', Value 0 2 0 16), (''transport_stream_id'', Value 2 2 0 16), (''service_id'', Value 4 2 0 16),
     (''event_id'', Value 6 2 0 16)]"

definition dvb_mosaic_linkage_layout :: layout where
  "dvb_mosaic_linkage_layout =
    [(''u'', Bytes 0 8)]"

definition dvb_mosaic_descriptor_codec :: "byte_order \<Rightarrow> mem \<Rightarrow> nat \<Rightarrow> (mem \<times> bool) option" where
  "dvb_mosaic_descriptor_codec e m d =
     do {
       len \<leftarrow> rd8 m (d + 1);
       if 1 > len then Some (m, False)
       else do {
         ((m, pos), ok) \<leftarrow> while_do
           (\<lambda>(m, pos). Some (pos < len))
           (\<lambda>(m, pos).
             do {
               let ent = d + pos + 2;
               if pos + 3 > len then Some ((m, pos), False)
               else do {
                 m \<leftarrow> bswap16 e m (d + pos + 2);
                 elementary_cell_field_length \<leftarrow> rd8 m (ent + 2);
                 let pos = pos + elementary_cell_field_length + 3;
                 if pos > len then Some ((m, pos), False)
                 else do {
                   let e2 = d + pos + 2;
                   let pos = pos + 1;
                   if pos > len then Some ((m, pos), False)
                   else do {
                     cell_linkage_info \<leftarrow> rd8 m e2;
                     ((m, pos), ok) \<leftarrow> (if cell_linkage_info = 1 then
                       if pos + 2 > len then Some ((m, pos), False)
                       else do {
                         m \<leftarrow> bswap16 e m (d + pos + 2);
                         let pos = pos + 2;
                         Some ((m, pos), True) }
                     else do {
                       ((m, pos), ok) \<leftarrow> (if cell_linkage_info = 2 then
                         if pos + 6 > len then Some ((m, pos), False)
                         else do {
                           m \<leftarrow> bswap16 e m (d + pos + 2);
                           m \<leftarrow> bswap16 e m (d + pos + 4);
                           m \<leftarrow> bswap16 e m (d + pos + 6);
                           let pos = pos + 6;
                           Some ((m, pos), True) }
                       else do {
                         ((m, pos), ok) \<leftarrow> (if cell_linkage_info = 3 then
                           if pos + 6 > len then Some ((m, pos), False)
                           else do {
                             m \<leftarrow> bswap16 e m (d + pos + 2);
                             m \<leftarrow> bswap16 e m (d + pos + 4);
                             m \<leftarrow> bswap16 e m (d + pos + 6);
                             let pos = pos + 6;
                             Some ((m, pos), True) }
                         else do {
                           ((m, pos), ok) \<leftarrow> (if cell_linkage_info = 4 then
                             if pos + 8 > len then Some ((m, pos), False)
                             else do {
                               m \<leftarrow> bswap16 e m (d + pos + 2);
                               m \<leftarrow> bswap16 e m (d + pos + 4);
                               m \<leftarrow> bswap16 e m (d + pos + 6);
                               m \<leftarrow> bswap16 e m (d + pos + 8);
                               let pos = pos + 8;
                               Some ((m, pos), True) }
                           else Some ((m, pos), True));
                           if \<not> ok then Some ((m, pos), False)
                           else Some ((m, pos), True) });
                         if \<not> ok then Some ((m, pos), False)
                         else Some ((m, pos), True) });
                       if \<not> ok then Some ((m, pos), False)
                       else Some ((m, pos), True) });
                     if \<not> ok then Some ((m, pos), False)
                     else Some ((m, pos), True) } } } })
           (m, 1);
         if \<not> ok then Some (m, False)
         else Some (m, True) } }"

definition dvb_mosaic_info_part2 :: "mem \<Rightarrow> nat \<Rightarrow> nat option" where
  "dvb_mosaic_info_part2 m entry =
     do {
       elementary_cell_field_length \<leftarrow> rd8 m (entry + 2);
       Some (entry + elementary_cell_field_length + 3) }"

definition dvb_mosaic_linkage :: "mem \<Rightarrow> nat \<Rightarrow> nat option option" where
  "dvb_mosaic_linkage m entry =
     do {
       cell_linkage_info \<leftarrow> rd8 m entry;
       if ((cell_linkage_info \<noteq> 1 \<and> cell_linkage_info \<noteq> 2) \<and> cell_linkage_info \<noteq> 3) \<and> cell_linkage_info \<noteq> 4 then Some None
       else Some (Some (entry + 1)) }"

definition dvb_mosaic_descriptor_infos_first :: "mem \<Rightarrow> nat \<Rightarrow> nat option option" where
  "dvb_mosaic_descriptor_infos_first m d =
     do {
       len \<leftarrow> rd8 m (d + 1);
       if len = 1 then Some None
       else Some (Some (d + 3)) }"

definition dvb_mosaic_descriptor_infos_next :: "mem \<Rightarrow> nat \<Rightarrow> nat \<Rightarrow> nat option option" where
  "dvb_mosaic_descriptor_infos_next m d pos =
     do {
       r \<leftarrow> dvb_mosaic_info_part2 m pos;
       len \<leftarrow> rd8 m (d + 1);
       let stop = d + len + 2;
       elementary_cell_field_length \<leftarrow> rd8 m (pos + 2);
       let nxt = pos + elementary_cell_field_length + 4;
       cell_linkage_info \<leftarrow> rd8 m r;
       nxt \<leftarrow> (if cell_linkage_info = 1 then
         do {
           let nxt = nxt + 2;
           Some nxt }
       else do {
         nxt \<leftarrow> (if cell_linkage_info = 2 then
           do {
             let nxt = nxt + 6;
             Some nxt }
         else do {
           nxt \<leftarrow> (if cell_linkage_info = 3 then
             do {
               let nxt = nxt + 6;
               Some nxt }
           else do {
             let nxt = (if cell_linkage_info = 4 then nxt + 8
             else nxt);
             Some nxt });
           Some nxt });
         Some nxt });
       if nxt \<ge> stop then Some None
       else Some (Some nxt) }"

definition dvb_mosaic_info_fields_first :: "mem \<Rightarrow> nat \<Rightarrow> nat option option" where
  "dvb_mosaic_info_fields_first m d =
     do {
       elementary_cell_field_length \<leftarrow> rd8 m (d + 2);
       if elementary_cell_field_length = 0 then Some None
       else Some (Some (d + 3)) }"

definition dvb_mosaic_info_fields_next :: "mem \<Rightarrow> nat \<Rightarrow> nat \<Rightarrow> nat option option" where
  "dvb_mosaic_info_fields_next m d pos =
     do {
       elementary_cell_field_length \<leftarrow> rd8 m (d + 2);
       let stop = d + elementary_cell_field_length + 3;
       if pos + 1 \<ge> stop then Some None
       else Some (Some (pos + 1)) }"

section \<open>\<open>dvb/multilingual_bouquet_name_descriptor.h\<close>\<close>

definition dvb_multilingual_bouquet_name_layout :: layout where
  "dvb_multilingual_bouquet_name_layout =
    [(''language_code'', Bytes 0 3), (''bouquet_name_length'', Value 3 1 0 8)]"

definition dvb_multilingual_bouquet_name_descriptor_codec :: "byte_order \<Rightarrow> mem \<Rightarrow> nat \<Rightarrow> (mem \<times> bool) option" where
  "dvb_multilingual_bouquet_name_descriptor_codec e m d =
     do {
       len \<leftarrow> rd8 m (d + 1);
       ((m, pos), ok) \<leftarrow> while_do
         (\<lambda>(m, pos). Some (pos < len))
         (\<lambda>(m, pos).
           do {
             let ent = d + pos + 2;
             let pos = pos + 4;
             if pos > len then Some ((m, pos), False)
             else do {
               bouquet_name_length \<leftarrow> rd8 m (ent + 3);
               let pos = pos + bouquet_name_length;
               if pos > len then Some ((m, pos), False)
               else Some ((m, pos), True) } })
         (m, 0);
       if \<not> ok then Some (m, False)
       else Some (m, True) }"

definition dvb_multilingual_bouquet_name_name :: "nat \<Rightarrow> nat" where
  "dvb_multilingual_bouquet_name_name ent = ent + 4"

definition dvb_multilingual_bouquet_name_descriptor_names_first :: "mem \<Rightarrow> nat \<Rightarrow> nat option option" where
  "dvb_multilingual_bouquet_name_descriptor_names_first m d =
     do {
       len \<leftarrow> rd8 m (d + 1);
       if len = 0 then Some None
       else Some (Some (d + 2)) }"

definition dvb_multilingual_bouquet_name_descriptor_names_next :: "mem \<Rightarrow> nat \<Rightarrow> nat \<Rightarrow> nat option option" where
  "dvb_multilingual_bouquet_name_descriptor_names_next m d pos =
     do {
       len \<leftarrow> rd8 m (d + 1);
       let stop = d + len + 2;
       bouquet_name_length \<leftarrow> rd8 m (pos + 3);
       let nxt = pos + bouquet_name_length + 4;
       if nxt \<ge> stop then Some None
       else Some (Some nxt) }"

section \<open>\<open>dvb/multilingual_component_descriptor.h\<close>\<close>

definition dvb_multilingual_component_descriptor_layout :: layout where
  "dvb_multilingual_component_descriptor_layout =
    [(''component_tag'', Value 2 1 0 8)]"

definition dvb_multilingual_component_layout :: layout where
  "dvb_multilingual_component_layout =
    [(''language_code'', Bytes 0 3), (''text_description_length'', Value 3 1 0 8)]"

definition dvb_multilingual_component_descriptor_codec :: "byte_order \<Rightarrow> mem \<Rightarrow> nat \<Rightarrow> (mem \<times> bool) option" where
  "dvb_multilingual_component_descriptor_codec e m d =
     do {
       len \<leftarrow> rd8 m (d + 1);
       if 1 > len then Some (m, False)
       else do {
         ((m, pos), ok) \<leftarrow> while_do
           (\<lambda>(m, pos). Some (pos < len))
           (\<lambda>(m, pos).
             do {
               let ent = d + pos + 2;
               let pos = pos + 4;
               if pos > len then Some ((m, pos), False)
               else do {
                 text_description_length \<leftarrow> rd8 m (ent + 3);
                 let pos = pos + text_description_length;
                 if pos > len then Some ((m, pos), False)
                 else Some ((m, pos), True) } })
           (m, 1);
         if \<not> ok then Some (m, False)
         else Some (m, True) } }"

definition dvb_multilingual_component_text_char :: "nat \<Rightarrow> nat" where
  "dvb_multilingual_component_text_char ent = ent + 4"

definition dvb_multilingual_component_descriptor_components_first :: "mem \<Rightarrow> nat \<Rightarrow> nat option option" where
  "dvb_multilingual_component_descriptor_components_first m d =
     do {
       len \<leftarrow> rd8 m (d + 1);
       if len = 1 then Some None
       else Some (Some (d + 3)) }"

definition dvb_multilingual_component_descriptor_components_next :: "mem \<Rightarrow> nat \<Rightarrow> nat \<Rightarrow> nat option option" where
  "dvb_multilingual_component_descriptor_components_next m d pos =
     do {
       len \<leftarrow> rd8 m (d + 1);
       let stop = d + len + 2;
       text_description_length \<leftarrow> rd8 m (pos + 3);
       let nxt = pos + text_description_length + 4;
       if nxt \<ge> stop then Some None
       else Some (Some nxt) }"

section \<open>\<open>dvb/multilingual_network_name_descriptor.h\<close>\<close>

definition dvb_multilingual_network_name_layout :: layout where
  "dvb_multilingual_network_name_layout =
    [(''language_code'', Bytes 0 3), (''network_name_length'', Value 3 1 0 8)]"

definition dvb_multilingual_network_name_descriptor_codec :: "byte_order \<Rightarrow> mem \<Rightarrow> nat \<Rightarrow> (mem \<times> bool) option" where
  "dvb_multilingual_network_name_descriptor_codec e m d =
     do {
       len \<leftarrow> rd8 m (d + 1);
       ((m, pos), ok) \<leftarrow> while_do
         (\<lambda>(m, pos). Some (pos < len))
         (\<lambda>(m, pos).
           do {
             let ent = d + pos + 2;
             let pos = pos + 4;
             if pos > len then Some ((m, pos), False)
             else do {
               network_name_length \<leftarrow> rd8 m (ent + 3);
               let pos = pos + network_name_length;
               if pos > len then Some ((m, pos), False)
               else Some ((m, pos), True) } })
         (m, 0);
       if \<not> ok then Some (m, False)
       else Some (m, True) }"

definition dvb_multilingual_network_name_name :: "nat \<Rightarrow> nat" where
  "dvb_multilingual_network_name_name ent = ent + 4"

definition dvb_multilingual_network_name_descriptor_names_first :: "mem \<Rightarrow> nat \<Rightarrow> nat option option" where
  "dvb_multilingual_network_name_descriptor_names_first m d =
     do {
       len \<leftarrow> rd8 m (d + 1);
       if len = 0 then Some None
       else Some (Some (d + 2)) }"

definition dvb_multilingual_network_name_descriptor_names_next :: "mem \<Rightarrow> nat \<Rightarrow> nat \<Rightarrow> nat option option" where
  "dvb_multilingual_network_name_descriptor_names_next m d pos =
     do {
       len \<leftarrow> rd8 m (d + 1);
       let stop = d + len + 2;
       network_name_length \<leftarrow> rd8 m (pos + 3);
       let nxt = pos + network_name_length + 4;
       if nxt \<ge> stop then Some None
       else Some (Some nxt) }"

section \<open>\<open>dvb/multilingual_service_name_descriptor.h\<close>\<close>

definition dvb_multilingual_service_name_layout :: layout where
  "dvb_multilingual_service_name_layout =
    [(''language_code'', Bytes 0 3), (''service_provider_name_length'', Value 3 1 0 8)]"

definition dvb_multilingual_service_name_part2_layout :: layout where
  "dvb_multilingual_service_name_part2_layout =
    [(''service_name_length'', Value 0 1 0 8)]"

definition dvb_multilingual_service_name_descriptor_codec :: "byte_order \<Rightarrow> mem \<Rightarrow> nat \<Rightarrow> (mem \<times> bool) option" where
  "dvb_multilingual_service_name_descriptor_codec e m d =
     do {
       len \<leftarrow> rd8 m (d + 1);
       ((m, pos), ok) \<leftarrow> while_do
         (\<lambda>(m, pos). Some (pos < len))
         (\<lambda>(m, pos).
           do {
             let ent = d + pos + 2;
             let pos = pos + 4;
             if pos > len then Some ((m, pos), False)
             else do {
               service_provider_name_length \<leftarrow> rd8 m (ent + 3);
               let pos = pos + service_provider_name_length;
               if pos > len then Some ((m, pos), False)
               else do {
                 let e2 = d + pos + 2;
                 let pos = pos + 1;
                 if pos > len then Some ((m, pos), False)
                 else do {
                   service_name_length \<leftarrow> rd8 m e2;
                   let pos = pos + service_name_length;
                   if pos > len then Some ((m, pos), False)
                   else Some ((m, pos), True) } } } })
         (m, 0);
       if \<not> ok then Some (m, False)
       else Some (m, True) }"

definition dvb_multilingual_service_name_service_provider_name :: "nat \<Rightarrow> nat" where
  "dvb_multilingual_service_name_service_provider_name ent = ent + 4"

definition dvb_multilingual_service_name_part2 :: "mem \<Rightarrow> nat \<Rightarrow> nat option" where
  "dvb_multilingual_service_name_part2 m ent =
     do {
       service_provider_name_length \<leftarrow> rd8 m (ent + 3);
       Some (ent + service_provider_name_length + 4) }"

definition dvb_multilingual_service_name_service_name :: "nat \<Rightarrow> nat" where
  "dvb_multilingual_service_name_service_name ent = ent + 1"

definition dvb_multilingual_service_name_descriptor_names_first :: "mem \<Rightarrow> nat \<Rightarrow> nat option option" where
  "dvb_multilingual_service_name_descriptor_names_first m d =
     do {
       len \<leftarrow> rd8 m (d + 1);
       if len = 0 then Some None
       else Some (Some (d + 2)) }"

definition dvb_multilingual_service_name_descriptor_names_next :: "mem \<Rightarrow> nat \<Rightarrow> nat \<Rightarrow> nat option option" where
  "dvb_multilingual_service_name_descriptor_names_next m d pos =
     do {
       r \<leftarrow> dvb_multilingual_service_name_part2 m pos;
       len \<leftarrow> rd8 m (d + 1);
       let stop = d + len + 2;
       service_name_length \<leftarrow> rd8 m r;
       let nxt = r + service_name_length + 1;
       if nxt \<ge> stop then Some None
       else Some (Some nxt) }"

section \<open>\<open>dvb/network_name_descriptor.h\<close>\<close>

definition dvb_network_name_descriptor_codec :: "byte_order \<Rightarrow> mem \<Rightarrow> nat \<Rightarrow> (mem \<times> bool) option" where
  "dvb_network_name_descriptor_codec e m d = Some (m, True)"

definition dvb_network_name_descriptor_name :: "nat \<Rightarrow> nat" where
  "dvb_network_name_descriptor_name d = d + 2"

definition dvb_network_name_descriptor_name_length :: "mem \<Rightarrow> nat \<Rightarrow> nat option" where
  "dvb_network_name_descriptor_name_length m d =
     do {
       len \<leftarrow> rd8 m (d + 1);
       Some len }"

section \<open>\<open>dvb/nvod_reference_descriptor.h\<close>\<close>

definition dvb_nvod_reference_layout :: layout where
  "dvb_nvod_reference_layout =
    [(''transport_stream_id'', Value 0 2 0 16), (''original_network_id'', Value 2 2 0 16), (''service_id'', Value 4 2 0 16)]"

definition dvb_nvod_reference_descriptor_codec :: "byte_order \<Rightarrow> mem \<Rightarrow> nat \<Rightarrow> (mem \<times> bool) option" where
  "dvb_nvod_reference_descriptor_codec e m d =
     do {
       len \<leftarrow> rd8 m (d + 1);
       if len mod 6 \<noteq> 0 then Some (m, False)
       else do {
         ((m, pos), ok) \<leftarrow> while_do
           (\<lambda>(m, pos). Some (pos < len))
           (\<lambda>(m, pos).
             do {
               m \<leftarrow> bswap16 e m (d + pos + 2);
               m \<leftarrow> bswap16 e m (d + pos + 4);
               m \<leftarrow> bswap16 e m (d + pos + 6);
               let pos = pos + 6;
               Some ((m, pos), True) })
           (m, 0);
         if \<not> ok then Some (m, False)
         else Some (m, True) } }"

definition dvb_nvod_reference_descriptor_references_first :: "mem \<Rightarrow> nat \<Rightarrow> nat option option" where
  "dvb_nvod_reference_descriptor_references_first m d =
     do {
       len \<leftarrow> rd8 m (d + 1);
       if len = 0 then Some None
       else Some (Some (d + 2)) }"

definition dvb_nvod_reference_descriptor_references_next :: "mem \<Rightarrow> nat \<Rightarrow> nat \<Rightarrow> nat option option" where
  "dvb_nvod_reference_descriptor_references_next m d pos =
     do {
       len \<leftarrow> rd8 m (d + 1);
       let stop = d + len + 2;
       if pos + 6 \<ge> stop then Some None
       else Some (Some (pos + 6)) }"

section \<open>\<open>dvb/parental_rating_descriptor.h\<close>\<close>

definition dvb_parental_rating_layout :: layout where
  "dvb_parental_rating_layout =
    [(''country_code'', Bytes 0 3), (''rating'', Value 3 1 0 8)]"

definition dvb_parental_rating_descriptor_codec :: "byte_order \<Rightarrow> mem \<Rightarrow> nat \<Rightarrow> (mem \<times> bool) option" where
  "dvb_parental_rating_descriptor_codec e m d =
     do {
       len \<leftarrow> rd8 m (d + 1);
       if len mod 4 \<noteq> 0 then Some (m, False)
       else Some (m, True) }"

definition dvb_parental_rating_descriptor_ratings_first :: "mem \<Rightarrow> nat \<Rightarrow> nat option option" where
  "dvb_parental_rating_descriptor_ratings_first m d =
     do {
       len \<leftarrow> rd8 m (d + 1);
       if len = 0 then Some None
       else Some (Some (d + 2)) }"

definition dvb_parental_rating_descriptor_ratings_next :: "mem \<Rightarrow> nat \<Rightarrow> nat \<Rightarrow> nat option option" where
  "dvb_parental_rating_descriptor_ratings_next m d pos =
     do {
       len \<leftarrow> rd8 m (d + 1);
       let stop = d + len + 2;
       if pos + 4 \<ge> stop then Some None
       else Some (Some (pos + 4)) }"

section \<open>\<open>dvb/partial_transport_stream_descriptor.h\<close>\<close>

definition dvb_partial_transport_stream_descriptor_layout :: layout where
  "dvb_partial_transport_stream_descriptor_layout =
    [(''reserved'', Value 2 8 62 2), (''peak_rate'', Value 2 8 40 22), (''reserved_2'', Value 2 8 38 2),
     (''minimum_overall_smoothing_rate'', Value 2 8 16 22), (''reserved_3'', Value 2 8 14 2),
     (''maximum_overall_smoothing_rate'', Value 2 8 0 14)]"

definition dvb_partial_transport_stream_descriptor_codec :: "byte_order \<Rightarrow> mem \<Rightarrow> nat \<Rightarrow> (mem \<times> bool) option" where
  "dvb_partial_transport_stream_descriptor_codec e m d =
     do {
       len \<leftarrow> rd8 m (d + 1);
       if len \<noteq> 8 then Some (m, False)
       else do {
         m \<leftarrow> bswap64 e m (d + 2);
         Some (m, True) } }"

section \<open>\<open>dvb/pdc_descriptor.h\<close>\<close>

definition dvb_pdc_descriptor_layout :: layout where
  "dvb_pdc_descriptor_layout =
    [(''reserved'', Value 2 3 20 4), (''programme_id_label'', Value 2 3 0 20)]"

definition dvb_pdc_descriptor_codec :: "byte_order \<Rightarrow> mem \<Rightarrow> nat \<Rightarrow> (mem \<times> bool) option" where
  "dvb_pdc_descriptor_codec e m d =
     do {
       len \<leftarrow> rd8 m (d + 1);
       if len \<noteq> 3 then Some (m, False)
       else do {
         m \<leftarrow> bswap24 e m (d + 2);
         Some (m, True) } }"

section \<open>\<open>dvb/private_data_specifier_descriptor.h\<close>\<close>

definition dvb_private_data_specifier_descriptor_layout :: layout where
  "dvb_private_data_specifier_descriptor_layout =
    [(''private_data_specifier'', Value 2 4 0 32)]"

definition dvb_private_data_specifier_descriptor_codec :: "byte_order \<Rightarrow> mem \<Rightarrow> nat \<Rightarrow> (mem \<times> bool) option" where
  "dvb_private_data_specifier_descriptor_codec e m d =
     do {
       len \<leftarrow> rd8 m (d + 1);
       if len \<noteq> 4 then Some (m, False)
       else do {
         m \<leftarrow> bswap32 e m (d + 2);
         Some (m, True) } }"

section \<open>\<open>dvb/related_content_descriptor.h\<close>\<close>

definition dvb_related_content_descriptor_codec :: "byte_order \<Rightarrow> mem \<Rightarrow> nat \<Rightarrow> (mem \<times> bool) option" where
  "dvb_related_content_descriptor_codec e m d = Some (m, True)"

section \<open>\<open>dvb/rnt_rar_over_dvb_stream_descriptor.h\<close>\<close>

definition dvb_rnt_rar_over_dvb_stream_descriptor_layout :: layout where
  "dvb_rnt_rar_over_dvb_stream_descriptor_layout =
    [(''first_valid_date'', Bytes 2 5), (''last_valid_date'', Bytes 7 5), (''weighting'', Value 12 1 2 6),
     (''complete_flag'', Value 12 1 1 1), (''scheduled_flag'', Value 12 1 0 1), (''transport_stream_id'', Value 13 2 0 16),
     (''original_network_id'', Value 15 2 0 16), (''service_id'', Value 17 2 0 16), (''component_tag'', Value 19 1 0 8)]"

definition dvb_rnt_rar_over_dvb_stream_descriptor_scheduled_info_layout :: layout where
  "dvb_rnt_rar_over_dvb_stream_descriptor_scheduled_info_layout =
    [(''download_start_time'', Bytes 0 5), (''download_period_duration'', Value 5 1 0 8),
     (''download_cycle_time'', Value 6 1 0 8)]"

definition dvb_rnt_rar_over_dvb_stream_descriptor_codec :: "byte_order \<Rightarrow> mem \<Rightarrow> nat \<Rightarrow> (mem \<times> bool) option" where
  "dvb_rnt_rar_over_dvb_stream_descriptor_codec e m d =
     do {
       len' \<leftarrow> rd8 m (d + 1);
       let len = len' + 2;
       if len < 20 then Some (m, False)
       else do {
         m \<leftarrow> bswap16 e m (d + 13);
         m \<leftarrow> bswap16 e m (d + 15);
         m \<leftarrow> bswap16 e m (d + 17);
         scheduled_flag \<leftarrow> fld e 1 0 1 m (d + 12);
         (m, ok) \<leftarrow> (if scheduled_flag = 1 then
           if len < 27 then Some (m, False)
           else Some (m, True)
         else Some (m, True));
         if \<not> ok then Some (m, False)
         else Some (m, True) } }"

definition dvb_rnt_rar_over_dvb_stream_descriptor_scheduled_info :: "byte_order \<Rightarrow> mem \<Rightarrow> nat \<Rightarrow> nat option option" where
  "dvb_rnt_rar_over_dvb_stream_descriptor_scheduled_info e m d =
     do {
       scheduled_flag \<leftarrow> fld e 1 0 1 m (d + 12);
       if scheduled_flag \<noteq> 1 then Some None
       else Some (Some (d + 20)) }"

section \<open>\<open>dvb/rnt_rar_over_ip_descriptor.h\<close>\<close>

definition dvb_rnt_rar_over_ip_descriptor_layout :: layout where
  "dvb_rnt_rar_over_ip_descriptor_layout =
    [(''first_valid_date'', Bytes 2 5), (''last_valid_date'', Bytes 7 5), (''weighting'', Value 12 1 2 6),
     (''complete_flag'', Value 12 1 1 1), (''reserved'', Value 12 1 0 1), (''url_length'', Value 13 1 0 8)]"

definition dvb_rnt_rar_over_ip_descriptor_codec :: "byte_order \<Rightarrow> mem \<Rightarrow> nat \<Rightarrow> (mem \<times> bool) option" where
  "dvb_rnt_rar_over_ip_descriptor_codec e m d =
     do {
       len' \<leftarrow> rd8 m (d + 1);
       let len = len' + 2;
       if len < 14 then Some (m, False)
       else do {
         byte \<leftarrow> rd8 m (d + 13);
         if len < byte + 14 then Some (m, False)
         else Some (m, True) } }"

definition dvb_rnt_rar_over_ip_descriptor_url :: "nat \<Rightarrow> nat" where
  "dvb_rnt_rar_over_ip_descriptor_url d = d + 14"

section \<open>\<open>dvb/rnt_rnt_scan_descriptor.h\<close>\<close>

definition dvb_rnt_rnt_scan_entry_layout :: layout where
  "dvb_rnt_rnt_scan_entry_layout =
    [(''transport_stream_id'', Value 0 2 0 16), (''original_network_id'', Value 2 2 0 16),
     (''scan_weighting'', Value 4 1 0 8)]"

definition dvb_rnt_rnt_scan_descriptor_codec :: "byte_order \<Rightarrow> mem \<Rightarrow> nat \<Rightarrow> (mem \<times> bool) option" where
  "dvb_rnt_rnt_scan_descriptor_codec e m d =
     do {
       len' \<leftarrow> rd8 m (d + 1);
       let len = len' + 2;
       if (sub32 len 2) mod 5 \<noteq> 0 then Some (m, False)
       else do {
         ((m, pos), ok) \<leftarrow> while_do
           (\<lambda>(m, pos). Some (pos < len))
           (\<lambda>(m, pos).
             do {
               m \<leftarrow> bswap16 e m (d + pos);
               m \<leftarrow> bswap16 e m (d + pos + 2);
               let pos = pos + 5;
               Some ((m, pos), True) })
           (m, 2);
         if \<not> ok then Some (m, False)
         else Some (m, True) } }"

definition dvb_rnt_rnt_scan_descriptor_entries_first :: "mem \<Rightarrow> nat \<Rightarrow> nat option option" where
  "dvb_rnt_rnt_scan_descriptor_entries_first m d =
     do {
       len \<leftarrow> rd8 m (d + 1);
       if len = 0 then Some None
       else Some (Some (d + 2)) }"

definition dvb_rnt_rnt_scan_descriptor_entries_next :: "mem \<Rightarrow> nat \<Rightarrow> nat \<Rightarrow> nat option option" where
  "dvb_rnt_rnt_scan_descriptor_entries_next m d pos =
     do {
       len \<leftarrow> rd8 m (d + 1);
       let stop = d + len + 2;
       if pos + 5 \<ge> stop then Some None
       else Some (Some (pos + 5)) }"

section \<open>\<open>dvb/s2_satellite_delivery_descriptor.h\<close>\<close>

definition dvb_s2_satellite_delivery_descriptor_layout :: layout where
  "dvb_s2_satellite_delivery_descriptor_layout =
    [(''scrambling_sequence_selector'', Value 2 1 7 1), (''multiple_input_stream'', Value 2 1 6 1),
     (''backwards_compatability'', Value 2 1 5 1), (''reserved'', Value 2 1 0 5)]"

definition dvb_s2_satellite_delivery_descriptor_codec :: "byte_order \<Rightarrow> mem \<Rightarrow> nat \<Rightarrow> (mem \<times> bool) option" where
  "dvb_s2_satellite_delivery_descriptor_codec e m d =
     do {
       len' \<leftarrow> rd8 m (d + 1);
       if len' < 1 then Some (m, False)
       else do {
         scrambling_sequence_selector \<leftarrow> fld e 1 7 1 m (d + 2);
         let len = (if scrambling_sequence_selector \<noteq> 0 then 6
         else 3);
         multiple_input_stream \<leftarrow> fld e 1 6 1 m (d + 2);
         let len = (if multiple_input_stream \<noteq> 0 then len + 1
         else len);
         if len' < len then Some (m, False)
         else Some (m, True) } }"

definition dvb_s2_satellite_delivery_descriptor_scrambling_sequence_index :: "byte_order \<Rightarrow> mem \<Rightarrow> nat \<Rightarrow> nat option" where
  "dvb_s2_satellite_delivery_descriptor_scrambling_sequence_index e m s2 =
     do {
       scrambling_sequence_selector \<leftarrow> fld e 1 7 1 m (s2 + 2);
       if scrambling_sequence_selector \<noteq> 0 then
         do {
           tmp4 \<leftarrow> rd8 m (s2 + 4);
           tmp5 \<leftarrow> rd8 m (s2 + 5);
           tmp6 \<leftarrow> rd8 m (s2 + 6);
           Some ((tmp4 mod 4) * 65536 + tmp5 * 256 + tmp6) }
       else Some 0 }"

definition dvb_s2_satellite_delivery_descriptor_input_stream_id :: "byte_order \<Rightarrow> mem \<Rightarrow> nat \<Rightarrow> nat option" where
  "dvb_s2_satellite_delivery_descriptor_input_stream_id e m s2 =
     do {
       multiple_input_stream \<leftarrow> fld e 1 6 1 m (s2 + 2);
       if \<not> (multiple_input_stream \<noteq> 0) then Some 0
       else do {
         scrambling_sequence_selector \<leftarrow> fld e 1 7 1 m (s2 + 2);
         let off = (if scrambling_sequence_selector \<noteq> 0 then 6
         else 3);
         do {
           byte \<leftarrow> rd8 m (s2 + off);
           Some byte } } }"

section \<open>\<open>dvb/satellite_delivery_descriptor.h\<close>\<close>

definition dvb_satellite_delivery_descriptor_layout :: layout where
  "dvb_satellite_delivery_descriptor_layout =
    [(''frequency'', Value 2 4 0 32), (''orbital_position'', Value 6 2 0 16), (''west_east_flag'', Value 8 1 7 1),
     (''polarization'', Value 8 1 5 2), (''roll_off'', Value 8 1 3 2), (''modulation_system'', Value 8 1 2 1),
     (''modulation_type'', Value 8 1 0 2), (''symbol_rate'', Value 9 4 4 28), (''fec_inner'', Value 9 4 0 4)]"

definition dvb_satellite_delivery_descriptor_codec :: "byte_order \<Rightarrow> mem \<Rightarrow> nat \<Rightarrow> (mem \<times> bool) option" where
  "dvb_satellite_delivery_descriptor_codec e m d =
     do {
       len \<leftarrow> rd8 m (d + 1);
       if len < 11 then Some (m, False)
       else do {
         m \<leftarrow> bswap32 e m (d + 2);
         m \<leftarrow> bswap16 e m (d + 6);
         m \<leftarrow> bswap32 e m (d + 9);
         Some (m, True) } }"

section \<open>\<open>dvb/scrambling_descriptor.h\<close>\<close>

definition dvb_scrambling_descriptor_layout :: layout where
  "dvb_scrambling_descriptor_layout =
    [(''scrambling_mode'', Value 2 1 0 8)]"

definition dvb_scrambling_descriptor_codec :: "byte_order \<Rightarrow> mem \<Rightarrow> nat \<Rightarrow> (mem \<times> bool) option" where
  "dvb_scrambling_descriptor_codec e m d =
     do {
       len \<leftarrow> rd8 m (d + 1);
       if len \<noteq> 1 then Some (m, False)
       else Some (m, True) }"

section \<open>\<open>dvb/service_availability_descriptor.h\<close>\<close>

definition dvb_service_availability_descriptor_layout :: layout where
  "dvb_service_availability_descriptor_layout =
    [(''availability_flag'', Value 2 1 7 1), (''reserved'', Value 2 1 0 7)]"

definition dvb_service_availability_descriptor_codec :: "byte_order \<Rightarrow> mem \<Rightarrow> nat \<Rightarrow> (mem \<times> bool) option" where
  "dvb_service_availability_descriptor_codec e m d =
     do {
       len \<leftarrow> rd8 m (d + 1);
       if (sub32 len 1) mod 2 \<noteq> 0 then Some (m, False)
       else do {
         ((m, pos), ok) \<leftarrow> while_do
           (\<lambda>(m, pos). Some (pos < len))
           (\<lambda>(m, pos).
             do {
               m \<leftarrow> bswap16 e m (d + pos + 2);
               let pos = pos + 2;
               Some ((m, pos), True) })
           (m, 1);
         if \<not> ok then Some (m, False)
         else Some (m, True) } }"

definition dvb_service_availability_descriptor_cell_ids :: "nat \<Rightarrow> nat" where
  "dvb_service_availability_descriptor_cell_ids d = d + 3"

definition dvb_service_availability_descriptor_cell_ids_count :: "mem \<Rightarrow> nat \<Rightarrow> int option" where
  "dvb_service_availability_descriptor_cell_ids_count m d =
     do {
       len \<leftarrow> rd8 m (d + 1);
       Some ((int len - 1) div 2) }"

section \<open>\<open>dvb/service_descriptor.h\<close>\<close>

definition dvb_service_descriptor_layout :: layout where
  "dvb_service_descriptor_layout =
    [(''service_type'', Value 2 1 0 8), (''service_provider_name_length'', Value 3 1 0 8)]"

definition dvb_service_descriptor_part2_layout :: layout where
  "dvb_service_descriptor_part2_layout =
    [(''service_name_length'', Value 0 1 0 8)]"

definition dvb_service_descriptor_codec :: "byte_order \<Rightarrow> mem \<Rightarrow> nat \<Rightarrow> (mem \<times> bool) option" where
  "dvb_service_descriptor_codec e m d =
     do {
       len \<leftarrow> rd8 m (d + 1);
       if 2 > len then Some (m, False)
       else do {
         service_provider_name_length \<leftarrow> rd8 m (d + 3);
         let pos = service_provider_name_length + 2;
         if pos > len then Some (m, False)
         else do {
           let p2 = d + pos + 2;
           let pos = pos + 1;
           if pos > len then Some (m, False)
           else do {
             service_name_length \<leftarrow> rd8 m p2;
             let pos = pos + service_name_length;
             if pos \<noteq> len then Some (m, False)
             else Some (m, True) } } } }"

definition dvb_service_descriptor_service_provider_name :: "nat \<Rightarrow> nat" where
  "dvb_service_descriptor_service_provider_name d = d + 4"

definition dvb_service_descriptor_part2 :: "mem \<Rightarrow> nat \<Rightarrow> nat option" where
  "dvb_service_descriptor_part2 m d =
     do {
       service_provider_name_length \<leftarrow> rd8 m (d + 3);
       Some (d + service_provider_name_length + 4) }"

definition dvb_service_descriptor_service_name :: "nat \<Rightarrow> nat" where
  "dvb_service_descriptor_service_name d = d + 1"

section \<open>\<open>dvb/service_identifier_descriptor.h\<close>\<close>

definition dvb_service_identifier_descriptor_codec :: "byte_order \<Rightarrow> mem \<Rightarrow> nat \<Rightarrow> (mem \<times> bool) option" where
  "dvb_service_identifier_descriptor_codec e m d = Some (m, True)"

definition dvb_service_identifier_descriptor_identifier :: "nat \<Rightarrow> nat" where
  "dvb_service_identifier_descriptor_identifier d = d + 2"

definition dvb_service_identifier_descriptor_identifier_length :: "mem \<Rightarrow> nat \<Rightarrow> nat option" where
  "dvb_service_identifier_descriptor_identifier_length m d =
     do {
       len \<leftarrow> rd8 m (d + 1);
       Some len }"

section \<open>\<open>dvb/service_list_descriptor.h\<close>\<close>

definition dvb_service_list_service_layout :: layout where
  "dvb_service_list_service_layout =
    [(''service_id'', Value 0 2 0 16), (''service_type'', Value 2 1 0 8)]"

definition dvb_service_list_descriptor_codec :: "byte_order \<Rightarrow> mem \<Rightarrow> nat \<Rightarrow> (mem \<times> bool) option" where
  "dvb_service_list_descriptor_codec e m d =
     do {
       len \<leftarrow> rd8 m (d + 1);
       if len mod 3 \<noteq> 0 then Some (m, False)
       else do {
         ((m, pos), ok) \<leftarrow> while_do
           (\<lambda>(m, pos). Some (pos < len))
           (\<lambda>(m, pos).
             do {
               m \<leftarrow> bswap16 e m (d + pos + 2);
               let pos = pos + 3;
               Some ((m, pos), True) })
           (m, 0);
         if \<not> ok then Some (m, False)
         else Some (m, True) } }"

definition dvb_service_list_descriptor_services_first :: "mem \<Rightarrow> nat \<Rightarrow> nat option option" where
  "dvb_service_list_descriptor_services_first m d =
     do {
       len \<leftarrow> rd8 m (d + 1);
       if len = 0 then Some None
       else Some (Some (d + 2)) }"

definition dvb_service_list_descriptor_services_next :: "mem \<Rightarrow> nat \<Rightarrow> nat \<Rightarrow> nat option option" where
  "dvb_service_list_descriptor_services_next m d pos =
     do {
       len \<leftarrow> rd8 m (d + 1);
       let stop = d + len + 2;
       if pos + 3 \<ge> stop then Some None
       else Some (Some (pos + 3)) }"

section \<open>\<open>dvb/service_move_descriptor.h\<close>\<close>

definition dvb_service_move_descriptor_layout :: layout where
  "dvb_service_move_descriptor_layout =
    [(''new_original_network_id'', Value 2 2 0 16), (''new_transport_stream_id'', Value 4 2 0 16),
     (''new_service_id'', Value 6 2 0 16)]"

definition dvb_service_move_descriptor_codec :: "byte_order \<Rightarrow> mem \<Rightarrow> nat \<Rightarrow> (mem \<times> bool) option" where
  "dvb_service_move_descriptor_codec e m d =
     do {
       len \<leftarrow> rd8 m (d + 1);
       if len \<noteq> 6 then Some (m, False)
       else do {
         m \<leftarrow> bswap16 e m (d + 2);
         m \<leftarrow> bswap16 e m (d + 4);
         m \<leftarrow> bswap16 e m (d + 6);
         Some (m, True) } }"

section \<open>\<open>dvb/short_event_descriptor.h\<close>\<close>

definition dvb_short_event_descriptor_layout :: layout where
  "dvb_short_event_descriptor_layout =
    [(''language_code'', Bytes 2 3), (''event_name_length'', Value 5 1 0 8)]"

definition dvb_short_event_descriptor_part2_layout :: layout where
  "dvb_short_event_descriptor_part2_layout =
    [(''text_length'', Value 0 1 0 8)]"

definition dvb_short_event_descriptor_codec :: "byte_order \<Rightarrow> mem \<Rightarrow> nat \<Rightarrow> (mem \<times> bool) option" where
  "dvb_short_event_descriptor_codec e m d =
     do {
       len \<leftarrow> rd8 m (d + 1);
       if 4 > len then Some (m, False)
       else do {
         event_name_length \<leftarrow> rd8 m (d + 5);
         let pos = event_name_length + 4;
         if pos > len then Some (m, False)
         else do {
           let p2 = d + pos + 2;
           let pos = pos + 1;
           if pos > len then Some (m, False)
           else do {
             text_length \<leftarrow> rd8 m p2;
             let pos = pos + text_length;
             if pos \<noteq> len then Some (m, False)
             else Some (m, True) } } } }"

definition dvb_short_event_descriptor_event_name :: "nat \<Rightarrow> nat" where
  "dvb_short_event_descriptor_event_name d = d + 6"

definition dvb_short_event_descriptor_part2 :: "mem \<Rightarrow> nat \<Rightarrow> nat option" where
  "dvb_short_event_descriptor_part2 m d =
     do {
       event_name_length \<leftarrow> rd8 m (d + 5);
       Some (d + event_name_length + 6) }"

definition dvb_short_event_descriptor_text :: "nat \<Rightarrow> nat" where
  "dvb_short_event_descriptor_text d = d + 1"

section \<open>\<open>dvb/short_smoothing_buffer_descriptor.h\<close>\<close>

definition dvb_short_smoothing_buffer_descriptor_layout :: layout where
  "dvb_short_smoothing_buffer_descriptor_layout =
    [(''sb_size'', Value 2 1 6 2), (''sb_leak_rate'', Value 2 1 0 6)]"

definition dvb_short_smoothing_buffer_descriptor_codec :: "byte_order \<Rightarrow> mem \<Rightarrow> nat \<Rightarrow> (mem \<times> bool) option" where
  "dvb_short_smoothing_buffer_descriptor_codec e m d =
     do {
       len \<leftarrow> rd8 m (d + 1);
       if len < 1 then Some (m, False)
       else Some (m, True) }"

definition dvb_short_smoothing_buffer_descriptor_reserved :: "nat \<Rightarrow> nat" where
  "dvb_short_smoothing_buffer_descriptor_reserved d = d + 3"

definition dvb_short_smoothing_buffer_descriptor_reserved_length :: "mem \<Rightarrow> nat \<Rightarrow> int option" where
  "dvb_short_smoothing_buffer_descriptor_reserved_length m d =
     do {
       len \<leftarrow> rd8 m (d + 1);
       Some (int len - 1) }"

section \<open>\<open>dvb/stream_identifier_descriptor.h\<close>\<close>

definition dvb_stream_identifier_descriptor_layout :: layout where
  "dvb_stream_identifier_descriptor_layout =
    [(''component_tag'', Value 2 1 0 8)]"

definition dvb_stream_identifier_descriptor_codec :: "byte_order \<Rightarrow> mem \<Rightarrow> nat \<Rightarrow> (mem \<times> bool) option" where
  "dvb_stream_identifier_descriptor_codec e m d =
     do {
       len \<leftarrow> rd8 m (d + 1);
       if len \<noteq> 1 then Some (m, False)
       else Some (m, True) }"

section \<open>\<open>dvb/stuffing_descriptor.h\<close>\<close>

definition dvb_stuffing_descriptor_codec :: "byte_order \<Rightarrow> mem \<Rightarrow> nat \<Rightarrow> (mem \<times> bool) option" where
  "dvb_stuffing_descriptor_codec e m d = Some (m, True)"

definition dvb_stuffing_descriptor_data :: "nat \<Rightarrow> nat" where
  "dvb_stuffing_descriptor_data d = d + 2"

definition dvb_stuffing_descriptor_data_length :: "mem \<Rightarrow> nat \<Rightarrow> nat option" where
  "dvb_stuffing_descriptor_data_length m d =
     do {
       len \<leftarrow> rd8 m (d + 1);
       Some len }"

section \<open>\<open>dvb/subtitling_descriptor.h\<close>\<close>

definition dvb_subtitling_entry_layout :: layout where
  "dvb_subtitling_entry_layout =
    [(''language_code'', Bytes 0 3), (''subtitling_type'', Value 3 1 0 8), (''composition_page_id'', Value 4 2 0 16),
     (''ancillary_page_id'', Value 6 2 0 16)]"

definition dvb_subtitling_descriptor_codec :: "byte_order \<Rightarrow> mem \<Rightarrow> nat \<Rightarrow> (mem \<times> bool) option" where
  "dvb_subtitling_descriptor_codec e m d =
     do {
       len \<leftarrow> rd8 m (d + 1);
       if len mod 8 \<noteq> 0 then Some (m, False)
       else do {
         ((m, pos), ok) \<leftarrow> while_do
           (\<lambda>(m, pos). Some (pos < len))
           (\<lambda>(m, pos).
             do {
               m \<leftarrow> bswap16 e m (d + pos + 6);
               m \<leftarrow> bswap16 e m (d + pos + 8);
               let pos = pos + 8;
               Some ((m, pos), True) })
           (m, 0);
         if \<not> ok then Some (m, False)
         else Some (m, True) } }"

definition dvb_subtitling_descriptor_subtitles_first :: "mem \<Rightarrow> nat \<Rightarrow> nat option option" where
  "dvb_subtitling_descriptor_subtitles_first m d =
     do {
       len \<leftarrow> rd8 m (d + 1);
       if len = 0 then Some None
       else Some (Some (d + 2)) }"

definition dvb_subtitling_descriptor_subtitles_next :: "mem \<Rightarrow> nat \<Rightarrow> nat \<Rightarrow> nat option option" where
  "dvb_subtitling_descriptor_subtitles_next m d pos =
     do {
       len \<leftarrow> rd8 m (d + 1);
       let stop = d + len + 2;
       if pos + 8 \<ge> stop then Some None
       else Some (Some (pos + 8)) }"

section \<open>\<open>dvb/target_ip_address_descriptor.h\<close>\<close>

definition dvb_target_ip_address_descriptor_layout :: layout where
  "dvb_target_ip_address_descriptor_layout =
    [(''ipv4_addr_mask'', Bytes 2 4)]"

definition dvb_ipv4_addr_layout :: layout where
  "dvb_ipv4_addr_layout =
    [(''ipv4_addr'', Bytes 0 4)]"

definition dvb_target_ip_address_descriptor_codec :: "byte_order \<Rightarrow> mem \<Rightarrow> nat \<Rightarrow> (mem \<times> bool) option" where
  "dvb_target_ip_address_descriptor_codec e m d =
     do {
       len' \<leftarrow> rd8 m (d + 1);
       let len = u32_of (int len' - 4);
       if len mod 4 \<noteq> 0 then Some (m, False)
       else Some (m, True) }"

definition dvb_target_ip_address_descriptor_ipv4_addr_first :: "mem \<Rightarrow> nat \<Rightarrow> nat option option" where
  "dvb_target_ip_address_descriptor_ipv4_addr_first m d =
     do {
       len \<leftarrow> rd8 m (d + 1);
       if len = 4 then Some None
       else Some (Some (d + 6)) }"

definition dvb_target_ip_address_descriptor_ipv4_addr_next :: "mem \<Rightarrow> nat \<Rightarrow> nat \<Rightarrow> nat option option" where
  "dvb_target_ip_address_descriptor_ipv4_addr_next m d pos =
     do {
       len \<leftarrow> rd8 m (d + 1);
       let stop = (d + len + 2 - 4);
       if pos + 4 \<ge> stop then Some None
       else Some (Some (pos + 4)) }"

section \<open>\<open>dvb/target_ip_slash_descriptor.h\<close>\<close>

definition dvb_ipv4_slash_layout :: layout where
  "dvb_ipv4_slash_layout =
    [(''ipv4_addr'', Bytes 0 4), (''ipv4_slash'', Value 4 1 0 8)]"

definition dvb_target_ip_slash_descriptor_codec :: "byte_order \<Rightarrow> mem \<Rightarrow> nat \<Rightarrow> (mem \<times> bool) option" where
  "dvb_target_ip_slash_descriptor_codec e m d =
     do {
       len \<leftarrow> rd8 m (d + 1);
       if len mod 5 \<noteq> 0 then Some (m, False)
       else Some (m, True) }"

definition dvb_target_ip_slash_descriptor_ipv4_slash_first :: "mem \<Rightarrow> nat \<Rightarrow> nat option option" where
  "dvb_target_ip_slash_descriptor_ipv4_slash_first m d =
     do {
       len \<leftarrow> rd8 m (d + 1);
       if len = 0 then Some None
       else Some (Some (d + 2)) }"

definition dvb_target_ip_slash_descriptor_ipv4_slash_next :: "mem \<Rightarrow> nat \<Rightarrow> nat \<Rightarrow> nat option option" where
  "dvb_target_ip_slash_descriptor_ipv4_slash_next m d pos =
     do {
       len \<leftarrow> rd8 m (d + 1);
       let stop = d + len + 2;
       if pos + 5 \<ge> stop then Some None
       else Some (Some (pos + 5)) }"

section \<open>\<open>dvb/target_ip_source_slash_descriptor.h\<close>\<close>

definition dvb_ipv4_source_slash_layout :: layout where
  "dvb_ipv4_source_slash_layout =
    [(''ipv4_source_addr'', Bytes 0 4), (''ipv4_source_slash'', Value 4 1 0 8), (''ipv4_dest_addr'', Bytes 5 4),
     (''ipv4_dest_slash'', Value 9 1 0 8)]"

definition dvb_target_ip_source_slash_descriptor_codec :: "byte_order \<Rightarrow> mem \<Rightarrow> nat \<Rightarrow> (mem \<times> bool) option" where
  "dvb_target_ip_source_slash_descriptor_codec e m d =
     do {
       len \<leftarrow> rd8 m (d + 1);
       if len mod 10 \<noteq> 0 then Some (m, False)
       else Some (m, True) }"

definition dvb_target_ip_source_slash_descriptor_ipv4_source_slash_first :: "mem \<Rightarrow> nat \<Rightarrow> nat option option" where
  "dvb_target_ip_source_slash_descriptor_ipv4_source_slash_first m d =
     do {
       len \<leftarrow> rd8 m (d + 1);
       if len = 0 then Some None
       else Some (Some (d + 2)) }"

definition dvb_target_ip_source_slash_descriptor_ipv4_source_slash_next :: "mem \<Rightarrow> nat \<Rightarrow> nat \<Rightarrow> nat option option" where
  "dvb_target_ip_source_slash_descriptor_ipv4_source_slash_next m d pos =
     do {
       len \<leftarrow> rd8 m (d + 1);
       let stop = d + len + 2;
       if pos + 10 \<ge> stop then Some None
       else Some (Some (pos + 10)) }"

section \<open>\<open>dvb/target_ipv6_address_descriptor.h\<close>\<close>

definition dvb_target_ipv6_address_descriptor_layout :: layout where
  "dvb_target_ipv6_address_descriptor_layout =
    [(''ipv6_addr_mask'', Bytes 2 16)]"

definition dvb_ipv6_addr_layout :: layout where
  "dvb_ipv6_addr_layout =
    [(''ipv6_addr'', Bytes 0 16)]"

definition dvb_target_ipv6_address_descriptor_codec :: "byte_order \<Rightarrow> mem \<Rightarrow> nat \<Rightarrow> (mem \<times> bool) option" where
  "dvb_target_ipv6_address_descriptor_codec e m d =
     do {
       len' \<leftarrow> rd8 m (d + 1);
       let len = u32_of (int len' - 16);
       if len mod 16 \<noteq> 0 then Some (m, False)
       else Some (m, True) }"

definition dvb_target_ipv6_address_descriptor_ipv6_addr_first :: "mem \<Rightarrow> nat \<Rightarrow> nat option option" where
  "dvb_target_ipv6_address_descriptor_ipv6_addr_first m d =
     do {
       len \<leftarrow> rd8 m (d + 1);
       if len = 16 then Some None
       else Some (Some (d + 18)) }"

definition dvb_target_ipv6_address_descriptor_ipv6_addr_next :: "mem \<Rightarrow> nat \<Rightarrow> nat \<Rightarrow> nat option option" where
  "dvb_target_ipv6_address_descriptor_ipv6_addr_next m d pos =
     do {
       len \<leftarrow> rd8 m (d + 1);
       let stop = (d + len + 2 - 16);
       if pos + 16 \<ge> stop then Some None
       else Some (Some (pos + 16)) }"

section \<open>\<open>dvb/target_ipv6_slash_descriptor.h\<close>\<close>

definition dvb_ipv6_slash_layout :: layout where
  "dvb_ipv6_slash_layout =
    [(''ipv6_addr'', Bytes 0 16), (''ipv6_slash'', Value 16 1 0 8)]"

definition dvb_target_ipv6_slash_descriptor_codec :: "byte_order \<Rightarrow> mem \<Rightarrow> nat \<Rightarrow> (mem \<times> bool) option" where
  "dvb_target_ipv6_slash_descriptor_codec e m d =
     do {
       len \<leftarrow> rd8 m (d + 1);
       if len mod 17 \<noteq> 0 then Some (m, False)
       else Some (m, True) }"

definition dvb_target_ipv6_slash_descriptor_ipv6_slash_first :: "mem \<Rightarrow> nat \<Rightarrow> nat option option" where
  "dvb_target_ipv6_slash_descriptor_ipv6_slash_first m d =
     do {
       len \<leftarrow> rd8 m (d + 1);
       if len = 0 then Some None
       else Some (Some (d + 2)) }"

definition dvb_target_ipv6_slash_descriptor_ipv6_slash_next :: "mem \<Rightarrow> nat \<Rightarrow> nat \<Rightarrow> nat option option" where
  "dvb_target_ipv6_slash_descriptor_ipv6_slash_next m d pos =
     do {
       len \<leftarrow> rd8 m (d + 1);
       let stop = d + len + 2;
       if pos + 17 \<ge> stop then Some None
       else Some (Some (pos + 17)) }"

section \<open>\<open>dvb/target_ipv6_source_slash_descriptor.h\<close>\<close>

definition dvb_ipv6_source_slash_layout :: layout where
  "dvb_ipv6_source_slash_layout =
    [(''ipv6_source_addr'', Bytes 0 16), (''ipv6_source_slash'', Value 16 1 0 8), (''ipv6_dest_addr'', Bytes 17 16),
     (''ipv6_dest_slash'', Value 33 1 0 8)]"

definition dvb_target_ipv6_source_slash_descriptor_codec :: "byte_order \<Rightarrow> mem \<Rightarrow> nat \<Rightarrow> (mem \<times> bool) option" where
  "dvb_target_ipv6_source_slash_descriptor_codec e m d =
     do {
       len \<leftarrow> rd8 m (d + 1);
       if len mod 34 \<noteq> 0 then Some (m, False)
       else Some (m, True) }"

definition dvb_target_ipv6_source_slash_descriptor_ipv6_source_slash_first :: "mem \<Rightarrow> nat \<Rightarrow> nat option option" where
  "dvb_target_ipv6_source_slash_descriptor_ipv6_source_slash_first m d =
     do {
       len \<leftarrow> rd8 m (d + 1);
       if len = 0 then Some None
       else Some (Some (d + 2)) }"

definition dvb_target_ipv6_source_slash_descriptor_ipv6_source_slash_next :: "mem \<Rightarrow> nat \<Rightarrow> nat \<Rightarrow> nat option option" where
  "dvb_target_ipv6_source_slash_descriptor_ipv6_source_slash_next m d pos =
     do {
       len \<leftarrow> rd8 m (d + 1);
       let stop = d + len + 2;
       if pos + 34 \<ge> stop then Some None
       else Some (Some (pos + 34)) }"

section \<open>\<open>dvb/teletext_descriptor.h\<close>\<close>

definition dvb_teletext_entry_layout :: layout where
  "dvb_teletext_entry_layout =
    [(''language_code'', Bytes 0 3), (''type'', Value 3 1 3 5), (''magazine_number'', Value 3 1 0 3),
     (''page_number'', Value 4 1 0 8)]"

definition dvb_teletext_descriptor_codec :: "byte_order \<Rightarrow> mem \<Rightarrow> nat \<Rightarrow> (mem \<times> bool) option" where
  "dvb_teletext_descriptor_codec e m d =
     do {
       len \<leftarrow> rd8 m (d + 1);
       if len mod 5 \<noteq> 0 then Some (m, False)
       else Some (m, True) }"

definition dvb_teletext_descriptor_entries_first :: "mem \<Rightarrow> nat \<Rightarrow> nat option option" where
  "dvb_teletext_descriptor_entries_first m d =
     do {
       len \<leftarrow> rd8 m (d + 1);
       if len = 0 then Some None
       else Some (Some (d + 2)) }"

definition dvb_teletext_descriptor_entries_next :: "mem \<Rightarrow> nat \<Rightarrow> nat \<Rightarrow> nat option option" where
  "dvb_teletext_descriptor_entries_next m d pos =
     do {
       len \<leftarrow> rd8 m (d + 1);
       let stop = d + len + 2;
       if pos + 5 \<ge> stop then Some None
       else Some (Some (pos + 5)) }"

section \<open>\<open>dvb/terrestrial_delivery_descriptor.h\<close>\<close>

definition dvb_terrestrial_delivery_descriptor_layout :: layout where
  "dvb_terrestrial_delivery_descriptor_layout =
    [(''centre_frequency'', Value 2 4 0 32), (''bandwidth'', Value 6 1 5 3), (''priority'', Value 6 1 4 1),
     (''time_slicing_indicator'', Value 6 1 3 1), (''mpe_fec_indicator'', Value 6 1 2 1), (''reserved_1'', Value 6 1 0 2),
     (''constellation'', Value 7 1 6 2), (''hierarchy_information'', Value 7 1 3 3),
     (''code_rate_hp_stream'', Value 7 1 0 3), (''code_rate_lp_stream'', Value 8 1 5 3),
     (''guard_interval'', Value 8 1 3 2), (''transmission_mode'', Value 8 1 1 2), (''other_frequency_flag'', Value 8 1 0 1),
     (''reserved_2'', Value 9 4 0 32)]"

definition dvb_terrestrial_delivery_descriptor_codec :: "byte_order \<Rightarrow> mem \<Rightarrow> nat \<Rightarrow> (mem \<times> bool) option" where
  "dvb_terrestrial_delivery_descriptor_codec e m d =
     do {
       len \<leftarrow> rd8 m (d + 1);
       if len \<noteq> 11 then Some (m, False)
       else do {
         m \<leftarrow> bswap32 e m (d + 2);
         m \<leftarrow> bswap32 e m (d + 9);
         Some (m, True) } }"

section \<open>\<open>dvb/time_shifted_event_descriptor.h\<close>\<close>

definition dvb_time_shifted_event_descriptor_layout :: layout where
  "dvb_time_shifted_event_descriptor_layout =
    [(''reference_service_id'', Value 2 2 0 16), (''reference_event_id'', Value 4 2 0 16)]"

definition dvb_time_shifted_event_descriptor_codec :: "byte_order \<Rightarrow> mem \<Rightarrow> nat \<Rightarrow> (mem \<times> bool) option" where
  "dvb_time_shifted_event_descriptor_codec e m d =
     do {
       len \<leftarrow> rd8 m (d + 1);
       if len \<noteq> 4 then Some (m, False)
       else do {
         m \<leftarrow> bswap16 e m (d + 2);
         m \<leftarrow> bswap16 e m (d + 4);
         Some (m, True) } }"

section \<open>\<open>dvb/time_shifted_service_descriptor.h\<close>\<close>

definition dvb_time_shifted_service_descriptor_layout :: layout where
  "dvb_time_shifted_service_descriptor_layout =
    [(''reference_service_id'', Value 2 2 0 16)]"

definition dvb_time_shifted_service_descriptor_codec :: "byte_order \<Rightarrow> mem \<Rightarrow> nat \<Rightarrow> (mem \<times> bool) option" where
  "dvb_time_shifted_service_descriptor_codec e m d =
     do {
       len \<leftarrow> rd8 m (d + 1);
       if len \<noteq> 2 then Some (m, False)
       else do {
         m \<leftarrow> bswap16 e m (d + 2);
         Some (m, True) } }"

section \<open>\<open>dvb/time_slice_fec_identifier_descriptor.h\<close>\<close>

definition dvb_time_slice_fec_identifier_descriptor_layout :: layout where
  "dvb_time_slice_fec_identifier_descriptor_layout =
    [(''time_slicing'', Value 2 1 7 1), (''mpe_fec'', Value 2 1 5 2), (''reserved'', Value 2 1 3 2),
     (''frame_size'', Value 2 1 0 3), (''max_burst_duration'', Value 3 1 0 8), (''max_average_rate'', Value 4 1 4 4),
     (''time_slice_fec_id'', Value 4 1 0 4)]"

definition dvb_time_slice_fec_identifier_descriptor_codec :: "byte_order \<Rightarrow> mem \<Rightarrow> nat \<Rightarrow> (mem \<times> bool) option" where
  "dvb_time_slice_fec_identifier_descriptor_codec e m d =
     do {
       len \<leftarrow> rd8 m (d + 1);
       if len < 3 then Some (m, False)
       else Some (m, True) }"

definition dvb_time_slice_fec_identifier_selector_byte_length :: "mem \<Rightarrow> nat \<Rightarrow> int option" where
  "dvb_time_slice_fec_identifier_selector_byte_length m d =
     do {
       len \<leftarrow> rd8 m (d + 1);
       Some (int len - 3) }"

definition dvb_time_slice_fec_identifier_selector_bytes :: "mem \<Rightarrow> nat \<Rightarrow> nat option option" where
  "dvb_time_slice_fec_identifier_selector_bytes m d =
     do {
       len \<leftarrow> rd8 m (d + 1);
       if len < 3 then Some None
       else Some (Some (d + 5)) }"

definition dvb_time_slice_fec_identifier_max_burst_duration_msec :: "mem \<Rightarrow> nat \<Rightarrow> nat option" where
  "dvb_time_slice_fec_identifier_max_burst_duration_msec m d =
     do {
       max_burst_duration \<leftarrow> rd8 m (d + 3);
       Some ((max_burst_duration + 1) * 20) }"

definition dvb_time_slice_fec_identifier_frame_size_kbits :: "byte_order \<Rightarrow> mem \<Rightarrow> nat \<Rightarrow> nat option" where
  "dvb_time_slice_fec_identifier_frame_size_kbits e m d =
     do {
       frame_size \<leftarrow> fld e 1 0 3 m (d + 2);
       if frame_size > 3 then Some 0
       else Some ((frame_size + 1) * 512) }"

definition dvb_time_slice_fec_identifier_frame_size_rows :: "byte_order \<Rightarrow> mem \<Rightarrow> nat \<Rightarrow> nat option" where
  "dvb_time_slice_fec_identifier_frame_size_rows e m d =
     do {
       r \<leftarrow> dvb_time_slice_fec_identifier_frame_size_kbits e m d;
       Some (r div 2) }"

section \<open>\<open>dvb/transport_stream_descriptor.h\<close>\<close>

definition dvb_transport_stream_descriptor_codec :: "byte_order \<Rightarrow> mem \<Rightarrow> nat \<Rightarrow> (mem \<times> bool) option" where
  "dvb_transport_stream_descriptor_codec e m d = Some (m, True)"

definition dvb_transport_stream_descriptor_data :: "nat \<Rightarrow> nat" where
  "dvb_transport_stream_descriptor_data d = d + 2"

definition dvb_transport_stream_descriptor_data_length :: "mem \<Rightarrow> nat \<Rightarrow> nat option" where
  "dvb_transport_stream_descriptor_data_length m d =
     do {
       len \<leftarrow> rd8 m (d + 1);
       Some len }"

section \<open>\<open>dvb/tva_id_descriptor.h\<close>\<close>

definition dvb_tva_id_entry_layout :: layout where
  "dvb_tva_id_entry_layout =
    [(''tva_id'', Value 0 2 0 16), (''reserved'', Value 2 1 3 5), (''running_status'', Value 2 1 0 3)]"

definition dvb_tva_id_descriptor_codec :: "byte_order \<Rightarrow> mem \<Rightarrow> nat \<Rightarrow> (mem \<times> bool) option" where
  "dvb_tva_id_descriptor_codec e m d =
     do {
       len \<leftarrow> rd8 m (d + 1);
       if len mod 3 \<noteq> 0 then Some (m, False)
       else do {
         ((m, pos), ok) \<leftarrow> while_do
           (\<lambda>(m, pos). Some (pos < len))
           (\<lambda>(m, pos).
             do {
               m \<leftarrow> bswap16 e m (d + pos + 2);
               let pos = pos + 3;
               Some ((m, pos), True) })
           (m, 0);
         if \<not> ok then Some (m, False)
         else Some (m, True) } }"

definition dvb_tva_id_descriptor_entries_first :: "mem \<Rightarrow> nat \<Rightarrow> nat option option" where
  "dvb_tva_id_descriptor_entries_first m d =
     do {
       len \<leftarrow> rd8 m (d + 1);
       if len = 0 then Some None
       else Some (Some (d + 2)) }"

definition dvb_tva_id_descriptor_entries_next :: "mem \<Rightarrow> nat \<Rightarrow> nat \<Rightarrow> nat option option" where
  "dvb_tva_id_descriptor_entries_next m d pos =
     do {
       len \<leftarrow> rd8 m (d + 1);
       let stop = d + len + 2;
       if pos + 3 \<ge> stop then Some None
       else Some (Some (pos + 3)) }"

section \<open>\<open>dvb/vbi_data_descriptor.h\<close>\<close>

definition dvb_vbi_data_entry_layout :: layout where
  "dvb_vbi_data_entry_layout =
    [(''data_service_id'', Value 0 1 0 8), (''data_length'', Value 1 1 0 8)]"

definition dvb_vbi_data_x_layout :: layout where
  "dvb_vbi_data_x_layout =
    [(''reserved'', Value 0 1 6 2), (''field_parity'', Value 0 1 5 1), (''line_offset'', Value 0 1 0 5)]"

definition dvb_vbi_data_descriptor_codec :: "byte_order \<Rightarrow> mem \<Rightarrow> nat \<Rightarrow> (mem \<times> bool) option" where
  "dvb_vbi_data_descriptor_codec e m d =
     do {
       len \<leftarrow> rd8 m (d + 1);
       ((m, pos), ok) \<leftarrow> while_do
         (\<lambda>(m, pos). Some (pos < len))
         (\<lambda>(m, pos).
           do {
             let ent = d + pos + 2;
             let pos = pos + 2;
             if pos > len then Some ((m, pos), False)
             else do {
               data_length \<leftarrow> rd8 m (ent + 1);
               let pos = pos + data_length;
               if pos > len then Some ((m, pos), False)
               else Some ((m, pos), True) } })
         (m, 0);
       if \<not> ok then Some (m, False)
       else Some (m, True) }"

definition dvb_vbi_data_entry_data :: "nat \<Rightarrow> nat" where
  "dvb_vbi_data_entry_data d = d + 2"

definition dvb_vbi_data_entry_data_x :: "mem \<Rightarrow> nat \<Rightarrow> nat option option" where
  "dvb_vbi_data_entry_data_x m d =
     do {
       data_service_id \<leftarrow> rd8 m d;
       if ((((data_service_id = 1 \<or> data_service_id = 2) \<or> data_service_id = 4) \<or> data_service_id = 5) \<or> data_service_id = 6) \<or> data_service_id = 7 then Some (Some (d + 2))
       else Some None }"

definition dvb_vbi_data_descriptor_entries_first :: "mem \<Rightarrow> nat \<Rightarrow> nat option option" where
  "dvb_vbi_data_descriptor_entries_first m d =
     do {
       len \<leftarrow> rd8 m (d + 1);
       if len = 0 then Some None
       else Some (Some (d + 2)) }"

definition dvb_vbi_data_descriptor_entries_next :: "mem \<Rightarrow> nat \<Rightarrow> nat \<Rightarrow> nat option option" where
  "dvb_vbi_data_descriptor_entries_next m d pos =
     do {
       len \<leftarrow> rd8 m (d + 1);
       let stop = d + len + 2;
       data_length \<leftarrow> rd8 m (pos + 1);
       let nxt = pos + data_length + 2;
       if nxt \<ge> stop then Some None
       else Some (Some nxt) }"

section \<open>\<open>dvb/vbi_teletext_descriptor.h\<close>\<close>

definition dvb_vbi_teletext_entry_layout :: layout where
  "dvb_vbi_teletext_entry_layout =
    [(''language_code'', Bytes 0 3), (''type'', Value 3 1 3 5), (''magazine_number'', Value 3 1 0 3),
     (''page_number'', Value 4 1 0 8)]"

definition dvb_vbi_teletext_descriptor_codec :: "byte_order \<Rightarrow> mem \<Rightarrow> nat \<Rightarrow> (mem \<times> bool) option" where
  "dvb_vbi_teletext_descriptor_codec e m d =
     do {
       len \<leftarrow> rd8 m (d + 1);
       if len mod 5 \<noteq> 0 then Some (m, False)
       else Some (m, True) }"

definition dvb_vbi_teletext_descriptor_entries_first :: "mem \<Rightarrow> nat \<Rightarrow> nat option option" where
  "dvb_vbi_teletext_descriptor_entries_first m d =
     do {
       len \<leftarrow> rd8 m (d + 1);
       if len = 0 then Some None
       else Some (Some (d + 2)) }"

definition dvb_vbi_teletext_descriptor_entries_next :: "mem \<Rightarrow> nat \<Rightarrow> nat \<Rightarrow> nat option option" where
  "dvb_vbi_teletext_descriptor_entries_next m d pos =
     do {
       len \<leftarrow> rd8 m (d + 1);
       let stop = d + len + 2;
       if pos + 5 \<ge> stop then Some None
       else Some (Some (pos + 5)) }"

section \<open>What the codecs do\<close>

lemma dvb_local_time_offset_descriptor_codec_ok: "table_correct dvb_local_time_offset_descriptor_codec [] 2 13 dvb_local_time_offset_layout"
  by (rule table_codecI [where ?p0.0 = 0], rule dvb_local_time_offset_descriptor_codec_def) (auto simp: layout_within_def dvb_local_time_offset_layout_def table_guards safe_simps decode_simps)

lemma dvb_mhp_data_broadcast_id_descriptor_codec_ok:
  assumes "desc_in m d (2 + len)"
  shows "wp (dvb_mhp_data_broadcast_id_descriptor_codec e m d) (\<lambda>(m', ok). same (d + 4) (d + 4 + len) m m' \<and>
    (ok \<longrightarrow> (\<exists>n. len = n * 2 \<and> (\<forall>i < n. decodes e [(''value'', Value 0 2 0 16)] m (d + 4 + i * 2) m'))))"
proof -
  let ?b = "\<lambda>(m, pos). do { m \<leftarrow> bswap16 e m (d + 4 + pos); let pos = pos + 2; Some ((m, pos), True) }"
  let ?Q = "\<lambda>m'. same (d + 4) (d + 4 + len) m m' \<and> (\<exists>n. len = n * 2 \<and> (\<forall>i < n. decodes e [(''value'', Value 0 2 0 16)] m (d + 4 + i * 2) m'))"
  have rd: "rd8 m (d + 1) = Some (2 + len)" "d + 4 + len \<le> length m" using assms by (simp_all add: desc_in_def)
  have loop: "wp (while_do (\<lambda>(m, pos). Some (pos < len)) ?b (m, 0)) (\<lambda>((m', pos), ok). ok \<and> ?Q m')" if "even len"
  proof -
    from that obtain n where n: "len = 0 + n * 2" by (auto elim: evenE simp: mult.commute)
    then have "wp (while_do (\<lambda>(m, pos). Some (pos < len)) ?b (m, 0)) (\<lambda>((m', pos), ok). ok \<and> same (d + 4 + 0) (d + 4 + len) m m'
      \<and> (\<forall>i < n. decodes e [(''value'', Value 0 2 0 16)] m (d + 4 + 0 + i * 2) m'))"
      by (rule wp_table [rotated]) (use rd(2) in \<open>auto simp: layout_within_def safe_simps decode_simps\<close>)
    then show ?thesis by (rule wp_mono) (use n in auto)
  qed
  have "int len smod 2 = 0 \<longleftrightarrow> even len" by (auto simp: signed_modulo_int_def sgn_0_0)
  then have "dvb_mhp_data_broadcast_id_descriptor_codec e m d = do {
      v \<leftarrow> ldn e 2 m (d + 2);
      if v < 240 \<or> v > 254 then Some (m, False)
      else if odd len then Some (m, False)
      else do { ((m, pos), ok) \<leftarrow> while_do (\<lambda>(m, pos). Some (pos < len)) ?b (m, 0); if \<not> ok then Some (m, False) else Some (m, True) } }"
    using rd(1) by (simp add: dvb_mhp_data_broadcast_id_descriptor_codec_def dvb_data_broadcast_id_descriptor_id_selector_byte_def
        dvb_data_broadcast_id_descriptor_id_selector_byte_length_def Let_def cong: if_cong)
  then show ?thesis using loop rd(2) by (auto simp: wp_bind wp_Some wp_reads elim!: wp_mono)
qed

lemma dvb_mosaic_descriptor_codec_ok: "codec_correct dvb_mosaic_descriptor_codec dvb_mosaic_descriptor_layout"
proof (rule codec_tailI [where k = 3 and head = "\<lambda>e m d. m"], goal_cases)
  case (5 e m d len)
  from 5 show ?case
    unfolding dvb_mosaic_descriptor_codec_def Let_def 5(1) Option.bind.simps
    by - (rule wp_checkI, simp, (rule wp_frame wp_push | assumption | (simp add: sub32_le; fail))+)
qed (simp_all add: dvb_mosaic_descriptor_codec_def dvb_mosaic_descriptor_layout_def layout_within_def safe_simps decode_simps)

lemma dvb_multilingual_bouquet_name_descriptor_codec_ok: "codec_correct dvb_multilingual_bouquet_name_descriptor_codec []"
proof (rule codec_tailI [where k = 2 and head = "\<lambda>e m d. m"], goal_cases)
  case (5 e m d len)
  from 5 show ?case
    unfolding dvb_multilingual_bouquet_name_descriptor_codec_def Let_def 5(1) Option.bind.simps
    by - ((rule wp_frame wp_push | assumption | (simp add: sub32_le; fail))+)
qed (simp_all add: dvb_multilingual_bouquet_name_descriptor_codec_def layout_within_def safe_simps decode_simps)

lemma dvb_multilingual_component_descriptor_codec_ok: "codec_correct dvb_multilingual_component_descriptor_codec dvb_multilingual_component_descriptor_layout"
proof (rule codec_tailI [where k = 3 and head = "\<lambda>e m d. m"], goal_cases)
  case (5 e m d len)
  from 5 show ?case
    unfolding dvb_multilingual_component_descriptor_codec_def Let_def 5(1) Option.bind.simps
    by - (rule wp_checkI, simp, (rule wp_frame wp_push | assumption | (simp add: sub32_le; fail))+)
qed (simp_all add: dvb_multilingual_component_descriptor_codec_def dvb_multilingual_component_descriptor_layout_def layout_within_def safe_simps decode_simps)

lemma dvb_multilingual_network_name_descriptor_codec_ok: "codec_correct dvb_multilingual_network_name_descriptor_codec []"
proof (rule codec_tailI [where k = 2 and head = "\<lambda>e m d. m"], goal_cases)
  case (5 e m d len)
  from 5 show ?case
    unfolding dvb_multilingual_network_name_descriptor_codec_def Let_def 5(1) Option.bind.simps
    by - ((rule wp_frame wp_push | assumption | (simp add: sub32_le; fail))+)
qed (simp_all add: dvb_multilingual_network_name_descriptor_codec_def layout_within_def safe_simps decode_simps)

lemma dvb_multilingual_service_name_descriptor_codec_ok: "codec_correct dvb_multilingual_service_name_descriptor_codec []"
proof (rule codec_tailI [where k = 2 and head = "\<lambda>e m d. m"], goal_cases)
  case (5 e m d len)
  from 5 show ?case
    unfolding dvb_multilingual_service_name_descriptor_codec_def Let_def 5(1) Option.bind.simps
    by - ((rule wp_frame wp_push | assumption | (simp add: sub32_le; fail))+)
qed (simp_all add: dvb_multilingual_service_name_descriptor_codec_def layout_within_def safe_simps decode_simps)

lemma dvb_network_name_descriptor_codec_ok: "exact_codec dvb_network_name_descriptor_codec [] (\<lambda>len. True)"
  by (rule exact_codecI) (simp add: dvb_network_name_descriptor_codec_def safe_simps decode_simps)

lemma dvb_nvod_reference_descriptor_codec_ok: "table_correct dvb_nvod_reference_descriptor_codec [] 2 6 dvb_nvod_reference_layout"
  by (rule table_codecI [where ?p0.0 = 0], rule dvb_nvod_reference_descriptor_codec_def) (auto simp: layout_within_def dvb_nvod_reference_layout_def table_guards safe_simps decode_simps)

lemma dvb_parental_rating_descriptor_codec_ok: "table_correct dvb_parental_rating_descriptor_codec [] 2 4 dvb_parental_rating_layout"
  by (rule table_bytesI [where ?p0.0 = 0], rule dvb_parental_rating_descriptor_codec_def) (auto simp: layout_within_def dvb_parental_rating_layout_def table_guards safe_simps decode_simps)

lemma dvb_partial_transport_stream_descriptor_codec_ok: "exact_codec dvb_partial_transport_stream_descriptor_codec dvb_partial_transport_stream_descriptor_layout (\<lambda>len. len = 8)"
  by (rule exact_codecI) (simp add: dvb_partial_transport_stream_descriptor_codec_def dvb_partial_transport_stream_descriptor_layout_def safe_simps decode_simps)

lemma dvb_pdc_descriptor_codec_ok: "exact_codec dvb_pdc_descriptor_codec dvb_pdc_descriptor_layout (\<lambda>len. len = 3)"
  by (rule exact_codecI) (simp add: dvb_pdc_descriptor_codec_def dvb_pdc_descriptor_layout_def safe_simps decode_simps)

lemma dvb_private_data_specifier_descriptor_codec_ok: "exact_codec dvb_private_data_specifier_descriptor_codec dvb_private_data_specifier_descriptor_layout (\<lambda>len. len = 4)"
  by (rule exact_codecI) (simp add: dvb_private_data_specifier_descriptor_codec_def dvb_private_data_specifier_descriptor_layout_def safe_simps decode_simps)

lemma dvb_related_content_descriptor_codec_ok: "exact_codec dvb_related_content_descriptor_codec [] (\<lambda>len. True)"
  by (rule exact_codecI) (simp add: dvb_related_content_descriptor_codec_def safe_simps decode_simps)

lemma dvb_rnt_rar_over_dvb_stream_descriptor_codec_ok: "codec_correct dvb_rnt_rar_over_dvb_stream_descriptor_codec dvb_rnt_rar_over_dvb_stream_descriptor_layout"
  by (rule codec_correctI) (simp add: dvb_rnt_rar_over_dvb_stream_descriptor_codec_def dvb_rnt_rar_over_dvb_stream_descriptor_layout_def safe_simps decode_simps)

lemma dvb_rnt_rar_over_ip_descriptor_codec_ok: "codec_correct dvb_rnt_rar_over_ip_descriptor_codec dvb_rnt_rar_over_ip_descriptor_layout"
  by (rule codec_correctI) (simp add: dvb_rnt_rar_over_ip_descriptor_codec_def dvb_rnt_rar_over_ip_descriptor_layout_def safe_simps decode_simps)

lemma dvb_rnt_rnt_scan_descriptor_codec_ok:
  "table_correct dvb_rnt_rnt_scan_descriptor_codec [] 2 5 dvb_rnt_rnt_scan_entry_layout"
  unfolding table_correct_def
proof (intro allI impI)
  fix e m d len
  assume din: "desc_in m d len"
  then have rd: "rd8 m (d + 1) = Some len" and le: "d + 2 + len \<le> length m" and b: "len < 256"
    using unat_byte_lt by (auto simp: desc_in_def rd8_def split: Option.bind_splits)
  let ?b = "\<lambda>(m, pos). do { m \<leftarrow> bswap16 e m (d + pos); m \<leftarrow> bswap16 e m (d + pos + 2); let pos = pos + 5; Some ((m, pos), True) }"
  let ?Q = "\<lambda>(m', ok). same (d + 2) (d + 2 + len) m m' \<and> (ok \<longleftrightarrow> 2 \<le> 2 + len \<and> 5 dvd 2 + len - 2) \<and>
       (ok \<longrightarrow> decodes e [] m d m' \<and> (\<exists>n. 2 + len = 2 + n * 5 \<and> (\<forall>i < n. decodes e dvb_rnt_rnt_scan_entry_layout m (d + 2 + i * 5) m')))"
  show "wp (dvb_rnt_rnt_scan_descriptor_codec e m d) ?Q"
  proof (cases "len mod 5 = 0")
    case True
    then obtain n where n: "len + 2 = 2 + n * 5" by (auto simp: mod_eq_0_iff_dvd dvd_def)
    have "wp (while_do (\<lambda>(m, pos). Some (pos < len + 2)) ?b (m, 2)) (\<lambda>((m', pos), ok). ok \<and>
        same (d + 2) (d + (len + 2)) m m' \<and> (\<forall>i < n. decodes e dvb_rnt_rnt_scan_entry_layout m (d + 2 + i * 5) m'))"
      by (rule wp_table [OF _ n]) (use le in \<open>auto simp: layout_within_def dvb_rnt_rnt_scan_entry_layout_def safe_simps decode_simps\<close>)
    then have "wp (while_do (\<lambda>(m, pos). Some (pos < len + 2)) ?b (m, 2)) (\<lambda>((m', pos), ok). ok \<and> ?Q (m', True))"
      by (rule wp_mono) (use n True in \<open>auto simp: decodes_def add_ac mod_eq_0_iff_dvd\<close>)
    then show ?thesis using True rd b
      by (auto simp: dvb_rnt_rnt_scan_descriptor_codec_def sub32_le wp_Some wp_bind Let_def elim!: wp_mono)
  next
    case False
    then show ?thesis using rd b by (simp add: dvb_rnt_rnt_scan_descriptor_codec_def sub32_le wp_Some mod_eq_0_iff_dvd)
  qed
qed

lemma dvb_s2_satellite_delivery_descriptor_codec_ok: "codec_correct dvb_s2_satellite_delivery_descriptor_codec dvb_s2_satellite_delivery_descriptor_layout"
  by (rule codec_correctI) (simp add: dvb_s2_satellite_delivery_descriptor_codec_def dvb_s2_satellite_delivery_descriptor_layout_def safe_simps decode_simps)

lemma dvb_satellite_delivery_descriptor_codec_ok: "exact_codec dvb_satellite_delivery_descriptor_codec dvb_satellite_delivery_descriptor_layout (\<lambda>len. 11 \<le> len)"
  by (rule exact_codecI) (simp add: dvb_satellite_delivery_descriptor_codec_def dvb_satellite_delivery_descriptor_layout_def safe_simps decode_simps)

lemma dvb_scrambling_descriptor_codec_ok: "exact_codec dvb_scrambling_descriptor_codec dvb_scrambling_descriptor_layout (\<lambda>len. len = 1)"
  by (rule exact_codecI) (simp add: dvb_scrambling_descriptor_codec_def dvb_scrambling_descriptor_layout_def safe_simps decode_simps)

lemma dvb_service_availability_descriptor_codec_ok: "table_correct dvb_service_availability_descriptor_codec dvb_service_availability_descriptor_layout 3 2 [(''value'', Value 0 2 0 16)]"
  by (rule table_codecI [where ?p0.0 = 1], rule dvb_service_availability_descriptor_codec_def) (auto simp: layout_within_def dvb_service_availability_descriptor_layout_def table_guards safe_simps decode_simps)

lemma dvb_service_descriptor_codec_ok: "codec_correct dvb_service_descriptor_codec dvb_service_descriptor_layout"
  by (rule codec_correctI) (simp add: dvb_service_descriptor_codec_def dvb_service_descriptor_layout_def safe_simps decode_simps)

lemma dvb_service_identifier_descriptor_codec_ok: "exact_codec dvb_service_identifier_descriptor_codec [] (\<lambda>len. True)"
  by (rule exact_codecI) (simp add: dvb_service_identifier_descriptor_codec_def safe_simps decode_simps)

lemma dvb_service_list_descriptor_codec_ok: "table_correct dvb_service_list_descriptor_codec [] 2 3 dvb_service_list_service_layout"
  by (rule table_codecI [where ?p0.0 = 0], rule dvb_service_list_descriptor_codec_def) (auto simp: layout_within_def dvb_service_list_service_layout_def table_guards safe_simps decode_simps)

lemma dvb_service_move_descriptor_codec_ok: "exact_codec dvb_service_move_descriptor_codec dvb_service_move_descriptor_layout (\<lambda>len. len = 6)"
  by (rule exact_codecI) (simp add: dvb_service_move_descriptor_codec_def dvb_service_move_descriptor_layout_def safe_simps decode_simps)

lemma dvb_short_event_descriptor_codec_ok: "codec_correct dvb_short_event_descriptor_codec dvb_short_event_descriptor_layout"
  by (rule codec_correctI) (simp add: dvb_short_event_descriptor_codec_def dvb_short_event_descriptor_layout_def safe_simps decode_simps)

lemma dvb_short_smoothing_buffer_descriptor_codec_ok: "exact_codec dvb_short_smoothing_buffer_descriptor_codec dvb_short_smoothing_buffer_descriptor_layout (\<lambda>len. 1 \<le> len)"
  by (rule exact_codecI) (simp add: dvb_short_smoothing_buffer_descriptor_codec_def dvb_short_smoothing_buffer_descriptor_layout_def safe_simps decode_simps)

lemma dvb_stream_identifier_descriptor_codec_ok: "exact_codec dvb_stream_identifier_descriptor_codec dvb_stream_identifier_descriptor_layout (\<lambda>len. len = 1)"
  by (rule exact_codecI) (simp add: dvb_stream_identifier_descriptor_codec_def dvb_stream_identifier_descriptor_layout_def safe_simps decode_simps)

lemma dvb_stuffing_descriptor_codec_ok: "exact_codec dvb_stuffing_descriptor_codec [] (\<lambda>len. True)"
  by (rule exact_codecI) (simp add: dvb_stuffing_descriptor_codec_def safe_simps decode_simps)

lemma dvb_subtitling_descriptor_codec_ok: "table_correct dvb_subtitling_descriptor_codec [] 2 8 dvb_subtitling_entry_layout"
  by (rule table_codecI [where ?p0.0 = 0], rule dvb_subtitling_descriptor_codec_def) (auto simp: layout_within_def dvb_subtitling_entry_layout_def table_guards safe_simps decode_simps)

lemma dvb_target_ip_slash_descriptor_codec_ok: "table_correct dvb_target_ip_slash_descriptor_codec [] 2 5 dvb_ipv4_slash_layout"
  by (rule table_bytesI [where ?p0.0 = 0], rule dvb_target_ip_slash_descriptor_codec_def) (auto simp: layout_within_def dvb_ipv4_slash_layout_def table_guards safe_simps decode_simps)

lemma dvb_target_ip_source_slash_descriptor_codec_ok: "table_correct dvb_target_ip_source_slash_descriptor_codec [] 2 10 dvb_ipv4_source_slash_layout"
  by (rule table_bytesI [where ?p0.0 = 0], rule dvb_target_ip_source_slash_descriptor_codec_def) (auto simp: layout_within_def dvb_ipv4_source_slash_layout_def table_guards safe_simps decode_simps)

lemma dvb_target_ipv6_slash_descriptor_codec_ok: "table_correct dvb_target_ipv6_slash_descriptor_codec [] 2 17 dvb_ipv6_slash_layout"
  by (rule table_bytesI [where ?p0.0 = 0], rule dvb_target_ipv6_slash_descriptor_codec_def) (auto simp: layout_within_def dvb_ipv6_slash_layout_def table_guards safe_simps decode_simps)

lemma dvb_target_ipv6_source_slash_descriptor_codec_ok: "table_correct dvb_target_ipv6_source_slash_descriptor_codec [] 2 34 dvb_ipv6_source_slash_layout"
  by (rule table_bytesI [where ?p0.0 = 0], rule dvb_target_ipv6_source_slash_descriptor_codec_def) (auto simp: layout_within_def dvb_ipv6_source_slash_layout_def table_guards safe_simps decode_simps)

lemma dvb_teletext_descriptor_codec_ok: "table_correct dvb_teletext_descriptor_codec [] 2 5 dvb_teletext_entry_layout"
  by (rule table_bytesI [where ?p0.0 = 0], rule dvb_teletext_descriptor_codec_def) (auto simp: layout_within_def dvb_teletext_entry_layout_def table_guards safe_simps decode_simps)

lemma dvb_terrestrial_delivery_descriptor_codec_ok: "exact_codec dvb_terrestrial_delivery_descriptor_codec dvb_terrestrial_delivery_descriptor_layout (\<lambda>len. len = 11)"
  by (rule exact_codecI) (simp add: dvb_terrestrial_delivery_descriptor_codec_def dvb_terrestrial_delivery_descriptor_layout_def safe_simps decode_simps)

lemma dvb_time_shifted_event_descriptor_codec_ok: "exact_codec dvb_time_shifted_event_descriptor_codec dvb_time_shifted_event_descriptor_layout (\<lambda>len. len = 4)"
  by (rule exact_codecI) (simp add: dvb_time_shifted_event_descriptor_codec_def dvb_time_shifted_event_descriptor_layout_def safe_simps decode_simps)

lemma dvb_time_shifted_service_descriptor_codec_ok: "exact_codec dvb_time_shifted_service_descriptor_codec dvb_time_shifted_service_descriptor_layout (\<lambda>len. len = 2)"
  by (rule exact_codecI) (simp add: dvb_time_shifted_service_descriptor_codec_def dvb_time_shifted_service_descriptor_layout_def safe_simps decode_simps)

lemma dvb_time_slice_fec_identifier_descriptor_codec_ok: "exact_codec dvb_time_slice_fec_identifier_descriptor_codec dvb_time_slice_fec_identifier_descriptor_layout (\<lambda>len. 3 \<le> len)"
  by (rule exact_codecI) (simp add: dvb_time_slice_fec_identifier_descriptor_codec_def dvb_time_slice_fec_identifier_descriptor_layout_def safe_simps decode_simps)

lemma dvb_transport_stream_descriptor_codec_ok: "exact_codec dvb_transport_stream_descriptor_codec [] (\<lambda>len. True)"
  by (rule exact_codecI) (simp add: dvb_transport_stream_descriptor_codec_def safe_simps decode_simps)

lemma dvb_tva_id_descriptor_codec_ok: "table_correct dvb_tva_id_descriptor_codec [] 2 3 dvb_tva_id_entry_layout"
  by (rule table_codecI [where ?p0.0 = 0], rule dvb_tva_id_descriptor_codec_def) (auto simp: layout_within_def dvb_tva_id_entry_layout_def table_guards safe_simps decode_simps)

lemma dvb_vbi_data_descriptor_codec_ok: "codec_correct dvb_vbi_data_descriptor_codec []"
proof (rule codec_tailI [where k = 2 and head = "\<lambda>e m d. m"], goal_cases)
  case (5 e m d len)
  from 5 show ?case
    unfolding dvb_vbi_data_descriptor_codec_def Let_def 5(1) Option.bind.simps
    by - ((rule wp_frame wp_push | assumption | (simp add: sub32_le; fail))+)
qed (simp_all add: dvb_vbi_data_descriptor_codec_def layout_within_def safe_simps decode_simps)

lemma dvb_vbi_teletext_descriptor_codec_ok: "table_correct dvb_vbi_teletext_descriptor_codec [] 2 5 dvb_vbi_teletext_entry_layout"
  by (rule table_bytesI [where ?p0.0 = 0], rule dvb_vbi_teletext_descriptor_codec_def) (auto simp: layout_within_def dvb_vbi_teletext_entry_layout_def table_guards safe_simps decode_simps)

end
