(* ===== verification/Atsc_Text.thy ===== *)
theory Atsc_Text
  imports Atsc_Huffman En50221_Os
begin

text \<open>
  ATSC multiple strings: \<open>lib/libucsi/atsc/atsc_text.c\<close>, \<open>lib/libucsi/atsc/types.c\<close> and \<open>lib/libucsi/atsc/types.h\<close>.  A text is a
  number of strings, one per language; a string is a number of segments; a segment is compressed or not and decodes
  to UTF-8 that is appended to a growing buffer of the caller.

  A run is \<open>None\<close> when it touches memory outside the text, the tables or the buffer, or when it does not end.
  The environment \<open>os\<close> answers the calls of \<open>realloc\<close>.
\<close>

section \<open>Reading bits\<close>

text \<open>\<open>struct huffbuff\<close>; the source buffer is \<open>buf_len\<close> bytes from \<open>buf\<close> in \<open>buf_mem\<close>.\<close>

record huffbuff =
  buf_mem :: mem
  buf :: nat
  buf_len :: nat
  cur_byte :: nat
  cur_bit :: nat

definition huffbuff_init :: "mem \<Rightarrow> nat \<Rightarrow> nat \<Rightarrow> huffbuff" where
  "huffbuff_init m p n = \<lparr>buf_mem = m, buf = p, buf_len = n, cur_byte = 0, cur_bit = 0\<rparr>"

definition next_bit :: "huffbuff \<Rightarrow> huffbuff" where
  "next_bit h =
     (if cur_bit h + 1 > 7 then h\<lparr>cur_byte := cur_byte h + 1, cur_bit := 0\<rparr> else h\<lparr>cur_bit := cur_bit h + 1\<rparr>)"

primrec read_bits :: "nat \<Rightarrow> huffbuff \<Rightarrow> u8 \<Rightarrow> (huffbuff \<times> int) option" where
  "read_bits 0 h result = Some (h, uint result)"
| "read_bits (Suc nbits) h result =
     (if cur_byte h \<ge> buf_len h then Some (h, -1)
      else do {
        b \<leftarrow> rd (buf_mem h) (buf h + cur_byte h);
        let result = push_bit 1 result;
        read_bits nbits (next_bit h) (if b AND drop_bit (cur_bit h) 0x80 \<noteq> 0 then result OR 1 else result) })"

definition huffbuff_bits :: "huffbuff \<Rightarrow> nat \<Rightarrow> (huffbuff \<times> int) option" where
  "huffbuff_bits h nbits = (if nbits > 8 then Some (h, -1) else read_bits nbits h 0)"

section \<open>The output\<close>

record textbuf =
  destbuf :: "mem cptr"
  destbuflen :: nat
  destbufpos :: nat

definition DEST_ALLOC_DELTA :: nat where "DEST_ALLOC_DELTA = 20"

definition utf8_char :: "u32 \<Rightarrow> u8 list option" where
  "utf8_char c =
     (if c < 0x80 then Some [ucast c]
      else if c < 0x800 then Some [0xc0 OR (ucast (drop_bit 6 c) AND 0x1f), 0x80 OR (ucast c AND 0x3f)]
      else if c < 0x10000 then
        Some [0xe0 OR (ucast (drop_bit 12 c) AND 0x0f), 0x80 OR (ucast (drop_bit 6 c) AND 0x3f), 0x80 OR (ucast c AND 0x3f)]
      else None)"

text \<open>\<open>append_unicode_char\<close>: the status is 0 or negative.\<close>

definition append_unicode_char :: "u32 \<Rightarrow> os \<times> textbuf \<Rightarrow> ((os \<times> textbuf) \<times> int) option" where
  "append_unicode_char c = (\<lambda>(w, d).
     (case utf8_char c of
        None \<Rightarrow> Some ((w, d), -1)
      | Some tmp \<Rightarrow> do {
          (w, d, ok) \<leftarrow>
            (if destbufpos d + length tmp \<ge> destbuflen d then do {
               (w, new_dest, old) \<leftarrow> realloc w (destbuf d) (destbuflen d + DEST_ALLOC_DELTA);
               Some (case new_dest of
                   Live m \<Rightarrow> (w, d\<lparr>destbuf := new_dest, destbuflen := destbuflen d + DEST_ALLOC_DELTA\<rparr>, True)
                 | _ \<Rightarrow> (w, d\<lparr>destbuf := old\<rparr>, False)) }
             else Some (w, d, True));
          if \<not> ok then Some ((w, d), -12)
          else (case destbuf d of
              Live m \<Rightarrow> do {
                m \<leftarrow> blit m (destbufpos d) tmp;
                Some ((w, d\<lparr>destbuf := Live m, destbufpos := destbufpos d + length tmp\<rparr>), 0) }
            | _ \<Rightarrow> None) }))"

primrec unicode_loop :: "nat \<Rightarrow> mem \<Rightarrow> nat \<Rightarrow> u32 \<Rightarrow> os \<times> textbuf \<Rightarrow> ((os \<times> textbuf) \<times> int) option" where
  "unicode_loop 0 m p msb st = Some (st, int (destbufpos (snd st)))"
| "unicode_loop (Suc k) m p msb st =
     do {
       b \<leftarrow> rd m p;
       (st, r) \<leftarrow> append_unicode_char (msb + ucast b) st;
       if r \<noteq> 0 then Some (st, -1) else unicode_loop k m (p + 1) msb st }"

definition unicode_decode :: "mem \<Rightarrow> nat \<Rightarrow> nat \<Rightarrow> u8 \<Rightarrow> os \<times> textbuf \<Rightarrow> ((os \<times> textbuf) \<times> int) option" where
  "unicode_decode m srcbuf srcbuflen mode st = unicode_loop srcbuflen m srcbuf (push_bit 8 (ucast mode)) st"

section \<open>Huffman decoding\<close>

partial_function (option) huffman_decode_uncompressed ::
  "huffbuff \<Rightarrow> os \<times> textbuf \<Rightarrow> (huffbuff \<times> (os \<times> textbuf) \<times> int) option" where
  "huffman_decode_uncompressed hbuf st =
     (if cur_byte hbuf < buf_len hbuf then do {
        (hbuf, c) \<leftarrow> huffbuff_bits hbuf 8;
        if c < 0 then Some (hbuf, st, -1)
        else if c = uint HUFFSTRING_END then Some (hbuf, st, 0)
        else if c = uint HUFFSTRING_ESCAPE then Some (hbuf, st, uint HUFFSTRING_ESCAPE)
        else do {
          (st, r) \<leftarrow> append_unicode_char (of_int c) st;
          if r \<noteq> 0 then Some (hbuf, st, -1)
          else if c < 0x80 then Some (hbuf, st, c)
          else huffman_decode_uncompressed hbuf st } }
      else Some (hbuf, st, uint HUFFSTRING_END))"

text \<open>An entry of a tree; a row of the array has 128 entries.\<close>

definition tree_entry :: "hufftree_entry list list \<Rightarrow> nat \<Rightarrow> nat \<Rightarrow> hufftree_entry option" where
  "tree_entry hufftree tree treeidx =
     (if tree < length hufftree \<and> treeidx < 128
      then Some (if treeidx < length (hufftree ! tree) then hufftree ! tree ! treeidx else (0, 0)) else None)"

text \<open>The loop of \<open>huffman_decode\<close>, with the current tree and entry.\<close>

partial_function (option) huffman_loop ::
  "hufftree_entry list list \<Rightarrow> nat \<Rightarrow> nat \<Rightarrow> huffbuff \<Rightarrow> os \<times> textbuf \<Rightarrow> ((os \<times> textbuf) \<times> int) option" where
  "huffman_loop hufftree tree treeidx hbuf st =
     (if cur_byte hbuf < buf_len hbuf then do {
        (hbuf, b) \<leftarrow> huffbuff_bits hbuf 1;
        if b < 0 then Some (st, int (destbufpos (snd st)))
        else do {
          x \<leftarrow> tree_entry hufftree tree treeidx;
          let treeval = (if b = 0 then fst x else snd x);
          if treeval AND HUFFTREE_LITERAL_MASK \<noteq> 0 then
            (let c = treeval AND NOT HUFFTREE_LITERAL_MASK in
             if c = HUFFSTRING_END then Some (st, 0)
             else if c = HUFFSTRING_ESCAPE then do {
               (hbuf, st, tmp) \<leftarrow> huffman_decode_uncompressed hbuf st;
               if tmp < 0 then Some (st, tmp)
               else if tmp = 0 then Some (st, int (destbufpos (snd st)))
               else huffman_loop hufftree (nat tmp) 0 hbuf st }
             else do {
               (st, r) \<leftarrow> append_unicode_char (ucast c) st;
               if r \<noteq> 0 then Some (st, -1) else huffman_loop hufftree (unat c) 0 hbuf st })
          else huffman_loop hufftree tree (unat treeval) hbuf st } }
      else Some (st, int (destbufpos (snd st))))"

definition huffman_decode ::
  "mem \<Rightarrow> nat \<Rightarrow> nat \<Rightarrow> os \<times> textbuf \<Rightarrow> hufftree_entry list list \<Rightarrow> ((os \<times> textbuf) \<times> int) option" where
  "huffman_decode m src srclen st hufftree = huffman_loop hufftree 0 0 (huffbuff_init m src srclen) st"

section \<open>Segments\<close>

definition ATSC_TEXT_COMPRESS_NONE :: u8 where "ATSC_TEXT_COMPRESS_NONE = 0x00"
definition ATSC_TEXT_COMPRESS_PROGRAM_TITLE :: u8 where "ATSC_TEXT_COMPRESS_PROGRAM_TITLE = 0x01"
definition ATSC_TEXT_COMPRESS_PROGRAM_DESCRIPTION :: u8 where "ATSC_TEXT_COMPRESS_PROGRAM_DESCRIPTION = 0x02"
definition ATSC_TEXT_SEGMENT_MODE_UNICODE_RANGE_MAX :: u8 where "ATSC_TEXT_SEGMENT_MODE_UNICODE_RANGE_MAX = 0x33"

definition atsc_text_string_segment_bytes :: "nat \<Rightarrow> nat" where
  "atsc_text_string_segment_bytes d = d + 3"

definition atsc_text_segment_decode :: "mem \<Rightarrow> nat \<Rightarrow> os \<times> textbuf \<Rightarrow> ((os \<times> textbuf) \<times> int) option" where
  "atsc_text_segment_decode m segment st =
     do {
       compression_type \<leftarrow> rd m segment;
       mode \<leftarrow> rd m (segment + 1);
       number_bytes \<leftarrow> rd m (segment + 2);
       if mode > ATSC_TEXT_SEGMENT_MODE_UNICODE_RANGE_MAX then Some (st, -1)
       else if mode \<noteq> 0 \<and> compression_type \<noteq> 0 then Some (st, -1)
       else
         (let src = atsc_text_string_segment_bytes segment in
          if compression_type = ATSC_TEXT_COMPRESS_NONE then unicode_decode m src (unat number_bytes) mode st
          else if compression_type = ATSC_TEXT_COMPRESS_PROGRAM_TITLE then
            huffman_decode m src (unat number_bytes) st program_title_hufftree
          else if compression_type = ATSC_TEXT_COMPRESS_PROGRAM_DESCRIPTION then
            huffman_decode m src (unat number_bytes) st program_description_hufftree
          else Some (st, -1)) }"

section \<open>Strings\<close>

text \<open>The two nested loops of \<open>atsc_text_validate\<close>; the result is the position or nothing for -1.\<close>

primrec validate_segments :: "nat \<Rightarrow> mem \<Rightarrow> nat \<Rightarrow> nat \<Rightarrow> nat option option" where
  "validate_segments 0 m len pos = Some (Some pos)"
| "validate_segments (Suc k) m len pos =
     (if len < pos + 3 then Some None
      else do {
        number_bytes \<leftarrow> rd m (pos + 2);
        if len < pos + 3 + unat number_bytes then Some None
        else validate_segments k m len (pos + 3 + unat number_bytes) })"

primrec validate_strings :: "nat \<Rightarrow> mem \<Rightarrow> nat \<Rightarrow> nat \<Rightarrow> nat option option" where
  "validate_strings 0 m len pos = Some (Some pos)"
| "validate_strings (Suc k) m len pos =
     (if len < pos + 4 then Some None
      else do {
        number_segments \<leftarrow> rd m (pos + 3);
        r \<leftarrow> validate_segments (unat number_segments) m len (pos + 4);
        case r of None \<Rightarrow> Some None | Some pos \<Rightarrow> validate_strings k m len pos })"

text \<open>\<open>atsc_text_validate\<close> of the \<open>len\<close> bytes from \<open>p\<close> in \<open>m\<close>.\<close>

definition atsc_text_validate :: "mem \<Rightarrow> nat \<Rightarrow> nat \<Rightarrow> int option" where
  "atsc_text_validate m p len =
     (if len = 0 then Some 0
      else do {
        number_strings \<leftarrow> rd m p;
        r \<leftarrow> validate_strings (unat number_strings) (drop p m) len 1;
        Some (if r = None then -1 else 0) })"

definition atsc_text_strings_first :: "mem \<Rightarrow> nat \<Rightarrow> nat option option" where
  "atsc_text_strings_first m txt = do { n \<leftarrow> rd m txt; Some (if n = 0 then None else Some (txt + 1)) }"

primrec skip_segments :: "nat \<Rightarrow> mem \<Rightarrow> nat \<Rightarrow> nat option" where
  "skip_segments 0 m p = Some p"
| "skip_segments (Suc k) m p = do { n \<leftarrow> rd m (p + 2); skip_segments k m (p + 3 + unat n) }"

definition atsc_text_strings_next :: "mem \<Rightarrow> nat \<Rightarrow> nat \<Rightarrow> nat \<Rightarrow> nat option option" where
  "atsc_text_strings_next m txt pos idx =
     do {
       number_strings \<leftarrow> rd m txt;
       if idx \<ge> unat number_strings then Some None
       else do {
         number_segments \<leftarrow> rd m (pos + 3);
         q \<leftarrow> skip_segments (unat number_segments) m (pos + 4);
         Some (Some q) } }"

definition atsc_text_string_segments_first :: "mem \<Rightarrow> nat \<Rightarrow> nat option option" where
  "atsc_text_string_segments_first m str = do { n \<leftarrow> rd m (str + 3); Some (if n = 0 then None else Some (str + 4)) }"

definition atsc_text_string_segments_next :: "mem \<Rightarrow> nat \<Rightarrow> nat \<Rightarrow> nat \<Rightarrow> nat option option" where
  "atsc_text_string_segments_next m str pos idx =
     do {
       number_segments \<leftarrow> rd m (str + 3);
       if idx \<ge> unat number_segments then Some None
       else do { n \<leftarrow> rd m (pos + 2); Some (Some (pos + 3 + unat n)) } }"

text \<open>The loops of the macros, with the index they count.\<close>

partial_function (option) for_each_idx ::
  "(nat \<Rightarrow> nat \<Rightarrow> nat option option) \<Rightarrow> nat option \<Rightarrow> nat \<Rightarrow> nat list option" where
  "for_each_idx nxt pos idx =
     (case pos of
        None \<Rightarrow> Some []
      | Some p \<Rightarrow> do { q \<leftarrow> nxt p (idx + 1); ps \<leftarrow> for_each_idx nxt q (idx + 1); Some (p # ps) })"

definition atsc_text_strings_for_each :: "mem \<Rightarrow> nat \<Rightarrow> nat list option" where
  "atsc_text_strings_for_each m txt =
     do { p \<leftarrow> atsc_text_strings_first m txt; for_each_idx (atsc_text_strings_next m txt) p 0 }"

definition atsc_text_string_segments_for_each :: "mem \<Rightarrow> nat \<Rightarrow> nat list option" where
  "atsc_text_string_segments_for_each m str =
     do { p \<leftarrow> atsc_text_string_segments_first m str; for_each_idx (atsc_text_string_segments_next m str) p 0 }"

section \<open>Times\<close>

text \<open>The sum is one of 32-bit unsigned integers; only then it becomes a \<open>time_t\<close>.\<close>

definition GPS_EPOCH :: u32 where "GPS_EPOCH = 315964800"

definition atsctime_to_unixtime :: "u32 \<Rightarrow> int" where
  "atsctime_to_unixtime atsc = uint (atsc + GPS_EPOCH)"

definition unixtime_to_atsctime :: "int \<Rightarrow> u32" where
  "unixtime_to_atsctime t = of_int (t - uint GPS_EPOCH)"

end
