(* ===== verification/Atsc_Text_Props.thy ===== *)
theory Atsc_Text_Props
  imports Atsc_Text
begin

text \<open>
  What the ATSC text functions do: the decoder inverts the compression, and every text can be compressed; it stays in
  its buffers except for one character that has no tree; validated texts are walked as they were laid out.
\<close>

section \<open>The bits of a buffer\<close>

definition byte_bits :: "u8 \<Rightarrow> bool list" where
  "byte_bits b = map (\<lambda>i. bit b (7 - i)) [0..<8]"

definition all_bits :: "u8 list \<Rightarrow> bool list" where
  "all_bits bs = concat (map byte_bits bs)"

lemma length_byte_bits [simp]: "length (byte_bits b) = 8"
  by (simp add: byte_bits_def)

lemma length_all_bits [simp]: "length (all_bits bs) = 8 * length bs"
  by (induction bs) (simp_all add: all_bits_def)

lemma all_bits_nth: "i < length bs \<Longrightarrow> j < 8 \<Longrightarrow> all_bits bs ! (8 * i + j) = bit (bs ! i) (7 - j)"
proof (induction bs arbitrary: i)
  case (Cons b bs)
  then show ?case by (cases i) (simp_all add: all_bits_def byte_bits_def nth_append)
qed simp

definition hb_ok :: "huffbuff \<Rightarrow> bool" where
  "hb_ok h \<longleftrightarrow> buf h + buf_len h \<le> length (buf_mem h) \<and> cur_bit h < 8 \<and> cur_byte h \<le> buf_len h \<and> (cur_byte h = buf_len h \<longrightarrow> cur_bit h = 0)"

text \<open>The bits that are left.\<close>

definition rest :: "huffbuff \<Rightarrow> bool list" where
  "rest h = drop (8 * cur_byte h + cur_bit h) (all_bits (take (buf_len h) (drop (buf h) (buf_mem h))))"

lemma rest_init: "p + n \<le> length m \<Longrightarrow> hb_ok (huffbuff_init m p n) \<and> rest (huffbuff_init m p n) = all_bits (take n (drop p m))"
  by (auto simp: hb_ok_def rest_def huffbuff_init_def)

lemma length_rest: "hb_ok h \<Longrightarrow> length (rest h) = 8 * buf_len h - (8 * cur_byte h + cur_bit h)"
  by (auto simp: rest_def hb_ok_def min_def)

lemma rest_Nil: "hb_ok h \<Longrightarrow> rest h = [] \<longleftrightarrow> \<not> cur_byte h < buf_len h"
  using length_rest [of h] by (auto simp: hb_ok_def)

lemma bit_top: "bit (0x80 :: u8) m \<longleftrightarrow> m = 7"
proof -
  have e: "(0x80 :: u8) = 2 ^ 7" by simp
  show ?thesis unfolding e bit_exp_iff by (cases "m = 7") simp_all
qed

lemma test_bit:
  assumes "k < 8"
  shows "b AND drop_bit k 0x80 \<noteq> (0 :: u8) \<longleftrightarrow> bit b (7 - k)"
proof -
  have "bit (drop_bit k (0x80 :: u8)) n \<longleftrightarrow> n = 7 - k" for n
    unfolding bit_drop_bit_eq comp_def bit_top using assms by auto
  moreover have "b AND x \<noteq> 0 \<longleftrightarrow> (\<exists>n. bit b n \<and> bit x n)" for x :: u8
    by (auto simp: bit_eq_iff bit_and_iff dest: bit_imp_le_length)
  ultimately show ?thesis by simp
qed

lemma rest_step:
  assumes "hb_ok h" "rest h = b # bs"
  shows "hb_ok (next_bit h) \<and> rest (next_bit h) = bs
    \<and> (\<exists>v. rd (buf_mem h) (buf h + cur_byte h) = Some v \<and> (v AND drop_bit (cur_bit h) 0x80 \<noteq> 0 \<longleftrightarrow> b))"
proof -
  let ?bs = "take (buf_len h) (drop (buf h) (buf_mem h))" and ?k = "8 * cur_byte h + cur_bit h"
  have c: "cur_byte h < buf_len h" "cur_bit h < 8" "buf h + buf_len h \<le> length (buf_mem h)"
    using rest_Nil [OF assms(1)] assms by (auto simp: hb_ok_def)
  have k: "8 * cur_byte (next_bit h) + cur_bit (next_bit h) = Suc ?k" "buf (next_bit h) = buf h" "buf_len (next_bit h) = buf_len h" "buf_mem (next_bit h) = buf_mem h"
    using c by (simp_all add: next_bit_def)
  have "rest (next_bit h) = drop (Suc ?k) (all_bits ?bs)" by (simp add: rest_def k)
  also have "\<dots> = tl (rest h)" by (simp add: rest_def drop_Suc tl_drop)
  finally have r: "rest (next_bit h) = bs" using assms(2) by simp
  have "?k < length (all_bits ?bs)" using c by simp
  then have "b = all_bits ?bs ! ?k" using assms(2) unfolding rest_def by (metis Cons_nth_drop_Suc list.inject)
  also have "\<dots> = bit (buf_mem h ! (buf h + cur_byte h)) (7 - cur_bit h)" using c by (simp add: all_bits_nth)
  finally have "b = bit (buf_mem h ! (buf h + cur_byte h)) (7 - cur_bit h)" .
  moreover have "hb_ok (next_bit h)" using c by (auto simp: hb_ok_def next_bit_def)
  ultimately show ?thesis using r c test_bit [OF c(2)] by simp
qed

definition bits_value :: "u8 \<Rightarrow> bool list \<Rightarrow> u8" where
  "bits_value r bs = foldl (\<lambda>r b. if b then push_bit 1 r OR 1 else push_bit 1 r) r bs"

lemma read_bits_rest:
  assumes "hb_ok h" "rest h = bs @ tail"
  shows "\<exists>h'. read_bits (length bs) h r = Some (h', uint (bits_value r bs)) \<and> hb_ok h' \<and> rest h' = tail"
  using assms
proof (induction bs arbitrary: h r)
  case Nil
  then show ?case by (simp add: bits_value_def)
next
  case (Cons b bs)
  let ?r = "if b then push_bit 1 r OR 1 else push_bit 1 r"
  from rest_step [of h b "bs @ tail"] Cons.prems obtain v where s: "hb_ok (next_bit h)" "rest (next_bit h) = bs @ tail"
    "rd (buf_mem h) (buf h + cur_byte h) = Some v" "(v AND drop_bit (cur_bit h) 0x80 \<noteq> 0) = b" by auto
  have "cur_byte h < buf_len h" using rest_Nil Cons.prems by force
  then have "read_bits (length (b # bs)) h r = read_bits (length bs) (next_bit h) ?r"
    using s(3,4) by (auto simp: Let_def)
  with Cons.IH [OF s(1,2), of ?r] show ?case by (simp add: bits_value_def)
qed

lemma read_bits_short:
  assumes "hb_ok h" "length (rest h) < n"
  shows "\<exists>h'. read_bits n h r = Some (h', -1)"
  using assms
proof (induction n arbitrary: h r)
  case (Suc n)
  show ?case
  proof (cases "rest h")
    case Nil
    then show ?thesis using rest_Nil [OF Suc.prems(1)] by simp
  next
    case (Cons b bs)
    from rest_step [OF Suc.prems(1) Cons] obtain v where s: "hb_ok (next_bit h)" "rest (next_bit h) = bs"
      "rd (buf_mem h) (buf h + cur_byte h) = Some v" by auto
    have "cur_byte h < buf_len h" using rest_Nil [OF Suc.prems(1)] Cons by force
    with s Suc.IH [OF s(1)] Suc.prems(2) Cons show ?thesis by (simp add: Let_def)
  qed
qed simp

lemma shift_bit: "bit (if b then push_bit 1 x OR 1 else push_bit 1 x :: u8) n = (if n = 0 then b else n < 8 \<and> bit x (n - 1))"
  by (cases b; cases n) (simp_all only: if_True if_False bit_or_iff bit_push_bit_iff bit_1_iff, simp_all)

lemma bits_value_bit:
  "n < 8 \<Longrightarrow> bit (bits_value r bs) n = (if n < length bs then bs ! (length bs - 1 - n) else bit r (n - length bs))"
proof (induction bs arbitrary: n rule: rev_induct)
  case (snoc b bs)
  have "bit (bits_value r (bs @ [b])) n = (if n = 0 then b else n < 8 \<and> bit (bits_value r bs) (n - 1))"
    unfolding bits_value_def by (simp only: foldl_append foldl.simps shift_bit)
  then show ?case using snoc.IH [of "n - 1"] snoc.prems by (cases n) (auto simp: nth_append)
qed (simp add: bits_value_def)

lemma bits_value_byte: "bits_value 0 (byte_bits c) = c"
proof (rule bit_word_eqI)
  fix n assume "n < LENGTH(8)"
  then have n: "n < 8" "7 - n < 8" by simp_all
  then have "byte_bits c ! (7 - n) = bit c (7 - (7 - n))" unfolding byte_bits_def by (subst nth_map) (simp_all add: nth_upt)
  then show "bit (bits_value 0 (byte_bits c)) n = bit c n" using n by (simp add: bits_value_bit)
qed

lemma one_bit:
  assumes "hb_ok h" "rest h = b # bs"
  shows "\<exists>h'. huffbuff_bits h 1 = Some (h', of_bool b) \<and> hb_ok h' \<and> rest h' = bs"
  using read_bits_rest [of h "[b]" bs 0] assms by (auto simp: huffbuff_bits_def bits_value_def)

lemma one_byte:
  assumes "hb_ok h" "rest h = byte_bits c @ bs"
  shows "\<exists>h'. huffbuff_bits h 8 = Some (h', uint c) \<and> hb_ok h' \<and> rest h' = bs"
  using read_bits_rest [of h "byte_bits c" bs 0] assms by (auto simp: huffbuff_bits_def bits_value_byte)

lemma bits_of_byte: "length bs = 8 \<Longrightarrow> byte_bits (bits_value 0 bs) = bs"
proof (rule nth_equalityI)
  fix i assume "length bs = 8" "i < length (byte_bits (bits_value 0 bs))"
  moreover from this have "byte_bits (bits_value 0 bs) ! i = bit (bits_value 0 bs) (7 - i)"
    unfolding byte_bits_def by (subst nth_map) (simp_all add: nth_upt)
  moreover have "7 - i < 8" by simp
  ultimately show "byte_bits (bits_value 0 bs) ! i = bs ! i" by (simp add: bits_value_bit)
qed simp

section \<open>The output\<close>

fun dest_ok :: "textbuf \<Rightarrow> bool" where
  "dest_ok d \<longleftrightarrow> (case destbuf d of
      Null \<Rightarrow> destbuflen d = 0 \<and> destbufpos d = 0
    | Live m \<Rightarrow> length m = destbuflen d \<and> destbufpos d \<le> destbuflen d
    | _ \<Rightarrow> False)"

declare dest_ok.simps [simp del]

definition dest_text :: "textbuf \<Rightarrow> u8 list" where
  "dest_text d = (case destbuf d of Live m \<Rightarrow> take (destbufpos d) m | _ \<Rightarrow> [])"

definition utf8 :: "u8 \<Rightarrow> u8 list" where
  "utf8 c = the (utf8_char (ucast c))"

lemma utf8_length: "utf8_char c = Some xs \<Longrightarrow> 0 < length xs \<and> length xs \<le> 3"
  by (auto simp: utf8_char_def split: if_splits)

lemma utf8_Some: "utf8_char (ucast (c :: u8)) = Some (utf8 c)"
proof -
  have "unat (ucast c :: u32) < 256" using unat_byte_lt [of c] by (simp add: unsigned_ucast_eq take_bit_nat_eq_self)
  then have "(ucast c :: u32) < 0x800" by (simp add: word_less_nat_alt)
  then show ?thesis by (auto simp: utf8_def utf8_char_def)
qed

lemma dest_length: "dest_ok d \<Longrightarrow> length (dest_text d) = destbufpos d \<and> destbufpos d \<le> destbuflen d"
  by (auto simp: dest_ok.simps dest_text_def split: cptr.splits)

lemma dest_text_Live: "destbuf d = Live m \<Longrightarrow> dest_text d = take (destbufpos d) m"
  by (simp add: dest_text_def)

lemma dest_grow:
  assumes "dest_ok d" "0 < k"
  shows "\<exists>w' new old. realloc w (destbuf d) (destbuflen d + k) = Some (w', new, old)
    \<and> (if os_malloc w (os_now w) then \<exists>x. new = Live (dest_text d @ x) \<and> length (dest_text d @ x) = destbuflen d + k
       else new = Null \<and> old = destbuf d) \<and> w' = os_tick w"
proof (cases "destbuf d")
  case Null
  then show ?thesis using assms by (auto simp: dest_ok.simps realloc_def malloc_def dest_text_def fresh_def)
next
  case (Live m)
  have l: "length m = destbuflen d" "destbufpos d \<le> destbuflen d" using assms(1) Live by (simp_all add: dest_ok.simps)
  let ?n = "destbuflen d + k"
  let ?new = "m @ drop (length m) (fresh w ?n)"
  have "take ?n ?new = dest_text d @ drop (destbufpos d) ?new" "length ?new = ?n"
    using l Live by (simp_all add: dest_text_def fresh_def flip: append_assoc)
  then show ?thesis using Live assms(2) l dest_length [OF assms(1)]
    by (auto simp: realloc_def malloc_def intro!: exI [of _ "drop (destbufpos d) ?new"])
qed (use assms in \<open>simp_all add: dest_ok.simps\<close>)

text \<open>Appending a character: it always returns, and when it succeeds the character is at the end.\<close>

lemma append_char:
  assumes "dest_ok d"
  shows "wp (append_unicode_char c (w, d)) (\<lambda>((w', d'), r). dest_ok d'
    \<and> (\<forall>xs. r = 0 \<longrightarrow> utf8_char c = Some xs \<longrightarrow> dest_text d' = dest_text d @ xs)
    \<and> (plenty w \<longrightarrow> plenty w' \<and> (utf8_char c \<noteq> None \<longrightarrow> r = 0)))"
proof (cases "utf8_char c")
  case None
  then show ?thesis using assms by (simp add: append_unicode_char_def wp_Some)
next
  case (Some xs)
  have xs: "length xs \<le> 3" using utf8_length [OF Some] by simp
  show ?thesis
  proof (cases "destbufpos d + length xs \<ge> destbuflen d")
    case True
    obtain w' new old where g: "realloc w (destbuf d) (destbuflen d + 20) = Some (w', new, old)"
      "if os_malloc w (os_now w) then \<exists>x. new = Live (dest_text d @ x) \<and> length (dest_text d @ x) = destbuflen d + 20
       else new = Null \<and> old = destbuf d" "w' = os_tick w"
      using dest_grow [OF assms, of 20 w] by auto
    show ?thesis
    proof (cases "os_malloc w (os_now w)")
      case False
      with g Some True assms show ?thesis
        by (auto simp: append_unicode_char_def DEST_ALLOC_DELTA_def wp_Some plenty_def dest_ok.simps)
    next
      case m: True
      then obtain x where x: "new = Live (dest_text d @ x)" "length (dest_text d @ x) = destbuflen d + 20" using g(2) by auto
      have p: "length (dest_text d) = destbufpos d" "destbufpos d \<le> destbuflen d"
        using dest_length [OF assms] by simp_all
      have "destbufpos d + length xs \<le> length (dest_text d @ x)" using p x(2) xs by simp
      then have "blit (dest_text d @ x) (destbufpos d) xs = Some (dest_text d @ xs @ drop (length xs) x)"
        using p by (simp add: blit_def)
      with g Some True x p xs show ?thesis
        by (auto simp: append_unicode_char_def DEST_ALLOC_DELTA_def wp_Some dest_ok.simps dest_text_Live [of _ "dest_text d @ xs @ drop (length xs) x"])
    qed
  next
    case False
    then obtain m where m: "destbuf d = Live m" "length m = destbuflen d" "destbufpos d + length xs \<le> length m"
      using assms by (auto simp: dest_ok.simps split: cptr.splits)
    then show ?thesis using False Some
      by (auto simp: append_unicode_char_def wp_Some dest_ok.simps dest_text_def)
  qed
qed

section \<open>Decoding a code\<close>

text \<open>What the loop does at an escape and at a literal.\<close>

definition after_escape :: "hufftree_entry list list \<Rightarrow> huffbuff \<Rightarrow> os \<times> textbuf \<Rightarrow> ((os \<times> textbuf) \<times> int) option" where
  "after_escape hufftree hbuf st = do {
     (hbuf, st, tmp) \<leftarrow> huffman_decode_uncompressed hbuf st;
     if tmp < 0 then Some (st, tmp)
     else if tmp = 0 then Some (st, int (destbufpos (snd st)))
     else huffman_loop hufftree (nat tmp) 0 hbuf st }"

definition after_literal :: "hufftree_entry list list \<Rightarrow> u8 \<Rightarrow> huffbuff \<Rightarrow> os \<times> textbuf \<Rightarrow> ((os \<times> textbuf) \<times> int) option" where
  "after_literal hufftree c hbuf st =
     (if c = HUFFSTRING_END then Some (st, 0)
      else if c = HUFFSTRING_ESCAPE then after_escape hufftree hbuf st
      else do {
        (st, r) \<leftarrow> append_unicode_char (ucast c) st;
        if r \<noteq> 0 then Some (st, -1) else huffman_loop hufftree (unat c) 0 hbuf st })"

lemma literal_mask: "v AND HUFFTREE_LITERAL_MASK \<noteq> 0 \<longleftrightarrow> bit v 7" "NOT HUFFTREE_LITERAL_MASK = 0x7f"
  using test_bit [of 0 v] by (simp_all add: HUFFTREE_LITERAL_MASK_def)

lemma index_small: "\<not> bit (v :: u8) 7 \<Longrightarrow> unat v < 128"
proof -
  assume "\<not> bit v 7"
  then have "take_bit 7 v = v"
    by (intro bit_word_eqI) (auto simp: bit_take_bit_iff less_Suc_eq numeral_eq_Suc dest: bit_imp_le_length)
  then have "unat v = take_bit 7 (unat v)" by (metis unsigned_take_bit_eq)
  then show ?thesis using take_bit_nat_less_exp [of 7 "unat v"] by simp
qed

lemma huffman_step:
  assumes "hb_ok h" "rest h = b # bs" "tree_entry tbl p i = Some x"
  defines "v \<equiv> if b then snd x else fst x"
  shows "\<exists>h'. huffman_loop tbl p i h st
      = (if bit v 7 then after_literal tbl (v AND 0x7f) h' st else huffman_loop tbl p (unat v) h' st) \<and> hb_ok h' \<and> rest h' = bs"
proof -
  obtain h' where h': "huffbuff_bits h 1 = Some (h', of_bool b)" "hb_ok h'" "rest h' = bs" using one_bit [OF assms(1,2)] by blast
  have c: "cur_byte h < buf_len h" using rest_Nil [OF assms(1)] assms(2) by force
  have "huffman_loop tbl p i h st
      = (if bit v 7 then after_literal tbl (v AND 0x7f) h' st else huffman_loop tbl p (unat v) h' st)"
    using c h'(1) assms(3) unfolding v_def
    by (subst huffman_loop.simps) (cases b; simp add: Let_def literal_mask after_literal_def after_escape_def)
  with h' show ?thesis by blast
qed

lemma loop_follow:
  assumes "hb_ok h" "rest h = bs @ tail" "p < length tbl" "follow (tbl ! p) i bs = Some c" "i < 128"
  shows "\<exists>h'. huffman_loop tbl p i h st = after_literal tbl c h' st \<and> hb_ok h' \<and> rest h' = tail"
  using assms
proof (induction bs arbitrary: h i)
  case (Cons b bs)
  let ?x = "tbl ! p ! i" and ?v = "if b then snd (tbl ! p ! i) else fst (tbl ! p ! i)"
  have e: "tree_entry tbl p i = Some ?x" using Cons.prems(3-5) by (simp add: tree_entry_def split: if_splits)
  from huffman_step [OF Cons.prems(1) _ e, of b "bs @ tail" st] Cons.prems(2) obtain h' where
    h': "huffman_loop tbl p i h st = (if bit ?v 7 then after_literal tbl (?v AND 0x7f) h' st else huffman_loop tbl p (unat ?v) h' st)"
      "hb_ok h'" "rest h' = bs @ tail" by auto
  show ?case
  proof (cases "bit ?v 7")
    case True
    then have "bs = []" "c = ?v AND 0x7f" using Cons.prems(4) by (simp_all add: Let_def split: if_splits)
    with h' True show ?thesis by auto
  next
    case False
    then have "follow (tbl ! p) (unat ?v) bs = Some c" using Cons.prems(4) by (simp add: Let_def split: if_splits)
    from Cons.IH [OF h'(2,3) Cons.prems(3) this index_small [OF False]] h'(1) False show ?thesis by simp
  qed
qed simp

section \<open>Compressed texts\<close>

text \<open>
  \<open>encodes tbl ctx cs bits\<close>: the bits are a compression of the characters, after the character \<open>p\<close> for the context
  \<open>Some p\<close>, and uncompressed for \<open>None\<close>.  A text ends with the buffer or with the character \<open>HUFFSTRING_END\<close>, after
  which anything may follow.
\<close>

inductive encodes :: "hufftree_entry list list \<Rightarrow> nat option \<Rightarrow> u8 list \<Rightarrow> bool list \<Rightarrow> bool" for tbl where
  end_buffer: "encodes tbl ctx [] []"
| end_code: "p < length tbl \<Longrightarrow> follow (tbl ! p) 0 bs = Some HUFFSTRING_END \<Longrightarrow> encodes tbl (Some p) [] (bs @ pad)"
| code: "p < length tbl \<Longrightarrow> follow (tbl ! p) 0 bs = Some c \<Longrightarrow> c \<noteq> HUFFSTRING_END \<Longrightarrow> c \<noteq> HUFFSTRING_ESCAPE
    \<Longrightarrow> encodes tbl (Some (unat c)) cs bits \<Longrightarrow> encodes tbl (Some p) (c # cs) (bs @ bits)"
| escape: "p < length tbl \<Longrightarrow> follow (tbl ! p) 0 bs = Some HUFFSTRING_ESCAPE \<Longrightarrow> encodes tbl None cs bits
    \<Longrightarrow> encodes tbl (Some p) cs (bs @ bits)"
| end_byte: "encodes tbl None [] (byte_bits HUFFSTRING_END @ pad)"
| high: "0x80 \<le> c \<Longrightarrow> encodes tbl None cs bits \<Longrightarrow> encodes tbl None (c # cs) (byte_bits c @ bits)"
| low: "c < 0x80 \<Longrightarrow> c \<noteq> HUFFSTRING_END \<Longrightarrow> c \<noteq> HUFFSTRING_ESCAPE \<Longrightarrow> encodes tbl (Some (unat c)) cs bits
    \<Longrightarrow> encodes tbl None (c # cs) (byte_bits c @ bits)"

text \<open>The decoder has appended the characters \<open>cs\<close>.\<close>

definition decoded :: "textbuf \<Rightarrow> u8 list \<Rightarrow> (os \<times> textbuf) \<times> int \<Rightarrow> bool" where
  "decoded d cs = (\<lambda>((w', d'), r). dest_ok d' \<and> plenty w' \<and> dest_text d' = dest_text d @ concat (map utf8 cs)
     \<and> (r = int (destbufpos d') \<or> r = 0))"

lemma append_ok:
  assumes "dest_ok d" "plenty w"
  shows "\<exists>w' d'. append_unicode_char (ucast c) (w, d) = Some ((w', d'), 0) \<and> dest_ok d' \<and> plenty w' \<and> dest_text d' = dest_text d @ utf8 c"
  using append_char [OF assms(1), of "ucast c" w] assms(2) utf8_Some [of c] by (auto simp: wp_def)

lemma uncompressed_step:
  assumes "hb_ok h" "rest h = byte_bits c @ bs"
  shows "\<exists>h'. huffman_decode_uncompressed h st =
      (if c = HUFFSTRING_END then Some (h', st, 0)
       else if c = HUFFSTRING_ESCAPE then Some (h', st, uint HUFFSTRING_ESCAPE)
       else do { (st, r) \<leftarrow> append_unicode_char (ucast c) st;
          if r \<noteq> 0 then Some (h', st, -1)
          else if c < 0x80 then Some (h', st, uint c)
          else huffman_decode_uncompressed h' st }) \<and> hb_ok h' \<and> rest h' = bs"
proof -
  obtain h' where h': "huffbuff_bits h 8 = Some (h', uint c)" "hb_ok h'" "rest h' = bs" using one_byte [OF assms] by blast
  have "rest h \<noteq> []" using assms(2) by (auto dest: arg_cong [where f = length])
  then have "cur_byte h < buf_len h" using rest_Nil [OF assms(1)] by blast
  moreover have "uint c < 0x80 \<longleftrightarrow> c < 0x80" "uint c = 27 \<longleftrightarrow> c = 27" "uint c = 0 \<longleftrightarrow> c = 0"
    by (simp_all add: word_less_def word_uint_eq_iff)
  ultimately have "huffman_decode_uncompressed h st =
      (if c = HUFFSTRING_END then Some (h', st, 0)
       else if c = HUFFSTRING_ESCAPE then Some (h', st, uint HUFFSTRING_ESCAPE)
       else do { (st, r) \<leftarrow> append_unicode_char (ucast c) st;
          if r \<noteq> 0 then Some (h', st, -1)
          else if c < 0x80 then Some (h', st, uint c)
          else huffman_decode_uncompressed h' st })"
    using h'(1) by (subst huffman_decode_uncompressed.simps) (simp add: HUFFSTRING_END_def HUFFSTRING_ESCAPE_def cong: if_cong)
  with h' show ?thesis by blast
qed

lemma encodes_decoded:
  assumes "encodes tbl ctx cs bits" "hb_ok h" "rest h = bits" "dest_ok d" "plenty w"
  shows "case ctx of Some p \<Rightarrow> wp (huffman_loop tbl p 0 h (w, d)) (decoded d cs) | None \<Rightarrow> wp (after_escape tbl h (w, d)) (decoded d cs)"
  using assms
proof (induction arbitrary: h w d rule: encodes.induct)
  case (end_buffer ctx)
  then have "\<not> cur_byte h < buf_len h" using rest_Nil by blast
  then show ?case using end_buffer.prems
    by (auto simp: huffman_loop.simps after_escape_def huffman_decode_uncompressed.simps HUFFSTRING_END_def decoded_def wp_Some split: option.splits)
next
  case (end_code p bs pad)
  from loop_follow [OF end_code.prems(1,2) end_code.hyps, of "(w, d)"] end_code.prems show ?case
    by (auto simp: after_literal_def decoded_def wp_Some)
next
  case (code p bs c cs bits)
  from loop_follow [OF code.prems(1,2) code.hyps(1,2), of "(w, d)"] obtain h' where
    h': "huffman_loop tbl p 0 h (w, d) = after_literal tbl c h' (w, d)" "hb_ok h'" "rest h' = bits" by auto
  from append_ok [OF code.prems(3,4), of c] obtain w' d' where
    a: "append_unicode_char (ucast c) (w, d) = Some ((w', d'), 0)" "dest_ok d'" "plenty w'" "dest_text d' = dest_text d @ utf8 c" by blast
  have "wp (huffman_loop tbl (unat c) 0 h' (w', d')) (decoded d' cs)" using code.IH [OF h'(2,3) a(2,3)] by simp
  then show ?case using h'(1) a(1,4) code.hyps(3,4)
    by (simp add: after_literal_def) (erule wp_mono, auto simp: decoded_def)
next
  case (escape p bs cs bits)
  from loop_follow [OF escape.prems(1,2) escape.hyps(1,2), of "(w, d)"] obtain h' where
    h': "huffman_loop tbl p 0 h (w, d) = after_literal tbl HUFFSTRING_ESCAPE h' (w, d)" "hb_ok h'" "rest h' = bits" by auto
  from escape.IH [OF h'(2,3) escape.prems(3,4)] h'(1) show ?case
    by (simp add: after_literal_def HUFFSTRING_ESCAPE_def HUFFSTRING_END_def)
next
  case (end_byte pad)
  from uncompressed_step [OF end_byte.prems(1,2), of "(w, d)"] end_byte.prems show ?case
    by (auto simp: after_escape_def decoded_def wp_Some)
next
  case (high c cs bits)
  have "c \<noteq> HUFFSTRING_END" "c \<noteq> HUFFSTRING_ESCAPE" "\<not> c < 0x80"
    using high.hyps(1) by (auto simp: HUFFSTRING_ESCAPE_def HUFFSTRING_END_def)
  with uncompressed_step [OF high.prems(1,2), of "(w, d)"] obtain h' where h': "hb_ok h'" "rest h' = bits"
    and u: "huffman_decode_uncompressed h (w, d) = do { (st, r) \<leftarrow> append_unicode_char (ucast c) (w, d);
       if r \<noteq> 0 then Some (h', st, -1) else huffman_decode_uncompressed h' st }"
    by (auto cong: if_cong)
  from append_ok [OF high.prems(3,4), of c] obtain w' d' where
    a: "append_unicode_char (ucast c) (w, d) = Some ((w', d'), 0)" "dest_ok d'" "plenty w'" "dest_text d' = dest_text d @ utf8 c" by blast
  have "wp (after_escape tbl h' (w', d')) (decoded d' cs)" using high.IH [OF h' a(2,3)] by simp
  moreover have "after_escape tbl h (w, d) = after_escape tbl h' (w', d')" by (simp add: after_escape_def u a(1))
  ultimately show ?case using a(4) by simp (erule wp_mono, auto simp: decoded_def)
next
  case (low c cs bits)
  from uncompressed_step [OF low.prems(1,2), of "(w, d)"] obtain h' where h': "hb_ok h'" "rest h' = bits"
    and u: "huffman_decode_uncompressed h (w, d) = do { (st, r) \<leftarrow> append_unicode_char (ucast c) (w, d);
       if r \<noteq> 0 then Some (h', st, -1) else Some (h', st, uint c) }"
    using low.hyps(1-3) by (auto cong: if_cong)
  from append_ok [OF low.prems(3,4), of c] obtain w' d' where
    a: "append_unicode_char (ucast c) (w, d) = Some ((w', d'), 0)" "dest_ok d'" "plenty w'" "dest_text d' = dest_text d @ utf8 c" by blast
  have "wp (huffman_loop tbl (unat c) 0 h' (w', d')) (decoded d' cs)" using low.IH [OF h' a(2,3)] by simp
  moreover have "uint c \<noteq> 0" using low.hyps(2) by (simp add: HUFFSTRING_END_def word_uint_eq_iff)
  then have "after_escape tbl h (w, d) = huffman_loop tbl (unat c) 0 h' (w', d')"
    by (simp add: after_escape_def u a(1) not_less nat_uint_eq)
  ultimately show ?case using a(4) by simp (erule wp_mono, auto simp: decoded_def)
qed

section \<open>Every text can be compressed\<close>

definition plain :: "u8 \<Rightarrow> bool" where
  "plain c \<longleftrightarrow> c \<noteq> HUFFSTRING_END \<and> c \<noteq> HUFFSTRING_ESCAPE \<and> c \<noteq> 0x7f"

lemma plain_low: "plain c \<Longrightarrow> c < 0x80 \<Longrightarrow> unat c < 127"
proof -
  assume "plain c" "c < 0x80"
  then have "unat c \<noteq> 127" "unat c < 128" by (auto simp: plain_def word_unat_eq_iff word_less_nat_alt)
  then show ?thesis by linarith
qed

lemma encodable:
  assumes "hufftrees_ok tbl" "list_all plain cs"
  shows "p < 127 \<Longrightarrow> \<exists>bits. \<forall>pad. encodes tbl (Some p) cs (bits @ pad)" "\<exists>bits. \<forall>pad. encodes tbl None cs (bits @ pad)"
proof -
  have esc: "\<exists>bits. \<forall>pad. encodes tbl (Some p) cs (bits @ pad)"
    if p: "p < 127" and raw: "\<exists>bits. \<forall>pad. encodes tbl None cs (bits @ pad)" for p cs
  proof -
    have "tbl ! p \<in> set tbl" "p < length tbl" using p assms(1) by (simp_all add: hufftrees_ok_def)
    then obtain e where "follow (tbl ! p) 0 e = Some HUFFSTRING_ESCAPE" using assms(1) unfolding hufftrees_ok_def by blast
    moreover obtain bits where "\<forall>pad. encodes tbl None cs (bits @ pad)" using raw by blast
    ultimately have "\<forall>pad. encodes tbl (Some p) cs ((e @ bits) @ pad)"
      using \<open>p < length tbl\<close> encodes.escape [of p tbl e cs] by simp
    then show ?thesis by blast
  qed
  have raw: "\<exists>bits. \<forall>pad. encodes tbl None cs (bits @ pad)" if "list_all plain cs" for cs
    using that
  proof (induction cs)
    case Nil
    show ?case by (rule exI [of _ "byte_bits HUFFSTRING_END"]) (simp add: encodes.end_byte)
  next
    case (Cons c cs)
    then obtain bits where b: "\<forall>pad. encodes tbl None cs (bits @ pad)" by auto
    show ?case
    proof (cases "c < 0x80")
      case True
      then obtain bits' where "\<forall>pad. encodes tbl (Some (unat c)) cs (bits' @ pad)"
        using esc [OF plain_low [of c] exI, of cs bits] b Cons.prems by auto
      then have "\<forall>pad. encodes tbl None (c # cs) ((byte_bits c @ bits') @ pad)"
        using True Cons.prems encodes.low [of c tbl cs] by (simp add: plain_def)
      then show ?thesis by blast
    next
      case False
      then have "\<forall>pad. encodes tbl None (c # cs) ((byte_bits c @ bits) @ pad)"
        using b encodes.high [of c tbl cs] by simp
      then show ?thesis by blast
    qed
  qed
  then show "\<exists>bits. \<forall>pad. encodes tbl None cs (bits @ pad)" using assms(2) by blast
  then show "p < 127 \<Longrightarrow> \<exists>bits. \<forall>pad. encodes tbl (Some p) cs (bits @ pad)" by (rule esc [rotated])
qed

lemma bytes_of_bits: "length bits = 8 * n \<Longrightarrow> \<exists>src. all_bits src = bits"
proof (induction n arbitrary: bits)
  case 0
  then show ?case by (auto simp: all_bits_def intro: exI [of _ "[]"])
next
  case (Suc n)
  then obtain src where "all_bits src = drop 8 bits" by fastforce
  then have "all_bits (bits_value 0 (take 8 bits) # src) = bits"
    using Suc.prems by (simp add: all_bits_def bits_of_byte)
  then show ?case by blast
qed

section \<open>Safety\<close>

text \<open>The byte 0x7f at no offset of the bits.\<close>

definition no_7f :: "bool list \<Rightarrow> bool" where
  "no_7f bits \<longleftrightarrow> (\<forall>i. take 8 (drop i bits) \<noteq> byte_bits 0x7f)"

lemma no_7f_drop: "no_7f (xs @ ys) \<Longrightarrow> no_7f ys"
  by (metis append_eq_conv_conj drop_drop no_7f_def)

lemma wp_True: "wp f (\<lambda>_. True) \<longleftrightarrow> f \<noteq> None"
  by (auto simp: wp_def)

lemma append_safe: "dest_ok d \<Longrightarrow> \<exists>w' d' r. append_unicode_char c (w, d) = Some ((w', d'), r) \<and> dest_ok d'"
  using append_char [of d c w] by (auto simp: wp_def)

lemma uncompressed_safe:
  assumes "hb_ok h" "no_7f (rest h)" "dest_ok d"
  shows "\<exists>h' w' d' r. huffman_decode_uncompressed h (w, d) = Some (h', (w', d'), r) \<and> dest_ok d'
    \<and> (0 < r \<longrightarrow> r < 127 \<and> hb_ok h' \<and> no_7f (rest h') \<and> length (rest h') < length (rest h))"
  using assms
proof (induction "length (rest h)" arbitrary: h w d rule: less_induct)
  case less
  show ?case
  proof (cases "length (rest h) < 8")
    case True
    show ?thesis
    proof (cases "rest h = []")
      case True
      then have "\<not> cur_byte h < buf_len h" using rest_Nil less.prems(1) by blast
      then show ?thesis using less.prems by (subst huffman_decode_uncompressed.simps) (auto simp: HUFFSTRING_END_def)
    next
      case False
      then have "cur_byte h < buf_len h" using rest_Nil less.prems(1) by blast
      moreover obtain h' where "huffbuff_bits h 8 = Some (h', -1)"
        using read_bits_short [OF less.prems(1) True] by (auto simp: huffbuff_bits_def)
      ultimately show ?thesis using less.prems(3) by (subst huffman_decode_uncompressed.simps) auto
    qed
  next
    case False
    let ?c = "bits_value 0 (take 8 (rest h))"
    have split: "rest h = byte_bits ?c @ drop 8 (rest h)" using False by (simp add: bits_of_byte)
    have "take 8 (drop 0 (rest h)) \<noteq> byte_bits 0x7f" using less.prems(2) unfolding no_7f_def by blast
    then have c: "?c \<noteq> 0x7f" using False bits_of_byte [of "take 8 (rest h)"] by auto
    from uncompressed_step [OF less.prems(1) split, of "(w, d)"] obtain h' where
      u: "huffman_decode_uncompressed h (w, d) =
        (if ?c = HUFFSTRING_END then Some (h', (w, d), 0)
         else if ?c = HUFFSTRING_ESCAPE then Some (h', (w, d), uint HUFFSTRING_ESCAPE)
         else do { (st, r) \<leftarrow> append_unicode_char (ucast ?c) (w, d);
            if r \<noteq> 0 then Some (h', st, -1) else if ?c < 0x80 then Some (h', st, uint ?c) else huffman_decode_uncompressed h' st })"
      and h': "hb_ok h'" "rest h' = drop 8 (rest h)" by blast
    have n: "no_7f (rest h')" "length (rest h') < length (rest h)"
      using no_7f_drop [of "take 8 (rest h)" "drop 8 (rest h)"] less.prems(2) False h'(2) by simp_all
    obtain w1 d1 r1 where a: "append_unicode_char (ucast ?c) (w, d) = Some ((w1, d1), r1)" "dest_ok d1"
      using append_safe [OF less.prems(3)] by blast
    have low: "uint ?c < 127" if "?c < 0x80"
      using that c by (simp add: word_less_def word_uint_eq_iff)
    show ?thesis
    proof (cases "?c = HUFFSTRING_END \<or> ?c = HUFFSTRING_ESCAPE \<or> r1 \<noteq> 0 \<or> ?c < 0x80")
      case True
      then show ?thesis using u a h' n low less.prems(3) by (auto simp: HUFFSTRING_ESCAPE_def HUFFSTRING_END_def)
    next
      case False
      then have "huffman_decode_uncompressed h (w, d) = huffman_decode_uncompressed h' (w1, d1)" using u a(1) by simp
      with less.hyps [OF n(2) h'(1) n(1) a(2), of w1] n(2) show ?thesis by (auto intro: less_trans)
    qed
  qed
qed


lemma hufftrees_entry:
  assumes "hufftrees_ok tbl" "tree_entry tbl p i = Some x"
  shows "uint (fst x) < 0xff \<and> uint (snd x) < 0xff"
proof -
  have "x = (0, 0) \<or> tbl ! p \<in> set tbl \<and> x \<in> set (tbl ! p)"
    using assms(2) unfolding tree_entry_def by (auto split: if_splits)
  then show ?thesis using assms(1) by (auto simp: hufftrees_ok_def)
qed

lemma literal_small: "uint (v :: u8) < 0xff \<Longrightarrow> bit v 7 \<Longrightarrow> unat (v AND 0x7f) < 127"
proof -
  assume v: "uint v < 0xff" "bit v 7"
  have "(v AND 0x7f) = take_bit 7 v" by (simp add: take_bit_eq_mask mask_eq_exp_minus_1)
  then have "unat (v AND 0x7f) = take_bit 7 (unat v)" by (simp only: unsigned_take_bit_eq)
  also have "\<dots> = unat v mod 128" by (simp add: take_bit_eq_mod)
  finally have "unat (v AND 0x7f) = unat v mod 128" .
  moreover have "unat v < 255" using v(1) by (simp only: unat_eq_nat_uint)
  moreover have "bit (unat v) 7" using v(2) by (simp add: bit_unsigned_iff)
  then have "128 \<le> unat v" by (cases "unat v < 128") (auto simp: bit_iff_odd)
  moreover have "unat v mod 128 = unat v - 128" using calculation by (simp add: mod_if)
  ultimately show ?thesis by simp
qed

lemma loop_safe:
  assumes "hufftrees_ok tbl" "hb_ok h" "no_7f (rest h)" "dest_ok d" "p < 127" "i < 128"
  shows "\<exists>w' d' r. huffman_loop tbl p i h (w, d) = Some ((w', d'), r) \<and> dest_ok d'"
  using assms(2-)
proof (induction "length (rest h)" arbitrary: h p i w d rule: less_induct)
  case less
  show ?case
  proof (cases "rest h")
    case Nil
    then show ?thesis using rest_Nil [OF less.prems(1)] less.prems(3) by (subst huffman_loop.simps) simp
  next
    case (Cons b bs)
    obtain x where x: "tree_entry tbl p i = Some x"
      using less.prems(4,5) assms(1) by (simp add: tree_entry_def hufftrees_ok_def)
    let ?v = "if b then snd x else fst x"
    from huffman_step [OF less.prems(1) Cons x, of "(w, d)"] obtain h' where
      s: "huffman_loop tbl p i h (w, d) = (if bit ?v 7 then after_literal tbl (?v AND 0x7f) h' (w, d) else huffman_loop tbl p (unat ?v) h' (w, d))"
      and h': "hb_ok h'" "rest h' = bs" by blast
    have n: "no_7f (rest h')" "length (rest h') < length (rest h)"
      using no_7f_drop [of "[b]" bs] less.prems(2) h'(2) Cons by simp_all
    have again: "\<exists>w' d' r. huffman_loop tbl q j h1 (w1, d1) = Some ((w', d'), r) \<and> dest_ok d'"
      if "hb_ok h1" "no_7f (rest h1)" "length (rest h1) \<le> length (rest h')" "dest_ok d1" "q < 127" "j < 128" for q j h1 w1 d1
      using less.hyps [OF _ that(1,2,4-6)] that(3) n(2) by simp
    have lit: "unat (?v AND 0x7f) < 127" if "bit ?v 7"
      using literal_small [OF _ that] hufftrees_entry [OF assms(1) x] by simp
    obtain w1 d1 r1 where a: "append_unicode_char (ucast (?v AND 0x7f)) (w, d) = Some ((w1, d1), r1)" "dest_ok d1"
      using append_safe [OF less.prems(3)] by blast
    obtain h2 w2 d2 r2 where u: "huffman_decode_uncompressed h' (w, d) = Some (h2, (w2, d2), r2)" "dest_ok d2"
      "0 < r2 \<longrightarrow> r2 < 127 \<and> hb_ok h2 \<and> no_7f (rest h2) \<and> length (rest h2) < length (rest h')"
      using uncompressed_safe [OF h'(1) n(1) less.prems(3), of w] by blast
    have esc: "\<exists>w' d' r. after_escape tbl h' (w, d) = Some ((w', d'), r) \<and> dest_ok d'"
      using u again [of h2 d2 "nat r2" 0 w2] by (cases "0 < r2") (auto simp: after_escape_def)
    have "\<exists>w' d' r. after_literal tbl (?v AND 0x7f) h' (w, d) = Some ((w', d'), r) \<and> dest_ok d'" if "bit ?v 7"
      using esc a lit [OF that] again [OF h'(1) n(1) _ a(2), of "unat (?v AND 0x7f)" 0 w1] less.prems(3)
      by (auto simp: after_literal_def)
    moreover have "\<exists>w' d' r. huffman_loop tbl p (unat ?v) h' (w, d) = Some ((w', d'), r) \<and> dest_ok d'" if "\<not> bit ?v 7"
      using again [OF h'(1) n(1) _ less.prems(3,4) index_small [OF that]] by simp
    ultimately show ?thesis unfolding s by simp
  qed
qed


section \<open>Segments\<close>

text \<open>A segment with its three bytes of header.\<close>

definition segment_bytes :: "u8 \<Rightarrow> u8 \<Rightarrow> u8 list \<Rightarrow> u8 list" where
  "segment_bytes t md src = [t, md, of_nat (length src)] @ src"

lemma segment_reads:
  assumes "length src < 256"
    and m_def: "m = pre @ segment_bytes t md src @ post"
  shows "rd m (length pre) = Some t" "rd m (length pre + 1) = Some md" "rd m (length pre + 2) = Some (of_nat (length src))"
    "unat (of_nat (length src) :: u8) = length src" "length pre + 3 + length src \<le> length m"
    "take (length src) (drop (length pre + 3) m) = src"
  using assms(1) unfolding m_def segment_bytes_def by (simp_all add: nth_append unat_of_nat_u8)

text \<open>The table of a compression type.\<close>

definition table_of :: "u8 \<Rightarrow> hufftree_entry list list" where
  "table_of t = (if t = ATSC_TEXT_COMPRESS_PROGRAM_TITLE then program_title_hufftree else program_description_hufftree)"

lemma table_of_ok: "hufftrees_ok (table_of t)"
  using tables_ok by (simp add: table_of_def)

lemma compressed_segment:
  assumes "t = ATSC_TEXT_COMPRESS_PROGRAM_TITLE \<or> t = ATSC_TEXT_COMPRESS_PROGRAM_DESCRIPTION" "length src < 256"
  shows "atsc_text_segment_decode (pre @ segment_bytes t 0 src @ post) (length pre) st
    = huffman_loop (table_of t) 0 0 (huffbuff_init (pre @ segment_bytes t 0 src @ post) (length pre + 3) (length src)) st"
proof -
  note r = segment_reads [where pre = pre and t = t and md = 0 and post = post, OF assms(2) refl]
  show ?thesis using assms(1) unfolding atsc_text_segment_decode_def r(1) r(2) r(3) bind.bind_lunit
    by (auto simp: r(4) atsc_text_string_segment_bytes_def huffman_decode_def table_of_def ATSC_TEXT_COMPRESS_NONE_def
      ATSC_TEXT_SEGMENT_MODE_UNICODE_RANGE_MAX_def ATSC_TEXT_COMPRESS_PROGRAM_TITLE_def ATSC_TEXT_COMPRESS_PROGRAM_DESCRIPTION_def Let_def)
qed

lemma compressed_segment_decoded:
  assumes "t = ATSC_TEXT_COMPRESS_PROGRAM_TITLE \<or> t = ATSC_TEXT_COMPRESS_PROGRAM_DESCRIPTION" "length src < 256"
    and "encodes (table_of t) (Some 0) cs (all_bits src)" "dest_ok d" "plenty w"
  shows "wp (atsc_text_segment_decode (pre @ segment_bytes t 0 src @ post) (length pre) (w, d)) (decoded d cs)"
proof -
  let ?m = "pre @ segment_bytes t 0 src @ post"
  note r = segment_reads [where pre = pre and t = t and md = 0 and post = post, OF assms(2) refl]
  have h: "hb_ok (huffbuff_init ?m (length pre + 3) (length src))" "rest (huffbuff_init ?m (length pre + 3) (length src)) = all_bits src"
    using rest_init [OF r(5)] r(6) by simp_all
  show ?thesis using encodes_decoded [OF assms(3) h assms(4,5)] compressed_segment [OF assms(1,2)] by simp
qed

lemma padded: "\<exists>n pad. length (bits @ pad) = 8 * n"
proof -
  have "length bits + (8 - length bits mod 8) = 8 * (length bits div 8 + 1)" by arith
  then show ?thesis by (metis length_append length_replicate)
qed

lemma compressible:
  assumes "list_all plain cs"
  shows "\<exists>src. encodes (table_of t) (Some 0) cs (all_bits src)"
proof -
  obtain bits where b: "\<forall>pad. encodes (table_of t) (Some 0) cs (bits @ pad)"
    using encodable(1) [OF table_of_ok assms, of 0] by auto
  obtain n pad where "length (bits @ pad) = 8 * n" using padded by blast
  then obtain src where "all_bits src = bits @ pad" using bytes_of_bits by blast
  then show ?thesis using b by metis
qed

text \<open>C36: Every text without the characters 0, 0x1b and 0x7f can be compressed; and a segment of either table whose data
  is any compression of the text decodes to its UTF-8, behind what the buffer held.\<close>

theorem atsc_text_roundtrip:
  assumes "t = ATSC_TEXT_COMPRESS_PROGRAM_TITLE \<or> t = ATSC_TEXT_COMPRESS_PROGRAM_DESCRIPTION"
    and "list_all plain cs" "dest_ok d" "plenty w"
  shows "(\<exists>src. encodes (table_of t) (Some 0) cs (all_bits src)) \<and>
    (\<forall>src pre post. length src < 256 \<longrightarrow> encodes (table_of t) (Some 0) cs (all_bits src)
      \<longrightarrow> wp (atsc_text_segment_decode (pre @ segment_bytes t 0 src @ post) (length pre) (w, d)) (decoded d cs))"
  using compressible [OF assms(2)] compressed_segment_decoded [OF assms(1) _ _ assms(3,4)] by blast

definition news :: "u8 list" where "news = [0x4e, 0x65, 0x77, 0x73]"

lemma news_encoded: "encodes (table_of 1) (Some 0) news (all_bits [0x35, 0xec])"
proof -
  let ?t = program_title_hufftree
  have "follow (?t ! 0) 0 [False, False, True, True] = Some 0x4e" "follow (?t ! 0x4e) 0 [False] = Some 0x65"
    "follow (?t ! 0x65) 0 [True, False, True, True, True] = Some 0x77" "follow (?t ! 0x77) 0 [True, False] = Some 0x73"
    "follow (?t ! 0x73) 0 [True, True] = Some HUFFSTRING_END"
    by code_simp+
  then have "encodes ?t (Some 0) news ([False, False, True, True] @ [False] @ [True, False, True, True, True] @ [True, False] @ [True, True] @ [False, False])"
    unfolding news_def by (intro encodes.code encodes.end_code) (simp_all add: table_rows HUFFSTRING_END_def HUFFSTRING_ESCAPE_def)
  moreover have "all_bits [0x35, 0xec] = [False, False, True, True] @ [False] @ [True, False, True, True, True] @ [True, False] @ [True, True] @ [False, False]"
    by code_simp
  ultimately show ?thesis by (simp only: table_of_def ATSC_TEXT_COMPRESS_PROGRAM_TITLE_def if_True refl)
qed

theorem atsc_text_roundtrip_witness:
  "wp (atsc_text_segment_decode ([7] @ segment_bytes 1 0 [0x35, 0xec] @ [8]) (length [7 :: u8])
     (calm_os, \<lparr>destbuf = Null, destbuflen = 0, destbufpos = 0\<rparr>)) (decoded \<lparr>destbuf = Null, destbuflen = 0, destbufpos = 0\<rparr> news)"
proof -
  have "list_all plain news" by (simp add: news_def plain_def HUFFSTRING_END_def HUFFSTRING_ESCAPE_def)
  from atsc_text_roundtrip [of 1, OF _ this _ plenty_calm, of "\<lparr>destbuf = Null, destbuflen = 0, destbufpos = 0\<rparr>"]
  have "\<forall>src pre post. length src < 256 \<longrightarrow> encodes (table_of 1) (Some 0) news (all_bits src)
      \<longrightarrow> wp (atsc_text_segment_decode (pre @ segment_bytes 1 0 src @ post) (length pre)
        (calm_os, \<lparr>destbuf = Null, destbuflen = 0, destbufpos = 0\<rparr>)) (decoded \<lparr>destbuf = Null, destbuflen = 0, destbufpos = 0\<rparr> news)"
    by (simp add: dest_ok.simps ATSC_TEXT_COMPRESS_PROGRAM_TITLE_def)
  from this [rule_format, OF _ news_encoded, of "[7]" "[8]"] show ?thesis by simp
qed



lemma no_7f_code: "no_7f bits \<longleftrightarrow> list_all (\<lambda>i. take 8 (drop i bits) \<noteq> byte_bits 0x7f) [0..<length bits]"
proof -
  have "byte_bits 0x7f \<noteq> []" using length_byte_bits [of "0x7f"] by (metis list.size(3) zero_neq_numeral)
  then show ?thesis by (auto simp: no_7f_def list_all_iff)
qed


section \<open>Multiple strings\<close>

text \<open>A segment is its compression type, mode and data; a string its language and segments.\<close>

type_synonym text_segment = "u8 \<times> u8 \<times> u8 list"
type_synonym text_string = "u8 list \<times> text_segment list"

definition segment_data :: "text_segment \<Rightarrow> u8 list" where
  "segment_data = (\<lambda>(t, md, src). segment_bytes t md src)"

definition string_data :: "text_string \<Rightarrow> u8 list" where
  "string_data = (\<lambda>(lang, segs). lang @ [of_nat (length segs)] @ concat (map segment_data segs))"

definition text_data :: "text_string list \<Rightarrow> u8 list" where
  "text_data strs = of_nat (length strs) # concat (map string_data strs)"

definition wf_segments :: "text_segment list \<Rightarrow> bool" where
  "wf_segments segs \<longleftrightarrow> length segs < 256 \<and> (\<forall>(t, md, src)\<in>set segs. length src < 256)"

definition wf_text :: "text_string list \<Rightarrow> bool" where
  "wf_text strs \<longleftrightarrow> length strs < 256 \<and> (\<forall>(lang, segs)\<in>set strs. length lang = 3 \<and> wf_segments segs)"

fun offsets :: "nat \<Rightarrow> 'a list list \<Rightarrow> nat list" where
  "offsets p [] = []"
| "offsets p (x # xs) = p # offsets (p + length x) xs"

lemma length_offsets [simp]: "length (offsets p xs) = length xs"
  by (induction p xs rule: offsets.induct) simp_all

lemma offsets_nth: "i < length xs \<Longrightarrow> offsets p xs ! i = p + length (concat (take i xs))"
proof (induction p xs arbitrary: i rule: offsets.induct)
  case (2 p x xs)
  then show ?case by (cases i) simp_all
qed simp

lemma rd_at: "drop p m = xs @ r \<Longrightarrow> i < length xs \<Longrightarrow> rd m (p + i) = Some (xs ! i)"
proof -
  assume d: "drop p m = xs @ r" and i: "i < length xs"
  have "length (drop p m) = length xs + length r" using d by simp
  then have "p + i < length m" using i by simp
  moreover from this have "m ! (p + i) = drop p m ! i" by simp
  ultimately show ?thesis using d i by (simp add: nth_append)
qed

lemma drop_at:
  assumes "drop p m = concat xs @ r" "i < length xs"
  shows "drop (offsets p xs ! i) m = xs ! i @ concat (drop (Suc i) xs) @ r"
proof -
  have "concat xs = concat (take i xs) @ xs ! i @ concat (drop (Suc i) xs)"
    using id_take_nth_drop [OF assms(2)] by (metis concat.simps(2) concat_append)
  then have "drop (length (concat (take i xs))) (drop p m) = xs ! i @ concat (drop (Suc i) xs) @ r"
    using assms(1) by simp
  then show ?thesis using offsets_nth [OF assms(2), of p] by (simp add: add.commute)
qed

lemma drop_past: "drop p m = xs @ r \<Longrightarrow> drop (p + length xs) m = r"
  by (metis add.commute append_eq_conv_conj drop_drop)

text \<open>What the checks and the iterators do over the data of segments.\<close>

lemma segment_number:
  assumes "drop p m = segment_data (t, md, src) @ r" "length src < 256"
  shows "rd m (p + 2) = Some (of_nat (length src))" "drop (p + 3 + length src) m = r"
  using rd_at [OF assms(1), of 2] drop_past [OF assms(1)] by (simp_all add: segment_data_def segment_bytes_def numeral_3_eq_3)

lemma validate_segments_data:
  assumes "drop p m = concat (map segment_data segs) @ r" "\<forall>(t, md, src)\<in>set segs. length src < 256"
    and "p + length (concat (map segment_data segs)) \<le> len"
  shows "validate_segments (length segs) m len p = Some (Some (p + length (concat (map segment_data segs))))"
  using assms
proof (induction segs arbitrary: p)
  case (Cons s segs)
  obtain t md src where s: "s = (t, md, src)" by (cases s)
  have l: "length src < 256" "length (segment_data s) = 3 + length src"
    using Cons.prems(2) by (simp_all add: s segment_data_def segment_bytes_def)
  have d: "drop p m = segment_data (t, md, src) @ concat (map segment_data segs) @ r" using Cons.prems(1) s by simp
  have "validate_segments (length segs) m len (p + 3 + length src) = Some (Some (p + 3 + length src + length (concat (map segment_data segs))))"
    using Cons.IH [OF segment_number(2) [OF d l(1)]] Cons.prems(2,3) l by simp
  then show ?case using segment_number(1) [OF d l(1)] l Cons.prems(3) by (simp add: unat_of_nat_u8)
qed simp

lemma validate_segments_only:
  assumes "pos \<le> len" "len \<le> length m"
  shows "validate_segments k m len pos = Some None \<or>
    (\<exists>q segs. validate_segments k m len pos = Some (Some q) \<and> q \<le> len \<and> length segs = k \<and> (\<forall>(t, md, src)\<in>set segs. length src < 256)
      \<and> drop pos m = concat (map segment_data segs) @ drop q m)"
  using assms(1)
proof (induction k arbitrary: pos)
  case 0
  then show ?case by auto
next
  case (Suc k)
  show ?case
  proof (cases "len < pos + 3")
    case False
    then obtain n where n: "rd m (pos + 2) = Some n" using assms(2) by simp
    show ?thesis
    proof (cases "len < pos + 3 + unat n")
      case f: False
      let ?p = "pos + 3 + unat n" and ?src = "take (unat n) (drop (pos + 3) m)"
      have l: "length ?src = unat n" using f assms(2) by simp
      have m: "drop pos m = segment_data (m ! pos, m ! (pos + 1), ?src) @ drop ?p m"
      proof -
        have "drop pos m = m ! pos # m ! (pos + 1) # m ! (pos + 2) # drop (pos + 3) m"
          using False assms(2) by (simp add: Cons_nth_drop_Suc numeral_eq_Suc)
        also have "drop (pos + 3) m = ?src @ drop ?p m" by (metis append_take_drop_id drop_drop add.commute)
        finally show ?thesis using n l False assms(2) by (simp add: segment_data_def segment_bytes_def)
      qed
      have step: "validate_segments (Suc k) m len pos = validate_segments k m len ?p" using False f n by simp
      from Suc.IH [of ?p] f consider "validate_segments k m len ?p = Some None"
        | q segs where "validate_segments k m len ?p = Some (Some q)" "q \<le> len" "length segs = k"
          "\<forall>(t, md, src)\<in>set segs. length src < 256" "drop ?p m = concat (map segment_data segs) @ drop q m" by auto
      then show ?thesis
      proof cases
        case 2
        then have "drop pos m = concat (map segment_data ((m ! pos, m ! (pos + 1), ?src) # segs)) @ drop q m" using m by simp
        moreover have "\<forall>(t, md, src)\<in>set ((m ! pos, m ! (pos + 1), ?src) # segs). length src < 256"
          using 2(4) l unat_byte_lt [of n] by simp
        ultimately show ?thesis using 2(1-3) step by (metis length_Cons)
      qed (metis step)
    qed (use False n in simp)
  qed simp
qed


lemma string_number:
  assumes "drop p m = string_data (lang, segs) @ r" "length lang = 3"
  shows "rd m (p + 3) = Some (of_nat (length segs))" "drop (p + 4) m = concat (map segment_data segs) @ r"
proof -
  have d: "drop p m = (lang @ [of_nat (length segs)]) @ concat (map segment_data segs) @ r" using assms(1) by (simp add: string_data_def)
  show "rd m (p + 3) = Some (of_nat (length segs))" using rd_at [OF d, of 3] assms(2) by (simp add: nth_append)
  show "drop (p + 4) m = concat (map segment_data segs) @ r" using drop_past [OF d] assms(2) by simp
qed

lemma validate_strings_data:
  assumes "drop p m = concat (map string_data strs) @ r" "\<forall>(lang, segs)\<in>set strs. length lang = 3 \<and> wf_segments segs"
    and "p + length (concat (map string_data strs)) \<le> len"
  shows "validate_strings (length strs) m len p = Some (Some (p + length (concat (map string_data strs))))"
  using assms
proof (induction strs arbitrary: p)
  case (Cons s strs)
  obtain lang segs where s: "s = (lang, segs)" by (cases s)
  have w: "length lang = 3" "length segs < 256" "\<forall>(t, md, src)\<in>set segs. length src < 256"
    using Cons.prems(2) by (simp_all add: s wf_segments_def)
  have l: "length (string_data s) = 4 + length (concat (map segment_data segs))" using w(1) by (simp add: s string_data_def)
  have d: "drop p m = string_data (lang, segs) @ concat (map string_data strs) @ r" using Cons.prems(1) s by simp
  let ?q = "p + 4 + length (concat (map segment_data segs))"
  have v: "validate_segments (length segs) m len (p + 4) = Some (Some ?q)"
    using validate_segments_data [OF string_number(2) [OF d w(1)] w(3)] Cons.prems(3) l by simp
  have "validate_strings (length strs) m len ?q = Some (Some (?q + length (concat (map string_data strs))))"
    using Cons.IH [of ?q] drop_past [OF d] Cons.prems(2,3) l s by (simp add: ac_simps)
  then show ?case using string_number(1) [OF d w(1)] l w(2) v Cons.prems(3) by (simp add: unat_of_nat_u8)
qed simp

lemma validate_strings_only:
  assumes "pos \<le> len" "len \<le> length m"
  shows "validate_strings k m len pos = Some None \<or>
    (\<exists>q strs. validate_strings k m len pos = Some (Some q) \<and> q \<le> len \<and> length strs = k
      \<and> (\<forall>(lang, segs)\<in>set strs. length lang = 3 \<and> wf_segments segs) \<and> drop pos m = concat (map string_data strs) @ drop q m)"
  using assms(1)
proof (induction k arbitrary: pos)
  case 0
  then show ?case by auto
next
  case (Suc k)
  show ?case
  proof (cases "len < pos + 4")
    case False
    then obtain n where n: "rd m (pos + 3) = Some n" "n = m ! (pos + 3)" using assms(2) by simp
    from validate_segments_only [OF _ assms(2), of "pos + 4" "unat n"] False
    consider "validate_segments (unat n) m len (pos + 4) = Some None"
      | q segs where "validate_segments (unat n) m len (pos + 4) = Some (Some q)" "q \<le> len" "length segs = unat n"
        "\<forall>(t, md, src)\<in>set segs. length src < 256" "drop (pos + 4) m = concat (map segment_data segs) @ drop q m" by auto
    then show ?thesis
    proof cases
      case (2 q segs)
      let ?lang = "take 3 (drop pos m)"
      have l: "length ?lang = 3" "wf_segments segs" using False assms(2) 2(3,4) unat_byte_lt [of n] by (simp_all add: wf_segments_def)
      have "drop pos m = ?lang @ drop (3 + pos) m" by (metis append_take_drop_id drop_drop)
      also have "drop (3 + pos) m = n # drop (pos + 4) m" using False assms(2) n(2) by (simp add: Cons_nth_drop_Suc numeral_eq_Suc)
      finally have d: "drop pos m = string_data (?lang, segs) @ drop q m"
        using 2(3,5) by (simp add: string_data_def)
      have step: "validate_strings (Suc k) m len pos = validate_strings k m len q" using False n(1) 2(1) by simp
      from Suc.IH [OF 2(2)] consider "validate_strings k m len q = Some None"
        | q' strs where "validate_strings k m len q = Some (Some q')" "q' \<le> len" "length strs = k"
          "\<forall>(lang, segs)\<in>set strs. length lang = 3 \<and> wf_segments segs" "drop q m = concat (map string_data strs) @ drop q' m" by auto
      then show ?thesis
      proof cases
        case r: (2 q' strs)
        then have "drop pos m = concat (map string_data ((?lang, segs) # strs)) @ drop q' m" using d by simp
        moreover have "\<forall>(lang, segs)\<in>set ((?lang, segs) # strs). length lang = 3 \<and> wf_segments segs" using r(4) l by simp
        ultimately show ?thesis using r(1-3) step by (metis length_Cons)
      qed (metis step)
    qed (use False n in simp)
  qed simp
qed

lemma atsc_text_validate_total:
  assumes "p + len \<le> length m"
  shows "\<exists>r. atsc_text_validate m p len = Some r"
proof (cases "len = 0")
  case False
  then have "len \<le> length (drop p m)" "1 \<le> len" using assms by simp_all
  then have "validate_strings (unat (m ! p)) (drop p m) len 1 \<noteq> None"
    using validate_strings_only [of 1 len "drop p m" "unat (m ! p)"] by auto
  then show ?thesis using False assms by (auto simp: atsc_text_validate_def rd_def)
qed (simp add: atsc_text_validate_def)

text \<open>C38: The check reads only inside its bytes and accepts exactly those that start with a text.\<close>

theorem atsc_text_validate_iff:
  assumes "p + len \<le> length m"
  shows "atsc_text_validate m p len \<in> {Some 0, Some (-1)} \<and>
    (atsc_text_validate m p len = Some 0 \<longleftrightarrow> len = 0 \<or> (\<exists>strs r. wf_text strs \<and> take len (drop p m) = text_data strs @ r))"
proof (cases "len = 0")
  case False
  let ?m = "drop p m" and ?n = "unat (m ! p)"
  have n: "rd m p = Some (m ! p)" "len \<le> length ?m" and one: "1 \<le> len" using False assms by simp_all
  have v: "atsc_text_validate m p len = do { r \<leftarrow> validate_strings ?n ?m len 1; Some (if r = None then -1 else 0) }"
    using False n(1) by (simp add: atsc_text_validate_def)
  have hd: "take len ?m = m ! p # take (len - 1) (drop 1 ?m)" using False assms by (cases len) (simp_all add: Cons_nth_drop_Suc [symmetric])
  have "atsc_text_validate m p len = Some 0" if "wf_text strs" "take len ?m = text_data strs @ r" for strs r
  proof -
    have t: "m ! p = of_nat (length strs)" "take (len - 1) (drop 1 ?m) = concat (map string_data strs) @ r"
      using that(2) hd by (simp_all add: text_data_def)
    have "drop 1 ?m = concat (map string_data strs) @ r @ drop (len - 1) (drop 1 ?m)"
      using t(2) by (metis append.assoc append_take_drop_id)
    moreover have "length (concat (map string_data strs) @ r) \<le> len - 1" unfolding t(2) [symmetric] by simp
    ultimately have "validate_strings (length strs) ?m len 1 = Some (Some (1 + length (concat (map string_data strs))))"
      using validate_strings_data [of 1 ?m strs] that(1) False by (simp add: wf_text_def)
    then show ?thesis using v t(1) that(1) by (simp add: wf_text_def unat_of_nat_u8)
  qed
  moreover have "\<exists>strs r. wf_text strs \<and> take len ?m = text_data strs @ r" if ok: "validate_strings ?n ?m len 1 \<noteq> Some None"
  proof -
    obtain q strs where q: "q \<le> len" "length strs = ?n" "\<forall>(lang, segs)\<in>set strs. length lang = 3 \<and> wf_segments segs"
      "drop 1 ?m = concat (map string_data strs) @ drop q ?m"
      using validate_strings_only [OF one n(2), of ?n] ok by blast
    have "length (drop 1 ?m) = length (concat (map string_data strs)) + length (drop q ?m)" using q(4) by simp
    then have "length (concat (map string_data strs)) \<le> len - 1" using q(1) n(2) False by simp
    then have "take len ?m = text_data strs @ take (len - 1 - length (concat (map string_data strs))) (drop q ?m)"
      unfolding hd q(4) using q(2) by (simp add: text_data_def)
    moreover have "wf_text strs" using q(2,3) unat_byte_lt [of "m ! p"] by (simp add: wf_text_def)
    ultimately show ?thesis by blast
  qed
  moreover have "validate_strings ?n ?m len 1 \<noteq> None" using validate_strings_only [OF _ n(2), of 1 ?n] False by auto
  ultimately show ?thesis using False v by (cases "validate_strings ?n ?m len 1 = Some None") auto
qed (simp add: atsc_text_validate_def)


theorem atsc_text_validate_iff_witness:
  "atsc_text_validate (text_data [([0x65, 0x6e, 0x67], [(0, 0, [0x41])])]) 0 9 = Some 0"
proof -
  let ?s = "[([0x65, 0x6e, 0x67], [(0, 0, [0x41])])] :: text_string list"
  have "length (text_data ?s) = 9" by (simp add: text_data_def string_data_def segment_data_def segment_bytes_def)
  moreover from this have "take 9 (drop 0 (text_data ?s)) = text_data ?s @ []" by simp
  moreover have "wf_text ?s" by (simp add: wf_text_def wf_segments_def)
  ultimately show ?thesis using atsc_text_validate_iff [of 0 9 "text_data ?s"] by (metis add_0 order_refl)
qed

lemma for_each_idx_walk:
  assumes "\<And>i. i < length ps \<Longrightarrow> nxt (ps ! i) (i + 1) = Some (if i + 1 < length ps then Some (ps ! (i + 1)) else None)"
  shows "i \<le> length ps \<Longrightarrow> for_each_idx nxt (if i < length ps then Some (ps ! i) else None) i = Some (drop i ps)"
proof (induction "length ps - i" arbitrary: i)
  case 0
  then show ?case by (simp add: for_each_idx.simps)
next
  case (Suc k)
  then have i: "i < length ps" by simp
  have "for_each_idx nxt (if i + 1 < length ps then Some (ps ! (i + 1)) else None) (i + 1) = Some (drop (i + 1) ps)"
    using Suc.hyps(1) [of "i + 1"] Suc.hyps(2) i by simp
  then show ?case using assms [OF i] i by (subst for_each_idx.simps) (simp add: Cons_nth_drop_Suc)
qed

lemma skip_segments_data:
  assumes "drop p m = concat (map segment_data segs) @ r" "\<forall>(t, md, src)\<in>set segs. length src < 256"
  shows "skip_segments (length segs) m p = Some (p + length (concat (map segment_data segs)))"
  using assms
proof (induction segs arbitrary: p)
  case (Cons s segs)
  obtain t md src where s: "s = (t, md, src)" by (cases s)
  have l: "length src < 256" "length (segment_data s) = 3 + length src"
    using Cons.prems(2) by (simp_all add: s segment_data_def segment_bytes_def)
  have d: "drop p m = segment_data (t, md, src) @ concat (map segment_data segs) @ r" using Cons.prems(1) s by simp
  show ?case using Cons.IH [OF segment_number(2) [OF d l(1)]] segment_number(1) [OF d l(1)] Cons.prems(2) l by (simp add: unat_of_nat_u8)
qed simp

lemma segments_walk:
  assumes "drop p m = string_data (lang, segs) @ r" "length lang = 3" "wf_segments segs"
  shows "atsc_text_string_segments_for_each m p = Some (offsets (p + 4) (map segment_data segs))"
proof -
  let ?ps = "offsets (p + 4) (map segment_data segs)"
  note s = string_number [OF assms(1,2)]
  have n: "unat (of_nat (length segs) :: u8) = length segs" using assms(3) by (simp add: wf_segments_def unat_of_nat_u8)
  have "atsc_text_string_segments_next m p (?ps ! i) (i + 1) = Some (if i + 1 < length ?ps then Some (?ps ! (i + 1)) else None)"
    if "i < length ?ps" for i
  proof (cases "i + 1 < length segs")
    case True
    obtain t md src where e: "segs ! i = (t, md, src)" by (cases "segs ! i")
    have l: "length src < 256" using assms(3) nth_mem [of i segs] True e by (fastforce simp: wf_segments_def)
    have "?ps ! (i + 1) = ?ps ! i + length (segment_data (segs ! i))"
      using True by (simp add: offsets_nth take_Suc_conv_app_nth)
    moreover have "drop (?ps ! i) m = segment_data (segs ! i) @ concat (drop (Suc i) (map segment_data segs)) @ r"
      using drop_at [OF s(2), of i] True by simp
    ultimately show ?thesis using True segment_number(1) [OF _ l] s(1) n l e
      by (simp add: atsc_text_string_segments_next_def segment_data_def segment_bytes_def unat_of_nat_u8)
  qed (use s(1) n in \<open>simp add: atsc_text_string_segments_next_def\<close>)
  from for_each_idx_walk [of ?ps, OF this, of 0] have
    "for_each_idx (atsc_text_string_segments_next m p) (if segs = [] then None else Some (p + 4)) 0 = Some ?ps"
    by (cases segs) auto
  moreover have "(of_nat (length segs) :: u8) = 0 \<longleftrightarrow> segs = []" using n by (metis length_0_conv unat_eq_zero)
  ultimately show ?thesis using s(1)
    by (simp add: atsc_text_string_segments_for_each_def atsc_text_string_segments_first_def)
qed

lemma strings_walk:
  assumes "drop p m = text_data strs @ r" "wf_text strs"
  shows "atsc_text_strings_for_each m p = Some (offsets (p + 1) (map string_data strs))"
proof -
  let ?ps = "offsets (p + 1) (map string_data strs)"
  have d: "drop p m = [of_nat (length strs)] @ concat (map string_data strs) @ r" using assms(1) by (simp add: text_data_def)
  have s: "rd m p = Some (of_nat (length strs))" "drop (p + 1) m = concat (map string_data strs) @ r"
    using rd_at [OF d, of 0] drop_past [OF d] by simp_all
  have n: "unat (of_nat (length strs) :: u8) = length strs" using assms(2) by (simp add: wf_text_def unat_of_nat_u8)
  have "atsc_text_strings_next m p (?ps ! i) (i + 1) = Some (if i + 1 < length ?ps then Some (?ps ! (i + 1)) else None)"
    if "i < length ?ps" for i
  proof (cases "i + 1 < length strs")
    case True
    obtain lang segs where e: "strs ! i = (lang, segs)" by (cases "strs ! i")
    have l: "length lang = 3" "wf_segments segs" using assms(2) nth_mem [of i strs] True e by (fastforce simp: wf_text_def)+
    have w: "length segs < 256" "\<forall>(t, md, src)\<in>set segs. length src < 256" using l(2) by (simp_all add: wf_segments_def)
    have "?ps ! (i + 1) = ?ps ! i + length (string_data (strs ! i))"
      using True by (simp add: offsets_nth take_Suc_conv_app_nth)
    moreover have "drop (?ps ! i) m = string_data (lang, segs) @ concat (drop (Suc i) (map string_data strs)) @ r"
      using drop_at [OF s(2), of i] True e by simp
    note q = string_number [OF this l(1)]
    have "skip_segments (length segs) m (?ps ! i + 4) = Some (?ps ! i + 4 + length (concat (map segment_data segs)))"
      by (rule skip_segments_data [OF q(2) w(2)])
    ultimately show ?thesis using True q(1) s(1) n l(1) w(1) e
      by (simp add: atsc_text_strings_next_def string_data_def unat_of_nat_u8)
  qed (use s(1) n in \<open>simp add: atsc_text_strings_next_def\<close>)
  from for_each_idx_walk [of ?ps, OF this, of 0] have
    "for_each_idx (atsc_text_strings_next m p) (if strs = [] then None else Some (p + 1)) 0 = Some ?ps"
    by (cases strs) auto
  moreover have "(of_nat (length strs) :: u8) = 0 \<longleftrightarrow> strs = []" using n by (metis length_0_conv unat_eq_zero)
  ultimately show ?thesis using s(1)
    by (simp add: atsc_text_strings_for_each_def atsc_text_strings_first_def)
qed

text \<open>The macros walk a text as it was laid out: its strings, and the segments of each.\<close>

theorem atsc_text_walk:
  assumes "wf_text strs"
  shows "atsc_text_strings_for_each (pre @ text_data strs @ post) (length pre) = Some (offsets (length pre + 1) (map string_data strs)) \<and>
    (\<forall>i < length strs. atsc_text_string_segments_for_each (pre @ text_data strs @ post) (offsets (length pre + 1) (map string_data strs) ! i)
      = Some (offsets (offsets (length pre + 1) (map string_data strs) ! i + 4) (map segment_data (snd (strs ! i)))))"
proof -
  let ?m = "pre @ text_data strs @ post" and ?ps = "offsets (length pre + 1) (map string_data strs)"
  have d: "drop (length pre + 1) ?m = concat (map string_data strs) @ post" by (simp add: text_data_def)
  have "atsc_text_string_segments_for_each ?m (?ps ! i) = Some (offsets (?ps ! i + 4) (map segment_data (snd (strs ! i))))"
    if i: "i < length strs" for i
  proof -
    obtain lang segs where e: "strs ! i = (lang, segs)" by (cases "strs ! i")
    have "length lang = 3" "wf_segments segs" using assms nth_mem [OF i] e by (fastforce simp: wf_text_def)+
    with drop_at [OF d, of i] i e segments_walk show ?thesis by auto
  qed
  with strings_walk [of "length pre" ?m strs post] assms show ?thesis by simp
qed


theorem atsc_text_walk_witness:
  "atsc_text_strings_for_each ([9] @ text_data [([0x65, 0x6e, 0x67], [(0, 0, [0x41]), (1, 0, [0x35, 0xec])])] @ []) (length [9 :: u8]) = Some [2]"
  using atsc_text_walk [of "[([0x65, 0x6e, 0x67], [(0, 0, [0x41]), (1, 0, [0x35, 0xec])])]" "[9]" "[]"]
  by (simp add: wf_text_def wf_segments_def)

section \<open>Times\<close>

text \<open>Both conversions are inverse on the times an ATSC time can express; later ATSC times wrap around.\<close>

theorem atsctime_roundtrip:
  "unixtime_to_atsctime (atsctime_to_unixtime a) = a \<and>
    (315964800 \<le> t \<and> t < 2 ^ 32 \<longrightarrow> atsctime_to_unixtime (unixtime_to_atsctime t) = t) \<and>
    (2 ^ 32 - 315964800 \<le> uint a \<longrightarrow> atsctime_to_unixtime a = uint a + 315964800 - 2 ^ 32)"
proof (intro conjI impI)
  show "unixtime_to_atsctime (atsctime_to_unixtime a) = a"
    by (simp add: unixtime_to_atsctime_def atsctime_to_unixtime_def of_int_uint)
next
  assume "315964800 \<le> t \<and> t < 2 ^ 32"
  moreover have "unixtime_to_atsctime t + GPS_EPOCH = of_int t" by (simp add: unixtime_to_atsctime_def GPS_EPOCH_def)
  ultimately show "atsctime_to_unixtime (unixtime_to_atsctime t) = t"
    by (simp add: atsctime_to_unixtime_def uint_word_of_int take_bit_eq_mod)
next
  assume "2 ^ 32 - 315964800 \<le> uint a"
  moreover have "uint a < 2 ^ 32" using uint_bounded [of a] by simp
  moreover have "uint (a + GPS_EPOCH) = (uint a + 315964800) mod 2 ^ 32"
    by (simp add: uint_word_ariths GPS_EPOCH_def)
  moreover have "(uint a + 315964800) mod 2 ^ 32 = (uint a + 315964800 - 2 ^ 32) mod 2 ^ 32" by (simp only: minus_mod_self2)
  ultimately show "atsctime_to_unixtime a = uint a + 315964800 - 2 ^ 32"
    unfolding atsctime_to_unixtime_def by (simp add: mod_pos_pos_trivial)
qed

theorem atsctime_roundtrip_witness: "atsctime_to_unixtime (unixtime_to_atsctime 1000000000) = 1000000000"
  using atsctime_roundtrip [of 0 1000000000] by simp

section \<open>Faults\<close>

declare huffman_loop.simps [code] huffman_decode_uncompressed.simps [code]

text \<open>The trees end with that of the character 0x7e: after an escaped 0x7f the decoder reads behind the table.\<close>

theorem escaped_del_overread:
  "atsc_text_segment_decode (segment_bytes ATSC_TEXT_COMPRESS_PROGRAM_TITLE 0 [0xcb, 0x7f, 0]) 0
    (calm_os, \<lparr>destbuf = Null, destbuflen = 0, destbufpos = 0\<rparr>) = None"
  by code_simp

text \<open>A title that ends with its end code: the text has been appended, but the result is 0 and not the new position.\<close>

theorem end_code_position_lost:
  "wp (atsc_text_segment_decode (segment_bytes ATSC_TEXT_COMPRESS_PROGRAM_TITLE 0 [0x35, 0xec]) 0
     (calm_os, \<lparr>destbuf = Null, destbuflen = 0, destbufpos = 0\<rparr>))
   (\<lambda>((w, d), r). dest_text d = [0x4e, 0x65, 0x77, 0x73] \<and> destbufpos d = 4 \<and> r = 0)"
  unfolding wp_iff_case by code_simp

end
