(* ===== verification/Atsc_Descriptors.thy ===== *)
theory Atsc_Descriptors
  imports Structs Atsc_Text_Props
begin

text \<open>
  The descriptors of \<open>lib/libucsi/atsc\<close>: the layout of each structure, its codec, its accessors and iterators, and what
  each codec does.
\<close>

section \<open>\<open>atsc/ac3_descriptor.h\<close>\<close>

definition atsc_ac3_descriptor_layout :: layout where
  "atsc_ac3_descriptor_layout =
    [(''sample_rate_code'', Value 2 1 5 3), (''bsid'', Value 2 1 0 5), (''bit_rate_code'', Value 3 1 2 6),
     (''surround_mode'', Value 3 1 0 2), (''bsmod'', Value 4 1 5 3), (''num_channels'', Value 4 1 1 4),
     (''full_svc'', Value 4 1 0 1)]"

definition atsc_ac3_descriptor_codec :: "byte_order \<Rightarrow> mem \<Rightarrow> nat \<Rightarrow> (mem \<times> bool) option" where
  "atsc_ac3_descriptor_codec e m d =
     do {
       len \<leftarrow> rd8 m (d + 1);
       if len < 4 then Some (m, False)
       else Some (m, True) }"

definition atsc_ac3_descriptor_additional_info :: "nat \<Rightarrow> nat" where
  "atsc_ac3_descriptor_additional_info d = d + 5"

definition atsc_ac3_descriptor_additional_info_length :: "mem \<Rightarrow> nat \<Rightarrow> int option" where
  "atsc_ac3_descriptor_additional_info_length m d =
     do {
       len \<leftarrow> rd8 m (d + 1);
       Some (int len - 3) }"

section \<open>\<open>atsc/caption_service_descriptor.h\<close>\<close>

definition atsc_caption_service_descriptor_layout :: layout where
  "atsc_caption_service_descriptor_layout =
    [(''reserved'', Value 2 1 5 3), (''number_of_services'', Value 2 1 0 5)]"

definition atsc_caption_service_entry_layout :: layout where
  "atsc_caption_service_entry_layout =
    [(''language_code'', Bytes 0 3), (''digital_cc'', Value 3 1 7 1), (''reserved'', Value 3 1 6 1),
     (''value'', Value 3 1 0 6), (''easy_reader'', Value 4 2 15 1), (''wide_aspect_ratio'', Value 4 2 14 1),
     (''reserved1'', Value 4 2 0 14)]"

definition atsc_caption_service_descriptor_codec :: "byte_order \<Rightarrow> mem \<Rightarrow> nat \<Rightarrow> (mem \<times> bool) option" where
  "atsc_caption_service_descriptor_codec e m d =
     do {
       len \<leftarrow> rd8 m (d + 1);
       if len < 1 then Some (m, False)
       else do {
         ((m, pos, idx), ok) \<leftarrow> while_do
           (\<lambda>(m, pos, idx). do {
             number_of_services \<leftarrow> fld e 1 0 5 m (d + 2);
             Some (idx < number_of_services) })
           (\<lambda>(m, pos, idx).
             do {
               len' \<leftarrow> rd8 m (d + 1);
               if len' < pos + 6 then Some ((m, pos, idx), False)
               else do {
                 m \<leftarrow> bswap16 e m (d + pos + 6);
                 let pos = pos + 6;
                 let idx = idx + 1;
                 Some ((m, pos, idx), True) } })
           (m, 1, 0);
         if \<not> ok then Some (m, False)
         else Some (m, True) } }"

definition atsc_caption_service_descriptor_entries_first :: "byte_order \<Rightarrow> mem \<Rightarrow> nat \<Rightarrow> nat option option" where
  "atsc_caption_service_descriptor_entries_first e m d =
     do {
       number_of_services \<leftarrow> fld e 1 0 5 m (d + 2);
       if number_of_services = 0 then Some None
       else Some (Some (d + 3)) }"

definition atsc_caption_service_descriptor_entries_next :: "byte_order \<Rightarrow> mem \<Rightarrow> nat \<Rightarrow> nat \<Rightarrow> nat \<Rightarrow> nat option option" where
  "atsc_caption_service_descriptor_entries_next e m d pos idx =
     do {
       number_of_services \<leftarrow> fld e 1 0 5 m (d + 2);
       if idx \<ge> number_of_services then Some None
       else Some (Some (pos + 6)) }"

section \<open>\<open>atsc/component_name_descriptor.h\<close>\<close>

definition atsc_component_name_descriptor_codec :: "byte_order \<Rightarrow> mem \<Rightarrow> nat \<Rightarrow> (mem \<times> bool) option" where
  "atsc_component_name_descriptor_codec e m d =
     do {
       len \<leftarrow> rd8 m (d + 1);
       invalid \<leftarrow> atsc_text_validate m (d + 2) len;
       if invalid \<noteq> 0 then Some (m, False)
       else Some (m, True) }"

definition atsc_component_name_descriptor_text :: "nat \<Rightarrow> nat" where
  "atsc_component_name_descriptor_text d = d + 2"

definition atsc_component_name_descriptor_text_length :: "mem \<Rightarrow> nat \<Rightarrow> nat option" where
  "atsc_component_name_descriptor_text_length m d =
     do {
       len \<leftarrow> rd8 m (d + 1);
       Some len }"

section \<open>\<open>atsc/content_advisory_descriptor.h\<close>\<close>

definition atsc_content_advisory_descriptor_layout :: layout where
  "atsc_content_advisory_descriptor_layout =
    [(''reserved'', Value 2 1 6 2), (''rating_region_count'', Value 2 1 0 6)]"

definition atsc_content_advisory_entry_layout :: layout where
  "atsc_content_advisory_entry_layout =
    [(''rating_region'', Value 0 1 0 8), (''rated_dimensions'', Value 1 1 0 8)]"

definition atsc_content_advisory_entry_dimension_layout :: layout where
  "atsc_content_advisory_entry_dimension_layout =
    [(''rating_dimension_j'', Value 0 1 0 8), (''reserved'', Value 1 1 4 4), (''rating_value'', Value 1 1 0 4)]"

definition atsc_content_advisory_entry_part2_layout :: layout where
  "atsc_content_advisory_entry_part2_layout =
    [(''rating_description_length'', Value 0 1 0 8)]"

definition atsc_content_advisory_descriptor_codec :: "byte_order \<Rightarrow> mem \<Rightarrow> nat \<Rightarrow> (mem \<times> bool) option" where
  "atsc_content_advisory_descriptor_codec e m d =
     do {
       len \<leftarrow> rd8 m (d + 1);
       if len < 1 then Some (m, False)
       else do {
         ((m, pos, idx), ok) \<leftarrow> while_do
           (\<lambda>(m, pos, idx). do {
             rating_region_count \<leftarrow> fld e 1 0 6 m (d + 2);
             Some (idx < rating_region_count) })
           (\<lambda>(m, pos, idx).
             do {
               len' \<leftarrow> rd8 m (d + 1);
               if len' < pos + 2 then Some ((m, pos, idx), False)
               else do {
                 let entry = d + pos + 2;
                 let pos = pos + 2;
                 rated_dimensions \<leftarrow> rd8 m (entry + 1);
                 if len' < pos + 2 * rated_dimensions then Some ((m, pos, idx), False)
                 else do {
                   let pos = pos + 2 * rated_dimensions;
                   if len' < pos + 1 then Some ((m, pos, idx), False)
                   else do {
                     let part2 = d + pos + 2;
                     let pos = pos + 1;
                     rating_description_length \<leftarrow> rd8 m part2;
                     if len' < pos + rating_description_length then Some ((m, pos, idx), False)
                     else do {
                       invalid \<leftarrow> atsc_text_validate m (d + pos + 2) rating_description_length;
                       if invalid \<noteq> 0 then Some ((m, pos, idx), False)
                       else do {
                         let pos = pos + rating_description_length;
                         let idx = idx + 1;
                         Some ((m, pos, idx), True) } } } } } })
           (m, 1, 0);
         if \<not> ok then Some (m, False)
         else Some (m, True) } }"

definition atsc_content_advisory_entry_part2 :: "mem \<Rightarrow> nat \<Rightarrow> nat option" where
  "atsc_content_advisory_entry_part2 m entry =
     do {
       rated_dimensions \<leftarrow> rd8 m (entry + 1);
       let pos = rated_dimensions * 2 + 2;
       Some (entry + pos) }"

definition atsc_content_advisory_entry_part2_description :: "nat \<Rightarrow> nat" where
  "atsc_content_advisory_entry_part2_description part2 = part2 + 1"

definition atsc_content_advisory_descriptor_entries_first :: "byte_order \<Rightarrow> mem \<Rightarrow> nat \<Rightarrow> nat option option" where
  "atsc_content_advisory_descriptor_entries_first e m d =
     do {
       rating_region_count \<leftarrow> fld e 1 0 6 m (d + 2);
       if rating_region_count = 0 then Some None
       else Some (Some (d + 3)) }"

definition atsc_content_advisory_descriptor_entries_next :: "byte_order \<Rightarrow> mem \<Rightarrow> nat \<Rightarrow> nat \<Rightarrow> nat \<Rightarrow> nat option option" where
  "atsc_content_advisory_descriptor_entries_next e m d pos idx =
     do {
       rating_region_count \<leftarrow> fld e 1 0 6 m (d + 2);
       if idx \<ge> rating_region_count then Some None
       else do {
         r \<leftarrow> atsc_content_advisory_entry_part2 m pos;
         do {
           rating_description_length \<leftarrow> rd8 m r;
           Some (Some (r + rating_description_length + 1)) } } }"

definition atsc_content_advisory_entry_dimensions_first :: "mem \<Rightarrow> nat \<Rightarrow> nat option option" where
  "atsc_content_advisory_entry_dimensions_first m ent =
     do {
       rated_dimensions \<leftarrow> rd8 m (ent + 1);
       if rated_dimensions = 0 then Some None
       else Some (Some (ent + 2)) }"

definition atsc_content_advisory_entry_dimensions_next :: "mem \<Rightarrow> nat \<Rightarrow> nat \<Rightarrow> nat \<Rightarrow> nat option option" where
  "atsc_content_advisory_entry_dimensions_next m ent pos idx =
     do {
       rated_dimensions \<leftarrow> rd8 m (ent + 1);
       if idx \<ge> rated_dimensions then Some None
       else Some (Some (pos + 2)) }"

section \<open>\<open>atsc/dcc_arriving_request_descriptor.h\<close>\<close>

definition atsc_dcc_arriving_request_descriptor_layout :: layout where
  "atsc_dcc_arriving_request_descriptor_layout =
    [(''dcc_arriving_request_type'', Value 2 1 0 8), (''dcc_arriving_request_text_length'', Value 3 1 0 8)]"

definition atsc_dcc_arriving_request_descriptor_codec :: "byte_order \<Rightarrow> mem \<Rightarrow> nat \<Rightarrow> (mem \<times> bool) option" where
  "atsc_dcc_arriving_request_descriptor_codec e m d =
     do {
       len \<leftarrow> rd8 m (d + 1);
       if len < 2 then Some (m, False)
       else do {
         dcc_arriving_request_text_length \<leftarrow> rd8 m (d + 3);
         if len \<noteq> dcc_arriving_request_text_length + 2 then Some (m, False)
         else do {
           invalid \<leftarrow> atsc_text_validate m (d + 4) dcc_arriving_request_text_length;
           if invalid \<noteq> 0 then Some (m, False)
           else Some (m, True) } } }"

definition atsc_dcc_arriving_request_descriptor_text :: "nat \<Rightarrow> nat" where
  "atsc_dcc_arriving_request_descriptor_text d = d + 4"

definition atsc_dcc_arriving_request_descriptor_text_length :: "mem \<Rightarrow> nat \<Rightarrow> int option" where
  "atsc_dcc_arriving_request_descriptor_text_length m d =
     do {
       len \<leftarrow> rd8 m (d + 1);
       Some (int len - 2) }"

section \<open>\<open>atsc/dcc_departing_request_descriptor.h\<close>\<close>

definition atsc_dcc_departing_request_descriptor_layout :: layout where
  "atsc_dcc_departing_request_descriptor_layout =
    [(''dcc_departing_request_type'', Value 2 1 0 8), (''dcc_departing_request_text_length'', Value 3 1 0 8)]"

definition atsc_dcc_departing_request_descriptor_codec :: "byte_order \<Rightarrow> mem \<Rightarrow> nat \<Rightarrow> (mem \<times> bool) option" where
  "atsc_dcc_departing_request_descriptor_codec e m d =
     do {
       len \<leftarrow> rd8 m (d + 1);
       if len < 2 then Some (m, False)
       else do {
         dcc_departing_request_text_length \<leftarrow> rd8 m (d + 3);
         if len \<noteq> dcc_departing_request_text_length + 2 then Some (m, False)
         else do {
           invalid \<leftarrow> atsc_text_validate m (d + 4) dcc_departing_request_text_length;
           if invalid \<noteq> 0 then Some (m, False)
           else Some (m, True) } } }"

definition atsc_dcc_departing_request_descriptor_text :: "nat \<Rightarrow> nat" where
  "atsc_dcc_departing_request_descriptor_text d = d + 4"

definition atsc_dcc_departing_request_descriptor_text_length :: "mem \<Rightarrow> nat \<Rightarrow> int option" where
  "atsc_dcc_departing_request_descriptor_text_length m d =
     do {
       len \<leftarrow> rd8 m (d + 1);
       Some (int len - 2) }"

section \<open>\<open>atsc/extended_channel_name_descriptor.h\<close>\<close>

definition atsc_extended_channel_name_descriptor_codec :: "byte_order \<Rightarrow> mem \<Rightarrow> nat \<Rightarrow> (mem \<times> bool) option" where
  "atsc_extended_channel_name_descriptor_codec e m d =
     do {
       len \<leftarrow> rd8 m (d + 1);
       invalid \<leftarrow> atsc_text_validate m (d + 2) len;
       if invalid \<noteq> 0 then Some (m, False)
       else Some (m, True) }"

definition atsc_extended_channel_name_descriptor_text :: "nat \<Rightarrow> nat" where
  "atsc_extended_channel_name_descriptor_text d = d + 2"

definition atsc_extended_channel_name_descriptor_text_length :: "mem \<Rightarrow> nat \<Rightarrow> nat option" where
  "atsc_extended_channel_name_descriptor_text_length m d =
     do {
       len \<leftarrow> rd8 m (d + 1);
       Some len }"

section \<open>\<open>atsc/genre_descriptor.h\<close>\<close>

definition atsc_genre_descriptor_layout :: layout where
  "atsc_genre_descriptor_layout =
    [(''reserved'', Value 2 1 5 3), (''attribute_count'', Value 2 1 0 5)]"

definition atsc_genre_descriptor_codec :: "byte_order \<Rightarrow> mem \<Rightarrow> nat \<Rightarrow> (mem \<times> bool) option" where
  "atsc_genre_descriptor_codec e m d =
     do {
       len \<leftarrow> rd8 m (d + 1);
       if len < 1 then Some (m, False)
       else do {
         attribute_count \<leftarrow> fld e 1 0 5 m (d + 2);
         if len \<noteq> attribute_count + 1 then Some (m, False)
         else Some (m, True) } }"

definition atsc_genre_descriptor_attributes :: "nat \<Rightarrow> nat" where
  "atsc_genre_descriptor_attributes d = d + 3"

section \<open>\<open>atsc/rc_descriptor.h\<close>\<close>

definition atsc_rc_descriptor_codec :: "byte_order \<Rightarrow> mem \<Rightarrow> nat \<Rightarrow> (mem \<times> bool) option" where
  "atsc_rc_descriptor_codec e m d = Some (m, True)"

definition atsc_rc_descriptor_info :: "nat \<Rightarrow> nat" where
  "atsc_rc_descriptor_info d = d + 2"

definition atsc_rc_descriptor_info_length :: "mem \<Rightarrow> nat \<Rightarrow> nat option" where
  "atsc_rc_descriptor_info_length m d =
     do {
       len \<leftarrow> rd8 m (d + 1);
       Some len }"

section \<open>\<open>atsc/service_location_descriptor.h\<close>\<close>

definition atsc_service_location_descriptor_layout :: layout where
  "atsc_service_location_descriptor_layout =
    [(''reserved'', Value 2 2 13 3), (''PCR_PID'', Value 2 2 0 13), (''number_elements'', Value 4 1 0 8)]"

definition atsc_caption_service_location_element_layout :: layout where
  "atsc_caption_service_location_element_layout =
    [(''stream_type'', Value 0 1 0 8), (''reserved'', Value 1 2 13 3), (''elementary_PID'', Value 1 2 0 13),
     (''language_code'', Bytes 3 3)]"

definition atsc_service_location_descriptor_codec :: "byte_order \<Rightarrow> mem \<Rightarrow> nat \<Rightarrow> (mem \<times> bool) option" where
  "atsc_service_location_descriptor_codec e m d =
     do {
       len \<leftarrow> rd8 m (d + 1);
       if len < 3 then Some (m, False)
       else do {
         m \<leftarrow> bswap16 e m (d + 2);
         ((m, pos, idx), ok) \<leftarrow> while_do
           (\<lambda>(m, pos, idx). do {
             number_elements \<leftarrow> rd8 m (d + 4);
             Some (idx < number_elements) })
           (\<lambda>(m, pos, idx).
             do {
               len' \<leftarrow> rd8 m (d + 1);
               if len' < pos + 6 then Some ((m, pos, idx), False)
               else do {
                 m \<leftarrow> bswap16 e m (d + pos + 3);
                 let pos = pos + 6;
                 let idx = idx + 1;
                 Some ((m, pos, idx), True) } })
           (m, 3, 0);
         if \<not> ok then Some (m, False)
         else Some (m, True) } }"

definition atsc_service_location_descriptor_elements_first :: "mem \<Rightarrow> nat \<Rightarrow> nat option option" where
  "atsc_service_location_descriptor_elements_first m d =
     do {
       number_elements \<leftarrow> rd8 m (d + 4);
       if number_elements = 0 then Some None
       else Some (Some (d + 5)) }"

definition atsc_service_location_descriptor_elements_next :: "mem \<Rightarrow> nat \<Rightarrow> nat \<Rightarrow> nat \<Rightarrow> nat option option" where
  "atsc_service_location_descriptor_elements_next m d pos idx =
     do {
       number_elements \<leftarrow> rd8 m (d + 4);
       if idx \<ge> number_elements then Some None
       else Some (Some (pos + 6)) }"

section \<open>\<open>atsc/stuffing_descriptor.h\<close>\<close>

definition atsc_stuffing_descriptor_codec :: "byte_order \<Rightarrow> mem \<Rightarrow> nat \<Rightarrow> (mem \<times> bool) option" where
  "atsc_stuffing_descriptor_codec e m d = Some (m, True)"

definition atsc_stuffing_descriptor_data :: "nat \<Rightarrow> nat" where
  "atsc_stuffing_descriptor_data d = d + 2"

definition atsc_stuffing_descriptor_data_length :: "mem \<Rightarrow> nat \<Rightarrow> nat option" where
  "atsc_stuffing_descriptor_data_length m d =
     do {
       len \<leftarrow> rd8 m (d + 1);
       Some len }"

section \<open>\<open>atsc/time_shifted_service_descriptor.h\<close>\<close>

definition atsc_time_shifted_service_descriptor_layout :: layout where
  "atsc_time_shifted_service_descriptor_layout =
    [(''reserved'', Value 2 1 5 3), (''number_of_services'', Value 2 1 0 5)]"

definition atsc_time_shifted_service_layout :: layout where
  "atsc_time_shifted_service_layout =
    [(''reserved'', Value 0 2 10 6), (''time_shift'', Value 0 2 0 10), (''reserved2'', Value 2 3 20 4),
     (''major_channel_number'', Value 2 3 10 10), (''minor_channel_number'', Value 2 3 0 10)]"

definition atsc_time_shifted_service_descriptor_codec :: "byte_order \<Rightarrow> mem \<Rightarrow> nat \<Rightarrow> (mem \<times> bool) option" where
  "atsc_time_shifted_service_descriptor_codec e m d =
     do {
       len \<leftarrow> rd8 m (d + 1);
       if len < 1 then Some (m, False)
       else do {
         ((m, pos, idx), ok) \<leftarrow> while_do
           (\<lambda>(m, pos, idx). do {
             number_of_services \<leftarrow> fld e 1 0 5 m (d + 2);
             Some (idx < number_of_services) })
           (\<lambda>(m, pos, idx).
             do {
               len' \<leftarrow> rd8 m (d + 1);
               if len' < pos + 5 then Some ((m, pos, idx), False)
               else do {
                 m \<leftarrow> bswap16 e m (d + pos + 2);
                 m \<leftarrow> bswap24 e m (d + pos + 4);
                 let pos = pos + 5;
                 let idx = idx + 1;
                 Some ((m, pos, idx), True) } })
           (m, 1, 0);
         if \<not> ok then Some (m, False)
         else Some (m, True) } }"

definition atsc_time_shifted_service_descriptor_services_first :: "byte_order \<Rightarrow> mem \<Rightarrow> nat \<Rightarrow> nat option option" where
  "atsc_time_shifted_service_descriptor_services_first e m d =
     do {
       number_of_services \<leftarrow> fld e 1 0 5 m (d + 2);
       if number_of_services = 0 then Some None
       else Some (Some (d + 3)) }"

definition atsc_time_shifted_service_descriptor_services_next :: "byte_order \<Rightarrow> mem \<Rightarrow> nat \<Rightarrow> nat \<Rightarrow> nat \<Rightarrow> nat option option" where
  "atsc_time_shifted_service_descriptor_services_next e m d pos idx =
     do {
       number_of_services \<leftarrow> fld e 1 0 5 m (d + 2);
       if idx \<ge> number_of_services then Some None
       else Some (Some (pos + 5)) }"

section \<open>What the codecs do\<close>

lemma wp_text_validate: "p + n \<le> length m \<Longrightarrow> (\<And>r. Q r) \<Longrightarrow> wp (atsc_text_validate m p n) Q"
  using atsc_text_validate_total [of p n m] by (auto simp: wp_def)

lemma wp_text_frame:
  "same lo hi m0 m \<Longrightarrow> p + n \<le> length m0 \<Longrightarrow> (\<And>r. wp (k r) Q) \<Longrightarrow> wp (Option.bind (atsc_text_validate m p n) k) Q"
  using atsc_text_validate_total [of p n m] by (auto simp: wp_def same_length)

lemma atsc_ac3_descriptor_codec_ok: "exact_codec atsc_ac3_descriptor_codec atsc_ac3_descriptor_layout (\<lambda>len. 4 \<le> len)"
  by (rule exact_codecI) (simp add: atsc_ac3_descriptor_codec_def atsc_ac3_descriptor_layout_def safe_simps decode_simps)

lemma atsc_caption_service_descriptor_codec_ok: "counted_correct atsc_caption_service_descriptor_codec atsc_caption_service_descriptor_layout (Value 2 1 0 5) 3 6 atsc_caption_service_entry_layout"
proof (rule counted_correctI [where ?p0.0 = 1 and head = "\<lambda>e m d. m" and pre = "\<lambda>e m d k. k m"], rule atsc_caption_service_descriptor_codec_def, goal_cases)
  case (4 e m d len m' pos idx)
  then show ?case using same_length [OF 4(3)] val_at_same [OF 4(3), of "d + 2" 1 e] same_rd8 [OF 4(3), of "d + 2"]
    by (simp add: fld_Some val_at_byte byte_at_other rd8_Some byte_at_less)
qed (auto simp: bswap_swapped atsc_caption_service_descriptor_layout_def atsc_caption_service_entry_layout_def layout_within_def safe_simps decode_simps)

lemma atsc_component_name_descriptor_codec_ok: "codec_correct atsc_component_name_descriptor_codec []"
  by (rule codec_correctI) (simp add: atsc_component_name_descriptor_codec_def wp_text_validate safe_simps decode_simps)

lemma atsc_content_advisory_descriptor_codec_ok:
  "codec_correct atsc_content_advisory_descriptor_codec atsc_content_advisory_descriptor_layout"
proof (rule codec_tailI [where k = 3 and head = "\<lambda>e m d. m"], goal_cases)
  case (5 e m d len)
  have hdr: "wp (Option.bind (rd8 m' (d + 1)) k) Q" if "same (d + 3) (d + 2 + len) m m'" "wp (k len) Q" for m' k Q
    using same_rd8 [OF that(1), of "d + 1"] that(2) 5(1) by simp
  have cnt: "fld e 1 0 6 m' (d + 2) = Some (val_at e 1 m (d + 2) div 2 ^ 0 mod 2 ^ 6)" if "same (d + 3) (d + 2 + len) m m'" for m'
    using val_at_same [OF that, of "d + 2" 1 e] 5(2,3) by (simp add: fld_Some same_length [OF that])
  from 5 show ?case
    unfolding atsc_content_advisory_descriptor_codec_def Let_def 5(1) Option.bind.simps
    by - (rule wp_checkI, simp, rule wp_counted_entries [where n = "val_at e 1 m (d + 2) div 2 ^ 0 mod 2 ^ 6"], assumption, simp only: case_prod_conv cnt Option.bind.simps,
        (rule hdr wp_frame wp_text_frame | assumption | (simp; fail))+)
qed (simp_all add: atsc_content_advisory_descriptor_codec_def atsc_content_advisory_descriptor_layout_def layout_within_def
    safe_simps decode_simps)

lemma atsc_dcc_arriving_request_descriptor_codec_ok: "codec_correct atsc_dcc_arriving_request_descriptor_codec atsc_dcc_arriving_request_descriptor_layout"
  by (rule codec_correctI) (simp add: atsc_dcc_arriving_request_descriptor_codec_def atsc_dcc_arriving_request_descriptor_layout_def wp_text_validate safe_simps decode_simps)

lemma atsc_dcc_departing_request_descriptor_codec_ok: "codec_correct atsc_dcc_departing_request_descriptor_codec atsc_dcc_departing_request_descriptor_layout"
  by (rule codec_correctI) (simp add: atsc_dcc_departing_request_descriptor_codec_def atsc_dcc_departing_request_descriptor_layout_def wp_text_validate safe_simps decode_simps)

lemma atsc_extended_channel_name_descriptor_codec_ok: "codec_correct atsc_extended_channel_name_descriptor_codec []"
  by (rule codec_correctI) (simp add: atsc_extended_channel_name_descriptor_codec_def wp_text_validate safe_simps decode_simps)

lemma atsc_genre_descriptor_codec_ok: "codec_correct atsc_genre_descriptor_codec atsc_genre_descriptor_layout"
  by (rule codec_correctI) (simp add: atsc_genre_descriptor_codec_def atsc_genre_descriptor_layout_def safe_simps decode_simps)

lemma atsc_rc_descriptor_codec_ok: "exact_codec atsc_rc_descriptor_codec [] (\<lambda>len. True)"
  by (rule exact_codecI) (simp add: atsc_rc_descriptor_codec_def safe_simps decode_simps)

lemma atsc_service_location_descriptor_codec_ok: "counted_correct atsc_service_location_descriptor_codec atsc_service_location_descriptor_layout (Value 4 1 0 8) 5 6 atsc_caption_service_location_element_layout"
proof (rule counted_correctI [where ?p0.0 = 3 and head = "\<lambda>e m d. swapped e 2 m (d + 2)" and pre = "\<lambda>e m d k. Option.bind (bswap16 e m (d + 2)) k"], rule atsc_service_location_descriptor_codec_def, goal_cases)
  case (4 e m d len m' pos idx)
  then show ?case using same_length [OF 4(3)] val_at_same [OF 4(3), of "d + 4" 1 e] same_rd8 [OF 4(3), of "d + 4"]
    by (simp add: fld_Some val_at_byte byte_at_other rd8_Some byte_at_less)
qed (auto simp: bswap_swapped atsc_service_location_descriptor_layout_def atsc_caption_service_location_element_layout_def layout_within_def safe_simps decode_simps)

lemma atsc_stuffing_descriptor_codec_ok: "exact_codec atsc_stuffing_descriptor_codec [] (\<lambda>len. True)"
  by (rule exact_codecI) (simp add: atsc_stuffing_descriptor_codec_def safe_simps decode_simps)

lemma atsc_time_shifted_service_descriptor_codec_ok: "counted_correct atsc_time_shifted_service_descriptor_codec atsc_time_shifted_service_descriptor_layout (Value 2 1 0 5) 3 5 atsc_time_shifted_service_layout"
proof (rule counted_correctI [where ?p0.0 = 1 and head = "\<lambda>e m d. m" and pre = "\<lambda>e m d k. k m"], rule atsc_time_shifted_service_descriptor_codec_def, goal_cases)
  case (4 e m d len m' pos idx)
  then show ?case using same_length [OF 4(3)] val_at_same [OF 4(3), of "d + 2" 1 e] same_rd8 [OF 4(3), of "d + 2"]
    by (simp add: fld_Some val_at_byte byte_at_other rd8_Some byte_at_less)
qed (auto simp: bswap_swapped atsc_time_shifted_service_descriptor_layout_def atsc_time_shifted_service_layout_def layout_within_def safe_simps decode_simps)

end
