(* ===== verification/Descriptor_Props.thy ===== *)
theory Descriptor_Props
  imports Mpeg_Descriptors Dvb_Descriptors_2 Atsc_Descriptors
begin

text \<open>
  What the descriptor codecs of \<open>libucsi\<close> have in common: the codecs are listed by their kind, and one theorem states
  for all of a kind what they accept, that they keep to the bytes of their descriptor, and that every field
  then reads as it was transmitted.  The codecs that leave their descriptor are shown on inputs on which they do.
\<close>

section \<open>Codecs that check the length\<close>

type_synonym codec = "byte_order \<Rightarrow> mem \<Rightarrow> nat \<Rightarrow> (mem \<times> bool) option"

definition exact_codecs :: "(codec \<times> layout \<times> (nat \<Rightarrow> bool)) list" where
  "exact_codecs =
   [(mpeg_audio_stream_descriptor_codec, mpeg_audio_stream_descriptor_layout, \<lambda>len. len = 1),
    (mpeg_ca_descriptor_codec, mpeg_ca_descriptor_layout, \<lambda>len. 4 \<le> len),
    (mpeg_copyright_descriptor_codec, mpeg_copyright_descriptor_layout, \<lambda>len. 4 \<le> len),
    (mpeg_data_stream_alignment_descriptor_codec, mpeg_data_stream_alignment_descriptor_layout, \<lambda>len. len = 1),
    (mpeg_external_es_id_descriptor_codec, mpeg_external_es_id_descriptor_layout, \<lambda>len. len = 2),
    (mpeg_fmxbuffer_size_descriptor_codec, [], \<lambda>len. True),
    (mpeg_hierarchy_descriptor_codec, mpeg_hierarchy_descriptor_layout, \<lambda>len. len = 4),
    (mpeg_ibp_descriptor_codec, mpeg_ibp_descriptor_layout, \<lambda>len. len = 2),
    (mpeg_iod_descriptor_codec, mpeg_iod_descriptor_layout, \<lambda>len. 2 \<le> len),
    (mpeg_maximum_bitrate_descriptor_codec, mpeg_maximum_bitrate_descriptor_layout, \<lambda>len. len = 3),
    (mpeg_metadata_std_descriptor_codec, mpeg_metadata_std_descriptor_layout, \<lambda>len. len = 9),
    (mpeg4_audio_descriptor_codec, mpeg4_audio_descriptor_layout, \<lambda>len. len = 1),
    (mpeg4_video_descriptor_codec, mpeg4_video_descriptor_layout, \<lambda>len. len = 1),
    (mpeg_multiplex_buffer_descriptor_codec, mpeg_multiplex_buffer_descriptor_layout, \<lambda>len. len = 6),
    (mpeg_multiplex_buffer_utilization_descriptor_codec, mpeg_multiplex_buffer_utilization_descriptor_layout, \<lambda>len. len = 4),
    (mpeg_muxcode_descriptor_codec, [], \<lambda>len. True),
    (mpeg_private_data_indicator_descriptor_codec, mpeg_private_data_indicator_descriptor_layout, \<lambda>len. len = 4),
    (mpeg_registration_descriptor_codec, mpeg_registration_descriptor_layout, \<lambda>len. 4 \<le> len),
    (mpeg_sl_descriptor_codec, mpeg_sl_descriptor_layout, \<lambda>len. len = 2),
    (mpeg_smoothing_buffer_descriptor_codec, mpeg_smoothing_buffer_descriptor_layout, \<lambda>len. len = 6),
    (mpeg_std_descriptor_codec, mpeg_std_descriptor_layout, \<lambda>len. len = 1),
    (mpeg_system_clock_descriptor_codec, mpeg_system_clock_descriptor_layout, \<lambda>len. len = 2),
    (mpeg_target_background_grid_descriptor_codec, mpeg_target_background_grid_descriptor_layout, \<lambda>len. len = 4),
    (mpeg_video_window_descriptor_codec, mpeg_video_window_descriptor_layout, \<lambda>len. len = 4),
    (dvb_ac3_descriptor_codec, dvb_ac3_descriptor_layout, \<lambda>len. 1 \<le> len),
    (dvb_adaptation_field_data_descriptor_codec, dvb_adaptation_field_data_descriptor_layout, \<lambda>len. len = 1),
    (dvb_ancillary_data_descriptor_codec, dvb_ancillary_data_descriptor_layout, \<lambda>len. len = 1),
    (dvb_bouquet_name_descriptor_codec, [], \<lambda>len. True),
    (dvb_cable_delivery_descriptor_codec, dvb_cable_delivery_descriptor_layout, \<lambda>len. len = 11),
    (dvb_component_descriptor_codec, dvb_component_descriptor_layout, \<lambda>len. 6 \<le> len),
    (dvb_data_broadcast_id_descriptor_codec, dvb_data_broadcast_id_descriptor_layout, \<lambda>len. 2 \<le> len),
    (dvb_default_authority_descriptor_codec, [], \<lambda>len. True),
    (dvb_dsng_descriptor_codec, [], \<lambda>len. True),
    (dvb_ip_platform_name_descriptor_codec, dvb_ip_platform_name_descriptor_layout, \<lambda>len. 3 \<le> len),
    (dvb_ip_platform_provider_name_descriptor_codec, dvb_ip_platform_provider_name_descriptor_layout, \<lambda>len. 3 \<le> len),
    (dvb_ip_mac_stream_location_descriptor_codec, dvb_ip_mac_stream_location_descriptor_layout, \<lambda>len. len = 9),
    (dvb_network_name_descriptor_codec, [], \<lambda>len. True),
    (dvb_partial_transport_stream_descriptor_codec, dvb_partial_transport_stream_descriptor_layout, \<lambda>len. len = 8),
    (dvb_pdc_descriptor_codec, dvb_pdc_descriptor_layout, \<lambda>len. len = 3),
    (dvb_private_data_specifier_descriptor_codec, dvb_private_data_specifier_descriptor_layout, \<lambda>len. len = 4),
    (dvb_related_content_descriptor_codec, [], \<lambda>len. True),
    (dvb_satellite_delivery_descriptor_codec, dvb_satellite_delivery_descriptor_layout, \<lambda>len. 11 \<le> len),
    (dvb_scrambling_descriptor_codec, dvb_scrambling_descriptor_layout, \<lambda>len. len = 1),
    (dvb_service_identifier_descriptor_codec, [], \<lambda>len. True),
    (dvb_service_move_descriptor_codec, dvb_service_move_descriptor_layout, \<lambda>len. len = 6),
    (dvb_short_smoothing_buffer_descriptor_codec, dvb_short_smoothing_buffer_descriptor_layout, \<lambda>len. 1 \<le> len),
    (dvb_stream_identifier_descriptor_codec, dvb_stream_identifier_descriptor_layout, \<lambda>len. len = 1),
    (dvb_stuffing_descriptor_codec, [], \<lambda>len. True),
    (dvb_terrestrial_delivery_descriptor_codec, dvb_terrestrial_delivery_descriptor_layout, \<lambda>len. len = 11),
    (dvb_time_shifted_event_descriptor_codec, dvb_time_shifted_event_descriptor_layout, \<lambda>len. len = 4),
    (dvb_time_shifted_service_descriptor_codec, dvb_time_shifted_service_descriptor_layout, \<lambda>len. len = 2),
    (dvb_time_slice_fec_identifier_descriptor_codec, dvb_time_slice_fec_identifier_descriptor_layout, \<lambda>len. 3 \<le> len),
    (dvb_transport_stream_descriptor_codec, [], \<lambda>len. True),
    (atsc_ac3_descriptor_codec, atsc_ac3_descriptor_layout, \<lambda>len. 4 \<le> len),
    (atsc_rc_descriptor_codec, [], \<lambda>len. True),
    (atsc_stuffing_descriptor_codec, [], \<lambda>len. True)]"

lemma exact_codecs_ok: "list_all (\<lambda>(f, lay, acc). exact_codec f lay acc) exact_codecs"
  by (simp only: exact_codecs_def list.pred_inject prod.case simp_thms
    mpeg_audio_stream_descriptor_codec_ok
    mpeg_ca_descriptor_codec_ok
    mpeg_copyright_descriptor_codec_ok
    mpeg_data_stream_alignment_descriptor_codec_ok
    mpeg_external_es_id_descriptor_codec_ok
    mpeg_fmxbuffer_size_descriptor_codec_ok
    mpeg_hierarchy_descriptor_codec_ok
    mpeg_ibp_descriptor_codec_ok
    mpeg_iod_descriptor_codec_ok
    mpeg_maximum_bitrate_descriptor_codec_ok
    mpeg_metadata_std_descriptor_codec_ok
    mpeg4_audio_descriptor_codec_ok
    mpeg4_video_descriptor_codec_ok
    mpeg_multiplex_buffer_descriptor_codec_ok
    mpeg_multiplex_buffer_utilization_descriptor_codec_ok
    mpeg_muxcode_descriptor_codec_ok
    mpeg_private_data_indicator_descriptor_codec_ok
    mpeg_registration_descriptor_codec_ok
    mpeg_sl_descriptor_codec_ok
    mpeg_smoothing_buffer_descriptor_codec_ok
    mpeg_std_descriptor_codec_ok
    mpeg_system_clock_descriptor_codec_ok
    mpeg_target_background_grid_descriptor_codec_ok
    mpeg_video_window_descriptor_codec_ok
    dvb_ac3_descriptor_codec_ok
    dvb_adaptation_field_data_descriptor_codec_ok
    dvb_ancillary_data_descriptor_codec_ok
    dvb_bouquet_name_descriptor_codec_ok
    dvb_cable_delivery_descriptor_codec_ok
    dvb_component_descriptor_codec_ok
    dvb_data_broadcast_id_descriptor_codec_ok
    dvb_default_authority_descriptor_codec_ok
    dvb_dsng_descriptor_codec_ok
    dvb_ip_platform_name_descriptor_codec_ok
    dvb_ip_platform_provider_name_descriptor_codec_ok
    dvb_ip_mac_stream_location_descriptor_codec_ok
    dvb_network_name_descriptor_codec_ok
    dvb_partial_transport_stream_descriptor_codec_ok
    dvb_pdc_descriptor_codec_ok
    dvb_private_data_specifier_descriptor_codec_ok
    dvb_related_content_descriptor_codec_ok
    dvb_satellite_delivery_descriptor_codec_ok
    dvb_scrambling_descriptor_codec_ok
    dvb_service_identifier_descriptor_codec_ok
    dvb_service_move_descriptor_codec_ok
    dvb_short_smoothing_buffer_descriptor_codec_ok
    dvb_stream_identifier_descriptor_codec_ok
    dvb_stuffing_descriptor_codec_ok
    dvb_terrestrial_delivery_descriptor_codec_ok
    dvb_time_shifted_event_descriptor_codec_ok
    dvb_time_shifted_service_descriptor_codec_ok
    dvb_time_slice_fec_identifier_descriptor_codec_ok
    dvb_transport_stream_descriptor_codec_ok
    atsc_ac3_descriptor_codec_ok
    atsc_rc_descriptor_codec_ok
    atsc_stuffing_descriptor_codec_ok)



section \<open>Codecs that follow the data\<close>

definition structured_codecs :: "(codec \<times> layout) list" where
  "structured_codecs =
   [(mpeg_content_labelling_descriptor_codec, mpeg_content_labelling_descriptor_layout),
    (mpeg_metadata_descriptor_codec, mpeg_metadata_descriptor_layout),
    (mpeg_metadata_pointer_descriptor_codec, mpeg_metadata_pointer_descriptor_layout),
    (mpeg_video_stream_descriptor_codec, mpeg_video_stream_descriptor_layout),
    (dvb_ait_application_icons_descriptor_codec, dvb_ait_application_icons_descriptor_layout),
    (dvb_ait_application_name_descriptor_codec, []),
    (dvb_announcement_support_descriptor_codec, dvb_announcement_support_descriptor_layout),
    (dvb_cell_frequency_link_descriptor_codec, []),
    (dvb_cell_list_descriptor_codec, []),
    (dvb_content_identifier_descriptor_codec, []),
    (dvb_extended_event_descriptor_codec, dvb_extended_event_descriptor_layout),
    (dvb_mosaic_descriptor_codec, dvb_mosaic_descriptor_layout),
    (dvb_multilingual_bouquet_name_descriptor_codec, []),
    (dvb_multilingual_component_descriptor_codec, dvb_multilingual_component_descriptor_layout),
    (dvb_multilingual_network_name_descriptor_codec, []),
    (dvb_multilingual_service_name_descriptor_codec, []),
    (dvb_rnt_rar_over_dvb_stream_descriptor_codec, dvb_rnt_rar_over_dvb_stream_descriptor_layout),
    (dvb_rnt_rar_over_ip_descriptor_codec, dvb_rnt_rar_over_ip_descriptor_layout),
    (dvb_s2_satellite_delivery_descriptor_codec, dvb_s2_satellite_delivery_descriptor_layout),
    (dvb_service_descriptor_codec, dvb_service_descriptor_layout),
    (dvb_short_event_descriptor_codec, dvb_short_event_descriptor_layout),
    (dvb_vbi_data_descriptor_codec, []),
    (atsc_component_name_descriptor_codec, []),
    (atsc_content_advisory_descriptor_codec, atsc_content_advisory_descriptor_layout),
    (atsc_dcc_arriving_request_descriptor_codec, atsc_dcc_arriving_request_descriptor_layout),
    (atsc_dcc_departing_request_descriptor_codec, atsc_dcc_departing_request_descriptor_layout),
    (atsc_extended_channel_name_descriptor_codec, []),
    (atsc_genre_descriptor_codec, atsc_genre_descriptor_layout)]"

lemma structured_codecs_ok: "list_all (\<lambda>(f, lay). codec_correct f lay) structured_codecs"
  by (simp only: structured_codecs_def list.pred_inject prod.case simp_thms
    mpeg_content_labelling_descriptor_codec_ok
    mpeg_metadata_descriptor_codec_ok
    mpeg_metadata_pointer_descriptor_codec_ok
    mpeg_video_stream_descriptor_codec_ok
    dvb_ait_application_icons_descriptor_codec_ok
    dvb_ait_application_name_descriptor_codec_ok
    dvb_announcement_support_descriptor_codec_ok
    dvb_cell_frequency_link_descriptor_codec_ok
    dvb_cell_list_descriptor_codec_ok
    dvb_content_identifier_descriptor_codec_ok
    dvb_extended_event_descriptor_codec_ok
    dvb_mosaic_descriptor_codec_ok
    dvb_multilingual_bouquet_name_descriptor_codec_ok
    dvb_multilingual_component_descriptor_codec_ok
    dvb_multilingual_network_name_descriptor_codec_ok
    dvb_multilingual_service_name_descriptor_codec_ok
    dvb_rnt_rar_over_dvb_stream_descriptor_codec_ok
    dvb_rnt_rar_over_ip_descriptor_codec_ok
    dvb_s2_satellite_delivery_descriptor_codec_ok
    dvb_service_descriptor_codec_ok
    dvb_short_event_descriptor_codec_ok
    dvb_vbi_data_descriptor_codec_ok
    atsc_component_name_descriptor_codec_ok
    atsc_content_advisory_descriptor_codec_ok
    atsc_dcc_arriving_request_descriptor_codec_ok
    atsc_dcc_departing_request_descriptor_codec_ok
    atsc_extended_channel_name_descriptor_codec_ok
    atsc_genre_descriptor_codec_ok)



section \<open>Tables\<close>

text \<open>The entries a client visits: with the \<open>..._first\<close> and \<open>..._next\<close> functions, or by index up to the count.\<close>

definition iterate :: "(mem \<Rightarrow> nat \<Rightarrow> nat option option) \<Rightarrow> (mem \<Rightarrow> nat \<Rightarrow> nat \<Rightarrow> nat option option) \<Rightarrow> mem \<Rightarrow> nat \<Rightarrow> nat list option" where
  "iterate first nxt m d = walk (first m d) (nxt m d)"

definition indexed :: "(nat \<Rightarrow> nat) \<Rightarrow> (mem \<Rightarrow> nat \<Rightarrow> int option) \<Rightarrow> nat \<Rightarrow> mem \<Rightarrow> nat \<Rightarrow> nat list option" where
  "indexed arr count k m d = do { n \<leftarrow> count m d; Some (map (\<lambda>i. arr d + i * k) [0..<nat n]) }"

record descriptor_table =
  t_codec :: codec
  t_walk :: "mem \<Rightarrow> nat \<Rightarrow> nat list option"
  t_header :: layout
  t_off :: nat
  t_size :: nat
  t_entry :: layout

definition visits_all :: "(mem \<Rightarrow> nat \<Rightarrow> nat list option) \<Rightarrow> nat \<Rightarrow> nat \<Rightarrow> bool" where
  "visits_all w off k \<longleftrightarrow> (\<forall>m d len n. rd8 m (d + 1) = Some len \<longrightarrow> 2 + len = off + n * k \<longrightarrow>
     w m d = Some (map (\<lambda>i. d + off + i * k) [0..<n]))"

lemma iterateI:
  assumes "0 < k" "\<And>m d len. rd8 m (d + 1) = Some len \<Longrightarrow> k dvd 2 + len - off \<Longrightarrow> off \<le> 2 + len
      \<Longrightarrow> first m d = Some (if 2 + len = off then None else Some (d + off))"
    and "\<And>m d len p. rd8 m (d + 1) = Some len \<Longrightarrow> nxt m d p = fixed_next k (d + 2 + len) p"
  shows "visits_all (iterate first nxt) off k"
  unfolding visits_all_def iterate_def
proof (intro allI impI)
  fix m d len n
  assume rd: "rd8 m (d + 1) = Some len" and n: "2 + len = off + n * k"
  have "d + 2 + len = d + off + n * k" using n by simp
  then have "nxt m d p = fixed_next k (d + off + n * k) p" for p using assms(3) [OF rd, of p] by (simp only:)
  then have "nxt m d = fixed_next k (d + off + n * k)" ..
  moreover have "first m d = Some (if d + off \<ge> d + off + n * k then None else Some (d + off))"
    using assms(2) [OF rd] n assms(1) by auto
  ultimately show "walk (first m d) (nxt m d) = Some (map (\<lambda>i. d + off + i * k) [0..<n])"
    using fixed.walk_from [OF fixed_tiles [OF assms(1)], of "d + off" n] by (simp add: walk_def)
qed

lemma dvb_application_signalling_descriptor_visits: "visits_all (iterate dvb_application_signalling_descriptor_entries_first dvb_application_signalling_descriptor_entries_next) 2 3"
  by (rule iterateI) (auto simp: dvb_application_signalling_descriptor_entries_first_def dvb_application_signalling_descriptor_entries_next_def fixed_next_def dvd_imp_le)

lemma dvb_ca_identifier_descriptor_visits: "visits_all (indexed dvb_ca_identifier_descriptor_ca_system_ids (\<lambda>m d. map_option int (dvb_ca_identifier_descriptor_ca_system_ids_count m d)) 2) 2 2"
  by (auto simp: visits_all_def indexed_def dvb_ca_identifier_descriptor_ca_system_ids_def dvb_ca_identifier_descriptor_ca_system_ids_count_def)

lemma dvb_content_descriptor_visits: "visits_all (iterate dvb_content_descriptor_nibbles_first dvb_content_descriptor_nibbles_next) 2 2"
  by (rule iterateI) (auto simp: dvb_content_descriptor_nibbles_first_def dvb_content_descriptor_nibbles_next_def fixed_next_def dvd_imp_le)

lemma dvb_country_availability_descriptor_visits: "visits_all (iterate dvb_country_availability_descriptor_countries_first dvb_country_availability_descriptor_countries_next) 3 3"
  by (rule iterateI) (auto simp: dvb_country_availability_descriptor_countries_first_def dvb_country_availability_descriptor_countries_next_def fixed_next_def dvd_imp_le)

lemma dvb_frequency_list_descriptor_visits: "visits_all (indexed dvb_frequency_list_descriptor_centre_frequencies dvb_frequency_list_descriptor_centre_frequencies_count 4) 3 4"
  by (auto simp: visits_all_def indexed_def dvb_frequency_list_descriptor_centre_frequencies_def dvb_frequency_list_descriptor_centre_frequencies_count_def)

lemma dvb_local_time_offset_descriptor_visits: "visits_all (iterate dvb_local_time_offset_descriptor_offsets_first dvb_local_time_offset_descriptor_offsets_next) 2 13"
  by (rule iterateI) (auto simp: dvb_local_time_offset_descriptor_offsets_first_def dvb_local_time_offset_descriptor_offsets_next_def fixed_next_def dvd_imp_le)

lemma dvb_nvod_reference_descriptor_visits: "visits_all (iterate dvb_nvod_reference_descriptor_references_first dvb_nvod_reference_descriptor_references_next) 2 6"
  by (rule iterateI) (auto simp: dvb_nvod_reference_descriptor_references_first_def dvb_nvod_reference_descriptor_references_next_def fixed_next_def dvd_imp_le)

lemma dvb_parental_rating_descriptor_visits: "visits_all (iterate dvb_parental_rating_descriptor_ratings_first dvb_parental_rating_descriptor_ratings_next) 2 4"
  by (rule iterateI) (auto simp: dvb_parental_rating_descriptor_ratings_first_def dvb_parental_rating_descriptor_ratings_next_def fixed_next_def dvd_imp_le)

lemma dvb_rnt_rnt_scan_descriptor_visits: "visits_all (iterate dvb_rnt_rnt_scan_descriptor_entries_first dvb_rnt_rnt_scan_descriptor_entries_next) 2 5"
  by (rule iterateI) (auto simp: dvb_rnt_rnt_scan_descriptor_entries_first_def dvb_rnt_rnt_scan_descriptor_entries_next_def fixed_next_def dvd_imp_le)

lemma dvb_service_availability_descriptor_visits: "visits_all (indexed dvb_service_availability_descriptor_cell_ids dvb_service_availability_descriptor_cell_ids_count 2) 3 2"
  by (auto simp: visits_all_def indexed_def dvb_service_availability_descriptor_cell_ids_def dvb_service_availability_descriptor_cell_ids_count_def)

lemma dvb_service_list_descriptor_visits: "visits_all (iterate dvb_service_list_descriptor_services_first dvb_service_list_descriptor_services_next) 2 3"
  by (rule iterateI) (auto simp: dvb_service_list_descriptor_services_first_def dvb_service_list_descriptor_services_next_def fixed_next_def dvd_imp_le)

lemma dvb_subtitling_descriptor_visits: "visits_all (iterate dvb_subtitling_descriptor_subtitles_first dvb_subtitling_descriptor_subtitles_next) 2 8"
  by (rule iterateI) (auto simp: dvb_subtitling_descriptor_subtitles_first_def dvb_subtitling_descriptor_subtitles_next_def fixed_next_def dvd_imp_le)

lemma dvb_target_ip_slash_descriptor_visits: "visits_all (iterate dvb_target_ip_slash_descriptor_ipv4_slash_first dvb_target_ip_slash_descriptor_ipv4_slash_next) 2 5"
  by (rule iterateI) (auto simp: dvb_target_ip_slash_descriptor_ipv4_slash_first_def dvb_target_ip_slash_descriptor_ipv4_slash_next_def fixed_next_def dvd_imp_le)

lemma dvb_target_ip_source_slash_descriptor_visits: "visits_all (iterate dvb_target_ip_source_slash_descriptor_ipv4_source_slash_first dvb_target_ip_source_slash_descriptor_ipv4_source_slash_next) 2 10"
  by (rule iterateI) (auto simp: dvb_target_ip_source_slash_descriptor_ipv4_source_slash_first_def dvb_target_ip_source_slash_descriptor_ipv4_source_slash_next_def fixed_next_def dvd_imp_le)

lemma dvb_target_ipv6_slash_descriptor_visits: "visits_all (iterate dvb_target_ipv6_slash_descriptor_ipv6_slash_first dvb_target_ipv6_slash_descriptor_ipv6_slash_next) 2 17"
  by (rule iterateI) (auto simp: dvb_target_ipv6_slash_descriptor_ipv6_slash_first_def dvb_target_ipv6_slash_descriptor_ipv6_slash_next_def fixed_next_def dvd_imp_le)

lemma dvb_target_ipv6_source_slash_descriptor_visits: "visits_all (iterate dvb_target_ipv6_source_slash_descriptor_ipv6_source_slash_first dvb_target_ipv6_source_slash_descriptor_ipv6_source_slash_next) 2 34"
  by (rule iterateI) (auto simp: dvb_target_ipv6_source_slash_descriptor_ipv6_source_slash_first_def dvb_target_ipv6_source_slash_descriptor_ipv6_source_slash_next_def fixed_next_def dvd_imp_le)

lemma dvb_teletext_descriptor_visits: "visits_all (iterate dvb_teletext_descriptor_entries_first dvb_teletext_descriptor_entries_next) 2 5"
  by (rule iterateI) (auto simp: dvb_teletext_descriptor_entries_first_def dvb_teletext_descriptor_entries_next_def fixed_next_def dvd_imp_le)

lemma dvb_tva_id_descriptor_visits: "visits_all (iterate dvb_tva_id_descriptor_entries_first dvb_tva_id_descriptor_entries_next) 2 3"
  by (rule iterateI) (auto simp: dvb_tva_id_descriptor_entries_first_def dvb_tva_id_descriptor_entries_next_def fixed_next_def dvd_imp_le)

lemma dvb_vbi_teletext_descriptor_visits: "visits_all (iterate dvb_vbi_teletext_descriptor_entries_first dvb_vbi_teletext_descriptor_entries_next) 2 5"
  by (rule iterateI) (auto simp: dvb_vbi_teletext_descriptor_entries_first_def dvb_vbi_teletext_descriptor_entries_next_def fixed_next_def dvd_imp_le)

lemma mpeg_fmc_descriptor_visits: "visits_all (iterate mpeg_fmc_descriptor_muxes_first mpeg_fmc_descriptor_muxes_next) 2 3"
  by (rule iterateI) (auto simp: mpeg_fmc_descriptor_muxes_first_def mpeg_fmc_descriptor_muxes_next_def fixed_next_def dvd_imp_le)

lemma mpeg_iso_639_language_descriptor_visits: "visits_all (iterate mpeg_iso_639_language_descriptor_languages_first mpeg_iso_639_language_descriptor_languages_next) 2 4"
  by (rule iterateI) (auto simp: mpeg_iso_639_language_descriptor_languages_first_def mpeg_iso_639_language_descriptor_languages_next_def fixed_next_def dvd_imp_le)

definition descriptor_tables :: "descriptor_table list" where
  "descriptor_tables =
   [\<lparr> t_codec = dvb_application_signalling_descriptor_codec, t_walk = iterate dvb_application_signalling_descriptor_entries_first dvb_application_signalling_descriptor_entries_next,
      t_header = [], t_off = 2, t_size = 3, t_entry = dvb_application_signalling_entry_layout \<rparr>,
    \<lparr> t_codec = dvb_ca_identifier_descriptor_codec, t_walk = indexed dvb_ca_identifier_descriptor_ca_system_ids (\<lambda>m d. map_option int (dvb_ca_identifier_descriptor_ca_system_ids_count m d)) 2,
      t_header = [], t_off = 2, t_size = 2, t_entry = [(''value'', Value 0 2 0 16)] \<rparr>,
    \<lparr> t_codec = dvb_content_descriptor_codec, t_walk = iterate dvb_content_descriptor_nibbles_first dvb_content_descriptor_nibbles_next,
      t_header = [], t_off = 2, t_size = 2, t_entry = dvb_content_nibble_layout \<rparr>,
    \<lparr> t_codec = dvb_country_availability_descriptor_codec, t_walk = iterate dvb_country_availability_descriptor_countries_first dvb_country_availability_descriptor_countries_next,
      t_header = dvb_country_availability_descriptor_layout, t_off = 3, t_size = 3, t_entry = dvb_country_availability_entry_layout \<rparr>,
    \<lparr> t_codec = dvb_frequency_list_descriptor_codec, t_walk = indexed dvb_frequency_list_descriptor_centre_frequencies dvb_frequency_list_descriptor_centre_frequencies_count 4,
      t_header = dvb_frequency_list_descriptor_layout, t_off = 3, t_size = 4, t_entry = [(''value'', Value 0 4 0 32)] \<rparr>,
    \<lparr> t_codec = dvb_local_time_offset_descriptor_codec, t_walk = iterate dvb_local_time_offset_descriptor_offsets_first dvb_local_time_offset_descriptor_offsets_next,
      t_header = [], t_off = 2, t_size = 13, t_entry = dvb_local_time_offset_layout \<rparr>,
    \<lparr> t_codec = dvb_nvod_reference_descriptor_codec, t_walk = iterate dvb_nvod_reference_descriptor_references_first dvb_nvod_reference_descriptor_references_next,
      t_header = [], t_off = 2, t_size = 6, t_entry = dvb_nvod_reference_layout \<rparr>,
    \<lparr> t_codec = dvb_parental_rating_descriptor_codec, t_walk = iterate dvb_parental_rating_descriptor_ratings_first dvb_parental_rating_descriptor_ratings_next,
      t_header = [], t_off = 2, t_size = 4, t_entry = dvb_parental_rating_layout \<rparr>,
    \<lparr> t_codec = dvb_rnt_rnt_scan_descriptor_codec, t_walk = iterate dvb_rnt_rnt_scan_descriptor_entries_first dvb_rnt_rnt_scan_descriptor_entries_next,
      t_header = [], t_off = 2, t_size = 5, t_entry = dvb_rnt_rnt_scan_entry_layout \<rparr>,
    \<lparr> t_codec = dvb_service_availability_descriptor_codec, t_walk = indexed dvb_service_availability_descriptor_cell_ids dvb_service_availability_descriptor_cell_ids_count 2,
      t_header = dvb_service_availability_descriptor_layout, t_off = 3, t_size = 2, t_entry = [(''value'', Value 0 2 0 16)] \<rparr>,
    \<lparr> t_codec = dvb_service_list_descriptor_codec, t_walk = iterate dvb_service_list_descriptor_services_first dvb_service_list_descriptor_services_next,
      t_header = [], t_off = 2, t_size = 3, t_entry = dvb_service_list_service_layout \<rparr>,
    \<lparr> t_codec = dvb_subtitling_descriptor_codec, t_walk = iterate dvb_subtitling_descriptor_subtitles_first dvb_subtitling_descriptor_subtitles_next,
      t_header = [], t_off = 2, t_size = 8, t_entry = dvb_subtitling_entry_layout \<rparr>,
    \<lparr> t_codec = dvb_target_ip_slash_descriptor_codec, t_walk = iterate dvb_target_ip_slash_descriptor_ipv4_slash_first dvb_target_ip_slash_descriptor_ipv4_slash_next,
      t_header = [], t_off = 2, t_size = 5, t_entry = dvb_ipv4_slash_layout \<rparr>,
    \<lparr> t_codec = dvb_target_ip_source_slash_descriptor_codec, t_walk = iterate dvb_target_ip_source_slash_descriptor_ipv4_source_slash_first dvb_target_ip_source_slash_descriptor_ipv4_source_slash_next,
      t_header = [], t_off = 2, t_size = 10, t_entry = dvb_ipv4_source_slash_layout \<rparr>,
    \<lparr> t_codec = dvb_target_ipv6_slash_descriptor_codec, t_walk = iterate dvb_target_ipv6_slash_descriptor_ipv6_slash_first dvb_target_ipv6_slash_descriptor_ipv6_slash_next,
      t_header = [], t_off = 2, t_size = 17, t_entry = dvb_ipv6_slash_layout \<rparr>,
    \<lparr> t_codec = dvb_target_ipv6_source_slash_descriptor_codec, t_walk = iterate dvb_target_ipv6_source_slash_descriptor_ipv6_source_slash_first dvb_target_ipv6_source_slash_descriptor_ipv6_source_slash_next,
      t_header = [], t_off = 2, t_size = 34, t_entry = dvb_ipv6_source_slash_layout \<rparr>,
    \<lparr> t_codec = dvb_teletext_descriptor_codec, t_walk = iterate dvb_teletext_descriptor_entries_first dvb_teletext_descriptor_entries_next,
      t_header = [], t_off = 2, t_size = 5, t_entry = dvb_teletext_entry_layout \<rparr>,
    \<lparr> t_codec = dvb_tva_id_descriptor_codec, t_walk = iterate dvb_tva_id_descriptor_entries_first dvb_tva_id_descriptor_entries_next,
      t_header = [], t_off = 2, t_size = 3, t_entry = dvb_tva_id_entry_layout \<rparr>,
    \<lparr> t_codec = dvb_vbi_teletext_descriptor_codec, t_walk = iterate dvb_vbi_teletext_descriptor_entries_first dvb_vbi_teletext_descriptor_entries_next,
      t_header = [], t_off = 2, t_size = 5, t_entry = dvb_vbi_teletext_entry_layout \<rparr>,
    \<lparr> t_codec = mpeg_fmc_descriptor_codec, t_walk = iterate mpeg_fmc_descriptor_muxes_first mpeg_fmc_descriptor_muxes_next,
      t_header = [], t_off = 2, t_size = 3, t_entry = mpeg_flex_mux_layout \<rparr>,
    \<lparr> t_codec = mpeg_iso_639_language_descriptor_codec, t_walk = iterate mpeg_iso_639_language_descriptor_languages_first mpeg_iso_639_language_descriptor_languages_next,
      t_header = [], t_off = 2, t_size = 4, t_entry = mpeg_iso_639_language_code_layout \<rparr>]"

lemma descriptor_tables_ok:
  "list_all (\<lambda>t. table_correct (t_codec t) (t_header t) (t_off t) (t_size t) (t_entry t)
     \<and> visits_all (t_walk t) (t_off t) (t_size t) \<and> 2 \<le> t_off t) descriptor_tables"
  by (simp add: descriptor_tables_def
    dvb_application_signalling_descriptor_codec_ok dvb_application_signalling_descriptor_visits
    dvb_ca_identifier_descriptor_codec_ok dvb_ca_identifier_descriptor_visits
    dvb_content_descriptor_codec_ok dvb_content_descriptor_visits
    dvb_country_availability_descriptor_codec_ok dvb_country_availability_descriptor_visits
    dvb_frequency_list_descriptor_codec_ok dvb_frequency_list_descriptor_visits
    dvb_local_time_offset_descriptor_codec_ok dvb_local_time_offset_descriptor_visits
    dvb_nvod_reference_descriptor_codec_ok dvb_nvod_reference_descriptor_visits
    dvb_parental_rating_descriptor_codec_ok dvb_parental_rating_descriptor_visits
    dvb_rnt_rnt_scan_descriptor_codec_ok dvb_rnt_rnt_scan_descriptor_visits
    dvb_service_availability_descriptor_codec_ok dvb_service_availability_descriptor_visits
    dvb_service_list_descriptor_codec_ok dvb_service_list_descriptor_visits
    dvb_subtitling_descriptor_codec_ok dvb_subtitling_descriptor_visits
    dvb_target_ip_slash_descriptor_codec_ok dvb_target_ip_slash_descriptor_visits
    dvb_target_ip_source_slash_descriptor_codec_ok dvb_target_ip_source_slash_descriptor_visits
    dvb_target_ipv6_slash_descriptor_codec_ok dvb_target_ipv6_slash_descriptor_visits
    dvb_target_ipv6_source_slash_descriptor_codec_ok dvb_target_ipv6_source_slash_descriptor_visits
    dvb_teletext_descriptor_codec_ok dvb_teletext_descriptor_visits
    dvb_tva_id_descriptor_codec_ok dvb_tva_id_descriptor_visits
    dvb_vbi_teletext_descriptor_codec_ok dvb_vbi_teletext_descriptor_visits
    mpeg_fmc_descriptor_codec_ok mpeg_fmc_descriptor_visits
    mpeg_iso_639_language_descriptor_codec_ok mpeg_iso_639_language_descriptor_visits)



section \<open>Tables with a count\<close>

text \<open>The ATSC macros pass the index of the entry they ask for.\<close>

definition iterate_idx ::
  "(byte_order \<Rightarrow> mem \<Rightarrow> nat \<Rightarrow> nat option option) \<Rightarrow> (byte_order \<Rightarrow> mem \<Rightarrow> nat \<Rightarrow> nat \<Rightarrow> nat \<Rightarrow> nat option option)
   \<Rightarrow> byte_order \<Rightarrow> mem \<Rightarrow> nat \<Rightarrow> nat list option" where
  "iterate_idx first nxt e m d = do { p \<leftarrow> first e m d; for_each_idx (nxt e m d) p 0 }"

record counted_table =
  c_codec :: codec
  c_walk :: "byte_order \<Rightarrow> mem \<Rightarrow> nat \<Rightarrow> nat list option"
  c_header :: layout
  c_count :: member
  c_off :: nat
  c_size :: nat
  c_entry :: layout

definition visits_counted :: "(byte_order \<Rightarrow> mem \<Rightarrow> nat \<Rightarrow> nat list option) \<Rightarrow> member \<Rightarrow> nat \<Rightarrow> nat \<Rightarrow> bool" where
  "visits_counted w cnt off k \<longleftrightarrow> (\<forall>e m d n. host_member e m d cnt = Some n \<longrightarrow>
     w e m d = Some (map (\<lambda>i. d + off + i * k) [0..<n]))"

lemma iterate_idxI:
  assumes "\<And>e m d n. host_member e m d cnt = Some n \<Longrightarrow> first e m d = Some (if n = 0 then None else Some (d + off))"
    and "\<And>e m d n p idx. host_member e m d cnt = Some n \<Longrightarrow> nxt e m d p idx = Some (if idx \<ge> n then None else Some (p + k))"
  shows "visits_counted (iterate_idx first nxt) cnt off k"
  unfolding visits_counted_def iterate_idx_def
proof (intro allI impI)
  fix e m d n
  assume h: "host_member e m d cnt = Some n"
  let ?ps = "map (\<lambda>i. d + off + i * k) [0..<n]"
  have "for_each_idx (nxt e m d) (if 0 < length ?ps then Some (?ps ! 0) else None) 0 = Some (drop 0 ?ps)"
    by (rule for_each_idx_walk) (auto simp: assms(2) [OF h])
  then show "do { p \<leftarrow> first e m d; for_each_idx (nxt e m d) p 0 } = Some ?ps"
    using assms(1) [OF h] by (cases "n = 0") (auto simp: for_each_idx.simps)
qed

lemma fld_rd8: "fld e (Suc 0) 0 8 m p = rd8 m p"
proof (cases "p < length m")
  case True
  then show ?thesis by (simp add: fld_Some rd8_Some val_at_byte byte_at_less)
qed (simp add: fld_def ldn_def rd_bytes_def rd8_def rd_def)

lemma atsc_caption_service_descriptor_visits: "visits_counted (iterate_idx atsc_caption_service_descriptor_entries_first atsc_caption_service_descriptor_entries_next) (Value 2 1 0 5) 3 6"
  by (rule iterate_idxI) (auto simp: atsc_caption_service_descriptor_entries_first_def atsc_caption_service_descriptor_entries_next_def fld_rd8)

lemma atsc_time_shifted_service_descriptor_visits: "visits_counted (iterate_idx atsc_time_shifted_service_descriptor_services_first atsc_time_shifted_service_descriptor_services_next) (Value 2 1 0 5) 3 5"
  by (rule iterate_idxI) (auto simp: atsc_time_shifted_service_descriptor_services_first_def atsc_time_shifted_service_descriptor_services_next_def fld_rd8)

lemma atsc_service_location_descriptor_visits: "visits_counted (iterate_idx (\<lambda>e. atsc_service_location_descriptor_elements_first) (\<lambda>e. atsc_service_location_descriptor_elements_next)) (Value 4 1 0 8) 5 6"
  by (rule iterate_idxI) (auto simp: atsc_service_location_descriptor_elements_first_def atsc_service_location_descriptor_elements_next_def fld_rd8)

definition counted_tables :: "counted_table list" where
  "counted_tables =
   [\<lparr> c_codec = atsc_caption_service_descriptor_codec, c_walk = iterate_idx atsc_caption_service_descriptor_entries_first atsc_caption_service_descriptor_entries_next,
      c_header = atsc_caption_service_descriptor_layout, c_count = Value 2 1 0 5, c_off = 3, c_size = 6,
      c_entry = atsc_caption_service_entry_layout \<rparr>,
    \<lparr> c_codec = atsc_time_shifted_service_descriptor_codec, c_walk = iterate_idx atsc_time_shifted_service_descriptor_services_first atsc_time_shifted_service_descriptor_services_next,
      c_header = atsc_time_shifted_service_descriptor_layout, c_count = Value 2 1 0 5, c_off = 3, c_size = 5,
      c_entry = atsc_time_shifted_service_layout \<rparr>,
    \<lparr> c_codec = atsc_service_location_descriptor_codec, c_walk = iterate_idx (\<lambda>e. atsc_service_location_descriptor_elements_first) (\<lambda>e. atsc_service_location_descriptor_elements_next),
      c_header = atsc_service_location_descriptor_layout, c_count = Value 4 1 0 8, c_off = 5, c_size = 6,
      c_entry = atsc_caption_service_location_element_layout \<rparr>]"

lemma counted_tables_ok:
  "list_all (\<lambda>t. counted_correct (c_codec t) (c_header t) (c_count t) (c_off t) (c_size t) (c_entry t)
     \<and> visits_counted (c_walk t) (c_count t) (c_off t) (c_size t)) counted_tables"
  by (simp add: counted_tables_def atsc_caption_service_descriptor_codec_ok [unfolded One_nat_def] atsc_caption_service_descriptor_visits [unfolded One_nat_def] atsc_time_shifted_service_descriptor_codec_ok [unfolded One_nat_def] atsc_time_shifted_service_descriptor_visits [unfolded One_nat_def] atsc_service_location_descriptor_codec_ok [unfolded One_nat_def] atsc_service_location_descriptor_visits [unfolded One_nat_def])

lemma counted_tables_count: "list_all (\<lambda>t. \<exists>s. (s, c_count t) \<in> set (c_header t)) counted_tables"
  by (auto simp: counted_tables_def atsc_caption_service_descriptor_layout_def atsc_time_shifted_service_descriptor_layout_def atsc_service_location_descriptor_layout_def)

text \<open>The ATSC descriptors with a counted table (caption services, time-shifted services, service location): the codec
  accepts exactly the descriptors with room for the entries they announce, the iterator visits exactly these, and their fields and those of the header
  read as they were transmitted.\<close>

theorem counted_descriptors_decoded:
  assumes "t \<in> set counted_tables" "desc_in m d len"
  shows "\<exists>m' ok. c_codec t e m d = Some (m', ok) \<and> same (d + 2) (d + 2 + len) m m'
    \<and> (ok \<longleftrightarrow> c_off t + wire_member m d (c_count t) * c_size t \<le> 2 + len)
    \<and> (ok \<longrightarrow> decodes e (c_header t) m d m' \<and> (\<exists>n. n = wire_member m d (c_count t)
        \<and> c_walk t e m' d = Some (map (\<lambda>i. d + c_off t + i * c_size t) [0..<n])
        \<and> (\<forall>i < n. decodes e (c_entry t) m (d + c_off t + i * c_size t) m')))"
proof -
  obtain s where t: "counted_correct (c_codec t) (c_header t) (c_count t) (c_off t) (c_size t) (c_entry t)"
    "visits_counted (c_walk t) (c_count t) (c_off t) (c_size t)" "(s, c_count t) \<in> set (c_header t)"
    using counted_tables_ok counted_tables_count assms(1) unfolding list_all_iff by blast
  have "wp (c_codec t e m d) (\<lambda>(m', ok). same (d + 2) (d + 2 + len) m m'
      \<and> (ok \<longleftrightarrow> c_off t + wire_member m d (c_count t) * c_size t \<le> 2 + len) \<and> (ok \<longrightarrow> decodes e (c_header t) m d m' \<and> (\<forall>i < wire_member m d (c_count t). decodes e (c_entry t) m (d + c_off t + i * c_size t) m')))"
    using t(1) assms(2) unfolding counted_correct_def by blast
  moreover have "c_walk t e m' d = Some (map (\<lambda>i. d + c_off t + i * c_size t) [0..<wire_member m d (c_count t)])"
    if "decodes e (c_header t) m d m'" for m'
    using t(2,3) that unfolding visits_counted_def decodes_def list_all_iff by fastforce
  ultimately show ?thesis by (auto simp: wp_def)
qed

theorem counted_descriptors_decoded_witness:
  "\<exists>m' ok. atsc_service_location_descriptor_codec LittleEndian [0xa1, 9, 0xe0, 0x31, 1, 2, 0xe0, 0x31, 0, 0, 0] 0 = Some (m', ok)
    \<and> same (0 + 2) (0 + 2 + 9) [0xa1, 9, 0xe0, 0x31, 1, 2, 0xe0, 0x31, 0, 0, 0] m'"
proof -
  let ?t = "\<lparr> c_codec = atsc_service_location_descriptor_codec, c_walk = iterate_idx (\<lambda>e. atsc_service_location_descriptor_elements_first) (\<lambda>e. atsc_service_location_descriptor_elements_next),
            c_header = atsc_service_location_descriptor_layout, c_count = Value 4 1 0 8, c_off = 5, c_size = 6,
            c_entry = atsc_caption_service_location_element_layout \<rparr>" and ?m = "[0xa1, 9, 0xe0, 0x31, 1, 2, 0xe0, 0x31, 0, 0, 0] :: mem"
  have "?t \<in> set counted_tables" by (simp add: counted_tables_def)
  moreover have "desc_in ?m 0 9" by (simp add: desc_in_def rd8_def rd_def)
  ultimately show ?thesis using counted_descriptors_decoded [of ?t ?m 0 9 LittleEndian, unfolded counted_table.simps] by blast
qed

section \<open>Codecs that leave their descriptor\<close>

lemmas codec_eval = while_do.simps rd8_def rd_def ldn_def fld_def rd_bytes_def be_val_def blit_def sub32_def u32_of_def Let_def


text \<open>Two accessors disagree with the codec that accepted the descriptor: the flags of a content labelling descriptor without
  the long application format are looked for behind the four bytes it does not have, and the walk over the target addresses
  leaves out the last one.\<close>

theorem descriptor_accessors_disagree:
  "mpeg_content_labelling_descriptor_codec LittleEndian [0x24, 3, 0x12, 0x34, 0x07] 0 = Some ([0x24, 3, 0x34, 0x12, 0x07], True)
   \<and> mpeg_content_labelling_descriptor_flags LittleEndian [0x24, 3, 0x34, 0x12, 0x07] 0 = Some 8
   \<and> dvb_target_ip_address_descriptor_codec LittleEndian [9, 12, 255, 255, 255, 255, 10, 0, 0, 1, 10, 0, 0, 2] 0
      = Some ([9, 12, 255, 255, 255, 255, 10, 0, 0, 1, 10, 0, 0, 2], True)
   \<and> iterate dvb_target_ip_address_descriptor_ipv4_addr_first dvb_target_ip_address_descriptor_ipv4_addr_next
        [9, 12, 255, 255, 255, 255, 10, 0, 0, 1, 10, 0, 0, 2] 0 = Some [6]"
  by (intro conjI; simp add: mpeg_content_labelling_descriptor_codec_def mpeg_content_labelling_descriptor_flags_def
      dvb_target_ip_address_descriptor_codec_def iterate_def walk_def for_each.simps
      dvb_target_ip_address_descriptor_ipv4_addr_first_def dvb_target_ip_address_descriptor_ipv4_addr_next_def codec_eval)

end
