(* ===== verification/Atsc_Sections.thy ===== *)
theory Atsc_Sections
  imports Atsc_Descriptors
begin

text \<open>
  The ATSC tables of \<open>lib/libucsi/atsc\<close>: the master guide, virtual channel, rating region, event information, extended text,
  system time and directed channel change tables, with their codecs, accessors and iterators.  A section starts at offset
  0 of its object.
\<close>

text \<open>The loop of a \<open>..._for_each\<close> macro with the body \<open>body\<close> on the state \<open>st\<close>.\<close>

partial_function (option) for_each_idx_do ::
  "(nat \<Rightarrow> nat \<Rightarrow> nat option option) \<Rightarrow> (nat \<Rightarrow> 's \<Rightarrow> 's option) \<Rightarrow> nat option \<Rightarrow> nat \<Rightarrow> 's \<Rightarrow> 's option" where
  "for_each_idx_do nxt body pos idx st =
     (case pos of
        None \<Rightarrow> Some st
      | Some p \<Rightarrow> do { st \<leftarrow> body p st; q \<leftarrow> nxt p (idx + 1); for_each_idx_do nxt body q (idx + 1) st })"

section \<open>\<open>atsc/section.h\<close>\<close>

definition atsc_section_psip_layout :: layout where
  "atsc_section_psip_layout =
    [(''protocol_version'', Value 8 1 0 8)]"

definition atsc_section_psip_decode :: "byte_order \<Rightarrow> mem \<Rightarrow> bool option" where
  "atsc_section_psip_decode e m =
     do {
       len \<leftarrow> section_ext_length e m;
       if len < 9 then Some False
       else Some True }"

section \<open>\<open>atsc/mgt_section.h\<close>\<close>

definition atsc_mgt_section_layout :: layout where
  "atsc_mgt_section_layout =
    [(''tables_defined'', Value 9 2 0 16)]"

definition atsc_mgt_table_layout :: layout where
  "atsc_mgt_table_layout =
    [(''table_type'', Value 0 2 0 16), (''reserved'', Value 2 2 13 3), (''table_type_PID'', Value 2 2 0 13),
     (''reserved1'', Value 4 1 5 3), (''table_type_version_number'', Value 4 1 0 5), (''number_bytes'', Value 5 4 0 32),
     (''reserved2'', Value 9 2 12 4), (''table_type_descriptors_length'', Value 9 2 0 12)]"

definition atsc_mgt_section_part2_layout :: layout where
  "atsc_mgt_section_part2_layout =
    [(''reserved'', Value 0 2 12 4), (''descriptors_length'', Value 0 2 0 12)]"

definition atsc_mgt_section_tables_first :: "byte_order \<Rightarrow> mem \<Rightarrow> nat \<Rightarrow> nat option option" where
  "atsc_mgt_section_tables_first e m mgt =
     do {
       tables_defined \<leftarrow> ldn e 2 m (mgt + 9);
       if tables_defined = 0 then Some None
       else Some (Some (mgt + 11)) }"

definition atsc_mgt_section_tables_next :: "byte_order \<Rightarrow> mem \<Rightarrow> nat \<Rightarrow> nat \<Rightarrow> nat \<Rightarrow> nat option option" where
  "atsc_mgt_section_tables_next e m mgt pos idx =
     do {
       tables_defined \<leftarrow> ldn e 2 m (mgt + 9);
       if idx \<ge> tables_defined then Some None
       else do {
         table_type_descriptors_length \<leftarrow> fld e 2 0 12 m (pos + 9);
         Some (Some (pos + table_type_descriptors_length + 11)) } }"

definition atsc_mgt_table_descriptors_first :: "byte_order \<Rightarrow> mem \<Rightarrow> nat \<Rightarrow> nat option option" where
  "atsc_mgt_table_descriptors_first e m table =
     do {
       table_type_descriptors_length \<leftarrow> fld e 2 0 12 m (table + 9);
       if table_type_descriptors_length = 0 then Some None
       else Some (Some (table + 11)) }"

definition atsc_mgt_table_descriptors_next :: "byte_order \<Rightarrow> mem \<Rightarrow> nat \<Rightarrow> nat \<Rightarrow> nat option option" where
  "atsc_mgt_table_descriptors_next e m table pos =
     do {
       table_type_descriptors_length \<leftarrow> fld e 2 0 12 m (table + 9);
       nxt \<leftarrow> next_descriptor m (table + 11) table_type_descriptors_length (Some pos);
       Some nxt }"

definition atsc_mgt_section_part2_descriptors_first :: "byte_order \<Rightarrow> mem \<Rightarrow> nat \<Rightarrow> nat option option" where
  "atsc_mgt_section_part2_descriptors_first e m part2 =
     do {
       descriptors_length \<leftarrow> fld e 2 0 12 m part2;
       if descriptors_length = 0 then Some None
       else Some (Some (part2 + 2)) }"

definition atsc_mgt_section_part2_descriptors_next :: "byte_order \<Rightarrow> mem \<Rightarrow> nat \<Rightarrow> nat \<Rightarrow> nat option option" where
  "atsc_mgt_section_part2_descriptors_next e m part2 pos =
     do {
       descriptors_length \<leftarrow> fld e 2 0 12 m part2;
       nxt \<leftarrow> next_descriptor m (part2 + 2) descriptors_length (Some pos);
       Some nxt }"

definition atsc_mgt_section_part2 :: "byte_order \<Rightarrow> mem \<Rightarrow> nat \<Rightarrow> nat option" where
  "atsc_mgt_section_part2 e m mgt =
     do {
       cur \<leftarrow> atsc_mgt_section_tables_first e m mgt;
       pos \<leftarrow> for_each_idx_do (atsc_mgt_section_tables_next e m mgt)
         (\<lambda>cur pos. do {
           descriptors_length \<leftarrow> fld e 2 0 12 m (cur + 9);
           Some (pos + 11 + descriptors_length) })
         cur 0 11;
       Some (mgt + pos) }"

section \<open>\<open>atsc/mgt_section.c\<close>\<close>

definition atsc_mgt_section_codec :: "byte_order \<Rightarrow> mem \<Rightarrow> (mem \<times> bool) option" where
  "atsc_mgt_section_codec e m =
     do {
       len \<leftarrow> section_ext_length e m;
       if len < 11 then Some (m, False)
       else do {
         m \<leftarrow> bswap16 e m 9;
         ((m, pos, i), ok) \<leftarrow> while_do
           (\<lambda>(m, pos, i). do {
             tables_defined \<leftarrow> ldn e 2 m 9;
             Some (i < tables_defined) })
           (\<lambda>(m, pos, i).
             if pos + 11 > len then Some ((m, pos, i), False)
             else do {
               let table = pos;
               m \<leftarrow> bswap16 e m pos;
               m \<leftarrow> bswap16 e m (pos + 2);
               m \<leftarrow> bswap32 e m (pos + 5);
               m \<leftarrow> bswap16 e m (pos + 9);
               let pos = pos + 11;
               table_type_descriptors_length \<leftarrow> fld e 2 0 12 m (table + 9);
               if pos + table_type_descriptors_length > len then Some ((m, pos, i), False)
               else do {
                 invalid \<leftarrow> verify_descriptors m pos table_type_descriptors_length;
                 if invalid \<noteq> 0 then Some ((m, pos, i), False)
                 else do {
                   let pos = pos + table_type_descriptors_length;
                   let i = i + 1;
                   Some ((m, pos, i), True) } } })
           (m, 11, 0);
         if \<not> ok then Some (m, False)
         else if pos + 2 > len then Some (m, False)
         else do {
           let part2 = pos;
           m \<leftarrow> bswap16 e m pos;
           let pos = pos + 2;
           descriptors_length \<leftarrow> fld e 2 0 12 m part2;
           if pos + descriptors_length > len then Some (m, False)
           else do {
             invalid \<leftarrow> verify_descriptors m pos descriptors_length;
             if invalid \<noteq> 0 then Some (m, False)
             else do {
               let pos = pos + descriptors_length;
               if pos \<noteq> len then Some (m, False)
               else Some (m, True) } } } } }"

section \<open>\<open>atsc/tvct_section.h\<close>\<close>

definition atsc_tvct_section_layout :: layout where
  "atsc_tvct_section_layout =
    [(''num_channels_in_section'', Value 9 1 0 8)]"

definition atsc_tvct_channel_layout :: layout where
  "atsc_tvct_channel_layout =
    [(''short_name'', Bytes 0 14), (''reserved'', Value 14 4 28 4), (''major_channel_number'', Value 14 4 18 10),
     (''minor_channel_number'', Value 14 4 8 10), (''modulation_mode'', Value 14 4 0 8),
     (''carrier_frequency'', Value 18 4 0 32), (''channel_TSID'', Value 22 2 0 16), (''program_number'', Value 24 2 0 16),
     (''ETM_location'', Value 26 2 14 2), (''access_controlled'', Value 26 2 13 1), (''hidden'', Value 26 2 12 1),
     (''reserved1'', Value 26 2 10 2), (''hide_guide'', Value 26 2 9 1), (''reserved2'', Value 26 2 6 3),
     (''service_type'', Value 26 2 0 6), (''source_id'', Value 28 2 0 16), (''reserved3'', Value 30 2 10 6),
     (''descriptors_length'', Value 30 2 0 10)]"

definition atsc_tvct_section_part2_layout :: layout where
  "atsc_tvct_section_part2_layout =
    [(''reserved'', Value 0 2 10 6), (''descriptors_length'', Value 0 2 0 10)]"

definition atsc_tvct_section_transport_stream_id :: "byte_order \<Rightarrow> mem \<Rightarrow> nat \<Rightarrow> nat option" where
  "atsc_tvct_section_transport_stream_id e m tvct =
     do {
       table_id_ext \<leftarrow> ldn e 2 m (tvct + 3);
       Some table_id_ext }"

definition atsc_tvct_section_channels_first :: "mem \<Rightarrow> nat \<Rightarrow> nat option option" where
  "atsc_tvct_section_channels_first m tvct =
     do {
       num_channels_in_section \<leftarrow> rd8 m (tvct + 9);
       if num_channels_in_section = 0 then Some None
       else Some (Some (tvct + 10)) }"

definition atsc_tvct_section_channels_next :: "byte_order \<Rightarrow> mem \<Rightarrow> nat \<Rightarrow> nat \<Rightarrow> nat \<Rightarrow> nat option option" where
  "atsc_tvct_section_channels_next e m tvct pos idx =
     do {
       num_channels_in_section \<leftarrow> rd8 m (tvct + 9);
       if idx \<ge> num_channels_in_section then Some None
       else do {
         descriptors_length \<leftarrow> fld e 2 0 10 m (pos + 30);
         Some (Some (pos + descriptors_length + 32)) } }"

definition atsc_tvct_channel_descriptors_first :: "byte_order \<Rightarrow> mem \<Rightarrow> nat \<Rightarrow> nat option option" where
  "atsc_tvct_channel_descriptors_first e m channel =
     do {
       descriptors_length \<leftarrow> fld e 2 0 10 m (channel + 30);
       if descriptors_length = 0 then Some None
       else Some (Some (channel + 32)) }"

definition atsc_tvct_channel_descriptors_next :: "byte_order \<Rightarrow> mem \<Rightarrow> nat \<Rightarrow> nat \<Rightarrow> nat option option" where
  "atsc_tvct_channel_descriptors_next e m channel pos =
     do {
       descriptors_length \<leftarrow> fld e 2 0 10 m (channel + 30);
       nxt \<leftarrow> next_descriptor m (channel + 32) descriptors_length (Some pos);
       Some nxt }"

definition atsc_tvct_section_part2_descriptors_first :: "byte_order \<Rightarrow> mem \<Rightarrow> nat \<Rightarrow> nat option option" where
  "atsc_tvct_section_part2_descriptors_first e m part2 =
     do {
       descriptors_length \<leftarrow> fld e 2 0 10 m part2;
       if descriptors_length = 0 then Some None
       else Some (Some (part2 + 2)) }"

definition atsc_tvct_section_part2_descriptors_next :: "byte_order \<Rightarrow> mem \<Rightarrow> nat \<Rightarrow> nat \<Rightarrow> nat option option" where
  "atsc_tvct_section_part2_descriptors_next e m part2 pos =
     do {
       descriptors_length \<leftarrow> fld e 2 0 10 m part2;
       nxt \<leftarrow> next_descriptor m (part2 + 2) descriptors_length (Some pos);
       Some nxt }"

definition atsc_tvct_section_part2 :: "byte_order \<Rightarrow> mem \<Rightarrow> nat \<Rightarrow> nat option" where
  "atsc_tvct_section_part2 e m mgt =
     do {
       cur \<leftarrow> atsc_tvct_section_channels_first m mgt;
       pos \<leftarrow> for_each_idx_do (atsc_tvct_section_channels_next e m mgt)
         (\<lambda>cur pos. do {
           descriptors_length \<leftarrow> fld e 2 0 10 m (cur + 30);
           Some (pos + 32 + descriptors_length) })
         cur 0 10;
       Some (mgt + pos) }"

section \<open>\<open>atsc/tvct_section.c\<close>\<close>

definition atsc_tvct_section_codec :: "byte_order \<Rightarrow> mem \<Rightarrow> (mem \<times> bool) option" where
  "atsc_tvct_section_codec e m =
     do {
       len \<leftarrow> section_ext_length e m;
       if len < 10 then Some (m, False)
       else do {
         ((m, pos, idx), ok) \<leftarrow> while_do
           (\<lambda>(m, pos, idx). do {
             num_channels_in_section \<leftarrow> rd8 m 9;
             Some (idx < num_channels_in_section) })
           (\<lambda>(m, pos, idx).
             if pos + 32 > len then Some ((m, pos, idx), False)
             else do {
               let channel = pos;
               let pos = pos + 14;
               m \<leftarrow> bswap32 e m pos;
               m \<leftarrow> bswap32 e m (pos + 4);
               m \<leftarrow> bswap16 e m (pos + 8);
               m \<leftarrow> bswap16 e m (pos + 10);
               m \<leftarrow> bswap16 e m (pos + 12);
               m \<leftarrow> bswap16 e m (pos + 14);
               m \<leftarrow> bswap16 e m (pos + 16);
               let pos = pos + 18;
               descriptors_length \<leftarrow> fld e 2 0 10 m (channel + 30);
               if pos + descriptors_length > len then Some ((m, pos, idx), False)
               else do {
                 invalid \<leftarrow> verify_descriptors m pos descriptors_length;
                 if invalid \<noteq> 0 then Some ((m, pos, idx), False)
                 else do {
                   let pos = pos + descriptors_length;
                   let idx = idx + 1;
                   Some ((m, pos, idx), True) } } })
           (m, 10, 0);
         if \<not> ok then Some (m, False)
         else if pos + 2 > len then Some (m, False)
         else do {
           let part2 = pos;
           m \<leftarrow> bswap16 e m pos;
           let pos = pos + 2;
           descriptors_length \<leftarrow> fld e 2 0 10 m part2;
           if pos + descriptors_length > len then Some (m, False)
           else do {
             invalid \<leftarrow> verify_descriptors m pos descriptors_length;
             if invalid \<noteq> 0 then Some (m, False)
             else do {
               let pos = pos + descriptors_length;
               if pos \<noteq> len then Some (m, False)
               else Some (m, True) } } } } }"

section \<open>\<open>atsc/cvct_section.h\<close>\<close>

definition atsc_cvct_section_layout :: layout where
  "atsc_cvct_section_layout =
    [(''num_channels_in_section'', Value 9 1 0 8)]"

definition atsc_cvct_channel_layout :: layout where
  "atsc_cvct_channel_layout =
    [(''short_name'', Bytes 0 14), (''reserved'', Value 14 4 28 4), (''major_channel_number'', Value 14 4 18 10),
     (''minor_channel_number'', Value 14 4 8 10), (''modulation_mode'', Value 14 4 0 8),
     (''carrier_frequency'', Value 18 4 0 32), (''channel_TSID'', Value 22 2 0 16), (''program_number'', Value 24 2 0 16),
     (''ETM_location'', Value 26 2 14 2), (''access_controlled'', Value 26 2 13 1), (''hidden'', Value 26 2 12 1),
     (''path_select'', Value 26 2 11 1), (''out_of_band'', Value 26 2 10 1), (''hide_guide'', Value 26 2 9 1),
     (''reserved2'', Value 26 2 6 3), (''service_type'', Value 26 2 0 6), (''source_id'', Value 28 2 0 16),
     (''reserved3'', Value 30 2 10 6), (''descriptors_length'', Value 30 2 0 10)]"

definition atsc_cvct_section_part2_layout :: layout where
  "atsc_cvct_section_part2_layout =
    [(''reserved'', Value 0 2 10 6), (''descriptors_length'', Value 0 2 0 10)]"

definition atsc_cvct_section_transport_stream_id :: "byte_order \<Rightarrow> mem \<Rightarrow> nat \<Rightarrow> nat option" where
  "atsc_cvct_section_transport_stream_id e m cvct =
     do {
       table_id_ext \<leftarrow> ldn e 2 m (cvct + 3);
       Some table_id_ext }"

definition atsc_cvct_section_channels_first :: "mem \<Rightarrow> nat \<Rightarrow> nat option option" where
  "atsc_cvct_section_channels_first m cvct =
     do {
       num_channels_in_section \<leftarrow> rd8 m (cvct + 9);
       if num_channels_in_section = 0 then Some None
       else Some (Some (cvct + 10)) }"

definition atsc_cvct_section_channels_next :: "byte_order \<Rightarrow> mem \<Rightarrow> nat \<Rightarrow> nat \<Rightarrow> nat \<Rightarrow> nat option option" where
  "atsc_cvct_section_channels_next e m cvct pos idx =
     do {
       num_channels_in_section \<leftarrow> rd8 m (cvct + 9);
       if idx \<ge> num_channels_in_section then Some None
       else do {
         descriptors_length \<leftarrow> fld e 2 0 10 m (pos + 30);
         Some (Some (pos + descriptors_length + 32)) } }"

definition atsc_cvct_channel_descriptors_first :: "byte_order \<Rightarrow> mem \<Rightarrow> nat \<Rightarrow> nat option option" where
  "atsc_cvct_channel_descriptors_first e m table =
     do {
       descriptors_length \<leftarrow> fld e 2 0 10 m (table + 30);
       if descriptors_length = 0 then Some None
       else Some (Some (table + 32)) }"

definition atsc_cvct_channel_descriptors_next :: "byte_order \<Rightarrow> mem \<Rightarrow> nat \<Rightarrow> nat \<Rightarrow> nat option option" where
  "atsc_cvct_channel_descriptors_next e m table pos =
     do {
       descriptors_length \<leftarrow> fld e 2 0 10 m (table + 30);
       nxt \<leftarrow> next_descriptor m (table + 32) descriptors_length (Some pos);
       Some nxt }"

definition atsc_cvct_section_part2_descriptors_first :: "byte_order \<Rightarrow> mem \<Rightarrow> nat \<Rightarrow> nat option option" where
  "atsc_cvct_section_part2_descriptors_first e m part2 =
     do {
       descriptors_length \<leftarrow> fld e 2 0 10 m part2;
       if descriptors_length = 0 then Some None
       else Some (Some (part2 + 2)) }"

definition atsc_cvct_section_part2_descriptors_next :: "byte_order \<Rightarrow> mem \<Rightarrow> nat \<Rightarrow> nat \<Rightarrow> nat option option" where
  "atsc_cvct_section_part2_descriptors_next e m part2 pos =
     do {
       descriptors_length \<leftarrow> fld e 2 0 10 m part2;
       nxt \<leftarrow> next_descriptor m (part2 + 2) descriptors_length (Some pos);
       Some nxt }"

definition atsc_cvct_section_part2 :: "byte_order \<Rightarrow> mem \<Rightarrow> nat \<Rightarrow> nat option" where
  "atsc_cvct_section_part2 e m cvct =
     do {
       cur \<leftarrow> atsc_cvct_section_channels_first m cvct;
       pos \<leftarrow> for_each_idx_do (atsc_cvct_section_channels_next e m cvct)
         (\<lambda>cur pos. do {
           descriptors_length \<leftarrow> fld e 2 0 10 m (cur + 30);
           Some (pos + 32 + descriptors_length) })
         cur 0 10;
       Some (cvct + pos) }"

section \<open>\<open>atsc/cvct_section.c\<close>\<close>

definition atsc_cvct_section_codec :: "byte_order \<Rightarrow> mem \<Rightarrow> (mem \<times> bool) option" where
  "atsc_cvct_section_codec e m =
     do {
       len \<leftarrow> section_ext_length e m;
       if len < 10 then Some (m, False)
       else do {
         ((m, pos, idx), ok) \<leftarrow> while_do
           (\<lambda>(m, pos, idx). do {
             num_channels_in_section \<leftarrow> rd8 m 9;
             Some (idx < num_channels_in_section) })
           (\<lambda>(m, pos, idx).
             if pos + 32 > len then Some ((m, pos, idx), False)
             else do {
               let channel = pos;
               let pos = pos + 14;
               m \<leftarrow> bswap32 e m pos;
               m \<leftarrow> bswap32 e m (pos + 4);
               m \<leftarrow> bswap16 e m (pos + 8);
               m \<leftarrow> bswap16 e m (pos + 10);
               m \<leftarrow> bswap16 e m (pos + 12);
               m \<leftarrow> bswap16 e m (pos + 14);
               m \<leftarrow> bswap16 e m (pos + 16);
               let pos = pos + 18;
               descriptors_length \<leftarrow> fld e 2 0 10 m (channel + 30);
               if pos + descriptors_length > len then Some ((m, pos, idx), False)
               else do {
                 invalid \<leftarrow> verify_descriptors m pos descriptors_length;
                 if invalid \<noteq> 0 then Some ((m, pos, idx), False)
                 else do {
                   let pos = pos + descriptors_length;
                   let idx = idx + 1;
                   Some ((m, pos, idx), True) } } })
           (m, 10, 0);
         if \<not> ok then Some (m, False)
         else if pos + 2 > len then Some (m, False)
         else do {
           let part2 = pos;
           m \<leftarrow> bswap16 e m pos;
           let pos = pos + 2;
           descriptors_length \<leftarrow> fld e 2 0 10 m part2;
           if pos + descriptors_length > len then Some (m, False)
           else do {
             invalid \<leftarrow> verify_descriptors m pos descriptors_length;
             if invalid \<noteq> 0 then Some (m, False)
             else do {
               let pos = pos + descriptors_length;
               if pos \<noteq> len then Some (m, False)
               else Some (m, True) } } } } }"

section \<open>\<open>atsc/rrt_section.h\<close>\<close>

definition atsc_rrt_section_layout :: layout where
  "atsc_rrt_section_layout =
    [(''rating_region_name_length'', Value 9 1 0 8)]"

definition atsc_rrt_section_part2_layout :: layout where
  "atsc_rrt_section_part2_layout =
    [(''dimensions_defined'', Value 0 1 0 8)]"

definition atsc_rrt_dimension_layout :: layout where
  "atsc_rrt_dimension_layout =
    [(''dimension_name_length'', Value 0 1 0 8)]"

definition atsc_rrt_dimension_part2_layout :: layout where
  "atsc_rrt_dimension_part2_layout =
    [(''reserved'', Value 0 1 5 3), (''graduated_scale'', Value 0 1 4 1), (''values_defined'', Value 0 1 0 4)]"

definition atsc_rrt_dimension_value_layout :: layout where
  "atsc_rrt_dimension_value_layout =
    [(''abbrev_rating_value_length'', Value 0 1 0 8)]"

definition atsc_rrt_dimension_value_part2_layout :: layout where
  "atsc_rrt_dimension_value_part2_layout =
    [(''rating_value_length'', Value 0 1 0 8)]"

definition atsc_rrt_section_part3_layout :: layout where
  "atsc_rrt_section_part3_layout =
    [(''reserved'', Value 0 2 10 6), (''descriptors_length'', Value 0 2 0 10)]"

definition atsc_rrt_section_rating_region :: "byte_order \<Rightarrow> mem \<Rightarrow> nat \<Rightarrow> nat option" where
  "atsc_rrt_section_rating_region e m rrt =
     do {
       table_id_ext \<leftarrow> ldn e 2 m (rrt + 3);
       Some (table_id_ext mod 256) }"

definition atsc_rrt_section_rating_region_name_text :: "mem \<Rightarrow> nat \<Rightarrow> nat option option" where
  "atsc_rrt_section_rating_region_name_text m rrt =
     do {
       rating_region_name_length \<leftarrow> rd8 m (rrt + 9);
       if rating_region_name_length = 0 then Some None
       else Some (Some (rrt + 10)) }"

definition atsc_rrt_section_part2 :: "mem \<Rightarrow> nat \<Rightarrow> nat option" where
  "atsc_rrt_section_part2 m rrt =
     do {
       rating_region_name_length \<leftarrow> rd8 m (rrt + 9);
       Some (rrt + rating_region_name_length + 10) }"

definition atsc_rrt_dimension_name_text :: "mem \<Rightarrow> nat \<Rightarrow> nat option option" where
  "atsc_rrt_dimension_name_text m dimension =
     do {
       dimension_name_length \<leftarrow> rd8 m dimension;
       if dimension_name_length = 0 then Some None
       else Some (Some (dimension + 1)) }"

definition atsc_rrt_dimension_part2 :: "mem \<Rightarrow> nat \<Rightarrow> nat option" where
  "atsc_rrt_dimension_part2 m dimension =
     do {
       dimension_name_length \<leftarrow> rd8 m dimension;
       Some (dimension + dimension_name_length + 1) }"

definition atsc_rrt_dimension_value_abbrev_rating_value_text :: "mem \<Rightarrow> nat \<Rightarrow> nat option option" where
  "atsc_rrt_dimension_value_abbrev_rating_value_text m val =
     do {
       abbrev_rating_value_length \<leftarrow> rd8 m val;
       if abbrev_rating_value_length = 0 then Some None
       else Some (Some (val + 1)) }"

definition atsc_rrt_dimension_value_part2 :: "mem \<Rightarrow> nat \<Rightarrow> nat option" where
  "atsc_rrt_dimension_value_part2 m val =
     do {
       abbrev_rating_value_length \<leftarrow> rd8 m val;
       Some (val + abbrev_rating_value_length + 1) }"

definition atsc_rrt_dimension_value_part2_rating_value_text :: "mem \<Rightarrow> nat \<Rightarrow> nat option option" where
  "atsc_rrt_dimension_value_part2_rating_value_text m part2 =
     do {
       rating_value_length \<leftarrow> rd8 m part2;
       if rating_value_length = 0 then Some None
       else Some (Some (part2 + 1)) }"

definition atsc_rrt_section_dimensions_first :: "mem \<Rightarrow> nat \<Rightarrow> nat option option" where
  "atsc_rrt_section_dimensions_first m part2 =
     do {
       dimensions_defined \<leftarrow> rd8 m part2;
       if dimensions_defined = 0 then Some None
       else Some (Some (part2 + 1)) }"

definition atsc_rrt_dimension_part2_values_first :: "byte_order \<Rightarrow> mem \<Rightarrow> nat \<Rightarrow> nat option option" where
  "atsc_rrt_dimension_part2_values_first e m part2 =
     do {
       values_defined \<leftarrow> fld e 1 0 4 m part2;
       if values_defined = 0 then Some None
       else Some (Some (part2 + 1)) }"

definition atsc_rrt_dimension_part2_values_next :: "byte_order \<Rightarrow> mem \<Rightarrow> nat \<Rightarrow> nat \<Rightarrow> nat \<Rightarrow> nat option option" where
  "atsc_rrt_dimension_part2_values_next e m part2 pos idx =
     do {
       values_defined \<leftarrow> fld e 1 0 4 m part2;
       if idx \<ge> values_defined then Some None
       else do {
         r \<leftarrow> atsc_rrt_dimension_value_part2 m pos;
         rating_value_length \<leftarrow> rd8 m r;
         let len = rating_value_length + 1;
         Some (Some (r + len)) } }"

definition atsc_rrt_section_part3_descriptors_first :: "byte_order \<Rightarrow> mem \<Rightarrow> nat \<Rightarrow> nat option option" where
  "atsc_rrt_section_part3_descriptors_first e m part3 =
     do {
       descriptors_length \<leftarrow> fld e 2 0 10 m part3;
       if descriptors_length = 0 then Some None
       else Some (Some (part3 + 2)) }"

definition atsc_rrt_section_part3_descriptors_next :: "byte_order \<Rightarrow> mem \<Rightarrow> nat \<Rightarrow> nat \<Rightarrow> nat option option" where
  "atsc_rrt_section_part3_descriptors_next e m part3 pos =
     do {
       descriptors_length \<leftarrow> fld e 2 0 10 m part3;
       nxt \<leftarrow> next_descriptor m (part3 + 2) descriptors_length (Some pos);
       Some nxt }"

definition atsc_rrt_section_dimensions_next :: "byte_order \<Rightarrow> mem \<Rightarrow> nat \<Rightarrow> nat \<Rightarrow> nat \<Rightarrow> nat option option" where
  "atsc_rrt_section_dimensions_next e m part2 pos idx =
     do {
       dimensions_defined \<leftarrow> rd8 m part2;
       if idx \<ge> dimensions_defined then Some None
       else do {
         dpart2 \<leftarrow> atsc_rrt_dimension_part2 m pos;
         cur_value \<leftarrow> atsc_rrt_dimension_part2_values_first e m dpart2;
         len \<leftarrow> for_each_idx_do (atsc_rrt_dimension_part2_values_next e m dpart2)
           (\<lambda>cur_value len. do {
             abbrev_rating_value_length \<leftarrow> rd8 m cur_value;
             vpart2 \<leftarrow> atsc_rrt_dimension_value_part2 m cur_value;
             rating_value_length \<leftarrow> rd8 m vpart2;
             Some (len + 1 + abbrev_rating_value_length + 1 + rating_value_length) })
           cur_value 0 1;
         Some (Some (dpart2 + len)) } }"

definition atsc_rrt_section_part3 :: "byte_order \<Rightarrow> mem \<Rightarrow> nat \<Rightarrow> nat option" where
  "atsc_rrt_section_part3 e m part2 =
     do {
       cur_dimension \<leftarrow> atsc_rrt_section_dimensions_first m part2;
       pos \<leftarrow> for_each_idx_do (atsc_rrt_section_dimensions_next e m part2)
         (\<lambda>cur_dimension pos. do {
           dimension_name_length \<leftarrow> rd8 m cur_dimension;
           let pos = pos + 1 + dimension_name_length + 1;
           dpart2 \<leftarrow> atsc_rrt_dimension_part2 m cur_dimension;
           cur_value \<leftarrow> atsc_rrt_dimension_part2_values_first e m dpart2;
           for_each_idx_do (atsc_rrt_dimension_part2_values_next e m dpart2)
             (\<lambda>cur_value pos. do {
               abbrev_rating_value_length \<leftarrow> rd8 m cur_value;
               vpart2 \<leftarrow> atsc_rrt_dimension_value_part2 m cur_value;
               rating_value_length \<leftarrow> rd8 m vpart2;
               Some (pos + 1 + abbrev_rating_value_length + 1 + rating_value_length) })
             cur_value 0 pos })
         cur_dimension 0 1;
       Some (part2 + pos) }"

section \<open>\<open>atsc/rrt_section.c\<close>\<close>

definition atsc_rrt_section_codec :: "byte_order \<Rightarrow> mem \<Rightarrow> (mem \<times> bool) option" where
  "atsc_rrt_section_codec e m =
     do {
       len \<leftarrow> section_ext_length e m;
       if len < 10 then Some (m, False)
       else do {
         rating_region_name_length \<leftarrow> rd8 m 9;
         if len < rating_region_name_length + 10 then Some (m, False)
         else do {
           invalid \<leftarrow> atsc_text_validate m 10 rating_region_name_length;
           if invalid \<noteq> 0 then Some (m, False)
           else do {
             let pos = rating_region_name_length + 10;
             if len < pos + 1 then Some (m, False)
             else do {
               let rrtpart2 = pos;
               let pos = pos + 1;
               ((m, pos, idx), ok) \<leftarrow> while_do
                 (\<lambda>(m, pos, idx). do {
                   dimensions_defined \<leftarrow> rd8 m rrtpart2;
                   Some (idx < dimensions_defined) })
                 (\<lambda>(m, pos, idx).
                   if len < pos + 1 then Some ((m, pos, idx), False)
                   else do {
                     let dimension = pos;
                     let pos = pos + 1;
                     dimension_name_length \<leftarrow> rd8 m dimension;
                     if len < pos + dimension_name_length then Some ((m, pos, idx), False)
                     else do {
                       invalid' \<leftarrow> atsc_text_validate m pos dimension_name_length;
                       if invalid' \<noteq> 0 then Some ((m, pos, idx), False)
                       else do {
                         let pos = pos + dimension_name_length;
                         if len < pos + 1 then Some ((m, pos, idx), False)
                         else do {
                           let dpart2 = pos;
                           let pos = pos + 1;
                           ((m, pos, vidx), ok) \<leftarrow> while_do
                             (\<lambda>(m, pos, vidx). do {
                               values_defined \<leftarrow> fld e 1 0 4 m dpart2;
                               Some (vidx < values_defined) })
                             (\<lambda>(m, pos, vidx).
                               if len < pos + 1 then Some ((m, pos, vidx), False)
                               else do {
                                 let val = pos;
                                 let pos = pos + 1;
                                 abbrev_rating_value_length \<leftarrow> rd8 m val;
                                 if len < pos + abbrev_rating_value_length then Some ((m, pos, vidx), False)
                                 else do {
                                   invalid'' \<leftarrow> atsc_text_validate m pos abbrev_rating_value_length;
                                   if invalid'' \<noteq> 0 then Some ((m, pos, vidx), False)
                                   else do {
                                     let pos = pos + abbrev_rating_value_length;
                                     if len < pos + 1 then Some ((m, pos, vidx), False)
                                     else do {
                                       let vpart2 = pos;
                                       let pos = pos + 1;
                                       rating_value_length \<leftarrow> rd8 m vpart2;
                                       if len < pos + rating_value_length then Some ((m, pos, vidx), False)
                                       else do {
                                         invalid''' \<leftarrow> atsc_text_validate m pos rating_value_length;
                                         if invalid''' \<noteq> 0 then Some ((m, pos, vidx), False)
                                         else do {
                                           let pos = pos + rating_value_length;
                                           let vidx = vidx + 1;
                                           Some ((m, pos, vidx), True) } } } } } })
                             (m, pos, 0);
                           if \<not> ok then Some ((m, pos, idx), False)
                           else do {
                             let idx = idx + 1;
                             Some ((m, pos, idx), True) } } } } })
                 (m, pos, 0);
               if \<not> ok then Some (m, False)
               else if len < pos + 2 then Some (m, False)
               else do {
                 let part3 = pos;
                 let pos = pos + 2;
                 descriptors_length \<leftarrow> fld e 2 0 10 m part3;
                 if len < pos + descriptors_length then Some (m, False)
                 else do {
                   invalid' \<leftarrow> verify_descriptors m pos descriptors_length;
                   if invalid' \<noteq> 0 then Some (m, False)
                   else do {
                     let pos = pos + descriptors_length;
                     if pos \<noteq> len then Some (m, False)
                     else Some (m, True) } } } } } } } }"

section \<open>\<open>atsc/eit_section.h\<close>\<close>

definition atsc_eit_section_layout :: layout where
  "atsc_eit_section_layout =
    [(''num_events_in_section'', Value 9 1 0 8)]"

definition atsc_eit_event_layout :: layout where
  "atsc_eit_event_layout =
    [(''reserved'', Value 0 2 14 2), (''event_id'', Value 0 2 0 14), (''start_time'', Value 2 4 0 32),
     (''reserved1'', Value 6 4 30 2), (''ETM_location'', Value 6 4 28 2), (''length_in_seconds'', Value 6 4 8 20),
     (''title_length'', Value 6 4 0 8)]"

definition atsc_eit_event_part2_layout :: layout where
  "atsc_eit_event_part2_layout =
    [(''reserved'', Value 0 2 12 4), (''descriptors_length'', Value 0 2 0 12)]"

definition atsc_eit_section_source_id :: "byte_order \<Rightarrow> mem \<Rightarrow> nat \<Rightarrow> nat option" where
  "atsc_eit_section_source_id e m eit =
     do {
       table_id_ext \<leftarrow> ldn e 2 m (eit + 3);
       Some table_id_ext }"

definition atsc_eit_event_name_title_text :: "byte_order \<Rightarrow> mem \<Rightarrow> nat \<Rightarrow> nat option option" where
  "atsc_eit_event_name_title_text e m event =
     do {
       title_length \<leftarrow> fld e 4 0 8 m (event + 6);
       if title_length = 0 then Some None
       else Some (Some (event + 10)) }"

definition atsc_eit_event_part2 :: "byte_order \<Rightarrow> mem \<Rightarrow> nat \<Rightarrow> nat option" where
  "atsc_eit_event_part2 e m event =
     do {
       title_length \<leftarrow> fld e 4 0 8 m (event + 6);
       Some (event + title_length + 10) }"

definition atsc_eit_section_events_first :: "mem \<Rightarrow> nat \<Rightarrow> nat option option" where
  "atsc_eit_section_events_first m eit =
     do {
       num_events_in_section \<leftarrow> rd8 m (eit + 9);
       if num_events_in_section = 0 then Some None
       else Some (Some (eit + 10)) }"

definition atsc_eit_section_events_next :: "byte_order \<Rightarrow> mem \<Rightarrow> nat \<Rightarrow> nat \<Rightarrow> nat \<Rightarrow> nat option option" where
  "atsc_eit_section_events_next e m eit pos idx =
     do {
       num_events_in_section \<leftarrow> rd8 m (eit + 9);
       if idx \<ge> num_events_in_section then Some None
       else do {
         r \<leftarrow> atsc_eit_event_part2 e m pos;
         descriptors_length \<leftarrow> fld e 2 0 12 m r;
         let len = descriptors_length + 2;
         Some (Some (r + len)) } }"

definition atsc_eit_event_part2_descriptors_first :: "byte_order \<Rightarrow> mem \<Rightarrow> nat \<Rightarrow> nat option option" where
  "atsc_eit_event_part2_descriptors_first e m part2 =
     do {
       descriptors_length \<leftarrow> fld e 2 0 12 m part2;
       if descriptors_length = 0 then Some None
       else Some (Some (part2 + 2)) }"

definition atsc_eit_event_part2_descriptors_next :: "byte_order \<Rightarrow> mem \<Rightarrow> nat \<Rightarrow> nat \<Rightarrow> nat option option" where
  "atsc_eit_event_part2_descriptors_next e m part2 pos =
     do {
       descriptors_length \<leftarrow> fld e 2 0 12 m part2;
       nxt \<leftarrow> next_descriptor m (part2 + 2) descriptors_length (Some pos);
       Some nxt }"

section \<open>\<open>atsc/eit_section.c\<close>\<close>

definition atsc_eit_section_codec :: "byte_order \<Rightarrow> mem \<Rightarrow> (mem \<times> bool) option" where
  "atsc_eit_section_codec e m =
     do {
       len \<leftarrow> section_ext_length e m;
       if len < 10 then Some (m, False)
       else do {
         ((m, pos, idx), ok) \<leftarrow> while_do
           (\<lambda>(m, pos, idx). do {
             num_events_in_section \<leftarrow> rd8 m 9;
             Some (idx < num_events_in_section) })
           (\<lambda>(m, pos, idx).
             if len < pos + 10 then Some ((m, pos, idx), False)
             else do {
               let event = pos;
               m \<leftarrow> bswap16 e m pos;
               m \<leftarrow> bswap32 e m (pos + 2);
               m \<leftarrow> bswap32 e m (pos + 6);
               let pos = pos + 10;
               title_length \<leftarrow> fld e 4 0 8 m (event + 6);
               if len < pos + title_length then Some ((m, pos, idx), False)
               else do {
                 invalid \<leftarrow> atsc_text_validate m pos title_length;
                 if invalid \<noteq> 0 then Some ((m, pos, idx), False)
                 else do {
                   let pos = pos + title_length;
                   if len < pos + 2 then Some ((m, pos, idx), False)
                   else do {
                     let part2 = pos;
                     m \<leftarrow> bswap16 e m pos;
                     let pos = pos + 2;
                     descriptors_length \<leftarrow> fld e 2 0 12 m part2;
                     if len < pos + descriptors_length then Some ((m, pos, idx), False)
                     else do {
                       invalid' \<leftarrow> verify_descriptors m pos descriptors_length;
                       if invalid' \<noteq> 0 then Some ((m, pos, idx), False)
                       else do {
                         let pos = pos + descriptors_length;
                         let idx = idx + 1;
                         Some ((m, pos, idx), True) } } } } } })
           (m, 10, 0);
         if \<not> ok then Some (m, False)
         else if pos \<noteq> len then Some (m, False)
         else Some (m, True) } }"

section \<open>\<open>atsc/ett_section.h\<close>\<close>

definition atsc_ett_section_layout :: layout where
  "atsc_ett_section_layout =
    [(''ETM_source_id'', Value 9 4 16 16), (''ETM_sub_id'', Value 9 4 2 14), (''ETM_type'', Value 9 4 0 2)]"

definition atsc_ett_section_extended_text_message :: "byte_order \<Rightarrow> mem \<Rightarrow> nat option option" where
  "atsc_ett_section_extended_text_message e m =
     do {
       len' \<leftarrow> section_ext_length e m;
       let len = size_sub len' 13;
       if len = 0 then Some None
       else Some (Some 13) }"

definition atsc_ett_section_extended_text_message_length :: "byte_order \<Rightarrow> mem \<Rightarrow> int option" where
  "atsc_ett_section_extended_text_message_length e m =
     do {
       len \<leftarrow> section_ext_length e m;
       Some (sint (word_of_nat (size_sub len 13) :: 32 word)) }"

section \<open>\<open>atsc/ett_section.c\<close>\<close>

definition atsc_ett_section_codec :: "byte_order \<Rightarrow> mem \<Rightarrow> (mem \<times> bool) option" where
  "atsc_ett_section_codec e m =
     do {
       len \<leftarrow> section_ext_length e m;
       if len < 13 then Some (m, False)
       else do {
         m \<leftarrow> bswap32 e m 9;
         len' \<leftarrow> section_ext_length e m;
         invalid \<leftarrow> atsc_text_validate m 13 (size_sub len' 13);
         if invalid \<noteq> 0 then Some (m, False)
         else Some (m, True) } }"

section \<open>\<open>atsc/stt_section.h\<close>\<close>

definition atsc_stt_section_layout :: layout where
  "atsc_stt_section_layout =
    [(''system_time'', Value 9 4 0 32), (''gps_utc_offset'', Value 13 1 0 8), (''DS_status'', Value 14 2 15 1),
     (''reserved'', Value 14 2 13 2), (''DS_day_of_month'', Value 14 2 8 5), (''DS_hour'', Value 14 2 0 8)]"

definition atsc_stt_section_descriptors_first :: "byte_order \<Rightarrow> mem \<Rightarrow> nat option option" where
  "atsc_stt_section_descriptors_first e m =
     do {
       len \<leftarrow> section_ext_length e m;
       if 16 \<ge> len then Some None
       else Some (Some 16) }"

definition atsc_stt_section_descriptors_next :: "byte_order \<Rightarrow> mem \<Rightarrow> nat \<Rightarrow> nat option option" where
  "atsc_stt_section_descriptors_next e m pos =
     do {
       len' \<leftarrow> section_ext_length e m;
       let len = size_sub len' 16;
       do {
         nxt \<leftarrow> next_descriptor m 16 len (Some pos);
         Some nxt } }"

section \<open>\<open>atsc/stt_section.c\<close>\<close>

definition atsc_stt_section_codec :: "byte_order \<Rightarrow> mem \<Rightarrow> (mem \<times> bool) option" where
  "atsc_stt_section_codec e m =
     do {
       len \<leftarrow> section_ext_length e m;
       if len < 16 then Some (m, False)
       else do {
         m \<leftarrow> bswap32 e m 9;
         m \<leftarrow> bswap16 e m 14;
         invalid \<leftarrow> verify_descriptors m 16 (size_sub len 16);
         if invalid \<noteq> 0 then Some (m, False)
         else Some (m, True) } }"

section \<open>\<open>atsc/dcct_section.h\<close>\<close>

definition atsc_dcct_section_layout :: layout where
  "atsc_dcct_section_layout =
    [(''dcc_test_count'', Value 9 1 0 8)]"

definition atsc_dcct_test_layout :: layout where
  "atsc_dcct_test_layout =
    [(''dcc_context'', Value 0 3 23 1), (''reserved'', Value 0 3 20 3),
     (''dcc_from_major_channel_number'', Value 0 3 10 10), (''dcc_from_minor_channel_number'', Value 0 3 0 10),
     (''reserved1'', Value 3 3 20 4), (''dcc_to_major_channel_number'', Value 3 3 10 10),
     (''dcc_to_minor_channel_number'', Value 3 3 0 10), (''start_time'', Value 6 4 0 32), (''end_time'', Value 10 4 0 32),
     (''dcc_term_count'', Value 14 1 0 8)]"

definition atsc_dcct_term_layout :: layout where
  "atsc_dcct_term_layout =
    [(''dcc_selection_type'', Value 0 1 0 8), (''dcc_selection_id'', Value 1 8 0 64), (''reserved'', Value 9 2 10 6),
     (''descriptors_length'', Value 9 2 0 10)]"

definition atsc_dcct_test_part2_layout :: layout where
  "atsc_dcct_test_part2_layout =
    [(''reserved'', Value 0 2 10 6), (''descriptors_length'', Value 0 2 0 10)]"

definition atsc_dcct_section_part2_layout :: layout where
  "atsc_dcct_section_part2_layout =
    [(''reserved'', Value 0 2 10 6), (''descriptors_length'', Value 0 2 0 10)]"

definition atsc_dcct_section_dcc_subtype :: "byte_order \<Rightarrow> mem \<Rightarrow> nat \<Rightarrow> nat option" where
  "atsc_dcct_section_dcc_subtype e m dcct =
     do {
       table_id_ext \<leftarrow> ldn e 2 m (dcct + 3);
       Some (table_id_ext div 256) }"

definition atsc_dcct_section_dcc_id :: "byte_order \<Rightarrow> mem \<Rightarrow> nat \<Rightarrow> nat option" where
  "atsc_dcct_section_dcc_id e m dcct =
     do {
       table_id_ext \<leftarrow> ldn e 2 m (dcct + 3);
       Some (table_id_ext mod 256) }"

definition atsc_dcct_section_tests_first :: "mem \<Rightarrow> nat \<Rightarrow> nat option option" where
  "atsc_dcct_section_tests_first m dcct =
     do {
       dcc_test_count \<leftarrow> rd8 m (dcct + 9);
       if dcc_test_count = 0 then Some None
       else Some (Some (dcct + 10)) }"

definition atsc_dcct_test_terms_first :: "mem \<Rightarrow> nat \<Rightarrow> nat option option" where
  "atsc_dcct_test_terms_first m test =
     do {
       dcc_term_count \<leftarrow> rd8 m (test + 14);
       if dcc_term_count = 0 then Some None
       else Some (Some (test + 15)) }"

definition atsc_dcct_test_terms_next :: "byte_order \<Rightarrow> mem \<Rightarrow> nat \<Rightarrow> nat \<Rightarrow> nat \<Rightarrow> nat option option" where
  "atsc_dcct_test_terms_next e m test pos idx =
     do {
       dcc_term_count \<leftarrow> rd8 m (test + 14);
       if idx \<ge> dcc_term_count then Some None
       else do {
         descriptors_length \<leftarrow> fld e 2 0 10 m (pos + 9);
         let len = descriptors_length + 11;
         Some (Some (pos + len)) } }"

definition atsc_dcct_term_descriptors_first :: "byte_order \<Rightarrow> mem \<Rightarrow> nat \<Rightarrow> nat option option" where
  "atsc_dcct_term_descriptors_first e m term =
     do {
       descriptors_length \<leftarrow> fld e 2 0 10 m (term + 9);
       if descriptors_length = 0 then Some None
       else Some (Some (term + 11)) }"

definition atsc_dcct_term_descriptors_next :: "byte_order \<Rightarrow> mem \<Rightarrow> nat \<Rightarrow> nat \<Rightarrow> nat option option" where
  "atsc_dcct_term_descriptors_next e m term pos =
     do {
       descriptors_length \<leftarrow> fld e 2 0 10 m (term + 9);
       nxt \<leftarrow> next_descriptor m (term + 11) descriptors_length (Some pos);
       Some nxt }"

definition atsc_dcct_test_part2_descriptors_first :: "byte_order \<Rightarrow> mem \<Rightarrow> nat \<Rightarrow> nat option option" where
  "atsc_dcct_test_part2_descriptors_first e m part2 =
     do {
       descriptors_length \<leftarrow> fld e 2 0 10 m part2;
       if descriptors_length = 0 then Some None
       else Some (Some (part2 + 2)) }"

definition atsc_dcct_test_part2_descriptors_next :: "byte_order \<Rightarrow> mem \<Rightarrow> nat \<Rightarrow> nat \<Rightarrow> nat option option" where
  "atsc_dcct_test_part2_descriptors_next e m part2 pos =
     do {
       descriptors_length \<leftarrow> fld e 2 0 10 m part2;
       nxt \<leftarrow> next_descriptor m (part2 + 2) descriptors_length (Some pos);
       Some nxt }"

definition atsc_dcct_section_part2_descriptors_first :: "byte_order \<Rightarrow> mem \<Rightarrow> nat \<Rightarrow> nat option option" where
  "atsc_dcct_section_part2_descriptors_first e m part2 =
     do {
       descriptors_length \<leftarrow> fld e 2 0 10 m part2;
       if descriptors_length = 0 then Some None
       else Some (Some (part2 + 2)) }"

definition atsc_dcct_section_part2_descriptors_next :: "byte_order \<Rightarrow> mem \<Rightarrow> nat \<Rightarrow> nat \<Rightarrow> nat option option" where
  "atsc_dcct_section_part2_descriptors_next e m part2 pos =
     do {
       descriptors_length \<leftarrow> fld e 2 0 10 m part2;
       nxt \<leftarrow> next_descriptor m (part2 + 2) descriptors_length (Some pos);
       Some nxt }"

definition atsc_dcct_test_part2 :: "byte_order \<Rightarrow> mem \<Rightarrow> nat \<Rightarrow> nat option" where
  "atsc_dcct_test_part2 e m test =
     do {
       cur_term \<leftarrow> atsc_dcct_test_terms_first m test;
       pos \<leftarrow> for_each_idx_do (atsc_dcct_test_terms_next e m test)
         (\<lambda>cur_term pos. do {
           descriptors_length \<leftarrow> fld e 2 0 10 m (cur_term + 9);
           Some (pos + 11 + descriptors_length) })
         cur_term 0 15;
       Some (test + pos) }"

definition atsc_dcct_section_tests_next :: "byte_order \<Rightarrow> mem \<Rightarrow> nat \<Rightarrow> nat \<Rightarrow> nat \<Rightarrow> nat option option" where
  "atsc_dcct_section_tests_next e m dcct pos idx =
     do {
       dcc_test_count \<leftarrow> rd8 m (dcct + 9);
       if idx \<ge> dcc_test_count then Some None
       else do {
         part2 \<leftarrow> atsc_dcct_test_part2 e m pos;
         descriptors_length \<leftarrow> fld e 2 0 10 m part2;
         let len = 2 + descriptors_length;
         Some (Some (part2 + len)) } }"

definition atsc_dcct_section_part2 :: "byte_order \<Rightarrow> mem \<Rightarrow> nat \<Rightarrow> nat option" where
  "atsc_dcct_section_part2 e m dcct =
     do {
       cur_test \<leftarrow> atsc_dcct_section_tests_first m dcct;
       pos \<leftarrow> for_each_idx_do (atsc_dcct_section_tests_next e m dcct)
         (\<lambda>cur_test pos. do {
           part2 \<leftarrow> atsc_dcct_test_part2 e m cur_test;
           descriptors_length \<leftarrow> fld e 2 0 10 m part2;
           Some (pos + (part2 - cur_test) + 2 + descriptors_length) })
         cur_test 0 10;
       Some (dcct + pos) }"

section \<open>\<open>atsc/dcct_section.c\<close>\<close>

definition atsc_dcct_section_codec :: "byte_order \<Rightarrow> mem \<Rightarrow> (mem \<times> bool) option" where
  "atsc_dcct_section_codec e m =
     do {
       len \<leftarrow> section_ext_length e m;
       if len < 10 then Some (m, False)
       else do {
         ((m, pos, testidx), ok) \<leftarrow> while_do
           (\<lambda>(m, pos, testidx). do {
             dcc_test_count \<leftarrow> rd8 m 9;
             Some (testidx < dcc_test_count) })
           (\<lambda>(m, pos, testidx).
             if len < pos + 15 then Some ((m, pos, testidx), False)
             else do {
               let test = pos;
               m \<leftarrow> bswap24 e m pos;
               m \<leftarrow> bswap24 e m (pos + 3);
               m \<leftarrow> bswap32 e m (pos + 6);
               m \<leftarrow> bswap32 e m (pos + 10);
               let pos = pos + 15;
               ((m, pos, termidx), ok) \<leftarrow> while_do
                 (\<lambda>(m, pos, termidx). do {
                   dcc_term_count \<leftarrow> rd8 m (test + 14);
                   Some (termidx < dcc_term_count) })
                 (\<lambda>(m, pos, termidx).
                   if len < pos + 11 then Some ((m, pos, termidx), False)
                   else do {
                     let term = pos;
                     m \<leftarrow> bswap64 e m (pos + 1);
                     m \<leftarrow> bswap16 e m (pos + 9);
                     let pos = pos + 11;
                     descriptors_length \<leftarrow> fld e 2 0 10 m (term + 9);
                     if len < pos + descriptors_length then Some ((m, pos, termidx), False)
                     else do {
                       invalid \<leftarrow> verify_descriptors m pos descriptors_length;
                       if invalid \<noteq> 0 then Some ((m, pos, termidx), False)
                       else do {
                         let pos = pos + descriptors_length;
                         let termidx = termidx + 1;
                         Some ((m, pos, termidx), True) } } })
                 (m, pos, 0);
               if \<not> ok then Some ((m, pos, testidx), False)
               else if len < pos + 2 then Some ((m, pos, testidx), False)
               else do {
                 let part2 = pos;
                 m \<leftarrow> bswap16 e m pos;
                 let pos = pos + 2;
                 descriptors_length \<leftarrow> fld e 2 0 10 m part2;
                 if len < pos + descriptors_length then Some ((m, pos, testidx), False)
                 else do {
                   invalid \<leftarrow> verify_descriptors m pos descriptors_length;
                   if invalid \<noteq> 0 then Some ((m, pos, testidx), False)
                   else do {
                     let pos = pos + descriptors_length;
                     let testidx = testidx + 1;
                     Some ((m, pos, testidx), True) } } } })
           (m, 10, 0);
         if \<not> ok then Some (m, False)
         else if len < pos + 2 then Some (m, False)
         else do {
           let part2 = pos;
           m \<leftarrow> bswap16 e m pos;
           let pos = pos + 2;
           descriptors_length \<leftarrow> fld e 2 0 10 m part2;
           if len < pos + descriptors_length then Some (m, False)
           else do {
             invalid \<leftarrow> verify_descriptors m pos descriptors_length;
             if invalid \<noteq> 0 then Some (m, False)
             else do {
               let pos = pos + descriptors_length;
               if pos \<noteq> len then Some (m, False)
               else Some (m, True) } } } } }"

section \<open>\<open>atsc/dccsct_section.h\<close>\<close>

definition atsc_dccsct_section_layout :: layout where
  "atsc_dccsct_section_layout =
    [(''updates_defined'', Value 9 1 0 8)]"

definition atsc_dccsct_update_layout :: layout where
  "atsc_dccsct_update_layout =
    [(''update_type'', Value 0 1 0 8), (''update_data_length'', Value 1 1 0 8)]"

definition atsc_dccsct_update_new_genre_layout :: layout where
  "atsc_dccsct_update_new_genre_layout =
    [(''genre_category_code'', Value 0 1 0 8)]"

definition atsc_dccsct_update_new_state_layout :: layout where
  "atsc_dccsct_update_new_state_layout =
    [(''dcc_state_location_code'', Value 0 1 0 8)]"

definition atsc_dccsct_update_new_county_layout :: layout where
  "atsc_dccsct_update_new_county_layout =
    [(''state_code'', Value 0 1 0 8), (''reserved'', Value 1 2 10 6), (''dcc_county_location_code'', Value 1 2 0 10)]"

definition atsc_dccsct_update_part2_layout :: layout where
  "atsc_dccsct_update_part2_layout =
    [(''reserved'', Value 0 2 10 6), (''descriptors_length'', Value 0 2 0 10)]"

definition atsc_dccsct_section_part2_layout :: layout where
  "atsc_dccsct_section_part2_layout =
    [(''reserved'', Value 0 2 10 6), (''descriptors_length'', Value 0 2 0 10)]"

definition atsc_dccsct_section_dccsct_type :: "byte_order \<Rightarrow> mem \<Rightarrow> nat \<Rightarrow> nat option" where
  "atsc_dccsct_section_dccsct_type e m dccsct =
     do {
       table_id_ext \<leftarrow> ldn e 2 m (dccsct + 3);
       Some table_id_ext }"

definition atsc_dccsct_update_new_genre :: "mem \<Rightarrow> nat \<Rightarrow> nat option option" where
  "atsc_dccsct_update_new_genre m update =
     do {
       update_type \<leftarrow> rd8 m update;
       if update_type \<noteq> 1 then Some None
       else Some (Some (update + 2)) }"

definition atsc_dccsct_update_new_genre_name :: "mem \<Rightarrow> nat \<Rightarrow> nat option option" where
  "atsc_dccsct_update_new_genre_name m update =
     do {
       update_data_length \<leftarrow> rd8 m (update + 1);
       if int update_data_length - 1 = 0 then Some None
       else Some (Some (update + 1)) }"

definition atsc_dccsct_update_new_state :: "mem \<Rightarrow> nat \<Rightarrow> nat option option" where
  "atsc_dccsct_update_new_state m update =
     do {
       update_type \<leftarrow> rd8 m update;
       if update_type \<noteq> 2 then Some None
       else Some (Some (update + 2)) }"

definition atsc_dccsct_update_new_state_name :: "mem \<Rightarrow> nat \<Rightarrow> nat option option" where
  "atsc_dccsct_update_new_state_name m update =
     do {
       update_data_length \<leftarrow> rd8 m (update + 1);
       if int update_data_length - 1 = 0 then Some None
       else Some (Some (update + 1)) }"

definition atsc_dccsct_update_new_county :: "mem \<Rightarrow> nat \<Rightarrow> nat option option" where
  "atsc_dccsct_update_new_county m update =
     do {
       update_type \<leftarrow> rd8 m update;
       if update_type \<noteq> 3 then Some None
       else Some (Some (update + 2)) }"

definition atsc_dccsct_update_new_county_name :: "mem \<Rightarrow> nat \<Rightarrow> nat option option" where
  "atsc_dccsct_update_new_county_name m update =
     do {
       update_data_length \<leftarrow> rd8 m (update + 1);
       if int update_data_length - 3 = 0 then Some None
       else Some (Some (update + 3)) }"

definition atsc_dccsct_update_part2 :: "mem \<Rightarrow> nat \<Rightarrow> nat option" where
  "atsc_dccsct_update_part2 m update =
     do {
       update_data_length \<leftarrow> rd8 m (update + 1);
       let pos = update_data_length + 2;
       Some (update + pos) }"

definition atsc_dccsct_section_updates_first :: "mem \<Rightarrow> nat \<Rightarrow> nat option option" where
  "atsc_dccsct_section_updates_first m dccsct =
     do {
       updates_defined \<leftarrow> rd8 m (dccsct + 9);
       if updates_defined = 0 then Some None
       else Some (Some (dccsct + 10)) }"

definition atsc_dccsct_section_updates_next :: "byte_order \<Rightarrow> mem \<Rightarrow> nat \<Rightarrow> nat \<Rightarrow> nat \<Rightarrow> nat option option" where
  "atsc_dccsct_section_updates_next e m dccsct pos idx =
     do {
       updates_defined \<leftarrow> rd8 m (dccsct + 9);
       if idx \<ge> updates_defined then Some None
       else do {
         r \<leftarrow> atsc_dccsct_update_part2 m pos;
         descriptors_length \<leftarrow> fld e 2 0 10 m r;
         let len = descriptors_length + 2;
         Some (Some (r + len)) } }"

definition atsc_dccsct_update_part2_descriptors_first :: "byte_order \<Rightarrow> mem \<Rightarrow> nat \<Rightarrow> nat option option" where
  "atsc_dccsct_update_part2_descriptors_first e m part2 =
     do {
       descriptors_length \<leftarrow> fld e 2 0 10 m part2;
       if descriptors_length = 0 then Some None
       else Some (Some (part2 + 2)) }"

definition atsc_dccsct_update_part2_descriptors_next :: "byte_order \<Rightarrow> mem \<Rightarrow> nat \<Rightarrow> nat \<Rightarrow> nat option option" where
  "atsc_dccsct_update_part2_descriptors_next e m part2 pos =
     do {
       descriptors_length \<leftarrow> fld e 2 0 10 m part2;
       nxt \<leftarrow> next_descriptor m (part2 + 2) descriptors_length (Some pos);
       Some nxt }"

definition atsc_dccsct_section_part2_descriptors_first :: "byte_order \<Rightarrow> mem \<Rightarrow> nat \<Rightarrow> nat option option" where
  "atsc_dccsct_section_part2_descriptors_first e m part2 =
     do {
       descriptors_length \<leftarrow> fld e 2 0 10 m part2;
       if descriptors_length = 0 then Some None
       else Some (Some (part2 + 2)) }"

definition atsc_dccsct_section_part2_descriptors_next :: "byte_order \<Rightarrow> mem \<Rightarrow> nat \<Rightarrow> nat \<Rightarrow> nat option option" where
  "atsc_dccsct_section_part2_descriptors_next e m part2 pos =
     do {
       descriptors_length \<leftarrow> fld e 2 0 10 m part2;
       nxt \<leftarrow> next_descriptor m (part2 + 2) descriptors_length (Some pos);
       Some nxt }"

section \<open>\<open>atsc/dccsct_section.c\<close>\<close>

definition atsc_dccsct_section_codec :: "byte_order \<Rightarrow> mem \<Rightarrow> (mem \<times> bool) option" where
  "atsc_dccsct_section_codec e m =
     do {
       len \<leftarrow> section_ext_length e m;
       if len < 10 then Some (m, False)
       else do {
         ((m, pos, idx), ok) \<leftarrow> while_do
           (\<lambda>(m, pos, idx). do {
             updates_defined \<leftarrow> rd8 m 9;
             Some (idx < updates_defined) })
           (\<lambda>(m, pos, idx).
             if len < pos + 2 then Some ((m, pos, idx), False)
             else do {
               let update = pos;
               let pos = pos + 2;
               update_data_length \<leftarrow> rd8 m (update + 1);
               if len < pos + update_data_length then Some ((m, pos, idx), False)
               else do {
                 update_type \<leftarrow> rd8 m update;
                 (m, ok) \<leftarrow> (if update_type = 1 then
                   if update_data_length < 1 then Some (m, False)
                   else do {
                     invalid \<leftarrow> atsc_text_validate m (pos + 1) (nat (int update_data_length - 1));
                     if invalid \<noteq> 0 then Some (m, False)
                     else Some (m, True) }
                 else do {
                   (m, ok) \<leftarrow> (if update_type = 2 then
                     if update_data_length < 1 then Some (m, False)
                     else do {
                       invalid \<leftarrow> atsc_text_validate m (pos + 1) (nat (int update_data_length - 1));
                       if invalid \<noteq> 0 then Some (m, False)
                       else Some (m, True) }
                   else do {
                     (m, ok) \<leftarrow> (if update_type = 3 then
                       if update_data_length < 3 then Some (m, False)
                       else do {
                         m \<leftarrow> bswap16 e m (pos + 1);
                         update_data_length' \<leftarrow> rd8 m (update + 1);
                         invalid \<leftarrow> atsc_text_validate m (pos + 3) (nat (int update_data_length' - 3));
                         if invalid \<noteq> 0 then Some (m, False)
                         else Some (m, True) }
                     else Some (m, True));
                     if \<not> ok then Some (m, False)
                     else Some (m, True) });
                   if \<not> ok then Some (m, False)
                   else Some (m, True) });
                 if \<not> ok then Some ((m, pos, idx), False)
                 else do {
                   update_data_length' \<leftarrow> rd8 m (update + 1);
                   let pos = pos + update_data_length';
                   if len < pos + 2 then Some ((m, pos, idx), False)
                   else do {
                     let part2 = 2 * pos;
                     m \<leftarrow> bswap16 e m pos;
                     let pos = pos + 2;
                     descriptors_length \<leftarrow> fld e 2 0 10 m part2;
                     if len < pos + descriptors_length then Some ((m, pos, idx), False)
                     else do {
                       invalid \<leftarrow> verify_descriptors m pos descriptors_length;
                       if invalid \<noteq> 0 then Some ((m, pos, idx), False)
                       else do {
                         let pos = pos + descriptors_length;
                         let idx = idx + 1;
                         Some ((m, pos, idx), True) } } } } } })
           (m, 10, 0);
         if \<not> ok then Some (m, False)
         else if len < pos + 2 then Some (m, False)
         else do {
           let part2 = pos;
           m \<leftarrow> bswap16 e m pos;
           let pos = pos + 2;
           descriptors_length \<leftarrow> fld e 2 0 10 m part2;
           if len < pos + descriptors_length then Some (m, False)
           else do {
             invalid \<leftarrow> verify_descriptors m pos descriptors_length;
             if invalid \<noteq> 0 then Some (m, False)
             else do {
               let pos = pos + descriptors_length;
               if pos \<noteq> len then Some (m, False)
               else Some (m, True) } } } } }"

end
