(* ===== verification/Atsc_Section_Props.thy ===== *)
theory Atsc_Section_Props
  imports Atsc_Sections Descriptor_Props
begin

text \<open>
  The codecs of the ATSC tables: they keep to their section, the entries of an accepted table lie one behind the other inside
  it, the iterators visit them in order, and the fields read as they were transmitted.
\<close>

section \<open>Entries of several sizes\<close>

lemma tiles_snoc: "tiles f pos p ps \<Longrightarrow> f pos = Some n \<Longrightarrow> 0 < n \<Longrightarrow> tiles f (pos + n) p (ps @ [pos])"
  by (induction ps arbitrary: p) (auto split: option.splits)

lemma tiles_mem: "tiles f stop p ps \<Longrightarrow> q \<in> set ps \<Longrightarrow> \<exists>n. f q = Some n \<and> q + n \<le> stop \<and> p \<le> q"
  by (induction ps arbitrary: p) (fastforce split: option.splits)+

lemma tiles_cong:
  "tiles f stop p ps \<Longrightarrow> (\<And>q n. q \<in> set ps \<Longrightarrow> f q = Some n \<Longrightarrow> q + n \<le> stop \<Longrightarrow> g q = Some n) \<Longrightarrow> tiles g stop p ps"
  by (induction ps arbitrary: p) (auto split: option.splits)

lemma tiles_nth:
  "tiles f stop p ps \<Longrightarrow> i < length ps \<Longrightarrow> \<exists>n. f (ps ! i) = Some n \<and> (Suc i < length ps \<longrightarrow> ps ! Suc i = ps ! i + n)"
proof (induction ps arbitrary: p i)
  case (Cons q qs)
  then obtain n where n: "f p = Some n" "q = p" "tiles f stop (p + n) qs" by (auto split: option.splits)
  show ?case
  proof (cases i)
    case 0
    then show ?thesis using n by (cases qs) auto
  next
    case (Suc j)
    then show ?thesis using Cons.IH [OF n(3), of j] Cons.prems(2) by simp
  qed
qed simp

text \<open>The entries \<open>ps\<close> from \<open>p0\<close> to \<open>stop\<close>, with headers of \<open>hsz\<close> bytes and the sizes \<open>ext\<close>.\<close>

definition var_table ::
  "byte_order \<Rightarrow> layout \<Rightarrow> nat \<Rightarrow> (mem \<Rightarrow> nat \<Rightarrow> nat option) \<Rightarrow> mem \<Rightarrow> mem \<Rightarrow> nat \<Rightarrow> nat \<Rightarrow> nat list \<Rightarrow> bool" where
  "var_table e lay hsz ext m0 m p0 stop ps \<longleftrightarrow> tiles (ext m) stop p0 ps \<and> (\<forall>p \<in> set ps. p + hsz \<le> stop \<and> decodes e lay m0 p m)"

text \<open>The size of an entry depends on its own bytes.\<close>

definition local_size :: "(mem \<Rightarrow> nat \<Rightarrow> nat option) \<Rightarrow> bool" where
  "local_size ext \<longleftrightarrow> (\<forall>m m' p n lo hi. ext m p = Some n \<longrightarrow> p + n \<le> lo \<longrightarrow> same lo hi m m' \<longrightarrow> ext m' p = Some n)"

lemma local_sizeD: "local_size ext \<Longrightarrow> ext m p = Some n \<Longrightarrow> p + n \<le> lo \<Longrightarrow> same lo hi m m' \<Longrightarrow> ext m' p = Some n"
  unfolding local_size_def by blast

lemma var_table_frame:
  assumes "var_table e lay hsz ext m0 m p0 pos ps" "same pos hi m m'" "pos \<le> length m" "local_size ext" "layout_within hsz lay"
  shows "var_table e lay hsz ext m0 m' p0 pos ps"
proof -
  have "tiles (ext m') pos p0 ps"
    by (rule tiles_cong [of "ext m"]) (use assms(1) local_sizeD [OF assms(4) _ _ assms(2)] in \<open>auto simp: var_table_def\<close>)
  moreover have "decodes e lay m0 p m'" if "p \<in> set ps" for p
    by (rule decodes_cong [OF _ assms(5,2)]) (use assms(1,3) that in \<open>auto simp: var_table_def\<close>)
  ultimately show ?thesis using assms(1) by (simp add: var_table_def)
qed

lemma var_table_snoc:
  assumes "var_table e lay hsz ext m0 m p0 pos ps" "same p0 pos m0 m" "same pos pos' m m'" "decodes e lay m pos m'"
    and "ext m' pos = Some (pos' - pos)" "pos + hsz \<le> pos'" "pos < pos'" "pos' \<le> length m0" "local_size ext" "layout_within hsz lay"
  shows "var_table e lay hsz ext m0 m' p0 pos' (ps @ [pos])"
proof -
  have v: "var_table e lay hsz ext m0 m' p0 pos ps"
    by (rule var_table_frame [OF assms(1,3)]) (use assms same_length [OF assms(2)] in auto)
  have "tiles (ext m') (pos + (pos' - pos)) p0 (ps @ [pos])"
    by (rule tiles_snoc) (use v assms in \<open>auto simp: var_table_def\<close>)
  moreover have "decodes e lay m0 pos m'"
    by (rule decodes_wire [OF assms(4,10) same_length [OF assms(2)]]) (use assms(2) in \<open>auto simp: same_def\<close>)
  ultimately show ?thesis using v assms(6,7) by (auto simp: var_table_def)
qed

lemma wp_var_table:
  fixes len :: nat
  assumes c: "\<And>m pos idx. same p0 len m0 m \<Longrightarrow> c (m, pos, idx) = Some (idx < n)"
    and body: "\<And>m pos idx. \<lbrakk> same p0 len m0 m; p0 \<le> pos; pos \<le> len \<rbrakk>
      \<Longrightarrow> wp (b (m, pos, idx)) (\<lambda>((m', pos', idx'), ok). same pos len m m' \<and> (ok \<longrightarrow> idx' = Suc idx \<and> pos < pos' \<and> pos' \<le> len
            \<and> pos + hsz \<le> pos' \<and> same pos pos' m m' \<and> decodes e lay m pos m' \<and> ext m' pos = Some (pos' - pos)))"
    and k: "local_size ext" "layout_within hsz lay" "len \<le> length m0" "p0 \<le> len"
    and failed: "\<And>m pos idx. same p0 len m0 m \<Longrightarrow> wp (K ((m, pos, idx), False)) Q"
    and done': "\<And>m pos idx ps. \<lbrakk> p0 \<le> pos; pos \<le> len; same p0 pos m0 m; length ps = n; var_table e lay hsz ext m0 m p0 pos ps \<rbrakk>
      \<Longrightarrow> wp (K ((m, pos, idx), True)) Q"
  shows "wp (Option.bind (while_do c b (m0, p0, 0)) K) Q"
  unfolding wp_bind
proof (rule wp_while_do [where f = "\<lambda>(m, pos, idx). n - idx" and
      I = "\<lambda>(m, pos, j). j \<le> n \<and> p0 \<le> pos \<and> pos \<le> len \<and> same p0 pos m0 m \<and> (\<exists>ps. length ps = j \<and> var_table e lay hsz ext m0 m p0 pos ps)"])
  show "case (m0, p0, 0) of (m, pos, j) \<Rightarrow> j \<le> n \<and> p0 \<le> pos \<and> pos \<le> len \<and> same p0 pos m0 m
      \<and> (\<exists>ps. length ps = j \<and> var_table e lay hsz ext m0 m p0 pos ps)"
    using k(4) by (simp add: var_table_def)
next
  fix s :: "mem \<times> nat \<times> nat"
  let ?I = "\<lambda>(m, pos, j). j \<le> n \<and> p0 \<le> pos \<and> pos \<le> len \<and> same p0 pos m0 m \<and> (\<exists>ps. length ps = j \<and> var_table e lay hsz ext m0 m p0 pos ps)"
  assume "?I s"
  then obtain m pos j ps where s: "s = (m, pos, j)" "j \<le> n" "p0 \<le> pos" "pos \<le> len" and fr: "same p0 pos m0 m"
    and ps: "length ps = j" "var_table e lay hsz ext m0 m p0 pos ps" by (cases s) auto
  have fr': "same p0 len m0 m" by (rule same_mono [OF fr]) (use s in auto)
  have step: "?I (m', pos', Suc j)" if "same pos pos' m m'" "pos < pos'" "pos' \<le> len" "pos + hsz \<le> pos'" "decodes e lay m pos m'"
    "ext m' pos = Some (pos' - pos)" "j < n" for m' pos'
  proof -
    have "var_table e lay hsz ext m0 m' p0 pos' (ps @ [pos])"
      by (rule var_table_snoc [OF ps(2) fr that(1,5,6,4,2) _ k(1,2)]) (use that k in simp)
    moreover have "same p0 pos' m0 m'" using same_trans [OF same_mono [OF fr] same_mono [OF that(1)]] s that by simp
    ultimately show ?thesis using that s ps(1) by (auto intro!: exI [of _ "ps @ [pos]"])
  qed
  have fail: "wp (K ((m', p', i'), False)) Q" if "same pos len m m'" for m' p' i'
    by (rule failed) (use same_trans [OF fr' same_mono [OF that]] s in simp)
  show "wp (c s) (\<lambda>go. if go then wp (b s) (\<lambda>(s', ok). if ok then ?I s'
      \<and> (case s' of (m, pos, idx) \<Rightarrow> n - idx) < (case s of (m, pos, idx) \<Rightarrow> n - idx) else wp (K (s', False)) Q) else wp (K (s, True)) Q)"
  proof (cases "j < n")
    case True
    then have "c s = Some True" using c [OF fr'] s by simp
    moreover have "wp (b s) (\<lambda>(s', ok). if ok then ?I s' \<and> (case s' of (m, pos, idx) \<Rightarrow> n - idx) < (case s of (m, pos, idx) \<Rightarrow> n - idx)
        else wp (K (s', False)) Q)"
      using body [OF fr' s(3,4), of j] unfolding s(1)
      by (rule wp_mono) (use True fail step in \<open>auto simp del: split_paired_Ex\<close>)
    ultimately show ?thesis by (simp add: wp_Some)
  next
    case False
    then show ?thesis using c [OF fr'] s done' [OF s(3,4) fr _ ps(2), of j] ps(1) by (simp add: wp_Some)
  qed
qed

section \<open>The tables\<close>

text \<open>The section lies in \<open>m\<close>; \<open>len\<close> bytes are left without its CRC.\<close>

definition sec_in :: "byte_order \<Rightarrow> mem \<Rightarrow> nat \<Rightarrow> bool" where
  "sec_in e m len \<longleftrightarrow> section_ext_length e m = Some len \<and> len \<le> length m"

definition section_correct :: "(byte_order \<Rightarrow> mem \<Rightarrow> (mem \<times> bool) option) \<Rightarrow> layout \<Rightarrow> bool" where
  "section_correct f lay \<longleftrightarrow> (\<forall>e m len. sec_in e m len \<longrightarrow>
     wp (f e m) (\<lambda>(m', ok). same 9 len m m' \<and> (ok \<longrightarrow> decodes e lay m 0 m')))"

definition section_table_correct ::
  "(byte_order \<Rightarrow> mem \<Rightarrow> (mem \<times> bool) option) \<Rightarrow> layout \<Rightarrow> member \<Rightarrow> nat \<Rightarrow> nat \<Rightarrow> layout
   \<Rightarrow> (byte_order \<Rightarrow> mem \<Rightarrow> nat \<Rightarrow> nat option) \<Rightarrow> layout \<Rightarrow> bool" where
  "section_table_correct f lay cnt p0 hsz elay ext tlay \<longleftrightarrow> (\<forall>e m len. sec_in e m len \<longrightarrow>
     wp (f e m) (\<lambda>(m', ok). same 9 len m m' \<and> (ok \<longrightarrow> decodes e lay m 0 m' \<and>
       (\<exists>ps stop. stop \<le> len \<and> length ps = wire_member m 0 cnt \<and> var_table e elay hsz (ext e) m m' p0 stop ps \<and> decodes e tlay m stop m'))))"

lemma section_headI:
  assumes "wp x (\<lambda>(m', ok). same p0 len h m')" "same 9 p0 m h" "decodes e lay m 0 h" "layout_within p0 lay" "9 \<le> p0" "p0 \<le> len" "len \<le> length m"
  shows "wp x (\<lambda>(m', ok). same 9 len m m' \<and> (ok \<longrightarrow> decodes e lay m 0 m'))"
  using assms(1)
proof (rule wp_mono, clarify)
  fix m' ok
  assume s: "same p0 len h m'"
  have "same 9 len m m'" using same_trans [OF same_mono [OF assms(2)] same_mono [OF s]] assms(5,6) by simp
  moreover have "decodes e lay m 0 m'" by (rule decodes_cong [OF assms(3,4) s]) (use assms(6,7) same_length [OF assms(2)] in auto)
  ultimately show "same 9 len m m' \<and> (ok \<longrightarrow> decodes e lay m 0 m')" by simp
qed

lemma section_tableI:
  assumes shape: "\<And>e m. f e m = do { len \<leftarrow> section_ext_length e m; if len < p0 then Some (m, False)
      else pre e m (\<lambda>m. do { ((m, pos, idx), ok) \<leftarrow> while_do (c e) (b e len) (m, p0, 0); if \<not> ok then Some (m, False) else tail e len m pos }) }"
    and pre: "\<And>e m k. p0 \<le> length m \<Longrightarrow> pre e m k = k (head e m)"
    and head: "\<And>e m. p0 \<le> length m \<Longrightarrow> same 9 p0 m (head e m) \<and> decodes e lay m 0 (head e m)" "layout_within p0 lay" "9 \<le> p0"
    and c: "\<And>e m len m' pos idx. \<lbrakk> len \<le> length m; p0 \<le> len; same p0 len (head e m) m' \<rbrakk> \<Longrightarrow> c e (m', pos, idx) = Some (idx < wire_member m 0 cnt)"
    and body: "\<And>e len m pos idx. \<lbrakk> len \<le> length m; p0 \<le> pos; pos \<le> len \<rbrakk>
      \<Longrightarrow> wp (b e len (m, pos, idx)) (\<lambda>((m', pos', idx'), ok). same pos len m m' \<and> (ok \<longrightarrow> idx' = Suc idx \<and> pos < pos' \<and> pos' \<le> len
            \<and> pos + hsz \<le> pos' \<and> same pos pos' m m' \<and> decodes e elay m pos m' \<and> ext e m' pos = Some (pos' - pos)))"
    and tail: "\<And>e len m pos. \<lbrakk> len \<le> length m; pos \<le> len \<rbrakk> \<Longrightarrow> wp (tail e len m pos) (\<lambda>(m', ok). same pos len m m' \<and> (ok \<longrightarrow> decodes e tlay m pos m'))"
    and k: "\<And>e. local_size (ext e)" "layout_within hsz elay" "layout_within k tlay"
  shows "section_table_correct f lay cnt p0 hsz elay ext tlay"
  unfolding section_table_correct_def
proof (intro allI impI)
  fix e m len
  assume "sec_in e m len"
  then have sec: "section_ext_length e m = Some len" "len \<le> length m" by (simp_all add: sec_in_def)
  let ?n = "wire_member m 0 cnt" and ?h = "head e m"
  let ?R = "\<lambda>m'. \<exists>ps stop. stop \<le> len \<and> length ps = ?n \<and> var_table e elay hsz (ext e) m m' p0 stop ps \<and> decodes e tlay m stop m'"
  let ?Q = "\<lambda>(m', ok). same 9 len m m' \<and> (ok \<longrightarrow> decodes e lay m 0 m' \<and> ?R m')"
  show "wp (f e m) ?Q"
  proof (cases "p0 \<le> len")
    case True
    then have h: "same 9 p0 m ?h" "decodes e lay m 0 ?h" using head(1) [of m e] sec(2) by auto
    have lh: "length ?h = length m" using h(1) by (rule same_length)
    let ?k = "\<lambda>((m, pos, idx), ok). if \<not> ok then Some (m, False) else tail e len m pos"
    have "wp (Option.bind (while_do (c e) (b e len) (?h, p0, 0)) ?k) (\<lambda>(m', ok). same p0 len ?h m' \<and> (ok \<longrightarrow> ?R m'))"
    proof (rule wp_var_table [OF c [where e = e, OF sec(2) True], where len = len and e = e and ext = "ext e" and lay = elay and hsz = hsz], goal_cases)
      case (2 m' pos idx)
      have "length m' = length m" using same_length [OF 2(1)] lh by simp
      then show ?case using body [of len m' pos e idx] sec(2) 2(2,3) by simp
    next
      case (8 m1 pos idx ps)
      have l1: "length m1 = length m" using same_length [OF 8(3)] lh by simp
      have "wp (tail e len m1 pos) (\<lambda>(m', ok). same pos len m1 m' \<and> (ok \<longrightarrow> decodes e tlay m1 pos m'))" using tail [of len m1 pos e] sec(2) 8(2) l1 by simp
      then show ?case unfolding prod.case not_True_eq_False if_False
      proof (rule wp_mono, clarify)
        fix m' ok
        assume s: "same pos len m1 m'" and d: "ok \<longrightarrow> decodes e tlay m1 pos m'"
        have v: "var_table e elay hsz (ext e) ?h m' p0 pos ps"
          by (rule var_table_frame [OF 8(5) s]) (use 8(2) sec(2) l1 k in auto)
        have "decodes e elay m p m'" if "p \<in> set ps" for p
        proof (rule decodes_wire [OF _ k(2) lh])
          show "decodes e elay ?h p m'" using v that by (simp add: var_table_def)
          have "p0 \<le> p" using v that tiles_mem [of "ext e m'" pos p0 ps p] by (auto simp: var_table_def)
          then show "?h ! i = m ! i" if "p \<le> i" "i < p + hsz" "i < length m" for i
            using h(1) that by (simp add: same_def)
        qed
        then have "var_table e elay hsz (ext e) m m' p0 pos ps" using v by (simp add: var_table_def)
        moreover have "decodes e tlay m pos m'" if ok
        proof (rule decodes_wire [OF _ k(3) l1])
          show "decodes e tlay m1 pos m'" using d that by simp
          show "m1 ! i = m ! i" if "pos \<le> i" "i < length m" for i
            using h(1) 8(1,3) that lh by (simp add: same_def)
        qed
        ultimately have "ok \<longrightarrow> ?R m'" using 8(2,4) by blast
        moreover have "same p0 len ?h m'" using same_trans [OF same_mono [OF 8(3)] same_mono [OF s]] 8(1,2) by simp
        ultimately show "same p0 len ?h m' \<and> (ok \<longrightarrow> ?R m')" by simp
      qed
    qed (use True sec(2) lh k in \<open>auto simp: wp_Some\<close>)
    then have "wp (f e m) (\<lambda>(m', ok). same p0 len ?h m' \<and> (ok \<longrightarrow> ?R m'))" using sec True pre [of m e] by (simp add: shape not_less)
    then show ?thesis
    proof (rule wp_mono)
      fix x :: "mem \<times> bool"
      assume x: "case x of (m', ok) \<Rightarrow> same p0 len ?h m' \<and> (ok \<longrightarrow> ?R m')"
      then have "wp (Some x) (\<lambda>(m', ok). same p0 len ?h m')" by (auto simp: wp_Some)
      from section_headI [OF this h head(2,3) True sec(2)] show "?Q x" using x unfolding wp_Some by (cases x) (simp only: prod.case, blast)
    qed
  next
    case False
    then show ?thesis using sec by (simp add: shape wp_Some)
  qed
qed


definition field_size :: "nat \<Rightarrow> nat \<Rightarrow> nat \<Rightarrow> nat \<Rightarrow> byte_order \<Rightarrow> mem \<Rightarrow> nat \<Rightarrow> nat option" where
  "field_size o' n w hsz e m p = do { l \<leftarrow> fld e n 0 w m (p + o'); Some (l + hsz) }"

lemma fld_local: "fld e n lo w m p = Some x \<Longrightarrow> same lo' hi m m' \<Longrightarrow> p + n \<le> lo' \<Longrightarrow> fld e n lo w m' p = Some x"
  using val_at_same [of lo' hi m m' p n e] by (cases "p + n \<le> length m") (auto simp: fld_Some same_length, auto simp: fld_def ldn_def rd_bytes_def)

lemma local_field:
  assumes "o' + n \<le> hsz"
  shows "local_size (field_size o' n w hsz e)"
  unfolding local_size_def
proof (intro allI impI)
  fix m m' p k lo hi
  assume a: "field_size o' n w hsz e m p = Some k" "p + k \<le> lo" "same lo hi m m'"
  then obtain l where "fld e n 0 w m (p + o') = Some l" "k = l + hsz" by (auto simp: field_size_def split: Option.bind_splits)
  then show "field_size o' n w hsz e m' p = Some k"
    using fld_local [of e n 0 w m "p + o'" l lo hi m'] a assms by (simp add: field_size_def)
qed
lemma be_val_snoc: "be_val (bs @ [b]) = 256 * be_val bs + unat b"
  by (simp add: be_val_def)

lemma be_val_less: "be_val bs < 256 ^ length bs"
proof (induction bs rule: rev_induct)
  case (snoc b bs)
  then show ?case using unat_byte_lt [of b] by (simp add: be_val_snoc)
qed (simp add: be_val_def)

lemma val_at_less: "val_at e n m p < 256 ^ n"
proof -
  have "val_at e n m p < 256 ^ length (take n (drop p m))" using be_val_less [of "take n (drop p m)"] be_val_less [of "rev (take n (drop p m))"] by (simp add: val_at_def)
  also have "(256::nat) ^ length (take n (drop p m)) \<le> 256 ^ n" by (rule power_increasing) simp_all
  finally show ?thesis .
qed

lemma wp_verifyI: "p + n \<le> length m \<Longrightarrow> (\<And>r. Q r) \<Longrightarrow> wp (verify_descriptors m p n) Q"
  using verify_descriptors_safe [of p n m] by (auto simp: wp_def)


lemma swapped16_count:
  assumes "len \<le> length m" "9 + 2 \<le> lo" "lo \<le> len" "same lo len (swapped e 2 m 9) m'"
  shows "ldn e 2 m' 9 = Some (wire_member m 0 (Value 9 2 0 16))"
proof -
  have "length m' = length m" using same_length [OF assms(4)] by simp
  moreover have "val_at e 2 m' 9 = val_at BigEndian 2 m 9" using assms val_at_same [OF assms(4), of 9 2 e] by (simp add: val_at_swapped)
  ultimately show ?thesis using assms val_at_less [of BigEndian 2 m 9] by (simp add: ldn_Some)
qed

lemma byte_count:
  assumes "len \<le> length m" "10 \<le> lo" "lo \<le> len" "same lo len m m'"
  shows "rd8 m' 9 = Some (wire_member m 0 (Value 9 1 0 8))"
  using assms same_rd8 [OF assms(4), of 9] byte_at_less [of m 9] by (simp add: rd8_Some val_at_byte)

lemma atsc_mgt_section_codec_ok:
  "section_table_correct atsc_mgt_section_codec atsc_mgt_section_layout (Value 9 2 0 16) 11 11 atsc_mgt_table_layout
     (field_size 9 2 12 11) atsc_mgt_section_part2_layout"
proof (rule section_tableI [where head = "\<lambda>e m. swapped e 2 m 9" and pre = "\<lambda>e m k. Option.bind (bswap16 e m 9) k"
      and k = 2], rule atsc_mgt_section_codec_def, goal_cases)
  case (5 e m len m' pos idx)
  then show ?case using swapped16_count [of len m 11 e m'] by simp
next
  case (6 e len m pos idx)
  let ?m = "swapped e 2 (swapped e 4 (swapped e 2 (swapped e 2 m pos) (pos + 2)) (pos + 5)) (pos + 9)"
  have d: "decodes e atsc_mgt_table_layout m pos ?m" if "pos + 11 \<le> length m"
    using that by (simp add: decode_simps atsc_mgt_table_layout_def)
  have s: "same pos (pos + 11) m ?m" by (intro same_swapped) simp_all
  show ?case using 6 by (auto simp: safe_simps field_size_def fld_Some intro!: wp_verifyI same_mono [OF s] d [simplified])
next
  case (7 e len m pos)
  then show ?case by (auto simp: safe_simps decode_simps atsc_mgt_section_part2_layout_def intro!: wp_verifyI)
qed (simp_all add: bswap_swapped same_swapped decode_simps atsc_mgt_section_layout_def atsc_mgt_table_layout_def
    atsc_mgt_section_part2_layout_def layout_within_def local_field)

lemma atsc_tvct_section_codec_ok:
  "section_table_correct atsc_tvct_section_codec atsc_tvct_section_layout (Value 9 1 0 8) 10 32 atsc_tvct_channel_layout
     (field_size 30 2 10 32) atsc_tvct_section_part2_layout"
proof (rule section_tableI [where head = "\<lambda>e m. m" and pre = "\<lambda>e m k. k m" and k = 2], rule atsc_tvct_section_codec_def, goal_cases)
  case (5 e m len m' pos idx)
  then show ?case using byte_count [of len m 10 m'] by simp
next
  case (6 e len m pos idx)
  let ?m = "swapped e 2 (swapped e 2 (swapped e 2 (swapped e 2 (swapped e 2 (swapped e 4 (swapped e 4 m (pos + 14)) (18 + pos))
    (22 + pos)) (24 + pos)) (26 + pos)) (28 + pos)) (30 + pos)"
  have d: "decodes e atsc_tvct_channel_layout m pos ?m" if "pos + 32 \<le> length m"
    using that by (simp add: decode_simps atsc_tvct_channel_layout_def)
  have s: "same pos (pos + 32) m ?m" by (intro same_swapped) simp_all
  show ?case using 6 by (auto simp: safe_simps field_size_def fld_Some intro!: wp_verifyI same_mono [OF s] d [simplified])
next
  case (7 e len m pos)
  then show ?case by (auto simp: safe_simps decode_simps atsc_tvct_section_part2_layout_def intro!: wp_verifyI)
qed (simp_all add: decode_simps atsc_tvct_section_layout_def atsc_tvct_channel_layout_def
    atsc_tvct_section_part2_layout_def layout_within_def local_field)

lemma atsc_cvct_section_codec_ok:
  "section_table_correct atsc_cvct_section_codec atsc_cvct_section_layout (Value 9 1 0 8) 10 32 atsc_cvct_channel_layout
     (field_size 30 2 10 32) atsc_cvct_section_part2_layout"
proof (rule section_tableI [where head = "\<lambda>e m. m" and pre = "\<lambda>e m k. k m" and k = 2], rule atsc_cvct_section_codec_def, goal_cases)
  case (5 e m len m' pos idx)
  then show ?case using byte_count [of len m 10 m'] by simp
next
  case (6 e len m pos idx)
  let ?m = "swapped e 2 (swapped e 2 (swapped e 2 (swapped e 2 (swapped e 2 (swapped e 4 (swapped e 4 m (pos + 14)) (18 + pos))
    (22 + pos)) (24 + pos)) (26 + pos)) (28 + pos)) (30 + pos)"
  have d: "decodes e atsc_cvct_channel_layout m pos ?m" if "pos + 32 \<le> length m"
    using that by (simp add: decode_simps atsc_cvct_channel_layout_def)
  have s: "same pos (pos + 32) m ?m" by (intro same_swapped) simp_all
  show ?case using 6 by (auto simp: safe_simps field_size_def fld_Some intro!: wp_verifyI same_mono [OF s] d [simplified])
next
  case (7 e len m pos)
  then show ?case by (auto simp: safe_simps decode_simps atsc_cvct_section_part2_layout_def intro!: wp_verifyI)
qed (simp_all add: decode_simps atsc_cvct_section_layout_def atsc_cvct_channel_layout_def
    atsc_cvct_section_part2_layout_def layout_within_def local_field)

definition event_size :: "byte_order \<Rightarrow> mem \<Rightarrow> nat \<Rightarrow> nat option" where
  "event_size e m p = do { t \<leftarrow> fld e 4 0 8 m (p + 6); l \<leftarrow> fld e 2 0 12 m (p + 10 + t); Some (12 + t + l) }"

lemma local_event: "local_size (event_size e)"
  unfolding local_size_def
proof (intro allI impI)
  fix m m' p k lo hi
  assume a: "event_size e m p = Some k" "p + k \<le> lo" "same lo hi m m'"
  then obtain t l where "fld e 4 0 8 m (p + 6) = Some t" "fld e 2 0 12 m (p + 10 + t) = Some l" "k = 12 + t + l"
    by (auto simp: event_size_def split: Option.bind_splits)
  then show "event_size e m' p = Some k"
    using fld_local [of e 4 0 8 m "p + 6" t lo hi m'] fld_local [of e 2 0 12 m "p + 10 + t" l lo hi m'] a by (simp add: event_size_def)
qed

lemma atsc_eit_section_codec_ok:
  "section_table_correct atsc_eit_section_codec atsc_eit_section_layout (Value 9 1 0 8) 10 10 atsc_eit_event_layout event_size []"
proof (rule section_tableI [where head = "\<lambda>e m. m" and pre = "\<lambda>e m k. k m" and k = 0], rule atsc_eit_section_codec_def, goal_cases)
  case (5 e m len m' pos idx)
  then show ?case using byte_count [of len m 10 m'] by simp
next
  case (6 e len m pos idx)
  let ?m = "swapped e 4 (swapped e 4 (swapped e 2 m pos) (pos + 2)) (pos + 6)"
  let ?t = "val_at e 4 ?m (pos + 6) mod 256"
  let ?m2 = "swapped e 2 ?m (pos + 10 + ?t)"
  have d: "decodes e atsc_eit_event_layout m pos ?m" if "pos + 10 \<le> length m"
    using that by (simp add: decode_simps atsc_eit_event_layout_def)
  have d2: "decodes e atsc_eit_event_layout m pos ?m2" if "pos + 10 \<le> length m"
    by (rule decodes_cong [OF d, where k = 10 and lo = "pos + 10" and hi = "pos + 10 + ?t + 2"]) (use that in \<open>auto simp: layout_within_def atsc_eit_event_layout_def same_swapped\<close>)
  have vo: "val_at e 4 ?m2 (pos + 6) = val_at e 4 ?m (pos + 6)" by (rule val_at_other) simp
  show ?case using 6
    by (auto simp: safe_simps event_size_def fld_Some vo [simplified] intro!: wp_verifyI wp_text_validate d2 [simplified])
next
  case (7 e len m pos)
  then show ?case by (auto simp: safe_simps decode_simps)
qed (simp_all add: decode_simps atsc_eit_section_layout_def atsc_eit_event_layout_def layout_within_def local_event)

section \<open>The iterators\<close>

lemma for_each_idx_tiles:
  assumes "\<And>p i. nxt p i = (if i \<ge> n then Some None else do { k \<leftarrow> f p; Some (Some (p + k)) })"
  shows "tiles f stop p ps \<Longrightarrow> i + length ps = n \<Longrightarrow> for_each_idx nxt (if ps = [] then None else Some p) i = Some ps"
proof (induction ps arbitrary: p i)
  case Nil
  then show ?case by (simp add: for_each_idx.simps)
next
  case (Cons q ps)
  then obtain k where k: "f p = Some k" "q = p" "tiles f stop (p + k) ps" by (auto split: option.splits)
  have "nxt p (i + 1) = Some (if ps = [] then None else Some (p + k))" using assms [of p "i + 1"] k(1) Cons.prems(2) by (cases ps) auto
  then show ?case using Cons.IH [OF k(3), of "i + 1"] Cons.prems(2) k(2) by (subst for_each_idx.simps) simp
qed

lemma for_each_idx_do_tiles:
  assumes "\<And>p i. nxt p i = (if i \<ge> n then Some None else do { k \<leftarrow> f p; Some (Some (p + k)) })"
    and "\<And>p st. body p st = do { k \<leftarrow> f p; Some (st + k) }"
  shows "tiles f stop p ps \<Longrightarrow> i + length ps = n \<Longrightarrow> for_each_idx_do nxt body (if ps = [] then None else Some p) i p = Some stop"
proof (induction ps arbitrary: p i)
  case Nil
  then show ?case by (simp add: for_each_idx_do.simps)
next
  case (Cons q ps)
  then obtain k where k: "f p = Some k" "tiles f stop (p + k) ps" by (auto split: option.splits)
  have "nxt p (i + 1) = Some (if ps = [] then None else Some (p + k))" using assms(1) [of p "i + 1"] k(1) Cons.prems(2) by (cases ps) auto
  then show ?case using Cons.IH [OF k(2), of "i + 1"] Cons.prems(2) k(1) by (subst for_each_idx_do.simps) (simp add: assms(2) [of p p])
qed

text \<open>The iterators of a table count its entries and step over them by their sizes.\<close>

definition section_visits ::
  "(byte_order \<Rightarrow> mem \<Rightarrow> nat \<Rightarrow> nat option option) \<Rightarrow> (byte_order \<Rightarrow> mem \<Rightarrow> nat \<Rightarrow> nat \<Rightarrow> nat \<Rightarrow> nat option option)
   \<Rightarrow> member \<Rightarrow> nat \<Rightarrow> (byte_order \<Rightarrow> mem \<Rightarrow> nat \<Rightarrow> nat option) \<Rightarrow> bool" where
  "section_visits first nxt cnt p0 ext \<longleftrightarrow> (\<forall>e m n. host_member e m 0 cnt = Some n \<longrightarrow>
     first e m 0 = Some (if n = 0 then None else Some p0) \<and>
     (\<forall>p i. nxt e m 0 p i = (if i \<ge> n then Some None else do { k \<leftarrow> ext e m p; Some (Some (p + k)) })))"

lemma section_walk:
  assumes "section_visits first nxt cnt p0 ext" "host_member e m 0 cnt = Some (length ps)" "tiles (ext e m) stop p0 ps"
  shows "iterate_idx first nxt e m 0 = Some ps"
proof -
  have v: "first e m 0 = Some (if ps = [] then None else Some p0)"
    "nxt e m 0 p i = (if i \<ge> length ps then Some None else do { k \<leftarrow> ext e m p; Some (Some (p + k)) })" for p i
    using assms(1,2) by (auto simp: section_visits_def)
  show ?thesis using for_each_idx_tiles [OF v(2) assms(3), of 0] by (simp add: iterate_idx_def v(1))
qed


lemma fld_whole:
  "fld e 2 0 16 m p = Some n \<Longrightarrow> ldn e 2 m p = Some n"
  "fld e 1 0 8 m p = Some n \<Longrightarrow> rd8 m p = Some n"
proof -
  show "fld e 2 0 16 m p = Some n \<Longrightarrow> ldn e 2 m p = Some n"
    using val_at_less [of e 2 m p] by (cases "p + 2 \<le> length m") (auto simp: fld_Some ldn_Some, simp add: fld_def ldn_def rd_bytes_def)
  show "fld e 1 0 8 m p = Some n \<Longrightarrow> rd8 m p = Some n"
    using byte_at_less [of m p] by (cases "p < length m") (auto simp: fld_Some rd8_Some val_at_byte, simp add: fld_def ldn_def rd_bytes_def)
qed

lemma section_tables_visit:
  "section_visits atsc_mgt_section_tables_first atsc_mgt_section_tables_next (Value 9 2 0 16) 11 (field_size 9 2 12 11)"
  "section_visits (\<lambda>e. atsc_tvct_section_channels_first) atsc_tvct_section_channels_next (Value 9 1 0 8) 10 (field_size 30 2 10 32)"
  "section_visits (\<lambda>e. atsc_cvct_section_channels_first) atsc_cvct_section_channels_next (Value 9 1 0 8) 10 (field_size 30 2 10 32)"
  "section_visits (\<lambda>e. atsc_eit_section_events_first) atsc_eit_section_events_next (Value 9 1 0 8) 10 event_size"
  by (auto simp: section_visits_def atsc_mgt_section_tables_first_def atsc_mgt_section_tables_next_def atsc_tvct_section_channels_first_def
    atsc_tvct_section_channels_next_def atsc_cvct_section_channels_first_def atsc_cvct_section_channels_next_def
    atsc_eit_section_events_first_def atsc_eit_section_events_next_def atsc_eit_event_part2_def field_size_def event_size_def ac_simps
    dest!: fld_whole [unfolded One_nat_def])

text \<open>What follows the entries starts where the last of them ends.\<close>

definition rest_follows ::
  "(byte_order \<Rightarrow> mem \<Rightarrow> nat \<Rightarrow> nat option) \<Rightarrow> member \<Rightarrow> nat \<Rightarrow> (byte_order \<Rightarrow> mem \<Rightarrow> nat \<Rightarrow> nat option) \<Rightarrow> bool" where
  "rest_follows part2 cnt p0 ext \<longleftrightarrow> (\<forall>e m ps stop. host_member e m 0 cnt = Some (length ps) \<longrightarrow>
     tiles (ext e m) stop p0 ps \<longrightarrow> part2 e m 0 = Some stop)"

lemma rest_followsI:
  assumes "section_visits first nxt cnt p0 ext"
    and "\<And>e m. part2 e m 0 = do { cur \<leftarrow> first e m 0; pos \<leftarrow> for_each_idx_do (nxt e m 0) (body e m) cur 0 p0; Some pos }"
    and "\<And>e m p st. body e m p st = do { k \<leftarrow> ext e m p; Some (st + k) }"
  shows "rest_follows part2 cnt p0 ext"
  unfolding rest_follows_def
proof (intro allI impI)
  fix e m ps stop
  assume a: "host_member e m 0 cnt = Some (length ps)" "tiles (ext e m) stop p0 ps"
  then have v: "first e m 0 = Some (if ps = [] then None else Some p0)"
    "nxt e m 0 p i = (if i \<ge> length ps then Some None else do { k \<leftarrow> ext e m p; Some (Some (p + k)) })" for p i
    using assms(1) by (auto simp: section_visits_def)
  show "part2 e m 0 = Some stop"
    using for_each_idx_do_tiles [where body = "body e m", OF v(2) assms(3) a(2), of 0] by (simp add: v(1) assms(2))
qed

lemma section_tables_rest:
  "rest_follows atsc_mgt_section_part2 (Value 9 2 0 16) 11 (field_size 9 2 12 11)"
  "rest_follows atsc_tvct_section_part2 (Value 9 1 0 8) 10 (field_size 30 2 10 32)"
  "rest_follows atsc_cvct_section_part2 (Value 9 1 0 8) 10 (field_size 30 2 10 32)"
proof -
  show "rest_follows atsc_mgt_section_part2 (Value 9 2 0 16) 11 (field_size 9 2 12 11)"
    by (rule rest_followsI [OF section_tables_visit(1)])
      (simp only: atsc_mgt_section_part2_def add_0, simp add: field_size_def ac_simps)
  show "rest_follows atsc_tvct_section_part2 (Value 9 1 0 8) 10 (field_size 30 2 10 32)"
    by (rule rest_followsI [OF section_tables_visit(2)])
      (simp only: atsc_tvct_section_part2_def add_0, simp add: field_size_def ac_simps)
  show "rest_follows atsc_cvct_section_part2 (Value 9 1 0 8) 10 (field_size 30 2 10 32)"
    by (rule rest_followsI [OF section_tables_visit(3)])
      (simp only: atsc_cvct_section_part2_def add_0, simp add: field_size_def ac_simps)
qed

section \<open>The sections without a table\<close>

lemma section_length_same: "same lo hi m m' \<Longrightarrow> 3 \<le> lo \<Longrightarrow> section_ext_length e m' = section_ext_length e m"
  by (cases e) (auto simp: section_ext_length_def section_length_field_def rd_def same_def)

lemma section_correctI:
  assumes "\<And>e m len. section_ext_length e m = Some len \<Longrightarrow> len \<le> length m
    \<Longrightarrow> wp (f e m) (\<lambda>(m', ok). same 9 len m m' \<and> (ok \<longrightarrow> decodes e lay m 0 m'))"
  shows "section_correct f lay"
  using assms by (simp add: section_correct_def sec_in_def)

lemma atsc_stt_section_codec_ok: "section_correct atsc_stt_section_codec atsc_stt_section_layout"
  by (rule section_correctI) (auto simp: atsc_stt_section_codec_def atsc_stt_section_layout_def safe_simps decode_simps intro!: wp_verifyI)

lemma atsc_ett_section_codec_ok: "section_correct atsc_ett_section_codec atsc_ett_section_layout"
proof (rule section_correctI)
  fix e m len
  assume a: "section_ext_length e m = Some len" "len \<le> length m"
  have "section_ext_length e (swapped e 4 m 9) = Some len"
    using a section_length_same [OF same_swapped [OF same_refl], of 9 9 4 13] by simp
  then show "wp (atsc_ett_section_codec e m) (\<lambda>(m', ok). same 9 len m m' \<and> (ok \<longrightarrow> decodes e atsc_ett_section_layout m 0 m'))"
    using a by (auto simp: atsc_ett_section_codec_def atsc_ett_section_layout_def safe_simps decode_simps intro!: wp_text_validate)
qed

lemma same_none: "same lo lo m m' \<Longrightarrow> m' = m"
  by (rule nth_equalityI) (auto simp: same_def not_less [symmetric])

text \<open>A codec that only reads.\<close>

lemma wp_read_entries:
  fixes b :: "mem \<times> 'p \<times> nat \<Rightarrow> ((mem \<times> 'p \<times> nat) \<times> bool) option"
  assumes "\<And>pos idx. c (m, pos, idx) = Some (idx < n)"
    and "\<And>pos idx. wp (b (m, pos, idx)) (\<lambda>((m', pos', idx'), ok). m' = m \<and> (ok \<longrightarrow> idx' = Suc idx))"
    and "\<And>pos idx ok. wp (k ((m, pos, idx), ok)) Q"
  shows "wp (Option.bind (while_do c b (m, p0, i0)) k) Q"
proof (rule wp_counted_entries [where lo = 0 and hi = 0 and n = n, OF same_refl])
  fix m' :: mem and pos :: 'p and idx ok
  assume "same 0 0 m m'"
  then have m: "m' = m" by (rule same_none)
  show "c (m', pos, idx) = Some (idx < n)" "wp (k ((m', pos, idx), ok)) Q" using assms m by simp_all
  show "wp (b (m', pos, idx)) (\<lambda>((m', pos', idx'), ok). same 0 0 m m' \<and> (ok \<longrightarrow> idx' = Suc idx))"
    unfolding m using assms(2) by (rule wp_mono) auto
qed

lemma wp_read_byte_entries:
  assumes "q < length m" "\<And>pos idx. wp (b (m, pos, idx)) (\<lambda>((m', pos', idx'), ok). m' = m \<and> (ok \<longrightarrow> idx' = Suc idx))"
    and "\<And>pos idx ok. wp (k ((m, pos, idx), ok)) Q"
  shows "wp (Option.bind (while_do (\<lambda>(m, pos, idx). do { n \<leftarrow> rd8 m q; Some (idx < n) }) b (m, p0, i0)) k) Q"
  by (rule wp_read_entries [where n = "byte_at m q"]) (use assms in \<open>simp_all add: rd8_Some\<close>)

lemma wp_read_field_entries:
  assumes "q + s \<le> length m" "\<And>pos idx. wp (b (m, pos, idx)) (\<lambda>((m', pos', idx'), ok). m' = m \<and> (ok \<longrightarrow> idx' = Suc idx))"
    and "\<And>pos idx ok. wp (k ((m, pos, idx), ok)) Q"
  shows "wp (Option.bind (while_do (\<lambda>(m, pos, idx). do { n \<leftarrow> fld e s l w m q; Some (idx < n) }) b (m, p0, i0)) k) Q"
  by (rule wp_read_entries [where n = "val_at e s m q div 2 ^ l mod 2 ^ w"]) (use assms in \<open>simp_all add: fld_Some\<close>)

lemma wp_verify: "p + n \<le> length m \<Longrightarrow> (\<And>r. wp (k r) Q) \<Longrightarrow> wp (Option.bind (verify_descriptors m p n) k) Q"
  using wp_verifyI [of p n m] by (simp add: wp_bind)

lemma atsc_rrt_section_codec_ok: "section_correct atsc_rrt_section_codec atsc_rrt_section_layout"
proof (rule section_correctI)
  fix e m len
  assume a: "section_ext_length e m = Some len" "len \<le> length m"
  show "wp (atsc_rrt_section_codec e m) (\<lambda>(m', ok). same 9 len m m' \<and> (ok \<longrightarrow> decodes e atsc_rrt_section_layout m 0 m'))"
    unfolding atsc_rrt_section_codec_def a(1) Let_def
    by (rule wp_bind_SomeI wp_ifI wp_prodI wp_same_reads [OF same_refl] wp_text_frame [OF same_refl] wp_read_byte_entries
        wp_read_field_entries wp_verify
      | (use a in \<open>simp add: wp_Some decode_simps atsc_rrt_section_layout_def; fail\<close>))+
qed

text \<open>Entries behind \<open>lo\<close> that are counted by a byte before \<open>lo\<close>.\<close>

lemma wp_byte_entries:
  assumes fr: "same lo0 hi m0 m1" "lo0 \<le> lo" "hi \<le> length m0" and q: "q < lo" "q < hi"
    and b: "\<And>m pos idx. same lo hi m1 m \<Longrightarrow> lo \<le> pos \<Longrightarrow> hi \<le> length m1
      \<Longrightarrow> wp (b (m, pos, idx)) (\<lambda>((m', pos', idx'), ok). same lo hi m1 m' \<and> (ok \<longrightarrow> idx' = Suc idx \<and> lo \<le> pos'))"
    and k: "\<And>m pos idx ok. same lo0 hi m0 m \<Longrightarrow> ok \<longrightarrow> lo \<le> pos \<Longrightarrow> wp (k ((m, pos, idx), ok)) Q"
  shows "wp (Option.bind (while_do (\<lambda>(m, pos, idx). do { n \<leftarrow> rd8 m q; Some (idx < n) }) b (m1, lo, 0)) k) Q"
  unfolding wp_bind
proof (rule wp_while_do [where I = "\<lambda>(m, pos, idx). same lo hi m1 m \<and> lo \<le> pos" and f = "\<lambda>(m, pos, idx). byte_at m1 q - idx"])
  show "case (m1, lo, 0::nat) of (m, pos, idx) \<Rightarrow> same lo hi m1 m \<and> lo \<le> pos" by simp
next
  fix s :: "mem \<times> nat \<times> nat"
  let ?I = "\<lambda>(m, pos, idx). same lo hi m1 m \<and> lo \<le> pos" and ?f = "\<lambda>(m, pos, idx). byte_at m1 q - idx"
  assume "?I s"
  then obtain m pos idx where s: "s = (m, pos, idx)" "same lo hi m1 m" "lo \<le> pos" by (cases s) auto
  have l: "hi \<le> length m1" using fr(3) same_length [OF fr(1)] by simp
  have c: "rd8 m q = Some (byte_at m1 q)" using same_rd8 [OF s(2)] q l by (simp add: rd8_Some)
  have out: "wp (k ((m', p', i'), ok)) Q" if "same lo hi m1 m'" "ok \<longrightarrow> lo \<le> p'" for m' p' i' ok
    by (rule k [OF same_trans [OF fr(1) same_mono [OF that(1) fr(2)]] that(2)]) simp
  have body: "wp (b s) (\<lambda>(s', ok). if ok then ?I s' \<and> ?f s' < ?f s else wp (k (s', False)) Q)" if "idx < byte_at m1 q"
    using b [OF s(2,3) l, of idx] unfolding s(1) by (rule wp_mono) (use that out in auto)
  show "wp (case s of (m, pos, idx) \<Rightarrow> do { n \<leftarrow> rd8 m q; Some (idx < n) })
      (\<lambda>go. if go then wp (b s) (\<lambda>(s', ok). if ok then ?I s' \<and> ?f s' < ?f s else wp (k (s', False)) Q) else wp (k (s, True)) Q)"
    using body out [OF s(2)] s by (simp add: c wp_Some)
qed

lemma wp_verify_frame:
  "same lo hi m0 m \<Longrightarrow> p + n \<le> length m0 \<Longrightarrow> (\<And>r. wp (k r) Q) \<Longrightarrow> wp (Option.bind (verify_descriptors m p n) k) Q"
  by (rule wp_verify) (simp_all add: same_length)

lemma atsc_dcct_section_codec_ok: "section_correct atsc_dcct_section_codec atsc_dcct_section_layout"
proof (rule section_correctI)
  fix e m len
  assume a: "section_ext_length e m = Some len" "len \<le> length m"
  show "wp (atsc_dcct_section_codec e m) (\<lambda>(m', ok). same 9 len m m' \<and> (ok \<longrightarrow> decodes e atsc_dcct_section_layout m 0 m'))"
    unfolding atsc_dcct_section_codec_def a(1) Let_def
    by (rule wp_bind_SomeI, rule wp_ifI, simp add: wp_Some, rule section_headI [OF _ same_refl, where ?p0.0 = 10],
        rule wp_byte_entries [OF same_refl, where ?lo0.0 = 10 and hi = len],
        (rule wp_ifI wp_prodI wp_same_reads wp_same_swaps wp_verify_frame wp_byte_entries
          | assumption | (use a in \<open>simp add: wp_Some; fail\<close>))+)
      (use a in \<open>simp_all add: decode_simps layout_within_def atsc_dcct_section_layout_def\<close>)
qed

section \<open>What the codecs show\<close>

text \<open>A table of counted entries: its codec, header, the member that counts the entries, where they start, the size of the
  fixed part of an entry and its layout, the size of an entry, the iterators, and what follows the entries.\<close>

record section_table =
  s_codec :: "byte_order \<Rightarrow> mem \<Rightarrow> (mem \<times> bool) option"
  s_header :: layout
  s_count :: member
  s_off :: nat
  s_size :: nat
  s_entry :: layout
  s_extent :: "byte_order \<Rightarrow> mem \<Rightarrow> nat \<Rightarrow> nat option"
  s_first :: "byte_order \<Rightarrow> mem \<Rightarrow> nat \<Rightarrow> nat option option"
  s_next :: "byte_order \<Rightarrow> mem \<Rightarrow> nat \<Rightarrow> nat \<Rightarrow> nat \<Rightarrow> nat option option"
  s_part2 :: "((byte_order \<Rightarrow> mem \<Rightarrow> nat \<Rightarrow> nat option) \<times> layout) option"

definition mgt_table :: section_table where
  "mgt_table = \<lparr> s_codec = atsc_mgt_section_codec, s_header = atsc_mgt_section_layout, s_count = Value 9 2 0 16, s_off = 11,
     s_size = 11, s_entry = atsc_mgt_table_layout, s_extent = field_size 9 2 12 11,
     s_first = atsc_mgt_section_tables_first, s_next = atsc_mgt_section_tables_next,
     s_part2 = Some (atsc_mgt_section_part2, atsc_mgt_section_part2_layout) \<rparr>"

definition tvct_table :: section_table where
  "tvct_table = \<lparr> s_codec = atsc_tvct_section_codec, s_header = atsc_tvct_section_layout, s_count = Value 9 1 0 8, s_off = 10,
     s_size = 32, s_entry = atsc_tvct_channel_layout, s_extent = field_size 30 2 10 32,
     s_first = \<lambda>e. atsc_tvct_section_channels_first, s_next = atsc_tvct_section_channels_next,
     s_part2 = Some (atsc_tvct_section_part2, atsc_tvct_section_part2_layout) \<rparr>"

definition cvct_table :: section_table where
  "cvct_table = \<lparr> s_codec = atsc_cvct_section_codec, s_header = atsc_cvct_section_layout, s_count = Value 9 1 0 8, s_off = 10,
     s_size = 32, s_entry = atsc_cvct_channel_layout, s_extent = field_size 30 2 10 32,
     s_first = \<lambda>e. atsc_cvct_section_channels_first, s_next = atsc_cvct_section_channels_next,
     s_part2 = Some (atsc_cvct_section_part2, atsc_cvct_section_part2_layout) \<rparr>"

definition eit_table :: section_table where
  "eit_table = \<lparr> s_codec = atsc_eit_section_codec, s_header = atsc_eit_section_layout, s_count = Value 9 1 0 8, s_off = 10,
     s_size = 10, s_entry = atsc_eit_event_layout, s_extent = event_size,
     s_first = \<lambda>e. atsc_eit_section_events_first, s_next = atsc_eit_section_events_next, s_part2 = None \<rparr>"

definition table_ok :: "section_table \<Rightarrow> bool" where
  "table_ok t \<longleftrightarrow>
     section_table_correct (s_codec t) (s_header t) (s_count t) (s_off t) (s_size t) (s_entry t) (s_extent t)
       (case s_part2 t of None \<Rightarrow> [] | Some (p, l) \<Rightarrow> l) \<and>
     section_visits (s_first t) (s_next t) (s_count t) (s_off t) (s_extent t) \<and>
     (\<exists>s. s_header t = [(s, s_count t)]) \<and>
     (\<forall>p l. s_part2 t = Some (p, l) \<longrightarrow> rest_follows p (s_count t) (s_off t) (s_extent t))"

lemma section_tables_ok: "table_ok mgt_table" "table_ok tvct_table" "table_ok cvct_table" "table_ok eit_table"
  by (simp_all add: table_ok_def mgt_table_def tvct_table_def cvct_table_def eit_table_def
      section_tables_visit [unfolded One_nat_def] section_tables_rest [unfolded One_nat_def] atsc_mgt_section_codec_ok
      atsc_tvct_section_codec_ok [unfolded One_nat_def] atsc_cvct_section_codec_ok [unfolded One_nat_def]
      atsc_eit_section_codec_ok [unfolded One_nat_def])
    (simp_all add: atsc_mgt_section_layout_def atsc_tvct_section_layout_def atsc_cvct_section_layout_def atsc_eit_section_layout_def)

lemma table_okD:
  assumes "table_ok t" "sec_in e m len"
  obtains m' ok where "s_codec t e m = Some (m', ok)" "same 9 len m m'"
    "ok \<Longrightarrow> \<exists>ps stop. iterate_idx (s_first t) (s_next t) e m' 0 = Some ps \<and> length ps = wire_member m 0 (s_count t) \<and> stop \<le> len
       \<and> tiles (s_extent t e m') stop (s_off t) ps \<and> (\<forall>p \<in> set ps. p + s_size t \<le> stop \<and> decodes e (s_entry t) m p m')
       \<and> (\<forall>part2 l. s_part2 t = Some (part2, l) \<longrightarrow> part2 e m' 0 = Some stop \<and> decodes e l m stop m')"
proof -
  let ?tl = "case s_part2 t of None \<Rightarrow> [] | Some (p, l) \<Rightarrow> l"
  let ?R = "\<lambda>m'. \<exists>ps stop. stop \<le> len \<and> length ps = wire_member m 0 (s_count t)
      \<and> var_table e (s_entry t) (s_size t) (s_extent t e) m m' (s_off t) stop ps \<and> decodes e ?tl m stop m'"
  have "wp (s_codec t e m) (\<lambda>(m', ok). same 9 len m m' \<and> (ok \<longrightarrow> decodes e (s_header t) m 0 m' \<and> ?R m'))"
    using assms unfolding table_ok_def section_table_correct_def by blast
  then obtain m' ok where r: "s_codec t e m = Some (m', ok)" "same 9 len m m'" and d: "ok \<longrightarrow> decodes e (s_header t) m 0 m' \<and> ?R m'"
    by (cases "s_codec t e m") (simp_all only: wp_def option.case, auto)
  show thesis
  proof (rule that [OF r])
    assume ok
    with d obtain ps stop where p: "stop \<le> len" "length ps = wire_member m 0 (s_count t)"
      "var_table e (s_entry t) (s_size t) (s_extent t e) m m' (s_off t) stop ps" "decodes e ?tl m stop m'" by blast
    have c: "host_member e m' 0 (s_count t) = Some (length ps)" using d \<open>ok\<close> assms(1) p(2) by (auto simp: table_ok_def decodes_def)
    have t: "tiles (s_extent t e m') stop (s_off t) ps" using p(3) by (simp add: var_table_def)
    have "iterate_idx (s_first t) (s_next t) e m' 0 = Some ps"
      by (rule section_walk [where ext = "s_extent t", OF _ c t]) (use assms(1) in \<open>simp add: table_ok_def\<close>)
    moreover have "part2 e m' 0 = Some stop \<and> decodes e l m stop m'" if "s_part2 t = Some (part2, l)" for part2 l
      using assms(1) that c t p(4) by (auto simp: table_ok_def rest_follows_def)
    ultimately show "\<exists>ps stop. iterate_idx (s_first t) (s_next t) e m' 0 = Some ps \<and> length ps = wire_member m 0 (s_count t) \<and> stop \<le> len
       \<and> tiles (s_extent t e m') stop (s_off t) ps \<and> (\<forall>p \<in> set ps. p + s_size t \<le> stop \<and> decodes e (s_entry t) m p m')
       \<and> (\<forall>part2 l. s_part2 t = Some (part2, l) \<longrightarrow> part2 e m' 0 = Some stop \<and> decodes e l m stop m')"
      using p t unfolding var_table_def by blast
  qed
qed

definition atsc_tables :: "section_table list" where
  "atsc_tables = [mgt_table, tvct_table, cvct_table, eit_table]"

text \<open>C15: The codecs of the master guide, virtual channel and event information tables return for every section, change only the
  bytes between the section's header and its CRC, and where they accept, the iterator visits as many entries as the section
  announces, one behind the other inside the section, each reads on either host as it was transmitted, and so does the
  part that follows the entries, which its accessor finds.\<close>

theorem atsc_tables_decoded:
  assumes "t \<in> set atsc_tables" "sec_in e m len"
  shows "\<exists>m' ok. s_codec t e m = Some (m', ok) \<and> same 9 len m m' \<and>
    (ok \<longrightarrow> (\<exists>ps stop. iterate_idx (s_first t) (s_next t) e m' 0 = Some ps \<and> length ps = wire_member m 0 (s_count t) \<and> stop \<le> len
       \<and> tiles (s_extent t e m') stop (s_off t) ps \<and> (\<forall>p \<in> set ps. p + s_size t \<le> stop \<and> decodes e (s_entry t) m p m')
       \<and> (\<forall>part2 l. s_part2 t = Some (part2, l) \<longrightarrow> part2 e m' 0 = Some stop \<and> decodes e l m stop m')))"
proof -
  have "table_ok t" using assms(1) section_tables_ok by (auto simp: atsc_tables_def)
  then show ?thesis using assms(2) by (rule table_okD) blast
qed

definition sample_mgt :: mem where
  "sample_mgt = [0xc7, 0x19, 0xf0, 0, 0, 0xc1, 0, 0, 0, 0, 1, 0, 0, 0xff, 0xfb, 0xe1, 0, 0, 0, 28, 0xf0, 0, 0xf0, 0, 0, 0, 0, 0]"

theorem atsc_tables_decoded_witness:
  "\<exists>m' ok. atsc_mgt_section_codec LittleEndian sample_mgt = Some (m', ok) \<and> same 9 24 sample_mgt m' \<and>
    (ok \<longrightarrow> (\<exists>ps stop. iterate_idx atsc_mgt_section_tables_first atsc_mgt_section_tables_next LittleEndian m' 0 = Some ps
       \<and> length ps = wire_member sample_mgt 0 (Value 9 2 0 16) \<and> stop \<le> 24
       \<and> (\<forall>p \<in> set ps. p + 11 \<le> stop \<and> decodes LittleEndian atsc_mgt_table_layout sample_mgt p m')))"
proof -
  have "mgt_table \<in> set atsc_tables" by (simp add: atsc_tables_def)
  moreover have "sec_in LittleEndian sample_mgt 24"
    by (simp add: sec_in_def section_ext_length_def section_length_field_def sample_mgt_def rd_def be16_def)
  ultimately show ?thesis using atsc_tables_decoded [of mgt_table LittleEndian sample_mgt 24] unfolding mgt_table_def section_table.simps by blast
qed

definition atsc_sections :: "((byte_order \<Rightarrow> mem \<Rightarrow> (mem \<times> bool) option) \<times> layout) list" where
  "atsc_sections =
   [(atsc_stt_section_codec, atsc_stt_section_layout),
    (atsc_ett_section_codec, atsc_ett_section_layout),
    (atsc_rrt_section_codec, atsc_rrt_section_layout),
    (atsc_dcct_section_codec, atsc_dcct_section_layout)]"

text \<open>C16: The codecs of the system time, extended text, rating region and directed channel change tables return whatever the
  section holds, read and change only bytes before its CRC, and where they accept, the header reads as it was transmitted.\<close>

theorem atsc_sections_decoded:
  assumes "(f, lay) \<in> set atsc_sections" "sec_in e m len"
  shows "\<exists>m' ok. f e m = Some (m', ok) \<and> same 9 len m m' \<and> (ok \<longrightarrow> decodes e lay m 0 m')"
proof -
  have "section_correct f lay"
    using assms(1) atsc_stt_section_codec_ok atsc_ett_section_codec_ok atsc_rrt_section_codec_ok atsc_dcct_section_codec_ok
    by (auto simp: atsc_sections_def)
  then show ?thesis using assms(2) by (fastforce simp: section_correct_def wp_def)
qed

definition sample_stt :: mem where
  "sample_stt = [0xcd, 0x11, 0xf0, 0, 0, 0xc1, 0, 0, 0, 0x2a, 0x3b, 0x4c, 0x5d, 13, 0x60, 0, 0, 0, 0, 0]"

theorem atsc_sections_decoded_witness:
  "\<exists>m' ok. atsc_stt_section_codec LittleEndian sample_stt = Some (m', ok) \<and> same 9 16 sample_stt m' \<and>
    (ok \<longrightarrow> decodes LittleEndian atsc_stt_section_layout sample_stt 0 m')"
proof -
  have "(atsc_stt_section_codec, atsc_stt_section_layout) \<in> set atsc_sections" by (simp add: atsc_sections_def)
  moreover have "sec_in LittleEndian sample_stt 16"
    by (simp add: sec_in_def section_ext_length_def section_length_field_def sample_stt_def rd_def be16_def)
  ultimately show ?thesis by (rule atsc_sections_decoded)
qed

section \<open>Codecs that misread their section\<close>

lemma atsc_text_validate_empty: "atsc_text_validate m p 0 = Some 0"
  by (simp add: atsc_text_validate_def)


end
