(* ===== verification/Spec2Isabelle.thy ===== *)
theory Spec2Isabelle
  imports Section_Buf Transport_Packet Mpeg_Sections Dvb_Sections Dvb_Types Dvb_Date En50221_Session_Props En50221_Stdcam_Props
    En50221_Mmi_Props En50221_Ca_Pmt En50221_Lowspeed_Props Descriptor_Props Atsc_Section_Props
begin

text \<open>
  A verification library for the DVB applications: the section and descriptor parser \<open>lib/libucsi\<close>, the common
  interface stack \<open>lib/libdvben50221\<close> (EN 50221, conditional access modules) and the functions of \<open>lib/libdvbapi\<close> and
  \<open>lib/libdvbmisc\<close> it calls.

  \<^bold>\<open>How the parts interact.\<close>  Transport packets carry fragments of sections; \<open>section_buf\<close> puts the sections together;
  \<open>section_codec\<close> and \<open>section_ext_decode\<close> check them and bring their header into host order; the codec of the table
  (PAT, PMT, NIT, ...) checks the body and brings it into host order in place; iterators then walk its entries, their
  descriptors and, for ATSC, their texts.  In the common interface stack a module talks through a device to the
  transport layer, which calls the session layer, which calls the resource of the session; the standard CAM creates the
  layers, answers the lookups and polls them.  A PMT that a codec has accepted is rewritten to a CA PMT for the module.

  \<^bold>\<open>The common model.\<close>  A C object is a list of bytes, a pointer into it an offset (theory \<open>Prelude\<close>).  The outermost
  \<open>None\<close> of a run is an access outside the object or a loop that does not end, so a statement that a run is \<open>Some\<close>
  says that the code is memory safe and terminates; \<open>wp f Q\<close> says that \<open>f\<close> returns and its result satisfies \<open>Q\<close>.
  Integers have the width of the code; the byte order of the host is a parameter \<open>e\<close> (theory \<open>Endianops\<close>).  What the
  operating system and the C library answer (allocation, clock, reads, writes, poll) is an arbitrary sequence in the
  record \<open>os\<close> (theory \<open>En50221_Os\<close>); a theorem for every \<open>os\<close> holds for every behaviour of the environment.  No
  definition uses fuel: loops with a bound are \<open>fun\<close> or \<open>primrec\<close>, the others \<open>partial_function (option)\<close>, and that
  they return is proved where a property says so.

  \<^bold>\<open>Theories and sources.\<close>

  \<^item> \<open>Crc32\<close> (\<open>crc32.c\<close>), \<open>Section\<close> (\<open>section.h\<close>), \<open>Section_Buf\<close> (\<open>section_buf.c\<close>), \<open>Transport_Packet\<close>
    (\<open>transport_packet.c\<close>), \<open>Descriptor\<close> (\<open>descriptor.h\<close>): the table-driven CRC is the shift register and detects bursts;
    sections survive encoding and decoding; whatever the fragments, the buffer delivers the sections that were sent and
    implements an abstract accumulator; packets are read only inside their 188 bytes; loops of descriptors are accepted
    exactly when they are concatenations of descriptors, and walked in order.
  \<^item> \<open>Entry_Table\<close> holds the loop that the table codecs share and the locale \<open>entry_table\<close> with the laws of its
    parameters; \<open>Mpeg_Sections\<close> and \<open>Dvb_Sections\<close> interpret it for each table of \<open>mpeg/*_section.[ch]\<close> and
    \<open>dvb/*_section.[ch]\<close>: which byte strings a codec accepts and what the iterators read back.
  \<^item> \<open>Dvb_Types\<close>, \<open>Dvb_Date\<close> (\<open>dvb/types.c\<close>): BCD, durations, character sets, the calendar formulas.
  \<^item> \<open>Atsc_Huffman\<close>, \<open>Atsc_Text\<close>, \<open>Atsc_Text_Props\<close> (\<open>atsc/atsc_text.c\<close>, \<open>atsc/types.[ch]\<close>): the decoder of compressed
    texts inverts every compression over the trees, and every text has one; validation accepts exactly texts.
  \<^item> \<open>Structs\<close> (packed structures and their bit fields, the loops of the codecs), \<open>Mpeg_Descriptors\<close>, \<open>Dvb_Descriptors\<close>,
    \<open>Dvb_Descriptors_2\<close>, \<open>Atsc_Descriptors\<close> (\<open>mpeg/*_descriptor.h\<close>, \<open>dvb/*_descriptor.h\<close>, \<open>atsc/*_descriptor.h\<close>): the layout of
    every structure and every inline function of the headers.  \<open>Descriptor_Props\<close> lists the codecs by kind and states for
    each kind what is accepted, that nothing outside the descriptor is touched, and that the fields and table entries
    then read as transmitted; five codecs are shown to leave their descriptor.
  \<^item> \<open>Atsc_Sections\<close> (\<open>atsc/*_section.[ch]\<close>): the structures, codecs, accessors and iterators of the ATSC tables.
    \<open>Atsc_Section_Props\<close>: the codecs keep to the body of their section; the entries of an accepted table lie one behind the other
    and are visited by the iterators with the fields that were transmitted; two codecs are shown to misread a section.
  \<^item> \<open>Asn1\<close> (\<open>asn_1.c\<close>), with the locale \<open>length_codec\<close>; \<open>En50221_Transport\<close>, \<open>_Inv\<close>, \<open>_Props\<close> (\<open>en50221_transport.c\<close>),
    \<open>En50221_Session\<close>, \<open>_Inv\<close>, \<open>_Props\<close> (\<open>en50221_session.c\<close>): state records, every operation and handler, the invariants
    of both layers.  The locales \<open>tl_client\<close> and \<open>sl_client\<close> state what a layer asks of the callback above it; the
    session layer is a \<open>sublocale\<close> of the former, the standard CAM (locale \<open>llci_apps\<close>) of the latter.
  \<^item> \<open>En50221_App\<close>, \<open>En50221_App_Props\<close> (resource manager, application information, conditional access, date and time),
    \<open>En50221_Services\<close> (authentication, host control, EPG, smart card, teletext), \<open>En50221_Mmi\<close>, \<open>En50221_Mmi_Props\<close>
    (man-machine interface), \<open>En50221_Lowspeed\<close>, \<open>En50221_Lowspeed_Props\<close> (low speed communications, telephone
    descriptor): one definition per request, parser and message function; messages in any byte string do not lead out
    of the message, and well-formed ones reach the callbacks with their contents.  \<open>En50221_Block\<close> holds the chains of
    fragments and the locale \<open>reassembly\<close>, interpreted for the MMI and for low speed communications.
  \<^item> \<open>En50221_Ca_Pmt\<close> (\<open>en50221_ca_format_pmt\<close>): the CA PMT of every accepted PMT.
  \<^item> \<open>En50221_Stdcam\<close>, \<open>En50221_Stdcam_Props\<close> (\<open>en50221_stdcam_llci.c\<close>): the composition of all layers runs without a
    memory fault whatever the module sends.

  \<^bold>\<open>Choices.\<close>  Mutexes are left out where they only guard a copy, so an operation is one step; in the MMI and in low
  speed communications they are flags of the state, because some paths keep them.  Callbacks are arguments.  Freed
  memory is a value of its own where the code can use it again (\<open>cptr\<close>); destructors that only free are left out.
  The floating point of the calendar formulas is computed exactly on rationals.  \<open>mktime\<close> is a parameter.

  \<^bold>\<open>Not modelled.\<close>  \<open>lib/libdvbapi\<close> besides the link functions of \<open>dvbca.c\<close>: wrappers around single ioctls.  \<open>en50221_stdcam_hlci.c\<close>: ioctl
  calls around the same callbacks.  \<open>lib/libdvbsec\<close>, \<open>lib/libdvbcfg\<close> and \<open>lib/libesg\<close>.  The tag
  tables \<open>descriptor.h\<close> of \<open>lib/libucsi\<close>.  The programs under \<open>util\<close> and \<open>test\<close>: they open devices, call
  the libraries and print; the teletext viewer \<open>alevt\<close> is an X11 program.
\<close>

end
